(* ===== verification/Prelude.thy ===== *)
theory Prelude
  imports Complex_Main "HOL-Library.AList" "HOL-Library.Multiset" "HOL-Library.List_Lexorder"
    "HOL-Library.Char_ord" "HOL-Library.Option_ord" "HOL-Library.Product_Lexorder"
begin

text \<open>
  Shared ground of the development: the type names of the program's scalars, hash maps as
  association lists with the laws the components use, string trimming as the program does it,
  saturating counters, and the two interfaces several components share (a keyed map, and a
  machine whose steps keep an invariant).
\<close>

section \<open>Names of the program's scalar types\<close>

type_synonym uuid = nat
type_synonym pane_id = nat
type_synonym f64 = real

definition u32_max :: nat where
  "u32_max = 4294967295"

definition u64_max :: nat where
  "u64_max = 18446744073709551615"

definition sat_add_u32 :: "nat \<Rightarrow> nat \<Rightarrow> nat" where
  "sat_add_u32 a b = min (a + b) u32_max"

definition sat_add_u64 :: "nat \<Rightarrow> nat \<Rightarrow> nat" where
  "sat_add_u64 a b = min (a + b) u64_max"

lemma sat_add_u32_exact: "a + b \<le> u32_max \<Longrightarrow> sat_add_u32 a b = a + b"
  by (simp add: sat_add_u32_def)

lemma sat_add_u64_exact: "a + b \<le> u64_max \<Longrightarrow> sat_add_u64 a b = a + b"
  by (simp add: sat_add_u64_def)

lemma sat_add_u64_le: "sat_add_u64 a b \<le> u64_max"
  by (simp add: sat_add_u64_def)

section \<open>Lemma collections\<close>

named_theorems opdefs "the operations of a component, unfolded together"
named_theorems inv_intro "introduction rules for component invariants"

section \<open>Hash maps\<close>

text \<open>
  A \<open>HashMap\<close> is an association list read through \<open>map_of\<close>; the order of the list stands for
  the map's arbitrary iteration order. \<open>hitems\<close> gives every entry once, so the laws below hold
  of every list.
\<close>

type_synonym ('k, 'v) hmap = "('k \<times> 'v) list"

definition hget :: "('k, 'v) hmap \<Rightarrow> 'k \<Rightarrow> 'v option" where
  "hget m k = map_of m k"

definition hput :: "'k \<Rightarrow> 'v \<Rightarrow> ('k, 'v) hmap \<Rightarrow> ('k, 'v) hmap" where
  "hput k v m = AList.update k v m"

definition hdel :: "'k \<Rightarrow> ('k, 'v) hmap \<Rightarrow> ('k, 'v) hmap" where
  "hdel k m = AList.delete k m"

definition hkeys :: "('k, 'v) hmap \<Rightarrow> 'k list" where
  "hkeys m = remdups (map fst m)"

definition hitems :: "('k, 'v) hmap \<Rightarrow> ('k \<times> 'v) list" where
  "hitems m = map (\<lambda>k. (k, the (hget m k))) (hkeys m)"

definition hvals :: "('k, 'v) hmap \<Rightarrow> 'v list" where
  "hvals m = map snd (hitems m)"

definition hretain :: "('k \<Rightarrow> 'v \<Rightarrow> bool) \<Rightarrow> ('k, 'v) hmap \<Rightarrow> ('k, 'v) hmap" where
  "hretain P m = filter (\<lambda>(k, v). P k v) (hitems m)"

definition hhas :: "('k, 'v) hmap \<Rightarrow> 'k \<Rightarrow> bool" where
  "hhas m k = (hget m k \<noteq> None)"

definition hmapvals :: "('v \<Rightarrow> 'w) \<Rightarrow> ('k, 'v) hmap \<Rightarrow> ('k, 'w) hmap" where
  "hmapvals f m = map (\<lambda>(k, v). (k, f v)) m"

definition hmapkv :: "('k \<Rightarrow> 'v \<Rightarrow> 'w) \<Rightarrow> ('k, 'v) hmap \<Rightarrow> ('k, 'w) hmap" where
  "hmapkv f m = map (\<lambda>(k, v). (k, f k v)) m"

definition hmodify :: "'k \<Rightarrow> ('v \<Rightarrow> 'v) \<Rightarrow> ('k, 'v) hmap \<Rightarrow> ('k, 'v) hmap" where
  "hmodify k f m = (case hget m k of Some v \<Rightarrow> hput k (f v) m | None \<Rightarrow> m)"

abbreviation hdom :: "('k, 'v) hmap \<Rightarrow> 'k set" where
  "hdom m \<equiv> {k. hget m k \<noteq> None}"

lemma hget_Nil [simp]: "hget [] k = None"
  by (simp add: hget_def)

lemma hget_Cons: "hget ((a, v) # m) k = (if a = k then Some v else hget m k)"
  by (auto simp: hget_def)

lemma hget_hput: "hget (hput k v m) j = (if k = j then Some v else hget m j)"
  by (simp add: hget_def hput_def update_conv')

lemma hget_hput_same [simp]: "hget (hput k v m) k = Some v"
  by (simp add: hget_hput)

lemma hget_hput_other [simp]: "j \<noteq> k \<Longrightarrow> hget (hput k v m) j = hget m j"
  by (simp add: hget_hput)

lemma hget_hdel: "hget (hdel k m) j = (if k = j then None else hget m j)"
  by (simp add: hget_def hdel_def delete_conv')

lemma hget_hdel_same [simp]: "hget (hdel k m) k = None"
  by (simp add: hget_hdel)

lemma hget_hdel_other [simp]: "j \<noteq> k \<Longrightarrow> hget (hdel k m) j = hget m j"
  by (simp add: hget_hdel)

lemma hget_hmapvals [simp]: "hget (hmapvals f m) k = map_option f (hget m k)"
  by (induction m) (auto simp: hmapvals_def hget_def)

lemma hget_hmapkv [simp]: "hget (hmapkv f m) k = map_option (f k) (hget m k)"
  by (induction m) (auto simp: hmapkv_def hget_def)

lemma hget_hmodify:
  "hget (hmodify k f m) j = (if j = k then map_option f (hget m j) else hget m j)"
  by (auto simp: hmodify_def hget_hput split: option.splits)

lemma set_hkeys: "set (hkeys m) = hdom m"
  by (simp add: hkeys_def hget_def dom_map_of_conv_image_fst[symmetric] dom_def)

lemma distinct_hkeys [simp]: "distinct (hkeys m)"
  by (simp add: hkeys_def)

lemma finite_hdom [simp]: "finite (hdom m)"
  by (metis List.finite_set set_hkeys)

lemma in_hkeys [simp]: "k \<in> set (hkeys m) \<longleftrightarrow> hget m k \<noteq> None"
  by (simp add: set_hkeys)

lemma in_hitems [simp]: "(k, v) \<in> set (hitems m) \<longleftrightarrow> hget m k = Some v"
  by (auto simp: hitems_def image_iff)

lemma map_fst_hitems [simp]: "map fst (hitems m) = hkeys m"
  by (simp add: hitems_def comp_def)

lemma distinct_hitems [simp]: "distinct (hitems m)"
  using distinct_map [of fst "hitems m"] by simp

lemma in_hvals: "v \<in> set (hvals m) \<longleftrightarrow> (\<exists>k. hget m k = Some v)"
proof -
  have "set (hvals m) = {v. \<exists>k. (k, v) \<in> set (hitems m)}" by (force simp: hvals_def simp del: in_hitems)
  then show ?thesis by simp
qed

lemma hget_hitems [simp]: "hget (hitems m) k = hget m k"
proof (cases "hget m k")
  case None
  then have "k \<notin> fst ` set (hitems m)" by (metis in_hkeys list.set_map map_fst_hitems)
  then have "map_of (hitems m) k = None" by (simp add: map_of_eq_None_iff)
  then show ?thesis using None by (simp add: hget_def)
next
  case (Some v)
  then have "(k, v) \<in> set (hitems m)" by simp
  then have "map_of (hitems m) k = Some v" by (simp add: map_of_is_SomeI)
  then show ?thesis using Some by (simp add: hget_def)
qed

lemma hitems_all: "list_all (\<lambda>(k, v). P k v) (hitems m) \<longleftrightarrow> (\<forall>k v. hget m k = Some v \<longrightarrow> P k v)"
  unfolding list_all_iff in_hitems [symmetric] by fast

lemma hget_filter_distinct:
  assumes "distinct (map fst xs)"
  shows "hget (filter (\<lambda>(k, v). P k v) xs) j =
    (case hget xs j of Some v \<Rightarrow> if P j v then Some v else None | None \<Rightarrow> None)"
  using assms
proof (induction xs)
  case (Cons x xs)
  obtain k v where x: "x = (k, v)" by (cases x)
  have "k \<notin> fst ` set xs" using Cons.prems x by simp
  then have no: "hget xs k = None" by (simp add: hget_def map_of_eq_None_iff)
  show ?case using Cons no x by (cases "j = k") (auto simp: hget_Cons split: option.splits)
qed simp

lemma hget_hretain:
  "hget (hretain P m) j =
    (case hget m j of Some v \<Rightarrow> if P j v then Some v else None | None \<Rightarrow> None)"
  unfolding hretain_def by (subst hget_filter_distinct) simp_all

lemma hget_hretain_Some [simp]: "hget (hretain P m) j = Some v \<longleftrightarrow> hget m j = Some v \<and> P j v"
  by (auto simp: hget_hretain split: option.splits)

lemma hget_hretain_None [simp]:
  "hget (hretain P m) j = None \<longleftrightarrow> (\<forall>v. hget m j = Some v \<longrightarrow> \<not> P j v)"
  by (auto simp: hget_hretain split: option.splits)

lemma hhas_iff [simp]: "hhas m k \<longleftrightarrow> (\<exists>v. hget m k = Some v)"
  by (auto simp: hhas_def)

lemma hdom_hput [simp]: "hdom (hput k v m) = insert k (hdom m)"
  by (auto simp: hget_hput)

lemma hdom_hdel [simp]: "hdom (hdel k m) = hdom m - {k}"
  by (auto simp: hget_hdel)

lemma hdom_hmapvals [simp]: "hdom (hmapvals f m) = hdom m"
  by auto

lemma hdom_hmapkv [simp]: "hdom (hmapkv f m) = hdom m"
  by auto

lemma hdom_hmodify [simp]: "hdom (hmodify k f m) = hdom m"
  by (auto simp: hget_hmodify)

section \<open>Ordered sets\<close>

text \<open>A \<open>BTreeSet\<close> is a finite set; it is walked in ascending order.\<close>

definition first_of :: "pane_id set \<Rightarrow> pane_id option" where
  "first_of A = (if A = {} then None else Some (Min A))"

lemma first_of_in: "finite A \<Longrightarrow> first_of A = Some a \<Longrightarrow> a \<in> A"
  using Min_in [of A] by (cases "A = {}") (simp_all add: first_of_def)

lemma first_of_None [simp]: "first_of A = None \<longleftrightarrow> A = {}"
  by (simp add: first_of_def)

section \<open>Strings\<close>

text \<open>
  Strings are lists of characters. \<open>str::trim\<close> strips white space; of Unicode's white space the
  model has the ASCII part.
\<close>

definition is_space :: "char \<Rightarrow> bool" where
  "is_space c = (c \<in> set [CHR '' '', CHR 0x09, CHR 0x0A, CHR 0x0B, CHR 0x0C, CHR 0x0D])"

definition trim_start :: "string \<Rightarrow> string" where
  "trim_start s = dropWhile is_space s"

definition trim :: "string \<Rightarrow> string" where
  "trim s = rev (dropWhile is_space (rev (dropWhile is_space s)))"

definition some_trimmed :: "string option \<Rightarrow> string option" where
  "some_trimmed n = (case n of None \<Rightarrow> None | Some s \<Rightarrow> (let t = trim s in if t = [] then None else Some t))"

lemma dropWhile_idem: "dropWhile P (dropWhile P xs) = dropWhile P xs"
  by (induction xs) auto

lemma dropWhile_no_prefix: "xs \<noteq> [] \<Longrightarrow> \<not> P (hd xs) \<Longrightarrow> dropWhile P xs = xs"
  by (cases xs) auto

lemma trim_split:
  obtains p where "dropWhile is_space s = trim s @ p"
proof -
  let ?u = "dropWhile is_space s"
  have "?u = rev (dropWhile is_space (rev ?u)) @ rev (takeWhile is_space (rev ?u))"
    by (metis rev_append rev_rev_ident takeWhile_dropWhile_id)
  then show thesis using that by (metis trim_def)
qed

lemma trim_ends:
  assumes "trim s \<noteq> []"
  shows "\<not> is_space (hd (trim s))" "\<not> is_space (last (trim s))"
proof -
  have w: "dropWhile is_space (rev (dropWhile is_space s)) \<noteq> []"
    using assms unfolding trim_def rev_is_Nil_conv .
  show "\<not> is_space (last (trim s))"
    using hd_dropWhile [OF w] w unfolding trim_def by (metis last_rev)
  obtain p where p: "dropWhile is_space s = trim s @ p" by (rule trim_split)
  then have u: "dropWhile is_space s \<noteq> []" "hd (dropWhile is_space s) = hd (trim s)"
    using assms by simp_all
  show "\<not> is_space (hd (trim s))" using hd_dropWhile [OF u(1)] unfolding u(2) .
qed

lemma trim_trim [simp]: "trim (trim s) = trim s"
proof (cases "trim s = []")
  case True
  show ?thesis unfolding True by (simp add: trim_def)
next
  case False
  have 1: "dropWhile is_space (trim s) = trim s"
    using False trim_ends(1) [OF False] by (rule dropWhile_no_prefix)
  have "rev (trim s) \<noteq> []" "\<not> is_space (hd (rev (trim s)))"
    using False trim_ends(2) [OF False] by (simp_all add: hd_rev)
  then have 2: "dropWhile is_space (rev (trim s)) = rev (trim s)"
    by (rule dropWhile_no_prefix)
  show ?thesis unfolding trim_def [of "trim s"] 1 2 by simp
qed

lemma some_trimmed_nonempty: "some_trimmed n = Some t \<Longrightarrow> t \<noteq> [] \<and> trim t = t"
  by (auto simp: some_trimmed_def Let_def split: option.splits if_splits)

lemma some_trimmed_idem [simp]: "some_trimmed (some_trimmed n) = some_trimmed n"
  by (auto simp: some_trimmed_def Let_def split: option.splits)

subsection \<open>Numbers in names\<close>

text \<open>Decimal text of a number, as \<open>format!\<close> prints it, and its reading.\<close>

definition digit_char :: "nat \<Rightarrow> char" where
  "digit_char d = char_of (48 + d)"

definition digit_val :: "char \<Rightarrow> nat option" where
  "digit_val c = (let n = of_char c :: nat in if 48 \<le> n \<and> n \<le> 57 then Some (n - 48) else None)"

fun show_nat :: "nat \<Rightarrow> string" where
  "show_nat n = (if n < 10 then [digit_char n] else show_nat (n div 10) @ [digit_char (n mod 10)])"

declare show_nat.simps [simp del]

fun parse_digits :: "string \<Rightarrow> nat \<Rightarrow> nat option" where
  "parse_digits [] n = Some n"
| "parse_digits (c # cs) n = (case digit_val c of None \<Rightarrow> None | Some d \<Rightarrow> parse_digits cs (10 * n + d))"

lemma digit_val_char [simp]: "d < 10 \<Longrightarrow> digit_val (digit_char d) = Some d"
  by (simp add: digit_val_def digit_char_def)

lemma parse_digits_append:
  "parse_digits (xs @ ys) n = (case parse_digits xs n of None \<Rightarrow> None | Some m \<Rightarrow> parse_digits ys m)"
  by (induction xs arbitrary: n) (auto split: option.splits)

lemma parse_show_nat [simp]: "parse_digits (show_nat n) 0 = Some n"
proof (induction n rule: show_nat.induct)
  case (1 n)
  show ?case
  proof (cases "n < 10")
    case True
    then show ?thesis by (simp add: show_nat.simps)
  next
    case False
    then show ?thesis using 1 by (subst show_nat.simps) (simp add: parse_digits_append)
  qed
qed

lemma show_nat_inject [simp]: "show_nat m = show_nat n \<longleftrightarrow> m = n"
  by (metis option.inject parse_show_nat)

lemma show_nat_nonempty [simp]: "show_nat n \<noteq> []"
  by (subst show_nat.simps) simp

section \<open>Interfaces\<close>

text \<open>
  A keyed map as its clients see it: reads after writes and after deletes. The hash maps above
  provide it; components that keep tables of their own provide it again.
\<close>

locale keyed_map =
  fixes get :: "'m \<Rightarrow> 'k \<Rightarrow> 'v option"
    and put :: "'k \<Rightarrow> 'v \<Rightarrow> 'm \<Rightarrow> 'm"
    and del :: "'k \<Rightarrow> 'm \<Rightarrow> 'm"
  assumes get_put: "get (put k v m) j = (if k = j then Some v else get m j)"
    and get_del: "get (del k m) j = (if k = j then None else get m j)"
begin

lemma put_all_get: "get (fold (\<lambda>k. put k (f k)) ks m) j = (if j \<in> set ks then Some (f j) else get m j)"
  by (induction ks arbitrary: m) (auto simp: get_put)

lemma del_all_get: "get (fold del ks m) j = (if j \<in> set ks then None else get m j)"
  by (induction ks arbitrary: m) (auto simp: get_del)

lemma move_get:
  assumes "get m a = Some v" "a \<noteq> b"
  shows "get (put b v (del a m)) b = Some v" "get (put b v (del a m)) a = None"
    "j \<noteq> a \<Longrightarrow> j \<noteq> b \<Longrightarrow> get (put b v (del a m)) j = get m j"
  using assms by (simp_all add: get_put get_del)

end

interpretation hm: keyed_map hget hput hdel
  by unfold_locales (simp_all add: hget_hput hget_hdel)

text \<open>
  A machine whose commands keep an invariant: what one command keeps, every run keeps.
\<close>

locale invariant_machine =
  fixes step :: "'c \<Rightarrow> 's \<Rightarrow> 's"
    and inv :: "'s \<Rightarrow> bool"
  assumes step_inv: "inv s \<Longrightarrow> inv (step c s)"
begin

lemma run_inv: "inv s \<Longrightarrow> inv (fold step cs s)"
  by (induction cs arbitrary: s) (simp_all add: step_inv)

lemma run_prefix_inv: "inv s \<Longrightarrow> inv (fold step (take n cs) s)"
  by (rule run_inv)

end

end
