(* ===== verification/LayoutTree.thy ===== *)
theory LayoutTree
  imports Prelude
begin

text \<open>
  The split tree of \<open>crates/lmux/src/layout.rs\<close>: leaves are panes, inner nodes are splits. The
  operations edit the tree in place and report success; here each returns the new tree with its
  flag. The abstract view of a tree is the in-order list of its leaves, and every operation is
  shown to act on that list the way the interface promises.
\<close>

section \<open>Data\<close>

datatype dir = Horizontal | Vertical

datatype edge = Top | Right | Bottom | Left

datatype layout = Leaf pane_id | Split dir layout layout f64

section \<open>Choosing the edge of a drop\<close>

text \<open>
  Floating point subtraction is the exact difference rounded; the rounding is a parameter.
\<close>

definition f64_sub :: "(f64 \<Rightarrow> f64) \<Rightarrow> f64 \<Rightarrow> f64 \<Rightarrow> f64" where
  "f64_sub rnd a b = rnd (a - b)"

definition edge_from_xy :: "(f64 \<Rightarrow> f64) \<Rightarrow> f64 \<Rightarrow> f64 \<Rightarrow> f64 \<Rightarrow> f64 \<Rightarrow> edge" where
  "edge_from_xy rnd x y width height =
    (let left = x;
         right = max (f64_sub rnd width x) 0;
         top = y;
         bottom = max (f64_sub rnd height y) 0;
         m = min (min (min left right) top) bottom
     in if m = top then Top else if m = bottom then Bottom else if m = left then Left else Right)"

definition edge_margin :: "(f64 \<Rightarrow> f64) \<Rightarrow> f64 \<Rightarrow> f64 \<Rightarrow> f64 \<Rightarrow> f64 \<Rightarrow> edge \<Rightarrow> f64" where
  "edge_margin rnd x y width height e =
    (case e of Top \<Rightarrow> y | Bottom \<Rightarrow> max (f64_sub rnd height y) 0
     | Left \<Rightarrow> x | Right \<Rightarrow> max (f64_sub rnd width x) 0)"

section \<open>Operations\<close>

fun collect_leaves :: "layout \<Rightarrow> pane_id list \<Rightarrow> pane_id list" where
  "collect_leaves (Leaf i) out = out @ [i]"
| "collect_leaves (Split d a b r) out = collect_leaves b (collect_leaves a out)"

definition leaves :: "layout \<Rightarrow> pane_id list" where
  "leaves l = collect_leaves l []"

text \<open>
  The splice function is a \<open>FnOnce\<close> held in an option that the first hit takes; the option is
  threaded through the walk as the code does.
\<close>

fun replace_leaf_with ::
  "layout \<Rightarrow> pane_id \<Rightarrow> (pane_id \<Rightarrow> layout) option \<Rightarrow> layout \<times> (pane_id \<Rightarrow> layout) option \<times> bool" where
  "replace_leaf_with (Leaf i) t f =
    (if i = t then (case f of None \<Rightarrow> (Leaf i, None, False) | Some g \<Rightarrow> (g t, None, True))
     else (Leaf i, f, False))"
| "replace_leaf_with (Split d a b r) t f =
    (let (a', f', hit) = replace_leaf_with a t f
     in if hit then (Split d a' b r, f', True)
        else let (b', f'', hit') = replace_leaf_with b t f' in (Split d a' b' r, f'', hit'))"

definition replace_leaf :: "layout \<Rightarrow> pane_id \<Rightarrow> (pane_id \<Rightarrow> layout) \<Rightarrow> layout \<times> bool" where
  "replace_leaf l t f = (let (l', _, hit) = replace_leaf_with l t (Some f) in (l', hit))"

fun remove_leaf_in :: "layout \<Rightarrow> pane_id \<Rightarrow> layout \<times> bool" where
  "remove_leaf_in (Leaf i) t = (Leaf i, False)"
| "remove_leaf_in (Split d a b r) t =
    (if a = Leaf t then (b, True)
     else if b = Leaf t then (a, True)
     else let (a', hit) = remove_leaf_in a t
          in if hit then (Split d a' b r, True)
             else let (b', hit') = remove_leaf_in b t in (Split d a' b' r, hit'))"

definition remove_leaf :: "layout \<Rightarrow> pane_id \<Rightarrow> layout \<times> bool" where
  "remove_leaf l t = (if l = Leaf t then (l, False) else remove_leaf_in l t)"

definition drop_split :: "edge \<Rightarrow> pane_id \<Rightarrow> pane_id \<Rightarrow> layout" where
  "drop_split e source target =
    (let (d, a, b) = (case e of
        Top \<Rightarrow> (Horizontal, source, target)
      | Bottom \<Rightarrow> (Horizontal, target, source)
      | Left \<Rightarrow> (Vertical, source, target)
      | Right \<Rightarrow> (Vertical, target, source))
     in Split d (Leaf a) (Leaf b) (1 / 2))"

definition reparent :: "layout \<Rightarrow> pane_id \<Rightarrow> pane_id \<Rightarrow> edge \<Rightarrow> layout \<times> bool" where
  "reparent l source target e =
    (if source = target then (l, False)
     else if source \<notin> set (leaves l) \<or> target \<notin> set (leaves l) then (l, False)
     else let backup = l; (l1, removed) = remove_leaf l source
          in if \<not> removed then (l1, False)
             else let (l2, placed) = replace_leaf l1 target (drop_split e source)
                  in if \<not> placed then (backup, False) else (l2, True))"

section \<open>The abstract view\<close>

text \<open>Splicing in a list: every hit is replaced by a list; on distinct lists, the one hit.\<close>

definition splice_at :: "pane_id \<Rightarrow> pane_id list \<Rightarrow> pane_id list \<Rightarrow> pane_id list" where
  "splice_at t new xs = concat (map (\<lambda>x. if x = t then new else [x]) xs)"

lemma collect_leaves_append: "collect_leaves l out = out @ leaves l"
proof (induction l arbitrary: out)
  case (Split d a b r)
  have "collect_leaves (Split d a b r) out = (out @ leaves a) @ leaves b" for out
    using Split.IH by simp
  then show ?case by (simp add: leaves_def [of "Split d a b r"])
qed (simp add: leaves_def)

lemma leaves_Leaf [simp]: "leaves (Leaf i) = [i]"
  by (simp add: leaves_def)

lemma leaves_Split [simp]: "leaves (Split d a b r) = leaves a @ leaves b"
proof -
  have "leaves (Split d a b r) = collect_leaves b (leaves a)" by (simp add: leaves_def)
  also have "\<dots> = leaves a @ leaves b" by (rule collect_leaves_append)
  finally show ?thesis .
qed

lemma leaves_nonempty [simp]: "leaves l \<noteq> []"
  by (induction l) simp_all

lemma leaves_singleton: "leaves l = [t] \<longleftrightarrow> l = Leaf t"
proof (cases l)
  case (Split d a b r)
  have "0 < length (leaves a)" "0 < length (leaves b)" by simp_all
  then have "length (leaves l) \<noteq> Suc 0" unfolding Split leaves_Split length_append by linarith
  then show ?thesis using Split by (metis layout.distinct(1) length_Cons list.size(3))
qed simp

lemma splice_at_absent: "t \<notin> set xs \<Longrightarrow> splice_at t new xs = xs"
  by (induction xs) (auto simp: splice_at_def)

lemma splice_at_append [simp]: "splice_at t new (xs @ ys) = splice_at t new xs @ splice_at t new ys"
  by (simp add: splice_at_def)

lemma splice_at_Cons [simp]:
  "splice_at t new (x # xs) = (if x = t then new else [x]) @ splice_at t new xs"
  by (simp add: splice_at_def)

lemma splice_at_Nil [simp]: "splice_at t new [] = []"
  by (simp add: splice_at_def)

lemma set_splice_at: "set (splice_at t new xs) = (set xs - {t}) \<union> (if t \<in> set xs then set new else {})"
  by (induction xs) auto

lemma distinct_splice_at:
  assumes "distinct xs" "distinct new" "set new \<inter> (set xs - {t}) = {}"
  shows "distinct (splice_at t new xs)"
  using assms by (induction xs) (auto simp: set_splice_at)

lemma replace_leaf_with_hit:
  "snd (snd (replace_leaf_with l t (Some f))) \<longleftrightarrow> t \<in> set (leaves l)"
  "t \<notin> set (leaves l) \<Longrightarrow> replace_leaf_with l t (Some f) = (l, Some f, False)"
  by (induction l) (auto simp: Let_def split: prod.splits)

lemma replace_leaf_flag: "snd (replace_leaf l t f) \<longleftrightarrow> t \<in> set (leaves l)"
  using replace_leaf_with_hit(1) [of l t f] by (auto simp: replace_leaf_def split: prod.splits)

lemma replace_leaf_miss: "t \<notin> set (leaves l) \<Longrightarrow> replace_leaf l t f = (l, False)"
  by (simp add: replace_leaf_def replace_leaf_with_hit(2))

lemma leaves_replace_leaf_with:
  assumes "distinct (leaves l)"
  shows "leaves (fst (replace_leaf_with l t (Some f))) = splice_at t (leaves (f t)) (leaves l)"
  using assms
proof (induction l)
  case (Split d a b r)
  show ?case
  proof (cases "t \<in> set (leaves a)")
    case True
    then have "t \<notin> set (leaves b)" using Split.prems by auto
    then show ?thesis
      using Split True replace_leaf_with_hit(1) [of a t f] splice_at_absent
      by (auto simp: Let_def split: prod.splits)
  next
    case False
    then show ?thesis
      using Split replace_leaf_with_hit(2) [of t a f] splice_at_absent
      by (auto simp: Let_def split: prod.splits)
  qed
qed auto

lemma leaves_replace_leaf:
  assumes "distinct (leaves l)"
  shows "leaves (fst (replace_leaf l t f)) = splice_at t (leaves (f t)) (leaves l)"
  using leaves_replace_leaf_with [OF assms, of t f] by (auto simp: replace_leaf_def split: prod.splits)

lemma remove_leaf_in_flag: "snd (remove_leaf_in l t) \<longleftrightarrow> t \<in> set (leaves l) \<and> l \<noteq> Leaf t"
  by (induction l) (auto simp: Let_def split: prod.splits)

lemma remove_leaf_in_miss: "t \<notin> set (leaves l) \<Longrightarrow> remove_leaf_in l t = (l, False)"
  by (induction l) (auto simp: Let_def split: prod.splits)

lemma remove_leaf_flag: "snd (remove_leaf l t) \<longleftrightarrow> t \<in> set (leaves l) \<and> l \<noteq> Leaf t"
  by (simp add: remove_leaf_def remove_leaf_in_flag)

lemma remove_leaf_miss: "t \<notin> set (leaves l) \<Longrightarrow> remove_leaf l t = (l, False)"
  by (auto simp: remove_leaf_def remove_leaf_in_miss)

lemma leaves_remove_leaf_in:
  assumes "distinct (leaves l)" "l \<noteq> Leaf t"
  shows "leaves (fst (remove_leaf_in l t)) = filter (\<lambda>x. x \<noteq> t) (leaves l)"
  using assms
proof (induction l)
  case (Split d a b r)
  have keep: "t \<notin> set xs \<Longrightarrow> filter (\<lambda>x. x \<noteq> t) xs = xs" for xs :: "pane_id list"
    by (induction xs) auto
  have da: "distinct (leaves a)" and db: "distinct (leaves b)" using Split.prems by auto
  show ?case
  proof (cases "t \<in> set (leaves a)")
    case True
    then have nb: "t \<notin> set (leaves b)" using Split.prems by auto
    then have bt: "b \<noteq> Leaf t" by auto
    show ?thesis
    proof (cases "a = Leaf t")
      case False
      obtain a' where "remove_leaf_in a t = (a', True)"
        using remove_leaf_in_flag [of a t] True False by (cases "remove_leaf_in a t") simp
      then show ?thesis using False bt keep [OF nb] Split.IH(1) [OF da] by simp
    qed (simp add: keep [OF nb])
  next
    case False
    then have na: "a \<noteq> Leaf t" by auto
    show ?thesis
      using na keep [OF False] Split.IH(2) [OF db] remove_leaf_in_miss [OF False]
      by (cases "b = Leaf t"; cases "remove_leaf_in b t") simp_all
  qed
qed auto

lemma leaves_remove_leaf:
  assumes "distinct (leaves l)" "l \<noteq> Leaf t"
  shows "leaves (fst (remove_leaf l t)) = filter (\<lambda>x. x \<noteq> t) (leaves l)"
  using assms by (simp add: remove_leaf_def leaves_remove_leaf_in)

lemma leaves_drop_split:
  "leaves (drop_split e s t) = (if e = Top \<or> e = Left then [s, t] else [t, s])"
  by (cases e) (simp_all add: drop_split_def)

lemma distinct_two_not_leaf:
  "source \<noteq> target \<Longrightarrow> source \<in> set (leaves l) \<Longrightarrow> target \<in> set (leaves l) \<Longrightarrow> l \<noteq> Leaf source"
  by auto

lemma reparent_result:
  assumes "distinct (leaves l)" "source \<noteq> target" "source \<in> set (leaves l)" "target \<in> set (leaves l)"
  shows "snd (reparent l source target e)"
    and "leaves (fst (reparent l source target e)) =
      splice_at target (leaves (drop_split e source target)) (filter (\<lambda>x. x \<noteq> source) (leaves l))"
proof -
  obtain l1 r1 where 1: "remove_leaf l source = (l1, r1)" by (cases "remove_leaf l source")
  have nl: "l \<noteq> Leaf source" using assms distinct_two_not_leaf by blast
  have r1: "r1" using remove_leaf_flag [of l source] 1 nl assms by simp
  have l1: "leaves l1 = filter (\<lambda>x. x \<noteq> source) (leaves l)"
    using leaves_remove_leaf [OF assms(1) nl] 1 by simp
  have d1: "distinct (leaves l1)" using l1 assms(1) by simp
  have t1: "target \<in> set (leaves l1)" using l1 assms by simp
  obtain l2 r2 where 2: "replace_leaf l1 target (drop_split e source) = (l2, r2)"
    by (cases "replace_leaf l1 target (drop_split e source)")
  have r2: "r2" using replace_leaf_flag [of l1 target "drop_split e source"] 2 t1 by simp
  have l2: "leaves l2 = splice_at target (leaves (drop_split e source target)) (leaves l1)"
    using leaves_replace_leaf [OF d1, of target "drop_split e source"] 2 by simp
  have res: "reparent l source target e = (l2, True)"
    using assms 1 2 r1 r2 by (simp add: reparent_def)
  show "snd (reparent l source target e)" using res by simp
  show "leaves (fst (reparent l source target e)) =
      splice_at target (leaves (drop_split e source target)) (filter (\<lambda>x. x \<noteq> source) (leaves l))"
    using res l1 l2 by simp
qed

lemma reparent_refused:
  "\<not> (source \<noteq> target \<and> source \<in> set (leaves l) \<and> target \<in> set (leaves l)) \<Longrightarrow>
    reparent l source target e = (l, False)"
  by (auto simp: reparent_def)

lemma set_leaves_reparent:
  assumes "distinct (leaves l)"
  shows "set (leaves (fst (reparent l source target e))) = set (leaves l)"
    and "distinct (leaves (fst (reparent l source target e)))"
proof -
  have "set (leaves (fst (reparent l source target e))) = set (leaves l) \<and>
    distinct (leaves (fst (reparent l source target e)))"
  proof (cases "source \<noteq> target \<and> source \<in> set (leaves l) \<and> target \<in> set (leaves l)")
    case True
    then show ?thesis
      using assms by (auto simp: reparent_result set_splice_at leaves_drop_split
        intro!: distinct_splice_at)
  next
    case False
    then show ?thesis using assms reparent_refused by simp
  qed
  then show "set (leaves (fst (reparent l source target e))) = set (leaves l)"
    and "distinct (leaves (fst (reparent l source target e)))" by simp_all
qed

section \<open>Properties\<close>

text \<open>A drop picks an edge whose distance to the pointer no other edge's distance is below, and
  of edges at the same distance the first of top, bottom, left, right.\<close>

theorem drop_edge_is_nearest:
  "edge_margin rnd x y w h (edge_from_xy rnd x y w h) = Min (edge_margin rnd x y w h ` {Top, Bottom, Left, Right}) \<and>
   Some (edge_from_xy rnd x y w h) =
     find (\<lambda>e. \<not> (\<exists>e' \<in> {Top, Bottom, Left, Right}. edge_margin rnd x y w h e' < edge_margin rnd x y w h e))
       [Top, Bottom, Left, Right]"
proof -
  let ?f = "edge_margin rnd x y w h"
  let ?E = "{Top, Bottom, Left, Right}"
  define r where "r = max (f64_sub rnd w x) 0"
  define b where "b = max (f64_sub rnd h y) 0"
  have f: "?f Top = y" "?f Bottom = b" "?f Left = x" "?f Right = r"
    by (simp_all add: edge_margin_def r_def b_def)
  have "Min (?f ` ?E) = min (min (min x r) y) b"
    by (simp add: f min.commute min.left_commute)
  then have m: "edge_from_xy rnd x y w h =
      (if Min (?f ` ?E) = ?f Top then Top else if Min (?f ` ?E) = ?f Bottom then Bottom
       else if Min (?f ` ?E) = ?f Left then Left else Right)"
    by (simp add: edge_from_xy_def Let_def f r_def [symmetric] b_def [symmetric])
  have best: "(\<exists>e' \<in> ?E. ?f e' < ?f e) \<longleftrightarrow> Min (?f ` ?E) \<noteq> ?f e" if "e \<in> ?E" for e
    using that Min_le [of "?f ` ?E" "?f e"] Min_less_iff [of "?f ` ?E" "?f e"] by force
  have some: "Min (?f ` ?E) \<in> ?f ` ?E" by (rule Min_in) simp_all
  then consider "Min (?f ` ?E) = ?f Top" | "Min (?f ` ?E) = ?f Bottom" "Min (?f ` ?E) \<noteq> ?f Top"
    | "Min (?f ` ?E) = ?f Left" "Min (?f ` ?E) \<noteq> ?f Top" "Min (?f ` ?E) \<noteq> ?f Bottom"
    | "Min (?f ` ?E) = ?f Right" "Min (?f ` ?E) \<noteq> ?f Top" "Min (?f ` ?E) \<noteq> ?f Bottom"
      "Min (?f ` ?E) \<noteq> ?f Left"
    by fast
  then show ?thesis by cases (simp_all only: m best find.simps insertI1 insertI2 if_True if_False simp_thms)
qed



text \<open>On a tree whose leaves are distinct, removing a leaf reports success exactly when the pane
  is a leaf and not the only one; the leaves left are the others in their order, and a refusal
  changes nothing.\<close>

theorem remove_leaf_keeps_others:
  assumes "distinct (leaves l)"
  shows "snd (remove_leaf l t) = (t \<in> set (leaves l) \<and> leaves l \<noteq> [t]) \<and>
    (if snd (remove_leaf l t) then leaves (fst (remove_leaf l t)) = filter (\<lambda>x. x \<noteq> t) (leaves l)
     else fst (remove_leaf l t) = l)"
proof (cases "t \<in> set (leaves l) \<and> l \<noteq> Leaf t")
  case True
  then show ?thesis using assms by (simp add: remove_leaf_flag leaves_remove_leaf leaves_singleton)
next
  case False
  then consider "l = Leaf t" | "l \<noteq> Leaf t" "t \<notin> set (leaves l)" by blast
  then show ?thesis by cases (simp add: remove_leaf_def, simp add: remove_leaf_miss)
qed

theorem remove_leaf_keeps_others_witness:
  "leaves (fst (remove_leaf (Split Vertical (Leaf 1) (Split Horizontal (Leaf 2) (Leaf 3) (1 / 2)) (1 / 2)) 2)) = [1, 3]"
proof -
  let ?l = "Split Vertical (Leaf 1) (Split Horizontal (Leaf 2) (Leaf 3) (1 / 2)) (1 / 2)"
  have d: "distinct (leaves ?l)" by simp
  show ?thesis using remove_leaf_keeps_others [OF d, of 2] by (simp split: if_splits)
qed

end
