(* ===== verification/Anchors.thy ===== *)
theory Anchors
  imports Prelude
begin

text \<open>
  Anchors and their registry: \<open>crates/lmux-anchor/src/lib.rs\<close> and \<open>registry.rs\<close>. The registry is a
  hash map from anchor id to anchor; every operation returns the registry and a result, and an
  error leaves the registry as it was. The lifecycle is a step relation on anchor states that the
  operations are shown to follow.
\<close>

section \<open>Data\<close>

datatype anchor_state = Live | Paused | Hidden | Dead

record anchor =
  a_id :: uuid
  a_pane :: "uuid option"
  a_argv :: "string list"
  a_cwd :: string
  a_state :: anchor_state
  a_hide_on_session_close :: bool
  a_rule :: "string option"
  a_name :: "string option"
  a_group :: "string option"
  a_sort_key :: "int option"

type_synonym registry = "(uuid, anchor) hmap"

datatype registry_error =
  Anchor_NotFound uuid
| InvalidTransition uuid anchor_state anchor_state

type_synonym reg_result = "registry \<times> (registry_error + anchor)"

text \<open>\<open>Uuid::new_v4\<close> is the caller's draw \<open>i\<close>.\<close>

definition new_manual :: "uuid \<Rightarrow> uuid \<Rightarrow> string list \<Rightarrow> string \<Rightarrow> anchor" where
  "new_manual i p argv cwd =
    \<lparr>a_id = i, a_pane = Some p, a_argv = argv, a_cwd = cwd, a_state = Live,
     a_hide_on_session_close = False, a_rule = None, a_name = None, a_group = None, a_sort_key = None\<rparr>"

definition new_auto :: "uuid \<Rightarrow> uuid \<Rightarrow> string list \<Rightarrow> string \<Rightarrow> string \<Rightarrow> bool \<Rightarrow> anchor" where
  "new_auto i p argv cwd rule hide =
    \<lparr>a_id = i, a_pane = Some p, a_argv = argv, a_cwd = cwd, a_state = Live,
     a_hide_on_session_close = hide, a_rule = Some rule, a_name = None, a_group = None, a_sort_key = None\<rparr>"

definition display_label :: "anchor \<Rightarrow> string" where
  "display_label a =
    (case a_name a of Some n \<Rightarrow> n
     | None \<Rightarrow> (case a_argv a of x # _ \<Rightarrow> x | [] \<Rightarrow> ''(anchor)''))"

section \<open>Registry operations\<close>

definition reg_insert :: "anchor \<Rightarrow> registry \<Rightarrow> registry \<times> uuid" where
  "reg_insert a r = (hput (a_id a) a r, a_id a)"

definition reg_get :: "registry \<Rightarrow> uuid \<Rightarrow> anchor option" where
  "reg_get r i = hget r i"

definition reg_iter :: "registry \<Rightarrow> anchor list" where
  "reg_iter r = hvals r"

definition reg_remove :: "uuid \<Rightarrow> registry \<Rightarrow> reg_result" where
  "reg_remove i r = (case hget r i of None \<Rightarrow> (r, Inl (Anchor_NotFound i)) | Some a \<Rightarrow> (hdel i r, Inr a))"

text \<open>The shared shape of \<open>get_mut(..).ok_or(NotFound)?\<close> followed by a guarded change.\<close>

definition reg_modify :: "uuid \<Rightarrow> (anchor \<Rightarrow> registry_error + anchor) \<Rightarrow> registry \<Rightarrow> reg_result" where
  "reg_modify i f r =
    (case hget r i of
       None \<Rightarrow> (r, Inl (Anchor_NotFound i))
     | Some a \<Rightarrow> (case f a of Inl e \<Rightarrow> (r, Inl e) | Inr a' \<Rightarrow> (hput i a' r, Inr a')))"

definition reg_transition :: "uuid \<Rightarrow> anchor_state \<Rightarrow> anchor_state \<Rightarrow> registry \<Rightarrow> reg_result" where
  "reg_transition i from to r =
    reg_modify i (\<lambda>a. if a_state a \<noteq> from then Inl (InvalidTransition i (a_state a) to)
                      else Inr (a\<lparr>a_state := to\<rparr>)) r"

definition reg_pause :: "uuid \<Rightarrow> registry \<Rightarrow> reg_result" where
  "reg_pause i r = reg_transition i Live Paused r"

definition reg_resume :: "uuid \<Rightarrow> registry \<Rightarrow> reg_result" where
  "reg_resume i r = reg_transition i Paused Live r"

definition reg_hide :: "uuid \<Rightarrow> registry \<Rightarrow> reg_result" where
  "reg_hide i r =
    reg_modify i (\<lambda>a. if a_state a \<notin> {Live, Paused} then Inl (InvalidTransition i (a_state a) Hidden)
                      else Inr (a\<lparr>a_state := Hidden, a_pane := None\<rparr>)) r"

definition reg_reattach :: "uuid \<Rightarrow> uuid \<Rightarrow> registry \<Rightarrow> reg_result" where
  "reg_reattach i p r =
    reg_modify i (\<lambda>a. if a_state a \<noteq> Hidden then Inl (InvalidTransition i (a_state a) Live)
                      else Inr (a\<lparr>a_state := Live, a_pane := Some p\<rparr>)) r"

definition reg_set_hidden :: "uuid \<Rightarrow> bool \<Rightarrow> registry \<Rightarrow> reg_result" where
  "reg_set_hidden i hidden r =
    reg_modify i (\<lambda>a. let to = (if hidden then Hidden else Live) in
                      if a_state a \<notin> {Live, Hidden} then Inl (InvalidTransition i (a_state a) to)
                      else Inr (a\<lparr>a_state := to\<rparr>)) r"

definition reg_mark_dead :: "uuid \<Rightarrow> registry \<Rightarrow> reg_result" where
  "reg_mark_dead i r = reg_modify i (\<lambda>a. Inr (a\<lparr>a_state := Dead\<rparr>)) r"

definition reg_rename :: "uuid \<Rightarrow> string option \<Rightarrow> registry \<Rightarrow> reg_result" where
  "reg_rename i n r = reg_modify i (\<lambda>a. Inr (a\<lparr>a_name := some_trimmed n\<rparr>)) r"

definition reg_set_group :: "uuid \<Rightarrow> string option \<Rightarrow> registry \<Rightarrow> reg_result" where
  "reg_set_group i g r = reg_modify i (\<lambda>a. Inr (a\<lparr>a_group := some_trimmed g\<rparr>)) r"

definition reg_set_sort_key :: "uuid \<Rightarrow> int option \<Rightarrow> registry \<Rightarrow> reg_result" where
  "reg_set_sort_key i k r = reg_modify i (\<lambda>a. Inr (a\<lparr>a_sort_key := k\<rparr>)) r"

subsection \<open>Sidebar groups\<close>

text \<open>The group order of the sidebar: named groups alphabetically, the ungrouped bucket last.\<close>

datatype group_rank = Named string | Ungrouped

instantiation group_rank :: linorder
begin

fun less_eq_group_rank :: "group_rank \<Rightarrow> group_rank \<Rightarrow> bool" where
  "less_eq_group_rank (Named x) (Named y) = (x \<le> y)"
| "less_eq_group_rank (Named x) Ungrouped = True"
| "less_eq_group_rank Ungrouped (Named y) = False"
| "less_eq_group_rank Ungrouped Ungrouped = True"

definition less_group_rank :: "group_rank \<Rightarrow> group_rank \<Rightarrow> bool" where
  "less_group_rank x y = (x \<le> y \<and> \<not> y \<le> x)"

instance
proof
  fix x y z :: group_rank
  show "x < y \<longleftrightarrow> x \<le> y \<and> \<not> y \<le> x" by (rule less_group_rank_def)
  show "x \<le> x" by (cases x) auto
  show "x \<le> y \<Longrightarrow> y \<le> z \<Longrightarrow> x \<le> z" by (cases x; cases y; cases z) auto
  show "x \<le> y \<Longrightarrow> y \<le> x \<Longrightarrow> x = y" by (cases x; cases y) auto
  show "x \<le> y \<or> y \<le> x" by (cases x; cases y) auto
qed

end

definition group_rank :: "string option \<Rightarrow> group_rank" where
  "group_rank g = (case g of Some n \<Rightarrow> Named n | None \<Rightarrow> Ungrouped)"

definition sidebar_key :: "anchor \<Rightarrow> int \<times> string" where
  "sidebar_key a = (case a_sort_key a of Some k \<Rightarrow> k | None \<Rightarrow> 0, display_label a)"

definition push_group :: "anchor \<Rightarrow> (string option, anchor list) hmap \<Rightarrow> (string option, anchor list) hmap" where
  "push_group a m = hput (a_group a) ((case hget m (a_group a) of Some b \<Rightarrow> b | None \<Rightarrow> []) @ [a]) m"

definition grouped_for_sidebar :: "registry \<Rightarrow> (string option \<times> anchor list) list" where
  "grouped_for_sidebar r =
    (let by_group = fold push_group (hvals r) [];
         sorted = hmapvals (sort_key sidebar_key) by_group
     in sort_key (\<lambda>(g, _). group_rank g) (hitems sorted))"

section \<open>Functional behaviour\<close>

lemma reg_modify_get:
  "hget (fst (reg_modify i f r)) j =
    (if j = i then (case hget r i of None \<Rightarrow> None
                    | Some a \<Rightarrow> (case f a of Inl e \<Rightarrow> Some a | Inr a' \<Rightarrow> Some a'))
     else hget r j)"
  by (auto simp: reg_modify_def hget_hput split: option.splits sum.splits)

lemma reg_modify_error: "snd (reg_modify i f r) = Inl e \<Longrightarrow> fst (reg_modify i f r) = r"
  by (auto simp: reg_modify_def split: option.splits sum.splits)

lemma reg_modify_ok:
  "snd (reg_modify i f r) = Inr b \<longleftrightarrow> (\<exists>a. hget r i = Some a \<and> f a = Inr b)"
  by (auto simp: reg_modify_def split: option.splits sum.splits)

lemmas reg_ops = reg_transition_def reg_pause_def reg_resume_def reg_hide_def reg_reattach_def
  reg_set_hidden_def reg_mark_dead_def reg_rename_def reg_set_group_def reg_set_sort_key_def

datatype reg_cmd = RPause uuid | RResume uuid | RHide uuid | RReattach uuid uuid
  | RSetHidden uuid bool | RMarkDead uuid | RRename uuid "string option"
  | RSetGroup uuid "string option" | RSetSortKey uuid "int option" | RRemove uuid

fun reg_exec :: "reg_cmd \<Rightarrow> registry \<Rightarrow> reg_result" where
  "reg_exec (RPause i) r = reg_pause i r"
| "reg_exec (RResume i) r = reg_resume i r"
| "reg_exec (RHide i) r = reg_hide i r"
| "reg_exec (RReattach i p) r = reg_reattach i p r"
| "reg_exec (RSetHidden i h) r = reg_set_hidden i h r"
| "reg_exec (RMarkDead i) r = reg_mark_dead i r"
| "reg_exec (RRename i n) r = reg_rename i n r"
| "reg_exec (RSetGroup i g) r = reg_set_group i g r"
| "reg_exec (RSetSortKey i k) r = reg_set_sort_key i k r"
| "reg_exec (RRemove i) r = reg_remove i r"

fun reg_target :: "reg_cmd \<Rightarrow> uuid" where
  "reg_target (RPause i) = i"
| "reg_target (RResume i) = i"
| "reg_target (RHide i) = i"
| "reg_target (RReattach i p) = i"
| "reg_target (RSetHidden i h) = i"
| "reg_target (RMarkDead i) = i"
| "reg_target (RRename i n) = i"
| "reg_target (RSetGroup i g) = i"
| "reg_target (RSetSortKey i k) = i"
| "reg_target (RRemove i) = i"

text \<open>The lifecycle: which command may take which state to which.\<close>

inductive lifecycle :: "reg_cmd \<Rightarrow> anchor_state \<Rightarrow> anchor_state \<Rightarrow> bool" where
  lc_pause: "lifecycle (RPause i) Live Paused"
| lc_resume: "lifecycle (RResume i) Paused Live"
| lc_hide: "s = Live \<or> s = Paused \<Longrightarrow> lifecycle (RHide i) s Hidden"
| lc_reattach: "lifecycle (RReattach i p) Hidden Live"
| lc_soft_hide: "s = Live \<or> s = Hidden \<Longrightarrow> lifecycle (RSetHidden i True) s Hidden"
| lc_soft_show: "s = Live \<or> s = Hidden \<Longrightarrow> lifecycle (RSetHidden i False) s Live"
| lc_dead: "lifecycle (RMarkDead i) s Dead"
| lc_rename: "lifecycle (RRename i n) s s"
| lc_group: "lifecycle (RSetGroup i g) s s"
| lc_sort: "lifecycle (RSetSortKey i k) s s"

code_pred lifecycle .

inductive_simps lifecycle_simps:
  "lifecycle (RPause i) s t" "lifecycle (RResume i) s t" "lifecycle (RHide i) s t"
  "lifecycle (RReattach i p) s t" "lifecycle (RSetHidden i h) s t" "lifecycle (RMarkDead i) s t"
  "lifecycle (RRename i n) s t" "lifecycle (RSetGroup i g) s t" "lifecycle (RSetSortKey i k) s t"
  "lifecycle (RRemove i) s t"

inductive_cases lifecycle_deadE: "lifecycle c Dead t"

lemma reg_exec_lifecycle:
  assumes "snd (reg_exec c r) = Inr b" "\<nexists>i. c = RRemove i"
  shows "\<exists>a. hget r (reg_target c) = Some a \<and> lifecycle c (a_state a) (a_state b) \<and>
    hget (fst (reg_exec c r)) (reg_target c) = Some b"
  using assms
  by (cases c) (auto simp: reg_ops reg_modify_ok reg_modify_get lifecycle_simps Let_def
      split: if_splits)

lemma reg_exec_error: "snd (reg_exec c r) = Inl e \<Longrightarrow> fst (reg_exec c r) = r"
  by (cases c) (auto simp: reg_ops reg_remove_def reg_modify_error split: option.splits)

lemma reg_exec_frame: "j \<noteq> reg_target c \<Longrightarrow> hget (fst (reg_exec c r)) j = hget r j"
  by (cases c) (auto simp: reg_ops reg_remove_def reg_modify_get split: option.splits)

lemma reg_exec_refused:
  assumes "hget r (reg_target c) = Some a" "\<nexists>t. lifecycle c (a_state a) t" "\<nexists>i. c = RRemove i"
  shows "\<exists>to. snd (reg_exec c r) = Inl (InvalidTransition (reg_target c) (a_state a) to)"
  using assms
  by (cases c; cases "a_state a") (auto simp: reg_ops reg_modify_def lifecycle_simps Let_def)

lemma dead_is_final:
  assumes "lifecycle c Dead t" shows "t = Dead"
  using assms by (rule lifecycle_deadE) auto

section \<open>The registry invariant\<close>

text \<open>Every anchor is stored under its own id, with a trimmed, non-empty name and group if any.\<close>

definition tidy :: "string option \<Rightarrow> bool" where
  "tidy n = (case n of None \<Rightarrow> True | Some s \<Rightarrow> s \<noteq> [] \<and> trim s = s)"

definition reg_ok :: "registry \<Rightarrow> bool" where
  "reg_ok r = list_all (\<lambda>(i, a). a_id a = i \<and> tidy (a_name a) \<and> tidy (a_group a)) (hitems r)"

lemma reg_ok_iff: "reg_ok r \<longleftrightarrow> (\<forall>i a. hget r i = Some a \<longrightarrow> a_id a = i \<and> tidy (a_name a) \<and> tidy (a_group a))"
  by (simp add: reg_ok_def hitems_all)

lemma tidy_some_trimmed [simp]: "tidy (some_trimmed n)"
  by (auto simp: tidy_def some_trimmed_nonempty split: option.split)

lemma tidy_None [simp]: "tidy None"
  by (simp add: tidy_def)

lemma reg_modify_ok_inv:
  assumes "reg_ok r"
    and "\<And>a b. hget r i = Some a \<Longrightarrow> f a = Inr b \<Longrightarrow> a_id b = a_id a \<and>
      (tidy (a_name a) \<longrightarrow> tidy (a_name b)) \<and> (tidy (a_group a) \<longrightarrow> tidy (a_group b))"
  shows "reg_ok (fst (reg_modify i f r))"
proof (cases "snd (reg_modify i f r)")
  case (Inl e)
  then show ?thesis using assms(1) by (simp add: reg_modify_error)
next
  case (Inr b)
  then obtain a where a: "hget r i = Some a" "f a = Inr b" by (auto simp: reg_modify_ok)
  have "fst (reg_modify i f r) = hput i b r" using a by (simp add: reg_modify_def)
  then show ?thesis using assms(1) a assms(2) [OF a] by (auto simp: reg_ok_iff hget_hput)
qed

lemma reg_exec_inv: "reg_ok r \<Longrightarrow> reg_ok (fst (reg_exec c r))"
proof (cases c)
  case (RRemove i)
  then show "reg_ok r \<Longrightarrow> ?thesis"
    by (auto simp: reg_remove_def reg_ok_iff hget_hdel split: option.splits if_splits)
qed (auto simp: reg_ops Let_def intro!: reg_modify_ok_inv split: if_splits)

interpretation reg: invariant_machine "\<lambda>c r. fst (reg_exec c r)" reg_ok
  by unfold_locales (rule reg_exec_inv)

lemma reg_insert_inv:
  "reg_ok r \<Longrightarrow> tidy (a_name a) \<Longrightarrow> tidy (a_group a) \<Longrightarrow> reg_ok (fst (reg_insert a r))"
  by (auto simp: reg_insert_def reg_ok_iff hget_hput)

section \<open>Sidebar grouping\<close>

lemma fold_push_group:
  "hget (fold push_group xs m) g =
    (if (\<exists>a \<in> set xs. a_group a = g) \<or> hget m g \<noteq> None
     then Some ((case hget m g of Some b \<Rightarrow> b | None \<Rightarrow> []) @ filter (\<lambda>a. a_group a = g) xs) else None)"
proof (induction xs arbitrary: m)
  case Nil
  then show ?case by (auto split: option.splits)
next
  case (Cons x xs)
  show ?case
    by (simp add: Cons.IH) (auto simp: push_group_def hget_hput split: option.splits)
qed

lemma group_rank_inj: "inj group_rank"
  by (auto simp: inj_def group_rank_def split: option.splits)

lemma grouped_entry:
  "(g, b) \<in> set (grouped_for_sidebar r) \<longleftrightarrow>
    (\<exists>a \<in> set (hvals r). a_group a = g) \<and> b = sort_key sidebar_key (filter (\<lambda>a. a_group a = g) (hvals r))"
  by (auto simp: grouped_for_sidebar_def fold_push_group)

lemma grouped_groups_sorted:
  "sorted (map (\<lambda>(g, _). group_rank g) (grouped_for_sidebar r))"
  "distinct (map fst (grouped_for_sidebar r))"
proof -
  show "sorted (map (\<lambda>(g, _). group_rank g) (grouped_for_sidebar r))"
    by (simp add: grouped_for_sidebar_def)
  have perm: "mset (map fst (sort_key f xs)) = mset (map fst xs)" for f :: "'a \<times> 'b \<Rightarrow> 'c::linorder" and xs
    by simp
  have "distinct (map fst (sort_key f (hitems (hmapvals h m))))"
    for f :: "'a \<times> 'b \<Rightarrow> 'c::linorder" and h :: "'d \<Rightarrow> 'b" and m
    by (metis perm distinct_hkeys map_fst_hitems mset_eq_imp_distinct_iff)
  then show "distinct (map fst (grouped_for_sidebar r))"
    by (simp add: grouped_for_sidebar_def Let_def)
qed

lemma dead_step:
  assumes "case hget r i of None \<Rightarrow> True | Some a \<Rightarrow> a_state a = Dead"
  shows "case hget (fst (reg_exec c r)) i of None \<Rightarrow> True | Some a \<Rightarrow> a_state a = Dead"
proof (cases "i = reg_target c")
  case False
  then show ?thesis using assms by (simp add: reg_exec_frame)
next
  case True
  then show ?thesis using assms
    by (cases c) (auto simp: reg_ops reg_remove_def reg_modify_get Let_def split: option.splits sum.splits if_splits)
qed

interpretation dead: invariant_machine "\<lambda>c r. fst (reg_exec c r)"
    "\<lambda>r. case hget r i of None \<Rightarrow> True | Some a \<Rightarrow> a_state a = Dead" for i
  by unfold_locales (rule dead_step)

section \<open>Properties\<close>

text \<open>C35: A registry command that succeeds on an anchor follows the lifecycle and stores its result;
  one that fails changes nothing; and no command touches another anchor than its target.\<close>

theorem registry_follows_lifecycle:
  "(case snd (reg_exec c r) of
      Inl _ \<Rightarrow> fst (reg_exec c r) = r
    | Inr b \<Rightarrow> if c = RRemove (reg_target c) then fst (reg_exec c r) = hdel (reg_target c) r
              else (case hget r (reg_target c) of None \<Rightarrow> False | Some a \<Rightarrow> lifecycle c (a_state a) (a_state b)) \<and>
                hget (fst (reg_exec c r)) (reg_target c) = Some b) \<and>
   (\<forall>j. j = reg_target c \<or> hget (fst (reg_exec c r)) j = hget r j)"
proof -
  have 1: "\<forall>j. j = reg_target c \<or> hget (fst (reg_exec c r)) j = hget r j"
    using reg_exec_frame by blast
  have rem: "snd (reg_exec c r) = Inr b \<Longrightarrow> c = RRemove i \<Longrightarrow> fst (reg_exec c r) = hdel i r" for b i
    by (auto simp: reg_remove_def split: option.splits)
  show ?thesis
  proof (cases "snd (reg_exec c r)")
    case (Inl e)
    then show ?thesis using 1 reg_exec_error by simp
  next
    case (Inr b)
    show ?thesis
    proof (cases "c = RRemove (reg_target c)")
      case True
      then have "fst (reg_exec c r) = hdel (reg_target c) r" using rem [OF Inr] by blast
      then show ?thesis unfolding Inr sum.case if_P [OF True] using 1 by blast
    next
      case False
      then have "\<nexists>i. c = RRemove i" by auto
      then obtain a where "hget r (reg_target c) = Some a" "lifecycle c (a_state a) (a_state b)"
        "hget (fst (reg_exec c r)) (reg_target c) = Some b"
        using reg_exec_lifecycle [OF Inr] by auto
      then show ?thesis using 1 Inr False by simp
    qed
  qed
qed

text \<open>A dead anchor is never revived: after any registry commands it is still dead, or gone.\<close>

theorem dead_anchor_stays_dead:
  assumes "hget r i = Some a" "a_state a = Dead"
  shows "case hget (fold (\<lambda>c r. fst (reg_exec c r)) cs r) i of None \<Rightarrow> True | Some b \<Rightarrow> a_state b = Dead"
  using assms by (intro dead.run_inv) simp

theorem dead_anchor_stays_dead_witness:
  "case hget (fold (\<lambda>c r. fst (reg_exec c r)) [RReattach 7 1, RSetHidden 7 False, RResume 7]
      [(7, (new_manual 7 1 [''sh''] ''/'')\<lparr>a_state := Dead\<rparr>)]) 7 of
    None \<Rightarrow> True | Some b \<Rightarrow> a_state b = Dead"
  by (rule dead_anchor_stays_dead) (auto simp: hget_Cons)

text \<open>Whatever commands run, every anchor stays stored under its own id, and names and groups stay
  trimmed and non-empty.\<close>

theorem registry_stays_tidy:
  assumes "reg_ok r"
  shows "reg_ok (fold (\<lambda>c r. fst (reg_exec c r)) cs r)"
  using assms by (rule reg.run_inv)

theorem registry_stays_tidy_witness:
  "reg_ok (fold (\<lambda>c r. fst (reg_exec c r)) [RRename 7 (Some ''  build ''), RSetGroup 7 (Some ''   '')]
     (fst (reg_insert (new_manual 7 1 [''sh''] ''/'') [])))"
proof (rule registry_stays_tidy)
  show "reg_ok (fst (reg_insert (new_manual 7 1 [''sh''] ''/'') []))"
    by (rule reg_insert_inv) (simp_all add: new_manual_def reg_ok_iff)
qed

text \<open>The sidebar shows every anchor of the registry once, in the bucket of its group; the buckets
  are the groups in use, each once, alphabetical with the ungrouped one last, and each bucket is
  sorted by sort key and label.\<close>

theorem sidebar_groups_partition:
  "distinct (map fst (grouped_for_sidebar r)) \<and>
   sorted (map (\<lambda>(g, _). group_rank g) (grouped_for_sidebar r)) \<and>
   set (map fst (grouped_for_sidebar r)) = a_group ` set (hvals r) \<and>
   list_all (\<lambda>(g, b). sorted (map sidebar_key b) \<and> mset b = mset (filter (\<lambda>a. a_group a = g) (hvals r)))
     (grouped_for_sidebar r)"
proof (intro conjI)
  show "set (map fst (grouped_for_sidebar r)) = a_group ` set (hvals r)"
  proof (rule set_eqI)
    fix g
    have "g \<in> set (map fst (grouped_for_sidebar r)) \<longleftrightarrow> (\<exists>b. (g, b) \<in> set (grouped_for_sidebar r))" by force
    also have "\<dots> \<longleftrightarrow> g \<in> a_group ` set (hvals r)" unfolding grouped_entry by auto
    finally show "g \<in> set (map fst (grouped_for_sidebar r)) \<longleftrightarrow> g \<in> a_group ` set (hvals r)" .
  qed
  show "list_all (\<lambda>(g, b). sorted (map sidebar_key b) \<and> mset b = mset (filter (\<lambda>a. a_group a = g) (hvals r)))
     (grouped_for_sidebar r)"
    unfolding list_all_iff using grouped_entry by fastforce
qed (rule grouped_groups_sorted)+

end
