(* ===== verification/BusTypes.thy ===== *)
theory BusTypes
  imports Prelude
begin

text \<open>
  The bus vocabulary: \<open>crates/lmux-bus/src/error.rs\<close>, \<open>kinds.rs\<close> and the envelope of
  \<open>envelope.rs\<close>. Formatted messages are kept as lists of fragments, so that every value that
  goes into a message is still visible in it. Serde's parsing and printing are parameters of the
  server; the payloads are modelled as the typed values they carry.
\<close>

section \<open>Messages\<close>

datatype grant_scope = ReadOutput | SendInput | RenameScope | AttachWindow

datatype frag = Txt string | FUuid uuid | FNat nat | FInt int | FStr string | FScope grant_scope

type_synonym msg = "frag list"

section \<open>Payload types\<close>

record rect =
  r_x :: int
  r_y :: int
  r_w :: nat
  r_h :: nat

datatype compositor_window_id = CompositorWindowId string

datatype client_role = LmuxCli | KwinScript | Satellite_Client | Plugin | LmuxMcp

datatype compositor_state = Online | Offline

datatype wire_anchor_state = W_Live | W_Paused | W_Hidden | W_Dead

record session_summary =
  ss_name :: string
  ss_created_at :: nat
  ss_last_active :: "nat option"

record status_snapshot =
  st_cockpit_version :: string
  st_pid :: int
  st_session_count :: nat
  st_anchor_count :: nat
  st_compositor :: compositor_state
  st_satellite_spawn_ok :: nat
  st_satellite_spawn_fail :: nat

record pane_summary =
  ps_pane_id :: uuid
  ps_anchor_id :: "uuid option"
  ps_cwd :: "string option"

record agent_identity =
  ag_id :: string
  ag_name :: "string option"

datatype title_provenance = Prov_Default | Prov_Agent | Prov_User

record pane_title =
  pt_title :: string
  pt_provenance :: title_provenance
  pt_pinned :: bool

datatype pane_placement = Tab | SplitRight | SplitDown

record transcript_line =
  tl_sequence :: nat
  tl_unix_millis :: nat
  tl_text :: string

record transcript_range =
  tr_pane_id :: uuid
  tr_first_sequence :: nat
  tr_last_sequence :: nat
  tr_truncated :: bool
  tr_lines :: "transcript_line list"

datatype grant_decision = AllowOnce | AllowUntil nat | Deny | Revoke

record agent_pane_status =
  aps_pane_id :: uuid
  aps_agent :: agent_identity
  aps_title :: "string option"
  aps_purpose :: "string option"

record anchor_summary =
  as_anchor_id :: uuid
  as_pane_id :: "uuid option"
  as_label :: string
  as_active :: bool
  as_agent_status :: "agent_pane_status list"
  as_pending_grants :: nat
  as_active_grants :: nat

record pane_new_result =
  pn_pane_id :: uuid
  pn_anchor_id :: uuid
  pn_placement :: pane_placement

record grant_request =
  gr_grant_id :: uuid
  gr_requester :: agent_identity
  gr_scope :: grant_scope
  gr_source_anchor :: "uuid option"
  gr_target_anchor :: "uuid option"
  gr_target_pane :: "uuid option"
  gr_target_window :: "string option"
  gr_reason :: "msg option"

datatype satellite_state = Docked | Detached | FloatingFallback

datatype window_backend = Macos | Kwin | X11 | Hyprland | Sway | Noop | Unsupported

datatype window_app_identity = BundleId string | DesktopEntry string | WmClass string
  | AppId string | OtherApp string

record window_candidate =
  wc_backend :: window_backend
  wc_window_id :: string
  wc_pid :: "nat option"
  wc_app :: "window_app_identity option"
  wc_title :: "string option"
  wc_workspace :: "string option"
  wc_output :: "string option"

section \<open>Errors\<close>

datatype error_code = EC_FrameTooLarge | EC_VersionMismatch | EC_UnknownKind | EC_PeerDenied
  | EC_BadRequest | EC_Domain | EC_Unauthorized | EC_GrantDenied | EC_TranscriptUnavailable
  | EC_StaleSequence | EC_UserPinnedTitle | EC_Io

text \<open>An I/O error carries its kind: end of file inside a read is the one the server looks at.\<close>

datatype io_error_kind = UnexpectedEof | OtherIo string

datatype bus_error =
  FrameTooLarge error_code nat nat
| VersionMismatch error_code nat nat
| UnknownKind error_code string
| PeerDenied error_code
| BadRequest msg
| Domain msg
| Unauthorized msg
| GrantDenied msg
| TranscriptUnavailable msg
| StaleSequence msg
| UserPinnedTitle msg
| Json string
| Io io_error_kind

fun bus_error_code :: "bus_error \<Rightarrow> error_code" where
  "bus_error_code (FrameTooLarge c _ _) = c"
| "bus_error_code (VersionMismatch c _ _) = c"
| "bus_error_code (UnknownKind c _) = c"
| "bus_error_code (PeerDenied c) = c"
| "bus_error_code (BadRequest _) = EC_BadRequest"
| "bus_error_code (Domain _) = EC_Domain"
| "bus_error_code (Unauthorized _) = EC_Unauthorized"
| "bus_error_code (GrantDenied _) = EC_GrantDenied"
| "bus_error_code (TranscriptUnavailable _) = EC_TranscriptUnavailable"
| "bus_error_code (StaleSequence _) = EC_StaleSequence"
| "bus_error_code (UserPinnedTitle _) = EC_UserPinnedTitle"
| "bus_error_code (Json _) = EC_BadRequest"
| "bus_error_code (Io _) = EC_Io"

fun bus_error_message :: "bus_error \<Rightarrow> msg" where
  "bus_error_message (FrameTooLarge _ len mx) =
     [Txt ''frame too large: '', FNat len, Txt '' bytes > '', FNat mx, Txt '' limit'']"
| "bus_error_message (VersionMismatch _ got expected) =
     [Txt ''protocol version mismatch: got v'', FNat got, Txt '', expected v'', FNat expected]"
| "bus_error_message (UnknownKind _ k) = [Txt ''unknown kind: '', FStr k]"
| "bus_error_message (PeerDenied _) = [Txt ''peer denied (SO_PEERCRED UID mismatch)'']"
| "bus_error_message (BadRequest m) = Txt ''bad request: '' # m"
| "bus_error_message (Domain m) = Txt ''domain error: '' # m"
| "bus_error_message (Unauthorized m) = Txt ''unauthorized: '' # m"
| "bus_error_message (GrantDenied m) = Txt ''grant denied: '' # m"
| "bus_error_message (TranscriptUnavailable m) = Txt ''transcript unavailable: '' # m"
| "bus_error_message (StaleSequence m) = Txt ''stale transcript sequence: '' # m"
| "bus_error_message (UserPinnedTitle m) = Txt ''user-pinned title: '' # m"
| "bus_error_message (Json e) = [Txt ''json error: '', FStr e]"
| "bus_error_message (Io UnexpectedEof) = [Txt ''io error: '', Txt ''unexpected end of file'']"
| "bus_error_message (Io (OtherIo e)) = [Txt ''io error: '', FStr e]"

record error_payload =
  ep_code :: error_code
  ep_message :: msg
  ep_kind_received :: "string option"
  ep_in_reply_to :: "uuid option"

section \<open>The kind catalog\<close>

datatype (plugins only: code) kind =
  K_Hello client_role int
| K_HelloAck string
| K_Subscribe "string list"
| K_Unsubscribe uuid
| K_Error error_payload
| K_Ok "string option"
| K_StatusGet
| K_StatusGetResult status_snapshot
| K_SessionList
| K_SessionListResult "session_summary list"
| K_SessionNew string
| K_SessionRename string string
| K_SessionDelete string
| K_SessionOpen string
| K_PaneList
| K_PaneListResult "pane_summary list"
| K_PaneNew "uuid option" pane_placement bool "string option" "string list" "agent_identity option" "string option"
| K_PaneNewResult pane_new_result
| K_PaneTail uuid nat "agent_identity option"
| K_PaneCapture uuid "nat option" "nat option" "agent_identity option"
| K_PaneTranscriptResult transcript_range
| K_PaneSendInput uuid string "agent_identity option"
| K_PaneRename uuid string bool "agent_identity option"
| K_AnchorList
| K_AnchorListResult "anchor_summary list"
| K_AnchorTag uuid
| K_AnchorTagSelf
| K_AnchorTagSelfResult nat
| K_AnchorNew
| K_AnchorActivate uuid
| K_AnchorUntag uuid
| K_AnchorPause uuid
| K_AnchorResume uuid
| K_AnchorHide uuid
| K_AnchorReattach uuid
| K_AnchorRespawn uuid
| K_AnchorStatus uuid wire_anchor_state
| K_GrantRequest grant_request
| K_GrantRequestResult uuid bool
| K_GrantDecide uuid grant_decision
| K_SatelliteOpen "string list" uuid bool
| K_SatelliteDetach uuid
| K_SatelliteReattach uuid
| K_SatelliteAttachFocused
| K_SatelliteListWindows
| K_SatelliteListWindowsResult "window_candidate list"
| K_SatelliteAttachWindow window_candidate "agent_identity option"
| K_SatelliteLaunchAttach "string list" "string option" "string option" "nat option" "agent_identity option"
| K_SatelliteMap uuid compositor_window_id
| K_SatelliteGeometry compositor_window_id rect
| K_SatelliteStatus uuid satellite_state "string option"
| K_CompositorStatus compositor_state "string option"
| K_CompositorReinject

section \<open>Envelope\<close>

definition PROTOCOL_VERSION :: nat where
  "PROTOCOL_VERSION = 2"

record envelope =
  env_v :: nat
  env_kind :: string
  env_id :: uuid

definition envelope_new :: "uuid \<Rightarrow> string \<Rightarrow> envelope" where
  "envelope_new i k = \<lparr>env_v = PROTOCOL_VERSION, env_kind = k, env_id = i\<rparr>"

text \<open>The JSON parser is a parameter: it gives the raw envelope or serde's message.\<close>

definition envelope_parse :: "('b \<Rightarrow> string + envelope) \<Rightarrow> 'b \<Rightarrow> bus_error + envelope" where
  "envelope_parse from_slice bytes =
    (case from_slice bytes of
       Inl e \<Rightarrow> Inl (Json e)
     | Inr env \<Rightarrow> if env_v env \<noteq> PROTOCOL_VERSION
                  then Inl (VersionMismatch EC_VersionMismatch (env_v env) PROTOCOL_VERSION)
                  else Inr env)"

lemma envelope_parse_Inr:
  "envelope_parse p b = Inr env \<longleftrightarrow> p b = Inr env \<and> env_v env = PROTOCOL_VERSION"
  by (auto simp: envelope_parse_def split: sum.splits)

end
