(* ===== verification/BusCodec.thy ===== *)
theory BusCodec
  imports BusTypes "HOL-Library.Word"
begin

text \<open>
  Length-prefixed framing, \<open>crates/lmux-bus/src/codec.rs\<close>: a big-endian 32-bit length and that
  many bytes, at most 4 MiB. A reader is the list of the bytes still to come; a writer is any
  state with a write and a flush that may fail.
\<close>

unbundle bit_operations_syntax

type_synonym byte = "8 word"

definition MAX_FRAME_BYTES :: nat where
  "MAX_FRAME_BYTES = 4 * 1024 * 1024"

definition to_be_bytes :: "32 word \<Rightarrow> byte list" where
  "to_be_bytes w = [ucast (drop_bit 24 w), ucast (drop_bit 16 w), ucast (drop_bit 8 w), ucast w]"

fun from_be_bytes :: "byte list \<Rightarrow> 32 word" where
  "from_be_bytes [a, b, c, d] =
    (push_bit 24 (ucast a) OR push_bit 16 (ucast b) OR push_bit 8 (ucast c) OR ucast d)"
| "from_be_bytes _ = 0"

definition read_exact :: "nat \<Rightarrow> byte list \<Rightarrow> bus_error + (byte list \<times> byte list)" where
  "read_exact n s = (if length s < n then Inl (Io UnexpectedEof) else Inr (take n s, drop n s))"

definition read_frame :: "byte list \<Rightarrow> bus_error + (byte list \<times> byte list)" where
  "read_frame s =
    (case read_exact 4 s of
       Inl e \<Rightarrow> Inl e
     | Inr (len_buf, s1) \<Rightarrow>
         let len = unat (from_be_bytes len_buf)
         in if len > MAX_FRAME_BYTES
            then Inl (FrameTooLarge EC_FrameTooLarge len MAX_FRAME_BYTES)
            else read_exact len s1)"

record 'w writer =
  wr_put :: "byte list \<Rightarrow> 'w \<Rightarrow> 'w \<times> io_error_kind option"
  wr_flush :: "'w \<Rightarrow> 'w \<times> io_error_kind option"

definition write_frame :: "'w writer \<Rightarrow> byte list \<Rightarrow> 'w \<Rightarrow> 'w \<times> (bus_error + unit)" where
  "write_frame wr body w =
    (if length body > MAX_FRAME_BYTES
     then (w, Inl (FrameTooLarge EC_FrameTooLarge (length body) MAX_FRAME_BYTES))
     else let len_buf = to_be_bytes (word_of_nat (length body))
          in case wr_put wr len_buf w of
               (w1, Some e) \<Rightarrow> (w1, Inl (Io e))
             | (w1, None) \<Rightarrow> (case wr_put wr body w1 of
                 (w2, Some e) \<Rightarrow> (w2, Inl (Io e))
               | (w2, None) \<Rightarrow> (case wr_flush wr w2 of
                   (w3, Some e) \<Rightarrow> (w3, Inl (Io e))
                 | (w3, None) \<Rightarrow> (w3, Inr ()))))"

section \<open>The encoding\<close>

definition encode_frame :: "byte list \<Rightarrow> byte list" where
  "encode_frame body = to_be_bytes (word_of_nat (length body)) @ body"

definition buffer_writer :: "byte list writer" where
  "buffer_writer = \<lparr>wr_put = (\<lambda>bs w. (w @ bs, None)), wr_flush = (\<lambda>w. (w, None))\<rparr>"

lemma from_to_be_bytes [simp]: "from_be_bytes (to_be_bytes w) = w"
proof (rule bit_word_eqI)
  fix n :: nat assume "n < LENGTH(32)"
  then have n: "n < 32" by simp
  have rejoin: "k \<le> n \<Longrightarrow> k + (n - k) = n" for k by simp
  consider "n < 8" | "8 \<le> n" "n < 16" | "16 \<le> n" "n < 24" | "24 \<le> n" by linarith
  then show "bit (from_be_bytes (to_be_bytes w)) n = bit w n"
    using n
    by cases (auto simp: to_be_bytes_def bit_or_iff bit_push_bit_iff bit_ucast_iff bit_drop_bit_eq rejoin)
qed

lemma length_to_be_bytes [simp]: "length (to_be_bytes w) = 4"
  by (simp add: to_be_bytes_def)

lemma read_exact_append [simp]: "length a = n \<Longrightarrow> read_exact n (a @ b) = Inr (a, b)"
  by (simp add: read_exact_def)

lemma unat_len: "n \<le> MAX_FRAME_BYTES \<Longrightarrow> unat (word_of_nat n :: 32 word) = n"
  by (simp add: MAX_FRAME_BYTES_def unsigned_of_nat take_bit_nat_eq_self)

lemma read_encode_frame:
  "length body \<le> MAX_FRAME_BYTES \<Longrightarrow> read_frame (encode_frame body @ rest) = Inr (body, rest)"
  by (simp add: read_frame_def encode_frame_def unat_len)

lemma read_frame_shrinks: "read_frame s = Inr (body, rest) \<Longrightarrow> length rest < length s"
  by (auto simp: read_frame_def read_exact_def Let_def split: if_splits)

lemma read_frame_bounds:
  "read_frame s = Inr (body, rest) \<Longrightarrow> length body \<le> MAX_FRAME_BYTES"
  by (auto simp: read_frame_def read_exact_def Let_def split: if_splits)

lemma read_frame_consumes:
  assumes "read_frame s = Inr (body, rest)"
  shows "\<exists>hdr. length hdr = 4 \<and> s = hdr @ body @ rest \<and> unat (from_be_bytes hdr) = length body"
proof -
  let ?n = "unat (from_be_bytes (take 4 s))"
  have "4 \<le> length s" "?n \<le> length (drop 4 s)" "body = take ?n (drop 4 s)" "rest = drop ?n (drop 4 s)"
    using assms by (auto simp: read_frame_def read_exact_def Let_def not_less split: if_splits)
  moreover from this have "s = take 4 s @ body @ rest" by (metis append_take_drop_id)
  ultimately show ?thesis by (intro exI [of _ "take 4 s"]) auto
qed

lemma write_buffer:
  "length body \<le> MAX_FRAME_BYTES \<Longrightarrow> write_frame buffer_writer body w = (w @ encode_frame body, Inr ())"
  by (simp add: write_frame_def buffer_writer_def encode_frame_def)

section \<open>Framing as an interface\<close>

text \<open>
  A framing is an encoder and a one-message reader that undo each other on the messages it admits.
  Then a whole conversation, written message after message, is read back message by message.
\<close>

locale framing =
  fixes admit :: "'m \<Rightarrow> bool"
    and enc :: "'m \<Rightarrow> 'b list"
    and read1 :: "'b list \<Rightarrow> 'e + ('m \<times> 'b list)"
  assumes read_enc: "admit m \<Longrightarrow> read1 (enc m @ rest) = Inr (m, rest)"
    and read_shrinks: "read1 s = Inr (m, rest) \<Longrightarrow> length rest < length s"
begin

fun read_n :: "nat \<Rightarrow> 'b list \<Rightarrow> 'e + ('m list \<times> 'b list)" where
  "read_n 0 s = Inr ([], s)"
| "read_n (Suc n) s =
    (case read1 s of Inl e \<Rightarrow> Inl e
     | Inr (m, s1) \<Rightarrow> (case read_n n s1 of Inl e \<Rightarrow> Inl e | Inr (ms, s2) \<Rightarrow> Inr (m # ms, s2)))"

lemma read_all: "list_all admit ms \<Longrightarrow> read_n (length ms) (concat (map enc ms) @ rest) = Inr (ms, rest)"
  by (induction ms) (simp_all add: read_enc)

lemma enc_inj: "admit m \<Longrightarrow> admit m' \<Longrightarrow> enc m = enc m' \<Longrightarrow> m = m'"
  using read_enc [of m "[]"] read_enc [of m' "[]"] by simp

lemma enc_prefix_free: "admit m \<Longrightarrow> admit m' \<Longrightarrow> enc m @ s = enc m' @ s' \<Longrightarrow> m = m' \<and> s = s'"
  by (metis Inr_inject prod.inject read_enc)

end

interpretation frames: framing "\<lambda>b. length b \<le> MAX_FRAME_BYTES" encode_frame read_frame
proof
  show "read_frame (encode_frame m @ rest) = Inr (m, rest)" if "length m \<le> MAX_FRAME_BYTES" for m rest
    using that by (rule read_encode_frame)
  show "length rest < length s" if "read_frame s = Inr (m, rest)" for s m rest
    using that by (rule read_frame_shrinks)
qed

section \<open>Properties\<close>

text \<open>What \<open>write_frame\<close> puts on the wire for a sequence of bodies within the limit, \<open>read_frame\<close>
  reads back body by body, leaving the bytes that follow.\<close>

theorem frames_roundtrip:
  assumes "list_all (\<lambda>b. length b \<le> MAX_FRAME_BYTES) bodies"
  shows "frames.read_n (length bodies)
    (fold (\<lambda>b w. fst (write_frame buffer_writer b w)) bodies [] @ rest) = Inr (bodies, rest)"
proof -
  have "fold (\<lambda>b w. fst (write_frame buffer_writer b w)) bodies w = w @ concat (map encode_frame bodies)" for w
    using assms by (induction bodies arbitrary: w) (simp_all add: write_buffer)
  then show ?thesis using frames.read_all [OF assms, of rest] by simp
qed

theorem frames_roundtrip_witness:
  "frames.read_n 2 (fold (\<lambda>b w. fst (write_frame buffer_writer b w)) [[123, 125], []] [] @ [1]) =
    Inr ([[123, 125], []], [1])"
  using frames_roundtrip [of "[[123, 125], []]" "[1]"] by (simp add: MAX_FRAME_BYTES_def numeral_2_eq_2)

text \<open>No frame over 4 MiB crosses the bus: the writer refuses the body before it writes a byte, and
  the reader refuses the header before it takes a byte of the body; a frame read is one whose
  header gives its length.\<close>

theorem oversized_frames_refused:
  "(if length body > MAX_FRAME_BYTES
    then write_frame wr body w = (w, Inl (FrameTooLarge EC_FrameTooLarge (length body) MAX_FRAME_BYTES))
    else read_frame (encode_frame body @ rest) = Inr (body, rest)) \<and>
   (case read_frame s of
      Inl _ \<Rightarrow> True
    | Inr (b, s') \<Rightarrow> length b \<le> MAX_FRAME_BYTES \<and> unat (from_be_bytes (take 4 s)) = length b \<and> s = take 4 s @ b @ s')"
proof -
  have "case read_frame s of Inl _ \<Rightarrow> True
    | Inr (b, s') \<Rightarrow> length b \<le> MAX_FRAME_BYTES \<and> unat (from_be_bytes (take 4 s)) = length b \<and> s = take 4 s @ b @ s'"
  proof (cases "read_frame s")
    case (Inr bs)
    obtain b s' where bs: "bs = (b, s')" by (cases bs)
    show ?thesis using read_frame_bounds [OF Inr [unfolded bs]] read_frame_consumes [OF Inr [unfolded bs]]
      by (auto simp: Inr bs)
  qed simp
  then show ?thesis by (auto simp: write_frame_def read_encode_frame)
qed

end
