(* ===== verification/BusServer.thy ===== *)
theory BusServer
  imports BusCodec
begin

text \<open>
  One bus connection, \<open>crates/lmux-bus/src/server.rs\<close>: peer check, handshake, per-frame dispatch to
  a handler, replies and error replies; and the files the server claims at bind and gives up at
  shutdown. Serde, the handler and the socket are parameters. The connection's input is the list of
  the bytes the peer will send before it closes.
\<close>

section \<open>Parameters\<close>

record 'j serde =
  sd_envelope :: "byte list \<Rightarrow> string + envelope"
  sd_kind :: "byte list \<Rightarrow> string + kind"
  sd_to_value :: "kind \<Rightarrow> string + 'j"
  sd_is_object :: "'j \<Rightarrow> bool"
  sd_put_version :: "nat \<Rightarrow> 'j \<Rightarrow> 'j"
  sd_put_id :: "uuid \<Rightarrow> 'j \<Rightarrow> 'j"
  sd_to_vec :: "'j \<Rightarrow> string + byte list"

record request_context =
  rc_client :: client_role
  rc_pid :: int

record 'h handler =
  hd_handle :: "request_context \<Rightarrow> kind \<Rightarrow> 'h \<Rightarrow> 'h \<times> (bus_error + kind)"
  hd_version :: string

text \<open>What a connection keeps between frames: the handshake, the handler's state, the writer's.\<close>

record ('h, 'w) conn =
  cn_context :: "request_context option"
  cn_handler :: 'h
  cn_writer :: 'w

section \<open>Replies\<close>

definition write_response ::
  "'j serde \<Rightarrow> 'w writer \<Rightarrow> uuid \<Rightarrow> kind \<Rightarrow> 'w \<Rightarrow> 'w \<times> (bus_error + unit)" where
  "write_response sd wr in_reply_to k w =
    (case sd_to_value sd k of
       Inl e \<Rightarrow> (w, Inl (Json e))
     | Inr v \<Rightarrow>
       if \<not> sd_is_object sd v
       then (w, Inl (Domain [Txt ''response kind did not serialize as a JSON object'']))
       else (case sd_to_vec sd (sd_put_id sd in_reply_to (sd_put_version sd PROTOCOL_VERSION v)) of
               Inl e \<Rightarrow> (w, Inl (Json e))
             | Inr bytes \<Rightarrow> write_frame wr bytes w))"

definition write_error ::
  "'j serde \<Rightarrow> 'w writer \<Rightarrow> uuid \<Rightarrow> error_payload \<Rightarrow> 'w \<Rightarrow> 'w \<times> (bus_error + unit)" where
  "write_error sd wr in_reply_to payload w = write_response sd wr in_reply_to (K_Error payload) w"

definition nil_uuid :: uuid where
  "nil_uuid = 0"

text \<open>Write a reply and go on with the connection, or stop with the write's error.\<close>

definition send_kind ::
  "'j serde \<Rightarrow> 'w writer \<Rightarrow> uuid \<Rightarrow> kind \<Rightarrow> ('h, 'w) conn \<Rightarrow> ('h, 'w) conn \<times> (bus_error + unit)" where
  "send_kind sd wr i k c =
    (let (w', r) = write_response sd wr i k (cn_writer c) in (c\<lparr>cn_writer := w'\<rparr>, r))"

definition send_error ::
  "'j serde \<Rightarrow> 'w writer \<Rightarrow> uuid \<Rightarrow> error_code \<Rightarrow> msg \<Rightarrow> string option \<Rightarrow> uuid option \<Rightarrow>
    ('h, 'w) conn \<Rightarrow> ('h, 'w) conn \<times> (bus_error + unit)" where
  "send_error sd wr i code m kr irt c =
    (let (w', r) = write_error sd wr i
           \<lparr>ep_code = code, ep_message = m, ep_kind_received = kr, ep_in_reply_to = irt\<rparr> (cn_writer c)
     in (c\<lparr>cn_writer := w'\<rparr>, r))"

section \<open>One frame\<close>

definition as_hello :: "kind \<Rightarrow> (client_role \<times> int) option" where
  "as_hello k = (case k of K_Hello client pid \<Rightarrow> Some (client, pid) | _ \<Rightarrow> None)"

definition serve_request ::
  "'j serde \<Rightarrow> 'w writer \<Rightarrow> 'h handler \<Rightarrow> envelope \<Rightarrow> kind \<Rightarrow> ('h, 'w) conn \<Rightarrow>
    ('h, 'w) conn \<times> (bus_error + unit)" where
  "serve_request sd wr hl env k c =
    (case cn_context c of
       None \<Rightarrow> (c, Inl (BadRequest [Txt ''hello handshake context missing'']))
     | Some ctx \<Rightarrow>
       let (h', res) = hd_handle hl ctx k (cn_handler c); c' = c\<lparr>cn_handler := h'\<rparr>
       in (case res of
             Inr resp \<Rightarrow> send_kind sd wr (env_id env) resp c'
           | Inl err \<Rightarrow>
               send_error sd wr (env_id env) (bus_error_code err) (bus_error_message err)
                 None (Some (env_id env)) c'))"

definition serve_frame ::
  "'j serde \<Rightarrow> 'w writer \<Rightarrow> 'h handler \<Rightarrow> byte list \<Rightarrow> ('h, 'w) conn \<Rightarrow>
    ('h, 'w) conn \<times> (bus_error + unit)" where
  "serve_frame sd wr hl frame c =
    (case envelope_parse (sd_envelope sd) frame of
       Inl err \<Rightarrow>
         send_error sd wr nil_uuid (bus_error_code err) (bus_error_message err) None None c
     | Inr env \<Rightarrow>
       if cn_context c = None \<and> env_kind env \<noteq> ''hello''
       then send_error sd wr (env_id env) EC_BadRequest
              [Txt ''hello handshake required before other requests'']
              (Some (env_kind env)) (Some (env_id env)) c
       else (case sd_kind sd frame of
          Inl err \<Rightarrow>
            send_error sd wr (env_id env) EC_UnknownKind [FStr err]
              (Some (env_kind env)) (Some (env_id env)) c
        | Inr k \<Rightarrow> (case as_hello k of
            Some (client, pid) \<Rightarrow>
              send_kind sd wr (env_id env) (K_HelloAck (hd_version hl))
                (c\<lparr>cn_context := Some \<lparr>rc_client = client, rc_pid = pid\<rparr>\<rparr>)
          | None \<Rightarrow> serve_request sd wr hl env k c)))"

section \<open>The connection\<close>

text \<open>Every frame read takes at least its header off the input, so the loop ends.\<close>

function serve_loop ::
  "'j serde \<Rightarrow> 'w writer \<Rightarrow> 'h handler \<Rightarrow> byte list \<Rightarrow> ('h, 'w) conn \<Rightarrow>
    ('h, 'w) conn \<times> (bus_error + unit)" where
  "serve_loop sd wr hl s c =
    (case read_frame s of
       Inl (Io UnexpectedEof) \<Rightarrow> (c, Inr ())
     | Inl err \<Rightarrow> (c, Inl err)
     | Inr (frame, rest) \<Rightarrow>
         (case serve_frame sd wr hl frame c of
            (c', Inl err) \<Rightarrow> (c', Inl err)
          | (c', Inr _) \<Rightarrow> serve_loop sd wr hl rest c'))"
  by pat_completeness auto

termination
  by (relation "measure (\<lambda>(_, _, _, s, _). length s)") (auto dest: read_frame_shrinks)

declare serve_loop.simps [simp del]

definition serve_connection ::
  "'j serde \<Rightarrow> 'w writer \<Rightarrow> 'h handler \<Rightarrow> bus_error + nat \<Rightarrow> nat \<Rightarrow> byte list \<Rightarrow> 'h \<Rightarrow> 'w \<Rightarrow>
    ('h, 'w) conn \<times> (bus_error + unit)" where
  "serve_connection sd wr hl peercred cockpit_uid s h w =
    (let c = \<lparr>cn_context = None, cn_handler = h, cn_writer = w\<rparr> in
     case peercred of
       Inl e \<Rightarrow> (c, Inl e)
     | Inr peer_uid \<Rightarrow>
       if peer_uid \<noteq> cockpit_uid
       then (fst (send_error sd wr nil_uuid EC_PeerDenied
               [Txt ''peer uid '', FNat peer_uid, Txt '' != cockpit uid '', FNat cockpit_uid] None None c),
             Inr ())
       else serve_loop sd wr hl s c)"

section \<open>The connection as a machine over frames\<close>

text \<open>The same conversation, message by message: this is what the byte loop implements.\<close>

fun serve_frames ::
  "'j serde \<Rightarrow> 'w writer \<Rightarrow> 'h handler \<Rightarrow> byte list list \<Rightarrow> ('h, 'w) conn \<Rightarrow>
    ('h, 'w) conn \<times> (bus_error + unit)" where
  "serve_frames sd wr hl [] c = (c, Inr ())"
| "serve_frames sd wr hl (f # fs) c =
    (case serve_frame sd wr hl f c of
       (c', Inl err) \<Rightarrow> (c', Inl err)
     | (c', Inr _) \<Rightarrow> serve_frames sd wr hl fs c')"

lemma read_frame_Nil [simp]: "read_frame [] = Inl (Io UnexpectedEof)"
  by (simp add: read_frame_def read_exact_def)

lemma serve_loop_refines:
  assumes "list_all (\<lambda>f. length f \<le> MAX_FRAME_BYTES) fs"
  shows "serve_loop sd wr hl (concat (map encode_frame fs)) c = serve_frames sd wr hl fs c"
  using assms
proof (induction fs arbitrary: c)
  case Nil
  then show ?case by (simp add: serve_loop.simps)
next
  case (Cons f fs)
  have "read_frame (encode_frame f @ concat (map encode_frame fs)) = Inr (f, concat (map encode_frame fs))"
    using Cons.prems by (intro read_encode_frame) simp
  then show ?case
    using Cons by (subst serve_loop.simps) (auto split: prod.splits sum.splits)
qed

section \<open>What the handler may see\<close>

lemma send_error_frame [simp]:
  "cn_handler (fst (send_error sd wr i code m kr irt c)) = cn_handler c"
  "cn_context (fst (send_error sd wr i code m kr irt c)) = cn_context c"
  by (simp_all add: send_error_def split: prod.splits)

lemma send_kind_frame [simp]:
  "cn_handler (fst (send_kind sd wr i k c)) = cn_handler c"
  "cn_context (fst (send_kind sd wr i k c)) = cn_context c"
  by (simp_all add: send_kind_def split: prod.splits)

definition is_hello_frame :: "'j serde \<Rightarrow> request_context \<Rightarrow> byte list \<Rightarrow> bool" where
  "is_hello_frame sd ctx f = (sd_kind sd f = Inr (K_Hello (rc_client ctx) (rc_pid ctx)))"

lemma as_hello_Some: "as_hello k = Some (r, p) \<longleftrightarrow> k = K_Hello r p"
  by (simp add: as_hello_def split: kind.split)

lemma as_hello_None: "as_hello k = None \<longleftrightarrow> (\<forall>r p. k \<noteq> K_Hello r p)"
  by (metis as_hello_Some not_None_eq surj_pair)

lemma serve_request_cases:
  "cn_context (fst (serve_request sd wr hl env k c)) = cn_context c \<and>
   cn_handler (fst (serve_request sd wr hl env k c)) =
     (case cn_context c of None \<Rightarrow> cn_handler c | Some ctx \<Rightarrow> fst (hd_handle hl ctx k (cn_handler c)))"
  by (auto simp: serve_request_def Let_def split: option.splits prod.splits sum.splits)

lemma serve_frame_cases:
  fixes c :: "('h, 'w) conn"
  assumes c'_def: "c' = fst (serve_frame sd wr hl f c)"
  shows "cn_context c' = cn_context c \<and> cn_handler c' = cn_handler c
    \<or> (\<exists>ctx. is_hello_frame sd ctx f \<and> cn_context c' = Some ctx \<and> cn_handler c' = cn_handler c)
    \<or> (\<exists>ctx k. cn_context c = Some ctx \<and> cn_context c' = cn_context c \<and> sd_kind sd f = Inr k \<and>
         (\<forall>r p. k \<noteq> K_Hello r p) \<and> cn_handler c' = fst (hd_handle hl ctx k (cn_handler c)))"
proof -
  consider "cn_context c' = cn_context c" "cn_handler c' = cn_handler c"
    | k r p where "sd_kind sd f = Inr k" "as_hello k = Some (r, p)"
        "cn_context c' = Some \<lparr>rc_client = r, rc_pid = p\<rparr>" "cn_handler c' = cn_handler c"
    | k env where "sd_kind sd f = Inr k" "as_hello k = None" "c' = fst (serve_request sd wr hl env k c)"
  proof (cases "envelope_parse (sd_envelope sd) f")
    case (Inl e)
    then have "cn_context c' = cn_context c" "cn_handler c' = cn_handler c"
      by (simp_all add: c'_def serve_frame_def)
    then show thesis by (rule that(1))
  next
    case env: (Inr env)
    show thesis
    proof (cases "cn_context c = None \<and> env_kind env \<noteq> ''hello'' \<or> (\<exists>e. sd_kind sd f = Inl e)")
      case True
      then have "cn_context c' = cn_context c" "cn_handler c' = cn_handler c"
        using env by (auto simp: c'_def serve_frame_def)
      then show thesis by (rule that(1))
    next
      case False
      then obtain k where k: "sd_kind sd f = Inr k" by (cases "sd_kind sd f") auto
      have no: "(cn_context c = None \<and> env_kind env \<noteq> ''hello'') = False" using False by blast
      have step: "c' = fst (case as_hello k of
            Some (client, pid) \<Rightarrow>
              send_kind sd wr (env_id env) (K_HelloAck (hd_version hl))
                (c\<lparr>cn_context := Some \<lparr>rc_client = client, rc_pid = pid\<rparr>\<rparr>)
          | None \<Rightarrow> serve_request sd wr hl env k c)"
        unfolding c'_def serve_frame_def env k by (simp only: sum.case no if_False)
      show thesis
      proof (cases "as_hello k")
        case None
        then have "c' = fst (serve_request sd wr hl env k c)"
          by (simp add: step)
        then show thesis using k None by (intro that(3))
      next
        case (Some rp)
        then obtain r p where "as_hello k = Some (r, p)" by (cases rp) simp
        then show thesis
          using k by (intro that(2)) (simp_all add: step)
      qed
    qed
  qed
  then show ?thesis
  proof cases
    case (2 k r p)
    then have "is_hello_frame sd \<lparr>rc_client = r, rc_pid = p\<rparr> f"
      by (simp add: as_hello_Some is_hello_frame_def)
    then show ?thesis using 2 by blast
  next
    case (3 k env)
    then show ?thesis
      using serve_request_cases [of sd wr hl env k c] by (cases "cn_context c") (auto simp: as_hello_None)
  qed auto
qed

text \<open>
  The handler's own log: what it was called with. A run only calls it with a context that a hello
  of this connection announced, and never with the hello itself.
\<close>

definition logging :: "(request_context \<Rightarrow> kind \<Rightarrow> bus_error + kind) \<Rightarrow> string \<Rightarrow>
    (request_context \<times> kind) list handler" where
  "logging f v = \<lparr>hd_handle = (\<lambda>ctx k h. (h @ [(ctx, k)], f ctx k)), hd_version = v\<rparr>"

definition called_after_hello :: "'j serde \<Rightarrow> byte list list \<Rightarrow> request_context \<Rightarrow> kind \<Rightarrow> bool" where
  "called_after_hello sd fs ctx k \<longleftrightarrow>
    (\<exists>j < length fs. sd_kind sd (fs ! j) = Inr k \<and> (\<exists>i < j. is_hello_frame sd ctx (fs ! i)))"

lemma called_append:
  assumes "called_after_hello sd fs ctx k"
  shows "called_after_hello sd (fs @ gs) ctx k"
proof -
  obtain i j where "j < length fs" "sd_kind sd (fs ! j) = Inr k" "i < j" "is_hello_frame sd ctx (fs ! i)"
    using assms unfolding called_after_hello_def by blast
  then show ?thesis unfolding called_after_hello_def
    by (intro exI [of _ j] conjI exI [of _ i]) (simp_all add: nth_append)
qed

lemma called_last:
  assumes "f \<in> set fs" "is_hello_frame sd ctx f" "sd_kind sd g = Inr k"
  shows "called_after_hello sd (fs @ [g]) ctx k"
proof -
  obtain i where "i < length fs" "fs ! i = f" using assms(1) by (auto simp: in_set_conv_nth)
  then show ?thesis unfolding called_after_hello_def using assms(2,3)
    by (intro exI [of _ "length fs"] conjI exI [of _ i]) (simp_all add: nth_append)
qed

definition log_ok :: "'j serde \<Rightarrow> byte list list \<Rightarrow> ((request_context \<times> kind) list, 'w) conn \<Rightarrow> bool" where
  "log_ok sd fs c =
    ((case cn_context c of None \<Rightarrow> cn_handler c = [] | Some ctx \<Rightarrow> \<exists>f \<in> set fs. is_hello_frame sd ctx f) \<and>
     (\<forall>(ctx, k) \<in> set (cn_handler c). called_after_hello sd fs ctx k \<and> (\<forall>r p. k \<noteq> K_Hello r p)))"

lemma log_ok_append: "log_ok sd fs c \<Longrightarrow> log_ok sd (fs @ gs) c"
  unfolding log_ok_def by (cases "cn_context c") (auto dest: called_append)

lemma serve_frame_log:
  assumes "log_ok sd fs c"
  shows "log_ok sd (fs @ [f]) (fst (serve_frame sd wr (logging g v) f c))"
proof -
  have ok: "log_ok sd (fs @ [f]) c" using assms by (rule log_ok_append)
  let ?c = "fst (serve_frame sd wr (logging g v) f c)"
  from serve_frame_cases [OF refl, of sd wr "logging g v" f c]
  consider "cn_context ?c = cn_context c" "cn_handler ?c = cn_handler c"
    | ctx where "is_hello_frame sd ctx f" "cn_context ?c = Some ctx" "cn_handler ?c = cn_handler c"
    | ctx k where "cn_context c = Some ctx" "cn_context ?c = cn_context c" "sd_kind sd f = Inr k"
        "\<forall>r p. k \<noteq> K_Hello r p" "cn_handler ?c = cn_handler c @ [(ctx, k)]"
    by (auto simp: logging_def)
  then show ?thesis
  proof cases
    case 1
    then have "log_ok sd (fs @ [f]) ?c = log_ok sd (fs @ [f]) c" by (simp only: log_ok_def)
    then show ?thesis using ok by simp
  next
    case (2 ctx)
    then show ?thesis using ok by (auto simp: log_ok_def)
  next
    case (3 ctx k)
    then have "called_after_hello sd (fs @ [f]) ctx k" using assms by (auto simp: log_ok_def intro: called_last)
    then show ?thesis using 3 ok by (auto simp: log_ok_def)
  qed
qed

lemma serve_frames_log:
  "log_ok sd fs c \<Longrightarrow> log_ok sd (fs @ gs) (fst (serve_frames sd wr (logging g v) gs c))"
proof (induction gs arbitrary: fs c)
  case (Cons f gs)
  have 1: "log_ok sd (fs @ [f]) (fst (serve_frame sd wr (logging g v) f c))"
    using Cons.prems by (rule serve_frame_log)
  show ?case
  proof (cases "serve_frame sd wr (logging g v) f c")
    case (Pair c' r)
    show ?thesis
    proof (cases r)
      case (Inl e)
      have "log_ok sd (fs @ f # gs) c'" using 1 Pair log_ok_append [of sd "fs @ [f]" c' gs] by simp
      then show ?thesis using Pair Inl by simp
    next
      case (Inr u)
      then show ?thesis using Pair 1 Cons.IH [of "fs @ [f]" c'] by simp
    qed
  qed
qed simp

section \<open>The socket files\<close>

text \<open>
  At bind a left-over socket is reclaimed unless the recorded process is alive. The files present
  and the pid file's text are the state; \<open>alive\<close> is \<open>kill(pid, 0) == 0\<close>.
\<close>

datatype pid_file = PidMissing | PidUnreadable string | PidText string

record socket_files =
  sf_socket :: bool
  sf_pid :: pid_file

text \<open>\<open>str::parse::<i32>\<close>: an optional sign, at least one digit, in range.\<close>

definition parse_i32 :: "string \<Rightarrow> int option" where
  "parse_i32 s =
    (let (sg, ds) = (case s of
        CHR ''-'' # r \<Rightarrow> (-1, r) | CHR ''+'' # r \<Rightarrow> (1, r) | _ \<Rightarrow> (1, s))
     in if ds = [] then None
        else case parse_digits ds 0 of
               None \<Rightarrow> None
             | Some n \<Rightarrow> let v = sg * int n in
                 if - 2147483648 \<le> v \<and> v \<le> 2147483647 then Some v else None)"

text \<open>\<open>faults\<close> are the steps of bind that the system may refuse: the private directory, the removal of a stale
  socket and of its pid file, whose errors are ignored, the listening socket, its mode, and the pid file;
  \<open>own_pid\<close> is the text written to the pid file. A socket that could not be removed keeps its address in use.\<close>

record bind_faults =
  bf_dir :: "bus_error option"
  bf_unlink_socket :: bool
  bf_unlink_pid :: bool
  bf_listen :: "io_error_kind option"
  bf_mode :: "io_error_kind option"
  bf_pid :: "io_error_kind option"

definition unlink_stale :: "bind_faults \<Rightarrow> socket_files \<Rightarrow> socket_files" where
  "unlink_stale faults fs =
    fs\<lparr>sf_socket := bf_unlink_socket faults, sf_pid := if bf_unlink_pid faults then sf_pid fs else PidMissing\<rparr>"

definition reclaim_stale ::
  "(int \<Rightarrow> bool) \<Rightarrow> bind_faults \<Rightarrow> socket_files \<Rightarrow> socket_files \<times> (bus_error + unit)" where
  "reclaim_stale alive faults fs =
    (if \<not> sf_socket fs then (fs, Inr ())
     else case sf_pid fs of
       PidUnreadable e \<Rightarrow> (fs, Inl (Io (OtherIo e)))
     | PidMissing \<Rightarrow> (unlink_stale faults fs, Inr ())
     | PidText s \<Rightarrow>
         let pid = (case parse_i32 (trim s) of Some p \<Rightarrow> p | None \<Rightarrow> 0) in
         if 0 < pid \<and> alive pid
         then (fs, Inl (Domain [Txt ''another cockpit appears to be running (pid '', FInt pid, Txt '')'']))
         else (unlink_stale faults fs, Inr ()))"

definition listen_error :: "bind_faults \<Rightarrow> socket_files \<Rightarrow> io_error_kind option" where
  "listen_error faults fs = (if sf_socket fs then Some (OtherIo ''Address already in use'') else bf_listen faults)"

definition server_bind ::
  "(int \<Rightarrow> bool) \<Rightarrow> bind_faults \<Rightarrow> string \<Rightarrow> socket_files \<Rightarrow> socket_files \<times> (bus_error + unit)" where
  "server_bind alive faults own_pid fs =
    (case bf_dir faults of Some e \<Rightarrow> (fs, Inl e) | None \<Rightarrow>
     case reclaim_stale alive faults fs of (fs1, Inl e) \<Rightarrow> (fs1, Inl e) | (fs1, Inr _) \<Rightarrow>
     case listen_error faults fs1 of Some e \<Rightarrow> (fs1, Inl (Io e)) | None \<Rightarrow>
     let fs2 = fs1\<lparr>sf_socket := True\<rparr> in
     case bf_mode faults of Some e \<Rightarrow> (fs2, Inl (Io e)) | None \<Rightarrow>
     case bf_pid faults of Some e \<Rightarrow> (fs2, Inl (Io e)) | None \<Rightarrow>
     (fs2\<lparr>sf_pid := PidText own_pid\<rparr>, Inr ()))"

definition server_shutdown :: "socket_files \<Rightarrow> socket_files" where
  "server_shutdown fs = fs\<lparr>sf_socket := False, sf_pid := PidMissing\<rparr>"

lemma reclaim_stale_protects:
  assumes "sf_socket fs" "sf_pid fs = PidText s" "parse_i32 (trim s) = Some p" "0 < p" "alive p"
  shows "reclaim_stale alive faults fs =
    (fs, Inl (Domain [Txt ''another cockpit appears to be running (pid '', FInt p, Txt '')'']))"
  using assms by (simp add: reclaim_stale_def)

lemma reclaim_stale_files: "\<exists>b p. fst (reclaim_stale alive faults fs) = fs\<lparr>sf_socket := b, sf_pid := p\<rparr>"
  by (rule exI [of _ "sf_socket (fst (reclaim_stale alive faults fs))"],
      rule exI [of _ "sf_pid (fst (reclaim_stale alive faults fs))"]) simp

lemma server_bind_ok:
  assumes "snd (server_bind alive faults own fs) = Inr ()"
  shows "fst (server_bind alive faults own fs) = fs\<lparr>sf_socket := True, sf_pid := PidText own\<rparr>"
    and "snd (reclaim_stale alive faults fs) = Inr ()"
proof -
  obtain fs1 r where r: "reclaim_stale alive faults fs = (fs1, r)" by (cases "reclaim_stale alive faults fs")
  have "r = Inr ()" using assms r by (cases r) (auto simp: server_bind_def split: option.splits)
  moreover obtain b p where "fs1 = fs\<lparr>sf_socket := b, sf_pid := p\<rparr>"
    using reclaim_stale_files [of alive faults fs] r by auto
  ultimately show "fst (server_bind alive faults own fs) = fs\<lparr>sf_socket := True, sf_pid := PidText own\<rparr>"
    and "snd (reclaim_stale alive faults fs) = Inr ()"
    using assms r by (auto simp: server_bind_def Let_def split: option.splits)
qed

lemma log_ok_start:
  "log_ok sd [] \<lparr>cn_context = None, cn_handler = [], cn_writer = w\<rparr>"
  by (simp add: log_ok_def)

section \<open>Properties\<close>

text \<open>C27: On any input of well-framed messages the byte loop of a connection does what the message
  machine does: each message is handled in order, and the first failing reply ends it.\<close>

theorem byte_loop_refines_messages:
  assumes "list_all (\<lambda>f. length f \<le> MAX_FRAME_BYTES) fs"
  shows "serve_connection sd wr hl (Inr uid) uid (concat (map encode_frame fs)) h w =
    serve_frames sd wr hl fs \<lparr>cn_context = None, cn_handler = h, cn_writer = w\<rparr>"
  using assms by (simp add: serve_connection_def serve_loop_refines)

theorem byte_loop_refines_messages_witness:
  "\<forall>sd wr hl h w. serve_connection sd wr hl (Inr 0) 0 (concat (map encode_frame [[1], []])) h w =
    serve_frames sd wr hl [[1], []] \<lparr>cn_context = None, cn_handler = h, cn_writer = w\<rparr>"
  by (intro allI byte_loop_refines_messages) (simp add: MAX_FRAME_BYTES_def)

text \<open>C28: A connection reaches the handler only through a hello and only for the cockpit's own user. When the peer is
  of that user, every call of the handler is for a request that is one of the messages, not a hello itself,
  and carries a client and pid that a hello earlier among the messages announced. When it is of another
  user, the handler is not called, no context is kept, and the end of the connection, with all that is written
  to the peer, is the same whatever the peer sends and whatever the handler is: none of its bytes is read; what is written is at most
  the error that the peer is denied.\<close>

theorem handler_only_after_hello:
  assumes "list_all (\<lambda>f. length f \<le> MAX_FRAME_BYTES) fs"
  shows "(\<forall>(ctx, k) \<in> set (cn_handler (fst (serve_connection sd wr (logging g v) (Inr peer) own
            (concat (map encode_frame fs)) [] w))).
      peer = own \<and> called_after_hello sd fs ctx k \<and> as_hello k = None) \<and>
    (peer \<noteq> own \<longrightarrow> (\<forall>hl hl' h bytes bytes'.
      serve_connection sd wr hl (Inr peer) own bytes h w = serve_connection sd wr hl' (Inr peer) own bytes' h w \<and>
      snd (serve_connection sd wr hl (Inr peer) own bytes h w) = Inr () \<and>
      fst (serve_connection sd wr hl (Inr peer) own bytes h w) =
        \<lparr>cn_context = None, cn_handler = h, cn_writer = fst (write_error sd wr nil_uuid
          \<lparr>ep_code = EC_PeerDenied, ep_message = [Txt ''peer uid '', FNat peer, Txt '' != cockpit uid '', FNat own],
           ep_kind_received = None, ep_in_reply_to = None\<rparr> w)\<rparr>))"
proof (cases "peer = own")
  case True
  let ?c = "\<lparr>cn_context = None, cn_handler = [], cn_writer = w\<rparr>"
  have "log_ok sd ([] @ fs) (fst (serve_frames sd wr (logging g v) fs ?c))"
    by (rule serve_frames_log) (rule log_ok_start)
  then show ?thesis using True assms
    by (auto simp: serve_connection_def serve_loop_refines log_ok_def as_hello_None)
next
  case False
  then show ?thesis by (simp add: serve_connection_def send_error_def split: prod.split)
qed

text \<open>A client that says hello and asks for the status, and the same bytes from another user.\<close>

definition two_frames :: "unit serde" where
  "two_frames = \<lparr>sd_envelope = (\<lambda>f. Inr \<lparr>env_v = 2, env_kind = (if f = [1] then ''hello'' else ''status.get''), env_id = 7\<rparr>),
     sd_kind = (\<lambda>f. Inr (if f = [1] then K_Hello LmuxCli 4 else K_StatusGet)), sd_to_value = (\<lambda>_. Inr ()),
     sd_is_object = (\<lambda>_. True), sd_put_version = (\<lambda>_ j. j), sd_put_id = (\<lambda>_ j. j), sd_to_vec = (\<lambda>_. Inr [])\<rparr>"

definition collect :: "byte list writer" where
  "collect = \<lparr>wr_put = (\<lambda>b w. (w @ b, None)), wr_flush = (\<lambda>w. (w, None))\<rparr>"

theorem handler_only_after_hello_witness:
  "\<forall>g v. let run = (\<lambda>uid bytes. serve_connection two_frames collect (logging g v) (Inr uid) 5 bytes [] []);
      c = fst (run 5 (concat (map encode_frame [[1], [2]])))
    in cn_handler c = [(\<lparr>rc_client = LmuxCli, rc_pid = 4\<rparr>, K_StatusGet)] \<and>
      list_all (\<lambda>(ctx, k). called_after_hello two_frames [[1], [2]] ctx k) (cn_handler c) \<and>
      (\<forall>bytes. run 6 bytes = run 6 [])"
proof (intro allI)
  fix g v
  let ?run = "\<lambda>uid bytes. serve_connection two_frames collect (logging g v) (Inr uid) 5 bytes [] []"
  let ?c = "fst (?run 5 (concat (map encode_frame [[1], [2]])))"
  have fs: "list_all (\<lambda>f. length f \<le> MAX_FRAME_BYTES) [[1], [2 :: byte]]" by (simp add: MAX_FRAME_BYTES_def)
  have log: "cn_handler ?c = [(\<lparr>rc_client = LmuxCli, rc_pid = 4\<rparr>, K_StatusGet)]"
    unfolding serve_connection_def serve_loop_refines [OF fs]
    by (simp add: serve_frame_def two_frames_def envelope_parse_def PROTOCOL_VERSION_def as_hello_def send_kind_def
        write_response_def write_frame_def collect_def MAX_FRAME_BYTES_def serve_request_def logging_def send_error_def
        write_error_def Let_def split: prod.split sum.split)
  note t5 = handler_only_after_hello [OF fs, of two_frames collect g v 5 5 "[]"]
  note t6 = handler_only_after_hello [OF fs, of two_frames collect g v 6 5 "[]"]
  have "list_all (\<lambda>(ctx, k). called_after_hello two_frames [[1], [2]] ctx k) (cn_handler ?c)"
    using t5 unfolding list_all_iff by auto
  moreover have n: "(6 :: nat) \<noteq> 5" by simp
  have "?run 6 bytes = ?run 6 []" for bytes
    using mp [OF conjunct2 [OF t6] n, THEN spec [where x = "logging g v"], THEN spec [where x = "logging g v"],
      THEN spec [where x = "[]"], THEN spec [where x = bytes], THEN spec [where x = "[]"]] by (rule conjunct1)
  then have "\<forall>bytes. ?run 6 bytes = ?run 6 []" by (rule allI)
  ultimately show "let run = ?run; c = fst (run 5 (concat (map encode_frame [[1], [2]])))
    in cn_handler c = [(\<lparr>rc_client = LmuxCli, rc_pid = 4\<rparr>, K_StatusGet)] \<and>
      list_all (\<lambda>(ctx, k). called_after_hello two_frames [[1], [2]] ctx k) (cn_handler c) \<and>
      (\<forall>bytes. run 6 bytes = run 6 [])"
    using log by (simp only: Let_def) blast
qed

text \<open>C39: At bind, a socket whose pid file names a live process is left alone with an error, and after
  a bind that succeeds the socket is there and the pid file names this process.\<close>

theorem bind_protects_live_cockpit:
  "(case server_bind alive faults own fs of
      (fs', Inr _) \<Rightarrow> fs' = fs\<lparr>sf_socket := True, sf_pid := PidText own\<rparr> \<and>
        (if sf_socket fs then (case sf_pid fs of
            PidText s \<Rightarrow> (case parse_i32 (trim s) of None \<Rightarrow> True | Some p \<Rightarrow> \<not> (0 < p \<and> alive p))
          | PidMissing \<Rightarrow> True | PidUnreadable e \<Rightarrow> False) else True)
    | (fs', Inl _) \<Rightarrow>
        (case sf_pid fs of PidText s \<Rightarrow> (case parse_i32 (trim s) of None \<Rightarrow> True
          | Some p \<Rightarrow> if sf_socket fs \<and> 0 < p \<and> alive p then fs' = fs else True) | _ \<Rightarrow> True))"
proof (cases "server_bind alive faults own fs")
  case (Pair fs' r)
  show ?thesis
  proof (cases r)
    case (Inr u)
    then have ok: "snd (server_bind alive faults own fs) = Inr ()" using Pair by simp
    have "fs' = fs\<lparr>sf_socket := True, sf_pid := PidText own\<rparr>" using server_bind_ok(1) [OF ok] Pair by simp
    moreover have "snd (reclaim_stale alive faults fs) = Inr ()" by (rule server_bind_ok(2) [OF ok])
    ultimately show ?thesis using Pair Inr
      by (auto simp: reclaim_stale_def Let_def split: pid_file.splits option.splits if_splits)
  next
    case (Inl e)
    have "fst (server_bind alive faults own fs) = fs"
      if "sf_pid fs = PidText s" "parse_i32 (trim s) = Some p" "sf_socket fs" "0 < p" "alive p" for s p
      using that reclaim_stale_protects [of fs s p alive faults]
      by (auto simp: server_bind_def split: option.splits)
    then show ?thesis using Pair Inl by (auto split: pid_file.splits option.splits)
  qed
qed

end
