(* ===== verification/Search.thy ===== *)
theory Search
  imports Prelude
begin

text \<open>
  Scrollback search in a terminal pane, \<open>crates/lmux/src/pane.rs\<close>: finding the query in lines of
  text, keeping the visible and the scrollback matches, and stepping through them. The terminal
  engine is a parameter, and so is the lower-casing of the standard library (\<open>str::to_lowercase\<close>, from
  the tables of Unicode). A text is the list of its bytes in UTF-8, as in Rust: lengths and offsets
  count bytes, columns count characters, and cutting a text inside a character panics.
\<close>

record screen_point =
  sp_row :: nat
  sp_col :: nat

record search_match =
  sm_start :: screen_point
  sm_end :: screen_point

record search_state =
  sh_query :: string
  sh_matches :: "search_match list"
  sh_active :: "search_match option"
  sh_scrollback :: "search_match list option"

section \<open>Matches in a line\<close>

text \<open>ASCII lower-casing (\<open>to_ascii_lowercase\<close>), used elsewhere in the program.\<close>

definition to_lower :: "char \<Rightarrow> char" where
  "to_lower c = (let n = of_char c :: nat in if 65 \<le> n \<and> n \<le> 90 then char_of (n + 32) else c)"

definition to_ascii_lowercase :: "string \<Rightarrow> string" where
  "to_ascii_lowercase s = map to_lower s"

text \<open>Lower-casing of whole texts, characters as they start in a text, and cutting a text at an offset.\<close>

type_synonym lowering = "string \<Rightarrow> string"

definition continues :: "char \<Rightarrow> bool" where
  "continues c = (let n = of_char c :: nat in 128 \<le> n \<and> n < 192)"

definition char_count :: "string \<Rightarrow> nat" where
  "char_count s = length (filter (\<lambda>c. \<not> continues c) s)"

definition is_char_boundary :: "string \<Rightarrow> nat \<Rightarrow> bool" where
  "is_char_boundary s i = (i = 0 \<or> i = length s \<or> (i < length s \<and> \<not> continues (s ! i)))"

datatype 'a call = Returned 'a | Panicked

fun all_calls :: "'a call list \<Rightarrow> 'a list call" where
  "all_calls [] = Returned []"
| "all_calls (Panicked # cs) = Panicked"
| "all_calls (Returned x # cs) = map_call (\<lambda>xs. x # xs) (all_calls cs)"

definition slice_to :: "string \<Rightarrow> nat \<Rightarrow> string call" where
  "slice_to s i = (if is_char_boundary s i then Returned (take i s) else Panicked)"

definition starts_with :: "string \<Rightarrow> string \<Rightarrow> bool" where
  "starts_with n s = (take (length n) s = n)"

fun find_sub :: "string \<Rightarrow> string \<Rightarrow> nat option" where
  "find_sub n s =
    (if starts_with n s then Some 0
     else (case s of [] \<Rightarrow> None | _ # r \<Rightarrow> map_option Suc (find_sub n r)))"

declare find_sub.simps [simp del]

definition u16_max :: nat where
  "u16_max = 65535"

definition add_u32_wrap :: "nat \<Rightarrow> nat \<Rightarrow> nat" where
  "add_u32_wrap a b = (a + b) mod (u32_max + 1)"

definition match_at :: "nat \<Rightarrow> nat \<Rightarrow> nat \<Rightarrow> search_match" where
  "match_at row query_width start_col =
    (let end_col = start_col + query_width - 1
     in \<lparr>sm_start = \<lparr>sp_row = row, sp_col = min start_col u16_max\<rparr>,
         sm_end = \<lparr>sp_row = row, sp_col = min end_col u16_max\<rparr>\<rparr>)"

text \<open>The loop over offsets; each hit moves at least one character on.\<close>

lemma find_sub_bound: "find_sub n s = Some i \<Longrightarrow> i \<le> length s"
proof (induction s arbitrary: i)
  case Nil
  then show ?case by (auto simp: find_sub.simps [of n "[]"] split: if_splits)
next
  case (Cons c s)
  then show ?case by (auto simp: find_sub.simps [of n "c # s"] split: if_splits)
qed

function line_loop :: "string \<Rightarrow> string \<Rightarrow> nat \<Rightarrow> nat list \<Rightarrow> nat list" where
  "line_loop needle haystack offset out =
    (case find_sub needle (drop offset haystack) of
       None \<Rightarrow> out
     | Some relative \<Rightarrow>
         let start = offset + relative;
             out' = out @ [start];
             offset' = start + max (length needle) 1
         in if length haystack \<le> offset' then out' else line_loop needle haystack offset' out')"
  by pat_completeness auto

termination
  by (relation "measure (\<lambda>(needle, haystack, offset, out). length haystack - offset)") auto

declare line_loop.simps [simp del]

text \<open>
  The lower-cased line is searched from the end of the last hit, which is the end of a character, so
  that slice cannot panic; the line itself is cut at the hit's offset in the lower-cased one.
\<close>

definition column_of_hit :: "string \<Rightarrow> nat \<Rightarrow> nat call" where
  "column_of_hit line start_byte = map_call char_count (slice_to line start_byte)"

definition find_matches_in_line :: "lowering \<Rightarrow> nat \<Rightarrow> string \<Rightarrow> string \<Rightarrow> search_match list call" where
  "find_matches_in_line low row line query =
    (let needle = low query
     in if needle = [] then Returned []
        else all_calls (map (\<lambda>p. map_call (match_at row (max (char_count query) 1)) (column_of_hit line p))
          (line_loop needle (low line) 0 [])))"

section \<open>Matches in a text\<close>

fun split_lines :: "string \<Rightarrow> string \<Rightarrow> string list" where
  "split_lines [] acc = (if acc = [] then [] else [acc])"
| "split_lines (c # cs) acc = (if c = CHR 0x0A then acc # split_lines cs [] else split_lines cs (acc @ [c]))"

definition strip_cr :: "string \<Rightarrow> string" where
  "strip_cr l = (if l \<noteq> [] \<and> last l = CHR 0x0D then butlast l else l)"

text \<open>\<open>str::lines\<close>: the text up to each newline, without a carriage return before it.\<close>

definition str_lines :: "string \<Rightarrow> string list" where
  "str_lines s = map strip_cr (split_lines s [])"

definition matches_in_rows :: "lowering \<Rightarrow> nat \<Rightarrow> string list \<Rightarrow> string \<Rightarrow> search_match list call" where
  "matches_in_rows low first_row rows query =
    map_call concat (all_calls (map (\<lambda>(i, l). find_matches_in_line low (add_u32_wrap first_row i) l query)
      (zip [0..<length rows] rows)))"

definition find_matches_in_text :: "lowering \<Rightarrow> nat \<Rightarrow> string \<Rightarrow> string \<Rightarrow> search_match list call" where
  "find_matches_in_text low first_row text query = matches_in_rows low first_row (str_lines text) query"

section \<open>The terminal and the visible rows\<close>

record 't term_ops =
  tm_top :: "'t \<Rightarrow> nat option"
  tm_scroll_delta :: "int \<Rightarrow> 't \<Rightarrow> 't"
  tm_scroll_to_bottom :: "'t \<Rightarrow> 't"
  tm_screen_point :: "nat \<times> nat \<Rightarrow> 't \<Rightarrow> screen_point option"
  tm_selection_text :: "screen_point \<Rightarrow> screen_point \<Rightarrow> 't \<Rightarrow> string option"
  tm_render :: "'t \<Rightarrow> nat \<times> (nat \<times> nat \<times> string) list"
  tm_lower :: lowering

definition pad_to_column :: "string \<Rightarrow> nat \<Rightarrow> string" where
  "pad_to_column row col = row @ replicate (col - char_count row) CHR '' ''"

definition visit_cell :: "nat \<times> nat \<times> string \<Rightarrow> string list \<Rightarrow> string list" where
  "visit_cell cell rows =
    (let (r, c, text) = cell
     in if r < length rows then rows[r := pad_to_column (rows ! r) c @ text] else rows)"

definition visible_rows :: "nat \<times> (nat \<times> nat \<times> string) list \<Rightarrow> string list" where
  "visible_rows frame = fold visit_cell (snd frame) (replicate (fst frame) [])"

definition visible_search_matches :: "'t term_ops \<Rightarrow> 't \<Rightarrow> string \<Rightarrow> search_match list call" where
  "visible_search_matches tm t query =
    (if query = [] \<or> char_count query = 0 then Returned []
     else (case tm_top tm t of
       None \<Rightarrow> Returned []
     | Some vtop \<Rightarrow> matches_in_rows (tm_lower tm) vtop (visible_rows (tm_render tm t)) query))"

definition SCROLLBACK :: int where
  "SCROLLBACK = 100000"

definition scrollback_search_matches ::
  "'t term_ops \<Rightarrow> 't \<Rightarrow> string \<Rightarrow> nat \<Rightarrow> nat \<Rightarrow> 't \<times> search_match list option call" where
  "scrollback_search_matches tm t query cols rows =
    (if query = [] then (t, Returned (Some []))
     else case tm_top tm t of
       None \<Rightarrow> (t, Returned None)
     | Some original_top \<Rightarrow>
       let scroll_extent = SCROLLBACK + max (int rows) 1;
           t1 = tm_scroll_delta tm (- scroll_extent) t;
           vtop = tm_top tm t1;
           t2 = tm_scroll_to_bottom tm t1;
           bottom_top = tm_top tm t2;
           bottom = tm_screen_point tm (rows - 1, cols - 1) t2;
           text = (case (vtop, bottom) of
              (Some tp, Some bt) \<Rightarrow> tm_selection_text tm \<lparr>sp_row = tp, sp_col = 0\<rparr> bt t2
            | _ \<Rightarrow> None);
           restore_from = (case bottom_top of Some b \<Rightarrow> b | None \<Rightarrow> original_top);
           t3 = tm_scroll_delta tm (int original_top - int restore_from) t2
       in (t3, case (vtop, text) of
            (Some tp, Some tx) \<Rightarrow> map_call Some (find_matches_in_text (tm_lower tm) tp tx query) | _ \<Rightarrow> Returned None))"

section \<open>The search state of a pane\<close>

text \<open>
  A panic ends the process where it happens (it cannot unwind through the toolkit's callbacks): it is noted, and what
  the model computes from then on is not reached by the program.
\<close>

record 't inner =
  in_term :: 't
  in_cols :: nat
  in_rows :: nat
  in_search :: "search_state option"
  in_panicked :: bool

definition note_panic :: "'t inner \<Rightarrow> 't inner" where
  "note_panic s = s\<lparr>in_panicked := True\<rparr>"

definition refresh_search_matches :: "'t term_ops \<Rightarrow> bool \<Rightarrow> 't inner \<Rightarrow> 't inner" where
  "refresh_search_matches tm select_first s =
    (case in_search s of
       None \<Rightarrow> s
     | Some st \<Rightarrow>
       let (t', found) = scrollback_search_matches tm (in_term s) (sh_query st) (in_cols s) (in_rows s);
           s1 = s\<lparr>in_term := t'\<rparr>
       in (case (found, visible_search_matches tm t' (sh_query st)) of
           (Returned scrollback, Returned ms) \<Rightarrow>
             let act = (if select_first then (case ms of [] \<Rightarrow> None | m # _ \<Rightarrow> Some m)
                  else (case sh_active st of
                     None \<Rightarrow> None
                   | Some a \<Rightarrow> (case scrollback of None \<Rightarrow> None | Some xs \<Rightarrow> if a \<in> set xs then Some a else None)))
             in s1\<lparr>in_search := Some (st\<lparr>sh_matches := ms, sh_active := act, sh_scrollback := scrollback\<rparr>)\<rparr>
         | _ \<Rightarrow> note_panic s1))"

definition set_search_query :: "'t term_ops \<Rightarrow> string \<Rightarrow> 't inner \<Rightarrow> 't inner" where
  "set_search_query tm query s =
    (if query = [] then s\<lparr>in_search := None\<rparr>
     else refresh_search_matches tm True
       (s\<lparr>in_search := Some \<lparr>sh_query = query, sh_matches = [], sh_active = None, sh_scrollback = None\<rparr>\<rparr>))"

definition refresh_visible_search_matches :: "'t term_ops \<Rightarrow> bool \<Rightarrow> 't inner \<Rightarrow> 't inner" where
  "refresh_visible_search_matches tm select_first s =
    (case in_search s of
       None \<Rightarrow> s
     | Some st \<Rightarrow> (case visible_search_matches tm (in_term s) (sh_query st) of
         Panicked \<Rightarrow> note_panic s
       | Returned ms \<Rightarrow>
           let act = (if select_first then (case ms of [] \<Rightarrow> None | m # _ \<Rightarrow> Some m) else sh_active st)
           in s\<lparr>in_search := Some (st\<lparr>sh_matches := ms, sh_active := act\<rparr>)\<rparr>))"

definition search_match_order_key :: "search_match \<Rightarrow> nat \<times> nat" where
  "search_match_order_key m = (sp_row (sm_start m), sp_col (sm_start m))"

definition scroll_search_match_into_view :: "'t term_ops \<Rightarrow> search_match \<Rightarrow> 't inner \<Rightarrow> 't inner" where
  "scroll_search_match_into_view tm act s =
    (case tm_top tm (in_term s) of
       None \<Rightarrow> s
     | Some vtop \<Rightarrow>
       let rows = max (in_rows s) 1;
           bottom = sat_add_u32 vtop (rows - 1);
           row = sp_row (sm_start act)
       in if vtop \<le> row \<and> row \<le> bottom then s
          else let target_top = row - rows div 2
               in s\<lparr>in_term := tm_scroll_delta tm (int target_top - int vtop) (in_term s)\<rparr>)"

definition set_active_search_match :: "search_match \<Rightarrow> 't inner \<Rightarrow> 't inner" where
  "set_active_search_match act s =
    s\<lparr>in_search := map_option (\<lambda>st. st\<lparr>sh_active := Some act\<rparr>) (in_search s)\<rparr>"

definition adjacent_match :: "nat option \<Rightarrow> nat \<Rightarrow> bool \<Rightarrow> search_match option \<Rightarrow> search_match list \<Rightarrow> search_match option" where
  "adjacent_match top_opt rows forward act ms =
    (case (forward, act) of
       (True, Some a) \<Rightarrow> List.find (\<lambda>m. search_match_order_key a < search_match_order_key m) ms
     | (False, Some a) \<Rightarrow> List.find (\<lambda>m. search_match_order_key m < search_match_order_key a) (rev ms)
     | (True, None) \<Rightarrow>
         (case (case top_opt of None \<Rightarrow> None | Some vtop \<Rightarrow> List.find (\<lambda>m. vtop \<le> sp_row (sm_start m)) ms) of
            Some m \<Rightarrow> Some m | None \<Rightarrow> (case ms of [] \<Rightarrow> None | m # _ \<Rightarrow> Some m))
     | (False, None) \<Rightarrow>
         (case (case top_opt of None \<Rightarrow> None
                | Some vtop \<Rightarrow> List.find (\<lambda>m. sp_row (sm_start m) \<le> sat_add_u32 vtop (rows - 1)) (rev ms)) of
            Some m \<Rightarrow> Some m | None \<Rightarrow> (if ms = [] then None else Some (last ms))))"

definition select_adjacent_scrollback_match :: "'t term_ops \<Rightarrow> bool \<Rightarrow> 't inner \<Rightarrow> 't inner \<times> bool" where
  "select_adjacent_scrollback_match tm forward s0 =
    (let s = refresh_search_matches tm False s0 in
     if in_panicked s then (s, False)
     else case in_search s of
       None \<Rightarrow> (s, False)
     | Some st \<Rightarrow> (case sh_scrollback st of
         None \<Rightarrow> (s, False)
       | Some ms \<Rightarrow>
         if ms = [] then (s, False)
         else (case adjacent_match (tm_top tm (in_term s)) (in_rows s) forward (sh_active st) ms of
            None \<Rightarrow> (s, False)
          | Some found \<Rightarrow>
              (refresh_visible_search_matches tm False
                 (scroll_search_match_into_view tm found (set_active_search_match found s)), True))))"

definition search_status :: "'t inner \<Rightarrow> string" where
  "search_status s =
    (case in_search s of
       None \<Rightarrow> ''Type to search''
     | Some st \<Rightarrow> (case map_option length (sh_scrollback st) of
         Some 0 \<Rightarrow> ''No matches found in scrollback''
       | Some (Suc 0) \<Rightarrow> ''1 found in scrollback''
       | Some n \<Rightarrow> show_nat n @ '' found in scrollback''
       | None \<Rightarrow> ''Scrollback count unavailable''))"

section \<open>What the loop finds\<close>

text \<open>The reference: leftmost occurrences, none overlapping the one before.\<close>

definition occurs_at :: "string \<Rightarrow> string \<Rightarrow> nat \<Rightarrow> bool" where
  "occurs_at n s i = (i + length n \<le> length s \<and> take (length n) (drop i s) = n)"

lemma starts_with_occurs: "starts_with n s \<longleftrightarrow> occurs_at n s 0"
  by (auto simp: starts_with_def occurs_at_def) (metis length_take min.cobounded1)

lemma occurs_at_Suc [simp]: "occurs_at n (c # s) (Suc i) = occurs_at n s i"
  by (simp add: occurs_at_def)

lemma find_sub_Some:
  "find_sub n s = Some i \<Longrightarrow> occurs_at n s i \<and> (\<forall>j<i. \<not> occurs_at n s j)"
proof (induction s arbitrary: i)
  case Nil
  then show ?case by (auto simp: find_sub.simps [of n "[]"] starts_with_occurs split: if_splits)
next
  case (Cons c s)
  show ?case
  proof (cases "starts_with n (c # s)")
    case True
    then show ?thesis using Cons.prems by (simp add: find_sub.simps [of n "c # s"] starts_with_occurs)
  next
    case False
    then obtain k where k: "find_sub n s = Some k" "i = Suc k"
      using Cons.prems by (auto simp: find_sub.simps [of n "c # s"])
    have "\<not> occurs_at n (c # s) j" if "j < i" for j
      using that Cons.IH [OF k(1)] False k(2) by (cases j) (auto simp: starts_with_occurs)
    then show ?thesis using Cons.IH [OF k(1)] k(2) by simp
  qed
qed

lemma find_sub_None: "find_sub n s = None \<Longrightarrow> \<not> occurs_at n s i"
proof (induction s arbitrary: i)
  case Nil
  then show ?case
    by (auto simp: find_sub.simps [of n "[]"] starts_with_occurs occurs_at_def split: if_splits)
next
  case (Cons c s)
  then have "\<not> occurs_at n (c # s) 0" "find_sub n s = None"
    by (auto simp: find_sub.simps [of n "c # s"] starts_with_occurs split: if_splits)
  then show ?case using Cons.IH by (cases i) auto
qed

lemma occurs_at_drop':
  assumes "n \<noteq> []"
  shows "occurs_at n (drop k s) i \<longleftrightarrow> occurs_at n s (k + i)"
proof -
  have "0 < length n" using assms by simp
  then have "i + length n \<le> length s - k \<longleftrightarrow> k + i + length n \<le> length s" by linarith
  then show ?thesis by (simp add: occurs_at_def add.commute)
qed

text \<open>A list of positions is the greedy cover of the occurrences from an offset on.\<close>

fun greedy_cover :: "string \<Rightarrow> string \<Rightarrow> nat \<Rightarrow> nat list \<Rightarrow> bool" where
  "greedy_cover n s k [] = (\<forall>i\<ge>k. \<not> occurs_at n s i)"
| "greedy_cover n s k (p # ps) =
    (k \<le> p \<and> occurs_at n s p \<and> (\<forall>i. k \<le> i \<and> i < p \<longrightarrow> \<not> occurs_at n s i) \<and>
     greedy_cover n s (p + length n) ps)"

lemma greedy_cover_empty: "n \<noteq> [] \<Longrightarrow> length s \<le> k \<Longrightarrow> greedy_cover n s k []"
  by (auto simp: occurs_at_def)

lemma line_loop_cover:
  assumes "n \<noteq> []"
  shows "\<exists>ps. line_loop n s k out = out @ ps \<and> greedy_cover n s k ps"
  using assms
proof (induction n s k out rule: line_loop.induct)
  case (1 n s k out)
  show ?case
  proof (cases "find_sub n (drop k s)")
    case None
    then have "\<not> occurs_at n s i" if "k \<le> i" for i
      using find_sub_None [OF None, of "i - k"] that 1(2) by (simp add: occurs_at_drop')
    then show ?thesis using None by (subst line_loop.simps) (auto intro: exI [of _ "[]"])
  next
    case (Some r)
    let ?k = "k + r + length n"
    have m: "max (length n) 1 = length n" using 1(2) by (cases n) auto
    have hit: "occurs_at n s (k + r)" "\<And>i. k \<le> i \<Longrightarrow> i < k + r \<Longrightarrow> \<not> occurs_at n s i"
    proof -
      show "occurs_at n s (k + r)" using find_sub_Some [OF Some] 1(2) by (simp add: occurs_at_drop')
      fix i assume "k \<le> i" "i < k + r"
      then show "\<not> occurs_at n s i"
        using find_sub_Some [OF Some] 1(2) by (auto simp: occurs_at_drop' dest: spec [of _ "i - k"])
    qed
    show ?thesis
    proof (cases "length s \<le> ?k")
      case True
      then have "line_loop n s k out = out @ [k + r]"
        using Some m by (subst line_loop.simps) (simp add: Let_def)
      moreover have "greedy_cover n s k [k + r]" using hit greedy_cover_empty [OF 1(2) True] by simp
      ultimately show ?thesis by blast
    next
      case False
      have "\<exists>ps. line_loop n s ?k (out @ [k + r]) = (out @ [k + r]) @ ps \<and> greedy_cover n s ?k ps"
        using 1(1) [OF Some refl refl refl] False m 1(2) by simp
      then obtain ps where ps: "line_loop n s ?k (out @ [k + r]) = (out @ [k + r]) @ ps" "greedy_cover n s ?k ps"
        by blast
      have "line_loop n s k out = line_loop n s ?k (out @ [k + r])"
        using Some False m by (subst line_loop.simps) (simp add: Let_def)
      then have "line_loop n s k out = out @ (k + r) # ps" using ps(1) by simp
      moreover have "greedy_cover n s k ((k + r) # ps)" using hit ps(2) by simp
      ultimately show ?thesis by blast
    qed
  qed
qed

lemma greedy_cover_positions: "greedy_cover n s k ps \<Longrightarrow> p \<in> set ps \<Longrightarrow> k \<le> p \<and> occurs_at n s p"
  by (induction ps arbitrary: k) (auto, fastforce)

lemma greedy_cover_spaced:
  "n \<noteq> [] \<Longrightarrow> greedy_cover n s k ps \<Longrightarrow> sorted_wrt (\<lambda>p q. p + length n \<le> q) ps"
  by (induction ps arbitrary: k) (auto dest: greedy_cover_positions)

text \<open>An occurrence that is not reported overlaps a reported one that starts before it.\<close>

lemma greedy_cover_misses:
  "greedy_cover n s k ps \<Longrightarrow> k \<le> i \<Longrightarrow> occurs_at n s i \<Longrightarrow> i \<notin> set ps \<Longrightarrow>
    \<exists>p \<in> set ps. p < i \<and> i < p + length n"
proof (induction ps arbitrary: k)
  case (Cons p ps)
  show ?case
  proof (cases "i < p + length n")
    case True
    then have "p < i" using Cons.prems by (metis greedy_cover.simps(2) list.set_intros(1) not_less_iff_gr_or_eq)
    then show ?thesis using True by auto
  next
    case False
    then show ?thesis using Cons.IH [of "p + length n"] Cons.prems by auto
  qed
qed auto

section \<open>Columns\<close>

text \<open>
  Lower-casing keeps the places of a line when every character of the lower-cased line starts where a
  character of the line starts, after as many characters: so it is for ASCII and for most letters.
\<close>

definition keeps_places :: "lowering \<Rightarrow> string \<Rightarrow> bool" where
  "keeps_places low line \<longleftrightarrow>
    (\<forall>i < length (low line). \<not> continues (low line ! i) \<longrightarrow>
      is_char_boundary line i \<and> char_count (take i line) = char_count (take i (low line)))"

lemma all_calls_returned: "all_calls (map (\<lambda>x. Returned (f x)) xs) = Returned (map f xs)"
  by (induction xs) simp_all

lemma occurs_hd:
  assumes "n \<noteq> []" "occurs_at n s p"
  shows "p < length s \<and> s ! p = hd n"
proof -
  have l: "p < length s" and t: "take (length n) (drop p s) = n"
    using assms by (auto simp: occurs_at_def) (metis length_greater_0_conv less_add_same_cancel1 order_less_le_trans)
  have "hd n = hd (take (length n) (drop p s))" by (simp add: t)
  also have "\<dots> = s ! p" using l assms(1) by (simp add: hd_take hd_drop_conv_nth)
  finally show ?thesis using l by simp
qed

lemma to_lower_continues [simp]: "continues (to_lower c) = continues c"
  by (auto simp: to_lower_def continues_def Let_def)

lemma ascii_keeps_places: "keeps_places to_ascii_lowercase line"
proof -
  have "char_count (map to_lower xs) = char_count xs" for xs by (induction xs) (simp_all add: char_count_def)
  then show ?thesis
    by (auto simp: keeps_places_def to_ascii_lowercase_def is_char_boundary_def take_map)
qed

text \<open>Where lower-casing moves the characters the column is wrong, or the cut panics: the dotted capital I becomes
  an i and a combining dot, a byte more.\<close>

lemma column_after_dotted_I:
  assumes "low [CHR 0xC4, CHR 0xB0, CHR ''x''] = [CHR 0x69, CHR 0xCC, CHR 0x87, CHR ''x'']" "low ''x'' = ''x''"
  shows "find_matches_in_line low row [CHR 0xC4, CHR 0xB0, CHR ''x''] ''x'' = Returned [match_at row 1 2]"
    and "char_count (take 2 [CHR 0xC4, CHR 0xB0, CHR ''x'']) = 1"
  using assms
  by (simp_all add: find_matches_in_line_def line_loop.simps find_sub.simps starts_with_def column_of_hit_def slice_to_def
      is_char_boundary_def char_count_def continues_def numeral_2_eq_2)

lemma search_panics_after_dotted_I:
  assumes "low [CHR 0xC4, CHR 0xB0, CHR 0xE2, CHR 0x82, CHR 0xAC] = [CHR 0x69, CHR 0xCC, CHR 0x87, CHR 0xE2, CHR 0x82, CHR 0xAC]"
    and "low [CHR 0xE2, CHR 0x82, CHR 0xAC] = [CHR 0xE2, CHR 0x82, CHR 0xAC]"
  shows "find_matches_in_line low row [CHR 0xC4, CHR 0xB0, CHR 0xE2, CHR 0x82, CHR 0xAC] [CHR 0xE2, CHR 0x82, CHR 0xAC] = Panicked"
  using assms
  by (simp add: find_matches_in_line_def line_loop.simps find_sub.simps starts_with_def column_of_hit_def slice_to_def
      is_char_boundary_def char_count_def continues_def)

section \<open>Properties\<close>


text \<open>The Euro sign, of three bytes, before the hit: the column counts it once.\<close>

definition euro_line :: string where
  "euro_line = [CHR 0xE2, CHR 0x82, CHR 0xAC] @ ''Aaa''"


text \<open>Stepping forward from a match takes the first match after it and skips none, stepping
  backward the last one before it; when there is none the search stays where it is.\<close>
theorem step_takes_the_neighbour:
  assumes "sorted (map search_match_order_key ms)"
  shows "(adjacent_match vt rows True (Some a) ms = Some m \<longrightarrow>
      m \<in> set ms \<and> search_match_order_key a < search_match_order_key m \<and>
      (\<forall>x \<in> set ms. search_match_order_key a < search_match_order_key x \<longrightarrow>
         search_match_order_key m \<le> search_match_order_key x)) \<and>
    (adjacent_match vt rows False (Some a) ms = Some m \<longrightarrow>
      m \<in> set ms \<and> search_match_order_key m < search_match_order_key a \<and>
      (\<forall>x \<in> set ms. search_match_order_key x < search_match_order_key a \<longrightarrow>
         search_match_order_key x \<le> search_match_order_key m)) \<and>
    (adjacent_match vt rows True (Some a) ms = None \<longleftrightarrow>
      (\<forall>x \<in> set ms. \<not> search_match_order_key a < search_match_order_key x))"
proof -
  let ?k = search_match_order_key
  have first: "List.find P xs = Some m \<Longrightarrow> sorted_wrt (\<lambda>x y. R (?k x) (?k y)) xs \<Longrightarrow> (\<And>z. R z z) \<Longrightarrow>
      m \<in> set xs \<and> P m \<and> (\<forall>x \<in> set xs. P x \<longrightarrow> R (?k m) (?k x))" for P R xs
    by (induction xs) (auto split: if_splits)
  have "sorted_wrt (\<lambda>x y. ?k x \<le> ?k y) ms" using assms by (simp add: sorted_wrt_map)
  moreover have "sorted_wrt (\<lambda>x y. ?k y \<le> ?k x) (rev ms)"
    using assms by (simp add: sorted_wrt_map sorted_wrt_rev)
  ultimately show ?thesis
    using first [of "\<lambda>m. ?k a < ?k m" ms "(\<le>)"] first [of "\<lambda>m. ?k m < ?k a" "rev ms" "(\<ge>)"]
    by (auto simp: adjacent_match_def find_None_iff)
qed

theorem step_takes_the_neighbour_witness:
  "adjacent_match None 24 True (Some (match_at 1 2 0)) [match_at 1 2 0, match_at 1 2 4] = Some (match_at 1 2 4) \<and>
   search_match_order_key (match_at 1 2 0) < search_match_order_key (match_at 1 2 4)"
proof -
  have s: "sorted (map search_match_order_key [match_at 1 2 0, match_at 1 2 4])"
    by (simp add: match_at_def search_match_order_key_def u16_max_def)
  have a: "adjacent_match None 24 True (Some (match_at 1 2 0)) [match_at 1 2 0, match_at 1 2 4] = Some (match_at 1 2 4)"
    by (simp add: adjacent_match_def match_at_def search_match_order_key_def u16_max_def)
  show ?thesis using a step_takes_the_neighbour [OF s] by blast
qed

end
