(* ===== verification/Paths.thy ===== *)
theory Paths
  imports Search
begin

text \<open>
  Paths and texts as the standard library of Rust handles them, shared by the components that look for
  programs, profiles and sockets: \<open>Path::join\<close>, \<open>file_name\<close>, \<open>parent\<close>, \<open>str::split\<close>, \<open>split_once\<close>,
  \<open>strip_prefix\<close>, \<open>strip_suffix\<close> and \<open>contains\<close>. Paths are those of Unix.
\<close>

section \<open>Texts\<close>

definition contains_str :: "string \<Rightarrow> string \<Rightarrow> bool" where
  "contains_str hay needle = (find_sub needle hay \<noteq> None)"

definition strip_prefix :: "string \<Rightarrow> string \<Rightarrow> string option" where
  "strip_prefix p s = (if take (length p) s = p then Some (drop (length p) s) else None)"

definition strip_suffix :: "string \<Rightarrow> string \<Rightarrow> string option" where
  "strip_suffix suf s =
    (if length suf \<le> length s \<and> drop (length s - length suf) s = suf then Some (take (length s - length suf) s) else None)"

definition split_once :: "char \<Rightarrow> string \<Rightarrow> (string \<times> string) option" where
  "split_once c s = (if c \<in> set s then Some (takeWhile (\<lambda>x. x \<noteq> c) s, tl (dropWhile (\<lambda>x. x \<noteq> c) s)) else None)"

fun split_on :: "char \<Rightarrow> string \<Rightarrow> string list" where
  "split_on c [] = [[]]"
| "split_on c (x # s) = (if x = c then [] # split_on c s
     else (case split_on c s of [] \<Rightarrow> [[x]] | w # ws \<Rightarrow> (x # w) # ws))"

lemma strip_prefix_append [simp]: "strip_prefix p (p @ s) = Some s"
  by (simp add: strip_prefix_def)

lemma strip_prefix_Some: "strip_prefix p s = Some r \<longleftrightarrow> s = p @ r"
  by (auto simp: strip_prefix_def) (metis append_take_drop_id)

lemma split_on_nonempty [simp]: "split_on c s \<noteq> []"
  by (cases s) (auto split: list.split)

lemma split_on_plain: "c \<notin> set s \<Longrightarrow> split_on c s = [s]"
  by (induction s) auto

lemma split_on_append: "c \<notin> set a \<Longrightarrow> split_on c (a @ c # s) = a # split_on c s"
  by (induction a) auto

lemma split_once_append: "c \<notin> set a \<Longrightarrow> split_once c (a @ c # s) = Some (a, s)"
  by (induction a) (auto simp: split_once_def)

section \<open>Paths\<close>

definition path_join :: "string \<Rightarrow> string \<Rightarrow> string" where
  "path_join d f =
    (if f \<noteq> [] \<and> hd f = CHR ''/'' then f
     else if d = [] \<or> last d = CHR ''/'' then d @ f else d @ ''/'' @ f)"

text \<open>The last component, when it names a file; components \<open>.\<close> and empty ones are not counted.\<close>

definition path_file_name :: "string \<Rightarrow> string option" where
  "path_file_name p =
    (let cs = filter (\<lambda>c. c \<noteq> [] \<and> c \<noteq> ''.'') (split_on (CHR ''/'') p)
     in if cs = [] \<or> last cs = ''..'' then None else Some (last cs))"

text \<open>What comes before the last component: nothing for the root, the empty path for a single name.\<close>

definition drop_slashes :: "string \<Rightarrow> string" where
  "drop_slashes p = rev (dropWhile (\<lambda>c. c = CHR ''/'') (rev p))"

definition path_parent :: "string \<Rightarrow> string option" where
  "path_parent p =
    (let t = drop_slashes p in
     if t = [] then None
     else let d = rev (dropWhile (\<lambda>c. c \<noteq> CHR ''/'') (rev t)); e = drop_slashes d
          in Some (if e = [] \<and> d \<noteq> [] then ''/'' else e))"

lemma path_join_plain: "f \<noteq> [] \<Longrightarrow> hd f \<noteq> CHR ''/'' \<Longrightarrow>
    path_join d f = (if d = [] \<or> last d = CHR ''/'' then d @ f else d @ ''/'' @ f)"
  by (simp add: path_join_def)

lemma path_file_name_plain:
  "CHR ''/'' \<notin> set f \<Longrightarrow> f \<noteq> [] \<Longrightarrow> f \<noteq> ''.'' \<Longrightarrow> f \<noteq> ''..'' \<Longrightarrow> path_file_name f = Some f"
  by (simp add: path_file_name_def split_on_plain)

lemma path_file_name_no_slash: "path_file_name p = Some f \<Longrightarrow> CHR ''/'' \<notin> set f \<and> f \<noteq> [] \<and> f \<noteq> ''.'' \<and> f \<noteq> ''..''"
proof -
  have s: "w \<in> set (split_on c s) \<Longrightarrow> c \<notin> set w" for w c s
    by (induction s arbitrary: w) (auto split: if_splits list.splits)
  assume p: "path_file_name p = Some f"
  let ?cs = "filter (\<lambda>c. c \<noteq> [] \<and> c \<noteq> ''.'') (split_on (CHR ''/'') p)"
  have "?cs \<noteq> []" "f = last ?cs" "f \<noteq> ''..''" using p by (auto simp: path_file_name_def Let_def split: if_splits)
  then have "f \<in> set ?cs" using last_in_set by metis
  then have "f \<in> set (split_on (CHR ''/'') p)" "f \<noteq> []" "f \<noteq> ''.''" by auto
  then show ?thesis using s \<open>f \<noteq> ''..''\<close> by blast
qed

lemma drop_slashes_snoc [simp]: "drop_slashes (p @ [c]) = (if c = CHR ''/'' then drop_slashes p else p @ [c])"
  by (simp add: drop_slashes_def)

lemma drop_slashes_plain: "p \<noteq> [] \<Longrightarrow> last p \<noteq> CHR ''/'' \<Longrightarrow> drop_slashes p = p"
  by (cases p rule: rev_cases) simp_all

lemma path_parent_join:
  assumes "p \<noteq> []" "f \<noteq> []" "CHR ''/'' \<notin> set f"
  shows "path_parent (path_join p f) = Some (if drop_slashes p = [] then ''/'' else drop_slashes p)"
proof -
  obtain d where d: "path_join p f = d @ ''/'' @ f" "drop_slashes (d @ ''/'') = drop_slashes p"
  proof (cases "last p = CHR ''/''")
    case True
    then have "p = butlast p @ ''/''" using assms(1) by (metis append_butlast_last_id)
    moreover have "hd f \<noteq> CHR ''/''" using assms(2,3) by (cases f) auto
    ultimately show ?thesis using that [of "butlast p"] True assms(1,2) by (simp add: path_join_plain)
  next
    case False
    moreover have "hd f \<noteq> CHR ''/''" using assms(2,3) by (cases f) auto
    ultimately show ?thesis using that [of p] assms(1,2) by (simp add: path_join_plain)
  qed
  have "last (d @ ''/'' @ f) \<noteq> CHR ''/''" using assms(2,3) by (metis append_is_Nil_conv last_appendR last_in_set)
  then have t: "drop_slashes (path_join p f) = d @ ''/'' @ f" unfolding d(1) using assms(2) by (intro drop_slashes_plain) simp_all
  have "dropWhile (\<lambda>c. c \<noteq> CHR ''/'') (rev f @ CHR ''/'' # rev d) = CHR ''/'' # rev d"
    using assms(3) by (subst dropWhile_append2) auto
  then show ?thesis using d(2) by (simp add: path_parent_def t Let_def)
qed

text \<open>\<open>parse::<u32>\<close>: decimal digits after an optional plus sign, within 32 bits.\<close>

definition parse_u32 :: "string \<Rightarrow> nat option" where
  "parse_u32 s =
    (let t = (if s \<noteq> [] \<and> hd s = CHR ''+'' then tl s else s)
     in if t = [] then None
        else case parse_digits t 0 of Some n \<Rightarrow> if n < 2 ^ 32 then Some n else None | None \<Rightarrow> None)"

end
