(* ===== verification/BusClient.thy ===== *)
theory BusClient
  imports BusServer Paths
begin

text \<open>
  The bus client of \<open>crates/lmux-bus/src/client.rs\<close> and the socket's path (\<open>paths.rs\<close>): the handshake, one request
  at a time, and how errors of the cockpit come back. The client's input is the list of the bytes the
  cockpit will send; random ids are arguments. Client and server together are then a remote call.
\<close>

section \<open>Paths\<close>

text \<open>The Linux build: \<open>xdg\<close> is the variable \<open>XDG_RUNTIME_DIR\<close>.\<close>

definition bus_socket_path :: "string option \<Rightarrow> bus_error + string" where
  "bus_socket_path xdg =
    (case xdg of
       Some s \<Rightarrow> if s \<noteq> [] then Inr (path_join (path_join s ''lmux'') ''bus.sock'')
                 else Inl (Domain [Txt ''$XDG_RUNTIME_DIR is not set; cannot resolve bus.sock path''])
     | None \<Rightarrow> Inl (Domain [Txt ''$XDG_RUNTIME_DIR is not set; cannot resolve bus.sock path'']))"

definition bus_pid_path :: "string option \<Rightarrow> bus_error + string" where
  "bus_pid_path xdg = (case bus_socket_path xdg of Inl e \<Rightarrow> Inl e | Inr p \<Rightarrow> Inr (p @ ''.pid''))"

section \<open>One request\<close>

definition encode_request :: "'j serde \<Rightarrow> kind \<Rightarrow> uuid \<Rightarrow> bus_error + byte list" where
  "encode_request sd k i =
    (case sd_to_value sd k of
       Inl e \<Rightarrow> Inl (Json e)
     | Inr v \<Rightarrow>
       if \<not> sd_is_object sd v then Inl (Domain [Txt ''request kind did not serialize as a JSON object''])
       else (case sd_to_vec sd (sd_put_id sd i (sd_put_version sd PROTOCOL_VERSION v)) of
               Inl e \<Rightarrow> Inl (Json e) | Inr bytes \<Rightarrow> Inr bytes))"

definition error_payload_to_bus_error :: "error_payload \<Rightarrow> bus_error" where
  "error_payload_to_bus_error p =
    (case ep_code p of
       EC_UnknownKind \<Rightarrow> UnknownKind EC_UnknownKind
         (case ep_kind_received p of Some k \<Rightarrow> k | None \<Rightarrow> ''<unknown>'')
     | EC_PeerDenied \<Rightarrow> PeerDenied EC_PeerDenied
     | EC_BadRequest \<Rightarrow> BadRequest (ep_message p)
     | EC_Unauthorized \<Rightarrow> Unauthorized (ep_message p)
     | EC_GrantDenied \<Rightarrow> GrantDenied (ep_message p)
     | EC_TranscriptUnavailable \<Rightarrow> TranscriptUnavailable (ep_message p)
     | EC_StaleSequence \<Rightarrow> StaleSequence (ep_message p)
     | EC_UserPinnedTitle \<Rightarrow> UserPinnedTitle (ep_message p)
     | _ \<Rightarrow> Domain (ep_message p))"

definition as_error :: "kind \<Rightarrow> error_payload option" where
  "as_error k = (case k of K_Error p \<Rightarrow> Some p | _ \<Rightarrow> None)"

definition read_response :: "'j serde \<Rightarrow> uuid \<Rightarrow> byte list \<Rightarrow> bus_error + kind" where
  "read_response sd i frame =
    (case envelope_parse (sd_envelope sd) frame of
       Inl e \<Rightarrow> Inl e
     | Inr env \<Rightarrow>
       if env_id env \<noteq> i
       then Inl (Domain [Txt ''response id '', FUuid (env_id env), Txt '' != request id '', FUuid i])
       else (case sd_kind sd frame of
               Inl e \<Rightarrow> Inl (Json e)
             | Inr response \<Rightarrow> (case as_error response of
                 Some p \<Rightarrow> Inl (error_payload_to_bus_error p) | None \<Rightarrow> Inr response)))"

definition client_request ::
  "'j serde \<Rightarrow> 'w writer \<Rightarrow> kind \<Rightarrow> uuid \<Rightarrow> 'w \<times> byte list \<Rightarrow> ('w \<times> byte list) \<times> (bus_error + kind)" where
  "client_request sd wr k i = (\<lambda>(w, s).
    case encode_request sd k i of
      Inl e \<Rightarrow> ((w, s), Inl e)
    | Inr bytes \<Rightarrow> (case write_frame wr bytes w of
        (w1, Inl e) \<Rightarrow> ((w1, s), Inl e)
      | (w1, Inr _) \<Rightarrow> (case read_frame s of
          Inl e \<Rightarrow> ((w1, s), Inl e)
        | Inr (frame, rest) \<Rightarrow> ((w1, rest), read_response sd i frame))))"

section \<open>The handshake\<close>

definition as_hello_ack :: "kind \<Rightarrow> string option" where
  "as_hello_ack k = (case k of K_HelloAck v \<Rightarrow> Some v | _ \<Rightarrow> None)"

definition client_connect ::
  "'j serde \<Rightarrow> 'w writer \<Rightarrow> (kind \<Rightarrow> string) \<Rightarrow> client_role \<Rightarrow> int \<Rightarrow> uuid \<Rightarrow> 'w \<times> byte list \<Rightarrow>
    ('w \<times> byte list) \<times> (bus_error + string)" where
  "client_connect sd wr show_kind role pid i st =
    (case client_request sd wr (K_Hello role pid) i st of
       (st1, Inl e) \<Rightarrow> (st1, Inl e)
     | (st1, Inr ack) \<Rightarrow> (case as_hello_ack ack of
         Some v \<Rightarrow> (st1, Inr v)
       | None \<Rightarrow> (st1, Inl (Domain [Txt ''expected hello_ack, got '', FStr (show_kind ack)]))))"

text \<open>A client's requests, one after the other.\<close>

fun client_requests ::
  "'j serde \<Rightarrow> 'w writer \<Rightarrow> (kind \<times> uuid) list \<Rightarrow> 'w \<times> byte list \<Rightarrow>
    ('w \<times> byte list) \<times> (bus_error + kind) list" where
  "client_requests sd wr [] st = (st, [])"
| "client_requests sd wr ((k, i) # ks) st =
    (let (st1, r) = client_request sd wr k i st; (st2, rs) = client_requests sd wr ks st1 in (st2, r # rs))"

section \<open>Clients of the default socket\<close>

text \<open>
  The surroundings of one connection of a client process: serde and the print of a kind, the socket's
  variable, what dialing a path gives (an error, or the bytes the cockpit will send), the process id, and
  the ids the two requests draw.
\<close>

record 'j client_env =
  ce_serde :: "'j serde"
  ce_writer :: "byte list writer"
  ce_show :: "kind \<Rightarrow> string"
  ce_xdg :: "string option"
  ce_dial :: "string \<Rightarrow> io_error_kind + byte list"
  ce_pid :: int
  ce_hello_id :: uuid
  ce_request_id :: uuid

definition connect_path ::
  "'j client_env \<Rightarrow> string \<Rightarrow> client_role \<Rightarrow> (byte list \<times> byte list) \<times> (bus_error + string)" where
  "connect_path ce path role =
    (case ce_dial ce path of
       Inl e \<Rightarrow> (([], []), Inl (Io e))
     | Inr s \<Rightarrow> client_connect (ce_serde ce) (ce_writer ce) (ce_show ce) role (ce_pid ce) (ce_hello_id ce) ([], s))"

definition connect_default ::
  "'j client_env \<Rightarrow> client_role \<Rightarrow> (byte list \<times> byte list) \<times> (bus_error + string)" where
  "connect_default ce role =
    (case bus_socket_path (ce_xdg ce) of
       Inl e \<Rightarrow> (([], []), Inl e)
     | Inr path \<Rightarrow> connect_path ce path role)"

definition request_on :: "'j client_env \<Rightarrow> kind \<Rightarrow> byte list \<times> byte list \<Rightarrow> (byte list \<times> byte list) \<times> (bus_error + kind)" where
  "request_on ce k st = client_request (ce_serde ce) (ce_writer ce) k (ce_request_id ce) st"

text \<open>The text of an error as its \<open>Display\<close> prints it.\<close>

definition show_int :: "int \<Rightarrow> string" where
  "show_int i = (if i < 0 then CHR ''-'' # show_nat (nat (- i)) else show_nat (nat i))"

fun frag_text :: "(uuid \<Rightarrow> string) \<Rightarrow> frag \<Rightarrow> string" where
  "frag_text show_uuid (Txt s) = s"
| "frag_text show_uuid (FUuid u) = show_uuid u"
| "frag_text show_uuid (FNat n) = show_nat n"
| "frag_text show_uuid (FInt i) = show_int i"
| "frag_text show_uuid (FStr s) = s"
| "frag_text show_uuid (FScope c) =
    (case c of ReadOutput \<Rightarrow> ''ReadOutput'' | SendInput \<Rightarrow> ''SendInput'' | RenameScope \<Rightarrow> ''Rename''
     | AttachWindow \<Rightarrow> ''AttachWindow'')"

definition bus_error_text :: "(uuid \<Rightarrow> string) \<Rightarrow> bus_error \<Rightarrow> string" where
  "bus_error_text show_uuid e = concat (map (frag_text show_uuid) (bus_error_message e))"

section \<open>Client and server together\<close>

text \<open>What is relied on of serde, for one message: it is encoded within the limit and read back as it was.\<close>

definition travels :: "'j serde \<Rightarrow> kind \<Rightarrow> uuid \<Rightarrow> byte list \<Rightarrow> bool" where
  "travels sd k i bytes \<longleftrightarrow>
    (case sd_to_value sd k of
       Inl _ \<Rightarrow> False
     | Inr v \<Rightarrow> sd_is_object sd v \<and> sd_to_vec sd (sd_put_id sd i (sd_put_version sd PROTOCOL_VERSION v)) = Inr bytes) \<and>
    length bytes \<le> MAX_FRAME_BYTES \<and>
    (case sd_envelope sd bytes of
       Inl _ \<Rightarrow> False
     | Inr env \<Rightarrow> env_v env = PROTOCOL_VERSION \<and> env_id env = i \<and> (as_hello k = None \<or> env_kind env = ''hello'')) \<and>
    sd_kind sd bytes = Inr k"

text \<open>The handler's calls without any wire between, the reply of each, and what a client makes of it.\<close>

fun direct :: "'h handler \<Rightarrow> request_context \<Rightarrow> (kind \<times> uuid) list \<Rightarrow> 'h \<Rightarrow> 'h \<times> (bus_error + kind) list" where
  "direct hl ctx [] h = (h, [])"
| "direct hl ctx ((k, i) # ks) h =
    (let (h1, r) = hd_handle hl ctx k h; (h2, rs) = direct hl ctx ks h1 in (h2, r # rs))"

definition error_reply :: "uuid \<Rightarrow> bus_error \<Rightarrow> error_payload" where
  "error_reply i e = \<lparr>ep_code = bus_error_code e, ep_message = bus_error_message e, ep_kind_received = None,
     ep_in_reply_to = Some i\<rparr>"

definition reply_kind :: "uuid \<Rightarrow> bus_error + kind \<Rightarrow> kind" where
  "reply_kind i r = (case r of Inr k \<Rightarrow> k | Inl e \<Rightarrow> K_Error (error_reply i e))"

definition client_view :: "bus_error + kind \<Rightarrow> bus_error + kind" where
  "client_view r = (case r of Inr k \<Rightarrow> Inr k | Inl e \<Rightarrow> Inl (error_payload_to_bus_error (error_reply 0 e)))"

lemma client_view_reply:
  "(case r of Inr k \<Rightarrow> as_error k = None | Inl _ \<Rightarrow> True) \<Longrightarrow>
    (case as_error (reply_kind i r) of Some p \<Rightarrow> Inl (error_payload_to_bus_error p) | None \<Rightarrow> Inr (reply_kind i r)) =
      client_view r"
proof (cases r)
  case (Inl e)
  have "error_payload_to_bus_error (error_reply i e) = error_payload_to_bus_error (error_reply 0 e)"
    by (cases "bus_error_code e") (simp_all add: error_reply_def error_payload_to_bus_error_def)
  then show ?thesis by (simp add: Inl reply_kind_def client_view_def as_error_def)
qed (simp add: reply_kind_def client_view_def)

lemma travels_length: "travels sd k i b \<Longrightarrow> length b \<le> MAX_FRAME_BYTES"
  by (simp add: travels_def)

lemma travels_lengths:
  "list_all2 (\<lambda>(k, i) b. as_hello k = None \<and> travels sd k i b) ks bs \<Longrightarrow>
    list_all (\<lambda>f. length f \<le> MAX_FRAME_BYTES) bs"
  by (induction rule: list_all2_induct) (auto dest: travels_length)

lemma travels_encodes: "travels sd k i b \<Longrightarrow> encode_request sd k i = Inr b"
  by (auto simp: travels_def encode_request_def split: sum.splits)

lemma travels_reads:
  "travels sd k i b \<Longrightarrow> read_response sd i b =
    (case as_error k of Some p \<Rightarrow> Inl (error_payload_to_bus_error p) | None \<Rightarrow> Inr k)"
  by (auto simp: travels_def read_response_def envelope_parse_def split: sum.splits)

lemma travels_replied:
  "travels sd k i b \<Longrightarrow> write_response sd buffer_writer i k w = (w @ encode_frame b, Inr ())"
  by (auto simp: travels_def write_response_def write_buffer split: sum.splits)

lemma client_request_travels:
  assumes "travels sd k i b" "travels sd a i ab"
  shows "client_request sd buffer_writer k i (w, encode_frame ab @ rest) =
    ((w @ encode_frame b, rest), case as_error a of Some p \<Rightarrow> Inl (error_payload_to_bus_error p) | None \<Rightarrow> Inr a)"
proof -
  have "length b \<le> MAX_FRAME_BYTES" "length ab \<le> MAX_FRAME_BYTES" using assms by (simp_all add: travels_def)
  then show ?thesis
    using assms by (simp add: client_request_def travels_encodes write_buffer read_encode_frame travels_reads)
qed

lemma serve_frame_request:
  assumes "travels sd k i b" "as_hello k = None" "cn_context c = Some ctx"
    and "hd_handle hl ctx k (cn_handler c) = (h', r)" "travels sd (reply_kind i r) i ab"
  shows "serve_frame sd buffer_writer hl b c =
    (c\<lparr>cn_handler := h', cn_writer := cn_writer c @ encode_frame ab\<rparr>, Inr ())"
proof -
  obtain env where env: "envelope_parse (sd_envelope sd) b = Inr env" "env_id env = i" "sd_kind sd b = Inr k"
    using assms(1) by (auto simp: travels_def envelope_parse_def split: sum.splits)
  have w: "write_response sd buffer_writer i (reply_kind i r) w = (w @ encode_frame ab, Inr ())" for w
    using assms(5) by (rule travels_replied)
  show ?thesis
    using assms(2-4) env w
    by (cases r) (simp_all add: serve_frame_def serve_request_def send_kind_def send_error_def write_error_def
        reply_kind_def error_reply_def)
qed

lemma serve_frame_hello:
  assumes "travels sd (K_Hello role pid) i b" "travels sd (K_HelloAck (hd_version hl)) i ab"
  shows "serve_frame sd buffer_writer hl b c =
    (c\<lparr>cn_context := Some \<lparr>rc_client = role, rc_pid = pid\<rparr>, cn_writer := cn_writer c @ encode_frame ab\<rparr>, Inr ())"
proof -
  obtain env where "envelope_parse (sd_envelope sd) b = Inr env" "env_id env = i" "sd_kind sd b = Inr (K_Hello role pid)"
      "env_kind env = ''hello''"
    using assms(1) by (auto simp: travels_def envelope_parse_def as_hello_def split: sum.splits)
  then show ?thesis
    by (simp add: serve_frame_def as_hello_def send_kind_def travels_replied [OF assms(2)])
qed

text \<open>The answers travel: each reply's frame, and no handler answers with the kind reserved for errors.\<close>

definition answers_travel ::
  "'j serde \<Rightarrow> (kind \<times> uuid) list \<Rightarrow> (bus_error + kind) list \<Rightarrow> byte list list \<Rightarrow> bool" where
  "answers_travel sd ks rs as \<longleftrightarrow> length rs = length ks \<and>
    list_all2 (\<lambda>((_, i), r) a. travels sd (reply_kind i r) i a \<and>
      (case r of Inr k \<Rightarrow> as_error k = None | Inl _ \<Rightarrow> True)) (zip ks rs) as"

lemma serve_frames_requests:
  assumes "list_all2 (\<lambda>(k, i) b. as_hello k = None \<and> travels sd k i b) ks bs"
    and "answers_travel sd ks (snd (direct hl ctx ks (cn_handler c))) as" "cn_context c = Some ctx"
  shows "serve_frames sd buffer_writer hl bs c =
    (c\<lparr>cn_handler := fst (direct hl ctx ks (cn_handler c)),
       cn_writer := cn_writer c @ concat (map encode_frame as)\<rparr>, Inr ())"
  using assms
proof (induction ks bs arbitrary: c as rule: list_all2_induct)
  case Nil
  then show ?case by (simp add: answers_travel_def)
next
  case (Cons ki ks b bs)
  obtain k i where ki: "ki = (k, i)" by (cases ki)
  obtain h1 r where h1: "hd_handle hl ctx k (cn_handler c) = (h1, r)" by (metis surj_pair)
  obtain h2 rs where h2: "direct hl ctx ks h1 = (h2, rs)" by (metis surj_pair)
  obtain a as' where as: "as = a # as'" "travels sd (reply_kind i r) i a" "answers_travel sd ks rs as'"
    using Cons.prems(1) by (auto simp: answers_travel_def ki h1 h2 list_all2_Cons1)
  let ?c1 = "c\<lparr>cn_handler := h1, cn_writer := cn_writer c @ encode_frame a\<rparr>"
  have "serve_frame sd buffer_writer hl b c = (?c1, Inr ())"
    using Cons.hyps(1) Cons.prems(2) as(2) h1 by (intro serve_frame_request) (auto simp: ki)
  moreover have "serve_frames sd buffer_writer hl bs ?c1 =
      (?c1\<lparr>cn_handler := h2, cn_writer := cn_writer ?c1 @ concat (map encode_frame as')\<rparr>, Inr ())"
    using Cons.IH [of ?c1 as'] as(3) Cons.prems(2) h2 by simp
  ultimately show ?case using h1 h2 as(1) by (simp add: ki)
qed

lemma client_requests_travel:
  assumes "list_all2 (\<lambda>(k, i) b. as_hello k = None \<and> travels sd k i b) ks bs" "answers_travel sd ks rs as"
  shows "client_requests sd buffer_writer ks (w, concat (map encode_frame as) @ rest) =
    ((w @ concat (map encode_frame bs), rest), map client_view rs)"
  using assms
proof (induction ks bs arbitrary: w rs as rule: list_all2_induct)
  case Nil
  then show ?case by (simp add: answers_travel_def)
next
  case (Cons ki ks b bs)
  obtain k i where ki: "ki = (k, i)" by (cases ki)
  obtain r rs' where rs: "rs = r # rs'" using Cons.prems by (auto simp: answers_travel_def length_Suc_conv)
  obtain a as' where as: "as = a # as'" "travels sd (reply_kind i r) i a" "answers_travel sd ks rs' as'"
      "case r of Inr k \<Rightarrow> as_error k = None | Inl _ \<Rightarrow> True"
    using Cons.prems by (auto simp: answers_travel_def ki rs list_all2_Cons1)
  have "travels sd k i b" using Cons.hyps(1) by (simp add: ki)
  from client_request_travels [OF this as(2), unfolded client_view_reply [OF as(4)]]
  have "client_request sd buffer_writer k i (w, encode_frame a @ s) = ((w @ encode_frame b, s), client_view r)" for s .
  then show ?case using Cons.IH [OF as(3)] by (simp add: ki rs as(1))
qed

lemma server_after_hello:
  assumes "travels sd (K_Hello role pid) i b0" "travels sd (K_HelloAck (hd_version hl)) i a0"
    and "list_all2 (\<lambda>(k, i) b. as_hello k = None \<and> travels sd k i b) ks bs"
    and "answers_travel sd ks (snd (direct hl \<lparr>rc_client = role, rc_pid = pid\<rparr> ks h)) as"
  shows "serve_connection sd buffer_writer hl (Inr uid) uid (concat (map encode_frame (b0 # bs))) h [] =
    (\<lparr>cn_context = Some \<lparr>rc_client = role, rc_pid = pid\<rparr>,
      cn_handler = fst (direct hl \<lparr>rc_client = role, rc_pid = pid\<rparr> ks h),
      cn_writer = encode_frame a0 @ concat (map encode_frame as)\<rparr>, Inr ())"
proof -
  let ?ctx = "\<lparr>rc_client = role, rc_pid = pid\<rparr>" and ?c = "\<lparr>cn_context = None, cn_handler = h, cn_writer = []\<rparr>"
  let ?c1 = "?c\<lparr>cn_context := Some ?ctx, cn_writer := encode_frame a0\<rparr>"
  have len: "list_all (\<lambda>f. length f \<le> MAX_FRAME_BYTES) (b0 # bs)"
    using travels_lengths [OF assms(3)] travels_length [OF assms(1)] by simp
  have hello: "serve_frame sd buffer_writer hl b0 ?c = (?c1, Inr ())"
    using serve_frame_hello [OF assms(1,2), of ?c] by simp
  have "serve_frames sd buffer_writer hl bs ?c1 =
      (?c1\<lparr>cn_handler := fst (direct hl ?ctx ks h), cn_writer := encode_frame a0 @ concat (map encode_frame as)\<rparr>, Inr ())"
    using serve_frames_requests [OF assms(3), of hl ?ctx ?c1 as] assms(4) by simp
  then show ?thesis
    using hello by (simp add: serve_connection_def Let_def serve_loop_refines [OF len] del: list.map concat.simps)
qed

lemma client_after_hello:
  assumes "travels sd (K_Hello role pid) i b0" "travels sd (K_HelloAck version) i a0"
  shows "client_connect sd buffer_writer show_kind role pid i ([], encode_frame a0 @ s) =
    ((encode_frame b0, s), Inr version)"
  using client_request_travels [OF assms, of "[]" s]
  by (simp add: client_connect_def as_error_def as_hello_ack_def)

text \<open>C9: A client that connects and makes requests over the socket gets what direct calls of the handler would
  have given it: the handshake gives the cockpit's version, every request the handler's answer, or its
  error in the client's rendering, in order; the handler ends in the state of the direct calls, the bytes
  the server reads are those the client wrote, and none is left over. Assumed is that serde reads back
  each message exchanged.\<close>

theorem client_and_server_are_direct_calls:
  assumes "travels sd (K_Hello role pid) i b0" "travels sd (K_HelloAck (hd_version hl)) i a0"
    and "list_all2 (\<lambda>(k, i) b. as_hello k = None \<and> travels sd k i b) ks bs"
    and "answers_travel sd ks (snd (direct hl \<lparr>rc_client = role, rc_pid = pid\<rparr> ks h)) as"
  shows "let (c, r) = serve_connection sd buffer_writer hl (Inr uid) uid (concat (map encode_frame (b0 # bs))) h [];
      (st, v) = client_connect sd buffer_writer show_kind role pid i ([], cn_writer c);
      ((w, rest), rs) = client_requests sd buffer_writer ks st
    in r = Inr () \<and> v = Inr (hd_version hl) \<and> w = concat (map encode_frame (b0 # bs)) \<and> rest = [] \<and>
      cn_handler c = fst (direct hl \<lparr>rc_client = role, rc_pid = pid\<rparr> ks h) \<and>
      rs = map client_view (snd (direct hl \<lparr>rc_client = role, rc_pid = pid\<rparr> ks h))"
  using client_requests_travel [OF assms(3,4), of "encode_frame b0" "[]"]
  by (simp add: server_after_hello [OF assms, simplified] client_after_hello [OF assms(1,2)])

text \<open>A serde of four messages for the witness: each is one byte.\<close>

definition byte_serde :: "kind serde" where
  "byte_serde = \<lparr>
     sd_envelope = (\<lambda>b. Inr \<lparr>env_v = 2, env_kind = (if b = [1] then ''hello'' else ''other''), env_id = 7\<rparr>),
     sd_kind = (\<lambda>b. if b = [1] then Inr (K_Hello LmuxCli 4) else if b = [2] then Inr (K_HelloAck ''0.2'')
       else if b = [3] then Inr K_AnchorNew else Inr (K_Ok None)),
     sd_to_value = Inr, sd_is_object = (\<lambda>_. True), sd_put_version = (\<lambda>_ v. v), sd_put_id = (\<lambda>_ v. v),
     sd_to_vec = (\<lambda>k. case k of K_Hello _ _ \<Rightarrow> Inr [1] | K_HelloAck _ \<Rightarrow> Inr [2] | K_AnchorNew \<Rightarrow> Inr [3]
       | _ \<Rightarrow> Inr [4])\<rparr>"

definition counting_handler :: "nat handler" where
  "counting_handler = \<lparr>hd_handle = (\<lambda>_ _ n. (n + 1, Inr (K_Ok None))), hd_version = ''0.2''\<rparr>"

theorem client_and_server_are_direct_calls_witness:
  "let (c, r) = serve_connection byte_serde buffer_writer counting_handler (Inr 1) 1
          (concat (map encode_frame [[1], [3], [3]])) 0 [];
      (st, v) = client_connect byte_serde buffer_writer (\<lambda>_. []) LmuxCli 4 7 ([], cn_writer c);
      (_, rs) = client_requests byte_serde buffer_writer [(K_AnchorNew, 7), (K_AnchorNew, 7)] st
    in r = Inr () \<and> v = Inr ''0.2'' \<and> cn_handler c = 2 \<and> rs = [Inr (K_Ok None), Inr (K_Ok None)]"
proof -
  have t: "travels byte_serde (K_Hello LmuxCli 4) 7 [1]" "travels byte_serde (K_HelloAck ''0.2'') 7 [2]"
    "travels byte_serde K_AnchorNew 7 [3]" "travels byte_serde (K_Ok None) 7 [4]"
    by (simp_all add: travels_def byte_serde_def PROTOCOL_VERSION_def MAX_FRAME_BYTES_def as_hello_def)
  have d: "direct counting_handler ctx [(K_AnchorNew, 7), (K_AnchorNew, 7)] 0 = (2, [Inr (K_Ok None), Inr (K_Ok None)])" for ctx
    by (simp add: counting_handler_def)
  have q: "list_all2 (\<lambda>(k, i) b. as_hello k = None \<and> travels byte_serde k i b) [(K_AnchorNew, 7), (K_AnchorNew, 7)] [[3], [3]]"
    by (simp add: t as_hello_def)
  have a: "answers_travel byte_serde [(K_AnchorNew, 7), (K_AnchorNew, 7)]
      (snd (direct counting_handler ctx [(K_AnchorNew, 7), (K_AnchorNew, 7)] 0)) [[4], [4]]" for ctx
    by (simp only: d) (simp add: answers_travel_def t reply_kind_def as_error_def)
  have "hd_version counting_handler = ''0.2''" by (simp add: counting_handler_def)
  then show ?thesis
    using client_and_server_are_direct_calls [OF t(1) _ q a, of "[2]" 1 "\<lambda>_. []"] t(2)
    by (simp only: d) (auto simp: Let_def client_view_def split: prod.splits)
qed

section \<open>A client of a running cockpit\<close>

text \<open>
  The cockpit listens at the default socket, and the one connection made carries the handshake and one
  request: what the client will read is what the server writes when it reads what the client sends.
\<close>

definition cockpit_listens ::
  "'j client_env \<Rightarrow> 'h handler \<Rightarrow> 'h \<Rightarrow> client_role \<Rightarrow> kind \<Rightarrow> byte list \<Rightarrow> byte list \<Rightarrow> bool" where
  "cockpit_listens ce hl h role k b0 b \<longleftrightarrow>
    (let sd = ce_serde ce; ctx = \<lparr>rc_client = role, rc_pid = ce_pid ce\<rparr>; r = snd (hd_handle hl ctx k h)
     in ce_writer ce = buffer_writer \<and>
        (case bus_socket_path (ce_xdg ce) of
           Inl _ \<Rightarrow> False
         | Inr path \<Rightarrow> ce_dial ce path = Inr (cn_writer (fst (serve_connection sd buffer_writer hl (Inr 0) 0
             (concat (map encode_frame [b0, b])) h [])))) \<and>
        travels sd (K_Hello role (ce_pid ce)) (ce_hello_id ce) b0 \<and>
        (\<exists>a0. travels sd (K_HelloAck (hd_version hl)) (ce_hello_id ce) a0) \<and>
        as_hello k = None \<and> travels sd k (ce_request_id ce) b \<and>
        (\<exists>a. travels sd (reply_kind (ce_request_id ce) r) (ce_request_id ce) a) \<and>
        (case r of Inr x \<Rightarrow> as_error x = None | Inl _ \<Rightarrow> True))"

lemma call_of_cockpit:
  assumes "cockpit_listens ce hl h role k b0 b"
  obtains s where "connect_default ce role = ((encode_frame b0, s), Inr (hd_version hl))"
    and "request_on ce k (encode_frame b0, s) = ((encode_frame b0 @ encode_frame b, []),
      client_view (snd (hd_handle hl \<lparr>rc_client = role, rc_pid = ce_pid ce\<rparr> k h)))"
    and "cn_handler (fst (serve_connection (ce_serde ce) buffer_writer hl (Inr 0) 0
      (encode_frame b0 @ encode_frame b) h [])) = fst (hd_handle hl \<lparr>rc_client = role, rc_pid = ce_pid ce\<rparr> k h)"
proof -
  let ?sd = "ce_serde ce" and ?ctx = "\<lparr>rc_client = role, rc_pid = ce_pid ce\<rparr>" and ?i = "ce_request_id ce"
  obtain h1 r where h1: "hd_handle hl ?ctx k h = (h1, r)" by (metis surj_pair)
  obtain path where path: "bus_socket_path (ce_xdg ce) = Inr path"
      "ce_dial ce path = Inr (cn_writer (fst (serve_connection ?sd buffer_writer hl (Inr 0) 0
             (concat (map encode_frame [b0, b])) h [])))"
    using assms by (auto simp: cockpit_listens_def Let_def split: sum.splits)
  obtain a0 a where t: "travels ?sd (K_Hello role (ce_pid ce)) (ce_hello_id ce) b0"
      "travels ?sd (K_HelloAck (hd_version hl)) (ce_hello_id ce) a0" "travels ?sd k ?i b"
      "travels ?sd (reply_kind ?i r) ?i a" and k: "as_hello k = None"
      and e: "case r of Inr x \<Rightarrow> as_error x = None | Inl _ \<Rightarrow> True" and w: "ce_writer ce = buffer_writer"
    using assms h1 by (auto simp: cockpit_listens_def Let_def)
  have "list_all2 (\<lambda>(k, i) b. as_hello k = None \<and> travels ?sd k i b) [(k, ?i)] [b]" using t(3) k by simp
  moreover have "answers_travel ?sd [(k, ?i)] (snd (direct hl ?ctx [(k, ?i)] h)) [a]"
    using t(4) e by (simp add: answers_travel_def h1)
  ultimately have srv: "serve_connection ?sd buffer_writer hl (Inr 0) 0 (encode_frame b0 @ encode_frame b) h [] =
      (\<lparr>cn_context = Some ?ctx, cn_handler = h1, cn_writer = encode_frame a0 @ encode_frame a\<rparr>, Inr ())"
    using server_after_hello [OF t(1,2), of "[(k, ?i)]" "[b]" h "[a]" 0] by (simp add: h1)
  show thesis
  proof
    show "connect_default ce role = ((encode_frame b0, encode_frame a), Inr (hd_version hl))"
      using client_after_hello [OF t(1,2), of "ce_show ce" "encode_frame a"] path srv w
      by (simp add: connect_default_def connect_path_def)
    show "request_on ce k (encode_frame b0, encode_frame a) = ((encode_frame b0 @ encode_frame b, []),
        client_view (snd (hd_handle hl ?ctx k h)))"
      using client_request_travels [OF t(3,4), of "encode_frame b0" "[]"] client_view_reply [OF e, of ?i] w
      by (simp add: request_on_def h1)
    show "cn_handler (fst (serve_connection ?sd buffer_writer hl (Inr 0) 0
        (encode_frame b0 @ encode_frame b) h [])) = fst (hd_handle hl ?ctx k h)"
      using srv h1 by simp
  qed
qed

text \<open>For witnesses: a serde that knows one request and one reply, and a client of a cockpit that listens.\<close>

definition four_serde :: "client_role \<Rightarrow> kind \<Rightarrow> kind \<Rightarrow> kind serde" where
  "four_serde role k r = byte_serde\<lparr>
     sd_kind := (\<lambda>b. if b = [1] then Inr (K_Hello role 4) else if b = [2] then Inr (K_HelloAck ''0.2'')
       else if b = [3] then Inr k else Inr r),
     sd_to_vec := (\<lambda>x. if x = k then Inr [3] else if x = r then Inr [4]
       else case x of K_Hello _ _ \<Rightarrow> Inr [1] | K_HelloAck _ \<Rightarrow> Inr [2] | _ \<Rightarrow> Inl [])\<rparr>"

definition four_client :: "client_role \<Rightarrow> kind \<Rightarrow> kind \<Rightarrow> 'h handler \<Rightarrow> 'h \<Rightarrow> kind client_env" where
  "four_client role k r hl h = \<lparr>ce_serde = four_serde role k r, ce_writer = buffer_writer, ce_show = (\<lambda>_. []),
     ce_xdg = Some ''/run'', ce_dial = (\<lambda>_. Inr (cn_writer (fst (serve_connection (four_serde role k r) buffer_writer hl
       (Inr 0) 0 (concat (map encode_frame [[1], [3]])) h [])))), ce_pid = 4, ce_hello_id = 7, ce_request_id = 7\<rparr>"

definition is_greeting :: "kind \<Rightarrow> bool" where
  "is_greeting k = (case k of K_Hello _ _ \<Rightarrow> True | K_HelloAck _ \<Rightarrow> True | _ \<Rightarrow> False)"

lemma four_travels:
  assumes "\<not> is_greeting k" "\<not> is_greeting r" "k \<noteq> r"
  shows "travels (four_serde role k r) (K_Hello role 4) 7 [1]" "travels (four_serde role k r) (K_HelloAck ''0.2'') 7 [2]"
    "travels (four_serde role k r) k 7 [3]" "travels (four_serde role k r) r 7 [4]"
  using assms
  by (auto simp: travels_def four_serde_def byte_serde_def PROTOCOL_VERSION_def MAX_FRAME_BYTES_def as_hello_def
    is_greeting_def split: kind.splits)

lemma four_listens:
  assumes "\<not> is_greeting k" "\<not> is_greeting r" "k \<noteq> r" "as_error r = None" "hd_version hl = ''0.2''"
    and "snd (hd_handle hl \<lparr>rc_client = role, rc_pid = 4\<rparr> k h) = Inr r"
  shows "cockpit_listens (four_client role k r hl h) hl h role k [1] [3]"
proof -
  have "as_hello k = None" using assms(1) by (simp add: is_greeting_def as_hello_def split: kind.splits)
  then show ?thesis
    using four_travels [OF assms(1-3), of role] assms(4-6)
    by (auto simp: cockpit_listens_def four_client_def bus_socket_path_def reply_kind_def Let_def)
qed

text \<open>The client keeps the text the server printed, prefix included, and prints its own before it.\<close>

lemma domain_prefix_printed_twice:
  "bus_error_message (error_payload_to_bus_error (error_reply i (Domain m))) =
    Txt ''domain error: '' # Txt ''domain error: '' # m"
  by (simp add: error_payload_to_bus_error_def error_reply_def)

end
