(* ===== verification/Grants.thy ===== *)
theory Grants
  imports BusTypes
begin

text \<open>
  Agent grants, \<open>crates/lmux/src/agent_control.rs\<close>: the records of who may touch whose panes, the
  user's decisions, and the check every agent request passes. The clock and the fresh grant id are
  arguments.
\<close>

section \<open>Data\<close>

record agent_pane_metadata =
  apm_agent :: agent_identity
  apm_purpose :: "string option"

datatype grant_state = G_Pending | G_AllowedOnce | G_AllowedUntil nat | G_Denied | G_Revoked

record grant_record =
  grc_request :: grant_request
  grc_state :: grant_state

record grant_view =
  gv_grant_id :: uuid
  gv_requester :: agent_identity
  gv_scope :: grant_scope
  gv_reason :: "msg option"
  gv_pending :: bool
  gv_active :: bool

type_synonym grants = "(uuid, grant_record) hmap"
type_synonym pane_agents = "(pane_id, agent_pane_metadata) hmap"

section \<open>Status views\<close>

definition agent_status_for_anchor ::
  "pane_id \<Rightarrow> pane_agents \<Rightarrow> (pane_id, pane_id) hmap \<Rightarrow> (pane_id, uuid) hmap \<Rightarrow>
    (pane_id, pane_title) hmap \<Rightarrow> agent_pane_status list" where
  "agent_status_for_anchor anchor_pane pas pane_workspace pane_uuids pane_titles =
    List.map_filter (\<lambda>(p, meta).
      if p \<noteq> anchor_pane \<and> hget pane_workspace p \<noteq> Some anchor_pane then None
      else (case hget pane_uuids p of
          None \<Rightarrow> None
        | Some u \<Rightarrow> Some \<lparr>aps_pane_id = u, aps_agent = apm_agent meta,
            aps_title = map_option pt_title (hget pane_titles p), aps_purpose = apm_purpose meta\<rparr>))
      (hitems pas)"

definition pending_grants_for_anchor :: "grants \<Rightarrow> uuid \<Rightarrow> nat" where
  "pending_grants_for_anchor grants anchor =
    length (filter (\<lambda>g. gr_target_anchor (grc_request g) = Some anchor \<and> grc_state g = G_Pending)
      (hvals grants)) mod (u32_max + 1)"

definition grant_active :: "nat \<Rightarrow> grant_state \<Rightarrow> bool" where
  "grant_active now s =
    (case s of G_AllowedOnce \<Rightarrow> True | G_AllowedUntil t \<Rightarrow> now < t | _ \<Rightarrow> False)"

definition active_grants_for_anchor :: "nat \<Rightarrow> grants \<Rightarrow> uuid \<Rightarrow> nat" where
  "active_grants_for_anchor now grants anchor =
    length (filter (\<lambda>g. gr_target_anchor (grc_request g) = Some anchor \<and> grant_active now (grc_state g))
      (hvals grants)) mod (u32_max + 1)"

definition grant_view_of :: "nat \<Rightarrow> grant_record \<Rightarrow> grant_view option" where
  "grant_view_of now g =
    (let view = (\<lambda>p a. Some \<lparr>gv_grant_id = gr_grant_id (grc_request g),
           gv_requester = gr_requester (grc_request g), gv_scope = gr_scope (grc_request g),
           gv_reason = gr_reason (grc_request g), gv_pending = p, gv_active = a\<rparr>)
     in case grc_state g of
          G_Pending \<Rightarrow> view True False
        | G_AllowedOnce \<Rightarrow> view False True
        | G_AllowedUntil t \<Rightarrow> if now < t then view False True else None
        | _ \<Rightarrow> None)"

definition grant_views_for_anchor :: "nat \<Rightarrow> grants \<Rightarrow> uuid \<Rightarrow> grant_view list" where
  "grant_views_for_anchor now grants anchor =
    List.map_filter (grant_view_of now)
      (filter (\<lambda>g. gr_target_anchor (grc_request g) = Some anchor) (hvals grants))"

section \<open>Requests and decisions\<close>

definition register_grant_request :: "grant_request \<Rightarrow> grants \<Rightarrow> grants \<times> grant_request" where
  "register_grant_request req grants =
    (hput (gr_grant_id req) \<lparr>grc_request = req, grc_state = G_Pending\<rparr> grants, req)"

definition decision_state :: "grant_decision \<Rightarrow> grant_state" where
  "decision_state d =
    (case d of AllowOnce \<Rightarrow> G_AllowedOnce | AllowUntil t \<Rightarrow> G_AllowedUntil t
     | Deny \<Rightarrow> G_Denied | Revoke \<Rightarrow> G_Revoked)"

definition decide_grant :: "uuid \<Rightarrow> grant_decision \<Rightarrow> grants \<Rightarrow> grants \<times> (bus_error + unit)" where
  "decide_grant i d grants =
    (case hget grants i of
       None \<Rightarrow> (grants, Inl (Domain [Txt ''grant.decide: unknown grant '', FUuid i]))
     | Some g \<Rightarrow> (hput i (g\<lparr>grc_state := decision_state d\<rparr>) grants, Inr ()))"

section \<open>Authorization\<close>

definition same_agent :: "agent_identity \<Rightarrow> agent_identity \<Rightarrow> bool" where
  "same_agent a b = (ag_id a = ag_id b)"

definition owner_anchor :: "pane_id \<Rightarrow> pane_id set \<Rightarrow> (pane_id, pane_id) hmap \<Rightarrow> pane_id option" where
  "owner_anchor p anchors pane_workspace =
    (case hget pane_workspace p of Some a \<Rightarrow> Some a | None \<Rightarrow> if p \<in> anchors then Some p else None)"

fun find_map :: "('a \<Rightarrow> 'b option) \<Rightarrow> 'a list \<Rightarrow> 'b option" where
  "find_map f [] = None"
| "find_map f (x # xs) = (case f x of Some y \<Rightarrow> Some y | None \<Rightarrow> find_map f xs)"

definition first_agent_anchor ::
  "agent_identity \<Rightarrow> pane_agents \<Rightarrow> pane_id set \<Rightarrow> (pane_id, pane_id) hmap \<Rightarrow> pane_id option" where
  "first_agent_anchor agent pas anchors pane_workspace =
    find_map (\<lambda>(p, meta). if same_agent (apm_agent meta) agent
                          then owner_anchor p anchors pane_workspace else None) (hitems pas)"

definition window_target_matches :: "grant_record \<Rightarrow> string option \<Rightarrow> bool" where
  "window_target_matches g target_window =
    (case (gr_target_window (grc_request g), target_window) of
       (None, None) \<Rightarrow> True
     | (Some expected, Some actual) \<Rightarrow> expected = actual
     | _ \<Rightarrow> False)"

definition grant_matches ::
  "grant_record \<Rightarrow> agent_identity \<Rightarrow> grant_scope \<Rightarrow> uuid option \<Rightarrow> uuid \<Rightarrow> string option \<Rightarrow> bool" where
  "grant_matches g agent scope target_anchor target_pane target_window =
    (same_agent (gr_requester (grc_request g)) agent \<and> gr_scope (grc_request g) = scope \<and>
     window_target_matches g target_window \<and>
     (gr_target_pane (grc_request g) = Some target_pane \<or>
      (target_anchor \<noteq> None \<and> gr_target_anchor (grc_request g) = target_anchor)))"

definition existing_grant_decision ::
  "nat \<Rightarrow> agent_identity \<Rightarrow> grant_scope \<Rightarrow> uuid option \<Rightarrow> uuid \<Rightarrow> string option \<Rightarrow> grants \<Rightarrow>
    grants \<times> (bus_error + unit) option" where
  "existing_grant_decision now agent scope target_anchor target_pane target_window grants =
    (case find_map (\<lambda>(i, g). if grant_matches g agent scope target_anchor target_pane target_window
                             then Some i else None) (hitems grants) of
       None \<Rightarrow> (grants, None)
     | Some i \<Rightarrow> (case hget grants i of
         None \<Rightarrow> (grants, None)
       | Some g \<Rightarrow> (case grc_state g of
           G_AllowedOnce \<Rightarrow> (hput i (g\<lparr>grc_state := G_Revoked\<rparr>) grants, Some (Inr ()))
         | G_AllowedUntil t \<Rightarrow> (grants, Some (if now < t then Inr () else Inl (Unauthorized
             [Txt ''grant '', FUuid i, Txt '' expired for '', FScope scope])))
         | G_Pending \<Rightarrow> (grants, Some (Inl (Unauthorized
             [Txt ''grant '', FUuid i, Txt '' is pending for '', FScope scope])))
         | G_Denied \<Rightarrow> (grants, Some (Inl (GrantDenied
             [Txt ''grant '', FUuid i, Txt '' was denied for '', FScope scope])))
         | G_Revoked \<Rightarrow> (grants, Some (Inl (GrantDenied
             [Txt ''grant '', FUuid i, Txt '' was revoked for '', FScope scope]))))))"

text \<open>
  What the check reads besides the grants: the panes' agents, the anchors, the workspace owners and
  the anchors' ids.
\<close>

record access_env =
  ae_pane_agents :: pane_agents
  ae_anchors :: "pane_id set"
  ae_pane_workspace :: "(pane_id, pane_id) hmap"
  ae_pane_anchor_ids :: "(pane_id, uuid) hmap"

definition anchor_id_of :: "access_env \<Rightarrow> pane_id option \<Rightarrow> uuid option" where
  "anchor_id_of env p = (case p of None \<Rightarrow> None | Some q \<Rightarrow> hget (ae_pane_anchor_ids env) q)"

definition target_anchor_pane :: "access_env \<Rightarrow> pane_id \<Rightarrow> pane_id option" where
  "target_anchor_pane env p = owner_anchor p (ae_anchors env) (ae_pane_workspace env)"

definition source_anchor_pane :: "access_env \<Rightarrow> agent_identity \<Rightarrow> pane_id option" where
  "source_anchor_pane env agent =
    first_agent_anchor agent (ae_pane_agents env) (ae_anchors env) (ae_pane_workspace env)"

definition own_pane :: "access_env \<Rightarrow> agent_identity \<Rightarrow> pane_id \<Rightarrow> bool" where
  "own_pane env agent p =
    (case hget (ae_pane_agents env) p of None \<Rightarrow> False | Some meta \<Rightarrow> same_agent (apm_agent meta) agent)"

definition authorize_pane_access ::
  "nat \<Rightarrow> uuid \<Rightarrow> access_env \<Rightarrow> pane_id \<Rightarrow> uuid \<Rightarrow> grant_scope \<Rightarrow> agent_identity option \<Rightarrow>
    string option \<Rightarrow> msg \<Rightarrow> grants \<Rightarrow> grants \<times> (bus_error + unit)" where
  "authorize_pane_access now new_id env target_pane target_uuid scope agent_opt target_window reason grants =
    (case agent_opt of
       None \<Rightarrow> (grants, Inr ())
     | Some agent \<Rightarrow>
       if own_pane env agent target_pane then (grants, Inr ())
       else let tp = target_anchor_pane env target_pane;
                ta = anchor_id_of env tp;
                sp = source_anchor_pane env agent
            in if tp \<noteq> None \<and> tp = sp then (grants, Inr ())
               else let sa = anchor_id_of env sp in
                 case existing_grant_decision now agent scope ta target_uuid target_window grants of
                   (grants', Some res) \<Rightarrow> (grants', res)
                 | (grants', None) \<Rightarrow>
                     let req = \<lparr>gr_grant_id = new_id, gr_requester = agent, gr_scope = scope,
                           gr_source_anchor = sa, gr_target_anchor = ta,
                           gr_target_pane = Some target_uuid, gr_target_window = target_window,
                           gr_reason = Some reason\<rparr>
                     in (fst (register_grant_request req grants'),
                         Inl (Unauthorized
                           [Txt ''grant required; request '', FUuid new_id, Txt '' is pending''])))"

section \<open>What the check promises\<close>

text \<open>The reasons for which access may be given without asking the user.\<close>

definition agent_at_home :: "access_env \<Rightarrow> agent_identity \<Rightarrow> pane_id \<Rightarrow> bool" where
  "agent_at_home env agent p =
    (own_pane env agent p \<or>
     (target_anchor_pane env p \<noteq> None \<and> target_anchor_pane env p = source_anchor_pane env agent))"

definition granting ::
  "nat \<Rightarrow> grants \<Rightarrow> access_env \<Rightarrow> agent_identity \<Rightarrow> grant_scope \<Rightarrow> pane_id \<Rightarrow> uuid \<Rightarrow> string option \<Rightarrow> uuid \<Rightarrow> bool" where
  "granting now grants env agent scope p u w i =
    (case hget grants i of None \<Rightarrow> False
     | Some g \<Rightarrow> grant_matches g agent scope (anchor_id_of env (target_anchor_pane env p)) u w \<and>
                 grant_active now (grc_state g))"

lemma find_map_Some: "find_map f xs = Some y \<Longrightarrow> \<exists>x \<in> set xs. f x = Some y"
  by (induction xs) (auto split: option.splits)

lemma find_map_None: "find_map f xs = None \<longleftrightarrow> (\<forall>x \<in> set xs. f x = None)"
  by (induction xs) (auto split: option.splits)

lemma find_map_cong: "(\<And>x. x \<in> set xs \<Longrightarrow> f (h x) = g x) \<Longrightarrow> find_map f (map h xs) = find_map g xs"
  by (induction xs) (auto split: option.splits)

text \<open>The grant the check finds is the first that matches in the map's order.\<close>

definition first_match ::
  "agent_identity \<Rightarrow> grant_scope \<Rightarrow> uuid option \<Rightarrow> uuid \<Rightarrow> string option \<Rightarrow> grants \<Rightarrow> uuid option" where
  "first_match agent scope ta u w grants =
    find_map (\<lambda>(i, g). if grant_matches g agent scope ta u w then Some i else None) (hitems grants)"

lemma first_match_Some:
  assumes "first_match agent scope ta u w grants = Some i"
  obtains g where "hget grants i = Some g" "grant_matches g agent scope ta u w"
  using find_map_Some [OF assms [unfolded first_match_def]] that by (auto split: if_splits)

lemma first_match_None:
  "first_match agent scope ta u w grants = None \<longleftrightarrow>
    (\<forall>i g. hget grants i = Some g \<longrightarrow> \<not> grant_matches g agent scope ta u w)"
proof -
  have "first_match agent scope ta u w grants = None \<longleftrightarrow>
    (\<forall>(i, g) \<in> set (hitems grants). \<not> grant_matches g agent scope ta u w)"
    unfolding first_match_def find_map_None by auto
  also have "\<dots> \<longleftrightarrow> (\<forall>i g. hget grants i = Some g \<longrightarrow> \<not> grant_matches g agent scope ta u w)"
    unfolding in_hitems [symmetric] by fast
  finally show ?thesis .
qed

lemma hkeys_hput_same: "hget m k \<noteq> None \<Longrightarrow> hkeys (hput k v m) = hkeys m"
proof -
  assume "hget m k \<noteq> None"
  then have "k \<in> fst ` set m" by (simp add: hget_def map_of_eq_None_iff)
  then have "map fst (hput k v m) = map fst m" unfolding hput_def
    by (simp add: update_keys)
  then show ?thesis by (simp add: hkeys_def)
qed

lemma hitems_hput_same:
  "hget m k \<noteq> None \<Longrightarrow> hitems (hput k v m) = map (\<lambda>(j, x). (j, if j = k then v else x)) (hitems m)"
  by (auto simp: hitems_def hkeys_hput_same hget_hput)

lemma grant_matches_state [simp]: "grant_matches (g\<lparr>grc_state := s\<rparr>) = grant_matches g"
  by (intro ext) (simp add: grant_matches_def window_target_matches_def)

lemma first_match_restate:
  assumes "hget grants i = Some g"
  shows "first_match agent scope ta u w (hput i (g\<lparr>grc_state := s\<rparr>) grants) =
    first_match agent scope ta u w grants"
  unfolding first_match_def using assms
  by (subst hitems_hput_same, simp) (rule find_map_cong, auto)

lemma existing_grant_decision_eq:
  "existing_grant_decision now agent scope ta u w grants =
    (case first_match agent scope ta u w grants of
       None \<Rightarrow> (grants, None)
     | Some i \<Rightarrow> (let g = the (hget grants i) in
         if grc_state g = G_AllowedOnce then (hput i (g\<lparr>grc_state := G_Revoked\<rparr>) grants, Some (Inr ()))
         else if grant_active now (grc_state g) then (grants, Some (Inr ()))
         else (grants, Some (Inl (case grc_state g of
             G_AllowedUntil _ \<Rightarrow> Unauthorized [Txt ''grant '', FUuid i, Txt '' expired for '', FScope scope]
           | G_Pending \<Rightarrow> Unauthorized [Txt ''grant '', FUuid i, Txt '' is pending for '', FScope scope]
           | G_Denied \<Rightarrow> GrantDenied [Txt ''grant '', FUuid i, Txt '' was denied for '', FScope scope]
           | _ \<Rightarrow> GrantDenied [Txt ''grant '', FUuid i, Txt '' was revoked for '', FScope scope])))))"
proof (cases "first_match agent scope ta u w grants")
  case None
  then show ?thesis by (simp add: existing_grant_decision_def first_match_def)
next
  case (Some i)
  then obtain g where "hget grants i = Some g" by (rule first_match_Some)
  then show ?thesis using Some
    by (cases "grc_state g")
      (simp_all add: existing_grant_decision_def first_match_def [symmetric] grant_active_def)
qed

lemma authorize_at_home:
  "agent_at_home env agent p \<Longrightarrow>
    authorize_pane_access now n env p u scope (Some agent) w reason grants = (grants, Inr ())"
  by (auto simp: authorize_pane_access_def agent_at_home_def Let_def)

lemma authorize_away:
  "\<not> agent_at_home env agent p \<Longrightarrow>
    authorize_pane_access now n env p u scope (Some agent) w reason grants =
    (let ta = anchor_id_of env (target_anchor_pane env p) in
     case existing_grant_decision now agent scope ta u w grants of
       (grants', Some res) \<Rightarrow> (grants', res)
     | (grants', None) \<Rightarrow>
         (fst (register_grant_request \<lparr>gr_grant_id = n, gr_requester = agent, gr_scope = scope,
             gr_source_anchor = anchor_id_of env (source_anchor_pane env agent), gr_target_anchor = ta,
             gr_target_pane = Some u, gr_target_window = w, gr_reason = Some reason\<rparr> grants'),
          Inl (Unauthorized [Txt ''grant required; request '', FUuid n, Txt '' is pending''])))"
  by (auto simp: authorize_pane_access_def agent_at_home_def Let_def)

lemma authorize_granted:
  assumes "snd (authorize_pane_access now n env p u scope (Some agent) w reason grants) = Inr ()"
    and "\<not> agent_at_home env agent p"
  obtains i where "first_match agent scope (anchor_id_of env (target_anchor_pane env p)) u w grants = Some i"
    and "granting now grants env agent scope p u w i"
    and "fst (authorize_pane_access now n env p u scope (Some agent) w reason grants) =
      (if grc_state (the (hget grants i)) = G_AllowedOnce
       then hput i ((the (hget grants i))\<lparr>grc_state := G_Revoked\<rparr>) grants else grants)"
proof -
  let ?ta = "anchor_id_of env (target_anchor_pane env p)"
  obtain i where i: "first_match agent scope ?ta u w grants = Some i"
    using assms by (auto simp: authorize_away existing_grant_decision_eq Let_def split: option.splits)
  then obtain g where g: "hget grants i = Some g" "grant_matches g agent scope ?ta u w"
    by (rule first_match_Some)
  have act: "grant_active now (grc_state g)"
    using assms i g
    by (auto simp: authorize_away existing_grant_decision_eq Let_def grant_active_def split: if_splits)
  show thesis
    using that [OF i] g act assms(2) i
    by (auto simp: granting_def authorize_away existing_grant_decision_eq Let_def)
qed

lemma authorize_never_grants:
  assumes "hget (fst (authorize_pane_access now n env p u scope agent w reason grants)) i = Some g"
    and "grant_active t (grc_state g)"
  shows "hget grants i = Some g"
  using assms
  by (cases agent; cases "agent_at_home env (the agent) p")
    (auto simp: authorize_at_home authorize_away existing_grant_decision_eq Let_def hget_hput
      register_grant_request_def grant_active_def authorize_pane_access_def
      split: option.splits if_splits)

section \<open>Properties\<close>


definition demo_env :: access_env where
  "demo_env = \<lparr>ae_pane_agents = [], ae_anchors = {1}, ae_pane_workspace = [(1, 1)],
     ae_pane_anchor_ids = [(1, 101)]\<rparr>"

definition demo_grant :: "agent_identity \<Rightarrow> grant_state \<Rightarrow> grants" where
  "demo_grant agent s =
    [(9, \<lparr>grc_request = \<lparr>gr_grant_id = 9, gr_requester = agent, gr_scope = SendInput,
        gr_source_anchor = None, gr_target_anchor = Some 101, gr_target_pane = None,
        gr_target_window = None, gr_reason = None\<rparr>, grc_state = s\<rparr>)]"


text \<open>When no grant at all matches a request from outside, the request is refused and recorded as
  a pending one under the fresh id, for the user to decide.\<close>

theorem unmatched_request_becomes_pending:
  assumes "\<not> agent_at_home env agent p"
    and "list_all (\<lambda>g. \<not> grant_matches g agent scope (anchor_id_of env (target_anchor_pane env p)) u w) (hvals grants)"
  shows "case authorize_pane_access now n env p u scope (Some agent) w reason grants of
    (grants', res) \<Rightarrow> (case res of Inl (Unauthorized _) \<Rightarrow> True | _ \<Rightarrow> False) \<and>
      (case hget grants' n of None \<Rightarrow> False
       | Some g \<Rightarrow> grc_state g = G_Pending \<and>
           grant_matches g agent scope (anchor_id_of env (target_anchor_pane env p)) u w) \<and>
      (\<forall>i. i = n \<or> hget grants' i = hget grants i)"
proof -
  have "first_match agent scope (anchor_id_of env (target_anchor_pane env p)) u w grants = None"
    using assms(2) in_hvals unfolding first_match_None list_all_iff by metis
  then show ?thesis
    by (simp add: authorize_away [OF assms(1)] existing_grant_decision_eq Let_def
      register_grant_request_def grant_matches_def same_agent_def window_target_matches_def hget_hput
      split: option.split)
qed

theorem unmatched_request_becomes_pending_witness:
  "\<forall>agent. case hget (fst (authorize_pane_access 0 5 demo_env 1 201 SendInput (Some agent) None [] [])) 5 of
     None \<Rightarrow> False | Some g \<Rightarrow> grc_state g = G_Pending"
proof
  fix agent
  have 1: "\<not> agent_at_home demo_env agent 1"
    by (simp add: demo_env_def own_pane_def hget_Cons target_anchor_pane_def source_anchor_pane_def
      owner_anchor_def first_agent_anchor_def hitems_def hkeys_def agent_at_home_def)
  have 2: "list_all (\<lambda>g. \<not> grant_matches g agent SendInput
      (anchor_id_of demo_env (target_anchor_pane demo_env 1)) 201 None) (hvals [])"
    by (simp add: hvals_def hitems_def hkeys_def)
  show "case hget (fst (authorize_pane_access 0 5 demo_env 1 201 SendInput (Some agent) None [] [])) 5 of
     None \<Rightarrow> False | Some g \<Rightarrow> grc_state g = G_Pending"
    using unmatched_request_becomes_pending [OF 1 2, of 5 0 "[]"] by (auto split: option.splits prod.splits)
qed

text \<open>No request makes an active grant: whatever grant is active afterwards was there before, in
  the same state; only a decision makes one.\<close>

theorem requests_never_grant:
  assumes "grant_active t (grc_state g)"
    and "hget (fst (authorize_pane_access now n env p u scope agent w reason grants)) i = Some g"
  shows "hget grants i = Some g"
  using authorize_never_grants [OF assms(2,1)] .

theorem requests_never_grant_witness:
  "\<forall>agent. \<exists>g. hget (demo_grant agent (G_AllowedUntil 8)) 9 = Some g \<and> grant_active 0 (grc_state g)"
proof
  fix agent
  let ?g = "snd (hd (demo_grant agent (G_AllowedUntil 8)))"
  have a: "grant_active 0 (grc_state ?g)" by (simp add: demo_grant_def grant_active_def)
  have h: "hget (fst (authorize_pane_access 0 5 demo_env 1 201 SendInput (Some agent) None []
      (demo_grant agent (G_AllowedUntil 8)))) 9 = Some ?g"
    by (simp add: authorize_pane_access_def demo_env_def demo_grant_def own_pane_def hget_Cons
      target_anchor_pane_def source_anchor_pane_def owner_anchor_def first_agent_anchor_def hitems_def
      hkeys_def anchor_id_of_def existing_grant_decision_def grant_matches_def same_agent_def
      window_target_matches_def)
  show "\<exists>g. hget (demo_grant agent (G_AllowedUntil 8)) 9 = Some g \<and> grant_active 0 (grc_state g)"
    using requests_never_grant [OF a h] a by blast
qed

end
