(* ===== verification/StateFiles.thy ===== *)
theory StateFiles
  imports Prelude
begin

text \<open>
  The snapshot format of \<open>crates/lmux-state/src/lib.rs\<close> and the atomic writer of
  \<open>atomic_write.rs\<close>, over a directory of files. Every system call the code makes may be refused: the
  refusals are an argument. Serde's JSON is a parameter.
\<close>

section \<open>Snapshot data\<close>

datatype prov_snapshot = PS_Default | PS_Agent | PS_User

record pane_title_snapshot =
  pts_title :: string
  pts_provenance :: prov_snapshot
  pts_pinned :: bool

record terminal_tab_stack_snapshot =
  tts_anchor_pane_id :: nat
  tts_tab_roots :: "nat list"
  tts_active_tab :: "nat option"

datatype split_dir = SD_Horizontal | SD_Vertical

datatype layout_node = NLeaf nat | NSplit split_dir layout_node layout_node f64

record session_snapshot =
  sn_v :: nat
  sn_created_at :: nat
  sn_anchor_pane_id :: "nat option"
  sn_anchor_pane_ids :: "nat list"
  sn_layout :: layout_node
  sn_cwds :: "(nat, string) hmap"
  sn_pane_titles :: "(nat, pane_title_snapshot) hmap"
  sn_terminal_tabs :: "terminal_tab_stack_snapshot list"
  sn_pane_terminal_tab_roots :: "(nat, nat) hmap"

definition SCHEMA_VERSION :: nat where
  "SCHEMA_VERSION = 1"

definition snapshot_anchors :: "session_snapshot \<Rightarrow> nat list" where
  "snapshot_anchors s =
    (if sn_anchor_pane_ids s \<noteq> [] then sn_anchor_pane_ids s
     else (case sn_anchor_pane_id s of None \<Rightarrow> [] | Some a \<Rightarrow> [a]))"

text \<open>A \<open>BTreeMap\<close> keeps its entries in key order.\<close>

definition btree :: "(('k::linorder), 'v) hmap \<Rightarrow> ('k, 'v) hmap" where
  "btree m = sort_key fst (hitems m)"

lemma distinct_keys_sort: "distinct (map fst (sort_key f xs)) = distinct (map fst xs)"
  by (rule mset_eq_imp_distinct_iff) simp

lemma hget_perm:
  assumes "distinct (map fst xs)" "mset xs = mset ys"
  shows "hget xs k = hget ys k"
  using assms unfolding hget_def
  by (metis (no_types, lifting) map_of_inject_set mset_eq_setD mset_map mset_eq_imp_distinct_iff)

lemma hget_btree [simp]: "hget (btree m) k = hget m k"
proof -
  have "hget (btree m) k = hget (hitems m) k"
    unfolding btree_def by (rule hget_perm) (simp_all add: distinct_keys_sort)
  then show ?thesis by simp
qed

section \<open>A directory of files\<close>

type_synonym files = "(string, string) hmap"

datatype io_error = NotFound | IoOther string

datatype write_error = W_NoParent | W_Io io_error | W_Serialize string

datatype write_step = CreateDir | OpenTmp | WriteAll | SyncFile | RenameTmp | RemoveTmp | SyncDir

text \<open>
  What the system refuses: reads, removals and renames by file name, and the steps of the atomic
  writer by target name.
\<close>

record sysfaults =
  sf_read :: "string \<Rightarrow> io_error option"
  sf_remove :: "string \<Rightarrow> io_error option"
  sf_rename :: "string \<Rightarrow> bool"
  sf_write :: "string \<Rightarrow> write_step \<Rightarrow> io_error option"

definition no_faults :: sysfaults where
  "no_faults = \<lparr>sf_read = (\<lambda>_. None), sf_remove = (\<lambda>_. None), sf_rename = (\<lambda>_. False),
     sf_write = (\<lambda>_ _. None)\<rparr>"

definition fs_read :: "sysfaults \<Rightarrow> string \<Rightarrow> files \<Rightarrow> io_error + string" where
  "fs_read ff p d =
    (case sf_read ff p of Some e \<Rightarrow> Inl e
     | None \<Rightarrow> (case hget d p of None \<Rightarrow> Inl NotFound | Some c \<Rightarrow> Inr c))"

definition fs_remove :: "sysfaults \<Rightarrow> string \<Rightarrow> files \<Rightarrow> files \<times> io_error option" where
  "fs_remove ff p d =
    (case sf_remove ff p of Some e \<Rightarrow> (d, Some e)
     | None \<Rightarrow> (case hget d p of None \<Rightarrow> (d, Some NotFound) | Some _ \<Rightarrow> (hdel p d, None)))"

definition fs_rename :: "string \<Rightarrow> string \<Rightarrow> files \<Rightarrow> files" where
  "fs_rename p q d = (case hget d p of None \<Rightarrow> d | Some c \<Rightarrow> hput q c (hdel p d))"

section \<open>The atomic writer\<close>

definition tmp_name :: "string \<Rightarrow> nat \<Rightarrow> nat \<Rightarrow> string" where
  "tmp_name path pid n = path @ ''.tmp.'' @ show_nat pid @ ''.'' @ show_nat n"

lemma tmp_name_inject [simp]: "tmp_name p i m = tmp_name p i n \<longleftrightarrow> m = n"
  by (simp add: tmp_name_def)

lemma tmp_name_ne [simp]: "tmp_name p i n \<noteq> p" "p \<noteq> tmp_name p i n"
  by (simp_all add: tmp_name_def)

lemma finite_taken: "finite {m. tmp_name p i m \<in> hdom d}"
  by (rule finite_imageD [of "tmp_name p i"])
    (auto intro: finite_subset [OF _ finite_hdom [of d]] simp: inj_on_def)

text \<open>
  Names are drawn from a counter until one is free; the loop ends because only finitely many
  names are taken.
\<close>

function free_tmp :: "files \<Rightarrow> string \<Rightarrow> nat \<Rightarrow> nat \<Rightarrow> nat" where
  "free_tmp d path pid n = (if hget d (tmp_name path pid n) \<noteq> None then free_tmp d path pid (Suc n) else n)"
  by pat_completeness auto

termination
proof (relation "measure (\<lambda>(d, path, pid, n). card {m. n \<le> m \<and> tmp_name path pid m \<in> hdom d})")
  fix d :: files and path :: string and pid n :: nat
  assume hit: "hget d (tmp_name path pid n) \<noteq> None"
  let ?T = "\<lambda>n. {m. n \<le> m \<and> tmp_name path pid m \<in> hdom d}"
  have "n \<in> ?T n" "n \<notin> ?T (Suc n)" using hit by auto
  moreover have "?T (Suc n) \<subseteq> ?T n" by auto
  ultimately have "?T (Suc n) \<subset> ?T n" by blast
  moreover have "finite (?T n)" by (rule finite_subset [OF _ finite_taken [of path pid d]]) auto
  ultimately show "((d, path, pid, Suc n), (d, path, pid, n)) \<in>
      measure (\<lambda>(d, path, pid, n). card {m. n \<le> m \<and> tmp_name path pid m \<in> hdom d})"
    by (simp add: psubset_card_mono)
qed simp

declare free_tmp.simps [simp del]

lemma free_tmp_free: "hget d (tmp_name path pid (free_tmp d path pid n)) = None"
  by (induction d path pid n rule: free_tmp.induct) (subst free_tmp.simps, auto)

lemma free_tmp_ge: "n \<le> free_tmp d path pid n"
  by (induction d path pid n rule: free_tmp.induct) (subst free_tmp.simps, auto)

text \<open>
  The disk the writer works on: the files and the process-wide counter. A write cut short leaves
  some prefix of the bytes in the temporary file. A path to write has a parent directory: the callers' paths
  are a file name joined to one.
\<close>

record disk =
  dk_files :: files
  dk_counter :: nat

definition write_bytes ::
  "sysfaults \<Rightarrow> nat \<Rightarrow> nat \<Rightarrow> string \<Rightarrow> string \<Rightarrow> disk \<Rightarrow> disk \<times> (write_error + unit)" where
  "write_bytes ff pid part path bytes dk =
    (case sf_write ff path CreateDir of Some e \<Rightarrow> (dk, Inl (W_Io e)) | None \<Rightarrow>
     let n0 = dk_counter dk;
         n = free_tmp (dk_files dk) path pid n0;
         tmp = tmp_name path pid n
     in case sf_write ff path OpenTmp of
          Some e \<Rightarrow> (dk\<lparr>dk_counter := Suc n0\<rparr>, Inl (W_Io e))
        | None \<Rightarrow>
     let dk1 = dk\<lparr>dk_counter := Suc n\<rparr>;
         put = (\<lambda>c. dk1\<lparr>dk_files := hput tmp c (dk_files dk)\<rparr>)
     in case sf_write ff path WriteAll of Some e \<Rightarrow> (put (take part bytes), Inl (W_Io e)) | None \<Rightarrow>
        case sf_write ff path SyncFile of Some e \<Rightarrow> (put bytes, Inl (W_Io e)) | None \<Rightarrow>
        case sf_write ff path RenameTmp of
          Some e \<Rightarrow> ((if sf_write ff path RemoveTmp = None
              then dk1\<lparr>dk_files := hdel tmp (hput tmp bytes (dk_files dk))\<rparr> else put bytes), Inl (W_Io e))
        | None \<Rightarrow>
     let dk2 = dk1\<lparr>dk_files := hput path bytes (hdel tmp (hput tmp bytes (dk_files dk)))\<rparr>
     in case sf_write ff path SyncDir of Some e \<Rightarrow> (dk2, Inl (W_Io e)) | None \<Rightarrow> (dk2, Inr ()))"

lemma write_bytes_ok:
  "snd (write_bytes ff pid part path bytes dk) = Inr () \<Longrightarrow>
    hget (dk_files (fst (write_bytes ff pid part path bytes dk))) path = Some bytes"
  by (auto simp: write_bytes_def Let_def split: option.splits)

lemma write_bytes_atomic:
  "hget (dk_files (fst (write_bytes ff pid part path bytes dk))) path
    \<in> {hget (dk_files dk) path, Some bytes}"
  by (auto simp: write_bytes_def Let_def hget_hput hget_hdel split: option.splits)

lemma write_bytes_frame:
  assumes "q \<noteq> path" "\<And>n. q \<noteq> tmp_name path pid n"
  shows "hget (dk_files (fst (write_bytes ff pid part path bytes dk))) q = hget (dk_files dk) q"
  using assms by (auto simp: write_bytes_def Let_def hget_hput hget_hdel split: option.splits)

lemma write_bytes_keeps_existing:
  assumes "hget (dk_files dk) q = Some c" "q \<noteq> path"
  shows "hget (dk_files (fst (write_bytes ff pid part path bytes dk))) q = Some c"
proof -
  have "q \<noteq> tmp_name path pid (free_tmp (dk_files dk) path pid (dk_counter dk))"
    using assms(1) free_tmp_free by (metis option.distinct(1))
  then show ?thesis
    using assms by (auto simp: write_bytes_def Let_def hget_hput hget_hdel split: option.splits)
qed

lemma write_bytes_no_faults:
  assumes "\<And>st. sf_write ff path st = None"
  shows "snd (write_bytes ff pid part path bytes dk) = Inr ()"
    and "hget (dk_files (fst (write_bytes ff pid part path bytes dk))) q =
      (if q = path then Some bytes else hget (dk_files dk) q)"
proof -
  have "hget (dk_files dk) (tmp_name path pid (free_tmp (dk_files dk) path pid (dk_counter dk))) = None"
    by (rule free_tmp_free)
  then show "snd (write_bytes ff pid part path bytes dk) = Inr ()"
    and "hget (dk_files (fst (write_bytes ff pid part path bytes dk))) q =
      (if q = path then Some bytes else hget (dk_files dk) q)"
    using assms by (auto simp: write_bytes_def Let_def hget_hput hget_hdel)
qed

section \<open>Loading and saving the snapshot\<close>

definition bad_name :: "string \<Rightarrow> nat \<Rightarrow> string" where
  "bad_name path ts = path @ ''.bad.'' @ show_nat ts"

definition rename_aside :: "sysfaults \<Rightarrow> nat \<Rightarrow> string \<Rightarrow> files \<Rightarrow> files \<times> string option" where
  "rename_aside ff now path d =
    (if sf_rename ff path \<or> hget d path = None then (d, None)
     else (fs_rename path (bad_name path now) d, Some (bad_name path now)))"

datatype load_failure = ReadFailed io_error | UnknownVersion nat | ParseFailed string

datatype load_outcome = Missing | Loaded session_snapshot | Corrupt load_failure "string option"

definition load ::
  "sysfaults \<Rightarrow> nat \<Rightarrow> (string \<Rightarrow> string + session_snapshot) \<Rightarrow> string \<Rightarrow> files \<Rightarrow> files \<times> load_outcome" where
  "load ff now from_slice path d =
    (case fs_read ff path d of
       Inl NotFound \<Rightarrow> (d, Missing)
     | Inl e \<Rightarrow> (d, Corrupt (ReadFailed e) None)
     | Inr bytes \<Rightarrow> (case from_slice bytes of
         Inl err \<Rightarrow> (let (d', r) = rename_aside ff now path d in (d', Corrupt (ParseFailed err) r))
       | Inr snap \<Rightarrow>
           if sn_v snap = SCHEMA_VERSION then (d, Loaded snap)
           else (let (d', r) = rename_aside ff now path d in (d', Corrupt (UnknownVersion (sn_v snap)) r))))"

definition save ::
  "sysfaults \<Rightarrow> nat \<Rightarrow> nat \<Rightarrow> (session_snapshot \<Rightarrow> string + string) \<Rightarrow> string \<Rightarrow> session_snapshot \<Rightarrow>
    disk \<Rightarrow> disk \<times> (write_error + unit)" where
  "save ff pid part to_vec path snap dk =
    (case to_vec snap of Inl e \<Rightarrow> (dk, Inl (W_Serialize e))
     | Inr bytes \<Rightarrow> write_bytes ff pid part path bytes dk)"

lemma bad_name_ne [simp]: "bad_name p n \<noteq> p" "p \<noteq> bad_name p n"
  by (simp_all add: bad_name_def)

lemma load_never_loses:
  assumes "hget d path = Some bytes" "load ff now from_slice path d = (d', r)"
  shows "hget d' path = Some bytes \<or> hget d' (bad_name path now) = Some bytes"
  using assms
  by (auto simp: load_def rename_aside_def fs_rename_def hget_hput hget_hdel
      split: sum.splits io_error.splits if_splits)

section \<open>Properties\<close>

text \<open>C32: A write to a snapshot or session file is atomic at every system call that may fail: a reader
  finds the old contents or the whole new ones, success means the new ones, and every other file that
  was there is as it was.\<close>

theorem atomic_write_is_atomic:
  "case write_bytes ff pid part path bytes dk of (dk', res) \<Rightarrow>
     hget (dk_files dk') path \<in> {hget (dk_files dk) path, Some bytes} \<and>
     (case res of Inr _ \<Rightarrow> hget (dk_files dk') path = Some bytes | Inl _ \<Rightarrow> True) \<and>
     list_all (\<lambda>(q, c). q = path \<or> hget (dk_files dk') q = Some c) (hitems (dk_files dk))"
proof (cases "write_bytes ff pid part path bytes dk")
  case (Pair dk' res)
  have keep: "q = path \<or> hget (dk_files dk') q = Some c" if "hget (dk_files dk) q = Some c" for q c
    using write_bytes_keeps_existing [OF that, of path ff pid part bytes] Pair by auto
  show ?thesis
    using write_bytes_atomic [of ff pid part path bytes dk] write_bytes_ok [of ff pid part path bytes dk] keep
    by (auto simp: Pair hitems_all split: sum.split)
qed

text \<open>Loading never loses the bytes of a snapshot it cannot use: they are still at the path or in
  the file the load renamed them to; and what it loads has the schema version.\<close>

theorem corrupt_snapshot_kept_aside:
  "case load ff now from_slice path d of (d', res) \<Rightarrow>
     (case hget d path of None \<Rightarrow> True
      | Some bytes \<Rightarrow> hget d' path = Some bytes \<or> hget d' (bad_name path now) = Some bytes) \<and>
     (case res of Loaded s \<Rightarrow> sn_v s = SCHEMA_VERSION \<and> d' = d \<and> hget d path \<noteq> None
      | Missing \<Rightarrow> d' = d | Corrupt _ _ \<Rightarrow> True)"
proof (cases "load ff now from_slice path d")
  case (Pair d' res)
  have "case hget d path of None \<Rightarrow> True
      | Some bytes \<Rightarrow> hget d' path = Some bytes \<or> hget d' (bad_name path now) = Some bytes"
    using load_never_loses [OF _ Pair] by (auto split: option.splits)
  moreover have "case res of Loaded s \<Rightarrow> sn_v s = SCHEMA_VERSION \<and> d' = d \<and> hget d path \<noteq> None
      | Missing \<Rightarrow> d' = d | Corrupt _ _ \<Rightarrow> True"
    using Pair by (auto simp: load_def fs_read_def split: option.splits sum.splits io_error.splits if_splits prod.splits)
  ultimately show ?thesis using Pair by simp
qed

end
