(* ===== verification/SessionStore.thy ===== *)
theory SessionStore
  imports StateFiles
begin

text \<open>
  Named sessions on disk: \<open>crates/lmux-session/src/lib.rs\<close> (session and index), \<open>store.rs\<close> (create,
  rename, delete, load, list, save, rebuilding the index) and \<open>migration.rs\<close>. The disk holds the files
  of \<open>sessions/\<close>; TOML is a parameter, its laws are named hypotheses where a property needs them.
\<close>

section \<open>Data\<close>

record anchor_ref =
  ar_pane_id :: nat
  ar_argv :: "string list"
  ar_cwd :: string
  ar_hide_on_session_close :: bool

record session =
  se_name :: string
  se_created_at :: nat
  se_last_opened_at :: nat
  se_layout :: layout_node
  se_cwds :: "(nat, string) hmap"
  se_anchors :: "anchor_ref list"
  se_pane_titles :: "(nat, pane_title_snapshot) hmap"
  se_terminal_tabs :: "terminal_tab_stack_snapshot list"
  se_pane_terminal_tab_roots :: "(nat, nat) hmap"

definition session_empty :: "string \<Rightarrow> nat \<Rightarrow> session" where
  "session_empty name now =
    \<lparr>se_name = name, se_created_at = now, se_last_opened_at = now, se_layout = NLeaf 1,
     se_cwds = [], se_anchors = [], se_pane_titles = [], se_terminal_tabs = [],
     se_pane_terminal_tab_roots = []\<rparr>"

definition from_v01_snapshot :: "string \<Rightarrow> session_snapshot \<Rightarrow> nat \<Rightarrow> session" where
  "from_v01_snapshot name snap now =
    \<lparr>se_name = name, se_created_at = sn_created_at snap, se_last_opened_at = now,
     se_layout = sn_layout snap, se_cwds = sn_cwds snap, se_anchors = [],
     se_pane_titles = sn_pane_titles snap, se_terminal_tabs = sn_terminal_tabs snap,
     se_pane_terminal_tab_roots = sn_pane_terminal_tab_roots snap\<rparr>"

record index_entry =
  ie_name :: string
  ie_last_opened_at :: nat

type_synonym session_index = "index_entry list"

subsection \<open>The index\<close>

fun update_first :: "('a \<Rightarrow> bool) \<Rightarrow> ('a \<Rightarrow> 'a) \<Rightarrow> 'a list \<Rightarrow> 'a list" where
  "update_first P f [] = []"
| "update_first P f (x # xs) = (if P x then f x # xs else x # update_first P f xs)"

definition recency :: "index_entry \<Rightarrow> int" where
  "recency e = - int (ie_last_opened_at e)"

definition index_touch :: "string \<Rightarrow> nat \<Rightarrow> session_index \<Rightarrow> session_index" where
  "index_touch name now es =
    sort_key recency
      (if \<exists>e \<in> set es. ie_name e = name
       then update_first (\<lambda>e. ie_name e = name) (\<lambda>e. e\<lparr>ie_last_opened_at := now\<rparr>) es
       else es @ [\<lparr>ie_name = name, ie_last_opened_at = now\<rparr>])"

definition index_remove :: "string \<Rightarrow> session_index \<Rightarrow> session_index" where
  "index_remove name es = filter (\<lambda>e. ie_name e \<noteq> name) es"

definition index_rename :: "string \<Rightarrow> string \<Rightarrow> session_index \<Rightarrow> session_index" where
  "index_rename from to es = update_first (\<lambda>e. ie_name e = from) (\<lambda>e. e\<lparr>ie_name := to\<rparr>) es"

section \<open>The store\<close>

datatype store_error =
  InvalidName string string
| AlreadyExists string
| SessionNotFound string
| StoreIo io_error
| AtomicWrite write_error
| TomlEncode string

record codec =
  cd_session_to :: "session \<Rightarrow> string + string"
  cd_session_from :: "string \<Rightarrow> string + session"
  cd_index_to :: "session_index \<Rightarrow> string + string"
  cd_index_from :: "string \<Rightarrow> string + session_index"

record store_env =
  en_faults :: sysfaults
  en_pid :: nat
  en_part :: nat
  en_clock :: nat
  en_codec :: codec

type_synonym 'a store = "disk \<Rightarrow> disk \<times> (store_error + 'a)"

definition sret :: "'a \<Rightarrow> 'a store" where
  "sret x = (\<lambda>d. (d, Inr x))"

definition sfail :: "store_error \<Rightarrow> 'a store" where
  "sfail e = (\<lambda>d. (d, Inl e))"

definition sbind :: "'a store \<Rightarrow> ('a \<Rightarrow> 'b store) \<Rightarrow> 'b store" where
  "sbind m f = (\<lambda>d. case m d of (d', Inl e) \<Rightarrow> (d', Inl e) | (d', Inr x) \<Rightarrow> f x d')"

definition name_char :: "char \<Rightarrow> bool" where
  "name_char c = (let n = of_char c :: nat in
    (48 \<le> n \<and> n \<le> 57) \<or> (65 \<le> n \<and> n \<le> 90) \<or> (97 \<le> n \<and> n \<le> 122) \<or> c \<in> set ''._-'')"

definition validate_name :: "string \<Rightarrow> store_error option" where
  "validate_name name =
    (if name = [] then Some (InvalidName name ''empty'')
     else if length name > 64 then Some (InvalidName name ''longer than 64 chars'')
     else if hd name = CHR ''.'' then Some (InvalidName name ''leading dot not allowed'')
     else if \<not> list_all name_char name then Some (InvalidName name ''only [A-Za-z0-9._-] permitted'')
     else None)"

definition valid_name :: "string \<Rightarrow> bool" where
  "valid_name name = (validate_name name = None)"

definition check_name :: "string \<Rightarrow> unit store" where
  "check_name name = (case validate_name name of Some e \<Rightarrow> sfail e | None \<Rightarrow> sret ())"

definition session_path :: "string \<Rightarrow> string" where
  "session_path name = name @ ''.toml''"

definition index_path :: string where
  "index_path = ''index.toml''"

definition path_exists :: "string \<Rightarrow> disk \<Rightarrow> bool" where
  "path_exists p d = (hget (dk_files d) p \<noteq> None)"

definition write_path :: "store_env \<Rightarrow> string \<Rightarrow> string \<Rightarrow> unit store" where
  "write_path en p bytes = (\<lambda>d.
    case write_bytes (en_faults en) (en_pid en) (en_part en) p bytes d of
      (d', Inl e) \<Rightarrow> (d', Inl (AtomicWrite e)) | (d', Inr _) \<Rightarrow> (d', Inr ()))"

definition write_session :: "store_env \<Rightarrow> session \<Rightarrow> unit store" where
  "write_session en s =
    (case cd_session_to (en_codec en) s of
       Inl e \<Rightarrow> sfail (TomlEncode e)
     | Inr text \<Rightarrow> write_path en (session_path (se_name s)) text)"

definition write_index :: "store_env \<Rightarrow> session_index \<Rightarrow> unit store" where
  "write_index en es =
    (case cd_index_to (en_codec en) es of
       Inl e \<Rightarrow> sfail (TomlEncode e)
     | Inr text \<Rightarrow> write_path en index_path text)"

definition strip_toml :: "string \<Rightarrow> string option" where
  "strip_toml f =
    (if 5 \<le> length f \<and> drop (length f - 5) f = ''.toml'' then Some (take (length f - 5) f) else None)"

definition rebuild_entry :: "store_env \<Rightarrow> disk \<Rightarrow> string \<Rightarrow> session_index \<Rightarrow> session_index" where
  "rebuild_entry en d f es =
    (if f = index_path then es
     else case strip_toml f of
       None \<Rightarrow> es
     | Some name \<Rightarrow>
       if \<not> valid_name name then es
       else (case fs_read (en_faults en) f (dk_files d) of
          Inl _ \<Rightarrow> es
        | Inr bytes \<Rightarrow> (case cd_session_from (en_codec en) bytes of
            Inl _ \<Rightarrow> es
          | Inr s \<Rightarrow> index_touch name (se_last_opened_at s) es)))"

definition rebuild_index_from_sessions :: "store_env \<Rightarrow> disk \<Rightarrow> session_index" where
  "rebuild_index_from_sessions en d = fold (rebuild_entry en d) (hkeys (dk_files d)) []"

definition aside :: "store_env \<Rightarrow> string \<Rightarrow> disk \<Rightarrow> disk" where
  "aside en p d = d\<lparr>dk_files := fst (rename_aside (en_faults en) (en_clock en) p (dk_files d))\<rparr>"

definition read_index :: "store_env \<Rightarrow> session_index store" where
  "read_index en = (\<lambda>d.
    case fs_read (en_faults en) index_path (dk_files d) of
      Inl NotFound \<Rightarrow> (d, Inr [])
    | Inl e \<Rightarrow> (d, Inl (StoreIo e))
    | Inr bytes \<Rightarrow> (case cd_index_from (en_codec en) bytes of
        Inr es \<Rightarrow> (d, Inr es)
      | Inl _ \<Rightarrow> let d' = aside en index_path d in (d', Inr (rebuild_index_from_sessions en d'))))"

definition bump_index :: "store_env \<Rightarrow> string \<Rightarrow> nat \<Rightarrow> unit store" where
  "bump_index en name now = sbind (read_index en) (\<lambda>es. write_index en (index_touch name now es))"

definition store_create :: "store_env \<Rightarrow> string \<Rightarrow> nat \<Rightarrow> session store" where
  "store_create en name now =
    sbind (check_name name) (\<lambda>_ d.
      if path_exists (session_path name) d then (d, Inl (AlreadyExists name))
      else let session = session_empty name now in
        sbind (write_session en session) (\<lambda>_.
        sbind (bump_index en name now) (\<lambda>_. sret session)) d)"

definition store_load :: "store_env \<Rightarrow> string \<Rightarrow> session store" where
  "store_load en name =
    sbind (check_name name) (\<lambda>_ d.
      case fs_read (en_faults en) (session_path name) (dk_files d) of
        Inl NotFound \<Rightarrow> (d, Inl (SessionNotFound name))
      | Inl e \<Rightarrow> (d, Inl (StoreIo e))
      | Inr bytes \<Rightarrow> (case cd_session_from (en_codec en) bytes of
          Inr s \<Rightarrow> (d, Inr s)
        | Inl _ \<Rightarrow> (aside en (session_path name) d, Inr (session_empty name (en_clock en)))))"

definition remove_path :: "store_env \<Rightarrow> string \<Rightarrow> unit store" where
  "remove_path en p = (\<lambda>d.
    case fs_remove (en_faults en) p (dk_files d) of
      (fs, None) \<Rightarrow> (d\<lparr>dk_files := fs\<rparr>, Inr ())
    | (fs, Some e) \<Rightarrow> (d, Inl (StoreIo e)))"

definition store_rename :: "store_env \<Rightarrow> string \<Rightarrow> string \<Rightarrow> unit store" where
  "store_rename en from to =
    sbind (check_name from) (\<lambda>_. sbind (check_name to) (\<lambda>_ d.
      if \<not> path_exists (session_path from) d then (d, Inl (SessionNotFound from))
      else if path_exists (session_path to) d then (d, Inl (AlreadyExists to))
      else sbind (store_load en from) (\<lambda>session.
        sbind (write_session en (session\<lparr>se_name := to\<rparr>)) (\<lambda>_.
        sbind (remove_path en (session_path from)) (\<lambda>_.
        sbind (read_index en) (\<lambda>es. write_index en (index_rename from to es))))) d))"

definition store_delete :: "store_env \<Rightarrow> string \<Rightarrow> unit store" where
  "store_delete en name =
    sbind (check_name name) (\<lambda>_.
    sbind (\<lambda>d. if path_exists (session_path name) d then remove_path en (session_path name) d
               else (d, Inr ())) (\<lambda>_.
    sbind (read_index en) (\<lambda>es. write_index en (index_remove name es))))"

definition store_list :: "store_env \<Rightarrow> session_index store" where
  "store_list en = read_index en"

definition store_save :: "store_env \<Rightarrow> session \<Rightarrow> unit store" where
  "store_save en s =
    sbind (check_name (se_name s)) (\<lambda>_.
    sbind (write_session en s) (\<lambda>_. bump_index en (se_name s) (se_last_opened_at s)))"

section \<open>Migration\<close>

datatype migration_outcome = Migrated | NotNeeded | SourceCorrupt load_failure

text \<open>The source file lives in a directory of its own, \<open>src\<close>; loading it may rename it aside there.\<close>

definition migrate_v01_last_session ::
  "store_env \<Rightarrow> (string \<Rightarrow> string + session_snapshot) \<Rightarrow> string \<Rightarrow> nat \<Rightarrow> files \<times> disk \<Rightarrow>
    (files \<times> disk) \<times> (store_error + migration_outcome)" where
  "migrate_v01_last_session en from_slice path now = (\<lambda>(src, d).
    case store_load en ''default'' d of
      (d1, Inr _) \<Rightarrow> ((src, d1), Inr NotNeeded)
    | (d1, Inl _) \<Rightarrow>
      (case load (en_faults en) (en_clock en) from_slice path src of
         (src', Missing) \<Rightarrow> ((src', d1), Inr NotNeeded)
       | (src', Corrupt e _) \<Rightarrow> ((src', d1), Inr (SourceCorrupt e))
       | (src', Loaded snap) \<Rightarrow>
           (case store_save en (from_v01_snapshot ''default'' snap now) d1 of
              (d2, Inl e) \<Rightarrow> ((src', d2), Inl e)
            | (d2, Inr _) \<Rightarrow> ((src', d2), Inr Migrated))))"

section \<open>The index, sorted and without duplicates\<close>

definition index_ok :: "session_index \<Rightarrow> bool" where
  "index_ok es = (sorted (map recency es) \<and> distinct (map ie_name es))"

lemma update_first_names:
  "(\<And>e. ie_name (f e) = ie_name e) \<Longrightarrow> map ie_name (update_first P f es) = map ie_name es"
  by (induction es) auto

lemma index_touch_ok:
  assumes "distinct (map ie_name es)"
  shows "index_ok (index_touch name now es)"
proof -
  have dk: "distinct (map ie_name (sort_key recency xs)) = distinct (map ie_name xs)" for xs
    by (rule mset_eq_imp_distinct_iff) simp
  show ?thesis
  proof (cases "\<exists>e \<in> set es. ie_name e = name")
    case True
    then show ?thesis using assms by (simp add: index_ok_def index_touch_def dk update_first_names)
  next
    case False
    then have "name \<notin> ie_name ` set es" by auto
    then show ?thesis using assms False by (simp add: index_ok_def index_touch_def dk)
  qed
qed

lemma set_update_first_distinct:
  assumes "distinct (map ie_name es)"
  shows "set (update_first (\<lambda>e. ie_name e = n) f es) =
    {e \<in> set es. ie_name e \<noteq> n} \<union> f ` {e \<in> set es. ie_name e = n}"
  using assms
proof (induction es)
  case (Cons x xs)
  show ?case
  proof (cases "ie_name x = n")
    case True
    then have "n \<notin> ie_name ` set xs" using Cons.prems by simp
    then have "\<forall>e \<in> set xs. ie_name e \<noteq> n" by blast
    then show ?thesis using True by auto
  next
    case False
    then show ?thesis using Cons by auto
  qed
qed simp

lemma set_index_touch:
  assumes "distinct (map ie_name es)"
  shows "set (index_touch name now es) =
    {e \<in> set es. ie_name e \<noteq> name} \<union> {\<lparr>ie_name = name, ie_last_opened_at = now\<rparr>}"
proof (cases "\<exists>e \<in> set es. ie_name e = name")
  case True
  have "(\<lambda>e. e\<lparr>ie_last_opened_at := now\<rparr>) ` {e \<in> set es. ie_name e = name} =
    {\<lparr>ie_name = name, ie_last_opened_at = now\<rparr>}"
    using True by (auto simp: image_iff)
  then show ?thesis using True assms by (simp add: index_touch_def set_update_first_distinct)
next
  case False
  then show ?thesis by (auto simp: index_touch_def)
qed

lemma index_remove_ok: "index_ok es \<Longrightarrow> index_ok (index_remove name es)"
  by (induction es) (auto simp: index_ok_def index_remove_def)

lemma map_recency_rename: "map recency (index_rename a b es) = map recency es"
  by (induction es) (auto simp: index_rename_def recency_def)

lemma names_index_rename: "ie_name ` set (index_rename a b es) \<subseteq> insert b (ie_name ` set es)"
  by (induction es) (auto simp: index_rename_def)

lemma index_rename_ok:
  assumes "index_ok es" "b \<notin> ie_name ` set es"
  shows "index_ok (index_rename a b es)"
proof -
  have "distinct (map ie_name es) \<Longrightarrow> b \<notin> ie_name ` set es \<Longrightarrow>
    distinct (map ie_name (index_rename a b es))"
  proof (induction es)
    case (Cons x xs)
    then show ?case
      using names_index_rename [of a b xs] by (auto simp: index_rename_def)
  qed (simp add: index_rename_def)
  then show ?thesis using assms by (simp add: index_ok_def map_recency_rename)
qed

lemma rebuild_index_ok: "index_ok (rebuild_index_from_sessions en d)"
proof -
  have "index_ok es \<Longrightarrow> index_ok (rebuild_entry en d f es)" for f es
    by (auto simp: rebuild_entry_def index_ok_def [of es] intro!: index_touch_ok split: option.split sum.split)
  then have "index_ok es \<Longrightarrow> index_ok (fold (rebuild_entry en d) fs es)" for fs es
    by (induction fs arbitrary: es) auto
  then show ?thesis by (simp add: rebuild_index_from_sessions_def index_ok_def)
qed

section \<open>Operations on a quiet disk\<close>

text \<open>A quiet environment refuses no system call; TOML is lossless on the values at hand.\<close>

definition quiet :: "store_env \<Rightarrow> bool" where
  "quiet en = (\<forall>p st. sf_read (en_faults en) p = None \<and> sf_remove (en_faults en) p = None \<and>
     sf_write (en_faults en) p st = None)"

definition session_roundtrips :: "codec \<Rightarrow> session \<Rightarrow> string \<Rightarrow> bool" where
  "session_roundtrips cd s t = (cd_session_to cd s = Inr t \<and> cd_session_from cd t = Inr s)"

definition index_roundtrips :: "codec \<Rightarrow> session_index \<Rightarrow> string \<Rightarrow> bool" where
  "index_roundtrips cd es t = (cd_index_to cd es = Inr t \<and> cd_index_from cd t = Inr es)"

definition file_at :: "disk \<Rightarrow> string \<Rightarrow> string option" where
  "file_at d p = hget (dk_files d) p"

lemma sbind_Inr: "m d = (d', Inr x) \<Longrightarrow> sbind m f d = f x d'"
  by (simp add: sbind_def)

lemma sbind_Inl: "m d = (d', Inl e) \<Longrightarrow> sbind m f d = (d', Inl e)"
  by (simp add: sbind_def)

lemma check_name_valid: "valid_name n \<Longrightarrow> check_name n d = (d, Inr ())"
  by (simp add: check_name_def valid_name_def sret_def)

lemma write_path_quiet:
  assumes "quiet en"
  obtains d' where "write_path en p t d = (d', Inr ())"
    and "\<And>q. file_at d' q = (if q = p then Some t else file_at d q)"
proof -
  have w: "\<And>st. sf_write (en_faults en) p st = None" using assms by (simp add: quiet_def)
  obtain d' r where dr: "write_bytes (en_faults en) (en_pid en) (en_part en) p t d = (d', r)"
    by (cases "write_bytes (en_faults en) (en_pid en) (en_part en) p t d")
  have "r = Inr ()" using write_bytes_no_faults(1) [where path = p, OF w] dr by (metis snd_conv)
  then have "write_path en p t d = (d', Inr ())" using dr by (simp add: write_path_def)
  moreover have "file_at d' q = (if q = p then Some t else file_at d q)" for q
    using write_bytes_no_faults(2) [where path = p, OF w] dr unfolding file_at_def by (metis fst_conv)
  ultimately show thesis by (rule that)
qed

lemma write_session_quiet:
  assumes "quiet en" "cd_session_to (en_codec en) s = Inr t"
  obtains d' where "write_session en s d = (d', Inr ())"
    and "\<And>q. file_at d' q = (if q = session_path (se_name s) then Some t else file_at d q)"
  using write_path_quiet [OF assms(1), of "session_path (se_name s)" t d] assms(2)
  by (auto simp: write_session_def)

lemma write_index_quiet:
  assumes "quiet en" "cd_index_to (en_codec en) es = Inr t"
  obtains d' where "write_index en es d = (d', Inr ())"
    and "\<And>q. file_at d' q = (if q = index_path then Some t else file_at d q)"
  using write_path_quiet [OF assms(1), of index_path t d] assms(2)
  by (auto simp: write_index_def)

text \<open>The index a disk shows: none is the empty index.\<close>

definition shows_index :: "store_env \<Rightarrow> disk \<Rightarrow> session_index \<Rightarrow> bool" where
  "shows_index en d es =
    (case file_at d index_path of None \<Rightarrow> es = []
     | Some t \<Rightarrow> cd_index_from (en_codec en) t = Inr es)"

definition shows_session :: "store_env \<Rightarrow> disk \<Rightarrow> string \<Rightarrow> session \<Rightarrow> bool" where
  "shows_session en d n s =
    (case file_at d (session_path n) of None \<Rightarrow> False
     | Some t \<Rightarrow> cd_session_from (en_codec en) t = Inr s)"

lemma read_index_shows: "quiet en \<Longrightarrow> shows_index en d es \<Longrightarrow> read_index en d = (d, Inr es)"
  by (auto simp: read_index_def shows_index_def file_at_def fs_read_def quiet_def split: option.splits)

lemma store_load_shows:
  "quiet en \<Longrightarrow> valid_name n \<Longrightarrow> shows_session en d n s \<Longrightarrow> store_load en n d = (d, Inr s)"
  by (auto simp: store_load_def sbind_def check_name_valid shows_session_def file_at_def fs_read_def
      quiet_def split: option.splits)

lemma session_path_inject [simp]: "session_path a = session_path b \<longleftrightarrow> a = b"
  by (simp add: session_path_def)

lemma session_path_index [simp]: "session_path n = index_path \<longleftrightarrow> n = ''index''"
proof -
  have "index_path = session_path ''index''" by (simp add: index_path_def session_path_def)
  then show ?thesis using session_path_inject by metis
qed

lemma store_create_quiet:
  assumes q: "quiet en" and v: "valid_name n" and new: "file_at d (session_path n) = None"
    and ix: "shows_index en d es"
    and t: "cd_session_to (en_codec en) (session_empty n now) = Inr t"
    and u: "cd_index_to (en_codec en) (index_touch n now es) = Inr u"
    and ni: "n \<noteq> ''index''"
  obtains d' where "store_create en n now d = (d', Inr (session_empty n now))"
    and "\<And>p. file_at d' p = (if p = index_path then Some u
           else if p = session_path n then Some t else file_at d p)"
proof -
  obtain d1 where d1: "write_session en (session_empty n now) d = (d1, Inr ())"
      "\<And>p. file_at d1 p = (if p = session_path n then Some t else file_at d p)"
    using write_session_quiet [OF q t, of d] by (auto simp: session_empty_def)
  have "shows_index en d1 es" using ix ni by (simp add: shows_index_def d1(2) eq_commute [of index_path])
  then have ri: "read_index en d1 = (d1, Inr es)" using q by (intro read_index_shows)
  obtain d2 where d2: "write_index en (index_touch n now es) d1 = (d2, Inr ())"
      "\<And>p. file_at d2 p = (if p = index_path then Some u else file_at d1 p)"
    using write_index_quiet [OF q u, of d1] by auto
  have "bump_index en n now d1 = (d2, Inr ())" by (simp add: bump_index_def sbind_def ri d2(1))
  then have "store_create en n now d = (d2, Inr (session_empty n now))"
    using new d1(1) v
    by (simp add: store_create_def sbind_def check_name_valid path_exists_def file_at_def sret_def)
  then show thesis using that d1(2) d2(2) by simp
qed

lemma write_path_keeps:
  assumes "file_at d q = Some c" "q \<noteq> p"
  shows "file_at (fst (write_path en p t d)) q = Some c"
  using write_bytes_keeps_existing [of d q c p] assms
  by (auto simp: write_path_def file_at_def split: prod.splits sum.splits) (metis fst_conv)+

lemma aside_keeps: "q \<noteq> p \<Longrightarrow> q \<noteq> bad_name p (en_clock en) \<Longrightarrow> file_at (aside en p d) q = file_at d q"
  by (auto simp: aside_def rename_aside_def fs_rename_def file_at_def hget_hput hget_hdel
      split: option.splits)

lemma remove_if_exists_quiet:
  assumes "quiet en"
  obtains d' where "(if path_exists p d then remove_path en p d else (d, Inr ())) = (d', Inr ())"
    and "\<And>q. file_at d' q = (if q = p then None else file_at d q)"
proof (cases "hget (dk_files d) p")
  case None
  show thesis by (rule that [of d]) (simp_all add: path_exists_def None file_at_def)
next
  case (Some c)
  show thesis
    by (rule that [of "d\<lparr>dk_files := hdel p (dk_files d)\<rparr>"])
      (use assms Some in \<open>simp_all add: path_exists_def remove_path_def fs_remove_def quiet_def
        file_at_def hget_hdel\<close>)
qed

lemma session_path_not_bad: "session_path n \<noteq> bad_name index_path t"
proof
  assume eq: "session_path n = bad_name index_path t"
  have "last (session_path n) = CHR ''l''" by (simp add: session_path_def)
  moreover have "last (bad_name index_path t) = last (show_nat t)" by (simp add: bad_name_def)
  moreover have "digit_val (last (show_nat t)) \<noteq> None"
    by (subst show_nat.simps) simp
  ultimately show False using eq by (simp add: digit_val_def)
qed

lemma write_path_other:
  assumes "q \<noteq> p" "file_at d q \<noteq> None"
  shows "file_at (fst (write_path en p t d)) q = file_at d q"
  using assms write_path_keeps by fastforce

lemma read_index_keeps:
  assumes "n \<noteq> ''index''"
  shows "file_at (fst (read_index en d)) (session_path n) = file_at d (session_path n)"
proof -
  have "file_at (aside en index_path d) (session_path n) = file_at d (session_path n)"
    using assms session_path_not_bad by (intro aside_keeps) auto
  then show ?thesis
    by (auto simp: read_index_def Let_def split: sum.splits io_error.splits)
qed

lemma bump_index_keeps_session:
  assumes "file_at d (session_path n) = Some t" "n \<noteq> ''index''"
  shows "file_at (fst (bump_index en m now d)) (session_path n) = Some t"
proof -
  obtain d1 r where r: "read_index en d = (d1, r)" by (cases "read_index en d")
  have k: "file_at d1 (session_path n) = Some t" using read_index_keeps [OF assms(2), of en d] assms(1) r by simp
  show ?thesis
  proof (cases r)
    case (Inl e)
    then show ?thesis using r k by (simp add: bump_index_def sbind_def)
  next
    case (Inr es)
    then show ?thesis using r k assms(2) write_path_keeps [OF k, of index_path]
      by (auto simp: bump_index_def sbind_def write_index_def sfail_def split: sum.splits)
  qed
qed

text \<open>The index after a touch, in terms of its entries.\<close>

lemma update_first_entry:
  assumes "distinct (map ie_name es)" "\<exists>e \<in> set es. ie_name e = n"
  shows "filter (\<lambda>e. ie_name e = n) (update_first (\<lambda>e. ie_name e = n) (\<lambda>e. e\<lparr>ie_last_opened_at := now\<rparr>) es) =
      [\<lparr>ie_name = n, ie_last_opened_at = now\<rparr>]"
    and "filter (\<lambda>e. ie_name e \<noteq> n) (update_first (\<lambda>e. ie_name e = n) (\<lambda>e. e\<lparr>ie_last_opened_at := now\<rparr>) es) =
      filter (\<lambda>e. ie_name e \<noteq> n) es"
proof -
  obtain xs e ys where es: "es = xs @ e # ys" "ie_name e = n" "\<forall>x \<in> set xs. ie_name x \<noteq> n"
    using assms(2) split_list_first_prop [of es "\<lambda>e. ie_name e = n"] by auto
  have "n \<notin> ie_name ` set ys" using assms(1) es by simp
  then have ys: "\<forall>y \<in> set ys. ie_name y \<noteq> n" by force
  have u: "update_first (\<lambda>e. ie_name e = n) f (xs @ e # ys) = xs @ f e # ys" for f
    using es(2,3) by (induction xs) auto
  show "filter (\<lambda>e. ie_name e = n) (update_first (\<lambda>e. ie_name e = n) (\<lambda>e. e\<lparr>ie_last_opened_at := now\<rparr>) es) =
      [\<lparr>ie_name = n, ie_last_opened_at = now\<rparr>]"
    using es ys by (simp add: es(1) u filter_empty_conv)
  show "filter (\<lambda>e. ie_name e \<noteq> n) (update_first (\<lambda>e. ie_name e = n) (\<lambda>e. e\<lparr>ie_last_opened_at := now\<rparr>) es) =
      filter (\<lambda>e. ie_name e \<noteq> n) es"
    using es by (simp add: es(1) u)
qed

lemma index_touch_listed:
  assumes "distinct (map ie_name es)"
  shows "sorted_wrt (\<lambda>a b. ie_last_opened_at b \<le> ie_last_opened_at a) (index_touch n now es)"
    and "filter (\<lambda>e. ie_name e = n) (index_touch n now es) = [\<lparr>ie_name = n, ie_last_opened_at = now\<rparr>]"
    and "mset (filter (\<lambda>e. ie_name e \<noteq> n) (index_touch n now es)) = mset (filter (\<lambda>e. ie_name e \<noteq> n) es)"
proof -
  define new where "new = (if \<exists>e \<in> set es. ie_name e = n
       then update_first (\<lambda>e. ie_name e = n) (\<lambda>e. e\<lparr>ie_last_opened_at := now\<rparr>) es
       else es @ [\<lparr>ie_name = n, ie_last_opened_at = now\<rparr>])"
  have t: "index_touch n now es = sort_key recency new" by (simp add: index_touch_def new_def)
  have new: "filter (\<lambda>e. ie_name e = n) new = [\<lparr>ie_name = n, ie_last_opened_at = now\<rparr>]"
      "filter (\<lambda>e. ie_name e \<noteq> n) new = filter (\<lambda>e. ie_name e \<noteq> n) es"
    using update_first_entry [OF assms, of n now] by (auto simp: new_def filter_empty_conv)
  have "sorted (map recency (index_touch n now es))" by (simp add: t)
  then show "sorted_wrt (\<lambda>a b. ie_last_opened_at b \<le> ie_last_opened_at a) (index_touch n now es)"
    by (simp add: sorted_wrt_map recency_def)
  show "filter (\<lambda>e. ie_name e = n) (index_touch n now es) = [\<lparr>ie_name = n, ie_last_opened_at = now\<rparr>]"
    by (simp add: t filter_sort new)
  show "mset (filter (\<lambda>e. ie_name e \<noteq> n) (index_touch n now es)) = mset (filter (\<lambda>e. ie_name e \<noteq> n) es)"
    by (simp add: t new(2) [symmetric])
qed

section \<open>Properties\<close>

text \<open>C30: On a disk that refuses no call, creating a session under a valid new name other than
  \<open>index\<close> succeeds; the session can then be loaded and reads back as the fresh one; the list of the sessions has
  the newest first, has the new session at its time as its only entry of that name, and has the
  other entries of before, each as it was and no others; and every other session file is untouched. The index before lists
  no name twice, and the texts written for the session and for the new index are read back as they were meant.\<close>
theorem create_then_load:
  assumes "quiet en" "valid_name n" "n \<noteq> ''index''" "file_at d (session_path n) = None"
    and "shows_index en d es" "distinct (map ie_name es)"
    and "session_roundtrips (en_codec en) (session_empty n now) t"
    and "index_roundtrips (en_codec en) (index_touch n now es) u"
    and "store_create en n now d = (d', r)"
  shows "r = Inr (session_empty n now) \<and> store_load en n d' = (d', Inr (session_empty n now)) \<and>
    (\<exists>listed. store_list en d' = (d', Inr listed) \<and>
      sorted_wrt (\<lambda>a b. ie_last_opened_at b \<le> ie_last_opened_at a) listed \<and>
      filter (\<lambda>e. ie_name e = n) listed = [\<lparr>ie_name = n, ie_last_opened_at = now\<rparr>] \<and>
      mset (filter (\<lambda>e. ie_name e \<noteq> n) listed) = mset (filter (\<lambda>e. ie_name e \<noteq> n) es)) \<and>
    (\<forall>p. p \<noteq> session_path n \<and> p \<noteq> index_path \<longrightarrow> file_at d' p = file_at d p)"
proof -
  have t: "cd_session_to (en_codec en) (session_empty n now) = Inr t"
      "cd_session_from (en_codec en) t = Inr (session_empty n now)"
    and u: "cd_index_to (en_codec en) (index_touch n now es) = Inr u"
      "cd_index_from (en_codec en) u = Inr (index_touch n now es)"
    using assms(7,8) by (simp_all add: session_roundtrips_def index_roundtrips_def)
  obtain e where e: "store_create en n now d = (e, Inr (session_empty n now))"
    and fe: "\<And>p. file_at e p = (if p = index_path then Some u
           else if p = session_path n then Some t else file_at d p)"
    using store_create_quiet [OF assms(1,2,4,5) t(1) u(1) assms(3)] by blast
  have d': "d' = e" "r = Inr (session_empty n now)" using e assms(9) by simp_all
  have "shows_session en e n (session_empty n now)" "shows_index en e (index_touch n now es)"
    using fe t(2) u(2) assms(3) by (simp_all add: shows_session_def shows_index_def)
  then have "store_load en n d' = (d', Inr (session_empty n now))" "store_list en d' = (d', Inr (index_touch n now es))"
    using assms(1,2) d' by (simp_all add: store_load_shows store_list_def read_index_shows)
  then show ?thesis using d' fe index_touch_listed [OF assms(6), of n now] by auto
qed

text \<open>A TOML stand-in for witnesses: it knows the session \<open>a\<close> of time 5 and the index with it.\<close>

definition tiny_codec :: codec where
  "tiny_codec = \<lparr>cd_session_to = (\<lambda>_. Inr ''S''),
     cd_session_from = (\<lambda>t. if t = ''S'' then Inr (session_empty ''a'' 5) else Inl ''bad''),
     cd_index_to = (\<lambda>_. Inr ''I''),
     cd_index_from = (\<lambda>t. if t = ''I'' then Inr [\<lparr>ie_name = ''a'', ie_last_opened_at = 5\<rparr>] else Inl ''bad'')\<rparr>"

definition tiny_env :: store_env where
  "tiny_env = \<lparr>en_faults = no_faults, en_pid = 1, en_part = 0, en_clock = 9, en_codec = tiny_codec\<rparr>"

definition empty_disk :: disk where
  "empty_disk = \<lparr>dk_files = [], dk_counter = 0\<rparr>"

lemma quiet_tiny: "quiet tiny_env"
  by (simp add: quiet_def tiny_env_def no_faults_def)

theorem create_then_load_witness:
  "snd (store_create tiny_env ''a'' 5 empty_disk) = Inr (session_empty ''a'' 5) \<and>
   snd (store_load tiny_env ''a'' (fst (store_create tiny_env ''a'' 5 empty_disk))) = Inr (session_empty ''a'' 5) \<and>
   snd (store_list tiny_env (fst (store_create tiny_env ''a'' 5 empty_disk))) =
     Inr [\<lparr>ie_name = ''a'', ie_last_opened_at = 5\<rparr>]"
proof -
  have touch: "index_touch ''a'' 5 [] = [\<lparr>ie_name = ''a'', ie_last_opened_at = 5\<rparr>]"
    by (simp add: index_touch_def)
  have v: "valid_name ''a''" by code_simp
  have new: "file_at empty_disk (session_path ''a'') = None" by (simp add: file_at_def empty_disk_def)
  have ix: "shows_index tiny_env empty_disk []" by (simp add: shows_index_def file_at_def empty_disk_def)
  have rt: "session_roundtrips (en_codec tiny_env) (session_empty ''a'' 5) ''S''"
      "index_roundtrips (en_codec tiny_env) (index_touch ''a'' 5 []) ''I''"
    by (simp_all add: session_roundtrips_def index_roundtrips_def tiny_env_def tiny_codec_def touch)
  obtain d' r where dr: "store_create tiny_env ''a'' 5 empty_disk = (d', r)"
    by (cases "store_create tiny_env ''a'' 5 empty_disk")
  have h: "r = Inr (session_empty ''a'' 5)" "snd (store_load tiny_env ''a'' d') = Inr (session_empty ''a'' 5)"
      "\<exists>l. snd (store_list tiny_env d') = Inr l \<and> filter (\<lambda>e. ie_name e = ''a'') l = [\<lparr>ie_name = ''a'', ie_last_opened_at = 5\<rparr>] \<and>
        mset (filter (\<lambda>e. ie_name e \<noteq> ''a'') l) = {#}"
    using create_then_load [OF quiet_tiny v _ new ix _ rt dr] by auto
  then obtain l where l: "snd (store_list tiny_env d') = Inr l"
      "filter (\<lambda>e. ie_name e = ''a'') l = [\<lparr>ie_name = ''a'', ie_last_opened_at = 5\<rparr>]"
      "filter (\<lambda>e. ie_name e \<noteq> ''a'') l = []" by auto
  then have "l = [\<lparr>ie_name = ''a'', ie_last_opened_at = 5\<rparr>]" by (simp add: filter_empty_conv)
  then show ?thesis using h l dr by simp
qed

text \<open>Deleting a session under a valid name other than \<open>index\<close> succeeds on a disk that refuses
  no call; afterwards the session is not found, the index does not list it, the others keep their
  places, and no other file has changed.\<close>
theorem delete_then_load:
  assumes "quiet en" "valid_name n" "n \<noteq> ''index''" "shows_index en d es"
    and "index_roundtrips (en_codec en) (index_remove n es) u"
    and "store_delete en n d = (d', r)"
  shows "r = Inr () \<and> snd (store_load en n d') = Inl (SessionNotFound n) \<and>
    store_list en d' = (d', Inr (index_remove n es)) \<and>
    (\<forall>p. p \<noteq> session_path n \<and> p \<noteq> index_path \<longrightarrow> file_at d' p = file_at d p)"
proof -
  let ?rm = "\<lambda>d. if path_exists (session_path n) d then remove_path en (session_path n) d else (d, Inr ())"
  obtain d1 where d1: "?rm d = (d1, Inr ())"
      "\<And>p. file_at d1 p = (if p = session_path n then None else file_at d p)"
    by (rule remove_if_exists_quiet [OF assms(1), of "session_path n" d]) blast
  have ri: "read_index en d1 = (d1, Inr es)"
    using assms(1,3,4) by (intro read_index_shows) (simp_all add: shows_index_def d1(2) eq_commute [of index_path])
  have u: "cd_index_to (en_codec en) (index_remove n es) = Inr u"
      "cd_index_from (en_codec en) u = Inr (index_remove n es)"
    using assms(5) by (simp_all add: index_roundtrips_def)
  obtain d2 where d2: "write_index en (index_remove n es) d1 = (d2, Inr ())"
      "\<And>p. file_at d2 p = (if p = index_path then Some u else file_at d1 p)"
    using write_index_quiet [OF assms(1) u(1), of d1] by auto
  have "store_delete en n d = (d2, Inr ())"
    using d1(1) by (simp add: store_delete_def sbind_def check_name_valid [OF assms(2)] ri d2(1))
  then have d': "d' = d2" "r = Inr ()" using assms(6) by simp_all
  have "shows_index en d2 (index_remove n es)" using d2(2) u(2) by (simp add: shows_index_def)
  then have li: "store_list en d2 = (d2, Inr (index_remove n es))"
    using assms(1) by (simp add: store_list_def read_index_shows)
  have "fs_read (en_faults en) (session_path n) (dk_files d2) = Inl NotFound"
    using assms(1,3) d2(2) d1(2) by (simp add: fs_read_def quiet_def file_at_def)
  then have "snd (store_load en n d2) = Inl (SessionNotFound n)"
    by (simp add: store_load_def sbind_def check_name_valid [OF assms(2)])
  then show ?thesis using d' li d1(2) d2(2) by simp
qed

theorem delete_then_load_witness:
  "snd (store_load (tiny_env\<lparr>en_codec := tiny_codec\<lparr>cd_index_from := (\<lambda>_. Inr [])\<rparr>\<rparr>) ''a''
     (fst (store_delete (tiny_env\<lparr>en_codec := tiny_codec\<lparr>cd_index_from := (\<lambda>_. Inr [])\<rparr>\<rparr>) ''a''
        (\<lparr>dk_files = [(''a.toml'', ''S'')], dk_counter = 0\<rparr>)))) = Inl (SessionNotFound ''a'')"
    (is "snd (store_load ?en _ (fst (store_delete _ _ ?d))) = _")
proof -
  have q: "quiet ?en" using quiet_tiny by (simp add: quiet_def)
  have v: "valid_name ''a''" by code_simp
  have ix: "shows_index ?en ?d []" by (simp add: shows_index_def file_at_def hget_Cons index_path_def)
  have rt: "index_roundtrips (en_codec ?en) (index_remove ''a'' []) ''I''"
    by (simp add: index_roundtrips_def index_remove_def tiny_codec_def)
  obtain d' r where dr: "store_delete ?en ''a'' ?d = (d', r)" by (cases "store_delete ?en ''a'' ?d")
  show ?thesis using delete_then_load [OF q v _ ix rt dr] dr by simp
qed

text \<open>The index stays sorted by recency with one entry per name: touching, removing and
  rebuilding keep it so, touching puts the given time under the name and leaves the other entries,
  and renaming keeps it so when the new name is not listed yet.\<close>
theorem index_recency_invariant:
  assumes "index_ok es"
  shows "index_ok (index_touch n t es) \<and> index_ok (index_remove n es) \<and>
    index_ok (rebuild_index_from_sessions en d) \<and>
    (b \<notin> ie_name ` set es \<longrightarrow> index_ok (index_rename a b es)) \<and>
    set (index_touch n t es) = {e \<in> set es. ie_name e \<noteq> n} \<union> {\<lparr>ie_name = n, ie_last_opened_at = t\<rparr>}"
  using assms index_touch_ok [of es n t] index_remove_ok [OF assms, of n] rebuild_index_ok [of en d]
    index_rename_ok [OF assms, of b a] set_index_touch [of es n t]
  by (simp add: index_ok_def [of es])

theorem index_recency_invariant_witness:
  "index_ok (index_touch ''b'' 9 [\<lparr>ie_name = ''a'', ie_last_opened_at = 5\<rparr>])"
proof -
  have "index_ok [\<lparr>ie_name = ''a'', ie_last_opened_at = 5\<rparr>]" by (simp add: index_ok_def)
  then show ?thesis using index_recency_invariant by blast
qed

text \<open>Migration is idempotent: once it has migrated, running it again finds the session and
  changes nothing.\<close>
theorem migration_idempotent:
  assumes "quiet en"
    and "migrate_v01_last_session en fs path now (src, d) = ((src', d'), Inr Migrated)"
    and "load (en_faults en) (en_clock en) fs path src = (src', Loaded snap)"
    and "session_roundtrips (en_codec en) (from_v01_snapshot ''default'' snap now) t"
  shows "store_load en ''default'' d' = (d', Inr (from_v01_snapshot ''default'' snap now)) \<and>
    migrate_v01_last_session en fs path now2 (src2, d') = ((src2, d'), Inr NotNeeded)"
proof -
  let ?s = "from_v01_snapshot ''default'' snap now"
  obtain d1 e where d1: "store_load en ''default'' d = (d1, Inl e)"
    using assms(2) by (auto simp: migrate_v01_last_session_def split: prod.splits sum.splits)
  have sv: "store_save en ?s d1 = (d', Inr ())"
    using assms(2,3) d1 by (auto simp: migrate_v01_last_session_def split: prod.splits sum.splits)
  have v: "valid_name ''default''" by code_simp
  have nm: "se_name ?s = ''default''" by (simp add: from_v01_snapshot_def)
  have t: "cd_session_to (en_codec en) ?s = Inr t" "cd_session_from (en_codec en) t = Inr ?s"
    using assms(4) by (simp_all add: session_roundtrips_def)
  obtain d2 where d2: "write_session en ?s d1 = (d2, Inr ())"
      "\<And>q. file_at d2 q = (if q = session_path ''default'' then Some t else file_at d1 q)"
    using write_session_quiet [OF assms(1) t(1), of d1] nm by metis
  have bump: "bump_index en ''default'' (se_last_opened_at ?s) d2 = (d', Inr ())"
    using sv by (simp add: store_save_def sbind_def nm check_name_valid [OF v] d2(1))
  have "file_at d' (session_path ''default'') = Some t"
    using bump_index_keeps_session [of d2 "''default''" t en "''default''" "se_last_opened_at ?s"] bump d2(2)
    by simp
  then have "shows_session en d' ''default'' ?s" using t(2) by (simp add: shows_session_def)
  then have ld: "store_load en ''default'' d' = (d', Inr ?s)" using assms(1) v by (intro store_load_shows)
  then show ?thesis by (simp add: migrate_v01_last_session_def)
qed

definition tiny_snapshot :: session_snapshot where
  "tiny_snapshot = \<lparr>sn_v = 1, sn_created_at = 3, sn_anchor_pane_id = None, sn_anchor_pane_ids = [],
     sn_layout = NLeaf 1, sn_cwds = [], sn_pane_titles = [], sn_terminal_tabs = [],
     sn_pane_terminal_tab_roots = []\<rparr>"

definition mig_env :: store_env where
  "mig_env = tiny_env\<lparr>en_codec := tiny_codec\<lparr>cd_session_from :=
     (\<lambda>t. if t = ''S'' then Inr (from_v01_snapshot ''default'' tiny_snapshot 7) else Inl ''bad'')\<rparr>\<rparr>"

theorem migration_idempotent_witness:
  "snd (migrate_v01_last_session mig_env (\<lambda>_. Inr tiny_snapshot) ''j'' 8
     (fst (migrate_v01_last_session mig_env (\<lambda>_. Inr tiny_snapshot) ''j'' 7 ([(''j'', ''X'')], empty_disk)))) =
   Inr NotNeeded"
proof -
  let ?m = "migrate_v01_last_session mig_env (\<lambda>_. Inr tiny_snapshot) ''j'' 7 ([(''j'', ''X'')], empty_disk)"
  obtain src' d' r where m: "?m = ((src', d'), r)" by (metis surj_pair)
  have q: "quiet mig_env" using quiet_tiny by (simp add: quiet_def mig_env_def)
  have ld: "load (en_faults mig_env) (en_clock mig_env) (\<lambda>_. Inr tiny_snapshot) ''j'' [(''j'', ''X'')] =
      ([(''j'', ''X'')], Loaded tiny_snapshot)"
    by (simp add: load_def fs_read_def mig_env_def tiny_env_def no_faults_def hget_Cons tiny_snapshot_def
        SCHEMA_VERSION_def)
  have rt: "session_roundtrips (en_codec mig_env) (from_v01_snapshot ''default'' tiny_snapshot 7) ''S''"
    by (simp add: session_roundtrips_def mig_env_def tiny_codec_def)
  have "snd ?m = Inr Migrated" by code_simp
  moreover have "fst (fst ?m) = [(''j'', ''X'')]" by code_simp
  ultimately have "?m = (([(''j'', ''X'')], d'), Inr Migrated)" using m by simp
  then show ?thesis using migration_idempotent [OF q _ ld rt] m by simp
qed

text \<open>Renaming a session under valid names, the new one unused, moves it: it loads under the
  new name with its contents unchanged, the old name is not found, and the index lists the new
  name at the old place.\<close>
theorem rename_moves:
  assumes "quiet en" "valid_name a" "valid_name b" "a \<noteq> ''index''" "b \<noteq> ''index''"
    and "shows_session en d a s" "file_at d (session_path b) = None" "shows_index en d es"
    and "session_roundtrips (en_codec en) (s\<lparr>se_name := b\<rparr>) t"
    and "index_roundtrips (en_codec en) (index_rename a b es) u"
    and "store_rename en a b d = (d', r)"
  shows "r = Inr () \<and> store_load en b d' = (d', Inr (s\<lparr>se_name := b\<rparr>)) \<and>
    snd (store_load en a d') = Inl (SessionNotFound a) \<and>
    store_list en d' = (d', Inr (index_rename a b es)) \<and>
    map recency (index_rename a b es) = map recency es"
proof -
  have ab: "a \<noteq> b" using assms(6,7) by (auto simp: shows_session_def split: option.splits)
  have t: "cd_session_to (en_codec en) (s\<lparr>se_name := b\<rparr>) = Inr t"
      "cd_session_from (en_codec en) t = Inr (s\<lparr>se_name := b\<rparr>)"
    and u: "cd_index_to (en_codec en) (index_rename a b es) = Inr u"
      "cd_index_from (en_codec en) u = Inr (index_rename a b es)"
    using assms(9,10) by (simp_all add: session_roundtrips_def index_roundtrips_def)
  have la: "store_load en a d = (d, Inr s)" using assms(1,2,6) by (intro store_load_shows)
  obtain c where c: "file_at d (session_path a) = Some c"
    using assms(6) by (auto simp: shows_session_def split: option.splits)
  obtain d1 where d1: "write_session en (s\<lparr>se_name := b\<rparr>) d = (d1, Inr ())"
      "\<And>q. file_at d1 q = (if q = session_path b then Some t else file_at d q)"
    using write_session_quiet [OF assms(1) t(1), of d] by auto
  have ex: "path_exists (session_path a) d1"
    using d1(2) [of "session_path a"] c ab by (simp add: path_exists_def file_at_def)
  obtain d2 where d2: "remove_path en (session_path a) d1 = (d2, Inr ())"
      "\<And>q. file_at d2 q = (if q = session_path a then None else file_at d1 q)"
    by (rule remove_if_exists_quiet [OF assms(1), of "session_path a" d1]) (use ex in simp)
  have "shows_index en d2 es"
    using assms(4,5,8) by (simp add: shows_index_def d1(2) d2(2) eq_commute [of index_path])
  then have ri: "read_index en d2 = (d2, Inr es)" using assms(1) by (intro read_index_shows)
  obtain d3 where d3: "write_index en (index_rename a b es) d2 = (d3, Inr ())"
      "\<And>p. file_at d3 p = (if p = index_path then Some u else file_at d2 p)"
    using write_index_quiet [OF assms(1) u(1), of d2] by auto
  have pe: "path_exists (session_path a) d" "\<not> path_exists (session_path b) d"
    using c assms(7) by (simp_all add: path_exists_def file_at_def)
  have "store_rename en a b d = (d3, Inr ())"
    using pe by (simp add: store_rename_def sbind_def check_name_valid assms(2,3) la d1(1) d2(1) ri d3(1))
  then have d': "d' = d3" "r = Inr ()" using assms(11) by simp_all
  have "shows_session en d3 b (s\<lparr>se_name := b\<rparr>)" "shows_index en d3 (index_rename a b es)"
    using d1(2) d2(2) d3(2) t(2) u(2) ab assms(5) by (simp_all add: shows_session_def shows_index_def)
  moreover have "fs_read (en_faults en) (session_path a) (dk_files d3) = Inl NotFound"
    using assms(1,4) d2(2) d3(2) by (simp add: fs_read_def quiet_def file_at_def)
  then have "snd (store_load en a d3) = Inl (SessionNotFound a)"
    by (simp add: store_load_def sbind_def check_name_valid assms(2))
  ultimately show ?thesis
    using assms(1,3) d' by (simp add: store_load_shows store_list_def read_index_shows map_recency_rename)
qed

definition ren_env :: store_env where
  "ren_env = tiny_env\<lparr>en_codec := \<lparr>cd_session_to = (\<lambda>s. Inr (se_name s)),
     cd_session_from = (\<lambda>t. Inr (session_empty t 5)),
     cd_index_to = (\<lambda>_. Inr ''J''), cd_index_from = (\<lambda>_. Inr [])\<rparr>\<rparr>"

theorem rename_moves_witness:
  "snd (store_load ren_env ''b'' (fst (store_rename ren_env ''a'' ''b''
     \<lparr>dk_files = [(''a.toml'', ''a'')], dk_counter = 0\<rparr>))) = Inr (session_empty ''b'' 5)"
    (is "snd (store_load _ _ (fst (store_rename _ _ _ ?d))) = _")
proof -
  have q: "quiet ren_env" using quiet_tiny by (simp add: quiet_def ren_env_def)
  have v: "valid_name ''a''" "valid_name ''b''" by code_simp+
  have up: "(session_empty ''a'' 5)\<lparr>se_name := ''b''\<rparr> = session_empty ''b'' 5"
    by (simp add: session_empty_def)
  have se: "shows_session ren_env ?d ''a'' (session_empty ''a'' 5)"
    by (simp add: shows_session_def file_at_def hget_Cons session_path_def ren_env_def)
  have new: "file_at ?d (session_path ''b'') = None"
    by (simp add: file_at_def hget_Cons session_path_def)
  have ix: "shows_index ren_env ?d []" by (simp add: shows_index_def file_at_def hget_Cons index_path_def)
  have rt: "session_roundtrips (en_codec ren_env) ((session_empty ''a'' 5)\<lparr>se_name := ''b''\<rparr>) ''b''"
      "index_roundtrips (en_codec ren_env) (index_rename ''a'' ''b'' []) ''J''"
    unfolding up by (simp_all add: session_roundtrips_def index_roundtrips_def ren_env_def index_rename_def
        session_empty_def)
  obtain d' r where dr: "store_rename ren_env ''a'' ''b'' ?d = (d', r)"
    by (cases "store_rename ren_env ''a'' ''b'' ?d")
  show ?thesis using rename_moves [OF q v _ _ se new ix rt dr] dr up by simp
qed

section \<open>Where the store loses data\<close>

text \<open>
  \<open>index\<close> is a valid session name and its file is the index's: after a successful creation the file
  holds an index, not the session.
\<close>

lemma session_named_index_is_lost:
  assumes "store_create en ''index'' now d = (d', Inr s)"
  shows "\<exists>es t. cd_index_to (en_codec en) es = Inr t \<and> file_at d' (session_path ''index'') = Some t"
proof -
  obtain d1 es d2 where "write_index en es d1 = (d2, Inr ())" "d' = d2"
    using assms
    by (auto simp: store_create_def sbind_def bump_index_def sret_def Let_def split: if_splits prod.splits sum.splits)
  then obtain t where t: "cd_index_to (en_codec en) es = Inr t" "write_path en index_path t d1 = (d', Inr ())"
    by (auto simp: write_index_def sfail_def split: sum.splits)
  have "file_at d' index_path = Some t"
    using t(2) write_bytes_ok [of "en_faults en" "en_pid en" "en_part en" index_path t d1]
    by (auto simp: write_path_def file_at_def split: prod.splits sum.splits)
  then show ?thesis using t(1) by (auto simp: index_path_def session_path_def)
qed

text \<open>
  The migration's gate asks whether \<open>default\<close> can be loaded. When its file exists but cannot be read,
  the migration runs and replaces it.
\<close>

lemma migration_replaces_unreadable_default:
  assumes "sf_read (en_faults en) (session_path ''default'') = Some (IoOther e)"
    and "migrate_v01_last_session en fs path now (src, d) = ((src', d'), Inr Migrated)"
  shows "\<exists>snap t d1. cd_session_to (en_codec en) (from_v01_snapshot ''default'' snap now) = Inr t \<and>
    file_at d1 (session_path ''default'') = Some t \<and>
    bump_index en ''default'' now d1 = (d', Inr ())"
proof -
  have v: "valid_name ''default''" by code_simp
  have "store_load en ''default'' d = (d, Inl (StoreIo (IoOther e)))"
    using assms(1) by (simp add: store_load_def sbind_def check_name_valid [OF v] fs_read_def)
  then obtain snap where "store_save en (from_v01_snapshot ''default'' snap now) d = (d', Inr ())"
    using assms(2)
    by (auto simp: migrate_v01_last_session_def split: prod.splits sum.splits load_outcome.splits)
  then obtain t d1 where t: "cd_session_to (en_codec en) (from_v01_snapshot ''default'' snap now) = Inr t"
      "write_path en (session_path ''default'') t d = (d1, Inr ())"
      "bump_index en ''default'' now d1 = (d', Inr ())"
    by (auto simp: store_save_def sbind_def check_name_valid [OF v] write_session_def sfail_def
        from_v01_snapshot_def split: prod.splits sum.splits)
  have "file_at d1 (session_path ''default'') = Some t"
    using t(2) write_bytes_ok [of "en_faults en" "en_pid en" "en_part en" "session_path ''default''" t d]
    by (auto simp: write_path_def file_at_def split: prod.splits sum.splits)
  then show ?thesis using t by blast
qed

end
