(* ===== verification/Transcript.thy ===== *)
theory Transcript
  imports BusCodec
begin

text \<open>
  What a terminal pane keeps of its output, \<open>crates/lmux/src/pane.rs\<close>: the bell scanner that looks
  for BEL outside operating system commands, and the bounded transcript with its sequence numbers.
  The UTF-8 decoder and the clock are parameters.
\<close>

section \<open>The bell scanner\<close>

record bell_scanner =
  bs_in_osc :: bool
  bs_prev_esc :: bool

definition bell_start :: bell_scanner where
  "bell_start = \<lparr>bs_in_osc = False, bs_prev_esc = False\<rparr>"

abbreviation BEL :: byte where "BEL \<equiv> 0x07"
abbreviation ESC :: byte where "ESC \<equiv> 0x1b"
abbreviation BACKSLASH :: byte where "BACKSLASH \<equiv> 0x5c"
abbreviation RBRACKET :: byte where "RBRACKET \<equiv> 0x5d"

definition bell_byte :: "byte \<Rightarrow> bell_scanner \<times> nat \<Rightarrow> bell_scanner \<times> nat" where
  "bell_byte b = (\<lambda>(s, count).
    if bs_in_osc s then
      (if b = BEL then (s\<lparr>bs_in_osc := False, bs_prev_esc := False\<rparr>, count)
       else if b = ESC then (s\<lparr>bs_prev_esc := True\<rparr>, count)
       else if b = BACKSLASH \<and> bs_prev_esc s then (s\<lparr>bs_in_osc := False, bs_prev_esc := False\<rparr>, count)
       else (s\<lparr>bs_prev_esc := False\<rparr>, count))
    else if bs_prev_esc s then
      ((if b = RBRACKET then s\<lparr>bs_in_osc := True\<rparr> else s)\<lparr>bs_prev_esc := False\<rparr>, count)
    else if b = ESC then (s\<lparr>bs_prev_esc := True\<rparr>, count)
    else if b = BEL then (s, count + 1)
    else (s, count))"

definition bell_scan :: "byte list \<Rightarrow> bell_scanner \<Rightarrow> bell_scanner \<times> nat" where
  "bell_scan bytes s = fold bell_byte bytes (s, 0)"

lemma bell_byte_count: "bell_byte b (s, n) = (fst (bell_byte b (s, 0)), n + snd (bell_byte b (s, 0)))"
  by (simp add: bell_byte_def)

lemma bell_fold_count:
  "fold bell_byte bs (s, n) = (fst (fold bell_byte bs (s, 0)), n + snd (fold bell_byte bs (s, 0)))"
proof (induction bs arbitrary: s n)
  case (Cons b bs)
  have "fold bell_byte (b # bs) (s, n) =
      fold bell_byte bs (fst (bell_byte b (s, 0)), n + snd (bell_byte b (s, 0)))"
    using bell_byte_count [of b s n] by simp
  also have "\<dots> = (fst (fold bell_byte bs (fst (bell_byte b (s, 0)), 0)),
      n + snd (bell_byte b (s, 0)) + snd (fold bell_byte bs (fst (bell_byte b (s, 0)), 0)))"
    by (rule Cons.IH)
  finally show ?case
    using Cons.IH [of "fst (bell_byte b (s, 0))" "snd (bell_byte b (s, 0))"] by (cases "bell_byte b (s, 0)") simp
qed simp

lemma bell_scan_append:
  "bell_scan (xs @ ys) s =
    (let (s1, m) = bell_scan xs s; (s2, n) = bell_scan ys s1 in (s2, m + n))"
proof -
  obtain s1 m where 1: "fold bell_byte xs (s, 0) = (s1, m)" by (metis surj_pair)
  obtain s2 n where 2: "fold bell_byte ys (s1, 0) = (s2, n)" by (metis surj_pair)
  show ?thesis using 1 2 bell_fold_count [of ys s1 m] by (simp add: bell_scan_def)
qed

lemma bell_scan_Nil [simp]: "bell_scan [] s = (s, 0)"
  by (simp add: bell_scan_def)

lemma bell_scan_plain:
  "ESC \<notin> set xs \<Longrightarrow> bell_scan xs bell_start = (bell_start, count_list xs BEL)"
proof (induction xs)
  case (Cons x xs)
  have "bell_scan (x # xs) bell_start = (let (s1, m) = bell_scan [x] bell_start; (s2, n) = bell_scan xs s1 in (s2, m + n))"
    using bell_scan_append [of "[x]" xs bell_start] by simp
  moreover have "bell_scan [x] bell_start = (bell_start, if x = BEL then 1 else 0)"
    using Cons.prems by (auto simp: bell_scan_def bell_byte_def bell_start_def)
  ultimately show ?case using Cons by simp
qed simp

lemma bell_scan_in_osc:
  assumes "BEL \<notin> set p" "ESC \<notin> set p" "bs_in_osc s" "\<not> bs_prev_esc s"
  shows "bell_scan p s = (s, 0)"
  using assms
proof (induction p)
  case (Cons x xs)
  have "bell_byte x (s, 0) = (s, 0)" using Cons.prems by (auto simp: bell_byte_def)
  then show ?case using Cons by (simp add: bell_scan_def)
qed simp

text \<open>A whole operating system command, in both its terminated forms.\<close>

definition osc :: "byte list \<Rightarrow> bool \<Rightarrow> byte list" where
  "osc payload st = [ESC, RBRACKET] @ payload @ (if st then [ESC, BACKSLASH] else [BEL])"

lemma bell_scan_osc:
  assumes "BEL \<notin> set p" "ESC \<notin> set p"
  shows "bell_scan (osc p st) bell_start = (bell_start, 0)"
proof -
  let ?s = "bell_start\<lparr>bs_in_osc := True\<rparr>"
  have 1: "bell_scan [ESC, RBRACKET] bell_start = (?s, 0)"
    by (simp add: bell_scan_def bell_byte_def bell_start_def)
  have 2: "bell_scan p ?s = (?s, 0)" using assms by (intro bell_scan_in_osc) (simp_all add: bell_start_def)
  have 3: "bell_scan (if st then [ESC, BACKSLASH] else [BEL]) ?s = (bell_start, 0)"
    by (simp add: bell_scan_def bell_byte_def bell_start_def)
  show ?thesis unfolding osc_def bell_scan_append 1 2 3 by (simp add: 2 3)
qed

section \<open>The transcript\<close>

record transcript =
  tb_max_lines :: nat
  tb_next_sequence :: nat
  tb_dropped_before :: nat
  tb_lines :: "transcript_line list"

definition transcript_new :: "nat \<Rightarrow> transcript" where
  "transcript_new max_lines =
    \<lparr>tb_max_lines = max_lines, tb_next_sequence = 1, tb_dropped_before = 1, tb_lines = []\<rparr>"

text \<open>The loop that pops lines while there are too many.\<close>

function pop_excess :: "transcript \<Rightarrow> transcript" where
  "pop_excess t =
    (if length (tb_lines t) > tb_max_lines t
     then pop_excess (t\<lparr>tb_lines := tl (tb_lines t),
            tb_dropped_before := sat_add_u64 (tl_sequence (hd (tb_lines t))) 1\<rparr>)
     else t)"
  by pat_completeness auto

termination
  by (relation "measure (\<lambda>t. length (tb_lines t))") auto

declare pop_excess.simps [simp del]

definition append_line :: "string \<Rightarrow> nat \<Rightarrow> transcript \<Rightarrow> transcript" where
  "append_line text now t =
    pop_excess (t\<lparr>tb_next_sequence := sat_add_u64 (tb_next_sequence t) 1,
      tb_lines := tb_lines t @ [\<lparr>tl_sequence = tb_next_sequence t, tl_unix_millis = now, tl_text = text\<rparr>]\<rparr>)"

fun split_inclusive :: "string \<Rightarrow> string \<Rightarrow> string list" where
  "split_inclusive [] acc = (if acc = [] then [] else [acc])"
| "split_inclusive (c # cs) acc =
    (if c = CHR 0x0A then (acc @ [c]) # split_inclusive cs [] else split_inclusive cs (acc @ [c]))"

definition trim_newline :: "string \<Rightarrow> string" where
  "trim_newline s = rev (dropWhile (\<lambda>c. c = CHR 0x0D \<or> c = CHR 0x0A) (rev s))"

definition append_bytes :: "(byte list \<Rightarrow> string) \<Rightarrow> byte list \<Rightarrow> nat \<Rightarrow> transcript \<Rightarrow> transcript" where
  "append_bytes from_utf8_lossy bytes now t =
    fold (\<lambda>part t. let line = trim_newline part in if line = [] then t else append_line line now t)
      (split_inclusive (from_utf8_lossy bytes) []) t"

definition range_from_iter :: "uuid \<Rightarrow> transcript_line list \<Rightarrow> bool \<Rightarrow> transcript_range" where
  "range_from_iter p lines truncated =
    \<lparr>tr_pane_id = p,
     tr_first_sequence = (case lines of [] \<Rightarrow> 0 | l # _ \<Rightarrow> tl_sequence l),
     tr_last_sequence = (if lines = [] then 0 else tl_sequence (last lines)),
     tr_truncated = truncated, tr_lines = lines\<rparr>"

definition transcript_tail :: "uuid \<Rightarrow> nat \<Rightarrow> transcript \<Rightarrow> transcript_range" where
  "transcript_tail p max_lines t =
    range_from_iter p (drop (length (tb_lines t) - max_lines) (tb_lines t)) False"

definition capture_since :: "uuid \<Rightarrow> nat option \<Rightarrow> nat option \<Rightarrow> transcript \<Rightarrow> transcript_range" where
  "capture_since p since_sequence max_lines t =
    (let since = (case since_sequence of Some s \<Rightarrow> s | None \<Rightarrow> 0);
         truncated = (since > 0 \<and> since < tb_dropped_before t);
         ls = filter (\<lambda>l. tl_sequence l > since) (tb_lines t);
         collected = (case max_lines of Some m \<Rightarrow> take m ls | None \<Rightarrow> ls)
     in range_from_iter p collected truncated)"

section \<open>The transcript is the end of the history\<close>

text \<open>
  The abstract view: all lines ever appended, numbered from 1. The buffer holds the last
  \<open>max_lines\<close> of them.
\<close>

definition numbered :: "(string \<times> nat) list \<Rightarrow> transcript_line list" where
  "numbered hist = map (\<lambda>(i, s, t). \<lparr>tl_sequence = i, tl_unix_millis = t, tl_text = s\<rparr>)
     (zip [1..<Suc (length hist)] hist)"

definition refines_history :: "transcript \<Rightarrow> (string \<times> nat) list \<Rightarrow> bool" where
  "refines_history t hist =
    (tb_lines t = drop (length hist - tb_max_lines t) (numbered hist) \<and>
     tb_next_sequence t = Suc (length hist) \<and>
     tb_dropped_before t = Suc (length hist - tb_max_lines t))"

lemma length_numbered [simp]: "length (numbered hist) = length hist"
  by (simp add: numbered_def del: upt_Suc)

lemma numbered_snoc:
  "numbered (hist @ [(s, t)]) = numbered hist @ [\<lparr>tl_sequence = Suc (length hist), tl_unix_millis = t, tl_text = s\<rparr>]"
proof -
  have "zip [1..<Suc (Suc (length hist))] (hist @ [(s, t)]) =
      zip [1..<Suc (length hist)] hist @ [(Suc (length hist), s, t)]"
    by (subst upt_Suc) (simp del: upt_Suc)
  then show ?thesis by (simp add: numbered_def del: upt_Suc)
qed

lemma nth_numbered: "i < length hist \<Longrightarrow> tl_sequence (numbered hist ! i) = Suc i"
  by (simp add: numbered_def split_beta del: upt_Suc)

lemma pop_excess_one:
  assumes "length (tb_lines t) \<le> Suc (tb_max_lines t)"
  shows "pop_excess t =
    (if length (tb_lines t) \<le> tb_max_lines t then t
     else t\<lparr>tb_lines := tl (tb_lines t), tb_dropped_before := sat_add_u64 (tl_sequence (hd (tb_lines t))) 1\<rparr>)"
  using assms by (subst pop_excess.simps, subst pop_excess.simps) simp

lemma refines_new: "refines_history (transcript_new m) []"
  by (simp add: refines_history_def transcript_new_def numbered_def)

lemma append_line_refines:
  assumes "refines_history t hist" "Suc (length hist) < u64_max"
  shows "refines_history (append_line s now t) (hist @ [(s, now)])"
    and "tb_max_lines (append_line s now t) = tb_max_lines t"
proof -
  let ?m = "tb_max_lines t" and ?n = "length hist"
  let ?l = "\<lparr>tl_sequence = Suc ?n, tl_unix_millis = now, tl_text = s\<rparr>"
  let ?t = "t\<lparr>tb_next_sequence := Suc (Suc ?n), tb_lines := drop (?n - ?m) (numbered hist) @ [?l]\<rparr>"
  have nxt: "sat_add_u64 (Suc ?n) 1 = Suc (Suc ?n)"
    using assms(2) by (simp add: sat_add_u64_exact)
  have ap: "append_line s now t = pop_excess ?t"
    using assms(1) nxt by (simp add: append_line_def refines_history_def)
  have lines: "tb_lines ?t = drop (?n - ?m) (numbered (hist @ [(s, now)]))"
    by (simp add: numbered_snoc)
  have len: "length (tb_lines ?t) = Suc ?n - (?n - ?m)" by simp
  show "refines_history (append_line s now t) (hist @ [(s, now)])"
  proof (cases "?n < ?m")
    case True
    then have "append_line s now t = ?t" unfolding ap by (subst pop_excess_one) simp_all
    then show ?thesis
      using True assms(1) by (simp add: refines_history_def numbered_snoc)
  next
    case False
    let ?k = "?n - ?m"
    have k: "?k < length (numbered (hist @ [(s, now)]))" by simp
    have hd: "tl_sequence (hd (tb_lines ?t)) = Suc ?k"
      using nth_numbered [of ?k "hist @ [(s, now)]"] k unfolding lines hd_drop_conv_nth [OF k] by simp
    have sat: "sat_add_u64 (Suc ?k) 1 = Suc (Suc ?k)" using assms(2) by (simp add: sat_add_u64_exact)
    have "append_line s now t = ?t\<lparr>tb_lines := tl (tb_lines ?t),
        tb_dropped_before := sat_add_u64 (tl_sequence (hd (tb_lines ?t))) 1\<rparr>"
      unfolding ap using False by (subst pop_excess_one) simp_all
    moreover have "tl (tb_lines ?t) = drop (Suc ?k) (numbered (hist @ [(s, now)]))"
      unfolding lines by (simp add: tl_drop drop_Suc)
    moreover have "sat_add_u64 (tl_sequence (hd (tb_lines ?t))) 1 = Suc (Suc ?k)"
      unfolding hd by (rule sat)
    ultimately have "append_line s now t = ?t\<lparr>tb_lines := drop (Suc ?k) (numbered (hist @ [(s, now)])),
        tb_dropped_before := Suc (Suc ?k)\<rparr>"
      by (simp only:)
    moreover have "Suc ?n - ?m = Suc ?k" using False by simp
    ultimately show ?thesis by (simp add: refines_history_def)
  qed
  show "tb_max_lines (append_line s now t) = ?m"
    unfolding ap by (subst pop_excess_one) simp_all
qed

lemma append_all_refines:
  assumes "refines_history t h0" "length h0 + length hist < u64_max"
  shows "refines_history (fold (\<lambda>(s, now). append_line s now) hist t) (h0 @ hist)"
  using assms
proof (induction hist arbitrary: t h0)
  case (Cons x xs)
  obtain s now where x: "x = (s, now)" by (cases x)
  have "refines_history (append_line s now t) (h0 @ [(s, now)])"
    using Cons.prems by (intro append_line_refines) simp_all
  then show ?case using Cons.IH [of "append_line s now t" "h0 @ [(s, now)]"] Cons.prems x by simp
qed simp

lemma refines_sequences:
  assumes "refines_history t hist" "l \<in> set (tb_lines t)"
  shows "tb_dropped_before t \<le> tl_sequence l \<and> tl_sequence l < tb_next_sequence t"
proof -
  let ?k = "length hist - tb_max_lines t"
  obtain i where i: "i < length hist - ?k" "l = numbered hist ! (?k + i)"
    using assms by (auto simp: refines_history_def in_set_conv_nth)
  then have "tl_sequence l = Suc (?k + i)" using nth_numbered [of "?k + i" hist] by simp
  then show ?thesis using assms(1) i(1) by (auto simp: refines_history_def)
qed

lemma refines_complete:
  assumes "refines_history t hist" "tb_dropped_before t \<le> i" "i < tb_next_sequence t"
  shows "\<exists>l \<in> set (tb_lines t). tl_sequence l = i \<and> l = numbered hist ! (i - 1)"
proof -
  let ?k = "length hist - tb_max_lines t"
  have i: "?k \<le> i - 1" "i - 1 < length hist" "0 < i" using assms by (auto simp: refines_history_def)
  have "numbered hist ! (i - 1) \<in> set (drop ?k (numbered hist))"
    unfolding in_set_conv_nth by (rule exI [of _ "i - 1 - ?k"]) (use i in simp)
  then show ?thesis using assms(1) i nth_numbered [OF i(2)] by (auto simp: refines_history_def)
qed

lemma filter_numbered: "filter (\<lambda>l. tl_sequence l > k) (numbered hist) = drop k (numbered hist)"
proof (induction hist rule: rev_induct)
  case (snoc x xs)
  obtain s t where x: "x = (s, t)" by (cases x)
  show ?case using snoc by (cases "k \<le> length xs") (simp_all add: x numbered_snoc)
qed (simp add: numbered_def)

lemma filter_drop_numbered:
  "filter (\<lambda>l. tl_sequence l > k) (drop d (numbered hist)) = drop (max k d) (numbered hist)"
proof -
  have "drop d (numbered hist) = filter (\<lambda>l. tl_sequence l > d) (numbered hist)"
    by (simp add: filter_numbered)
  then have "filter (\<lambda>l. tl_sequence l > k) (drop d (numbered hist)) =
      filter (\<lambda>l. tl_sequence l > max k d) (numbered hist)"
    by (simp only: filter_filter max_less_iff_conj conj_commute)
  also have "\<dots> = drop (max k d) (numbered hist)" by (rule filter_numbered)
  finally show ?thesis .
qed

lemma append_all_max: "tb_max_lines (fold (\<lambda>(s, now). append_line s now) hist t) = tb_max_lines t"
proof -
  have pop: "tb_max_lines (pop_excess t) = tb_max_lines t" for t
    by (induction t rule: pop_excess.induct) (subst pop_excess.simps, simp)
  show ?thesis by (induction hist arbitrary: t) (auto simp: append_line_def pop)
qed

section \<open>The bound, as an invariant of every run\<close>

definition transcript_bounded :: "transcript \<Rightarrow> bool" where
  "transcript_bounded t = (length (tb_lines t) \<le> tb_max_lines t)"

lemma pop_excess_bounded: "transcript_bounded (pop_excess t)"
  by (induction t rule: pop_excess.induct) (subst pop_excess.simps, simp add: transcript_bounded_def)

lemma append_bytes_bounded: "transcript_bounded t \<Longrightarrow> transcript_bounded (append_bytes f bs now t)"
proof -
  have "transcript_bounded t \<Longrightarrow> transcript_bounded (fold (\<lambda>part t. let line = trim_newline part in
      if line = [] then t else append_line line now t) ps t)" for ps
    by (induction ps arbitrary: t) (auto simp: Let_def append_line_def pop_excess_bounded)
  then show "transcript_bounded t \<Longrightarrow> transcript_bounded (append_bytes f bs now t)"
    by (simp add: append_bytes_def)
qed

interpretation transcript_machine: invariant_machine "\<lambda>(f, bs, now). append_bytes f bs now" transcript_bounded
  by unfold_locales (auto intro: append_bytes_bounded)

section \<open>Properties\<close>

text \<open>The terminal's output arrives in chunks; the scanner's state is carried over.\<close>

fun bell_scan_chunks :: "byte list list \<Rightarrow> bell_scanner \<Rightarrow> bell_scanner \<times> nat" where
  "bell_scan_chunks [] s = (s, 0)"
| "bell_scan_chunks (c # cs) s =
    (let (s1, m) = bell_scan c s; (s2, n) = bell_scan_chunks cs s1 in (s2, m + n))"

lemma bell_scan_chunks_concat: "bell_scan_chunks cs s = bell_scan (concat cs) s"
  by (induction cs arbitrary: s) (simp_all add: bell_scan_append)

text \<open>The scanner counts exactly the bells outside operating system commands, however the
  output is cut into chunks, and ends ready for more.\<close>
theorem bells_counted_outside_osc:
  assumes "ESC \<notin> set a" "ESC \<notin> set b" "BEL \<notin> set p" "ESC \<notin> set p"
    and "concat chunks = a @ osc p st @ b"
  shows "bell_scan_chunks chunks bell_start = (bell_start, count_list a BEL + count_list b BEL)"
  unfolding bell_scan_chunks_concat assms(5) bell_scan_append
  by (simp add: bell_scan_plain assms bell_scan_osc)

theorem bells_counted_outside_osc_witness:
  "bell_scan_chunks [[0x61, BEL, ESC], [RBRACKET, 0x30, BEL, BEL]] bell_start = (bell_start, 2)"
proof -
  have "bell_scan_chunks [[0x61, BEL, ESC], [RBRACKET, 0x30, BEL, BEL]] bell_start =
    (bell_start, count_list [0x61, BEL] BEL + count_list [BEL] BEL)"
    by (rule bells_counted_outside_osc [where p = "[0x30]" and st = False]) (simp_all add: osc_def)
  then show ?thesis by simp
qed

text \<open>C31: After any appends the buffer holds exactly the last \<open>max_lines\<close> lines of the whole history,
  each under its number in that history, counted from 1; the next number and the first number still
  held follow from the length of the history.\<close>
theorem transcript_is_end_of_history:
  assumes "length hist < u64_max"
  shows "refines_history (fold (\<lambda>(s, now). append_line s now) hist (transcript_new m)) hist \<and>
    tb_max_lines (fold (\<lambda>(s, now). append_line s now) hist (transcript_new m)) = m"
proof -
  have "refines_history (fold (\<lambda>(s, now). append_line s now) hist (transcript_new m)) ([] @ hist)"
    by (rule append_all_refines [OF refines_new]) (use assms in simp)
  then show ?thesis unfolding append_all_max by (simp add: transcript_new_def)
qed

theorem transcript_is_end_of_history_witness:
  "tb_lines (fold (\<lambda>(s, now). append_line s now) [(''a'', 1), (''b'', 2), (''c'', 3)] (transcript_new 2)) =
    [\<lparr>tl_sequence = 2, tl_unix_millis = 2, tl_text = ''b''\<rparr>,
     \<lparr>tl_sequence = 3, tl_unix_millis = 3, tl_text = ''c''\<rparr>]"
proof -
  let ?h = "[(''a'', 1::nat), (''b'', 2), (''c'', 3)]"
  have "refines_history (fold (\<lambda>(s, now). append_line s now) ?h (transcript_new 2)) ?h \<and>
    tb_max_lines (fold (\<lambda>(s, now). append_line s now) ?h (transcript_new 2)) = 2"
    by (rule transcript_is_end_of_history) (simp add: u64_max_def)
  then show ?thesis by (simp add: refines_history_def numbered_def upt_rec)
qed

text \<open>A capture after a sequence number that is not flagged truncated returns every line of the
  history after that number (up to the limit asked for), and a capture never returns anything but
  history lines after that number.\<close>
theorem capture_complete_unless_truncated:
  assumes "refines_history t hist" "0 < since"
  shows "(\<not> tr_truncated (capture_since p (Some since) mx t) \<longrightarrow>
      tr_lines (capture_since p (Some since) mx t) =
        (case mx of None \<Rightarrow> drop since (numbered hist) | Some n \<Rightarrow> take n (drop since (numbered hist)))) \<and>
    set (tr_lines (capture_since p (Some since) mx t)) \<subseteq> set (drop since (numbered hist))"
proof -
  let ?d = "length hist - tb_max_lines t"
  have ls: "filter (\<lambda>l. tl_sequence l > since) (tb_lines t) = drop (max since ?d) (numbered hist)"
    using assms(1) filter_drop_numbered [of since ?d hist] by (simp add: refines_history_def)
  have lines: "tr_lines (capture_since p (Some since) mx t) =
      (case mx of None \<Rightarrow> drop (max since ?d) (numbered hist)
       | Some n \<Rightarrow> take n (drop (max since ?d) (numbered hist)))"
    by (simp add: capture_since_def range_from_iter_def Let_def ls split: option.split)
  have tr: "tr_truncated (capture_since p (Some since) mx t) \<longleftrightarrow> since \<le> ?d"
    using assms by (auto simp: capture_since_def range_from_iter_def refines_history_def Let_def)
  have "set (drop (max since ?d) (numbered hist)) \<subseteq> set (drop since (numbered hist))"
    by (rule set_drop_subset_set_drop) simp
  then have "set (tr_lines (capture_since p (Some since) mx t)) \<subseteq> set (drop since (numbered hist))"
    unfolding lines by (cases mx) (auto dest: in_set_takeD)
  then show ?thesis unfolding tr lines by (auto simp: max_def split: option.split)
qed

theorem capture_complete_unless_truncated_witness:
  "tr_lines (capture_since 7 (Some 1) None (fold (\<lambda>(s, now). append_line s now) [(''a'', 1), (''b'', 2)] (transcript_new 5))) =
    [\<lparr>tl_sequence = 2, tl_unix_millis = 2, tl_text = ''b''\<rparr>]"
proof -
  let ?h = "[(''a'', 1::nat), (''b'', 2)]"
  let ?t = "fold (\<lambda>(s, now). append_line s now) ?h (transcript_new 5)"
  have r: "refines_history ?t ?h"
    using append_all_refines [OF refines_new [of 5], of ?h] by (simp add: u64_max_def)
  have m: "tb_max_lines ?t = 5" unfolding append_all_max by (simp add: transcript_new_def)
  have "\<not> tr_truncated (capture_since 7 (Some 1) None ?t)"
    using r m by (simp add: capture_since_def range_from_iter_def refines_history_def Let_def)
  then have "tr_lines (capture_since 7 (Some 1) None ?t) = drop 1 (numbered ?h)"
    using capture_complete_unless_truncated [OF r, of 1 7 None] by simp
  then show ?thesis by (simp add: numbered_def upt_rec)
qed

section \<open>Where the transcript is less than it says\<close>

text \<open>The flag is raised one number too early: the line right before the first one held was seen.\<close>

lemma truncated_flag_too_early:
  assumes "refines_history t hist" "0 < length hist - tb_max_lines t"
  shows "tr_truncated (capture_since p (Some (tb_dropped_before t - 1)) None t) \<and>
    tr_lines (capture_since p (Some (tb_dropped_before t - 1)) None t) =
      drop (tb_dropped_before t - 1) (numbered hist)"
  using assms filter_drop_numbered [of "length hist - tb_max_lines t" "length hist - tb_max_lines t" hist]
  by (simp add: capture_since_def range_from_iter_def refines_history_def Let_def)

text \<open>A line that arrives in two reads is recorded as two lines.\<close>

definition letter :: "byte \<Rightarrow> char" where
  "letter b = (if b = 0x61 then CHR ''a'' else if b = 0x62 then CHR ''b'' else CHR 0x0A)"

lemma line_split_over_reads:
  "length (tb_lines (append_bytes (map letter) [0x61, 0x62, 0x0A] 1 (transcript_new 9))) = 1"
  "length (tb_lines (append_bytes (map letter) [0x62, 0x0A] 1
     (append_bytes (map letter) [0x61] 1 (transcript_new 9)))) = 2"
  by (simp_all add: append_bytes_def append_line_def pop_excess.simps transcript_new_def letter_def
      trim_newline_def Let_def)

end
