(* ===== verification/Compositor.thy ===== *)
theory Compositor
  imports BusTypes
begin

text \<open>
  The windows lmux manages outside its own surface: identities and default operations of
  \<open>crates/lmux-compositor/src/lib.rs\<close>, KWin's candidate filter (\<open>kwin.rs\<close>), the bookkeeping of which
  anchor owns which window (\<open>crates/lmux/src/state/support.rs\<close>), and the bridge thread that applies
  anchor switches (\<open>crates/lmux/src/compositor_bridge.rs\<close>). A compositor is any state with an
  operation that shows or hides one window and may fail.
\<close>

section \<open>Identities\<close>

datatype sat_backend = SB_Kwin | SB_X11 | SB_Hyprland | SB_Sway | SB_Macos | SB_Noop | SB_Unknown string

fun sat_backend_of :: "window_backend \<Rightarrow> sat_backend" where
  "sat_backend_of Macos = SB_Macos"
| "sat_backend_of Kwin = SB_Kwin"
| "sat_backend_of X11 = SB_X11"
| "sat_backend_of Hyprland = SB_Hyprland"
| "sat_backend_of Sway = SB_Sway"
| "sat_backend_of Noop = SB_Noop"
| "sat_backend_of Unsupported = SB_Unknown ''unsupported''"

record satellite_window =
  sw_backend :: sat_backend
  sw_request_id :: "uuid option"
  sw_pid :: "nat option"
  sw_window_id :: string
  sw_bundle_id :: "string option"
  sw_title :: "string option"

definition for_attached :: "window_candidate \<Rightarrow> satellite_window" where
  "for_attached c =
    \<lparr>sw_backend = sat_backend_of (wc_backend c), sw_request_id = None, sw_pid = wc_pid c,
     sw_window_id = wc_window_id c,
     sw_bundle_id = (case wc_app c of Some (BundleId v) \<Rightarrow> Some v | _ \<Rightarrow> None),
     sw_title = wc_title c\<rparr>"

definition for_pid :: "sat_backend \<Rightarrow> nat \<Rightarrow> satellite_window" where
  "for_pid b p =
    \<lparr>sw_backend = b, sw_request_id = None, sw_pid = Some p, sw_window_id = ''pid:'' @ show_nat p,
     sw_bundle_id = None, sw_title = None\<rparr>"

definition for_spawn_with_bundle :: "sat_backend \<Rightarrow> uuid \<Rightarrow> nat \<Rightarrow> string option \<Rightarrow> satellite_window" where
  "for_spawn_with_bundle b r p bundle =
    \<lparr>sw_backend = b, sw_request_id = Some r, sw_pid = Some p, sw_window_id = ''pid:'' @ show_nat p,
     sw_bundle_id = bundle, sw_title = None\<rparr>"

datatype compositor_error = CE_Unsupported string | CE_ScriptMissing | CE_Offline string
  | CE_Domain string | CE_Io string

section \<open>Operations of a compositor\<close>

text \<open>
  What a backend's group switches rest on: its own \<open>set_window_visible\<close>. The defaults of the trait
  \<open>CompositorControl\<close> are \<open>attach_window\<close> and \<open>set_window_visible\<close> below, the latter over the backend's
  \<open>set_window_visible_by_pid\<close>, whose default does nothing.
\<close>

record 'c compositor =
  cp_set_visible :: "satellite_window \<Rightarrow> bool \<Rightarrow> 'c \<Rightarrow> 'c \<times> compositor_error option"

definition attach_window :: "window_candidate \<Rightarrow> compositor_error + satellite_window" where
  "attach_window c =
    (if trim (wc_window_id c) = []
     then Inl (CE_Domain ''native window candidate has no backend window id'')
     else Inr (for_attached c))"

definition set_window_visible ::
  "(nat \<Rightarrow> bool \<Rightarrow> 'c \<Rightarrow> 'c \<times> compositor_error option) \<Rightarrow> satellite_window \<Rightarrow> bool \<Rightarrow> 'c \<Rightarrow> 'c \<times> compositor_error option" where
  "set_window_visible by_pid w v c =
    (case sw_pid w of Some p \<Rightarrow> by_pid p v c | None \<Rightarrow> (c, None))"

definition set_window_visible_by_pid :: "nat \<Rightarrow> bool \<Rightarrow> 'c \<Rightarrow> 'c \<times> compositor_error option" where
  "set_window_visible_by_pid p v c = (c, None)"

definition default_list_windows :: "compositor_error + window_candidate list" where
  "default_list_windows = Inl (CE_Unsupported ''native window listing is not supported by this compositor'')"

definition default_raise_window :: compositor_error where
  "default_raise_window = CE_Unsupported ''native window raise/focus is not supported by this compositor''"

datatype health = H_Online | H_ScriptMissing | H_Offline string

record window_capabilities =
  cap_list :: bool
  cap_attach :: bool
  cap_visible :: bool
  cap_raise :: bool

definition no_capabilities :: window_capabilities where
  "no_capabilities = \<lparr>cap_list = False, cap_attach = False, cap_visible = False, cap_raise = False\<rparr>"

record window_op_result =
  wr_window :: satellite_window
  wr_error :: "compositor_error option"

record window_group_switch =
  gs_hide :: "satellite_window list"
  gs_show :: "satellite_window list"

text \<open>
  The shared sequence number is read before each window: \<open>latest i\<close> is what the \<open>i\<close>-th read returns.
\<close>

fun switch_loop ::
  "'c compositor \<Rightarrow> nat \<Rightarrow> (nat \<Rightarrow> nat) \<Rightarrow> bool \<Rightarrow> satellite_window list \<Rightarrow> nat \<Rightarrow> 'c \<Rightarrow>
    'c \<times> nat \<times> window_op_result list" where
  "switch_loop cp sequence latest v [] i c = (c, i, [])"
| "switch_loop cp sequence latest v (w # ws) i c =
    (if sequence < latest i then (c, Suc i, [])
     else let (c1, e) = cp_set_visible cp w v c;
              (c2, i2, rs) = switch_loop cp sequence latest v ws (Suc i) c1
          in (c2, i2, \<lparr>wr_window = w, wr_error = e\<rparr> # rs))"

definition apply_window_group_switch_latest ::
  "'c compositor \<Rightarrow> window_group_switch \<Rightarrow> nat \<Rightarrow> (nat \<Rightarrow> nat) \<Rightarrow> 'c \<Rightarrow> 'c \<times> window_op_result list" where
  "apply_window_group_switch_latest cp sw sequence latest c =
    (let (c1, i1, rs1) = switch_loop cp sequence latest False (gs_hide sw) 0 c;
         (c2, i2, rs2) = switch_loop cp sequence latest True (gs_show sw) i1 c1
     in (c2, rs1 @ rs2))"

definition apply_window_group_switch ::
  "'c compositor \<Rightarrow> window_group_switch \<Rightarrow> 'c \<Rightarrow> 'c \<times> window_op_result list" where
  "apply_window_group_switch cp sw c =
    (let op = (\<lambda>v (c, rs) w. let (c', e) = cp_set_visible cp w v c
                             in (c', rs @ [\<lparr>wr_window = w, wr_error = e\<rparr>]))
     in foldl (op True) (foldl (op False) (c, []) (gs_hide sw)) (gs_show sw))"

lemma switch_loop_all:
  assumes "\<And>j. latest j \<le> sequence"
  shows "switch_loop cp sequence latest v ws i c =
    (let (c', rs) = foldl (\<lambda>(c, rs) w. let (c', e) = cp_set_visible cp w v c
                             in (c', rs @ [\<lparr>wr_window = w, wr_error = e\<rparr>])) (c, []) ws
     in (c', i + length ws, rs))"
proof -
  let ?op = "\<lambda>(c, rs) w. let (c', e) = cp_set_visible cp w v c
                             in (c', rs @ [\<lparr>wr_window = w, wr_error = e\<rparr>])"
  have pre: "foldl ?op (c, rs) ws = (fst (foldl ?op (c, []) ws), rs @ snd (foldl ?op (c, []) ws))" for c rs ws
  proof (induction ws arbitrary: c rs)
    case (Cons w ws)
    obtain c' e where "cp_set_visible cp w v c = (c', e)" by (cases "cp_set_visible cp w v c")
    then show ?case
      using Cons.IH [of c' "rs @ [\<lparr>wr_window = w, wr_error = e\<rparr>]"] Cons.IH [of c' "[\<lparr>wr_window = w, wr_error = e\<rparr>]"]
      by simp
  qed simp
  show ?thesis
  proof (induction ws arbitrary: i c)
    case (Cons w ws)
    obtain c' e where s: "cp_set_visible cp w v c = (c', e)" by (cases "cp_set_visible cp w v c")
    show ?case
      using assms [of i] Cons.IH [of "Suc i" c'] pre [of c' "[\<lparr>wr_window = w, wr_error = e\<rparr>]" ws] s
      by (simp add: Let_def split: prod.splits)
  qed simp
qed

lemma switch_loop_windows:
  "\<exists>k \<le> length ws. map wr_window (snd (snd (switch_loop cp sequence latest v ws i c))) = take k ws \<and>
    fst (snd (switch_loop cp sequence latest v ws i c)) = i + (if k < length ws then Suc k else length ws) \<and>
    (k < length ws \<longrightarrow> sequence < latest (i + k)) \<and> (\<forall>j < k. latest (i + j) \<le> sequence)"
proof (induction ws arbitrary: i c)
  case (Cons w ws)
  show ?case
  proof (cases "sequence < latest i")
    case True
    then show ?thesis by (intro exI [of _ 0]) simp
  next
    case False
    obtain c1 e where s: "cp_set_visible cp w v c = (c1, e)" by (cases "cp_set_visible cp w v c")
    obtain k where k: "k \<le> length ws"
      "map wr_window (snd (snd (switch_loop cp sequence latest v ws (Suc i) c1))) = take k ws"
      "fst (snd (switch_loop cp sequence latest v ws (Suc i) c1)) =
        Suc i + (if k < length ws then Suc k else length ws)"
      "k < length ws \<longrightarrow> sequence < latest (Suc i + k)" "\<forall>j < k. latest (Suc i + j) \<le> sequence"
      using Cons.IH by blast
    have "\<forall>j < Suc k. latest (i + j) \<le> sequence"
      using k(5) False by (metis add.right_neutral add_Suc_shift less_Suc_eq_0_disj not_less)
    then show ?thesis using False s k(1-4)
      by (intro exI [of _ "Suc k"]) (auto simp: Let_def split: prod.splits)
  qed
qed simp

section \<open>Which anchor owns which window\<close>

type_synonym windows_by_anchor = "(pane_id, satellite_window list) hmap"

definition satellite_visibility_for_active ::
  "pane_id option \<Rightarrow> windows_by_anchor \<Rightarrow> satellite_window list \<times> satellite_window list" where
  "satellite_visibility_for_active act m =
    (concat (map snd (filter (\<lambda>(a, ws). Some a \<noteq> act) (hitems m))),
     concat (map snd (filter (\<lambda>(a, ws). Some a = act) (hitems m))))"

definition remove_satellite_request :: "uuid \<Rightarrow> windows_by_anchor \<Rightarrow> windows_by_anchor" where
  "remove_satellite_request r m = hmapvals (filter (\<lambda>w. sw_request_id w \<noteq> Some r)) m"

definition remove_satellite_backend_window :: "string \<Rightarrow> windows_by_anchor \<Rightarrow> windows_by_anchor" where
  "remove_satellite_backend_window b m = hmapvals (filter (\<lambda>w. sw_window_id w \<noteq> b)) m"

definition insert_satellite_window_for_anchor ::
  "pane_id \<Rightarrow> satellite_window \<Rightarrow> windows_by_anchor \<Rightarrow> windows_by_anchor" where
  "insert_satellite_window_for_anchor anchor w m =
    (let m1 = (case sw_request_id w of Some r \<Rightarrow> remove_satellite_request r m | None \<Rightarrow> m);
         m2 = remove_satellite_backend_window (sw_window_id w) m1
     in hput anchor ((case hget m2 anchor of Some ws \<Rightarrow> ws | None \<Rightarrow> []) @ [w]) m2)"

text \<open>A window is in at most one place of the whole table.\<close>

definition all_windows :: "windows_by_anchor \<Rightarrow> (pane_id \<times> satellite_window) set" where
  "all_windows m = {(a, w). \<exists>ws. hget m a = Some ws \<and> w \<in> set ws}"

definition windows_ok :: "windows_by_anchor \<Rightarrow> bool" where
  "windows_ok m = (list_all (\<lambda>(a, ws). distinct (map sw_window_id ws)) (hitems m) \<and>
    list_all (\<lambda>(a, ws). list_all (\<lambda>(b, vs). a = b \<or> set (map sw_window_id ws) \<inter> set (map sw_window_id vs) = {})
      (hitems m)) (hitems m))"

lemma windows_ok_iff:
  "windows_ok m \<longleftrightarrow>
    (\<forall>a ws. hget m a = Some ws \<longrightarrow> distinct (map sw_window_id ws)) \<and>
    (\<forall>a b ws vs. hget m a = Some ws \<and> hget m b = Some vs \<and> a \<noteq> b \<longrightarrow>
       set (map sw_window_id ws) \<inter> set (map sw_window_id vs) = {})"
  unfolding windows_ok_def hitems_all by blast

lemma windows_ok_filter:
  assumes "windows_ok m"
  shows "windows_ok (hmapvals (filter P) m)"
  using assms unfolding windows_ok_iff
  by (auto simp: distinct_map_filter) (metis (mono_tags, lifting) Int_iff empty_iff image_eqI)

lemma insert_satellite_get:
  "hget (insert_satellite_window_for_anchor anchor w m) a =
    (let keep = filter (\<lambda>v. sw_window_id v \<noteq> sw_window_id w \<and>
           (sw_request_id w = None \<or> sw_request_id v \<noteq> sw_request_id w))
     in if a = anchor then Some (keep (case hget m a of Some ws \<Rightarrow> ws | None \<Rightarrow> []) @ [w])
        else map_option keep (hget m a))"
  by (cases "hget m a"; cases "sw_request_id w")
    (auto simp: insert_satellite_window_for_anchor_def remove_satellite_backend_window_def
      remove_satellite_request_def hget_hput Let_def filter_filter conj_commute split: option.splits)

lemma insert_satellite_ok:
  assumes "windows_ok m"
  shows "windows_ok (insert_satellite_window_for_anchor anchor w m)"
proof -
  let ?keep = "filter (\<lambda>v. sw_window_id v \<noteq> sw_window_id w \<and>
           (sw_request_id w = None \<or> sw_request_id v \<noteq> sw_request_id w))"
  have d: "distinct (map sw_window_id ws)" if "hget m a = Some ws" for a ws
    using assms that unfolding windows_ok_iff by blast
  have x: "set (map sw_window_id ws) \<inter> set (map sw_window_id vs) = {}"
    if "hget m a = Some ws" "hget m b = Some vs" "a \<noteq> b" for a b ws vs
    using assms that unfolding windows_ok_iff by blast
  have new: "sw_window_id w \<notin> set (map sw_window_id (?keep vs))" for vs by auto
  have sub: "set (map sw_window_id (?keep vs)) \<subseteq> set (map sw_window_id vs)" for vs by auto
  show ?thesis unfolding windows_ok_iff insert_satellite_get Let_def
  proof (intro conjI allI impI)
    fix a ws
    assume "(if a = anchor then Some (?keep (case hget m a of Some ws \<Rightarrow> ws | None \<Rightarrow> []) @ [w])
        else map_option ?keep (hget m a)) = Some ws"
    then show "distinct (map sw_window_id ws)"
      using d [of a] new by (auto simp: distinct_map_filter split: if_splits option.splits)
  next
    fix a b ws vs
    let ?g = "\<lambda>a. if a = anchor then Some (?keep (case hget m a of Some ws \<Rightarrow> ws | None \<Rightarrow> []) @ [w])
        else map_option ?keep (hget m a)"
    assume g: "?g a = Some ws \<and> ?g b = Some vs \<and> a \<noteq> b"
    let ?ids = "\<lambda>c. set (map sw_window_id (case hget m c of Some us \<Rightarrow> us | None \<Rightarrow> []))"
    have part: "set (map sw_window_id us) \<subseteq> (?ids c - {sw_window_id w}) \<union> (if c = anchor then {sw_window_id w} else {})"
      if "?g c = Some us" for c us
      using that by (auto split: if_splits option.splits)
    have disj: "?ids a \<inter> ?ids b = {}"
      using x [of a _ b] g by (simp split: option.splits)
    have abs: "A \<subseteq> (A0 - {i}) \<union> (if p then {i} else {}) \<Longrightarrow> B \<subseteq> (B0 - {i}) \<union> (if q then {i} else {}) \<Longrightarrow>
        A0 \<inter> B0 = {} \<Longrightarrow> \<not> (p \<and> q) \<Longrightarrow> A \<inter> B = {}" for A A0 B B0 :: "string set" and i p q
      by (cases p; cases q) auto
    show "set (map sw_window_id ws) \<inter> set (map sw_window_id vs) = {}"
    proof (rule abs [OF part part disj])
      show "?g a = Some ws" "?g b = Some vs" "\<not> (a = anchor \<and> b = anchor)" using g by blast+
    qed
  qed
qed

section \<open>The bridge\<close>

datatype compositor_command = ApplyWindowGroupSwitch nat window_group_switch

fun cmd_sequence :: "compositor_command \<Rightarrow> nat" where
  "cmd_sequence (ApplyWindowGroupSwitch n _) = n"

text \<open>
  What the thread takes in one round: the command it waited for and those queued behind it. A queued
  command at least as new replaces the one in hand; an older one is dropped.
\<close>

definition coalesce :: "compositor_command \<Rightarrow> compositor_command list \<Rightarrow> compositor_command" where
  "coalesce cmd queued = foldl (\<lambda>c n. if cmd_sequence c \<le> cmd_sequence n then n else c) cmd queued"

fun drain_round ::
  "compositor_command \<times> compositor_command list \<Rightarrow> nat \<times> compositor_command list \<Rightarrow>
    nat \<times> compositor_command list" where
  "drain_round (cmd, queued) (latest, applied) =
    (let c = coalesce cmd queued in
     if cmd_sequence c < latest then (latest, applied) else (cmd_sequence c, applied @ [c]))"

definition drain :: "(compositor_command \<times> compositor_command list) list \<Rightarrow> compositor_command list" where
  "drain rounds = snd (fold drain_round rounds (0, []))"

definition received :: "(compositor_command \<times> compositor_command list) list \<Rightarrow> compositor_command list" where
  "received rounds = concat (map (\<lambda>(c, q). c # q) rounds)"

lemma coalesce_max:
  "coalesce c q \<in> set (c # q) \<and> list_all (\<lambda>n. cmd_sequence n \<le> cmd_sequence (coalesce c q)) (c # q)"
proof (induction q rule: rev_induct)
  case (snoc n q)
  then show ?case by (auto simp: coalesce_def list_all_iff)
qed (simp add: coalesce_def)

text \<open>What has been applied so far: in order of sequence, the newest of all received last.\<close>

definition drained :: "compositor_command list \<Rightarrow> nat \<times> compositor_command list \<Rightarrow> bool" where
  "drained rs st = (case st of (latest, applied) \<Rightarrow>
    sorted (map cmd_sequence applied) \<and> set applied \<subseteq> set rs \<and>
    list_all (\<lambda>n. cmd_sequence n \<le> latest) rs \<and>
    (if rs = [] then applied = [] \<and> latest = 0
     else applied \<noteq> [] \<and> cmd_sequence (last applied) = latest))"

lemma drain_round_drained:
  assumes "drained rs st"
  shows "drained (rs @ c # q) (drain_round (c, q) st)"
proof -
  obtain l a where st: "st = (l, a)" by (cases st)
  have m: "coalesce c q \<in> set (c # q)" "list_all (\<lambda>n. cmd_sequence n \<le> cmd_sequence (coalesce c q)) (c # q)"
    using coalesce_max by blast+
  have inr: "list_all (\<lambda>n. cmd_sequence n \<le> l) rs" "set a \<subseteq> set rs" "sorted (map cmd_sequence a)"
    using assms by (simp_all add: drained_def st)
  show ?thesis
  proof (cases "cmd_sequence (coalesce c q) < l")
    case True
    then have "rs \<noteq> []" using assms by (auto simp: drained_def st)
    then show ?thesis using True assms m by (fastforce simp: drained_def st Let_def list_all_iff)
  next
    case False
    have "\<forall>x \<in> set a. cmd_sequence x \<le> cmd_sequence (coalesce c q)"
      using inr False unfolding list_all_iff by fastforce
    then show ?thesis using False inr m
      by (fastforce simp: drained_def st Let_def list_all_iff sorted_append)
  qed
qed

lemma drain_drained: "drained rs st \<Longrightarrow> drained (rs @ received rounds) (fold drain_round rounds st)"
proof (induction rounds arbitrary: rs st)
  case (Cons r rounds)
  obtain c q where r: "r = (c, q)" by (cases r)
  show ?case using Cons.IH [OF drain_round_drained [OF Cons.prems, of c q]] by (simp add: received_def r)
qed (simp add: received_def)

section \<open>KWin's candidates\<close>

record kwin_script_window =
  kw_window_id :: string
  kw_pid :: "nat option"
  kw_resource_class :: "string option"
  kw_resource_name :: "string option"
  kw_title :: "string option"
  kw_workspace :: "string option"
  kw_output :: "string option"
  kw_normal_window :: "bool option"
  kw_skip_taskbar :: "bool option"
  kw_skip_switcher :: "bool option"
  kw_special_window :: "bool option"
  kw_desktop_window :: "bool option"
  kw_dock :: "bool option"

definition ascii_lower :: "char \<Rightarrow> char" where
  "ascii_lower c = (let n = of_char c :: nat in if 65 \<le> n \<and> n \<le> 90 then char_of (n + 32) else c)"

definition or_else :: "'a option \<Rightarrow> 'a option \<Rightarrow> 'a option" where
  "or_else a b = (case a of Some x \<Rightarrow> Some x | None \<Rightarrow> b)"

definition unwrap_or :: "'a option \<Rightarrow> 'a \<Rightarrow> 'a" where
  "unwrap_or a d = (case a of Some x \<Rightarrow> x | None \<Rightarrow> d)"

definition should_include_kwin_window :: "nat \<Rightarrow> kwin_script_window \<Rightarrow> bool" where
  "should_include_kwin_window own_pid w =
    (let app = map ascii_lower (trim (unwrap_or (or_else (kw_resource_class w) (kw_resource_name w)) [])) in
     if kw_pid w = Some own_pid then False
     else if kw_normal_window w = Some False \<or> kw_skip_taskbar w = Some True \<or>
        kw_skip_switcher w = Some True \<or> kw_special_window w = Some True \<or>
        kw_desktop_window w = Some True \<or> kw_dock w = Some True then False
     else if app \<in> {''lmux'', ''no.jpro.lmux'', ''plasmashell'', ''krunner'', ''ksmserver''} then False
     else if trim (kw_window_id w) = [] then False
     else (case kw_title w of Some t \<Rightarrow> trim t \<noteq> [] | None \<Rightarrow> False) \<or> app \<noteq> [] \<or> kw_pid w \<noteq> None)"

definition nonblank :: "string option \<Rightarrow> string option" where
  "nonblank s = (case s of Some t \<Rightarrow> if trim t = [] then None else Some t | None \<Rightarrow> None)"

definition validate_kwin_backend_window_id :: "string \<Rightarrow> compositor_error option" where
  "validate_kwin_backend_window_id v =
    (if take 5 v = ''kwin:'' \<and> trim (drop 5 v) \<noteq> [] \<and> list_all (\<lambda>c. \<not> is_space c) (drop 5 v)
     then None else Some (CE_Domain (''invalid KWin backend window id: '' @ v)))"

definition kwin_candidate_from_script_window :: "kwin_script_window \<Rightarrow> compositor_error + window_candidate" where
  "kwin_candidate_from_script_window w =
    (case validate_kwin_backend_window_id (kw_window_id w) of Some e \<Rightarrow> Inl e
     | None \<Rightarrow> Inr \<lparr>wc_backend = Kwin, wc_window_id = kw_window_id w, wc_pid = kw_pid w,
         wc_app = map_option WmClass (nonblank (or_else (kw_resource_class w) (kw_resource_name w))),
         wc_title = nonblank (kw_title w), wc_workspace = nonblank (kw_workspace w),
         wc_output = nonblank (kw_output w)\<rparr>)"

text \<open>\<open>from_str\<close> is serde; the first bad window fails the whole snapshot.\<close>

fun kwin_candidates :: "nat \<Rightarrow> kwin_script_window list \<Rightarrow> compositor_error + window_candidate list" where
  "kwin_candidates own_pid [] = Inr []"
| "kwin_candidates own_pid (w # ws) =
    (if should_include_kwin_window own_pid w
     then (case kwin_candidate_from_script_window w of
             Inl e \<Rightarrow> Inl e
           | Inr c \<Rightarrow> (case kwin_candidates own_pid ws of Inl e \<Rightarrow> Inl e | Inr cs \<Rightarrow> Inr (c # cs)))
     else kwin_candidates own_pid ws)"

definition parse_kwin_window_snapshot ::
  "(string \<Rightarrow> string + kwin_script_window list) \<Rightarrow> nat \<Rightarrow> string \<Rightarrow> compositor_error + window_candidate list" where
  "parse_kwin_window_snapshot from_str own_pid json =
    (case from_str json of Inl e \<Rightarrow> Inl (CE_Domain (''KWin window JSON: '' @ e))
     | Inr ws \<Rightarrow> kwin_candidates own_pid ws)"

lemma kwin_candidates_attachable:
  "kwin_candidates p ws = Inr cs \<Longrightarrow> c \<in> set cs \<Longrightarrow>
    attach_window c = Inr (for_attached c) \<and> take 5 (wc_window_id c) = ''kwin:'' \<and> wc_backend c = Kwin \<and>
    wc_pid c \<noteq> Some p"
proof (induction ws arbitrary: cs)
  case (Cons w ws)
  have "\<not> is_space CHR ''k''" by (simp add: is_space_def)
  then have nb: "trim v \<noteq> []" if "take 5 v = ''kwin:''" for v
    using that by (cases v) (auto simp: trim_def)
  show ?case using Cons
    by (auto simp: kwin_candidate_from_script_window_def validate_kwin_backend_window_id_def
      attach_window_def should_include_kwin_window_def Let_def nb split: if_splits sum.splits)
qed simp

section \<open>Properties\<close>

text \<open>Whatever the interleaving of sends and rounds of the bridge thread, the switches it applies
  are among those received, in order of their sequence numbers, and the last one applied is a newest
  one received: a stale switch never has the last word.\<close>

theorem newest_switch_applied_last:
  "sorted (map cmd_sequence (drain rounds)) \<and> set (drain rounds) \<subseteq> set (received rounds) \<and>
   (if rounds = [] then drain rounds = []
    else drain rounds \<noteq> [] \<and>
      list_all (\<lambda>n. cmd_sequence n \<le> cmd_sequence (last (drain rounds))) (received rounds))"
proof -
  have "drained ([] @ received rounds) (fold drain_round rounds (0, []))"
    by (rule drain_drained) (simp add: drained_def)
  moreover have "received rounds = [] \<longleftrightarrow> rounds = []" by (cases rounds) (auto simp: received_def)
  ultimately show ?thesis
    by (cases "fold drain_round rounds (0, [])") (auto simp: drained_def drain_def split: if_splits)
qed

text \<open>While no newer switch is announced, the cancellable switch does exactly what the plain group
  switch does, window by window: hide first, then show.\<close>

theorem uncancelled_switch_is_complete:
  assumes "\<And>j. latest j \<le> sequence"
  shows "apply_window_group_switch_latest cp sw sequence latest c = apply_window_group_switch cp sw c"
proof -
  let ?op = "\<lambda>v (c, rs) w. let (c', e) = cp_set_visible cp w v c
                             in (c', rs @ [\<lparr>wr_window = w, wr_error = e\<rparr>])"
  have pre: "foldl (?op v) (c, rs) ws = (fst (foldl (?op v) (c, []) ws), rs @ snd (foldl (?op v) (c, []) ws))"
    for v c rs ws
  proof (induction ws arbitrary: c rs)
    case (Cons w ws)
    obtain c' e where "cp_set_visible cp w v c = (c', e)" by (cases "cp_set_visible cp w v c")
    then show ?case
      using Cons.IH [of c' "rs @ [\<lparr>wr_window = w, wr_error = e\<rparr>]"] Cons.IH [of c' "[\<lparr>wr_window = w, wr_error = e\<rparr>]"]
      by simp
  qed simp
  obtain c1 r1 where 1: "foldl (?op False) (c, []) (gs_hide sw) = (c1, r1)"
    by (cases "foldl (?op False) (c, []) (gs_hide sw)")
  show ?thesis
    using switch_loop_all [where latest = latest and sequence = sequence and cp = cp and v = False
        and ws = "gs_hide sw" and i = 0 and c = c]
      switch_loop_all [where latest = latest and sequence = sequence and cp = cp and v = True
        and ws = "gs_show sw" and i = "length (gs_hide sw)" and c = c1] assms 1 pre [of True c1 r1 "gs_show sw"]
    by (simp add: apply_window_group_switch_latest_def apply_window_group_switch_def split: prod.splits)
qed

theorem uncancelled_switch_is_complete_witness:
  "\<forall>c sw. apply_window_group_switch_latest \<lparr>cp_set_visible = set_window_visible (\<lambda>p v c. ((p, v) # c, None))\<rparr> sw 3 (\<lambda>_. 3) c =
    apply_window_group_switch \<lparr>cp_set_visible = set_window_visible (\<lambda>p v c. ((p, v) # c, None))\<rparr> sw c"
  by (intro allI uncancelled_switch_is_complete) simp

text \<open>A newer switch stops a stale one: once the shared sequence number has passed a switch, it
  works on no further window; the windows it worked on are the first of its list.\<close>

theorem stale_switch_stops:
  assumes "mono latest" "sequence < latest n"
  shows "\<exists>k \<le> n. map wr_window (snd (apply_window_group_switch_latest cp sw sequence latest c)) =
    take k (gs_hide sw @ gs_show sw)"
proof -
  obtain c1 i1 rs1 where 1: "switch_loop cp sequence latest False (gs_hide sw) 0 c = (c1, i1, rs1)"
    by (metis surj_pair)
  obtain c2 i2 rs2 where 2: "switch_loop cp sequence latest True (gs_show sw) i1 c1 = (c2, i2, rs2)"
    by (metis surj_pair)
  have res: "map wr_window (snd (apply_window_group_switch_latest cp sw sequence latest c)) =
      map wr_window rs1 @ map wr_window rs2"
    by (simp add: apply_window_group_switch_latest_def 1 2)
  obtain k where k: "k \<le> length (gs_hide sw)" "map wr_window rs1 = take k (gs_hide sw)"
    "i1 = (if k < length (gs_hide sw) then Suc k else length (gs_hide sw))"
    "k < length (gs_hide sw) \<longrightarrow> sequence < latest k" "\<forall>j < k. latest j \<le> sequence"
    using switch_loop_windows [of "gs_hide sw" cp sequence latest False 0 c] 1 by auto
  obtain m where m: "m \<le> length (gs_show sw)" "map wr_window rs2 = take m (gs_show sw)"
    "\<forall>j < m. latest (i1 + j) \<le> sequence"
    using switch_loop_windows [of "gs_show sw" cp sequence latest True i1 c1] 2 by auto
  have "k \<le> n" using k(5) assms(2) by (meson not_le)
  show ?thesis
  proof (cases "k < length (gs_hide sw)")
    case True
    then have "sequence < latest i1" using k(3,4) monoD [OF assms(1), of k i1] by auto
    then have "m = 0" using m(3) by (metis add.right_neutral not_le not_gr_zero)
    then show ?thesis using res k(2) m(2) True \<open>k \<le> n\<close> by (intro exI [of _ k]) simp
  next
    case False
    then have i1: "i1 = length (gs_hide sw)" "k = length (gs_hide sw)" using k(1,3) by simp_all
    have "k + m \<le> n"
    proof (rule ccontr)
      assume "\<not> k + m \<le> n"
      then have "m \<noteq> 0" "n \<le> i1 + (m - 1)" using \<open>k \<le> n\<close> i1 by auto
      then have "latest n \<le> sequence" using m(3) monoD [OF assms(1), of n "i1 + (m - 1)"]
        by (metis One_nat_def diff_Suc_less le_trans not_gr_zero)
      then show False using assms(2) by simp
    qed
    then show ?thesis using res k(2) m(2) i1 by (intro exI [of _ "k + m"]) simp
  qed
qed

theorem stale_switch_stops_witness:
  "\<forall>c sw. \<exists>k \<le> 2. map wr_window (snd (apply_window_group_switch_latest
      \<lparr>cp_set_visible = set_window_visible (\<lambda>p v c. ((p, v) # c, None))\<rparr> sw 3 (\<lambda>i. i + 2) c)) = take k (gs_hide sw @ gs_show sw)"
  by (intro allI stale_switch_stops) (simp_all add: mono_def)

text \<open>Registering a window under an anchor takes it away from every other: afterwards no window is
  listed twice anywhere, the new one is last under its anchor, and every window that is neither the
  same window nor the same request stays where it was.\<close>

theorem window_owned_once:
  assumes "windows_ok m"
  shows "windows_ok (insert_satellite_window_for_anchor anchor w m) \<and>
    all_windows (insert_satellite_window_for_anchor anchor w m) =
      insert (anchor, w) {(a, v). (a, v) \<in> all_windows m \<and> sw_window_id v \<noteq> sw_window_id w \<and>
        (sw_request_id w = None \<or> sw_request_id v \<noteq> sw_request_id w)}"
proof
  show "windows_ok (insert_satellite_window_for_anchor anchor w m)" by (rule insert_satellite_ok [OF assms])
  show "all_windows (insert_satellite_window_for_anchor anchor w m) =
      insert (anchor, w) {(a, v). (a, v) \<in> all_windows m \<and> sw_window_id v \<noteq> sw_window_id w \<and>
        (sw_request_id w = None \<or> sw_request_id v \<noteq> sw_request_id w)}"
    unfolding all_windows_def insert_satellite_get Let_def
    by (auto split: option.splits if_splits)
qed

theorem window_owned_once_witness:
  "windows_ok (insert_satellite_window_for_anchor 2 (for_pid SB_Kwin 7) [(1, [for_pid SB_Kwin 7])]) \<and>
   (1, for_pid SB_Kwin 7) \<notin> all_windows (insert_satellite_window_for_anchor 2 (for_pid SB_Kwin 7) [(1, [for_pid SB_Kwin 7])])"
proof -
  have "windows_ok [(1, [for_pid SB_Kwin 7])]" by (simp add: windows_ok_iff hget_Cons)
  from window_owned_once [OF this, of 2 "for_pid SB_Kwin 7"] show ?thesis by auto
qed

text \<open>For every anchor table the visibility command hides exactly the windows of the anchors that are
  not active and shows exactly those of the active one, so no window is asked to do both.\<close>

theorem visibility_partitions_windows:
  "case satellite_visibility_for_active act m of (hide, show) \<Rightarrow>
     set hide = {w. \<exists>a. (a, w) \<in> all_windows m \<and> Some a \<noteq> act} \<and>
     set show = {w. \<exists>a. (a, w) \<in> all_windows m \<and> Some a = act}"
  unfolding satellite_visibility_for_active_def all_windows_def by fastforce

text \<open>Every window that the KWin listing offers can be attached: its id has KWin's form, is not blank,
  and it is not one of lmux's own.\<close>

theorem kwin_candidates_are_attachable:
  assumes "parse_kwin_window_snapshot from_str own_pid json = Inr cs"
  shows "list_all (\<lambda>c. attach_window c = Inr (for_attached c) \<and> take 5 (wc_window_id c) = ''kwin:'' \<and>
    wc_backend c = Kwin \<and> wc_pid c \<noteq> Some own_pid) cs"
proof -
  obtain ws where "kwin_candidates own_pid ws = Inr cs"
    using assms by (auto simp: parse_kwin_window_snapshot_def split: sum.splits)
  then show ?thesis unfolding list_all_iff by (auto dest!: kwin_candidates_attachable)
qed

theorem kwin_candidates_are_attachable_witness:
  "case parse_kwin_window_snapshot (\<lambda>_. Inr [\<lparr>kw_window_id = ''kwin:a1'', kw_pid = Some 9, kw_resource_class = None,
      kw_resource_name = None, kw_title = None, kw_workspace = None, kw_output = None, kw_normal_window = None,
      kw_skip_taskbar = None, kw_skip_switcher = None, kw_special_window = None, kw_desktop_window = None,
      kw_dock = None\<rparr>]) 4 [] of Inl _ \<Rightarrow> False
   | Inr cs \<Rightarrow> length cs = 1 \<and> list_all (\<lambda>c. wc_backend c = Kwin) cs"
    (is "case ?r of Inl _ \<Rightarrow> False | Inr cs \<Rightarrow> _ cs")
proof -
  have "case ?r of Inl _ \<Rightarrow> False | Inr cs \<Rightarrow> length cs = 1" by code_simp
  then obtain cs where cs: "?r = Inr cs" "length cs = 1" by (auto split: sum.splits)
  show ?thesis using kwin_candidates_are_attachable [OF cs(1)] cs by (simp add: list_all_iff)
qed

end
