(* ===== verification/Config.thy ===== *)
theory Config
  imports StateFiles
begin

text \<open>
  The user's configuration: the settings with their defaults, loading, saving and provisioning of
  \<open>crates/lmux-config/src/lib.rs\<close>, the watcher's thread of \<open>watch.rs\<close>, and the autodetection rules of
  \<open>crates/lmux-anchor/src/autodetect.rs\<close>. The TOML reader and writer are parameters; contents are strings.
\<close>

section \<open>Settings\<close>

datatype focus_mode = Focus_Click | Focus_Hover

record general =
  ge_font_family :: string
  ge_font_size :: nat
  ge_compositor_script :: "string option"
  ge_focus_mode :: focus_mode

record keymap =
  km_prefix :: string

datatype sidebar_position = Side_Left | Side_Right

datatype sidebar_sort = Sort_Manual | Sort_Recent | Sort_Alpha

record sidebar_settings =
  sb_position :: sidebar_position
  sb_width :: nat
  sb_collapsed_width :: nat
  sb_collapsed :: bool
  sb_preview_enabled :: bool
  sb_preview_refresh_ms :: nat
  sb_default_sort :: sidebar_sort

record match_spec =
  ms_command_contains :: "string list"
  ms_env_set :: "string list"

record autodetect_rule =
  ru_name :: string
  ru_match :: match_spec
  ru_hide_on_session_close :: bool

record config =
  cf_general :: general
  cf_keymap :: keymap
  cf_sidebar :: sidebar_settings
  cf_autodetect :: "autodetect_rule list"

text \<open>The defaults of the Linux build.\<close>

definition default_font_family :: string where
  "default_font_family = ''JetBrains Mono''"

definition default_font_size :: nat where
  "default_font_size = 11"

definition general_default :: general where
  "general_default = \<lparr>ge_font_family = default_font_family, ge_font_size = default_font_size,
     ge_compositor_script = None, ge_focus_mode = Focus_Click\<rparr>"

definition default_prefix :: string where
  "default_prefix = ''ctrl+b''"

definition sidebar_default :: sidebar_settings where
  "sidebar_default = \<lparr>sb_position = Side_Left, sb_width = 280, sb_collapsed_width = 48, sb_collapsed = False,
     sb_preview_enabled = True, sb_preview_refresh_ms = 750, sb_default_sort = Sort_Manual\<rparr>"

definition config_default :: config where
  "config_default = \<lparr>cf_general = general_default, cf_keymap = \<lparr>km_prefix = default_prefix\<rparr>,
     cf_sidebar = sidebar_default, cf_autodetect = []\<rparr>"

section \<open>Rules\<close>

fun contains :: "string \<Rightarrow> string \<Rightarrow> bool" where
  "contains [] needle = (needle = [])"
| "contains (c # cs) needle = (take (length needle) (c # cs) = needle \<or> contains cs needle)"

definition rule_matches :: "autodetect_rule \<Rightarrow> string \<Rightarrow> string list \<Rightarrow> bool" where
  "rule_matches r command env_keys =
    (let cmd_hit = list_ex (contains command) (ms_command_contains (ru_match r));
         env_hit = list_ex (\<lambda>needed. needed \<in> set env_keys) (ms_env_set (ru_match r))
     in cmd_hit \<or> env_hit)"

record autodetect_match =
  am_rule_name :: string
  am_hide_on_session_close :: bool

definition match_rule :: "autodetect_rule list \<Rightarrow> string \<Rightarrow> string list \<Rightarrow> autodetect_match option" where
  "match_rule rules command env_keys =
    map_option (\<lambda>r. \<lparr>am_rule_name = ru_name r, am_hide_on_session_close = ru_hide_on_session_close r\<rparr>)
      (List.find (\<lambda>r. rule_matches r command env_keys) rules)"

section \<open>The file\<close>

datatype load_error = LE_Io io_error | LE_InvalidToml string string | LE_Encode string | LE_NoConfigDir

datatype provision_outcome = PO_Loaded | PO_Provisioned

text \<open>\<open>xdg\<close> and \<open>home\<close> are the variables \<open>XDG_CONFIG_HOME\<close> and \<open>HOME\<close>.\<close>

definition config_path :: "string option \<Rightarrow> string option \<Rightarrow> string option" where
  "config_path xdg home =
    (case (case xdg of Some x \<Rightarrow> if x \<noteq> [] then Some (x @ ''/lmux/config.toml'') else None | None \<Rightarrow> None) of
       Some p \<Rightarrow> Some p
     | None \<Rightarrow> map_option (\<lambda>h. h @ ''/.config/lmux/config.toml'') home)"

record toml =
  tl_from_str :: "string \<Rightarrow> string + config"
  tl_to_string :: "config \<Rightarrow> string + string"

definition config_load :: "sysfaults \<Rightarrow> toml \<Rightarrow> string \<Rightarrow> files \<Rightarrow> load_error + config" where
  "config_load ff tm path d =
    (case fs_read ff path d of
       Inl NotFound \<Rightarrow> Inr config_default
     | Inl e \<Rightarrow> Inl (LE_Io e)
     | Inr text \<Rightarrow> (case tl_from_str tm text of Inl err \<Rightarrow> Inl (LE_InvalidToml path err) | Inr cfg \<Rightarrow> Inr cfg))"

text \<open>
  \<open>std::fs::write\<close> truncates the file before it writes; refused half way it leaves \<open>part\<close> bytes.
  Opening the file is the step \<open>OpenTmp\<close> of \<open>StateFiles\<close>.
\<close>

definition config_save :: "sysfaults \<Rightarrow> nat \<Rightarrow> toml \<Rightarrow> string \<Rightarrow> config \<Rightarrow> files \<Rightarrow> files \<times> (load_error + unit)" where
  "config_save ff part tm path cfg d =
    (case sf_write ff path CreateDir of Some e \<Rightarrow> (d, Inl (LE_Io e)) | None \<Rightarrow>
     case tl_to_string tm cfg of Inl e \<Rightarrow> (d, Inl (LE_Encode e)) | Inr text \<Rightarrow>
     case sf_write ff path OpenTmp of Some e \<Rightarrow> (d, Inl (LE_Io e)) | None \<Rightarrow>
     case sf_write ff path WriteAll of Some e \<Rightarrow> (hput path (take part text) d, Inl (LE_Io e))
     | None \<Rightarrow> (hput path text d, Inr ()))"

definition load_or_provision ::
  "sysfaults \<Rightarrow> nat \<Rightarrow> toml \<Rightarrow> string \<Rightarrow> files \<Rightarrow> files \<times> (load_error + config \<times> provision_outcome)" where
  "load_or_provision ff part tm path d =
    (if hget d path \<noteq> None
     then (d, case config_load ff tm path d of Inl e \<Rightarrow> Inl e | Inr cfg \<Rightarrow> Inr (cfg, PO_Loaded))
     else case sf_write ff path CreateDir of Some e \<Rightarrow> (d, Inl (LE_Io e)) | None \<Rightarrow>
       case config_save ff part tm path config_default d of
         (d', Inl e) \<Rightarrow> (d', Inl e) | (d', Inr _) \<Rightarrow> (d', Inr (config_default, PO_Provisioned)))"

text \<open>The prefix key the window is set up with.\<close>

definition load_keymap_prefix :: "sysfaults \<Rightarrow> toml \<Rightarrow> string option \<Rightarrow> files \<Rightarrow> string" where
  "load_keymap_prefix ff tm path d =
    (case (case path of None \<Rightarrow> None | Some p \<Rightarrow> (case config_load ff tm p d of Inl _ \<Rightarrow> None | Inr cfg \<Rightarrow> Some (km_prefix (cf_keymap cfg)))) of
       Some prefix \<Rightarrow> if trim prefix \<noteq> [] then prefix else default_prefix
     | None \<Rightarrow> default_prefix)"

text \<open>
  First launch: the marker file \<open>onboarded.v0.2\<close> keeps the toast from coming back. The text of the toast
  is its result.
\<close>

definition onboarding_payload ::
  "sysfaults \<Rightarrow> nat \<Rightarrow> toml \<Rightarrow> string option \<Rightarrow> string option \<Rightarrow> files \<Rightarrow> files \<times> string option" where
  "onboarding_payload ff part tm state_dir path d =
    (case state_dir of None \<Rightarrow> (d, None) | Some dir \<Rightarrow>
     let marker = dir @ ''/onboarded.v0.2'' in
     if hget d marker \<noteq> None then (d, None)
     else case path of None \<Rightarrow> (d, None) | Some p \<Rightarrow>
       (case load_or_provision ff part tm p d of
          (d1, Inl _) \<Rightarrow> (d1, None)
        | (d1, Inr (_, outcome)) \<Rightarrow>
            let d2 = (case sf_write ff marker OpenTmp of Some _ \<Rightarrow> d1 | None \<Rightarrow>
                       hput marker (case sf_write ff marker WriteAll of Some _ \<Rightarrow> take part ''v0.2'' | None \<Rightarrow> ''v0.2'') d1)
            in (d2, Some (case outcome of
                PO_Provisioned \<Rightarrow> ''Default config written to '' @ p @ ''. Edit it anytime; lmux watches for changes.''
              | PO_Loaded \<Rightarrow> ''Config lives at '' @ p @ ''. Welcome!''))))"

section \<open>The watcher\<close>

text \<open>
  A message of the file system watcher: its time and whether it is an event that touches the file
  (\<open>touching\<close> of the code's \<open>event_touches\<close>). Times are milliseconds.
\<close>

datatype event_kind = EK_Create | EK_Modify | EK_Remove | EK_Access | EK_Other

datatype fs_event = Watch_Error string | Watch_Event event_kind "string list"

definition file_name :: "string \<Rightarrow> string" where
  "file_name p = rev (takeWhile (\<lambda>c. c \<noteq> CHR ''/'') (rev p))"

definition parent_dir :: "string \<Rightarrow> string option" where
  "parent_dir p = (if CHR ''/'' \<in> set p then Some (rev (tl (dropWhile (\<lambda>c. c \<noteq> CHR ''/'') (rev p)))) else None)"

definition event_touches :: "string \<Rightarrow> fs_event \<Rightarrow> bool" where
  "event_touches target ev =
    (case ev of Watch_Error _ \<Rightarrow> False
     | Watch_Event k paths \<Rightarrow>
         (case k of EK_Create \<Rightarrow> True | EK_Modify \<Rightarrow> True | EK_Remove \<Rightarrow> True | EK_Access \<Rightarrow> False | EK_Other \<Rightarrow> False) \<and>
         list_ex (\<lambda>p. p = target \<or> file_name p = file_name target \<or>
           (case parent_dir target of Some parent \<Rightarrow> p = parent | None \<Rightarrow> False)) paths)"

definition DEBOUNCE_WINDOW :: nat where
  "DEBOUNCE_WINDOW = 150"

text \<open>
  The thread over the messages that will arrive, each with its time of arrival, in order: it takes the
  first, starts the window at a touching one, drains what arrives before the deadline, and reloads. The
  handle's drop asks it to stop at \<open>stop\<close> and closes the channel at \<open>hangup\<close>; with neither, it blocks
  on the empty channel and the list of the times of its reloads is all it did. \<open>now\<close> is the thread's
  own time.
\<close>

definition reached :: "nat option \<Rightarrow> nat \<Rightarrow> bool" where
  "reached x t = (case x of Some s \<Rightarrow> s \<le> t | None \<Rightarrow> False)"

definition hung_up :: "nat option \<Rightarrow> nat \<Rightarrow> bool" where
  "hung_up x t = (case x of Some s \<Rightarrow> s < t | None \<Rightarrow> False)"

function watch_worker ::
  "string \<Rightarrow> nat option \<Rightarrow> nat option \<Rightarrow> nat \<Rightarrow> (nat \<times> fs_event) list \<Rightarrow> nat list" where
  "watch_worker target stop hangup now [] = []"
| "watch_worker target stop hangup now ((t, ev) # msgs) =
    (let seen = max now t in
     if reached stop seen then []
     else if \<not> event_touches target ev then watch_worker target stop hangup seen msgs
     else let deadline = seen + DEBOUNCE_WINDOW;
              rest = dropWhile (\<lambda>(u, _). u < deadline) msgs
          in if rest = [] \<and> hung_up hangup deadline then []
             else if reached stop deadline then []
             else deadline # watch_worker target stop hangup deadline rest)"
  by pat_completeness auto

termination
  by (relation "measure (\<lambda>(_, _, _, _, ms). length ms)")
    (auto simp: less_Suc_eq_le length_dropWhile_le)

section \<open>Reloads\<close>

text \<open>Messages arrive in the order of their times, and none before the thread's own time.\<close>

definition arriving :: "nat \<Rightarrow> (nat \<times> fs_event) list \<Rightarrow> bool" where
  "arriving now ms = (sorted (map fst ms) \<and> list_all (\<lambda>(u, _). now \<le> u) ms)"

lemma arriving_Cons: "arriving now ((t, ev) # ms) \<longleftrightarrow> now \<le> t \<and> arriving t ms"
  by (auto simp: arriving_def list_all_iff)

lemma arriving_later:
  "arriving now ms \<Longrightarrow> arriving d (dropWhile (\<lambda>(u, _). u < d) ms)"
  by (induction ms arbitrary: now) (auto simp: arriving_Cons arriving_def list_all_iff)

lemma drained_before:
  "(u, ev) \<in> set ms \<Longrightarrow> (u, ev) \<in> set (dropWhile (\<lambda>(u, _). u < d) ms) \<or> u < d"
  by (induction ms) auto

lemma in_dropWhile: "x \<in> set (dropWhile P ms) \<Longrightarrow> x \<in> set ms"
  by (metis set_dropWhileD)

lemma reload_times:
  "r \<in> set (watch_worker target stop hangup now ms) \<Longrightarrow> now + DEBOUNCE_WINDOW \<le> r \<and> \<not> reached stop r"
proof (induction target stop hangup now ms rule: watch_worker.induct)
  case (2 target stop hangup now t ev msgs)
  let ?d = "max now t + DEBOUNCE_WINDOW"
  show ?case
    using 2(1) [of "max now t"] 2(2) [of "max now t" ?d "dropWhile (\<lambda>(u, _). u < ?d) msgs"] 2(3)
    by (simp add: Let_def split: if_splits) fastforce+
qed simp

lemma reloads_spaced:
  "sorted_wrt (\<lambda>a b. a + DEBOUNCE_WINDOW \<le> b) (watch_worker target stop hangup now ms)"
proof (induction target stop hangup now ms rule: watch_worker.induct)
  case (2 target stop hangup now t ev msgs)
  let ?d = "max now t + DEBOUNCE_WINDOW"
  show ?case
    using 2(1) [of "max now t"] 2(2) [of "max now t" ?d "dropWhile (\<lambda>(u, _). u < ?d) msgs"]
      reload_times [of _ target stop hangup ?d "dropWhile (\<lambda>(u, _). u < ?d) msgs"]
    by (simp add: Let_def)
qed simp

lemma reload_caused:
  "arriving now ms \<Longrightarrow> r \<in> set (watch_worker target stop hangup now ms) \<Longrightarrow>
    \<exists>t ev. (t, ev) \<in> set ms \<and> event_touches target ev \<and> r = t + DEBOUNCE_WINDOW"
proof (induction target stop hangup now ms rule: watch_worker.induct)
  case (2 target stop hangup now t ev msgs)
  have m: "max now t = t" and a: "arriving t msgs" using 2(3) by (simp_all add: arriving_Cons)
  let ?d = "t + DEBOUNCE_WINDOW"
  let ?rest = "dropWhile (\<lambda>(u, _). u < ?d) msgs"
  note sub = in_dropWhile [of _ "\<lambda>(u, _). u < ?d" msgs]
  show ?case
    using 2(1) [of t] 2(2) [of t ?d ?rest] 2(4) a arriving_later [OF a, of ?d] sub
    by (fastforce simp: Let_def m split: if_splits)
qed simp

lemma event_reloaded:
  "arriving now ms \<Longrightarrow> (u, e) \<in> set ms \<Longrightarrow> event_touches target e \<Longrightarrow>
    \<exists>r \<in> set (watch_worker target None None now ms). u < r \<and> r \<le> u + DEBOUNCE_WINDOW"
proof (induction target "None :: nat option" "None :: nat option" now ms rule: watch_worker.induct)
  case (2 target now t ev msgs)
  have m: "max now t = t" and a: "arriving t msgs" using 2(3) by (simp_all add: arriving_Cons)
  let ?d = "t + DEBOUNCE_WINDOW"
  let ?rest = "dropWhile (\<lambda>(u, _). u < ?d) msgs"
  have w: "watch_worker target None None now ((t, ev) # msgs) =
      (if event_touches target ev then ?d # watch_worker target None None ?d ?rest
       else watch_worker target None None t msgs)"
    by (simp add: Let_def m reached_def hung_up_def)
  show ?case
  proof (cases "event_touches target ev")
    case False
    then have "(u, e) \<in> set msgs" using 2(4,5) by auto
    then show ?thesis using 2(1) [of t] False a 2(5) by (simp add: w m reached_def)
  next
    case True
    show ?thesis
    proof (cases "(u, e) \<in> set ?rest")
      case rest: True
      then show ?thesis using 2(2) [of t ?d ?rest] True arriving_later [OF a] 2(5)
        by (simp add: w m reached_def hung_up_def Let_def)
    next
      case False
      then have "t \<le> u \<and> u < ?d"
        using 2(4) drained_before [of u e msgs ?d] a by (auto simp: arriving_def list_all_iff DEBOUNCE_WINDOW_def)
      then show ?thesis unfolding w using True by auto
    qed
  qed
qed simp

section \<open>Rules and files\<close>

lemma contains_append: "contains s n \<longleftrightarrow> (\<exists>a b. s = a @ n @ b)"
proof (induction s)
  case (Cons c cs)
  have "(\<exists>a b. c # cs = a @ n @ b) \<longleftrightarrow> (\<exists>b. c # cs = n @ b) \<or> (\<exists>a b. cs = a @ n @ b)"
    by (metis append_Cons append_Nil list.exhaust list.inject)
  moreover have "take (length n) (c # cs) = n \<longleftrightarrow> (\<exists>b. c # cs = n @ b)"
    by (metis append_eq_conv_conj append_take_drop_id)
  ultimately show ?case using Cons by simp
qed auto

lemma first_rule_wins:
  "\<forall>x \<in> set as. \<not> rule_matches x command env \<Longrightarrow> rule_matches r command env \<Longrightarrow>
    match_rule (as @ r # bs) command env =
      Some \<lparr>am_rule_name = ru_name r, am_hide_on_session_close = ru_hide_on_session_close r\<rparr>"
  by (induction as) (simp_all add: match_rule_def)

lemma no_rule_matches: "match_rule rules command env = None \<longleftrightarrow> (\<forall>r \<in> set rules. \<not> rule_matches r command env)"
  by (auto simp: match_rule_def find_None_iff)

lemma config_cut_short:
  "sf_write ff p CreateDir = None \<Longrightarrow> sf_write ff p OpenTmp = None \<Longrightarrow> sf_write ff p WriteAll = Some e \<Longrightarrow>
    tl_to_string tm cfg = Inr text \<Longrightarrow>
    hget (fst (config_save ff part tm p cfg d)) p = Some (take part text)"
  by (simp add: config_save_def)

section \<open>Properties\<close>

text \<open>The configuration watcher reloads after every change: each event that touches the file, while
  the watcher runs, is followed by a reload within 150 ms; every reload is the answer to an
  event 150 ms before it and two reloads are never closer than that, so the events of one save are one
  reload; once asked to stop the watcher reloads no more.\<close>

theorem watcher_debounces:
  assumes "arriving 0 ms"
  shows "(\<forall>(u, e) \<in> set ms. event_touches target e \<longrightarrow>
        list_ex (\<lambda>r. u < r \<and> r \<le> u + 150) (watch_worker target None None 0 ms)) \<and>
      list_all (\<lambda>r. list_ex (\<lambda>(t, e). event_touches target e \<and> r = t + 150) ms)
        (watch_worker target stop hangup 0 ms) \<and>
      sorted_wrt (\<lambda>a b. a + 150 \<le> b) (watch_worker target stop hangup 0 ms) \<and>
      list_all (\<lambda>r. \<not> reached stop r) (watch_worker target stop hangup 0 ms)"
proof (intro conjI)
  show "\<forall>(u, e) \<in> set ms. event_touches target e \<longrightarrow>
      list_ex (\<lambda>r. u < r \<and> r \<le> u + 150) (watch_worker target None None 0 ms)"
    using event_reloaded [OF assms] by (fastforce simp: list_ex_iff DEBOUNCE_WINDOW_def)
  show "list_all (\<lambda>r. list_ex (\<lambda>(t, e). event_touches target e \<and> r = t + 150) ms)
      (watch_worker target stop hangup 0 ms)"
    using reload_caused [OF assms] by (fastforce simp: list_all_iff list_ex_iff DEBOUNCE_WINDOW_def)
  show "sorted_wrt (\<lambda>a b. a + 150 \<le> b) (watch_worker target stop hangup 0 ms)"
    using reloads_spaced by (simp add: DEBOUNCE_WINDOW_def)
  show "list_all (\<lambda>r. \<not> reached stop r) (watch_worker target stop hangup 0 ms)"
    using reload_times by (force simp: list_all_iff)
qed

theorem watcher_debounces_witness:
  "watch_worker ''/c/config.toml'' None None 0
      [(10, Watch_Event EK_Modify [''/c/config.toml'']), (12, Watch_Event EK_Create [''/c/config.toml''])] = [160] \<and>
    list_ex (\<lambda>r. 12 < r \<and> r \<le> 12 + 150) (watch_worker ''/c/config.toml'' None None 0
      [(10, Watch_Event EK_Modify [''/c/config.toml'']), (12, Watch_Event EK_Create [''/c/config.toml''])])"
proof -
  let ?ms = "[(10, Watch_Event EK_Modify [''/c/config.toml'']), (12, Watch_Event EK_Create [''/c/config.toml''])]"
  have a: "arriving 0 ?ms" by code_simp
  have w: "watch_worker ''/c/config.toml'' None None 0 ?ms = [160]" by code_simp
  have e: "event_touches ''/c/config.toml'' (Watch_Event EK_Create [''/c/config.toml''])" by code_simp
  have "list_ex (\<lambda>r. 12 < r \<and> r \<le> 12 + 150) (watch_worker ''/c/config.toml'' None None 0 ?ms)"
    using watcher_debounces [OF a, of "''/c/config.toml''" None None] e by (auto simp del: list_ex_iff)
  then show ?thesis using w by blast
qed

text \<open>The first run leaves a configuration to edit and no run destroys one: without a file the
  defaults are written and returned, and the next run loads the same configuration from them;
  a file that is there is never written, and what it does not parse is reported.\<close>

theorem provisioning_keeps_what_is_there:
  assumes "\<And>st. sf_write ff path st = None" "sf_read ff path = None"
    and "tl_to_string tm config_default = Inr text" "tl_from_str tm text = Inr config_default"
  shows "case load_or_provision ff part tm path d of (d1, r1) \<Rightarrow>
      (case hget d path of
         None \<Rightarrow> r1 = Inr (config_default, PO_Provisioned) \<and>
           load_or_provision ff part tm path d1 = (d1, Inr (config_default, PO_Loaded))
       | Some bytes \<Rightarrow> d1 = d \<and> r1 = (case tl_from_str tm bytes of
             Inl e \<Rightarrow> Inl (LE_InvalidToml path e) | Inr cfg \<Rightarrow> Inr (cfg, PO_Loaded)))"
  using assms
  by (simp add: load_or_provision_def config_save_def config_load_def fs_read_def split: option.split sum.split)

theorem provisioning_keeps_what_is_there_witness:
  "case load_or_provision no_faults 0 \<lparr>tl_from_str = (\<lambda>_. Inr config_default), tl_to_string = (\<lambda>_. Inr ''T'')\<rparr> ''/c'' [] of
    (d1, r1) \<Rightarrow> r1 = Inr (config_default, PO_Provisioned) \<and> hget d1 ''/c'' = Some ''T''"
proof -
  let ?tm = "\<lparr>tl_from_str = (\<lambda>_. Inr config_default), tl_to_string = (\<lambda>_. Inr ''T'')\<rparr>"
  have "case load_or_provision no_faults 0 ?tm ''/c'' [] of (d1, r1) \<Rightarrow> r1 = Inr (config_default, PO_Provisioned)"
    using provisioning_keeps_what_is_there [of no_faults "''/c''" ?tm "''T''" 0 "[]"] by (simp add: no_faults_def split: prod.splits)
  moreover have "hget (fst (load_or_provision no_faults 0 ?tm ''/c'' [])) ''/c'' = Some ''T''"
    by (simp add: load_or_provision_def config_save_def no_faults_def)
  ultimately show ?thesis by (simp split: prod.splits)
qed

end
