(* ===== verification/AppData.thy ===== *)
theory AppData
  imports LayoutTree Anchors Grants Compositor SessionStore Transcript
begin

text \<open>
  The cockpit's shared state, \<open>AppState\<close> of \<open>crates/lmux/src/state.rs\<close>: its panes (\<open>pane.rs\<close>), its
  tables, what the outside world answers while a handler runs, and what the handler makes the outside
  world do. A handler is a function from state to state; calls to GTK, to children and to the
  compositor are kept as a log of effects, and the mounted widget tree is a value of the state.
\<close>

section \<open>Panes\<close>

text \<open>The part of a pane's GTK frame that the state code sets.\<close>

record frame_look =
  fl_visible :: bool
  fl_anchor :: bool
  fl_anchor_active :: bool
  fl_focused :: bool

definition fresh_look :: frame_look where
  "fresh_look = \<lparr>fl_visible = True, fl_anchor = False, fl_anchor_active = False, fl_focused = False\<rparr>"

record terminal =
  tm_spawn_cwd :: "string option"
  tm_pid :: "nat option"
  tm_transcript :: transcript

record satellite =
  sl_surface :: nat
  sl_title :: "string option"
  sl_app_id :: "string option"
  sl_closed :: bool

datatype pane_body = Terminal terminal | Satellite satellite

record pane =
  pa_body :: pane_body
  pa_look :: frame_look

definition is_satellite :: "pane \<Rightarrow> bool" where
  "is_satellite p = (case pa_body p of Terminal _ \<Rightarrow> False | Satellite _ \<Rightarrow> True)"

definition as_satellite :: "pane \<Rightarrow> satellite option" where
  "as_satellite p = (case pa_body p of Terminal _ \<Rightarrow> None | Satellite s \<Rightarrow> Some s)"

definition child_pid :: "pane \<Rightarrow> nat option" where
  "child_pid p = (case pa_body p of Terminal t \<Rightarrow> tm_pid t | Satellite _ \<Rightarrow> None)"

section \<open>The world a handler runs in\<close>

text \<open>
  What the system answers: a spawn (with the terminal it makes), a child's live directory, whether a
  child has exited, writes to its terminal, the clock, the environment, signals, \<open>/proc\<close>, and
  the size of a pane's widget.
\<close>

record world =
  wd_spawn :: "pane_id \<Rightarrow> string option \<Rightarrow> terminal option"
  wd_cwd :: "pane_id \<Rightarrow> string option"
  wd_exited :: "pane_id \<Rightarrow> bool"
  wd_write :: "pane_id \<Rightarrow> string \<Rightarrow> io_error_kind option"
  wd_now :: nat
  wd_shell :: string
  wd_home :: "string option"
  wd_is_dir :: "string \<Rightarrow> bool"
  wd_environ :: "nat \<Rightarrow> string option"
  wd_kill :: "int \<Rightarrow> nat \<Rightarrow> bool"
  wd_stat :: "nat \<Rightarrow> string option"
  wd_size :: "pane_id \<Rightarrow> int \<times> int"

definition pane_new :: "world \<Rightarrow> pane_id \<Rightarrow> string option \<Rightarrow> pane option" where
  "pane_new w i cwd =
    map_option (\<lambda>t. \<lparr>pa_body = Terminal (t\<lparr>tm_spawn_cwd := cwd\<rparr>), pa_look = fresh_look\<rparr>) (wd_spawn w i cwd)"

definition pane_cwd :: "world \<Rightarrow> pane_id \<Rightarrow> pane \<Rightarrow> string option" where
  "pane_cwd w i p = (case pa_body p of Terminal _ \<Rightarrow> wd_cwd w i | Satellite _ \<Rightarrow> None)"

definition snapshot_cwd :: "world \<Rightarrow> pane_id \<Rightarrow> pane \<Rightarrow> string option" where
  "snapshot_cwd w i p =
    (case pa_body p of
       Terminal t \<Rightarrow> (case wd_cwd w i of Some live \<Rightarrow> Some live | None \<Rightarrow> tm_spawn_cwd t)
     | Satellite _ \<Rightarrow> None)"

definition has_exited :: "world \<Rightarrow> pane_id \<Rightarrow> pane \<Rightarrow> bool" where
  "has_exited w i p = (case pa_body p of Terminal _ \<Rightarrow> wd_exited w i | Satellite s \<Rightarrow> sl_closed s)"

section \<open>Effects and widgets\<close>

datatype surface_update =
  SU_Frame | SU_PopupFrame nat | SU_AttachPopup nat int int nat nat
| SU_RepositionPopup nat int int nat nat | SU_DetachPopup nat | SU_CursorShape string
| SU_CursorBitmap nat nat

datatype effect =
  E_AnchorsChanged
| E_ActiveAnchorChanged "pane_id option"
| E_GrabFocus pane_id
| E_Terminate pane_id
| E_KillLater pane_id
| E_Signal nat nat
| E_Input pane_id string
| E_Compositor compositor_command
| E_Surface pane_id surface_update

datatype widget = W_Pane pane_id | W_Paned dir "widget option" "widget option" f64

record tab_button =
  bt_tab :: pane_id
  bt_title :: string
  bt_active :: bool

record page =
  pg_anchor :: pane_id
  pg_tabs :: "tab_button list"
  pg_widget :: widget

text \<open>
  What the root container holds: one widget or none, or a stack of pages with the page that was last
  asked for.
\<close>

datatype view = V_Single "widget option" | V_Stack "page list" "pane_id option"

section \<open>The state\<close>

datatype phase = Running | ShuttingDown

text \<open>
  \<open>ap_rng\<close> is the process's source of random ids and \<open>ap_draws\<close> how many were drawn; \<open>ap_log\<close> is the
  log of effects. The callbacks the code stores to hand them to widgets are not kept.
\<close>

record app =
  ap_panes :: "(pane_id, pane) hmap"
  ap_layout :: layout
  ap_focused :: pane_id
  ap_next_id :: nat
  ap_anchors :: "pane_id set"
  ap_pane_anchor_ids :: "(pane_id, uuid) hmap"
  ap_pane_uuids :: "(pane_id, uuid) hmap"
  ap_pane_titles :: "(pane_id, pane_title) hmap"
  ap_pane_agents :: "pane_agents"
  ap_grants :: grants
  ap_tabs :: "(pane_id, pane_id list) hmap"
  ap_active_tab :: "(pane_id, pane_id) hmap"
  ap_tab_roots :: "(pane_id, pane_id) hmap"
  ap_workspace :: "(pane_id, pane_id) hmap"
  ap_registry :: registry
  ap_active :: "pane_id option"
  ap_hidden :: "pane_id set"
  ap_notif :: "(pane_id, nat) hmap"
  ap_phase :: phase
  ap_session :: "string option"
  ap_satellites :: windows_by_anchor
  ap_vis_seq :: nat
  ap_has_compositor :: bool
  ap_has_host :: bool
  ap_surface_to_pane :: "(nat, pane_id) hmap"
  ap_popup_to_pane :: "(nat, pane_id) hmap"
  ap_display :: "string option"
  ap_rearrange :: bool
  ap_view :: view
  ap_rng :: "nat \<Rightarrow> uuid"
  ap_draws :: nat
  ap_log :: "effect list"

definition draw_uuid :: "app \<Rightarrow> uuid \<times> app" where
  "draw_uuid s = (ap_rng s (ap_draws s), s\<lparr>ap_draws := Suc (ap_draws s)\<rparr>)"

definition emit :: "effect \<Rightarrow> app \<Rightarrow> app" where
  "emit e s = s\<lparr>ap_log := ap_log s @ [e]\<rparr>"

text \<open>A state with panes and a layout and every table empty.\<close>

definition app_of :: "(nat \<Rightarrow> uuid) \<Rightarrow> (pane_id, pane) hmap \<Rightarrow> layout \<Rightarrow> pane_id \<Rightarrow> nat \<Rightarrow> app" where
  "app_of rng panes l focused next_id =
    \<lparr>ap_panes = panes, ap_layout = l, ap_focused = focused, ap_next_id = next_id,
     ap_anchors = {}, ap_pane_anchor_ids = [], ap_pane_uuids = [], ap_pane_titles = [],
     ap_pane_agents = [], ap_grants = [], ap_tabs = [], ap_active_tab = [], ap_tab_roots = [],
     ap_workspace = [], ap_registry = [], ap_active = None, ap_hidden = {}, ap_notif = [],
     ap_phase = Running, ap_session = None, ap_satellites = [], ap_vis_seq = 0,
     ap_has_compositor = False, ap_has_host = False, ap_surface_to_pane = [], ap_popup_to_pane = [],
     ap_display = None, ap_rearrange = False, ap_view = V_Single None, ap_rng = rng, ap_draws = 0,
     ap_log = []\<rparr>"

definition app_new :: "(nat \<Rightarrow> uuid) \<Rightarrow> pane_id \<Rightarrow> pane \<Rightarrow> app" where
  "app_new rng first p =
    (let (u, s) = draw_uuid (app_of rng [(first, p)] (Leaf first) first (first + 1))
     in s\<lparr>ap_pane_uuids := [(first, u)]\<rparr>)"

section \<open>Reading the state\<close>

definition live :: "app \<Rightarrow> pane_id \<Rightarrow> bool" where
  "live s p = (hget (ap_panes s) p \<noteq> None)"

definition satellite_pane :: "app \<Rightarrow> pane_id \<Rightarrow> bool" where
  "satellite_pane s p = (case hget (ap_panes s) p of None \<Rightarrow> False | Some q \<Rightarrow> is_satellite q)"

definition replaces_id_for :: "app \<Rightarrow> pane_id \<Rightarrow> nat" where
  "replaces_id_for s p = (case hget (ap_notif s) p of Some n \<Rightarrow> n | None \<Rightarrow> 0)"

definition record_notif_id :: "pane_id \<Rightarrow> nat \<Rightarrow> app \<Rightarrow> app" where
  "record_notif_id p n s = s\<lparr>ap_notif := hput p n (ap_notif s)\<rparr>"

definition pane_label :: "app \<Rightarrow> pane_id \<Rightarrow> string" where
  "pane_label s p =
    (if p \<in> ap_anchors s then ''[anchor] pane '' @ show_nat p @ '': output ready''
     else ''pane '' @ show_nat p @ '': output ready'')"

definition pane_for_anchor_id :: "app \<Rightarrow> uuid \<Rightarrow> pane_id option" where
  "pane_for_anchor_id s i =
    find_map (\<lambda>(p, u). if u = i then Some p else None) (hitems (ap_pane_anchor_ids s))"

definition pane_for_uuid :: "app \<Rightarrow> uuid \<Rightarrow> pane_id option" where
  "pane_for_uuid s i = find_map (\<lambda>(p, u). if u = i then Some p else None) (hitems (ap_pane_uuids s))"

definition anchor_for_pane :: "app \<Rightarrow> pane_id \<Rightarrow> anchor option" where
  "anchor_for_pane s p =
    (case hget (ap_pane_anchor_ids s) p of None \<Rightarrow> None | Some i \<Rightarrow> reg_get (ap_registry s) i)"

definition attached_anchor_for_backend_window :: "app \<Rightarrow> string \<Rightarrow> (pane_id \<times> string) option" where
  "attached_anchor_for_backend_window s b =
    find_map (\<lambda>(a, ws). if list_ex (\<lambda>v. sw_window_id v = b) ws
        then Some (a, case anchor_for_pane s a of Some x \<Rightarrow> display_label x | None \<Rightarrow> ''pane '' @ show_nat a)
        else None) (hitems (ap_satellites s))"

definition owning_anchor_for_terminal_pane ::
  "pane_id \<Rightarrow> pane_id set \<Rightarrow> (pane_id, pane_id) hmap \<Rightarrow> (pane_id, pane_id list) hmap \<Rightarrow>
    (pane_id, pane_id) hmap \<Rightarrow> pane_id option" where
  "owning_anchor_for_terminal_pane p anchors ws tabs roots =
    (if p \<in> anchors then Some p
     else case (case hget ws p of Some b \<Rightarrow> if b \<in> anchors then Some b else None | None \<Rightarrow> None) of
       Some b \<Rightarrow> Some b
     | None \<Rightarrow>
         let root = (case hget roots p of Some r \<Rightarrow> r | None \<Rightarrow> p)
         in find_map (\<lambda>(a, ts). if a \<in> anchors \<and> root \<in> set ts then Some a else None) (hitems tabs))"

definition owning_anchor :: "app \<Rightarrow> pane_id \<Rightarrow> pane_id option" where
  "owning_anchor s p =
    owning_anchor_for_terminal_pane p (ap_anchors s) (ap_workspace s) (ap_tabs s) (ap_tab_roots s)"

definition pane_listing :: "world \<Rightarrow> app \<Rightarrow> (uuid \<times> uuid option \<times> string option) list" where
  "pane_listing w s =
    List.map_filter (\<lambda>(p, pane).
      case hget (ap_pane_uuids s) p of
        None \<Rightarrow> None
      | Some u \<Rightarrow> Some (u,
          (case owning_anchor s p of None \<Rightarrow> None | Some a \<Rightarrow> hget (ap_pane_anchor_ids s) a),
          pane_cwd w p pane)) (hitems (ap_panes s))"

definition anchor_listing :: "world \<Rightarrow> app \<Rightarrow> anchor_summary list" where
  "anchor_listing w s =
    List.map_filter (\<lambda>p.
      case hget (ap_pane_anchor_ids s) p of
        None \<Rightarrow> None
      | Some i \<Rightarrow> Some
          \<lparr>as_anchor_id = i, as_pane_id = hget (ap_pane_uuids s) p,
           as_label = (case anchor_for_pane s p of Some a \<Rightarrow> display_label a
                       | None \<Rightarrow> ''terminal '' @ show_nat p),
           as_active = (ap_active s = Some p),
           as_agent_status = agent_status_for_anchor p (ap_pane_agents s) (ap_workspace s)
             (ap_pane_uuids s) (ap_pane_titles s),
           as_pending_grants = pending_grants_for_anchor (ap_grants s) i,
           as_active_grants = active_grants_for_anchor (wd_now w) (ap_grants s) i\<rparr>)
      (sorted_list_of_set (ap_anchors s))"

definition anchor_agent_activity :: "world \<Rightarrow> app \<Rightarrow> pane_id \<Rightarrow> agent_pane_status list \<times> nat \<times> nat" where
  "anchor_agent_activity w s p =
    (case hget (ap_pane_anchor_ids s) p of
       None \<Rightarrow> ([], 0, 0)
     | Some i \<Rightarrow> (agent_status_for_anchor p (ap_pane_agents s) (ap_workspace s) (ap_pane_uuids s)
           (ap_pane_titles s),
         pending_grants_for_anchor (ap_grants s) i, active_grants_for_anchor (wd_now w) (ap_grants s) i))"

definition anchor_grant_views :: "world \<Rightarrow> app \<Rightarrow> pane_id \<Rightarrow> grant_view list" where
  "anchor_grant_views w s p =
    (case hget (ap_pane_anchor_ids s) p of None \<Rightarrow> []
     | Some i \<Rightarrow> grant_views_for_anchor (wd_now w) (ap_grants s) i)"

definition pane_in_active_workspace :: "app \<Rightarrow> pane_id \<Rightarrow> bool" where
  "pane_in_active_workspace s p =
    (case ap_active s of None \<Rightarrow> True | Some a \<Rightarrow> hget (ap_workspace s) p = Some a)"

definition focused_is_satellite :: "app \<Rightarrow> bool" where
  "focused_is_satellite s = satellite_pane s (ap_focused s)"

definition first_terminal_leaf :: "app \<Rightarrow> pane_id option" where
  "first_terminal_leaf s =
    List.find (\<lambda>i. case hget (ap_panes s) i of Some p \<Rightarrow> \<not> is_satellite p | None \<Rightarrow> False)
      (leaves (ap_layout s))"

text \<open>
  The owner of a process: up the parents, at most 64 steps, to a pane's child. \<open>read_ppid\<close> reads the
  second word after the last closing parenthesis of the process's stat line.
\<close>

fun words :: "string \<Rightarrow> string \<Rightarrow> string list" where
  "words acc [] = (if acc = [] then [] else [acc])"
| "words acc (c # cs) =
    (if is_space c then (if acc = [] then words [] cs else acc # words [] cs) else words (acc @ [c]) cs)"

definition after_last :: "char \<Rightarrow> string \<Rightarrow> string option" where
  "after_last c s = (if c \<in> set s then Some (rev (takeWhile (\<lambda>x. x \<noteq> c) (rev s))) else None)"

definition parse_u32 :: "string \<Rightarrow> nat option" where
  "parse_u32 s =
    (let ds = (case s of CHR ''+'' # r \<Rightarrow> r | _ \<Rightarrow> s)
     in if ds = [] then None
        else case parse_digits ds 0 of None \<Rightarrow> None | Some n \<Rightarrow> if n \<le> u32_max then Some n else None)"

definition read_ppid :: "world \<Rightarrow> nat \<Rightarrow> nat option" where
  "read_ppid w pid =
    (case wd_stat w pid of None \<Rightarrow> None
     | Some s \<Rightarrow> (case after_last (CHR '')'') s of None \<Rightarrow> None
       | Some rest \<Rightarrow> (case words [] (trim_start rest) of _ # p # _ \<Rightarrow> parse_u32 p | _ \<Rightarrow> None)))"

fun resolve_up :: "world \<Rightarrow> (pane_id \<times> nat) list \<Rightarrow> nat \<Rightarrow> nat \<Rightarrow> pane_id option" where
  "resolve_up w leaders 0 cur = None"
| "resolve_up w leaders (Suc n) cur =
    (case List.find (\<lambda>(i, p). p = cur) leaders of
       Some (i, _) \<Rightarrow> Some i
     | None \<Rightarrow> (case read_ppid w cur of
         None \<Rightarrow> None
       | Some pp \<Rightarrow> if pp = 0 \<or> pp = 1 then None else resolve_up w leaders n pp))"

definition resolve_owning_pane :: "world \<Rightarrow> app \<Rightarrow> nat \<Rightarrow> pane_id option" where
  "resolve_owning_pane w s source_pid =
    resolve_up w (List.map_filter (\<lambda>(i, p). map_option (Pair i) (child_pid p)) (hitems (ap_panes s)))
      64 source_pid"

end
