(* ===== verification/AppView.thy ===== *)
theory AppView
  imports AppData
begin

text \<open>
  What the cockpit shows: the tab and workspace tables, the layout pruned to a workspace, the mounted
  widget tree, and the switch of the active anchor (\<open>rebuild_widget_tree\<close>, \<open>prune_to_workspace\<close>,
  \<open>wrap_workspace_with_tabs\<close>, \<open>set_active_anchor\<close> of \<open>crates/lmux/src/state.rs\<close>).
\<close>

section \<open>Tabs and titles\<close>

definition active_terminal_tab :: "app \<Rightarrow> pane_id \<Rightarrow> pane_id" where
  "active_terminal_tab s a = (case hget (ap_active_tab s) a of Some t \<Rightarrow> t | None \<Rightarrow> a)"

definition tab_root_for_pane :: "app \<Rightarrow> pane_id \<Rightarrow> pane_id" where
  "tab_root_for_pane s p =
    (case hget (ap_tab_roots s) p of Some r \<Rightarrow> r
     | None \<Rightarrow> (case hget (ap_workspace s) p of Some a \<Rightarrow> a | None \<Rightarrow> p))"

definition pane_title_display :: "app \<Rightarrow> pane_id \<Rightarrow> string" where
  "pane_title_display s p =
    (case hget (ap_pane_titles s) p of
       None \<Rightarrow> ''pane '' @ show_nat p
     | Some t \<Rightarrow> pt_title t @
         (if pt_pinned t then '' [pinned]''
          else case pt_provenance t of Prov_Agent \<Rightarrow> '' [agent]'' | Prov_User \<Rightarrow> '' [user]''
            | Prov_Default \<Rightarrow> ''''))"

section \<open>Pruning\<close>

fun join_pruned :: "dir \<Rightarrow> f64 \<Rightarrow> layout option \<Rightarrow> layout option \<Rightarrow> layout option" where
  "join_pruned d r None only = only"
| "join_pruned d r only None = only"
| "join_pruned d r (Some pa) (Some pb) = Some (Split d pa pb r)"

fun prune_to_workspace ::
  "layout \<Rightarrow> pane_id \<Rightarrow> pane_id \<Rightarrow> (pane_id, pane_id) hmap \<Rightarrow> (pane_id \<Rightarrow> pane_id) \<Rightarrow> layout option" where
  "prune_to_workspace (Leaf i) act tab ws tabroot =
    (if hget ws i = Some act \<and> tabroot i = tab then Some (Leaf i) else None)"
| "prune_to_workspace (Split d a b r) act tab ws tabroot =
    join_pruned d r (prune_to_workspace a act tab ws tabroot) (prune_to_workspace b act tab ws tabroot)"

definition prune :: "app \<Rightarrow> layout \<Rightarrow> pane_id \<Rightarrow> layout option" where
  "prune s l act =
    (let tab = active_terminal_tab s act in
     prune_to_workspace l act tab (ap_workspace s)
       (\<lambda>p. if satellite_pane s p then tab else tab_root_for_pane s p))"

text \<open>A workspace's leaves are those of the layout that it owns and whose tab is open, in their order.\<close>

lemma prune_leaves:
  "(case prune_to_workspace l act tab ws tabroot of None \<Rightarrow> [] | Some l' \<Rightarrow> leaves l') =
    filter (\<lambda>i. hget ws i = Some act \<and> tabroot i = tab) (leaves l)"
proof (induction l)
  case (Split d a b r)
  then show ?case
    by (cases "prune_to_workspace a act tab ws tabroot"; cases "prune_to_workspace b act tab ws tabroot")
      (use Split.IH in auto)
qed simp

section \<open>Widgets\<close>

fun build_widget :: "layout \<Rightarrow> (pane_id, pane) hmap \<Rightarrow> widget option" where
  "build_widget (Leaf i) panes = (case hget panes i of Some _ \<Rightarrow> Some (W_Pane i) | None \<Rightarrow> None)"
| "build_widget (Split d a b r) panes =
    Some (W_Paned d (build_widget a panes) (build_widget b panes) r)"

fun mounted :: "widget option \<Rightarrow> pane_id list" where
  "mounted None = []"
| "mounted (Some (W_Pane i)) = [i]"
| "mounted (Some (W_Paned d a b r)) = mounted a @ mounted b"

lemma mounted_build: "mounted (build_widget l panes) = filter (\<lambda>i. hget panes i \<noteq> None) (leaves l)"
  by (induction l) (auto split: option.splits)

definition wrap_workspace_with_tabs :: "app \<Rightarrow> pane_id \<Rightarrow> widget \<Rightarrow> page" where
  "wrap_workspace_with_tabs s a wdg =
    \<lparr>pg_anchor = a,
     pg_tabs = map (\<lambda>t. \<lparr>bt_tab = t, bt_title = pane_title_display s t,
                        bt_active = (t = active_terminal_tab s a)\<rparr>)
       (case hget (ap_tabs s) a of Some ts \<Rightarrow> ts | None \<Rightarrow> [a]),
     pg_widget = wdg\<rparr>"

definition workspace_page :: "app \<Rightarrow> pane_id \<Rightarrow> page option" where
  "workspace_page s a =
    (case prune s (ap_layout s) a of
       None \<Rightarrow> None
     | Some l \<Rightarrow> (case build_widget l (ap_panes s) of
         None \<Rightarrow> None
       | Some wdg \<Rightarrow> Some (wrap_workspace_with_tabs s a wdg)))"

definition rebuilt_view :: "app \<Rightarrow> view" where
  "rebuilt_view s =
    (if ap_anchors s = {}
     then V_Single (case (case ap_active s of None \<Rightarrow> None | Some a \<Rightarrow> prune s (ap_layout s) a) of
                      None \<Rightarrow> None | Some l \<Rightarrow> build_widget l (ap_panes s))
     else V_Stack (List.map_filter (workspace_page s) (sorted_list_of_set (ap_anchors s)))
            (case ap_active s of Some a \<Rightarrow> Some a | None \<Rightarrow> first_of (ap_anchors s)))"

definition rebuild_widget_tree :: "app \<Rightarrow> app" where
  "rebuild_widget_tree s = s\<lparr>ap_view := rebuilt_view s\<rparr>"

definition switch_workspace_view :: "app \<Rightarrow> app \<times> bool" where
  "switch_workspace_view s =
    (case ap_active s of
       None \<Rightarrow> (s, False)
     | Some a \<Rightarrow> (case ap_view s of
         V_Single _ \<Rightarrow> (s, False)
       | V_Stack pages req \<Rightarrow>
           if a \<in> set (map pg_anchor pages) then (s\<lparr>ap_view := V_Stack pages (Some a)\<rparr>, True)
           else (s, False)))"

section \<open>Focus, listeners, satellites\<close>

definition grab_focus :: "pane_id \<Rightarrow> app \<Rightarrow> app" where
  "grab_focus p s = (if live s p then emit (E_GrabFocus p) s else s)"

definition refresh_focus_css :: "app \<Rightarrow> app" where
  "refresh_focus_css s =
    s\<lparr>ap_panes := hmapkv (\<lambda>i p. p\<lparr>pa_look := (pa_look p)\<lparr>fl_focused := (i = ap_focused s)\<rparr>\<rparr>) (ap_panes s)\<rparr>"

definition notify_anchors_changed :: "app \<Rightarrow> app" where
  "notify_anchors_changed s = emit E_AnchorsChanged s"

definition notify_active_anchor_changed :: "app \<Rightarrow> app" where
  "notify_active_anchor_changed s = emit (E_ActiveAnchorChanged (ap_active s)) s"

definition broadcast_satellite_visibility :: "app \<Rightarrow> app" where
  "broadcast_satellite_visibility s =
    (if \<not> ap_has_compositor s then s
     else let n = sat_add_u64 (ap_vis_seq s) 1;
              (hide, show) = satellite_visibility_for_active (ap_active s) (ap_satellites s)
          in emit (E_Compositor (ApplyWindowGroupSwitch n \<lparr>gs_hide = hide, gs_show = show\<rparr>))
               (s\<lparr>ap_vis_seq := n\<rparr>))"

definition set_focused :: "pane_id \<Rightarrow> app \<Rightarrow> app" where
  "set_focused i s =
    (if live s i then refresh_focus_css (grab_focus i (s\<lparr>ap_focused := i\<rparr>)) else s)"

definition cycle_focus :: "bool \<Rightarrow> app \<Rightarrow> app" where
  "cycle_focus forward s =
    (let ls = leaves (ap_layout s); n = length ls in
     if n \<le> 1 then s
     else let idx = (if ap_focused s \<in> set ls then length (takeWhile (\<lambda>i. i \<noteq> ap_focused s) ls) else 0);
              next = (if forward then ls ! ((idx + 1) mod n) else ls ! ((idx + n - 1) mod n))
          in refresh_focus_css (grab_focus next (s\<lparr>ap_focused := next\<rparr>)))"

section \<open>The active anchor\<close>

definition anchor_look :: "app \<Rightarrow> pane_id \<Rightarrow> pane \<Rightarrow> pane" where
  "anchor_look s i p =
    (let in_workspace = (case ap_active s of None \<Rightarrow> False | Some a \<Rightarrow> hget (ap_workspace s) i = Some a);
         l = (pa_look p)\<lparr>fl_visible := (in_workspace \<and> i \<notin> ap_hidden s)\<rparr>
     in p\<lparr>pa_look := (if i \<in> ap_anchors s then l\<lparr>fl_anchor_active := (Some i = ap_active s)\<rparr> else l)\<rparr>)"

definition show_anchor :: "pane_id option \<Rightarrow> app \<Rightarrow> app" where
  "show_anchor target s =
    (let s1 = s\<lparr>ap_active := target\<rparr>; s2 = s1\<lparr>ap_panes := hmapkv (anchor_look s1) (ap_panes s1)\<rparr>
     in (case target of Some i \<Rightarrow> s2\<lparr>ap_focused := i\<rparr> | None \<Rightarrow> s2))"

definition mount_workspace :: "app \<Rightarrow> app" where
  "mount_workspace s =
    (let (s1, switched) = switch_workspace_view s in if switched then s1 else rebuild_widget_tree s1)"

definition set_active_anchor :: "pane_id option \<Rightarrow> app \<Rightarrow> app" where
  "set_active_anchor target s =
    (if (case target of Some i \<Rightarrow> i \<notin> ap_anchors s | None \<Rightarrow> False) then s
     else if ap_active s = target then s
     else let s1 = mount_workspace (show_anchor target s);
              s2 = (case target of Some i \<Rightarrow> grab_focus i s1 | None \<Rightarrow> s1)
          in notify_active_anchor_changed (broadcast_satellite_visibility (refresh_focus_css s2)))"

section \<open>What these steps leave alone\<close>

text \<open>
  The tables that the steps above never touch, as one record: a step that keeps it keeps every
  invariant stated over it.
\<close>

record tables =
  tb_panes :: "pane_id \<Rightarrow> pane_body option"
  tb_rest :: app

definition tables :: "app \<Rightarrow> tables" where
  "tables s =
    \<lparr>tb_panes = (\<lambda>i. map_option pa_body (hget (ap_panes s) i)),
     tb_rest = s\<lparr>ap_panes := [], ap_focused := 0, ap_active := None, ap_vis_seq := 0,
       ap_view := V_Single None, ap_log := []\<rparr>\<rparr>"

lemma tables_view [simp]: "tables (s\<lparr>ap_view := v\<rparr>) = tables s"
  by (simp add: tables_def)

lemma tables_active [simp]: "tables (s\<lparr>ap_active := v\<rparr>) = tables s"
  by (simp add: tables_def)

lemma tables_focused [simp]: "tables (s\<lparr>ap_focused := v\<rparr>) = tables s"
  by (simp add: tables_def)

lemma tables_emit [simp]: "tables (emit e s) = tables s"
  by (simp add: tables_def emit_def)

lemma tables_rebuild [simp]: "tables (rebuild_widget_tree s) = tables s"
  by (simp add: rebuild_widget_tree_def)

lemma tables_grab [simp]: "tables (grab_focus p s) = tables s"
  by (simp add: grab_focus_def)

lemma map_option_id_cong: "(\<And>x. f x = x) \<Longrightarrow> map_option f y = y"
  by (cases y) auto

lemma tables_refresh [simp]: "tables (refresh_focus_css s) = tables s"
  by (simp add: tables_def refresh_focus_css_def option.map_comp comp_def)

lemma tables_notify [simp]:
  "tables (notify_anchors_changed s) = tables s" "tables (notify_active_anchor_changed s) = tables s"
  by (simp_all add: notify_anchors_changed_def notify_active_anchor_changed_def)

lemma tables_broadcast [simp]: "tables (broadcast_satellite_visibility s) = tables s"
  by (simp add: broadcast_satellite_visibility_def Let_def emit_def tables_def split: prod.splits)

lemma tables_switch [simp]: "tables (fst (switch_workspace_view s)) = tables s"
  by (simp add: switch_workspace_view_def split: option.splits view.splits)

lemma tables_set_focused [simp]: "tables (set_focused i s) = tables s"
  by (simp add: set_focused_def)

lemma tables_cycle_focus [simp]: "tables (cycle_focus f s) = tables s"
  by (simp add: cycle_focus_def Let_def)

lemma anchor_look_body [simp]: "pa_body (anchor_look s i p) = pa_body p"
  by (simp add: anchor_look_def Let_def)

lemma tables_looks: "tables (s\<lparr>ap_panes := hmapkv (anchor_look s') (ap_panes s)\<rparr>) = tables s"
  by (simp add: tables_def option.map_comp comp_def)

lemma tables_show [simp]: "tables (show_anchor t s) = tables s"
  using tables_looks [of "s\<lparr>ap_active := t\<rparr>" "s\<lparr>ap_active := t\<rparr>"]
  unfolding show_anchor_def Let_def by (cases t) (simp_all only: option.case tables_focused tables_active)

lemma tables_mount [simp]: "tables (mount_workspace s) = tables s"
  by (simp add: mount_workspace_def case_prod_unfold Let_def)

lemma tables_set_active [simp]: "tables (set_active_anchor t s) = tables s"
  by (simp add: set_active_anchor_def Let_def split: option.split)

lemma active_frame [simp]:
  "ap_active (emit e s) = ap_active s" "ap_active (rebuild_widget_tree s) = ap_active s"
  "ap_active (grab_focus p s) = ap_active s" "ap_active (refresh_focus_css s) = ap_active s"
  "ap_active (notify_anchors_changed s) = ap_active s"
  "ap_active (notify_active_anchor_changed s) = ap_active s"
  "ap_active (broadcast_satellite_visibility s) = ap_active s"
  "ap_active (fst (switch_workspace_view s)) = ap_active s"
  "ap_active (set_focused i s) = ap_active s" "ap_active (cycle_focus f s) = ap_active s"
  "ap_active (show_anchor t s) = t"
  by (simp_all add: emit_def rebuild_widget_tree_def grab_focus_def refresh_focus_css_def
    notify_anchors_changed_def notify_active_anchor_changed_def broadcast_satellite_visibility_def
    switch_workspace_view_def set_focused_def cycle_focus_def show_anchor_def Let_def
    split: prod.splits option.splits view.splits)

lemma active_mount [simp]: "ap_active (mount_workspace s) = ap_active s"
  by (simp add: mount_workspace_def case_prod_unfold Let_def)

lemma active_set_active:
  "ap_active (set_active_anchor t s) =
    (if (case t of Some i \<Rightarrow> i \<in> ap_anchors s | None \<Rightarrow> True) then t else ap_active s)"
  by (auto simp: set_active_anchor_def Let_def split: option.splits)

end
