(* ===== verification/AppAnchors.thy ===== *)
theory AppAnchors
  imports AppView
begin

text \<open>
  Anchors in the cockpit: tagging and untagging panes, the closing of panes whose anchor is gone, the
  rule that keeps an anchor active, the lifecycle commands, and the windows an anchor owns (the anchor
  operations of \<open>crates/lmux/src/state.rs\<close>).
\<close>

section \<open>Tab tables\<close>

definition or_insert :: "'k \<Rightarrow> 'v \<Rightarrow> ('k, 'v) hmap \<Rightarrow> ('k, 'v) hmap" where
  "or_insert k v m = (case hget m k of Some _ \<Rightarrow> m | None \<Rightarrow> hput k v m)"

lemma hget_or_insert:
  "hget (or_insert k v m) j = (if j = k \<and> hget m k = None then Some v else hget m j)"
  by (auto simp: or_insert_def hget_hput split: option.splits)

definition ensure_terminal_tab_stack :: "pane_id \<Rightarrow> app \<Rightarrow> app" where
  "ensure_terminal_tab_stack a s =
    s\<lparr>ap_tabs := or_insert a [a] (ap_tabs s), ap_active_tab := or_insert a a (ap_active_tab s),
      ap_tab_roots := or_insert a a (ap_tab_roots s)\<rparr>"

definition activate_terminal_tab :: "pane_id \<Rightarrow> pane_id \<Rightarrow> app \<Rightarrow> app \<times> bool" where
  "activate_terminal_tab a t s =
    (if (case hget (ap_tabs s) a of Some ts \<Rightarrow> t \<in> set ts | None \<Rightarrow> False)
     then (rebuild_widget_tree (s\<lparr>ap_active_tab := hput a t (ap_active_tab s)\<rparr>), True)
     else (s, False))"

definition remove_terminal_tab_metadata :: "pane_id \<Rightarrow> app \<Rightarrow> app" where
  "remove_terminal_tab_metadata p s =
    (let tabs = hretain (\<lambda>a ts. ts \<noteq> [] \<and> a \<in> ap_anchors s)
           (hmapvals (filter (\<lambda>t. t \<noteq> p)) (ap_tabs s));
         acts = hretain (\<lambda>a _. hhas tabs a) (ap_active_tab s);
         acts' = hmapkv (\<lambda>a t. if t = p
             then (case hget tabs a of Some (u # _) \<Rightarrow> u | _ \<Rightarrow> a) else t) acts
     in s\<lparr>ap_tab_roots := hdel p (ap_tab_roots s), ap_tabs := tabs, ap_active_tab := acts'\<rparr>)"

section \<open>Closing panes\<close>

definition forget_pane_names :: "pane_id \<Rightarrow> app \<Rightarrow> app" where
  "forget_pane_names p s =
    s\<lparr>ap_pane_uuids := hdel p (ap_pane_uuids s), ap_pane_titles := hdel p (ap_pane_titles s),
      ap_pane_agents := hdel p (ap_pane_agents s)\<rparr>"

definition kill_pane :: "pane_id \<Rightarrow> app \<Rightarrow> app" where
  "kill_pane p s =
    (if live s p then emit (E_KillLater p) (emit (E_Terminate p) (s\<lparr>ap_panes := hdel p (ap_panes s)\<rparr>)) else s)"

definition close_terminal_pane_without_focus :: "pane_id \<Rightarrow> app \<Rightarrow> app \<times> bool" where
  "close_terminal_pane_without_focus p s =
    (let (l, ok) = remove_leaf (ap_layout s) p in
     if \<not> ok then (s, False)
     else (kill_pane p (remove_terminal_tab_metadata p (forget_pane_names p
             (s\<lparr>ap_layout := l, ap_workspace := hdel p (ap_workspace s)\<rparr>))), True))"

definition orphan_panes :: "app \<Rightarrow> pane_id list" where
  "orphan_panes s =
    List.map_filter (\<lambda>(i, p).
      if is_satellite p \<or> i \<in> ap_anchors s then None
      else if (case hget (ap_workspace s) i of Some a \<Rightarrow> a \<in> ap_anchors s | None \<Rightarrow> False) then None
      else Some i) (hitems (ap_panes s))"

definition close_orphan_terminal_panes :: "app \<Rightarrow> app" where
  "close_orphan_terminal_panes s =
    fold (\<lambda>i s. fst (close_terminal_pane_without_focus i s)) (orphan_panes s) s"

section \<open>Tagging\<close>

definition anchor_spawn_metadata :: "world \<Rightarrow> app \<Rightarrow> pane_id \<Rightarrow> string list \<times> string" where
  "anchor_spawn_metadata w s p =
    ([wd_shell w],
     (case (case hget (ap_panes s) p of Some q \<Rightarrow> snapshot_cwd w p q | None \<Rightarrow> None) of
        Some c \<Rightarrow> c
      | None \<Rightarrow> (case wd_home w of Some h \<Rightarrow> h | None \<Rightarrow> [])))"

definition i64_max :: int where
  "i64_max = 9223372036854775807"

definition next_anchor_sort_key_for :: "uuid list \<Rightarrow> registry \<Rightarrow> string option \<Rightarrow> int" where
  "next_anchor_sort_key_for ids r grp =
    (let keys = map (\<lambda>a. case a_sort_key a of Some k \<Rightarrow> k | None \<Rightarrow> 0)
           (filter (\<lambda>a. a_group a = grp) (List.map_filter (reg_get r) ids))
     in if keys = [] then 0 else min (Max (set keys) + 1) i64_max)"

definition next_anchor_sort_key :: "app \<Rightarrow> string option \<Rightarrow> int" where
  "next_anchor_sort_key s grp =
    next_anchor_sort_key_for (hvals (ap_pane_anchor_ids s)) (ap_registry s) grp"

definition install_anchor :: "world \<Rightarrow> pane_id \<Rightarrow> app \<Rightarrow> app" where
  "install_anchor w target s0 =
    (let s = s0\<lparr>ap_anchors := insert target (ap_anchors s0)\<rparr>;
         (argv, cwd) = anchor_spawn_metadata w s target;
         (pane_uuid, s1) = draw_uuid s;
         (anchor_uuid, s2) = draw_uuid s1;
         anchor = (new_manual anchor_uuid pane_uuid argv cwd)\<lparr>a_sort_key := Some (next_anchor_sort_key s2 None)\<rparr>
     in s2\<lparr>ap_registry := fst (reg_insert anchor (ap_registry s2)),
           ap_pane_anchor_ids := hput target anchor_uuid (ap_pane_anchor_ids s2),
           ap_workspace := hput target target (ap_workspace s2),
           ap_tabs := hput target [target] (ap_tabs s2),
           ap_active_tab := hput target target (ap_active_tab s2),
           ap_tab_roots := hput target target (ap_tab_roots s2),
           ap_panes := hmodify target (\<lambda>p. p\<lparr>pa_look := (pa_look p)\<lparr>fl_anchor := True\<rparr>\<rparr>) (ap_panes s2)\<rparr>)"

definition tag_anchor_core :: "world \<Rightarrow> pane_id \<Rightarrow> app \<Rightarrow> app \<times> bool" where
  "tag_anchor_core w target s =
    (if \<not> live s target then (s, False)
     else if (case hget (ap_workspace s) target of Some a \<Rightarrow> a \<noteq> target | None \<Rightarrow> False) then (s, False)
     else if target \<in> ap_anchors s then (s, False)
     else (install_anchor w target s, True))"

definition add_anchor :: "world \<Rightarrow> pane_id \<Rightarrow> app \<Rightarrow> app" where
  "add_anchor w target s =
    (let (s1, ok) = tag_anchor_core w target s in
     if \<not> ok then s1
     else notify_anchors_changed (set_active_anchor (Some target)
            (ensure_terminal_tab_stack target (close_orphan_terminal_panes s1))))"

definition restore_anchor :: "world \<Rightarrow> pane_id \<Rightarrow> app \<Rightarrow> app" where
  "restore_anchor w target s =
    (let (s1, ok) = tag_anchor_core w target s in if ok then ensure_terminal_tab_stack target s1 else s1)"

definition ensure_anchor_invariant :: "world \<Rightarrow> app \<Rightarrow> app" where
  "ensure_anchor_invariant w s =
    (if (case ap_active s of Some a \<Rightarrow> a \<in> ap_anchors s | None \<Rightarrow> False) then s
     else let s0 = s\<lparr>ap_active := None\<rparr> in
       (case first_of (ap_anchors s0) of
          Some next \<Rightarrow> set_active_anchor (Some next) s0
        | None \<Rightarrow> (case first_terminal_leaf s0 of
            None \<Rightarrow> s0
          | Some seed \<Rightarrow>
              let s1 = remove_terminal_tab_metadata seed (s0\<lparr>ap_workspace := hdel seed (ap_workspace s0)\<rparr>);
                  (s2, ok) = tag_anchor_core w seed s1
              in if ok then notify_anchors_changed (set_active_anchor (Some seed)
                               (ensure_terminal_tab_stack seed s2))
                 else s2)))"

text \<open>What untagging and closing an anchor's pane share: its entries go, its workspace is let go.\<close>

definition forget_anchor :: "pane_id \<Rightarrow> app \<Rightarrow> app" where
  "forget_anchor t s0 =
    (let s = s0\<lparr>ap_anchors := ap_anchors s0 - {t}\<rparr>;
         s1 = (case hget (ap_pane_anchor_ids s) t of
             Some i \<Rightarrow> s\<lparr>ap_pane_anchor_ids := hdel t (ap_pane_anchor_ids s),
                        ap_registry := fst (reg_remove i (ap_registry s))\<rparr>
           | None \<Rightarrow> s)
     in s1\<lparr>ap_hidden := ap_hidden s1 - {t}, ap_workspace := hretain (\<lambda>_ a. a \<noteq> t) (ap_workspace s1)\<rparr>)"

definition remove_anchor :: "world \<Rightarrow> pane_id \<Rightarrow> app \<Rightarrow> app" where
  "remove_anchor w t s =
    (if t \<notin> ap_anchors s then s
     else let s1 = forget_anchor t s;
              s2 = s1\<lparr>ap_panes := hmodify t (\<lambda>p. p\<lparr>pa_look := (pa_look p)
                       \<lparr>fl_anchor := False, fl_anchor_active := False, fl_visible := True\<rparr>\<rparr>) (ap_panes s1)\<rparr>;
              s3 = close_orphan_terminal_panes s2;
              s4 = (if ap_active s3 = Some t then set_active_anchor (first_of (ap_anchors s3)) s3 else s3)
          in notify_anchors_changed (ensure_anchor_invariant w s4))"

text \<open>
  The next anchor in ascending order, from the first when none is active: the code adds one to
  \<open>usize::MAX\<close> with wrap-around.
\<close>

definition cycle_active_anchor :: "world \<Rightarrow> app \<Rightarrow> app" where
  "cycle_active_anchor w s =
    (if ap_anchors s = {} then add_anchor w (ap_focused s) s
     else let ordered = sorted_list_of_set (ap_anchors s);
              idx = (case ap_active s of
                  Some cur \<Rightarrow> if cur \<in> set ordered then Some (length (takeWhile (\<lambda>i. i \<noteq> cur) ordered)) else None
                | None \<Rightarrow> None);
              next = ordered ! ((case idx of Some i \<Rightarrow> i + 1 | None \<Rightarrow> 0) mod length ordered)
          in if Some next \<noteq> ap_active s then set_active_anchor (Some next) s else s)"

section \<open>Lifecycle commands\<close>

datatype app_error = NotAnAnchor pane_id | NoLiveChild pane_id | KillFailed nat nat
  | RegistryRefused registry_error | NoActiveAnchor | NoWindowId
  | SwitchLoad string store_error | SwitchSave string store_error | NoPaneSpawned

definition as_i32 :: "nat \<Rightarrow> int" where
  "as_i32 n = (let k = int n mod 4294967296 in if k \<ge> 2147483648 then k - 4294967296 else k)"

definition send_signal_to_group :: "world \<Rightarrow> nat \<Rightarrow> nat \<Rightarrow> bool" where
  "send_signal_to_group w pid sg = (wd_kill w (- as_i32 pid) sg \<or> wd_kill w (as_i32 pid) sg)"

definition SIGSTOP :: nat where "SIGSTOP = 19"

definition SIGCONT :: nat where "SIGCONT = 18"

definition signal_anchor ::
  "world \<Rightarrow> nat \<Rightarrow> (uuid \<Rightarrow> registry \<Rightarrow> reg_result) \<Rightarrow> pane_id \<Rightarrow> app \<Rightarrow> app \<times> (app_error + unit)" where
  "signal_anchor w sg change p s =
    (case hget (ap_pane_anchor_ids s) p of
       None \<Rightarrow> (s, Inl (NotAnAnchor p))
     | Some i \<Rightarrow> (case (case hget (ap_panes s) p of Some q \<Rightarrow> child_pid q | None \<Rightarrow> None) of
         None \<Rightarrow> (s, Inl (NoLiveChild p))
       | Some pid \<Rightarrow>
           if \<not> send_signal_to_group w pid sg then (s, Inl (KillFailed pid sg))
           else let s1 = emit (E_Signal pid sg) s in
             (case change i (ap_registry s1) of
                (_, Inl e) \<Rightarrow> (s1, Inl (RegistryRefused e))
              | (r, Inr _) \<Rightarrow> (notify_anchors_changed (s1\<lparr>ap_registry := r\<rparr>), Inr ()))))"

definition pause_anchor :: "world \<Rightarrow> pane_id \<Rightarrow> app \<Rightarrow> app \<times> (app_error + unit)" where
  "pause_anchor w p s = signal_anchor w SIGSTOP reg_pause p s"

definition resume_anchor :: "world \<Rightarrow> pane_id \<Rightarrow> app \<Rightarrow> app \<times> (app_error + unit)" where
  "resume_anchor w p s = signal_anchor w SIGCONT reg_resume p s"

definition set_visible :: "pane_id \<Rightarrow> bool \<Rightarrow> app \<Rightarrow> app" where
  "set_visible p v s =
    s\<lparr>ap_panes := hmodify p (\<lambda>q. q\<lparr>pa_look := (pa_look q)\<lparr>fl_visible := v\<rparr>\<rparr>) (ap_panes s)\<rparr>"

definition hide_anchor :: "pane_id \<Rightarrow> app \<Rightarrow> app \<times> (app_error + unit)" where
  "hide_anchor p s =
    (case hget (ap_pane_anchor_ids s) p of
       None \<Rightarrow> (s, Inl (NotAnAnchor p))
     | Some i \<Rightarrow>
         if p \<in> ap_hidden s then (s, Inr ())
         else let s1 = set_visible p False (s\<lparr>ap_hidden := insert p (ap_hidden s)\<rparr>) in
           (case reg_set_hidden i True (ap_registry s1) of
              (_, Inl e) \<Rightarrow> (s1, Inl (RegistryRefused e))
            | (r, Inr _) \<Rightarrow> (notify_anchors_changed (s1\<lparr>ap_registry := r\<rparr>), Inr ())))"

definition reattach_anchor :: "pane_id \<Rightarrow> app \<Rightarrow> app \<times> (app_error + unit)" where
  "reattach_anchor p s =
    (case hget (ap_pane_anchor_ids s) p of
       None \<Rightarrow> (s, Inl (NotAnAnchor p))
     | Some i \<Rightarrow>
         if p \<notin> ap_hidden s then (s, Inr ())
         else let s1 = s\<lparr>ap_hidden := ap_hidden s - {p}\<rparr> in
           (case reg_set_hidden i False (ap_registry s1) of
              (_, Inl e) \<Rightarrow> (s1, Inl (RegistryRefused e))
            | (r, Inr _) \<Rightarrow>
                let s2 = s1\<lparr>ap_registry := r\<rparr>;
                    v = (case ap_active s2 of None \<Rightarrow> True | Some a \<Rightarrow> hget (ap_workspace s2) p = Some a)
                in (notify_anchors_changed (set_visible p v s2), Inr ())))"

definition edit_anchor :: "(uuid \<Rightarrow> registry \<Rightarrow> reg_result) \<Rightarrow> pane_id \<Rightarrow> app \<Rightarrow> app" where
  "edit_anchor f p s =
    (case hget (ap_pane_anchor_ids s) p of
       None \<Rightarrow> s
     | Some i \<Rightarrow> (case f i (ap_registry s) of
         (_, Inl _) \<Rightarrow> s
       | (r, Inr _) \<Rightarrow> notify_anchors_changed (s\<lparr>ap_registry := r\<rparr>)))"

definition rename_anchor_for_pane :: "pane_id \<Rightarrow> string option \<Rightarrow> app \<Rightarrow> app" where
  "rename_anchor_for_pane p n s = edit_anchor (\<lambda>i. reg_rename i n) p s"

definition regroup_anchor_for_pane :: "pane_id \<Rightarrow> string option \<Rightarrow> app \<Rightarrow> app" where
  "regroup_anchor_for_pane p g s = edit_anchor (\<lambda>i. reg_set_group i g) p s"

definition set_anchor_sort_key_for_pane :: "pane_id \<Rightarrow> int option \<Rightarrow> app \<Rightarrow> app" where
  "set_anchor_sort_key_for_pane p k s = edit_anchor (\<lambda>i. reg_set_sort_key i k) p s"

fun reorder_from :: "int \<Rightarrow> pane_id list \<Rightarrow> app \<times> bool \<Rightarrow> app \<times> bool" where
  "reorder_from k [] st = st"
| "reorder_from k (p # ps) (s, mutated) =
    reorder_from (k + 1) ps
      (case hget (ap_pane_anchor_ids s) p of
         None \<Rightarrow> (s, mutated)
       | Some i \<Rightarrow> (case reg_set_sort_key i (Some k) (ap_registry s) of
           (_, Inl _) \<Rightarrow> (s, mutated)
         | (r, Inr _) \<Rightarrow> (s\<lparr>ap_registry := r\<rparr>, True)))"

definition reorder_anchors_in_group :: "pane_id list \<Rightarrow> app \<Rightarrow> app" where
  "reorder_anchors_in_group ps s =
    (let (s1, mutated) = reorder_from 0 ps (s, False) in if mutated then notify_anchors_changed s1 else s1)"

section \<open>Windows of an anchor\<close>

definition register_satellite_window :: "pane_id \<Rightarrow> satellite_window \<Rightarrow> app \<Rightarrow> app" where
  "register_satellite_window a v s =
    (if a \<notin> ap_anchors s then s
     else broadcast_satellite_visibility
       (s\<lparr>ap_satellites := insert_satellite_window_for_anchor a v (ap_satellites s)\<rparr>))"

definition register_satellite :: "pane_id \<Rightarrow> nat \<Rightarrow> app \<Rightarrow> app" where
  "register_satellite a pid s = register_satellite_window a (for_pid SB_Kwin pid) s"

definition register_satellite_spawn :: "pane_id \<Rightarrow> uuid \<Rightarrow> nat \<Rightarrow> string option \<Rightarrow> app \<Rightarrow> app" where
  "register_satellite_spawn a r pid bundle s =
    register_satellite_window a (for_spawn_with_bundle SB_Kwin r pid bundle) s"

definition attach_native_window_to_active_anchor ::
  "window_candidate \<Rightarrow> satellite_window \<Rightarrow> app \<Rightarrow> app \<times> (app_error + unit)" where
  "attach_native_window_to_active_anchor c v s =
    (case ap_active s of
       None \<Rightarrow> (s, Inl NoActiveAnchor)
     | Some a \<Rightarrow> if trim (wc_window_id c) = [] then (s, Inl NoWindowId)
                else (register_satellite_window a v s, Inr ()))"

end
