(* ===== verification/AppPanes.thy ===== *)
theory AppPanes
  imports AppAnchors
begin

text \<open>
  Making, moving and closing panes: splits, tabs, new anchors, closes by the user and by an exiting
  child, and drag-and-drop (the pane operations of \<open>crates/lmux/src/state.rs\<close>).
\<close>

section \<open>Shared steps\<close>

text \<open>The new pane, its uuid, and the next pane id, which sticks at the largest \<open>u32\<close>.\<close>

definition insert_pane :: "pane_id \<Rightarrow> pane \<Rightarrow> app \<Rightarrow> app \<times> uuid" where
  "insert_pane i p s =
    (let (u, s1) = draw_uuid s
     in (s1\<lparr>ap_panes := hput i p (ap_panes s1), ap_pane_uuids := hput i u (ap_pane_uuids s1)\<rparr>, u))"

definition bump_next_id :: "app \<Rightarrow> app" where
  "bump_next_id s = s\<lparr>ap_next_id := sat_add_u32 (ap_next_id s) 1\<rparr>"

definition splice_leaf :: "dir \<Rightarrow> pane_id \<Rightarrow> pane_id \<Rightarrow> app \<Rightarrow> app \<times> bool" where
  "splice_leaf d target new_id s =
    (let (l, ok) = replace_leaf (ap_layout s) target (\<lambda>i. Split d (Leaf i) (Leaf new_id) (1 / 2))
     in (s\<lparr>ap_layout := l\<rparr>, ok))"

definition undo_insert :: "pane_id \<Rightarrow> app \<Rightarrow> app" where
  "undo_insert i s =
    remove_terminal_tab_metadata i (forget_pane_names i (s\<lparr>ap_panes := hdel i (ap_panes s)\<rparr>))"

definition target_cwd :: "world \<Rightarrow> app \<Rightarrow> pane_id \<Rightarrow> string option" where
  "target_cwd w s p = (case hget (ap_panes s) p of Some q \<Rightarrow> pane_cwd w p q | None \<Rightarrow> None)"

section \<open>Splitting\<close>

definition inherit_workspace :: "pane_id \<Rightarrow> pane_id \<Rightarrow> app \<Rightarrow> app" where
  "inherit_workspace target new_id s =
    (case hget (ap_workspace s) target of
       None \<Rightarrow> s
     | Some owner \<Rightarrow>
         let s1 = s\<lparr>ap_workspace := hput new_id owner (ap_workspace s)\<rparr>
         in s1\<lparr>ap_tab_roots := hput new_id (tab_root_for_pane s1 target) (ap_tab_roots s1)\<rparr>)"

definition split_focused :: "world \<Rightarrow> dir \<Rightarrow> app \<Rightarrow> app" where
  "split_focused w d s =
    (let target = ap_focused s; new_id = ap_next_id s in
     case pane_new w new_id (target_cwd w s target) of
       None \<Rightarrow> s
     | Some p \<Rightarrow>
         let s1 = bump_next_id (inherit_workspace target new_id (fst (insert_pane new_id p s)));
             (s2, ok) = splice_leaf d target new_id s1
         in if ok then rebuild_widget_tree s2 else undo_insert new_id s1)"

section \<open>Tabs\<close>

definition push_tab :: "pane_id \<Rightarrow> pane_id \<Rightarrow> app \<Rightarrow> app" where
  "push_tab a new_id s =
    s\<lparr>ap_tabs := hput a ((case hget (ap_tabs s) a of Some ts \<Rightarrow> ts | None \<Rightarrow> [a]) @ [new_id]) (ap_tabs s)\<rparr>"

definition create_terminal_tab_for_anchor :: "world \<Rightarrow> pane_id \<Rightarrow> app \<Rightarrow> app \<times> bool" where
  "create_terminal_tab_for_anchor w a s =
    (if a \<notin> ap_anchors s \<or> \<not> live s a then (s, False)
     else let s0 = ensure_terminal_tab_stack a s; target = active_terminal_tab s0 a in
     if \<not> live s0 target then (s0, False)
     else let new_id = ap_next_id s0 in
     case pane_new w new_id (target_cwd w s0 target) of
       None \<Rightarrow> (s0, False)
     | Some p \<Rightarrow>
         let s1 = fst (insert_pane new_id p s0);
             s2 = s1\<lparr>ap_workspace := hput new_id a (ap_workspace s1),
                     ap_tab_roots := hput new_id new_id (ap_tab_roots s1)\<rparr>;
             s3 = push_tab a new_id s2;
             s4 = bump_next_id (s3\<lparr>ap_active_tab := hput a new_id (ap_active_tab s3)\<rparr>);
             (s5, ok) = splice_leaf Vertical target new_id s4
         in if \<not> ok then (undo_insert new_id s4, False)
            else (rebuild_widget_tree (refresh_focus_css (grab_focus new_id (s5\<lparr>ap_focused := new_id\<rparr>))), True))"

definition create_terminal_tab_for_focused :: "world \<Rightarrow> app \<Rightarrow> app \<times> bool" where
  "create_terminal_tab_for_focused w s =
    (let target = ap_focused s in
     case (case owning_anchor s target of
             Some a \<Rightarrow> Some a
           | None \<Rightarrow> if target \<in> ap_anchors s then Some target else ap_active s) of
       Some a \<Rightarrow> create_terminal_tab_for_anchor w a s
     | None \<Rightarrow> (s, False))"

section \<open>A new anchor\<close>

definition create_new_anchor :: "world \<Rightarrow> app \<Rightarrow> app" where
  "create_new_anchor w s =
    (let new_id = ap_next_id s; s1 = split_focused w Vertical s in
     if \<not> live s1 new_id then s1
     else let s2 = remove_terminal_tab_metadata new_id (s1\<lparr>ap_workspace := hdel new_id (ap_workspace s1)\<rparr>);
              s3 = refresh_focus_css (s2\<lparr>ap_focused := new_id\<rparr>);
              (s4, ok) = tag_anchor_core w new_id s3
          in if ok then notify_anchors_changed (set_active_anchor (Some new_id)
                          (ensure_terminal_tab_stack new_id s4))
             else s4)"

section \<open>Closing\<close>

definition release_closed :: "pane_id \<Rightarrow> app \<Rightarrow> app" where
  "release_closed t s =
    (if t \<in> ap_anchors s
     then let s1 = forget_anchor t s;
              s2 = (if ap_active s1 = Some t then set_active_anchor (first_of (ap_anchors s1)) s1 else s1)
          in notify_anchors_changed s2
     else s\<lparr>ap_workspace := hdel t (ap_workspace s)\<rparr>)"

definition close_focused :: "world \<Rightarrow> app \<Rightarrow> app" where
  "close_focused w s =
    (let t = ap_focused s in
     if ap_layout s = Leaf t then s
     else let (l, ok) = remove_leaf (ap_layout s) t in
     if \<not> ok then s
     else let s1 = release_closed t (s\<lparr>ap_layout := l\<rparr>);
              s2 = (if live s1 t then kill_pane t (remove_terminal_tab_metadata t (forget_pane_names t s1)) else s1);
              s3 = ensure_anchor_invariant w (close_orphan_terminal_panes s2);
              s4 = rebuild_widget_tree (s3\<lparr>ap_focused := hd (leaves (ap_layout s3))\<rparr>)
          in refresh_focus_css (grab_focus (ap_focused s4) s4))"

definition close_exited_pane :: "world \<Rightarrow> pane_id \<Rightarrow> app \<Rightarrow> app" where
  "close_exited_pane w t s =
    (if ap_layout s = Leaf t then s
     else if \<not> (case hget (ap_panes s) t of Some p \<Rightarrow> has_exited w t p | None \<Rightarrow> False) then s
     else let (l, ok) = remove_leaf (ap_layout s) t in
     if \<not> ok then s
     else let s1 = release_closed t (s\<lparr>ap_layout := l\<rparr>);
              s2 = remove_terminal_tab_metadata t (forget_pane_names t (s1\<lparr>ap_panes := hdel t (ap_panes s1)\<rparr>));
              s3 = ensure_anchor_invariant w (close_orphan_terminal_panes s2);
              s4 = (if ap_focused s3 = t \<or> \<not> live s3 (ap_focused s3)
                    then s3\<lparr>ap_focused := hd (leaves (ap_layout s3))\<rparr> else s3);
              s5 = rebuild_widget_tree s4
          in refresh_focus_css (grab_focus (ap_focused s5) s5))"

section \<open>Moving\<close>

definition reparent_pane :: "pane_id \<Rightarrow> pane_id \<Rightarrow> edge \<Rightarrow> app \<Rightarrow> app" where
  "reparent_pane source target e s =
    (if source = target then s
     else if hget (ap_workspace s) source \<noteq> hget (ap_workspace s) target then s
     else let (l, ok) = reparent (ap_layout s) source target e
          in if ok then rebuild_widget_tree (s\<lparr>ap_layout := l\<rparr>) else s)"

definition toggle_rearrange_mode :: "app \<Rightarrow> app \<times> bool" where
  "toggle_rearrange_mode s =
    (let next = \<not> ap_rearrange s in (s\<lparr>ap_rearrange := next\<rparr>, next))"

section \<open>Shutting down\<close>

text \<open>
  The root container loses its children; the code keeps its handle on the unmounted stack until the
  next rebuild, but no anchor is left through which it could be used.
\<close>

definition drain_panes_for_shutdown :: "world \<Rightarrow> app \<Rightarrow> app \<times> (pane_id \<times> pane) list" where
  "drain_panes_for_shutdown w s =
    (let out = hitems (ap_panes s);
         s1 = s\<lparr>ap_anchors := {}, ap_pane_anchor_ids := [], ap_pane_uuids := [], ap_pane_titles := [],
           ap_pane_agents := [], ap_grants := [], ap_tabs := [], ap_active_tab := [], ap_tab_roots := [],
           ap_workspace := [], ap_hidden := {}, ap_notif := [], ap_view := V_Single None, ap_panes := []\<rparr>
     in (fold (\<lambda>(i, p) s. if has_exited w i p then s else emit (E_Terminate i) s) out s1, out))"

definition begin_shutdown :: "world \<Rightarrow> app \<Rightarrow> app \<times> (pane_id \<times> pane) list option" where
  "begin_shutdown w s =
    (if ap_phase s = ShuttingDown then (s, None)
     else let (s1, out) = drain_panes_for_shutdown w (s\<lparr>ap_phase := ShuttingDown\<rparr>) in (s1, Some out))"

end
