(* ===== verification/AppAgents.thy ===== *)
theory AppAgents
  imports AppPanes Paths
begin

text \<open>
  What agents and bus clients ask of the cockpit: reading transcripts, sending input, renaming,
  creating panes, attaching windows, and the user's decisions on their grants (the bus-facing
  operations of \<open>crates/lmux/src/state.rs\<close>, over the access check of \<open>Grants\<close>).
\<close>

section \<open>Prompt texts and command lines\<close>

definition shell_safe :: "char \<Rightarrow> bool" where
  "shell_safe c = (let n = of_char c :: nat in
    (48 \<le> n \<and> n \<le> 57) \<or> (65 \<le> n \<and> n \<le> 90) \<or> (97 \<le> n \<and> n \<le> 122) \<or> c \<in> set ''/._-:='')"

definition quote_char :: char where
  "quote_char = CHR 0x27"

definition shell_quote :: "string \<Rightarrow> string" where
  "shell_quote arg =
    (if arg \<noteq> [] \<and> list_all shell_safe arg then arg
     else [quote_char] @ concat (map (\<lambda>c. if c = quote_char then [quote_char, CHR 0x5C, quote_char, quote_char]
                                          else [c]) arg) @ [quote_char])"

fun join :: "string \<Rightarrow> string list \<Rightarrow> string" where
  "join sep [] = []"
| "join sep [x] = x"
| "join sep (x # xs) = x @ sep @ join sep xs"

definition shell_command_line :: "string list \<Rightarrow> string" where
  "shell_command_line argv = join '' '' (map shell_quote argv)"

text \<open>\<open>debug\<close> stands for Rust's derived debug printing.\<close>

record debug_print =
  dp_backend :: "window_backend \<Rightarrow> string"
  dp_app :: "window_app_identity \<Rightarrow> string"
  dp_argv :: "string list \<Rightarrow> string"

definition opt_part :: "string \<Rightarrow> string option \<Rightarrow> string list" where
  "opt_part key v = (case v of Some x \<Rightarrow> [key @ x] | None \<Rightarrow> [])"

definition window_candidate_prompt_metadata :: "debug_print \<Rightarrow> window_candidate \<Rightarrow> string" where
  "window_candidate_prompt_metadata dp c =
    join '', '' ([''backend='' @ dp_backend dp (wc_backend c), ''window_id='' @ wc_window_id c]
      @ opt_part ''pid='' (map_option show_nat (wc_pid c)) @ opt_part ''app='' (map_option (dp_app dp) (wc_app c))
      @ opt_part ''title='' (wc_title c) @ opt_part ''workspace='' (wc_workspace c)
      @ opt_part ''output='' (wc_output c))"

definition launch_attach_prompt_metadata ::
  "debug_print \<Rightarrow> string list \<Rightarrow> string option \<Rightarrow> string option \<Rightarrow> nat \<Rightarrow> string" where
  "launch_attach_prompt_metadata dp argv title_hint app_hint timeout_ms =
    join '', '' ([''argv='' @ dp_argv dp argv, ''timeout_ms='' @ show_nat timeout_ms]
      @ opt_part ''title_hint='' title_hint @ opt_part ''app_hint='' app_hint)"

section \<open>The access check in the cockpit\<close>

definition access_of :: "app \<Rightarrow> access_env" where
  "access_of s = \<lparr>ae_pane_agents = ap_pane_agents s, ae_anchors = ap_anchors s,
     ae_pane_workspace = ap_workspace s, ae_pane_anchor_ids = ap_pane_anchor_ids s\<rparr>"

text \<open>
  The id a new request would get is drawn up front; when no request is made the draw is skipped in
  the random source, which no one can tell.
\<close>

definition check_access ::
  "world \<Rightarrow> pane_id \<Rightarrow> uuid \<Rightarrow> grant_scope \<Rightarrow> agent_identity option \<Rightarrow> string option \<Rightarrow> msg \<Rightarrow> app \<Rightarrow>
    app \<times> (bus_error + unit)" where
  "check_access w p u scope agent window reason s =
    (let (n, s1) = draw_uuid s;
         (grants, r) = authorize_pane_access (wd_now w) n (access_of s1) p u scope agent window reason (ap_grants s1);
         s2 = s1\<lparr>ap_grants := grants\<rparr>
     in (if length (hkeys grants) \<noteq> length (hkeys (ap_grants s1)) then notify_anchors_changed s2 else s2, r))"

definition app_register_grant_request :: "grant_request \<Rightarrow> app \<Rightarrow> app \<times> grant_request" where
  "app_register_grant_request req s =
    (let (grants, r) = register_grant_request req (ap_grants s)
     in (notify_anchors_changed (s\<lparr>ap_grants := grants\<rparr>), r))"

definition app_decide_grant :: "uuid \<Rightarrow> grant_decision \<Rightarrow> app \<Rightarrow> app \<times> (bus_error + unit)" where
  "app_decide_grant i d s =
    (case decide_grant i d (ap_grants s) of
       (_, Inl e) \<Rightarrow> (s, Inl e)
     | (grants, Inr _) \<Rightarrow> (notify_anchors_changed (s\<lparr>ap_grants := grants\<rparr>), Inr ()))"

definition authorize_active_anchor ::
  "world \<Rightarrow> string \<Rightarrow> msg \<Rightarrow> agent_identity option \<Rightarrow> app \<Rightarrow> app \<times> (bus_error + unit)" where
  "authorize_active_anchor w target_window reason agent s =
    (case ap_active s of
       None \<Rightarrow> (s, Inl (Domain [Txt ''no active anchor'']))
     | Some a \<Rightarrow> (case hget (ap_pane_uuids s) a of
         None \<Rightarrow> (s, Inl (Domain [Txt ''active anchor '', FNat a, Txt '' has no pane UUID'']))
       | Some u \<Rightarrow> check_access w a u AttachWindow agent (Some target_window) reason s))"

definition authorize_active_anchor_window_attach_with_reason ::
  "world \<Rightarrow> debug_print \<Rightarrow> window_candidate \<Rightarrow> agent_identity option \<Rightarrow> string \<Rightarrow> app \<Rightarrow>
    app \<times> (bus_error + unit)" where
  "authorize_active_anchor_window_attach_with_reason w dp c agent prefix s =
    (let t = window_candidate_prompt_metadata dp c
     in authorize_active_anchor w t [FStr prefix, Txt '': '', FStr t] agent s)"

definition authorize_active_anchor_window_attach ::
  "world \<Rightarrow> debug_print \<Rightarrow> window_candidate \<Rightarrow> agent_identity option \<Rightarrow> app \<Rightarrow> app \<times> (bus_error + unit)" where
  "authorize_active_anchor_window_attach w dp c agent s =
    authorize_active_anchor_window_attach_with_reason w dp c agent ''attach window'' s"

definition authorize_active_anchor_launch_attach ::
  "world \<Rightarrow> debug_print \<Rightarrow> string list \<Rightarrow> string option \<Rightarrow> string option \<Rightarrow> nat option \<Rightarrow>
    agent_identity option \<Rightarrow> app \<Rightarrow> app \<times> (bus_error + unit)" where
  "authorize_active_anchor_launch_attach w dp argv title_hint app_hint timeout_ms agent s =
    (let t = launch_attach_prompt_metadata dp argv title_hint app_hint (unwrap_or timeout_ms 5000)
     in authorize_active_anchor w t [Txt ''launch-and-attach: '', FStr t] agent s)"

section \<open>Transcripts and input\<close>

text \<open>A pane named by uuid, after the access check: unknown panes are refused twice, as in the code.\<close>

definition with_pane ::
  "world \<Rightarrow> uuid \<Rightarrow> bus_error \<Rightarrow> grant_scope \<Rightarrow> agent_identity option \<Rightarrow> string \<Rightarrow>
    (pane_id \<Rightarrow> pane \<Rightarrow> app \<Rightarrow> app \<times> (bus_error + 'a)) \<Rightarrow> app \<Rightarrow> app \<times> (bus_error + 'a)" where
  "with_pane w u unknown scope agent reason act s =
    (case pane_for_uuid s u of
       None \<Rightarrow> (s, Inl unknown)
     | Some p \<Rightarrow> (case check_access w p u scope agent None [Txt reason] s of
         (s1, Inl e) \<Rightarrow> (s1, Inl e)
       | (s1, Inr _) \<Rightarrow> (case hget (ap_panes s1) p of
           None \<Rightarrow> (s1, Inl unknown) | Some q \<Rightarrow> act p q s1)))"

definition no_transcript :: "bus_error" where
  "no_transcript = TranscriptUnavailable
    [Txt ''pane is a GUI satellite; only PTY-backed terminal panes have transcript output'']"

definition pane_transcript_tail ::
  "world \<Rightarrow> uuid \<Rightarrow> nat \<Rightarrow> agent_identity option \<Rightarrow> app \<Rightarrow> app \<times> (bus_error + transcript_range)" where
  "pane_transcript_tail w u n agent s =
    with_pane w u (TranscriptUnavailable [Txt ''pane.tail: unknown pane '', FUuid u]) ReadOutput agent
      ''pane.tail transcript read''
      (\<lambda>p q s1. (s1, case pa_body q of Terminal t \<Rightarrow> Inr (transcript_tail u n (tm_transcript t))
                     | Satellite _ \<Rightarrow> Inl no_transcript)) s"

definition pane_transcript_capture ::
  "world \<Rightarrow> uuid \<Rightarrow> nat option \<Rightarrow> nat option \<Rightarrow> agent_identity option \<Rightarrow> app \<Rightarrow>
    app \<times> (bus_error + transcript_range)" where
  "pane_transcript_capture w u since max_lines agent s =
    with_pane w u (TranscriptUnavailable [Txt ''pane.capture: unknown pane '', FUuid u]) ReadOutput agent
      ''pane.capture transcript read''
      (\<lambda>p q s1. (s1, case pa_body q of Terminal t \<Rightarrow> Inr (capture_since u since max_lines (tm_transcript t))
                     | Satellite _ \<Rightarrow> Inl no_transcript)) s"

definition send_input :: "world \<Rightarrow> string \<Rightarrow> pane_id \<Rightarrow> pane \<Rightarrow> app \<Rightarrow> app \<times> (bus_error + unit)" where
  "send_input w txt p q s =
    (case pa_body q of
       Terminal _ \<Rightarrow> (case wd_write w p txt of
           Some e \<Rightarrow> (s, Inl (Io e))
         | None \<Rightarrow> (emit (E_Input p txt) s, Inr ()))
     | Satellite _ \<Rightarrow> (s, Inl (TranscriptUnavailable
         [Txt ''pane is a GUI satellite; only PTY-backed terminal panes accept terminal input''])))"

definition send_input_to_pane ::
  "world \<Rightarrow> uuid \<Rightarrow> string \<Rightarrow> agent_identity option \<Rightarrow> app \<Rightarrow> app \<times> (bus_error + unit)" where
  "send_input_to_pane w u txt agent s =
    with_pane w u (TranscriptUnavailable [Txt ''pane.send_input: unknown pane '', FUuid u]) SendInput agent
      ''pane.send_input terminal input'' (send_input w txt) s"

section \<open>Titles\<close>

definition pinned_rename_request :: "pane_id \<Rightarrow> uuid \<Rightarrow> string \<Rightarrow> string \<Rightarrow> agent_identity option \<Rightarrow> app \<Rightarrow> app" where
  "pinned_rename_request p u old_title new_title agent s =
    (case agent of
       None \<Rightarrow> s
     | Some ag \<Rightarrow>
         let owner = (case hget (ap_workspace s) p of Some a \<Rightarrow> Some a
                      | None \<Rightarrow> if p \<in> ap_anchors s then Some p else None);
             (n, s1) = draw_uuid s
         in fst (app_register_grant_request
              \<lparr>gr_grant_id = n, gr_requester = ag, gr_scope = RenameScope, gr_source_anchor = None,
               gr_target_anchor = (case owner of None \<Rightarrow> None | Some a \<Rightarrow> hget (ap_pane_anchor_ids s1) a),
               gr_target_pane = Some u, gr_target_window = None,
               gr_reason = Some [Txt (''rename user-pinned title from '' @ [quote_char]), FStr old_title,
                 Txt ([quote_char] @ '' to '' @ [quote_char]), FStr new_title, Txt [quote_char]]\<rparr> s1))"

definition rename_pane ::
  "world \<Rightarrow> uuid \<Rightarrow> string \<Rightarrow> bool \<Rightarrow> agent_identity option \<Rightarrow> app \<Rightarrow> app \<times> (bus_error + unit)" where
  "rename_pane w u title pin agent s =
    (case pane_for_uuid s u of
       None \<Rightarrow> (s, Inl (Domain [Txt ''pane.rename: unknown pane '', FUuid u]))
     | Some p \<Rightarrow> (case check_access w p u RenameScope agent None [Txt ''pane.rename title change''] s of
         (s1, Inl e) \<Rightarrow> (s1, Inl e)
       | (s1, Inr _) \<Rightarrow>
           (case (case hget (ap_pane_titles s1) p of Some t \<Rightarrow> if pt_pinned t then Some t else None | None \<Rightarrow> None) of
              Some t \<Rightarrow> (pinned_rename_request p u (pt_title t) title agent s1,
                 Inl (UserPinnedTitle [Txt ''pane.rename: pane '', FUuid u, Txt '' title is user-pinned'']))
            | None \<Rightarrow> (s1\<lparr>ap_pane_titles := hput p
                 \<lparr>pt_title = title,
                  pt_provenance = (if agent \<noteq> None \<and> \<not> pin then Prov_Agent else Prov_User),
                  pt_pinned = (pin \<or> agent = None)\<rparr> (ap_pane_titles s1)\<rparr>, Inr ()))))"

definition rename_pane_title_for_user :: "pane_id \<Rightarrow> string option \<Rightarrow> app \<Rightarrow> app \<times> bool" where
  "rename_pane_title_for_user p title s =
    (if \<not> live s p then (s, False)
     else let titles = (case some_trimmed title of
            Some t \<Rightarrow> hput p \<lparr>pt_title = t, pt_provenance = Prov_User, pt_pinned = True\<rparr> (ap_pane_titles s)
          | None \<Rightarrow> hdel p (ap_pane_titles s))
     in (rebuild_widget_tree (s\<lparr>ap_pane_titles := titles\<rparr>), True))"

section \<open>Panes for bus clients\<close>

text \<open>The agent a child was started for, from its environment: the last non-blank setting counts.\<close>

fun split_nul :: "string \<Rightarrow> string \<Rightarrow> string list" where
  "split_nul acc [] = [acc]"
| "split_nul acc (c # cs) = (if c = CHR 0x00 then acc # split_nul [] cs else split_nul (acc @ [c]) cs)"

definition environ_entry :: "string \<Rightarrow> string option \<times> string option \<Rightarrow> string option \<times> string option" where
  "environ_entry e = (\<lambda>(i, n).
    case strip_prefix ''LMUX_AGENT_ID='' e of
      Some v \<Rightarrow> (case some_trimmed (Some v) of Some t \<Rightarrow> (Some t, n) | None \<Rightarrow> (i, n))
    | None \<Rightarrow> (case strip_prefix ''LMUX_AGENT_NAME='' e of
        Some v \<Rightarrow> (case some_trimmed (Some v) of Some t \<Rightarrow> (i, Some t) | None \<Rightarrow> (i, n))
      | None \<Rightarrow> (i, n)))"

definition agent_identity_from_child_env :: "world \<Rightarrow> nat \<Rightarrow> agent_identity option" where
  "agent_identity_from_child_env w pid =
    (case wd_environ w pid of
       None \<Rightarrow> None
     | Some bytes \<Rightarrow> (case fold environ_entry (split_nul [] bytes) (None, None) of
         (i, n) \<Rightarrow> map_option (\<lambda>x. \<lparr>ag_id = x, ag_name = n\<rparr>) i))"

record pane_create_request =
  pcr_target_anchor :: "uuid option"
  pcr_placement :: pane_placement
  pcr_activate :: bool
  pcr_title :: "string option"
  pcr_argv :: "string list"
  pcr_agent :: "agent_identity option"
  pcr_purpose :: "string option"

definition bus_target :: "pane_create_request \<Rightarrow> app \<Rightarrow> bus_error + pane_id" where
  "bus_target req s =
    (case pcr_target_anchor req of
       Some u \<Rightarrow> (case pane_for_anchor_id s u of
           Some p \<Rightarrow> Inr p | None \<Rightarrow> Inl (Domain [Txt ''pane.new: unknown anchor '', FUuid u]))
     | None \<Rightarrow> Inr (case ap_active s of Some a \<Rightarrow> a | None \<Rightarrow> ap_focused s))"

text \<open>The metadata of the new pane once it is in the layout.\<close>

definition bus_pane_metadata ::
  "pane_create_request \<Rightarrow> agent_identity option \<Rightarrow> pane_id option \<Rightarrow> pane_id \<Rightarrow> pane_id \<Rightarrow> app \<Rightarrow> app" where
  "bus_pane_metadata req agent owner target new_id s =
    (let s1 = (case pcr_title req of
           Some t \<Rightarrow> s\<lparr>ap_pane_titles := hput new_id
             \<lparr>pt_title = t, pt_provenance = (if agent \<noteq> None then Prov_Agent else Prov_User),
              pt_pinned = (agent = None)\<rparr> (ap_pane_titles s)\<rparr>
         | None \<Rightarrow> s);
         s2 = (case agent of
           Some ag \<Rightarrow> s1\<lparr>ap_pane_agents := hput new_id \<lparr>apm_agent = ag, apm_purpose = pcr_purpose req\<rparr>
             (ap_pane_agents s1)\<rparr>
         | None \<Rightarrow> s1)
     in (case owner of
           None \<Rightarrow> s2
         | Some a \<Rightarrow> (case pcr_placement req of
             Tab \<Rightarrow>
               (let s3 = push_tab a new_id (s2\<lparr>ap_tab_roots := hput new_id new_id (ap_tab_roots s2)\<rparr>)
                in if pcr_activate req then s3\<lparr>ap_active_tab := hput a new_id (ap_active_tab s3)\<rparr> else s3)
           | _ \<Rightarrow> s2\<lparr>ap_tab_roots := hput new_id (tab_root_for_pane s2 target) (ap_tab_roots s2)\<rparr>)))"

definition bus_pane_finish ::
  "world \<Rightarrow> pane_create_request \<Rightarrow> pane \<Rightarrow> pane_id option \<Rightarrow> pane_id \<Rightarrow> uuid \<Rightarrow> app \<Rightarrow>
    app \<times> (bus_error + pane_new_result)" where
  "bus_pane_finish w req p owner new_id u s =
    (case (if pcr_argv req = [] then (s, Inr ())
           else send_input w (shell_command_line (pcr_argv req) @ [CHR 0x0A]) new_id p s) of
       (s1, Inl e) \<Rightarrow> (s1, Inl e)
     | (s1, Inr _) \<Rightarrow>
         let s2 = (if pcr_activate req
                   then refresh_focus_css (grab_focus new_id (s1\<lparr>ap_focused := new_id\<rparr>)) else s1)
         in (rebuild_widget_tree s2,
             Inr \<lparr>pn_pane_id = u,
               pn_anchor_id = (case (case owner of None \<Rightarrow> None | Some a \<Rightarrow> hget (ap_pane_anchor_ids s2) a) of
                   Some i \<Rightarrow> i | None \<Rightarrow> 0),
               pn_placement = pcr_placement req\<rparr>))"

definition create_pane_from_bus ::
  "world \<Rightarrow> pane_create_request \<Rightarrow> app \<Rightarrow> app \<times> (bus_error + pane_new_result)" where
  "create_pane_from_bus w req s =
    (case bus_target req s of
       Inl e \<Rightarrow> (s, Inl e)
     | Inr target \<Rightarrow>
       if \<not> live s target
       then (s, Inl (Domain [Txt ''pane.new: target pane '', FNat target, Txt '' is not live'']))
       else let d = (case pcr_placement req of SplitDown \<Rightarrow> Horizontal | _ \<Rightarrow> Vertical); new_id = ap_next_id s in
       (case pane_new w new_id (target_cwd w s target) of
          None \<Rightarrow> (s, Inl (Domain [Txt ''pane.new: new pane allocation failed'']))
        | Some p \<Rightarrow>
          let agent = (case pcr_agent req of Some ag \<Rightarrow> Some ag
                | None \<Rightarrow> (case child_pid p of Some pid \<Rightarrow> agent_identity_from_child_env w pid | None \<Rightarrow> None));
              (s1, u) = insert_pane new_id p s;
              owner = (case hget (ap_workspace s1) target of Some a \<Rightarrow> Some a
                | None \<Rightarrow> if target \<in> ap_anchors s1 then Some target else None);
              s2 = (case owner of
                  Some a \<Rightarrow> ensure_terminal_tab_stack a (s1\<lparr>ap_workspace := hput new_id a (ap_workspace s1)\<rparr>)
                | None \<Rightarrow> s1);
              s3 = bump_next_id s2;
              (s4, ok) = splice_leaf d target new_id s3
          in if \<not> ok
             then (undo_insert new_id s3,
                   Inl (Domain [Txt ''pane.new: target pane '', FNat target, Txt '' is not in layout'']))
             else bus_pane_finish w req p owner new_id u (bus_pane_metadata req agent owner target new_id s4)))"

end
