(* ===== verification/AppHost.thy ===== *)
theory AppHost
  imports AppPanes
begin

text \<open>
  Events of the nested Wayland compositor and what the cockpit does with them: a new toplevel becomes
  a satellite pane next to the focused one, a closed one leaves the layout, popups and frames go to
  the satellite they belong to (\<open>handle_host_event\<close> and its helpers in \<open>crates/lmux/src/state.rs\<close>; the
  events are those of \<open>crates/lmux-wayland-host/src/lib.rs\<close>, without their pixels).
\<close>

datatype host_event =
  HE_Ready string
| HE_Stopped
| HE_ToplevelCreated nat "string option" "string option"
| HE_ToplevelTitleChanged nat "string option"
| HE_ToplevelAppIdChanged nat "string option"
| HE_FrameReady nat
| HE_DmabufFrame nat
| HE_ToplevelClosed nat
| HE_PopupCreated nat nat int int nat nat
| HE_PopupRepositioned nat int int nat nat
| HE_PopupClosed nat
| HE_ChildToplevelCreated nat nat nat nat
| HE_ChildToplevelClosed nat
| HE_CursorShape "nat option" string
| HE_CursorBitmap "nat option" nat nat

definition install_wayland_host :: "app \<Rightarrow> app" where
  "install_wayland_host s = s\<lparr>ap_has_host := True\<rparr>"

definition edit_satellite :: "(satellite \<Rightarrow> satellite) \<Rightarrow> pane \<Rightarrow> pane" where
  "edit_satellite f p =
    (case pa_body p of Satellite b \<Rightarrow> p\<lparr>pa_body := Satellite (f b)\<rparr> | Terminal _ \<Rightarrow> p)"

definition with_surface :: "nat \<Rightarrow> (satellite \<Rightarrow> satellite) \<Rightarrow> app \<Rightarrow> app" where
  "with_surface sf f s =
    (case hget (ap_surface_to_pane s) sf of
       None \<Rightarrow> s | Some p \<Rightarrow> s\<lparr>ap_panes := hmodify p (edit_satellite f) (ap_panes s)\<rparr>)"

text \<open>An update sent to a pane's satellite widget, if the pane is live and a satellite.\<close>

definition tell_satellite :: "pane_id \<Rightarrow> surface_update \<Rightarrow> app \<Rightarrow> app" where
  "tell_satellite p u s = (if satellite_pane s p then emit (E_Surface p u) s else s)"

definition route_frame :: "nat \<Rightarrow> app \<Rightarrow> app" where
  "route_frame sf s =
    (case hget (ap_popup_to_pane s) sf of
       Some p \<Rightarrow> tell_satellite p (SU_PopupFrame sf) s
     | None \<Rightarrow> (case hget (ap_surface_to_pane s) sf of
         Some p \<Rightarrow> tell_satellite p SU_Frame s | None \<Rightarrow> s))"

definition attach_popup :: "pane_id \<Rightarrow> nat \<Rightarrow> int \<Rightarrow> int \<Rightarrow> nat \<Rightarrow> nat \<Rightarrow> app \<Rightarrow> app" where
  "attach_popup p sf x y wd ht s =
    (if satellite_pane s p
     then emit (E_Surface p (SU_AttachPopup sf x y wd ht)) (s\<lparr>ap_popup_to_pane := hput sf p (ap_popup_to_pane s)\<rparr>)
     else s)"

definition close_popup :: "nat \<Rightarrow> app \<Rightarrow> app" where
  "close_popup sf s =
    (case hget (ap_popup_to_pane s) sf of
       None \<Rightarrow> s
     | Some p \<Rightarrow> tell_satellite p (SU_DetachPopup sf) (s\<lparr>ap_popup_to_pane := hdel sf (ap_popup_to_pane s)\<rparr>))"

definition cursor_target :: "app \<Rightarrow> nat option \<Rightarrow> pane_id option" where
  "cursor_target s sf =
    (case sf of None \<Rightarrow> None
     | Some i \<Rightarrow> or_else (hget (ap_surface_to_pane s) i) (hget (ap_popup_to_pane s) i))"

definition centred :: "world \<Rightarrow> app \<Rightarrow> pane_id \<Rightarrow> nat \<Rightarrow> nat \<Rightarrow> int \<times> int" where
  "centred w s p wd ht =
    (if live s p
     then (max (max (fst (wd_size w p)) 0 - as_i32 wd) 0 div 2, max (max (snd (wd_size w p)) 0 - as_i32 ht) 0 div 2)
     else (0, 0))"

section \<open>Toplevels\<close>

definition on_toplevel_created :: "nat \<Rightarrow> string option \<Rightarrow> string option \<Rightarrow> app \<Rightarrow> app" where
  "on_toplevel_created sf title app_id s0 =
    (if \<not> ap_has_host s0 then s0
     else let new_id = ap_next_id s0; s = bump_next_id s0;
              p = \<lparr>pa_body = Satellite \<lparr>sl_surface = sf, sl_title = title, sl_app_id = app_id, sl_closed = False\<rparr>,
                   pa_look = fresh_look\<rparr>;
              target = ap_focused s;
              (s1, ok) = (if live s target then splice_leaf Vertical target new_id s
                          else (s\<lparr>ap_layout := Leaf new_id\<rparr>, True))
          in if \<not> ok then s1
             else let s2 = (case hget (ap_workspace s1) target of
                      Some a \<Rightarrow> s1\<lparr>ap_workspace := hput new_id a (ap_workspace s1)\<rparr> | None \<Rightarrow> s1);
                      s3 = fst (insert_pane new_id p s2)
                  in rebuild_widget_tree (s3\<lparr>ap_surface_to_pane := hput sf new_id (ap_surface_to_pane s3)\<rparr>))"

definition refocus_after_close :: "pane_id \<Rightarrow> app \<Rightarrow> app" where
  "refocus_after_close p s =
    (if ap_focused s \<noteq> p then s
     else let ls = leaves (ap_layout s);
              in_active = (case ap_active s of None \<Rightarrow> None
                | Some a \<Rightarrow> List.find (\<lambda>i. hget (ap_workspace s) i = Some a) ls)
          in s\<lparr>ap_focused := (case in_active of Some i \<Rightarrow> i | None \<Rightarrow> hd ls)\<rparr>)"

definition on_toplevel_closed :: "nat \<Rightarrow> app \<Rightarrow> app" where
  "on_toplevel_closed sf s =
    (case hget (ap_surface_to_pane s) sf of
       None \<Rightarrow> s
     | Some p \<Rightarrow>
         let s1 = s\<lparr>ap_surface_to_pane := hdel sf (ap_surface_to_pane s),
                    ap_panes := hmodify p (edit_satellite (\<lambda>b. b\<lparr>sl_closed := True\<rparr>)) (ap_panes s)\<rparr>
         in if ap_layout s1 = Leaf p then s1
            else let s2 = s1\<lparr>ap_layout := fst (remove_leaf (ap_layout s1) p), ap_panes := hdel p (ap_panes s1)\<rparr>;
                     s3 = remove_terminal_tab_metadata p (forget_pane_names p s2);
                     s4 = s3\<lparr>ap_workspace := hdel p (ap_workspace s3)\<rparr>;
                     s5 = rebuild_widget_tree (refocus_after_close p s4)
                 in refresh_focus_css (grab_focus (ap_focused s5) s5))"

section \<open>The dispatcher\<close>

fun handle_host_event :: "world \<Rightarrow> host_event \<Rightarrow> app \<Rightarrow> app" where
  "handle_host_event w (HE_Ready name) s = s\<lparr>ap_display := Some name\<rparr>"
| "handle_host_event w HE_Stopped s = s"
| "handle_host_event w (HE_ToplevelCreated sf title app_id) s = on_toplevel_created sf title app_id s"
| "handle_host_event w (HE_ToplevelTitleChanged sf title) s = with_surface sf (\<lambda>b. b\<lparr>sl_title := title\<rparr>) s"
| "handle_host_event w (HE_ToplevelAppIdChanged sf app_id) s = with_surface sf (\<lambda>b. b\<lparr>sl_app_id := app_id\<rparr>) s"
| "handle_host_event w (HE_FrameReady sf) s = route_frame sf s"
| "handle_host_event w (HE_DmabufFrame sf) s = route_frame sf s"
| "handle_host_event w (HE_ToplevelClosed sf) s = on_toplevel_closed sf s"
| "handle_host_event w (HE_PopupCreated sf parent x y wd ht) s =
    (case hget (ap_surface_to_pane s) parent of None \<Rightarrow> s | Some p \<Rightarrow> attach_popup p sf x y wd ht s)"
| "handle_host_event w (HE_PopupRepositioned sf x y wd ht) s =
    (case hget (ap_popup_to_pane s) sf of
       None \<Rightarrow> s | Some p \<Rightarrow> tell_satellite p (SU_RepositionPopup sf x y wd ht) s)"
| "handle_host_event w (HE_PopupClosed sf) s = close_popup sf s"
| "handle_host_event w (HE_ChildToplevelCreated sf parent wd ht) s =
    (case hget (ap_surface_to_pane s) parent of
       None \<Rightarrow> s
     | Some p \<Rightarrow> (let (x, y) = centred w s p wd ht in attach_popup p sf x y wd ht s))"
| "handle_host_event w (HE_ChildToplevelClosed sf) s = close_popup sf s"
| "handle_host_event w (HE_CursorShape sf name) s =
    (case cursor_target s sf of
       Some p \<Rightarrow> tell_satellite p (SU_CursorShape name) s
     | None \<Rightarrow> fold (\<lambda>p. tell_satellite p (SU_CursorShape ''default'')) (hkeys (ap_panes s)) s)"
| "handle_host_event w (HE_CursorBitmap sf wd ht) s =
    (case cursor_target s sf of
       Some p \<Rightarrow> tell_satellite p (SU_CursorBitmap wd ht) s | None \<Rightarrow> s)"

end
