(* ===== verification/AppSession.thy ===== *)
theory AppSession
  imports AppPanes
begin

text \<open>
  Saving and restoring the cockpit: the snapshot of the live state, the metadata of a snapshot put back
  onto live panes, the constructor from a snapshot, and the switch to another session (the session
  part of \<open>crates/lmux/src/state.rs\<close>, over the store of \<open>SessionStore\<close>).
\<close>

section \<open>Layouts and titles on disk\<close>

fun dir_to_snapshot :: "dir \<Rightarrow> split_dir" where
  "dir_to_snapshot Horizontal = SD_Horizontal"
| "dir_to_snapshot Vertical = SD_Vertical"

fun dir_from_snapshot :: "split_dir \<Rightarrow> dir" where
  "dir_from_snapshot SD_Horizontal = Horizontal"
| "dir_from_snapshot SD_Vertical = Vertical"

fun layout_to_snapshot :: "layout \<Rightarrow> layout_node" where
  "layout_to_snapshot (Leaf i) = NLeaf i"
| "layout_to_snapshot (Split d a b r) = NSplit (dir_to_snapshot d) (layout_to_snapshot a) (layout_to_snapshot b) r"

fun layout_from_snapshot :: "layout_node \<Rightarrow> layout" where
  "layout_from_snapshot (NLeaf i) = Leaf i"
| "layout_from_snapshot (NSplit d a b r) =
    Split (dir_from_snapshot d) (layout_from_snapshot a) (layout_from_snapshot b) r"

fun provenance_to_snapshot :: "title_provenance \<Rightarrow> prov_snapshot" where
  "provenance_to_snapshot Prov_Default = PS_Default"
| "provenance_to_snapshot Prov_Agent = PS_Agent"
| "provenance_to_snapshot Prov_User = PS_User"

fun provenance_from_snapshot :: "prov_snapshot \<Rightarrow> title_provenance" where
  "provenance_from_snapshot PS_Default = Prov_Default"
| "provenance_from_snapshot PS_Agent = Prov_Agent"
| "provenance_from_snapshot PS_User = Prov_User"

definition pane_title_to_snapshot :: "pane_title \<Rightarrow> pane_title_snapshot" where
  "pane_title_to_snapshot t =
    \<lparr>pts_title = pt_title t, pts_provenance = provenance_to_snapshot (pt_provenance t), pts_pinned = pt_pinned t\<rparr>"

definition pane_title_from_snapshot :: "pane_title_snapshot \<Rightarrow> pane_title" where
  "pane_title_from_snapshot t =
    \<lparr>pt_title = pts_title t, pt_provenance = provenance_from_snapshot (pts_provenance t), pt_pinned = pts_pinned t\<rparr>"

section \<open>The snapshot\<close>

definition satellite_ids :: "app \<Rightarrow> pane_id list" where
  "satellite_ids s = map fst (filter (\<lambda>(i, p). is_satellite p) (hitems (ap_panes s)))"

definition layout_for_snapshot :: "app \<Rightarrow> layout" where
  "layout_for_snapshot s = fold (\<lambda>i l. fst (remove_leaf l i)) (satellite_ids s) (ap_layout s)"

definition tab_stacks :: "app \<Rightarrow> terminal_tab_stack_snapshot list" where
  "tab_stacks s =
    filter (\<lambda>t. tts_tab_roots t \<noteq> [])
      (map (\<lambda>(a, ts). \<lparr>tts_anchor_pane_id = a, tts_tab_roots = filter (live s) ts,
                       tts_active_tab = hget (ap_active_tab s) a\<rparr>)
        (filter (\<lambda>(a, ts). live s a) (hitems (ap_tabs s))))"

definition snapshot :: "world \<Rightarrow> app \<Rightarrow> session_snapshot" where
  "snapshot w s =
    (let anchors = sorted_list_of_set (ap_anchors s) in
     \<lparr>sn_v = SCHEMA_VERSION, sn_created_at = wd_now w,
      sn_anchor_pane_id = (case anchors of [] \<Rightarrow> None | a # _ \<Rightarrow> Some a),
      sn_anchor_pane_ids = anchors,
      sn_layout = layout_to_snapshot (layout_for_snapshot s),
      sn_cwds = btree (List.map_filter (\<lambda>(i, p). map_option (Pair i) (snapshot_cwd w i p)) (hitems (ap_panes s))),
      sn_pane_titles = btree (map (\<lambda>(i, t). (i, pane_title_to_snapshot t))
        (filter (\<lambda>(i, t). live s i) (hitems (ap_pane_titles s)))),
      sn_terminal_tabs = tab_stacks s,
      sn_pane_terminal_tab_roots = btree (filter (\<lambda>(i, r). live s i \<and> live s r) (hitems (ap_tab_roots s)))\<rparr>)"

definition session_anchor_refs :: "world \<Rightarrow> app \<Rightarrow> anchor_ref list" where
  "session_anchor_refs w s =
    map (\<lambda>p. case anchor_spawn_metadata w s p of (argv, cwd) \<Rightarrow>
      \<lparr>ar_pane_id = p, ar_argv = argv, ar_cwd = cwd, ar_hide_on_session_close = (p \<in> ap_hidden s)\<rparr>)
      (sorted_list_of_set (ap_anchors s))"

section \<open>Metadata put back\<close>

definition restore_stack :: "terminal_tab_stack_snapshot \<Rightarrow> app \<Rightarrow> app" where
  "restore_stack st s =
    (let a = tts_anchor_pane_id st; tabs = filter (live s) (tts_tab_roots st) in
     if a \<notin> ap_anchors s then s
     else case tabs of
       [] \<Rightarrow> s
     | t0 # _ \<Rightarrow> s\<lparr>ap_tabs := hput a tabs (ap_tabs s),
         ap_active_tab := hput a (case tts_active_tab st of
             Some t \<Rightarrow> if t \<in> set tabs then t else t0 | None \<Rightarrow> t0) (ap_active_tab s)\<rparr>)"

definition restore_root :: "pane_id \<times> pane_id \<Rightarrow> app \<Rightarrow> app" where
  "restore_root = (\<lambda>(p, r) s.
    case (hget (ap_workspace s) p, hget (ap_workspace s) r) of
      (Some a, Some b) \<Rightarrow>
        if live s p \<and> live s r \<and> a = b \<and>
           (case hget (ap_tabs s) a of Some ts \<Rightarrow> r \<in> set ts | None \<Rightarrow> False)
        then s\<lparr>ap_tab_roots := hput p r (ap_tab_roots s)\<rparr> else s
    | _ \<Rightarrow> s)"

definition restore_persisted_metadata ::
  "world \<Rightarrow> (nat, pane_title_snapshot) hmap \<Rightarrow> terminal_tab_stack_snapshot list \<Rightarrow> (nat, nat) hmap \<Rightarrow>
    app \<Rightarrow> app" where
  "restore_persisted_metadata w titles stacks roots s =
    (let s1 = s\<lparr>ap_pane_titles := fold (\<lambda>(i, t) m. if live s i then hput i (pane_title_from_snapshot t) m else m)
           (hitems titles) [], ap_tabs := [], ap_active_tab := [], ap_tab_roots := []\<rparr>;
         s2 = fold restore_stack stacks s1;
         s3 = fold ensure_terminal_tab_stack (sorted_list_of_set (ap_anchors s2)) s2;
         s4 = fold restore_root (hitems roots) s3;
         s5 = fold (\<lambda>a s. s\<lparr>ap_tab_roots := hput a a (ap_tab_roots s)\<rparr>) (sorted_list_of_set (ap_anchors s4)) s4
     in rebuild_widget_tree (ensure_anchor_invariant w (close_orphan_terminal_panes s5)))"

definition restore_snapshot_metadata :: "world \<Rightarrow> session_snapshot \<Rightarrow> app \<Rightarrow> app" where
  "restore_snapshot_metadata w sn s =
    restore_persisted_metadata w (sn_pane_titles sn) (sn_terminal_tabs sn) (sn_pane_terminal_tab_roots sn) s"

definition restore_session_metadata :: "world \<Rightarrow> session \<Rightarrow> app \<Rightarrow> app" where
  "restore_session_metadata w se s =
    restore_persisted_metadata w (se_pane_titles se) (se_terminal_tabs se) (se_pane_terminal_tab_roots se) s"

section \<open>Fresh panes with their owners\<close>

definition draw_pane_uuids :: "app \<Rightarrow> app" where
  "draw_pane_uuids s =
    fold (\<lambda>i s. case draw_uuid s of (u, s') \<Rightarrow> s'\<lparr>ap_pane_uuids := hput i u (ap_pane_uuids s')\<rparr>)
      (hkeys (ap_panes s)) (s\<lparr>ap_pane_uuids := []\<rparr>)"

text \<open>Every anchor owns itself, and the first one the panes left over.\<close>

definition claim_workspaces :: "bool \<Rightarrow> pane_id set \<Rightarrow> app \<Rightarrow> app" where
  "claim_workspaces with_roots anchors s =
    (let s1 = s\<lparr>ap_workspace := fold (\<lambda>a. hput a a) (sorted_list_of_set anchors) (ap_workspace s)\<rparr>
     in case first_of anchors of
          None \<Rightarrow> s1
        | Some primary \<Rightarrow>
            let unowned = filter (\<lambda>i. \<not> hhas (ap_workspace s1) i) (hkeys (ap_panes s1));
                claim = fold (\<lambda>i. hput i primary) unowned
            in s1\<lparr>ap_workspace := claim (ap_workspace s1),
                  ap_tab_roots := (if with_roots then claim (ap_tab_roots s1) else ap_tab_roots s1)\<rparr>)"

definition restore_anchors :: "world \<Rightarrow> pane_id set \<Rightarrow> app \<Rightarrow> app" where
  "restore_anchors w anchors s = fold (restore_anchor w) (sorted_list_of_set anchors) s"

definition new_from_snapshot ::
  "world \<Rightarrow> (nat \<Rightarrow> uuid) \<Rightarrow> (pane_id, pane) hmap \<Rightarrow> layout \<Rightarrow> pane_id \<Rightarrow> pane_id set \<Rightarrow> nat \<Rightarrow> app" where
  "new_from_snapshot w rng panes l focused anchors next_id =
    (let s1 = rebuild_widget_tree (draw_pane_uuids (app_of rng panes l focused next_id));
         s2 = restore_anchors w anchors (claim_workspaces False anchors s1)
     in case first_of anchors of Some primary \<Rightarrow> set_active_anchor (Some primary) s2 | None \<Rightarrow> s2)"

section \<open>Switching sessions\<close>

record restored =
  rs_panes :: "(pane_id, pane) hmap"
  rs_layout :: layout
  rs_focused :: pane_id
  rs_anchors :: "pane_id set"
  rs_next_id :: nat

definition session_cwd :: "world \<Rightarrow> session \<Rightarrow> pane_id \<Rightarrow> string option" where
  "session_cwd w se i =
    (case hget (se_cwds se) i of
       Some p \<Rightarrow> if wd_is_dir w p then Some p else wd_home w
     | None \<Rightarrow> wd_home w)"

definition build_session_panes :: "world \<Rightarrow> session \<Rightarrow> restored option" where
  "build_session_panes w se =
    (let l0 = layout_from_snapshot (se_layout se);
         ids = leaves l0;
         panes = fold (\<lambda>i m. case pane_new w i (session_cwd w se i) of Some p \<Rightarrow> hput i p m | None \<Rightarrow> m) ids []
     in if hkeys panes = [] then None
        else let l = fold (\<lambda>i l. if hhas panes i then l else fst (remove_leaf l i)) ids l0;
                 anchors = set (filter (hhas panes) (map ar_pane_id (se_anchors se)))
             in Some \<lparr>rs_panes = panes, rs_layout = l,
                  rs_focused = (case first_of anchors of Some a \<Rightarrow> a | None \<Rightarrow> hd (leaves l)),
                  rs_anchors = anchors, rs_next_id = (Max (set (leaves l)) + 1) mod 4294967296\<rparr>)"

definition fresh_session_panes :: "world \<Rightarrow> pane_id \<Rightarrow> restored option" where
  "fresh_session_panes w first =
    map_option (\<lambda>p. \<lparr>rs_panes = [(first, p)], rs_layout = Leaf first, rs_focused = first,
      rs_anchors = {}, rs_next_id = first + 1\<rparr>) (pane_new w first (wd_home w))"

definition outgoing_session :: "world \<Rightarrow> string \<Rightarrow> app \<Rightarrow> session" where
  "outgoing_session w cur s =
    (let sn = snapshot w s in
     \<lparr>se_name = cur, se_created_at = sn_created_at sn, se_last_opened_at = wd_now w, se_layout = sn_layout sn,
      se_cwds = sn_cwds sn, se_anchors = session_anchor_refs w s, se_pane_titles = sn_pane_titles sn,
      se_terminal_tabs = sn_terminal_tabs sn, se_pane_terminal_tab_roots = sn_pane_terminal_tab_roots sn\<rparr>)"

text \<open>After the drain every table of the old session is empty; the next panes move in.\<close>

definition tear_down :: "world \<Rightarrow> app \<Rightarrow> app" where
  "tear_down w s =
    (fst (drain_panes_for_shutdown w s))\<lparr>ap_active := None, ap_registry := [], ap_phase := Running\<rparr>"

definition move_in :: "world \<Rightarrow> session \<Rightarrow> restored \<Rightarrow> app \<Rightarrow> app" where
  "move_in w se r s =
    (let s1 = draw_pane_uuids (s\<lparr>ap_panes := rs_panes r\<rparr>);
         s2 = rebuild_widget_tree (s1\<lparr>ap_pane_titles := [], ap_pane_agents := [], ap_layout := rs_layout r,
                ap_focused := rs_focused r, ap_next_id := rs_next_id r\<rparr>);
         s3 = restore_anchors w (rs_anchors r) (claim_workspaces True (rs_anchors r) s2);
         s4 = restore_session_metadata w se s3;
         s5 = (case first_of (rs_anchors r) of Some a \<Rightarrow> set_active_anchor (Some a) s4 | None \<Rightarrow> s4)
     in notify_anchors_changed s5)"

definition switch_session ::
  "world \<Rightarrow> store_env \<Rightarrow> string \<Rightarrow> app \<times> disk \<Rightarrow> (app \<times> disk) \<times> (app_error + unit)" where
  "switch_session w en target = (\<lambda>(s, d).
    if ap_session s = Some target then ((s, d), Inr ())
    else case store_load en target d of
      (d1, Inl e) \<Rightarrow> ((s, d1), Inl (SwitchLoad target e))
    | (d1, Inr se) \<Rightarrow>
      (case (case ap_session s of
               None \<Rightarrow> (d1, Inr ())
             | Some cur \<Rightarrow> (case store_save en (outgoing_session w cur s) d1 of
                 (d2, Inl e) \<Rightarrow> (d2, Inl (SwitchSave cur e)) | (d2, Inr _) \<Rightarrow> (d2, Inr ()))) of
         (d2, Inl e) \<Rightarrow> ((s, d2), Inl e)
       | (d2, Inr _) \<Rightarrow>
           let s1 = tear_down w s in
           (case or_else (build_session_panes w se) (fresh_session_panes w 1) of
              None \<Rightarrow> ((s1, d2), Inl NoPaneSpawned)
            | Some r \<Rightarrow>
                let s2 = notify_anchors_changed ((move_in w se r s1)\<lparr>ap_session := Some target\<rparr>)
                in ((refresh_focus_css (grab_focus (ap_focused s2) s2), d2), Inr ()))))"

end
