(* ===== verification/AppInvariant.thy ===== *)
theory AppInvariant
  imports AppAgents AppHost AppSession
begin

text \<open>
  The cockpit's invariant: the layout's leaves are the live panes, anchors are live terminals with
  registry entries, every workspace is owned by an anchor, tabs and uuids name live panes. Every
  command of the cockpit is shown to keep it, under the conditions on the command that the code
  leaves to its callers.
\<close>

section \<open>The invariant\<close>

definition panes_ok :: "app \<Rightarrow> bool" where
  "panes_ok s = (distinct (leaves (ap_layout s)) \<and> set (leaves (ap_layout s)) = Collect (live s) \<and>
    (\<forall>i. live s i \<longrightarrow> i < ap_next_id s))"

definition anchors_ok :: "app \<Rightarrow> bool" where
  "anchors_ok s = (ap_hidden s \<subseteq> ap_anchors s \<and> hdom (ap_pane_anchor_ids s) = ap_anchors s \<and>
    (\<forall>a \<in> ap_anchors s. live s a \<and> \<not> satellite_pane s a))"

definition workspace_ok :: "app \<Rightarrow> bool" where
  "workspace_ok s = ((\<forall>p a. hget (ap_workspace s) p = Some a \<longrightarrow> live s p \<and> a \<in> ap_anchors s) \<and>
    (\<forall>a \<in> ap_anchors s. hget (ap_workspace s) a = Some a))"

definition tabs_ok :: "app \<Rightarrow> bool" where
  "tabs_ok s = ((\<forall>a. hget (ap_tabs s) a = None \<longleftrightarrow> hget (ap_active_tab s) a = None) \<and>
    (\<forall>a ts. hget (ap_tabs s) a = Some ts \<longrightarrow> (\<forall>t \<in> set ts. live s t)) \<and>
    (\<forall>a ts t. hget (ap_tabs s) a = Some ts \<longrightarrow> hget (ap_active_tab s) a = Some t \<longrightarrow> t \<in> set ts) \<and>
    (\<forall>p r. hget (ap_tab_roots s) p = Some r \<longrightarrow> live s p))"

definition names_ok :: "app \<Rightarrow> bool" where
  "names_ok s = (hdom (ap_pane_uuids s) = Collect (live s) \<and>
    (\<forall>p t. hget (ap_pane_titles s) p = Some t \<longrightarrow> live s p) \<and>
    (\<forall>p t. hget (ap_pane_agents s) p = Some t \<longrightarrow> live s p))"

definition drawn :: "app \<Rightarrow> (pane_id, uuid) hmap \<Rightarrow> bool" where
  "drawn s m = ((\<forall>p u. hget m p = Some u \<longrightarrow> (\<exists>n < ap_draws s. u = ap_rng s n)) \<and>
    (\<forall>p q u. hget m p = Some u \<longrightarrow> hget m q = Some u \<longrightarrow> p = q))"

definition ids_ok :: "app \<Rightarrow> bool" where
  "ids_ok s = (inj (ap_rng s) \<and> drawn s (ap_pane_uuids s) \<and> drawn s (ap_pane_anchor_ids s) \<and>
    (\<forall>p i. hget (ap_pane_anchor_ids s) p = Some i \<longrightarrow> hget (ap_registry s) i \<noteq> None))"

definition surfaces_ok :: "app \<Rightarrow> bool" where
  "surfaces_ok s = (\<forall>sf p. hget (ap_surface_to_pane s) sf = Some p \<longrightarrow>
    p < ap_next_id s \<and> (live s p \<longrightarrow> satellite_pane s p))"

definition app_ok :: "app \<Rightarrow> bool" where
  "app_ok s = (panes_ok s \<and> anchors_ok s \<and> workspace_ok s \<and> tabs_ok s \<and> names_ok s \<and> ids_ok s \<and> surfaces_ok s)"

text \<open>What holds while a session is put back and its workspaces are claimed ahead of its anchors.\<close>

definition app_core :: "app \<Rightarrow> bool" where
  "app_core s = (panes_ok s \<and> anchors_ok s \<and> tabs_ok s \<and> names_ok s \<and> ids_ok s \<and> surfaces_ok s)"

lemma app_ok_core: "app_ok s = (app_core s \<and> workspace_ok s)"
  by (auto simp: app_ok_def app_core_def)

definition app_inv :: "app \<Rightarrow> bool" where
  "app_inv s = (app_ok s \<and> (case ap_active s of None \<Rightarrow> True | Some a \<Rightarrow> a \<in> ap_anchors s))"

lemma app_inv_same:
  "app_inv s \<Longrightarrow> app_ok s' \<Longrightarrow> ap_anchors s' = ap_anchors s \<Longrightarrow> ap_active s' = ap_active s \<Longrightarrow> app_inv s'"
  by (cases "ap_active s") (simp_all add: app_inv_def)

lemma app_inv_ok: "app_inv s \<Longrightarrow> app_ok s"
  by (simp add: app_inv_def)

lemmas ok_defs = panes_ok_def anchors_ok_def workspace_ok_def tabs_ok_def names_ok_def ids_ok_def
  drawn_def surfaces_ok_def

section \<open>Steps that keep the tables\<close>

lemma tables_eq_fields:
  assumes "tables s = tables s'"
  shows "live s = live s'" "satellite_pane s = satellite_pane s'" "hdom (ap_panes s) = hdom (ap_panes s')"
    "ap_layout s = ap_layout s'" "ap_next_id s = ap_next_id s'" "ap_anchors s = ap_anchors s'"
    "ap_hidden s = ap_hidden s'" "ap_pane_anchor_ids s = ap_pane_anchor_ids s'"
    "ap_workspace s = ap_workspace s'" "ap_tabs s = ap_tabs s'" "ap_active_tab s = ap_active_tab s'"
    "ap_tab_roots s = ap_tab_roots s'" "ap_pane_uuids s = ap_pane_uuids s'"
    "ap_pane_titles s = ap_pane_titles s'" "ap_pane_agents s = ap_pane_agents s'"
    "ap_draws s = ap_draws s'" "ap_rng s = ap_rng s'" "ap_registry s = ap_registry s'"
    "ap_surface_to_pane s = ap_surface_to_pane s'" "ap_grants s = ap_grants s'"
    "ap_satellites s = ap_satellites s'"
proof -
  have b: "map_option pa_body (hget (ap_panes s) i) = map_option pa_body (hget (ap_panes s') i)" for i
    using fun_cong [OF arg_cong [where f = tb_panes, OF assms]] by (simp add: tables_def)
  show l: "live s = live s'"
  proof
    fix i show "live s i = live s' i" using b [of i]
      by (cases "hget (ap_panes s) i"; cases "hget (ap_panes s') i") (auto simp: live_def)
  qed
  show "satellite_pane s = satellite_pane s'"
  proof
    fix i show "satellite_pane s i = satellite_pane s' i" using b [of i]
      by (cases "hget (ap_panes s) i"; cases "hget (ap_panes s') i")
        (auto simp: satellite_pane_def is_satellite_def)
  qed
  show "hdom (ap_panes s) = hdom (ap_panes s')" using fun_cong [OF l] by (auto simp: live_def)
  have r: "tb_rest (tables s) = tb_rest (tables s')" using assms by simp
  note f = arg_cong [OF r]
  show "ap_layout s = ap_layout s'" using f [of ap_layout] by (simp add: tables_def)
  show "ap_next_id s = ap_next_id s'" using f [of ap_next_id] by (simp add: tables_def)
  show "ap_anchors s = ap_anchors s'" using f [of ap_anchors] by (simp add: tables_def)
  show "ap_hidden s = ap_hidden s'" using f [of ap_hidden] by (simp add: tables_def)
  show "ap_pane_anchor_ids s = ap_pane_anchor_ids s'" using f [of ap_pane_anchor_ids] by (simp add: tables_def)
  show "ap_workspace s = ap_workspace s'" using f [of ap_workspace] by (simp add: tables_def)
  show "ap_tabs s = ap_tabs s'" using f [of ap_tabs] by (simp add: tables_def)
  show "ap_active_tab s = ap_active_tab s'" using f [of ap_active_tab] by (simp add: tables_def)
  show "ap_tab_roots s = ap_tab_roots s'" using f [of ap_tab_roots] by (simp add: tables_def)
  show "ap_pane_uuids s = ap_pane_uuids s'" using f [of ap_pane_uuids] by (simp add: tables_def)
  show "ap_pane_titles s = ap_pane_titles s'" using f [of ap_pane_titles] by (simp add: tables_def)
  show "ap_pane_agents s = ap_pane_agents s'" using f [of ap_pane_agents] by (simp add: tables_def)
  show "ap_draws s = ap_draws s'" using f [of ap_draws] by (simp add: tables_def)
  show "ap_rng s = ap_rng s'" using f [of ap_rng] by (simp add: tables_def)
  show "ap_registry s = ap_registry s'" using f [of ap_registry] by (simp add: tables_def)
  show "ap_surface_to_pane s = ap_surface_to_pane s'" using f [of ap_surface_to_pane] by (simp add: tables_def)
  show "ap_grants s = ap_grants s'" using f [of ap_grants] by (simp add: tables_def)
  show "ap_satellites s = ap_satellites s'" using f [of ap_satellites] by (simp add: tables_def)
qed

lemma ok_tables: "tables s = tables s' \<Longrightarrow> app_ok s = app_ok s'"
  by (frule tables_eq_fields(3)) (simp add: app_ok_def ok_defs tables_eq_fields [of s s'])

lemma app_ok_simps [simp]:
  "app_ok (s\<lparr>ap_view := v\<rparr>) = app_ok s" "app_ok (s\<lparr>ap_focused := f\<rparr>) = app_ok s"
  "app_ok (s\<lparr>ap_active := a\<rparr>) = app_ok s"
  "app_ok (emit e s) = app_ok s" "app_ok (rebuild_widget_tree s) = app_ok s"
  "app_ok (grab_focus p s) = app_ok s" "app_ok (refresh_focus_css s) = app_ok s"
  "app_ok (notify_anchors_changed s) = app_ok s" "app_ok (notify_active_anchor_changed s) = app_ok s"
  "app_ok (broadcast_satellite_visibility s) = app_ok s" "app_ok (set_active_anchor t s) = app_ok s"
  "app_ok (set_focused i s) = app_ok s" "app_ok (cycle_focus b s) = app_ok s"
  by (rule ok_tables, simp)+

lemma anchors_simps [simp]:
  "ap_anchors (emit e s) = ap_anchors s" "ap_anchors (rebuild_widget_tree s) = ap_anchors s"
  "ap_anchors (grab_focus p s) = ap_anchors s" "ap_anchors (refresh_focus_css s) = ap_anchors s"
  "ap_anchors (notify_anchors_changed s) = ap_anchors s"
  "ap_anchors (notify_active_anchor_changed s) = ap_anchors s"
  "ap_anchors (broadcast_satellite_visibility s) = ap_anchors s"
  "ap_anchors (set_active_anchor t s) = ap_anchors s"
  "ap_anchors (set_focused i s) = ap_anchors s" "ap_anchors (cycle_focus b s) = ap_anchors s"
  by (rule tables_eq_fields(6), simp)+

lemma inv_simps [simp]:
  "app_inv (emit e s) = app_inv s" "app_inv (rebuild_widget_tree s) = app_inv s"
  "app_inv (grab_focus p s) = app_inv s" "app_inv (refresh_focus_css s) = app_inv s"
  "app_inv (notify_anchors_changed s) = app_inv s"
  "app_inv (broadcast_satellite_visibility s) = app_inv s"
  "app_inv (set_focused i s) = app_inv s" "app_inv (cycle_focus b s) = app_inv s"
  "app_inv (s\<lparr>ap_focused := f\<rparr>) = app_inv s" "app_inv (s\<lparr>ap_view := v\<rparr>) = app_inv s"
  by (simp_all add: app_inv_def split: option.split)

lemmas field_simps [simp] =
  tables_eq_fields [OF tables_view] tables_eq_fields [OF tables_active] tables_eq_fields [OF tables_focused]
  tables_eq_fields [OF tables_emit] tables_eq_fields [OF tables_rebuild] tables_eq_fields [OF tables_grab]
  tables_eq_fields [OF tables_refresh] tables_eq_fields [OF tables_notify(1)]
  tables_eq_fields [OF tables_set_active] tables_eq_fields [OF tables_broadcast]

lemma emit_registry: "(emit e s)\<lparr>ap_registry := r\<rparr> = emit e (s\<lparr>ap_registry := r\<rparr>)"
  by (simp add: emit_def)

lemma inv_set_active: "app_inv s \<Longrightarrow> app_inv (set_active_anchor t s)"
  by (auto simp: app_inv_def active_set_active split: option.splits)

lemma inv_set_active_ok:
  "app_ok s \<Longrightarrow> (case t of Some a \<Rightarrow> a \<in> ap_anchors s | None \<Rightarrow> True) \<Longrightarrow> app_inv (set_active_anchor t s)"
  by (auto simp: app_inv_def active_set_active split: option.splits)

section \<open>Tab tables\<close>

lemma hget_Some_live: "hget (ap_panes s) p = Some q \<Longrightarrow> live s p"
  by (simp add: live_def)

lemma live_leaf: "panes_ok s \<Longrightarrow> live s i \<longleftrightarrow> i \<in> set (leaves (ap_layout s))"
  by (simp add: panes_ok_def)

lemma live_upd [simp]:
  "live (s\<lparr>ap_layout := a\<rparr>) = live s" "live (s\<lparr>ap_workspace := b\<rparr>) = live s"
  "live (s\<lparr>ap_tabs := c\<rparr>) = live s" "live (s\<lparr>ap_active_tab := d\<rparr>) = live s"
  "live (s\<lparr>ap_tab_roots := d\<rparr>) = live s" "live (s\<lparr>ap_anchors := e\<rparr>) = live s"
  "live (s\<lparr>ap_hidden := e\<rparr>) = live s" "live (s\<lparr>ap_registry := r\<rparr>) = live s"
  "live (s\<lparr>ap_pane_anchor_ids := u\<rparr>) = live s" "live (s\<lparr>ap_pane_uuids := u\<rparr>) = live s"
  "live (s\<lparr>ap_pane_titles := pt\<rparr>) = live s" "live (s\<lparr>ap_pane_agents := ag\<rparr>) = live s"
  "live (s\<lparr>ap_surface_to_pane := d\<rparr>) = live s" "live (s\<lparr>ap_next_id := n\<rparr>) = live s"
  "live (s\<lparr>ap_draws := n\<rparr>) = live s" "live (s\<lparr>ap_display := n'\<rparr>) = live s"
  by (rule ext, simp add: live_def)+

lemma satellite_upd [simp]:
  "satellite_pane (s\<lparr>ap_layout := a\<rparr>) = satellite_pane s" "satellite_pane (s\<lparr>ap_workspace := b\<rparr>) = satellite_pane s"
  "satellite_pane (s\<lparr>ap_tabs := c\<rparr>) = satellite_pane s" "satellite_pane (s\<lparr>ap_active_tab := d\<rparr>) = satellite_pane s"
  "satellite_pane (s\<lparr>ap_tab_roots := d\<rparr>) = satellite_pane s" "satellite_pane (s\<lparr>ap_anchors := e\<rparr>) = satellite_pane s"
  "satellite_pane (s\<lparr>ap_hidden := e\<rparr>) = satellite_pane s" "satellite_pane (s\<lparr>ap_registry := r\<rparr>) = satellite_pane s"
  "satellite_pane (s\<lparr>ap_pane_anchor_ids := u\<rparr>) = satellite_pane s" "satellite_pane (s\<lparr>ap_pane_uuids := u\<rparr>) = satellite_pane s"
  "satellite_pane (s\<lparr>ap_pane_titles := pt\<rparr>) = satellite_pane s" "satellite_pane (s\<lparr>ap_pane_agents := ag\<rparr>) = satellite_pane s"
  "satellite_pane (s\<lparr>ap_surface_to_pane := d\<rparr>) = satellite_pane s" "satellite_pane (s\<lparr>ap_next_id := n\<rparr>) = satellite_pane s"
  "satellite_pane (s\<lparr>ap_draws := n\<rparr>) = satellite_pane s" "satellite_pane (s\<lparr>ap_display := n'\<rparr>) = satellite_pane s"
  by (rule ext, simp add: satellite_pane_def)+

lemma live_panes [simp]:
  "live (s\<lparr>ap_panes := hput i p m\<rparr>) j = (j = i \<or> live (s\<lparr>ap_panes := m\<rparr>) j)"
  "live (s\<lparr>ap_panes := hdel i m\<rparr>) j = (j \<noteq> i \<and> live (s\<lparr>ap_panes := m\<rparr>) j)"
  "live (s\<lparr>ap_panes := hmodify i f m\<rparr>) j = live (s\<lparr>ap_panes := m\<rparr>) j"
  "live (s\<lparr>ap_panes := ap_panes s\<rparr>) j = live s j"
  by (auto simp: live_def hget_hput hget_hdel hget_hmodify)

lemma satellite_pane_deleted:
  "i \<noteq> p \<Longrightarrow> satellite_pane (s\<lparr>ap_panes := hdel p m\<rparr>) i = satellite_pane (s\<lparr>ap_panes := m\<rparr>) i"
  "satellite_pane (s\<lparr>ap_panes := ap_panes s\<rparr>) i = satellite_pane s i"
  by (simp_all add: satellite_pane_def)

text \<open>The steps on tab tables touch nothing else.\<close>

lemma ensure_stack_fields [simp]:
  "live (ensure_terminal_tab_stack a s) = live s"
  "satellite_pane (ensure_terminal_tab_stack a s) = satellite_pane s"
  "ap_panes (ensure_terminal_tab_stack a s) = ap_panes s"
  "ap_layout (ensure_terminal_tab_stack a s) = ap_layout s" "ap_next_id (ensure_terminal_tab_stack a s) = ap_next_id s"
  "ap_anchors (ensure_terminal_tab_stack a s) = ap_anchors s" "ap_hidden (ensure_terminal_tab_stack a s) = ap_hidden s"
  "ap_pane_anchor_ids (ensure_terminal_tab_stack a s) = ap_pane_anchor_ids s"
  "ap_workspace (ensure_terminal_tab_stack a s) = ap_workspace s"
  "ap_pane_uuids (ensure_terminal_tab_stack a s) = ap_pane_uuids s"
  "ap_pane_titles (ensure_terminal_tab_stack a s) = ap_pane_titles s"
  "ap_pane_agents (ensure_terminal_tab_stack a s) = ap_pane_agents s"
  "ap_draws (ensure_terminal_tab_stack a s) = ap_draws s" "ap_rng (ensure_terminal_tab_stack a s) = ap_rng s"
  "ap_registry (ensure_terminal_tab_stack a s) = ap_registry s"
  "ap_surface_to_pane (ensure_terminal_tab_stack a s) = ap_surface_to_pane s"
  "ap_active (ensure_terminal_tab_stack a s) = ap_active s" "ap_focused (ensure_terminal_tab_stack a s) = ap_focused s"
  by (simp_all add: ensure_terminal_tab_stack_def)

lemma remove_tab_fields [simp]:
  "live (remove_terminal_tab_metadata a s) = live s"
  "satellite_pane (remove_terminal_tab_metadata a s) = satellite_pane s"
  "ap_panes (remove_terminal_tab_metadata a s) = ap_panes s"
  "ap_layout (remove_terminal_tab_metadata a s) = ap_layout s" "ap_next_id (remove_terminal_tab_metadata a s) = ap_next_id s"
  "ap_anchors (remove_terminal_tab_metadata a s) = ap_anchors s" "ap_hidden (remove_terminal_tab_metadata a s) = ap_hidden s"
  "ap_pane_anchor_ids (remove_terminal_tab_metadata a s) = ap_pane_anchor_ids s"
  "ap_workspace (remove_terminal_tab_metadata a s) = ap_workspace s"
  "ap_pane_uuids (remove_terminal_tab_metadata a s) = ap_pane_uuids s"
  "ap_pane_titles (remove_terminal_tab_metadata a s) = ap_pane_titles s"
  "ap_pane_agents (remove_terminal_tab_metadata a s) = ap_pane_agents s"
  "ap_draws (remove_terminal_tab_metadata a s) = ap_draws s" "ap_rng (remove_terminal_tab_metadata a s) = ap_rng s"
  "ap_registry (remove_terminal_tab_metadata a s) = ap_registry s"
  "ap_surface_to_pane (remove_terminal_tab_metadata a s) = ap_surface_to_pane s"
  "ap_active (remove_terminal_tab_metadata a s) = ap_active s" "ap_focused (remove_terminal_tab_metadata a s) = ap_focused s"
  by (simp_all add: remove_terminal_tab_metadata_def Let_def)

lemma tabs_ok_cong:
  "live s = live s' \<Longrightarrow> ap_tabs s = ap_tabs s' \<Longrightarrow> ap_active_tab s = ap_active_tab s' \<Longrightarrow>
    ap_tab_roots s = ap_tab_roots s' \<Longrightarrow> tabs_ok s = tabs_ok s'"
  by (simp add: tabs_ok_def)

lemma ensure_stack_tabs:
  assumes "tabs_ok s" "live s a"
  shows "tabs_ok (ensure_terminal_tab_stack a s)"
  using assms unfolding tabs_ok_def ensure_stack_fields
  by (auto simp: ensure_terminal_tab_stack_def hget_or_insert split: if_splits)

lemma ensure_stack_core:
  assumes "app_core s" "live s a"
  shows "app_core (ensure_terminal_tab_stack a s)"
  using assms ensure_stack_tabs [of s a]
  by (simp add: app_core_def panes_ok_def anchors_ok_def names_ok_def ids_ok_def drawn_def surfaces_ok_def)

lemma ensure_stack_ok:
  assumes "app_ok s" "live s a"
  shows "app_ok (ensure_terminal_tab_stack a s)"
  using assms ensure_stack_core [of s a] by (simp add: app_ok_core workspace_ok_def)

lemma remove_tab_reads:
  "hget (ap_tabs (remove_terminal_tab_metadata p s)) a =
    (case hget (ap_tabs s) a of
       None \<Rightarrow> None
     | Some ts \<Rightarrow> if filter (\<lambda>t. t \<noteq> p) ts \<noteq> [] \<and> a \<in> ap_anchors s then Some (filter (\<lambda>t. t \<noteq> p) ts) else None)"
  "hget (ap_active_tab (remove_terminal_tab_metadata p s)) a =
    (case hget (ap_tabs (remove_terminal_tab_metadata p s)) a of
       None \<Rightarrow> None
     | Some us \<Rightarrow> map_option (\<lambda>t. if t = p then (case us of u # _ \<Rightarrow> u | [] \<Rightarrow> a) else t) (hget (ap_active_tab s) a))"
  "hget (ap_tab_roots (remove_terminal_tab_metadata p s)) a = (if a = p then None else hget (ap_tab_roots s) a)"
  by (auto simp: remove_terminal_tab_metadata_def Let_def hget_hretain hget_hdel split: option.splits)

lemma filter_head: "filter P xs = y # ys \<Longrightarrow> y \<in> set xs \<and> P y"
  by (induction xs) (auto split: if_splits)

lemma remove_tab_tabs:
  assumes "tabs_ok s"
  shows "tabs_ok (remove_terminal_tab_metadata p s)"
    and "hget (ap_tabs (remove_terminal_tab_metadata p s)) a = Some ts \<Longrightarrow> p \<notin> set ts"
  using assms unfolding tabs_ok_def remove_tab_fields remove_tab_reads
  by (auto split: option.splits if_splits list.splits dest!: filter_head) (metis not_None_eq)+

text \<open>Dropping a pane that is no anchor, in any order of the steps, keeps the invariant.\<close>

lemma dropped_ok:
  assumes ok: "app_ok s" and p: "p \<notin> ap_anchors s"
    and l: "\<And>i. live s' i = (live s i \<and> i \<noteq> p)"
    and sat: "\<And>i. i \<noteq> p \<Longrightarrow> satellite_pane s' i = satellite_pane s i"
    and lay: "leaves (ap_layout s') = filter (\<lambda>i. i \<noteq> p) (leaves (ap_layout s))"
    and same: "ap_next_id s' = ap_next_id s" "ap_anchors s' = ap_anchors s" "ap_hidden s' = ap_hidden s"
      "ap_pane_anchor_ids s' = ap_pane_anchor_ids s" "ap_draws s' = ap_draws s" "ap_rng s' = ap_rng s"
      "ap_registry s' = ap_registry s"
    and surf: "\<And>f q. hget (ap_surface_to_pane s') f = Some q \<Longrightarrow> hget (ap_surface_to_pane s) f = Some q"
    and ws: "\<And>j. hget (ap_workspace s') j = (if j = p then None else hget (ap_workspace s) j)"
    and tabs: "ap_tabs s' = ap_tabs (remove_terminal_tab_metadata p s)"
      "ap_active_tab s' = ap_active_tab (remove_terminal_tab_metadata p s)"
      "ap_tab_roots s' = ap_tab_roots (remove_terminal_tab_metadata p s)"
    and names: "ap_pane_uuids s' = hdel p (ap_pane_uuids s)" "ap_pane_titles s' = hdel p (ap_pane_titles s)"
      "ap_pane_agents s' = hdel p (ap_pane_agents s)"
  shows "app_ok s'"
proof -
  have "panes_ok s'" using ok l lay same(1) by (auto simp: app_ok_def panes_ok_def)
  moreover have "anchors_ok s'" using ok l sat p same by (fastforce simp: app_ok_def anchors_ok_def)
  moreover have "workspace_ok s'" using ok p by (auto simp: app_ok_def workspace_ok_def l ws same)
  moreover have "tabs_ok s'"
  proof -
    have "tabs_ok (remove_terminal_tab_metadata p s)"
      using ok remove_tab_tabs(1) by (simp add: app_ok_def)
    then show ?thesis
      using remove_tab_tabs(2) [of s p] ok unfolding tabs_ok_def tabs l remove_tab_fields app_ok_def
      by (auto simp: remove_tab_reads(3) split: if_splits)
  qed
  moreover have "names_ok s'" using ok l by (auto simp: app_ok_def names_ok_def names hget_hdel)
  moreover have "ids_ok s'"
    using ok unfolding app_ok_def ids_ok_def drawn_def same names by (auto simp: hget_hdel split: if_splits)
  moreover have "surfaces_ok s'"
    unfolding surfaces_ok_def same(1)
  proof (intro allI impI)
    fix f q assume "hget (ap_surface_to_pane s') f = Some q"
    then have "q < ap_next_id s \<and> (live s q \<longrightarrow> satellite_pane s q)"
      using surf ok unfolding app_ok_def surfaces_ok_def by blast
    then show "q < ap_next_id s \<and> (live s' q \<longrightarrow> satellite_pane s' q)" using l sat by simp
  qed
  ultimately show ?thesis by (simp add: app_ok_def)
qed

section \<open>Untagging and tagging\<close>

lemma reg_remove_get: "hget (fst (reg_remove i r)) j = (if j = i then None else hget r j)"
  by (auto simp: reg_remove_def hget_hdel split: option.split)

lemma forget_anchor_fields [simp]:
  "live (forget_anchor a s) = live s" "satellite_pane (forget_anchor a s) = satellite_pane s"
  "ap_panes (forget_anchor a s) = ap_panes s" "ap_layout (forget_anchor a s) = ap_layout s"
  "ap_next_id (forget_anchor a s) = ap_next_id s" "ap_anchors (forget_anchor a s) = ap_anchors s - {a}"
  "ap_hidden (forget_anchor a s) = ap_hidden s - {a}"
  "ap_pane_uuids (forget_anchor a s) = ap_pane_uuids s" "ap_pane_titles (forget_anchor a s) = ap_pane_titles s"
  "ap_pane_agents (forget_anchor a s) = ap_pane_agents s" "ap_tabs (forget_anchor a s) = ap_tabs s"
  "ap_active_tab (forget_anchor a s) = ap_active_tab s" "ap_tab_roots (forget_anchor a s) = ap_tab_roots s"
  "ap_draws (forget_anchor a s) = ap_draws s" "ap_rng (forget_anchor a s) = ap_rng s"
  "ap_surface_to_pane (forget_anchor a s) = ap_surface_to_pane s"
  "ap_active (forget_anchor a s) = ap_active s" "ap_focused (forget_anchor a s) = ap_focused s"
  "ap_workspace (forget_anchor a s) = hretain (\<lambda>_ b. b \<noteq> a) (ap_workspace s)"
  by (simp_all add: forget_anchor_def Let_def split: option.split)

lemma forget_anchor_ids:
  "hget (ap_pane_anchor_ids (forget_anchor a s)) j = (if j = a then None else hget (ap_pane_anchor_ids s) j)"
  "ap_registry (forget_anchor a s) =
    (case hget (ap_pane_anchor_ids s) a of None \<Rightarrow> ap_registry s | Some i \<Rightarrow> fst (reg_remove i (ap_registry s)))"
  by (simp_all add: forget_anchor_def Let_def hget_hdel split: option.split)

lemma forget_anchor_ok:
  assumes ok: "app_ok s"
  shows "app_ok (forget_anchor a s)"
proof -
  have ids: "ids_ok s" and "drawn s (ap_pane_anchor_ids s)" using ok by (simp_all add: app_ok_def ids_ok_def)
  then have inj: "p = q" if "hget (ap_pane_anchor_ids s) p = Some u" "hget (ap_pane_anchor_ids s) q = Some u" for p q u
    using that unfolding drawn_def by blast
  have "panes_ok (forget_anchor a s)" using ok by (simp add: app_ok_def panes_ok_def)
  moreover have "anchors_ok (forget_anchor a s)"
    using ok by (auto simp: app_ok_def anchors_ok_def forget_anchor_ids split: if_splits)
  moreover have "workspace_ok (forget_anchor a s)" using ok by (auto simp: app_ok_def workspace_ok_def)
  moreover have "tabs_ok (forget_anchor a s)" using ok by (simp add: app_ok_def tabs_ok_def)
  moreover have "names_ok (forget_anchor a s)" using ok by (simp add: app_ok_def names_ok_def)
  moreover have "ids_ok (forget_anchor a s)"
  proof -
    have "hget (ap_registry (forget_anchor a s)) i \<noteq> None"
      if "hget (ap_pane_anchor_ids (forget_anchor a s)) p = Some i" for p i
    proof -
      have p: "p \<noteq> a" "hget (ap_pane_anchor_ids s) p = Some i" using that by (simp_all add: forget_anchor_ids split: if_splits)
      then have "hget (ap_registry s) i \<noteq> None" using ids unfolding ids_ok_def by blast
      moreover have "hget (ap_pane_anchor_ids s) a \<noteq> Some i" using inj p by blast
      ultimately show ?thesis by (auto simp: forget_anchor_ids reg_remove_get split: option.split)
    qed
    then show ?thesis using ids by (auto simp: ids_ok_def drawn_def forget_anchor_ids split: if_splits)
  qed
  moreover have "surfaces_ok (forget_anchor a s)" using ok by (simp add: app_ok_def surfaces_ok_def)
  ultimately show ?thesis by (simp add: app_ok_def)
qed

lemma install_anchor_fields [simp]:
  "ap_layout (install_anchor w a s) = ap_layout s"
  "ap_next_id (install_anchor w a s) = ap_next_id s" "ap_anchors (install_anchor w a s) = insert a (ap_anchors s)"
  "ap_hidden (install_anchor w a s) = ap_hidden s"
  "ap_pane_uuids (install_anchor w a s) = ap_pane_uuids s" "ap_pane_titles (install_anchor w a s) = ap_pane_titles s"
  "ap_pane_agents (install_anchor w a s) = ap_pane_agents s" "ap_tabs (install_anchor w a s) = hput a [a] (ap_tabs s)"
  "ap_active_tab (install_anchor w a s) = hput a a (ap_active_tab s)"
  "ap_tab_roots (install_anchor w a s) = hput a a (ap_tab_roots s)"
  "ap_draws (install_anchor w a s) = Suc (Suc (ap_draws s))" "ap_rng (install_anchor w a s) = ap_rng s"
  "ap_surface_to_pane (install_anchor w a s) = ap_surface_to_pane s"
  "ap_active (install_anchor w a s) = ap_active s" "ap_focused (install_anchor w a s) = ap_focused s"
  "ap_workspace (install_anchor w a s) = hput a a (ap_workspace s)"
  "ap_pane_anchor_ids (install_anchor w a s) = hput a (ap_rng s (Suc (ap_draws s))) (ap_pane_anchor_ids s)"
  "hget (ap_registry (install_anchor w a s)) j = None \<longleftrightarrow> j \<noteq> ap_rng s (Suc (ap_draws s)) \<and> hget (ap_registry s) j = None"
  by (auto simp: install_anchor_def Let_def draw_uuid_def reg_insert_def new_manual_def hget_hput split: prod.splits)

lemma install_anchor_panes [simp]:
  "live (install_anchor w a s) = live s" "satellite_pane (install_anchor w a s) = satellite_pane s"
  by (rule ext, auto simp: install_anchor_def Let_def draw_uuid_def live_def satellite_pane_def hget_hmodify is_satellite_def
    split: prod.splits option.splits)+

lemma draw_fresh:
  assumes "inj (ap_rng s)" "drawn s m" "ap_draws s \<le> n"
  shows "hget m p \<noteq> Some (ap_rng s n)"
proof
  assume "hget m p = Some (ap_rng s n)"
  then obtain k where "k < ap_draws s" "ap_rng s n = ap_rng s k" using assms(2) unfolding drawn_def by blast
  then show False using assms(1,3) by (simp add: inj_eq)
qed

lemma drawn_later: "drawn s m \<Longrightarrow> ap_rng t = ap_rng s \<Longrightarrow> ap_draws s \<le> ap_draws t \<Longrightarrow> drawn t m"
  unfolding drawn_def by (metis order.strict_trans2)

lemma drawn_put:
  assumes "inj (ap_rng s)" "drawn s m" "ap_draws s \<le> n" "ap_rng t = ap_rng s" "n < ap_draws t"
  shows "drawn t (hput p (ap_rng s n) m)"
proof -
  have "drawn t m" using assms(2-5) drawn_later by simp
  moreover have "hget m q \<noteq> Some (ap_rng s n)" for q by (rule draw_fresh [OF assms(1-3)])
  ultimately show ?thesis using assms(4,5) unfolding drawn_def by (auto simp: hget_hput split: if_splits)
qed

lemma install_anchor_core:
  assumes ok: "app_core s" and a: "live s a" "\<not> satellite_pane s a" "a \<notin> ap_anchors s"
  shows "app_core (install_anchor w a s)"
proof -
  have "panes_ok (install_anchor w a s)" using ok by (simp add: app_core_def panes_ok_def)
  moreover have "anchors_ok (install_anchor w a s)"
    using ok a unfolding app_core_def anchors_ok_def install_anchor_fields install_anchor_panes hdom_hput by auto
  moreover have "tabs_ok (install_anchor w a s)"
    using ok a by (auto simp: app_core_def tabs_ok_def hget_hput split: if_splits)
  moreover have "names_ok (install_anchor w a s)" using ok by (simp add: app_core_def names_ok_def)
  moreover have "ids_ok (install_anchor w a s)"
  proof -
    let ?t = "install_anchor w a s"
    have i: "inj (ap_rng s)" "drawn s (ap_pane_uuids s)" "drawn s (ap_pane_anchor_ids s)"
      using ok by (simp_all add: app_core_def ids_ok_def)
    have "drawn ?t (ap_pane_uuids ?t)" using drawn_later [OF i(2), of ?t] by simp
    moreover have "drawn ?t (ap_pane_anchor_ids ?t)"
      using drawn_put [OF i(1,3), of "Suc (ap_draws s)" ?t] by simp
    moreover have "hget (ap_registry ?t) i \<noteq> None" if "hget (ap_pane_anchor_ids ?t) p = Some i" for p i
      using that ok by (auto simp: app_core_def ids_ok_def hget_hput split: if_splits)
    ultimately show ?thesis using i(1) by (simp add: ids_ok_def)
  qed
  moreover have "surfaces_ok (install_anchor w a s)" using ok by (simp add: app_core_def surfaces_ok_def)
  ultimately show ?thesis by (simp add: app_core_def)
qed

lemma install_anchor_ok:
  assumes "app_ok s" "live s a" "\<not> satellite_pane s a" "a \<notin> ap_anchors s"
  shows "app_ok (install_anchor w a s)"
  using assms install_anchor_core [of s a w]
  by (auto simp: app_ok_core workspace_ok_def hget_hput split: if_splits)

lemma tag_anchor_ok:
  assumes "app_ok s" "\<not> satellite_pane s a"
  shows "app_ok (fst (tag_anchor_core w a s))"
    and "ap_anchors s \<subseteq> ap_anchors (fst (tag_anchor_core w a s))"
    and "snd (tag_anchor_core w a s) \<Longrightarrow> a \<in> ap_anchors (fst (tag_anchor_core w a s)) \<and> live s a"
    and "live (fst (tag_anchor_core w a s)) = live s"
    and "ap_active (fst (tag_anchor_core w a s)) = ap_active s"
  using assms install_anchor_ok [of s a w] by (auto simp: tag_anchor_core_def split: if_splits)

section \<open>Closing\<close>

lemma kill_pane_fields [simp]:
  "ap_layout (kill_pane a s) = ap_layout s" "ap_next_id (kill_pane a s) = ap_next_id s"
  "ap_anchors (kill_pane a s) = ap_anchors s" "ap_hidden (kill_pane a s) = ap_hidden s"
  "ap_pane_anchor_ids (kill_pane a s) = ap_pane_anchor_ids s" "ap_workspace (kill_pane a s) = ap_workspace s"
  "ap_pane_uuids (kill_pane a s) = ap_pane_uuids s" "ap_pane_titles (kill_pane a s) = ap_pane_titles s"
  "ap_pane_agents (kill_pane a s) = ap_pane_agents s" "ap_tabs (kill_pane a s) = ap_tabs s"
  "ap_active_tab (kill_pane a s) = ap_active_tab s" "ap_tab_roots (kill_pane a s) = ap_tab_roots s"
  "ap_draws (kill_pane a s) = ap_draws s" "ap_rng (kill_pane a s) = ap_rng s"
  "ap_registry (kill_pane a s) = ap_registry s" "ap_surface_to_pane (kill_pane a s) = ap_surface_to_pane s"
  "ap_active (kill_pane a s) = ap_active s" "ap_focused (kill_pane a s) = ap_focused s"
  by (simp_all add: kill_pane_def emit_def)

lemma kill_pane_panes [simp]:
  "live (kill_pane a s) j = (live s j \<and> j \<noteq> a)"
  "satellite_pane (kill_pane a s) j = (satellite_pane s j \<and> j \<noteq> a)"
  by (auto simp: kill_pane_def live_def satellite_pane_def emit_def hget_hdel split: option.split)

lemma forget_names_fields [simp]:
  "live (forget_pane_names a s) = live s" "satellite_pane (forget_pane_names a s) = satellite_pane s"
  "ap_panes (forget_pane_names a s) = ap_panes s"
  "ap_layout (forget_pane_names a s) = ap_layout s" "ap_next_id (forget_pane_names a s) = ap_next_id s"
  "ap_anchors (forget_pane_names a s) = ap_anchors s" "ap_hidden (forget_pane_names a s) = ap_hidden s"
  "ap_pane_anchor_ids (forget_pane_names a s) = ap_pane_anchor_ids s"
  "ap_workspace (forget_pane_names a s) = ap_workspace s"
  "ap_pane_uuids (forget_pane_names a s) = hdel a (ap_pane_uuids s)"
  "ap_pane_titles (forget_pane_names a s) = hdel a (ap_pane_titles s)"
  "ap_pane_agents (forget_pane_names a s) = hdel a (ap_pane_agents s)"
  "ap_tabs (forget_pane_names a s) = ap_tabs s" "ap_active_tab (forget_pane_names a s) = ap_active_tab s"
  "ap_tab_roots (forget_pane_names a s) = ap_tab_roots s"
  "ap_draws (forget_pane_names a s) = ap_draws s" "ap_rng (forget_pane_names a s) = ap_rng s"
  "ap_registry (forget_pane_names a s) = ap_registry s"
  "ap_surface_to_pane (forget_pane_names a s) = ap_surface_to_pane s"
  "ap_active (forget_pane_names a s) = ap_active s" "ap_focused (forget_pane_names a s) = ap_focused s"
  by (simp_all add: forget_pane_names_def)

text \<open>What removing a tab does depends on the anchors and the tab tables alone.\<close>

lemma remove_tab_cong:
  assumes "ap_anchors s = ap_anchors s'" "ap_tabs s = ap_tabs s'" "ap_active_tab s = ap_active_tab s'"
    "ap_tab_roots s = ap_tab_roots s'"
  shows "ap_tabs (remove_terminal_tab_metadata p s) = ap_tabs (remove_terminal_tab_metadata p s')"
    "ap_active_tab (remove_terminal_tab_metadata p s) = ap_active_tab (remove_terminal_tab_metadata p s')"
    "ap_tab_roots (remove_terminal_tab_metadata p s) = ap_tab_roots (remove_terminal_tab_metadata p s')"
  using assms by (simp_all add: remove_terminal_tab_metadata_def Let_def)

lemma removed_leaves:
  "app_ok s \<Longrightarrow> remove_leaf (ap_layout s) p = (l, True) \<Longrightarrow>
    leaves l = filter (\<lambda>i. i \<noteq> p) (leaves (ap_layout s)) \<and> ap_layout s \<noteq> Leaf p"
  using remove_leaf_flag [of "ap_layout s" p] leaves_remove_leaf [of "ap_layout s" p]
  by (auto simp: app_ok_def panes_ok_def)

lemma close_terminal_ok:
  assumes ok: "app_ok s" and p: "p \<notin> ap_anchors s"
  shows "app_ok (fst (close_terminal_pane_without_focus p s))"
proof -
  obtain l b where rl: "remove_leaf (ap_layout s) p = (l, b)" by (cases "remove_leaf (ap_layout s) p")
  show ?thesis
  proof (cases b)
    case True
    then have lv: "leaves l = filter (\<lambda>i. i \<noteq> p) (leaves (ap_layout s))"
      using removed_leaves [OF ok] rl by simp
    show ?thesis
      by (rule dropped_ok [OF ok p])
        (simp_all add: close_terminal_pane_without_focus_def rl True lv hget_hdel
          remove_tab_cong [where s = "forget_pane_names p _" and s' = s])
  next
    case False
    then show ?thesis using ok rl by (simp add: close_terminal_pane_without_focus_def)
  qed
qed

lemma close_terminal_frame [simp]:
  "ap_anchors (fst (close_terminal_pane_without_focus p s)) = ap_anchors s"
  "ap_active (fst (close_terminal_pane_without_focus p s)) = ap_active s"
  by (simp_all add: close_terminal_pane_without_focus_def split: prod.splits)

lemma close_all_ok:
  assumes "app_ok s" "set ps \<inter> ap_anchors s = {}"
  shows "app_ok (fold (\<lambda>i s. fst (close_terminal_pane_without_focus i s)) ps s) \<and>
    ap_anchors (fold (\<lambda>i s. fst (close_terminal_pane_without_focus i s)) ps s) = ap_anchors s \<and>
    ap_active (fold (\<lambda>i s. fst (close_terminal_pane_without_focus i s)) ps s) = ap_active s"
  using assms by (induction ps arbitrary: s) (simp_all add: close_terminal_ok)

lemma close_orphans_ok:
  assumes "app_ok s"
  shows "app_ok (close_orphan_terminal_panes s)"
    "ap_anchors (close_orphan_terminal_panes s) = ap_anchors s"
    "ap_active (close_orphan_terminal_panes s) = ap_active s"
proof -
  have "set (orphan_panes s) \<inter> ap_anchors s = {}"
    by (auto simp: orphan_panes_def List.map_filter_def split: if_splits)
  then show "app_ok (close_orphan_terminal_panes s)"
    "ap_anchors (close_orphan_terminal_panes s) = ap_anchors s"
    "ap_active (close_orphan_terminal_panes s) = ap_active s"
    using close_all_ok [OF assms] by (simp_all add: close_orphan_terminal_panes_def)
qed

lemma anchors_finite: "app_ok s \<Longrightarrow> finite (ap_anchors s)"
  by (metis app_ok_def anchors_ok_def finite_hdom)

section \<open>The active anchor\<close>

lemma first_of_empty [simp]: "first_of {} = None"
  by simp

lemma first_terminal_leaf_live:
  "first_terminal_leaf s = Some p \<Longrightarrow> live s p \<and> \<not> satellite_pane s p"
  by (auto simp: first_terminal_leaf_def find_Some_iff live_def satellite_pane_def split: option.splits)

text \<open>A pane whose owner entry and tab entries go, and which stays.\<close>

lemma released_ok:
  assumes ok: "app_ok s" and p: "p \<notin> ap_anchors s"
  shows "app_ok (remove_terminal_tab_metadata p (s\<lparr>ap_workspace := hdel p (ap_workspace s)\<rparr>))"
proof -
  let ?t = "s\<lparr>ap_workspace := hdel p (ap_workspace s)\<rparr>"
  have "tabs_ok ?t" using ok by (simp add: app_ok_def tabs_ok_def)
  then have "tabs_ok (remove_terminal_tab_metadata p ?t)" by (rule remove_tab_tabs(1))
  then show ?thesis using ok p
    by (auto simp: app_ok_def panes_ok_def anchors_ok_def workspace_ok_def names_ok_def ids_ok_def
      surfaces_ok_def drawn_def hget_hdel split: if_splits)
qed

lemma tagged_active:
  assumes "app_ok s" "\<not> satellite_pane s a" "tag_anchor_core w a s = (s', True)"
    and "\<And>t. app_ok t \<Longrightarrow> app_ok (f t) \<and> ap_anchors (f t) = ap_anchors t \<and> (a \<in> ap_anchors t \<longrightarrow> live (f t) a)"
  shows "app_inv (notify_anchors_changed (set_active_anchor (Some a) (ensure_terminal_tab_stack a (f s'))))"
proof -
  note t = tag_anchor_ok [OF assms(1,2), of w, unfolded assms(3)]
  have a: "a \<in> ap_anchors s'" "live s' a" using t(3,4) by simp_all
  have "app_ok (ensure_terminal_tab_stack a (f s'))"
    using assms(4) [of s'] t(1) a by (auto intro!: ensure_stack_ok)
  then show ?thesis using assms(4) [of s'] t(1) a by (auto intro!: inv_set_active_ok)
qed

lemma ensure_invariant_inv:
  assumes ok: "app_ok s"
  shows "app_inv (ensure_anchor_invariant w s)"
proof (cases "case ap_active s of Some a \<Rightarrow> a \<in> ap_anchors s | None \<Rightarrow> False")
  case True
  then show ?thesis using ok by (auto simp: ensure_anchor_invariant_def app_inv_def split: option.splits)
next
  case no: False
  let ?s = "s\<lparr>ap_active := None\<rparr>"
  have ok0: "app_ok ?s" using ok by simp
  show ?thesis
  proof (cases "first_of (ap_anchors s)")
    case (Some a)
    then have "a \<in> ap_anchors s" using first_of_in anchors_finite [OF ok] by blast
    then show ?thesis using no ok Some
      by (auto simp: ensure_anchor_invariant_def intro!: inv_set_active_ok split: option.splits)
  next
    case fo: None
    then have none: "ap_anchors s = {}" by simp
    show ?thesis
    proof (cases "first_terminal_leaf ?s")
      case None
      then show ?thesis using no ok fo by (simp add: ensure_anchor_invariant_def app_inv_def Let_def)
    next
      case (Some p)
      let ?r = "remove_terminal_tab_metadata p (?s\<lparr>ap_workspace := hdel p (ap_workspace ?s)\<rparr>)"
      have r: "app_ok ?r" using released_ok [OF ok0, of p] none by simp
      have sat: "\<not> satellite_pane ?r p" using first_terminal_leaf_live [OF Some] by simp
      obtain s2 b where t: "tag_anchor_core w p ?r = (s2, b)" by (cases "tag_anchor_core w p ?r")
      have e: "ensure_anchor_invariant w s =
        (if b then notify_anchors_changed (set_active_anchor (Some p) (ensure_terminal_tab_stack p s2)) else s2)"
        using no fo Some t by (simp add: ensure_anchor_invariant_def Let_def)
      have o2: "app_ok s2" using tag_anchor_ok(1) [OF r sat, of w] t by simp
      show ?thesis
      proof (cases b)
        case True
        then have t': "tag_anchor_core w p ?r = (s2, True)" using t by simp
        have "app_inv (notify_anchors_changed (set_active_anchor (Some p) (ensure_terminal_tab_stack p s2)))"
          by (rule tagged_active [where f = "\<lambda>t. t", OF r sat t'])
            (auto simp: app_ok_def anchors_ok_def)
        then show ?thesis using e True by simp
      next
        case False
        have "ap_active s2 = None" using tag_anchor_ok(5) [OF r sat, of w] t by simp
        then show ?thesis using o2 e False by (simp add: app_inv_def)
      qed
    qed
  qed
qed

lemma add_anchor_inv:
  assumes "app_inv s" "\<not> satellite_pane s a"
  shows "app_inv (add_anchor w a s)"
proof -
  have ok: "app_ok s" using assms by (simp add: app_inv_def)
  obtain s1 b where t: "tag_anchor_core w a s = (s1, b)" by (cases "tag_anchor_core w a s")
  show ?thesis
  proof (cases b)
    case True
    then have t': "tag_anchor_core w a s = (s1, True)" using t by simp
    have "app_inv (notify_anchors_changed (set_active_anchor (Some a)
        (ensure_terminal_tab_stack a (close_orphan_terminal_panes s1))))"
      by (rule tagged_active [OF ok assms(2) t'])
        (auto simp: close_orphans_ok, metis app_ok_def anchors_ok_def close_orphans_ok(1,2))
    then show ?thesis using t True by (simp add: add_anchor_def)
  next
    case False
    then have "s1 = s" using t by (auto simp: tag_anchor_core_def split: if_splits)
    then show ?thesis using t False assms by (simp add: add_anchor_def)
  qed
qed

lemma restore_anchor_ok:
  assumes "app_ok s" "\<not> satellite_pane s a"
  shows "app_ok (restore_anchor w a s)"
  using tag_anchor_ok [OF assms, of w]
  by (auto simp: restore_anchor_def split: prod.splits intro!: ensure_stack_ok)

lemma panes_look_ok:
  assumes "app_ok s" "\<And>p. pa_body (f p) = pa_body p"
  shows "app_ok (s\<lparr>ap_panes := hmodify a f (ap_panes s)\<rparr>)"
proof -
  have "tables (s\<lparr>ap_panes := hmodify a f (ap_panes s)\<rparr>) = tables s"
    using assms(2) by (auto simp: tables_def hget_hmodify option.map_comp comp_def)
  then show ?thesis using assms(1) ok_tables by blast
qed

lemma remove_anchor_inv:
  assumes inv: "app_inv s"
  shows "app_inv (remove_anchor w a s)"
proof (cases "a \<in> ap_anchors s")
  case True
  let ?f = "\<lambda>p. p\<lparr>pa_look := (pa_look p)\<lparr>fl_anchor := False, fl_anchor_active := False, fl_visible := True\<rparr>\<rparr>"
  let ?s2 = "(forget_anchor a s)\<lparr>ap_panes := hmodify a ?f (ap_panes s)\<rparr>"
  let ?s3 = "close_orphan_terminal_panes ?s2"
  have "app_ok s" using inv by (simp add: app_inv_def)
  then have "app_ok ?s2" using panes_look_ok [OF forget_anchor_ok, of s ?f a a] by simp
  then have "app_ok ?s3" by (rule close_orphans_ok)
  then show ?thesis using True by (auto simp: remove_anchor_def Let_def intro!: ensure_invariant_inv)
qed (simp add: remove_anchor_def inv)

lemma cycle_anchor_inv:
  assumes "app_inv s" "\<not> satellite_pane s (ap_focused s)"
  shows "app_inv (cycle_active_anchor w s)"
  using assms add_anchor_inv inv_set_active by (simp add: cycle_active_anchor_def Let_def)

end
