(* ===== verification/AppInvariantOps.thy ===== *)
theory AppInvariantOps
  imports AppInvariant
begin

text \<open>
  The invariant of \<open>AppInvariant\<close> under closing, splitting, tabs, new anchors, and the commands on
  existing panes and anchors.
\<close>

section \<open>Closing the focused and the exited pane\<close>

lemma release_closed_fields [simp]:
  "live (release_closed p s) = live s" "satellite_pane (release_closed p s) = satellite_pane s"
  "ap_layout (release_closed p s) = ap_layout s" "ap_next_id (release_closed p s) = ap_next_id s"
  "ap_anchors (release_closed p s) = ap_anchors s - {p}"
  "ap_pane_uuids (release_closed p s) = ap_pane_uuids s" "ap_pane_titles (release_closed p s) = ap_pane_titles s"
  "ap_pane_agents (release_closed p s) = ap_pane_agents s" "ap_tabs (release_closed p s) = ap_tabs s"
  "ap_active_tab (release_closed p s) = ap_active_tab s" "ap_tab_roots (release_closed p s) = ap_tab_roots s"
  "ap_draws (release_closed p s) = ap_draws s" "ap_rng (release_closed p s) = ap_rng s"
  "ap_surface_to_pane (release_closed p s) = ap_surface_to_pane s"
  by (simp_all add: release_closed_def Let_def)

text \<open>Up to the layout, the close starts from this state, which keeps the invariant.\<close>

definition released :: "pane_id \<Rightarrow> app \<Rightarrow> app" where
  "released p s = (if p \<in> ap_anchors s then forget_anchor p s else s)"

lemma released_fields [simp]:
  "live (released p s) = live s" "satellite_pane (released p s) = satellite_pane s"
  "ap_layout (released p s) = ap_layout s" "ap_next_id (released p s) = ap_next_id s"
  "ap_anchors (released p s) = ap_anchors s - {p}"
  "ap_pane_uuids (released p s) = ap_pane_uuids s" "ap_pane_titles (released p s) = ap_pane_titles s"
  "ap_pane_agents (released p s) = ap_pane_agents s" "ap_tabs (released p s) = ap_tabs s"
  "ap_active_tab (released p s) = ap_active_tab s" "ap_tab_roots (released p s) = ap_tab_roots s"
  "ap_draws (released p s) = ap_draws s" "ap_rng (released p s) = ap_rng s"
  "ap_surface_to_pane (released p s) = ap_surface_to_pane s"
  by (simp_all add: released_def)

lemma released_state_ok: "app_ok s \<Longrightarrow> app_ok (released p s)"
  by (simp add: released_def forget_anchor_ok)

lemma forget_layout:
  "forget_anchor p (s\<lparr>ap_layout := l\<rparr>) = (forget_anchor p s)\<lparr>ap_layout := l\<rparr>"
  by (simp add: forget_anchor_def Let_def split: option.split)

lemma release_closed_reads:
  "ap_hidden (release_closed p (s\<lparr>ap_layout := l\<rparr>)) = ap_hidden (released p s)"
  "ap_pane_anchor_ids (release_closed p (s\<lparr>ap_layout := l\<rparr>)) = ap_pane_anchor_ids (released p s)"
  "ap_registry (release_closed p (s\<lparr>ap_layout := l\<rparr>)) = ap_registry (released p s)"
  by (simp_all add: release_closed_def released_def Let_def forget_layout)

lemma release_closed_workspace:
  assumes "app_ok s"
  shows "hget (ap_workspace (release_closed p (s\<lparr>ap_layout := l\<rparr>))) j =
    (if j = p then None else hget (ap_workspace (released p s)) j)"
proof -
  have "p \<in> ap_anchors s \<longrightarrow> hget (ap_workspace s) p = Some p"
    using assms by (auto simp: app_ok_def workspace_ok_def)
  then show ?thesis
    by (auto simp: release_closed_def released_def Let_def forget_layout hget_hretain hget_hdel split: option.split)
qed

lemma release_closed_active:
  "app_inv s \<Longrightarrow> case ap_active (release_closed p (s\<lparr>ap_layout := l\<rparr>)) of None \<Rightarrow> True | Some a \<Rightarrow> a \<in> ap_anchors s"
  by (auto simp: release_closed_def Let_def active_set_active app_inv_def first_of_def split: option.splits if_splits)

lemma closed_ok:
  assumes ok: "app_ok s" and rl: "remove_leaf (ap_layout s) p = (l, True)"
    and st: "\<And>i. live s' i = (live s i \<and> i \<noteq> p)" "\<And>i. i \<noteq> p \<Longrightarrow> satellite_pane s' i = satellite_pane s i"
    and fields: "ap_layout s' = l" "ap_next_id s' = ap_next_id s" "ap_anchors s' = ap_anchors s - {p}"
      "ap_hidden s' = ap_hidden (released p s)" "ap_pane_anchor_ids s' = ap_pane_anchor_ids (released p s)"
      "ap_draws s' = ap_draws s" "ap_rng s' = ap_rng s" "ap_registry s' = ap_registry (released p s)"
      "ap_surface_to_pane s' = ap_surface_to_pane s"
      "ap_workspace s' = ap_workspace (release_closed p (s\<lparr>ap_layout := l\<rparr>))"
      "ap_tabs s' = ap_tabs (remove_terminal_tab_metadata p (released p s))"
      "ap_active_tab s' = ap_active_tab (remove_terminal_tab_metadata p (released p s))"
      "ap_tab_roots s' = ap_tab_roots (remove_terminal_tab_metadata p (released p s))"
      "ap_pane_uuids s' = hdel p (ap_pane_uuids s)" "ap_pane_titles s' = hdel p (ap_pane_titles s)"
      "ap_pane_agents s' = hdel p (ap_pane_agents s)"
  shows "app_ok s'"
proof (rule dropped_ok [where s = "released p s" and p = p])
  show "app_ok (released p s)" using ok by (rule released_state_ok)
  show "leaves (ap_layout s') = filter (\<lambda>i. i \<noteq> p) (leaves (ap_layout (released p s)))"
    using removed_leaves [OF ok rl] fields(1) by simp
qed (use st fields release_closed_workspace [OF ok] in simp_all)

lemma close_focused_inv:
  assumes "app_ok s"
  shows "app_ok (close_focused w s)" "app_inv s \<Longrightarrow> app_inv (close_focused w s)"
proof -
  let ?t = "ap_focused s"
  obtain l b where rl: "remove_leaf (ap_layout s) ?t = (l, b)" by (cases "remove_leaf (ap_layout s) ?t")
  have "app_inv (close_focused w s)" if b: "b" and nl: "ap_layout s \<noteq> Leaf ?t"
  proof -
    have rl': "remove_leaf (ap_layout s) ?t = (l, True)" using rl b by simp
    let ?s1 = "release_closed ?t (s\<lparr>ap_layout := l\<rparr>)"
    have lv: "live s ?t" using assms rl' remove_leaf_flag [of "ap_layout s" ?t] live_leaf [of s ?t]
      by (simp add: app_ok_def)
    have "app_ok (kill_pane ?t (remove_terminal_tab_metadata ?t (forget_pane_names ?t ?s1)))"
      by (rule closed_ok [OF assms rl'])
        (simp_all add: release_closed_reads remove_tab_cong [where s = "forget_pane_names _ _" and s' = "released ?t s"])
    then show ?thesis
      using b nl rl lv ensure_invariant_inv close_orphans_ok
      by (simp add: close_focused_def Let_def)
  qed
  moreover have "close_focused w s = s" if "\<not> (b \<and> ap_layout s \<noteq> Leaf ?t)"
    using that rl by (auto simp: close_focused_def Let_def)
  ultimately show "app_ok (close_focused w s)" "app_inv s \<Longrightarrow> app_inv (close_focused w s)"
    using assms by (metis app_inv_def)+
qed

lemma close_exited_inv:
  assumes "app_ok s"
  shows "app_ok (close_exited_pane w p s)" "app_inv s \<Longrightarrow> app_inv (close_exited_pane w p s)"
proof -
  obtain l b where rl: "remove_leaf (ap_layout s) p = (l, b)" by (cases "remove_leaf (ap_layout s) p")
  let ?go = "b \<and> ap_layout s \<noteq> Leaf p \<and> (case hget (ap_panes s) p of Some q \<Rightarrow> has_exited w p q | None \<Rightarrow> False)"
  have "app_inv (close_exited_pane w p s)" if go: ?go
  proof -
    have rl': "remove_leaf (ap_layout s) p = (l, True)" using rl go by simp
    let ?s1 = "release_closed p (s\<lparr>ap_layout := l\<rparr>)"
    have "app_ok (remove_terminal_tab_metadata p (forget_pane_names p (?s1\<lparr>ap_panes := hdel p (ap_panes ?s1)\<rparr>)))"
      by (rule closed_ok [OF assms rl'])
        (auto simp: release_closed_reads satellite_pane_deleted
          remove_tab_cong [where s = "forget_pane_names _ _" and s' = "released p s"])
    then show ?thesis
      using go rl ensure_invariant_inv close_orphans_ok
      by (simp add: close_exited_pane_def Let_def)
  qed
  moreover have "close_exited_pane w p s = s" if "\<not> ?go"
    using that rl by (auto simp: close_exited_pane_def Let_def)
  ultimately show "app_ok (close_exited_pane w p s)" "app_inv s \<Longrightarrow> app_inv (close_exited_pane w p s)"
    using assms by (metis app_inv_def)+
qed

section \<open>New panes\<close>

lemma added_ok:
  assumes ok: "app_ok s" and i: "i = ap_next_id s" and next_id: "ap_next_id s' = Suc i"
    and l: "\<And>j. live s' j = (live s j \<or> j = i)"
    and sat: "\<And>j. j \<noteq> i \<Longrightarrow> satellite_pane s' j = satellite_pane s j"
    and lay: "distinct (leaves (ap_layout s'))" "set (leaves (ap_layout s')) = insert i (set (leaves (ap_layout s)))"
    and same: "ap_anchors s' = ap_anchors s" "ap_hidden s' = ap_hidden s" "ap_rng s' = ap_rng s"
      "ap_pane_anchor_ids s' = ap_pane_anchor_ids s" "ap_registry s' = ap_registry s"
    and draws: "ap_draws s' = Suc (ap_draws s)" "ap_pane_uuids s' = hput i (ap_rng s (ap_draws s)) (ap_pane_uuids s)"
    and ws: "\<And>j. j \<noteq> i \<Longrightarrow> hget (ap_workspace s') j = hget (ap_workspace s) j"
      "\<And>a. hget (ap_workspace s') i = Some a \<Longrightarrow> a \<in> ap_anchors s"
    and tabs: "tabs_ok s'"
    and names: "\<And>j t. hget (ap_pane_titles s') j = Some t \<Longrightarrow> j = i \<or> hget (ap_pane_titles s) j = Some t"
      "\<And>j t. hget (ap_pane_agents s') j = Some t \<Longrightarrow> j = i \<or> hget (ap_pane_agents s) j = Some t"
    and surf: "\<And>f q. hget (ap_surface_to_pane s') f = Some q \<Longrightarrow>
      hget (ap_surface_to_pane s) f = Some q \<or> q = i \<and> satellite_pane s' i"
  shows "app_ok s'"
proof -
  have new: "\<not> live s i" using ok i by (auto simp: app_ok_def panes_ok_def)
  then have na: "i \<notin> ap_anchors s" using ok by (auto simp: app_ok_def anchors_ok_def)
  have "panes_ok s'" using ok l lay i next_id by (auto simp: app_ok_def panes_ok_def less_Suc_eq)
  moreover have "anchors_ok s'"
    using ok l sat na same unfolding app_ok_def anchors_ok_def by metis
  moreover have "workspace_ok s'"
    unfolding workspace_ok_def same(1)
  proof (intro conjI allI impI ballI)
    fix p a assume h: "hget (ap_workspace s') p = Some a"
    show "live s' p" using h ws(1) ok l by (cases "p = i") (auto simp: app_ok_def workspace_ok_def)
    show "a \<in> ap_anchors s" using h ws ok by (cases "p = i") (auto simp: app_ok_def workspace_ok_def)
  next
    fix a assume "a \<in> ap_anchors s"
    then show "hget (ap_workspace s') a = Some a" using ok ws(1) [of a] na
      by (auto simp: app_ok_def workspace_ok_def)
  qed
  moreover have "names_ok s'"
    unfolding names_ok_def draws
  proof (intro conjI allI impI)
    show "hdom (hput i (ap_rng s (ap_draws s)) (ap_pane_uuids s)) = Collect (live s')"
      using ok l unfolding hdom_hput app_ok_def names_ok_def by auto
    show "live s' p" if "hget (ap_pane_titles s') p = Some t" for p t
      using names(1) [OF that] ok l by (auto simp: app_ok_def names_ok_def)
    show "live s' p" if "hget (ap_pane_agents s') p = Some t" for p t
      using names(2) [OF that] ok l by (auto simp: app_ok_def names_ok_def)
  qed
  moreover have "ids_ok s'"
  proof -
    have o: "inj (ap_rng s)" "drawn s (ap_pane_uuids s)" "drawn s (ap_pane_anchor_ids s)"
      using ok by (simp_all add: app_ok_def ids_ok_def)
    have "drawn s' (ap_pane_uuids s')"
      using drawn_put [OF o(1,2), of "ap_draws s" s' i] draws same by simp
    moreover have "drawn s' (ap_pane_anchor_ids s')" using drawn_later [OF o(3), of s'] draws same by simp
    ultimately show ?thesis using ok same by (simp add: app_ok_def ids_ok_def)
  qed
  moreover have "surfaces_ok s'"
    unfolding surfaces_ok_def
  proof (intro allI impI)
    fix f q assume h: "hget (ap_surface_to_pane s') f = Some q"
    show "q < ap_next_id s' \<and> (live s' q \<longrightarrow> satellite_pane s' q)"
    proof (cases "q = i")
      case True
      have "hget (ap_surface_to_pane s) f \<noteq> Some i"
        using ok i by (fastforce simp: app_ok_def surfaces_ok_def)
      then show ?thesis using surf [OF h] True next_id by simp
    next
      case False
      then have "q < ap_next_id s \<and> (live s q \<longrightarrow> satellite_pane s q)"
        using surf [OF h] ok unfolding app_ok_def surfaces_ok_def by blast
      then show ?thesis using False l sat next_id i by simp
    qed
  qed
  ultimately show ?thesis using tabs by (simp add: app_ok_def)
qed

text \<open>A pane made and unmade again leaves only a used id and a used uuid.\<close>

lemma unchanged_ok:
  assumes ok: "app_ok s" and l: "live s' = live s" and sat: "satellite_pane s' = satellite_pane s"
    and same: "ap_layout s' = ap_layout s" "ap_anchors s' = ap_anchors s" "ap_hidden s' = ap_hidden s"
      "ap_rng s' = ap_rng s" "ap_pane_anchor_ids s' = ap_pane_anchor_ids s" "ap_registry s' = ap_registry s"
      "ap_workspace s' = ap_workspace s" "ap_surface_to_pane s' = ap_surface_to_pane s"
    and grows: "ap_next_id s \<le> ap_next_id s'" "ap_draws s \<le> ap_draws s'"
    and names: "\<And>j. hget (ap_pane_uuids s') j = hget (ap_pane_uuids s) j"
      "\<And>j t. hget (ap_pane_titles s') j = Some t \<Longrightarrow> hget (ap_pane_titles s) j = Some t"
      "\<And>j t. hget (ap_pane_agents s') j = Some t \<Longrightarrow> hget (ap_pane_agents s) j = Some t"
    and tabs: "tabs_ok s'"
  shows "app_ok s'"
proof -
  have "panes_ok s'" using ok grows by (auto simp: app_ok_def panes_ok_def l same intro: order.strict_trans2)
  moreover have "anchors_ok s'" using ok by (simp add: app_ok_def anchors_ok_def l sat same)
  moreover have "workspace_ok s'" using ok by (simp add: app_ok_def workspace_ok_def l same)
  moreover have "names_ok s'" using ok names unfolding app_ok_def names_ok_def l by auto
  moreover have "ids_ok s'"
  proof -
    have "drawn s (ap_pane_uuids s')" using ok names(1) by (simp add: app_ok_def ids_ok_def drawn_def)
    then have "drawn s' (ap_pane_uuids s')" using grows same drawn_later by blast
    moreover have "drawn s' (ap_pane_anchor_ids s')"
      using ok grows same drawn_later by (metis app_ok_def ids_ok_def)
    ultimately show ?thesis using ok by (simp add: app_ok_def ids_ok_def same)
  qed
  moreover have "surfaces_ok s'"
    using ok grows unfolding app_ok_def surfaces_ok_def l sat same by (meson order.strict_trans2)
  ultimately show ?thesis using tabs by (simp add: app_ok_def)
qed

lemma spliced:
  assumes "app_ok s" "splice_leaf d t (ap_next_id s) u = (u', b)" "ap_layout u = ap_layout s"
  shows "b \<longleftrightarrow> live s t" "u' = u\<lparr>ap_layout := ap_layout u'\<rparr>" "\<not> b \<Longrightarrow> u' = u"
    "live s t \<Longrightarrow> distinct (leaves (ap_layout u'))"
    "live s t \<Longrightarrow> set (leaves (ap_layout u')) = insert (ap_next_id s) (set (leaves (ap_layout s)))"
proof -
  let ?f = "\<lambda>i. Split d (Leaf i) (Leaf (ap_next_id s)) (1 / 2)"
  obtain l where r: "replace_leaf (ap_layout s) t ?f = (l, b)" "u' = u\<lparr>ap_layout := l\<rparr>"
    using assms by (auto simp: splice_leaf_def split: prod.splits)
  have p: "panes_ok s" using assms by (simp add: app_ok_def)
  show b: "b \<longleftrightarrow> live s t" using replace_leaf_flag [of "ap_layout s" t ?f] live_leaf [OF p] r by simp
  show "u' = u\<lparr>ap_layout := ap_layout u'\<rparr>" using r by simp
  show "u' = u" if "\<not> b"
    using replace_leaf_miss [of t "ap_layout s" ?f] replace_leaf_flag [of "ap_layout s" t ?f] r assms(3) that by simp
  have d: "distinct (leaves (ap_layout s))" using p by (simp add: panes_ok_def)
  have sp: "leaves l = splice_at t [t, ap_next_id s] (leaves (ap_layout s))"
    using leaves_replace_leaf [OF d, of t ?f] r by simp
  have new: "ap_next_id s \<notin> set (leaves (ap_layout s))" using p by (auto simp: panes_ok_def)
  show "distinct (leaves (ap_layout u'))" if "live s t"
    using sp r d new that live_leaf [OF p, of t] by (auto intro!: distinct_splice_at)
  show "set (leaves (ap_layout u')) = insert (ap_next_id s) (set (leaves (ap_layout s)))" if "live s t"
    using sp r that live_leaf [OF p, of t] by (auto simp: set_splice_at)
qed

lemma insert_pane_fields [simp]:
  "ap_layout (fst (insert_pane i p s)) = ap_layout s" "ap_next_id (fst (insert_pane i p s)) = ap_next_id s"
  "ap_anchors (fst (insert_pane i p s)) = ap_anchors s" "ap_hidden (fst (insert_pane i p s)) = ap_hidden s"
  "ap_pane_anchor_ids (fst (insert_pane i p s)) = ap_pane_anchor_ids s"
  "ap_workspace (fst (insert_pane i p s)) = ap_workspace s"
  "ap_pane_uuids (fst (insert_pane i p s)) = hput i (ap_rng s (ap_draws s)) (ap_pane_uuids s)"
  "ap_pane_titles (fst (insert_pane i p s)) = ap_pane_titles s"
  "ap_pane_agents (fst (insert_pane i p s)) = ap_pane_agents s" "ap_tabs (fst (insert_pane i p s)) = ap_tabs s"
  "ap_active_tab (fst (insert_pane i p s)) = ap_active_tab s" "ap_tab_roots (fst (insert_pane i p s)) = ap_tab_roots s"
  "ap_draws (fst (insert_pane i p s)) = Suc (ap_draws s)" "ap_rng (fst (insert_pane i p s)) = ap_rng s"
  "ap_registry (fst (insert_pane i p s)) = ap_registry s" "ap_active (fst (insert_pane i p s)) = ap_active s"
  "ap_surface_to_pane (fst (insert_pane i p s)) = ap_surface_to_pane s"
  "ap_focused (fst (insert_pane i p s)) = ap_focused s"
  by (simp_all add: insert_pane_def draw_uuid_def)

lemma insert_pane_panes [simp]:
  "live (fst (insert_pane i p s)) j = (live s j \<or> j = i)"
  "satellite_pane (fst (insert_pane i p s)) j = (if j = i then is_satellite p else satellite_pane s j)"
  by (auto simp: insert_pane_def draw_uuid_def live_def satellite_pane_def hget_hput split: option.split)

lemma undo_insert_fields [simp]:
  "ap_layout (undo_insert i s) = ap_layout s" "ap_next_id (undo_insert i s) = ap_next_id s"
  "ap_anchors (undo_insert i s) = ap_anchors s" "ap_hidden (undo_insert i s) = ap_hidden s"
  "ap_pane_anchor_ids (undo_insert i s) = ap_pane_anchor_ids s" "ap_workspace (undo_insert i s) = ap_workspace s"
  "ap_pane_uuids (undo_insert i s) = hdel i (ap_pane_uuids s)"
  "ap_pane_titles (undo_insert i s) = hdel i (ap_pane_titles s)"
  "ap_pane_agents (undo_insert i s) = hdel i (ap_pane_agents s)"
  "ap_draws (undo_insert i s) = ap_draws s" "ap_rng (undo_insert i s) = ap_rng s"
  "ap_registry (undo_insert i s) = ap_registry s" "ap_active (undo_insert i s) = ap_active s"
  "ap_surface_to_pane (undo_insert i s) = ap_surface_to_pane s"
  by (simp_all add: undo_insert_def)

lemma undo_insert_panes [simp]:
  "live (undo_insert i s) j = (live s j \<and> j \<noteq> i)"
  "satellite_pane (undo_insert i s) j = (satellite_pane s j \<and> j \<noteq> i)"
  by (auto simp: undo_insert_def live_def satellite_pane_def hget_hdel split: option.split)

lemma bump_fields [simp]:
  "live (bump_next_id s) = live s" "satellite_pane (bump_next_id s) = satellite_pane s"
  "ap_panes (bump_next_id s) = ap_panes s"
  "ap_layout (bump_next_id s) = ap_layout s" "ap_anchors (bump_next_id s) = ap_anchors s"
  "ap_hidden (bump_next_id s) = ap_hidden s" "ap_pane_anchor_ids (bump_next_id s) = ap_pane_anchor_ids s"
  "ap_workspace (bump_next_id s) = ap_workspace s" "ap_pane_uuids (bump_next_id s) = ap_pane_uuids s"
  "ap_pane_titles (bump_next_id s) = ap_pane_titles s" "ap_pane_agents (bump_next_id s) = ap_pane_agents s"
  "ap_tabs (bump_next_id s) = ap_tabs s" "ap_active_tab (bump_next_id s) = ap_active_tab s"
  "ap_tab_roots (bump_next_id s) = ap_tab_roots s" "ap_draws (bump_next_id s) = ap_draws s"
  "ap_rng (bump_next_id s) = ap_rng s" "ap_registry (bump_next_id s) = ap_registry s"
  "ap_surface_to_pane (bump_next_id s) = ap_surface_to_pane s" "ap_active (bump_next_id s) = ap_active s"
  "ap_focused (bump_next_id s) = ap_focused s"
  by (simp_all add: bump_next_id_def)

lemma bump_next: "ap_next_id s < u32_max \<Longrightarrow> ap_next_id (bump_next_id s) = Suc (ap_next_id s)"
  "ap_next_id s \<le> u32_max \<Longrightarrow> ap_next_id s \<le> ap_next_id (bump_next_id s)"
  by (simp_all add: bump_next_id_def sat_add_u32_def)

lemma inherit_fields [simp]:
  "live (inherit_workspace t i s) = live s" "satellite_pane (inherit_workspace t i s) = satellite_pane s"
  "ap_layout (inherit_workspace t i s) = ap_layout s" "ap_anchors (inherit_workspace t i s) = ap_anchors s"
  "ap_next_id (inherit_workspace t i s) = ap_next_id s"
  "ap_hidden (inherit_workspace t i s) = ap_hidden s" "ap_pane_anchor_ids (inherit_workspace t i s) = ap_pane_anchor_ids s"
  "ap_pane_uuids (inherit_workspace t i s) = ap_pane_uuids s"
  "ap_pane_titles (inherit_workspace t i s) = ap_pane_titles s" "ap_pane_agents (inherit_workspace t i s) = ap_pane_agents s"
  "ap_tabs (inherit_workspace t i s) = ap_tabs s" "ap_active_tab (inherit_workspace t i s) = ap_active_tab s"
  "ap_draws (inherit_workspace t i s) = ap_draws s"
  "ap_rng (inherit_workspace t i s) = ap_rng s" "ap_registry (inherit_workspace t i s) = ap_registry s"
  "ap_surface_to_pane (inherit_workspace t i s) = ap_surface_to_pane s" "ap_active (inherit_workspace t i s) = ap_active s"
  "ap_focused (inherit_workspace t i s) = ap_focused s"
  by (simp_all add: inherit_workspace_def Let_def split: option.split)

lemma inherit_other: "j \<noteq> i \<Longrightarrow> hget (ap_workspace (inherit_workspace t i s)) j = hget (ap_workspace s) j"
  by (simp add: inherit_workspace_def Let_def split: option.split)

lemma tabs_ok_mono:
  assumes "tabs_ok s" "\<And>j. live s j \<Longrightarrow> live s' j" "ap_tabs s' = ap_tabs s" "ap_active_tab s' = ap_active_tab s"
    "\<And>j. hget (ap_tab_roots s') j = hget (ap_tab_roots s) j \<or> live s' j"
  shows "tabs_ok s'"
  using assms(1,2) assms(5) unfolding tabs_ok_def assms(3,4) by metis

lemma undo_tabs:
  assumes "tabs_ok t" "ap_anchors u = ap_anchors t" "ap_tabs u = ap_tabs t" "ap_active_tab u = ap_active_tab t"
    "\<And>j. hget (ap_tab_roots u) j = hget (ap_tab_roots t) j" "\<And>j. live u j = (live t j \<or> j = i)"
  shows "tabs_ok (undo_insert i u)"
proof -
  let ?v = "remove_terminal_tab_metadata i t"
  have r: "tabs_ok ?v" "\<And>a ts. hget (ap_tabs ?v) a = Some ts \<Longrightarrow> i \<notin> set ts"
    using remove_tab_tabs [OF assms(1)] by auto
  have e: "ap_tabs (undo_insert i u) = ap_tabs ?v" "ap_active_tab (undo_insert i u) = ap_active_tab ?v"
    "hget (ap_tab_roots (undo_insert i u)) j = hget (ap_tab_roots ?v) j" for j
    using assms(2-5) by (simp_all add: undo_insert_def remove_terminal_tab_metadata_def Let_def hget_hdel)
  show ?thesis using r unfolding tabs_ok_def e undo_insert_panes assms(6)
    by (auto simp: remove_tab_reads(3) split: if_splits)
qed

lemma uuid_live: "names_ok s \<Longrightarrow> hget (ap_pane_uuids s) p = None \<longleftrightarrow> \<not> live s p"
  unfolding names_ok_def set_eq_iff mem_Collect_eq by blast

lemma unmade_ok:
  assumes ok: "app_ok s" and i: "i = ap_next_id s" "i \<le> u32_max"
  shows "app_ok (undo_insert i (bump_next_id (fst (insert_pane i p s))))"
proof -
  have new: "\<not> live s i" using ok i by (auto simp: app_ok_def panes_ok_def)
  then have no: "hget (ap_pane_uuids s) i = None" "\<not> satellite_pane s i"
    using ok uuid_live [of s i] by (auto simp: app_ok_def live_def satellite_pane_def)
  show ?thesis
  proof (rule unchanged_ok [OF ok])
    show "tabs_ok (undo_insert i (bump_next_id (fst (insert_pane i p s))))"
      using ok by (auto simp: app_ok_def intro!: undo_tabs [where t = s])
  qed (use new no i bump_next(2) [of "fst (insert_pane i p s)"] in \<open>auto simp: hget_hdel hget_hput fun_eq_iff split: if_splits\<close>)
qed

lemma split_focused_inv:
  assumes ok: "app_ok s" and n: "ap_next_id s < u32_max"
  shows "app_ok (split_focused w d s)"
proof (cases "pane_new w (ap_next_id s) (target_cwd w s (ap_focused s))")
  case None
  then show ?thesis using ok by (simp add: split_focused_def)
next
  case (Some p)
  let ?i = "ap_next_id s" and ?t = "ap_focused s"
  let ?s1 = "bump_next_id (inherit_workspace ?t ?i (fst (insert_pane ?i p s)))"
  obtain s2 b where sp: "splice_leaf d ?t ?i ?s1 = (s2, b)" by (cases "splice_leaf d ?t ?i ?s1")
  note sl = spliced [OF ok sp]
  have e: "split_focused w d s = (if b then rebuild_widget_tree s2 else undo_insert ?i ?s1)"
    using Some sp by (simp add: split_focused_def Let_def)
  show ?thesis
  proof (cases "live s ?t")
    case False
    then have "hget (ap_workspace s) ?t = None"
      using ok by (cases "hget (ap_workspace s) ?t") (auto simp: app_ok_def workspace_ok_def)
    then have "?s1 = bump_next_id (fst (insert_pane ?i p s))" by (simp add: inherit_workspace_def)
    then show ?thesis using e False sl(1) unmade_ok [OF ok refl] n by simp
  next
    case True
    define l where "l = ap_layout s2"
    have s2: "s2 = ?s1\<lparr>ap_layout := l\<rparr>" using sl(2) by (simp add: l_def)
    have lay: "distinct (leaves l)" "set (leaves l) = insert ?i (set (leaves (ap_layout s)))"
      using sl(4,5) [OF _ True] by (simp_all add: l_def)
    have "app_ok s2"
    proof (rule added_ok [OF ok refl])
      show "tabs_ok s2"
        by (rule tabs_ok_mono [of s])
          (use ok in \<open>auto simp: s2 app_ok_def inherit_workspace_def Let_def hget_hput split: option.split\<close>)
      show "hget (ap_workspace s2) ?i = Some a \<Longrightarrow> a \<in> ap_anchors s" for a
        using ok by (auto simp: s2 inherit_workspace_def Let_def app_ok_def workspace_ok_def panes_ok_def split: option.splits)
    qed (use lay n in \<open>auto simp: s2 bump_next inherit_other\<close>)
    then show ?thesis using e True sl(1) by simp
  qed
qed

lemma split_focused_frame:
  "ap_anchors (split_focused w d s) = ap_anchors s" "ap_active (split_focused w d s) = ap_active s"
  by (auto simp: split_focused_def Let_def splice_leaf_def split: option.split prod.splits)

lemma split_focused_active: "app_inv s \<Longrightarrow> ap_next_id s < u32_max \<Longrightarrow> app_inv (split_focused w d s)"
  by (rule app_inv_same [of s]) (simp_all add: split_focused_inv split_focused_frame app_inv_def)

lemma push_tab_reads:
  "hget (ap_tabs (push_tab a i s)) b =
    (if b = a then Some ((case hget (ap_tabs s) a of Some ts \<Rightarrow> ts | None \<Rightarrow> [a]) @ [i]) else hget (ap_tabs s) b)"
  by (simp add: push_tab_def hget_hput)

lemma push_tab_fields [simp]:
  "live (push_tab a i s) = live s" "satellite_pane (push_tab a i s) = satellite_pane s"
  "ap_layout (push_tab a i s) = ap_layout s" "ap_anchors (push_tab a i s) = ap_anchors s"
  "ap_next_id (push_tab a i s) = ap_next_id s" "ap_panes (push_tab a i s) = ap_panes s"
  "ap_hidden (push_tab a i s) = ap_hidden s" "ap_pane_anchor_ids (push_tab a i s) = ap_pane_anchor_ids s"
  "ap_workspace (push_tab a i s) = ap_workspace s" "ap_pane_uuids (push_tab a i s) = ap_pane_uuids s"
  "ap_pane_titles (push_tab a i s) = ap_pane_titles s" "ap_pane_agents (push_tab a i s) = ap_pane_agents s"
  "ap_active_tab (push_tab a i s) = ap_active_tab s" "ap_tab_roots (push_tab a i s) = ap_tab_roots s"
  "ap_draws (push_tab a i s) = ap_draws s" "ap_rng (push_tab a i s) = ap_rng s"
  "ap_registry (push_tab a i s) = ap_registry s" "ap_surface_to_pane (push_tab a i s) = ap_surface_to_pane s"
  "ap_active (push_tab a i s) = ap_active s" "ap_focused (push_tab a i s) = ap_focused s"
  by (simp_all add: push_tab_def)

text \<open>Pushing a live tab onto a stack that has an active tab, or making the pushed tab the active one.\<close>

lemma push_tab_ok:
  assumes "tabs_ok s" "live s' i" "\<And>j. live s j \<Longrightarrow> live s' j" "hget (ap_tabs s) a \<noteq> None"
    and "ap_tabs s' = ap_tabs (push_tab a i s)"
    and "ap_active_tab s' = ap_active_tab s \<or> ap_active_tab s' = hput a i (ap_active_tab s)"
    and "\<And>j. hget (ap_tab_roots s') j = hget (ap_tab_roots s) j \<or> live s' j"
  shows "tabs_ok s'"
proof -
  obtain ts where ts: "hget (ap_tabs s) a = Some ts" using assms(4) by auto
  have r: "hget (ap_tabs s') b = (if b = a then Some (ts @ [i]) else hget (ap_tabs s) b)" for b
    using assms(5) ts by (simp add: push_tab_reads)
  have o: "\<And>a. hget (ap_tabs s) a = None \<longleftrightarrow> hget (ap_active_tab s) a = None"
    "\<And>a us t. hget (ap_tabs s) a = Some us \<Longrightarrow> t \<in> set us \<Longrightarrow> live s t"
    "\<And>a us t. hget (ap_tabs s) a = Some us \<Longrightarrow> hget (ap_active_tab s) a = Some t \<Longrightarrow> t \<in> set us"
    "\<And>p r. hget (ap_tab_roots s) p = Some r \<Longrightarrow> live s p"
    using assms(1) unfolding tabs_ok_def by blast+
  show ?thesis
    unfolding tabs_ok_def r
  proof (intro conjI allI impI ballI)
    fix b
    show "((if b = a then Some (ts @ [i]) else hget (ap_tabs s) b) = None) = (hget (ap_active_tab s') b = None)"
      using assms(6) o(1) [of b] ts by (auto simp: hget_hput)
    show "live s' t" if "(if b = a then Some (ts @ [i]) else hget (ap_tabs s) b) = Some us" "t \<in> set us" for us t
      using that assms(2,3) o(2) ts by (auto split: if_splits)
    show "t \<in> set us" if "(if b = a then Some (ts @ [i]) else hget (ap_tabs s) b) = Some us"
      "hget (ap_active_tab s') b = Some t" for us t
      using that assms(6) o(3) ts by (auto simp: hget_hput split: if_splits)
    show "live s' b" if "hget (ap_tab_roots s') b = Some q" for q
      using that assms(3,7) o(4) by metis
  qed
qed

lemma ensure_stack_has: "hget (ap_tabs (ensure_terminal_tab_stack a s)) a \<noteq> None"
  by (auto simp: ensure_terminal_tab_stack_def hget_or_insert)

lemma create_tab_inv:
  assumes ok: "app_ok s" and n: "ap_next_id s < u32_max"
  shows "app_ok (fst (create_terminal_tab_for_anchor w a s))"
proof -
  let ?s0 = "ensure_terminal_tab_stack a s" and ?i = "ap_next_id s"
  let ?t = "active_terminal_tab ?s0 a"
  show ?thesis
  proof (cases "a \<in> ap_anchors s \<and> live s a")
    case no: False
    then show ?thesis using ok by (auto simp: create_terminal_tab_for_anchor_def)
  next
    case a: True
    then have ok0: "app_ok ?s0" using ok ensure_stack_ok by blast
    show ?thesis
    proof (cases "live s ?t \<and> pane_new w ?i (target_cwd w ?s0 ?t) \<noteq> None")
      case False
      then show ?thesis using a ok0 by (auto simp: create_terminal_tab_for_anchor_def Let_def)
    next
      case t: True
      then obtain p where p: "pane_new w ?i (target_cwd w ?s0 ?t) = Some p" by auto
      let ?s1 = "fst (insert_pane ?i p ?s0)"
      let ?s2 = "?s1\<lparr>ap_workspace := hput ?i a (ap_workspace ?s1), ap_tab_roots := hput ?i ?i (ap_tab_roots ?s1)\<rparr>"
      let ?s3 = "push_tab a ?i ?s2"
      let ?s4 = "bump_next_id (?s3\<lparr>ap_active_tab := hput a ?i (ap_active_tab ?s3)\<rparr>)"
      obtain s5 b where sp: "splice_leaf Vertical ?t ?i ?s4 = (s5, b)" by (cases "splice_leaf Vertical ?t ?i ?s4")
      note sl = spliced [OF ok sp]
      define l where "l = ap_layout s5"
      have b: "b" using sl(1) t by simp
      have s5: "s5 = ?s4\<lparr>ap_layout := l\<rparr>" using sl(2) by (simp add: l_def)
      have lay: "distinct (leaves l)" "set (leaves l) = insert ?i (set (leaves (ap_layout s)))"
        using sl(4,5) t by (simp_all add: l_def)
      have "app_ok s5"
      proof (rule added_ok [OF ok0, of ?i])
        show "tabs_ok s5"
          by (rule push_tab_ok [where s = ?s0 and a = a and i = ?i])
            (use ok0 ensure_stack_has in \<open>auto simp: s5 app_ok_def push_tab_def hget_hput\<close>)
      qed (use lay n a in \<open>auto simp: s5 bump_next\<close>)
      then show ?thesis using a t p sp b by (simp add: create_terminal_tab_for_anchor_def Let_def)
    qed
  qed
qed

lemma create_tab_frame:
  "ap_anchors (fst (create_terminal_tab_for_anchor w a s)) = ap_anchors s"
  "ap_active (fst (create_terminal_tab_for_anchor w a s)) = ap_active s"
  by (auto simp: create_terminal_tab_for_anchor_def Let_def splice_leaf_def split: option.split prod.splits)

lemma create_tab_active:
  assumes "app_inv s" "ap_next_id s < u32_max"
  shows "app_inv (fst (create_terminal_tab_for_anchor w a s))"
    and "app_inv (fst (create_terminal_tab_for_focused w s))"
proof -
  have t: "app_inv (fst (create_terminal_tab_for_anchor w b s))" for b
    by (rule app_inv_same [OF assms(1)])
      (simp_all add: create_tab_inv [OF app_inv_ok [OF assms(1)] assms(2)] create_tab_frame)
  then show "app_inv (fst (create_terminal_tab_for_anchor w a s))" .
  show "app_inv (fst (create_terminal_tab_for_focused w s))"
    using t assms(1) by (simp add: create_terminal_tab_for_focused_def Let_def split: option.split)
qed

lemma satellite_live: "satellite_pane s p \<Longrightarrow> live s p"
  by (auto simp: satellite_pane_def live_def split: option.splits)

lemma pane_new_terminal: "pane_new w i c = Some p \<Longrightarrow> \<not> is_satellite p"
  by (auto simp: pane_new_def is_satellite_def)

lemma create_new_anchor_inv:
  assumes inv: "app_inv s" and n: "ap_next_id s < u32_max"
  shows "app_inv (create_new_anchor w s)"
proof -
  let ?i = "ap_next_id s" and ?s1 = "split_focused w Vertical s"
  have i1: "app_inv ?s1" using split_focused_active [OF inv n] .
  have ok1: "app_ok ?s1" using i1 by (simp add: app_inv_def)
  have new: "\<not> live s ?i" using inv by (auto simp: app_inv_def app_ok_def panes_ok_def)
  then have na: "?i \<notin> ap_anchors ?s1" using inv by (auto simp: split_focused_frame app_inv_def app_ok_def anchors_ok_def)
  show ?thesis
  proof (cases "live ?s1 ?i")
    case False
    then show ?thesis using i1 by (simp add: create_new_anchor_def Let_def)
  next
    case True
    let ?s2 = "remove_terminal_tab_metadata ?i (?s1\<lparr>ap_workspace := hdel ?i (ap_workspace ?s1)\<rparr>)"
    let ?s3 = "refresh_focus_css (?s2\<lparr>ap_focused := ?i\<rparr>)"
    have ok3: "app_ok ?s3" using released_ok [OF ok1 na] by simp
    have sat: "\<not> satellite_pane ?s3 ?i"
      using new pane_new_terminal satellite_live [of s ?i]
      by (auto simp: split_focused_def Let_def splice_leaf_def split: option.splits prod.splits if_splits)
    obtain s4 b where t: "tag_anchor_core w ?i ?s3 = (s4, b)" by (cases "tag_anchor_core w ?i ?s3")
    have e: "create_new_anchor w s = (if b then notify_anchors_changed (set_active_anchor (Some ?i)
        (ensure_terminal_tab_stack ?i s4)) else s4)"
      using True t by (simp add: create_new_anchor_def Let_def)
    show ?thesis
    proof (cases b)
      case True
      then have t': "tag_anchor_core w ?i ?s3 = (s4, True)" using t by simp
      have "app_inv (notify_anchors_changed (set_active_anchor (Some ?i) (ensure_terminal_tab_stack ?i s4)))"
        by (rule tagged_active [where f = "\<lambda>t. t", OF ok3 sat t']) (auto simp: app_ok_def anchors_ok_def)
      then show ?thesis using e True by simp
    next
      case False
      have "s4 = ?s3" using t False by (auto simp: tag_anchor_core_def split: if_splits)
      then show ?thesis using e False ok3 app_inv_same [OF i1, of s4] by simp
    qed
  qed
qed

section \<open>Commands on existing panes\<close>

lemma live_misc [simp]:
  "live (s\<lparr>ap_grants := g\<rparr>) = live s" "live (s\<lparr>ap_satellites := sw\<rparr>) = live s"
  "live (s\<lparr>ap_has_host := b\<rparr>) = live s" "live (s\<lparr>ap_popup_to_pane := pp\<rparr>) = live s"
  "live (s\<lparr>ap_session := ss\<rparr>) = live s" "satellite_pane (s\<lparr>ap_session := ss\<rparr>) = satellite_pane s"
  "live (s\<lparr>ap_rearrange := b\<rparr>) = live s" "live (s\<lparr>ap_notif := nm\<rparr>) = live s"
  "satellite_pane (s\<lparr>ap_grants := g\<rparr>) = satellite_pane s" "satellite_pane (s\<lparr>ap_satellites := sw\<rparr>) = satellite_pane s"
  "satellite_pane (s\<lparr>ap_has_host := b\<rparr>) = satellite_pane s" "satellite_pane (s\<lparr>ap_popup_to_pane := pp\<rparr>) = satellite_pane s"
  "satellite_pane (s\<lparr>ap_rearrange := b\<rparr>) = satellite_pane s" "satellite_pane (s\<lparr>ap_notif := nm\<rparr>) = satellite_pane s"
  by (rule ext, simp add: live_def satellite_pane_def)+

lemma app_ok_misc [simp]:
  "app_ok (s\<lparr>ap_grants := g\<rparr>) = app_ok s" "app_ok (s\<lparr>ap_satellites := sw\<rparr>) = app_ok s"
  "app_ok (s\<lparr>ap_has_host := b\<rparr>) = app_ok s" "app_ok (s\<lparr>ap_popup_to_pane := pp\<rparr>) = app_ok s"
  "app_ok (s\<lparr>ap_rearrange := b\<rparr>) = app_ok s" "app_ok (s\<lparr>ap_notif := nm\<rparr>) = app_ok s"
  "app_ok (s\<lparr>ap_display := ds\<rparr>) = app_ok s" "app_ok (s\<lparr>ap_session := ss\<rparr>) = app_ok s"
  by (simp_all add: app_ok_def ok_defs)

lemma app_inv_misc [simp]:
  "app_inv (s\<lparr>ap_grants := g\<rparr>) = app_inv s" "app_inv (s\<lparr>ap_satellites := sw\<rparr>) = app_inv s"
  "app_inv (s\<lparr>ap_has_host := b\<rparr>) = app_inv s" "app_inv (s\<lparr>ap_popup_to_pane := pp\<rparr>) = app_inv s"
  "app_inv (s\<lparr>ap_rearrange := b\<rparr>) = app_inv s" "app_inv (s\<lparr>ap_notif := nm\<rparr>) = app_inv s"
  "app_inv (s\<lparr>ap_display := ds\<rparr>) = app_inv s" "app_inv (s\<lparr>ap_session := ss\<rparr>) = app_inv s"
  by (simp_all add: app_inv_def split: option.split)

lemma draw_inv: "app_inv s \<Longrightarrow> app_inv (s\<lparr>ap_draws := Suc (ap_draws s)\<rparr>)"
proof -
  assume inv: "app_inv s"
  have "app_ok (s\<lparr>ap_draws := Suc (ap_draws s)\<rparr>)"
    by (rule unchanged_ok [OF app_inv_ok [OF inv]])
      (use inv in \<open>simp_all add: app_inv_def app_ok_def tabs_ok_def\<close>)
  then show ?thesis using app_inv_same [OF inv] by simp
qed

lemma registry_inv:
  assumes "app_inv s" "\<And>i. hget (ap_registry s) i \<noteq> None \<Longrightarrow> hget r i \<noteq> None"
  shows "app_inv (s\<lparr>ap_registry := r\<rparr>)"
proof -
  have "app_ok (s\<lparr>ap_registry := r\<rparr>)"
    using assms by (simp add: app_inv_def app_ok_def ok_defs)
  then show ?thesis using app_inv_same [OF assms(1)] by simp
qed

lemma hidden_inv: "app_inv s \<Longrightarrow> h \<subseteq> ap_anchors s \<Longrightarrow> app_inv (s\<lparr>ap_hidden := h\<rparr>)"
  by (rule app_inv_same [of s]) (simp_all add: app_inv_def app_ok_def ok_defs)

lemma titles_inv:
  "app_inv s \<Longrightarrow> (\<And>p t. hget m p = Some t \<Longrightarrow> live s p) \<Longrightarrow> app_inv (s\<lparr>ap_pane_titles := m\<rparr>)"
  by (rule app_inv_same [of s]) (auto simp: app_inv_def app_ok_def ok_defs)

lemma look_inv: "app_inv s \<Longrightarrow> (\<And>p. pa_body (f p) = pa_body p) \<Longrightarrow> app_inv (s\<lparr>ap_panes := hmodify a f (ap_panes s)\<rparr>)"
  by (rule app_inv_same [of s]) (simp_all add: panes_look_ok app_inv_def)

text \<open>A registry command other than a removal keeps every entry.\<close>

lemma reg_modify_keeps: "hget r j \<noteq> None \<Longrightarrow> hget (fst (reg_modify i f r)) j \<noteq> None"
  by (auto simp: reg_modify_get split: option.split sum.split)

lemma reg_keeps:
  "hget r j \<noteq> None \<Longrightarrow> hget (fst (reg_pause i r)) j \<noteq> None"
  "hget r j \<noteq> None \<Longrightarrow> hget (fst (reg_resume i r)) j \<noteq> None"
  "hget r j \<noteq> None \<Longrightarrow> hget (fst (reg_set_hidden i h r)) j \<noteq> None"
  "hget r j \<noteq> None \<Longrightarrow> hget (fst (reg_rename i n r)) j \<noteq> None"
  "hget r j \<noteq> None \<Longrightarrow> hget (fst (reg_set_group i n r)) j \<noteq> None"
  "hget r j \<noteq> None \<Longrightarrow> hget (fst (reg_set_sort_key i k r)) j \<noteq> None"
  by (simp_all only: reg_ops reg_modify_keeps not_False_eq_True)

lemma signal_anchor_inv:
  assumes "app_inv s" "\<And>i j r. hget r j \<noteq> None \<Longrightarrow> hget (fst (change i r)) j \<noteq> None"
  shows "app_inv (fst (signal_anchor w sg change p s))"
proof -
  have "app_inv (s\<lparr>ap_registry := r\<rparr>)" if "change i (ap_registry s) = (r, q)" for i r q
    by (rule registry_inv [OF assms(1)]) (use assms(2) [of _ _ i] that in \<open>metis fst_conv\<close>)
  then have "app_inv ((emit e s)\<lparr>ap_registry := r\<rparr>)" if "change i (ap_registry s) = (r, q)" for i r q e
    using that by (metis emit_registry inv_simps(1))
  then show ?thesis
    using assms(1) by (auto simp: signal_anchor_def Let_def emit_registry split: option.split prod.split sum.split)
qed

lemma hide_anchor_inv:
  assumes inv: "app_inv s"
  shows "app_inv (fst (hide_anchor p s))"
proof (cases "hget (ap_pane_anchor_ids s) p")
  case None
  then show ?thesis using inv by (simp add: hide_anchor_def)
next
  case (Some i)
  then have "p \<in> ap_anchors s" using inv by (auto simp: app_inv_def app_ok_def anchors_ok_def)
  moreover have "ap_hidden s \<subseteq> ap_anchors s" using inv by (simp add: app_inv_def app_ok_def anchors_ok_def)
  ultimately have "app_inv (s\<lparr>ap_hidden := insert p (ap_hidden s)\<rparr>)" using hidden_inv [OF inv] by simp
  then have 1: "app_inv (set_visible p False (s\<lparr>ap_hidden := insert p (ap_hidden s)\<rparr>))"
    unfolding set_visible_def by (rule look_inv) simp
  have "app_inv (set_visible p False (s\<lparr>ap_hidden := insert p (ap_hidden s)\<rparr>)\<lparr>ap_registry := r\<rparr>)"
    if "reg_set_hidden i True (ap_registry s) = (r, q)" for r q
    by (rule registry_inv [OF 1]) (use reg_keeps(3) [of "ap_registry s" _ i True] that in \<open>simp add: set_visible_def\<close>)
  then show ?thesis
    using inv Some 1 by (auto simp: hide_anchor_def Let_def set_visible_def split: prod.split sum.split)
qed

lemma reattach_anchor_inv:
  assumes inv: "app_inv s"
  shows "app_inv (fst (reattach_anchor p s))"
proof (cases "hget (ap_pane_anchor_ids s) p")
  case None
  then show ?thesis using inv by (simp add: reattach_anchor_def)
next
  case (Some i)
  have "ap_hidden s - {p} \<subseteq> ap_anchors s" using inv by (auto simp: app_inv_def app_ok_def anchors_ok_def)
  then have 1: "app_inv (s\<lparr>ap_hidden := ap_hidden s - {p}\<rparr>)" by (rule hidden_inv [OF inv])
  have "app_inv (s\<lparr>ap_hidden := ap_hidden s - {p}, ap_registry := r\<rparr>)"
    if "reg_set_hidden i False (ap_registry s) = (r, q)" for r q
    using registry_inv [OF 1, of r] reg_keeps(3) [of "ap_registry s" _ i False] that by simp
  then have "app_inv (set_visible p v (s\<lparr>ap_hidden := ap_hidden s - {p}, ap_registry := r\<rparr>))"
    if "reg_set_hidden i False (ap_registry s) = (r, q)" for r q v
    unfolding set_visible_def using that by (intro look_inv) simp_all
  then show ?thesis
    using inv Some 1 by (auto simp: reattach_anchor_def Let_def split: prod.split sum.split)
qed

lemma edit_anchor_inv:
  assumes "app_inv s" "\<And>i j r. hget r j \<noteq> None \<Longrightarrow> hget (fst (f i r)) j \<noteq> None"
  shows "app_inv (edit_anchor f p s)"
proof -
  have "app_inv (s\<lparr>ap_registry := r\<rparr>)" if "f i (ap_registry s) = (r, q)" for i r q
    by (rule registry_inv [OF assms(1)]) (use assms(2) [of _ _ i] that in \<open>metis fst_conv\<close>)
  then show ?thesis using assms(1) by (auto simp: edit_anchor_def split: option.split prod.split sum.split)
qed

lemma reorder_from_inv: "app_inv (fst st) \<Longrightarrow> app_inv (fst (reorder_from k ps st))"
proof (induction k ps st rule: reorder_from.induct)
  case (2 k p ps s m)
  have "app_inv (s\<lparr>ap_registry := r\<rparr>)" if "reg_set_sort_key i (Some k) (ap_registry s) = (r, q)" for i r q
    by (rule registry_inv) (use 2(2) reg_keeps(6) [of "ap_registry s" _ i "Some k"] that in simp_all)
  then show ?case using 2 by (simp split: option.split prod.split sum.split)
qed simp

lemma reorder_inv: "app_inv s \<Longrightarrow> app_inv (reorder_anchors_in_group ps s)"
  using reorder_from_inv [of "(s, False)" 0 ps] by (auto simp: reorder_anchors_in_group_def split: prod.split)

lemma register_window_inv: "app_inv s \<Longrightarrow> app_inv (register_satellite_window a v s)"
  by (simp add: register_satellite_window_def)

lemma attach_window_inv: "app_inv s \<Longrightarrow> app_inv (fst (attach_native_window_to_active_anchor c v s))"
  using register_window_inv by (auto simp: attach_native_window_to_active_anchor_def split: option.split)

lemma activate_tab_inv:
  assumes inv: "app_inv s"
  shows "app_inv (fst (activate_terminal_tab a t s))"
proof -
  have "app_inv (s\<lparr>ap_active_tab := hput a t (ap_active_tab s)\<rparr>)" if "hget (ap_tabs s) a = Some ts" "t \<in> set ts" for ts
  proof -
    have "app_ok (s\<lparr>ap_active_tab := hput a t (ap_active_tab s)\<rparr>)"
    proof (rule unchanged_ok [OF app_inv_ok [OF inv]])
      have "tabs_ok s" using inv by (simp add: app_inv_def app_ok_def)
      moreover from this have "hget (ap_active_tab s) a \<noteq> None"
        using that(1) unfolding tabs_ok_def by (metis option.distinct(1))
      ultimately show "tabs_ok (s\<lparr>ap_active_tab := hput a t (ap_active_tab s)\<rparr>)"
        using that by (auto simp: tabs_ok_def hget_hput simp del: not_None_eq split: if_splits)
    qed simp_all
    then show ?thesis using app_inv_same [OF inv] by simp
  qed
  then show ?thesis using inv by (auto simp: activate_terminal_tab_def split: option.splits)
qed

lemma reparent_inv:
  assumes inv: "app_inv s"
  shows "app_inv (reparent_pane a b e s)"
proof -
  have "app_ok (s\<lparr>ap_layout := fst (reparent (ap_layout s) a b e)\<rparr>)"
    using inv set_leaves_reparent [of "ap_layout s" a b e] by (simp add: app_inv_def app_ok_def ok_defs)
  then have "app_inv (s\<lparr>ap_layout := fst (reparent (ap_layout s) a b e)\<rparr>)" using app_inv_same [OF inv] by simp
  then show ?thesis using inv by (cases "reparent (ap_layout s) a b e") (simp add: reparent_pane_def)
qed

end
