(* ===== verification/AppInvariantSession.thy ===== *)
theory AppInvariantSession
  imports AppInvariantOps
begin

text \<open>
  The invariant of \<open>AppInvariant\<close> when a session is put back: fresh panes with their uuids, workspaces
  claimed ahead of the anchors, the anchors tagged one by one, the saved metadata, and the switch.
\<close>

section \<open>Uuids and owners of fresh panes\<close>

lemma draw_uuids_shape:
  assumes "inj (ap_rng s)" "drawn s (ap_pane_uuids s)"
  shows "\<exists>m n. fold (\<lambda>i s. case draw_uuid s of (u, s') \<Rightarrow> s'\<lparr>ap_pane_uuids := hput i u (ap_pane_uuids s')\<rparr>) ks s =
      s\<lparr>ap_pane_uuids := m, ap_draws := n\<rparr> \<and> ap_draws s \<le> n \<and> drawn (s\<lparr>ap_draws := n\<rparr>) m \<and>
      hdom m = set ks \<union> hdom (ap_pane_uuids s)"
  using assms
proof (induction ks arbitrary: s)
  case Nil
  then show ?case by (intro exI [of _ "ap_pane_uuids s"] exI [of _ "ap_draws s"]) (simp add: drawn_def)
next
  case (Cons k ks)
  let ?t = "s\<lparr>ap_draws := Suc (ap_draws s), ap_pane_uuids := hput k (ap_rng s (ap_draws s)) (ap_pane_uuids s)\<rparr>"
  have "drawn ?t (ap_pane_uuids ?t)" using drawn_put [OF Cons.prems, of "ap_draws s" ?t] by simp
  then obtain m n where mn: "fold (\<lambda>i s. case draw_uuid s of (u, s') \<Rightarrow> s'\<lparr>ap_pane_uuids := hput i u (ap_pane_uuids s')\<rparr>) ks ?t =
      ?t\<lparr>ap_pane_uuids := m, ap_draws := n\<rparr>" "ap_draws ?t \<le> n" "drawn (?t\<lparr>ap_draws := n\<rparr>) m"
      "hdom m = set ks \<union> hdom (ap_pane_uuids ?t)"
    using Cons.IH [of ?t] Cons.prems(1) by auto
  have "drawn (s\<lparr>ap_draws := n\<rparr>) m" using mn(3) by (simp add: drawn_def)
  moreover have "hdom m = set (k # ks) \<union> hdom (ap_pane_uuids s)"
  proof -
    have "hdom (ap_pane_uuids ?t) = insert k (hdom (ap_pane_uuids s))"
      using hdom_hput [of k "ap_rng s (ap_draws s)" "ap_pane_uuids s"] by simp
    then show ?thesis unfolding mn(4) by auto
  qed
  ultimately show ?case using mn(1,2) by (intro exI [of _ m] exI [of _ n]) (simp add: draw_uuid_def)
qed

lemma draw_pane_uuids_shape:
  assumes "inj (ap_rng s)"
  shows "\<exists>m n. draw_pane_uuids s = s\<lparr>ap_pane_uuids := m, ap_draws := n\<rparr> \<and> ap_draws s \<le> n \<and>
    drawn (s\<lparr>ap_draws := n\<rparr>) m \<and> hdom m = Collect (live s)"
proof -
  have "drawn (s\<lparr>ap_pane_uuids := []\<rparr>) (ap_pane_uuids (s\<lparr>ap_pane_uuids := []\<rparr>))" by (simp add: drawn_def)
  then obtain m n where mn: "draw_pane_uuids s = s\<lparr>ap_pane_uuids := m, ap_draws := n\<rparr>" "ap_draws s \<le> n"
      "drawn (s\<lparr>ap_draws := n\<rparr>) m" "hdom m = set (hkeys (ap_panes s)) \<union> hdom ([] :: (pane_id, uuid) hmap)"
    using draw_uuids_shape [of "s\<lparr>ap_pane_uuids := []\<rparr>" "hkeys (ap_panes s)"] assms
    by (auto simp: draw_pane_uuids_def drawn_def)
  moreover from mn(4) have "hdom m = Collect (live s)" by (auto simp: live_def)
  ultimately show ?thesis by blast
qed

lemma claimed_workspace:
  assumes "finite A"
  shows "hget (ap_workspace (claim_workspaces b A s)) j =
    (if j \<in> A then Some j
     else if hget (ap_workspace s) j = None \<and> live s j \<and> A \<noteq> {} then first_of A
     else hget (ap_workspace s) j)"
  using assms hm.put_all_get [of "\<lambda>a. a" "sorted_list_of_set A" "ap_workspace s"]
  by (cases "A = {}") (auto simp: claim_workspaces_def Let_def first_of_def hm.put_all_get live_def)

lemma claim_fields [simp]:
  "live (claim_workspaces b A s) = live s" "satellite_pane (claim_workspaces b A s) = satellite_pane s"
  "ap_layout (claim_workspaces b A s) = ap_layout s" "ap_next_id (claim_workspaces b A s) = ap_next_id s"
  "ap_anchors (claim_workspaces b A s) = ap_anchors s" "ap_hidden (claim_workspaces b A s) = ap_hidden s"
  "ap_pane_anchor_ids (claim_workspaces b A s) = ap_pane_anchor_ids s"
  "ap_pane_uuids (claim_workspaces b A s) = ap_pane_uuids s" "ap_pane_titles (claim_workspaces b A s) = ap_pane_titles s"
  "ap_pane_agents (claim_workspaces b A s) = ap_pane_agents s" "ap_tabs (claim_workspaces b A s) = ap_tabs s"
  "ap_active_tab (claim_workspaces b A s) = ap_active_tab s" "ap_draws (claim_workspaces b A s) = ap_draws s"
  "ap_rng (claim_workspaces b A s) = ap_rng s" "ap_registry (claim_workspaces b A s) = ap_registry s"
  "ap_surface_to_pane (claim_workspaces b A s) = ap_surface_to_pane s"
  "ap_active (claim_workspaces b A s) = ap_active s"
  by (simp_all add: claim_workspaces_def Let_def split: option.split)

lemma claimed_roots:
  "hget (ap_tab_roots (claim_workspaces b A s)) j = hget (ap_tab_roots s) j \<or> live s j"
  by (auto simp: claim_workspaces_def Let_def hm.put_all_get live_def split: option.split)

section \<open>Anchors put back\<close>

text \<open>The state while the anchors \<open>A\<close> are put back: they own themselves, and nothing else owns panes.\<close>

definition restoring :: "pane_id set \<Rightarrow> app \<Rightarrow> bool" where
  "restoring A s = (app_core s \<and> ap_anchors s \<subseteq> A \<and>
    (\<forall>p a. hget (ap_workspace s) p = Some a \<longrightarrow> live s p \<and> a \<in> A) \<and>
    (\<forall>a \<in> A. hget (ap_workspace s) a = Some a \<and> live s a \<and> \<not> satellite_pane s a))"

lemma restore_anchor_step:
  assumes r: "restoring A s" and a: "a \<in> A"
  shows "restoring A (restore_anchor w a s)" "ap_anchors (restore_anchor w a s) = insert a (ap_anchors s)"
    "ap_active (restore_anchor w a s) = ap_active s"
proof -
  have c: "app_core s" and av: "hget (ap_workspace s) a = Some a" "live s a" "\<not> satellite_pane s a"
    using r a by (simp_all add: restoring_def)
  have "restoring A (restore_anchor w a s) \<and> ap_anchors (restore_anchor w a s) = insert a (ap_anchors s) \<and>
    ap_active (restore_anchor w a s) = ap_active s"
  proof (cases "a \<in> ap_anchors s")
    case True
    then show ?thesis using r av by (auto simp: restore_anchor_def tag_anchor_core_def)
  next
    case False
    let ?t = "ensure_terminal_tab_stack a (install_anchor w a s)"
    have e: "restore_anchor w a s = ?t"
      using False av by (simp add: restore_anchor_def tag_anchor_core_def)
    have "app_core ?t" using install_anchor_core [OF c av(2,3) False] av by (intro ensure_stack_core) simp_all
    then show ?thesis using r a unfolding restoring_def e by (auto simp: hget_hput split: if_splits)
  qed
  then show "restoring A (restore_anchor w a s)" "ap_anchors (restore_anchor w a s) = insert a (ap_anchors s)"
    "ap_active (restore_anchor w a s) = ap_active s" by simp_all
qed

lemma restore_anchors_steps:
  "restoring A s \<Longrightarrow> set as \<subseteq> A \<Longrightarrow>
    restoring A (fold (restore_anchor w) as s) \<and>
    ap_anchors (fold (restore_anchor w) as s) = set as \<union> ap_anchors s \<and>
    ap_active (fold (restore_anchor w) as s) = ap_active s"
  by (induction as arbitrary: s) (simp_all add: restore_anchor_step)

text \<open>What the panes of a session look like before its anchors are put back.\<close>

definition fresh_state :: "app \<Rightarrow> bool" where
  "fresh_state s = (app_ok s \<and> ap_anchors s = {} \<and> hdom (ap_workspace s) = {} \<and>
    (\<forall>p. live s p \<longrightarrow> \<not> satellite_pane s p))"

lemma restore_anchors_ok:
  assumes f: "fresh_state s" and A: "finite A" "\<forall>a \<in> A. live s a"
  shows "app_ok (restore_anchors w A (claim_workspaces b A s))"
    and "ap_anchors (restore_anchors w A (claim_workspaces b A s)) = A"
    and "ap_active (restore_anchors w A (claim_workspaces b A s)) = ap_active s"
proof -
  let ?c = "claim_workspaces b A s"
  have ok: "app_core s" "ap_anchors s = {}" and nows: "hget (ap_workspace s) p = None" for p
    using f by (auto simp: fresh_state_def app_ok_core)
  have "tabs_ok ?c"
  proof (rule tabs_ok_mono [of s])
    show "tabs_ok s" using ok(1) by (simp add: app_core_def)
    show "hget (ap_tab_roots ?c) j = hget (ap_tab_roots s) j \<or> live ?c j" for j
      unfolding claim_fields by (rule claimed_roots)
  qed simp_all
  then have core: "app_core ?c"
    using ok(1) by (simp add: app_core_def panes_ok_def anchors_ok_def names_ok_def ids_ok_def drawn_def surfaces_ok_def)
  have "live s p \<and> a \<in> A" if "hget (ap_workspace ?c) p = Some a" for p a
    using that A(2) first_of_in [OF A(1), of a] nows [of p]
    by (simp add: claimed_workspace [OF A(1)] split: if_splits)
  moreover have "hget (ap_workspace ?c) a = Some a \<and> live s a \<and> \<not> satellite_pane s a" if "a \<in> A" for a
    using that A f by (simp add: claimed_workspace fresh_state_def)
  ultimately have "restoring A ?c" using core ok(2) by (simp add: restoring_def)
  then have r: "restoring A (restore_anchors w A ?c)" "ap_anchors (restore_anchors w A ?c) = A"
      "ap_active (restore_anchors w A ?c) = ap_active s"
    using restore_anchors_steps [of A ?c "sorted_list_of_set A" w] A ok(2) by (simp_all add: restore_anchors_def)
  then show "ap_anchors (restore_anchors w A ?c) = A" "ap_active (restore_anchors w A ?c) = ap_active s" by simp_all
  show "app_ok (restore_anchors w A ?c)"
    using r unfolding restoring_def app_ok_core workspace_ok_def by simp
qed

section \<open>Saved metadata\<close>

lemma titles_fold:
  "hget (fold (\<lambda>(i, t) m. if P i then hput i (f t) m else m) xs m) p = Some x \<Longrightarrow> P p \<or> hget m p = Some x"
proof (induction xs arbitrary: m)
  case (Cons y ys)
  obtain i t where y: "y = (i, t)" by (cases y)
  show ?case
    using Cons.IH [of "if P i then hput i (f t) m else m"] Cons.prems y
    by (cases "i = p") (auto split: if_splits)
qed simp

lemma roots_ok:
  assumes "app_ok s" "\<And>p r. hget m p = Some r \<Longrightarrow> live s p"
  shows "app_ok (s\<lparr>ap_tab_roots := m\<rparr>)"
proof (rule unchanged_ok [OF assms(1)])
  show "tabs_ok (s\<lparr>ap_tab_roots := m\<rparr>)" using assms by (simp add: app_ok_def tabs_ok_def)
qed simp_all

lemma root_put_ok: "app_ok s \<Longrightarrow> live s p \<Longrightarrow> app_ok (s\<lparr>ap_tab_roots := hput p r (ap_tab_roots s)\<rparr>)"
  by (rule roots_ok) (auto simp: hget_hput app_ok_def tabs_ok_def split: if_splits)

lemma restore_stack_ok: "app_ok s \<Longrightarrow> app_ok (restore_stack st s)"
proof -
  assume ok: "app_ok s"
  let ?a = "tts_anchor_pane_id st" and ?tabs = "filter (live s) (tts_tab_roots st)"
  show ?thesis
  proof (cases "?a \<in> ap_anchors s \<and> ?tabs \<noteq> []")
    case False
    then show ?thesis using ok by (auto simp: restore_stack_def Let_def split: list.split)
  next
    case True
    then obtain t0 us where t: "?tabs = t0 # us" by (cases ?tabs) simp_all
    define act where "act = (case tts_active_tab st of Some t \<Rightarrow> if t \<in> set ?tabs then t else t0 | None \<Rightarrow> t0)"
    have act: "act \<in> set (t0 # us)" by (simp add: act_def t split: option.split)
    have e: "restore_stack st s = s\<lparr>ap_tabs := hput ?a (t0 # us) (ap_tabs s), ap_active_tab := hput ?a act (ap_active_tab s)\<rparr>"
      using True t by (simp add: restore_stack_def Let_def act_def cong: option.case_cong)
    have lv: "\<forall>x \<in> set (t0 # us). live s x" unfolding t [symmetric] by simp
    have o: "tabs_ok s" using ok by (simp add: app_ok_def)
    have "tabs_ok (restore_stack st s)"
      using o lv act unfolding e tabs_ok_def by (auto simp: hget_hput split: if_splits)
    then show ?thesis by (intro unchanged_ok [OF ok]) (simp_all add: e)
  qed
qed

lemma restore_stack_fields [simp]:
  "ap_anchors (restore_stack st s) = ap_anchors s" "ap_active (restore_stack st s) = ap_active s"
  "live (restore_stack st s) = live s" "ap_panes (restore_stack st s) = ap_panes s"
  "ap_layout (restore_stack st s) = ap_layout s" "ap_workspace (restore_stack st s) = ap_workspace s"
  "ap_pane_titles (restore_stack st s) = ap_pane_titles s"
  by (simp_all add: restore_stack_def Let_def split: list.split)

lemma restore_root_ok: "app_ok s \<Longrightarrow> app_ok (restore_root pr s)"
  by (auto simp: restore_root_def root_put_ok split: prod.split option.split)

lemma restore_root_fields [simp]:
  "ap_anchors (restore_root pr s) = ap_anchors s" "ap_active (restore_root pr s) = ap_active s"
  "live (restore_root pr s) = live s" "ap_panes (restore_root pr s) = ap_panes s"
  "ap_layout (restore_root pr s) = ap_layout s" "ap_workspace (restore_root pr s) = ap_workspace s"
  "ap_pane_titles (restore_root pr s) = ap_pane_titles s"
  by (auto simp: restore_root_def split: prod.split option.split)

text \<open>The metadata touch titles and tabs only; orphans and the invariant's repair come last.\<close>

definition restored_titles :: "app \<Rightarrow> (pane_id, pane_title_snapshot) hmap \<Rightarrow> (pane_id, pane_title) hmap" where
  "restored_titles s titles =
    fold (\<lambda>(i, t) m. if live s i then hput i (pane_title_from_snapshot t) m else m) (hitems titles) []"

definition same_panes :: "app \<Rightarrow> app \<Rightarrow> bool" where
  "same_panes s t = (ap_panes t = ap_panes s \<and> ap_layout t = ap_layout s \<and> ap_anchors t = ap_anchors s \<and>
    ap_workspace t = ap_workspace s \<and> ap_active t = ap_active s)"

lemma same_panes_live: "same_panes s t \<Longrightarrow> live t = live s"
  by (rule ext) (simp add: same_panes_def live_def)

lemma metadata_shape:
  assumes ok: "app_ok s"
  obtains t where "restore_persisted_metadata w titles stacks roots s =
      rebuild_widget_tree (ensure_anchor_invariant w (close_orphan_terminal_panes t))"
    "app_ok t" "same_panes s t" "ap_pane_titles t = restored_titles s titles"
proof -
  define m where "m = restored_titles s titles"
  define K where "K t \<longleftrightarrow> app_ok t \<and> same_panes s t \<and> ap_pane_titles t = m" for t
  let ?s1 = "s\<lparr>ap_pane_titles := m, ap_tabs := [], ap_active_tab := [], ap_tab_roots := []\<rparr>"
  have al: "live s a" if "a \<in> ap_anchors s" for a using that ok by (simp add: app_ok_def anchors_ok_def)
  have fin: "finite (ap_anchors s)" using anchors_finite [OF ok] .
  have mt: "live s p" if "hget m p = Some t" for p t
    using that titles_fold [of "live s" pane_title_from_snapshot "hitems titles" "[]" p t]
    by (simp add: m_def restored_titles_def)
  have lv: "live t a" if "K t" "a \<in> ap_anchors s" for t a
    using that al same_panes_live [of s t] by (simp add: K_def)
  have an: "set (sorted_list_of_set (ap_anchors t)) = ap_anchors s" if "K t" for t
    using that fin by (simp add: K_def same_panes_def)
  have step: "K (ensure_terminal_tab_stack a t)" "K (t\<lparr>ap_tab_roots := hput a a (ap_tab_roots t)\<rparr>)"
    if "K t" "a \<in> ap_anchors s" for t a
    using that ensure_stack_ok [OF _ lv [OF that]] root_put_ok [OF _ lv [OF that]]
    by (simp_all add: K_def same_panes_def)
  have 1: "app_ok ?s1" using ok mt by (simp add: app_ok_def ok_defs)
  have 2: "K (fold restore_stack stacks ?s1)" (is "K ?s2")
    by (rule fold_invariant [where P = K and Q = "\<lambda>x. x \<in> set stacks"])
      (use 1 restore_stack_ok in \<open>simp_all add: K_def same_panes_def\<close>)
  have 3: "K (fold ensure_terminal_tab_stack (sorted_list_of_set (ap_anchors ?s2)) ?s2)" (is "K ?s3")
    by (rule fold_invariant [where P = K and Q = "\<lambda>a. a \<in> ap_anchors s"]) (use 2 an step in blast)+
  have 4: "K (fold restore_root (hitems roots) ?s3)" (is "K ?s4")
    by (rule fold_invariant [where P = K and Q = "\<lambda>x. x \<in> set (hitems roots)"])
      (use 3 restore_root_ok in \<open>simp_all add: K_def same_panes_def\<close>)
  have 5: "K (fold (\<lambda>a s. s\<lparr>ap_tab_roots := hput a a (ap_tab_roots s)\<rparr>) (sorted_list_of_set (ap_anchors ?s4)) ?s4)"
    (is "K ?s5")
    by (rule fold_invariant [where P = K and Q = "\<lambda>a. a \<in> ap_anchors s"]) (use 4 an step in blast)+
  show thesis
  proof (rule that [of ?s5])
    show "restore_persisted_metadata w titles stacks roots s =
        rebuild_widget_tree (ensure_anchor_invariant w (close_orphan_terminal_panes ?s5))"
      by (simp add: restore_persisted_metadata_def Let_def m_def restored_titles_def)
  qed (use 5 in \<open>simp_all add: K_def m_def\<close>)
qed

lemma metadata_inv:
  assumes ok: "app_ok s"
  shows "app_inv (restore_persisted_metadata w titles stacks roots s)"
  by (rule metadata_shape [OF ok, of w titles stacks roots]) (simp add: ensure_invariant_inv close_orphans_ok)

section \<open>A new session moves in\<close>

definition emptied :: "app \<Rightarrow> bool" where
  "emptied s = (ap_anchors s = {} \<and> ap_hidden s = {} \<and> hdom (ap_pane_anchor_ids s) = {} \<and>
    hdom (ap_workspace s) = {} \<and> hdom (ap_tabs s) = {} \<and> hdom (ap_active_tab s) = {} \<and>
    hdom (ap_tab_roots s) = {} \<and> hdom (ap_surface_to_pane s) = {} \<and>
    hdom (ap_pane_titles s) = {} \<and> hdom (ap_pane_agents s) = {})"

lemma emptied_fresh:
  assumes e: "emptied s" and rng: "inj (ap_rng s)"
    and lay: "distinct (leaves (ap_layout s))" "set (leaves (ap_layout s)) = Collect (live s)"
    and ids: "\<And>i. live s i \<Longrightarrow> i < ap_next_id s" and trm: "\<And>i. live s i \<Longrightarrow> \<not> satellite_pane s i"
    and uu: "hdom (ap_pane_uuids s) = Collect (live s)" "drawn s (ap_pane_uuids s)"
  shows "fresh_state s"
proof -
  have n: "hget (ap_pane_anchor_ids s) p = None" "hget (ap_workspace s) p = None" "hget (ap_tabs s) p = None"
    "hget (ap_active_tab s) p = None" "hget (ap_tab_roots s) p = None" "hget (ap_surface_to_pane s) p = None"
    "hget (ap_pane_titles s) p = None" "hget (ap_pane_agents s) p = None" for p
    using e unfolding emptied_def by blast+
  have "app_ok s"
    unfolding app_ok_def using e rng lay ids uu n
    by (simp add: panes_ok_def anchors_ok_def workspace_ok_def tabs_ok_def names_ok_def ids_ok_def surfaces_ok_def
      drawn_def emptied_def)
  then show ?thesis using e trm n by (simp add: fresh_state_def emptied_def)
qed

lemma drain_emits:
  "\<exists>es. fold (\<lambda>(i, p) s. if has_exited w i p then s else emit (E_Terminate i) s) xs s = s\<lparr>ap_log := es\<rparr>"
proof (induction xs arbitrary: s)
  case Nil
  show ?case by (intro exI [of _ "ap_log s"]) simp
next
  case (Cons x xs)
  obtain i p where x: "x = (i, p)" by (cases x)
  show ?case using Cons.IH [of s] Cons.IH [of "emit (E_Terminate i) s"] by (auto simp: x emit_def)
qed

lemma tear_down_state:
  assumes "app_inv s" "hdom (ap_surface_to_pane s) = {}"
  shows "emptied (tear_down w s)" "inj (ap_rng (tear_down w s))" "ap_active (tear_down w s) = None"
proof -
  let ?m = "s\<lparr>ap_anchors := {}, ap_pane_anchor_ids := [], ap_pane_uuids := [], ap_pane_titles := [],
    ap_pane_agents := [], ap_grants := [], ap_tabs := [], ap_active_tab := [], ap_tab_roots := [],
    ap_workspace := [], ap_hidden := {}, ap_notif := [], ap_view := V_Single None, ap_panes := []\<rparr>"
  obtain es where "fold (\<lambda>(i, p) s. if has_exited w i p then s else emit (E_Terminate i) s) (hitems (ap_panes s)) ?m =
      ?m\<lparr>ap_log := es\<rparr>"
    using drain_emits [of w "hitems (ap_panes s)" ?m] by blast
  then show "emptied (tear_down w s)" "inj (ap_rng (tear_down w s))" "ap_active (tear_down w s) = None"
    using assms by (simp_all add: tear_down_def drain_panes_for_shutdown_def emptied_def app_inv_def app_ok_def ids_ok_def)
qed

definition restored_ok :: "restored \<Rightarrow> bool" where
  "restored_ok r = (distinct (leaves (rs_layout r)) \<and> set (leaves (rs_layout r)) = hdom (rs_panes r) \<and>
    (\<forall>i \<in> hdom (rs_panes r). i < rs_next_id r) \<and> finite (rs_anchors r) \<and> rs_anchors r \<subseteq> hdom (rs_panes r) \<and>
    (\<forall>i p. hget (rs_panes r) i = Some p \<longrightarrow> \<not> is_satellite p))"

lemma move_in_inv:
  assumes e: "emptied s" and rng: "inj (ap_rng s)" and r: "restored_ok r"
  shows "app_inv (move_in w se r s)"
proof -
  let ?p = "s\<lparr>ap_panes := rs_panes r\<rparr>"
  obtain m n where mn: "draw_pane_uuids ?p = ?p\<lparr>ap_pane_uuids := m, ap_draws := n\<rparr>"
      "drawn (?p\<lparr>ap_draws := n\<rparr>) m" "hdom m = Collect (live ?p)"
    using draw_pane_uuids_shape [of ?p] rng by auto
  let ?b = "(draw_pane_uuids ?p)\<lparr>ap_pane_titles := [], ap_pane_agents := [], ap_layout := rs_layout r,
    ap_focused := rs_focused r, ap_next_id := rs_next_id r\<rparr>"
  have lp: "live ?b i \<longleftrightarrow> hget (rs_panes r) i \<noteq> None" for i by (simp add: mn(1) live_def)
  have lq: "live ?p i \<longleftrightarrow> hget (rs_panes r) i \<noteq> None" for i by (simp add: live_def)
  have f: "fresh_state ?b"
  proof (rule emptied_fresh)
    show "emptied ?b" using e by (simp add: emptied_def mn(1))
    show "hdom (ap_pane_uuids ?b) = Collect (live ?b)" using mn(3) lp lq by (simp add: mn(1))
    show "drawn ?b (ap_pane_uuids ?b)" using mn(2) by (simp add: mn(1) drawn_def)
    show "\<not> satellite_pane ?b i" if "live ?b i" for i
      using r by (auto simp: mn(1) restored_ok_def satellite_pane_def split: option.split)
    show "set (leaves (ap_layout ?b)) = Collect (live ?b)" using r lp by (auto simp: restored_ok_def)
    show "i < ap_next_id ?b" if "live ?b i" for i using that r lp by (auto simp: restored_ok_def)
  qed (use r rng in \<open>simp_all add: restored_ok_def mn(1)\<close>)
  let ?b' = "rebuild_widget_tree ?b"
  have f': "fresh_state ?b'" using f by (simp add: fresh_state_def)
  have A: "finite (rs_anchors r)" "\<forall>a \<in> rs_anchors r. live ?b' a" using r lp by (auto simp: restored_ok_def)
  note ra = restore_anchors_ok [OF f' A, of w True]
  have "app_inv (restore_session_metadata w se (restore_anchors w (rs_anchors r) (claim_workspaces True (rs_anchors r) ?b')))"
    unfolding restore_session_metadata_def by (rule metadata_inv [OF ra(1)])
  then show ?thesis unfolding move_in_def Let_def
    by (cases "first_of (rs_anchors r)") (simp_all add: inv_set_active del: first_of_None)
qed

section \<open>The switch\<close>

lemma spawned_panes:
  "hget (fold (\<lambda>i m. case f i of Some p \<Rightarrow> hput i p m | None \<Rightarrow> m) ids m) j =
    (if j \<in> set ids \<and> f j \<noteq> None then f j else hget m j)"
proof (induction ids arbitrary: m)
  case (Cons i ids)
  show ?case
    using Cons.IH [of "case f i of Some p \<Rightarrow> hput i p m | None \<Rightarrow> m"]
    by (cases "j = i") (auto split: option.splits)
qed simp

lemma pruned_leaves:
  assumes "distinct (leaves l)" "\<exists>i \<in> set (leaves l). P i"
  shows "leaves (fold (\<lambda>i l. if P i then l else fst (remove_leaf l i)) is l) =
    filter (\<lambda>i. i \<notin> set is \<or> P i) (leaves l)"
  using assms
proof (induction "is" arbitrary: l)
  case (Cons i js)
  show ?case
  proof (cases "P i")
    case True
    then have "filter (\<lambda>j. j \<notin> set js \<or> P j) (leaves l) = filter (\<lambda>j. j \<notin> set (i # js) \<or> P j) (leaves l)"
      by (intro filter_cong) auto
    then show ?thesis using Cons True by simp
  next
    case False
    then have nl: "l \<noteq> Leaf i" using Cons.prems by auto
    then have rl: "leaves (fst (remove_leaf l i)) = filter (\<lambda>x. x \<noteq> i) (leaves l)"
      using leaves_remove_leaf Cons.prems by blast
    have "leaves (fold (\<lambda>i l. if P i then l else fst (remove_leaf l i)) js (fst (remove_leaf l i))) =
        filter (\<lambda>j. j \<notin> set js \<or> P j) (leaves (fst (remove_leaf l i)))"
      by (rule Cons.IH) (use Cons.prems False in \<open>auto simp: rl\<close>)
    also have "\<dots> = filter (\<lambda>j. j \<notin> set (i # js) \<or> P j) (leaves l)"
      unfolding rl filter_filter using False by (intro filter_cong) auto
    finally show ?thesis using False by simp
  qed
qed simp

text \<open>Panes spawned by \<open>f\<close> for the leaves of \<open>l0\<close>, and the leaves that got none pruned.\<close>

lemma built_panes:
  assumes d: "distinct (leaves l0)" and u: "\<forall>i \<in> set (leaves l0). i < u32_max"
    and m: "m = fold (\<lambda>i m. case f i of Some p \<Rightarrow> hput i p m | None \<Rightarrow> m) (leaves l0) []"
    and l: "l = fold (\<lambda>i l. if hhas m i then l else fst (remove_leaf l i)) (leaves l0) l0"
    and ne: "hkeys m \<noteq> []"
  shows "leaves l = filter (\<lambda>i. f i \<noteq> None) (leaves l0)" "set (leaves l) = hdom m"
    "hget m j = (if j \<in> set (leaves l0) then f j else None)"
    "(Max (set (leaves l)) + 1) mod 4294967296 = Max (set (leaves l)) + 1"
    "i \<in> hdom m \<Longrightarrow> i < Max (set (leaves l)) + 1"
proof -
  have g: "hget m j = (if j \<in> set (leaves l0) then f j else None)" for j
    unfolding m spawned_panes by simp
  then show "hget m j = (if j \<in> set (leaves l0) then f j else None)" .
  obtain k where k: "hget m k \<noteq> None" using ne in_hkeys [of "hd (hkeys m)" m] hd_in_set by blast
  then have "k \<in> set (leaves l0)" using g by (metis (full_types))
  then have "\<exists>i \<in> set (leaves l0). hhas m i" using k by auto
  then have "leaves l = filter (\<lambda>i. i \<notin> set (leaves l0) \<or> hhas m i) (leaves l0)"
    unfolding l by (rule pruned_leaves [OF d])
  also have "\<dots> = filter (\<lambda>i. f i \<noteq> None) (leaves l0)" by (intro filter_cong) (auto simp: g)
  finally show lv: "leaves l = filter (\<lambda>i. f i \<noteq> None) (leaves l0)" .
  show keys: "set (leaves l) = hdom m" using lv g by auto
  have "Max (set (leaves l)) \<in> set (leaves l)" by (rule Max_in) simp_all
  then have "Max (set (leaves l)) < u32_max" using u lv by (metis filter_is_subset subsetD)
  then show "(Max (set (leaves l)) + 1) mod 4294967296 = Max (set (leaves l)) + 1" by (simp add: u32_max_def)
  show "i < Max (set (leaves l)) + 1" if "i \<in> hdom m"
  proof -
    have "i \<in> set (leaves l)" using that unfolding keys .
    then have "i \<le> Max (set (leaves l))" by (intro Max_ge) simp_all
    then show ?thesis by simp
  qed
qed

lemma built_session:
  assumes d: "distinct (leaves (layout_from_snapshot (se_layout se)))"
    and u: "\<forall>i \<in> set (leaves (layout_from_snapshot (se_layout se))). i < u32_max"
    and b: "build_session_panes w se = Some r"
  shows "restored_ok r"
proof -
  let ?l0 = "layout_from_snapshot (se_layout se)"
  let ?f = "\<lambda>i. pane_new w i (session_cwd w se i)"
  define m where "m = fold (\<lambda>i m. case ?f i of Some p \<Rightarrow> hput i p m | None \<Rightarrow> m) (leaves ?l0) []"
  define l where "l = fold (\<lambda>i l. if hhas m i then l else fst (remove_leaf l i)) (leaves ?l0) ?l0"
  have ne: "hkeys m \<noteq> []" and r: "rs_panes r = m" "rs_layout r = l"
      "rs_anchors r = set (filter (hhas m) (map ar_pane_id (se_anchors se)))"
      "rs_next_id r = (Max (set (leaves l)) + 1) mod 4294967296"
    using b by (auto simp: build_session_panes_def Let_def m_def [symmetric] l_def [symmetric] simp del: hhas_iff split: if_splits)
  note bp = built_panes [OF d u m_def l_def ne]
  have "\<not> is_satellite p" if "hget m i = Some p" for i p
    using that bp(3) [of i] pane_new_terminal by (auto split: if_splits)
  then show ?thesis
    unfolding restored_ok_def r bp(4) using bp(1,2,5) d by (auto simp: hhas_def)
qed

lemma fresh_session: "fresh_session_panes w 1 = Some r \<Longrightarrow> restored_ok r"
  using pane_new_terminal
  by (auto simp: fresh_session_panes_def restored_ok_def hget_Cons split: if_splits)

lemma switch_session_inv:
  assumes "app_inv s" and "hdom (ap_surface_to_pane s) = {}"
    and "\<And>d1 se. store_load en target d = (d1, Inr se) \<Longrightarrow>
      distinct (leaves (layout_from_snapshot (se_layout se))) \<and>
      (\<forall>i \<in> set (leaves (layout_from_snapshot (se_layout se))). i < u32_max)"
  shows "case switch_session w en target (s, d) of
      ((s', _), Inr _) \<Rightarrow> app_inv s'
    | ((s', _), Inl e) \<Rightarrow> if e = NoPaneSpawned then emptied s' else s' = s"
proof -
  define out where "out d1 = (case ap_session s of
      None \<Rightarrow> (d1, Inr ())
    | Some cur \<Rightarrow> (case store_save en (outgoing_session w cur s) d1 of
        (d2, Inl e) \<Rightarrow> (d2, Inl (SwitchSave cur e)) | (d2, Inr _) \<Rightarrow> (d2, Inr ())))" for d1
  have moved: "app_inv (notify_anchors_changed ((move_in w se r (tear_down w s))\<lparr>ap_session := Some target\<rparr>))"
    if "restored_ok r" for se r
    using move_in_inv [OF tear_down_state(1,2) [OF assms(1,2)] that, of w se w]
    by simp
  have built: "restored_ok r"
    if "store_load en target d = (d1, Inr se)" "or_else (build_session_panes w se) (fresh_session_panes w 1) = Some r" for d1 se r
    using that(2) assms(3) [OF that(1)] built_session [of se w r] fresh_session [of w r]
    by (auto simp: or_else_def split: option.splits)
  note tear_down_state(1) [OF assms(1,2), of w]
  moreover have "out d1 \<noteq> (d2, Inl NoPaneSpawned)" for d1 d2
    by (auto simp: out_def split: option.splits prod.splits sum.splits)
  ultimately show ?thesis
    using built moved assms(1) unfolding switch_session_def prod.case out_def [symmetric] Let_def
    by (auto split: prod.split sum.split option.split) 
qed

lemma app_new_inv: "inj rng \<Longrightarrow> app_inv (app_new rng first p)"
  by (auto simp: app_new_def app_of_def draw_uuid_def app_inv_def app_ok_def ok_defs live_def hget_Cons
    split: if_splits)



end
