(* ===== verification/AppInvariantReach.thy ===== *)
theory AppInvariantReach
  imports AppInvariantSession
begin

text \<open>
  The invariant of \<open>AppInvariant\<close> under the requests of agents, the events of the nested compositor
  and a change of session; the cockpit as a step relation, and the invariant of its reachable states.
\<close>

section \<open>Agents' requests\<close>

lemma check_access_inv: "app_inv s \<Longrightarrow> app_inv (fst (check_access w p u sc ag wn rs s))"
  using draw_inv by (simp add: check_access_def draw_uuid_def Let_def split: prod.split)

lemma register_grant_inv: "app_inv s \<Longrightarrow> app_inv (fst (app_register_grant_request req s))"
  by (simp add: app_register_grant_request_def split: prod.split)

lemma decide_grant_inv: "app_inv s \<Longrightarrow> app_inv (fst (app_decide_grant i d s))"
  by (simp add: app_decide_grant_def split: prod.split sum.split)

lemma authorize_anchor_inv: "app_inv s \<Longrightarrow> app_inv (fst (authorize_active_anchor w t r ag s))"
  using check_access_inv by (auto simp: authorize_active_anchor_def split: option.split)

lemma with_pane_inv:
  assumes "app_inv s" "\<And>p q s'. app_inv s' \<Longrightarrow> app_inv (fst (act p q s'))"
  shows "app_inv (fst (with_pane w u un sc ag rs act s))"
  using assms check_access_inv [OF assms(1)]
  by (auto simp: with_pane_def split: option.split prod.split sum.split) (metis fst_conv)+

lemma send_input_inv: "app_inv s \<Longrightarrow> app_inv (fst (send_input w x p q s))"
  by (simp add: send_input_def split: pane_body.split option.split)

lemma find_map_pair:
  "find_map (\<lambda>(p, v). if v = u then Some p else None) xs = Some p \<Longrightarrow> (p, u) \<in> set xs"
  by (induction xs) (auto split: if_splits prod.splits)

lemma check_access_live [simp]: "live (fst (check_access w p u sc ag wn rs s)) = live s"
  by (rule ext, simp add: check_access_def draw_uuid_def Let_def split: prod.split)

lemma rename_pane_inv:
  assumes inv: "app_inv s"
  shows "app_inv (fst (rename_pane w u t pin ag s))"
proof (cases "pane_for_uuid s u")
  case None
  then show ?thesis using inv by (simp add: rename_pane_def)
next
  case (Some p)
  obtain s1 r where c: "check_access w p u RenameScope ag None [Txt ''pane.rename title change''] s = (s1, r)"
    by (cases "check_access w p u RenameScope ag None [Txt ''pane.rename title change''] s")
  have s1: "app_inv s1" using check_access_inv [OF inv] c by (metis fst_conv)
  have "hget (ap_pane_uuids s) p = Some u"
    using find_map_pair [of u "hitems (ap_pane_uuids s)" p] Some by (simp add: pane_for_uuid_def)
  then have "live s p" using inv by (auto simp: app_inv_def app_ok_def names_ok_def)
  then have lv: "live s1 p" using check_access_live [of w p u _ ag _ _ s] c by (metis fst_conv)
  have ti: "app_inv (s1\<lparr>ap_pane_titles := hput p t (ap_pane_titles s1)\<rparr>)" for t
    by (rule titles_inv [OF s1])
      (use lv s1 in \<open>auto simp: hget_hput app_inv_def app_ok_def names_ok_def split: if_splits\<close>)
  have "app_inv (pinned_rename_request p u x y ag s1)" for x y
    using register_grant_inv [OF draw_inv [OF s1]]
    by (simp add: pinned_rename_request_def Let_def draw_uuid_def s1 split: option.split)
  then show ?thesis using Some c s1 ti by (auto simp: rename_pane_def split: sum.split option.split)
qed

lemma rename_title_inv: "app_inv s \<Longrightarrow> app_inv (fst (rename_pane_title_for_user p t s))"
  unfolding rename_pane_title_for_user_def Let_def
  by (auto split: option.split intro!: titles_inv)
    (auto simp: hget_hput hget_hdel app_inv_def app_ok_def names_ok_def split: if_splits)

lemma metadata_fields [simp]:
  "live (bus_pane_metadata req ag ow t i s) = live s"
  "satellite_pane (bus_pane_metadata req ag ow t i s) = satellite_pane s"
  "ap_layout (bus_pane_metadata req ag ow t i s) = ap_layout s"
  "ap_next_id (bus_pane_metadata req ag ow t i s) = ap_next_id s"
  "ap_anchors (bus_pane_metadata req ag ow t i s) = ap_anchors s"
  "ap_hidden (bus_pane_metadata req ag ow t i s) = ap_hidden s"
  "ap_pane_anchor_ids (bus_pane_metadata req ag ow t i s) = ap_pane_anchor_ids s"
  "ap_workspace (bus_pane_metadata req ag ow t i s) = ap_workspace s"
  "ap_pane_uuids (bus_pane_metadata req ag ow t i s) = ap_pane_uuids s"
  "ap_draws (bus_pane_metadata req ag ow t i s) = ap_draws s" "ap_rng (bus_pane_metadata req ag ow t i s) = ap_rng s"
  "ap_registry (bus_pane_metadata req ag ow t i s) = ap_registry s"
  "ap_surface_to_pane (bus_pane_metadata req ag ow t i s) = ap_surface_to_pane s"
  "ap_active (bus_pane_metadata req ag ow t i s) = ap_active s"
  by (simp_all add: bus_pane_metadata_def Let_def split: option.split pane_placement.split)

lemma metadata_reads:
  "j \<noteq> i \<Longrightarrow> hget (ap_pane_titles (bus_pane_metadata req ag ow t i s)) j = hget (ap_pane_titles s) j"
  "j \<noteq> i \<Longrightarrow> hget (ap_pane_agents (bus_pane_metadata req ag ow t i s)) j = hget (ap_pane_agents s) j"
  "j \<noteq> i \<Longrightarrow> hget (ap_tab_roots (bus_pane_metadata req ag ow t i s)) j = hget (ap_tab_roots s) j"
  "ap_tabs (bus_pane_metadata req ag None t i s) = ap_tabs s"
  "ap_active_tab (bus_pane_metadata req ag None t i s) = ap_active_tab s"
  "ap_tabs (bus_pane_metadata req ag (Some a) t i s) =
    (if pcr_placement req = Tab then ap_tabs (push_tab a i s) else ap_tabs s)"
  "ap_active_tab (bus_pane_metadata req ag (Some a) t i s) =
    (if pcr_placement req = Tab \<and> pcr_activate req then hput a i (ap_active_tab s) else ap_active_tab s)"
  by (simp_all add: bus_pane_metadata_def Let_def push_tab_def split: option.split pane_placement.split)

lemma metadata_eqD:
  "hget (ap_pane_titles (bus_pane_metadata req ag ow t i s)) j = Some x \<Longrightarrow> j = i \<or> hget (ap_pane_titles s) j = Some x"
  "hget (ap_pane_agents (bus_pane_metadata req ag ow t i s)) j = Some y \<Longrightarrow> j = i \<or> hget (ap_pane_agents s) j = Some y"
  by (metis metadata_reads(1), metis metadata_reads(2))

lemma bus_finish_inv:
  assumes "app_inv s"
  shows "app_inv (fst (bus_pane_finish w req p ow i u s))"
proof -
  obtain s1 r where "(if pcr_argv req = [] then (s, Inr ())
      else send_input w (shell_command_line (pcr_argv req) @ [CHR 0x0A]) i p s) = (s1, r)" (is "?c = _")
    by (cases ?c)
  moreover have "app_inv (fst ?c)" using assms send_input_inv by simp
  ultimately have "app_inv s1" by simp
  then show ?thesis using \<open>?c = (s1, r)\<close> unfolding bus_pane_finish_def by (simp add: Let_def split: sum.split)
qed

lemma workspace_anchor: "app_ok s \<Longrightarrow> hget (ap_workspace s) p = Some a \<Longrightarrow> a \<in> ap_anchors s"
  by (auto simp: app_ok_def workspace_ok_def)

lemma create_pane_inv:
  assumes inv: "app_inv s" and n: "ap_next_id s < u32_max"
  shows "app_inv (fst (create_pane_from_bus w req s))"
proof (cases "bus_target req s")
  case (Inl e)
  then show ?thesis using inv by (simp add: create_pane_from_bus_def)
next
  case (Inr t)
  let ?i = "ap_next_id s" and ?d = "case pcr_placement req of SplitDown \<Rightarrow> Horizontal | _ \<Rightarrow> Vertical"
  show ?thesis
  proof (cases "live s t \<and> pane_new w ?i (target_cwd w s t) \<noteq> None")
    case False
    then show ?thesis using Inr inv by (auto simp: create_pane_from_bus_def Let_def)
  next
    case True
    then obtain p where lv: "live s t" and p: "pane_new w ?i (target_cwd w s t) = Some p" by auto
    have ok: "app_ok s" using inv by (rule app_inv_ok)
    define s1 where "s1 = fst (insert_pane ?i p s)"
    define owner where "owner = (case hget (ap_workspace s1) t of Some a \<Rightarrow> Some a
      | None \<Rightarrow> if t \<in> ap_anchors s1 then Some t else None)"
    have oa: "a \<in> ap_anchors s" if "owner = Some a" for a
      using that ok by (auto simp: owner_def s1_def app_ok_def workspace_ok_def split: option.splits if_splits)
    define agent where "agent = (case pcr_agent req of Some ag \<Rightarrow> Some ag
      | None \<Rightarrow> (case child_pid p of Some pid \<Rightarrow> agent_identity_from_child_env w pid | None \<Rightarrow> None))"
    define s3 where "s3 = bump_next_id (case owner of
      Some a \<Rightarrow> ensure_terminal_tab_stack a (s1\<lparr>ap_workspace := hput ?i a (ap_workspace s1)\<rparr>) | None \<Rightarrow> s1)"
    have s3: "ap_layout s3 = ap_layout s" by (simp add: s3_def s1_def split: option.split)
    obtain s4 b where sp: "splice_leaf ?d t ?i s3 = (s4, b)" by (cases "splice_leaf ?d t ?i s3")
    note sl = spliced [OF ok sp s3]
    define l where "l = ap_layout s4"
    have b: b and s4: "s4 = s3\<lparr>ap_layout := l\<rparr>" using sl(1,2) lv by (simp_all add: l_def)
    have lay: "distinct (leaves l)" "set (leaves l) = insert ?i (set (leaves (ap_layout s)))"
      using sl(4,5) [OF lv] by (simp_all add: l_def)
    let ?u = "bus_pane_metadata req agent owner t ?i s4"
    obtain uu where ins: "insert_pane ?i p s = (s1, uu)" unfolding s1_def by (metis prod.collapse)
    have e: "create_pane_from_bus w req s = bus_pane_finish w req p owner ?i uu ?u"
      using Inr lv p ins sp b unfolding create_pane_from_bus_def owner_def agent_def s3_def Let_def by simp
    have "app_ok ?u"
    proof (cases owner)
      case None
      show ?thesis
      proof (rule added_ok [OF ok refl])
        show "tabs_ok ?u" unfolding None
          by (rule tabs_ok_mono [of s])
            (use ok in \<open>auto simp: s4 s3_def s1_def None app_ok_def metadata_reads intro: metadata_reads(3)\<close>)
      qed (use lay n workspace_anchor [OF ok] in
        \<open>auto simp: s4 s3_def s1_def None bump_next metadata_reads dest: metadata_eqD\<close>)
    next
      case (Some a)
      then have a: "a \<in> ap_anchors s" "live s a" using oa ok by (auto simp: app_ok_def anchors_ok_def)
      let ?s0 = "ensure_terminal_tab_stack a s"
      have ok0: "app_ok ?s0" using ok a(2) by (rule ensure_stack_ok)
      have tabs: "ap_tabs s4 = ap_tabs ?s0" "ap_active_tab s4 = ap_active_tab ?s0" "ap_tab_roots s4 = ap_tab_roots ?s0"
        by (simp_all add: s4 s3_def s1_def Some ensure_terminal_tab_stack_def)
      have lv4: "live s4 j = (live s j \<or> j = ?i)" for j by (simp add: s4 s3_def s1_def Some)
      show ?thesis
      proof (rule added_ok [OF ok0, of ?i])
        have t0: "tabs_ok ?s0" using ok0 by (simp add: app_ok_def)
        have lvu: "live ?u j" if "live ?s0 j" for j using that lv4 by simp
        have roots: "hget (ap_tab_roots ?u) j = hget (ap_tab_roots ?s0) j \<or> live ?u j" for j
          by (cases "j = ?i") (simp_all add: metadata_reads(3) lv4 tabs)
        show "tabs_ok ?u"
        proof (cases "pcr_placement req = Tab")
          case True
          show ?thesis
            by (rule push_tab_ok [OF t0 _ lvu ensure_stack_has _ _ roots, of ?i])
              (simp_all add: Some metadata_reads True tabs lv4 push_tab_def)
        next
          case False
          show ?thesis
            by (rule tabs_ok_mono [OF t0 lvu _ _ roots]) (simp_all add: Some metadata_reads False tabs)
        qed
      qed (use lay n a lv4 in \<open>auto simp: s4 s3_def s1_def Some bump_next metadata_reads dest: metadata_eqD\<close>)
    qed
    moreover have "ap_anchors ?u = ap_anchors s" "ap_active ?u = ap_active s"
      by (simp_all add: s4 s3_def s1_def split: option.split)
    ultimately have "app_inv ?u" using app_inv_same [OF inv] by blast
    then show ?thesis using e bus_finish_inv by simp
  qed
qed

section \<open>Events of the nested compositor\<close>

lemma is_satellite_edit [simp]: "is_satellite (edit_satellite f p) = is_satellite p"
  by (simp add: edit_satellite_def is_satellite_def split: pane_body.split)

lemma edit_panes [simp]:
  "satellite_pane (s\<lparr>ap_panes := hmodify i (edit_satellite f) m\<rparr>) = satellite_pane (s\<lparr>ap_panes := m\<rparr>)"
  by (rule ext) (simp add: satellite_pane_def hget_hmodify split: option.split)

lemma satellite_panes_same [simp]: "satellite_pane (s\<lparr>ap_panes := ap_panes s\<rparr>) = satellite_pane s"
  by (simp add: satellite_pane_def)

lemma edit_pane_inv:
  assumes inv: "app_inv s"
  shows "app_inv (s\<lparr>ap_panes := hmodify p (edit_satellite f) (ap_panes s)\<rparr>)"
proof -
  have "app_ok (s\<lparr>ap_panes := hmodify p (edit_satellite f) (ap_panes s)\<rparr>)"
    by (rule unchanged_ok [OF app_inv_ok [OF inv]])
      (use inv in \<open>auto simp: app_inv_def app_ok_def tabs_ok_def\<close>)
  then show ?thesis using app_inv_same [OF inv] by simp
qed

lemma surface_gone_inv: "app_inv s \<Longrightarrow> app_inv (s\<lparr>ap_surface_to_pane := hdel sf (ap_surface_to_pane s)\<rparr>)"
  by (rule app_inv_same [of s])
    (auto simp: app_inv_def app_ok_def ok_defs hget_hdel split: if_splits)

lemma tell_inv [simp]: "app_inv s \<Longrightarrow> app_inv (tell_satellite p u s)"
  by (simp add: tell_satellite_def)

lemma tell_all_inv: "app_inv s \<Longrightarrow> app_inv (fold (\<lambda>p. tell_satellite p u) ps s)"
  by (induction ps arbitrary: s) simp_all

lemma popup_inv [simp]:
  "app_inv s \<Longrightarrow> app_inv (attach_popup p sf x y wd ht s)" "app_inv s \<Longrightarrow> app_inv (close_popup sf s)"
  "app_inv s \<Longrightarrow> app_inv (route_frame sf s)"
  by (simp_all add: attach_popup_def close_popup_def route_frame_def split: option.split)

lemma with_surface_inv [simp]: "app_inv s \<Longrightarrow> app_inv (with_surface sf f s)"
  by (simp add: with_surface_def edit_pane_inv split: option.split)

lemma toplevel_created_inv:
  assumes inv: "app_inv s" and n: "ap_next_id s < u32_max" and foc: "live s (ap_focused s)"
  shows "app_inv (on_toplevel_created sf title app_id s)"
proof (cases "ap_has_host s")
  case False
  then show ?thesis using inv by (simp add: on_toplevel_created_def)
next
  case True
  let ?i = "ap_next_id s" and ?t = "ap_focused s"
  let ?p = "\<lparr>pa_body = Satellite \<lparr>sl_surface = sf, sl_title = title, sl_app_id = app_id, sl_closed = False\<rparr>,
    pa_look = fresh_look\<rparr>"
  have ok: "app_ok s" using inv by (rule app_inv_ok)
  obtain s1 b where sp: "splice_leaf Vertical ?t ?i (bump_next_id s) = (s1, b)"
    by (cases "splice_leaf Vertical ?t ?i (bump_next_id s)")
  have bl: "ap_layout (bump_next_id s) = ap_layout s" by simp
  note sl = spliced [OF ok sp bl]
  define l where "l = ap_layout s1"
  have b: b and s1: "s1 = (bump_next_id s)\<lparr>ap_layout := l\<rparr>" using sl(1,2) foc by (simp_all add: l_def)
  have lay: "distinct (leaves l)" "set (leaves l) = insert ?i (set (leaves (ap_layout s)))"
    using sl(4,5) [OF foc] by (simp_all add: l_def)
  define s2 where "s2 = (case hget (ap_workspace s1) ?t of
    Some a \<Rightarrow> s1\<lparr>ap_workspace := hput ?i a (ap_workspace s1)\<rparr> | None \<Rightarrow> s1)"
  define s3 where "s3 = fst (insert_pane ?i ?p s2)"
  let ?u = "s3\<lparr>ap_surface_to_pane := hput sf ?i (ap_surface_to_pane s3)\<rparr>"
  have e: "on_toplevel_created sf title app_id s = rebuild_widget_tree ?u"
    using True foc sp b by (simp add: on_toplevel_created_def Let_def s2_def s3_def)
  have s2: "live s2 = live s" "satellite_pane s2 = satellite_pane s" "ap_layout s2 = l"
    "ap_next_id s2 = Suc ?i" "ap_anchors s2 = ap_anchors s" "ap_hidden s2 = ap_hidden s" "ap_rng s2 = ap_rng s"
    "ap_pane_anchor_ids s2 = ap_pane_anchor_ids s" "ap_registry s2 = ap_registry s" "ap_draws s2 = ap_draws s"
    "ap_pane_uuids s2 = ap_pane_uuids s" "ap_tabs s2 = ap_tabs s" "ap_active_tab s2 = ap_active_tab s"
    "ap_tab_roots s2 = ap_tab_roots s" "ap_pane_titles s2 = ap_pane_titles s" "ap_pane_agents s2 = ap_pane_agents s"
    "ap_surface_to_pane s2 = ap_surface_to_pane s" "ap_active s2 = ap_active s"
    using n by (simp_all add: s2_def s1 bump_next split: option.split)
  have ws: "hget (ap_workspace s2) j = hget (ap_workspace s) j" if "j \<noteq> ?i" for j
    using that by (simp add: s2_def s1 split: option.split)
  have wi: "a \<in> ap_anchors s" if "hget (ap_workspace s2) ?i = Some a" for a
    using that workspace_anchor [OF ok] by (auto simp: s2_def s1 split: option.splits)
  have "tabs_ok ?u" by (rule tabs_ok_mono [of s]) (use ok in \<open>auto simp: s3_def s2 app_ok_def\<close>)
  moreover have "is_satellite ?p" by (simp add: is_satellite_def)
  ultimately have "app_ok ?u"
    by (intro added_ok [OF ok refl]) (use lay ws wi in \<open>auto simp: s3_def s2 hget_hput split: if_splits\<close>)
  then have "app_inv ?u" by (rule app_inv_same [OF inv]) (simp_all add: s3_def s2)
  then show ?thesis using e by simp
qed

lemma refocus_fields [simp]:
  "app_ok (refocus_after_close p s) = app_ok s" "ap_anchors (refocus_after_close p s) = ap_anchors s"
  "ap_active (refocus_after_close p s) = ap_active s"
  by (simp_all add: refocus_after_close_def Let_def)

lemma toplevel_closed_inv:
  assumes inv: "app_inv s"
  shows "app_inv (on_toplevel_closed sf s)"
proof (cases "hget (ap_surface_to_pane s) sf")
  case None
  then show ?thesis using inv by (simp add: on_toplevel_closed_def)
next
  case (Some p)
  let ?s1 = "s\<lparr>ap_surface_to_pane := hdel sf (ap_surface_to_pane s),
    ap_panes := hmodify p (edit_satellite (\<lambda>b. b\<lparr>sl_closed := True\<rparr>)) (ap_panes s)\<rparr>"
  have i1: "app_inv ?s1" using edit_pane_inv [OF surface_gone_inv [OF inv]] by simp
  then have ok1: "app_ok ?s1" by (rule app_inv_ok)
  have "live s p \<longrightarrow> satellite_pane s p" using inv Some by (auto simp: app_inv_def app_ok_def surfaces_ok_def)
  then have np: "p \<notin> ap_anchors s" using inv by (auto simp: app_inv_def app_ok_def anchors_ok_def)
  show ?thesis
  proof (cases "ap_layout s = Leaf p")
    case True
    then show ?thesis using Some i1 by (simp add: on_toplevel_closed_def Let_def)
  next
    case False
    define s2 where "s2 = ?s1\<lparr>ap_layout := fst (remove_leaf (ap_layout s) p), ap_panes := hdel p (ap_panes ?s1)\<rparr>"
    define s3 where "s3 = remove_terminal_tab_metadata p (forget_pane_names p s2)"
    define s4 where "s4 = s3\<lparr>ap_workspace := hdel p (ap_workspace s3)\<rparr>"
    have e: "on_toplevel_closed sf s = (let s5 = rebuild_widget_tree (refocus_after_close p s4)
        in refresh_focus_css (grab_focus (ap_focused s5) s5))"
      using Some False by (simp add: on_toplevel_closed_def Let_def s2_def s3_def s4_def)
    have lay: "leaves (ap_layout s4) = filter (\<lambda>i. i \<noteq> p) (leaves (ap_layout ?s1))"
      using leaves_remove_leaf [of "ap_layout s" p] False ok1
      by (simp add: s4_def s3_def s2_def app_ok_def panes_ok_def)
    have "app_ok s4"
    proof (rule dropped_ok [OF ok1, of p])
      show "leaves (ap_layout s4) = filter (\<lambda>i. i \<noteq> p) (leaves (ap_layout ?s1))" by (rule lay)
    qed (use np in \<open>auto simp: s4_def s3_def s2_def hget_hdel satellite_pane_deleted
        remove_tab_cong [where s = "forget_pane_names _ _" and s' = "s\<lparr>ap_surface_to_pane := _, ap_panes := _\<rparr>"]
        split: if_splits\<close>)
    then have "app_inv s4" by (rule app_inv_same [OF inv]) (simp_all add: s4_def s3_def s2_def)
    then have "app_inv (rebuild_widget_tree (refocus_after_close p s4))"
      by (rule app_inv_same) (simp_all add: app_inv_ok \<open>app_ok s4\<close>)
    then show ?thesis using e by (simp add: Let_def)
  qed
qed

lemma host_event_inv:
  assumes inv: "app_inv s" and ev: "\<And>sf t i. ev = HE_ToplevelCreated sf t i \<Longrightarrow> ap_next_id s < u32_max \<and> live s (ap_focused s)"
  shows "app_inv (handle_host_event w ev s)"
  using assms toplevel_created_inv toplevel_closed_inv tell_all_inv
  by (cases ev) (auto simp: Let_def split: option.split prod.split)


section \<open>The cockpit as a machine\<close>

text \<open>
  One rule per command: what the user's keys and clicks, a child's exit, bus clients and the nested
  compositor make the cockpit do. The premises are conditions the code does not check; each excludes a way
  out of the invariant. A command that makes a pane finds a pane id left below the last of 32 bits. Tag is
  of a pane that is no window of the nested compositor (the code tags whatever pane it is given), and so
  is Next_Anchor, which tags the focused pane when there is no anchor. A new window finds the focus on a
  live pane: otherwise the code replaces the whole layout by the new leaf. A session is switched to
  when no window of the nested compositor is recorded (the records are kept and name panes of the old
  session), when the file's layout names no pane twice nor the last pane id, and the switch succeeds.
\<close>

inductive cockpit_step :: "app \<Rightarrow> app \<Rightarrow> bool" where
  Focus: "cockpit_step s (set_focused p s)"
| Cycle_Focus: "cockpit_step s (cycle_focus forward s)"
| Split_Pane: "ap_next_id s < u32_max \<Longrightarrow> cockpit_step s (split_focused w d s)"
| New_Tab: "ap_next_id s < u32_max \<Longrightarrow> cockpit_step s (fst (create_terminal_tab_for_focused w s))"
| New_Tab_For: "ap_next_id s < u32_max \<Longrightarrow> cockpit_step s (fst (create_terminal_tab_for_anchor w a s))"
| Show_Tab: "cockpit_step s (fst (activate_terminal_tab a t s))"
| New_Anchor: "ap_next_id s < u32_max \<Longrightarrow> cockpit_step s (create_new_anchor w s)"
| Close: "cockpit_step s (close_focused w s)"
| Child_Exit: "cockpit_step s (close_exited_pane w p s)"
| Move_Pane: "cockpit_step s (reparent_pane p q e s)"
| Rearrange: "cockpit_step s (fst (toggle_rearrange_mode s))"
| Tag: "\<not> satellite_pane s p \<Longrightarrow> cockpit_step s (add_anchor w p s)"
| Untag: "cockpit_step s (remove_anchor w p s)"
| Next_Anchor: "\<not> satellite_pane s (ap_focused s) \<Longrightarrow> cockpit_step s (cycle_active_anchor w s)"
| Show_Anchor: "cockpit_step s (set_active_anchor t s)"
| Ensure_Anchor: "cockpit_step s (ensure_anchor_invariant w s)"
| Pause: "cockpit_step s (fst (pause_anchor w p s))"
| Resume: "cockpit_step s (fst (resume_anchor w p s))"
| Hide: "cockpit_step s (fst (hide_anchor p s))"
| Reattach: "cockpit_step s (fst (reattach_anchor p s))"
| Rename_Anchor: "cockpit_step s (rename_anchor_for_pane p n s)"
| Regroup: "cockpit_step s (regroup_anchor_for_pane p n s)"
| Sort_Key: "cockpit_step s (set_anchor_sort_key_for_pane p k s)"
| Reorder: "cockpit_step s (reorder_anchors_in_group ps s)"
| Window: "cockpit_step s (register_satellite_window a v s)"
| Attach_Window: "cockpit_step s (fst (attach_native_window_to_active_anchor c v s))"
| Bus_New: "ap_next_id s < u32_max \<Longrightarrow> cockpit_step s (fst (create_pane_from_bus w req s))"
| Bus_Input: "cockpit_step s (fst (send_input_to_pane w u x ag s))"
| Bus_Tail: "cockpit_step s (fst (pane_transcript_tail w u n ag s))"
| Bus_Capture: "cockpit_step s (fst (pane_transcript_capture w u since m ag s))"
| Bus_Rename: "cockpit_step s (fst (rename_pane w u x pin ag s))"
| Bus_Attach: "cockpit_step s (fst (authorize_active_anchor w x r ag s))"
| Rename_Title: "cockpit_step s (fst (rename_pane_title_for_user p title s))"
| Grant_Request: "cockpit_step s (fst (app_register_grant_request gr s))"
| Grant_Decision: "cockpit_step s (fst (app_decide_grant i dec s))"
| Host: "(\<And>sf t i. ev = HE_ToplevelCreated sf t i \<Longrightarrow> ap_next_id s < u32_max \<and> live s (ap_focused s)) \<Longrightarrow>
    cockpit_step s (handle_host_event w ev s)"
| Switch: "hdom (ap_surface_to_pane s) = {} \<Longrightarrow>
    (\<And>d1 se. store_load en target d = (d1, Inr se) \<Longrightarrow>
      distinct (leaves (layout_from_snapshot (se_layout se))) \<and>
      (\<forall>i \<in> set (leaves (layout_from_snapshot (se_layout se))). i < u32_max)) \<Longrightarrow>
    switch_session w en target (s, d) = ((s', d'), Inr ()) \<Longrightarrow> cockpit_step s s'"

lemmas step_inv_lemmas = split_focused_active create_tab_active activate_tab_inv create_new_anchor_inv
  close_focused_inv(2) close_exited_inv(2) reparent_inv add_anchor_inv remove_anchor_inv cycle_anchor_inv
  inv_set_active hide_anchor_inv reattach_anchor_inv reorder_inv register_window_inv attach_window_inv
  create_pane_inv rename_pane_inv rename_title_inv register_grant_inv decide_grant_inv authorize_anchor_inv
  host_event_inv

lemma cockpit_step_inv: "cockpit_step s s' \<Longrightarrow> app_inv s \<Longrightarrow> app_inv s'"
proof (induction rule: cockpit_step.induct)
  case (Switch s en target d w s' d')
  then show ?case using switch_session_inv [of s en target d w] by simp
next
  case (Host ev s w)
  show ?case by (rule host_event_inv [OF Host(2,1)])
next
  case (Close s w)
  show ?case using close_focused_inv(2) [OF app_inv_ok [OF Close] Close] .
next
  case (Child_Exit s w p)
  show ?case using close_exited_inv(2) [OF app_inv_ok [OF Child_Exit] Child_Exit] .
next
  case (Rearrange s)
  then show ?case by (simp add: toggle_rearrange_mode_def Let_def)
next
  case (Ensure_Anchor s w)
  then show ?case using ensure_invariant_inv app_inv_ok by blast
next
  case (Pause s w p)
  then show ?case unfolding pause_anchor_def using reg_keeps(1) by (rule signal_anchor_inv)
next
  case (Resume s w p)
  then show ?case unfolding resume_anchor_def using reg_keeps(2) by (rule signal_anchor_inv)
next
  case (Rename_Anchor s p n)
  then show ?case unfolding rename_anchor_for_pane_def using reg_keeps(4) by (rule edit_anchor_inv)
next
  case (Regroup s p n)
  then show ?case unfolding regroup_anchor_for_pane_def using reg_keeps(5) by (rule edit_anchor_inv)
next
  case (Sort_Key s p k)
  then show ?case unfolding set_anchor_sort_key_for_pane_def using reg_keeps(6) by (rule edit_anchor_inv)
next
  case (Bus_Input s w u x ag)
  then show ?case unfolding send_input_to_pane_def using send_input_inv by (rule with_pane_inv)
next
  case (Bus_Tail s w u n ag)
  then show ?case unfolding pane_transcript_tail_def by (rule with_pane_inv) simp
next
  case (Bus_Capture s w u since m ag)
  then show ?case unfolding pane_transcript_capture_def by (rule with_pane_inv) simp
qed (simp_all add: step_inv_lemmas)

text \<open>C1: Every state reached from the one-pane state the cockpit starts with, by commands that meet the
  conditions below, has the invariant: the layout's leaves are the live panes, each once; anchors are
  live terminals with registry entries and distinct fresh ids, and own themselves; every owned pane is live
  and its owner an anchor; tab stacks, tab roots, titles, agents and uuids are those of live panes; the
  active anchor is an anchor. The conditions, which the code does not check and the relation of the steps
  states as premises: a split, a new tab, a new anchor, a pane asked for on the bus and a new window of the
  nested compositor find a pane id left (below 2^32 - 1); a new window of the nested compositor finds the focus on a live pane;
  the pane tagged as an anchor, and the focused pane when the next anchor is asked for, is no window of
  the nested compositor; a session is switched to only while no window of the nested compositor is
  recorded, its layout names no pane twice and none with the last id, and the switch succeeds. All other
  commands may come at any time with any arguments. The random source never repeats an id. Without the
  conditions the invariant can be left, as the findings at state.rs:2216, :2445, :3800 and bus.rs:656 tell.\<close>

theorem reachable_cockpit_invariant:
  assumes "inj rng" and "cockpit_step\<^sup>*\<^sup>* (app_new rng first p) s"
  shows "app_inv s"
  using assms(2,1)
  by (induction rule: rtranclp_induct) (simp_all add: app_new_inv cockpit_step_inv)

theorem reachable_cockpit_invariant_witness:
  "\<forall>w d p. app_inv (close_focused w (create_new_anchor w (split_focused w d (app_new (\<lambda>n. n) 1 p))))"
proof (intro allI)
  fix w d p
  define s where "s = app_new (\<lambda>n. n) 1 p"
  have n: "ap_next_id s = 2" by (simp add: s_def app_new_def app_of_def draw_uuid_def)
  have "ap_next_id (split_focused w d s) \<le> 3"
    by (auto simp: split_focused_def Let_def splice_leaf_def bump_next_id_def sat_add_u32_def n u32_max_def
      split: option.split prod.split)
  then have "cockpit_step (split_focused w d s) (create_new_anchor w (split_focused w d s))"
    by (intro cockpit_step.New_Anchor) (simp add: u32_max_def)
  note b = this
  have a: "cockpit_step s (split_focused w d s)" using n by (intro cockpit_step.Split_Pane) (simp add: u32_max_def)
  have "cockpit_step\<^sup>*\<^sup>* s (close_focused w (create_new_anchor w (split_focused w d s)))"
    using a b by (blast intro: converse_rtranclp_into_rtranclp [where r = cockpit_step] cockpit_step.Close)
  then show "app_inv (close_focused w (create_new_anchor w (split_focused w d (app_new (\<lambda>n. n) 1 p))))"
    unfolding s_def by (intro reachable_cockpit_invariant) simp_all
qed

end
