(* ===== verification/AppStart.thy ===== *)
theory AppStart
  imports AppInvariantSession
begin

text \<open>
  The start and the end of a cockpit, the session half of \<open>crates/lmux/src/app.rs\<close>: the file of the last
  session, the panes spawned from it, the activation with and without it, and the shutdown that writes it.
  Windows, menus, callbacks and cell sizes are left to the toolkit.
\<close>

section \<open>The file of the last session\<close>

text \<open>\<open>xdg\<close> and \<open>home\<close> are the variables \<open>XDG_DATA_HOME\<close> and \<open>HOME\<close>.\<close>

definition session_file :: "string option \<Rightarrow> string option \<Rightarrow> string option" where
  "session_file xdg home =
    (case (case xdg of Some x \<Rightarrow> if x \<noteq> [] then Some (x @ ''/lmux/last-session.json'') else None | None \<Rightarrow> None) of
       Some p \<Rightarrow> Some p
     | None \<Rightarrow> map_option (\<lambda>h. h @ ''/.local/share/lmux/last-session.json'') home)"

definition load_snapshot ::
  "sysfaults \<Rightarrow> nat \<Rightarrow> (string \<Rightarrow> string + session_snapshot) \<Rightarrow> string option \<Rightarrow> files \<Rightarrow>
    files \<times> session_snapshot option" where
  "load_snapshot ff now from_slice path d =
    (case path of None \<Rightarrow> (d, None)
     | Some p \<Rightarrow> (case load ff now from_slice p d of
         (d', Loaded sn) \<Rightarrow> (d', Some sn) | (d', Missing) \<Rightarrow> (d', None) | (d', Corrupt _ _) \<Rightarrow> (d', None)))"

section \<open>Panes from a snapshot\<close>

definition resolve_restore_cwd :: "world \<Rightarrow> string option \<Rightarrow> string option" where
  "resolve_restore_cwd w recorded =
    (case recorded of Some p \<Rightarrow> if wd_is_dir w p then Some p else wd_home w | None \<Rightarrow> wd_home w)"

definition respawn :: "world \<Rightarrow> session_snapshot \<Rightarrow> pane_id \<Rightarrow> pane option" where
  "respawn w sn i =
    (case hget (sn_cwds sn) i of None \<Rightarrow> None
     | Some c \<Rightarrow> pane_new w i (resolve_restore_cwd w (Some c)))"

definition build_restored :: "world \<Rightarrow> session_snapshot \<Rightarrow> restored option" where
  "build_restored w sn =
    (let l0 = layout_from_snapshot (sn_layout sn);
         ids = leaves l0;
         panes = fold (\<lambda>i m. case respawn w sn i of Some p \<Rightarrow> hput i p m | None \<Rightarrow> m) ids []
     in if hkeys panes = [] then None
        else let l = fold (\<lambda>i l. if hhas panes i then l else fst (remove_leaf l i)) ids l0;
                 anchors = set (filter (hhas panes) (snapshot_anchors sn))
             in Some \<lparr>rs_panes = panes, rs_layout = l,
                  rs_focused = (case first_of anchors of Some a \<Rightarrow> a | None \<Rightarrow> hd (leaves l)),
                  rs_anchors = anchors, rs_next_id = (Max (set (leaves l)) + 1) mod 4294967296\<rparr>)"

section \<open>Activation\<close>

definition start_restored :: "world \<Rightarrow> (nat \<Rightarrow> uuid) \<Rightarrow> session_snapshot \<Rightarrow> restored \<Rightarrow> app" where
  "start_restored w rng sn r =
    restore_snapshot_metadata w sn (new_from_snapshot w rng (rs_panes r) (rs_layout r) (rs_focused r)
      (rs_anchors r) (rs_next_id r))"

text \<open>The first pane's widget is in the root container before the state is made.\<close>

definition start_fresh :: "world \<Rightarrow> (nat \<Rightarrow> uuid) \<Rightarrow> app option" where
  "start_fresh w rng =
    map_option (\<lambda>p. add_anchor w 1 ((app_new rng 1 p)\<lparr>ap_view := V_Single (Some (W_Pane 1))\<rparr>)) (pane_new w 1 None)"

definition seed_anchor :: "world \<Rightarrow> app \<Rightarrow> app" where
  "seed_anchor w s =
    (if ap_anchors s = {}
     then (case first_terminal_leaf s of Some seed \<Rightarrow> add_anchor w seed s | None \<Rightarrow> s) else s)"

text \<open>
  \<open>bus_up\<close> says that the state directory is known, so that the bridge to the compositor is installed, and
  \<open>host_up\<close> that the nested compositor started. The focus is set again when the window is mapped.
\<close>

definition activate ::
  "world \<Rightarrow> (nat \<Rightarrow> uuid) \<Rightarrow> bool \<Rightarrow> bool \<Rightarrow> session_snapshot option \<Rightarrow> app option" where
  "activate w rng bus_up host_up snap =
    (let restored = (case snap of None \<Rightarrow> None | Some sn \<Rightarrow> map_option (Pair sn) (build_restored w sn))
     in map_option (\<lambda>s. let s1 = (seed_anchor w s)\<lparr>ap_has_compositor := bus_up, ap_has_host := host_up\<rparr>
                        in set_focused (ap_focused s1) s1)
          (case restored of Some (sn, r) \<Rightarrow> Some (start_restored w rng sn r) | None \<Rightarrow> start_fresh w rng))"

section \<open>Shutdown\<close>

definition save_snapshot ::
  "world \<Rightarrow> sysfaults \<Rightarrow> nat \<Rightarrow> nat \<Rightarrow> (session_snapshot \<Rightarrow> string + string) \<Rightarrow> string option \<Rightarrow> app \<Rightarrow>
    disk \<Rightarrow> disk" where
  "save_snapshot w ff pid part to_vec path s dk =
    (case path of None \<Rightarrow> dk | Some p \<Rightarrow> fst (save ff pid part to_vec p (snapshot w s) dk))"

text \<open>The snapshot is taken first; the panes drained wait for the grace period.\<close>

definition run_shutdown ::
  "world \<Rightarrow> sysfaults \<Rightarrow> nat \<Rightarrow> nat \<Rightarrow> (session_snapshot \<Rightarrow> string + string) \<Rightarrow> string option \<Rightarrow>
    app \<times> disk \<Rightarrow> (app \<times> disk) \<times> (pane_id \<times> pane) list option" where
  "run_shutdown w ff pid part to_vec path = (\<lambda>(s, dk).
    if ap_phase s = ShuttingDown then ((s, dk), None)
    else let dk1 = save_snapshot w ff pid part to_vec path s dk
         in (case begin_shutdown w s of (s1, out) \<Rightarrow> ((s1, dk1), out)))"

definition killed_after_grace :: "world \<Rightarrow> (pane_id \<times> pane) list \<Rightarrow> pane_id list" where
  "killed_after_grace w out = map fst (filter (\<lambda>(i, p). \<not> has_exited w i p) out)"

section \<open>What a snapshot spawns\<close>

definition snapshot_usable :: "session_snapshot \<Rightarrow> bool" where
  "snapshot_usable sn =
    (let ids = leaves (layout_from_snapshot (sn_layout sn)) in distinct ids \<and> list_all (\<lambda>i. i < u32_max) ids)"

lemma respawn_terminal: "respawn w sn i = Some p \<Longrightarrow> \<not> is_satellite p"
  using pane_new_terminal by (auto simp: respawn_def split: option.splits)

lemma build_restored_ok:
  assumes "snapshot_usable sn" and b: "build_restored w sn = Some r"
  shows "restored_ok r"
    "leaves (rs_layout r) = filter (\<lambda>i. respawn w sn i \<noteq> None) (leaves (layout_from_snapshot (sn_layout sn)))"
    "rs_anchors r = {a \<in> set (snapshot_anchors sn). a \<in> set (leaves (rs_layout r))}"
proof -
  let ?l0 = "layout_from_snapshot (sn_layout sn)"
  define m where "m = fold (\<lambda>i m. case respawn w sn i of Some p \<Rightarrow> hput i p m | None \<Rightarrow> m) (leaves ?l0) []"
  define l where "l = fold (\<lambda>i l. if hhas m i then l else fst (remove_leaf l i)) (leaves ?l0) ?l0"
  have ne: "hkeys m \<noteq> []" and r: "rs_panes r = m" "rs_layout r = l"
      "rs_anchors r = set (filter (hhas m) (snapshot_anchors sn))"
      "rs_next_id r = (Max (set (leaves l)) + 1) mod 4294967296"
    using b by (auto simp: build_restored_def Let_def m_def [symmetric] l_def [symmetric] simp del: hhas_iff split: if_splits)
  have d: "distinct (leaves ?l0)" "\<forall>i \<in> set (leaves ?l0). i < u32_max"
    using assms(1) by (simp_all add: snapshot_usable_def Let_def list_all_iff)
  note bp = built_panes [OF d m_def l_def ne]
  have "\<not> is_satellite p" if "hget m i = Some p" for i p
    using that bp(3) [of i] respawn_terminal by (auto split: if_splits)
  then show "restored_ok r"
    unfolding restored_ok_def r bp(4) using bp(1,2,5) d by (auto simp: hhas_def)
  show "leaves (rs_layout r) = filter (\<lambda>i. respawn w sn i \<noteq> None) (leaves ?l0)" using bp(1) r by simp
  show "rs_anchors r = {a \<in> set (snapshot_anchors sn). a \<in> set (leaves (rs_layout r))}"
    using bp(2) r by (auto simp: hhas_def)
qed

lemma app_of_reads [simp]:
  "ap_panes (app_of rng ps l f n) = ps" "ap_layout (app_of rng ps l f n) = l"
  "ap_next_id (app_of rng ps l f n) = n" "ap_rng (app_of rng ps l f n) = rng"
  "ap_active (app_of rng ps l f n) = None" "ap_anchors (app_of rng ps l f n) = {}"
  "ap_hidden (app_of rng ps l f n) = {}" "emptied (app_of rng ps l f n)"
  "ap_workspace (app_of rng ps l f n) = []"
  by (simp_all add: app_of_def emptied_def)

lemma new_from_snapshot_ok:
  fixes w :: world and rng :: "nat \<Rightarrow> uuid"
  defines "new r \<equiv> new_from_snapshot w rng (rs_panes r) (rs_layout r) (rs_focused r) (rs_anchors r) (rs_next_id r)"
  assumes r: "restored_ok r" and rng: "inj rng"
  shows "app_inv (new r)" "ap_anchors (new r) = rs_anchors r" "ap_active (new r) = first_of (rs_anchors r)"
    "ap_layout (new r) = rs_layout r"
proof -
  let ?a = "app_of rng (rs_panes r) (rs_layout r) (rs_focused r) (rs_next_id r)"
  obtain m n where mn: "draw_pane_uuids ?a = ?a\<lparr>ap_pane_uuids := m, ap_draws := n\<rparr>"
      "drawn (?a\<lparr>ap_draws := n\<rparr>) m" "hdom m = Collect (live ?a)"
    using draw_pane_uuids_shape [of ?a] rng by auto
  have lp: "live ?a i \<longleftrightarrow> hget (rs_panes r) i \<noteq> None" for i by (simp add: live_def)
  let ?b = "draw_pane_uuids ?a"
  have f: "fresh_state ?b"
  proof (rule emptied_fresh)
    show "emptied ?b" unfolding mn(1) using app_of_reads(8) [of rng "rs_panes r"] by (simp add: emptied_def)
    show "hdom (ap_pane_uuids ?b) = Collect (live ?b)" using mn(3) by (simp add: mn(1) live_def)
    show "drawn ?b (ap_pane_uuids ?b)" using mn(2) by (simp add: mn(1) drawn_def)
    show "\<not> satellite_pane ?b i" if "live ?b i" for i
      using r by (auto simp: mn(1) restored_ok_def satellite_pane_def split: option.split)
    show "set (leaves (ap_layout ?b)) = Collect (live ?b)"
      using r by (auto simp: restored_ok_def mn(1) live_def)
    show "i < ap_next_id ?b" if "live ?b i" for i
      using that r by (auto simp: restored_ok_def mn(1) live_def)
  qed (use r rng in \<open>simp_all add: restored_ok_def mn(1) \<close>)
  let ?b' = "rebuild_widget_tree ?b"
  let ?s = "restore_anchors w (rs_anchors r) (claim_workspaces False (rs_anchors r) ?b')"
  have f': "fresh_state ?b'" using f by (simp add: fresh_state_def)
  have A: "finite (rs_anchors r)" "\<forall>a \<in> rs_anchors r. live ?b' a"
    using r lp by (auto simp: restored_ok_def mn(1) live_def)
  note ra = restore_anchors_ok [OF f' A, of w False]
  have e: "new r = (case first_of (rs_anchors r) of Some p \<Rightarrow> set_active_anchor (Some p) ?s | None \<Rightarrow> ?s)"
    by (simp add: new_def new_from_snapshot_def Let_def)
  have n: "ap_active ?s = None" using ra(3) by (simp add: mn(1))
  show "app_inv (new r)" "ap_anchors (new r) = rs_anchors r" "ap_active (new r) = first_of (rs_anchors r)"
    using ra n first_of_in [OF A(1)] unfolding e
    by (cases "first_of (rs_anchors r)";
        simp add: inv_set_active_ok active_set_active app_inv_def del: first_of_None)+
  have "ap_layout (restore_anchors w A s) = ap_layout s" for A s
    unfolding restore_anchors_def
    by (rule fold_invariant [where P = "\<lambda>t. ap_layout t = ap_layout s" and Q = "\<lambda>_. True"])
      (simp_all add: restore_anchor_def tag_anchor_core_def ensure_stack_fields)
  then show "ap_layout (new r) = rs_layout r"
    unfolding e by (simp add: mn(1) split: option.split)
qed

end
