(* ===== verification/AppRestart.thy ===== *)
theory AppRestart
  imports AppStart AppInvariantReach
begin

text \<open>
  What \<open>AppStart\<close> guarantees: every activation ends with the cockpit's invariant and an active anchor, a
  restart brings back the terminals it can spawn again, with their order, anchors and titles, and what a
  restart does not bring back.
\<close>

section \<open>An active anchor\<close>

lemma live_compositor [simp]:
  "live (s\<lparr>ap_has_compositor := b\<rparr>) = live s" "satellite_pane (s\<lparr>ap_has_compositor := b\<rparr>) = satellite_pane s"
  by (rule ext, simp add: live_def satellite_pane_def)+

lemma app_inv_compositor [simp]: "app_inv (s\<lparr>ap_has_compositor := b\<rparr>) = app_inv s"
  by (simp add: app_inv_def app_ok_def ok_defs split: option.split)

definition has_anchor :: "app \<Rightarrow> bool" where
  "has_anchor s = (app_inv s \<and> (case ap_active s of Some a \<Rightarrow> a \<in> ap_anchors s | None \<Rightarrow> False))"

lemma has_anchor_same:
  "tables s' = tables s \<Longrightarrow> ap_active s' = ap_active s \<Longrightarrow> has_anchor s' = has_anchor s"
  using ok_tables [of s' s] tables_eq_fields(6) [of s' s]
  by (cases "ap_active s") (simp_all add: has_anchor_def app_inv_def)

lemma has_anchor_shown [simp]:
  "has_anchor (rebuild_widget_tree s) = has_anchor s" "has_anchor (set_focused i s) = has_anchor s"
  by (rule has_anchor_same; simp)+

lemma has_anchor_links [simp]:
  "has_anchor (s\<lparr>ap_has_compositor := b, ap_has_host := h\<rparr>) = has_anchor s"
  by (cases "ap_active s") (simp_all add: has_anchor_def)

lemma seed_keeps: "has_anchor s \<Longrightarrow> seed_anchor w s = s"
  by (auto simp: has_anchor_def seed_anchor_def split: option.splits)

lemma first_terminal_exists:
  assumes "app_ok s" "\<forall>i. \<not> satellite_pane s i"
  shows "\<exists>i. first_terminal_leaf s = Some i \<and> live s i"
proof -
  let ?P = "\<lambda>i. case hget (ap_panes s) i of Some p \<Rightarrow> \<not> is_satellite p | None \<Rightarrow> False"
  have P: "?P i" if "live s i" for i
    using that assms(2) by (auto simp: satellite_pane_def live_def split: option.splits)
  have l: "live s i" if "i \<in> set (leaves (ap_layout s))" for i
    using that assms(1) by (simp add: app_ok_def panes_ok_def)
  have "hd (leaves (ap_layout s)) \<in> set (leaves (ap_layout s))" by (rule hd_in_set) simp
  then have "find ?P (leaves (ap_layout s)) \<noteq> None" using P l by (simp only: find_None_iff) blast
  then obtain i where i: "find ?P (leaves (ap_layout s)) = Some i" by blast
  then have "live s i" using l by (auto simp: find_Some_iff)
  then show ?thesis using i by (simp add: first_terminal_leaf_def)
qed

lemma remove_tab_live [simp]:
  "live (remove_terminal_tab_metadata p s) = live s" "satellite_pane (remove_terminal_tab_metadata p s) = satellite_pane s"
  by (rule ext, simp add: remove_terminal_tab_metadata_def Let_def live_def satellite_pane_def)+

lemma ensure_invariant_anchor:
  assumes ok: "app_ok s" and trm: "\<forall>i. \<not> satellite_pane s i"
  shows "has_anchor (ensure_anchor_invariant w s)"
proof -
  let ?s = "s\<lparr>ap_active := None\<rparr>"
  have inv: "app_inv (ensure_anchor_invariant w s)" using ok by (rule ensure_invariant_inv)
  obtain i where i: "first_terminal_leaf ?s = Some i" "live ?s i"
    using first_terminal_exists [of ?s] ok trm by (auto simp: satellite_pane_def live_def)
  let ?r = "remove_terminal_tab_metadata i (?s\<lparr>ap_workspace := hdel i (ap_workspace ?s)\<rparr>)"
  have r: "live ?r i" "hget (ap_workspace ?r) i = None" "ap_anchors ?r = ap_anchors s"
    using i(2) by (simp_all add: remove_terminal_tab_metadata_def Let_def live_def)
  have seeded: "tag_anchor_core w i ?r = (install_anchor w i ?r, True)" if "ap_anchors s = {}"
    using r that by (simp add: tag_anchor_core_def)
  show ?thesis
  proof (cases "case ap_active s of Some a \<Rightarrow> a \<in> ap_anchors s | None \<Rightarrow> False")
    case True
    then show ?thesis using inv by (simp add: has_anchor_def ensure_anchor_invariant_def)
  next
    case False
    note no = this
    show ?thesis
    proof (cases "first_of (ap_anchors s)")
      case (Some a)
      have "ensure_anchor_invariant w s = set_active_anchor (Some a) ?s"
        using no Some by (simp add: ensure_anchor_invariant_def)
      then show ?thesis using inv first_of_in [OF anchors_finite [OF ok] Some]
        by (simp add: has_anchor_def active_set_active)
    next
      case None
      then have "ensure_anchor_invariant w s = notify_anchors_changed (set_active_anchor (Some i)
          (ensure_terminal_tab_stack i (install_anchor w i ?r)))"
        using no i(1) seeded by (simp add: ensure_anchor_invariant_def Let_def)
      then show ?thesis using inv by (simp add: has_anchor_def active_set_active)
    qed
  qed
qed

section \<open>Activation\<close>

lemma closed_no_satellites:
  "\<forall>i. \<not> satellite_pane s i \<Longrightarrow> \<not> satellite_pane (close_orphan_terminal_panes s) i"
  unfolding close_orphan_terminal_panes_def
  by (rule spec, rule fold_invariant [where P = "\<lambda>t. \<forall>i. \<not> satellite_pane t i" and Q = "\<lambda>_. True"])
    (auto simp: close_terminal_pane_without_focus_def kill_pane_def satellite_pane_def forget_pane_names_def
      remove_terminal_tab_metadata_def Let_def emit_def hget_hdel split: prod.splits)

lemma no_satellites_same:
  "same_panes s t \<Longrightarrow> satellite_pane t = satellite_pane s"
  by (rule ext) (simp add: same_panes_def satellite_pane_def)

lemma metadata_anchor:
  assumes ok: "app_ok s" and trm: "\<forall>i. \<not> satellite_pane s i"
  shows "has_anchor (restore_persisted_metadata w titles stacks roots s)"
proof (rule metadata_shape [OF ok, of w titles stacks roots])
  fix t
  assume e: "restore_persisted_metadata w titles stacks roots s =
      rebuild_widget_tree (ensure_anchor_invariant w (close_orphan_terminal_panes t))"
    and t: "app_ok t" "same_panes s t"
  have "\<forall>i. \<not> satellite_pane (close_orphan_terminal_panes t) i"
    using closed_no_satellites trm no_satellites_same [OF t(2)] by simp
  then have "has_anchor (ensure_anchor_invariant w (close_orphan_terminal_panes t))"
    using close_orphans_ok(1) [OF t(1)] by (intro ensure_invariant_anchor)
  then show ?thesis unfolding e by simp
qed

lemma built_no_satellites:
  assumes "restored_ok r" "inj rng"
  shows "\<not> satellite_pane (new_from_snapshot w rng (rs_panes r) l f A n) i"
proof -
  have sat: "satellite_pane (restore_anchors w A s) = satellite_pane s" for A s
    unfolding restore_anchors_def
    by (rule fold_invariant [where P = "\<lambda>t. satellite_pane t = satellite_pane s" and Q = "\<lambda>_. True"])
      (simp_all add: restore_anchor_def tag_anchor_core_def)
  obtain m k where "draw_pane_uuids (app_of rng (rs_panes r) l f n) =
      (app_of rng (rs_panes r) l f n)\<lparr>ap_pane_uuids := m, ap_draws := k\<rparr>"
    using draw_pane_uuids_shape [of "app_of rng (rs_panes r) l f n"] assms(2) by auto
  then have "satellite_pane (new_from_snapshot w rng (rs_panes r) l f A n) =
      satellite_pane (app_of rng (rs_panes r) l f n)"
    by (auto simp: new_from_snapshot_def Let_def sat tables_eq_fields(2) [OF tables_set_active]
      tables_eq_fields(2) [OF tables_rebuild] satellite_pane_def split: option.split)
  then show ?thesis using assms(1) by (auto simp: satellite_pane_def restored_ok_def split: option.split)
qed

lemma start_restored_anchor:
  assumes r: "restored_ok r" and rng: "inj rng"
  shows "has_anchor (start_restored w rng sn r)"
  unfolding start_restored_def restore_snapshot_metadata_def
  by (intro metadata_anchor allI built_no_satellites app_inv_ok new_from_snapshot_ok(1)) (rule r rng)+

lemma close_orphans_anchors [simp]: "ap_anchors (close_orphan_terminal_panes s) = ap_anchors s"
  unfolding close_orphan_terminal_panes_def
  by (rule fold_invariant [where P = "\<lambda>t. ap_anchors t = ap_anchors s" and Q = "\<lambda>_. True"]) simp_all

lemma start_fresh_anchor:
  assumes "inj rng" "start_fresh w rng = Some s"
  shows "has_anchor s"
proof -
  obtain p where p: "pane_new w 1 None = Some p"
    and s: "s = add_anchor w 1 ((app_new rng 1 p)\<lparr>ap_view := V_Single (Some (W_Pane 1))\<rparr>)"
    using assms(2) by (auto simp: start_fresh_def)
  let ?s = "(app_new rng 1 p)\<lparr>ap_view := V_Single (Some (W_Pane 1))\<rparr>"
  have "app_ok ?s" using app_new_inv [OF assms(1), of 1 p] by (simp add: app_inv_def)
  moreover have "ap_active ?s = None" by (simp add: app_new_def app_of_def draw_uuid_def)
  ultimately have inv: "app_inv ?s" by (simp add: app_inv_def)
  have t: "tag_anchor_core w 1 ?s = (install_anchor w 1 ?s, True)"
    by (simp add: tag_anchor_core_def app_new_def app_of_def draw_uuid_def live_def hget_Cons)
  have "\<not> satellite_pane ?s 1"
    using pane_new_terminal [OF p] by (simp add: satellite_pane_def app_new_def app_of_def draw_uuid_def hget_Cons)
  then have "app_inv s" using inv add_anchor_inv s by blast
  moreover have "ap_active s = Some 1 \<and> 1 \<in> ap_anchors s"
    using t by (simp add: s add_anchor_def active_set_active)
  ultimately show ?thesis by (simp add: has_anchor_def)
qed

lemma activated_anchor:
  assumes "inj rng" "case snap of Some sn \<Rightarrow> snapshot_usable sn | None \<Rightarrow> True"
    and a: "activate w rng bus_up host_up snap = Some s"
  shows "has_anchor s"
proof -
  define base where "base = (case (case snap of None \<Rightarrow> None | Some sn \<Rightarrow> map_option (Pair sn) (build_restored w sn)) of
      Some (sn, r) \<Rightarrow> Some (start_restored w rng sn r) | None \<Rightarrow> start_fresh w rng)"
  obtain t where b: "base = Some t"
    and s: "s = (let s1 = (seed_anchor w t)\<lparr>ap_has_compositor := bus_up, ap_has_host := host_up\<rparr>
      in set_focused (ap_focused s1) s1)"
    using a by (auto simp: activate_def Let_def base_def [symmetric])
  have "has_anchor t"
    using b assms(2) start_restored_anchor [OF build_restored_ok(1) assms(1)] start_fresh_anchor [OF assms(1)]
    by (fastforce simp: base_def split: option.splits)
  then show ?thesis by (simp add: s seed_keeps Let_def)
qed

section \<open>What a snapshot holds\<close>

lemma layout_roundtrip [simp]: "layout_from_snapshot (layout_to_snapshot l) = l"
proof -
  have d: "dir_from_snapshot (dir_to_snapshot d) = d" for d by (cases d) simp_all
  show ?thesis by (induction l) (simp_all add: d)
qed

lemma title_roundtrip [simp]: "pane_title_from_snapshot (pane_title_to_snapshot t) = t"
  by (cases t; cases "pt_provenance t") (simp_all add: pane_title_to_snapshot_def pane_title_from_snapshot_def)

lemma hget_map_filter:
  assumes "distinct (map fst xs)"
  shows "hget (List.map_filter (\<lambda>(i, p). map_option (Pair i) (f i p)) xs) k =
    (case hget xs k of Some p \<Rightarrow> f k p | None \<Rightarrow> None)"
  using assms
proof (induction xs)
  case (Cons x xs)
  obtain i p where x: "x = (i, p)" by (cases x)
  have "hget xs i = None" using Cons.prems x by (simp add: hget_def map_of_eq_None_iff)
  then show ?case using Cons x
    by (cases "f i p"; cases "k = i") (auto simp: map_filter_simps hget_Cons)
qed simp

lemma hget_map_snd: "hget (map (\<lambda>(i, t). (i, f t)) xs) k = map_option f (hget xs k)"
  by (induction xs) (auto simp: hget_Cons)

lemma snapshot_cwds: "hget (sn_cwds (snapshot w s)) i =
  (case hget (ap_panes s) i of Some p \<Rightarrow> snapshot_cwd w i p | None \<Rightarrow> None)"
  by (simp add: snapshot_def Let_def hget_map_filter)

lemma snapshot_titles:
  "hget (sn_pane_titles (snapshot w s)) i =
    (if live s i then map_option pane_title_to_snapshot (hget (ap_pane_titles s) i) else None)"
  by (simp add: snapshot_def Let_def hget_map_snd hget_filter_distinct split: option.split)

lemma snapshot_anchors_of:
  "finite (ap_anchors s) \<Longrightarrow> set (snapshot_anchors (snapshot w s)) = ap_anchors s"
proof -
  have "snapshot_anchors (snapshot w s) = sorted_list_of_set (ap_anchors s)"
    by (cases "sorted_list_of_set (ap_anchors s)") (simp_all add: snapshot_def snapshot_anchors_def Let_def)
  then show "finite (ap_anchors s) \<Longrightarrow> set (snapshot_anchors (snapshot w s)) = ap_anchors s" by simp
qed

lemma snapshot_leaves:
  assumes ok: "app_ok s" and t: "\<exists>i. live s i \<and> \<not> satellite_pane s i"
  shows "leaves (layout_from_snapshot (sn_layout (snapshot w s))) =
    filter (\<lambda>i. \<not> satellite_pane s i) (leaves (ap_layout s))"
proof -
  let ?ids = "satellite_ids s" and ?P = "\<lambda>i. \<not> satellite_pane s i"
  have ids: "satellite_pane s i" if "i \<in> set ?ids" for i
    using that by (auto simp: satellite_ids_def satellite_pane_def)
  have ids': "i \<in> set ?ids" if "satellite_pane s i" for i
    using that by (force simp: satellite_ids_def satellite_pane_def split: option.splits simp flip: in_hitems)
  have l: "distinct (leaves (ap_layout s))" "set (leaves (ap_layout s)) = Collect (live s)"
    using ok by (simp_all add: app_ok_def panes_ok_def)
  have "layout_for_snapshot s = fold (\<lambda>i l. if ?P i then l else fst (remove_leaf l i)) ?ids (ap_layout s)"
    unfolding layout_for_snapshot_def by (rule fold_cong) (use ids in auto)
  then have "leaves (layout_for_snapshot s) = filter (\<lambda>i. i \<notin> set ?ids \<or> ?P i) (leaves (ap_layout s))"
    using pruned_leaves [of "ap_layout s" ?P ?ids] l t by auto
  also have "\<dots> = filter ?P (leaves (ap_layout s))" by (intro filter_cong) (use ids ids' in auto)
  finally show ?thesis by (simp add: snapshot_def Let_def)
qed

section \<open>Restored panes keep their place\<close>

lemma titles_get:
  assumes "distinct (map fst xs)"
  shows "hget (fold (\<lambda>(i, t) m. if P i then hput i (f t) m else m) xs m) p =
    (case hget xs p of Some t \<Rightarrow> if P p then Some (f t) else hget m p | None \<Rightarrow> hget m p)"
  using assms
proof (induction xs arbitrary: m)
  case (Cons x xs)
  obtain i t where x: "x = (i, t)" by (cases x)
  have "hget xs i = None" using Cons.prems x by (simp add: hget_def map_of_eq_None_iff)
  then show ?case using Cons.IH [of "if P i then hput i (f t) m else m"] Cons.prems
    by (cases "i = p") (auto simp: x hget_Cons split: option.split)
qed simp

lemma restored_titles_get:
  "hget (restored_titles s titles) p =
    (if live s p then map_option pane_title_from_snapshot (hget titles p) else None)"
  by (simp add: restored_titles_def titles_get split: option.split)

definition all_owned :: "app \<Rightarrow> bool" where
  "all_owned s = (\<forall>i. live s i \<longrightarrow> hget (ap_workspace s) i \<noteq> None)"

lemma no_orphans:
  assumes "app_ok s" "all_owned s"
  shows "close_orphan_terminal_panes s = s"
proof -
  have "\<exists>a. hget (ap_workspace s) i = Some a \<and> a \<in> ap_anchors s" if "hget (ap_panes s) i = Some p" for i p
    using that assms by (fastforce simp: all_owned_def app_ok_def workspace_ok_def live_def)
  then have "orphan_panes s = []"
    by (fastforce simp: orphan_panes_def List.map_filter_def filter_empty_conv split: if_splits)
  then show ?thesis by (simp add: close_orphan_terminal_panes_def)
qed

lemma metadata_keeps:
  assumes "has_anchor s" "all_owned s"
  shows "same_panes s (restore_persisted_metadata w titles stacks roots s)"
    "ap_pane_titles (restore_persisted_metadata w titles stacks roots s) = restored_titles s titles"
proof -
  have ok: "app_ok s" using assms(1) by (simp add: has_anchor_def app_inv_def)
  obtain t where e: "restore_persisted_metadata w titles stacks roots s =
      rebuild_widget_tree (ensure_anchor_invariant w (close_orphan_terminal_panes t))"
    and t: "app_ok t" "same_panes s t" "ap_pane_titles t = restored_titles s titles"
    by (rule metadata_shape [OF ok])
  have "all_owned t" using assms(2) t(2) same_panes_live [OF t(2)] by (simp add: all_owned_def same_panes_def)
  moreover have "ensure_anchor_invariant w t = t"
    using assms(1) t(2) by (auto simp: ensure_anchor_invariant_def has_anchor_def same_panes_def split: option.splits)
  ultimately have "restore_persisted_metadata w titles stacks roots s = rebuild_widget_tree t"
    using e no_orphans [OF t(1)] by simp
  then show "same_panes s (restore_persisted_metadata w titles stacks roots s)"
    "ap_pane_titles (restore_persisted_metadata w titles stacks roots s) = restored_titles s titles"
    using t(2,3) by (simp_all add: same_panes_def rebuild_widget_tree_def)
qed

lemma new_from_snapshot_owner:
  assumes r: "restored_ok r" and rng: "inj rng"
  shows "hget (ap_workspace (new_from_snapshot w rng (rs_panes r) l f (rs_anchors r) n)) j =
    (if j \<in> rs_anchors r then Some j
     else if hget (rs_panes r) j \<noteq> None then first_of (rs_anchors r) else None)"
proof -
  let ?A = "rs_anchors r" and ?a = "app_of rng (rs_panes r) l f n"
  obtain m k where mk: "draw_pane_uuids ?a = ?a\<lparr>ap_pane_uuids := m, ap_draws := k\<rparr>"
    using draw_pane_uuids_shape [of ?a] rng by auto
  define c where "c = claim_workspaces False ?A (rebuild_widget_tree (draw_pane_uuids ?a))"
  have fin: "finite ?A" using r by (simp add: restored_ok_def)
  have c: "hget (ap_workspace c) j = (if j \<in> ?A then Some j
     else if hget (rs_panes r) j \<noteq> None then first_of ?A else None)" for j
    using first_of_None [of ?A]
    by (simp add: c_def claimed_workspace [OF fin] mk rebuild_widget_tree_def live_def del: first_of_None)
  have "hget (ap_workspace (restore_anchors w ?A c)) j = hget (ap_workspace c) j"
    unfolding restore_anchors_def
    by (rule fold_invariant [where P = "\<lambda>t. hget (ap_workspace t) j = hget (ap_workspace c) j" and Q = "\<lambda>a. a \<in> ?A"])
      (use c fin in \<open>auto simp: restore_anchor_def tag_anchor_core_def hget_hput\<close>)
  then show ?thesis using c
    by (cases "first_of ?A") (simp_all add: new_from_snapshot_def Let_def c_def [symmetric]
      tables_eq_fields(9) [OF tables_set_active] del: first_of_None)
qed

lemma start_restored_keeps:
  fixes w :: world and rng :: "nat \<Rightarrow> uuid" and sn :: session_snapshot and r :: restored
  defines "s \<equiv> start_restored w rng sn r"
  assumes r: "restored_ok r" and rng: "inj rng" and a: "rs_anchors r \<noteq> {}"
  shows "ap_layout s = rs_layout r" "ap_anchors s = rs_anchors r" "ap_active s = first_of (rs_anchors r)"
    "hget (ap_pane_titles s) i = (if i \<in> set (leaves (rs_layout r))
      then map_option pane_title_from_snapshot (hget (sn_pane_titles sn) i) else None)"
    "hget (ap_workspace s) i = (if i \<in> rs_anchors r then Some i
      else if i \<in> set (leaves (rs_layout r)) then first_of (rs_anchors r) else None)"
proof -
  let ?n = "new_from_snapshot w rng (rs_panes r) (rs_layout r) (rs_focused r) (rs_anchors r) (rs_next_id r)"
  note n = new_from_snapshot_ok [OF r rng, of w]
  note o = new_from_snapshot_owner [OF r rng, of w "rs_layout r" "rs_focused r" "rs_next_id r"]
  have dom: "i \<in> set (leaves (rs_layout r)) \<longleftrightarrow> hget (rs_panes r) i \<noteq> None" for i
    using r by (auto simp: restored_ok_def)
  have lv: "live ?n i \<longleftrightarrow> i \<in> set (leaves (rs_layout r))" for i
    using n(1,4) by (simp add: app_inv_def app_ok_def panes_ok_def)
  obtain b where b: "first_of (rs_anchors r) = Some b" "b \<in> rs_anchors r"
    using a r first_of_in [of "rs_anchors r"] by (cases "first_of (rs_anchors r)") (auto simp: restored_ok_def)
  have "has_anchor ?n" using n b by (simp add: has_anchor_def)
  moreover have "all_owned ?n" using lv dom o b by (simp add: all_owned_def)
  ultimately have k: "same_panes ?n s" "ap_pane_titles s = restored_titles ?n (sn_pane_titles sn)"
    using metadata_keeps [of ?n w] by (simp_all add: s_def start_restored_def restore_snapshot_metadata_def)
  show "ap_layout s = rs_layout r" "ap_anchors s = rs_anchors r" "ap_active s = first_of (rs_anchors r)"
    using k(1) n by (simp_all add: same_panes_def)
  show "hget (ap_pane_titles s) i = (if i \<in> set (leaves (rs_layout r))
      then map_option pane_title_from_snapshot (hget (sn_pane_titles sn) i) else None)"
    by (simp add: k(2) restored_titles_get lv)
  show "hget (ap_workspace s) i = (if i \<in> rs_anchors r then Some i
      else if i \<in> set (leaves (rs_layout r)) then first_of (rs_anchors r) else None)"
    using k(1) o [of i] dom [of i] by (simp add: same_panes_def)
qed

section \<open>A restart\<close>

text \<open>The terminals of \<open>s\<close> whose directory is known when it ends and that the next start can spawn.\<close>

definition comes_back :: "world \<Rightarrow> world \<Rightarrow> app \<Rightarrow> pane_id \<Rightarrow> bool" where
  "comes_back w w' s i =
    (case hget (ap_panes s) i of None \<Rightarrow> False
     | Some p \<Rightarrow> (case snapshot_cwd w i p of None \<Rightarrow> False
         | Some c \<Rightarrow> wd_spawn w' i (resolve_restore_cwd w' (Some c)) \<noteq> None))"

lemma respawn_comes_back: "respawn w' (snapshot w s) i \<noteq> None \<longleftrightarrow> comes_back w w' s i"
  by (auto simp: respawn_def snapshot_cwds comes_back_def pane_new_def split: option.split)

lemma comes_back_terminal: "comes_back w w' s i \<Longrightarrow> live s i \<and> \<not> satellite_pane s i"
  by (auto simp: comes_back_def live_def satellite_pane_def snapshot_cwd_def is_satellite_def
    split: option.splits pane_body.splits)

lemma build_restored_some:
  assumes "i \<in> set (leaves (layout_from_snapshot (sn_layout sn)))" "respawn w sn i \<noteq> None"
  shows "\<exists>r. build_restored w sn = Some r"
proof -
  define m where "m = fold (\<lambda>i m. case respawn w sn i of Some p \<Rightarrow> hput i p m | None \<Rightarrow> m)
      (leaves (layout_from_snapshot (sn_layout sn))) []"
  have "hget m i \<noteq> None" using assms by (simp add: m_def spawned_panes)
  then have "hkeys m \<noteq> []" using in_hkeys [of i m] by (metis empty_iff list.set(1))
  then show ?thesis by (simp add: build_restored_def Let_def m_def [symmetric])
qed

lemma restart_restored:
  assumes inv: "app_inv s" and ids: "ap_next_id s \<le> u32_max" and a: "a \<in> ap_anchors s" "comes_back w w' s a"
  obtains r where "build_restored w' (snapshot w s) = Some r" "restored_ok r"
    "leaves (rs_layout r) = filter (comes_back w w' s) (leaves (ap_layout s))"
    "rs_anchors r = {a \<in> ap_anchors s. comes_back w w' s a}"
proof -
  let ?sn = "snapshot w s"
  have ok: "app_ok s" using inv by (simp add: app_inv_def)
  have l: "leaves (layout_from_snapshot (sn_layout ?sn)) = filter (\<lambda>i. \<not> satellite_pane s i) (leaves (ap_layout s))"
    using snapshot_leaves [OF ok] comes_back_terminal [OF a(2)] by blast
  have p: "distinct (leaves (ap_layout s))" "set (leaves (ap_layout s)) = Collect (live s)"
      "\<And>i. live s i \<Longrightarrow> i < ap_next_id s"
    using ok by (simp_all add: app_ok_def panes_ok_def)
  have u: "snapshot_usable ?sn"
    using p ids by (fastforce simp: snapshot_usable_def l list_all_iff)
  have lv: "filter (\<lambda>i. respawn w' ?sn i \<noteq> None) (leaves (layout_from_snapshot (sn_layout ?sn))) =
      filter (comes_back w w' s) (leaves (ap_layout s))"
    unfolding l filter_filter respawn_comes_back by (intro filter_cong) (use comes_back_terminal in auto)
  have "respawn w' ?sn a \<noteq> None" "a \<in> set (leaves (layout_from_snapshot (sn_layout ?sn)))"
    using respawn_comes_back [of w' w s a] a comes_back_terminal [OF a(2)] p by (simp_all add: l)
  then obtain r where r: "build_restored w' ?sn = Some r" using build_restored_some by blast
  note b = build_restored_ok [OF u r]
  have "rs_anchors r = {a \<in> ap_anchors s. comes_back w w' s a}"
    using b(2,3) comes_back_terminal [of w w' s] p(2) snapshot_anchors_of [OF anchors_finite [OF ok], of w]
    unfolding lv by auto
  then show thesis using that r b(1,2) unfolding lv by blast
qed

lemma saved_and_loaded:
  assumes "ap_phase s = Running" "path = Some p" "\<And>st. sf_write ff p st = None" "sf_read ff' p = None"
    and codec: "to_vec (snapshot w s) = Inr bytes" "from_slice bytes = Inr (snapshot w s)"
  shows "snd (load_snapshot ff' now from_slice path
    (dk_files (snd (fst (run_shutdown w ff pid part to_vec path (s, dk)))))) = Some (snapshot w s)"
proof -
  have "dk_files (snd (fst (run_shutdown w ff pid part to_vec path (s, dk)))) =
      dk_files (fst (write_bytes ff pid part p bytes dk))"
    using assms(1,2) codec(1)
    by (simp add: run_shutdown_def save_snapshot_def save_def begin_shutdown_def split: prod.split)
  moreover have "hget (dk_files (fst (write_bytes ff pid part p bytes dk))) p = Some bytes"
    using write_bytes_no_faults(2) [OF assms(3)] by simp
  moreover have "sn_v (snapshot w s) = SCHEMA_VERSION" by (simp add: snapshot_def Let_def)
  ultimately show ?thesis using assms(2,4) codec(2)
    by (simp add: load_snapshot_def load_def fs_read_def)
qed

lemma activate_restored:
  assumes "build_restored w sn = Some r" "restored_ok r" "inj rng"
  shows "activate w rng bus_up host_up (Some sn) =
    Some (set_focused (ap_focused (start_restored w rng sn r))
      ((start_restored w rng sn r)\<lparr>ap_has_compositor := bus_up, ap_has_host := host_up\<rparr>))"
  using start_restored_anchor [OF assms(2,3)] assms(1) by (simp add: activate_def seed_keeps Let_def)

section \<open>A snapshot without anchors\<close>

lemma remove_from_leaf: "\<not> snd (remove_leaf (Leaf x) p)"
  by (simp add: remove_leaf_def)

lemma closing_all_leaves_one:
  assumes "distinct (leaves (ap_layout s))"
    and "set (leaves (ap_layout s)) \<subseteq> set ps \<or> (\<exists>x. ap_layout s = Leaf x)"
  shows "\<exists>x. ap_layout (fold (\<lambda>i s. fst (close_terminal_pane_without_focus i s)) ps s) = Leaf x"
  using assms
proof (induction ps arbitrary: s)
  case Nil
  then show ?case by simp
next
  case (Cons p ps)
  let ?t = "fst (close_terminal_pane_without_focus p s)"
  have lay: "ap_layout ?t = (if snd (remove_leaf (ap_layout s) p) then fst (remove_leaf (ap_layout s) p) else ap_layout s)"
    by (simp add: close_terminal_pane_without_focus_def kill_pane_def emit_def remove_terminal_tab_metadata_def
      forget_pane_names_def Let_def split: prod.split)
  have "distinct (leaves (ap_layout ?t)) \<and>
      (set (leaves (ap_layout ?t)) \<subseteq> set ps \<or> (\<exists>x. ap_layout ?t = Leaf x))"
  proof (cases "\<exists>x. ap_layout s = Leaf x")
    case True
    then show ?thesis using lay remove_from_leaf by auto
  next
    case False
    then have sub: "set (leaves (ap_layout s)) \<subseteq> insert p (set ps)" using Cons.prems(2) by simp
    have nl: "ap_layout s \<noteq> Leaf p" using False by blast
    then have "leaves (fst (remove_leaf (ap_layout s) p)) = filter (\<lambda>x. x \<noteq> p) (leaves (ap_layout s))"
      using leaves_remove_leaf Cons.prems(1) by blast
    moreover have "\<not> snd (remove_leaf (ap_layout s) p) \<Longrightarrow> p \<notin> set (leaves (ap_layout s))"
      using nl remove_leaf_flag by blast
    ultimately show ?thesis using lay sub Cons.prems(1) by auto
  qed
  then show ?case using Cons.IH [of ?t] by simp
qed

lemma unowned_orphans:
  assumes "app_ok s" "ap_anchors s = {}" "\<forall>i. \<not> satellite_pane s i"
  shows "set (leaves (ap_layout s)) \<subseteq> set (orphan_panes s)"
proof
  fix i assume "i \<in> set (leaves (ap_layout s))"
  then obtain p where p: "hget (ap_panes s) i = Some p"
    using assms(1) by (auto simp: app_ok_def panes_ok_def live_def)
  moreover have "\<not> satellite_pane s i" using assms(3) by blast
  ultimately have "\<not> is_satellite p" by (simp add: satellite_pane_def)
  then show "i \<in> set (orphan_panes s)"
    unfolding orphan_panes_def List.map_filter_def set_map set_filter o_def
    using p assms(2) by (intro image_eqI [where x = "(i, p)"]) (simp_all split: option.split)
qed

lemma ensure_invariant_layout [simp]: "ap_layout (ensure_anchor_invariant w s) = ap_layout s"
  by (simp add: ensure_anchor_invariant_def Let_def tag_anchor_core_def remove_terminal_tab_metadata_def
    split: option.split prod.split)

lemma start_without_anchors:
  assumes r: "restored_ok r" "rs_anchors r = {}" and rng: "inj rng"
  shows "\<exists>x. ap_layout (start_restored w rng sn r) = Leaf x"
proof -
  let ?n = "new_from_snapshot w rng (rs_panes r) (rs_layout r) (rs_focused r) (rs_anchors r) (rs_next_id r)"
  note n = new_from_snapshot_ok [OF r(1) rng, of w]
  have ok: "app_ok ?n" using n(1) by (simp add: app_inv_def)
  obtain t where e: "start_restored w rng sn r =
      rebuild_widget_tree (ensure_anchor_invariant w (close_orphan_terminal_panes t))"
    and t: "app_ok t" "same_panes ?n t"
    unfolding start_restored_def restore_snapshot_metadata_def by (rule metadata_shape [OF ok])
  have "\<forall>i. \<not> satellite_pane t i"
    using built_no_satellites [OF r(1) rng] no_satellites_same [OF t(2)] by simp
  moreover have "ap_anchors t = {}" using t(2) n(2) r(2) by (simp add: same_panes_def)
  ultimately have "set (leaves (ap_layout t)) \<subseteq> set (orphan_panes t)" using unowned_orphans [OF t(1)] by blast
  moreover have "distinct (leaves (ap_layout t))" using t(1) by (simp add: app_ok_def panes_ok_def)
  ultimately have "\<exists>x. ap_layout (close_orphan_terminal_panes t) = Leaf x"
    unfolding close_orphan_terminal_panes_def using closing_all_leaves_one by blast
  then show ?thesis using e by (simp add: rebuild_widget_tree_def)
qed

section \<open>A small world\<close>

text \<open>One terminal spawns wherever it is asked to; every child's directory is the root.\<close>

definition tiny_terminal :: terminal where
  "tiny_terminal = \<lparr>tm_spawn_cwd = None, tm_pid = None, tm_transcript = transcript_new 1\<rparr>"

definition tiny_world :: world where
  "tiny_world = \<lparr>wd_spawn = (\<lambda>_ _. Some tiny_terminal), wd_cwd = (\<lambda>_. Some ''/''), wd_exited = (\<lambda>_. False),
     wd_write = (\<lambda>_ _. None), wd_now = 0, wd_shell = ''sh'', wd_home = None, wd_is_dir = (\<lambda>_. True),
     wd_environ = (\<lambda>_. None), wd_kill = (\<lambda>_ _. True), wd_stat = (\<lambda>_. None), wd_size = (\<lambda>_. (80, 24))\<rparr>"

definition tiny_snapshot :: "nat list \<Rightarrow> session_snapshot" where
  "tiny_snapshot anchors = \<lparr>sn_v = 1, sn_created_at = 0, sn_anchor_pane_id = None, sn_anchor_pane_ids = anchors,
     sn_layout = NSplit SD_Vertical (NLeaf 1) (NLeaf 2) 0, sn_cwds = [(1, ''/''), (2, ''/'')], sn_pane_titles = [],
     sn_terminal_tabs = [], sn_pane_terminal_tab_roots = []\<rparr>"

definition tiny_app :: app where
  "tiny_app = the (start_fresh tiny_world (\<lambda>n. n))"

lemma tiny_app_anchor: "has_anchor tiny_app" "start_fresh tiny_world (\<lambda>n. n) = Some tiny_app"
proof -
  show "start_fresh tiny_world (\<lambda>n. n) = Some tiny_app"
    by (simp add: tiny_app_def start_fresh_def pane_new_def tiny_world_def)
  then show "has_anchor tiny_app" by (rule start_fresh_anchor [rotated]) simp
qed

lemma tables_eq_phase:
  assumes "tables s = tables s'"
  shows "ap_phase s = ap_phase s'"
proof -
  have "tb_rest (tables s) = tb_rest (tables s')" using assms by simp
  from arg_cong [OF this, of ap_phase] show ?thesis by (simp add: tables_def)
qed

lemma close_orphans_phase:
  "ap_phase (close_orphan_terminal_panes s) = ap_phase s \<and> ap_next_id (close_orphan_terminal_panes s) = ap_next_id s"
  unfolding close_orphan_terminal_panes_def
  by (rule fold_invariant [where P = "\<lambda>t. ap_phase t = ap_phase s \<and> ap_next_id t = ap_next_id s" and Q = "\<lambda>_. True"])
    (simp_all add: close_terminal_pane_without_focus_def kill_pane_def emit_def remove_terminal_tab_metadata_def
      forget_pane_names_def Let_def split: prod.split)

lemma add_anchor_phase:
  "ap_phase (add_anchor w a s) = ap_phase s \<and> ap_next_id (add_anchor w a s) = ap_next_id s"
proof -
  have "ap_phase (install_anchor w a s) = ap_phase s" by (simp add: install_anchor_def Let_def draw_uuid_def split: prod.split)
  then show ?thesis
    by (auto simp: add_anchor_def tag_anchor_core_def close_orphans_phase ensure_terminal_tab_stack_def
      tables_eq_phase [OF tables_notify(1)] tables_eq_phase [OF tables_set_active]
      tables_eq_fields(5) [OF tables_notify(1)] tables_eq_fields(5) [OF tables_set_active])
qed

lemma tiny_app_running: "ap_phase tiny_app = Running" "ap_next_id tiny_app \<le> u32_max"
proof -
  obtain p where t: "tiny_app = add_anchor tiny_world 1 ((app_new (\<lambda>n. n) 1 p)\<lparr>ap_view := V_Single (Some (W_Pane 1))\<rparr>)"
    using tiny_app_anchor(2) unfolding start_fresh_def map_option_eq_Some by metis
  show "ap_phase tiny_app = Running" "ap_next_id tiny_app \<le> u32_max"
    unfolding t by (simp_all add: add_anchor_phase app_new_def app_of_def draw_uuid_def u32_max_def)
qed

lemma tiny_snapshot_usable: "snapshot_usable (tiny_snapshot as)"
  by (simp add: snapshot_usable_def tiny_snapshot_def u32_max_def)

section \<open>Properties\<close>

text \<open>C4: However the cockpit starts, with the file of the last session or without one, it starts in
  its invariant with an active anchor: with a snapshot whose layout names no pane twice (and not the last
  id) this holds whatever anchors, tabs, titles and directories the snapshot names and whichever panes
  can be spawned again. It gives up only when no pane can be spawned.\<close>

theorem activation_establishes_invariant:
  assumes "inj rng" and "case snap of Some sn \<Rightarrow> snapshot_usable sn | None \<Rightarrow> True"
  shows "case activate w rng bus_up host_up snap of
      None \<Rightarrow> pane_new w 1 None = None
    | Some s \<Rightarrow> app_inv s \<and> (case ap_active s of Some a \<Rightarrow> a \<in> ap_anchors s | None \<Rightarrow> False)"
proof (cases "activate w rng bus_up host_up snap")
  case None
  then show ?thesis by (auto simp: activate_def start_fresh_def split: option.splits)
next
  case (Some s)
  then show ?thesis using activated_anchor [OF assms Some] by (simp add: has_anchor_def)
qed

theorem activation_establishes_invariant_witness:
  "case activate tiny_world (\<lambda>n. n) True True (Some (tiny_snapshot [7])) of
      None \<Rightarrow> pane_new tiny_world 1 None = None
    | Some s \<Rightarrow> app_inv s \<and> (case ap_active s of Some a \<Rightarrow> a \<in> ap_anchors s | None \<Rightarrow> False)"
  by (rule activation_establishes_invariant) (simp_all add: tiny_snapshot_usable)

text \<open>
  The comment on the snapshot's directories (lmux-state/src/lib.rs:33) says that a pane without a recorded
  one falls back to \<open>$HOME\<close>; the restore drops such a pane from the layout. Only a recorded directory
  that is no longer there falls back.
\<close>

theorem pane_without_directory_is_dropped:
  assumes "snapshot_usable sn" "build_restored w sn = Some r" "hget (sn_cwds sn) i = None"
  shows "i \<notin> set (leaves (rs_layout r)) \<and> i \<notin> rs_anchors r"
  using build_restored_ok(2,3) [OF assms(1,2)] assms(3) by (auto simp: respawn_def)

theorem pane_without_directory_is_dropped_witness:
  "\<exists>r. build_restored tiny_world ((tiny_snapshot [1])\<lparr>sn_cwds := [(1, ''/'')]\<rparr>) = Some r \<and>
    1 \<in> set (leaves (rs_layout r)) \<and> 2 \<notin> set (leaves (rs_layout r))"
proof -
  let ?sn = "(tiny_snapshot [1])\<lparr>sn_cwds := [(1, ''/'')]\<rparr>"
  have u: "snapshot_usable ?sn" using tiny_snapshot_usable [of "[1]"] by (simp add: snapshot_usable_def)
  have l: "1 \<in> set (leaves (layout_from_snapshot (sn_layout ?sn)))" by (simp add: tiny_snapshot_def)
  have p: "respawn tiny_world ?sn 1 \<noteq> None"
    by (simp add: respawn_def tiny_snapshot_def tiny_world_def pane_new_def hget_Cons)
  obtain r where r: "build_restored tiny_world ?sn = Some r" using build_restored_some [OF l p] by blast
  have "2 \<notin> set (leaves (rs_layout r))"
    using pane_without_directory_is_dropped [OF u r, of 2] by (simp add: hget_Cons)
  then show ?thesis using r build_restored_ok(2) [OF u r] l p by auto
qed

text \<open>C5: A restart brings back the terminals: when the snapshot was written and read, the next start
  shows, in the order of the old layout, the terminals for which a directory was recorded and that can be
  spawned, with the same anchors and titles, and the first anchor active; every pane that is no anchor now
  belongs to the first anchor, whatever workspace it was in. A terminal whose directory could not be recorded
  is dropped and its neighbour takes its place, although a comment of the snapshot's type promises it the home
  directory; one whose recorded directory is gone is started in the home directory.\<close>

theorem restart_brings_terminals_back:
  assumes "app_inv s" "ap_phase s = Running" "ap_next_id s \<le> u32_max" "inj rng"
    and "\<exists>a \<in> ap_anchors s. comes_back w w' s a"
    and "path = Some p" "\<And>st. sf_write ff p st = None" "sf_read ff' p = None"
    and "to_vec (snapshot w s) = Inr bytes" "from_slice bytes = Inr (snapshot w s)"
  shows "case activate w' rng bus_up host_up (snd (load_snapshot ff' now from_slice path
        (dk_files (snd (fst (run_shutdown w ff pid part to_vec path (s, dk))))))) of
      None \<Rightarrow> False
    | Some s' \<Rightarrow> leaves (ap_layout s') = filter (comes_back w w' s) (leaves (ap_layout s)) \<and>
        ap_anchors s' = {a \<in> ap_anchors s. comes_back w w' s a} \<and>
        ap_active s' = first_of (ap_anchors s') \<and>
        (\<forall>i. hget (ap_pane_titles s') i = (if comes_back w w' s i then hget (ap_pane_titles s) i else None)) \<and>
        (\<forall>i. comes_back w w' s i \<longrightarrow>
          hget (ap_workspace s') i = (if i \<in> ap_anchors s then Some i else first_of (ap_anchors s')))"
proof -
  obtain a where a: "a \<in> ap_anchors s" "comes_back w w' s a" using assms(5) by blast
  obtain r where r: "build_restored w' (snapshot w s) = Some r" "restored_ok r"
      "leaves (rs_layout r) = filter (comes_back w w' s) (leaves (ap_layout s))"
      "rs_anchors r = {a \<in> ap_anchors s. comes_back w w' s a}"
    by (rule restart_restored [OF assms(1,3) a])
  have ne: "rs_anchors r \<noteq> {}" using a r(4) by blast
  let ?s = "start_restored w' rng (snapshot w s) r"
  note k = start_restored_keeps [OF r(2) assms(4) ne, of w' "snapshot w s"]
  have mem: "i \<in> set (leaves (rs_layout r)) \<longleftrightarrow> comes_back w w' s i" for i
    using r(3) assms(1) comes_back_terminal [of w w' s i] by (auto simp: app_inv_def app_ok_def panes_ok_def)
  have ttl: "hget (ap_pane_titles ?s) i = (if comes_back w w' s i then hget (ap_pane_titles s) i else None)" for i
    unfolding k(4) mem using comes_back_terminal [of w w' s i]
    by (simp add: snapshot_titles option.map_comp comp_def option.map_ident)
  have ws: "hget (ap_workspace ?s) i = (if i \<in> ap_anchors s then Some i else first_of (rs_anchors r))"
    if "comes_back w w' s i" for i
    unfolding k(5) mem using that by (simp add: r(4))
  show ?thesis
    unfolding saved_and_loaded [where p = p and w = w and s = s and to_vec = to_vec and from_slice = from_slice, OF assms(2,6,7,8,9,10)] activate_restored [OF r(1,2) assms(4)] option.case
    using k(1-3) ttl ws r(3,4) tables_eq_fields(4,6,9,14) [OF tables_set_focused]
    by simp
qed

theorem restart_brings_terminals_back_witness:
  "case activate tiny_world (\<lambda>n. n) True True (snd (load_snapshot no_faults 0
        (\<lambda>_. Inr (snapshot tiny_world tiny_app)) (Some ''f'') (dk_files (snd (fst (run_shutdown tiny_world
          no_faults 0 0 (\<lambda>_. Inr ''S'') (Some ''f'') (tiny_app, \<lparr>dk_files = [], dk_counter = 0\<rparr>))))))) of
      None \<Rightarrow> False
    | Some s' \<Rightarrow> leaves (ap_layout s') =
          filter (comes_back tiny_world tiny_world tiny_app) (leaves (ap_layout tiny_app)) \<and>
        ap_anchors s' = {a \<in> ap_anchors tiny_app. comes_back tiny_world tiny_world tiny_app a} \<and>
        ap_active s' = first_of (ap_anchors s') \<and>
        (\<forall>i. hget (ap_pane_titles s') i =
          (if comes_back tiny_world tiny_world tiny_app i then hget (ap_pane_titles tiny_app) i else None)) \<and>
        (\<forall>i. comes_back tiny_world tiny_world tiny_app i \<longrightarrow>
          hget (ap_workspace s') i = (if i \<in> ap_anchors tiny_app then Some i else first_of (ap_anchors s')))"
proof (rule restart_brings_terminals_back)
  have inv: "app_inv tiny_app" using tiny_app_anchor(1) by (simp add: has_anchor_def)
  then show "app_inv tiny_app" .
  obtain a where a: "a \<in> ap_anchors tiny_app"
    using tiny_app_anchor(1) by (auto simp: has_anchor_def split: option.splits)
  then obtain p where "hget (ap_panes tiny_app) a = Some p" "\<not> is_satellite p"
    using inv by (auto simp: app_inv_def app_ok_def anchors_ok_def live_def satellite_pane_def)
  then have "comes_back tiny_world tiny_world tiny_app a"
    by (auto simp: comes_back_def snapshot_cwd_def tiny_world_def is_satellite_def split: pane_body.splits)
  then show "\<exists>a \<in> ap_anchors tiny_app. comes_back tiny_world tiny_world tiny_app a" using a by blast
  show "ap_phase tiny_app = Running" "ap_next_id tiny_app \<le> u32_max" by (rule tiny_app_running)+
qed (simp_all add: no_faults_def)

text \<open>A snapshot that names panes but no anchor, as an older cockpit may have written, is not restored:
  of all the panes the start has spawned only one is left in the layout, and the others have been
  terminated.\<close>

theorem snapshot_without_anchors_keeps_one_pane:
  assumes "inj rng" "snapshot_usable sn" "snapshot_anchors sn = []" "build_restored w sn = Some r"
  shows "case activate w rng bus_up host_up (Some sn) of
      None \<Rightarrow> False | Some s \<Rightarrow> length (leaves (ap_layout s)) = 1 \<and> {i. live s i} = set (leaves (ap_layout s))"
proof -
  note r = build_restored_ok [OF assms(2,4)]
  let ?s = "set_focused (ap_focused (start_restored w rng sn r))
      ((start_restored w rng sn r)\<lparr>ap_has_compositor := bus_up, ap_has_host := host_up\<rparr>)"
  have e: "activate w rng bus_up host_up (Some sn) = Some ?s" using activate_restored assms(1,4) r(1) by blast
  obtain x where x: "ap_layout (start_restored w rng sn r) = Leaf x"
    using start_without_anchors [OF r(1) _ assms(1), of w sn] r(3) assms(3) by auto
  have "has_anchor ?s" using start_restored_anchor [OF r(1) assms(1)] by simp
  then have "app_ok ?s" by (simp add: has_anchor_def app_inv_def)
  then have "Collect (live ?s) = set (leaves (ap_layout ?s))" by (simp add: app_ok_def panes_ok_def)
  then show ?thesis unfolding e using x tables_eq_fields(4) [OF tables_set_focused] by simp
qed

theorem snapshot_without_anchors_keeps_one_pane_witness:
  "case activate tiny_world (\<lambda>n. n) True True (Some (tiny_snapshot [])) of
      None \<Rightarrow> False | Some s \<Rightarrow> length (leaves (ap_layout s)) = 1 \<and> {i. live s i} = set (leaves (ap_layout s))"
proof -
  have "1 \<in> set (leaves (layout_from_snapshot (sn_layout (tiny_snapshot []))))"
    by (simp add: tiny_snapshot_def)
  moreover have "respawn tiny_world (tiny_snapshot []) 1 \<noteq> None"
    by (simp add: respawn_def tiny_snapshot_def tiny_world_def pane_new_def hget_Cons)
  ultimately obtain r where "build_restored tiny_world (tiny_snapshot []) = Some r"
    using build_restored_some by blast
  then show ?thesis
    by (intro snapshot_without_anchors_keeps_one_pane)
      (simp_all add: tiny_snapshot_usable, simp add: tiny_snapshot_def snapshot_anchors_def)
qed

end
