(* ===== verification/AppKeys.thy ===== *)
theory AppKeys
  imports AppInvariantReach Config "HOL-Library.Word"
begin

text \<open>
  The keyboard: what a key press becomes in a terminal (\<open>crates/lmux/src/keymap.rs\<close> and the key controller of
  \<open>pane.rs\<close>), and the window's prefix key with its commands and timers (\<open>app.rs\<close>). The toolkit's
  keys are a datatype with the ones the code names; the character of a key is the toolkit's function
  and a parameter.
\<close>

section \<open>Keys\<close>

datatype key =
  GK_Page_Up | GK_Page_Down | GK_Return | GK_BackSpace | GK_Tab | GK_Escape
| GK_Up | GK_Down | GK_Right | GK_Left | GK_Home | GK_End | GK_Delete
| GK_bar | GK_backslash | GK_plus | GK_minus | GK_bracketright | GK_bracketleft
| GK_Shift_L | GK_Shift_R | GK_Control_L | GK_Control_R | GK_Alt_L | GK_Alt_R
| GK_Super_L | GK_Super_R | GK_Meta_L | GK_Meta_R
| GK_Other nat

record modifiers =
  mo_shift :: bool
  mo_control :: bool
  mo_alt :: bool
  mo_meta :: bool
  mo_super :: bool

text \<open>Characters are Unicode scalar values.\<close>

type_synonym to_unicode = "key \<Rightarrow> nat option"

abbreviation code :: "char \<Rightarrow> nat" where
  "code c \<equiv> of_char c"

definition to_ascii_lowercase :: "nat \<Rightarrow> nat" where
  "to_ascii_lowercase c = (if 65 \<le> c \<and> c \<le> 90 then c + 32 else c)"

definition is_ascii_alphabetic :: "nat \<Rightarrow> bool" where
  "is_ascii_alphabetic c = (65 \<le> c \<and> c \<le> 90 \<or> 97 \<le> c \<and> c \<le> 122)"

definition eq_ignore_ascii_case :: "nat \<Rightarrow> nat \<Rightarrow> bool" where
  "eq_ignore_ascii_case a b = (to_ascii_lowercase a = to_ascii_lowercase b)"

section \<open>A key in a terminal\<close>

datatype platform = Plat_Default | Plat_Macos

datatype terminal_shortcut = TS_Copy | TS_Paste | TS_Find

definition copy_paste_find :: "nat \<Rightarrow> terminal_shortcut option" where
  "copy_paste_find ch =
    (if ch = code CHR ''c'' then Some TS_Copy
     else if ch = code CHR ''v'' then Some TS_Paste
     else if ch = code CHR ''f'' then Some TS_Find else None)"

definition classify_terminal_shortcut :: "to_unicode \<Rightarrow> platform \<Rightarrow> key \<Rightarrow> modifiers \<Rightarrow> terminal_shortcut option" where
  "classify_terminal_shortcut uni pl k mo =
    (case uni k of None \<Rightarrow> None
     | Some c \<Rightarrow> let ch = to_ascii_lowercase c in
         if mo_control mo \<and> mo_shift mo then copy_paste_find ch
         else if pl = Plat_Default \<and> mo_control mo \<and> ch = code CHR ''f'' then Some TS_Find
         else if pl = Plat_Macos \<and> (mo_meta mo \<or> mo_super mo) then copy_paste_find ch
         else None)"

definition encode_utf8 :: "nat \<Rightarrow> 8 word list" where
  "encode_utf8 c =
    (if c < 128 then [of_nat c]
     else if c < 2048 then [of_nat (192 + c div 64), of_nat (128 + c mod 64)]
     else if c < 65536 then [of_nat (224 + c div 4096), of_nat (128 + c div 64 mod 64), of_nat (128 + c mod 64)]
     else [of_nat (240 + c div 262144), of_nat (128 + c div 4096 mod 64), of_nat (128 + c div 64 mod 64),
       of_nat (128 + c mod 64)])"

definition esc :: "8 word list \<Rightarrow> 8 word list" where
  "esc bs = 0x1b # 0x5b # bs"

definition translate_key :: "to_unicode \<Rightarrow> key \<Rightarrow> modifiers \<Rightarrow> 8 word list" where
  "translate_key uni k mo =
    (case (if mo_control mo then (case uni k of Some c \<Rightarrow> if is_ascii_alphabetic c then Some c else None | None \<Rightarrow> None)
           else None) of
       Some c \<Rightarrow> [of_nat (to_ascii_lowercase c - 97 + 1)]
     | None \<Rightarrow>
         (case k of
            GK_Return \<Rightarrow> [0x0d] | GK_BackSpace \<Rightarrow> [0x7f] | GK_Tab \<Rightarrow> [0x09] | GK_Escape \<Rightarrow> [0x1b]
          | GK_Up \<Rightarrow> esc [0x41] | GK_Down \<Rightarrow> esc [0x42] | GK_Right \<Rightarrow> esc [0x43] | GK_Left \<Rightarrow> esc [0x44]
          | GK_Home \<Rightarrow> esc [0x48] | GK_End \<Rightarrow> esc [0x46] | GK_Delete \<Rightarrow> esc [0x33, 0x7e]
          | _ \<Rightarrow> (case uni k of Some c \<Rightarrow> encode_utf8 c | None \<Rightarrow> [])))"

datatype key_action = KA_ScrollRows int | KA_Write "8 word list"

definition classify_key :: "to_unicode \<Rightarrow> key \<Rightarrow> modifiers \<Rightarrow> nat \<Rightarrow> key_action" where
  "classify_key uni k mo page_rows =
    (case k of
       GK_Page_Up \<Rightarrow> KA_ScrollRows (if mo_shift mo then -1 else - int (max page_rows 1))
     | GK_Page_Down \<Rightarrow> KA_ScrollRows (if mo_shift mo then 1 else int (max page_rows 1))
     | _ \<Rightarrow> KA_Write (translate_key uni k mo))"

datatype propagation = Prop_Stop | Prop_Proceed

text \<open>What the terminal's key controller does; it never lets a key go further.\<close>

datatype pane_action = PA_Copy | PA_Paste | PA_Find | PA_Write "8 word list" | PA_Scroll int | PA_Nothing

definition pane_key :: "to_unicode \<Rightarrow> platform \<Rightarrow> bool \<Rightarrow> nat \<Rightarrow> key \<Rightarrow> modifiers \<Rightarrow> pane_action" where
  "pane_key uni pl exited rows k mo =
    (case classify_terminal_shortcut uni pl k mo of
       Some TS_Copy \<Rightarrow> PA_Copy
     | Some TS_Paste \<Rightarrow> if exited then PA_Nothing else PA_Paste
     | Some TS_Find \<Rightarrow> PA_Find
     | None \<Rightarrow> if exited then PA_Nothing
         else (case classify_key uni k mo rows of
             KA_Write bytes \<Rightarrow> if bytes \<noteq> [] then PA_Write bytes else PA_Nothing
           | KA_ScrollRows d \<Rightarrow> PA_Scroll d))"

section \<open>The prefix key\<close>

record prefix_binding =
  pb_ctrl :: bool
  pb_shift :: bool
  pb_alt :: bool
  pb_command :: bool
  pb_key :: nat

fun split_plus :: "string \<Rightarrow> string \<Rightarrow> string list" where
  "split_plus acc [] = [acc]"
| "split_plus acc (c # cs) = (if c = CHR ''+'' then acc # split_plus [] cs else split_plus (acc @ [c]) cs)"

definition lower_string :: "string \<Rightarrow> string" where
  "lower_string = map (\<lambda>c. char_of (to_ascii_lowercase (of_char c)))"

definition parse_part :: "string \<Rightarrow> prefix_binding option \<Rightarrow> prefix_binding option" where
  "parse_part part b =
    (case b of None \<Rightarrow> None | Some pb \<Rightarrow>
       if part \<in> {''ctrl'', ''control''} then Some (pb\<lparr>pb_ctrl := True\<rparr>)
       else if part = ''shift'' then Some (pb\<lparr>pb_shift := True\<rparr>)
       else if part \<in> {''alt'', ''option''} then Some (pb\<lparr>pb_alt := True\<rparr>)
       else if part \<in> {''cmd'', ''command'', ''super'', ''meta''} then Some (pb\<lparr>pb_command := True\<rparr>)
       else (case part of [c] \<Rightarrow> Some (pb\<lparr>pb_key := of_char c\<rparr>) | _ \<Rightarrow> None))"

definition parse_prefix_binding :: "string \<Rightarrow> prefix_binding option" where
  "parse_prefix_binding prefix =
    (case fold parse_part (map (\<lambda>p. lower_string (trim p)) (split_plus [] prefix))
        (Some \<lparr>pb_ctrl = False, pb_shift = False, pb_alt = False, pb_command = False, pb_key = 0\<rparr>) of
       None \<Rightarrow> None
     | Some pb \<Rightarrow> if pb_key pb \<noteq> 0 then Some pb else None)"

definition is_valid_prefix_binding :: "string \<Rightarrow> bool" where
  "is_valid_prefix_binding prefix = (parse_prefix_binding prefix \<noteq> None)"

definition is_default_prefix :: "to_unicode \<Rightarrow> key \<Rightarrow> modifiers \<Rightarrow> bool" where
  "is_default_prefix uni k mo =
    (mo_control mo \<and> (case uni k of Some c \<Rightarrow> eq_ignore_ascii_case c (code CHR ''b'') | None \<Rightarrow> False))"

definition is_configured_prefix :: "to_unicode \<Rightarrow> string \<Rightarrow> key \<Rightarrow> modifiers \<Rightarrow> bool" where
  "is_configured_prefix uni prefix k mo =
    (case parse_prefix_binding prefix of
       None \<Rightarrow> is_default_prefix uni k mo
     | Some pb \<Rightarrow>
         if pb_ctrl pb \<noteq> mo_control mo then False
         else if pb_shift pb \<noteq> mo_shift mo then False
         else if pb_alt pb \<noteq> mo_alt mo then False
         else if pb_command pb \<and> \<not> (mo_meta mo \<or> mo_super mo) then False
         else if \<not> pb_command pb \<and> (mo_meta mo \<or> mo_super mo) then False
         else (case uni k of Some c \<Rightarrow> eq_ignore_ascii_case c (pb_key pb) | None \<Rightarrow> False))"

section \<open>The armed state\<close>

text \<open>
  The shared cell, the window's title and the hint, and the deadlines of the timeouts that are still to fire:
  a timeout is never cancelled. Times are milliseconds.
\<close>

record prefix_state =
  px_armed :: bool
  px_title :: string
  px_hint :: bool
  px_timers :: "nat list"

definition prefix_idle :: prefix_state where
  "prefix_idle = \<lparr>px_armed = False, px_title = ''lmux'', px_hint = False, px_timers = []\<rparr>"

definition PREFIX_TIMEOUT :: nat where
  "PREFIX_TIMEOUT = 1000"

definition arm_prefix :: "nat \<Rightarrow> prefix_state \<Rightarrow> prefix_state" where
  "arm_prefix now px =
    px\<lparr>px_armed := True, px_title := ''lmux [*]'', px_hint := True, px_timers := px_timers px @ [now + PREFIX_TIMEOUT]\<rparr>"

definition disarm_prefix :: "prefix_state \<Rightarrow> prefix_state" where
  "disarm_prefix px = px\<lparr>px_armed := False, px_title := ''lmux'', px_hint := False\<rparr>"

definition timeout_fires :: "prefix_state \<Rightarrow> prefix_state" where
  "timeout_fires px = (if px_armed px then disarm_prefix px else px)"

text \<open>The main loop runs the timeouts that are due before it takes the next key.\<close>

definition fire_due :: "nat \<Rightarrow> prefix_state \<Rightarrow> prefix_state" where
  "fire_due now px =
    fold (\<lambda>_. timeout_fires) (filter (\<lambda>d. d \<le> now) (px_timers px)) (px\<lparr>px_timers := filter (\<lambda>d. \<not> d \<le> now) (px_timers px)\<rparr>)"

definition is_modifier_only :: "key \<Rightarrow> bool" where
  "is_modifier_only k = (k \<in> {GK_Shift_L, GK_Shift_R, GK_Control_L, GK_Control_R, GK_Alt_L, GK_Alt_R,
    GK_Super_L, GK_Super_R, GK_Meta_L, GK_Meta_R})"

datatype prefix_command =
  PC_Split dir | PC_Focus bool | PC_Close | PC_Next_Anchor | PC_Sessions | PC_New_Tab | PC_Rearrange | PC_Quit

definition prefix_command :: "to_unicode \<Rightarrow> key \<Rightarrow> prefix_command option" where
  "prefix_command uni k =
    (case k of
       GK_bar \<Rightarrow> Some (PC_Split Vertical) | GK_backslash \<Rightarrow> Some (PC_Split Vertical)
     | GK_plus \<Rightarrow> Some (PC_Split Vertical) | GK_minus \<Rightarrow> Some (PC_Split Horizontal)
     | GK_bracketright \<Rightarrow> Some (PC_Focus True) | GK_bracketleft \<Rightarrow> Some (PC_Focus False)
     | _ \<Rightarrow> (case map_option to_ascii_lowercase (uni k) of
         None \<Rightarrow> None
       | Some c \<Rightarrow>
           if c = code CHR ''x'' then Some PC_Close
           else if c = code CHR ''a'' then Some PC_Next_Anchor
           else if c = code CHR ''s'' then Some PC_Sessions
           else if c = code CHR ''t'' then Some PC_New_Tab
           else if c = code CHR ''m'' then Some PC_Rearrange
           else if c = code CHR ''q'' then Some PC_Quit
           else if c = code CHR ''o'' \<or> c = code CHR ''n'' then Some (PC_Focus True)
           else if c = code CHR ''p'' then Some (PC_Focus False)
           else None))"

text \<open>The window's key handler, with the focus on a satellite or not.\<close>

definition window_key ::
  "to_unicode \<Rightarrow> string \<Rightarrow> bool \<Rightarrow> nat \<Rightarrow> key \<Rightarrow> modifiers \<Rightarrow> prefix_state \<Rightarrow>
    prefix_state \<times> propagation \<times> prefix_command option" where
  "window_key uni prefix satellite now k mo px =
    (if satellite then ((if px_armed px then disarm_prefix px else px), Prop_Proceed, None)
     else if \<not> px_armed px then
       (if is_configured_prefix uni prefix k mo then (arm_prefix now px, Prop_Stop, None) else (px, Prop_Proceed, None))
     else if is_modifier_only k then (px, Prop_Stop, None)
     else (disarm_prefix px, Prop_Stop, prefix_command uni k))"

text \<open>
  The command on the cockpit. The session switcher opens a dialog; a quit drains the panes once the
  snapshot is written (\<open>AppStart\<close>).
\<close>

definition run_command :: "world \<Rightarrow> prefix_command \<Rightarrow> app \<Rightarrow> app" where
  "run_command w c s =
    (case c of
       PC_Split d \<Rightarrow> split_focused w d s
     | PC_Focus forward \<Rightarrow> cycle_focus forward s
     | PC_Close \<Rightarrow> close_focused w s
     | PC_Next_Anchor \<Rightarrow> cycle_active_anchor w s
     | PC_Sessions \<Rightarrow> s
     | PC_New_Tab \<Rightarrow> fst (create_terminal_tab_for_focused w s)
     | PC_Rearrange \<Rightarrow> fst (toggle_rearrange_mode s)
     | PC_Quit \<Rightarrow> fst (begin_shutdown w s))"

definition press_key ::
  "world \<Rightarrow> to_unicode \<Rightarrow> string \<Rightarrow> nat \<Rightarrow> key \<Rightarrow> modifiers \<Rightarrow> prefix_state \<times> app \<Rightarrow>
    (prefix_state \<times> app) \<times> propagation \<times> prefix_command option" where
  "press_key w uni prefix now k mo = (\<lambda>(px, s).
    (case window_key uni prefix (focused_is_satellite s) now k mo (fire_due now px) of
       (px', pr, cmd) \<Rightarrow> ((px', case cmd of Some c \<Rightarrow> run_command w c s | None \<Rightarrow> s), pr, cmd)))"

section \<open>Runs of the keyboard\<close>

record press =
  pr_at :: nat
  pr_key :: key
  pr_mods :: modifiers
  pr_satellite :: bool

definition press_window ::
  "to_unicode \<Rightarrow> string \<Rightarrow> prefix_state \<Rightarrow> press \<Rightarrow> prefix_state \<times> propagation \<times> prefix_command option" where
  "press_window uni prefix px p =
    window_key uni prefix (pr_satellite p) (pr_at p) (pr_key p) (pr_mods p) (fire_due (pr_at p) px)"

fun press_all :: "to_unicode \<Rightarrow> string \<Rightarrow> prefix_state \<Rightarrow> press list \<Rightarrow>
    prefix_state \<times> (propagation \<times> prefix_command option) list" where
  "press_all uni prefix px [] = (px, [])"
| "press_all uni prefix px (p # ps) =
    (case press_window uni prefix px p of (px1, out) \<Rightarrow>
       (case press_all uni prefix px1 ps of (px2, outs) \<Rightarrow> (px2, out # outs)))"

lemma press_all_snoc:
  "press_all uni prefix px (ps @ [p]) =
    (case press_all uni prefix px ps of (px1, outs) \<Rightarrow>
       (case press_window uni prefix px1 p of (px2, out) \<Rightarrow> (px2, outs @ [out])))"
  by (induction ps arbitrary: px) (simp_all split: prod.split)

lemma press_all_length: "length (snd (press_all uni prefix px ps)) = length ps"
  by (induction ps arbitrary: px) (simp_all split: prod.split, metis snd_conv)

lemma press_all_take:
  "n \<le> length ps \<Longrightarrow> snd (press_all uni prefix px (take n ps)) = take n (snd (press_all uni prefix px ps))"
proof (induction ps arbitrary: px n)
  case (Cons p ps)
  show ?case
  proof (cases n)
    case (Suc m)
    obtain px1 out where w: "press_window uni prefix px p = (px1, out)" by (cases "press_window uni prefix px p")
    show ?thesis using Cons.IH [of m px1] Cons.prems Suc by (simp add: w split: prod.split) (metis snd_conv)
  qed simp
qed simp

lemma press_all_nth:
  assumes "n < length ps"
  shows "snd (press_all uni prefix px ps) ! n =
    snd (press_window uni prefix (fst (press_all uni prefix px (take n ps))) (ps ! n))"
proof -
  obtain px1 outs where r: "press_all uni prefix px (take n ps) = (px1, outs)"
    by (cases "press_all uni prefix px (take n ps)")
  have "length outs = n" using press_all_length [of uni prefix px "take n ps"] r assms by simp
  then have "snd (press_all uni prefix px (take (Suc n) ps)) ! n = snd (press_window uni prefix px1 (ps ! n))"
    using assms r by (simp add: take_Suc_conv_app_nth press_all_snoc nth_append split: prod.split)
  moreover have "snd (press_all uni prefix px (take (Suc n) ps)) = take (Suc n) (snd (press_all uni prefix px ps))"
    using assms by (intro press_all_take) simp
  ultimately show ?thesis using r by simp
qed

text \<open>The timeouts that are due disarm, and change nothing else.\<close>

lemma timeouts_fire:
  "fold (\<lambda>_. timeout_fires) ds px = (if ds = [] then px else timeout_fires px)"
proof (induction ds arbitrary: px)
  case (Cons d ds)
  show ?case using Cons.IH [of "timeout_fires px"] by (simp add: timeout_fires_def disarm_prefix_def)
qed simp

lemma fire_due_eq:
  "fire_due now px =
    (let px1 = px\<lparr>px_timers := filter (\<lambda>d. \<not> d \<le> now) (px_timers px)\<rparr>
     in if list_ex (\<lambda>d. d \<le> now) (px_timers px) then timeout_fires px1 else px1)"
  by (simp add: fire_due_def timeouts_fire Let_def filter_empty_conv list_ex_iff)

section \<open>Why a prefix is armed\<close>

text \<open>
  \<open>pending_since ps outs m\<close>: the press \<open>m\<close> was the prefix and every later one of \<open>ps\<close> was a modifier in a
  terminal.
\<close>

definition prefix_at :: "to_unicode \<Rightarrow> string \<Rightarrow> press \<Rightarrow> bool" where
  "prefix_at uni prefix p = (\<not> pr_satellite p \<and> is_configured_prefix uni prefix (pr_key p) (pr_mods p))"

definition waits_at :: "press \<Rightarrow> bool" where
  "waits_at p = (\<not> pr_satellite p \<and> is_modifier_only (pr_key p))"

definition stopped :: "propagation \<times> prefix_command option \<Rightarrow> bool" where
  "stopped out = (out = (Prop_Stop, None))"

definition pending_since ::
  "to_unicode \<Rightarrow> string \<Rightarrow> press list \<Rightarrow> (propagation \<times> prefix_command option) list \<Rightarrow> nat \<Rightarrow> bool" where
  "pending_since uni prefix ps outs m =
    (m < length ps \<and> prefix_at uni prefix (ps ! m) \<and> stopped (outs ! m) \<and>
     list_all (\<lambda>(p, out). waits_at p \<and> stopped out) (zip (drop (Suc m) ps) (drop (Suc m) outs)))"

definition indicator_ok :: "prefix_state \<Rightarrow> bool" where
  "indicator_ok px = (px_title px = (if px_armed px then ''lmux [*]'' else ''lmux'') \<and> px_hint px = px_armed px)"

lemma pending_snoc_wait:
  assumes "pending_since uni prefix ps outs m" "length outs = length ps" "waits_at p" "stopped out"
  shows "pending_since uni prefix (ps @ [p]) (outs @ [out]) m"
  using assms by (auto simp: pending_since_def nth_append)

lemma pending_snoc_prefix:
  assumes "length outs = length ps" "prefix_at uni prefix p" "stopped out"
  shows "pending_since uni prefix (ps @ [p]) (outs @ [out]) (length ps)"
  using assms by (simp add: pending_since_def nth_append)

lemma armed_pending:
  "case press_all uni prefix prefix_idle ps of (px, outs) \<Rightarrow>
     indicator_ok px \<and>
     (px_armed px \<longrightarrow> (\<exists>m. pending_since uni prefix ps outs m \<and> pr_at (ps ! m) + PREFIX_TIMEOUT \<in> set (px_timers px)))"
proof (induction ps rule: rev_induct)
  case Nil
  show ?case by (simp add: prefix_idle_def indicator_ok_def)
next
  case (snoc p ps)
  obtain px outs where r: "press_all uni prefix prefix_idle ps = (px, outs)"
    by (cases "press_all uni prefix prefix_idle ps")
  have len: "length outs = length ps" using press_all_length [of uni prefix prefix_idle ps] r by simp
  let ?f = "fire_due (pr_at p) px"
  have ih: "indicator_ok px" "px_armed px \<Longrightarrow>
      \<exists>m. pending_since uni prefix ps outs m \<and> pr_at (ps ! m) + PREFIX_TIMEOUT \<in> set (px_timers px)"
    using snoc.IH r by simp_all
  have f: "indicator_ok ?f" using ih(1) by (simp add: fire_due_eq Let_def indicator_ok_def timeout_fires_def disarm_prefix_def)
  have fa: "\<exists>m. pending_since uni prefix ps outs m \<and> pr_at (ps ! m) + PREFIX_TIMEOUT \<in> set (px_timers ?f)"
    if a: "px_armed ?f"
  proof -
    have "px_armed px" "\<not> list_ex (\<lambda>d. d \<le> pr_at p) (px_timers px)"
      using a by (auto simp: fire_due_eq Let_def timeout_fires_def disarm_prefix_def split: if_splits)
    then show ?thesis using ih(2) by (fastforce simp: fire_due_eq Let_def list_ex_iff)
  qed
  obtain px' out where w: "press_window uni prefix px p = (px', out)" by (cases "press_window uni prefix px p")
  have "indicator_ok px'"
    using w f by (auto simp: press_window_def window_key_def indicator_ok_def arm_prefix_def disarm_prefix_def split: if_splits)
  moreover have "\<exists>m. pending_since uni prefix (ps @ [p]) (outs @ [out]) m \<and>
      pr_at ((ps @ [p]) ! m) + PREFIX_TIMEOUT \<in> set (px_timers px')" if a: "px_armed px'"
  proof (cases "px_armed ?f")
    case True
    then have "\<not> pr_satellite p" "is_modifier_only (pr_key p)" "px' = ?f" "out = (Prop_Stop, None)"
      using w a by (auto simp: press_window_def window_key_def disarm_prefix_def split: if_splits)
    moreover obtain m where m: "pending_since uni prefix ps outs m" "pr_at (ps ! m) + PREFIX_TIMEOUT \<in> set (px_timers ?f)"
      using fa True by blast
    moreover have "m < length ps" using m(1) by (simp add: pending_since_def)
    ultimately show ?thesis
      using pending_snoc_wait [OF m(1) len, of p out] by (auto simp: waits_at_def stopped_def nth_append)
  next
    case False
    then have "\<not> pr_satellite p" "is_configured_prefix uni prefix (pr_key p) (pr_mods p)"
        "px' = arm_prefix (pr_at p) ?f" "out = (Prop_Stop, None)"
      using w a by (auto simp: press_window_def window_key_def disarm_prefix_def split: if_splits)
    then show ?thesis
      using pending_snoc_prefix [OF len, of uni prefix p out]
      by (intro exI [of _ "length ps"]) (simp add: prefix_at_def stopped_def arm_prefix_def)
  qed
  ultimately show ?case using r w by (simp add: press_all_snoc)
qed

lemma timers_bounded:
  "list_all (\<lambda>p. pr_at p \<le> t) ps \<Longrightarrow>
    list_all (\<lambda>d. d \<le> t + PREFIX_TIMEOUT) (px_timers (fst (press_all uni prefix prefix_idle ps)))"
proof (induction ps rule: rev_induct)
  case Nil
  show ?case by (simp add: prefix_idle_def)
next
  case (snoc p ps)
  obtain px outs where r: "press_all uni prefix prefix_idle ps = (px, outs)"
    by (cases "press_all uni prefix prefix_idle ps")
  have "px_timers (fst (press_window uni prefix px p)) = px_timers (fire_due (pr_at p) px) \<or>
      px_timers (fst (press_window uni prefix px p)) = px_timers (fire_due (pr_at p) px) @ [pr_at p + PREFIX_TIMEOUT]"
    by (simp add: press_window_def window_key_def arm_prefix_def disarm_prefix_def)
  moreover have "set (px_timers (fire_due (pr_at p) px)) \<subseteq> set (px_timers px)"
    by (auto simp: fire_due_eq Let_def timeout_fires_def disarm_prefix_def)
  ultimately show ?case using snoc r by (fastforce simp: press_all_snoc list_all_iff split: prod.split)
qed

section \<open>Commands and the cockpit\<close>

lemma run_command_inv:
  assumes "app_inv s" "ap_next_id s < u32_max" "\<not> satellite_pane s (ap_focused s)" "c \<noteq> PC_Quit"
  shows "app_inv (run_command w c s)"
proof -
  have "cockpit_step s (run_command w c s) \<or> run_command w c s = s"
    using assms(2-4) by (cases c) (auto simp: run_command_def intro: cockpit_step.intros)
  then show ?thesis using cockpit_step_inv assms(1) by auto
qed

text \<open>
  What a stale timeout does: with the prefix pressed at 0 and again at 900 ms, after a command, the
  timeout of the first press disarms at 1000 ms; the command key at 1050 ms goes to the shell.
\<close>

definition ctrl :: modifiers where
  "ctrl = \<lparr>mo_shift = False, mo_control = True, mo_alt = False, mo_meta = False, mo_super = False\<rparr>"

definition plain :: modifiers where
  "plain = \<lparr>mo_shift = False, mo_control = False, mo_alt = False, mo_meta = False, mo_super = False\<rparr>"

definition letters :: to_unicode where
  "letters k = (case k of GK_Other n \<Rightarrow> Some n | _ \<Rightarrow> None)"

definition typed :: "nat \<Rightarrow> char \<Rightarrow> modifiers \<Rightarrow> press" where
  "typed t c mo = \<lparr>pr_at = t, pr_key = GK_Other (of_char c), pr_mods = mo, pr_satellite = False\<rparr>"

lemma parse_ctrl_b: "parse_prefix_binding ''ctrl+b'' =
    Some \<lparr>pb_ctrl = True, pb_shift = False, pb_alt = False, pb_command = False, pb_key = of_char CHR ''b''\<rparr>"
  by (simp add: parse_prefix_binding_def parse_part_def lower_string_def to_ascii_lowercase_def trim_def is_space_def
    char_of_def bit_0)

lemmas key_run_defs = press_window_def window_key_def fire_due_def timeout_fires_def prefix_idle_def
  arm_prefix_def disarm_prefix_def typed_def ctrl_def plain_def letters_def is_configured_prefix_def parse_ctrl_b
  PREFIX_TIMEOUT_def is_modifier_only_def prefix_command_def eq_ignore_ascii_case_def to_ascii_lowercase_def

lemma stale_timeout_disarms_early:
  "snd (press_all letters ''ctrl+b'' prefix_idle
      [typed 0 CHR ''b'' ctrl, typed 100 CHR ''o'' plain, typed 900 CHR ''b'' ctrl, typed 1050 CHR ''o'' plain]) =
    [(Prop_Stop, None), (Prop_Stop, Some (PC_Focus True)), (Prop_Stop, None), (Prop_Proceed, None)]"
  by (simp add: key_run_defs)

section \<open>Properties\<close>

text \<open>C6: Cockpit commands come from the prefix only: in any run of key presses, a command is run for
  a key of a terminal that follows the prefix key, pressed in a terminal less than a second earlier, with
  nothing but modifier keys in between; none of these keys, nor the command's own, reaches the shell.\<close>

theorem command_follows_its_prefix:
  assumes "n < length ps" and "press_all uni prefix prefix_idle ps = (px, outs)" and "outs ! n = (pr, Some c)"
  shows "pr = Prop_Stop \<and> \<not> pr_satellite (ps ! n) \<and>
    (\<exists>m. pending_since uni prefix (take n ps) (take n outs) m \<and> pr_at (ps ! n) < pr_at (ps ! m) + PREFIX_TIMEOUT)"
proof -
  let ?p = "ps ! n"
  obtain px0 outs0 where r: "press_all uni prefix prefix_idle (take n ps) = (px0, outs0)"
    by (cases "press_all uni prefix prefix_idle (take n ps)")
  have outs0: "outs0 = take n outs"
    using press_all_take [of n ps uni prefix prefix_idle] assms(1,2) r by simp
  have "snd (press_window uni prefix px0 ?p) = (pr, Some c)"
    using press_all_nth [OF assms(1), of uni prefix prefix_idle] assms(2,3) r by simp
  then have w: "pr = Prop_Stop" "\<not> pr_satellite ?p" "px_armed (fire_due (pr_at ?p) px0)"
    by (auto simp: press_window_def window_key_def split: if_splits)
  then have "px_armed px0" "\<not> list_ex (\<lambda>d. d \<le> pr_at ?p) (px_timers px0)"
    by (auto simp: fire_due_eq Let_def timeout_fires_def disarm_prefix_def split: if_splits)
  moreover obtain m where m: "pending_since uni prefix (take n ps) outs0 m"
      "pr_at (take n ps ! m) + PREFIX_TIMEOUT \<in> set (px_timers px0)"
    using armed_pending [of uni prefix "take n ps"] r calculation(1) by auto
  moreover have "m < n" using m(1) assms(1) by (simp add: pending_since_def)
  ultimately show ?thesis using w(1,2) unfolding outs0 by (auto simp: list_ex_iff not_le)
qed

theorem command_follows_its_prefix_witness:
  "\<exists>m. pending_since letters ''ctrl+b'' [typed 0 CHR ''b'' ctrl] [(Prop_Stop, None)] m \<and>
    100 < pr_at ([typed 0 CHR ''b'' ctrl, typed 100 CHR ''o'' plain] ! m) + PREFIX_TIMEOUT"
proof -
  let ?ps = "[typed 0 CHR ''b'' ctrl, typed 100 CHR ''o'' plain]"
  obtain px where r: "press_all letters ''ctrl+b'' prefix_idle ?ps = (px, [(Prop_Stop, None), (Prop_Stop, Some (PC_Focus True))])"
  proof -
    have "snd (press_all letters ''ctrl+b'' prefix_idle ?ps) = [(Prop_Stop, None), (Prop_Stop, Some (PC_Focus True))]"
      by (simp add: key_run_defs)
    then show ?thesis using that by (metis prod.collapse)
  qed
  have "pr_at (?ps ! 1) = 100" by (simp add: typed_def)
  then show ?thesis using command_follows_its_prefix [OF _ r, of 1 Prop_Stop "PC_Focus True"] by simp
qed

text \<open>The prefix lapses by itself: a second after the last key press at the latest the prefix is no
  longer armed, and the window's title and hint say so, as they do at every moment.\<close>

theorem prefix_lapses:
  assumes "list_all (\<lambda>p. pr_at p \<le> t) ps"
  shows "case press_all uni prefix prefix_idle ps of (px, _) \<Rightarrow>
    indicator_ok px \<and> \<not> px_armed (fire_due (t + 1000) px) \<and> indicator_ok (fire_due (t + 1000) px)"
proof -
  obtain px outs where r: "press_all uni prefix prefix_idle ps = (px, outs)"
    by (cases "press_all uni prefix prefix_idle ps")
  have a: "indicator_ok px" "px_armed px \<Longrightarrow> px_timers px \<noteq> []"
    using armed_pending [of uni prefix ps] r by auto
  have b: "list_all (\<lambda>d. d \<le> t + 1000) (px_timers px)"
    using timers_bounded [OF assms, of uni prefix] r by (simp add: PREFIX_TIMEOUT_def)
  have "list_ex (\<lambda>d. d \<le> t + 1000) (px_timers px)" if "px_armed px"
    using a(2) [OF that] b by (cases "px_timers px") simp_all
  then show ?thesis
    using a(1) by (auto simp: r fire_due_eq Let_def timeout_fires_def disarm_prefix_def indicator_ok_def)
qed

theorem prefix_lapses_witness:
  "case press_all letters ''ctrl+b'' prefix_idle [typed 7 CHR ''b'' ctrl] of (px, _) \<Rightarrow>
    indicator_ok px \<and> \<not> px_armed (fire_due (7 + 1000) px) \<and> indicator_ok (fire_due (7 + 1000) px)"
  by (rule prefix_lapses) (simp add: typed_def)

text \<open>C3: The keyboard keeps the cockpit's invariant: whatever key is pressed at the window, at any state
  of the prefix, with a pane id left to give out, the cockpit is in its invariant afterwards, or is
  shutting down after the quit command. A key never runs a command while a window of the nested
  compositor has the focus.\<close>

theorem keyboard_keeps_invariant:
  assumes "app_inv s" and "ap_next_id s < u32_max"
  shows "case press_key w uni prefix now k mo (px, s) of ((_, s'), pr, cmd) \<Rightarrow>
    (if cmd = Some PC_Quit then ap_phase s' = ShuttingDown else app_inv s') \<and>
    (if focused_is_satellite s then s' = s \<and> pr = Prop_Proceed \<and> cmd = None else True)"
proof -
  obtain px' pr cmd where w: "window_key uni prefix (focused_is_satellite s) now k mo (fire_due now px) = (px', pr, cmd)"
    by (cases "window_key uni prefix (focused_is_satellite s) now k mo (fire_due now px)")
  have sat: "focused_is_satellite s \<Longrightarrow> pr = Prop_Proceed \<and> cmd = None"
    using w by (simp add: window_key_def)
  have quit: "ap_phase (run_command w PC_Quit s) = ShuttingDown"
  proof -
    obtain es where "\<exists>t. fst (drain_panes_for_shutdown w (s\<lparr>ap_phase := ShuttingDown\<rparr>)) = t\<lparr>ap_log := es\<rparr> \<and> ap_phase t = ShuttingDown"
      using drain_emits by (fastforce simp: drain_panes_for_shutdown_def Let_def)
    then show ?thesis by (auto simp: run_command_def begin_shutdown_def Let_def split: prod.split)
  qed
  show ?thesis
  proof (cases cmd)
    case None
    then show ?thesis using assms(1) sat by (simp add: press_key_def w)
  next
    case (Some c)
    then have "\<not> satellite_pane s (ap_focused s)" using sat by (auto simp: focused_is_satellite_def)
    then show ?thesis using Some run_command_inv [OF assms] quit sat
      by (auto simp: press_key_def w)
  qed
qed

theorem keyboard_keeps_invariant_witness:
  "\<forall>w p. case press_key w letters ''ctrl+b'' 5 (GK_Other 120) plain
      (arm_prefix 0 prefix_idle, app_new (\<lambda>n. n) 1 p) of ((_, s'), pr, cmd) \<Rightarrow>
    (if cmd = Some PC_Quit then ap_phase s' = ShuttingDown else app_inv s') \<and>
    (if focused_is_satellite (app_new (\<lambda>n. n) 1 p)
     then s' = app_new (\<lambda>n. n) 1 p \<and> pr = Prop_Proceed \<and> cmd = None else True)"
proof (intro allI)
  fix w p
  have "app_inv (app_new (\<lambda>n. n) 1 p)" by (rule app_new_inv) simp
  moreover have "ap_next_id (app_new (\<lambda>n. n) 1 p) < u32_max"
    by (simp add: app_new_def app_of_def draw_uuid_def u32_max_def)
  ultimately show "case press_key w letters ''ctrl+b'' 5 (GK_Other 120) plain
      (arm_prefix 0 prefix_idle, app_new (\<lambda>n. n) 1 p) of ((_, s'), pr, cmd) \<Rightarrow>
    (if cmd = Some PC_Quit then ap_phase s' = ShuttingDown else app_inv s') \<and>
    (if focused_is_satellite (app_new (\<lambda>n. n) 1 p)
     then s' = app_new (\<lambda>n. n) 1 p \<and> pr = Prop_Proceed \<and> cmd = None else True)"
    by (rule keyboard_keeps_invariant)
qed

end
