(* ===== verification/AppWindow.thy ===== *)
theory AppWindow
  imports AppKeys AppStart
begin

text \<open>
  The window around the cockpit: the callbacks it installs on panes, the choice of the compositor backend,
  the toast a bell raises (\<open>crates/lmux/src/app.rs\<close>), and the rows and the commit of the session switcher
  (\<open>switcher.rs\<close>). Widgets are left to the toolkit.
\<close>

section \<open>Callbacks\<close>

datatype terminal_context_action =
  TA_SplitRight | TA_SplitDown | TA_NewTab | TA_ClosePane | TA_NewAnchor | TA_NextPane | TA_PreviousPane
| TA_ToggleRearrange

definition terminal_action :: "world \<Rightarrow> pane_id \<Rightarrow> terminal_context_action \<Rightarrow> app \<Rightarrow> app" where
  "terminal_action w p act s0 =
    (let s = set_focused p s0 in
     case act of
       TA_SplitRight \<Rightarrow> split_focused w Vertical s
     | TA_SplitDown \<Rightarrow> split_focused w Horizontal s
     | TA_NewTab \<Rightarrow> fst (create_terminal_tab_for_focused w s)
     | TA_ClosePane \<Rightarrow> close_focused w s
     | TA_NewAnchor \<Rightarrow> create_new_anchor w s
     | TA_NextPane \<Rightarrow> cycle_focus True s
     | TA_PreviousPane \<Rightarrow> cycle_focus False s
     | TA_ToggleRearrange \<Rightarrow> fst (toggle_rearrange_mode s))"

text \<open>
  A callback that finds the state borrowed (\<open>busy\<close>) by the handler that caused it is dropped.
\<close>

datatype window_event =
  WE_Reparent pane_id pane_id edge | WE_Focus pane_id | WE_Exit pane_id | WE_Tab pane_id pane_id
| WE_Rename pane_id "string option" | WE_New_Tab pane_id | WE_Action pane_id terminal_context_action

definition window_callback :: "world \<Rightarrow> bool \<Rightarrow> window_event \<Rightarrow> app \<Rightarrow> app" where
  "window_callback w busy ev s =
    (if busy then s
     else case ev of
       WE_Reparent source target e \<Rightarrow> reparent_pane source target e s
     | WE_Focus p \<Rightarrow> set_focused p s
     | WE_Exit p \<Rightarrow> close_exited_pane w p s
     | WE_Tab a t \<Rightarrow> fst (activate_terminal_tab a t s)
     | WE_Rename p title \<Rightarrow> fst (rename_pane_title_for_user p title s)
     | WE_New_Tab a \<Rightarrow> fst (create_terminal_tab_for_anchor w a s)
     | WE_Action p act \<Rightarrow> terminal_action w p act s)"

section \<open>Bells\<close>

text \<open>\<open>notify\<close> is the notification service: what it replaces, title and body, to the new id or an error.\<close>

definition ring_bell ::
  "(nat \<Rightarrow> string \<Rightarrow> string \<Rightarrow> string + nat) \<Rightarrow> pane_id \<Rightarrow> app \<Rightarrow> app" where
  "ring_bell notify p s =
    (case notify (replaces_id_for s p) ''lmux'' (pane_label s p) of
       Inr new_id \<Rightarrow> record_notif_id p new_id s
     | Inl _ \<Rightarrow> s)"

section \<open>The compositor backend\<close>

datatype backend = Backend_X11 | Backend_Noop | Backend_Kwin string

text \<open>\<open>env\<close> is the environment; \<open>contains\<close> of \<open>Config\<close> is the substring test.\<close>

definition is_kde_session :: "(string \<Rightarrow> string option) \<Rightarrow> bool" where
  "is_kde_session env =
    (if env ''KDE_SESSION_VERSION'' \<noteq> None then True
     else (case env ''XDG_CURRENT_DESKTOP'' of Some v \<Rightarrow> contains (lower_string v) ''kde'' | None \<Rightarrow> False))"

definition is_x11_session :: "(string \<Rightarrow> string option) \<Rightarrow> bool" where
  "is_x11_session env =
    (if env ''DISPLAY'' = None then False
     else (case env ''XDG_SESSION_TYPE'' of
       Some v \<Rightarrow> lower_string v = ''x11'' | None \<Rightarrow> env ''WAYLAND_DISPLAY'' = None))"

definition locate_kwin_script :: "(string \<Rightarrow> string option) \<Rightarrow> string \<Rightarrow> (string \<Rightarrow> bool) \<Rightarrow> string option" where
  "locate_kwin_script env manifest_dir exists =
    (let opt = (\<lambda>v f. case env v of Some x \<Rightarrow> [f x] | None \<Rightarrow> [])
     in List.find exists
       (opt ''LMUX_KWIN_SCRIPT'' (\<lambda>p. p) @
        opt ''XDG_DATA_HOME'' (\<lambda>d. d @ ''/lmux/kwin/lmux-dock.js'') @
        opt ''HOME'' (\<lambda>h. h @ ''/.local/share/lmux/kwin/lmux-dock.js'') @
        [''/usr/share/lmux/kwin/lmux-dock.js'', ''/usr/local/share/lmux/kwin/lmux-dock.js'',
         manifest_dir @ ''/../../share/lmux/kwin/lmux-dock.js'']))"

definition build_compositor :: "(string \<Rightarrow> string option) \<Rightarrow> string \<Rightarrow> (string \<Rightarrow> bool) \<Rightarrow> backend" where
  "build_compositor env manifest_dir exists =
    (if is_x11_session env then Backend_X11
     else if \<not> is_kde_session env then Backend_Noop
     else (case locate_kwin_script env manifest_dir exists of Some p \<Rightarrow> Backend_Kwin p | None \<Rightarrow> Backend_Noop))"

section \<open>The session switcher\<close>

definition switcher_entries :: "store_env \<Rightarrow> bool \<Rightarrow> disk \<Rightarrow> disk \<times> string list" where
  "switcher_entries en root_exists d =
    (if root_exists
     then (case store_list en d of (d', Inr es) \<Rightarrow> (d', sort (map ie_name es)) | (d', Inl _) \<Rightarrow> (d', []))
     else (d, []))"

text \<open>\<open>lower\<close> is the lower-casing of the standard library, an argument as for the search in a pane.\<close>

definition switcher_rows :: "(string \<Rightarrow> string) \<Rightarrow> string list \<Rightarrow> string \<Rightarrow> string list" where
  "switcher_rows lower entries query =
    (let needle = lower (trim query)
     in filter (\<lambda>name. needle = [] \<or> contains (lower name) needle) entries)"

definition move_selection :: "nat \<Rightarrow> nat option \<Rightarrow> int \<Rightarrow> nat option" where
  "move_selection rows selected delta =
    (let current = (case selected of Some i \<Rightarrow> int i | None \<Rightarrow> 0);
         next = (if current + delta < 0 then 0 else current + delta)
     in if nat next < rows then Some (nat next) else selected)"

definition switcher_commit :: "world \<Rightarrow> store_env \<Rightarrow> string option \<Rightarrow> app \<times> disk \<Rightarrow> app \<times> disk" where
  "switcher_commit w en label sd =
    (case label of None \<Rightarrow> sd | Some target \<Rightarrow> fst (switch_session w en target sd))"

section \<open>What the callbacks keep\<close>

lemma terminal_action_inv:
  assumes "app_inv s" "ap_next_id s < u32_max"
  shows "app_inv (terminal_action w p act s)"
proof -
  have inv: "app_inv (set_focused p s)" using cockpit_step_inv [OF cockpit_step.Focus assms(1)] .
  have n: "ap_next_id (set_focused p s) < u32_max"
    using assms(2) tables_eq_fields(5) [OF tables_set_focused] by simp
  have "cockpit_step (set_focused p s) (terminal_action w p act s)"
    using n by (cases act) (auto simp: terminal_action_def Let_def intro: cockpit_step.intros)
  then show ?thesis using cockpit_step_inv inv by blast
qed

lemma window_callback_inv:
  assumes "app_inv s" "ap_next_id s < u32_max"
  shows "app_inv (window_callback w busy ev s)"
proof (cases "busy \<or> (\<exists>p act. ev = WE_Action p act)")
  case True
  then show ?thesis using assms terminal_action_inv by (auto simp: window_callback_def)
next
  case False
  then have "cockpit_step s (window_callback w busy ev s)"
    using assms(2) by (cases ev) (auto simp: window_callback_def intro: cockpit_step.intros)
  then show ?thesis using cockpit_step_inv assms(1) by blast
qed

lemma ring_bell_inv: "app_inv s \<Longrightarrow> app_inv (ring_bell notify p s)"
  by (simp add: ring_bell_def record_notif_id_def split: sum.split)

text \<open>A pane's next bell replaces its last toast.\<close>

lemma bells_replace:
  "notify (replaces_id_for s p) ''lmux'' (pane_label s p) = Inr n \<Longrightarrow> replaces_id_for (ring_bell notify p s) p = n"
  by (simp add: ring_bell_def record_notif_id_def replaces_id_for_def)

lemma switcher_shows_all: "lower [] = [] \<Longrightarrow> trim query = [] \<Longrightarrow> switcher_rows lower entries query = entries"
  by (simp add: switcher_rows_def)

lemma kwin_needs_script: "build_compositor env m ex = Backend_Kwin p \<Longrightarrow> ex p"
  by (auto simp: build_compositor_def locate_kwin_script_def Let_def find_Some_iff split: if_splits option.splits)

end
