(* ===== verification/BusDispatch.thy ===== *)
theory BusDispatch
  imports AppInvariantReach Search BusServer
begin

text \<open>
  The cockpit's end of the bus, \<open>crates/lmux/src/bus.rs\<close>: which requests are let through, the reads that
  are answered at once (\<open>handle_session_list\<close>, \<open>handle_status_get\<close>, \<open>handle_satellite_list_windows\<close>), and
  the dispatcher that turns each request into a change of the cockpit (\<open>handle_deferred\<close>). A request
  that waits for the window manager is a task: each of its waits is a point where other tasks and the
  user may change the cockpit. The build modelled is the Linux one.
\<close>

section \<open>What the system answers\<close>


text \<open>
  A worker thread is lost with the channel it answers on, cannot start its runtime, or gives the
  compositor's answer.
\<close>

datatype 'a worker = Worker_Lost string | Worker_No_Runtime string | Worker_Done "compositor_error + 'a"

text \<open>
  The surroundings of one turn of the dispatcher: the system as the handlers see it, the session store,
  the prints of Rust's \<open>Debug\<close> and of system errors, the compositor, spawning, and the clock in
  milliseconds.
\<close>

record bus_world =
  bw_world :: world
  bw_store :: store_env
  bw_root_exists :: bool
  bw_debug :: debug_print
  bw_lower :: lowering
  bw_show_str :: "string \<Rightarrow> string"
  bw_show_kind :: "kind \<Rightarrow> string"
  bw_show_io :: "io_error \<Rightarrow> string"
  bw_os_error :: string
  bw_pid :: int
  bw_version :: string
  bw_health :: health
  bw_can_list :: bool
  bw_can_attach :: bool
  bw_list :: "compositor_error + window_candidate list"
  bw_list_worker :: "window_candidate list worker"
  bw_attach_worker :: "window_candidate \<Rightarrow> satellite_window worker"
  bw_spawn :: "string list \<Rightarrow> compositor_error + (uuid \<times> nat)"
  bw_now_ms :: nat

text \<open>What requests reach: the cockpit, the session files, and the counters of spawned programs.\<close>

record cockpit =
  ck_app :: app
  ck_disk :: disk
  ck_anchor_count :: nat
  ck_spawn_ok :: nat
  ck_spawn_fail :: nat

definition fetch_add_u32 :: "nat \<Rightarrow> nat" where
  "fetch_add_u32 n = (n + 1) mod 4294967296"

definition count_ok :: "cockpit \<Rightarrow> cockpit" where
  "count_ok ck = ck\<lparr>ck_spawn_ok := fetch_add_u32 (ck_spawn_ok ck)\<rparr>"

definition count_fail :: "cockpit \<Rightarrow> cockpit" where
  "count_fail ck = ck\<lparr>ck_spawn_fail := fetch_add_u32 (ck_spawn_fail ck)\<rparr>"

section \<open>Error texts\<close>

fun compositor_error_text :: "compositor_error \<Rightarrow> string" where
  "compositor_error_text (CE_Unsupported s) = ''unsupported compositor operation: '' @ s"
| "compositor_error_text CE_ScriptMissing = ''compositor script not loaded''"
| "compositor_error_text (CE_Offline s) = ''compositor offline: '' @ s"
| "compositor_error_text (CE_Domain s) = ''compositor domain error: '' @ s"
| "compositor_error_text (CE_Io s) = ''io: '' @ s"

text \<open>Every file of the store has a parent directory; the path the first text would end in is not kept.\<close>

fun write_error_message :: "bus_world \<Rightarrow> write_error \<Rightarrow> msg" where
  "write_error_message bw W_NoParent = [Txt ''path has no parent directory: '']"
| "write_error_message bw (W_Io e) = [Txt ''io: '', FStr (bw_show_io bw e)]"
| "write_error_message bw (W_Serialize e) = [Txt ''serialize: '', FStr e]"

fun store_error_message :: "bus_world \<Rightarrow> store_error \<Rightarrow> msg" where
  "store_error_message bw (InvalidName n r) =
    [Txt ''session '', FStr (bw_show_str bw n), Txt '' rejected: '', FStr r]"
| "store_error_message bw (AlreadyExists n) = [Txt ''session '', FStr (bw_show_str bw n), Txt '' already exists'']"
| "store_error_message bw (SessionNotFound n) = [Txt ''session '', FStr (bw_show_str bw n), Txt '' not found'']"
| "store_error_message bw (StoreIo e) = [Txt ''io: '', FStr (bw_show_io bw e)]"
| "store_error_message bw (AtomicWrite e) = Txt ''atomic write: '' # write_error_message bw e"
| "store_error_message bw (TomlEncode e) = [Txt ''toml encode: '', FStr e]"

fun show_anchor_state :: "anchor_state \<Rightarrow> string" where
  "show_anchor_state Live = ''Live''"
| "show_anchor_state Paused = ''Paused''"
| "show_anchor_state Hidden = ''Hidden''"
| "show_anchor_state Dead = ''Dead''"

fun registry_error_message :: "registry_error \<Rightarrow> msg" where
  "registry_error_message (Anchor_NotFound u) = [Txt ''anchor '', FUuid u, Txt '' not found'']"
| "registry_error_message (InvalidTransition u a b) =
    [Txt ''invalid transition: '', FUuid u, Txt '' is '', FStr (show_anchor_state a), Txt '', cannot -> '',
     FStr (show_anchor_state b)]"

fun app_error_message :: "bus_world \<Rightarrow> app_error \<Rightarrow> msg" where
  "app_error_message bw (NotAnAnchor p) = [Txt ''pane '', FNat p, Txt '' is not an anchor'']"
| "app_error_message bw (NoLiveChild p) = [Txt ''pane '', FNat p, Txt '' has no live child'']"
| "app_error_message bw (KillFailed pid sg) =
    [Txt ''kill('', FNat pid, Txt '', '', FNat sg, Txt ''): '', FStr (bw_os_error bw)]"
| "app_error_message bw (RegistryRefused e) = Txt ''registry: '' # registry_error_message e"
| "app_error_message bw NoActiveAnchor = [Txt ''no active anchor'']"
| "app_error_message bw NoWindowId = [Txt ''native window has no backend window id'']"
| "app_error_message bw (SwitchLoad n e) =
    [Txt ''switch_session: load target '', FStr (bw_show_str bw n), Txt '': ''] @ store_error_message bw e"
| "app_error_message bw (SwitchSave n e) =
    [Txt ''switch_session: save outgoing '', FStr (bw_show_str bw n), Txt '': ''] @ store_error_message bw e"
| "app_error_message bw NoPaneSpawned = [Txt ''switch_session: could not spawn any pane'']"

section \<open>Who may ask\<close>

definition agent_sensitive_request_missing_identity :: "kind \<Rightarrow> bool" where
  "agent_sensitive_request_missing_identity req =
    (case req of
       K_PaneNew _ _ _ _ _ agent _ \<Rightarrow> agent = None
     | K_PaneTail _ _ agent \<Rightarrow> agent = None
     | K_PaneCapture _ _ _ agent \<Rightarrow> agent = None
     | K_PaneSendInput _ _ agent \<Rightarrow> agent = None
     | K_PaneRename _ _ _ agent \<Rightarrow> agent = None
     | K_SatelliteAttachWindow _ agent \<Rightarrow> agent = None
     | K_SatelliteLaunchAttach _ _ _ _ agent \<Rightarrow> agent = None
     | _ \<Rightarrow> False)"

definition is_grant_decide :: "kind \<Rightarrow> bool" where
  "is_grant_decide req = (case req of K_GrantDecide _ _ \<Rightarrow> True | _ \<Rightarrow> False)"

definition authorize_public_request :: "request_context \<Rightarrow> kind \<Rightarrow> bus_error + unit" where
  "authorize_public_request ctx req =
    (if is_grant_decide req
     then Inl (Unauthorized [Txt ''grant.decide is only available from the cockpit UI''])
     else if rc_client ctx = LmuxMcp \<and> agent_sensitive_request_missing_identity req
     then Inl (Unauthorized [Txt ''MCP requests for pane/window control must include agent identity''])
     else Inr ())"

section \<open>Reads answered at once\<close>

text \<open>The files are read and, when the index is damaged, it is set aside and rebuilt.\<close>

definition listed_sessions :: "bus_world \<Rightarrow> cockpit \<Rightarrow> cockpit \<times> (store_error + session_index)" where
  "listed_sessions bw ck =
    (if \<not> bw_root_exists bw then (ck, Inr [])
     else let (d, r) = store_list (bw_store bw) (ck_disk ck) in (ck\<lparr>ck_disk := d\<rparr>, r))"

definition handle_session_list :: "bus_world \<Rightarrow> cockpit \<Rightarrow> cockpit \<times> (bus_error + kind)" where
  "handle_session_list bw ck =
    (case listed_sessions bw ck of
       (ck', Inl e) \<Rightarrow> (ck', Inl (Domain (Txt ''session store: '' # store_error_message bw e)))
     | (ck', Inr es) \<Rightarrow> (ck', Inr (K_SessionListResult
         (map (\<lambda>e. \<lparr>ss_name = ie_name e, ss_created_at = ie_last_opened_at e,
                    ss_last_active = Some (ie_last_opened_at e)\<rparr>) es))))"

definition handle_status_get :: "bus_world \<Rightarrow> cockpit \<Rightarrow> cockpit \<times> (bus_error + kind)" where
  "handle_status_get bw ck =
    (let (ck', r) = listed_sessions bw ck
     in (ck', Inr (K_StatusGetResult
          \<lparr>st_cockpit_version = bw_version bw, st_pid = bw_pid bw,
           st_session_count = (case r of Inr es \<Rightarrow> length es mod 4294967296 | Inl _ \<Rightarrow> 0),
           st_anchor_count = ck_anchor_count ck,
           st_compositor = (case bw_health bw of H_Online \<Rightarrow> Online | _ \<Rightarrow> Offline),
           st_satellite_spawn_ok = ck_spawn_ok ck, st_satellite_spawn_fail = ck_spawn_fail ck\<rparr>)))"

definition handle_satellite_list_windows :: "bus_world \<Rightarrow> bus_error + kind" where
  "handle_satellite_list_windows bw =
    (if \<not> bw_can_list bw
     then Inl (Domain [Txt ''satellite.list_windows: native window listing is not supported by this compositor''])
     else case bw_list bw of
       Inl e \<Rightarrow> Inl (Domain [Txt ''satellite.list_windows: '', FStr (compositor_error_text e)])
     | Inr ws \<Rightarrow> Inr (K_SatelliteListWindowsResult ws))"

section \<open>Choosing the launched window\<close>

definition window_candidate_key :: "debug_print \<Rightarrow> window_candidate \<Rightarrow> string" where
  "window_candidate_key dp c = dp_backend dp (wc_backend c) @ '':'' @ wc_window_id c"

definition str_contains :: "string \<Rightarrow> string \<Rightarrow> bool" where
  "str_contains hay needle = list_ex (\<lambda>i. take (length needle) (drop i hay) = needle) [0..<Suc (length hay)]"

definition hint_matches :: "lowering \<Rightarrow> string option \<Rightarrow> string option \<Rightarrow> bool" where
  "hint_matches low v hint =
    (case some_trimmed hint of
       None \<Rightarrow> False
     | Some h \<Rightarrow> (case v of Some x \<Rightarrow> str_contains (low x) (low h) | None \<Rightarrow> False))"

definition window_app_identity_text :: "window_candidate \<Rightarrow> string option" where
  "window_app_identity_text c =
    map_option (\<lambda>a. case a of BundleId v \<Rightarrow> v | DesktopEntry v \<Rightarrow> v | WmClass v \<Rightarrow> v | AppId v \<Rightarrow> v
                             | OtherApp v \<Rightarrow> v) (wc_app c)"

definition launch_attach_candidate_matches ::
  "debug_print \<Rightarrow> lowering \<Rightarrow> window_candidate \<Rightarrow> string set \<Rightarrow> nat \<Rightarrow> string option \<Rightarrow> string option \<Rightarrow> bool" where
  "launch_attach_candidate_matches dp low c before spawned_pid title_hint app_hint =
    (if wc_pid c = Some spawned_pid then True
     else if window_candidate_key dp c \<in> before then False
     else hint_matches low (wc_title c) title_hint \<or> hint_matches low (window_app_identity_text c) app_hint)"

fun from_worker :: "string \<Rightarrow> string \<Rightarrow> 'a worker \<Rightarrow> bus_error + 'a" where
  "from_worker lost op (Worker_Lost e) = Inl (Domain [Txt op, Txt '': '', Txt lost, FStr e])"
| "from_worker lost op (Worker_No_Runtime e) = Inl (Domain [Txt op, Txt '': '', FStr e])"
| "from_worker lost op (Worker_Done (Inl e)) = Inl (Domain [Txt op, Txt '': '', FStr (compositor_error_text e)])"
| "from_worker lost op (Worker_Done (Inr x)) = Inr x"

definition list_windows_for_dispatcher :: "bus_world \<Rightarrow> string \<Rightarrow> bus_error + window_candidate list" where
  "list_windows_for_dispatcher bw op = from_worker ''window list worker failed: '' op (bw_list_worker bw)"

definition attach_window_for_dispatcher ::
  "bus_world \<Rightarrow> window_candidate \<Rightarrow> string \<Rightarrow> bus_error + satellite_window" where
  "attach_window_for_dispatcher bw c op =
    from_worker ''window attach worker failed: '' op (bw_attach_worker bw c)"

section \<open>Tasks\<close>

record launch_request =
  lr_argv :: "string list"
  lr_title_hint :: "string option"
  lr_app_hint :: "string option"
  lr_timeout_ms :: "nat option"

record launch = launch_request +
  ln_before :: "string set"
  ln_request_id :: uuid
  ln_pid :: nat
  ln_deadline :: nat

text \<open>
  A task is answered, or waits: for the windows open before a launch, for the windows open now, for the
  worker that attaches a window.
\<close>

datatype task =
  Answered "bus_error + kind"
| Before launch_request
| Polling launch
| Attaching string window_candidate

section \<open>A request's first turn\<close>

definition ok_of :: "string \<Rightarrow> kind" where
  "ok_of op = K_Ok (Some op)"

definition on_app :: "(app \<Rightarrow> app \<times> 'a) \<Rightarrow> ('a \<Rightarrow> task) \<Rightarrow> cockpit \<Rightarrow> cockpit \<times> task" where
  "on_app f answer ck = (let (s, x) = f (ck_app ck) in (ck\<lparr>ck_app := s\<rparr>, answer x))"

definition answer_with :: "('a \<Rightarrow> kind) \<Rightarrow> bus_error + 'a \<Rightarrow> task" where
  "answer_with f r = Answered (case r of Inl e \<Rightarrow> Inl e | Inr x \<Rightarrow> Inr (f x))"

definition ok_or_domain :: "bus_world \<Rightarrow> string \<Rightarrow> app_error + unit \<Rightarrow> task" where
  "ok_or_domain bw op r =
    Answered (case r of Inl e \<Rightarrow> Inl (Domain (app_error_message bw e)) | Inr _ \<Rightarrow> Inr (ok_of op))"

definition refuse :: "msg \<Rightarrow> task" where
  "refuse m = Answered (Inl (Domain m))"

text \<open>The requests that name an anchor by its id.\<close>

definition on_anchor ::
  "string \<Rightarrow> uuid \<Rightarrow> (pane_id \<Rightarrow> app \<Rightarrow> app \<times> 'a) \<Rightarrow> ('a \<Rightarrow> task) \<Rightarrow> cockpit \<Rightarrow> cockpit \<times> task" where
  "on_anchor op u f answer ck =
    (case pane_for_anchor_id (ck_app ck) u of
       None \<Rightarrow> (ck, refuse [Txt op, Txt '': unknown anchor '', FUuid u])
     | Some p \<Rightarrow> on_app (f p) answer ck)"

definition on_store ::
  "bus_world \<Rightarrow> string \<Rightarrow> 'a store \<Rightarrow> cockpit \<Rightarrow> cockpit \<times> task" where
  "on_store bw op m ck =
    (let (d, r) = m (ck_disk ck)
     in (ck\<lparr>ck_disk := d\<rparr>,
         Answered (case r of Inl e \<Rightarrow> Inl (Domain (Txt op # Txt '': '' # store_error_message bw e))
                   | Inr _ \<Rightarrow> Inr (ok_of op))))"

definition open_session :: "bus_world \<Rightarrow> string \<Rightarrow> cockpit \<Rightarrow> cockpit \<times> task" where
  "open_session bw name ck =
    (let ((s, d), r) = switch_session (bw_world bw) (bw_store bw) name (ck_app ck, ck_disk ck)
     in (ck\<lparr>ck_app := s, ck_disk := d\<rparr>,
         Answered (case r of Inl e \<Rightarrow> Inl (Domain (Txt ''session.open: '' # app_error_message bw e))
                   | Inr _ \<Rightarrow> Inr (ok_of ''session.open''))))"

definition tag_pane :: "bus_world \<Rightarrow> uuid \<Rightarrow> cockpit \<Rightarrow> cockpit \<times> task" where
  "tag_pane bw u ck =
    (case pane_for_uuid (ck_app ck) u of
       None \<Rightarrow> (ck, refuse [Txt ''anchor.tag: unknown pane '', FUuid u])
     | Some p \<Rightarrow>
         if p \<in> ap_anchors (ck_app ck)
         then (ck, refuse [Txt ''anchor.tag: pane '', FNat p, Txt '' is already an anchor''])
         else on_app (\<lambda>s. (add_anchor (bw_world bw) p s, ())) (\<lambda>_. Answered (Inr (ok_of ''anchor.tag''))) ck)"

definition tag_self :: "bus_world \<Rightarrow> request_context \<Rightarrow> cockpit \<Rightarrow> cockpit \<times> task" where
  "tag_self bw ctx ck =
    (if rc_pid ctx < 0 then (ck, refuse [Txt ''anchor.tag_self: invalid pid '', FInt (rc_pid ctx)])
     else case resolve_owning_pane (bw_world bw) (ck_app ck) (nat (rc_pid ctx)) of
       None \<Rightarrow> (ck, refuse [Txt ''anchor.tag_self: no pane owns pid '', FNat (nat (rc_pid ctx))])
     | Some p \<Rightarrow> on_app (\<lambda>s. (add_anchor (bw_world bw) p s, ()))
                   (\<lambda>_. Answered (Inr (K_AnchorTagSelfResult p))) ck)"

definition satellite_open :: "bus_world \<Rightarrow> string list \<Rightarrow> bool \<Rightarrow> cockpit \<Rightarrow> cockpit \<times> task" where
  "satellite_open bw argv no_sandbox ck =
    (if \<not> no_sandbox
     then (count_fail ck, refuse [Txt ''satellite.open: sandboxed launch is not implemented; use explicit window attach or set no_sandbox=true for the legacy unsandboxed spawn path''])
     else if argv = [] then (count_fail ck, refuse [Txt ''satellite.open: argv is empty''])
     else case bw_spawn bw argv of
       Inr _ \<Rightarrow> (count_ok ck, Answered (Inr (ok_of ''satellite.open'')))
     | Inl e \<Rightarrow> (count_fail ck, refuse [Txt ''satellite.open: '', FStr (compositor_error_text e)]))"

definition launch_attach_start ::
  "bus_world \<Rightarrow> string list \<Rightarrow> string option \<Rightarrow> string option \<Rightarrow> nat option \<Rightarrow> agent_identity option \<Rightarrow>
    cockpit \<Rightarrow> cockpit \<times> task" where
  "launch_attach_start bw argv title_hint app_hint timeout_ms agent ck =
    (if \<not> bw_can_list bw \<or> \<not> bw_can_attach bw
     then (ck, refuse [Txt ''satellite.launch_attach: native window listing and attachment are required''])
     else if argv = [] then (count_fail ck, refuse [Txt ''satellite.launch_attach: argv is empty''])
     else on_app (authorize_active_anchor_launch_attach (bw_world bw) (bw_debug bw) argv title_hint app_hint
                   timeout_ms agent)
       (\<lambda>r. case r of Inl e \<Rightarrow> Answered (Inl e)
            | Inr _ \<Rightarrow> Before \<lparr>lr_argv = argv, lr_title_hint = title_hint, lr_app_hint = app_hint,
                lr_timeout_ms = timeout_ms\<rparr>) ck)"

definition attach_window_start ::
  "bus_world \<Rightarrow> window_candidate \<Rightarrow> agent_identity option \<Rightarrow> cockpit \<Rightarrow> cockpit \<times> task" where
  "attach_window_start bw c agent ck =
    (if \<not> bw_can_attach bw
     then (ck, refuse [Txt ''satellite.attach_window: native window attachment is not supported by this compositor''])
     else on_app (authorize_active_anchor_window_attach (bw_world bw) (bw_debug bw) c agent)
       (\<lambda>r. case r of Inl e \<Rightarrow> Answered (Inl e) | Inr _ \<Rightarrow> Attaching ''satellite.attach_window'' c) ck)"

definition handle_deferred :: "bus_world \<Rightarrow> request_context \<Rightarrow> kind \<Rightarrow> cockpit \<Rightarrow> cockpit \<times> task" where
  "handle_deferred bw ctx req ck =
    (let w = bw_world bw in
     case req of
       K_AnchorPause u \<Rightarrow> on_anchor ''anchor.pause'' u (pause_anchor w) (ok_or_domain bw ''anchor.pause'') ck
     | K_AnchorResume u \<Rightarrow> on_anchor ''anchor.resume'' u (resume_anchor w) (ok_or_domain bw ''anchor.resume'') ck
     | K_AnchorHide u \<Rightarrow> on_anchor ''anchor.hide'' u hide_anchor (ok_or_domain bw ''anchor.hide'') ck
     | K_AnchorReattach u \<Rightarrow>
         on_anchor ''anchor.reattach'' u reattach_anchor (ok_or_domain bw ''anchor.reattach'') ck
     | K_SessionNew name \<Rightarrow>
         on_store bw ''session.new'' (store_create (bw_store bw) name (en_clock (bw_store bw))) ck
     | K_SessionRename from to \<Rightarrow> on_store bw ''session.rename'' (store_rename (bw_store bw) from to) ck
     | K_SessionDelete name \<Rightarrow> on_store bw ''session.delete'' (store_delete (bw_store bw) name) ck
     | K_SessionOpen name \<Rightarrow> open_session bw name ck
     | K_AnchorUntag u \<Rightarrow> on_anchor ''anchor.untag'' u (\<lambda>p s. (remove_anchor w p s, ()))
         (\<lambda>_. Answered (Inr (ok_of ''anchor.untag''))) ck
     | K_PaneList \<Rightarrow> (ck, Answered (Inr (K_PaneListResult
         (map (\<lambda>(u, a, cwd). \<lparr>ps_pane_id = u, ps_anchor_id = a, ps_cwd = cwd\<rparr>) (pane_listing w (ck_app ck))))))
     | K_AnchorList \<Rightarrow> (ck, Answered (Inr (K_AnchorListResult (anchor_listing w (ck_app ck)))))
     | K_PaneNew target_anchor placement activate title argv agent purpose \<Rightarrow>
         on_app (create_pane_from_bus w \<lparr>pcr_target_anchor = target_anchor, pcr_placement = placement,
             pcr_activate = activate, pcr_title = title, pcr_argv = argv, pcr_agent = agent,
             pcr_purpose = purpose\<rparr>) (answer_with K_PaneNewResult) ck
     | K_PaneTail u lines agent \<Rightarrow>
         on_app (pane_transcript_tail w u lines agent) (answer_with K_PaneTranscriptResult) ck
     | K_PaneCapture u since max_lines agent \<Rightarrow>
         on_app (pane_transcript_capture w u since max_lines agent) (answer_with K_PaneTranscriptResult) ck
     | K_PaneSendInput u txt agent \<Rightarrow>
         on_app (send_input_to_pane w u txt agent) (answer_with (\<lambda>_. ok_of ''pane.send_input'')) ck
     | K_PaneRename u title pin agent \<Rightarrow>
         on_app (rename_pane w u title pin agent) (answer_with (\<lambda>_. ok_of ''pane.rename'')) ck
     | K_GrantRequest r \<Rightarrow> on_app (app_register_grant_request r)
         (\<lambda>r. Answered (Inr (K_GrantRequestResult (gr_grant_id r) True))) ck
     | K_GrantDecide i d \<Rightarrow> on_app (app_decide_grant i d) (answer_with (\<lambda>_. ok_of ''grant.decide'')) ck
     | K_AnchorTag u \<Rightarrow> tag_pane bw u ck
     | K_AnchorTagSelf \<Rightarrow> tag_self bw ctx ck
     | K_AnchorNew \<Rightarrow> on_app (\<lambda>s. (create_new_anchor w s, ())) (\<lambda>_. Answered (Inr (ok_of ''anchor.new''))) ck
     | K_AnchorActivate u \<Rightarrow> on_anchor ''anchor.activate'' u (\<lambda>p s. (set_active_anchor (Some p) s, ()))
         (\<lambda>_. Answered (Inr (ok_of ''anchor.activate''))) ck
     | K_SatelliteOpen argv _ no_sandbox \<Rightarrow> satellite_open bw argv no_sandbox ck
     | K_SatelliteLaunchAttach argv title_hint app_hint timeout_ms agent \<Rightarrow>
         launch_attach_start bw argv title_hint app_hint timeout_ms agent ck
     | K_SatelliteAttachFocused \<Rightarrow> (ck, refuse [Txt ''satellite.attach_focused: macOS only''])
     | K_SatelliteAttachWindow c agent \<Rightarrow> attach_window_start bw c agent ck
     | other \<Rightarrow> (ck, refuse [Txt ''not_implemented: '', FStr (bw_show_kind bw other), Txt '' (dispatcher)'']))"

section \<open>Later turns\<close>

definition op_launch :: string where
  "op_launch = ''satellite.launch_attach''"

definition timeout_of :: "nat option \<Rightarrow> nat" where
  "timeout_of t = min 30000 (max 250 (unwrap_or t 5000))"

definition spawn_launched :: "bus_world \<Rightarrow> launch_request \<Rightarrow> window_candidate list \<Rightarrow> cockpit \<Rightarrow> cockpit \<times> task" where
  "spawn_launched bw rq ws ck =
    (case bw_spawn bw (lr_argv rq) of
       Inl e \<Rightarrow> (count_fail ck, refuse [Txt op_launch, Txt '': '', FStr (compositor_error_text e)])
     | Inr (request_id, pid) \<Rightarrow> (count_ok ck, Polling
         (launch_request.extend rq
           \<lparr>ln_before = set (map (window_candidate_key (bw_debug bw)) ws), ln_request_id = request_id,
            ln_pid = pid, ln_deadline = bw_now_ms bw + timeout_of (lr_timeout_ms rq)\<rparr>)))"

definition timed_out :: "bus_world \<Rightarrow> launch \<Rightarrow> task" where
  "timed_out bw la =
    refuse [Txt op_launch, Txt '': timed out after '', FNat (timeout_of (lr_timeout_ms la)),
      Txt ''ms waiting for argv='', FStr (dp_argv (bw_debug bw) (lr_argv la)), Txt '' pid='', FNat (ln_pid la),
      Txt '' request_id='', FUuid (ln_request_id la)]"

definition poll_windows :: "bus_world \<Rightarrow> launch \<Rightarrow> window_candidate list \<Rightarrow> cockpit \<Rightarrow> cockpit \<times> task" where
  "poll_windows bw la ws ck =
    (case find (\<lambda>c. launch_attach_candidate_matches (bw_debug bw) (bw_lower bw) c (ln_before la) (ln_pid la)
                  (lr_title_hint la) (lr_app_hint la)) ws of
       Some c \<Rightarrow> (ck, Attaching op_launch c)
     | None \<Rightarrow> if ln_deadline la \<le> bw_now_ms bw then (count_fail ck, timed_out bw la) else (ck, Polling la))"

definition finish_attach :: "bus_world \<Rightarrow> string \<Rightarrow> window_candidate \<Rightarrow> cockpit \<Rightarrow> cockpit \<times> task" where
  "finish_attach bw op c ck =
    (case attach_window_for_dispatcher bw c op of
       Inl e \<Rightarrow> (ck, Answered (Inl e))
     | Inr v \<Rightarrow> on_app (attach_native_window_to_active_anchor c v)
         (\<lambda>r. Answered (case r of Inl e \<Rightarrow> Inl (Domain (Txt op # Txt '': '' # app_error_message bw e))
                        | Inr _ \<Rightarrow> Inr (ok_of op))) ck)"

fun resume :: "bus_world \<Rightarrow> task \<Rightarrow> cockpit \<Rightarrow> cockpit \<times> task" where
  "resume bw (Answered r) ck = (ck, Answered r)"
| "resume bw (Before rq) ck = (case list_windows_for_dispatcher bw op_launch of
     Inl e \<Rightarrow> (ck, Answered (Inl e)) | Inr ws \<Rightarrow> spawn_launched bw rq ws ck)"
| "resume bw (Polling la) ck = (case list_windows_for_dispatcher bw op_launch of
     Inl e \<Rightarrow> (ck, Answered (Inl e)) | Inr ws \<Rightarrow> poll_windows bw la ws ck)"
| "resume bw (Attaching op c) ck = finish_attach bw op c ck"

end
