(* ===== verification/BusGrants.thy ===== *)
theory BusGrants
  imports BusDispatch
begin

text \<open>
  What bus requests do to the grants of agents: most leave the table alone, the access check uses up or
  asks for grants, and none makes an active one.
\<close>

section \<open>Steps that leave the grants alone\<close>

lemma fold_keeps: "(\<And>x s. g (f x s) = g s) \<Longrightarrow> g (fold f xs s) = g s"
  by (induction xs arbitrary: s) simp_all

named_theorems grants_frame

lemma tab_grants [grants_frame]:
  "ap_grants (ensure_terminal_tab_stack a s) = ap_grants s"
  "ap_grants (remove_terminal_tab_metadata a s) = ap_grants s"
  "ap_grants (push_tab a i s) = ap_grants s" "ap_grants (forget_pane_names a s) = ap_grants s"
  "ap_grants (bump_next_id s) = ap_grants s" "ap_grants (fst (insert_pane i p s)) = ap_grants s"
  "ap_grants (inherit_workspace i j s) = ap_grants s" "ap_grants (fst (splice_leaf d i j s)) = ap_grants s"
  by (simp_all add: ensure_terminal_tab_stack_def remove_terminal_tab_metadata_def push_tab_def Let_def
      forget_pane_names_def bump_next_id_def insert_pane_def inherit_workspace_def splice_leaf_def draw_uuid_def
      split: option.split prod.split)

lemma pane_grants [grants_frame]:
  "ap_grants (emit e s) = ap_grants s" "ap_grants (kill_pane p s) = ap_grants s"
  "ap_grants (undo_insert p s) = ap_grants s" "ap_grants (set_visible p v s) = ap_grants s"
  by (simp_all add: emit_def kill_pane_def undo_insert_def set_visible_def grants_frame)

lemma close_grants [grants_frame]:
  "ap_grants (fst (close_terminal_pane_without_focus p s)) = ap_grants s"
  "ap_grants (close_orphan_terminal_panes s) = ap_grants s"
proof -
  show c: "ap_grants (fst (close_terminal_pane_without_focus p s)) = ap_grants s" for p s
    by (simp add: close_terminal_pane_without_focus_def grants_frame split: prod.split)
  show "ap_grants (close_orphan_terminal_panes s) = ap_grants s"
    unfolding close_orphan_terminal_panes_def by (rule fold_keeps) (rule c)
qed

lemma install_grants [grants_frame]:
  "ap_grants (install_anchor w p s) = ap_grants s" "ap_grants (forget_anchor p s) = ap_grants s"
  by (simp_all add: install_anchor_def forget_anchor_def draw_uuid_def Let_def split: prod.split option.split)

lemma tag_anchor_eq: "tag_anchor_core w p s = (s', ok) \<Longrightarrow> ap_grants s' = ap_grants s"
  by (auto simp: tag_anchor_core_def grants_frame split: if_splits)

lemma anchor_grants [grants_frame]:
  "ap_grants (restore_anchor w p s) = ap_grants s" "ap_grants (add_anchor w p s) = ap_grants s"
  "ap_grants (ensure_anchor_invariant w s) = ap_grants s"
  by (auto simp: restore_anchor_def add_anchor_def ensure_anchor_invariant_def Let_def grants_frame
      dest!: tag_anchor_eq split: prod.split option.split)

lemma command_grants [grants_frame]:
  "ap_grants (remove_anchor w p s) = ap_grants s"
  "ap_grants (fst (hide_anchor p s)) = ap_grants s" "ap_grants (fst (reattach_anchor p s)) = ap_grants s"
  "ap_grants (fst (pause_anchor w p s)) = ap_grants s" "ap_grants (fst (resume_anchor w p s)) = ap_grants s"
  "ap_grants (fst (attach_native_window_to_active_anchor c v s)) = ap_grants s"
  by (auto simp: remove_anchor_def hide_anchor_def reattach_anchor_def pause_anchor_def resume_anchor_def
      signal_anchor_def attach_native_window_to_active_anchor_def register_satellite_window_def Let_def
      grants_frame split: option.split prod.split sum.split)

lemma splice_eq: "splice_leaf d i j s = (s', ok) \<Longrightarrow> ap_grants s' = ap_grants s"
  by (auto simp: splice_leaf_def split: prod.splits)

lemma split_grants [grants_frame]: "ap_grants (split_focused w d s) = ap_grants s"
  by (auto simp: split_focused_def Let_def grants_frame dest!: splice_eq split: option.split prod.split)

lemma new_anchor_grants [grants_frame]: "ap_grants (create_new_anchor w s) = ap_grants s"
  by (auto simp: create_new_anchor_def Let_def grants_frame dest!: tag_anchor_eq split: prod.split)

lemma send_input_grants [grants_frame]: "ap_grants (fst (send_input w x p q s)) = ap_grants s"
  by (simp add: send_input_def grants_frame split: pane_body.split option.split)

lemma send_input_eq: "send_input w x p q s = (s', r) \<Longrightarrow> ap_grants s' = ap_grants s"
  using send_input_grants [of w x p q s] by simp

lemma insert_pane_eq: "insert_pane i p s = (s', u) \<Longrightarrow> ap_grants s' = ap_grants s"
  by (auto simp: insert_pane_def draw_uuid_def)

lemma bus_metadata_grants [grants_frame]: "ap_grants (bus_pane_metadata req ag ow t i s) = ap_grants s"
  by (simp add: bus_pane_metadata_def Let_def grants_frame split: option.split pane_placement.split)

lemma bus_finish_grants [grants_frame]: "ap_grants (fst (bus_pane_finish w req p ow i u s)) = ap_grants s"
  by (auto simp: bus_pane_finish_def Let_def grants_frame dest!: send_input_eq split: prod.split sum.split)

lemma create_pane_grants [grants_frame]: "ap_grants (fst (create_pane_from_bus w req s)) = ap_grants s"
  by (auto simp: create_pane_from_bus_def Let_def grants_frame dest!: splice_eq insert_pane_eq
      split: sum.split option.split prod.split)

section \<open>A switch of the session forgets all grants\<close>

lemma restore_grants [grants_frame]:
  "ap_grants (draw_pane_uuids s) = ap_grants s" "ap_grants (claim_workspaces b as s) = ap_grants s"
  "ap_grants (restore_anchors w as s) = ap_grants s"
  "ap_grants (restore_persisted_metadata w ti st ro s) = ap_grants s"
proof -
  show "ap_grants (draw_pane_uuids s) = ap_grants s"
    unfolding draw_pane_uuids_def by (subst fold_keeps [where g = ap_grants]) (simp_all add: draw_uuid_def)
  show "ap_grants (claim_workspaces b as s) = ap_grants s"
    by (simp add: claim_workspaces_def Let_def split: option.split)
  show "ap_grants (restore_anchors w as s) = ap_grants s"
    unfolding restore_anchors_def by (rule fold_keeps) (simp add: grants_frame)
  have st: "ap_grants (restore_stack x s) = ap_grants s" for x s
    by (simp add: restore_stack_def Let_def split: list.split option.split)
  have ro: "ap_grants (restore_root x s) = ap_grants s" for x s
    by (simp add: restore_root_def split: prod.split option.split)
  show "ap_grants (restore_persisted_metadata w ti st ro s) = ap_grants s"
    unfolding restore_persisted_metadata_def
    by (simp add: Let_def grants_frame fold_keeps [where g = ap_grants] st ro)
qed

lemma tear_down_grants: "ap_grants (tear_down w s) = []"
proof -
  have "ap_grants (fold (\<lambda>(i, p) s. if has_exited w i p then s else emit (E_Terminate i) s) xs s) = ap_grants s" for xs s
    by (rule fold_keeps) (simp add: grants_frame split: prod.split)
  then show ?thesis by (simp add: tear_down_def drain_panes_for_shutdown_def Let_def)
qed

lemma move_in_grants [grants_frame]: "ap_grants (move_in w se r s) = ap_grants s"
  by (simp add: move_in_def Let_def restore_session_metadata_def grants_frame split: option.split)

lemma switch_session_grants:
  assumes "switch_session w en target (s, d) = ((s', d'), r)"
  shows "ap_grants s' = ap_grants s \<or> ap_grants s' = []"
  using assms
  by (auto simp: switch_session_def Let_def grants_frame tear_down_grants
      split: if_splits prod.splits sum.splits option.splits)

section \<open>No request makes an active grant\<close>

definition no_new_grants :: "app \<Rightarrow> app \<Rightarrow> bool" where
  "no_new_grants s s' \<longleftrightarrow>
    (\<forall>i g t. hget (ap_grants s') i = Some g \<longrightarrow> grant_active t (grc_state g) \<longrightarrow> hget (ap_grants s) i = Some g)"

lemma no_new_grants_same: "ap_grants s' = ap_grants s \<Longrightarrow> no_new_grants s s'"
  by (simp add: no_new_grants_def)

lemma no_new_grants_trans: "no_new_grants s s1 \<Longrightarrow> no_new_grants s1 s2 \<Longrightarrow> no_new_grants s s2"
  by (simp add: no_new_grants_def)

lemma no_new_grants_then: "no_new_grants s s1 \<Longrightarrow> ap_grants s2 = ap_grants s1 \<Longrightarrow> no_new_grants s s2"
  by (simp add: no_new_grants_def)

lemma register_no_new: "no_new_grants s (fst (app_register_grant_request r s))"
  by (simp add: no_new_grants_def app_register_grant_request_def register_grant_request_def hget_hput
      grant_active_def)

lemma check_access_no_new: "no_new_grants s (fst (check_access w p u scope agent win reason s))"
proof -
  obtain gs r where a: "authorize_pane_access (wd_now w) (ap_rng s (ap_draws s))
      (access_of (snd (draw_uuid s))) p u scope agent win reason (ap_grants s) = (gs, r)"
    by (metis surj_pair)
  have "ap_grants (fst (check_access w p u scope agent win reason s)) = gs"
    using a by (simp add: check_access_def draw_uuid_def Let_def)
  moreover have "hget (ap_grants s) i = Some g" if "hget gs i = Some g" "grant_active t (grc_state g)" for i g t
    using authorize_never_grants [OF _ that(2)] that(1) a by (metis fst_conv)
  ultimately show ?thesis by (simp add: no_new_grants_def)
qed

lemma check_access_eq:
  "check_access w p u scope agent win reason s = (s', r) \<Longrightarrow> no_new_grants s s'"
  using check_access_no_new [of s w p u scope agent win reason] by simp

lemma with_pane_no_new:
  assumes "\<And>p q s. ap_grants (fst (act p q s)) = ap_grants s"
  shows "no_new_grants s (fst (with_pane w u e scope agent reason act s))"
  using assms by (auto simp: with_pane_def no_new_grants_same intro: no_new_grants_then
      dest!: check_access_eq split: option.split prod.split sum.split)

lemma pane_requests_no_new:
  "no_new_grants s (fst (pane_transcript_tail w u n ag s))"
  "no_new_grants s (fst (pane_transcript_capture w u since m ag s))"
  "no_new_grants s (fst (send_input_to_pane w u x ag s))"
  unfolding pane_transcript_tail_def pane_transcript_capture_def send_input_to_pane_def
  by (rule with_pane_no_new, simp add: grants_frame)+

lemma pinned_rename_no_new: "no_new_grants s (pinned_rename_request p u a b ag s)"
  using register_no_new [of "s\<lparr>ap_draws := Suc (ap_draws s)\<rparr>"]
  by (auto simp: pinned_rename_request_def draw_uuid_def Let_def no_new_grants_same no_new_grants_def
      split: option.split)

lemma rename_pane_no_new: "no_new_grants s (fst (rename_pane w u t pin ag s))"
  by (auto simp: rename_pane_def no_new_grants_same intro: no_new_grants_then
      no_new_grants_trans [OF _ pinned_rename_no_new] dest!: check_access_eq
      split: option.split prod.split sum.split)

lemma authorize_anchor_no_new: "no_new_grants s (fst (authorize_active_anchor w t r ag s))"
  by (simp add: authorize_active_anchor_def no_new_grants_same check_access_no_new split: option.split)

lemma turn_simps:
  "ck_app (fst (on_app f ans ck)) = fst (f (ck_app ck))" "ck_app (fst (on_store bw op m ck)) = ck_app ck"
  "ck_app (count_ok ck) = ck_app ck" "ck_app (count_fail ck) = ck_app ck"
  by (simp_all add: on_app_def on_store_def count_ok_def count_fail_def split: prod.split)

lemma on_anchor_app:
  "ck_app (fst (on_anchor op u f ans ck)) =
    (case pane_for_anchor_id (ck_app ck) u of None \<Rightarrow> ck_app ck | Some p \<Rightarrow> fst (f p (ck_app ck)))"
  by (simp add: on_anchor_def turn_simps split: option.split)

lemma open_session_no_new: "no_new_grants (ck_app ck) (ck_app (fst (open_session bw name ck)))"
  by (auto simp: open_session_def no_new_grants_def dest!: switch_session_grants split: prod.split)

lemma handle_deferred_no_new:
  assumes "\<not> is_grant_decide req"
  shows "no_new_grants (ck_app ck) (ck_app (fst (handle_deferred bw ctx req ck)))"
  using assms
  by (cases req) (simp_all add: handle_deferred_def Let_def on_anchor_app turn_simps no_new_grants_same
      grants_frame open_session_no_new pane_requests_no_new rename_pane_no_new register_no_new
      tag_pane_def tag_self_def satellite_open_def launch_attach_start_def attach_window_start_def
      authorize_active_anchor_launch_attach_def authorize_active_anchor_window_attach_def
      authorize_active_anchor_window_attach_with_reason_def authorize_anchor_no_new is_grant_decide_def
      split: option.split sum.split)

lemma resume_no_new: "no_new_grants (ck_app ck) (ck_app (fst (resume bw t ck)))"
  by (cases t) (auto simp: spawn_launched_def poll_windows_def finish_attach_def turn_simps no_new_grants_same
      grants_frame split: option.split sum.split prod.split)

end
