(* ===== verification/BusHandler.thy ===== *)
theory BusHandler
  imports BusGrants
begin

text \<open>
  The whole path of a request: the connection of \<open>lmux-bus\<close>, the handler of \<open>crates/lmux/src/bus.rs\<close>, and
  the dispatcher's tasks. The handler's state is the cockpit with the turns its main loop will still
  take, each with its surroundings; when no turn is left the cockpit has quit and its channels are
  closed.
\<close>

section \<open>The handler\<close>

fun run_task :: "bus_world list \<Rightarrow> task \<Rightarrow> cockpit \<Rightarrow> (cockpit \<times> bus_world list) \<times> (bus_error + kind)" where
  "run_task ws (Answered r) ck = ((ck, ws), r)"
| "run_task [] t ck = ((ck, []), Inl (Domain [Txt ''dispatch response dropped: channel closed'']))"
| "run_task (bw # ws) t ck = (let (ck', t') = resume bw t ck in run_task ws t' ck')"

definition dispatch_to_gtk ::
  "bool \<Rightarrow> bus_world \<Rightarrow> bus_world list \<Rightarrow> request_context \<Rightarrow> kind \<Rightarrow> cockpit \<Rightarrow>
    (cockpit \<times> bus_world list) \<times> (bus_error + kind)" where
  "dispatch_to_gtk installed bw ws ctx req ck =
    (if \<not> installed
     then ((ck, bw # ws), Inl (Domain [Txt ''not_implemented: '', FStr (bw_show_kind bw req),
             Txt '' (no GTK dispatcher installed)'']))
     else let (ck', t) = handle_deferred bw ctx req ck in run_task ws t ck')"

definition cockpit_handle ::
  "bool \<Rightarrow> request_context \<Rightarrow> kind \<Rightarrow> cockpit \<times> bus_world list \<Rightarrow>
    (cockpit \<times> bus_world list) \<times> (bus_error + kind)" where
  "cockpit_handle installed ctx req = (\<lambda>(ck, ws).
    case authorize_public_request ctx req of
      Inl e \<Rightarrow> ((ck, ws), Inl e)
    | Inr _ \<Rightarrow> (case ws of
        [] \<Rightarrow> ((ck, []), Inl (Domain [Txt ''dispatch send: sending into a closed channel'']))
      | bw # rest \<Rightarrow> (case req of
          K_SessionList \<Rightarrow> (let (ck', r) = handle_session_list bw ck in ((ck', ws), r))
        | K_StatusGet \<Rightarrow> (let (ck', r) = handle_status_get bw ck in ((ck', ws), r))
        | K_SatelliteListWindows \<Rightarrow> ((ck, ws), handle_satellite_list_windows bw)
        | _ \<Rightarrow> dispatch_to_gtk installed bw rest ctx req ck)))"

definition cockpit_handler :: "bool \<Rightarrow> string \<Rightarrow> (cockpit \<times> bus_world list) handler" where
  "cockpit_handler installed version = \<lparr>hd_handle = cockpit_handle installed, hd_version = version\<rparr>"

section \<open>What a handler keeps, a connection keeps\<close>

locale kept_by_handler =
  fixes hl :: "'h handler" and kept :: "'h \<Rightarrow> 'h \<Rightarrow> bool"
  assumes kept_refl: "kept h h"
    and kept_trans: "kept h h1 \<Longrightarrow> kept h1 h2 \<Longrightarrow> kept h h2"
    and kept_step: "kept h (fst (hd_handle hl ctx k h))"
begin

lemma kept_frame: "kept (cn_handler c) (cn_handler (fst (serve_frame sd wr hl frame c)))"
proof -
  have "kept (cn_handler c) (cn_handler (fst (serve_request sd wr hl env k c)))" for env k
  proof (cases "cn_context c")
    case (Some ctx)
    obtain h r where h: "hd_handle hl ctx k (cn_handler c) = (h, r)" by (metis surj_pair)
    then have "kept (cn_handler c) h" using kept_step [of "cn_handler c" ctx k] by simp
    then show ?thesis by (simp add: serve_request_def Some h Let_def split: sum.split)
  qed (simp add: serve_request_def kept_refl)
  then show ?thesis
    by (simp add: serve_frame_def kept_refl split: sum.split option.split prod.split)
qed

lemma kept_loop: "kept (cn_handler c) (cn_handler (fst (serve_loop sd wr hl s c)))"
proof (induction s arbitrary: c rule: length_induct)
  case (1 s)
  show ?case
  proof (cases "read_frame s")
    case (Inr fr)
    obtain frame rest where fr: "fr = (frame, rest)" by (cases fr)
    obtain c1 r where c1: "serve_frame sd wr hl frame c = (c1, r)" by (metis surj_pair)
    have k: "kept (cn_handler c) (cn_handler c1)" using kept_frame [of c sd wr frame] c1 by simp
    have "kept (cn_handler c1) (cn_handler (fst (serve_loop sd wr hl rest c1)))"
      using 1 Inr fr by (auto dest: read_frame_shrinks)
    then show ?thesis using k kept_trans
      by (subst serve_loop.simps) (auto simp: Inr fr c1 split: sum.split)
  next
    case (Inl e)
    then show ?thesis
      by (subst serve_loop.simps) (auto simp: kept_refl split: bus_error.split io_error_kind.split)
  qed
qed

lemma kept_connection:
  "kept h (cn_handler (fst (serve_connection sd wr hl peercred uid s h w)))"
proof -
  have "kept h (cn_handler (fst (serve_loop sd wr hl s \<lparr>cn_context = None, cn_handler = h, cn_writer = w\<rparr>)))"
    using kept_loop [of "\<lparr>cn_context = None, cn_handler = h, cn_writer = w\<rparr>" sd wr s] by simp
  then show ?thesis by (auto simp: serve_connection_def Let_def kept_refl split: sum.split)
qed

end

section \<open>A connection makes no active grant\<close>

lemma run_task_no_new: "no_new_grants (ck_app ck) (ck_app (fst (fst (run_task ws t ck))))"
proof (induction ws arbitrary: t ck)
  case Nil
  then show ?case by (cases t) (simp_all add: no_new_grants_same)
next
  case (Cons bw ws)
  obtain ck' t' where r: "resume bw t ck = (ck', t')" by (metis surj_pair)
  have "no_new_grants (ck_app ck) (ck_app ck')" using resume_no_new [of ck bw t] r by simp
  then have "no_new_grants (ck_app ck) (ck_app (fst (fst (run_task ws t' ck'))))"
    using Cons no_new_grants_trans by blast
  then show ?case using r by (cases t) (simp_all add: no_new_grants_same del: resume.simps)
qed

lemma listed_sessions_app: "ck_app (fst (listed_sessions bw ck)) = ck_app ck"
  by (simp add: listed_sessions_def split: prod.split)

lemma direct_reads_no_new:
  "handle_session_list bw ck = (ck', r) \<Longrightarrow> no_new_grants (ck_app ck) (ck_app ck')"
  "handle_status_get bw ck = (ck', r) \<Longrightarrow> no_new_grants (ck_app ck) (ck_app ck')"
  using listed_sessions_app [of bw ck]
  by (auto simp: handle_session_list_def handle_status_get_def no_new_grants_same split: prod.splits sum.splits)

lemma dispatch_no_new:
  assumes "\<not> is_grant_decide req"
  shows "no_new_grants (ck_app ck) (ck_app (fst (fst (dispatch_to_gtk b bw ws ctx req ck))))"
proof -
  obtain ck' t where h: "handle_deferred bw ctx req ck = (ck', t)" by (metis surj_pair)
  have "no_new_grants (ck_app ck) (ck_app ck')" using handle_deferred_no_new [OF assms, of ck bw ctx] h by simp
  then show ?thesis
    using no_new_grants_trans run_task_no_new by (auto simp: dispatch_to_gtk_def h no_new_grants_same)
qed

lemma cockpit_handle_no_new:
  "no_new_grants (ck_app (fst h)) (ck_app (fst (fst (cockpit_handle b ctx req h))))"
proof (cases "is_grant_decide req")
  case True
  then show ?thesis
    by (simp add: cockpit_handle_def authorize_public_request_def no_new_grants_same split: prod.split)
next
  case False
  obtain ck ws where h: "h = (ck, ws)" by (cases h)
  have d: "no_new_grants (ck_app ck) (ck_app (fst (fst (dispatch_to_gtk b bw rest ctx req ck))))" for bw rest
    by (rule dispatch_no_new [OF False])
  show ?thesis
  proof (cases ws)
    case (Cons bw rest)
    then show ?thesis
      using d [of bw rest]
      by (cases req) (auto simp: h cockpit_handle_def no_new_grants_same direct_reads_no_new
        split: sum.split prod.split)
  qed (simp add: h cockpit_handle_def no_new_grants_same split: sum.split)
qed

interpretation grants_kept: kept_by_handler "cockpit_handler b v"
    "\<lambda>h h'. no_new_grants (ck_app (fst h)) (ck_app (fst h'))" for b v
  by unfold_locales (auto simp: cockpit_handler_def no_new_grants_same intro: no_new_grants_trans
    cockpit_handle_no_new)

section \<open>A way to a workspace without a grant\<close>

text \<open>
  Grants are not the only admission. A pane made on the bus in another anchor's workspace belongs to the
  agent that asked for it, no grant being asked; an agent that had no pane before then counts as at home in
  that workspace, and every pane of it is open to the agent without a grant.
\<close>

lemma finish_tables:
  "bus_pane_finish w req p ow i u s = (s', r) \<Longrightarrow>
    ap_pane_agents s' = ap_pane_agents s \<and> ap_workspace s' = ap_workspace s \<and> ap_anchors s' = ap_anchors s \<and>
    ap_pane_anchor_ids s' = ap_pane_anchor_ids s"
  by (auto simp: bus_pane_finish_def Let_def send_input_def emit_def
      split: prod.splits sum.splits if_splits pane_body.splits option.splits)

lemma metadata_tables:
  "ap_pane_agents (bus_pane_metadata req (Some ag) ow t i s) =
    hput i \<lparr>apm_agent = ag, apm_purpose = pcr_purpose req\<rparr> (ap_pane_agents s)"
  "ap_workspace (bus_pane_metadata req x ow t i s) = ap_workspace s"
  "ap_anchors (bus_pane_metadata req x ow t i s) = ap_anchors s"
  by (simp_all add: bus_pane_metadata_def push_tab_def Let_def split: option.split pane_placement.split)

lemma pane_new_tables:
  assumes "create_pane_from_bus w req s = (s', Inr res)" and t: "bus_target req s = Inr b"
    and own: "hget (ap_workspace s) b = Some b" and ag: "pcr_agent req = Some ag"
  shows "ap_workspace s' = hput (ap_next_id s) b (ap_workspace s)" "ap_anchors s' = ap_anchors s"
    "ap_pane_agents s' = hput (ap_next_id s) \<lparr>apm_agent = ag, apm_purpose = pcr_purpose req\<rparr> (ap_pane_agents s)"
proof -
  let ?i = "ap_next_id s"
  obtain p where p: "pane_new w ?i (target_cwd w s b) = Some p" and lv: "live s b"
    using assms(1) t by (auto simp: create_pane_from_bus_def Let_def split: if_splits option.splits)
  obtain s1 uu where ins: "insert_pane ?i p s = (s1, uu)" by (metis surj_pair)
  then have s1: "ap_workspace s1 = ap_workspace s" "ap_anchors s1 = ap_anchors s" "ap_pane_agents s1 = ap_pane_agents s"
    by (auto simp: insert_pane_def draw_uuid_def)
  define s3 where "s3 = bump_next_id (ensure_terminal_tab_stack b (s1\<lparr>ap_workspace := hput ?i b (ap_workspace s1)\<rparr>))"
  let ?d = "case pcr_placement req of SplitDown \<Rightarrow> Horizontal | _ \<Rightarrow> Vertical"
  obtain s4 ok where sp: "splice_leaf ?d b ?i s3 = (s4, ok)" by (metis surj_pair)
  have s3: "ap_workspace s3 = hput ?i b (ap_workspace s)" "ap_anchors s3 = ap_anchors s" "ap_pane_agents s3 = ap_pane_agents s"
    unfolding s3_def by (simp_all add: bump_next_id_def ensure_terminal_tab_stack_def s1)
  obtain l where "s4 = s3\<lparr>ap_layout := l\<rparr>" using sp by (auto simp: splice_leaf_def split: prod.splits)
  then have s4: "ap_workspace s4 = hput ?i b (ap_workspace s)" "ap_anchors s4 = ap_anchors s"
    "ap_pane_agents s4 = ap_pane_agents s" using s3 by simp_all
  have ow: "hget (ap_workspace s1) b = Some b" using own s1 by simp
  have "create_pane_from_bus w req s = (if \<not> ok then (undo_insert ?i s3,
        Inl (Domain [Txt ''pane.new: target pane '', FNat b, Txt '' is not in layout'']))
      else bus_pane_finish w req p (Some b) ?i uu (bus_pane_metadata req (Some ag) (Some b) b ?i s4))"
    unfolding create_pane_from_bus_def using t lv p ag ins ow sp by (simp add: Let_def s3_def)
  then have "bus_pane_finish w req p (Some b) ?i uu (bus_pane_metadata req (Some ag) (Some b) b ?i s4) = (s', Inr res)"
    using assms(1) by (simp split: if_splits)
  note fin = finish_tables [OF this]
  show "ap_workspace s' = hput ?i b (ap_workspace s)" "ap_anchors s' = ap_anchors s"
    "ap_pane_agents s' = hput ?i \<lparr>apm_agent = ag, apm_purpose = pcr_purpose req\<rparr> (ap_pane_agents s)"
    using fin by (simp_all add: metadata_tables s4)
qed

lemma find_map_one_hit:
  assumes "x \<in> set xs" "\<And>y. y \<in> set xs \<Longrightarrow> y \<noteq> x \<Longrightarrow> f y = None"
  shows "find_map f xs = f x"
  using assms
proof (induction xs)
  case (Cons a xs)
  have n: "find_map f ys = None" if "\<And>y. y \<in> set ys \<Longrightarrow> f y = None" for ys using that by (induction ys) auto
  show ?case
  proof (cases "a = x")
    case True
    show ?thesis
    proof (cases "f x")
      case None
      then have "find_map f xs = None" using Cons.prems(2) by (intro n) (metis list.set_intros(2))
      then show ?thesis using True None by simp
    qed (simp add: True)
  qed (use Cons in auto)
qed simp

theorem pane_new_opens_its_target_anchor:
  assumes inv: "app_inv s" and u: "pcr_target_anchor req = Some u" "pane_for_anchor_id s u = Some b"
    and ag: "pcr_agent req = Some ag" "\<And>i m. hget (ap_pane_agents s) i = Some m \<Longrightarrow> \<not> same_agent (apm_agent m) ag"
    and made: "create_pane_from_bus w req s = (s', Inr res)"
    and p: "hget (ap_workspace s) p = Some b"
  shows "authorize_pane_access now n (access_of s') p x scope (Some ag) win reason g = (g, Inr ())"
proof -
  let ?i = "ap_next_id s" and ?m = "\<lparr>apm_agent = ag, apm_purpose = pcr_purpose req\<rparr>"
  have ok: "app_ok s" using inv by (rule app_inv_ok)
  have b: "b \<in> ap_anchors s" using ok p by (rule workspace_anchor)
  then have own: "hget (ap_workspace s) b = Some b" using ok by (simp add: app_ok_def workspace_ok_def)
  have t: "bus_target req s = Inr b" using u by (simp add: bus_target_def)
  note tb = pane_new_tables [OF made t own ag(1)]
  have "live s p" using ok p by (auto simp: app_ok_def workspace_ok_def)
  then have "p \<noteq> ?i" using ok by (auto simp: app_ok_def panes_ok_def)
  then have tp: "target_anchor_pane (access_of s') p = Some b"
    using p by (simp add: target_anchor_pane_def owner_anchor_def access_of_def tb hget_hput)
  let ?f = "\<lambda>(p, meta). if same_agent (apm_agent meta) ag then owner_anchor p (ap_anchors s') (ap_workspace s') else None"
  have "find_map ?f (hitems (ap_pane_agents s')) = ?f (?i, ?m)"
    by (rule find_map_one_hit) (use ag(2) in \<open>auto simp: tb hget_hput split: if_splits\<close>)
  then have "source_anchor_pane (access_of s') ag = ?f (?i, ?m)"
    by (simp add: source_anchor_pane_def first_agent_anchor_def access_of_def)
  then have "source_anchor_pane (access_of s') ag = Some b"
    by (simp add: same_agent_def owner_anchor_def tb)
  then show ?thesis using tp by (simp add: authorize_pane_access_def Let_def)
qed

section \<open>Grants over the bus\<close>

text \<open>C8: No client makes a grant active over the bus: whatever bytes a client sends over its connection, and whatever
  the system answers while they are served, every entry of the table of grants that is active at the end was
  active before, in the same state. The statement is about the table only. It does not say that an agent without a
  grant reaches no pane of another workspace: a pane asked for there makes its agent at home
  in it (\<open>pane_new_opens_its_target_anchor\<close>, and the finding at state.rs:1464).\<close>

theorem connection_never_grants:
  "no_new_grants (ck_app ck)
    (ck_app (fst (cn_handler (fst (serve_connection sd wr (cockpit_handler b v) peercred uid s (ck, ws) w)))))"
  using grants_kept.kept_connection [of "(ck, ws)" sd wr b v peercred uid s w] by simp

section \<open>Refusals\<close>

lemma refused_handle:
  assumes "is_grant_decide k \<or> rc_client ctx = LmuxMcp \<and> agent_sensitive_request_missing_identity k"
  shows "\<exists>m. cockpit_handle b ctx k h = (h, Inl (Unauthorized m))"
  using assms by (auto simp: cockpit_handle_def authorize_public_request_def split: prod.split)


definition deciding_serde :: "unit serde" where
  "deciding_serde = \<lparr>sd_envelope = (\<lambda>_. Inr \<lparr>env_v = 2, env_kind = ''grant.decide'', env_id = 7\<rparr>),
     sd_kind = (\<lambda>_. Inr (K_GrantDecide 9 AllowOnce)), sd_to_value = (\<lambda>_. Inr ()), sd_is_object = (\<lambda>_. True),
     sd_put_version = (\<lambda>_ j. j), sd_put_id = (\<lambda>_ j. j), sd_to_vec = (\<lambda>_. Inr [])\<rparr>"


end
