(* ===== verification/BusTasks.thy ===== *)
theory BusTasks
  imports BusDispatch
begin

text \<open>
  The dispatcher's tasks among each other: every task is answered when the clock moves on, however the
  cockpit changes between its turns; and no mix of requests, turns of tasks and commands of the user leads
  the cockpit out of its invariant.
\<close>

section \<open>Every task is answered\<close>

text \<open>A task's turns, each with its surroundings and with what has happened to the cockpit since the last one.\<close>

fun run_turns :: "(bus_world \<times> (cockpit \<Rightarrow> cockpit)) list \<Rightarrow> task \<Rightarrow> cockpit \<Rightarrow> cockpit \<times> task" where
  "run_turns [] t ck = (ck, t)"
| "run_turns ((bw, others) # xs) t ck = (let (ck', t') = resume bw t (others ck) in run_turns xs t' ck')"

definition answered :: "task \<Rightarrow> bool" where
  "answered t = (case t of Answered _ \<Rightarrow> True | _ \<Rightarrow> False)"

lemma answered_simps [simp]:
  "answered (Answered r)" "\<not> answered (Polling la)" "\<not> answered (Before rq)" "\<not> answered (Attaching op c)"
  "answered (refuse m)"
  by (simp_all add: answered_def refuse_def)

lemma answered_stays: "answered t \<Longrightarrow> answered (snd (run_turns xs t ck))"
proof (induction xs arbitrary: t ck)
  case (Cons x xs)
  then show ?case by (cases x; cases t) (auto simp: answered_def)
qed simp

lemma attaching_answers: "answered (snd (resume bw (Attaching op c) ck))"
  by (auto simp: finish_attach_def on_app_def answered_def split: sum.split prod.split)

lemma attaching_run:
  assumes "xs \<noteq> []"
  shows "answered (snd (run_turns xs (Attaching op c) ck))"
proof -
  obtain bw f ys where xs: "xs = (bw, f) # ys" using assms by (cases xs) auto
  obtain ck' t' where r: "resume bw (Attaching op c) (f ck) = (ck', t')" by (metis surj_pair)
  then have "answered t'" using attaching_answers [of bw op c "f ck"] by simp
  then show ?thesis using r by (simp add: xs answered_stays del: resume.simps)
qed

text \<open>One turn of a polling task: it is answered, has its window, or polls on before its deadline.\<close>

lemma polling_turn:
  assumes "resume bw (Polling la) ck = (ck', t)"
  shows "answered t \<or> (\<exists>c. t = Attaching op_launch c) \<or> t = Polling la \<and> bw_now_ms bw < ln_deadline la"
  using assms by (auto simp: poll_windows_def timed_out_def split: sum.splits option.splits if_splits)

lemma polling_run:
  assumes "\<And>i. i < length xs \<Longrightarrow> now + 100 * i \<le> bw_now_ms (fst (xs ! i))"
    and "ln_deadline la \<le> now + 100 * n" "n + 2 \<le> length xs"
  shows "answered (snd (run_turns xs (Polling la) ck))"
  using assms
proof (induction xs arbitrary: now n ck)
  case (Cons x xs)
  obtain bw f where x: "x = (bw, f)" by (cases x)
  obtain ck' t' where r: "resume bw (Polling la) (f ck) = (ck', t')" by (metis surj_pair)
  have go: "snd (run_turns (x # xs) (Polling la) ck) = snd (run_turns xs t' ck')"
    using r by (simp add: x del: resume.simps)
  consider (Answer) "answered t'" | (Window) c where "t' = Attaching op_launch c"
    | (Again) "t' = Polling la" "bw_now_ms bw < ln_deadline la"
    using polling_turn [OF r] by blast
  then show ?case
  proof cases
    case Answer
    then show ?thesis by (simp add: go answered_stays)
  next
    case Window
    then show ?thesis using Cons.prems(3) by (cases "xs = []") (auto simp: go attaching_run)
  next
    case Again
    have n: "n \<noteq> 0" using Again(2) Cons.prems(1) [of 0] Cons.prems(2) by (cases n) (auto simp: x)
    have "now + 100 + 100 * i \<le> bw_now_ms (fst (xs ! i))" if "i < length xs" for i
      using Cons.prems(1) [of "Suc i"] that by simp
    then show ?thesis
      using Cons.IH [of "now + 100" "n - 1" ck'] Cons.prems(2,3) n Again(1) by (simp add: go)
  qed
qed simp

lemma timeout_bound: "timeout_of t \<le> 30000"
  by (simp add: timeout_of_def)

lemma before_turn:
  assumes "resume bw (Before rq) ck = (ck', t)"
  shows "answered t \<or> (\<exists>la. t = Polling la \<and> ln_deadline la \<le> bw_now_ms bw + 30000)"
  using assms timeout_bound [of "lr_timeout_ms rq"]
  by (auto simp: spawn_launched_def launch_request.extend_def split: sum.splits prod.splits)

lemma launch_run:
  assumes "\<And>i. i < length xs \<Longrightarrow> now + 100 * i \<le> bw_now_ms (fst (xs ! i))"
    and "bw_now_ms (fst (hd xs)) = now" "302 \<le> length xs"
  shows "answered (snd (run_turns xs (Before rq) ck))"
proof -
  obtain bw f ys where xs: "xs = (bw, f) # ys" using assms(3) by (cases xs) auto
  obtain ck' t' where r: "resume bw (Before rq) (f ck) = (ck', t')" by (metis surj_pair)
  have go: "snd (run_turns xs (Before rq) ck) = snd (run_turns ys t' ck')"
    using r by (simp add: xs del: resume.simps)
  consider (Answer) "answered t'"
    | (Poll) la where "t' = Polling la" "ln_deadline la \<le> bw_now_ms bw + 30000"
    using before_turn [OF r] by blast
  then show ?thesis
  proof cases
    case Answer
    then show ?thesis by (simp add: go answered_stays)
  next
    case Poll
    have "(now + 100) + 100 * i \<le> bw_now_ms (fst (ys ! i))" if "i < length ys" for i
      using assms(1) [of "Suc i"] that by (simp add: xs)
    then have "answered (snd (run_turns ys (Polling la) ck'))"
      using Poll(2) assms(2,3) by (intro polling_run [where now = "now + 100" and n = 299]) (auto simp: xs)
    then show ?thesis by (simp add: go Poll)
  qed
qed

lemma on_app_task: "(\<And>x. P (ans x)) \<Longrightarrow> P (snd (on_app f ans ck))"
  by (simp add: on_app_def split: prod.split)

lemma answered_ops:
  "(\<And>x. answered (ans x)) \<Longrightarrow> answered (snd (on_anchor op u g ans ck))"
  "answered (answer_with f x)" "answered (ok_or_domain bw op y)"
  "answered (snd (on_store bw op m ck))" "answered (snd (open_session bw n ck))"
  "answered (snd (tag_pane bw u ck))" "answered (snd (tag_self bw ctx ck))"
  "answered (snd (satellite_open bw argv ns ck))"
  by (simp_all add: on_anchor_def answer_with_def ok_or_domain_def on_store_def open_session_def tag_pane_def
      tag_self_def satellite_open_def on_app_task [where P = answered] split: option.split prod.split sum.split)

definition fresh_task :: "task \<Rightarrow> bool" where
  "fresh_task t \<longleftrightarrow> answered t \<or> (\<exists>rq. t = Before rq) \<or> (\<exists>op c. t = Attaching op c)"

lemma window_starts_fresh:
  "fresh_task (snd (launch_attach_start bw argv th ah ms ag ck))" "fresh_task (snd (attach_window_start bw c ag ck))"
  by (auto simp: launch_attach_start_def attach_window_start_def fresh_task_def
      intro!: on_app_task [where P = fresh_task, unfolded fresh_task_def] split: sum.split)

lemma first_turn: "fresh_task (snd (handle_deferred bw ctx req ck))"
proof -
  have a: "answered t \<Longrightarrow> fresh_task t" for t by (simp add: fresh_task_def)
  show ?thesis
    by (cases req) (simp_all add: handle_deferred_def Let_def window_starts_fresh a answered_ops
        on_app_task [where P = fresh_task])
qed

text \<open>C12: Every request the dispatcher takes is answered: given the turns of half a minute, the first of which
  may be the only late one, a task has its answer, whatever other requests and the user do to the
  cockpit between its turns, and whatever the window manager answers. Turns of a waiting task come at
  least 100 milliseconds apart; the longest wait a client can ask for is 30 seconds.\<close>

theorem every_request_is_answered:
  assumes "\<And>i. i < length xs \<Longrightarrow> bw_now_ms (fst (hd xs)) + 100 * i \<le> bw_now_ms (fst (xs ! i))"
    and "302 \<le> length xs" "handle_deferred bw ctx req ck = (ck', t)"
  shows "\<exists>r. snd (run_turns xs t ck') = Answered r"
proof -
  have "answered (snd (run_turns xs t ck'))"
    using first_turn [of bw ctx req ck] unfolding fresh_task_def assms(3) snd_conv
  proof (elim disjE exE)
    fix rq assume "t = Before rq"
    then show ?thesis using launch_run [OF assms(1) refl assms(2), of rq ck'] by simp
  next
    fix op c assume "t = Attaching op c"
    moreover have "xs \<noteq> []" using assms(2) by fastforce
    ultimately show ?thesis by (simp add: attaching_run)
  qed (rule answered_stays)
  then show ?thesis by (cases "snd (run_turns xs t ck')") auto
qed

theorem every_request_is_answered_witness:
  "\<forall>bw ctx ck. \<exists>r. snd (run_turns (map (\<lambda>i. (bw\<lparr>bw_now_ms := 100 * i\<rparr>, \<lambda>ck. ck)) [0..<302])
      (snd (handle_deferred bw ctx (K_SatelliteLaunchAttach [''kate''] None (Some ''kate'') (Some 60000) None) ck))
      (fst (handle_deferred bw ctx (K_SatelliteLaunchAttach [''kate''] None (Some ''kate'') (Some 60000) None) ck)))
    = Answered r"
proof (intro allI)
  fix bw :: bus_world and ctx ck
  let ?xs = "map (\<lambda>i. (bw\<lparr>bw_now_ms := 100 * i\<rparr>, \<lambda>ck :: cockpit. ck)) [0..<302]"
  let ?h = "handle_deferred bw ctx (K_SatelliteLaunchAttach [''kate''] None (Some ''kate'') (Some 60000) None) ck"
  have "bw_now_ms (fst (hd ?xs)) + 100 * i \<le> bw_now_ms (fst (?xs ! i))" if "i < length ?xs" for i
    using that by (simp add: hd_map)
  from every_request_is_answered [OF this, of bw ctx _ ck "fst ?h" "snd ?h"]
  show "\<exists>r. snd (run_turns ?xs (snd ?h) (fst ?h)) = Answered r" by simp
qed

end
