(* ===== verification/BusInvariant.thy ===== *)
theory BusInvariant
  imports BusTasks BusGrants
begin

text \<open>
  The dispatcher as a machine: it takes requests, gives tasks their turns, and shares the cockpit with the
  commands of the user; the cockpit's invariant holds throughout.
\<close>

section \<open>Requests as commands of the cockpit\<close>

lemma find_member: "List.find P xs = Some x \<Longrightarrow> x \<in> set xs"
  by (auto simp: find_Some_iff)

lemma resolve_up_leader: "resolve_up w ls n cur = Some p \<Longrightarrow> p \<in> fst ` set ls"
proof (induction n arbitrary: cur)
  case (Suc n)
  show ?case
  proof (cases "List.find (\<lambda>(i, k). k = cur) ls")
    case None
    then show ?thesis using Suc by (auto split: option.splits if_splits)
  next
    case (Some ik)
    then have "p = fst ik" using Suc.prems by (simp split: prod.splits)
    then show ?thesis using find_member [OF Some] by simp
  qed
qed simp

lemma resolve_owning_terminal:
  assumes "resolve_owning_pane w s pid = Some p"
  shows "\<not> satellite_pane s p"
proof -
  obtain q k where q: "(p, q) \<in> set (hitems (ap_panes s))" "child_pid q = Some k"
    using resolve_up_leader [OF assms [unfolded resolve_owning_pane_def]]
    by (auto simp: List.map_filter_def)
  then have "hget (ap_panes s) p = Some q" by (auto simp: hitems_def)
  moreover have "\<not> is_satellite q" using q(2) by (auto simp: child_pid_def is_satellite_def split: pane_body.splits)
  ultimately show ?thesis by (simp add: satellite_pane_def)
qed

text \<open>
  What the dispatcher leaves to the client: that pane ids are left, that a pane tagged by its uuid is a
  terminal, and that a session to be opened can be: its file names no pane twice nor the last id, no
  window of the nested compositor is recorded, and a pane can be spawned.
\<close>

definition session_opens :: "bus_world \<Rightarrow> string \<Rightarrow> cockpit \<Rightarrow> bool" where
  "session_opens bw name ck \<longleftrightarrow>
    hkeys (ap_surface_to_pane (ck_app ck)) = [] \<and>
    (case snd (store_load (bw_store bw) name (ck_disk ck)) of
       Inl _ \<Rightarrow> True
     | Inr se \<Rightarrow> (let l = leaves (layout_from_snapshot (se_layout se)) in distinct l \<and> list_all (\<lambda>i. i < u32_max) l)) \<and>
    snd (switch_session (bw_world bw) (bw_store bw) name (ck_app ck, ck_disk ck)) \<noteq> Inl NoPaneSpawned"

definition within_limits :: "bus_world \<Rightarrow> kind \<Rightarrow> cockpit \<Rightarrow> bool" where
  "within_limits bw req ck =
    (case req of
       K_PaneNew _ _ _ _ _ _ _ \<Rightarrow> ap_next_id (ck_app ck) < u32_max
     | K_AnchorNew \<Rightarrow> ap_next_id (ck_app ck) < u32_max
     | K_AnchorTag u \<Rightarrow> (case pane_for_uuid (ck_app ck) u of
         None \<Rightarrow> True | Some p \<Rightarrow> \<not> satellite_pane (ck_app ck) p)
     | K_SessionOpen name \<Rightarrow> session_opens bw name ck
     | _ \<Rightarrow> True)"

lemma open_session_inv:
  assumes inv: "app_inv (ck_app ck)" and ok: "session_opens bw name ck"
  shows "app_inv (ck_app (fst (open_session bw name ck)))"
proof -
  obtain s d r where sw: "switch_session (bw_world bw) (bw_store bw) name (ck_app ck, ck_disk ck) = ((s, d), r)"
    by (metis surj_pair)
  have surf: "hdom (ap_surface_to_pane (ck_app ck)) = {}"
    using ok in_hkeys [of _ "ap_surface_to_pane (ck_app ck)"] by (auto simp: session_opens_def)
  have lv: "distinct (leaves (layout_from_snapshot (se_layout se))) \<and>
      (\<forall>i \<in> set (leaves (layout_from_snapshot (se_layout se))). i < u32_max)"
    if "store_load (bw_store bw) name (ck_disk ck) = (d1, Inr se)" for d1 se
    using ok that by (simp add: session_opens_def Let_def list_all_iff)
  have "case switch_session (bw_world bw) (bw_store bw) name (ck_app ck, ck_disk ck) of
      ((s', _), Inr _) \<Rightarrow> app_inv s'
    | ((s', _), Inl e) \<Rightarrow> if e = NoPaneSpawned then emptied s' else s' = ck_app ck"
    by (rule switch_session_inv [OF inv surf lv])
  then have "case r of Inr _ \<Rightarrow> app_inv s | Inl e \<Rightarrow> if e = NoPaneSpawned then emptied s else s = ck_app ck"
    by (simp add: sw)
  moreover have "r \<noteq> Inl NoPaneSpawned" using ok by (simp add: session_opens_def sw)
  ultimately have "app_inv s" using inv by (auto split: sum.splits)
  then show ?thesis by (simp add: open_session_def sw)
qed

lemma on_anchor_inv:
  assumes "app_inv (ck_app ck)" "\<And>p. cockpit_step (ck_app ck) (fst (f p (ck_app ck)))"
  shows "app_inv (ck_app (fst (on_anchor op u f ans ck)))"
  using assms cockpit_step_inv by (auto simp: on_anchor_app split: option.split)

lemma handle_deferred_inv:
  assumes inv: "app_inv (ck_app ck)" and lim: "within_limits bw req ck"
  shows "app_inv (ck_app (fst (handle_deferred bw ctx req ck)))"
proof -
  have step: "app_inv s'" if "cockpit_step (ck_app ck) s'" for s' using that inv by (rule cockpit_step_inv)
  note steps = cockpit_step.intros
  have tag: "app_inv (add_anchor w p (ck_app ck))" if "\<not> satellite_pane (ck_app ck) p" for w p
    using step [OF cockpit_step.Tag] that by blast
  have act: "app_inv (ck_app (fst (on_anchor op u (\<lambda>p s. (set_active_anchor (Some p) s, ())) ans ck)))"
    "app_inv (ck_app (fst (on_anchor op u (\<lambda>p s. (remove_anchor w p s, ())) ans ck)))" for op u w ans
    using step cockpit_step.Show_Anchor cockpit_step.Untag inv by (simp_all add: on_anchor_app split: option.split)
  show ?thesis
    using lim inv open_session_inv [OF inv]
    by (cases req) (auto simp: handle_deferred_def Let_def within_limits_def tag_pane_def tag_self_def
        satellite_open_def launch_attach_start_def attach_window_start_def turn_simps tag act
        authorize_active_anchor_launch_attach_def authorize_active_anchor_window_attach_def
        authorize_active_anchor_window_attach_with_reason_def
        dest: resolve_owning_terminal intro: on_anchor_inv step steps split: option.split sum.split)
qed

lemma resume_inv:
  assumes "app_inv (ck_app ck)"
  shows "app_inv (ck_app (fst (resume bw t ck)))"
  using assms cockpit_step_inv [OF cockpit_step.Attach_Window]
  by (cases t) (auto simp: spawn_launched_def poll_windows_def finish_attach_def turn_simps
      split: option.split sum.split prod.split)

section \<open>Tasks, requests and the user together\<close>

inductive dispatch_step :: "cockpit \<times> task list \<Rightarrow> cockpit \<times> task list \<Rightarrow> bool" where
  Request: "within_limits bw req ck \<Longrightarrow> handle_deferred bw ctx req ck = (ck', t) \<Longrightarrow>
    dispatch_step (ck, ts) (ck', ts @ [t])"
| Turn: "i < length ts \<Longrightarrow> resume bw (ts ! i) ck = (ck', t) \<Longrightarrow> dispatch_step (ck, ts) (ck', ts[i := t])"
| Sessions: "dispatch_step (ck, ts) (fst (handle_session_list bw ck), ts)"
| Status: "dispatch_step (ck, ts) (fst (handle_status_get bw ck), ts)"
| Command: "cockpit_step (ck_app ck) s \<Longrightarrow> dispatch_step (ck, ts) (ck\<lparr>ck_app := s\<rparr>, ts)"

lemma reads_app:
  "ck_app (fst (handle_session_list bw ck)) = ck_app ck" "ck_app (fst (handle_status_get bw ck)) = ck_app ck"
  by (simp_all add: handle_session_list_def handle_status_get_def listed_sessions_def
      split: prod.split sum.split)

lemma dispatch_step_inv:
  assumes "dispatch_step st st'" "app_inv (ck_app (fst st))"
  shows "app_inv (ck_app (fst st'))"
  using assms
proof (induction rule: dispatch_step.induct)
  case (Request bw req ck ctx ck' t ts)
  then show ?case using handle_deferred_inv [of ck bw req ctx] by simp
next
  case (Turn i ts bw ck ck' t)
  then show ?case using resume_inv [of ck bw "ts ! i"] by simp
next
  case (Command ck s ts)
  then show ?case using cockpit_step_inv by simp
qed (simp_all add: reads_app)

text \<open>C7: However the bus's requests, the turns of waiting tasks and the user's and the compositor's commands
  interleave, the cockpit they share stays in its invariant, under these conditions, which the code does
  not check. Of the requests, taken in any order and any number: a new pane and a new anchor find a pane id
  left, a pane tagged by its uuid is no window of the nested compositor, and a session is opened only while
  no such window is recorded, with a layout that names no pane twice nor the last id, and not with the
  outcome that none of its panes can be spawned. Of the user's commands and the compositor's events: those of the
  steps of the cockpit alone, that is, a pane id left for every new pane, the focus on a live pane when a window of
  the nested compositor appears, no such window tagged as an anchor or focused when the next anchor is asked
  for, and session switches only as above and successful. The turns of waiting tasks have no condition, and come in any
  order. The random source never repeats an id.\<close>

theorem dispatcher_keeps_invariant:
  assumes "inj rng" "ck_app ck0 = app_new rng first p" "dispatch_step\<^sup>*\<^sup>* (ck0, []) (ck, ts)"
  shows "app_inv (ck_app ck)"
proof -
  have "app_inv (ck_app (fst st))" if "dispatch_step\<^sup>*\<^sup>* (ck0, []) st" for st
    using that
    by (induction rule: rtranclp_induct) (use assms(1,2) app_new_inv dispatch_step_inv in auto)
  then show ?thesis using assms(3) by fastforce
qed

definition first_cockpit :: "pane \<Rightarrow> cockpit" where
  "first_cockpit p = \<lparr>ck_app = app_new (\<lambda>n. n) 1 p, ck_disk = empty_disk, ck_anchor_count = 0, ck_spawn_ok = 0,
    ck_spawn_fail = 0\<rparr>"

theorem dispatcher_keeps_invariant_witness:
  "\<forall>bw ctx p.
    (let (c1, _) = handle_deferred bw ctx K_AnchorNew (first_cockpit p);
         (c2, t) = handle_deferred bw ctx (K_SatelliteLaunchAttach [''kate''] None None None None) c1;
         (c3, _) = resume bw t c2
     in app_inv (ck_app c3))"
proof (intro allI)
  fix bw ctx p
  let ?k = "K_SatelliteLaunchAttach [''kate''] None None None None"
  obtain c1 t1 where 1: "handle_deferred bw ctx K_AnchorNew (first_cockpit p) = (c1, t1)" by (metis surj_pair)
  obtain c2 t2 where 2: "handle_deferred bw ctx ?k c1 = (c2, t2)" by (metis surj_pair)
  obtain c3 t3 where 3: "resume bw t2 c2 = (c3, t3)" by (metis surj_pair)
  have "within_limits bw K_AnchorNew (first_cockpit p)"
    by (simp add: within_limits_def first_cockpit_def app_new_def app_of_def draw_uuid_def u32_max_def)
  then have "dispatch_step (first_cockpit p, []) (c1, [] @ [t1])" using 1 by (rule dispatch_step.Request)
  moreover have "dispatch_step (c1, [t1]) (c2, [t1] @ [t2])"
    using 2 by (intro dispatch_step.Request) (simp_all add: within_limits_def)
  moreover have "dispatch_step (c2, [t1, t2]) (c3, [t1, t2][1 := t3])"
    using 3 by (intro dispatch_step.Turn) simp_all
  ultimately have "dispatch_step\<^sup>*\<^sup>* (first_cockpit p, []) (c3, [t1, t3])"
    by (simp add: converse_rtranclp_into_rtranclp)
  then have "app_inv (ck_app c3)"
    by (intro dispatcher_keeps_invariant [of "\<lambda>n. n" "first_cockpit p" 1 p]) (simp_all add: first_cockpit_def)
  then show "let (c1, _) = handle_deferred bw ctx K_AnchorNew (first_cockpit p);
      (c2, t) = handle_deferred bw ctx ?k c1; (c3, _) = resume bw t c2 in app_inv (ck_app c3)"
    unfolding 1 2 3 Let_def prod.case .
qed

section \<open>Where an attached window goes\<close>

text \<open>
  The access check of an attachment is for the anchor active when the request is taken; the window goes to
  the anchor that is active when the window manager has answered.
\<close>

lemma window_goes_to_the_anchor_active_at_the_end:
  assumes "bw_attach_worker bw c = Worker_Done (Inr v)" "ap_active (ck_app ck) = Some b"
    and "app_inv (ck_app ck)" "trim (wc_window_id c) \<noteq> []"
  shows "(b, v) \<in> all_windows (ap_satellites (ck_app (fst (resume bw (Attaching op c) ck))))"
proof -
  have "b \<in> ap_anchors (ck_app ck)" using assms(2,3) by (simp add: app_inv_def)
  moreover have "(b, v) \<in> all_windows (insert_satellite_window_for_anchor b v (ap_satellites (ck_app ck)))"
    by (fastforce simp: all_windows_def insert_satellite_get Let_def)
  ultimately show ?thesis
    using assms by (simp add: finish_attach_def attach_window_for_dispatcher_def turn_simps
        attach_native_window_to_active_anchor_def register_satellite_window_def)
qed

end
