(* ===== verification/BusReplies.thy ===== *)
theory BusReplies
  imports BusHandler
begin

text \<open>
  The kind of every answer: what the cockpit replies to a request is of the kind the bus protocol pairs with
  it, on every path through the admission, the direct reads, the dispatcher and its waiting tasks. The
  names are those of the \<open>#[serde(rename = ...)]\<close> attributes in \<open>crates/lmux-bus/src/kinds.rs\<close>.
\<close>

section \<open>Requests and their answers\<close>

fun answers :: "kind \<Rightarrow> kind \<Rightarrow> bool" where
  "answers K_StatusGet r = (case r of K_StatusGetResult _ \<Rightarrow> True | _ \<Rightarrow> False)"
| "answers K_SessionList r = (case r of K_SessionListResult _ \<Rightarrow> True | _ \<Rightarrow> False)"
| "answers K_PaneList r = (case r of K_PaneListResult _ \<Rightarrow> True | _ \<Rightarrow> False)"
| "answers (K_PaneNew _ _ _ _ _ _ _) r = (case r of K_PaneNewResult _ \<Rightarrow> True | _ \<Rightarrow> False)"
| "answers (K_PaneTail _ _ _) r = (case r of K_PaneTranscriptResult _ \<Rightarrow> True | _ \<Rightarrow> False)"
| "answers (K_PaneCapture _ _ _ _) r = (case r of K_PaneTranscriptResult _ \<Rightarrow> True | _ \<Rightarrow> False)"
| "answers K_AnchorList r = (case r of K_AnchorListResult _ \<Rightarrow> True | _ \<Rightarrow> False)"
| "answers K_AnchorTagSelf r = (case r of K_AnchorTagSelfResult _ \<Rightarrow> True | _ \<Rightarrow> False)"
| "answers (K_GrantRequest q) r = (case r of K_GrantRequestResult i _ \<Rightarrow> i = gr_grant_id q | _ \<Rightarrow> False)"
| "answers K_SatelliteListWindows r = (case r of K_SatelliteListWindowsResult _ \<Rightarrow> True | _ \<Rightarrow> False)"
| "answers (K_PaneSendInput _ _ _) r = (r = K_Ok (Some ''pane.send_input''))"
| "answers (K_PaneRename _ _ _ _) r = (r = K_Ok (Some ''pane.rename''))"
| "answers (K_GrantDecide _ _) r = (r = K_Ok (Some ''grant.decide''))"
| "answers (K_SessionNew _) r = (r = K_Ok (Some ''session.new''))"
| "answers (K_SessionRename _ _) r = (r = K_Ok (Some ''session.rename''))"
| "answers (K_SessionDelete _) r = (r = K_Ok (Some ''session.delete''))"
| "answers (K_SessionOpen _) r = (r = K_Ok (Some ''session.open''))"
| "answers (K_AnchorTag _) r = (r = K_Ok (Some ''anchor.tag''))"
| "answers K_AnchorNew r = (r = K_Ok (Some ''anchor.new''))"
| "answers (K_AnchorActivate _) r = (r = K_Ok (Some ''anchor.activate''))"
| "answers (K_AnchorUntag _) r = (r = K_Ok (Some ''anchor.untag''))"
| "answers (K_AnchorPause _) r = (r = K_Ok (Some ''anchor.pause''))"
| "answers (K_AnchorResume _) r = (r = K_Ok (Some ''anchor.resume''))"
| "answers (K_AnchorHide _) r = (r = K_Ok (Some ''anchor.hide''))"
| "answers (K_AnchorReattach _) r = (r = K_Ok (Some ''anchor.reattach''))"
| "answers (K_SatelliteOpen _ _ _) r = (r = K_Ok (Some ''satellite.open''))"
| "answers (K_SatelliteAttachWindow _ _) r = (r = K_Ok (Some ''satellite.attach_window''))"
| "answers (K_SatelliteLaunchAttach _ _ _ _ _) r = (r = K_Ok (Some ''satellite.launch_attach''))"
| "answers _ r = False"

definition typed_reply :: "kind \<Rightarrow> bus_error + kind \<Rightarrow> bool" where
  "typed_reply k x = (case x of Inl _ \<Rightarrow> True | Inr r \<Rightarrow> answers k r)"

definition typed_task :: "kind \<Rightarrow> task \<Rightarrow> bool" where
  "typed_task k t =
    (case t of
       Answered x \<Rightarrow> typed_reply k x
     | Before _ \<Rightarrow> answers k (ok_of op_launch)
     | Polling _ \<Rightarrow> answers k (ok_of op_launch)
     | Attaching op _ \<Rightarrow> answers k (ok_of op))"

named_theorems typed "a turn of the dispatcher leaves a task of the request's type"

lemma typed_refuse [typed]: "typed_task k (refuse m)"
  by (simp add: typed_task_def typed_reply_def refuse_def)

lemma typed_Answered [typed]: "typed_task k (Answered x) \<longleftrightarrow> typed_reply k x"
  by (simp add: typed_task_def)

lemma typed_waiting [typed]:
  "typed_task k (Before rq) \<longleftrightarrow> answers k (ok_of op_launch)"
  "typed_task k (Polling la) \<longleftrightarrow> answers k (ok_of op_launch)"
  "typed_task k (Attaching op c) \<longleftrightarrow> answers k (ok_of op)"
  by (simp_all add: typed_task_def)

lemma typed_Inl [typed]: "typed_reply k (Inl e)"
  by (simp add: typed_reply_def)

lemma typed_Inr [typed]: "typed_reply k (Inr r) \<longleftrightarrow> answers k r"
  by (simp add: typed_reply_def)

lemma typed_on_app:
  "typed_task k (answer (snd (f (ck_app ck)))) \<Longrightarrow> typed_task k (snd (on_app f answer ck))"
  by (simp add: on_app_def case_prod_beta)

lemma typed_on_anchor:
  "(\<And>x. typed_task k (answer x)) \<Longrightarrow> typed_task k (snd (on_anchor op u f answer ck))"
  by (simp add: on_anchor_def typed_on_app typed split: option.split)

lemma typed_on_store: "answers k (ok_of op) \<Longrightarrow> typed_task k (snd (on_store bw op m ck))"
  by (auto simp: on_store_def typed split: prod.split sum.split)

lemma typed_ok_or_domain: "answers k (ok_of op) \<Longrightarrow> typed_task k (ok_or_domain bw op r)"
  by (auto simp: ok_or_domain_def typed split: sum.split)

lemma typed_answer_with: "(\<And>x. answers k (f x)) \<Longrightarrow> typed_task k (answer_with f r)"
  by (auto simp: answer_with_def typed split: sum.split)

lemma registered_request [simp]: "snd (app_register_grant_request r s) = r"
  by (simp add: app_register_grant_request_def register_grant_request_def)

lemma typed_first_turn: "typed_task k (snd (handle_deferred bw ctx k ck))"
  by (cases k)
    (auto simp: handle_deferred_def Let_def typed ok_of_def open_session_def tag_pane_def tag_self_def
      satellite_open_def launch_attach_start_def attach_window_start_def op_launch_def
      intro!: typed_on_app typed_on_anchor typed_on_store typed_ok_or_domain typed_answer_with
      split: prod.split sum.split option.split)

lemma typed_turn:
  assumes "typed_task k t"
  shows "typed_task k (snd (resume bw t ck))"
proof (cases t)
  case (Attaching op c)
  then show ?thesis
    using assms
    by (auto simp: finish_attach_def typed intro!: typed_on_app split: sum.split)
qed (use assms in \<open>auto simp: typed spawn_launched_def poll_windows_def timed_out_def
      split: sum.split option.split prod.split\<close>)

lemma typed_run: "typed_task k t \<Longrightarrow> typed_reply k (snd (run_task ws t ck))"
proof (induction ws arbitrary: t ck)
  case Nil
  then show ?case by (cases t) (simp_all add: typed)
next
  case (Cons bw ws)
  then show ?case
    using typed_turn [OF Cons.prems, of bw ck]
    by (cases t) (auto simp: typed case_prod_beta simp del: resume.simps)
qed

lemma typed_cockpit_reply: "typed_reply k (snd (cockpit_handle installed ctx k h))"
proof -
  obtain ck ws where h: "h = (ck, ws)" by (cases h)
  have d: "typed_reply k (snd (dispatch_to_gtk installed bw rest ctx k ck))" for bw rest
    using typed_run [OF typed_first_turn] by (simp add: dispatch_to_gtk_def typed case_prod_beta)
  show ?thesis
    unfolding h cockpit_handle_def
    using d
    by (cases k) (auto simp: typed handle_session_list_def handle_status_get_def
      handle_satellite_list_windows_def split: sum.split list.split prod.split)
qed

text \<open>C18: The cockpit answers every request with an error or with a reply of the kind that belongs to the request:
  a list for a list, the created pane for a creation, the id of the grant asked for, and an
  acknowledgement that names the request where nothing is asked back. This holds at once, and after any
  turns a waiting request takes.\<close>

theorem replies_have_their_type:
  "case snd (cockpit_handle installed ctx k h) of Inl _ \<Rightarrow> True | Inr r \<Rightarrow> answers k r"
  using typed_cockpit_reply by (simp add: typed_reply_def)

end
