(* ===== verification/Json.thy ===== *)
theory Json
  imports BusTypes
begin

text \<open>
  JSON values as \<open>serde_json\<close> has them, and what \<open>derive(Deserialize)\<close> makes of a struct: its fields
  from an object in any order or from an array in the declared one, with the defaults of
  \<open>#[serde(default)]\<close>, and the first error it meets. The texts of those errors are serde's, a parameter.
\<close>

section \<open>Values\<close>

datatype json_number = PosInt nat | NegInt int | Float f64

datatype json = JNull | JBool bool | JNum json_number | JStr string | JArr "json list"
  | JObj "(string \<times> json) list"

text \<open>\<open>Value::get\<close> of a key, and \<open>Value::as_str\<close>.\<close>

definition json_get :: "string \<Rightarrow> json \<Rightarrow> json option" where
  "json_get k v = (case v of JObj m \<Rightarrow> hget m k | _ \<Rightarrow> None)"

definition json_as_str :: "json \<Rightarrow> string option" where
  "json_as_str v = (case v of JStr s \<Rightarrow> Some s | _ \<Rightarrow> None)"

definition json_is_null :: "json \<Rightarrow> bool" where
  "json_is_null v = (case v of JNull \<Rightarrow> True | _ \<Rightarrow> False)"

section \<open>Decoding a field\<close>

datatype decode_error =
  InvalidType json string
| InvalidValue json string
| MissingField string
| InvalidLength nat string
| UnknownVariant string "string list"
| Custom string

text \<open>A check gives the error a field's type has for a value, if any.\<close>

type_synonym check = "json \<Rightarrow> decode_error option"

definition want_any :: check where
  "want_any v = None"

fun want_string :: check where
  "want_string (JStr s) = None"
| "want_string v = Some (InvalidType v ''a string'')"

fun want_bool :: check where
  "want_bool (JBool b) = None"
| "want_bool v = Some (InvalidType v ''a boolean'')"

fun want_uint :: "nat \<Rightarrow> string \<Rightarrow> check" where
  "want_uint mx t (JNum (PosInt n)) = (if n \<le> mx then None else Some (InvalidValue (JNum (PosInt n)) t))"
| "want_uint mx t (JNum (NegInt i)) = Some (InvalidValue (JNum (NegInt i)) t)"
| "want_uint mx t v = Some (InvalidType v t)"

definition want_u32 :: check where
  "want_u32 = want_uint u32_max ''u32''"

definition want_u64 :: check where
  "want_u64 = want_uint u64_max ''u64''"

fun want_uuid :: "(string \<Rightarrow> string + uuid) \<Rightarrow> check" where
  "want_uuid parse (JStr s) = (case parse s of Inl e \<Rightarrow> Some (Custom e) | Inr _ \<Rightarrow> None)"
| "want_uuid parse v = Some (InvalidType v ''a formatted UUID string'')"

fun want_opt :: "check \<Rightarrow> check" where
  "want_opt c JNull = None"
| "want_opt c v = c v"

fun first_error :: "check \<Rightarrow> json list \<Rightarrow> decode_error option" where
  "first_error c [] = None"
| "first_error c (v # vs) = (case c v of Some e \<Rightarrow> Some e | None \<Rightarrow> first_error c vs)"

fun want_vec :: "check \<Rightarrow> check" where
  "want_vec c (JArr vs) = first_error c vs"
| "want_vec c v = Some (InvalidType v ''a sequence'')"

text \<open>An enum without payloads: its name, or an object whose only key is its name and whose value is null.\<close>

fun want_variant :: "string list \<Rightarrow> check" where
  "want_variant names (JStr s) = (if s \<in> set names then None else Some (UnknownVariant s names))"
| "want_variant names (JObj [(s, v)]) =
    (if s \<notin> set names then Some (UnknownVariant s names)
     else if json_is_null v then None else Some (InvalidType v ''unit''))"
| "want_variant names (JObj m) = Some (InvalidValue (JObj m) ''map with a single key'')"
| "want_variant names v = Some (InvalidType v ''string or map'')"

section \<open>Decoding a struct\<close>

text \<open>A field: its name, whether it may be missing, and the check of its type.\<close>

type_synonym field = "string \<times> bool \<times> check"

fun object_error :: "field list \<Rightarrow> (string \<times> json) list \<Rightarrow> decode_error option" where
  "object_error fs [] = None"
| "object_error fs ((k, v) # m) =
    (case map_of fs k of
       Some (_, c) \<Rightarrow> (case c v of Some e \<Rightarrow> Some e | None \<Rightarrow> object_error fs m)
     | None \<Rightarrow> object_error fs m)"

definition missing_error :: "field list \<Rightarrow> (string \<times> json) list \<Rightarrow> decode_error option" where
  "missing_error fs m =
    (case find (\<lambda>(k, opt, _). \<not> opt \<and> hget m k = None) fs of
       Some (k, _) \<Rightarrow> Some (MissingField k) | None \<Rightarrow> None)"

fun array_error :: "field list \<Rightarrow> nat \<Rightarrow> json list \<Rightarrow> decode_error option" where
  "array_error [] i [] = None"
| "array_error [] i vs = Some (InvalidLength (i + length vs) ''fewer elements in array'')"
| "array_error ((k, opt, c) # fs) i [] = (if opt then array_error fs (Suc i) [] else Some (InvalidLength i ''struct''))"
| "array_error ((k, opt, c) # fs) i (v # vs) =
    (case c v of Some e \<Rightarrow> Some e | None \<Rightarrow> array_error fs (Suc i) vs)"

definition or_fields :: "decode_error option \<Rightarrow> (string \<Rightarrow> json option) \<Rightarrow> decode_error + (string \<Rightarrow> json option)" where
  "or_fields e f = (case e of Some e \<Rightarrow> Inl e | None \<Rightarrow> Inr f)"

definition decode_struct :: "field list \<Rightarrow> json \<Rightarrow> decode_error + (string \<Rightarrow> json option)" where
  "decode_struct fs v =
    (case v of
       JObj m \<Rightarrow> (case object_error fs m of
           Some e \<Rightarrow> Inl e | None \<Rightarrow> or_fields (missing_error fs m) (hget m))
     | JArr vs \<Rightarrow> or_fields (array_error fs 0 vs) (map_of (zip (map fst fs) vs))
     | _ \<Rightarrow> Inl (InvalidType v ''struct''))"

section \<open>Checked fields\<close>

definition get_opt_str :: "json option \<Rightarrow> string option" where
  "get_opt_str x = (case x of Some (JStr s) \<Rightarrow> Some s | _ \<Rightarrow> None)"

definition get_str :: "json option \<Rightarrow> string" where
  "get_str x = (case x of Some (JStr s) \<Rightarrow> s | _ \<Rightarrow> [])"

definition get_bool :: "json option \<Rightarrow> bool" where
  "get_bool x = (case x of Some (JBool b) \<Rightarrow> b | _ \<Rightarrow> False)"

definition get_opt_nat :: "json option \<Rightarrow> nat option" where
  "get_opt_nat x = (case x of Some (JNum (PosInt n)) \<Rightarrow> Some n | _ \<Rightarrow> None)"

definition get_strs :: "json option \<Rightarrow> string list" where
  "get_strs x = (case x of Some (JArr vs) \<Rightarrow> map (\<lambda>v. get_str (Some v)) vs | _ \<Rightarrow> [])"

definition get_uuid :: "(string \<Rightarrow> string + uuid) \<Rightarrow> json option \<Rightarrow> uuid" where
  "get_uuid parse x = (case parse (get_str x) of Inr u \<Rightarrow> u | Inl _ \<Rightarrow> 0)"

definition get_variant :: "json option \<Rightarrow> string" where
  "get_variant x = (case x of Some (JStr s) \<Rightarrow> s | Some (JObj ((s, _) # _)) \<Rightarrow> s | _ \<Rightarrow> [])"

section \<open>Laws\<close>

lemma object_error_checked:
  "object_error fs m = None \<Longrightarrow> hget m k = Some v \<Longrightarrow> map_of fs k = Some (opt, c) \<Longrightarrow> c v = None"
  by (induction fs m rule: object_error.induct) (auto simp: hget_Cons split: option.splits if_splits)

lemma array_error_checked:
  "array_error fs i vs = None \<Longrightarrow> distinct (map fst fs) \<Longrightarrow> map_of (zip (map fst fs) vs) k = Some v \<Longrightarrow>
    map_of fs k = Some (opt, c) \<Longrightarrow> c v = None"
proof (induction fs i vs rule: array_error.induct)
  case (4 k' opt' c' fs i v' vs)
  then show ?case by (auto split: option.splits if_splits)
qed auto

lemma array_error_missing:
  "array_error fs i vs = None \<Longrightarrow> map_of (zip (map fst fs) vs) k = None \<Longrightarrow>
    map_of fs k = Some (opt, c) \<Longrightarrow> opt"
proof (induction fs i vs rule: array_error.induct)
  case (4 k' opt' c' fs i v' vs)
  then show ?case by (auto split: option.splits if_splits)
qed (auto split: if_splits)

text \<open>What is decoded has every required field, and each value fits its field's type.\<close>

lemma decode_struct_checked:
  assumes "decode_struct fs v = Inr f" "distinct (map fst fs)" "map_of fs k = Some (opt, c)"
  shows "case f k of Some x \<Rightarrow> c x = None | None \<Rightarrow> opt"
proof (cases v)
  case (JArr vs)
  then have e: "array_error fs 0 vs = None" "f = map_of (zip (map fst fs) vs)"
    using assms(1) by (auto simp: decode_struct_def or_fields_def split: option.splits)
  show ?thesis
    using array_error_checked [OF e(1) assms(2) _ assms(3)] array_error_missing [OF e(1) _ assms(3)] e(2)
    by (cases "f k") simp_all
next
  case (JObj m)
  have "missing_error fs m = None" "object_error fs m = None" "f = hget m"
    using assms(1) JObj by (auto simp: decode_struct_def or_fields_def split: option.splits)
  moreover have "(k, opt, c) \<in> set fs" using assms(3) by (rule map_of_SomeD)
  ultimately show ?thesis
    using object_error_checked [OF _ _ assms(3)]
    by (fastforce simp: missing_error_def find_None_iff split: option.splits)
qed (use assms(1) in \<open>simp_all add: decode_struct_def\<close>)

end
