(* ===== verification/McpServer.thy ===== *)
theory McpServer
  imports Json BusClient BusDispatch
begin

text \<open>
  The MCP server, \<open>crates/lmux-mcp/src/lib.rs\<close>: messages framed by \<open>Content-Length\<close> headers on its standard
  input, the JSON-RPC methods, the tools with their schemas, and how a tool's call becomes a request on
  the bus. The JSON parser and printer, the environment and the socket are parameters. The input is the
  list of the bytes that will come before its end.
\<close>

section \<open>Header lines\<close>

definition byte_char :: "byte \<Rightarrow> char" where
  "byte_char b = char_of (unat b)"

definition char_byte :: "char \<Rightarrow> byte" where
  "char_byte c = word_of_nat (of_char c)"

text \<open>The test of UTF-8 that \<open>read_line\<close> makes of each line.\<close>

definition utf8_cont :: "byte \<Rightarrow> bool" where
  "utf8_cont b = (0x80 \<le> b \<and> b \<le> 0xBF)"

fun utf8_ok :: "byte list \<Rightarrow> bool" where
  "utf8_ok [] = True"
| "utf8_ok (a # s) =
    (if a < 0x80 then utf8_ok s
     else case s of
       [] \<Rightarrow> False
     | b # s1 \<Rightarrow>
         if 0xC2 \<le> a \<and> a \<le> 0xDF then utf8_cont b \<and> utf8_ok s1
         else (case s1 of
           [] \<Rightarrow> False
         | c # s2 \<Rightarrow>
             if 0xE0 \<le> a \<and> a \<le> 0xEF
             then utf8_cont b \<and> utf8_cont c \<and> (a = 0xE0 \<longrightarrow> 0xA0 \<le> b) \<and> (a = 0xED \<longrightarrow> b \<le> 0x9F) \<and> utf8_ok s2
             else (case s2 of
               [] \<Rightarrow> False
             | d # s3 \<Rightarrow> 0xF0 \<le> a \<and> a \<le> 0xF4 \<and> utf8_cont b \<and> utf8_cont c \<and> utf8_cont d \<and>
                 (a = 0xF0 \<longrightarrow> 0x90 \<le> b) \<and> (a = 0xF4 \<longrightarrow> b \<le> 0x8F) \<and> utf8_ok s3)))"

text \<open>A line is read up to and with its line feed, or to the end of the input.\<close>

fun take_line :: "byte list \<Rightarrow> byte list \<times> byte list" where
  "take_line [] = ([], [])"
| "take_line (b # s) = (if b = 10 then ([b], s) else (let (l, r) = take_line s in (b # l, r)))"

lemma take_line_append: "fst (take_line s) @ snd (take_line s) = s"
  by (induction s) (auto split: prod.split)

lemma take_line_nonempty: "s \<noteq> [] \<Longrightarrow> fst (take_line s) \<noteq> []"
  by (cases s) (auto split: prod.split)

lemma take_line_shrinks: "s \<noteq> [] \<Longrightarrow> length (snd (take_line s)) < length s"
  using take_line_append [of s] take_line_nonempty [of s]
  by (metis length_append length_greater_0_conv less_add_same_cancel2)

lemma take_line_rest: "(l, r) = take_line s \<Longrightarrow> s \<noteq> [] \<Longrightarrow> length r < length s"
  using take_line_shrinks [of s] by (metis snd_conv)

definition trim_line_end :: "string \<Rightarrow> string" where
  "trim_line_end s = rev (dropWhile (\<lambda>c. c = CHR 0x0D \<or> c = CHR 0x0A) (rev s))"

text \<open>\<open>str::parse::<usize>\<close> of the 64-bit build: an optional plus sign, then digits.\<close>

fun parse_uint_digits :: "nat \<Rightarrow> string \<Rightarrow> nat \<Rightarrow> string + nat" where
  "parse_uint_digits mx [] n = Inr n"
| "parse_uint_digits mx (c # cs) n =
    (case digit_val c of
       None \<Rightarrow> Inl ''invalid digit found in string''
     | Some d \<Rightarrow> if 10 * n + d > mx then Inl ''number too large to fit in target type''
                else parse_uint_digits mx cs (10 * n + d))"

definition parse_usize :: "string \<Rightarrow> string + nat" where
  "parse_usize s =
    (if s = [] then Inl ''cannot parse integer from empty string''
     else if s = ''+'' then Inl ''invalid digit found in string''
     else if hd s = CHR ''+'' then parse_uint_digits u64_max (tl s) 0
     else parse_uint_digits u64_max s 0)"

section \<open>Framing\<close>

definition MAX_MESSAGE_BYTES :: nat where
  "MAX_MESSAGE_BYTES = 4 * 1024 * 1024"

definition header_name :: string where
  "header_name = ''Content-Length:''"

text \<open>
  The headers of a message: the end of the input, or the last content length given and the input after
  the empty line.
\<close>

function read_headers :: "nat option \<Rightarrow> byte list \<Rightarrow> string + (nat option \<times> byte list) option" where
  "read_headers len s =
    (if s = [] then Inr None
     else let (line, rest) = take_line s in
       if \<not> utf8_ok line then Inl ''stream did not contain valid UTF-8''
       else let trimmed = trim_line_end (map byte_char line) in
         if trimmed = [] then Inr (Some (len, rest))
         else case strip_prefix header_name trimmed of
           None \<Rightarrow> read_headers len rest
         | Some v \<Rightarrow> (case parse_usize (trim v) of
             Inl e \<Rightarrow> Inl (''invalid Content-Length: '' @ e)
           | Inr n \<Rightarrow> read_headers (Some n) rest))"
  by pat_completeness auto

termination
  by (relation "measure (\<lambda>(_, s). length s)") (simp_all add: take_line_rest)

declare read_headers.simps [simp del]

definition read_message :: "(byte list \<Rightarrow> string + json) \<Rightarrow> byte list \<Rightarrow> string + (json \<times> byte list) option" where
  "read_message from_slice s =
    (case read_headers None s of
       Inl e \<Rightarrow> Inl e
     | Inr None \<Rightarrow> Inr None
     | Inr (Some (None, _)) \<Rightarrow> Inl ''missing Content-Length''
     | Inr (Some (Some n, rest)) \<Rightarrow>
         if n > MAX_MESSAGE_BYTES
         then Inl (''Content-Length '' @ show_nat n @ '' exceeds maximum '' @ show_nat MAX_MESSAGE_BYTES)
         else if length rest < n then Inl ''failed to fill whole buffer''
         else (case from_slice (take n rest) of
             Inl e \<Rightarrow> Inl e | Inr v \<Rightarrow> Inr (Some (v, drop n rest))))"

definition crlf :: string where
  "crlf = [CHR 0x0D, CHR 0x0A]"

definition frame_header :: "nat \<Rightarrow> string" where
  "frame_header n = header_name @ '' '' @ show_nat n @ crlf @ crlf"

text \<open>The pieces \<open>write!\<close> and \<open>write_all\<close> hand to the output, one after the other.\<close>

fun put_all :: "'w writer \<Rightarrow> byte list list \<Rightarrow> 'w \<Rightarrow> 'w \<times> io_error_kind option" where
  "put_all wr [] w = (w, None)"
| "put_all wr (p # ps) w = (case wr_put wr p w of (w1, Some e) \<Rightarrow> (w1, Some e) | (w1, None) \<Rightarrow> put_all wr ps w1)"

fun io_text :: "io_error_kind \<Rightarrow> string" where
  "io_text UnexpectedEof = ''unexpected end of file''"
| "io_text (OtherIo e) = e"

definition write_message ::
  "(json \<Rightarrow> string + byte list) \<Rightarrow> 'w writer \<Rightarrow> json \<Rightarrow> 'w \<Rightarrow> 'w \<times> (string + unit)" where
  "write_message to_vec wr v w =
    (if json_is_null v then (w, Inr ())
     else case to_vec v of
       Inl e \<Rightarrow> (w, Inl e)
     | Inr body \<Rightarrow>
       (case put_all wr [map char_byte (header_name @ '' ''), map char_byte (show_nat (length body)),
                         map char_byte (crlf @ crlf), body] w of
          (w1, Some e) \<Rightarrow> (w1, Inl (io_text e))
        | (w1, None) \<Rightarrow> (case wr_flush wr w1 of
            (w2, Some e) \<Rightarrow> (w2, Inl (io_text e)) | (w2, None) \<Rightarrow> (w2, Inr ()))))"

section \<open>Tools\<close>

definition default_tail_lines :: nat where
  "default_tail_lines = 80"

definition parse_optional_anchor :: "(string \<Rightarrow> string + uuid) \<Rightarrow> string option \<Rightarrow> string + uuid option" where
  "parse_optional_anchor parse_uuid v =
    (case v of
       None \<Rightarrow> Inr None
     | Some s \<Rightarrow> if s = ''current'' then Inr None
       else case parse_uuid s of Inl e \<Rightarrow> Inl (''invalid anchor UUID: '' @ e) | Inr u \<Rightarrow> Inr (Some u))"

definition parse_placement :: "string option \<Rightarrow> string + pane_placement" where
  "parse_placement v =
    (let s = unwrap_or v ''split_right'' in
     if s = ''tab'' then Inr Tab else if s = ''split_right'' then Inr SplitRight
     else if s = ''split_down'' then Inr SplitDown else Inl (''invalid placement: '' @ s))"

definition non_blank :: "string option \<Rightarrow> string option" where
  "non_blank v = (case v of Some s \<Rightarrow> if trim s = [] then None else Some s | None \<Rightarrow> None)"

text \<open>The identity the server gives itself, from \<open>LMUX_AGENT_ID\<close> and \<open>LMUX_AGENT_NAME\<close>.\<close>

definition mcp_agent_from_env :: "string option \<Rightarrow> string option \<Rightarrow> agent_identity option" where
  "mcp_agent_from_env id_var name_var =
    Some \<lparr>ag_id = unwrap_or (non_blank id_var) ''lmux-mcp'',
          ag_name = (case non_blank name_var of Some n \<Rightarrow> Some n | None \<Rightarrow> Some ''lmux MCP'')\<rparr>"

definition backend_names :: "(string \<times> window_backend) list" where
  "backend_names = [(''macos'', Macos), (''kwin'', Kwin), (''x11'', X11), (''hyprland'', Hyprland), (''sway'', Sway),
    (''noop'', Noop), (''unsupported'', Unsupported)]"

definition get_backend :: "json option \<Rightarrow> window_backend" where
  "get_backend x = unwrap_or (map_of backend_names (get_variant x)) Unsupported"

text \<open>The \<open>Args\<close> structs of the tools.\<close>

definition pane_new_fields :: "field list" where
  "pane_new_fields = [(''anchor'', True, want_opt want_string), (''placement'', True, want_opt want_string),
    (''activate'', True, want_bool), (''title'', True, want_opt want_string), (''purpose'', True, want_opt want_string),
    (''argv'', True, want_vec want_string)]"

definition pane_tail_fields :: "(string \<Rightarrow> string + uuid) \<Rightarrow> field list" where
  "pane_tail_fields parse_uuid = [(''pane_id'', False, want_uuid parse_uuid), (''lines'', True, want_u32)]"

definition pane_capture_fields :: "(string \<Rightarrow> string + uuid) \<Rightarrow> field list" where
  "pane_capture_fields parse_uuid = [(''pane_id'', False, want_uuid parse_uuid),
    (''since_sequence'', True, want_opt want_u64), (''max_lines'', True, want_opt want_u32)]"

definition pane_send_fields :: "(string \<Rightarrow> string + uuid) \<Rightarrow> field list" where
  "pane_send_fields parse_uuid = [(''pane_id'', False, want_uuid parse_uuid), (''text'', False, want_string)]"

definition pane_rename_fields :: "(string \<Rightarrow> string + uuid) \<Rightarrow> field list" where
  "pane_rename_fields parse_uuid = [(''pane_id'', False, want_uuid parse_uuid), (''title'', False, want_string)]"

definition attach_window_fields :: "field list" where
  "attach_window_fields = [(''backend'', False, want_variant (map fst backend_names)),
    (''backend_window_id'', False, want_string), (''pid'', True, want_opt want_u32),
    (''title'', True, want_opt want_string)]"

definition launch_fields :: "field list" where
  "launch_fields = [(''argv'', False, want_vec want_string), (''title_hint'', True, want_opt want_string),
    (''app_hint'', True, want_opt want_string), (''timeout_ms'', True, want_opt want_u64)]"

definition decoded ::
  "(decode_error \<Rightarrow> string) \<Rightarrow> field list \<Rightarrow> json \<Rightarrow> ((string \<Rightarrow> json option) \<Rightarrow> string + 'a) \<Rightarrow> string + 'a" where
  "decoded text fs args f = (case decode_struct fs args of Inl e \<Rightarrow> Inl (text e) | Inr g \<Rightarrow> f g)"

definition pane_new_kind ::
  "(string \<Rightarrow> string + uuid) \<Rightarrow> agent_identity option \<Rightarrow> (string \<Rightarrow> json option) \<Rightarrow> string + kind" where
  "pane_new_kind parse_uuid agent f =
    (case parse_optional_anchor parse_uuid (get_opt_str (f ''anchor'')) of
       Inl e \<Rightarrow> Inl e
     | Inr target \<Rightarrow> (case parse_placement (get_opt_str (f ''placement'')) of
         Inl e \<Rightarrow> Inl e
       | Inr placement \<Rightarrow> Inr (K_PaneNew target placement (get_bool (f ''activate'')) (get_opt_str (f ''title''))
           (get_strs (f ''argv'')) agent (get_opt_str (f ''purpose'')))))"

definition kind_for_tool ::
  "(decode_error \<Rightarrow> string) \<Rightarrow> (string \<Rightarrow> string + uuid) \<Rightarrow> string \<Rightarrow> json \<Rightarrow> agent_identity option \<Rightarrow> string + kind" where
  "kind_for_tool text parse_uuid name args agent =
    (if name = ''anchor_list'' then Inr K_AnchorList
     else if name = ''pane_new'' then decoded text pane_new_fields args (pane_new_kind parse_uuid agent)
     else if name = ''pane_tail'' then decoded text (pane_tail_fields parse_uuid) args (\<lambda>f.
       Inr (K_PaneTail (get_uuid parse_uuid (f ''pane_id'')) (unwrap_or (get_opt_nat (f ''lines'')) default_tail_lines)
         agent))
     else if name = ''pane_capture'' then decoded text (pane_capture_fields parse_uuid) args (\<lambda>f.
       Inr (K_PaneCapture (get_uuid parse_uuid (f ''pane_id'')) (get_opt_nat (f ''since_sequence''))
         (get_opt_nat (f ''max_lines'')) agent))
     else if name = ''pane_send'' then decoded text (pane_send_fields parse_uuid) args (\<lambda>f.
       Inr (K_PaneSendInput (get_uuid parse_uuid (f ''pane_id'')) (get_str (f ''text'')) agent))
     else if name = ''pane_rename'' then decoded text (pane_rename_fields parse_uuid) args (\<lambda>f.
       Inr (K_PaneRename (get_uuid parse_uuid (f ''pane_id'')) (get_str (f ''title'')) False agent))
     else if name = ''satellite_list_windows'' then Inr K_SatelliteListWindows
     else if name = ''satellite_attach_window'' then decoded text attach_window_fields args (\<lambda>f.
       Inr (K_SatelliteAttachWindow \<lparr>wc_backend = get_backend (f ''backend''),
         wc_window_id = get_str (f ''backend_window_id''), wc_pid = get_opt_nat (f ''pid''), wc_app = None,
         wc_title = get_opt_str (f ''title''), wc_workspace = None, wc_output = None\<rparr> agent))
     else if name = ''satellite_launch'' then decoded text launch_fields args (\<lambda>f.
       Inr (K_SatelliteLaunchAttach (get_strs (f ''argv'')) (get_opt_str (f ''title_hint''))
         (get_opt_str (f ''app_hint'')) (get_opt_nat (f ''timeout_ms'')) agent))
     else Inl (''unknown tool: '' @ name))"

section \<open>The list of tools\<close>

definition schema_type :: "string \<Rightarrow> json" where
  "schema_type t = JObj [(''type'', JStr t)]"

definition schema_enum :: "string list \<Rightarrow> json" where
  "schema_enum vs = JObj [(''type'', JStr ''string''), (''enum'', JArr (map JStr vs))]"

definition schema_strings :: json where
  "schema_strings = JObj [(''type'', JStr ''array''), (''items'', schema_type ''string'')]"

definition schema_object :: "string list \<Rightarrow> (string \<times> json) list \<Rightarrow> json" where
  "schema_object required props =
    JObj ((''type'', JStr ''object'') # (if required = [] then [] else [(''required'', JArr (map JStr required))]) @
      [(''properties'', JObj props)])"

definition tool :: "string \<Rightarrow> string \<Rightarrow> json \<Rightarrow> json" where
  "tool name description input_schema =
    JObj [(''name'', JStr name), (''description'', JStr description), (''inputSchema'', input_schema)]"

definition tool_definitions :: "json list" where
  "tool_definitions =
    [tool ''anchor_list'' ''List lmux anchors/workspaces.'' (schema_object [] []),
     tool ''pane_new'' ''Create a terminal pane in an anchor.'' (schema_object []
       [(''anchor'', JObj [(''type'', JStr ''string''), (''description'', JStr ''Anchor UUID or current'')]),
        (''placement'', schema_enum [''tab'', ''split_right'', ''split_down'']),
        (''activate'', schema_type ''boolean''), (''title'', schema_type ''string''),
        (''purpose'', schema_type ''string''), (''argv'', schema_strings)]),
     tool ''pane_tail'' ''Read recent transcript lines.'' (schema_object [''pane_id'']
       [(''pane_id'', schema_type ''string''), (''lines'', schema_type ''integer'')]),
     tool ''pane_capture'' ''Read transcript lines since a sequence.'' (schema_object [''pane_id'']
       [(''pane_id'', schema_type ''string''), (''since_sequence'', schema_type ''integer''),
        (''max_lines'', schema_type ''integer'')]),
     tool ''pane_send'' ''Send input to a terminal pane.'' (schema_object [''pane_id'', ''text'']
       [(''pane_id'', schema_type ''string''), (''text'', schema_type ''string'')]),
     tool ''pane_rename'' ''Rename a terminal pane.'' (schema_object [''pane_id'', ''title'']
       [(''pane_id'', schema_type ''string''), (''title'', schema_type ''string'')]),
     tool ''satellite_list_windows'' ''List native GUI windows available for attach.'' (schema_object [] []),
     tool ''satellite_attach_window'' ''Request attaching an existing GUI window.''
       (schema_object [''backend'', ''backend_window_id'']
       [(''backend'', schema_enum [''macos'', ''kwin'', ''x11'', ''noop'', ''unsupported'']),
        (''backend_window_id'', schema_type ''string''), (''pid'', schema_type ''integer''),
        (''title'', schema_type ''string'')]),
     tool ''satellite_launch''
       ''Launch a GUI app, wait for a matching native window, then request exact-window attach.''
       (schema_object [''argv'']
       [(''argv'', schema_strings), (''title_hint'', schema_type ''string''), (''app_hint'', schema_type ''string''),
        (''timeout_ms'', JObj [(''type'', JStr ''integer''), (''minimum'', JNum (PosInt 250)),
          (''maximum'', JNum (PosInt 30000))])])]"

section \<open>Methods\<close>

text \<open>
  The server's surroundings; the connections it makes are numbered. What it keeps is what each wrote to
  the cockpit.
\<close>

record 'j mcp_env =
  me_client :: "nat \<Rightarrow> 'j client_env"
  me_agent_id :: "string option"
  me_agent_name :: "string option"
  me_parse_uuid :: "string \<Rightarrow> string + uuid"
  me_show_uuid :: "uuid \<Rightarrow> string"
  me_decode_text :: "decode_error \<Rightarrow> string"
  me_pretty :: "kind \<Rightarrow> string + string"
  me_from_slice :: "byte list \<Rightarrow> string + json"
  me_to_vec :: "json \<Rightarrow> string + byte list"
  me_version :: string
  me_runtime :: "string option"

type_synonym sent = "byte list list"

definition tool_text :: "string \<Rightarrow> json" where
  "tool_text t = JObj [(''content'', JArr [JObj [(''type'', JStr ''text''), (''text'', JStr t)]])]"

definition tool_error :: "string \<Rightarrow> json" where
  "tool_error t = JObj [(''isError'', JBool True),
     (''content'', JArr [JObj [(''type'', JStr ''text''), (''text'', JStr t)]])]"

definition tool_call_fields :: "field list" where
  "tool_call_fields = [(''name'', False, want_string), (''arguments'', True, want_any)]"

definition call_cockpit :: "'j mcp_env \<Rightarrow> kind \<Rightarrow> sent \<Rightarrow> sent \<times> (string + json)" where
  "call_cockpit me k sent =
    (let ce = me_client me (length sent); text = bus_error_text (me_show_uuid me)
     in case connect_default ce LmuxMcp of
       ((w, s), Inl e) \<Rightarrow> (sent @ [w], Inl (text e))
     | ((w, s), Inr _) \<Rightarrow> (case request_on ce k (w, s) of
         ((w1, _), Inr response) \<Rightarrow> (sent @ [w1],
           (case me_pretty me response of Inl e \<Rightarrow> Inl e | Inr t \<Rightarrow> Inr (tool_text t)))
       | ((w1, _), Inl e) \<Rightarrow> (sent @ [w1], Inr (tool_error (text e)))))"

definition handle_tool_call :: "'j mcp_env \<Rightarrow> json \<Rightarrow> sent \<Rightarrow> sent \<times> (string + json)" where
  "handle_tool_call me params sent =
    (case decode_struct tool_call_fields params of
       Inl e \<Rightarrow> (sent, Inl (me_decode_text me e))
     | Inr f \<Rightarrow> (case kind_for_tool (me_decode_text me) (me_parse_uuid me) (get_str (f ''name''))
                     (unwrap_or (f ''arguments'') JNull) (mcp_agent_from_env (me_agent_id me) (me_agent_name me)) of
         Inl e \<Rightarrow> (sent, Inl e)
       | Inr k \<Rightarrow> call_cockpit me k sent))"

definition server_info :: "'j mcp_env \<Rightarrow> json" where
  "server_info me = JObj [(''protocolVersion'', JStr ''2024-11-05''),
     (''serverInfo'', JObj [(''name'', JStr ''lmux-mcp''), (''version'', JStr (me_version me))]),
     (''capabilities'', JObj [(''tools'', JObj [])])]"

definition rpc_reply :: "json \<Rightarrow> string + json \<Rightarrow> json" where
  "rpc_reply i r =
    (case r of
       Inr result \<Rightarrow> JObj [(''jsonrpc'', JStr ''2.0''), (''id'', i), (''result'', result)]
     | Inl e \<Rightarrow> JObj [(''jsonrpc'', JStr ''2.0''), (''id'', i),
         (''error'', JObj [(''code'', JNum (NegInt (- 32000))), (''message'', JStr e)])])"

definition rpc_id :: "json \<Rightarrow> json" where
  "rpc_id request = unwrap_or (json_get ''id'' request) JNull"

definition rpc_method :: "json \<Rightarrow> string" where
  "rpc_method request =
    unwrap_or (case json_get ''method'' request of Some v \<Rightarrow> json_as_str v | None \<Rightarrow> None) []"

definition handle_json_rpc :: "'j mcp_env \<Rightarrow> json \<Rightarrow> sent \<Rightarrow> sent \<times> json" where
  "handle_json_rpc me request sent =
    (let i = rpc_id request; meth = rpc_method request in
     if meth = ''initialize'' then (sent, rpc_reply i (Inr (server_info me)))
     else if meth = ''tools/list''
     then (sent, rpc_reply i (Inr (JObj [(''tools'', JArr tool_definitions)])))
     else if meth = ''tools/call''
     then (let (sent1, r) = handle_tool_call me (unwrap_or (json_get ''params'' request) JNull) sent
           in (sent1, rpc_reply i r))
     else if meth = ''notifications/initialized'' then (sent, JNull)
     else (sent, rpc_reply i (Inl (''unsupported method: '' @ meth))))"

section \<open>The server's loop\<close>

lemma read_headers_shrinks: "read_headers n s = Inr (Some (m, rest)) \<Longrightarrow> length rest < length s"
proof (induction s arbitrary: n rule: length_induct)
  case (1 s)
  obtain l r where l: "take_line s = (l, r)" by (cases "take_line s")
  show ?case
  proof (cases "s = []")
    case False
    then have r: "length r < length s" using l take_line_rest by metis
    then have "length rest < length r" if "read_headers n' r = Inr (Some (m, rest))" for n'
      using 1(1) that by blast
    then have "length rest < length s" if "read_headers n' r = Inr (Some (m, rest))" for n'
      using that r by fastforce
    then show ?thesis
      using 1(2) False r unfolding read_headers.simps [of n s] l
      by (simp add: Let_def split: if_splits option.splits sum.splits)
  qed (use 1(2) in \<open>simp add: read_headers.simps\<close>)
qed

lemma read_message_shrinks: "read_message p s = Inr (Some (v, rest)) \<Longrightarrow> length rest < length s"
  using read_headers_shrinks
  by (fastforce simp: read_message_def split: sum.splits option.splits prod.splits if_splits)

function serve_messages ::
  "'j mcp_env \<Rightarrow> 'w writer \<Rightarrow> byte list \<Rightarrow> sent \<times> 'w \<Rightarrow> (sent \<times> 'w) \<times> (string + unit)" where
  "serve_messages me wr s st =
    (case read_message (me_from_slice me) s of
       Inl e \<Rightarrow> (st, Inl e)
     | Inr None \<Rightarrow> (st, Inr ())
     | Inr (Some (request, rest)) \<Rightarrow>
         (let (sent, response) = handle_json_rpc me request (fst st)
          in case write_message (me_to_vec me) wr response (snd st) of
               (w, Inl e) \<Rightarrow> ((sent, w), Inl e)
             | (w, Inr _) \<Rightarrow> serve_messages me wr rest (sent, w)))"
  by pat_completeness auto

termination
  by (relation "measure (\<lambda>(_, _, s, _). length s)") (auto dest: read_message_shrinks)

declare serve_messages.simps [simp del]

definition run_stdio :: "'j mcp_env \<Rightarrow> 'w writer \<Rightarrow> byte list \<Rightarrow> 'w \<Rightarrow> (sent \<times> 'w) \<times> (string + unit)" where
  "run_stdio me wr input output =
    (case me_runtime me of
       Some e \<Rightarrow> (([], output), Inl e)
     | None \<Rightarrow> serve_messages me wr input ([], output))"

text \<open>The process: its output, what goes to the error stream, and the exit code.\<close>

definition mcp_main :: "'j mcp_env \<Rightarrow> 'w writer \<Rightarrow> byte list \<Rightarrow> 'w \<Rightarrow> (sent \<times> 'w) \<times> string \<times> nat" where
  "mcp_main me wr input output =
    (case run_stdio me wr input output of
       (st, Inr _) \<Rightarrow> (st, [], 0)
     | (st, Inl e) \<Rightarrow> (st, ''lmux-mcp: '' @ e, 1))"

end
