(* ===== verification/McpCalls.thy ===== *)
theory McpCalls
  imports McpServer BusHandler
begin

text \<open>
  What the MCP server does: framed messages are read back and answered in order, each with its request's
  id; the listed tools are the handled ones, with the arguments their schemas name; what a tool sends to
  the cockpit carries an identity and is let through; and a call over the socket is the cockpit's answer.
\<close>

section \<open>Framing\<close>

definition mcp_frame :: "byte list \<Rightarrow> byte list" where
  "mcp_frame body = map char_byte (frame_header (length body)) @ body"

lemma byte_char_byte [simp]: "byte_char (char_byte c) = c"
  by (simp add: byte_char_def char_byte_def unat_of_nat)

lemma map_byte_char_byte [simp]: "map byte_char (map char_byte s) = s"
  by (simp add: comp_def)

definition ascii :: "string \<Rightarrow> bool" where
  "ascii s = list_all (\<lambda>c. (of_char c :: nat) < 128) s"

lemma utf8_ascii: "ascii s \<Longrightarrow> utf8_ok (map char_byte s)"
proof (induction s)
  case (Cons c s)
  have "char_byte c < 0x80"
    using Cons.prems by (simp add: ascii_def char_byte_def word_less_nat_alt unat_of_nat)
  then show ?case using Cons by (simp add: ascii_def)
qed simp

lemma char_byte_lf: "char_byte c = 10 \<longleftrightarrow> c = CHR 0x0A"
proof
  assume "char_byte c = 10"
  then have "byte_char (char_byte c) = byte_char 10" by simp
  also have "\<dots> = CHR 0x0A" by (simp add: byte_char_def char_of_eq_iff)
  finally show "c = CHR 0x0A" by simp
qed (simp add: char_byte_def)

lemma take_line_chars:
  "CHR 0x0A \<notin> set l \<Longrightarrow> take_line (map char_byte l @ 10 # r) = (map char_byte (l @ [CHR 0x0A]), r)"
proof (induction l)
  case (Cons c l)
  then have "char_byte c \<noteq> 10" by (auto simp: char_byte_lf)
  then show ?case using Cons by simp
qed (simp add: char_byte_def)

lemma trim_line_end_crlf:
  "l \<noteq> [] \<Longrightarrow> last l \<noteq> CHR 0x0D \<Longrightarrow> last l \<noteq> CHR 0x0A \<Longrightarrow> trim_line_end (l @ [CHR 0x0D, CHR 0x0A]) = l"
  by (cases l rule: rev_cases) (simp_all add: trim_line_end_def)

text \<open>Digits are read back as they are printed.\<close>

lemma digits_of_show_nat: "c \<in> set (show_nat n) \<Longrightarrow> \<exists>d<10. c = digit_char d"
proof (induction n rule: show_nat.induct)
  case (1 n)
  have "\<exists>d<10. digit_char (n mod 10) = digit_char d" by (rule exI [of _ "n mod 10"]) simp
  then show ?case using 1 by (cases "n < 10") (auto simp: show_nat.simps [of n])
qed

lemma digit_char_code: "d < 10 \<Longrightarrow> (of_char (digit_char d) :: nat) = 48 + d"
  by (simp add: digit_char_def)

lemma show_nat_plain:
  assumes "c \<in> set (show_nat n)"
  shows "\<not> is_space c" "(of_char c :: nat) < 128" "c \<noteq> CHR ''+''"
proof -
  obtain d where d: "d < 10" "c = digit_char d" using digits_of_show_nat [OF assms] by blast
  have n: "(of_char c :: nat) = 48 + d" using d digit_char_code by simp
  show "(of_char c :: nat) < 128" using n d by simp
  have "(of_char x :: nat) = 48 + d" if "c = x" for x using n that by simp
  then show "\<not> is_space c" "c \<noteq> CHR ''+''" by (fastforce simp: is_space_def)+
qed

lemma parse_uint_append:
  "parse_uint_digits mx (xs @ ys) n =
    (case parse_uint_digits mx xs n of Inl e \<Rightarrow> Inl e | Inr m \<Rightarrow> parse_uint_digits mx ys m)"
  by (induction mx xs n rule: parse_uint_digits.induct) (simp_all split: option.split)

lemma parse_uint_show: "n \<le> mx \<Longrightarrow> parse_uint_digits mx (show_nat n) 0 = Inr n"
proof (induction n rule: show_nat.induct)
  case (1 n)
  show ?case
  proof (cases "n < 10")
    case True
    then show ?thesis using 1(2) by (simp add: show_nat.simps [of n])
  next
    case False
    then have "parse_uint_digits mx (show_nat (n div 10)) 0 = Inr (n div 10)" using 1 by simp
    then show ?thesis using False 1(2) by (simp add: show_nat.simps [of n] parse_uint_append)
  qed
qed

lemma trim_show_nat: "trim ('' '' @ show_nat n) = show_nat n"
proof -
  have "dropWhile is_space (show_nat n) = show_nat n"
    using show_nat_plain(1) [of "hd (show_nat n)" n] by (intro dropWhile_no_prefix) simp_all
  moreover have "dropWhile is_space (rev (show_nat n)) = rev (show_nat n)"
    using show_nat_plain(1) [of "last (show_nat n)" n] by (intro dropWhile_no_prefix) (simp_all add: hd_rev)
  ultimately show ?thesis by (simp add: trim_def is_space_def)
qed

lemma parse_usize_show: "n \<le> u64_max \<Longrightarrow> parse_usize (show_nat n) = Inr n"
  using show_nat_plain(3) [of "hd (show_nat n)" n] parse_uint_show [of n u64_max]
  by (auto simp: parse_usize_def)

lemma length_line: "header_name @ '' '' @ show_nat n \<noteq> []"
  by (simp add: header_name_def)

lemma header_line_plain:
  "CHR 0x0A \<notin> set (header_name @ '' '' @ show_nat n @ [CHR 0x0D])" "ascii (header_name @ '' '' @ show_nat n @ crlf)"
  "last (header_name @ '' '' @ show_nat n) \<noteq> CHR 0x0D" "last (header_name @ '' '' @ show_nat n) \<noteq> CHR 0x0A"
proof -
  have sp: "is_space (CHR 0x0D)" "is_space (CHR 0x0A)" by (simp_all add: is_space_def)
  have no: "CHR 0x0D \<notin> set (show_nat n)" "CHR 0x0A \<notin> set (show_nat n)" using show_nat_plain(1) sp by blast+
  have l: "last (header_name @ '' '' @ show_nat n) \<in> set (show_nat n)" by simp
  show "last (header_name @ '' '' @ show_nat n) \<noteq> CHR 0x0D" "last (header_name @ '' '' @ show_nat n) \<noteq> CHR 0x0A"
    using l no by metis+
  show "CHR 0x0A \<notin> set (header_name @ '' '' @ show_nat n @ [CHR 0x0D])" using no by (simp add: header_name_def)
  show "ascii (header_name @ '' '' @ show_nat n @ crlf)"
    using show_nat_plain(2) by (simp add: ascii_def header_name_def crlf_def list_all_iff)
qed

lemma read_headers_frame:
  assumes "n \<le> u64_max"
  shows "read_headers None (map char_byte (frame_header n) @ rest) = Inr (Some (Some n, rest))"
proof -
  let ?r = "map char_byte crlf @ rest"
  define l where "l = header_name @ '' '' @ show_nat n"
  have frame: "frame_header n = l @ crlf @ crlf" by (simp add: frame_header_def l_def)
  have l: "l \<noteq> []" "last l \<noteq> CHR 0x0D" "last l \<noteq> CHR 0x0A" "CHR 0x0A \<notin> set (l @ [CHR 0x0D])"
    using header_line_plain [of n] by (simp_all add: l_def)
  have ten: "char_byte (CHR 0x0A) = 10" by (simp add: char_byte_lf)
  have lf: "map char_byte crlf = [char_byte (CHR 0x0D), 10]" by (simp add: crlf_def ten)
  have line: "take_line (map char_byte (frame_header n) @ rest) = (map char_byte (l @ crlf), ?r)"
    using take_line_chars [OF l(4), of ?r] by (simp add: frame lf crlf_def ten)
  have name: "strip_prefix header_name l = Some ('' '' @ show_nat n)" by (simp add: strip_prefix_def l_def)
  have t1: "trim_line_end (map byte_char (map char_byte (l @ crlf))) = l"
    unfolding map_byte_char_byte crlf_def using l(1-3) by (rule trim_line_end_crlf)
  have u: "utf8_ok (map char_byte (l @ crlf))"
    using utf8_ascii [OF header_line_plain(2)] by (simp add: l_def)
  have ne: "map char_byte (frame_header n) @ rest \<noteq> []" using l(1) by (simp add: frame)
  have 1: "read_headers None (map char_byte (frame_header n) @ rest) = read_headers (Some n) ?r"
    unfolding read_headers.simps [of None "map char_byte (frame_header n) @ rest"] line prod.case Let_def t1 name
      option.case trim_show_nat parse_usize_show [OF assms] sum.case
    by (simp only: ne u l(1) if_False not_True_eq_False)
  have e: "take_line ?r = (map char_byte crlf, rest)" by (simp add: crlf_def char_byte_def)
  have 2: "trim_line_end (map byte_char (map char_byte crlf)) = []"
    unfolding map_byte_char_byte by (simp add: trim_line_end_def crlf_def)
  have "utf8_ok (map char_byte crlf)" by (rule utf8_ascii) (simp add: ascii_def crlf_def)
  then have "read_headers (Some n) ?r = Inr (Some (Some n, rest))"
    unfolding read_headers.simps [of "Some n" ?r] e prod.case Let_def 2 by (simp add: lf)
  then show ?thesis using 1 by simp
qed

lemma read_message_frame:
  assumes "length body \<le> MAX_MESSAGE_BYTES" "from_slice body = Inr v"
  shows "read_message from_slice (mcp_frame body @ rest) = Inr (Some (v, rest))"
proof -
  have "length body \<le> u64_max" using assms(1) by (simp add: MAX_MESSAGE_BYTES_def u64_max_def)
  from read_headers_frame [OF this, of "body @ rest"] show ?thesis
    using assms by (simp add: read_message_def mcp_frame_def)
qed

lemma write_message_buffer:
  "write_message to_vec buffer_writer v w =
    (if json_is_null v then (w, Inr ())
     else case to_vec v of Inl e \<Rightarrow> (w, Inl e) | Inr body \<Rightarrow> (w @ mcp_frame body, Inr ()))"
  by (simp add: write_message_def buffer_writer_def mcp_frame_def frame_header_def crlf_def split: sum.split)

section \<open>The server answers in order\<close>

text \<open>The responses to a list of requests, without any framing.\<close>

fun rpc_responses :: "'j mcp_env \<Rightarrow> json list \<Rightarrow> sent \<Rightarrow> sent \<times> json list" where
  "rpc_responses me [] sent = (sent, [])"
| "rpc_responses me (v # vs) sent =
    (let (sent1, r) = handle_json_rpc me v sent; (sent2, rs) = rpc_responses me vs sent1 in (sent2, r # rs))"

lemma rpc_reply_id [simp]: "json_get ''id'' (rpc_reply i r) = Some i"
  by (simp add: rpc_reply_def json_get_def hget_Cons split: sum.split)

lemma rpc_reply_not_null [simp]: "\<not> json_is_null (rpc_reply i r)"
  by (simp add: rpc_reply_def json_is_null_def split: sum.split)

lemma json_is_null_null: "json_is_null JNull"
  by (simp add: json_is_null_def)

lemma handle_json_rpc_cases:
  "if rpc_method v = ''notifications/initialized'' then handle_json_rpc me v sent = (sent, JNull)
   else (\<exists>sent' r. handle_json_rpc me v sent = (sent', rpc_reply (rpc_id v) r))"
  by (auto simp: handle_json_rpc_def Let_def split: prod.split)

lemma handle_json_rpc_null:
  "json_is_null (snd (handle_json_rpc me v sent)) \<longleftrightarrow> rpc_method v = ''notifications/initialized''"
  using handle_json_rpc_cases [of v me sent] json_is_null_null by (auto split: if_splits)

lemma handle_json_rpc_id:
  "rpc_method v \<noteq> ''notifications/initialized'' \<Longrightarrow>
    json_get ''id'' (snd (handle_json_rpc me v sent)) = Some (rpc_id v)"
  using handle_json_rpc_cases [of v me sent] by auto

lemma rpc_responses_length [simp]: "length (snd (rpc_responses me vs sent)) = length vs"
  by (induction vs arbitrary: sent) (simp_all add: case_prod_beta)

lemma rpc_responses_ids:
  "map (\<lambda>r. json_get ''id'' r) (filter (\<lambda>r. \<not> json_is_null r) (snd (rpc_responses me vs sent))) =
    map (\<lambda>v. Some (rpc_id v)) (filter (\<lambda>v. rpc_method v \<noteq> ''notifications/initialized'') vs)"
proof (induction vs arbitrary: sent)
  case (Cons v vs)
  obtain s1 r where r: "handle_json_rpc me v sent = (s1, r)" by (metis surj_pair)
  show ?case
    using Cons.IH [of s1] handle_json_rpc_null [of me v sent] handle_json_rpc_id [of v me sent]
    by (simp add: r case_prod_beta)
qed simp

definition printed :: "'j mcp_env \<Rightarrow> json list \<Rightarrow> byte list list \<Rightarrow> bool" where
  "printed me rs outs = list_all2 (\<lambda>r out. me_to_vec me r = Inr out) (filter (\<lambda>r. \<not> json_is_null r) rs) outs"

lemma serve_messages_frames:
  assumes "list_all2 (\<lambda>b v. me_from_slice me b = Inr v \<and> length b \<le> MAX_MESSAGE_BYTES) bs vs"
    and "printed me (snd (rpc_responses me vs sent)) outs"
  shows "serve_messages me buffer_writer (concat (map mcp_frame bs)) (sent, w) =
    ((fst (rpc_responses me vs sent), w @ concat (map mcp_frame outs)), Inr ())"
  using assms
proof (induction bs vs arbitrary: sent w outs rule: list_all2_induct)
  case Nil
  then show ?case by (simp add: serve_messages.simps read_message_def read_headers.simps printed_def)
next
  case (Cons b bs v vs)
  obtain s1 r where r: "handle_json_rpc me v sent = (s1, r)" by (metis surj_pair)
  obtain s2 rs where rs: "rpc_responses me vs s1 = (s2, rs)" by (metis surj_pair)
  have m: "read_message (me_from_slice me) (mcp_frame b @ concat (map mcp_frame bs)) =
      Inr (Some (v, concat (map mcp_frame bs)))"
    using Cons.hyps(1) read_message_frame by blast
  show ?case
  proof (cases "json_is_null r")
    case True
    then have "printed me (snd (rpc_responses me vs s1)) outs"
      using Cons.prems by (simp add: printed_def r rs)
    from Cons.IH [OF this] show ?thesis
      using True by (simp add: serve_messages.simps [of me _ "mcp_frame b @ _"] m r rs write_message_buffer)
  next
    case False
    then obtain out outs' where o: "outs = out # outs'" "me_to_vec me r = Inr out" "printed me rs outs'"
      using Cons.prems by (auto simp: printed_def r rs list_all2_Cons1)
    from Cons.IH [of s1 outs' "w @ mcp_frame out"] show ?thesis
      using False o by (simp add: serve_messages.simps [of me _ "mcp_frame b @ _"] m r rs write_message_buffer)
  qed
qed

text \<open>C10: Every request is answered, in order: for framed messages on its input the server writes exactly the
  framed responses, and the ids of the responses are those of the requests, one for one; only the
  \<open>notifications/initialized\<close> messages get none. The server ends without error when the input ends. Assumed is
  that the parser reads the messages, each within the limit, and the printer prints the responses.\<close>

theorem mcp_answers_in_order:
  assumes "me_runtime me = None"
    and "list_all2 (\<lambda>b v. me_from_slice me b = Inr v \<and> length b \<le> MAX_MESSAGE_BYTES) bs vs"
    and "printed me (snd (rpc_responses me vs [])) outs"
  shows "run_stdio me buffer_writer (concat (map mcp_frame bs)) [] =
      ((fst (rpc_responses me vs []), concat (map mcp_frame outs)), Inr ()) \<and>
    map (json_get ''id'') (filter (\<lambda>r. \<not> json_is_null r) (snd (rpc_responses me vs []))) =
      map (\<lambda>v. Some (rpc_id v)) (filter (\<lambda>v. rpc_method v \<noteq> ''notifications/initialized'') vs)"
  using serve_messages_frames [OF assms(2,3), of "[]"] rpc_responses_ids [of me vs "[]"] assms(1)
  by (simp add: run_stdio_def)

text \<open>Surroundings for the witness: one message is known, and every response prints as one byte.\<close>

definition tiny_mcp :: "kind mcp_env" where
  "tiny_mcp = \<lparr>me_client = (\<lambda>_. four_client LmuxMcp K_AnchorNew (K_Ok None) counting_handler 0), me_agent_id = None, me_agent_name = None, me_parse_uuid = (\<lambda>_. Inr 0),
     me_show_uuid = (\<lambda>_. []), me_decode_text = (\<lambda>_. ''bad''), me_pretty = (\<lambda>_. Inr ''ok''),
     me_from_slice = (\<lambda>b. if b = [5] then Inr (JObj [(''id'', JNum (PosInt 1)), (''method'', JStr ''ping'')])
       else if b = [6] then Inr (JObj [(''method'', JStr ''notifications/initialized'')]) else Inl ''no JSON''),
     me_to_vec = (\<lambda>_. Inr [9]), me_version = ''0'', me_runtime = None\<rparr>"

definition ping :: json where
  "ping = JObj [(''id'', JNum (PosInt 1)), (''method'', JStr ''ping'')]"

definition initialized :: json where
  "initialized = JObj [(''method'', JStr ''notifications/initialized'')]"

lemma tiny_rpc: "handle_json_rpc tiny_mcp ping [] = ([], rpc_reply (JNum (PosInt 1)) (Inl ''unsupported method: ping''))"
  "handle_json_rpc tiny_mcp initialized [] = ([], JNull)"
  by (simp_all add: handle_json_rpc_def rpc_method_def rpc_id_def json_get_def hget_Cons unwrap_or_def json_as_str_def
    Let_def ping_def initialized_def)

theorem mcp_answers_in_order_witness:
  "run_stdio tiny_mcp buffer_writer (concat (map mcp_frame [[6], [5], [6]])) [] = (([], mcp_frame [9]), Inr ())"
proof -
  have r: "rpc_responses tiny_mcp [initialized, ping, initialized] [] =
      ([], [JNull, rpc_reply (JNum (PosInt 1)) (Inl ''unsupported method: ping''), JNull])"
    by (simp add: tiny_rpc)
  have 1: "me_runtime tiny_mcp = None" by (simp add: tiny_mcp_def)
  have 2: "list_all2 (\<lambda>b v. me_from_slice tiny_mcp b = Inr v \<and> length b \<le> MAX_MESSAGE_BYTES) [[6], [5], [6]]
      [initialized, ping, initialized]"
    by (simp add: tiny_mcp_def ping_def initialized_def MAX_MESSAGE_BYTES_def)
  have 3: "printed tiny_mcp (snd (rpc_responses tiny_mcp [initialized, ping, initialized] [])) [[9]]"
    by (simp only: r) (simp add: printed_def json_is_null_null tiny_mcp_def)
  show ?thesis using mcp_answers_in_order [OF 1 2 3] r by simp
qed

text \<open>A notification other than that one is answered too, with a null id.\<close>

lemma other_notifications_answered:
  "json_get ''id'' v = None \<Longrightarrow> rpc_method v = ''notifications/cancelled'' \<Longrightarrow>
    handle_json_rpc me v sent = (sent, rpc_reply JNull (Inl ''unsupported method: notifications/cancelled''))"
  by (simp add: handle_json_rpc_def rpc_id_def unwrap_or_def Let_def)

section \<open>The loop ends\<close>

lemma read_headers_suffix: "read_headers n s = Inr (Some (m, rest)) \<Longrightarrow> \<exists>p. s = p @ rest"
proof (induction s arbitrary: n rule: length_induct)
  case (1 s)
  obtain l r where l: "take_line s = (l, r)" by (cases "take_line s")
  then have s: "s = l @ r" using take_line_append [of s] by simp
  show ?case
  proof (cases "s = []")
    case False
    then have "length r < length s" using l take_line_rest by metis
    then have "\<exists>p. s = p @ rest" if "read_headers n' r = Inr (Some (m, rest))" for n'
      using 1(1) that s by (metis append_assoc)
    then show ?thesis
      using 1(2) False s unfolding read_headers.simps [of n s] l
      by (auto simp: Let_def split: if_splits option.splits sum.splits)
  qed (use 1(2) in \<open>simp add: read_headers.simps\<close>)
qed

lemma read_message_suffix:
  "read_message p s = Inr (Some (v, rest)) \<Longrightarrow> \<exists>c. c \<noteq> [] \<and> s = c @ rest"
proof -
  assume r: "read_message p s = Inr (Some (v, rest))"
  then obtain n s1 where h: "read_headers None s = Inr (Some (n, s1))" "\<exists>c. s1 = c @ rest"
    by (auto simp: read_message_def split: sum.splits option.splits prod.splits if_splits)
      (metis append_take_drop_id)+
  then obtain a c where "s = a @ c @ rest" using read_headers_suffix [OF h(1)] by blast
  then show ?thesis using read_message_shrinks [OF r] by (intro exI [of _ "a @ c"]) auto
qed

text \<open>The server's loop ends on every input: each message read takes at least one byte and leaves the rest
  of the input as it was, so no infinite sequence of messages can be read.\<close>

theorem message_loop_terminates:
  "wf {(rest, s). \<exists>v. read_message from_slice s = Inr (Some (v, rest))} \<and>
    {(rest, s). \<exists>v. read_message from_slice s = Inr (Some (v, rest))} \<subseteq> {(rest, s). \<exists>c. c \<noteq> [] \<and> s = c @ rest}"
proof
  let ?R = "{(rest, s). \<exists>v. read_message from_slice s = Inr (Some (v, rest))}"
  have "?R \<subseteq> measure length" using read_message_shrinks by auto
  then show "wf ?R" using wf_subset wf_measure by blast
  show "?R \<subseteq> {(rest, s). \<exists>c. c \<noteq> [] \<and> s = c @ rest}" using read_message_suffix by blast
qed

section \<open>What a tool sends is let through\<close>

lemma decoded_Inr:
  "decoded text fs args f = Inr k \<longleftrightarrow> (\<exists>g. decode_struct fs args = Inr g \<and> f g = Inr k)"
  by (auto simp: decoded_def split: sum.split)

lemma pane_new_kind_Inr:
  "pane_new_kind pu agent f = Inr k \<Longrightarrow> \<exists>t p a n v u. k = K_PaneNew t p a n v agent u"
  by (auto simp: pane_new_kind_def split: sum.splits)

text \<open>Whatever tool is called with whatever arguments, the request that leaves the server is one the
  cockpit's admission lets an MCP client make: it carries an identity where one is needed, and it is
  never a grant's decision nor a second handshake.\<close>

theorem mcp_requests_are_admitted:
  assumes "kind_for_tool text pu name args (mcp_agent_from_env id_var name_var) = Inr k"
  shows "authorize_public_request \<lparr>rc_client = LmuxMcp, rc_pid = pid\<rparr> k = Inr () \<and> as_hello k = None"
  using assms
  by (auto simp: kind_for_tool_def decoded_Inr mcp_agent_from_env_def authorize_public_request_def is_grant_decide_def
    agent_sensitive_request_missing_identity_def as_hello_def dest!: pane_new_kind_Inr split: if_splits)

theorem mcp_requests_are_admitted_witness:
  "kind_for_tool (\<lambda>_. []) (\<lambda>_. Inr 5) ''pane_send'' (JArr [JStr ''u'', JStr ''ls'']) (mcp_agent_from_env (Some '' '') None) =
      Inr (K_PaneSendInput 5 ''ls'' (Some \<lparr>ag_id = ''lmux-mcp'', ag_name = Some ''lmux MCP''\<rparr>)) \<and>
    authorize_public_request \<lparr>rc_client = LmuxMcp, rc_pid = 1\<rparr>
      (K_PaneSendInput 5 ''ls'' (Some \<lparr>ag_id = ''lmux-mcp'', ag_name = Some ''lmux MCP''\<rparr>)) = Inr ()"
proof -
  have "kind_for_tool (\<lambda>_. []) (\<lambda>_. Inr 5) ''pane_send'' (JArr [JStr ''u'', JStr ''ls'']) (mcp_agent_from_env (Some '' '') None) =
      Inr (K_PaneSendInput 5 ''ls'' (Some \<lparr>ag_id = ''lmux-mcp'', ag_name = Some ''lmux MCP''\<rparr>))"
    by code_simp
  then show ?thesis using mcp_requests_are_admitted by blast
qed

section \<open>The tools are the described ones\<close>

definition tool_name :: "json \<Rightarrow> string" where
  "tool_name t = get_str (json_get ''name'' t)"

definition schema_part :: "string \<Rightarrow> json \<Rightarrow> json option" where
  "schema_part k t = (case json_get ''inputSchema'' t of Some sc \<Rightarrow> json_get k sc | None \<Rightarrow> None)"

definition tool_required :: "json \<Rightarrow> string list" where
  "tool_required t = get_strs (schema_part ''required'' t)"

definition tool_properties :: "json \<Rightarrow> string list" where
  "tool_properties t = (case schema_part ''properties'' t of Some (JObj m) \<Rightarrow> map fst m | _ \<Rightarrow> [])"

lemma described:
  "map (\<lambda>t. (tool_name t, tool_required t, tool_properties t)) tool_definitions =
    [(''anchor_list'', [], []),
     (''pane_new'', [], [''anchor'', ''placement'', ''activate'', ''title'', ''purpose'', ''argv'']),
     (''pane_tail'', [''pane_id''], [''pane_id'', ''lines'']),
     (''pane_capture'', [''pane_id''], [''pane_id'', ''since_sequence'', ''max_lines'']),
     (''pane_send'', [''pane_id'', ''text''], [''pane_id'', ''text'']),
     (''pane_rename'', [''pane_id'', ''title''], [''pane_id'', ''title'']),
     (''satellite_list_windows'', [], []),
     (''satellite_attach_window'', [''backend'', ''backend_window_id''],
       [''backend'', ''backend_window_id'', ''pid'', ''title'']),
     (''satellite_launch'', [''argv''], [''argv'', ''title_hint'', ''app_hint'', ''timeout_ms''])]"
  by (simp add: tool_definitions_def tool_def tool_name_def tool_required_def tool_properties_def schema_part_def
    schema_object_def json_get_def hget_Cons get_str_def get_strs_def)

lemma described_set:
  "(tool_name t, tool_required t, tool_properties t) \<in> set (map (\<lambda>t. (tool_name t, tool_required t, tool_properties t))
    tool_definitions)" if "t \<in> set tool_definitions"
  using that by (simp only: set_map image_iff) blast

text \<open>A struct reads the entries of its own fields only.\<close>

definition restricted :: "string list \<Rightarrow> (string \<times> json) list \<Rightarrow> (string \<times> json) list" where
  "restricted ks m = filter (\<lambda>(k, _). k \<in> set ks) m"

lemma hget_restricted [simp]: "hget (restricted ks m) k = (if k \<in> set ks then hget m k else None)"
  by (induction m) (auto simp: hget_Cons restricted_def)

lemma object_error_restricted: "object_error fs (restricted (map fst fs) m) = object_error fs m"
proof (induction m)
  case (Cons e m)
  obtain k v where e: "e = (k, v)" by (cases e)
  have "k \<notin> fst ` set fs \<Longrightarrow> map_of fs k = None" by (simp add: map_of_eq_None_iff)
  then show ?case using Cons by (auto simp: e restricted_def split: option.split)
qed (simp add: restricted_def)

lemma missing_error_restricted: "missing_error fs (restricted (map fst fs) m) = missing_error fs m"
proof -
  have "find (\<lambda>(k, opt, _). \<not> opt \<and> hget (restricted (map fst fs) m) k = None) fs' =
      find (\<lambda>(k, opt, _). \<not> opt \<and> hget m k = None) fs'" if "set fs' \<subseteq> set fs" for fs'
    using that by (induction fs') force+
  then show ?thesis by (simp add: missing_error_def)
qed

lemma decoded_object:
  assumes "decoded text fs (JObj m) f = Inr k" "map fst fs = ks" "map fst (filter (\<lambda>(_, opt, _). \<not> opt) fs) = req"
    and f: "f (hget (restricted ks m)) = f (hget m)"
  shows "list_all (\<lambda>r. hget m r \<noteq> None) req" "decoded text fs (JObj (restricted ks m)) f = Inr k"
proof -
  have d: "decode_struct fs (JObj m) = Inr (hget m)" "f (hget m) = Inr k"
    using assms(1) by (auto simp: decoded_Inr decode_struct_def or_fields_def split: option.splits)
  then have n: "missing_error fs m = None" "object_error fs m = None"
    by (auto simp: decode_struct_def or_fields_def split: option.splits)
  show "list_all (\<lambda>r. hget m r \<noteq> None) req"
    using n(1) by (force simp: assms(3) [symmetric] missing_error_def find_None_iff list_all_iff split: option.splits)
  have "decode_struct fs (JObj (restricted ks m)) = Inr (hget (restricted ks m))"
    using n by (simp add: decode_struct_def or_fields_def assms(2) [symmetric] object_error_restricted
      missing_error_restricted del: hget_restricted)
  then show "decoded text fs (JObj (restricted ks m)) f = Inr k"
    using f d(2) by (simp add: decoded_def)
qed

lemma tool_described:
  assumes "kind_for_tool text pu name (JObj m) agent = Inr k"
  obtains req ks where "(name, req, ks) \<in> set (map (\<lambda>t. (tool_name t, tool_required t, tool_properties t)) tool_definitions)"
    "list_all (\<lambda>r. hget m r \<noteq> None) req" "kind_for_tool text pu name (JObj (restricted ks m)) agent = Inr k"
proof -
  note found = that
  note fields = pane_new_fields_def pane_tail_fields_def pane_capture_fields_def pane_send_fields_def
      pane_rename_fields_def attach_window_fields_def launch_fields_def
  have direct: "kind_for_tool text pu name (JObj (restricted [] m)) agent = Inr k"
    if "name = ''anchor_list'' \<or> name = ''satellite_list_windows''"
    using that assms by (elim disjE) (simp_all add: kind_for_tool_def)
  have via: thesis
    if "(name, req, ks) \<in> set (map (\<lambda>t. (tool_name t, tool_required t, tool_properties t)) tool_definitions)"
      and "kind_for_tool text pu name = (\<lambda>args agent. decoded text fs args (f agent))"
      and "map fst fs = ks" "map fst (filter (\<lambda>(_, opt, _). \<not> opt) fs) = req"
      and "f agent (hget (restricted ks m)) = f agent (hget m)" for req ks fs f
  proof -
    have "decoded text fs (JObj m) (f agent) = Inr k" using assms by (simp add: that(2))
    from decoded_object [OF this that(3-5)] have d: "list_all (\<lambda>r. hget m r \<noteq> None) req"
      "decoded text fs (JObj (restricted ks m)) (f agent) = Inr k" .
    show thesis by (rule found [OF that(1) d(1)]) (simp add: that(2) d(2))
  qed
  have "(name = ''anchor_list'' \<or> name = ''satellite_list_windows'') \<or> name = ''pane_new'' \<or> name = ''pane_tail'' \<or>
      name = ''pane_capture'' \<or> name = ''pane_send'' \<or> name = ''pane_rename'' \<or> name = ''satellite_attach_window'' \<or>
      name = ''satellite_launch''"
  proof (rule ccontr)
    assume "\<not> ?thesis"
    then show False using assms by (simp add: kind_for_tool_def)
  qed
  then consider "name = ''anchor_list'' \<or> name = ''satellite_list_windows''" | "name = ''pane_new''" | "name = ''pane_tail''"
    | "name = ''pane_capture''" | "name = ''pane_send''" | "name = ''pane_rename''" | "name = ''satellite_attach_window''"
    | "name = ''satellite_launch''" by argo
  then show thesis
  proof cases
    case 1
    then show ?thesis using direct found [of "[]" "[]"] by (auto simp: described)
  qed (rule via, simp add: described, rule ext, rule ext, simp add: kind_for_tool_def, simp add: fields, simp add: fields,
      simp add: pane_new_kind_def cong: sum.case_cong)+
qed

text \<open>The list of tools describes the tools: a call that becomes a request names a listed tool, a call
  without an argument its schema requires is refused, and arguments its schema does not name change
  nothing.\<close>

theorem tools_are_as_described:
  assumes "kind_for_tool text pu name (JObj m) agent = Inr k"
  shows "\<exists>t \<in> set tool_definitions. tool_name t = name \<and> list_all (\<lambda>r. hget m r \<noteq> None) (tool_required t) \<and>
    kind_for_tool text pu name (JObj (restricted (tool_properties t) m)) agent = Inr k"
proof -
  obtain req ks where
    d: "(name, req, ks) \<in> set (map (\<lambda>t. (tool_name t, tool_required t, tool_properties t)) tool_definitions)"
      "list_all (\<lambda>r. hget m r \<noteq> None) req" "kind_for_tool text pu name (JObj (restricted ks m)) agent = Inr k"
    using assms by (rule tool_described)
  from d(1) obtain t where "t \<in> set tool_definitions" "name = tool_name t" "req = tool_required t" "ks = tool_properties t"
    unfolding set_map by auto
  then show ?thesis using d(2,3) by blast
qed

theorem tools_are_as_described_witness:
  "kind_for_tool (\<lambda>_. []) (\<lambda>_. Inr 5) ''pane_tail'' (JObj [(''x'', JNull), (''pane_id'', JStr ''u'')]) None =
      Inr (K_PaneTail 5 80 None) \<and>
    (\<exists>t \<in> set tool_definitions. tool_name t = ''pane_tail'' \<and>
      kind_for_tool (\<lambda>_. []) (\<lambda>_. Inr 5) ''pane_tail''
        (JObj (restricted (tool_properties t) [(''x'', JNull), (''pane_id'', JStr ''u'')])) None = Inr (K_PaneTail 5 80 None))"
proof -
  have "kind_for_tool (\<lambda>_. []) (\<lambda>_. Inr 5) ''pane_tail'' (JObj [(''x'', JNull), (''pane_id'', JStr ''u'')]) None =
      Inr (K_PaneTail 5 80 None)"
    by (simp add: kind_for_tool_def decoded_def decode_struct_def pane_tail_fields_def or_fields_def missing_error_def
      hget_Cons want_u32_def get_uuid_def get_opt_nat_def unwrap_or_def default_tail_lines_def)
  then show ?thesis using tools_are_as_described by blast
qed

text \<open>The handler accepts two window backends the schema of \<open>satellite_attach_window\<close> does not list.\<close>

lemma unlisted_backends_accepted:
  "want_variant (map fst backend_names) (JStr ''sway'') = None"
  "want_variant (map fst backend_names) (JStr ''hyprland'') = None"
  by (simp_all add: backend_names_def)

section \<open>A tool's call is the cockpit's answer\<close>

text \<open>C11: A tool's call over the socket is the cockpit's own answer: one connection is made, on it the
  handshake and the tool's request go out, the cockpit handles the request as an MCP client's, and the
  tool's result is its answer printed, or its error marked as one. Assumed is that the cockpit listens
  at the socket and that serde reads back the messages exchanged.\<close>

theorem tool_call_is_cockpits_answer:
  assumes "decode_struct tool_call_fields params = Inr f"
    and "kind_for_tool (me_decode_text me) (me_parse_uuid me) (get_str (f ''name'')) (unwrap_or (f ''arguments'') JNull)
      (mcp_agent_from_env (me_agent_id me) (me_agent_name me)) = Inr k"
    and "cockpit_listens (me_client me (length sent)) (cockpit_handler installed version) (ck, ws) LmuxMcp k b0 b"
  shows "handle_tool_call me params sent = (sent @ [encode_frame b0 @ encode_frame b],
    case client_view (snd (cockpit_handle installed
        \<lparr>rc_client = LmuxMcp, rc_pid = ce_pid (me_client me (length sent))\<rparr> k (ck, ws))) of
      Inr r \<Rightarrow> map_sum (\<lambda>e. e) tool_text (me_pretty me r)
    | Inl e \<Rightarrow> Inr (tool_error (bus_error_text (me_show_uuid me) e)))"
proof -
  obtain s where c: "connect_default (me_client me (length sent)) LmuxMcp = ((encode_frame b0, s), Inr version)"
    "request_on (me_client me (length sent)) k (encode_frame b0, s) = ((encode_frame b0 @ encode_frame b, []),
      client_view (snd (cockpit_handle installed
        \<lparr>rc_client = LmuxMcp, rc_pid = ce_pid (me_client me (length sent))\<rparr> k (ck, ws))))"
    using call_of_cockpit [OF assms(3)] by (auto simp: cockpit_handler_def)
  then show ?thesis
    by (simp add: handle_tool_call_def assms(1,2) call_cockpit_def Let_def split: sum.split)
qed

text \<open>A server whose socket a cockpit without windows listens at.\<close>

definition listing_world :: "bus_world \<Rightarrow> bus_world" where
  "listing_world bw = bw\<lparr>bw_can_list := True, bw_list := Inr []\<rparr>"

definition listing_mcp :: "bus_world \<Rightarrow> cockpit \<Rightarrow> kind mcp_env" where
  "listing_mcp bw ck = tiny_mcp\<lparr>me_client := (\<lambda>_. four_client LmuxMcp K_SatelliteListWindows (K_SatelliteListWindowsResult [])
     (cockpit_handler True ''0.2'') (ck, [listing_world bw]))\<rparr>"

theorem tool_call_is_cockpits_answer_witness:
  "\<forall>bw ck. handle_tool_call (listing_mcp bw ck) (JObj [(''name'', JStr ''satellite_list_windows'')]) [] =
    ([encode_frame [1] @ encode_frame [3]], Inr (tool_text ''ok''))"
proof (intro allI)
  fix bw ck
  let ?me = "listing_mcp bw ck" and ?params = "JObj [(''name'', JStr ''satellite_list_windows'')]"
    and ?h = "(ck, [listing_world bw])" and ?k = "K_SatelliteListWindows"
  have d: "decode_struct tool_call_fields ?params = Inr (hget [(''name'', JStr ''satellite_list_windows'')])"
    by (simp add: decode_struct_def tool_call_fields_def or_fields_def missing_error_def hget_Cons)
  have k: "kind_for_tool (me_decode_text ?me) (me_parse_uuid ?me)
      (get_str (hget [(''name'', JStr ''satellite_list_windows'')] ''name''))
      (unwrap_or (hget [(''name'', JStr ''satellite_list_windows'')] ''arguments'') JNull)
      (mcp_agent_from_env (me_agent_id ?me) (me_agent_name ?me)) = Inr ?k"
    by (simp add: kind_for_tool_def hget_Cons get_str_def)
  have a: "snd (cockpit_handle True \<lparr>rc_client = LmuxMcp, rc_pid = 4\<rparr> ?k ?h) = Inr (K_SatelliteListWindowsResult [])"
    by (simp add: cockpit_handle_def authorize_public_request_def is_grant_decide_def
      agent_sensitive_request_missing_identity_def handle_satellite_list_windows_def listing_world_def)
  have l: "cockpit_listens (me_client ?me (length ([] :: sent))) (cockpit_handler True ''0.2'') ?h LmuxMcp ?k [1] [3]"
    unfolding listing_mcp_def using a
    by (simp, intro four_listens) (simp_all add: is_greeting_def as_error_def cockpit_handler_def)
  have e: "ce_pid (me_client ?me (length ([] :: sent))) = 4" "me_pretty ?me = (\<lambda>_. Inr ''ok'')"
    by (simp_all add: listing_mcp_def four_client_def tiny_mcp_def)
  show "handle_tool_call ?me ?params [] = ([encode_frame [1] @ encode_frame [3]], Inr (tool_text ''ok''))"
    unfolding tool_call_is_cockpits_answer [OF d k l] e a by (simp add: client_view_def)
qed

end
