(* ===== verification/Cli.thy ===== *)
theory Cli
  imports Json BusClient SessionStore
begin

text \<open>
  The command line, \<open>crates/lmux-cli/src/main.rs\<close>: each subcommand, from its parsed arguments to the
  request it makes, what it prints, and its exit code. \<open>clap\<close>'s parsing of arguments, serde's printing,
  UUIDs, the file system and the start of programs are parameters. A run is given as the bytes written to
  the cockpit, the lines printed on the two streams, and the exit code.
\<close>

section \<open>Commands\<close>

datatype anchor_command = AC_List | AC_Active | AC_New | AC_Activate string | AC_Pause string | AC_Resume string
  | AC_Hide string | AC_Reattach string | AC_Untag string | AC_Tag string

record pane_new_options =
  po_anchor :: string
  po_tab :: bool
  po_split_right :: bool
  po_split_down :: bool
  po_name :: "string option"
  po_purpose :: "string option"
  po_activate :: bool
  po_argv :: "string list"

datatype pane_command = PC_List | PC_New pane_new_options | PC_Tail string nat
  | PC_Capture string "nat option" "nat option" | PC_Send string string bool | PC_Rename string string

record attach_window_options =
  aw_backend :: string
  aw_backend_window_id :: "string option"
  aw_pid :: "nat option"
  aw_window_id :: "int option"
  aw_window_index :: "nat option"
  aw_bundle_id :: "string option"
  aw_identity_kind :: "string option"
  aw_identity_value :: "string option"
  aw_title :: "string option"

datatype satellite_command = SC_Open string "string list" | SC_AttachFocused | SC_ListWindows
  | SC_AttachWindow attach_window_options

datatype mcp_selection = Sel_Auto | Sel_Codex | Sel_Claude

datatype mcp_format = Fmt_Json | Fmt_ClaudeProject | Fmt_CodexToml

datatype mcp_command = MC_Status | MC_Install mcp_selection bool | MC_PrintConfig mcp_format string string

datatype session_command = SS_List | SS_New string | SS_Rename string string | SS_Delete string | SS_Open string

datatype command = MarkAnchor | CapturePane string nat | SendKeys string "string list"
  | NewWindow string "string option" "string list" | Cmd_Session session_command | Cmd_Anchor anchor_command
  | Cmd_Pane pane_command | Cmd_Satellite satellite_command | Cmd_Mcp mcp_command | Cmd_Status

section \<open>Surroundings\<close>

record availability =
  ta_command :: string
  ta_path :: "string option"
  ta_available :: bool

text \<open>What is printed as JSON.\<close>

datatype printable = P_Anchors "anchor_summary list" | P_Active "anchor_summary option" | P_Created pane_new_result
  | P_Transcript transcript_range | P_Mcp availability availability availability | P_Value json

text \<open>A child process: not started, or ended with or without success and with a status to print.\<close>

datatype child = Child_Error string | Child_Ended bool string

record 'j cli_env =
  cl_client :: "'j client_env"
  cl_runtime :: "string option"
  cl_show_uuid :: "uuid \<Rightarrow> string"
  cl_parse_uuid :: "string \<Rightarrow> string + uuid"
  cl_agent_id :: "string option"
  cl_agent_name :: "string option"
  cl_pretty :: "printable \<Rightarrow> string + string"
  cl_state_home :: "string option"
  cl_root_exists :: bool
  cl_store :: store_env
  cl_disk :: disk
  cl_store_text :: "store_error \<Rightarrow> string"
  cl_path :: "string list option"
  cl_exe_dir :: "string option"
  cl_metadata :: "string \<Rightarrow> (bool \<times> 16 word) option"
  cl_run :: "string list \<Rightarrow> child"

datatype line = Out string | Err string

type_synonym run = "byte list \<times> line list \<times> nat"

definition cli_error :: "nat \<Rightarrow> string \<Rightarrow> run" where
  "cli_error code m = ([], [Err (''lmux-cli: '' @ m)], code)"

section \<open>Requests\<close>

definition run_bus_request :: "'j cli_env \<Rightarrow> kind \<Rightarrow> byte list \<times> (string + kind)" where
  "run_bus_request cl k =
    (let text = bus_error_text (cl_show_uuid cl) in
     case cl_runtime cl of
       Some e \<Rightarrow> ([], Inl e)
     | None \<Rightarrow> (case connect_default (cl_client cl) LmuxCli of
         ((w, s), Inl e) \<Rightarrow> (w, Inl (text e))
       | ((w, s), Inr _) \<Rightarrow> (case request_on (cl_client cl) k (w, s) of
           ((w1, _), Inl e) \<Rightarrow> (w1, Inl (text e))
         | ((w1, _), Inr r) \<Rightarrow> (w1, Inr r))))"

definition unexpected_text :: "'j cli_env \<Rightarrow> kind \<Rightarrow> string" where
  "unexpected_text cl r = ''unexpected bus response: '' @ ce_show (cl_client cl) r"

definition is_ok :: "kind \<Rightarrow> bool" where
  "is_ok r = (case r of K_Ok _ \<Rightarrow> True | _ \<Rightarrow> False)"

definition run_bus_write :: "'j cli_env \<Rightarrow> kind \<Rightarrow> byte list \<times> (string + unit)" where
  "run_bus_write cl k =
    (case run_bus_request cl k of
       (w, Inl e) \<Rightarrow> (w, Inl e)
     | (w, Inr r) \<Rightarrow> (w, if is_ok r then Inr () else Inl (unexpected_text cl r)))"

text \<open>
  The shape the commands share: the request, then what the expected reply prints; any other reply and any
  error is a line on the error stream and code 1.
\<close>

definition print_error :: "string \<Rightarrow> line list \<times> nat" where
  "print_error e = ([Err (''lmux-cli: '' @ e)], 1)"

definition unexpected_response :: "'j cli_env \<Rightarrow> kind \<Rightarrow> line list \<times> nat" where
  "unexpected_response cl r = print_error (unexpected_text cl r)"

definition query :: "'j cli_env \<Rightarrow> kind \<Rightarrow> (kind \<Rightarrow> (line list \<times> nat) option) \<Rightarrow> run" where
  "query cl k shown =
    (case run_bus_request cl k of
       (w, Inl e) \<Rightarrow> (w, print_error e)
     | (w, Inr r) \<Rightarrow> (w, case shown r of Some p \<Rightarrow> p | None \<Rightarrow> unexpected_response cl r))"

definition tell :: "'j cli_env \<Rightarrow> kind \<Rightarrow> string \<Rightarrow> run" where
  "tell cl k m =
    (case run_bus_write cl k of
       (w, Inr _) \<Rightarrow> (w, [Out m], 0)
     | (w, Inl e) \<Rightarrow> (w, print_error e))"

definition print_json :: "'j cli_env \<Rightarrow> printable \<Rightarrow> line list \<times> nat" where
  "print_json cl v =
    (case cl_pretty cl v of
       Inr s \<Rightarrow> ([Out s], 0)
     | Inl e \<Rightarrow> ([Err (''lmux-cli: json: '' @ e)], 1))"

definition with_uuid :: "'j cli_env \<Rightarrow> string \<Rightarrow> (uuid \<Rightarrow> run) \<Rightarrow> run" where
  "with_uuid cl s f =
    (case cl_parse_uuid cl s of Inl e \<Rightarrow> cli_error 2 (''invalid UUID: '' @ e) | Inr u \<Rightarrow> f u)"

definition filled :: "string option \<Rightarrow> string option" where
  "filled v = (case v of Some s \<Rightarrow> if trim s = [] then None else Some s | None \<Rightarrow> None)"

definition cli_agent_from_env :: "'j cli_env \<Rightarrow> agent_identity option" where
  "cli_agent_from_env cl =
    (case filled (cl_agent_id cl) of
       None \<Rightarrow> None
     | Some i \<Rightarrow> Some \<lparr>ag_id = i, ag_name = filled (cl_agent_name cl)\<rparr>)"

section \<open>Anchors\<close>

definition or_dash :: "string option \<Rightarrow> string" where
  "or_dash v = (case v of Some s \<Rightarrow> s | None \<Rightarrow> ''-'')"

definition anchor_line :: "'j cli_env \<Rightarrow> anchor_summary \<Rightarrow> line" where
  "anchor_line cl a = Out ((if as_active a then ''*'' else '' '') @ '' '' @ cl_show_uuid cl (as_anchor_id a) @ ''  pane='' @
     or_dash (map_option (cl_show_uuid cl) (as_pane_id a)) @ ''  '' @ as_label a)"

definition run_anchor_list :: "'j cli_env \<Rightarrow> bool \<Rightarrow> run" where
  "run_anchor_list cl json = query cl K_AnchorList (\<lambda>r. case r of
     K_AnchorListResult as \<Rightarrow> Some (if json then print_json cl (P_Anchors as)
       else if as = [] then ([Out ''(no anchors)''], 0) else (map (anchor_line cl) as, 0))
   | _ \<Rightarrow> None)"

definition run_anchor_active :: "'j cli_env \<Rightarrow> bool \<Rightarrow> run" where
  "run_anchor_active cl json = query cl K_AnchorList (\<lambda>r. case r of
     K_AnchorListResult as \<Rightarrow> (let active = find as_active as in Some (
       if json then print_json cl (P_Active active)
       else case active of Some a \<Rightarrow> ([Out (cl_show_uuid cl (as_anchor_id a))], 0)
            | None \<Rightarrow> print_error ''no active anchor''))
   | _ \<Rightarrow> None)"

definition run_anchor_new :: "'j cli_env \<Rightarrow> run" where
  "run_anchor_new cl = tell cl K_AnchorNew ''anchor created''"

definition run_anchor_activate :: "'j cli_env \<Rightarrow> string \<Rightarrow> run" where
  "run_anchor_activate cl s = with_uuid cl s (\<lambda>u. tell cl (K_AnchorActivate u) (''activated: '' @ s))"

definition run_anchor_pause :: "'j cli_env \<Rightarrow> string \<Rightarrow> run" where
  "run_anchor_pause cl s = with_uuid cl s (\<lambda>u. tell cl (K_AnchorPause u) (''paused: '' @ s))"

definition run_anchor_resume :: "'j cli_env \<Rightarrow> string \<Rightarrow> run" where
  "run_anchor_resume cl s = with_uuid cl s (\<lambda>u. tell cl (K_AnchorResume u) (''resumed: '' @ s))"

definition run_anchor_hide :: "'j cli_env \<Rightarrow> string \<Rightarrow> run" where
  "run_anchor_hide cl s = with_uuid cl s (\<lambda>u. tell cl (K_AnchorHide u) (''hidden: '' @ s))"

definition run_anchor_reattach :: "'j cli_env \<Rightarrow> string \<Rightarrow> run" where
  "run_anchor_reattach cl s = with_uuid cl s (\<lambda>u. tell cl (K_AnchorReattach u) (''reattached: '' @ s))"

definition run_anchor_untag :: "'j cli_env \<Rightarrow> string \<Rightarrow> run" where
  "run_anchor_untag cl s = with_uuid cl s (\<lambda>u. tell cl (K_AnchorUntag u) (''untagged: '' @ s))"

definition run_anchor_tag :: "'j cli_env \<Rightarrow> string \<Rightarrow> run" where
  "run_anchor_tag cl s = with_uuid cl s (\<lambda>u. tell cl (K_AnchorTag u) (''tagged: '' @ s))"

definition run_mark_anchor :: "'j cli_env \<Rightarrow> run" where
  "run_mark_anchor cl = query cl K_AnchorTagSelf (\<lambda>r. case r of
     K_AnchorTagSelfResult p \<Rightarrow> Some ([Out (''anchor: '' @ show_nat p)], 0) | _ \<Rightarrow> None)"

section \<open>Panes\<close>

definition show_placement :: "pane_placement \<Rightarrow> string" where
  "show_placement p = (case p of Tab \<Rightarrow> ''Tab'' | SplitRight \<Rightarrow> ''SplitRight'' | SplitDown \<Rightarrow> ''SplitDown'')"

definition pane_line :: "'j cli_env \<Rightarrow> pane_summary \<Rightarrow> line" where
  "pane_line cl p = Out (cl_show_uuid cl (ps_pane_id p) @ ''  '' @
     (case ps_anchor_id p of Some a \<Rightarrow> ''anchor '' @ cl_show_uuid cl a | None \<Rightarrow> ''pane'') @ ''  '' @
     or_dash (ps_cwd p))"

definition run_pane_list :: "'j cli_env \<Rightarrow> run" where
  "run_pane_list cl = query cl K_PaneList (\<lambda>r. case r of
     K_PaneListResult ps \<Rightarrow> Some (if ps = [] then [Out ''(no panes)''] else map (pane_line cl) ps, 0) | _ \<Rightarrow> None)"

definition placement_of :: "pane_new_options \<Rightarrow> pane_placement" where
  "placement_of o1 = (if po_tab o1 then Tab else if po_split_down o1 then SplitDown else SplitRight)"

definition request_new_pane :: "'j cli_env \<Rightarrow> bool \<Rightarrow> pane_new_options \<Rightarrow> uuid option \<Rightarrow> run" where
  "request_new_pane cl json o1 target = query cl
     (K_PaneNew target (placement_of o1) (po_activate o1) (po_name o1) (po_argv o1) (cli_agent_from_env cl)
       (po_purpose o1))
     (\<lambda>r. case r of
        K_PaneNewResult c \<Rightarrow> Some (if json then print_json cl (P_Created c)
          else ([Out (''pane: '' @ cl_show_uuid cl (pn_pane_id c) @ ''  anchor: '' @ cl_show_uuid cl (pn_anchor_id c) @
                  ''  placement: '' @ show_placement (pn_placement c))], 0))
      | _ \<Rightarrow> None)"

definition run_pane_new :: "'j cli_env \<Rightarrow> bool \<Rightarrow> pane_new_options \<Rightarrow> run" where
  "run_pane_new cl json o1 =
    (if po_anchor o1 = ''current'' then request_new_pane cl json o1 None
     else with_uuid cl (po_anchor o1) (\<lambda>u. request_new_pane cl json o1 (Some u)))"

definition print_transcript_range :: "'j cli_env \<Rightarrow> bool \<Rightarrow> transcript_range \<Rightarrow> line list \<times> nat" where
  "print_transcript_range cl json rg =
    (if json then print_json cl (P_Transcript rg)
     else ((if tr_truncated rg then [Err ''lmux-cli: transcript truncated before requested sequence''] else []) @
           map (\<lambda>l. Out (tl_text l)) (tr_lines rg), 0))"

definition shown_transcript :: "'j cli_env \<Rightarrow> bool \<Rightarrow> kind \<Rightarrow> (line list \<times> nat) option" where
  "shown_transcript cl json r =
    (case r of K_PaneTranscriptResult rg \<Rightarrow> Some (print_transcript_range cl json rg) | _ \<Rightarrow> None)"

definition run_pane_tail :: "'j cli_env \<Rightarrow> string \<Rightarrow> nat \<Rightarrow> bool \<Rightarrow> run" where
  "run_pane_tail cl s lines json = with_uuid cl s (\<lambda>u.
     query cl (K_PaneTail u lines (cli_agent_from_env cl)) (shown_transcript cl json))"

definition run_pane_capture :: "'j cli_env \<Rightarrow> string \<Rightarrow> nat option \<Rightarrow> nat option \<Rightarrow> bool \<Rightarrow> run" where
  "run_pane_capture cl s since max_lines json = with_uuid cl s (\<lambda>u.
     query cl (K_PaneCapture u since max_lines (cli_agent_from_env cl)) (shown_transcript cl json))"

definition newline :: string where
  "newline = [CHR 0x0A]"

definition run_pane_send :: "'j cli_env \<Rightarrow> string \<Rightarrow> string \<Rightarrow> bool \<Rightarrow> run" where
  "run_pane_send cl s txt enter = with_uuid cl s (\<lambda>u.
     tell cl (K_PaneSendInput u (if enter then txt @ newline else txt) (cli_agent_from_env cl)) (''sent: '' @ s))"

definition is_enter :: "string \<Rightarrow> bool" where
  "is_enter k = (k \<in> set [''Enter'', ''enter'', ''Return'', ''return''])"

definition push_key :: "string \<Rightarrow> string \<Rightarrow> string" where
  "push_key k txt =
    (if is_enter k then txt @ newline
     else if txt \<noteq> [] \<and> last txt \<noteq> CHR 0x0A then txt @ '' '' @ k else txt @ k)"

definition run_send_keys_alias :: "'j cli_env \<Rightarrow> string \<Rightarrow> string list \<Rightarrow> run" where
  "run_send_keys_alias cl s keys = run_pane_send cl s (fold push_key keys []) False"

definition run_pane_rename :: "'j cli_env \<Rightarrow> string \<Rightarrow> string \<Rightarrow> run" where
  "run_pane_rename cl s title = with_uuid cl s (\<lambda>u. tell cl (K_PaneRename u title True None) (''renamed: '' @ s))"

section \<open>Native windows\<close>

definition show_backend :: "window_backend \<Rightarrow> string" where
  "show_backend b = (case b of Macos \<Rightarrow> ''Macos'' | Kwin \<Rightarrow> ''Kwin'' | X11 \<Rightarrow> ''X11'' | Hyprland \<Rightarrow> ''Hyprland''
     | Sway \<Rightarrow> ''Sway'' | Noop \<Rightarrow> ''Noop'' | Unsupported \<Rightarrow> ''Unsupported'')"

definition format_app_identity :: "window_app_identity option \<Rightarrow> string" where
  "format_app_identity i =
    (case i of None \<Rightarrow> ''-''
     | Some (BundleId v) \<Rightarrow> ''bundle_id:'' @ v | Some (DesktopEntry v) \<Rightarrow> ''desktop_entry:'' @ v
     | Some (WmClass v) \<Rightarrow> ''wm_class:'' @ v | Some (AppId v) \<Rightarrow> ''app_id:'' @ v | Some (OtherApp v) \<Rightarrow> ''other:'' @ v)"

definition window_line :: "window_candidate \<Rightarrow> line" where
  "window_line w = Out (''backend='' @ show_backend (wc_backend w) @ '' backend_window_id='' @ wc_window_id w @ '' pid='' @
     or_dash (map_option show_nat (wc_pid w)) @ '' app='' @ format_app_identity (wc_app w) @ '' title='' @
     (case wc_title w of Some t \<Rightarrow> t | None \<Rightarrow> []))"

definition run_satellite_attach_focused :: "'j cli_env \<Rightarrow> run" where
  "run_satellite_attach_focused cl = tell cl K_SatelliteAttachFocused ''focused window attached''"

definition run_satellite_list_windows :: "'j cli_env \<Rightarrow> run" where
  "run_satellite_list_windows cl = query cl K_SatelliteListWindows (\<lambda>r. case r of
     K_SatelliteListWindowsResult ws \<Rightarrow> Some (map window_line ws, 0) | _ \<Rightarrow> None)"

definition parse_window_backend :: "string \<Rightarrow> string + window_backend" where
  "parse_window_backend s =
    (if s = ''macos'' then Inr Macos else if s = ''kwin'' then Inr Kwin else if s = ''x11'' then Inr X11
     else if s = ''hyprland'' then Inr Hyprland else if s = ''sway'' then Inr Sway else if s = ''noop'' then Inr Noop
     else if s = ''unsupported'' then Inr Unsupported else Inl (''unknown window backend: '' @ s))"

definition legacy_macos_backend_window_id :: "nat option \<Rightarrow> int option \<Rightarrow> nat option \<Rightarrow> string option" where
  "legacy_macos_backend_window_id pid window_id window_index =
    (case (pid, window_id, window_index) of
       (_, Some i, Some n) \<Rightarrow> Some (''macos-window-id:'' @ show_int i @ '':index:'' @ show_nat n)
     | (Some p, None, Some n) \<Rightarrow> Some (''macos-window-pid:'' @ show_nat p @ '':index:'' @ show_nat n)
     | _ \<Rightarrow> None)"

definition identity_of_kind :: "string \<Rightarrow> string \<Rightarrow> string + window_app_identity option" where
  "identity_of_kind k v =
    (if k \<in> set [''bundle_id'', ''bundle-id''] then Inr (Some (BundleId v))
     else if k \<in> set [''desktop_entry'', ''desktop-entry''] then Inr (Some (DesktopEntry v))
     else if k \<in> set [''wm_class'', ''wm-class''] then Inr (Some (WmClass v))
     else if k \<in> set [''app_id'', ''app-id''] then Inr (Some (AppId v))
     else if k = ''other'' then Inr (Some (OtherApp v))
     else Inl (''unknown app identity kind: '' @ k))"

definition parse_app_identity ::
  "string option \<Rightarrow> string option \<Rightarrow> string option \<Rightarrow> string + window_app_identity option" where
  "parse_app_identity bundle_id k v =
    (case bundle_id of
       Some b \<Rightarrow> Inr (Some (BundleId b))
     | None \<Rightarrow> (case k of
         None \<Rightarrow> Inr None
       | Some k1 \<Rightarrow> (case v of
           None \<Rightarrow> Inl ''--app-identity-value is required with --app-identity-kind''
         | Some v1 \<Rightarrow> identity_of_kind k1 v1)))"

definition run_satellite_attach_window :: "'j cli_env \<Rightarrow> attach_window_options \<Rightarrow> run" where
  "run_satellite_attach_window cl a =
    (case parse_window_backend (aw_backend a) of
       Inl e \<Rightarrow> cli_error 2 e
     | Inr backend \<Rightarrow>
       (case (case aw_backend_window_id a of Some i \<Rightarrow> Some i
              | None \<Rightarrow> legacy_macos_backend_window_id (aw_pid a) (aw_window_id a) (aw_window_index a)) of
          None \<Rightarrow> cli_error 2 ''--backend-window-id is required''
        | Some i \<Rightarrow>
          (case parse_app_identity (aw_bundle_id a) (aw_identity_kind a) (aw_identity_value a) of
             Inl e \<Rightarrow> cli_error 2 e
           | Inr app \<Rightarrow> tell cl (K_SatelliteAttachWindow
               \<lparr>wc_backend = backend, wc_window_id = i, wc_pid = aw_pid a, wc_app = app, wc_title = aw_title a,
                wc_workspace = None, wc_output = None\<rparr> (cli_agent_from_env cl)) ''window attached'')))"

definition run_satellite_open :: "'j cli_env \<Rightarrow> string \<Rightarrow> string list \<Rightarrow> run" where
  "run_satellite_open cl target argv =
    (case cl_parse_uuid cl target of
       Inl e \<Rightarrow> cli_error 2 (''invalid target UUID: '' @ e)
     | Inr u \<Rightarrow> tell cl (K_SatelliteOpen argv u True) ''satellite spawned'')"

section \<open>Sessions and status\<close>

definition run_session_new :: "'j cli_env \<Rightarrow> string \<Rightarrow> run" where
  "run_session_new cl name = tell cl (K_SessionNew name) (''session: '' @ name)"

definition run_session_rename :: "'j cli_env \<Rightarrow> string \<Rightarrow> string \<Rightarrow> run" where
  "run_session_rename cl from to = tell cl (K_SessionRename from to) (''renamed: '' @ from @ '' -> '' @ to)"

definition run_session_delete :: "'j cli_env \<Rightarrow> string \<Rightarrow> run" where
  "run_session_delete cl name = tell cl (K_SessionDelete name) (''deleted: '' @ name)"

definition run_session_open :: "'j cli_env \<Rightarrow> string \<Rightarrow> run" where
  "run_session_open cl name = tell cl (K_SessionOpen name) (''opened: '' @ name)"

definition try_session_list_via_bus :: "'j cli_env \<Rightarrow> byte list \<times> (string + (string \<times> nat) list)" where
  "try_session_list_via_bus cl =
    (case run_bus_request cl K_SessionList of
       (w, Inl e) \<Rightarrow> (w, Inl e)
     | (w, Inr r) \<Rightarrow> (w, case r of
         K_SessionListResult ss \<Rightarrow> Inr (map (\<lambda>s. (ss_name s, ss_created_at s)) ss)
       | _ \<Rightarrow> Inl (''unexpected bus response for session.list: '' @ ce_show (cl_client cl) r)))"

text \<open>Reading the store sets a damaged index aside, so the files are part of the result.\<close>

definition try_session_list_via_store :: "'j cli_env \<Rightarrow> disk \<times> (string + (string \<times> nat) list)" where
  "try_session_list_via_store cl =
    (case cl_state_home cl of
       None \<Rightarrow> (cl_disk cl, Inl ''XDG_STATE_HOME / HOME not set; cannot locate sessions dir'')
     | Some _ \<Rightarrow> if \<not> cl_root_exists cl then (cl_disk cl, Inr [])
       else (case store_list (cl_store cl) (cl_disk cl) of
           (d, Inl e) \<Rightarrow> (d, Inl (cl_store_text cl e))
         | (d, Inr es) \<Rightarrow> (d, Inr (map (\<lambda>e. (ie_name e, ie_last_opened_at e)) es))))"

definition print_session_list :: "(string \<times> nat) list \<Rightarrow> line list" where
  "print_session_list es =
    (if es = [] then [Out ''(no sessions)''] else map (\<lambda>(name, ts). Out (show_nat ts @ [CHR 0x09] @ name)) es)"

definition run_session_list :: "'j cli_env \<Rightarrow> disk \<times> run" where
  "run_session_list cl =
    (case try_session_list_via_bus cl of
       (w, Inr es) \<Rightarrow> (cl_disk cl, w, print_session_list es, 0)
     | (w, Inl _) \<Rightarrow> (case try_session_list_via_store cl of
         (d, Inr es) \<Rightarrow> (d, w, print_session_list es, 0) | (d, Inl e) \<Rightarrow> (d, w, print_error e)))"

definition show_compositor :: "compositor_state \<Rightarrow> string" where
  "show_compositor c = (case c of Online \<Rightarrow> ''Online'' | Offline \<Rightarrow> ''Offline'')"

definition status_lines :: "status_snapshot \<Rightarrow> line list" where
  "status_lines s =
    [Out (''cockpit_version: '' @ st_cockpit_version s), Out (''pid: '' @ show_int (st_pid s)),
     Out (''sessions: '' @ show_nat (st_session_count s)), Out (''anchors: '' @ show_nat (st_anchor_count s)),
     Out (''compositor: '' @ show_compositor (st_compositor s)),
     Out (''satellites: ok='' @ show_nat (st_satellite_spawn_ok s) @ '' fail='' @ show_nat (st_satellite_spawn_fail s))]"

definition run_status :: "'j cli_env \<Rightarrow> run" where
  "run_status cl = query cl K_StatusGet (\<lambda>r. case r of
     K_StatusGetResult s \<Rightarrow> Some (status_lines s, 0) | _ \<Rightarrow> None)"

section \<open>The MCP adapter\<close>

definition is_executable_file :: "'j cli_env \<Rightarrow> string \<Rightarrow> bool" where
  "is_executable_file cl path =
    (case cl_metadata cl path of
       None \<Rightarrow> False
     | Some (is_file, mode) \<Rightarrow> if \<not> is_file then False else mode AND 0x49 \<noteq> 0)"

definition find_in_path :: "'j cli_env \<Rightarrow> string \<Rightarrow> string option" where
  "find_in_path cl c =
    (if CHR ''/'' \<in> set c then (if is_executable_file cl c then Some c else None)
     else case cl_path cl of
       None \<Rightarrow> None
     | Some dirs \<Rightarrow> find (is_executable_file cl) (map (\<lambda>d. path_join d c) dirs))"

definition lmux_mcp_next_to_current_exe :: "'j cli_env \<Rightarrow> string option" where
  "lmux_mcp_next_to_current_exe cl =
    (case cl_exe_dir cl of
       None \<Rightarrow> None
     | Some dir \<Rightarrow> (let c = path_join dir ''lmux-mcp'' in if is_executable_file cl c then Some c else None))"

definition tool_availability :: "'j cli_env \<Rightarrow> string \<Rightarrow> availability" where
  "tool_availability cl c =
    (let path = find_in_path cl c in \<lparr>ta_command = c, ta_path = path, ta_available = (path \<noteq> None)\<rparr>)"

definition lmux_mcp_availability :: "'j cli_env \<Rightarrow> availability" where
  "lmux_mcp_availability cl =
    (let path = (case find_in_path cl ''lmux-mcp'' of Some p \<Rightarrow> Some p | None \<Rightarrow> lmux_mcp_next_to_current_exe cl)
     in \<lparr>ta_command = ''lmux-mcp'', ta_path = path, ta_available = (path \<noteq> None)\<rparr>)"

definition tool_status :: "string \<Rightarrow> availability \<Rightarrow> line" where
  "tool_status label t =
    Out (label @ '': '' @ (if ta_available t then ''found'' else ''missing'') @ '' ('' @ or_dash (ta_path t) @ '')'')"

definition run_mcp_status :: "'j cli_env \<Rightarrow> bool \<Rightarrow> line list \<times> nat" where
  "run_mcp_status cl json =
    (let m = lmux_mcp_availability cl; x = tool_availability cl ''codex''; c = tool_availability cl ''claude'' in
     if json then print_json cl (P_Mcp m x c)
     else ([tool_status ''lmux-mcp'' m, tool_status ''codex'' x, tool_status ''claude'' c], 0))"

datatype mcp_client = Codex | Claude

definition client_name :: "mcp_client \<Rightarrow> string" where
  "client_name c = (case c of Codex \<Rightarrow> ''codex'' | Claude \<Rightarrow> ''claude'')"

definition install_command :: "mcp_client \<Rightarrow> string \<Rightarrow> string list" where
  "install_command c lmux_mcp_command =
    (case c of
       Codex \<Rightarrow> [''codex'', ''mcp'', ''add'', ''--env'', ''LMUX_AGENT_ID=codex'', ''--env'', ''LMUX_AGENT_NAME=Codex'',
         ''lmux'', ''--'']
     | Claude \<Rightarrow> [''claude'', ''mcp'', ''add'', ''--scope'', ''user'', ''-e'', ''LMUX_AGENT_ID=claude'', ''-e'',
         ''LMUX_AGENT_NAME=Claude'', ''lmux'', ''--'']) @ [lmux_mcp_command]"

definition selected_mcp_clients :: "mcp_selection \<Rightarrow> mcp_client list" where
  "selected_mcp_clients sel = (case sel of Sel_Auto \<Rightarrow> [Codex, Claude] | Sel_Codex \<Rightarrow> [Codex] | Sel_Claude \<Rightarrow> [Claude])"

definition plain_byte :: "char \<Rightarrow> bool" where
  "plain_byte c = (let n = of_char c :: nat in
     (48 \<le> n \<and> n \<le> 57) \<or> (65 \<le> n \<and> n \<le> 90) \<or> (97 \<le> n \<and> n \<le> 122) \<or> c \<in> set ''/._-:='')"

definition shell_char :: "char \<Rightarrow> string" where
  "shell_char c = (if c = CHR 0x27 then [CHR 0x27, CHR 0x5C, CHR 0x27, CHR 0x27] else [c])"

definition cli_shell_quote :: "string \<Rightarrow> string" where
  "cli_shell_quote arg =
    (if arg \<noteq> [] \<and> list_all plain_byte arg then arg
     else [CHR 0x27] @ concat (map shell_char arg) @ [CHR 0x27])"

fun cli_join :: "string \<Rightarrow> string list \<Rightarrow> string" where
  "cli_join sep [] = []"
| "cli_join sep [x] = x"
| "cli_join sep (x # y # xs) = x @ sep @ cli_join sep (y # xs)"

definition cli_shell_command_line :: "string list \<Rightarrow> string" where
  "cli_shell_command_line argv = cli_join '' '' (map cli_shell_quote argv)"

text \<open>
  Installing: what is printed, the commands started, how many clients were tried, and whether one failed.
  A client named on the command line that is not there ends the run.
\<close>

record install_state =
  is_lines :: "line list"
  is_started :: "string list list"
  is_attempted :: nat
  is_failed :: bool

definition install_result :: "'j cli_env \<Rightarrow> mcp_client \<Rightarrow> string list \<Rightarrow> line \<times> bool" where
  "install_result cl c cmd =
    (case cl_run cl cmd of
       Child_Ended ok status \<Rightarrow>
         if ok then (Out (''installed lmux MCP for '' @ client_name c), False)
         else (Err (''lmux-cli: '' @ client_name c @ '' exited with '' @ status), True)
     | Child_Error e \<Rightarrow> (Err (''lmux-cli: failed to run '' @ hd cmd @ '': '' @ e), True))"

fun install_clients ::
  "'j cli_env \<Rightarrow> mcp_selection \<Rightarrow> string \<Rightarrow> mcp_client list \<Rightarrow> install_state \<Rightarrow> install_state \<times> bool" where
  "install_clients cl sel exe [] st = (st, True)"
| "install_clients cl sel exe (c # cs) st =
    (let cmd = install_command c exe in
     if \<not> ta_available (tool_availability cl (hd cmd))
     then (if sel \<noteq> Sel_Auto
           then (st\<lparr>is_lines := is_lines st @ [Err (''lmux-cli: '' @ hd cmd @ '' not found in PATH'')]\<rparr>, False)
           else install_clients cl sel exe cs st)
     else (let (l, bad) = install_result cl c cmd in
       install_clients cl sel exe cs \<lparr>is_lines = is_lines st @ [l], is_started = is_started st @ [cmd],
         is_attempted = is_attempted st + 1, is_failed = (is_failed st \<or> bad)\<rparr>))"

definition run_mcp_install :: "'j cli_env \<Rightarrow> mcp_selection \<Rightarrow> bool \<Rightarrow> string list list \<times> line list \<times> nat" where
  "run_mcp_install cl sel dry_run =
    (let m = lmux_mcp_availability cl; exe = (case ta_path m of Some p \<Rightarrow> p | None \<Rightarrow> ''lmux-mcp'') in
     if dry_run
     then ([], map (\<lambda>c. Out (cli_shell_command_line (install_command c exe))) (selected_mcp_clients sel), 0)
     else if \<not> ta_available m
     then ([], print_error ''lmux-mcp not found in PATH or next to lmux-cli; build/install lmux-mcp first'')
     else (case install_clients cl sel exe (selected_mcp_clients sel)
             \<lparr>is_lines = [], is_started = [], is_attempted = 0, is_failed = False\<rparr> of
         (st, False) \<Rightarrow> (is_started st, is_lines st, 1)
       | (st, True) \<Rightarrow>
           if is_attempted st = 0
           then (is_started st, is_lines st @ [Err ''lmux-cli: no supported MCP clients found in PATH''], 1)
           else (is_started st, is_lines st, if is_failed st then 1 else 0)))"

definition toml_escape :: "string \<Rightarrow> string" where
  "toml_escape s = concat (map (\<lambda>c. if c = CHR 0x22 then [CHR 0x5C, CHR 0x22] else [c])
     (concat (map (\<lambda>c. if c = CHR 0x5C then [CHR 0x5C, CHR 0x5C] else [c]) s)))"

definition toml_line :: "string \<Rightarrow> string \<Rightarrow> string" where
  "toml_line key v = key @ '' = '' @ [CHR 0x22] @ toml_escape v @ [CHR 0x22]"

definition run_mcp_print_config :: "'j cli_env \<Rightarrow> mcp_format \<Rightarrow> string \<Rightarrow> string \<Rightarrow> line list \<times> nat" where
  "run_mcp_print_config cl fmt agent_id agent_name =
    (let c = (case ta_path (lmux_mcp_availability cl) of Some p \<Rightarrow> p | None \<Rightarrow> ''lmux-mcp'') in
     case fmt of
       Fmt_CodexToml \<Rightarrow>
         ([Out ''[mcp_servers.lmux]'', Out (toml_line ''command'' c), Out ''args = []'',
           Out ''[mcp_servers.lmux.env]'', Out (toml_line ''LMUX_AGENT_ID'' agent_id),
           Out (toml_line ''LMUX_AGENT_NAME'' agent_name)], 0)
     | _ \<Rightarrow> print_json cl (P_Value (JObj [(''mcpServers'', JObj [(''lmux'', JObj
         [(''command'', JStr c), (''args'', JArr []),
          (''env'', JObj [(''LMUX_AGENT_ID'', JStr agent_id), (''LMUX_AGENT_NAME'', JStr agent_name)])])])])))"

section \<open>The command\<close>

text \<open>Every command: what it leaves on disk, the programs it starts, and its run.\<close>

definition plain :: "'j cli_env \<Rightarrow> run \<Rightarrow> disk \<times> string list list \<times> run" where
  "plain cl r = (cl_disk cl, [], r)"

definition cli_main :: "'j cli_env \<Rightarrow> bool \<Rightarrow> command \<Rightarrow> disk \<times> string list list \<times> run" where
  "cli_main cl json c =
    (case c of
       MarkAnchor \<Rightarrow> plain cl (run_mark_anchor cl)
     | CapturePane target lines \<Rightarrow> plain cl (run_pane_tail cl target lines json)
     | SendKeys target keys \<Rightarrow> plain cl (run_send_keys_alias cl target keys)
     | NewWindow target name argv \<Rightarrow> plain cl (run_pane_new cl json
         \<lparr>po_anchor = target, po_tab = True, po_split_right = False, po_split_down = False, po_name = name,
          po_purpose = None, po_activate = True, po_argv = argv\<rparr>)
     | Cmd_Session SS_List \<Rightarrow> (let (d, r) = run_session_list cl in (d, [], r))
     | Cmd_Session (SS_New name) \<Rightarrow> plain cl (run_session_new cl name)
     | Cmd_Session (SS_Rename from to) \<Rightarrow> plain cl (run_session_rename cl from to)
     | Cmd_Session (SS_Delete name) \<Rightarrow> plain cl (run_session_delete cl name)
     | Cmd_Session (SS_Open name) \<Rightarrow> plain cl (run_session_open cl name)
     | Cmd_Anchor AC_List \<Rightarrow> plain cl (run_anchor_list cl json)
     | Cmd_Anchor AC_Active \<Rightarrow> plain cl (run_anchor_active cl json)
     | Cmd_Anchor AC_New \<Rightarrow> plain cl (run_anchor_new cl)
     | Cmd_Anchor (AC_Activate u) \<Rightarrow> plain cl (run_anchor_activate cl u)
     | Cmd_Anchor (AC_Pause u) \<Rightarrow> plain cl (run_anchor_pause cl u)
     | Cmd_Anchor (AC_Resume u) \<Rightarrow> plain cl (run_anchor_resume cl u)
     | Cmd_Anchor (AC_Hide u) \<Rightarrow> plain cl (run_anchor_hide cl u)
     | Cmd_Anchor (AC_Reattach u) \<Rightarrow> plain cl (run_anchor_reattach cl u)
     | Cmd_Anchor (AC_Untag u) \<Rightarrow> plain cl (run_anchor_untag cl u)
     | Cmd_Anchor (AC_Tag u) \<Rightarrow> plain cl (run_anchor_tag cl u)
     | Cmd_Pane PC_List \<Rightarrow> plain cl (run_pane_list cl)
     | Cmd_Pane (PC_New o1) \<Rightarrow> plain cl (run_pane_new cl json o1)
     | Cmd_Pane (PC_Tail u lines) \<Rightarrow> plain cl (run_pane_tail cl u lines json)
     | Cmd_Pane (PC_Capture u since max_lines) \<Rightarrow> plain cl (run_pane_capture cl u since max_lines json)
     | Cmd_Pane (PC_Send u txt enter) \<Rightarrow> plain cl (run_pane_send cl u txt enter)
     | Cmd_Pane (PC_Rename u title) \<Rightarrow> plain cl (run_pane_rename cl u title)
     | Cmd_Satellite (SC_Open target argv) \<Rightarrow> plain cl (run_satellite_open cl target argv)
     | Cmd_Satellite SC_AttachFocused \<Rightarrow> plain cl (run_satellite_attach_focused cl)
     | Cmd_Satellite SC_ListWindows \<Rightarrow> plain cl (run_satellite_list_windows cl)
     | Cmd_Satellite (SC_AttachWindow a) \<Rightarrow> plain cl (run_satellite_attach_window cl a)
     | Cmd_Mcp MC_Status \<Rightarrow> plain cl ([], run_mcp_status cl json)
     | Cmd_Mcp (MC_Install sel dry_run) \<Rightarrow>
         (let (started, r) = run_mcp_install cl sel dry_run in (cl_disk cl, started, [], r))
     | Cmd_Mcp (MC_PrintConfig fmt i n) \<Rightarrow> plain cl ([], run_mcp_print_config cl fmt i n)
     | Cmd_Status \<Rightarrow> plain cl (run_status cl))"

end
