(* ===== verification/CliRuns.thy ===== *)
theory CliRuns
  imports Cli BusReplies
begin

text \<open>
  What the command line does: bad arguments reach nobody; against a running cockpit the exit code says
  whether the request was done, and no reply is unexpected; the list of sessions is the same with and
  without a cockpit; and the configuration printed for Codex is read back by TOML.
\<close>

section \<open>The request of a command\<close>

definition uuid_request :: "'j cli_env \<Rightarrow> string \<Rightarrow> (uuid \<Rightarrow> kind) \<Rightarrow> kind option" where
  "uuid_request cl s f = (case cl_parse_uuid cl s of Inl _ \<Rightarrow> None | Inr u \<Rightarrow> Some (f u))"

definition pane_request :: "'j cli_env \<Rightarrow> pane_new_options \<Rightarrow> kind option" where
  "pane_request cl o1 =
    (let f = (\<lambda>t. K_PaneNew t (placement_of o1) (po_activate o1) (po_name o1) (po_argv o1) (cli_agent_from_env cl)
        (po_purpose o1))
     in if po_anchor o1 = ''current'' then Some (f None) else uuid_request cl (po_anchor o1) (\<lambda>u. f (Some u)))"

definition attach_request :: "'j cli_env \<Rightarrow> attach_window_options \<Rightarrow> kind option" where
  "attach_request cl a =
    (case (parse_window_backend (aw_backend a),
           case aw_backend_window_id a of Some i \<Rightarrow> Some i
           | None \<Rightarrow> legacy_macos_backend_window_id (aw_pid a) (aw_window_id a) (aw_window_index a),
           parse_app_identity (aw_bundle_id a) (aw_identity_kind a) (aw_identity_value a)) of
       (Inr b, Some i, Inr app) \<Rightarrow> Some (K_SatelliteAttachWindow
           \<lparr>wc_backend = b, wc_window_id = i, wc_pid = aw_pid a, wc_app = app, wc_title = aw_title a,
            wc_workspace = None, wc_output = None\<rparr> (cli_agent_from_env cl))
     | _ \<Rightarrow> None)"

text \<open>The request each command of the bus stands for, when its arguments are valid.\<close>

definition cli_request :: "'j cli_env \<Rightarrow> command \<Rightarrow> kind option" where
  "cli_request cl c =
    (case c of
       MarkAnchor \<Rightarrow> Some K_AnchorTagSelf
     | CapturePane s n \<Rightarrow> uuid_request cl s (\<lambda>u. K_PaneTail u n (cli_agent_from_env cl))
     | SendKeys s keys \<Rightarrow> uuid_request cl s (\<lambda>u. K_PaneSendInput u (fold push_key keys []) (cli_agent_from_env cl))
     | NewWindow s name argv \<Rightarrow> pane_request cl
         \<lparr>po_anchor = s, po_tab = True, po_split_right = False, po_split_down = False, po_name = name,
          po_purpose = None, po_activate = True, po_argv = argv\<rparr>
     | Cmd_Session SS_List \<Rightarrow> Some K_SessionList
     | Cmd_Session (SS_New name) \<Rightarrow> Some (K_SessionNew name)
     | Cmd_Session (SS_Rename from to) \<Rightarrow> Some (K_SessionRename from to)
     | Cmd_Session (SS_Delete name) \<Rightarrow> Some (K_SessionDelete name)
     | Cmd_Session (SS_Open name) \<Rightarrow> Some (K_SessionOpen name)
     | Cmd_Anchor AC_List \<Rightarrow> Some K_AnchorList
     | Cmd_Anchor AC_Active \<Rightarrow> Some K_AnchorList
     | Cmd_Anchor AC_New \<Rightarrow> Some K_AnchorNew
     | Cmd_Anchor (AC_Activate s) \<Rightarrow> uuid_request cl s K_AnchorActivate
     | Cmd_Anchor (AC_Pause s) \<Rightarrow> uuid_request cl s K_AnchorPause
     | Cmd_Anchor (AC_Resume s) \<Rightarrow> uuid_request cl s K_AnchorResume
     | Cmd_Anchor (AC_Hide s) \<Rightarrow> uuid_request cl s K_AnchorHide
     | Cmd_Anchor (AC_Reattach s) \<Rightarrow> uuid_request cl s K_AnchorReattach
     | Cmd_Anchor (AC_Untag s) \<Rightarrow> uuid_request cl s K_AnchorUntag
     | Cmd_Anchor (AC_Tag s) \<Rightarrow> uuid_request cl s K_AnchorTag
     | Cmd_Pane PC_List \<Rightarrow> Some K_PaneList
     | Cmd_Pane (PC_New o1) \<Rightarrow> pane_request cl o1
     | Cmd_Pane (PC_Tail s n) \<Rightarrow> uuid_request cl s (\<lambda>u. K_PaneTail u n (cli_agent_from_env cl))
     | Cmd_Pane (PC_Capture s since mx) \<Rightarrow> uuid_request cl s (\<lambda>u. K_PaneCapture u since mx (cli_agent_from_env cl))
     | Cmd_Pane (PC_Send s txt enter) \<Rightarrow> uuid_request cl s (\<lambda>u. K_PaneSendInput u
         (if enter then txt @ newline else txt) (cli_agent_from_env cl))
     | Cmd_Pane (PC_Rename s title) \<Rightarrow> uuid_request cl s (\<lambda>u. K_PaneRename u title True None)
     | Cmd_Satellite (SC_Open s argv) \<Rightarrow> uuid_request cl s (\<lambda>u. K_SatelliteOpen argv u True)
     | Cmd_Satellite SC_AttachFocused \<Rightarrow> Some K_SatelliteAttachFocused
     | Cmd_Satellite SC_ListWindows \<Rightarrow> Some K_SatelliteListWindows
     | Cmd_Satellite (SC_AttachWindow a) \<Rightarrow> attach_request cl a
     | Cmd_Mcp _ \<Rightarrow> None
     | Cmd_Status \<Rightarrow> Some K_StatusGet)"

definition is_mcp :: "command \<Rightarrow> bool" where
  "is_mcp c = (case c of Cmd_Mcp _ \<Rightarrow> True | _ \<Rightarrow> False)"

lemmas cli_runs = run_mark_anchor_def run_pane_tail_def run_send_keys_alias_def run_pane_new_def run_session_new_def
  run_session_rename_def run_session_delete_def run_session_open_def run_anchor_list_def run_anchor_active_def
  run_anchor_new_def run_anchor_activate_def run_anchor_pause_def run_anchor_resume_def run_anchor_hide_def
  run_anchor_reattach_def run_anchor_untag_def run_anchor_tag_def run_pane_list_def run_pane_capture_def
  run_pane_send_def run_pane_rename_def run_satellite_open_def run_satellite_attach_focused_def
  run_satellite_list_windows_def run_satellite_attach_window_def run_status_def

text \<open>Bad arguments reach nobody: a command that stands for no request, because a UUID, a window backend,
  a window id or an app identity is missing or not readable, writes no byte to the cockpit, starts no
  program, changes no file, prints one line on the error stream and exits with code 2.\<close>

theorem bad_arguments_send_nothing:
  assumes "cli_request cl c = None" "\<not> is_mcp c"
  shows "\<exists>m. cli_main cl json c = (cl_disk cl, [], [], [Err (''lmux-cli: '' @ m)], 2)"
  using assms
  by (auto simp: cli_request_def cli_main_def cli_runs plain_def uuid_request_def with_uuid_def cli_error_def
      pane_request_def attach_request_def is_mcp_def Let_def
      split: command.splits session_command.splits anchor_command.splits pane_command.splits
        satellite_command.splits sum.splits option.splits if_splits)

text \<open>Surroundings for the witnesses: no UUID is readable, nothing listens, nothing is on disk.\<close>

definition lonely_cli :: "kind cli_env" where
  "lonely_cli = \<lparr>cl_client = \<lparr>ce_serde = byte_serde, ce_writer = buffer_writer, ce_show = (\<lambda>_. []), ce_xdg = Some ''/run'',
       ce_dial = (\<lambda>_. Inl (OtherIo ''refused'')), ce_pid = 4, ce_hello_id = 7, ce_request_id = 7\<rparr>,
     cl_runtime = None, cl_show_uuid = (\<lambda>_. []), cl_parse_uuid = (\<lambda>_. Inl ''bad''), cl_agent_id = None, cl_agent_name = None,
     cl_pretty = (\<lambda>_. Inr ''{}''), cl_state_home = Some ''/s'', cl_root_exists = False, cl_store = tiny_env,
     cl_disk = empty_disk, cl_store_text = (\<lambda>_. []), cl_path = None, cl_exe_dir = None, cl_metadata = (\<lambda>_. None),
     cl_run = (\<lambda>_. Child_Error [])\<rparr>"

theorem bad_arguments_send_nothing_witness:
  "\<exists>m. cli_main lonely_cli True (Cmd_Pane (PC_Send ''x'' ''ls'' True)) =
    (empty_disk, [], [], [Err (''lmux-cli: '' @ m)], 2)"
  using bad_arguments_send_nothing [of lonely_cli "Cmd_Pane (PC_Send ''x'' ''ls'' True)" True]
  by (simp add: cli_request_def uuid_request_def is_mcp_def lonely_cli_def)

section \<open>Against a running cockpit\<close>

lemma run_bus_request_cockpit:
  assumes "cockpit_listens (cl_client cl) hl h LmuxCli k b0 b" "cl_runtime cl = None"
  shows "run_bus_request cl k = (encode_frame b0 @ encode_frame b,
    case client_view (snd (hd_handle hl \<lparr>rc_client = LmuxCli, rc_pid = ce_pid (cl_client cl)\<rparr> k h)) of
      Inl e \<Rightarrow> Inl (bus_error_text (cl_show_uuid cl) e) | Inr r \<Rightarrow> Inr r)"
proof -
  obtain s where c: "connect_default (cl_client cl) LmuxCli = ((encode_frame b0, s), Inr (hd_version hl))"
    "request_on (cl_client cl) k (encode_frame b0, s) = ((encode_frame b0 @ encode_frame b, []),
      client_view (snd (hd_handle hl \<lparr>rc_client = LmuxCli, rc_pid = ce_pid (cl_client cl)\<rparr> k h)))"
    using call_of_cockpit [OF assms(1)] by blast
  then show ?thesis using assms(2) by (simp add: run_bus_request_def Let_def split: sum.split)
qed

text \<open>What the shape of a command gives, from the kinds of replies.\<close>

definition done_or_refused ::
  "'j cli_env \<Rightarrow> byte list \<Rightarrow> bus_error + kind \<Rightarrow> run \<Rightarrow> bool" where
  "done_or_refused cl sent x r \<longleftrightarrow>
    (case x of
       Inr _ \<Rightarrow> (\<exists>ls. r = (sent, ls, 0))
     | Inl e \<Rightarrow> r = (sent, [Err (''lmux-cli: '' @ bus_error_text (cl_show_uuid cl) e)], 1))"

text \<open>The request's bytes went out and \<open>x\<close> was the cockpit's answer.\<close>

definition asked :: "'j cli_env \<Rightarrow> kind \<Rightarrow> byte list \<Rightarrow> bus_error + kind \<Rightarrow> bool" where
  "asked cl k sent x \<longleftrightarrow> typed_reply k x \<and> run_bus_request cl k =
    (sent, case client_view x of Inl e \<Rightarrow> Inl (bus_error_text (cl_show_uuid cl) e) | Inr r \<Rightarrow> Inr r)"

lemma query_done:
  assumes "asked cl k sent x" "\<And>r. answers k r \<Longrightarrow> \<exists>ls. shown r = Some (ls, 0)"
  shows "done_or_refused cl sent (client_view x) (query cl k shown)"
  using assms
  by (cases x) (fastforce simp: asked_def done_or_refused_def client_view_def query_def typed_reply_def print_error_def)+

lemma tell_done:
  assumes "asked cl k sent x" "\<And>r. answers k r \<Longrightarrow> is_ok r"
  shows "done_or_refused cl sent (client_view x) (tell cl k m)"
  using assms
  by (cases x) (auto simp: asked_def done_or_refused_def client_view_def tell_def run_bus_write_def typed_reply_def
    print_error_def)

lemma answers_iff:
  "answers K_StatusGet r \<longleftrightarrow> (\<exists>x. r = K_StatusGetResult x)"
  "answers K_PaneList r \<longleftrightarrow> (\<exists>x. r = K_PaneListResult x)"
  "answers (K_PaneNew t p a n v g u) r \<longleftrightarrow> (\<exists>x. r = K_PaneNewResult x)"
  "answers (K_PaneTail i l g) r \<longleftrightarrow> (\<exists>x. r = K_PaneTranscriptResult x)"
  "answers (K_PaneCapture i f m g) r \<longleftrightarrow> (\<exists>x. r = K_PaneTranscriptResult x)"
  "answers K_AnchorList r \<longleftrightarrow> (\<exists>x. r = K_AnchorListResult x)"
  "answers K_AnchorTagSelf r \<longleftrightarrow> (\<exists>x. r = K_AnchorTagSelfResult x)"
  "answers K_SatelliteListWindows r \<longleftrightarrow> (\<exists>x. r = K_SatelliteListWindowsResult x)"
  by (cases r; simp)+

definition plain_command :: "command \<Rightarrow> bool" where
  "plain_command c = (case c of Cmd_Anchor AC_Active \<Rightarrow> False | Cmd_Session SS_List \<Rightarrow> False | _ \<Rightarrow> True)"

lemma command_done:
  assumes "cli_request cl c = Some k" "plain_command c" "asked cl k sent x"
  shows "cli_main cl False c = (cl_disk cl, [], snd (snd (cli_main cl False c))) \<and>
    done_or_refused cl sent (client_view x) (snd (snd (cli_main cl False c)))"
  using assms
  by (auto simp: cli_request_def cli_main_def cli_runs plain_def uuid_request_def with_uuid_def pane_request_def
      attach_request_def request_new_pane_def shown_transcript_def print_transcript_range_def plain_command_def
      is_ok_def Let_def answers_iff answers.simps(11-28) simp del: answers.simps(1-8,10)
      intro!: tell_done query_done
      split: command.splits session_command.splits anchor_command.splits pane_command.splits
        satellite_command.splits sum.splits option.splits if_splits)

lemma asked_cockpit:
  assumes "cockpit_listens (cl_client cl) (cockpit_handler installed version) h LmuxCli k b0 b" "cl_runtime cl = None"
  shows "asked cl k (encode_frame b0 @ encode_frame b)
    (snd (cockpit_handle installed \<lparr>rc_client = LmuxCli, rc_pid = ce_pid (cl_client cl)\<rparr> k h))"
  using run_bus_request_cockpit [OF assms]
    typed_cockpit_reply [of k installed "\<lparr>rc_client = LmuxCli, rc_pid = ce_pid (cl_client cl)\<rparr>" h]
  by (simp add: asked_def cockpit_handler_def)

text \<open>C19: Against a running cockpit the exit code tells what happened: a command whose request the cockpit
  did exits with 0, one whose request it refused prints the cockpit's error and exits with 1, and no
  command meets a reply it does not expect. The cockpit sees the handshake and the one request. (The
  active anchor, the list of sessions and JSON output have exits of their own.)\<close>

theorem exit_code_tells_the_reply:
  assumes "cli_request cl c = Some k" "plain_command c" "cl_runtime cl = None"
    and "cockpit_listens (cl_client cl) (cockpit_handler installed version) h LmuxCli k b0 b"
  shows "case client_view (snd (cockpit_handle installed \<lparr>rc_client = LmuxCli, rc_pid = ce_pid (cl_client cl)\<rparr> k h)) of
      Inr _ \<Rightarrow> \<exists>ls. cli_main cl False c = (cl_disk cl, [], encode_frame b0 @ encode_frame b, ls, 0)
    | Inl e \<Rightarrow> cli_main cl False c = (cl_disk cl, [], encode_frame b0 @ encode_frame b,
        [Err (''lmux-cli: '' @ bus_error_text (cl_show_uuid cl) e)], 1)"
  using command_done [OF assms(1,2) asked_cockpit [OF assms(4,3)]]
  by (auto simp: done_or_refused_def split: sum.splits)

text \<open>A cockpit without windows, asked for them.\<close>

definition quiet_world :: "bus_world \<Rightarrow> bus_world" where
  "quiet_world bw = bw\<lparr>bw_can_list := True, bw_list := Inr []\<rparr>"

definition listing_cli :: "bus_world \<Rightarrow> cockpit \<Rightarrow> kind cli_env" where
  "listing_cli bw ck = lonely_cli\<lparr>cl_client := four_client LmuxCli K_SatelliteListWindows (K_SatelliteListWindowsResult [])
     (cockpit_handler True ''0.2'') (ck, [quiet_world bw])\<rparr>"

theorem exit_code_tells_the_reply_witness:
  "\<forall>bw ck. \<exists>ls. cli_main (listing_cli bw ck) False (Cmd_Satellite SC_ListWindows) =
    (empty_disk, [], encode_frame [1] @ encode_frame [3], ls, 0)"
proof (intro allI)
  fix bw ck
  let ?h = "(ck, [quiet_world bw])" and ?k = "K_SatelliteListWindows" and ?c = "Cmd_Satellite SC_ListWindows"
    and ?cl = "listing_cli bw ck"
  have a: "snd (cockpit_handle True \<lparr>rc_client = LmuxCli, rc_pid = 4\<rparr> ?k ?h) = Inr (K_SatelliteListWindowsResult [])"
    by (simp add: cockpit_handle_def authorize_public_request_def is_grant_decide_def
      handle_satellite_list_windows_def quiet_world_def)
  have e: "ce_pid (cl_client ?cl) = 4" "cl_runtime ?cl = None" "cl_disk ?cl = empty_disk"
    by (simp_all add: listing_cli_def lonely_cli_def four_client_def)
  have l: "cockpit_listens (cl_client ?cl) (cockpit_handler True ''0.2'') ?h LmuxCli ?k [1] [3]"
    unfolding listing_cli_def using a
    by (simp, intro four_listens) (simp_all add: is_greeting_def as_error_def cockpit_handler_def)
  have r: "cli_request ?cl ?c = Some ?k" "plain_command ?c" by (simp_all add: cli_request_def plain_command_def)
  show "\<exists>ls. cli_main ?cl False ?c = (empty_disk, [], encode_frame [1] @ encode_frame [3], ls, 0)"
    using exit_code_tells_the_reply [OF r e(2) l] unfolding e a by (simp add: client_view_def)
qed

section \<open>The list of sessions\<close>

text \<open>The list of sessions is the same with and without a cockpit: when the cockpit's store is the one the
  command would read itself, and it can be read, \<open>session list\<close> prints the same lines with the same exit
  code through the bus as from the files when nothing listens.\<close>

theorem session_list_same_offline:
  assumes "cockpit_listens (cl_client cl) (cockpit_handler installed version) (ck, bw # ws) LmuxCli K_SessionList b0 b"
    and "cl_runtime cl = None" "cl_state_home cl = Some home" "cl_root_exists cl = bw_root_exists bw"
    and "cl_store cl = bw_store bw" "cl_disk cl = ck_disk ck" "listed_sessions bw ck = (ck', Inr es)"
    and "ce_dial off = (\<lambda>_. Inl e)"
  shows "snd (snd (run_session_list cl)) = snd (snd (run_session_list (cl\<lparr>cl_client := off\<rparr>)))"
proof -
  have h: "snd (cockpit_handle installed \<lparr>rc_client = LmuxCli, rc_pid = ce_pid (cl_client cl)\<rparr> K_SessionList (ck, bw # ws)) =
      Inr (K_SessionListResult (map (\<lambda>e. \<lparr>ss_name = ie_name e, ss_created_at = ie_last_opened_at e,
        ss_last_active = Some (ie_last_opened_at e)\<rparr>) es))"
    using assms(7) by (simp add: cockpit_handle_def authorize_public_request_def is_grant_decide_def
      handle_session_list_def)
  have on: "run_session_list cl = (cl_disk cl, encode_frame b0 @ encode_frame b,
      print_session_list (map (\<lambda>e. (ie_name e, ie_last_opened_at e)) es), 0)"
    using run_bus_request_cockpit [OF assms(1,2)] h
    by (simp add: run_session_list_def try_session_list_via_bus_def cockpit_handler_def client_view_def comp_def)
  have store: "snd (try_session_list_via_store (cl\<lparr>cl_client := off\<rparr>)) =
      Inr (map (\<lambda>e. (ie_name e, ie_last_opened_at e)) es)"
    using assms(3-7) by (auto simp: try_session_list_via_store_def listed_sessions_def split: if_splits prod.splits)
  obtain x where "connect_default off LmuxCli = (([], []), Inl x)"
    using assms(8) by (cases "bus_socket_path (ce_xdg off)") (simp_all add: connect_default_def connect_path_def)
  then have "\<exists>w x. try_session_list_via_bus (cl\<lparr>cl_client := off\<rparr>) = (w, Inl x)"
    using assms(2) by (simp add: try_session_list_via_bus_def run_bus_request_def Let_def)
  then show ?thesis
    using on store by (auto simp: run_session_list_def split: prod.splits sum.splits)
qed

theorem session_list_same_offline_witness:
  "\<forall>bw ck. let cl = lonely_cli\<lparr>cl_client := four_client LmuxCli K_SessionList (K_SessionListResult [])
        (cockpit_handler True ''0.2'') (ck\<lparr>ck_disk := empty_disk\<rparr>, [bw\<lparr>bw_root_exists := False, bw_store := tiny_env\<rparr>])\<rparr>
    in snd (snd (run_session_list cl)) = snd (snd (run_session_list (cl\<lparr>cl_client := cl_client lonely_cli\<rparr>)))"
proof (intro allI)
  fix bw :: bus_world and ck :: cockpit
  let ?ck = "ck\<lparr>ck_disk := empty_disk\<rparr>" and ?bw = "bw\<lparr>bw_root_exists := False, bw_store := tiny_env\<rparr>"
  let ?cl = "lonely_cli\<lparr>cl_client := four_client LmuxCli K_SessionList (K_SessionListResult []) (cockpit_handler True ''0.2'')
    (?ck, [?bw])\<rparr>"
  have s: "listed_sessions ?bw ?ck = (?ck, Inr [])" by (simp add: listed_sessions_def)
  have a: "snd (cockpit_handle True \<lparr>rc_client = LmuxCli, rc_pid = 4\<rparr> K_SessionList (?ck, [?bw])) =
      Inr (K_SessionListResult [])"
    by (simp add: cockpit_handle_def authorize_public_request_def is_grant_decide_def handle_session_list_def s)
  have l: "cockpit_listens (cl_client ?cl) (cockpit_handler True ''0.2'') (?ck, [?bw]) LmuxCli K_SessionList [1] [3]"
    using a by (simp, intro four_listens) (simp_all add: is_greeting_def as_error_def cockpit_handler_def)
  have e: "cl_runtime ?cl = None" "cl_state_home ?cl = Some ''/s''" "cl_root_exists ?cl = bw_root_exists ?bw"
    "cl_store ?cl = bw_store ?bw" "cl_disk ?cl = ck_disk ?ck"
    "ce_dial (cl_client lonely_cli) = (\<lambda>_. Inl (OtherIo ''refused''))"
    by (simp_all add: lonely_cli_def)
  show "let cl = ?cl in snd (snd (run_session_list cl)) =
      snd (snd (run_session_list (cl\<lparr>cl_client := cl_client lonely_cli\<rparr>)))"
    unfolding Let_def by (rule session_list_same_offline [OF l e(1-5) s e(6)])
qed

section \<open>Printed configurations\<close>

text \<open>
  A TOML basic string after its opening quote, without the escapes by code point: no control character but
  the tab may stand in it.
\<close>

definition toml_control :: "char \<Rightarrow> bool" where
  "toml_control c = (let n = of_char c :: nat in (n < 32 \<and> n \<noteq> 9) \<or> n = 127)"

definition toml_unescape :: "char \<Rightarrow> char option" where
  "toml_unescape c = map_of [(CHR ''b'', CHR 0x08), (CHR ''t'', CHR 0x09), (CHR ''n'', CHR 0x0A), (CHR ''f'', CHR 0x0C),
     (CHR ''r'', CHR 0x0D), (CHR 0x22, CHR 0x22), (CHR 0x5C, CHR 0x5C)] c"

fun toml_string :: "string \<Rightarrow> string option" where
  "toml_string [] = None"
| "toml_string (c # s) =
    (if c = CHR 0x22 then (if s = [] then Some [] else None)
     else if c = CHR 0x5C
     then (case s of
         [] \<Rightarrow> None
       | d # s1 \<Rightarrow> (case toml_unescape d of None \<Rightarrow> None | Some x \<Rightarrow> map_option (\<lambda>r. x # r) (toml_string s1)))
     else if toml_control c then None
     else map_option (\<lambda>r. c # r) (toml_string s))"

lemma toml_escape_Nil [simp]: "toml_escape [] = []"
  by (simp add: toml_escape_def)

lemma toml_escape_Cons [simp]:
  "toml_escape (c # s) = (if c = CHR 0x22 then [CHR 0x5C, CHR 0x22] else if c = CHR 0x5C then [CHR 0x5C, CHR 0x5C]
    else [c]) @ toml_escape s"
  by (simp add: toml_escape_def)

text \<open>The values in the printed Codex configuration are read back by TOML as they are exactly when they
  contain no control character; with one (a line feed in an agent's name) the printed file is not TOML.\<close>

theorem toml_reads_back_values:
  "toml_string (toml_escape v @ [CHR 0x22]) = (if list_all (\<lambda>c. \<not> toml_control c) v then Some v else None)"
proof (induction v)
  case (Cons c v)
  have "\<not> toml_control (CHR 0x22)" "\<not> toml_control (CHR 0x5C)" by (simp_all add: toml_control_def)
  then show ?case using Cons by (auto simp: toml_unescape_def)
qed simp

end
