(* ===== verification/ShellWords.thy ===== *)
theory ShellWords
  imports AppAgents Cli
begin

text \<open>
  The shell quoting of \<open>crates/lmux/src/state.rs\<close> (a new pane's command is typed into its shell) and of
  \<open>crates/lmux-cli/src/main.rs\<close> (printed commands), against how a POSIX shell reads a line with one simple
  command. The reading is the specification here, from the standard (XCU 2.2 quoting, 2.3 tokens, 2.4
  reserved words, 2.9.1 and 2.10.2 assignments): nothing of the repository is a shell.
\<close>

section \<open>A shell's tokens\<close>

text \<open>
  Blanks separate tokens, a single quote opens a part that is taken as it is up to the next one, a
  backslash takes the next character; any other character with a meaning of its own ends the attempt,
  and so does a control character anywhere, which the terminal or its line editor acts on. A character of a token
  is kept with whether it was quoted.
\<close>

type_synonym sh_token = "(char \<times> bool) list"

datatype sh_mode = Between | Word sh_token | Quoted sh_token | Escaped sh_token

definition sh_special :: "char \<Rightarrow> bool" where
  "sh_special c = (c \<in> set [CHR ''|'', CHR ''&'', CHR '';'', CHR ''<'', CHR ''>'', CHR ''('', CHR '')'', CHR ''$'', CHR 0x60,
     CHR 0x22, CHR ''*'', CHR ''?'', CHR ''['', CHR ''#'', CHR 0x7E, CHR ''%'', CHR ''!'', CHR ''{'', CHR ''}''])"

definition sh_control :: "char \<Rightarrow> bool" where
  "sh_control c = (let n = of_char c :: nat in n < 32 \<or> n = 127)"

definition sh_open :: "sh_mode \<Rightarrow> sh_token" where
  "sh_open m = (case m of Between \<Rightarrow> [] | Word w \<Rightarrow> w | Quoted w \<Rightarrow> w | Escaped w \<Rightarrow> w)"

fun sh_tokens :: "sh_mode \<Rightarrow> string \<Rightarrow> sh_token list option" where
  "sh_tokens Between [] = Some []"
| "sh_tokens (Word w) [] = Some [w]"
| "sh_tokens (Quoted w) [] = None"
| "sh_tokens (Escaped w) [] = None"
| "sh_tokens (Quoted w) (c # s) =
    (if sh_control c then None
     else if c = CHR 0x27 then sh_tokens (Word w) s else sh_tokens (Quoted (w @ [(c, True)])) s)"
| "sh_tokens (Escaped w) (c # s) = (if sh_control c then None else sh_tokens (Word (w @ [(c, True)])) s)"
| "sh_tokens m (c # s) =
    (if sh_control c then None
     else if c = CHR '' '' then (case m of Word w \<Rightarrow> map_option (\<lambda>ws. w # ws) (sh_tokens Between s) | _ \<Rightarrow> sh_tokens Between s)
     else if c = CHR 0x27 then sh_tokens (Quoted (sh_open m)) s
     else if c = CHR 0x5C then sh_tokens (Escaped (sh_open m)) s
     else if sh_special c then None
     else sh_tokens (Word (sh_open m @ [(c, False)])) s)"

section \<open>A shell's simple command\<close>

text \<open>Quotes go when a token is used; names and reserved words are recognised only without quotes.\<close>

definition sh_text :: "sh_token \<Rightarrow> string" where
  "sh_text t = map fst t"

definition sh_plain :: "sh_token \<Rightarrow> bool" where
  "sh_plain t = list_all (\<lambda>(_, q). \<not> q) t"

definition sh_digit :: "char \<Rightarrow> bool" where
  "sh_digit c = (let n = of_char c :: nat in 48 \<le> n \<and> n \<le> 57)"

definition sh_letter :: "char \<Rightarrow> bool" where
  "sh_letter c = (let n = of_char c :: nat in 65 \<le> n \<and> n \<le> 90 \<or> 97 \<le> n \<and> n \<le> 122 \<or> n = 95)"

definition sh_name :: "string \<Rightarrow> bool" where
  "sh_name s = (s \<noteq> [] \<and> list_all (\<lambda>c. sh_letter c \<or> sh_digit c) s \<and> \<not> sh_digit (hd s))"

definition sh_is_assignment :: "sh_token \<Rightarrow> bool" where
  "sh_is_assignment t =
    (let pre = takeWhile (\<lambda>x. x \<noteq> (CHR ''='', False)) t in pre \<noteq> t \<and> sh_plain pre \<and> sh_name (sh_text pre))"

definition sh_reserved :: "string set" where
  "sh_reserved = {''!'', ''{'', ''}'', ''case'', ''do'', ''done'', ''elif'', ''else'', ''esac'', ''fi'', ''for'', ''if'', ''in'',
     ''then'', ''until'', ''while'', ''['' @ ''['', '']'' @ '']'', ''function'', ''select'', ''time'', ''coproc''}"

text \<open>A name followed by a colon is reserved too (XCU 2.4).\<close>

definition sh_is_reserved :: "string \<Rightarrow> bool" where
  "sh_is_reserved s = (s \<in> sh_reserved \<or> s \<noteq> [] \<and> last s = CHR '':'' \<and> sh_name (butlast s))"

text \<open>The assignments before the program, and the program with its arguments; none for a compound command.\<close>

definition sh_command :: "string \<Rightarrow> (string list \<times> string list) option" where
  "sh_command line =
    (case sh_tokens Between line of
       None \<Rightarrow> None
     | Some ts \<Rightarrow>
         if ts \<noteq> [] \<and> sh_plain (hd ts) \<and> sh_is_reserved (sh_text (hd ts)) then None
         else Some (map sh_text (takeWhile sh_is_assignment ts), map sh_text (dropWhile sh_is_assignment ts)))"

section \<open>Quoting and reading\<close>

lemma plain_not_special:
  assumes "shell_safe c"
  shows "\<not> sh_special c" "\<not> sh_control c" "c \<noteq> CHR '' ''" "c \<noteq> CHR 0x27" "c \<noteq> CHR 0x5C"
  using assms by (auto simp: shell_safe_def sh_special_def sh_control_def Let_def)

lemma sh_tokens_plain:
  "list_all shell_safe a \<Longrightarrow> sh_tokens (Word w) (a @ rest) = sh_tokens (Word (w @ map (\<lambda>c. (c, False)) a)) rest"
  by (induction a arbitrary: w) (simp_all add: plain_not_special sh_open_def)

definition quoted :: "char \<Rightarrow> string" where
  "quoted c = (if c = quote_char then [quote_char, CHR 0x5C, quote_char, quote_char] else [c])"

lemma shell_quote_alt:
  "shell_quote a = (if a \<noteq> [] \<and> list_all shell_safe a then a else [CHR 0x27] @ concat (map quoted a) @ [CHR 0x27])"
  by (simp add: shell_quote_def quoted_def [abs_def] quote_char_def)

lemma control_quotes [simp]: "\<not> sh_control CHR 0x27" "\<not> sh_control CHR 0x5C" "\<not> sh_control CHR '' ''"
  by (simp_all add: sh_control_def)

lemma sh_tokens_quoted:
  "list_all (\<lambda>c. \<not> sh_control c) a \<Longrightarrow>
    sh_tokens (Quoted w) (concat (map quoted a) @ rest) = sh_tokens (Quoted (w @ map (\<lambda>c. (c, True)) a)) rest"
  by (induction a arbitrary: w) (simp_all add: quoted_def quote_char_def sh_open_def)

text \<open>The token of a quoted argument: unquoted when it needs no quotes, else quoted throughout.\<close>

definition token_of :: "string \<Rightarrow> sh_token" where
  "token_of a = map (\<lambda>c. (c, \<not> (a \<noteq> [] \<and> list_all shell_safe a))) a"

lemma token_text [simp]: "sh_text (token_of a) = a"
  by (simp add: sh_text_def token_of_def comp_def)

definition printable :: "string \<Rightarrow> bool" where
  "printable a = list_all (\<lambda>c. \<not> sh_control c) a"

lemma sh_tokens_word:
  assumes "printable a"
  shows "sh_tokens Between (shell_quote a @ rest) = sh_tokens (Word (token_of a)) rest"
proof (cases "a \<noteq> [] \<and> list_all shell_safe a")
  case True
  then obtain c r where "a = c # r" "shell_safe c" "list_all shell_safe r" by (cases a) auto
  then show ?thesis
    using True sh_tokens_plain [of r "[(c, False)]" rest]
    by (simp add: shell_quote_alt plain_not_special sh_open_def token_of_def)
next
  case False
  then have "shell_quote a = [CHR 0x27] @ concat (map quoted a) @ [CHR 0x27]" by (auto simp: shell_quote_alt)
  moreover have "token_of a = map (\<lambda>c. (c, True)) a" using False by (simp add: token_of_def)
  ultimately show ?thesis
    using sh_tokens_quoted [of a "[]" "CHR 0x27 # rest"] assms by (simp add: sh_open_def printable_def)
qed

lemma command_line_tokens:
  "list_all printable argv \<Longrightarrow> sh_tokens Between (shell_command_line argv) = Some (map token_of argv)"
proof (induction argv rule: induct_list012)
  case 1
  then show ?case by (simp add: shell_command_line_def)
next
  case (2 a)
  then show ?case using sh_tokens_word [of a "[]"] by (simp add: shell_command_line_def)
next
  case (3 a b as)
  then show ?case using sh_tokens_word [of a "CHR '' '' # shell_command_line (b # as)"]
    by (simp add: shell_command_line_def)
qed

text \<open>An argument that a shell would not take for an assignment or a reserved word if it stood first.\<close>

definition runs_as_program :: "string \<Rightarrow> bool" where
  "runs_as_program p \<longleftrightarrow> \<not> sh_is_reserved p \<and> (\<forall>name v. p = name @ CHR ''='' # v \<longrightarrow> \<not> sh_name name)"

lemma not_assignment:
  assumes "runs_as_program p"
  shows "\<not> sh_is_assignment (token_of p)"
proof
  assume a: "sh_is_assignment (token_of p)"
  define pre where "pre = takeWhile (\<lambda>x. x \<noteq> (CHR ''='', False)) (token_of p)"
  have pre: "pre \<noteq> token_of p" "sh_name (sh_text pre)" using a by (simp_all add: sh_is_assignment_def pre_def Let_def)
  define post where "post = dropWhile (\<lambda>x. x \<noteq> (CHR ''='', False)) (token_of p)"
  have "pre @ post = token_of p" by (simp add: pre_def post_def)
  then obtain x rest where drop: "post = x # rest" and split: "token_of p = pre @ x # rest"
    using pre(1) by (cases post) auto
  have "x = (CHR ''='', False)"
    using drop hd_dropWhile [of "\<lambda>x. x \<noteq> (CHR ''='', False)" "token_of p"] by (simp add: post_def)
  then have "p = sh_text pre @ CHR ''='' # sh_text rest"
    using arg_cong [OF split, of sh_text] by (simp add: sh_text_def [of "_ @ _"]) (simp add: sh_text_def)
  then show False using assms pre(2) by (auto simp: runs_as_program_def)
qed

lemma simple_command:
  assumes "list_all printable (p # args)" "runs_as_program p"
  shows "sh_command (shell_command_line (p # args)) = Some ([], p # args)"
  unfolding sh_command_def command_line_tokens [OF assms(1)]
  using not_assignment [OF assms(2)] assms(2) by (simp add: runs_as_program_def comp_def)

lemma same_join: "cli_join sep xs = join sep xs"
  by (induction sep xs rule: cli_join.induct) simp_all

lemma same_quote: "cli_shell_quote a = shell_quote a"
proof -
  have "plain_byte = shell_safe" by (rule ext) (auto simp: plain_byte_def shell_safe_def Let_def)
  moreover have "shell_char = quoted" by (rule ext) (simp add: shell_char_def quoted_def quote_char_def)
  ultimately show ?thesis by (simp add: cli_shell_quote_def shell_quote_alt)
qed

lemma same_command_line: "cli_shell_command_line argv = shell_command_line argv"
  by (simp add: cli_shell_command_line_def shell_command_line_def same_join same_quote [abs_def])

section \<open>Properties\<close>

text \<open>
  The equals sign needs no quotes, so a first argument of the form of an assignment is one to the shell,
  and the program that runs is the next argument; a first argument that is a reserved word begins a
  compound command.
\<close>

lemma assignment_is_not_run: "sh_command (shell_command_line [''FOO=bar'', ''cmd'']) = Some ([''FOO=bar''], [''cmd''])"
  by code_simp

lemma reserved_word_is_not_run: "sh_command (shell_command_line [''if'', ''cmd'']) = None"
  by code_simp

text \<open>C26: A command typed into a shell is the command that was meant: the line the cockpit types into a new pane for a
  program and its arguments, and the line \<open>mcp install --dry-run\<close> prints for pasting, are read by a POSIX
  shell as that program with exactly those arguments, and no assignments, whatever blanks, quotes and other
  printable characters they contain. Assumed is that no argument contains a control character, which the terminal
  acts on, and that the program's name is not reserved by the shell (a word of its grammar, or a name and a colon) and not of the form of an
  assignment, which the quoting lets through (\<open>assignment_is_not_run\<close>). Aliases are left aside.\<close>

theorem shell_reads_back_command_line:
  assumes "list_all printable (p # args)" "runs_as_program p"
  shows "sh_command (shell_command_line (p # args)) = Some ([], p # args) \<and>
    sh_command (cli_shell_command_line (p # args)) = Some ([], p # args)"
  using simple_command [OF assms] by (simp add: same_command_line)

theorem shell_reads_back_command_line_witness:
  "sh_command (shell_command_line [''my prog'', ''it'' @ [CHR 0x27] @ ''s $HOME'', ''A=b'', []]) =
    Some ([], [''my prog'', ''it'' @ [CHR 0x27] @ ''s $HOME'', ''A=b'', []])"
proof -
  have "list_all printable [''my prog'', ''it'' @ [CHR 0x27] @ ''s $HOME'', ''A=b'', []]" by code_simp
  moreover have "runs_as_program ''my prog''"
    by (auto simp: runs_as_program_def sh_is_reserved_def sh_reserved_def Cons_eq_append_conv)
  ultimately show ?thesis using shell_reads_back_command_line by blast
qed

end
