(* ===== verification/Spawn.thy ===== *)
theory Spawn
  imports Paths Compositor
begin

text \<open>
  The spawner of satellite programs, \<open>crates/lmux-compositor/src/spawn.rs\<close>, in the Linux build: the arguments and
  the environment a program is started with, the private profiles of browsers and JetBrains IDEs, and the
  clean-up of what earlier runs left in them. The host is a state of directories, files, symbolic links,
  processes, signals sent and programs started; what the system may refuse is an argument.
\<close>

section \<open>The host\<close>

text \<open>A process of \<open>/proc\<close>: its environment, when readable, and the program it runs.\<close>

record process =
  pr_pid :: nat
  pr_environ :: "string list option"
  pr_exe :: "string option"

text \<open>A program to start: arguments, working directory, variables set and removed, and the file of its error stream.\<close>

record command =
  cm_program :: string
  cm_args :: "string list"
  cm_cwd :: "string option"
  cm_env :: "(string \<times> string) list"
  cm_env_removed :: "string list"
  cm_stderr :: "string option"

record host =
  ho_dirs :: "string list"
  ho_files :: "string \<Rightarrow> string option"
  ho_links :: "string \<Rightarrow> string option"
  ho_procs :: "process list"
  ho_signalled :: "nat list"
  ho_started :: "command list"

record spawn_env =
  se_state_home :: "string option"
  se_home :: "string option"
  se_temp :: string
  se_runtime_dir :: "string option"
  se_my_pid :: nat
  se_mkdir_ok :: "string \<Rightarrow> bool"
  se_write_ok :: "string \<Rightarrow> bool"
  se_remove_ok :: "string \<Rightarrow> bool"
  se_proc_ok :: bool
  se_signal_ok :: "nat \<Rightarrow> bool"
  se_show_uuid :: "uuid \<Rightarrow> string"
  se_start :: "command \<Rightarrow> string + nat"

definition path_exists :: "host \<Rightarrow> string \<Rightarrow> bool" where
  "path_exists h p \<longleftrightarrow> p \<noteq> [] \<and>
    (p = ''/'' \<or> ho_files h p \<noteq> None \<or> list_ex (\<lambda>d. d = p \<or> starts_with (p @ ''/'') d) (ho_dirs h))"

definition create_dir_all :: "spawn_env \<Rightarrow> string \<Rightarrow> host \<Rightarrow> host option" where
  "create_dir_all se d h = (if se_mkdir_ok se d then Some (h\<lparr>ho_dirs := ho_dirs h @ [d]\<rparr>) else None)"

definition remove_file :: "spawn_env \<Rightarrow> string \<Rightarrow> host \<Rightarrow> host" where
  "remove_file se p h =
    (if se_remove_ok se p then h\<lparr>ho_files := (ho_files h)(p := None), ho_links := (ho_links h)(p := None)\<rparr> else h)"

section \<open>Families of programs and flags\<close>

definition base_name :: "string \<Rightarrow> string" where
  "base_name cmd = unwrap_or (path_file_name cmd) cmd"

definition is_chromium_family :: "string \<Rightarrow> bool" where
  "is_chromium_family cmd = (base_name cmd \<in> set
    [''chromium'', ''chromium-browser'', ''Chromium'', ''google-chrome'', ''google-chrome-stable'', ''google-chrome-beta'',
     ''google-chrome-unstable'', ''Google Chrome'', ''chrome'', ''brave'', ''brave-browser'', ''Brave Browser'',
     ''microsoft-edge'', ''microsoft-edge-stable'', ''Microsoft Edge'', ''vivaldi'', ''vivaldi-stable'', ''Vivaldi'',
     ''opera'', ''Opera''])"

definition strip_sh :: "string \<Rightarrow> string" where
  "strip_sh s = unwrap_or (strip_suffix ''.sh'' s) s"

definition is_jetbrains_family :: "string \<Rightarrow> bool" where
  "is_jetbrains_family cmd = (strip_sh (base_name cmd) \<in> set
    [''idea'', ''intellij-idea-ultimate'', ''intellij-idea-community'', ''pycharm'', ''pycharm-professional'',
     ''pycharm-community'', ''webstorm'', ''phpstorm'', ''goland'', ''rider'', ''clion'', ''rubymine'', ''datagrip'',
     ''rustrover'', ''studio'', ''android-studio''])"

definition has_flag :: "string list \<Rightarrow> string \<Rightarrow> bool" where
  "has_flag args flag = list_ex (\<lambda>a. a = flag \<or> starts_with (flag @ ''='') a) args"

definition has_jvm_property :: "string list \<Rightarrow> string \<Rightarrow> bool" where
  "has_jvm_property args key = list_ex (starts_with (''-D'' @ key @ ''='')) args"

definition state_base_dir :: "spawn_env \<Rightarrow> string" where
  "state_base_dir se =
    (case se_state_home se of
       Some s \<Rightarrow> s
     | None \<Rightarrow> (case se_home se of Some h \<Rightarrow> path_join h ''.local/state'' | None \<Rightarrow> path_join (se_temp se) ''lmux-state''))"

text \<open>The log of a satellite's error stream: here there is no fallback to the temporary directory.\<close>

definition open_stderr_log :: "spawn_env \<Rightarrow> uuid \<Rightarrow> host \<Rightarrow> host \<times> string option" where
  "open_stderr_log se request_id h =
    (let base = or_else (se_state_home se) (map_option (\<lambda>d. path_join d ''.local/state'') (se_home se)) in
     case base of
       None \<Rightarrow> (h, None)
     | Some b \<Rightarrow>
         (let dir = path_join (path_join b ''lmux'') ''sat'';
              path = path_join dir (se_show_uuid se request_id @ ''.stderr'')
          in case create_dir_all se dir h of
               None \<Rightarrow> (h, None)
             | Some h1 \<Rightarrow>
                 if se_write_ok se path
                 then (h1\<lparr>ho_files := (ho_files h1)(path \<mapsto> unwrap_or (ho_files h1 path) [])\<rparr>, Some path)
                 else (h1, None)))"

section \<open>Profiles of browsers\<close>

definition singleton_alive :: "host \<Rightarrow> string \<Rightarrow> string \<Rightarrow> bool" where
  "singleton_alive h name target =
    (if name = ''SingletonLock''
     then (case parse_u32 (last (split_on (CHR ''-'') target)) of
             Some pid \<Rightarrow> list_ex (\<lambda>p. pr_pid p = pid) (ho_procs h)
           | None \<Rightarrow> False)
     else (case path_parent target of Some p \<Rightarrow> path_exists h p | None \<Rightarrow> False))"

definition clear_singleton :: "spawn_env \<Rightarrow> string \<Rightarrow> string \<Rightarrow> host \<Rightarrow> host" where
  "clear_singleton se dir name h =
    (let path = path_join dir name in
     case ho_links h path of
       None \<Rightarrow> h
     | Some target \<Rightarrow> if singleton_alive h name target then h else remove_file se path h)"

definition clear_stale_chromium_singletons :: "spawn_env \<Rightarrow> string \<Rightarrow> host \<Rightarrow> host" where
  "clear_stale_chromium_singletons se dir h =
    fold (clear_singleton se dir) [''SingletonLock'', ''SingletonCookie'', ''SingletonSocket''] h"

definition suffixed :: "string \<Rightarrow> string option \<Rightarrow> string" where
  "suffixed file suffix = (case suffix of Some s \<Rightarrow> file @ ''-'' @ s | None \<Rightarrow> file)"

definition profile_of :: "string \<Rightarrow> string \<Rightarrow> string" where
  "profile_of base file = path_join (path_join base ''app-profiles'') file"

definition fallback_base :: "spawn_env \<Rightarrow> string" where
  "fallback_base se = path_join (se_temp se) ''lmux-state''"

definition chromium_profile_dir_named :: "spawn_env \<Rightarrow> string \<Rightarrow> string option \<Rightarrow> host \<Rightarrow> host \<times> string option" where
  "chromium_profile_dir_named se cmd suffix h =
    (let file = suffixed (unwrap_or (path_file_name cmd) ''chromium'') suffix;
         dir = profile_of (path_join (state_base_dir se) ''lmux'') file;
         fallback = profile_of (fallback_base se) file
     in case create_dir_all se dir h of
          Some h1 \<Rightarrow> (clear_stale_chromium_singletons se dir h1, Some dir)
        | None \<Rightarrow>
            (case create_dir_all se fallback h of
               None \<Rightarrow> (h, None)
             | Some h1 \<Rightarrow> (clear_stale_chromium_singletons se fallback h1, Some fallback)))"

definition chromium_profile_dir :: "spawn_env \<Rightarrow> string \<Rightarrow> host \<Rightarrow> host \<times> string option" where
  "chromium_profile_dir se cmd h = chromium_profile_dir_named se cmd None h"

section \<open>Profiles of JetBrains IDEs\<close>

definition has_var :: "string \<Rightarrow> string list \<Rightarrow> bool" where
  "has_var name vars = list_ex (starts_with (name @ ''='')) vars"

text \<open>The last value wins, as in the loop over the variables.\<close>

definition last_var :: "string \<Rightarrow> string list \<Rightarrow> string option" where
  "last_var name vars =
    fold (\<lambda>v acc. case strip_prefix (name @ ''='') v of Some x \<Rightarrow> Some x | None \<Rightarrow> acc) vars None"

definition socket_dead :: "spawn_env \<Rightarrow> host \<Rightarrow> string option \<Rightarrow> bool" where
  "socket_dead se h wl =
    (case (se_runtime_dir se, wl) of (Some rd, Some display) \<Rightarrow> \<not> path_exists h (path_join rd display) | _ \<Rightarrow> False)"

text \<open>
  The path is lower-cased by Unicode; the letters that this makes of characters outside ASCII (the Kelvin sign's k, and
  the i of the dotted capital I, which a combining dot follows) complete none of the four words, so that
  ASCII lower-casing decides the same.
\<close>

definition is_jetbrains_exe :: "string option \<Rightarrow> bool" where
  "is_jetbrains_exe exe =
    list_ex (contains_str (to_ascii_lowercase (unwrap_or exe []))) [''jetbrains'', ''intellij'', ''jbr'', ''idea'']"

definition stale_jvm :: "spawn_env \<Rightarrow> string \<Rightarrow> host \<Rightarrow> process \<Rightarrow> bool" where
  "stale_jvm se props_path h p =
    (if pr_pid p = se_my_pid se then False
     else case pr_environ p of
       None \<Rightarrow> False
     | Some vars \<Rightarrow>
         (let has_props = (''IDEA_PROPERTIES='' @ props_path) \<in> set vars;
              wl = last_var ''WAYLAND_DISPLAY'' vars
          in if \<not> has_var ''LMUX_SATELLITE_ID'' vars then False
             else if wl = Some (''lmux-'' @ show_nat (se_my_pid se)) then False
             else if \<not> (has_props \<or> socket_dead se h wl) then False
             else is_jetbrains_exe (pr_exe p)))"

definition kill_stale_jetbrains_jvms :: "spawn_env \<Rightarrow> string \<Rightarrow> host \<Rightarrow> host" where
  "kill_stale_jetbrains_jvms se props_path h =
    (if \<not> se_proc_ok se then h
     else h\<lparr>ho_signalled := ho_signalled h @ map pr_pid (filter (stale_jvm se props_path h) (ho_procs h))\<rparr>)"

text \<open>\<open>process_is_alive\<close> asks the system with signal 0, which it may refuse for another user's process.\<close>

definition process_is_alive :: "spawn_env \<Rightarrow> nat \<Rightarrow> bool" where
  "process_is_alive se pid = se_signal_ok se pid"

definition clear_stale_jetbrains_profile_locks :: "spawn_env \<Rightarrow> string \<Rightarrow> host \<Rightarrow> host" where
  "clear_stale_jetbrains_profile_locks se props_path h =
    (case path_parent props_path of
       None \<Rightarrow> h
     | Some dir \<Rightarrow>
         (let pid_path = path_join (path_join dir ''system'') ''.pid'';
              stale = (case ho_files h pid_path of
                None \<Rightarrow> True
              | Some v \<Rightarrow> (case parse_u32 (trim v) of None \<Rightarrow> True | Some pid \<Rightarrow> \<not> process_is_alive se pid))
          in if \<not> stale then h
             else fold (remove_file se) [pid_path, path_join (path_join dir ''system'') ''.port'',
               path_join (path_join dir ''config'') ''.lock''] h))"

definition idea_properties :: "string \<Rightarrow> string" where
  "idea_properties dir =
    concat (map (\<lambda>k. ''idea.'' @ k @ ''.path='' @ dir @ ''/'' @ k @ [CHR 0x0A]) [''config'', ''system'', ''log'', ''plugins''])"

text \<open>The first directory may fall back to the temporary one; a refusal of any other ends without a profile.\<close>

fun create_all :: "spawn_env \<Rightarrow> string list \<Rightarrow> host \<Rightarrow> host \<times> bool" where
  "create_all se [] h = (h, True)"
| "create_all se (d # ds) h = (case create_dir_all se d h of None \<Rightarrow> (h, False) | Some h1 \<Rightarrow> create_all se ds h1)"

definition fill_profile :: "spawn_env \<Rightarrow> string \<Rightarrow> host \<Rightarrow> host \<times> string option" where
  "fill_profile se dir h =
    (case create_all se [path_join dir ''system'', path_join dir ''log'', path_join dir ''plugins''] h of
       (h1, False) \<Rightarrow> (h1, None)
     | (h1, True) \<Rightarrow>
         (let props_path = path_join dir ''idea.properties'' in
          if path_exists h1 props_path then (clear_stale_jetbrains_profile_locks se props_path h1, Some props_path)
          else if \<not> se_write_ok se props_path then (h1, None)
          else (let h2 = h1\<lparr>ho_files := (ho_files h1)(props_path \<mapsto> idea_properties dir)\<rparr>
                in (clear_stale_jetbrains_profile_locks se props_path h2, Some props_path))))"

definition jetbrains_properties_file_named ::
  "spawn_env \<Rightarrow> string \<Rightarrow> string option \<Rightarrow> host \<Rightarrow> host \<times> string option" where
  "jetbrains_properties_file_named se cmd suffix h =
    (let file = suffixed (strip_sh (unwrap_or (path_file_name cmd) ''jetbrains'')) suffix;
         dir = profile_of (path_join (state_base_dir se) ''lmux'') file;
         fallback = profile_of (fallback_base se) file
     in case create_dir_all se (path_join dir ''config'') h of
          Some h1 \<Rightarrow> fill_profile se dir h1
        | None \<Rightarrow>
            (case create_dir_all se (path_join fallback ''config'') h of
               None \<Rightarrow> (h, None)
             | Some h1 \<Rightarrow> fill_profile se fallback h1))"

definition jetbrains_properties_file :: "spawn_env \<Rightarrow> string \<Rightarrow> host \<Rightarrow> host \<times> string option" where
  "jetbrains_properties_file se cmd h = jetbrains_properties_file_named se cmd None h"

definition apply_jetbrains_isolation_args ::
  "spawn_env \<Rightarrow> string \<Rightarrow> string list \<Rightarrow> host \<Rightarrow> host \<times> string list \<times> string option" where
  "apply_jetbrains_isolation_args se cmd args h =
    (case jetbrains_properties_file se cmd h of
       (h1, None) \<Rightarrow> (h1, args, None)
     | (h1, Some props) \<Rightarrow>
         (h1, (if has_jvm_property args ''idea.properties.file'' then args
               else (''-Didea.properties.file='' @ props) # args), Some props))"

section \<open>Starting a program\<close>

definition should_isolate_chromium :: "string option \<Rightarrow> string \<Rightarrow> bool" where
  "should_isolate_chromium wl cmd = (is_chromium_family cmd \<and> wl \<noteq> None)"

definition should_isolate_jetbrains :: "string option \<Rightarrow> string \<Rightarrow> bool" where
  "should_isolate_jetbrains wl cmd = (is_jetbrains_family cmd \<and> wl \<noteq> None)"

definition chromium_args :: "spawn_env \<Rightarrow> string \<Rightarrow> string option \<Rightarrow> string list \<Rightarrow> host \<Rightarrow> host \<times> string list" where
  "chromium_args se cmd wl args h =
    (let (h1, a1) =
           (if \<not> has_flag args ''--user-data-dir''
            then (case chromium_profile_dir se cmd h of
                    (h1, Some dir) \<Rightarrow> (h1, (''--user-data-dir='' @ dir) # args)
                  | (h1, None) \<Rightarrow> (h1, args))
            else (h, args));
         a2 = (if wl \<noteq> None \<and> \<not> has_flag a1 ''--ozone-platform'' then ''--ozone-platform=wayland'' # a1 else a1);
         a3 = (if \<not> has_flag a2 ''--enable-logging'' then ''--enable-logging=stderr'' # ''--v=1'' # a2 else a2)
     in (h1, a3))"

definition nested_env :: "string \<Rightarrow> bool \<Rightarrow> (string \<times> string) list" where
  "nested_env display chromium =
    [(''WAYLAND_DISPLAY'', display), (''GDK_BACKEND'', ''wayland''), (''QT_QPA_PLATFORM'', ''wayland''),
     (''XDG_SESSION_TYPE'', ''wayland''), (''MOZ_ENABLE_WAYLAND'', ''1'')] @
    (if chromium then [(''WAYLAND_DEBUG'', ''client'')] else [])"

text \<open>The arguments with what isolates the program, and its IDE's properties file.\<close>

definition isolate ::
  "spawn_env \<Rightarrow> string \<Rightarrow> string option \<Rightarrow> string list \<Rightarrow> host \<Rightarrow> host \<times> string list \<times> string option" where
  "isolate se cmd wl args h =
    (let (h1, a1) = (if should_isolate_chromium wl cmd then chromium_args se cmd wl args h else (h, args)) in
     if should_isolate_jetbrains wl cmd
     then (case apply_jetbrains_isolation_args se cmd a1 h1 of
             (h2, a2, Some p) \<Rightarrow> (kill_stale_jetbrains_jvms se p h2, a2, Some p)
           | (h2, a2, None) \<Rightarrow> (h2, a2, None))
     else (h1, a1, None))"

definition satellite_command ::
  "spawn_env \<Rightarrow> uuid \<Rightarrow> string \<Rightarrow> string list \<Rightarrow> string option \<Rightarrow> string option \<Rightarrow> string option \<Rightarrow> string option \<Rightarrow> command" where
  "satellite_command se request_id cmd args cwd wl props errlog =
    \<lparr>cm_program = cmd, cm_args = args, cm_cwd = cwd,
     cm_env = (''LMUX_SATELLITE_ID'', se_show_uuid se request_id) #
       (case wl of Some d \<Rightarrow> nested_env d (should_isolate_chromium wl cmd) | None \<Rightarrow> []) @
       (case props of Some p \<Rightarrow> [(''IDEA_PROPERTIES'', p)] | None \<Rightarrow> []),
     cm_env_removed = (if wl \<noteq> None then [''DISPLAY''] else []), cm_stderr = errlog\<rparr>"

definition spawn_tagged_with_env ::
  "spawn_env \<Rightarrow> uuid \<Rightarrow> string list \<Rightarrow> string option \<Rightarrow> string option \<Rightarrow> host \<Rightarrow>
    host \<times> (compositor_error + uuid \<times> nat)" where
  "spawn_tagged_with_env se request_id argv cwd wl h =
    (case argv of
       [] \<Rightarrow> (h, Inl (CE_Domain ''satellite argv is empty''))
     | cmd # rest \<Rightarrow>
         (let (h1, args, props) = isolate se cmd wl rest h;
              (h2, errlog) = open_stderr_log se request_id h1;
              cm = satellite_command se request_id cmd args cwd wl props errlog
          in case se_start se cm of
               Inl e \<Rightarrow> (h2, Inl (CE_Io e))
             | Inr pid \<Rightarrow> (h2\<lparr>ho_started := ho_started h2 @ [cm]\<rparr>, Inr (request_id, pid))))"

definition spawn_tagged_with_pid ::
  "spawn_env \<Rightarrow> uuid \<Rightarrow> string list \<Rightarrow> string option \<Rightarrow> host \<Rightarrow> host \<times> (compositor_error + uuid \<times> nat)" where
  "spawn_tagged_with_pid se request_id argv cwd h = spawn_tagged_with_env se request_id argv cwd None h"

definition spawn_tagged ::
  "spawn_env \<Rightarrow> uuid \<Rightarrow> string list \<Rightarrow> string option \<Rightarrow> host \<Rightarrow> host \<times> (compositor_error + uuid)" where
  "spawn_tagged se request_id argv cwd h =
    (case spawn_tagged_with_pid se request_id argv cwd h of
       (h1, Inl e) \<Rightarrow> (h1, Inl e) | (h1, Inr (i, _)) \<Rightarrow> (h1, Inr i))"

end
