(* ===== verification/Launcher.thy ===== *)
theory Launcher
  imports Spawn
begin

text \<open>
  The program launcher, \<open>crates/lmux/src/launcher.rs\<close> and \<open>launcher/linux.rs\<close>: the cache of launchable
  entries and its refresh by a worker thread, the dialog (rows by query, selection, commit, its poll of the
  cache), the tokenizer of \<open>Exec\<close> lines, and the scan of \<open>.desktop\<close> files. Widgets are the values they show;
  threads and timers are steps.
\<close>

section \<open>Entries and their cache\<close>

record launch_entry =
  le_name :: string
  le_exec :: string
  le_comment :: "string option"
  le_bundle_id :: "string option"

datatype launch_status = LS_Empty | LS_Refreshing | LS_Ready | LS_Failed

record launch_snapshot =
  ls_entries :: "launch_entry list"
  ls_status :: launch_status
  ls_generation :: nat
  ls_error :: "string option"

record launch_cache = launch_snapshot +
  lc_last_refresh :: "nat option"

definition cache_default :: launch_cache where
  "cache_default = \<lparr>ls_entries = [], ls_status = LS_Empty, ls_generation = 0, ls_error = None, lc_last_refresh = None\<rparr>"

text \<open>The lock of the cache: \<open>None\<close> when a thread died holding it.\<close>

type_synonym locked = "launch_cache option"

definition cache_snapshot :: "locked \<Rightarrow> launch_snapshot" where
  "cache_snapshot m =
    (case m of
       Some c \<Rightarrow> launch_snapshot.truncate c
     | None \<Rightarrow> \<lparr>ls_entries = [], ls_status = LS_Failed, ls_generation = 0,
         ls_error = Some ''launcher cache lock poisoned''\<rparr>)"

text \<open>
  \<open>warm_cache\<close>: the second result says whether a worker now runs. \<open>spawn\<close> is the error of starting the
  thread, if any.
\<close>

definition should_spawn :: "locked \<Rightarrow> locked \<times> bool" where
  "should_spawn m =
    (case m of
       None \<Rightarrow> (None, False)
     | Some c \<Rightarrow>
         if ls_status c = LS_Refreshing then (Some c, False)
         else (Some (c\<lparr>ls_status := LS_Refreshing, ls_generation := sat_add_u64 (ls_generation c) 1, ls_error := None\<rparr>),
               True))"

definition spawn_failed :: "string \<Rightarrow> locked \<Rightarrow> locked" where
  "spawn_failed e m = map_option (\<lambda>c. c\<lparr>ls_status := LS_Failed,
     ls_generation := sat_add_u64 (ls_generation c) 1, ls_error := Some e\<rparr>) m"

definition warm_cache :: "string option \<Rightarrow> locked \<Rightarrow> locked \<times> bool" where
  "warm_cache spawn m =
    (case should_spawn m of
       (m1, False) \<Rightarrow> (m1, False)
     | (m1, True) \<Rightarrow> (case spawn of None \<Rightarrow> (m1, True) | Some e \<Rightarrow> (spawn_failed e m1, False)))"

text \<open>The worker's end: the scan's entries in the order of their names, without regard to case.\<close>

definition scan_done :: "lowering \<Rightarrow> launch_entry list \<Rightarrow> nat \<Rightarrow> locked \<Rightarrow> locked" where
  "scan_done low scanned now m = map_option (\<lambda>c. c\<lparr>ls_entries := sort_key (\<lambda>e. low (le_name e)) scanned,
     ls_status := LS_Ready, ls_generation := sat_add_u64 (ls_generation c) 1, lc_last_refresh := Some now,
     ls_error := None\<rparr>) m"

section \<open>The dialog\<close>

definition entry_matches :: "lowering \<Rightarrow> string \<Rightarrow> launch_entry \<Rightarrow> bool" where
  "entry_matches low query e =
    (let needle = low (trim query) in
     if needle = [] then True
     else if contains_str (low (le_name e)) needle then True
     else (case le_comment e of Some c \<Rightarrow> contains_str (low c) needle | None \<Rightarrow> False))"

definition empty_state_text :: "launch_status \<Rightarrow> bool \<Rightarrow> string \<Rightarrow> string" where
  "empty_state_text st entries_empty query =
    (if entries_empty \<and> trim query = []
     then (case st of LS_Empty \<Rightarrow> ''(loading applications...)'' | LS_Refreshing \<Rightarrow> ''(loading applications...)''
           | LS_Failed \<Rightarrow> ''(could not load applications)'' | LS_Ready \<Rightarrow> ''(no launchable applications)'')
     else ''(no matches)'')"

text \<open>A row of the list: the label of an empty list, or an entry's texts with its index in the entries.\<close>

datatype launch_row = Empty_Row string | Entry_Row nat string "string option"

record dialog =
  dg_entries :: "launch_entry list"
  dg_status :: launch_status
  dg_query :: string
  dg_rows :: "launch_row list"
  dg_selected :: "nat option"
  dg_open :: bool
  dg_polling :: bool
  dg_seen :: nat

definition entry_row :: "nat \<times> launch_entry \<Rightarrow> launch_row" where
  "entry_row = (\<lambda>(i, e). Entry_Row i (le_name e)
     (case le_comment e of Some c \<Rightarrow> if c = [] then None else Some c | None \<Rightarrow> None))"

definition filtered_entries :: "lowering \<Rightarrow> string \<Rightarrow> launch_entry list \<Rightarrow> (nat \<times> launch_entry) list" where
  "filtered_entries low query es = filter (\<lambda>(_, e). entry_matches low query e) (enumerate 0 es)"

definition rebuild_rows :: "lowering \<Rightarrow> dialog \<Rightarrow> dialog" where
  "rebuild_rows low d =
    (let shown = filtered_entries low (dg_query d) (dg_entries d) in
     if shown = []
     then d\<lparr>dg_rows := [Empty_Row (empty_state_text (dg_status d) (dg_entries d = []) (dg_query d))], dg_selected := None\<rparr>
     else d\<lparr>dg_rows := map entry_row shown, dg_selected := Some 0\<rparr>)"

definition open_dialog :: "lowering \<Rightarrow> string option \<Rightarrow> locked \<Rightarrow> locked \<times> bool \<times> dialog" where
  "open_dialog low spawn m =
    (let (m1, running) = warm_cache spawn m; sn = cache_snapshot m1 in
     (m1, running, rebuild_rows low \<lparr>dg_entries = ls_entries sn, dg_status = ls_status sn, dg_query = [], dg_rows = [],
        dg_selected = None, dg_open = True, dg_polling = True, dg_seen = ls_generation sn\<rparr>))"

definition row_origin_index :: "launch_row \<Rightarrow> nat option" where
  "row_origin_index r = (case r of Entry_Row i _ _ \<Rightarrow> Some i | Empty_Row _ \<Rightarrow> None)"

definition move_selection :: "int \<Rightarrow> dialog \<Rightarrow> dialog" where
  "move_selection delta d =
    (let current = (case dg_selected d of Some i \<Rightarrow> int i | None \<Rightarrow> 0); next_row = current + delta;
         row = nat (if next_row < 0 then 0 else next_row)
     in if row < length (dg_rows d) then d\<lparr>dg_selected := Some row\<rparr> else d)"

text \<open>The entry a commit launches; the dialog closes in any case.\<close>

definition committed :: "dialog \<Rightarrow> launch_entry option" where
  "committed d =
    (case dg_selected d of
       None \<Rightarrow> None
     | Some r \<Rightarrow> if r < length (dg_rows d)
         then (case row_origin_index (dg_rows d ! r) of
             None \<Rightarrow> None
           | Some i \<Rightarrow> if i < length (dg_entries d) then Some (dg_entries d ! i) else None)
         else None)"

text \<open>One tick of the dialog's timer: it ends with the dialog, or when the cache is no longer being refreshed.\<close>

definition poll_cache :: "lowering \<Rightarrow> locked \<Rightarrow> dialog \<Rightarrow> dialog" where
  "poll_cache low m d =
    (if \<not> dg_polling d then d
     else if \<not> dg_open d then d\<lparr>dg_polling := False\<rparr>
     else let sn = cache_snapshot m;
              d1 = (if ls_generation sn \<noteq> dg_seen d
                    then rebuild_rows low (d\<lparr>dg_seen := ls_generation sn, dg_status := ls_status sn, dg_entries := ls_entries sn\<rparr>)
                    else d)
          in if ls_status sn = LS_Ready \<or> ls_status sn = LS_Failed then d1\<lparr>dg_polling := False\<rparr> else d1)"

section \<open>\<open>Exec\<close> lines\<close>

text \<open>The tokenizer's loop: the words so far, the open one, and whether a double quote is open.\<close>

fun exec_loop :: "string \<Rightarrow> string list \<Rightarrow> string \<Rightarrow> bool \<Rightarrow> string list option" where
  "exec_loop [] out buf q =
    (if q then None
     else let all = (if buf \<noteq> [] then out @ [buf] else out) in if all = [] then None else Some all)"
| "exec_loop (c # s) out buf q =
    (if c = CHR 0x22 then exec_loop s out buf (\<not> q)
     else if c = CHR 0x5C
     then (case s of [] \<Rightarrow> exec_loop s out buf q | d # s1 \<Rightarrow> exec_loop s1 out (buf @ [d]) q)
     else if c = CHR ''%'' \<and> \<not> q then (case s of [] \<Rightarrow> exec_loop s out buf q | d # s1 \<Rightarrow> exec_loop s1 out buf q)
     else if is_space c \<and> \<not> q
     then (if buf \<noteq> [] then exec_loop s (out @ [buf]) [] q else exec_loop s out buf q)
     else exec_loop s out (buf @ [c]) q)"

definition parse_exec :: "string \<Rightarrow> string list option" where
  "parse_exec exec = (let t = trim exec in if t = [] then None else exec_loop t [] [] False)"

text \<open>What committing an entry starts: nothing, or its program, outside the nested compositor.\<close>

definition entry_argv :: "launch_entry \<Rightarrow> string list option" where
  "entry_argv e = (case parse_exec (le_exec e) of Some v \<Rightarrow> if v \<noteq> [] then Some v else None | None \<Rightarrow> None)"

definition spawn_entry :: "spawn_env \<Rightarrow> uuid \<Rightarrow> launch_entry \<Rightarrow> host \<Rightarrow> host" where
  "spawn_entry se request_id e h =
    (case entry_argv e of Some v \<Rightarrow> fst (spawn_tagged_with_env se request_id v None None h) | None \<Rightarrow> h)"

section \<open>Desktop files\<close>

record desktop_fields =
  df_in_section :: bool
  df_name :: "string option"
  df_exec :: "string option"
  df_comment :: "string option"
  df_wm_class :: "string option"
  df_kind :: "string option"
  df_no_display :: bool
  df_hidden :: bool
  df_terminal :: bool

definition is_true :: "string \<Rightarrow> bool" where
  "is_true v = (to_ascii_lowercase (trim v) = ''true'')"

definition set_first :: "string option \<Rightarrow> string \<Rightarrow> string option" where
  "set_first old v = (case old of None \<Rightarrow> Some (trim v) | Some x \<Rightarrow> Some x)"

definition desktop_key :: "string \<Rightarrow> string \<Rightarrow> desktop_fields \<Rightarrow> desktop_fields" where
  "desktop_key k v f =
    (if k = ''Name'' then f\<lparr>df_name := set_first (df_name f) v\<rparr>
     else if k = ''Exec'' then f\<lparr>df_exec := set_first (df_exec f) v\<rparr>
     else if k = ''Comment'' then f\<lparr>df_comment := set_first (df_comment f) v\<rparr>
     else if k = ''StartupWMClass'' then f\<lparr>df_wm_class := set_first (df_wm_class f) v\<rparr>
     else if k = ''Type'' then f\<lparr>df_kind := Some (trim v)\<rparr>
     else if k = ''NoDisplay'' then f\<lparr>df_no_display := is_true v\<rparr>
     else if k = ''Hidden'' then f\<lparr>df_hidden := is_true v\<rparr>
     else if k = ''Terminal'' then f\<lparr>df_terminal := is_true v\<rparr>
     else f)"

definition desktop_line :: "string \<Rightarrow> desktop_fields \<Rightarrow> desktop_fields" where
  "desktop_line l f =
    (let line = trim l in
     if line = [] \<or> hd line = CHR ''#'' then f
     else if hd line = CHR ''['' \<and> last line = CHR '']'' then f\<lparr>df_in_section := (line = ''[Desktop Entry]'')\<rparr>
     else if \<not> df_in_section f then f
     else (case split_once (CHR ''='') line of None \<Rightarrow> f | Some (k, v) \<Rightarrow> desktop_key (trim k) v f))"

definition linux_app_identity :: "string \<Rightarrow> string option \<Rightarrow> string option" where
  "linux_app_identity desktop_id wm_class =
    (case some_trimmed wm_class of
       Some c \<Rightarrow> Some (''startup-wm-class:'' @ c)
     | None \<Rightarrow> Some (''desktop-entry:'' @ (case strip_suffix ''.desktop'' desktop_id of Some i \<Rightarrow> i | None \<Rightarrow> desktop_id)))"

text \<open>A file is given by its lines; \<open>None\<close> when it cannot be read.\<close>

definition parse_desktop_file :: "string list option \<Rightarrow> string \<Rightarrow> launch_entry option" where
  "parse_desktop_file content desktop_id =
    (case content of
       None \<Rightarrow> None
     | Some ls \<Rightarrow>
       (let f = fold desktop_line ls \<lparr>df_in_section = False, df_name = None, df_exec = None, df_comment = None,
            df_wm_class = None, df_kind = None, df_no_display = False, df_hidden = False, df_terminal = False\<rparr>
        in if df_no_display f \<or> df_hidden f \<or> df_terminal f then None
           else if df_kind f \<noteq> Some ''Application'' then None
           else (case df_name f of
               None \<Rightarrow> None
             | Some n \<Rightarrow> (case df_exec f of
                 None \<Rightarrow> None
               | Some x \<Rightarrow> Some \<lparr>le_name = n, le_exec = x, le_comment = df_comment f,
                   le_bundle_id = linux_app_identity desktop_id (df_wm_class f)\<rparr>))))"

text \<open>
  A directory that can be read lists its files' names; \<open>seen\<close> is the map from file names to entries. The
  extension of a name is what follows its last dot, when something stands before it.
\<close>

definition is_desktop_name :: "string \<Rightarrow> bool" where
  "is_desktop_name n =
    (case strip_suffix ''.desktop'' n of Some stem \<Rightarrow> stem \<noteq> [] | None \<Rightarrow> False)"

definition scan_file ::
  "string \<times> string list option \<Rightarrow> (string, launch_entry) hmap \<Rightarrow> (string, launch_entry) hmap" where
  "scan_file = (\<lambda>(n, content) seen.
     if \<not> is_desktop_name n then seen
     else if hhas seen n then seen
     else case parse_desktop_file content n of Some e \<Rightarrow> hput n e seen | None \<Rightarrow> seen)"

type_synonym directory = "(string \<times> string list option) list option"

definition scan_dir :: "directory \<Rightarrow> (string, launch_entry) hmap \<Rightarrow> (string, launch_entry) hmap" where
  "scan_dir dir seen = (case dir of None \<Rightarrow> seen | Some files \<Rightarrow> fold scan_file files seen)"

definition scan_desktop_entries_in :: "directory list \<Rightarrow> launch_entry list" where
  "scan_desktop_entries_in dirs = hvals (fold scan_dir dirs [])"

text \<open>The search path: the user's directory, then those of \<open>XDG_DATA_DIRS\<close>.\<close>

definition application_dirs :: "string option \<Rightarrow> string option \<Rightarrow> string option \<Rightarrow> string list" where
  "application_dirs data_home home data_dirs =
    (case data_home of
       Some h \<Rightarrow> [path_join h ''applications'']
     | None \<Rightarrow> (case home of Some h \<Rightarrow> [path_join h ''.local/share/applications''] | None \<Rightarrow> [])) @
    map (\<lambda>d. path_join d ''applications'')
      (filter (\<lambda>d. d \<noteq> []) (split_on (CHR '':'')
        (case data_dirs of Some d \<Rightarrow> d | None \<Rightarrow> ''/usr/local/share:/usr/share'')))"

end
