(* ===== verification/SpawnSafety.thy ===== *)
theory SpawnSafety
  imports Spawn
begin

text \<open>
  What the spawner keeps: it writes and removes files in lmux's own directories only, it signals only
  JetBrains programs that carry a satellite's tag and were left behind, over any run of launches between which
  the host changes in any way, and a program started for the nested compositor carries its tag, speaks to
  that compositor and, for a browser or an IDE, uses a profile of its own.
\<close>

section \<open>Whose files\<close>

text \<open>The directory \<open>r\<close> and what is below it.\<close>

definition under :: "string \<Rightarrow> string \<Rightarrow> bool" where
  "under r p \<longleftrightarrow> p = r \<or> starts_with (r @ ''/'') p"

definition lmux_dir :: "spawn_env \<Rightarrow> string" where
  "lmux_dir se = path_join (state_base_dir se) ''lmux''"

definition owned :: "spawn_env \<Rightarrow> string \<Rightarrow> bool" where
  "owned se p \<longleftrightarrow> under (lmux_dir se) p \<or> under (fallback_base se) p"

definition relative :: "string \<Rightarrow> bool" where
  "relative f \<longleftrightarrow> f = [] \<or> hd f \<noteq> CHR ''/''"

lemma under_join:
  assumes "under r p" "r \<noteq> []" "last r \<noteq> CHR ''/''" "relative f"
  shows "under r (path_join p f)"
  using assms by (auto simp: under_def path_join_def relative_def starts_with_def)

lemma lmux_dir_end: "lmux_dir se \<noteq> []" "last (lmux_dir se) \<noteq> CHR ''/''"
  by (simp_all add: lmux_dir_def path_join_plain)

lemma fallback_end: "fallback_base se \<noteq> []" "last (fallback_base se) \<noteq> CHR ''/''"
  by (simp_all add: fallback_base_def path_join_plain)

lemma owned_join: "owned se p \<Longrightarrow> relative f \<Longrightarrow> owned se (path_join p f)"
  using under_join lmux_dir_end fallback_end unfolding owned_def by metis

lemma relative_simps [simp]: "relative []" "relative (c # f) \<longleftrightarrow> c \<noteq> CHR ''/''"
  by (simp_all add: relative_def)

text \<open>\<open>h'\<close> differs from \<open>h\<close> in lmux's own files only.\<close>

definition same_elsewhere :: "spawn_env \<Rightarrow> host \<Rightarrow> host \<Rightarrow> bool" where
  "same_elsewhere se h h' \<longleftrightarrow>
    (\<forall>p. owned se p \<or> (ho_files h' p = ho_files h p \<and> ho_links h' p = ho_links h p))"

lemma same_refl [intro, simp]: "same_elsewhere se h h"
  by (simp add: same_elsewhere_def)

lemma same_trans: "same_elsewhere se h h1 \<Longrightarrow> same_elsewhere se h1 h2 \<Longrightarrow> same_elsewhere se h h2"
  unfolding same_elsewhere_def by metis

lemma same_same_files: "ho_files h' = ho_files h \<Longrightarrow> ho_links h' = ho_links h \<Longrightarrow> same_elsewhere se h h'"
  by (simp add: same_elsewhere_def)

lemma same_started: "same_elsewhere se h h2 \<Longrightarrow> same_elsewhere se h (h2\<lparr>ho_started := x\<rparr>)"
  by (simp add: same_elsewhere_def)

lemma same_mkdir: "create_dir_all se d h = Some h1 \<Longrightarrow> same_elsewhere se h h1"
  by (auto simp: create_dir_all_def same_elsewhere_def split: if_splits)

lemma same_remove: "owned se p \<Longrightarrow> same_elsewhere se h (remove_file se p h)"
  by (auto simp: remove_file_def same_elsewhere_def)

lemma same_write: "owned se p \<Longrightarrow> same_elsewhere se h (h\<lparr>ho_files := (ho_files h)(p := x)\<rparr>)"
  by (auto simp: same_elsewhere_def)

lemma same_fold: "(\<And>x h. x \<in> set xs \<Longrightarrow> same_elsewhere se h (f x h)) \<Longrightarrow> same_elsewhere se h (fold f xs h)"
  by (induction xs arbitrary: h) (auto intro: same_trans)

lemma same_singletons: "owned se dir \<Longrightarrow> same_elsewhere se h (clear_stale_chromium_singletons se dir h)"
  unfolding clear_stale_chromium_singletons_def
  by (rule same_fold) (auto simp: clear_singleton_def Let_def split: option.split intro!: same_remove owned_join)

lemma relative_file_name: "relative (unwrap_or (path_file_name cmd) d)" if "relative d"
  using that path_file_name_no_slash [of cmd]
  by (cases "path_file_name cmd") (auto simp: unwrap_or_def relative_def neq_Nil_conv)

lemma owned_profile:
  assumes "relative file"
  shows "owned se (profile_of (path_join (state_base_dir se) ''lmux'') file)"
    and "owned se (profile_of (fallback_base se) file)"
proof -
  have "owned se (lmux_dir se)" "owned se (fallback_base se)" by (simp_all add: owned_def under_def)
  then have 1: "owned se (path_join (path_join (lmux_dir se) ''app-profiles'') file)"
    "owned se (path_join (path_join (fallback_base se) ''app-profiles'') file)"
    by (auto intro!: owned_join simp: assms)
  then show "owned se (profile_of (path_join (state_base_dir se) ''lmux'') file)"
    "owned se (profile_of (fallback_base se) file)"
    by (simp_all only: profile_of_def lmux_dir_def)
qed

lemma same_made_profile:
  "create_dir_all se d h = Some h1 \<Longrightarrow> owned se d \<Longrightarrow> same_elsewhere se h (clear_stale_chromium_singletons se d h1)"
  by (metis same_trans same_mkdir same_singletons)

lemma same_chromium_profile: "same_elsewhere se h (fst (chromium_profile_dir se cmd h))"
proof -
  have r: "relative (suffixed (unwrap_or (path_file_name cmd) ''chromium'') None)"
    by (simp add: suffixed_def relative_file_name)
  show ?thesis
    unfolding chromium_profile_dir_def chromium_profile_dir_named_def
    using owned_profile [OF r]
    by (simp add: Let_def same_made_profile split: option.split)
qed

lemma strip_sh_relative: "relative f \<Longrightarrow> relative (strip_sh f)"
  by (auto simp: strip_sh_def strip_suffix_def unwrap_or_def relative_def hd_take)

lemma same_create_all: "create_all se ds h = (h1, b) \<Longrightarrow> same_elsewhere se h h1"
  by (induction ds arbitrary: h) (auto split: option.splits intro: same_trans same_mkdir)

lemma under_drop_slashes:
  assumes "under r p" "r \<noteq> []" "last r \<noteq> CHR ''/''"
  shows "under r (drop_slashes p)"
proof (cases "p = r")
  case False
  then obtain x where x: "p = r @ ''/'' @ x"
    using assms(1) by (auto simp: under_def starts_with_def) (metis append_take_drop_id append.assoc append_Cons append_Nil)
  have r: "dropWhile (\<lambda>c. c = CHR ''/'') (rev r) = rev r"
    using assms(2,3) by (intro dropWhile_no_prefix) (simp_all add: hd_rev)
  show ?thesis
  proof (cases "list_all (\<lambda>c. c = CHR ''/'') x")
    case True
    then have "dropWhile (\<lambda>c. c = CHR ''/'') (rev x @ CHR ''/'' # rev r) = dropWhile (\<lambda>c. c = CHR ''/'') (CHR ''/'' # rev r)"
      by (intro dropWhile_append2) (auto simp: list_all_iff)
    then have "drop_slashes p = r" using r by (simp add: drop_slashes_def x)
    then show ?thesis by (simp add: under_def)
  next
    case False
    then obtain c where "c \<in> set (rev x)" "c \<noteq> CHR ''/''" by (auto simp: list_all_iff)
    then have "drop_slashes p = r @ ''/'' @ drop_slashes x"
      by (simp add: drop_slashes_def x dropWhile_append1)
    then show ?thesis by (simp add: under_def starts_with_def)
  qed
qed (use assms in \<open>simp add: drop_slashes_plain under_def\<close>)

lemma owned_nonempty: "owned se p \<Longrightarrow> p \<noteq> []"
  using lmux_dir_end(1) [of se] fallback_end(1) [of se] by (auto simp: owned_def under_def starts_with_def)

lemma owned_parent:
  assumes "owned se dir"
  obtains q where "path_parent (path_join dir ''idea.properties'') = Some q" "owned se q"
proof -
  have "owned se (drop_slashes dir)"
    using assms under_drop_slashes lmux_dir_end fallback_end unfolding owned_def by metis
  moreover have "dir \<noteq> []" "drop_slashes dir \<noteq> []" using assms calculation by (auto dest: owned_nonempty)
  ultimately show ?thesis using that path_parent_join [of dir "''idea.properties''"] by simp
qed

lemma same_locks:
  assumes "owned se dir"
  shows "same_elsewhere se h (clear_stale_jetbrains_profile_locks se (path_join dir ''idea.properties'') h)"
proof -
  obtain q where q: "path_parent (path_join dir ''idea.properties'') = Some q" "owned se q"
    using assms by (rule owned_parent)
  have "same_elsewhere se h (fold (remove_file se) [path_join (path_join q ''system'') ''.pid'',
      path_join (path_join q ''system'') ''.port'', path_join (path_join q ''config'') ''.lock''] h)" for h
    by (rule same_fold) (auto intro!: same_remove owned_join simp: q(2))
  then show ?thesis by (simp add: clear_stale_jetbrains_profile_locks_def q(1) Let_def)
qed

lemma same_fill_profile:
  assumes "owned se dir"
  shows "same_elsewhere se h (fst (fill_profile se dir h))"
proof -
  let ?props = "path_join dir ''idea.properties''"
  obtain h1 b where c: "create_all se [path_join dir ''system'', path_join dir ''log'', path_join dir ''plugins''] h = (h1, b)"
    by (rule prod.exhaust)
  have 1: "same_elsewhere se h h1" using c by (rule same_create_all)
  have "owned se ?props" using assms by (simp add: owned_join)
  then have "same_elsewhere se h1 (h1\<lparr>ho_files := (ho_files h1)(?props \<mapsto> idea_properties dir)\<rparr>)" by (rule same_write)
  then have "same_elsewhere se h1 (fst (fill_profile se dir h))"
    unfolding fill_profile_def c using same_locks [OF assms]
    by (auto simp: Let_def split: bool.split intro: same_trans)
  then show ?thesis using 1 same_trans by blast
qed

lemma same_jetbrains_profile: "same_elsewhere se h (fst (jetbrains_properties_file se cmd h))"
proof -
  have r: "relative (suffixed (strip_sh (unwrap_or (path_file_name cmd) ''jetbrains'')) None)"
    by (simp add: suffixed_def relative_file_name strip_sh_relative)
  have f: "same_elsewhere se h (fst (fill_profile se dir h1))"
    if "create_dir_all se d h = Some h1" "owned se dir" for d h1 dir
    using that same_trans same_mkdir same_fill_profile by metis
  show ?thesis
    unfolding jetbrains_properties_file_def jetbrains_properties_file_named_def
    using owned_profile [OF r] f by (simp add: Let_def split: option.split)
qed

lemma same_chromium_args: "same_elsewhere se h (fst (chromium_args se cmd wl args h))"
  using same_chromium_profile [of se h cmd]
  by (cases "chromium_profile_dir se cmd h") (auto simp: chromium_args_def Let_def split: option.split)

lemma same_jetbrains_args: "same_elsewhere se h (fst (apply_jetbrains_isolation_args se cmd args h))"
  using same_jetbrains_profile [of se h cmd]
  by (cases "jetbrains_properties_file se cmd h") (auto simp: apply_jetbrains_isolation_args_def split: option.split)

lemma same_kill: "same_elsewhere se h (kill_stale_jetbrains_jvms se props h)"
  by (rule same_same_files) (simp_all add: kill_stale_jetbrains_jvms_def)

lemma same_log:
  assumes "relative (se_show_uuid se i)"
  shows "same_elsewhere se h (fst (open_stderr_log se i h))"
proof -
  have r: "relative (se_show_uuid se i @ ''.stderr'')" using assms by (cases "se_show_uuid se i") simp_all
  have o: "owned se (path_join (path_join (path_join b ''lmux'') ''sat'') (se_show_uuid se i @ ''.stderr''))"
    if "or_else (se_state_home se) (map_option (\<lambda>d. path_join d ''.local/state'') (se_home se)) = Some b" for b
  proof -
    have "path_join b ''lmux'' = lmux_dir se"
      using that by (auto simp: lmux_dir_def state_base_dir_def or_else_def split: option.splits)
    moreover have "owned se (lmux_dir se)" by (simp add: owned_def under_def)
    then have "owned se (path_join (path_join (lmux_dir se) ''sat'') (se_show_uuid se i @ ''.stderr''))"
      using r by (intro owned_join) simp_all
    ultimately show ?thesis by simp
  qed
  show ?thesis
    unfolding open_stderr_log_def Let_def
    by (auto split: option.split dest!: o intro: same_trans same_mkdir same_write)
qed

lemma same_isolate: "same_elsewhere se h (fst (isolate se cmd wl args h))"
proof -
  obtain h1 a1 where 1: "(if should_isolate_chromium wl cmd then chromium_args se cmd wl args h else (h, args)) = (h1, a1)"
    by (rule prod.exhaust)
  have "same_elsewhere se h h1"
    using 1 same_chromium_args [of se h cmd wl args] by (auto split: if_splits)
  moreover have "same_elsewhere se h1 (fst (isolate se cmd wl args h))"
    using same_jetbrains_args [of se h1 cmd a1] same_kill
    by (auto simp: isolate_def 1 split: prod.split option.split intro: same_trans)
  ultimately show ?thesis by (rule same_trans)
qed

text \<open>C33: Starting a satellite touches lmux's own files only: whatever program is started with whatever arguments
  and environment, no file and no link outside lmux's state directory and its fallback under the temporary
  directory is written or removed; in particular not the user's own browser and IDE profiles. Assumed is
  that the text of a UUID does not start with a slash.\<close>

theorem spawn_touches_only_lmux_files:
  assumes "relative (se_show_uuid se i)" and "\<not> owned se p"
  shows "ho_files (fst (spawn_tagged_with_env se i argv cwd wl h)) p = ho_files h p \<and>
    ho_links (fst (spawn_tagged_with_env se i argv cwd wl h)) p = ho_links h p"
proof -
  have "same_elsewhere se h (fst (spawn_tagged_with_env se i argv cwd wl h))"
  proof (cases argv)
    case (Cons cmd rest)
    obtain h1 args props where 1: "isolate se cmd wl rest h = (h1, args, props)" by (rule prod_cases3)
    obtain h2 errlog where 2: "open_stderr_log se i h1 = (h2, errlog)" by (rule prod.exhaust)
    have "same_elsewhere se h h2"
      using same_isolate [of se h cmd wl rest] same_log [OF assms(1), of h1] 1 2 by (auto intro: same_trans)
    then show ?thesis by (simp add: same_started spawn_tagged_with_env_def Cons 1 2 Let_def split: sum.split)
  qed (simp add: spawn_tagged_with_env_def)
  then show ?thesis using assms(2) unfolding same_elsewhere_def by blast
qed

text \<open>A bare host, where every call succeeds, for the witnesses.\<close>

definition bare_env :: spawn_env where
  "bare_env = \<lparr>se_state_home = Some ''/s'', se_home = None, se_temp = ''/tmp'', se_runtime_dir = Some ''/run'', se_my_pid = 7,
     se_mkdir_ok = (\<lambda>_. True), se_write_ok = (\<lambda>_. True), se_remove_ok = (\<lambda>_. True), se_proc_ok = True,
     se_signal_ok = (\<lambda>_. False), se_show_uuid = (\<lambda>_. ''u''), se_start = (\<lambda>_. Inr 42)\<rparr>"

definition bare_host :: host where
  "bare_host = \<lparr>ho_dirs = [], ho_files = (\<lambda>_. None)(''/h/p'' \<mapsto> ''mine''), ho_links = (\<lambda>_. None), ho_procs = [],
     ho_signalled = [], ho_started = []\<rparr>"

theorem spawn_touches_only_lmux_files_witness:
  "\<forall>argv. ho_files (fst (spawn_tagged_with_env bare_env 1 argv None (Some ''lmux-7'') bare_host)) ''/h/p'' = Some ''mine''"
proof
  fix argv
  have r: "relative (se_show_uuid bare_env 1)" by (simp add: bare_env_def)
  have o: "\<not> owned bare_env ''/h/p''"
    by (simp add: owned_def under_def lmux_dir_def fallback_base_def state_base_dir_def path_join_def bare_env_def starts_with_def)
  show "ho_files (fst (spawn_tagged_with_env bare_env 1 argv None (Some ''lmux-7'') bare_host)) ''/h/p'' = Some ''mine''"
    using spawn_touches_only_lmux_files [OF r o] by (simp add: bare_host_def)
qed

section \<open>Who is signalled\<close>

named_theorems quiet "what leaves processes, signals and started programs alone"

definition quiet_step :: "host \<Rightarrow> host \<Rightarrow> bool" where
  "quiet_step h h' \<longleftrightarrow> ho_procs h' = ho_procs h \<and> ho_signalled h' = ho_signalled h \<and> ho_started h' = ho_started h \<and>
    set (ho_dirs h) \<subseteq> set (ho_dirs h')"

lemma quiet_refl [quiet]: "quiet_step h h"
  by (simp add: quiet_step_def)

lemma quiet_trans: "quiet_step h h1 \<Longrightarrow> quiet_step h1 h2 \<Longrightarrow> quiet_step h h2"
  by (auto simp: quiet_step_def)

lemma quiet_mkdir [quiet]: "create_dir_all se d h = Some h1 \<Longrightarrow> quiet_step h h1"
  by (auto simp: create_dir_all_def quiet_step_def split: if_splits)

lemma quiet_remove [quiet]: "quiet_step h (remove_file se p h)"
  by (simp add: remove_file_def quiet_step_def)

lemma quiet_write [quiet]: "quiet_step h (h\<lparr>ho_files := f\<rparr>)"
  by (simp add: quiet_step_def)

lemma quiet_fold: "(\<And>x h. quiet_step h (f x h)) \<Longrightarrow> quiet_step h (fold f xs h)"
  by (induction xs arbitrary: h) (auto intro: quiet_trans quiet_refl)

lemma quiet_singletons [quiet]: "quiet_step h (clear_stale_chromium_singletons se dir h)"
  unfolding clear_stale_chromium_singletons_def
  by (rule quiet_fold) (auto simp: clear_singleton_def Let_def quiet split: option.split)

lemma quiet_chromium [quiet]: "quiet_step h (fst (chromium_args se cmd wl args h))"
proof -
  have "quiet_step h (fst (chromium_profile_dir se cmd h))"
    by (auto simp: chromium_profile_dir_def chromium_profile_dir_named_def Let_def split: option.split
      intro: quiet_trans quiet)
  then show ?thesis
    by (cases "chromium_profile_dir se cmd h") (auto simp: chromium_args_def Let_def quiet split: option.split)
qed

lemma quiet_locks [quiet]: "quiet_step h (clear_stale_jetbrains_profile_locks se props h)"
proof -
  have "quiet_step h (remove_file se a (remove_file se b (remove_file se c h)))" for a b c
    by (simp add: quiet_step_def remove_file_def)
  then show ?thesis
    by (auto simp: clear_stale_jetbrains_profile_locks_def Let_def quiet_refl split: option.split)
qed

lemma quiet_create_all [quiet]: "create_all se ds h = (h1, b) \<Longrightarrow> quiet_step h h1"
  by (induction ds arbitrary: h) (auto split: option.splits intro: quiet_trans quiet)

lemma quiet_fill [quiet]: "quiet_step h (fst (fill_profile se dir h))"
proof -
  obtain h1 b where c: "create_all se [path_join dir ''system'', path_join dir ''log'', path_join dir ''plugins''] h = (h1, b)"
    by (rule prod.exhaust)
  have "quiet_step h1 (fst (fill_profile se dir h))"
    unfolding fill_profile_def c by (auto simp: Let_def quiet split: bool.split intro: quiet_trans quiet)
  then show ?thesis using quiet_create_all [OF c] quiet_trans by blast
qed

lemma quiet_jetbrains [quiet]: "quiet_step h (fst (apply_jetbrains_isolation_args se cmd args h))"
proof -
  have f: "quiet_step h (fst (fill_profile se dir h1))" if "create_dir_all se d h = Some h1" for d h1 dir
    using that quiet_trans quiet_mkdir quiet_fill by blast
  have "quiet_step h (fst (jetbrains_properties_file se cmd h))"
    unfolding jetbrains_properties_file_def jetbrains_properties_file_named_def
    by (simp add: Let_def f quiet_refl split: option.split)
  then show ?thesis
    by (cases "jetbrains_properties_file se cmd h") (auto simp: apply_jetbrains_isolation_args_def split: option.split)
qed

lemma quiet_log [quiet]: "quiet_step h (fst (open_stderr_log se i h))"
  by (auto simp: open_stderr_log_def Let_def quiet_refl split: option.split intro: quiet_trans quiet)

text \<open>A path that was there is there after such a step, lmux's own files aside.\<close>

lemma path_stays:
  "same_elsewhere se h h' \<Longrightarrow> quiet_step h h' \<Longrightarrow> path_exists h p \<Longrightarrow> path_exists h' p \<or> owned se p"
  unfolding same_elsewhere_def quiet_step_def path_exists_def list_ex_iff by (metis subsetD)

text \<open>
  A process left behind, as seen when a program is launched: not the cockpit, a JetBrains program, tagged
  as a satellite, and either told to use the very properties file (of the launched program's profile) or
  speaking to a display whose socket is not there.
\<close>

definition socket_gone :: "spawn_env \<Rightarrow> host \<Rightarrow> string option \<Rightarrow> bool" where
  "socket_gone se h display \<longleftrightarrow>
    (\<exists>rd d. se_runtime_dir se = Some rd \<and> display = Some d \<and>
      (\<not> path_exists h (path_join rd d) \<or> owned se (path_join rd d)))"

definition left_behind :: "spawn_env \<Rightarrow> string \<Rightarrow> host \<Rightarrow> process \<Rightarrow> bool" where
  "left_behind se props h p \<longleftrightarrow> pr_pid p \<noteq> se_my_pid se \<and> is_jetbrains_exe (pr_exe p) \<and>
    (\<exists>vars. pr_environ p = Some vars \<and> has_var ''LMUX_SATELLITE_ID'' vars \<and>
      ((''IDEA_PROPERTIES='' @ props) \<in> set vars \<or> socket_gone se h (last_var ''WAYLAND_DISPLAY'' vars)))"

text \<open>The properties file of a program's profile: in lmux's state directory or in its fallback.\<close>

definition profile_properties :: "spawn_env \<Rightarrow> string \<Rightarrow> string set" where
  "profile_properties se cmd =
    (\<lambda>base. path_join (profile_of base (strip_sh (unwrap_or (path_file_name cmd) ''jetbrains''))) ''idea.properties'') `
      {lmux_dir se, fallback_base se}"

lemma properties_in_profile:
  assumes "jetbrains_properties_file se cmd h = (h1, Some p)"
  shows "p \<in> profile_properties se cmd"
proof -
  have "p = path_join dir ''idea.properties''" if "fill_profile se dir h2 = (h3, Some p)" for dir h2 h3
    using that by (auto simp: fill_profile_def Let_def split: prod.splits bool.splits if_splits)
  then show ?thesis
    using assms by (auto simp: jetbrains_properties_file_def jetbrains_properties_file_named_def Let_def suffixed_def
      profile_properties_def lmux_dir_def split: option.splits)
qed

lemma stale_left_behind:
  assumes "stale_jvm se props h1 p" "same_elsewhere se h h1" "quiet_step h h1"
  shows "left_behind se props h p"
  using assms(1) path_stays [OF assms(2,3)]
  by (auto simp: stale_jvm_def left_behind_def socket_dead_def socket_gone_def Let_def split: if_splits option.splits)

text \<open>Whom one launch signals.\<close>

type_synonym launch = "uuid \<times> string list \<times> string option \<times> string option"

definition launch_step :: "spawn_env \<Rightarrow> launch \<Rightarrow> host \<Rightarrow> host" where
  "launch_step se = (\<lambda>(i, argv, cwd, wl) h. fst (spawn_tagged_with_env se i argv cwd wl h))"

lemma isolate_signals:
  "ho_signalled (fst (isolate se cmd wl args h)) = ho_signalled h \<or>
    is_jetbrains_family cmd \<and> wl \<noteq> None \<and>
    (\<exists>props \<in> profile_properties se cmd. \<exists>ks. ho_signalled (fst (isolate se cmd wl args h)) = ho_signalled h @ ks \<and>
      (\<forall>k \<in> set ks. \<exists>p \<in> set (ho_procs h). pr_pid p = k \<and> left_behind se props h p))"
proof -
  obtain h1 a1 where 1: "(if should_isolate_chromium wl cmd then chromium_args se cmd wl args h else (h, args)) = (h1, a1)"
    by (rule prod.exhaust)
  have q1: "quiet_step h h1" "same_elsewhere se h h1"
    using 1 quiet_chromium [of h se cmd wl args] same_chromium_args [of se h cmd wl args] by (auto simp: quiet_refl split: if_splits)
  obtain h2 a2 props where 2: "apply_jetbrains_isolation_args se cmd a1 h1 = (h2, a2, props)" by (rule prod_cases3)
  have q2: "quiet_step h h2" "same_elsewhere se h h2"
    using quiet_jetbrains [of h1 se cmd a1] same_jetbrains_args [of se h1 cmd a1] 2 q1 quiet_trans same_trans by auto
  show ?thesis
  proof (cases "should_isolate_jetbrains wl cmd \<and> props \<noteq> None \<and> se_proc_ok se")
    case True
    then obtain p where p: "props = Some p" by blast
    then have "p \<in> profile_properties se cmd"
      using 2 properties_in_profile by (auto simp: apply_jetbrains_isolation_args_def split: option.splits prod.splits)
    moreover have "ho_signalled (fst (isolate se cmd wl args h)) =
        ho_signalled h @ map pr_pid (filter (stale_jvm se p h2) (ho_procs h))"
      using True q2(1) by (simp add: isolate_def 1 2 p kill_stale_jetbrains_jvms_def quiet_step_def)
    moreover have "\<forall>k \<in> set (map pr_pid (filter (stale_jvm se p h2) (ho_procs h))).
        \<exists>x \<in> set (ho_procs h). pr_pid x = k \<and> left_behind se p h x"
      using stale_left_behind [OF _ q2(2,1)] by auto
    ultimately show ?thesis using True unfolding should_isolate_jetbrains_def by blast
  next
    case False
    then have "ho_signalled (fst (isolate se cmd wl args h)) = ho_signalled h"
      using q1(1) q2(1) by (auto simp: isolate_def 1 2 kill_stale_jetbrains_jvms_def quiet_step_def split: option.split)
    then show ?thesis ..
  qed
qed

lemma launch_signals:
  assumes "k \<in> set (ho_signalled (launch_step se (i, argv, cwd, wl) h))"
  shows "k \<in> set (ho_signalled h) \<or>
    (\<exists>cmd rest props p. argv = cmd # rest \<and> is_jetbrains_family cmd \<and> wl \<noteq> None \<and> props \<in> profile_properties se cmd \<and>
      p \<in> set (ho_procs h) \<and> pr_pid p = k \<and> left_behind se props h p)"
proof (cases argv)
  case (Cons cmd rest)
  obtain h1 args props where 1: "isolate se cmd wl rest h = (h1, args, props)" by (rule prod_cases3)
  obtain h2 errlog where 2: "open_stderr_log se i h1 = (h2, errlog)" by (rule prod.exhaust)
  have "ho_signalled h2 = ho_signalled h1" using quiet_log [of h1 se i] 2 by (simp add: quiet_step_def)
  then have "ho_signalled (launch_step se (i, argv, cwd, wl) h) = ho_signalled h1"
    by (simp add: launch_step_def spawn_tagged_with_env_def Cons 1 2 Let_def split: sum.split)
  then show ?thesis using isolate_signals [of se cmd wl rest h] assms Cons 1 by fastforce
qed (use assms in \<open>simp add: launch_step_def spawn_tagged_with_env_def\<close>)

text \<open>
  A run: launches, and in between whatever else happens on the host: processes start (the launched
  programs among them) and end, sockets, files and links come and go.
\<close>

datatype host_change = Launch launch | Others "process list" "string list" "string \<Rightarrow> string option" "string \<Rightarrow> string option"

fun host_step :: "spawn_env \<Rightarrow> host_change \<Rightarrow> host \<Rightarrow> host" where
  "host_step se (Launch l) h = launch_step se l h"
| "host_step se (Others ps ds fs ls) h = h\<lparr>ho_procs := ps, ho_dirs := ds, ho_files := fs, ho_links := ls\<rparr>"

lemma run_signals:
  assumes "k \<in> set (ho_signalled (fold (host_step se) es h))"
  shows "k \<in> set (ho_signalled h) \<or>
    (\<exists>before i cmd rest cwd d after g props p. es = before @ Launch (i, cmd # rest, cwd, Some d) # after \<and>
      is_jetbrains_family cmd \<and> props \<in> profile_properties se cmd \<and> g = fold (host_step se) before h \<and>
      p \<in> set (ho_procs g) \<and> pr_pid p = k \<and> left_behind se props g p)"
  using assms
proof (induction es rule: rev_induct)
  case (snoc e es)
  let ?h = "fold (host_step se) es h"
  show ?case
  proof (cases "k \<in> set (ho_signalled ?h)")
    case True
    then show ?thesis using snoc.IH by (metis (no_types, lifting) append.assoc append_Cons)
  next
    case False
    then obtain i argv cwd wl where e: "e = Launch (i, argv, cwd, wl)" using snoc.prems by (cases e) auto
    have "k \<in> set (ho_signalled (launch_step se (i, argv, cwd, wl) ?h))" using snoc.prems e by simp
    then show ?thesis using launch_signals [of k se i argv cwd wl ?h] False e by (metis append_Nil2 append.assoc option.exhaust)
  qed
qed simp

text \<open>C34: Whom a launch may end: over any run of launches, between which processes, sockets and files change in any
  way, every process that is signalled was in the process table at the launch of a JetBrains program for
  the nested compositor, and was left behind as that launch sees it: it is not the cockpit, its
  executable is a JetBrains program's, its environment carries the tag of a satellite, and either names
  as its properties file that of the launched program's own profile, or a display of which no socket is in the
  runtime directory at that time (a path inside lmux's own state directories counts as no socket). No other process is signalled. The tag is a variable that programs started by a satellite
  inherit, so it tells descent from a launch, not that lmux started the program itself.\<close>

theorem only_orphans_are_signalled:
  "set (ho_signalled (fold (host_step se) es h)) \<subseteq> set (ho_signalled h) \<union>
    {k. \<exists>before i cmd rest cwd d after props p vars. es = before @ Launch (i, cmd # rest, cwd, Some d) # after \<and>
      is_jetbrains_family cmd \<and> props \<in> profile_properties se cmd \<and>
      p \<in> set (ho_procs (fold (host_step se) before h)) \<and> pr_pid p = k \<and> k \<noteq> se_my_pid se \<and>
      is_jetbrains_exe (pr_exe p) \<and> pr_environ p = Some vars \<and> has_var ''LMUX_SATELLITE_ID'' vars \<and>
      ((''IDEA_PROPERTIES='' @ props) \<in> set vars \<or>
       socket_gone se (fold (host_step se) before h) (last_var ''WAYLAND_DISPLAY'' vars))}"
proof
  fix k assume "k \<in> set (ho_signalled (fold (host_step se) es h))"
  from run_signals [OF this]
  show "k \<in> set (ho_signalled h) \<union>
    {k. \<exists>before i cmd rest cwd d after props p vars. es = before @ Launch (i, cmd # rest, cwd, Some d) # after \<and>
      is_jetbrains_family cmd \<and> props \<in> profile_properties se cmd \<and>
      p \<in> set (ho_procs (fold (host_step se) before h)) \<and> pr_pid p = k \<and> k \<noteq> se_my_pid se \<and>
      is_jetbrains_exe (pr_exe p) \<and> pr_environ p = Some vars \<and> has_var ''LMUX_SATELLITE_ID'' vars \<and>
      ((''IDEA_PROPERTIES='' @ props) \<in> set vars \<or>
       socket_gone se (fold (host_step se) before h) (last_var ''WAYLAND_DISPLAY'' vars))}"
    unfolding left_behind_def by blast
qed

text \<open>A launch that ends what an earlier cockpit left, and leaves the user's own IDE and one of a live cockpit alone.\<close>

definition ide :: "nat \<Rightarrow> string list \<Rightarrow> process" where
  "ide pid vars = \<lparr>pr_pid = pid, pr_environ = Some vars, pr_exe = Some ''/opt/idea/bin/idea''\<rparr>"

definition ides :: "process list" where
  "ides = [ide 9 [''LMUX_SATELLITE_ID=u'', ''WAYLAND_DISPLAY=lmux-3-0''], ide 10 [''WAYLAND_DISPLAY=lmux-3-0''],
     ide 11 [''LMUX_SATELLITE_ID=u'', ''WAYLAND_DISPLAY=lmux-5-0'']]"

definition relaunch :: "host_change list" where
  "relaunch = [Others ides [''/run/lmux-5-0''] (\<lambda>_. None) (\<lambda>_. None), Launch (1, [''/usr/bin/idea''], None, Some ''lmux-7-0'')]"

lemma relaunch_signals: "ho_signalled (fold (host_step bare_env) relaunch bare_host) = [9]"
  by code_simp

theorem only_orphans_are_signalled_witness:
  "ho_signalled (fold (host_step bare_env) relaunch bare_host) = [9] \<and>
    (\<exists>p \<in> set ides. pr_pid p = 9 \<and> is_jetbrains_exe (pr_exe p))"
proof -
  have k: "9 \<in> set (ho_signalled (fold (host_step bare_env) relaunch bare_host))" "9 \<notin> set (ho_signalled bare_host)"
    by (simp_all add: relaunch_signals) (simp add: bare_host_def)
  obtain before l after p where "relaunch = before @ Launch l # after"
      "p \<in> set (ho_procs (fold (host_step bare_env) before bare_host))" "pr_pid p = 9" "is_jetbrains_exe (pr_exe p)"
    using subsetD [OF only_orphans_are_signalled k(1)] k(2) by blast
  then show ?thesis using relaunch_signals by (auto simp: relaunch_def Cons_eq_append_conv)
qed

text \<open>The display that the nested compositor binds is \<open>lmux-\<close>, the process id and a sequence number, so the
  exception for siblings never applies to them: an IDE of this very cockpit that shares the properties file
  counts as stale, however alive its socket is.\<close>

lemma own_ide_counts_as_stale:
  assumes "pr_environ p = Some [''LMUX_SATELLITE_ID='' @ u, ''IDEA_PROPERTIES='' @ props,
      ''WAYLAND_DISPLAY='' @ ''lmux-'' @ show_nat (se_my_pid se) @ ''-'' @ seq]"
    and "pr_pid p \<noteq> se_my_pid se" "is_jetbrains_exe (pr_exe p)"
  shows "stale_jvm se props h p"
  using assms
  by (simp add: stale_jvm_def has_var_def last_var_def strip_prefix_def starts_with_def Let_def)

section \<open>What is started\<close>

lemma started_quiet: "quiet_step h h' \<Longrightarrow> ho_started h' = ho_started h"
  by (simp add: quiet_step_def)

lemma started_kill [simp]: "ho_started (kill_stale_jetbrains_jvms se props h) = ho_started h"
  by (simp add: kill_stale_jetbrains_jvms_def)

lemma has_flag_mono: "has_flag args f \<Longrightarrow> has_flag (x # args) f"
  by (simp add: has_flag_def)

text \<open>On a host that refuses no directory and no file.\<close>

definition willing :: "spawn_env \<Rightarrow> bool" where
  "willing se \<longleftrightarrow> (\<forall>p. se_mkdir_ok se p \<and> se_write_ok se p)"

lemma willing_mkdir: "willing se \<Longrightarrow> create_dir_all se d h = Some (h\<lparr>ho_dirs := ho_dirs h @ [d]\<rparr>)"
  by (simp add: willing_def create_dir_all_def)

lemma willing_create_all: "willing se \<Longrightarrow> snd (create_all se ds h)"
  by (induction ds arbitrary: h) (simp_all add: willing_mkdir)

lemma chromium_args_isolate:
  assumes "chromium_args se cmd wl args h = (h1, a1)"
  shows "ho_started h1 = ho_started h \<and> (\<exists>ins. a1 = ins @ args) \<and> (willing se \<longrightarrow> has_flag a1 ''--user-data-dir'')"
proof -
  obtain h2 dir where d: "chromium_profile_dir se cmd h = (h2, dir)" by (rule prod.exhaust)
  have s: "ho_started h1 = ho_started h" using started_quiet [OF quiet_chromium] assms by (metis fst_conv)
  have w: "dir \<noteq> None" if "willing se"
    using d that by (auto simp: chromium_profile_dir_def chromium_profile_dir_named_def willing_mkdir Let_def)
  have "starts_with ''--user-data-dir='' (''--user-data-dir='' @ x)" for x by (simp add: starts_with_def)
  then have f: "has_flag ((''--user-data-dir='' @ x) # ys) ''--user-data-dir''" for x ys by (simp add: has_flag_def)
  have ins: "\<exists>ins. a1 = ins @ args"
    using assms d by (auto simp: chromium_args_def Let_def split: if_splits option.splits)
  have "willing se \<longrightarrow> has_flag a1 ''--user-data-dir''"
    using assms d w f by (auto simp: chromium_args_def Let_def has_flag_mono split: if_splits option.splits)
  then show ?thesis using s ins by blast
qed

lemma jetbrains_file_owned:
  assumes "jetbrains_properties_file se cmd h = (h1, Some p)"
  shows "owned se p"
proof -
  have r: "relative (suffixed (strip_sh (unwrap_or (path_file_name cmd) ''jetbrains'')) None)"
    by (simp add: suffixed_def relative_file_name strip_sh_relative)
  have "owned se p" if "fill_profile se dir h2 = (h3, Some p)" "owned se dir" for dir h2 h3
    using that by (auto simp: fill_profile_def Let_def owned_join split: prod.splits bool.splits if_splits)
  then show ?thesis
    using assms owned_profile [OF r]
    by (auto simp: jetbrains_properties_file_def jetbrains_properties_file_named_def Let_def split: option.splits)
qed

lemma jetbrains_file_some: "willing se \<Longrightarrow> snd (jetbrains_properties_file se cmd h) \<noteq> None"
proof -
  assume w: "willing se"
  then have "snd (fill_profile se dir h1) \<noteq> None" for dir h1
    using willing_create_all [OF w, of "[path_join dir ''system'', path_join dir ''log'', path_join dir ''plugins'']" h1]
    by (auto simp: fill_profile_def Let_def willing_def split: prod.split bool.split)
  then show ?thesis
    by (simp add: jetbrains_properties_file_def jetbrains_properties_file_named_def Let_def willing_mkdir [OF w])
qed

lemma jetbrains_args_isolate:
  assumes "apply_jetbrains_isolation_args se cmd args h = (h1, a1, props)"
  shows "ho_started h1 = ho_started h \<and> (\<exists>ins. a1 = ins @ args) \<and> (\<forall>f. has_flag args f \<longrightarrow> has_flag a1 f) \<and>
    (willing se \<longrightarrow> has_jvm_property a1 ''idea.properties.file'' \<and> (\<exists>p. props = Some p \<and> owned se p))"
proof -
  obtain h2 x where x: "jetbrains_properties_file se cmd h = (h2, x)" by (rule prod.exhaust)
  have s: "ho_started h1 = ho_started h"
    using started_quiet [OF quiet_jetbrains, of se cmd args h] assms by simp
  have p: "has_jvm_property ((''-Didea.properties.file='' @ p) # ys) ''idea.properties.file''" for p ys
    by (simp add: has_jvm_property_def starts_with_def)
  have "x \<noteq> None" if "willing se" using jetbrains_file_some [OF that, of cmd h] x by simp
  moreover have "owned se p" if "x = Some p" for p using jetbrains_file_owned x that by blast
  ultimately show ?thesis
    using assms x s p by (auto simp: apply_jetbrains_isolation_args_def has_flag_mono split: option.splits if_splits)
qed

lemma isolate_adds:
  assumes "isolate se cmd wl args h = (h1, a1, props)"
  shows "ho_started h1 = ho_started h \<and> (\<exists>ins. a1 = ins @ args) \<and>
    (willing se \<and> should_isolate_chromium wl cmd \<longrightarrow> has_flag a1 ''--user-data-dir'') \<and>
    (willing se \<and> should_isolate_jetbrains wl cmd \<longrightarrow>
      has_jvm_property a1 ''idea.properties.file'' \<and> (\<exists>p. props = Some p \<and> owned se p))"
proof -
  obtain h2 a2 where 1: "(if should_isolate_chromium wl cmd then chromium_args se cmd wl args h else (h, args)) = (h2, a2)"
    by (rule prod.exhaust)
  have c: "ho_started h2 = ho_started h" "\<exists>ins. a2 = ins @ args"
    "willing se \<and> should_isolate_chromium wl cmd \<longrightarrow> has_flag a2 ''--user-data-dir''"
    using 1 chromium_args_isolate [of se cmd wl args h h2 a2] by (auto split: if_splits)
  obtain h3 a3 p where 2: "apply_jetbrains_isolation_args se cmd a2 h2 = (h3, a3, p)" by (rule prod_cases3)
  note j = jetbrains_args_isolate [OF 2]
  show ?thesis
  proof (cases "should_isolate_jetbrains wl cmd")
    case True
    have "ho_started h1 = ho_started h3 \<and> a1 = a3 \<and> props = p"
      using assms by (auto simp: isolate_def 1 2 True split: option.splits)
    then show ?thesis using c j True by auto
  next
    case False
    then show ?thesis using assms c by (simp add: isolate_def 1)
  qed
qed

text \<open>A program started for the nested compositor is lmux's own: exactly one program is started, the one asked
  for, with the arguments asked for after those added; it carries the request's tag, is pointed at the
  nested compositor and away from X11; a browser gets a profile directory and a JetBrains IDE a
  properties file of lmux's own, so neither hands the request to an instance the user has open. Assumed
  is that the directories and files can be made.\<close>

theorem satellite_is_isolated:
  assumes "willing se" and "spawn_tagged_with_env se i (cmd # rest) cwd (Some d) h = (h', Inr (j, pid))"
  shows "\<exists>cm ins. ho_started h' = ho_started h @ [cm] \<and> j = i \<and> cm_program cm = cmd \<and> cm_args cm = ins @ rest \<and>
    cm_cwd cm = cwd \<and> map_of (cm_env cm) ''LMUX_SATELLITE_ID'' = Some (se_show_uuid se i) \<and>
    map_of (cm_env cm) ''WAYLAND_DISPLAY'' = Some d \<and> ''DISPLAY'' \<in> set (cm_env_removed cm) \<and>
    (is_chromium_family cmd \<longrightarrow> has_flag (cm_args cm) ''--user-data-dir'') \<and>
    (is_jetbrains_family cmd \<longrightarrow> has_jvm_property (cm_args cm) ''idea.properties.file'' \<and>
      (\<exists>p. map_of (cm_env cm) ''IDEA_PROPERTIES'' = Some p \<and> owned se p))"
proof -
  obtain h1 args props where 1: "isolate se cmd (Some d) rest h = (h1, args, props)" by (rule prod_cases3)
  obtain h2 errlog where 2: "open_stderr_log se i h1 = (h2, errlog)" by (rule prod.exhaust)
  let ?cm = "satellite_command se i cmd args cwd (Some d) props errlog"
  have r: "j = i" "h' = h2\<lparr>ho_started := ho_started h2 @ [?cm]\<rparr>"
    using assms(2) by (auto simp: spawn_tagged_with_env_def 1 2 Let_def split: sum.splits)
  have s: "ho_started h2 = ho_started h1" using started_quiet [OF quiet_log, of se i h1] 2 by simp
  note iso = isolate_adds [OF 1]
  then obtain ins where ins: "args = ins @ rest" by blast
  have cm: "cm_program ?cm = cmd" "cm_args ?cm = args" "cm_cwd ?cm = cwd" "''DISPLAY'' \<in> set (cm_env_removed ?cm)"
    "map_of (cm_env ?cm) ''LMUX_SATELLITE_ID'' = Some (se_show_uuid se i)"
    "map_of (cm_env ?cm) ''WAYLAND_DISPLAY'' = Some d"
    "props = Some p \<Longrightarrow> map_of (cm_env ?cm) ''IDEA_PROPERTIES'' = Some p" for p
    by (simp_all add: satellite_command_def nested_env_def)
  show ?thesis
    using r s cm iso ins assms(1)
    by (intro exI [of _ ?cm] exI [of _ ins]) (auto simp: should_isolate_chromium_def should_isolate_jetbrains_def)
qed

theorem satellite_is_isolated_witness:
  "\<exists>cm. ho_started (fst (spawn_tagged_with_env bare_env 1 [''/usr/bin/chromium'', ''x''] None (Some ''lmux-7'') bare_host)) = [cm] \<and>
    last (cm_args cm) = ''x'' \<and> has_flag (cm_args cm) ''--user-data-dir''"
proof -
  have "se_start bare_env cm = Inr 42" for cm by (simp add: bare_env_def)
  then have "snd (spawn_tagged_with_env bare_env 1 [''/usr/bin/chromium'', ''x''] None (Some ''lmux-7'') bare_host) = Inr (1, 42)"
    by (simp add: spawn_tagged_with_env_def Let_def split: prod.split)
  then obtain h' where s: "spawn_tagged_with_env bare_env 1 [''/usr/bin/chromium'', ''x''] None (Some ''lmux-7'') bare_host =
      (h', Inr (1, 42))"
    by (metis prod.collapse)
  have w: "willing bare_env" by (simp add: willing_def bare_env_def)
  have b: "is_chromium_family ''/usr/bin/chromium''"
    by (simp add: is_chromium_family_def base_name_def path_file_name_def unwrap_or_def)
  show ?thesis
    using satellite_is_isolated [OF w s] b s by (auto simp: bare_host_def)
qed

text \<open>Without the nested compositor the arguments are left as they are.\<close>

lemma unnested_untouched:
  "spawn_tagged_with_env se i (cmd # rest) cwd None h = (h', Inr r) \<Longrightarrow>
    \<exists>cm. ho_started h' = ho_started h @ [cm] \<and> cm_program cm = cmd \<and> cm_args cm = rest \<and>
      cm_env cm = [(''LMUX_SATELLITE_ID'', se_show_uuid se i)]"
proof -
  assume a: "spawn_tagged_with_env se i (cmd # rest) cwd None h = (h', Inr r)"
  obtain h2 errlog where 2: "open_stderr_log se i h = (h2, errlog)" by (rule prod.exhaust)
  have "ho_started h2 = ho_started h" using started_quiet [OF quiet_log, of se i h] 2 by simp
  then show ?thesis
    using a by (auto simp: spawn_tagged_with_env_def isolate_def should_isolate_chromium_def should_isolate_jetbrains_def
      2 Let_def satellite_command_def split: sum.splits)
qed

end
