(* ===== verification/LauncherRuns.thy ===== *)
theory LauncherRuns
  imports Launcher SpawnSafety
begin

text \<open>
  What the launcher keeps: one scan at a time and a dialog that shows the cache; a commit launches the entry
  the selected row shows; \<open>Exec\<close> lines are read back; and which file of the search path gives an entry.
\<close>

section \<open>One scan at a time\<close>

datatype cache_event = Warm "string option" | Scanned "launch_entry list" nat

text \<open>The cache and the number of workers; a worker can only end when one runs.\<close>

definition cache_step :: "lowering \<Rightarrow> cache_event \<Rightarrow> locked \<times> nat \<Rightarrow> locked \<times> nat" where
  "cache_step low ev = (\<lambda>(m, running). case ev of
     Warm spawn \<Rightarrow> (let (m1, started) = warm_cache spawn m in (m1, if started then running + 1 else running))
   | Scanned es now \<Rightarrow> if running = 0 then (m, running) else (scan_done low es now m, running - 1))"

definition one_scan :: "locked \<times> nat \<Rightarrow> bool" where
  "one_scan = (\<lambda>(m, running). case m of
     None \<Rightarrow> running \<le> 1
   | Some c \<Rightarrow> running = (if ls_status c = LS_Refreshing then 1 else 0))"

interpretation scans: invariant_machine "cache_step low" one_scan for low
proof
  fix s c assume i: "one_scan s"
  obtain m r where s: "s = (m, r)" by (cases s)
  show "one_scan (cache_step low c s)"
    using i
    by (cases c; cases m)
      (auto simp: s one_scan_def cache_step_def warm_cache_def should_spawn_def spawn_failed_def scan_done_def
        Let_def split: option.splits if_splits)
qed

text \<open>However often the launcher is opened and whatever fails, at most one scan of the applications runs at a
  time, and the cache says it is being refreshed exactly while one does: a failed start of the worker
  does not leave it waiting for ever.\<close>

theorem one_scan_at_a_time:
  "case fold (cache_step low) evs (Some cache_default, 0) of
     (m, running) \<Rightarrow> running \<le> 1 \<and> (case m of Some c \<Rightarrow> (ls_status c = LS_Refreshing) = (running = 1) | None \<Rightarrow> False)"
proof -
  have 1: "one_scan (fold (cache_step low) evs (Some cache_default, 0))"
    by (rule scans.run_inv) (simp add: one_scan_def cache_default_def)
  have "fst (cache_step low e s) \<noteq> None" if "fst s \<noteq> None" for e s
    using that by (cases s; cases e) (auto simp: cache_step_def warm_cache_def should_spawn_def spawn_failed_def scan_done_def
        split: option.splits if_splits prod.splits)
  then have "fst (fold (cache_step low) es s) \<noteq> None" if "fst s \<noteq> None" for es s
    using that by (induction es arbitrary: s) simp_all
  then have "fst (fold (cache_step low) evs (Some cache_default, 0)) \<noteq> None" by simp
  then show ?thesis using 1 by (auto simp: one_scan_def split: option.splits if_splits prod.splits)
qed

section \<open>The dialog\<close>

datatype dialog_event = Type string | Arrow int | Escape | Commit | Tick locked

text \<open>What an event does to the dialog, and the entry it launches.\<close>

definition dialog_step :: "lowering \<Rightarrow> dialog_event \<Rightarrow> dialog \<Rightarrow> dialog" where
  "dialog_step low ev d =
    (case ev of
       Type q \<Rightarrow> rebuild_rows low (d\<lparr>dg_query := q\<rparr>)
     | Arrow delta \<Rightarrow> move_selection delta d
     | Escape \<Rightarrow> d\<lparr>dg_open := False\<rparr>
     | Commit \<Rightarrow> d\<lparr>dg_open := False\<rparr>
     | Tick m \<Rightarrow> poll_cache low m d)"

definition dialog_ok :: "lowering \<Rightarrow> dialog \<Rightarrow> bool" where
  "dialog_ok low d \<longleftrightarrow>
    (filtered_entries low (dg_query d) (dg_entries d) \<noteq> [] \<longrightarrow>
       dg_rows d = map entry_row (filtered_entries low (dg_query d) (dg_entries d))) \<and>
    (filtered_entries low (dg_query d) (dg_entries d) = [] \<longrightarrow> (\<exists>t. dg_rows d = [Empty_Row t])) \<and>
    (\<forall>r. dg_selected d = Some r \<longrightarrow> r < length (dg_rows d))"

lemma rebuild_rows_ok: "dialog_ok low (rebuild_rows low d)"
  by (auto simp: dialog_ok_def rebuild_rows_def Let_def)

lemma move_selection_ok: "dialog_ok low d \<Longrightarrow> dialog_ok low (move_selection i d)"
  by (auto simp: dialog_ok_def move_selection_def Let_def)

lemma poll_cache_ok: "dialog_ok low d \<Longrightarrow> dialog_ok low (poll_cache low m d)"
proof -
  assume d: "dialog_ok low d"
  have p: "dialog_ok low (d\<lparr>dg_polling := b\<rparr>)" if "dialog_ok low d" for d b
    using that by (simp add: dialog_ok_def)
  show ?thesis using d by (auto simp: poll_cache_def Let_def intro!: p rebuild_rows_ok)
qed

interpretation dialogs: invariant_machine "dialog_step low" "dialog_ok low" for low
proof
  fix d c assume "dialog_ok low d"
  then show "dialog_ok low (dialog_step low c d)"
    using rebuild_rows_ok move_selection_ok poll_cache_ok
    by (cases c) (simp_all add: dialog_step_def, simp_all add: dialog_ok_def)
qed

lemma filtered_entries_in:
  "(i, e) \<in> set (filtered_entries low q es) \<longleftrightarrow> i < length es \<and> es ! i = e \<and> entry_matches low q e"
  by (auto simp: filtered_entries_def in_set_enumerate_eq)

text \<open>What is launched is what is shown: after any typing, moving and refreshing of the list, the entry a commit
  launches is one of the dialog's entries, matches the text typed, and is the one whose name and index the
  selected row shows; on the row of an empty list nothing is launched.\<close>

theorem commit_launches_selected_row:
  assumes "committed (fold (dialog_step low) evs (snd (snd (open_dialog low spawn m)))) = Some e"
  shows "let d = fold (dialog_step low) evs (snd (snd (open_dialog low spawn m))) in
    e \<in> set (dg_entries d) \<and> entry_matches low (dg_query d) e \<and>
    (\<exists>r i. dg_selected d = Some r \<and> dg_rows d ! r = entry_row (i, e) \<and> dg_entries d ! i = e)"
proof -
  let ?d = "fold (dialog_step low) evs (snd (snd (open_dialog low spawn m)))"
  have ok: "dialog_ok low ?d"
    by (rule dialogs.run_inv) (simp add: open_dialog_def Let_def rebuild_rows_ok split: prod.split)
  obtain r i where r: "dg_selected ?d = Some r" "r < length (dg_rows ?d)"
      "row_origin_index (dg_rows ?d ! r) = Some i" "i < length (dg_entries ?d)" "e = dg_entries ?d ! i"
    using assms by (auto simp: committed_def split: option.splits if_splits)
  let ?f = "filtered_entries low (dg_query ?d) (dg_entries ?d)"
  have ne: "?f \<noteq> []" using ok r(2,3) by (auto simp: dialog_ok_def row_origin_index_def)
  then have rows: "dg_rows ?d = map entry_row ?f" using ok by (simp add: dialog_ok_def)
  obtain j x where j: "?f ! r = (j, x)" by (cases "?f ! r")
  then have jx: "(j, x) \<in> set ?f" using r(2) rows by (metis length_map nth_mem)
  have row: "dg_rows ?d ! r = entry_row (j, x)" using rows r(2) j by simp
  then have "i = j" using r(3) by (simp add: row_origin_index_def entry_row_def)
  then have "x = e" using jx r(5) by (simp add: filtered_entries_in)
  then show ?thesis
    using r \<open>i = j\<close> jx row unfolding Let_def filtered_entries_in by (metis nth_mem)
qed

theorem commit_launches_selected_row_witness:
  "let c = cache_default\<lparr>ls_entries := [\<lparr>le_name = ''firefox'', le_exec = ''firefox %u'', le_comment = None, le_bundle_id = None\<rparr>,
        \<lparr>le_name = ''kate'', le_exec = ''kate'', le_comment = None, le_bundle_id = None\<rparr>], ls_status := LS_Ready\<rparr>;
      d = fold (dialog_step to_ascii_lowercase) [Type ''ka''] (snd (snd (open_dialog to_ascii_lowercase None (Some c))))
    in map_option le_name (committed d) = Some ''kate'' \<and> dg_selected d = Some 0 \<and>
      (\<exists>i e. dg_rows d ! 0 = entry_row (i, e) \<and> le_exec e = ''kate'')"
proof -
  let ?k = "\<lparr>le_name = ''kate'', le_exec = ''kate'', le_comment = None, le_bundle_id = None\<rparr>"
  let ?c = "cache_default\<lparr>ls_entries := [\<lparr>le_name = ''firefox'', le_exec = ''firefox %u'', le_comment = None, le_bundle_id = None\<rparr>,
        ?k], ls_status := LS_Ready\<rparr>"
  let ?d = "fold (dialog_step to_ascii_lowercase) [Type ''ka''] (snd (snd (open_dialog to_ascii_lowercase None (Some ?c))))"
  have m: "entry_matches to_ascii_lowercase ''ka'' ?k" "\<not> entry_matches to_ascii_lowercase ''ka'' \<lparr>le_name = ''firefox'', le_exec = ''firefox %u'',
      le_comment = None, le_bundle_id = None\<rparr>"
    by (simp_all add: entry_matches_def trim_def is_space_def to_ascii_lowercase_def to_lower_def contains_str_def
      find_sub.simps starts_with_def Let_def)
  then have f: "filtered_entries to_ascii_lowercase ''ka'' (ls_entries ?c) = [(1, ?k)]" by (simp add: filtered_entries_def)
  have d: "?d = rebuild_rows to_ascii_lowercase ((snd (snd (open_dialog to_ascii_lowercase None (Some ?c))))\<lparr>dg_query := ''ka''\<rparr>)"
    by (simp add: dialog_step_def)
  have e: "dg_entries (snd (snd (open_dialog to_ascii_lowercase None (Some ?c)))) = ls_entries ?c"
    by (simp add: open_dialog_def warm_cache_def should_spawn_def cache_snapshot_def launch_snapshot.truncate_def
      rebuild_rows_def Let_def)
  have s: "dg_selected ?d = Some 0" "dg_rows ?d = [entry_row (1, ?k)]" "dg_entries ?d = ls_entries ?c"
    unfolding d rebuild_rows_def using e f by (simp_all add: Let_def)
  then have c: "committed ?d = Some ?k" by (simp add: committed_def row_origin_index_def entry_row_def)
  obtain i where "dg_rows ?d ! 0 = entry_row (i, ?k)"
    using commit_launches_selected_row [OF c] s(1) by (auto simp: Let_def)
  moreover have "le_exec ?k = ''kate''" by simp
  ultimately have "\<exists>i e. dg_rows ?d ! 0 = entry_row (i, e) \<and> le_exec e = ''kate''" by blast
  then show ?thesis using c s(1) unfolding Let_def by simp
qed

text \<open>A finished scan is shown: the first tick of the timer after the worker has stored its entries makes them,
  in order and filtered by the text typed, the rows of an open dialog, and is the last tick. Assumed is that
  the generation counter, of 64 bits, has not run out.\<close>

theorem finished_scan_is_shown:
  assumes "dg_open d" "dg_polling d" "dg_seen d \<le> ls_generation c" "ls_generation c < u64_max"
  shows "poll_cache low (scan_done low es now (Some c)) d =
    (rebuild_rows low (d\<lparr>dg_seen := ls_generation c + 1, dg_status := LS_Ready,
       dg_entries := sort_key (\<lambda>e. low (le_name e)) es\<rparr>))\<lparr>dg_polling := False\<rparr>"
  using assms
  by (simp add: poll_cache_def scan_done_def cache_snapshot_def launch_snapshot.truncate_def sat_add_u64_def Let_def)

theorem finished_scan_is_shown_witness:
  "let e = \<lparr>le_name = ''Kate'', le_exec = ''kate'', le_comment = None, le_bundle_id = None\<rparr>;
      (m, running, d) = open_dialog to_ascii_lowercase None (Some cache_default)
    in running \<and> dg_rows d = [Empty_Row ''(loading applications...)''] \<and>
      dg_rows (poll_cache to_ascii_lowercase (scan_done to_ascii_lowercase [e] 7 m) d) = [Entry_Row 0 ''Kate'' None]"
proof -
  let ?e = "\<lparr>le_name = ''Kate'', le_exec = ''kate'', le_comment = None, le_bundle_id = None\<rparr>"
  let ?c = "cache_default\<lparr>ls_status := LS_Refreshing, ls_generation := 1\<rparr>"
  let ?d = "rebuild_rows to_ascii_lowercase \<lparr>dg_entries = [], dg_status = LS_Refreshing, dg_query = [], dg_rows = [], dg_selected = None,
    dg_open = True, dg_polling = True, dg_seen = 1\<rparr>"
  have f: "filtered_entries to_ascii_lowercase [] [] = []" by (simp add: filtered_entries_def)
  have o: "open_dialog to_ascii_lowercase None (Some cache_default) = (Some ?c, True, ?d)"
    by (simp add: open_dialog_def warm_cache_def should_spawn_def cache_default_def cache_snapshot_def
      launch_snapshot.truncate_def sat_add_u64_def u64_max_def Let_def)
  have r: "dg_rows ?d = [Empty_Row ''(loading applications...)'']"
    by (simp add: rebuild_rows_def f empty_state_text_def trim_def Let_def)
  have p: "dg_open ?d" "dg_polling ?d" "dg_seen ?d \<le> ls_generation ?c" "ls_generation ?c < u64_max"
    by (simp_all add: rebuild_rows_def f u64_max_def Let_def)
  have "dg_rows (poll_cache to_ascii_lowercase (scan_done to_ascii_lowercase [?e] 7 (Some ?c)) ?d) = [Entry_Row 0 ''Kate'' None]"
    unfolding finished_scan_is_shown [OF p]
    by (simp add: rebuild_rows_def f filtered_entries_def entry_matches_def trim_def to_ascii_lowercase_def entry_row_def Let_def)
  then show ?thesis using r by (simp only: o) simp
qed

section \<open>\<open>Exec\<close> lines are read back\<close>

text \<open>How an argument is written between double quotes, and a command line of such arguments.\<close>

definition exec_escape :: "char \<Rightarrow> string" where
  "exec_escape c = (if c \<in> set [CHR 0x22, CHR 0x5C, CHR ''$'', CHR 0x60] then [CHR 0x5C, c] else [c])"

definition exec_quote :: "string \<Rightarrow> string" where
  "exec_quote w = CHR 0x22 # concat (map exec_escape w) @ [CHR 0x22]"

fun exec_line :: "string list \<Rightarrow> string" where
  "exec_line [] = []"
| "exec_line [w] = exec_quote w"
| "exec_line (w # v # ws) = exec_quote w @ '' '' @ exec_line (v # ws)"

lemma exec_loop_quoted: "exec_loop (concat (map exec_escape w) @ rest) out buf True = exec_loop rest out (buf @ w) True"
  by (induction w arbitrary: buf) (auto simp: exec_escape_def)

lemma exec_loop_word: "exec_loop (exec_quote w @ rest) out [] False = exec_loop rest out w False"
  using exec_loop_quoted [of w "CHR 0x22 # rest" out "[]"] by (simp add: exec_quote_def)

lemma exec_loop_line:
  "ws \<noteq> [] \<Longrightarrow> exec_loop (exec_line ws) out [] False =
    (let all = out @ filter (\<lambda>w. w \<noteq> []) ws in if all = [] then None else Some all)"
proof (induction ws arbitrary: out rule: exec_line.induct)
  case (2 w)
  then show ?case using exec_loop_word [of w "[]" out] by (simp add: Let_def)
next
  case (3 w v ws)
  have sp: "is_space (CHR '' '')" by (simp add: is_space_def)
  have "exec_loop (exec_line (w # v # ws)) out [] False = exec_loop ('' '' @ exec_line (v # ws)) out w False"
    using exec_loop_word [of w "'' '' @ exec_line (v # ws)" out] by simp
  also have "\<dots> = exec_loop (exec_line (v # ws)) (if w \<noteq> [] then out @ [w] else out) [] False"
    using sp by simp
  finally show ?case using 3 by simp
qed simp

lemma exec_line_ends: "ws \<noteq> [] \<Longrightarrow> exec_line ws \<noteq> [] \<and> hd (exec_line ws) = CHR 0x22 \<and> last (exec_line ws) = CHR 0x22"
  by (induction ws rule: exec_line.induct) (simp_all add: exec_quote_def)

lemma trim_exec_line: "trim (exec_line ws) = exec_line ws"
proof (cases "ws = []")
  case False
  then have e: "exec_line ws \<noteq> []" "hd (exec_line ws) = CHR 0x22" "last (exec_line ws) = CHR 0x22"
    using exec_line_ends by auto
  have n: "\<not> is_space (CHR 0x22)" by (simp add: is_space_def)
  have "dropWhile is_space (exec_line ws) = exec_line ws" using e n by (intro dropWhile_no_prefix) simp_all
  moreover have "dropWhile is_space (rev (exec_line ws)) = rev (exec_line ws)"
    using e n by (intro dropWhile_no_prefix) (simp_all add: hd_rev)
  ultimately show ?thesis by (simp add: trim_def)
qed (simp add: trim_def)

text \<open>A command line written by the rules of desktop files, each argument between double quotes with its
  special characters escaped, is read back argument by argument whatever it contains, but for empty
  arguments, which are lost; nothing is left only when every argument was empty.\<close>

theorem exec_line_reads_back:
  "parse_exec (exec_line ws) =
    (let args = filter (\<lambda>w. w \<noteq> []) ws in if args = [] then None else Some args)"
proof (cases "ws = []")
  case False
  then show ?thesis
    using exec_loop_line [OF False, of "[]"] exec_line_ends [OF False] by (simp add: parse_exec_def trim_exec_line Let_def)
qed (simp add: parse_exec_def trim_def)

text \<open>A doubled percent sign, by those rules a literal one, is dropped.\<close>

lemma literal_percent_dropped: "parse_exec ''a 100%%'' = Some [''a'', ''100'']"
  by (simp add: parse_exec_def trim_def is_space_def Let_def)

section \<open>The search path\<close>

text \<open>The first file of that name that gives an entry.\<close>

fun first_entry :: "string \<Rightarrow> (string \<times> string list option) list \<Rightarrow> launch_entry option" where
  "first_entry n [] = None"
| "first_entry n ((m, content) # fs) =
    (if m = n then (case parse_desktop_file content n of Some e \<Rightarrow> Some e | None \<Rightarrow> first_entry n fs)
     else first_entry n fs)"

definition dir_files :: "directory \<Rightarrow> (string \<times> string list option) list" where
  "dir_files d = (case d of Some fs \<Rightarrow> fs | None \<Rightarrow> [])"

lemma scan_files_get:
  "hget (fold scan_file fs seen) n =
    (case hget seen n of Some e \<Rightarrow> Some e | None \<Rightarrow> if is_desktop_name n then first_entry n fs else None)"
proof (induction fs arbitrary: seen)
  case (Cons f fs)
  obtain m c where f: "f = (m, c)" by (cases f)
  have "hget (scan_file f seen) n = (case hget seen n of Some e \<Rightarrow> Some e
      | None \<Rightarrow> if is_desktop_name n \<and> m = n then parse_desktop_file c n else None)"
    by (auto simp: f scan_file_def hget_hput hhas_def split: option.split)
  then show ?case using Cons by (auto simp: f split: option.split)
qed (simp split: option.split)

lemma scan_dirs_fold: "fold scan_dir dirs seen = fold scan_file (concat (map dir_files dirs)) seen"
  by (induction dirs arbitrary: seen) (simp_all add: scan_dir_def dir_files_def split: option.split)

text \<open>The scan of the search path gives, for each file name, the entry of the first file of that name that gives
  one, in the order of the directories, and nothing else. So a file of the user's own directory that
  says its program is hidden does not override the system's file: the program is still offered.\<close>

theorem scan_takes_first_entry:
  "set (scan_desktop_entries_in dirs) =
    {e. \<exists>n. is_desktop_name n \<and> first_entry n (concat (map dir_files dirs)) = Some e}"
proof -
  have "hget (fold scan_dir dirs []) n = (if is_desktop_name n then first_entry n (concat (map dir_files dirs)) else None)" for n
    by (simp add: scan_dirs_fold scan_files_get)
  note get = this
  show ?thesis unfolding scan_desktop_entries_in_def by (rule set_eqI) (auto simp: in_hvals get split: if_splits)
qed

lemma hidden_override_ignored:
  assumes "parse_desktop_file (Some sys) ''a.desktop'' = Some e" "parse_desktop_file (Some user) ''a.desktop'' = None"
  shows "e \<in> set (scan_desktop_entries_in [Some [(''a.desktop'', Some user)], Some [(''a.desktop'', Some sys)]])"
proof -
  have "is_desktop_name ''a.desktop''" by (simp add: is_desktop_name_def strip_suffix_def)
  then have "hget (fold scan_dir [Some [(''a.desktop'', Some user)], Some [(''a.desktop'', Some sys)]] []) ''a.desktop'' = Some e"
    unfolding scan_dirs_fold scan_files_get using assms by (simp add: dir_files_def)
  then show ?thesis unfolding scan_desktop_entries_in_def in_hvals by blast
qed

end
