(* ===== verification/Backends.thy ===== *)
theory Backends
  imports Spawn BusCodec
begin

text \<open>
  The backends of \<open>CompositorControl\<close> on Linux: the one that does nothing (\<open>crates/lmux-compositor/src/noop.rs\<close>),
  X11 over \<open>xprop\<close> and \<open>xdotool\<close> (\<open>x11.rs\<close>), and KWin over D-Bus (\<open>kwin.rs\<close>). The tools, the window server and
  KWin are a state with operations that may fail; a poisoned lock, which would need a panic inside one of
  the short critical sections, does not occur.
\<close>

section \<open>No compositor\<close>

type_synonym noop_state = "(string, rect) hmap"

definition noop_health :: health where
  "noop_health = H_Offline ''native compositor integration unavailable''"

definition noop_set_geometry :: "string \<Rightarrow> rect \<Rightarrow> noop_state \<Rightarrow> noop_state" where
  "noop_set_geometry w r s = hput w r s"

definition noop_last_rect :: "string \<Rightarrow> noop_state \<Rightarrow> rect option" where
  "noop_last_rect w s = hget s w"

definition noop_spawn_satellite ::
  "spawn_env \<Rightarrow> uuid \<Rightarrow> string list \<Rightarrow> string option \<Rightarrow> host \<Rightarrow> host \<times> (compositor_error + uuid)" where
  "noop_spawn_satellite se i argv cwd h = spawn_tagged se i argv cwd h"

definition noop_compositor :: "noop_state compositor" where
  "noop_compositor = \<lparr>cp_set_visible = set_window_visible set_window_visible_by_pid\<rparr>"

section \<open>X11\<close>

subsection \<open>What the tools print\<close>

text \<open>\<open>trim\<close>, then commas at both ends, a hexadecimal number in lower case.\<close>

definition is_hex_digit :: "char \<Rightarrow> bool" where
  "is_hex_digit c = (let n = of_char c :: nat in
     (48 \<le> n \<and> n \<le> 57) \<or> (65 \<le> n \<and> n \<le> 70) \<or> (97 \<le> n \<and> n \<le> 102))"

definition trim_commas :: "string \<Rightarrow> string" where
  "trim_commas s = rev (dropWhile (\<lambda>c. c = CHR '','') (rev (dropWhile (\<lambda>c. c = CHR '','') s)))"

definition normalize_x11_window_id :: "string \<Rightarrow> string option" where
  "normalize_x11_window_id v =
    (case strip_prefix ''0x'' (trim_commas (trim v)) of
       None \<Rightarrow> None
     | Some hex \<Rightarrow> if hex = [] \<or> \<not> list_all is_hex_digit hex then None else Some (''0x'' @ to_ascii_lowercase hex))"

definition parse_client_list :: "string \<Rightarrow> string list" where
  "parse_client_list output =
    (case split_once (CHR ''#'') output of
       None \<Rightarrow> []
     | Some (_, values) \<Rightarrow> List.map_filter (\<lambda>part. normalize_x11_window_id (trim part)) (split_on (CHR '','') values))"

definition parse_x11_backend_window_id :: "string \<Rightarrow> compositor_error + string" where
  "parse_x11_backend_window_id v =
    (case Option.bind (strip_prefix ''x11:'' v) normalize_x11_window_id of
       Some raw \<Rightarrow> Inr raw
     | None \<Rightarrow> Inl (CE_Domain (''invalid X11 backend window id: '' @ v)))"

text \<open>The first line whose key starts with \<open>name\<close> and whose value gives a result.\<close>

definition property_line :: "string \<Rightarrow> (string \<Rightarrow> 'a option) \<Rightarrow> string \<Rightarrow> 'a option" where
  "property_line name f line =
    (case split_once (CHR ''='') line of
       None \<Rightarrow> None
     | Some (key, v) \<Rightarrow> if starts_with name (trim_start key) then f v else None)"

fun find_line :: "('a \<Rightarrow> 'b option) \<Rightarrow> 'a list \<Rightarrow> 'b option" where
  "find_line f [] = None"
| "find_line f (x # xs) = (case f x of Some y \<Rightarrow> Some y | None \<Rightarrow> find_line f xs)"

definition parse_cardinal :: "string \<Rightarrow> string \<Rightarrow> nat option" where
  "parse_cardinal props name = find_line (property_line name (\<lambda>v. parse_u32 (trim v))) (str_lines props)"

text \<open>The loop over the characters of a value: the strings so far, the open one, and its two flags.\<close>

fun quoted_loop :: "string \<Rightarrow> string list \<Rightarrow> string \<Rightarrow> bool \<Rightarrow> bool \<Rightarrow> string list" where
  "quoted_loop [] out current in_quote escaped = out"
| "quoted_loop (c # s) out current in_quote escaped =
    (if escaped then quoted_loop s out (current @ [c]) in_quote False
     else if c = CHR 0x5C \<and> in_quote then quoted_loop s out current in_quote True
     else if c = CHR 0x22 \<and> in_quote then quoted_loop s (out @ [current]) [] False escaped
     else if c = CHR 0x22 then quoted_loop s out current True escaped
     else if in_quote then quoted_loop s out (current @ [c]) in_quote escaped
     else quoted_loop s out current in_quote escaped)"

definition parse_quoted_strings :: "string \<Rightarrow> string list" where
  "parse_quoted_strings v = quoted_loop v [] [] False False"

definition parse_string_property :: "string \<Rightarrow> string \<Rightarrow> string option" where
  "parse_string_property props name =
    find_line (property_line name (\<lambda>v. case parse_quoted_strings v of [] \<Rightarrow> None | x # _ \<Rightarrow> Some x)) (str_lines props)"

definition wm_class_of :: "string list \<Rightarrow> string option" where
  "wm_class_of vs =
    (case (case vs of _ # y # _ \<Rightarrow> Some y | [x] \<Rightarrow> Some x | [] \<Rightarrow> None) of
       Some x \<Rightarrow> if x = [] then None else Some x | None \<Rightarrow> None)"

definition parse_wm_class :: "string \<Rightarrow> string option" where
  "parse_wm_class props = find_line (property_line ''WM_CLASS'' (\<lambda>v. wm_class_of (parse_quoted_strings v))) (str_lines props)"

definition candidate_from_xprop :: "string \<Rightarrow> string \<Rightarrow> window_candidate" where
  "candidate_from_xprop raw_id props =
    \<lparr>wc_backend = X11, wc_window_id = ''x11:'' @ raw_id, wc_pid = parse_cardinal props ''_NET_WM_PID'',
     wc_app = map_option WmClass (parse_wm_class props),
     wc_title = or_else (parse_string_property props ''_NET_WM_NAME'') (parse_string_property props ''WM_NAME''),
     wc_workspace = map_option show_nat (parse_cardinal props ''_NET_WM_DESKTOP''), wc_output = None\<rparr>"

subsection \<open>Running the tools\<close>

text \<open>A tool is not there, cannot be run, or ends with or without success, having printed on its two streams.\<close>

datatype tool_result = Tool_Missing | Tool_Error string | Tool_Ended bool string string

record 'x x11_env =
  xe_display :: bool
  xe_path :: "string list option"
  xe_is_file :: "string \<Rightarrow> bool"
  xe_run :: "string list \<Rightarrow> 'x \<Rightarrow> 'x \<times> tool_result"

definition run_command :: "'x x11_env \<Rightarrow> string \<Rightarrow> string list \<Rightarrow> 'x \<Rightarrow> 'x \<times> (compositor_error + string)" where
  "run_command xe c args x =
    (case xe_run xe (c # args) x of
       (x1, Tool_Missing) \<Rightarrow> (x1, Inl (CE_Unsupported (c @ '' is not installed'')))
     | (x1, Tool_Error e) \<Rightarrow> (x1, Inl (CE_Io e))
     | (x1, Tool_Ended True stdout _) \<Rightarrow> (x1, Inr stdout)
     | (x1, Tool_Ended False _ stderr) \<Rightarrow>
         (x1, Inl (CE_Domain (c @ '' failed'' @ (let t = trim stderr in if t = [] then [] else '': '' @ t)))))"

definition command_exists_in_path :: "'x x11_env \<Rightarrow> string \<Rightarrow> string list \<Rightarrow> bool" where
  "command_exists_in_path xe c dirs = list_ex (\<lambda>d. xe_is_file xe (path_join d c)) dirs"

definition command_exists :: "'x x11_env \<Rightarrow> string \<Rightarrow> bool" where
  "command_exists xe c = (case xe_path xe of Some dirs \<Rightarrow> command_exists_in_path xe c dirs | None \<Rightarrow> False)"

definition x11_capabilities :: "'x x11_env \<Rightarrow> window_capabilities" where
  "x11_capabilities xe =
    (let can_list = xe_display xe \<and> command_exists xe ''xprop''; can_control = can_list \<and> command_exists xe ''xdotool''
     in \<lparr>cap_list = can_list, cap_attach = can_control, cap_visible = can_control, cap_raise = can_control\<rparr>)"

definition x11_health :: "'x x11_env \<Rightarrow> health" where
  "x11_health xe = (if xe_display xe then H_Online else H_Offline ''DISPLAY is not set'')"

definition xprop_args :: "string \<Rightarrow> string list" where
  "xprop_args raw_id = [''-id'', raw_id, ''_NET_WM_NAME'', ''WM_NAME'', ''_NET_WM_PID'', ''WM_CLASS'', ''_NET_WM_DESKTOP'']"

fun read_windows :: "'x x11_env \<Rightarrow> string list \<Rightarrow> 'x \<Rightarrow> 'x \<times> window_candidate list" where
  "read_windows xe [] x = (x, [])"
| "read_windows xe (raw # ids) x =
    (case run_command xe ''xprop'' (xprop_args raw) x of
       (x1, Inl _) \<Rightarrow> read_windows xe ids x1
     | (x1, Inr props) \<Rightarrow> (let (x2, cs) = read_windows xe ids x1 in (x2, candidate_from_xprop raw props # cs)))"

definition x11_list_windows :: "'x x11_env \<Rightarrow> 'x \<Rightarrow> 'x \<times> (compositor_error + window_candidate list)" where
  "x11_list_windows xe x =
    (case run_command xe ''xprop'' [''-root'', ''_NET_CLIENT_LIST''] x of
       (x1, Inl e) \<Rightarrow> (x1, Inl e)
     | (x1, Inr output) \<Rightarrow> (let (x2, cs) = read_windows xe (parse_client_list output) x1 in (x2, Inr cs)))"

definition show_candidate_backend :: "window_backend \<Rightarrow> string" where
  "show_candidate_backend b = (case b of Macos \<Rightarrow> ''Macos'' | Kwin \<Rightarrow> ''Kwin'' | X11 \<Rightarrow> ''X11'' | Hyprland \<Rightarrow> ''Hyprland''
     | Sway \<Rightarrow> ''Sway'' | Noop \<Rightarrow> ''Noop'' | Unsupported \<Rightarrow> ''Unsupported'')"

definition x11_attach_window :: "'x x11_env \<Rightarrow> window_candidate \<Rightarrow> 'x \<Rightarrow> 'x \<times> (compositor_error + satellite_window)" where
  "x11_attach_window xe c x =
    (if wc_backend c \<noteq> X11
     then (x, Inl (CE_Domain (''X11 backend cannot attach '' @ show_candidate_backend (wc_backend c) @ '' windows'')))
     else if \<not> command_exists xe ''xdotool''
     then (x, Inl (CE_Unsupported ''xdotool is not installed; X11 exact window control is unavailable''))
     else (case parse_x11_backend_window_id (wc_window_id c) of
         Inl e \<Rightarrow> (x, Inl e)
       | Inr _ \<Rightarrow> (case x11_list_windows xe x of
           (x1, Inl e) \<Rightarrow> (x1, Inl e)
         | (x1, Inr cs) \<Rightarrow> (x1, case find (\<lambda>w. wc_window_id w = wc_window_id c) cs of
             None \<Rightarrow> Inl (CE_Domain (''X11 window is not attachable or no longer exists: '' @ wc_window_id c))
           | Some current \<Rightarrow> Inr (for_attached current)))))"

definition run_xdotool :: "'x x11_env \<Rightarrow> string list \<Rightarrow> 'x \<Rightarrow> 'x \<times> compositor_error option" where
  "run_xdotool xe args x =
    (case run_command xe ''xdotool'' args x of (x1, Inl e) \<Rightarrow> (x1, Some e) | (x1, Inr _) \<Rightarrow> (x1, None))"

definition run_xdotool_then ::
  "'x x11_env \<Rightarrow> string list \<Rightarrow> string list \<Rightarrow> 'x \<Rightarrow> 'x \<times> compositor_error option" where
  "run_xdotool_then xe a b x =
    (case run_xdotool xe a x of (x1, Some e) \<Rightarrow> (x1, Some e) | (x1, None) \<Rightarrow> run_xdotool xe b x1)"

definition x11_set_window_visible ::
  "'x x11_env \<Rightarrow> satellite_window \<Rightarrow> bool \<Rightarrow> 'x \<Rightarrow> 'x \<times> compositor_error option" where
  "x11_set_window_visible xe w v x =
    (case parse_x11_backend_window_id (sw_window_id w) of
       Inl e \<Rightarrow> (x, Some e)
     | Inr raw \<Rightarrow>
         if v then run_xdotool_then xe [''windowmap'', raw] [''windowraise'', raw] x
         else run_xdotool xe [''windowminimize'', raw] x)"

definition x11_raise_window :: "'x x11_env \<Rightarrow> satellite_window \<Rightarrow> 'x \<Rightarrow> 'x \<times> compositor_error option" where
  "x11_raise_window xe w x =
    (case parse_x11_backend_window_id (sw_window_id w) of
       Inl e \<Rightarrow> (x, Some e)
     | Inr raw \<Rightarrow> run_xdotool_then xe [''windowraise'', raw] [''windowactivate'', raw] x)"

definition x11_spawn_satellite ::
  "spawn_env \<Rightarrow> uuid \<Rightarrow> string list \<Rightarrow> string option \<Rightarrow> host \<Rightarrow> host \<times> (compositor_error + uuid)" where
  "x11_spawn_satellite se i argv cwd h = spawn_tagged se i argv cwd h"

definition x11_compositor :: "'x x11_env \<Rightarrow> 'x compositor" where
  "x11_compositor xe = \<lparr>cp_set_visible = x11_set_window_visible xe\<rparr>"

section \<open>KWin\<close>

subsection \<open>The bridge\<close>

text \<open>
  The calls KWin's script makes on lmux's D-Bus object, which any program of the session can make; a call is
  told from others by its token.
\<close>

datatype bridge_call = Replace_Windows string string | Upsert_Window string string | Remove_Window string string | Bridge_Ping

datatype bridge_error = Access_Denied string | Bridge_Failed compositor_error

type_synonym inventory = "(string, window_candidate) hmap"

text \<open>The one-shot scripts lmux hands to KWin; their texts are JavaScript.\<close>

datatype kwin_script = Snapshot_Script string | Visibility_Script string bool | Raise_Script string
  | Place_Script nat | Pid_Visibility_Script nat bool

text \<open>
  The session's bus and KWin: what looking for the script file gives, starting the bridge, the proxy of KWin's
  scripting object, its calls, and running a one-shot script, with the calls KWin makes on the bridge
  before the script's effect is waited for.
\<close>

record 'k kwin_env =
  ke_token :: string
  ke_own_pid :: nat
  ke_from_str :: "string \<Rightarrow> string + kwin_script_window list"
  ke_script_file :: "'k \<Rightarrow> compositor_error option"
  ke_start_bridge :: "'k \<Rightarrow> 'k \<times> compositor_error option"
  ke_scripting_proxy :: "'k \<Rightarrow> 'k \<times> compositor_error option"
  ke_is_script_loaded :: "'k \<Rightarrow> 'k \<times> (string + bool)"
  ke_load_script :: "'k \<Rightarrow> 'k \<times> (string + int)"
  ke_run_script :: "int \<Rightarrow> 'k \<Rightarrow> 'k \<times> compositor_error option"
  ke_oneshot :: "kwin_script \<Rightarrow> 'k \<Rightarrow> 'k \<times> compositor_error option \<times> bridge_call list"
  ke_error_text :: "compositor_error \<Rightarrow> string"

record 'k kwin_state =
  ks_inventory :: inventory
  ks_bridge :: bool
  ks_world :: 'k

definition kwin_new :: "'k \<Rightarrow> 'k kwin_state" where
  "kwin_new k = \<lparr>ks_inventory = [], ks_bridge = False, ks_world = k\<rparr>"

definition validate_token :: "'k kwin_env \<Rightarrow> string \<Rightarrow> bridge_error option" where
  "validate_token ke token = (if token = ke_token ke then None else Some (Access_Denied ''invalid lmux KWin bridge token''))"

definition put_window :: "window_candidate \<Rightarrow> inventory \<Rightarrow> inventory" where
  "put_window c known = hput (wc_window_id c) c known"

definition bridge_handle :: "'k kwin_env \<Rightarrow> bridge_call \<Rightarrow> inventory \<Rightarrow> inventory \<times> bridge_error option" where
  "bridge_handle ke call known =
    (case call of
       Replace_Windows token json \<Rightarrow> (case validate_token ke token of
           Some e \<Rightarrow> (known, Some e)
         | None \<Rightarrow> (case parse_kwin_window_snapshot (ke_from_str ke) (ke_own_pid ke) json of
             Inl e \<Rightarrow> (known, Some (Bridge_Failed e))
           | Inr cs \<Rightarrow> (fold put_window cs [], None)))
     | Upsert_Window token json \<Rightarrow> (case validate_token ke token of
           Some e \<Rightarrow> (known, Some e)
         | None \<Rightarrow> (case parse_kwin_window_snapshot (ke_from_str ke) (ke_own_pid ke) json of
             Inl e \<Rightarrow> (known, Some (Bridge_Failed e))
           | Inr cs \<Rightarrow> (if cs = [] then known else put_window (last cs) known, None)))
     | Remove_Window token i \<Rightarrow> (case validate_token ke token of
           Some e \<Rightarrow> (known, Some e)
         | None \<Rightarrow> (hdel i known, None))
     | Bridge_Ping \<Rightarrow> (known, None))"

definition bridge_step :: "'k kwin_env \<Rightarrow> bridge_call \<Rightarrow> 'k kwin_state \<Rightarrow> 'k kwin_state" where
  "bridge_step ke call ks = ks\<lparr>ks_inventory := fst (bridge_handle ke call (ks_inventory ks))\<rparr>"

subsection \<open>Operations\<close>

text \<open>A call on the outside alone.\<close>

definition on_world :: "('k \<Rightarrow> 'k \<times> 'a) \<Rightarrow> 'k kwin_state \<Rightarrow> 'k kwin_state \<times> 'a" where
  "on_world f ks = (let (k, r) = f (ks_world ks) in (ks\<lparr>ks_world := k\<rparr>, r))"

definition ensure_bridge_started :: "'k kwin_env \<Rightarrow> 'k kwin_state \<Rightarrow> 'k kwin_state \<times> compositor_error option" where
  "ensure_bridge_started ke ks =
    (if ks_bridge ks then (ks, None)
     else (case on_world (ke_start_bridge ke) ks of
         (ks1, Some e) \<Rightarrow> (ks1, Some e)
       | (ks1, None) \<Rightarrow> (ks1\<lparr>ks_bridge := True\<rparr>, None)))"

definition run_oneshot_script :: "'k kwin_env \<Rightarrow> kwin_script \<Rightarrow> 'k kwin_state \<Rightarrow> 'k kwin_state \<times> compositor_error option" where
  "run_oneshot_script ke script ks =
    (case on_world (ke_oneshot ke script) ks of (ks1, e, calls) \<Rightarrow> (fold (bridge_step ke) calls ks1, e))"

definition refresh_inventory :: "'k kwin_env \<Rightarrow> 'k kwin_state \<Rightarrow> 'k kwin_state \<times> compositor_error option" where
  "refresh_inventory ke ks =
    (case ensure_bridge_started ke ks of
       (ks1, Some e) \<Rightarrow> (ks1, Some e)
     | (ks1, None) \<Rightarrow> run_oneshot_script ke (Snapshot_Script (ke_token ke)) ks1)"

definition kwin_ensure_script_loaded :: "'k kwin_env \<Rightarrow> 'k kwin_state \<Rightarrow> 'k kwin_state \<times> compositor_error option" where
  "kwin_ensure_script_loaded ke ks =
    (case ke_script_file ke (ks_world ks) of
       Some e \<Rightarrow> (ks, Some e)
     | None \<Rightarrow>
    (case ensure_bridge_started ke ks of
       (ks1, Some e) \<Rightarrow> (ks1, Some e)
     | (ks1, None) \<Rightarrow>
    (case on_world (ke_scripting_proxy ke) ks1 of
       (ks2, Some e) \<Rightarrow> (ks2, Some e)
     | (ks2, None) \<Rightarrow>
    (case on_world (ke_is_script_loaded ke) ks2 of
       (ks3, Inl e) \<Rightarrow> (ks3, Some (CE_Offline (''isScriptLoaded: '' @ e)))
     | (ks3, Inr True) \<Rightarrow> (ks3, None)
     | (ks3, Inr False) \<Rightarrow>
    (case on_world (ke_load_script ke) ks3 of
       (ks4, Inl e) \<Rightarrow> (ks4, Some (CE_Domain (''loadScript: '' @ e)))
     | (ks4, Inr script_id) \<Rightarrow> on_world (ke_run_script ke script_id) ks4)))))"

definition kwin_health :: "'k kwin_env \<Rightarrow> 'k kwin_state \<Rightarrow> 'k kwin_state \<times> health" where
  "kwin_health ke ks =
    (if ke_script_file ke (ks_world ks) \<noteq> None then (ks, H_ScriptMissing)
     else (case on_world (ke_scripting_proxy ke) ks of
         (ks1, Some (CE_Offline reason)) \<Rightarrow> (ks1, H_Offline reason)
       | (ks1, Some e) \<Rightarrow> (ks1, H_Offline (ke_error_text ke e))
       | (ks1, None) \<Rightarrow> (case on_world (ke_is_script_loaded ke) ks1 of
           (ks2, Inr True) \<Rightarrow> (ks2, H_Online)
         | (ks2, Inr False) \<Rightarrow> (ks2, H_ScriptMissing)
         | (ks2, Inl e) \<Rightarrow> (ks2, H_Offline (''isScriptLoaded: '' @ e)))))"

definition kwin_capabilities :: window_capabilities where
  "kwin_capabilities = \<lparr>cap_list = True, cap_attach = True, cap_visible = True, cap_raise = True\<rparr>"

definition app_identity_value :: "window_app_identity \<Rightarrow> string option" where
  "app_identity_value i =
    (case i of BundleId v \<Rightarrow> Some v | DesktopEntry v \<Rightarrow> Some v | WmClass v \<Rightarrow> Some v | AppId v \<Rightarrow> Some v | OtherApp v \<Rightarrow> Some v)"

definition window_order :: "window_candidate \<Rightarrow> string option \<times> string option \<times> string" where
  "window_order c = (Option.bind (wc_app c) app_identity_value, wc_title c, wc_window_id c)"

definition kwin_list_windows :: "'k kwin_env \<Rightarrow> 'k kwin_state \<Rightarrow> 'k kwin_state \<times> (compositor_error + window_candidate list)" where
  "kwin_list_windows ke ks =
    (case kwin_ensure_script_loaded ke ks of
       (ks1, Some e) \<Rightarrow> (ks1, Inl e)
     | (ks1, None) \<Rightarrow> (case refresh_inventory ke ks1 of
         (ks2, Some e) \<Rightarrow> (ks2, Inl e)
       | (ks2, None) \<Rightarrow> (ks2, Inr (sort_key window_order (hvals (ks_inventory ks2))))))"

definition kwin_attach_window ::
  "'k kwin_env \<Rightarrow> window_candidate \<Rightarrow> 'k kwin_state \<Rightarrow> 'k kwin_state \<times> (compositor_error + satellite_window)" where
  "kwin_attach_window ke c ks =
    (if wc_backend c \<noteq> Kwin
     then (ks, Inl (CE_Domain (''KWin backend cannot attach '' @ show_candidate_backend (wc_backend c) @ '' windows'')))
     else (case validate_kwin_backend_window_id (wc_window_id c) of
         Some e \<Rightarrow> (ks, Inl e)
       | None \<Rightarrow> (case refresh_inventory ke ks of
           (ks1, Some e) \<Rightarrow> (ks1, Inl e)
         | (ks1, None) \<Rightarrow> (ks1, case hget (ks_inventory ks1) (wc_window_id c) of
             None \<Rightarrow> Inl (CE_Domain (''KWin window is not attachable or no longer exists: '' @ wc_window_id c))
           | Some current \<Rightarrow> Inr (for_attached current)))))"

definition kwin_set_window_visible ::
  "'k kwin_env \<Rightarrow> satellite_window \<Rightarrow> bool \<Rightarrow> 'k kwin_state \<Rightarrow> 'k kwin_state \<times> compositor_error option" where
  "kwin_set_window_visible ke w v ks =
    (case validate_kwin_backend_window_id (sw_window_id w) of
       Some e \<Rightarrow> (ks, Some e)
     | None \<Rightarrow> run_oneshot_script ke (Visibility_Script (sw_window_id w) v) ks)"

definition kwin_set_window_visible_by_pid ::
  "'k kwin_env \<Rightarrow> nat \<Rightarrow> bool \<Rightarrow> 'k kwin_state \<Rightarrow> 'k kwin_state \<times> compositor_error option" where
  "kwin_set_window_visible_by_pid ke pid v ks = run_oneshot_script ke (Pid_Visibility_Script pid v) ks"

definition kwin_raise_window :: "'k kwin_env \<Rightarrow> satellite_window \<Rightarrow> 'k kwin_state \<Rightarrow> 'k kwin_state \<times> compositor_error option" where
  "kwin_raise_window ke w ks =
    (case validate_kwin_backend_window_id (sw_window_id w) of
       Some e \<Rightarrow> (ks, Some e)
     | None \<Rightarrow> run_oneshot_script ke (Raise_Script (sw_window_id w)) ks)"

text \<open>A satellite is started, and its window placed later by a script whose failure is only logged.\<close>

definition kwin_spawn_satellite ::
  "'k kwin_env \<Rightarrow> spawn_env \<Rightarrow> uuid \<Rightarrow> string list \<Rightarrow> string option \<Rightarrow> host \<times> 'k kwin_state \<Rightarrow>
    (host \<times> 'k kwin_state) \<times> (compositor_error + uuid)" where
  "kwin_spawn_satellite ke se i argv cwd = (\<lambda>(h, ks).
    (case spawn_tagged_with_pid se i argv cwd h of
       (h1, Inl e) \<Rightarrow> ((h1, ks), Inl e)
     | (h1, Inr (request_id, pid)) \<Rightarrow> ((h1, fst (run_oneshot_script ke (Place_Script pid) ks)), Inr request_id)))"

definition kwin_compositor :: "'k kwin_env \<Rightarrow> 'k kwin_state compositor" where
  "kwin_compositor ke = \<lparr>cp_set_visible = kwin_set_window_visible ke\<rparr>"

subsection \<open>Previews\<close>

text \<open>A value of KWin's answer: an unsigned or a signed number of 32 bits, or something else.\<close>

datatype owned_value = Value_U32 nat | Value_I32 int | Value_Other

datatype preview_data = Encoded_Image "byte list" | Bgra nat nat nat "byte list"

definition response_u32 :: "(string \<Rightarrow> owned_value option) \<Rightarrow> string \<Rightarrow> nat option" where
  "response_u32 response key =
    (case response key of
       Some (Value_U32 n) \<Rightarrow> Some n
     | Some (Value_I32 i) \<Rightarrow> if 0 \<le> i then Some (nat i) else None
     | _ \<Rightarrow> None)"

definition checked_mul_usize :: "nat \<Rightarrow> nat \<Rightarrow> nat option" where
  "checked_mul_usize m n = (if m * n < 2 ^ 64 then Some (m * n) else None)"

definition preview_from_kwin_response :: "(string \<Rightarrow> owned_value option) \<Rightarrow> byte list \<Rightarrow> preview_data option" where
  "preview_from_kwin_response response bytes =
    (case (response_u32 response ''width'', response_u32 response ''height'',
           or_else (response_u32 response ''stride'')
             (or_else (response_u32 response ''bytesPerLine'') (response_u32 response ''bytes_per_line''))) of
       (Some width, Some height, Some bytes_per_row) \<Rightarrow>
         if width = 0 \<or> height = 0 \<or> bytes_per_row = 0 then None
         else (case checked_mul_usize bytes_per_row height of
             None \<Rightarrow> None
           | Some min_len \<Rightarrow> if length bytes < min_len then None else Some (Bgra width height bytes_per_row bytes))
     | _ \<Rightarrow> None)"

definition is_kwin_screenshot_denied :: "string \<Rightarrow> bool" where
  "is_kwin_screenshot_denied message =
    (contains_str message ''org.freedesktop.DBus.Error.AccessDenied'' \<or> contains_str message ''not authorized'' \<or>
     contains_str message ''permission'')"

text \<open>What the screenshot call came to: in time with an answer or an error, or not; and the bytes of the pipe.\<close>

datatype capture_result = Captured "string \<Rightarrow> owned_value option" | Capture_Failed compositor_error | Capture_Timed_Out

definition kwin_window_preview ::
  "(compositor_error \<Rightarrow> string) \<Rightarrow> (string \<Rightarrow> capture_result \<times> (string + byte list)) \<Rightarrow> window_candidate \<Rightarrow>
    compositor_error + preview_data option" where
  "kwin_window_preview error_text capture c =
    (if wc_backend c \<noteq> Kwin then Inr None
     else (case validate_kwin_backend_window_id (wc_window_id c) of
         Some e \<Rightarrow> Inl e
       | None \<Rightarrow> (case capture (drop 5 (wc_window_id c)) of
           (Capture_Failed e, _) \<Rightarrow> if is_kwin_screenshot_denied (error_text e) then Inr None else Inl e
         | (Capture_Timed_Out, _) \<Rightarrow> Inr None
         | (Captured response, Inl e) \<Rightarrow> Inl (CE_Io e)
         | (Captured response, Inr bytes) \<Rightarrow>
             if bytes = [] then Inr None
             else (case preview_from_kwin_response response bytes of
                 Some p \<Rightarrow> Inr (Some p) | None \<Rightarrow> Inr (Some (Encoded_Image bytes))))))"

end
