(* ===== verification/BackendRuns.thy ===== *)
theory BackendRuns
  imports Backends
begin

text \<open>
  What the backends promise the cockpit, as a locale: the windows listed and attached are windows the
  backend's commands take, and a window that is not is refused without any effect. X11 and KWin provide it;
  KWin's inventory is what its script said with the right token.
\<close>

section \<open>The contract\<close>

text \<open>
  A switch acts on the windows a backend's commands take as if there were no others: these are reported as
  errors and change nothing.
\<close>

definition own_part :: "(string \<Rightarrow> bool) \<Rightarrow> window_group_switch \<Rightarrow> window_group_switch" where
  "own_part takes sw = \<lparr>gs_hide = filter (\<lambda>w. takes (sw_window_id w)) (gs_hide sw),
     gs_show = filter (\<lambda>w. takes (sw_window_id w)) (gs_show sw)\<rparr>"

lemma own_part_simps [simp]:
  "gs_hide (own_part takes sw) = filter (\<lambda>w. takes (sw_window_id w)) (gs_hide sw)"
  "gs_show (own_part takes sw) = filter (\<lambda>w. takes (sw_window_id w)) (gs_show sw)"
  by (simp_all add: own_part_def)

definition own_results :: "(string \<Rightarrow> bool) \<Rightarrow> window_op_result list \<Rightarrow> window_op_result list" where
  "own_results takes rs = filter (\<lambda>r. takes (sw_window_id (wr_window r))) rs"

definition foreign_refused :: "(string \<Rightarrow> bool) \<Rightarrow> window_op_result list \<Rightarrow> bool" where
  "foreign_refused takes rs = list_all (\<lambda>r. takes (sw_window_id (wr_window r)) \<or> wr_error r \<noteq> None) rs"

definition acts_on_own :: "(string \<Rightarrow> bool) \<Rightarrow> 's compositor \<Rightarrow> window_group_switch \<Rightarrow> 's \<Rightarrow> bool" where
  "acts_on_own takes cp sw s =
    (let (s1, rs) = apply_window_group_switch cp sw s; (s2, rs2) = apply_window_group_switch cp (own_part takes sw) s
     in s1 = s2 \<and> own_results takes rs = own_results takes rs2 \<and> foreign_refused takes rs)"

text \<open>\<open>takes\<close> are the window ids a backend's commands take, \<open>sound\<close> the states it can be in.\<close>

locale window_backend =
  fixes lists :: "'s \<Rightarrow> 's \<times> (compositor_error + window_candidate list)"
    and attaches :: "window_candidate \<Rightarrow> 's \<Rightarrow> 's \<times> (compositor_error + satellite_window)"
    and shows_window :: "satellite_window \<Rightarrow> bool \<Rightarrow> 's \<Rightarrow> 's \<times> compositor_error option"
    and takes :: "string \<Rightarrow> bool"
    and sound :: "'s \<Rightarrow> bool"
  assumes listed: "sound s \<Longrightarrow> lists s = (s', Inr cs) \<Longrightarrow> c \<in> set cs \<Longrightarrow> takes (wc_window_id c)"
    and attached: "sound s \<Longrightarrow> attaches c s = (s', Inr w) \<Longrightarrow>
      takes (wc_window_id c) \<and> sw_window_id w = wc_window_id c"
    and refuses: "\<not> takes (sw_window_id w) \<Longrightarrow> fst (shows_window w v s) = s \<and> snd (shows_window w v s) \<noteq> None"
    and sound_lists: "sound s \<Longrightarrow> sound (fst (lists s))"
    and sound_attaches: "sound s \<Longrightarrow> sound (fst (attaches c s))"
    and sound_shows: "sound s \<Longrightarrow> sound (fst (shows_window w v s))"
begin

definition show_all :: "bool \<Rightarrow> satellite_window list \<Rightarrow> 's \<times> window_op_result list \<Rightarrow> 's \<times> window_op_result list" where
  "show_all v ws st = foldl (\<lambda>(s, rs) w. let (s', e) = shows_window w v s
     in (s', rs @ [\<lparr>wr_window = w, wr_error = e\<rparr>])) st ws"

lemma show_all_Cons:
  "show_all v (w # ws) (s, rs) = (let (s', e) = shows_window w v s in show_all v ws (s', rs @ [\<lparr>wr_window = w, wr_error = e\<rparr>]))"
  by (simp add: show_all_def split: prod.split)

lemma show_all_ours:
  "fst (show_all v ws (s, rs)) = fst (show_all v (filter (\<lambda>w. takes (sw_window_id w)) ws) (s, rs')) \<and>
    (own_results takes rs = own_results takes rs' \<longrightarrow>
      own_results takes (snd (show_all v ws (s, rs))) =
      own_results takes (snd (show_all v (filter (\<lambda>w. takes (sw_window_id w)) ws) (s, rs')))) \<and>
    (foreign_refused takes rs \<longrightarrow> foreign_refused takes (snd (show_all v ws (s, rs))))"
proof (induction ws arbitrary: s rs rs')
  case Nil
  then show ?case by (simp add: show_all_def)
next
  case (Cons w ws)
  obtain s1 e where 1: "shows_window w v s = (s1, e)" by (rule prod.exhaust)
  let ?r = "\<lparr>wr_window = w, wr_error = e\<rparr>"
  show ?case
  proof (cases "takes (sw_window_id w)")
    case True
    then have "foreign_refused takes rs \<Longrightarrow> foreign_refused takes (rs @ [?r])" by (simp add: foreign_refused_def)
    then show ?thesis
      using Cons [of s1 "rs @ [?r]" "rs' @ [?r]"] True by (simp add: show_all_Cons 1 own_results_def)
  next
    case False
    then have "s1 = s" "e \<noteq> None" using refuses [OF False, of v s] 1 by simp_all
    moreover have "foreign_refused takes rs \<Longrightarrow> foreign_refused takes (rs @ [?r])" using calculation by (simp add: foreign_refused_def)
    moreover have "own_results takes (rs @ [?r]) = own_results takes rs" using False by (simp add: own_results_def)
    ultimately show ?thesis
      using Cons [of s "rs @ [?r]" rs'] False by (simp add: show_all_Cons 1)
  qed
qed

lemma group_switch_acts_on_own: "acts_on_own takes \<lparr>cp_set_visible = shows_window\<rparr> sw s"
proof -
  have a: "apply_window_group_switch \<lparr>cp_set_visible = shows_window\<rparr> x s =
      show_all True (gs_show x) (show_all False (gs_hide x) (s, []))" for x
    by (simp add: apply_window_group_switch_def show_all_def Let_def)
  obtain t1 r1 where 1: "show_all False (gs_hide sw) (s, []) = (t1, r1)" by (rule prod.exhaust)
  obtain t2 r2 where 2: "show_all False (filter (\<lambda>w. takes (sw_window_id w)) (gs_hide sw)) (s, []) = (t2, r2)" by (rule prod.exhaust)
  have h: "t1 = t2" "own_results takes r1 = own_results takes r2" "foreign_refused takes r1"
    using show_all_ours [of False "gs_hide sw" s "[]" "[]"] 1 2 by (simp_all add: foreign_refused_def)
  then show ?thesis
    using show_all_ours [of True "gs_show sw" t1 r1 r2]
    by (auto simp: acts_on_own_def a 1 2 h split: prod.split)
qed

lemma sound_show_all: "sound (fst st) \<Longrightarrow> sound (fst (show_all v ws st))"
proof (induction ws arbitrary: st)
  case (Cons w ws)
  obtain s rs where st: "st = (s, rs)" by (rule prod.exhaust)
  obtain s1 e where 1: "shows_window w v s = (s1, e)" by (rule prod.exhaust)
  have "sound s1" using sound_shows [of s w v] Cons.prems 1 st by simp
  then show ?case using Cons.IH [of "(s1, rs @ [\<lparr>wr_window = w, wr_error = e\<rparr>])"] by (simp add: st show_all_Cons 1)
qed (simp add: show_all_def)

end

section \<open>X11\<close>

definition x11_takes :: "string \<Rightarrow> bool" where
  "x11_takes i \<longleftrightarrow> (\<exists>raw. parse_x11_backend_window_id i = Inr raw)"

lemma to_lower_hex: "is_hex_digit c \<Longrightarrow> is_hex_digit (to_lower c) \<and> to_lower (to_lower c) = to_lower c"
  by (auto simp: is_hex_digit_def to_lower_def Let_def)

lemma hex_plain: "is_hex_digit c \<Longrightarrow> \<not> is_space c \<and> c \<noteq> CHR '',''"
  by (auto simp: is_hex_digit_def is_space_def Let_def)

lemma trim_plain: "s \<noteq> [] \<Longrightarrow> \<not> is_space (hd s) \<Longrightarrow> \<not> is_space (last s) \<Longrightarrow> trim s = s"
proof -
  assume a: "s \<noteq> []" "\<not> is_space (hd s)" "\<not> is_space (last s)"
  then have "dropWhile is_space s = s" "dropWhile is_space (rev s) = rev s"
    by (auto intro!: dropWhile_no_prefix simp: hd_rev)
  then show ?thesis by (simp add: trim_def)
qed

text \<open>A normalised id is its own normal form.\<close>

lemma normalize_again:
  assumes "normalize_x11_window_id v = Some r"
  shows "normalize_x11_window_id r = Some r"
proof -
  obtain hex where hex: "r = ''0x'' @ to_ascii_lowercase hex" "hex \<noteq> []" "list_all is_hex_digit hex"
    using assms by (auto simp: normalize_x11_window_id_def split: option.splits if_splits)
  let ?h = "to_ascii_lowercase hex"
  have h: "?h \<noteq> []" "list_all is_hex_digit ?h" "to_ascii_lowercase ?h = ?h"
    using hex(2,3) to_lower_hex by (auto simp: to_ascii_lowercase_def list_all_iff)
  have l: "is_hex_digit (last ?h)" using h(1,2) by (simp add: list_all_iff)
  have t: "trim r = r"
    by (rule trim_plain) (use h(1) hex(1) hex_plain [OF l] in \<open>simp_all add: is_space_def\<close>)
  have "dropWhile (\<lambda>c. c = CHR '','') r = r" "dropWhile (\<lambda>c. c = CHR '','') (rev r) = rev r"
    using h(1) hex_plain [OF l] by (auto intro!: dropWhile_no_prefix simp: hex(1) hd_rev hd_append)
  then have c: "trim_commas r = r" by (simp add: trim_commas_def)
  show ?thesis
    using h by (simp add: normalize_x11_window_id_def t c) (simp add: hex(1) strip_prefix_def)
qed

lemma client_list_normal: "raw \<in> set (parse_client_list printed) \<Longrightarrow> normalize_x11_window_id raw = Some raw"
  by (auto simp: parse_client_list_def List.map_filter_def split: option.splits dest: normalize_again)

lemma read_windows_ids: "snd (read_windows xe ids x) = cs \<Longrightarrow> c \<in> set cs \<Longrightarrow> \<exists>raw \<in> set ids. wc_window_id c = ''x11:'' @ raw"
proof (induction ids arbitrary: x cs)
  case (Cons raw ids)
  obtain x1 r where r: "run_command xe ''xprop'' (xprop_args raw) x = (x1, r)" by (rule prod.exhaust)
  obtain x2 cs2 where 2: "read_windows xe ids x1 = (x2, cs2)" by (rule prod.exhaust)
  show ?case
    using Cons.prems Cons.IH [of x1 cs2] by (cases r) (auto simp: r 2 candidate_from_xprop_def)
qed simp

lemma x11_listed:
  assumes "x11_list_windows xe x = (x', Inr cs)" "c \<in> set cs"
  obtains raw where "wc_window_id c = ''x11:'' @ raw" "parse_x11_backend_window_id (wc_window_id c) = Inr raw"
proof -
  obtain x1 r where r: "run_command xe ''xprop'' [''-root'', ''_NET_CLIENT_LIST''] x = (x1, r)" by (rule prod.exhaust)
  obtain printed where p: "r = Inr printed" using assms(1) by (cases r) (simp_all add: x11_list_windows_def r)
  have o: "snd (read_windows xe (parse_client_list printed) x1) = cs"
    using assms(1) by (simp add: x11_list_windows_def r p split: prod.splits)
  obtain raw where raw: "raw \<in> set (parse_client_list printed)" "wc_window_id c = ''x11:'' @ raw"
    using read_windows_ids [OF o assms(2)] by blast
  then show ?thesis
    using that client_list_normal [OF raw(1)] by (simp add: parse_x11_backend_window_id_def strip_prefix_def)
qed

lemma x11_attached:
  assumes "x11_attach_window xe c x = (x', Inr w)"
  obtains raw where "wc_window_id c = ''x11:'' @ raw" "parse_x11_backend_window_id (wc_window_id c) = Inr raw"
    "sw_window_id w = wc_window_id c"
proof -
  obtain x1 r where l: "x11_list_windows xe x = (x1, r)" by (rule prod.exhaust)
  have b1: "wc_backend c = X11" using assms by (cases "wc_backend c = X11") (simp_all add: x11_attach_window_def)
  have b2: "command_exists xe ''xdotool''"
    using assms by (cases "command_exists xe ''xdotool''") (simp_all add: x11_attach_window_def b1)
  note b = b1 b2
  obtain raw0 where p: "parse_x11_backend_window_id (wc_window_id c) = Inr raw0"
    using assms b by (cases "parse_x11_backend_window_id (wc_window_id c)") (simp_all add: x11_attach_window_def)
  obtain cs where cs: "r = Inr cs" using assms by (cases r) (simp_all add: x11_attach_window_def b p l)
  obtain cur where cur: "find (\<lambda>w. wc_window_id w = wc_window_id c) cs = Some cur" "w = for_attached cur"
    using assms by (cases "find (\<lambda>w. wc_window_id w = wc_window_id c) cs") (simp_all add: x11_attach_window_def b p l cs)
  then have i: "cur \<in> set cs" "wc_window_id cur = wc_window_id c" by (auto simp: find_Some_iff)
  obtain raw where "wc_window_id cur = ''x11:'' @ raw" "parse_x11_backend_window_id (wc_window_id cur) = Inr raw"
    using x11_listed l cs i(1) by metis
  then show ?thesis using that i(2) cur(2) by (simp add: for_attached_def)
qed

lemma x11_refuses: "\<not> x11_takes (sw_window_id w) \<Longrightarrow>
    fst (x11_set_window_visible xe w v x) = x \<and> snd (x11_set_window_visible xe w v x) \<noteq> None"
  by (cases "parse_x11_backend_window_id (sw_window_id w)") (auto simp: x11_takes_def x11_set_window_visible_def)

interpretation x11: window_backend "x11_list_windows xe" "x11_attach_window xe" "x11_set_window_visible xe" x11_takes "\<lambda>_. True"
  for xe :: "'x x11_env"
proof
  fix s s' :: 'x and cs c w v
  show "x11_takes (wc_window_id c)" if "x11_list_windows xe s = (s', Inr cs)" "c \<in> set cs"
    by (rule x11_listed [OF that]) (auto simp: x11_takes_def)
  show "x11_takes (wc_window_id c) \<and> sw_window_id w = wc_window_id c" if "x11_attach_window xe c s = (s', Inr w)"
    by (rule x11_attached [OF that]) (auto simp: x11_takes_def)
  show "fst (x11_set_window_visible xe w v s) = s \<and> snd (x11_set_window_visible xe w v s) \<noteq> None"
    if "\<not> x11_takes (sw_window_id w)"
    using x11_refuses [OF that] .
qed simp_all

text \<open>Strings as \<open>xprop\<close> prints them are read back.\<close>

definition xprop_escape :: "char \<Rightarrow> string" where
  "xprop_escape c = (if c = CHR 0x22 \<or> c = CHR 0x5C then [CHR 0x5C, c] else [c])"

definition xprop_quote :: "string \<Rightarrow> string" where
  "xprop_quote w = CHR 0x22 # concat (map xprop_escape w) @ [CHR 0x22]"

lemma quoted_loop_word:
  "quoted_loop (concat (map xprop_escape w) @ CHR 0x22 # s) out cur True False = quoted_loop s (out @ [cur @ w]) [] False False"
  by (induction w arbitrary: cur) (simp_all add: xprop_escape_def)

lemma quoted_strings_read_back: "parse_quoted_strings (concat (map (\<lambda>w. '', '' @ xprop_quote w) ws)) = ws"
proof -
  have "quoted_loop (concat (map (\<lambda>w. '', '' @ xprop_quote w) ws)) out [] False False = out @ ws" for out
    by (induction ws arbitrary: out) (simp_all add: xprop_quote_def quoted_loop_word)
  then show ?thesis by (simp add: parse_quoted_strings_def)
qed

section \<open>KWin's inventory\<close>

definition kwin_takes :: "string \<Rightarrow> bool" where
  "kwin_takes i \<longleftrightarrow> validate_kwin_backend_window_id i = None"

definition window_ok :: "'k kwin_env \<Rightarrow> window_candidate \<Rightarrow> bool" where
  "window_ok ke c \<longleftrightarrow> wc_backend c = Kwin \<and> kwin_takes (wc_window_id c) \<and> wc_pid c \<noteq> Some (ke_own_pid ke)"

definition inventory_ok :: "'k kwin_env \<Rightarrow> inventory \<Rightarrow> bool" where
  "inventory_ok ke known \<longleftrightarrow> (\<forall>i c. hget known i = Some c \<longrightarrow> wc_window_id c = i \<and> window_ok ke c)"

lemma known_ok: "inventory_ok ke known \<Longrightarrow> list_all (window_ok ke) (hvals known)"
  by (auto simp: inventory_ok_def list_all_iff in_hvals)

lemma put_window_ok: "inventory_ok ke known \<Longrightarrow> window_ok ke c \<Longrightarrow> inventory_ok ke (put_window c known)"
  by (auto simp: inventory_ok_def put_window_def hget_hput)

lemma put_windows_ok: "inventory_ok ke known \<Longrightarrow> list_all (window_ok ke) cs \<Longrightarrow> inventory_ok ke (fold put_window cs known)"
  by (induction cs arbitrary: known) (simp_all add: put_window_ok)

lemma snapshot_windows_ok:
  assumes "parse_kwin_window_snapshot f (ke_own_pid ke) json = Inr cs"
  shows "list_all (window_ok ke) cs"
proof -
  have "list_all (window_ok ke) cs" if "kwin_candidates (ke_own_pid ke) ws = Inr cs" for ws cs
    using that
  proof (induction ws arbitrary: cs)
    case (Cons w ws)
    then show ?case
      by (auto simp: window_ok_def kwin_takes_def kwin_candidate_from_script_window_def should_include_kwin_window_def Let_def
        split: if_splits sum.splits option.splits)
  qed simp
  then show ?thesis using assms by (auto simp: parse_kwin_window_snapshot_def split: sum.splits)
qed

lemma bridge_handle_ok: "inventory_ok ke known \<Longrightarrow> inventory_ok ke (fst (bridge_handle ke call known))"
proof (cases call)
  case (Replace_Windows t j)
  assume i: "inventory_ok ke known"
  have "inventory_ok ke []" by (simp add: inventory_ok_def)
  then show ?thesis
    using i put_windows_ok snapshot_windows_ok
    by (simp add: Replace_Windows bridge_handle_def split: option.split sum.split) blast
next
  case (Upsert_Window t j)
  assume i: "inventory_ok ke known"
  then show ?thesis
    using put_window_ok [OF i] snapshot_windows_ok
    by (fastforce simp: Upsert_Window bridge_handle_def list_all_iff split: option.split sum.split)
next
  case (Remove_Window t j)
  assume "inventory_ok ke known"
  then show ?thesis by (auto simp: Remove_Window bridge_handle_def inventory_ok_def hget_hdel split: option.split)
qed (simp add: bridge_handle_def)

definition kwin_sound :: "'k kwin_env \<Rightarrow> 'k kwin_state \<Rightarrow> bool" where
  "kwin_sound ke ks \<longleftrightarrow> inventory_ok ke (ks_inventory ks)"

interpretation bridge: invariant_machine "bridge_step ke" "kwin_sound ke" for ke :: "'k kwin_env"
  by unfold_locales (simp add: kwin_sound_def bridge_step_def bridge_handle_ok)

lemma on_world_inventory [simp]: "ks_inventory (fst (on_world f ks)) = ks_inventory ks"
  by (simp add: on_world_def split: prod.split)

lemma started_inventory [simp]: "ks_inventory (fst (ensure_bridge_started ke ks)) = ks_inventory ks"
proof -
  obtain ks1 e where 1: "on_world (ke_start_bridge ke) ks = (ks1, e)" by (rule prod.exhaust)
  then have "ks_inventory ks1 = ks_inventory ks" using on_world_inventory [of "ke_start_bridge ke" ks] by simp
  then show ?thesis by (cases e) (simp_all add: ensure_bridge_started_def 1)
qed

lemma oneshot_sound: "kwin_sound ke ks \<Longrightarrow> kwin_sound ke (fst (run_oneshot_script ke script ks))"
proof -
  assume s: "kwin_sound ke ks"
  obtain ks1 e calls where 1: "on_world (ke_oneshot ke script) ks = (ks1, e, calls)" by (rule prod_cases3)
  have "kwin_sound ke ks1" using s on_world_inventory [of "ke_oneshot ke script" ks] 1 by (simp add: kwin_sound_def)
  then show ?thesis using bridge.run_inv by (simp add: run_oneshot_script_def 1)
qed

lemma refresh_sound: "kwin_sound ke ks \<Longrightarrow> kwin_sound ke (fst (refresh_inventory ke ks))"
proof -
  assume s: "kwin_sound ke ks"
  obtain ks1 e where 1: "ensure_bridge_started ke ks = (ks1, e)" by (rule prod.exhaust)
  have "kwin_sound ke ks1" using s started_inventory [of ke ks] 1 by (simp add: kwin_sound_def)
  then show ?thesis by (cases e) (simp_all add: refresh_inventory_def 1 oneshot_sound)
qed

lemma loaded_inventory [simp]: "ks_inventory (fst (kwin_ensure_script_loaded ke ks)) = ks_inventory ks"
proof -
  obtain ks1 e1 where 1: "ensure_bridge_started ke ks = (ks1, e1)" by (rule prod.exhaust)
  obtain ks2 e2 where 2: "on_world (ke_scripting_proxy ke) ks1 = (ks2, e2)" by (rule prod.exhaust)
  obtain ks3 e3 where 3: "on_world (ke_is_script_loaded ke) ks2 = (ks3, e3)" by (rule prod.exhaust)
  obtain ks4 e4 where 4: "on_world (ke_load_script ke) ks3 = (ks4, e4)" by (rule prod.exhaust)
  have "ks_inventory ks1 = ks_inventory ks" using started_inventory [of ke ks] 1 by simp
  moreover have "ks_inventory ks2 = ks_inventory ks1" using on_world_inventory [of "ke_scripting_proxy ke" ks1] 2 by simp
  moreover have "ks_inventory ks3 = ks_inventory ks2" using on_world_inventory [of "ke_is_script_loaded ke" ks2] 3 by simp
  moreover have "ks_inventory ks4 = ks_inventory ks3" using on_world_inventory [of "ke_load_script ke" ks3] 4 by simp
  ultimately show ?thesis
    by (auto simp: kwin_ensure_script_loaded_def 1 2 3 4 split: option.split sum.split bool.split)
qed

lemma kwin_list_sound: "kwin_sound ke ks \<Longrightarrow> kwin_sound ke (fst (kwin_list_windows ke ks))"
proof -
  assume s: "kwin_sound ke ks"
  obtain ks1 e where 1: "kwin_ensure_script_loaded ke ks = (ks1, e)" by (rule prod.exhaust)
  have s1: "kwin_sound ke ks1" using s loaded_inventory [of ke ks] 1 by (simp add: kwin_sound_def)
  obtain ks2 e2 where 2: "refresh_inventory ke ks1 = (ks2, e2)" by (rule prod.exhaust)
  have "kwin_sound ke ks2" using refresh_sound [OF s1] 2 by simp
  then show ?thesis using s1 by (auto simp: kwin_list_windows_def 1 2 split: option.split)
qed

lemma kwin_listed:
  assumes "kwin_sound ke ks" "kwin_list_windows ke ks = (ks', Inr cs)"
  shows "list_all (window_ok ke) cs"
proof -
  have "kwin_sound ke ks'" using kwin_list_sound [OF assms(1)] assms(2) by simp
  moreover have "cs = sort_key window_order (hvals (ks_inventory ks'))"
    using assms(2) by (auto simp: kwin_list_windows_def split: prod.splits option.splits)
  ultimately show ?thesis using known_ok by (auto simp: kwin_sound_def list_all_iff)
qed

lemma kwin_attached:
  assumes "kwin_sound ke ks" "kwin_attach_window ke c ks = (ks', Inr w)"
  shows "kwin_takes (wc_window_id c) \<and> sw_window_id w = wc_window_id c"
proof -
  have b: "wc_backend c = Kwin" using assms(2) by (cases "wc_backend c = Kwin") (simp_all add: kwin_attach_window_def)
  have v: "validate_kwin_backend_window_id (wc_window_id c) = None"
    using assms(2) by (cases "validate_kwin_backend_window_id (wc_window_id c)") (simp_all add: kwin_attach_window_def b)
  obtain ks1 e where 1: "refresh_inventory ke ks = (ks1, e)" by (rule prod.exhaust)
  have e: "e = None" using assms(2) by (cases e) (simp_all add: kwin_attach_window_def b v 1)
  obtain cur where cur: "hget (ks_inventory ks1) (wc_window_id c) = Some cur" "w = for_attached cur"
    using assms(2) by (cases "hget (ks_inventory ks1) (wc_window_id c)") (simp_all add: kwin_attach_window_def b v 1 e)
  have "kwin_sound ke ks1" using refresh_sound [OF assms(1)] 1 by simp
  then have "wc_window_id cur = wc_window_id c" using cur(1) by (simp add: kwin_sound_def inventory_ok_def)
  then show ?thesis using v cur(2) by (simp add: kwin_takes_def for_attached_def)
qed

lemma kwin_attach_sound: "kwin_sound ke ks \<Longrightarrow> kwin_sound ke (fst (kwin_attach_window ke c ks))"
  using refresh_sound [of ke ks] by (auto simp: kwin_attach_window_def split: option.split prod.split)

interpretation kwin: window_backend "kwin_list_windows ke" "kwin_attach_window ke" "kwin_set_window_visible ke" kwin_takes
    "kwin_sound ke" for ke :: "'k kwin_env"
proof
  fix s s' :: "'k kwin_state" and cs c w v
  show "kwin_takes (wc_window_id c)" if "kwin_sound ke s" "kwin_list_windows ke s = (s', Inr cs)" "c \<in> set cs"
    using kwin_listed [OF that(1,2)] that(3) by (simp add: list_all_iff window_ok_def)
  show "kwin_takes (wc_window_id c) \<and> sw_window_id w = wc_window_id c"
    if "kwin_sound ke s" "kwin_attach_window ke c s = (s', Inr w)"
    using that by (rule kwin_attached)
  show "fst (kwin_set_window_visible ke w v s) = s \<and> snd (kwin_set_window_visible ke w v s) \<noteq> None"
    if "\<not> kwin_takes (sw_window_id w)"
    using that by (auto simp: kwin_takes_def kwin_set_window_visible_def)
  show "kwin_sound ke (fst (kwin_list_windows ke s))" if "kwin_sound ke s" using that by (rule kwin_list_sound)
  show "kwin_sound ke (fst (kwin_attach_window ke c s))" if "kwin_sound ke s" using that by (rule kwin_attach_sound)
  show "kwin_sound ke (fst (kwin_set_window_visible ke w v s))" if "kwin_sound ke s"
    using that oneshot_sound [OF that] by (simp add: kwin_set_window_visible_def split: option.split)
qed

section \<open>Properties\<close>

text \<open>Whether a call bears the token of this process.\<close>

definition bears_token :: "'k kwin_env \<Rightarrow> bridge_call \<Rightarrow> bool" where
  "bears_token ke call = (case call of Replace_Windows t _ \<Rightarrow> t = ke_token ke | Upsert_Window t _ \<Rightarrow> t = ke_token ke
     | Remove_Window t _ \<Rightarrow> t = ke_token ke | Bridge_Ping \<Rightarrow> False)"

lemma tokenless_step: "\<not> bears_token ke call \<Longrightarrow> bridge_step ke call ks = ks"
  by (cases call) (simp_all add: bears_token_def bridge_step_def bridge_handle_def validate_token_def)

text \<open>The cockpit believes KWin only: the object on the session's bus that any program can call keeps the
  windows that calls with this process's token reported, and calls without it change nothing; and every
  window kept is a KWin window whose id its commands take, and none of the cockpit's own.\<close>

theorem bridge_believes_the_token_only:
  "fold (bridge_step ke) calls (kwin_new k) = fold (bridge_step ke) (filter (bears_token ke) calls) (kwin_new k) \<and>
    list_all (\<lambda>c. wc_backend c = Kwin \<and> validate_kwin_backend_window_id (wc_window_id c) = None \<and> wc_pid c \<noteq> Some (ke_own_pid ke))
      (hvals (ks_inventory (fold (bridge_step ke) calls (kwin_new k))))"
proof
  have "fold (bridge_step ke) calls ks = fold (bridge_step ke) (filter (bears_token ke) calls) ks" for ks
    by (induction calls arbitrary: ks) (simp_all add: tokenless_step)
  then show "fold (bridge_step ke) calls (kwin_new k) = fold (bridge_step ke) (filter (bears_token ke) calls) (kwin_new k)" .
  have "kwin_sound ke (kwin_new k)" by (simp add: kwin_sound_def kwin_new_def inventory_ok_def)
  then have "kwin_sound ke (fold (bridge_step ke) calls (kwin_new k))" by (rule bridge.run_inv)
  then show "list_all (\<lambda>c. wc_backend c = Kwin \<and> validate_kwin_backend_window_id (wc_window_id c) = None \<and>
      wc_pid c \<noteq> Some (ke_own_pid ke)) (hvals (ks_inventory (fold (bridge_step ke) calls (kwin_new k))))"
    using known_ok by (auto simp: kwin_sound_def list_all_iff window_ok_def kwin_takes_def)
qed

text \<open>An attached window is the one commands then act on: when a backend attaches a window, showing and hiding it
  later sends the tools or KWin exactly that window's id, whatever happened in between; X11 is told to map
  and raise or to minimise it, KWin is given the script for it.\<close>

theorem attached_window_is_controlled:
  assumes "x11_attach_window xe c x = (x', Inr w)" and "kwin_sound ke ks" and "kwin_attach_window ke d ks = (ks', Inr u)"
  shows "(\<exists>raw. wc_window_id c = ''x11:'' @ raw \<and>
      x11_set_window_visible xe w True y = run_xdotool_then xe [''windowmap'', raw] [''windowraise'', raw] y \<and>
      x11_set_window_visible xe w False y = run_xdotool xe [''windowminimize'', raw] y) \<and>
    kwin_set_window_visible ke u v ls = run_oneshot_script ke (Visibility_Script (wc_window_id d) v) ls"
proof
  obtain raw where raw: "wc_window_id c = ''x11:'' @ raw" "parse_x11_backend_window_id (wc_window_id c) = Inr raw"
      "sw_window_id w = wc_window_id c"
    by (rule x11_attached [OF assms(1)])
  then show "\<exists>raw. wc_window_id c = ''x11:'' @ raw \<and>
      x11_set_window_visible xe w True y = run_xdotool_then xe [''windowmap'', raw] [''windowraise'', raw] y \<and>
      x11_set_window_visible xe w False y = run_xdotool xe [''windowminimize'', raw] y"
    by (intro exI [of _ raw]) (simp add: x11_set_window_visible_def)
  show "kwin_set_window_visible ke u v ls = run_oneshot_script ke (Visibility_Script (wc_window_id d) v) ls"
    using kwin.attached [OF assms(2,3)] by (simp add: kwin_set_window_visible_def kwin_takes_def)
qed

text \<open>A switch acts on the backend's own windows only: windows whose ids it does not take, such as those attached
  under another compositor or spawned ones known by a process id, are reported as errors and change
  nothing, and the others fare exactly as in a switch without them. So on both X11 and KWin.\<close>

theorem switch_ignores_foreign_windows:
  "acts_on_own x11_takes (x11_compositor xe) sw x \<and> acts_on_own kwin_takes (kwin_compositor ke) sw ks"
  unfolding x11_compositor_def kwin_compositor_def
  by (rule conjI [OF x11.group_switch_acts_on_own kwin.group_switch_acts_on_own])

text \<open>KWin's backend does not take the ids the cockpit gives to satellites it knows by a process id.\<close>

lemma kwin_refuses_pid_windows:
  "kwin_set_window_visible ke (for_pid b p) v ks = (ks, Some (CE_Domain (''invalid KWin backend window id: pid:'' @ show_nat p)))"
  by (simp add: kwin_set_window_visible_def for_pid_def validate_kwin_backend_window_id_def)

end
