(* ===== verification/WaylandHost.thy ===== *)
theory WaylandHost
  imports AppHost "HOL-Library.Word"
begin

text \<open>
  The nested compositor (\<open>crates/lmux-wayland-host/src/state.rs\<close>, \<open>host.rs\<close>, \<open>lib.rs\<close>): its table of
  surfaces, the requests of its clients as smithay delivers them, the copies of their pixels, the commands
  of the cockpit, and the loop of its thread. A \<open>wl_surface\<close> is named by a number. What smithay answers when
  it is asked about a surface (its buffer, title, parent, whether it is alive) is part of the request, and
  what is asked of smithay (configure, input, release of a buffer) is logged. Serials, times of input and
  log lines are left out.
\<close>

section \<open>Pixels\<close>

datatype shm_format = Argb8888 | Xrgb8888 | Other_Format

record buffer_data =
  bd_offset :: int
  bd_width :: int
  bd_height :: int
  bd_stride :: int
  bd_format :: shm_format

record frame_copy =
  fc_width :: nat
  fc_height :: nat
  fc_rgb :: "8 word list"

record cursor_copy =
  cc_width :: nat
  cc_height :: nat
  cc_rgba :: "8 word list"

text \<open>Checked arithmetic on \<open>usize\<close>.\<close>

definition checked :: "nat \<Rightarrow> nat option" where
  "checked n = (if n < 2 ^ 64 then Some n else None)"

text \<open>Both copies begin with the same checks; they give the first byte, the rows and columns, and the stride.\<close>

definition shm_layout :: "nat \<Rightarrow> buffer_data \<Rightarrow> (nat \<times> nat \<times> nat \<times> nat) option" where
  "shm_layout len bd =
    (if bd_width bd \<le> 0 \<or> bd_height bd \<le> 0 \<or> bd_stride bd \<le> 0 then None
     else let width = nat (bd_width bd); height = nat (bd_height bd); stride = nat (bd_stride bd);
              base = nat (max (bd_offset bd) 0)
          in case Option.bind (checked (stride * height)) (\<lambda>v. checked (v + base)) of
               None \<Rightarrow> None
             | Some required \<Rightarrow>
                 if required > len then None
                 else case checked (width * 4) of
                   None \<Rightarrow> None
                 | Some row_bytes \<Rightarrow>
                     if row_bytes > stride \<or> bd_format bd = Other_Format then None
                     else Some (base, width, height, stride))"

definition pixels :: "(nat \<Rightarrow> 'a list) \<Rightarrow> nat \<times> nat \<times> nat \<times> nat \<Rightarrow> 'a list" where
  "pixels px = (\<lambda>(base, width, height, stride).
     concat (map (\<lambda>y. concat (map (\<lambda>x. px (base + y * stride + x * 4)) [0..<width])) [0..<height]))"

definition copy_shm_to_rgb :: "(nat \<Rightarrow> 8 word) \<Rightarrow> nat \<Rightarrow> buffer_data \<Rightarrow> frame_copy option" where
  "copy_shm_to_rgb mem len bd =
    map_option (\<lambda>l. \<lparr>fc_width = nat (bd_width bd), fc_height = nat (bd_height bd),
                     fc_rgb = pixels (\<lambda>p. [mem (p + 2), mem (p + 1), mem p]) l\<rparr>)
      (shm_layout len bd)"

definition copy_shm_to_rgba :: "(nat \<Rightarrow> 8 word) \<Rightarrow> nat \<Rightarrow> buffer_data \<Rightarrow> cursor_copy option" where
  "copy_shm_to_rgba mem len bd =
    map_option (\<lambda>l. \<lparr>cc_width = nat (bd_width bd), cc_height = nat (bd_height bd),
                     cc_rgba = pixels (\<lambda>p. [mem (p + 2), mem (p + 1), mem p,
                       if bd_format bd = Xrgb8888 then 0xFF else mem (p + 3)]) l\<rparr>)
      (shm_layout len bd)"

text \<open>A buffer of the GPU; a handle is \<open>None\<close> where its descriptor cannot be duplicated.\<close>

record dmabuf =
  db_planes :: nat
  db_size :: "int \<times> int"
  db_fourcc :: nat
  db_modifier :: nat
  db_handles :: "nat option list"
  db_strides :: "nat list"
  db_offsets :: "nat list"

record dmabuf_frame =
  df_id :: nat
  df_width :: nat
  df_height :: nat
  df_fourcc :: nat
  df_modifier :: nat
  df_fd :: nat
  df_stride :: nat
  df_offset :: nat

definition dmabuf_to_frame :: "nat \<Rightarrow> dmabuf \<Rightarrow> dmabuf_frame option" where
  "dmabuf_to_frame i d =
    (if db_planes d \<noteq> 1 \<or> fst (db_size d) \<le> 0 \<or> snd (db_size d) \<le> 0 then None
     else case (db_handles d, db_strides d, db_offsets d) of
       (Some fd # _, stride # _, offset # _) \<Rightarrow>
         Some \<lparr>df_id = i, df_width = nat (fst (db_size d)), df_height = nat (snd (db_size d)),
               df_fourcc = db_fourcc d, df_modifier = db_modifier d, df_fd = fd, df_stride = stride, df_offset = offset\<rparr>
     | _ \<Rightarrow> None)"

section \<open>Buffers of a commit\<close>

text \<open>What an attached buffer turns out to be: memory of the GPU, a mapping of so many bytes, memory that smithay
  does not manage, or a mapping that could not be read.\<close>

datatype buffer_content =
  Gpu dmabuf
| Shm "nat \<Rightarrow> 8 word" nat buffer_data
| Not_Managed
| Bad_Access

datatype assignment = NewBuffer nat buffer_content | Removed

text \<open>The surface as smithay shows it at the commit; its role holds the title and the app id, if it has one.\<close>

record surface_view =
  sv_callbacks :: "nat list"
  sv_buffer :: "assignment option"
  sv_role :: "(string option \<times> string option) option"
  sv_parent :: "nat option"
  sv_hotspot :: "int \<times> int"

type_synonym rect = "int \<times> int \<times> int \<times> int"

datatype host_call =
  H_Configure nat "(int \<times> int) option"
| H_ConfigurePopup nat rect
| H_Close nat
| H_Motion "nat option" real real
| H_Button nat bool
| H_Axis real real
| H_PointerFrame
| H_Key "32 word" bool
| H_Focus "nat option"
| H_FrameDone nat
| H_Release nat

text \<open>An event as it leaves the thread; \<open>seen\<close> is what the cockpit's model keeps of it.\<close>

datatype wire =
  W_Frame nat frame_copy
| W_Dmabuf dmabuf_frame
| W_Cursor "nat option" cursor_copy "int \<times> int"
| W_Child nat nat "string option" "string option" nat nat
| W_Moved nat int int nat nat nat
| W_Plain host_event

fun seen :: "wire \<Rightarrow> host_event" where
  "seen (W_Frame i f) = HE_FrameReady i"
| "seen (W_Dmabuf f) = HE_DmabufFrame (df_id f)"
| "seen (W_Cursor i c h) = HE_CursorBitmap i (cc_width c) (cc_height c)"
| "seen (W_Child i parent title app_id wd ht) = HE_ChildToplevelCreated i parent wd ht"
| "seen (W_Moved i x y wd ht token) = HE_PopupRepositioned i x y wd ht"
| "seen (W_Plain e) = e"

datatype committed_frame = C_Shm frame_copy | C_Dmabuf dmabuf_frame

definition frame_size :: "committed_frame option \<Rightarrow> nat \<times> nat" where
  "frame_size c = (case c of Some (C_Shm f) \<Rightarrow> (fc_width f, fc_height f)
     | Some (C_Dmabuf f) \<Rightarrow> (df_width f, df_height f) | None \<Rightarrow> (0, 0))"

definition frame_events :: "nat \<Rightarrow> committed_frame option \<Rightarrow> wire list" where
  "frame_events i c = (case c of Some (C_Shm f) \<Rightarrow> [W_Frame i f] | Some (C_Dmabuf f) \<Rightarrow> [W_Dmabuf f] | None \<Rightarrow> [])"

text \<open>The calls a commit makes, and the frame it gives.\<close>

definition read_committed_frame :: "nat \<Rightarrow> surface_view \<Rightarrow> host_call list \<times> committed_frame option" where
  "read_committed_frame i v =
    (let calls = map H_FrameDone (sv_callbacks v)
     in case sv_buffer v of
          Some (NewBuffer b content) \<Rightarrow>
            (calls @ [H_Release b],
             (case content of
                Gpu d \<Rightarrow> map_option C_Dmabuf (dmabuf_to_frame i d)
              | Shm mem len bd \<Rightarrow> map_option C_Shm (copy_shm_to_rgb mem len bd)
              | Not_Managed \<Rightarrow> None
              | Bad_Access \<Rightarrow> None))
        | _ \<Rightarrow> (calls, None))"

text \<open>A GPU buffer is not shared memory, so a cursor in one is refused like any buffer smithay does not manage.\<close>

definition read_committed_cursor :: "surface_view \<Rightarrow> host_call list \<times> cursor_copy option" where
  "read_committed_cursor v =
    (let calls = map H_FrameDone (sv_callbacks v)
     in case sv_buffer v of
          Some (NewBuffer b content) \<Rightarrow>
            (calls @ [H_Release b],
             (case content of Shm mem len bd \<Rightarrow> copy_shm_to_rgba mem len bd | _ \<Rightarrow> None))
        | _ \<Rightarrow> (calls, None))"

definition non_empty :: "string option \<Rightarrow> string option" where
  "non_empty t = (case t of Some (c # cs) \<Rightarrow> Some (c # cs) | _ \<Rightarrow> None)"

definition read_toplevel_identity :: "surface_view \<Rightarrow> string option \<times> string option" where
  "read_toplevel_identity v =
    (case sv_role v of None \<Rightarrow> (None, None) | Some (title, app_id) \<Rightarrow> (non_empty title, non_empty app_id))"

section \<open>The table of surfaces\<close>

record tracked_toplevel =
  tt_surface :: nat
  tt_announced :: bool
  tt_last_title :: "string option"
  tt_last_app_id :: "string option"
  tt_child_of :: "nat option"

record tracked_popup =
  pp_surface :: nat
  pp_parent :: nat
  pp_geometry :: "int \<times> int \<times> nat \<times> nat"
  pp_announced :: bool

record wl_state =
  ws_toplevels :: "(nat, tracked_toplevel) hmap"
  ws_popups :: "(nat, tracked_popup) hmap"
  ws_cursor_surface :: "nat option"
  ws_cursor_focus :: "nat option"
  ws_pointer_focus :: "nat option"
  ws_next_id :: nat
  ws_events :: "wire list"
  ws_calls :: "host_call list"

definition new_state :: wl_state where
  "new_state = \<lparr>ws_toplevels = [], ws_popups = [], ws_cursor_surface = None, ws_cursor_focus = None,
     ws_pointer_focus = None, ws_next_id = 1, ws_events = [], ws_calls = []\<rparr>"

definition post :: "wire list \<Rightarrow> wl_state \<Rightarrow> wl_state" where
  "post es s = s\<lparr>ws_events := ws_events s @ es\<rparr>"

definition ask :: "host_call list \<Rightarrow> wl_state \<Rightarrow> wl_state" where
  "ask cs s = s\<lparr>ws_calls := ws_calls s @ cs\<rparr>"

definition toplevel_of :: "wl_state \<Rightarrow> nat \<Rightarrow> nat option" where
  "toplevel_of s wl = find_map (\<lambda>(i, tt). if tt_surface tt = wl then Some i else None) (hitems (ws_toplevels s))"

definition popup_of :: "wl_state \<Rightarrow> nat \<Rightarrow> nat option" where
  "popup_of s wl = find_map (\<lambda>(i, pp). if pp_surface pp = wl then Some i else None) (hitems (ws_popups s))"

definition surface_id_for_wl :: "wl_state \<Rightarrow> nat \<Rightarrow> nat option" where
  "surface_id_for_wl s wl = (case toplevel_of s wl of Some i \<Rightarrow> Some i | None \<Rightarrow> popup_of s wl)"

definition surface_for :: "wl_state \<Rightarrow> nat \<Rightarrow> nat option" where
  "surface_for s i =
    (case hget (ws_toplevels s) i of Some tt \<Rightarrow> Some (tt_surface tt)
     | None \<Rightarrow> map_option pp_surface (hget (ws_popups s) i))"

text \<open>The counter is 64 bits wide and wraps.\<close>

definition allocate_surface_id :: "wl_state \<Rightarrow> nat \<times> wl_state" where
  "allocate_surface_id s = (ws_next_id s, s\<lparr>ws_next_id := (ws_next_id s + 1) mod 2 ^ 64\<rparr>)"

section \<open>Requests of clients\<close>

definition new_toplevel :: "nat \<Rightarrow> wl_state \<Rightarrow> wl_state" where
  "new_toplevel wl s0 =
    (let (i, s) = allocate_surface_id s0; s1 = ask [H_Configure wl None] s
     in s1\<lparr>ws_toplevels := hput i \<lparr>tt_surface = wl, tt_announced = False, tt_last_title = None,
          tt_last_app_id = None, tt_child_of = None\<rparr> (ws_toplevels s1)\<rparr>)"

definition popup_geometry :: "rect \<Rightarrow> int \<times> int \<times> nat \<times> nat" where
  "popup_geometry = (\<lambda>(x, y, w, h). (x, y, nat (max w 1), nat (max h 1)))"

definition new_popup :: "nat \<Rightarrow> nat option \<Rightarrow> rect \<Rightarrow> bool \<Rightarrow> wl_state \<Rightarrow> wl_state" where
  "new_popup wl parent_wl geo configured s0 =
    (let (i, s) = allocate_surface_id s0
     in case Option.bind parent_wl (surface_id_for_wl s) of
          None \<Rightarrow> s
        | Some parent \<Rightarrow>
            if \<not> configured then s
            else let s1 = ask [H_ConfigurePopup wl geo] s
                 in s1\<lparr>ws_popups := hput i \<lparr>pp_surface = wl, pp_parent = parent, pp_geometry = popup_geometry geo,
                      pp_announced = False\<rparr> (ws_popups s1)\<rparr>)"

definition reposition_request :: "nat \<Rightarrow> rect \<Rightarrow> nat \<Rightarrow> wl_state \<Rightarrow> wl_state" where
  "reposition_request wl geo token s =
    (case surface_id_for_wl s wl of
       None \<Rightarrow> s
     | Some i \<Rightarrow>
         let s1 = ask [H_ConfigurePopup wl geo] s;
             s2 = s1\<lparr>ws_popups := hmodify i (\<lambda>pp. pp\<lparr>pp_geometry := popup_geometry geo\<rparr>) (ws_popups s1)\<rparr>;
             (x, y, w, h) = popup_geometry geo
         in post [W_Moved i x y w h token] s2)"

definition close_event :: "nat \<Rightarrow> tracked_toplevel \<Rightarrow> wire" where
  "close_event i tt = W_Plain (if tt_child_of tt \<noteq> None then HE_ChildToplevelClosed i else HE_ToplevelClosed i)"

definition drop_popup :: "nat \<Rightarrow> wl_state \<Rightarrow> wl_state" where
  "drop_popup i s = post [W_Plain (HE_PopupClosed i)] (s\<lparr>ws_popups := hdel i (ws_popups s)\<rparr>)"

definition drop_toplevel :: "nat \<Rightarrow> wl_state \<Rightarrow> wl_state" where
  "drop_toplevel i s =
    (case hget (ws_toplevels s) i of
       None \<Rightarrow> s
     | Some tt \<Rightarrow> post [close_event i tt] (s\<lparr>ws_toplevels := hdel i (ws_toplevels s)\<rparr>))"

definition popup_destroyed :: "nat \<Rightarrow> wl_state \<Rightarrow> wl_state" where
  "popup_destroyed wl s = (case popup_of s wl of None \<Rightarrow> s | Some i \<Rightarrow> drop_popup i s)"

definition toplevel_destroyed :: "nat \<Rightarrow> wl_state \<Rightarrow> wl_state" where
  "toplevel_destroyed wl s = (case toplevel_of s wl of None \<Rightarrow> s | Some i \<Rightarrow> drop_toplevel i s)"

definition focus_changed :: "nat option \<Rightarrow> wl_state \<Rightarrow> wl_state" where
  "focus_changed wl s = s\<lparr>ws_pointer_focus := wl\<rparr>"

datatype cursor_image_status = Cursor_Named string | Cursor_Hidden | Cursor_Surface nat

definition cursor_image :: "cursor_image_status \<Rightarrow> wl_state \<Rightarrow> wl_state" where
  "cursor_image img s0 =
    (let i = Option.bind (ws_pointer_focus s0) (surface_id_for_wl s0); s = s0\<lparr>ws_cursor_focus := i\<rparr>
     in case img of
          Cursor_Named name \<Rightarrow> post [W_Plain (HE_CursorShape i name)] (s\<lparr>ws_cursor_surface := None\<rparr>)
        | Cursor_Hidden \<Rightarrow> post [W_Plain (HE_CursorShape i ''none'')] (s\<lparr>ws_cursor_surface := None\<rparr>)
        | Cursor_Surface wl \<Rightarrow> s\<lparr>ws_cursor_surface := Some wl\<rparr>)"

section \<open>Commits\<close>

definition commit_cursor :: "surface_view \<Rightarrow> wl_state \<Rightarrow> wl_state" where
  "commit_cursor v s =
    (let (calls, bitmap) = read_committed_cursor v
     in post (case bitmap of Some c \<Rightarrow> [W_Cursor (ws_cursor_focus s) c (sv_hotspot v)] | None \<Rightarrow> []) (ask calls s))"

definition commit_popup :: "nat \<Rightarrow> tracked_popup \<Rightarrow> surface_view \<Rightarrow> wl_state \<Rightarrow> wl_state" where
  "commit_popup i pp v s =
    (let s1 = (if pp_announced pp then s
               else let (x, y, w, h) = pp_geometry pp
                    in post [W_Plain (HE_PopupCreated i (pp_parent pp) x y w h)]
                         (s\<lparr>ws_popups := hput i (pp\<lparr>pp_announced := True\<rparr>) (ws_popups s)\<rparr>));
         (calls, frame) = read_committed_frame i v
     in post (frame_events i frame) (ask calls s1))"

text \<open>The parent is looked for until the toplevel is announced; a child is announced with its first frame only.\<close>

definition resolve_parent :: "surface_view \<Rightarrow> tracked_toplevel \<Rightarrow> wl_state \<Rightarrow> tracked_toplevel" where
  "resolve_parent v tt s =
    (if tt_announced tt \<or> tt_child_of tt \<noteq> None then tt
     else case Option.bind (sv_parent v) (surface_id_for_wl s) of
       Some parent \<Rightarrow> tt\<lparr>tt_child_of := Some parent\<rparr> | None \<Rightarrow> tt)"

definition announced_as :: "string option \<Rightarrow> string option \<Rightarrow> tracked_toplevel \<Rightarrow> tracked_toplevel" where
  "announced_as title app_id tt = tt\<lparr>tt_announced := True, tt_last_title := title, tt_last_app_id := app_id\<rparr>"

definition announce_toplevel ::
  "nat \<Rightarrow> committed_frame option \<Rightarrow> string option \<Rightarrow> string option \<Rightarrow> tracked_toplevel \<Rightarrow> tracked_toplevel \<times> wire list" where
  "announce_toplevel i frame title app_id tt =
    (if \<not> tt_announced tt
     then case tt_child_of tt of
            Some parent \<Rightarrow>
              let (w, h) = frame_size frame
              in if w > 0 \<and> h > 0
                 then (announced_as title app_id tt, [W_Child i parent title app_id w h])
                 else (tt, [])
          | None \<Rightarrow> (announced_as title app_id tt, [W_Plain (HE_ToplevelCreated i title app_id)])
     else (tt\<lparr>tt_last_title := title, tt_last_app_id := app_id\<rparr>,
           (if title \<noteq> tt_last_title tt then [W_Plain (HE_ToplevelTitleChanged i title)] else []) @
           (if app_id \<noteq> tt_last_app_id tt then [W_Plain (HE_ToplevelAppIdChanged i app_id)] else [])))"

definition commit_toplevel :: "nat \<Rightarrow> tracked_toplevel \<Rightarrow> surface_view \<Rightarrow> wl_state \<Rightarrow> wl_state" where
  "commit_toplevel i tt0 v s =
    (let (title, app_id) = read_toplevel_identity v;
         tt = resolve_parent v tt0 s;
         (calls, frame) = read_committed_frame i v;
         (tt1, news) = announce_toplevel i frame title app_id tt;
         s1 = ask calls (s\<lparr>ws_toplevels := hput i tt1 (ws_toplevels s)\<rparr>)
     in post (news @ frame_events i frame) s1)"

definition commit :: "nat \<Rightarrow> surface_view \<Rightarrow> wl_state \<Rightarrow> wl_state" where
  "commit wl v s =
    (if ws_cursor_surface s = Some wl then commit_cursor v s
     else case popup_of s wl of
       Some i \<Rightarrow> (case hget (ws_popups s) i of Some pp \<Rightarrow> commit_popup i pp v s | None \<Rightarrow> s)
     | None \<Rightarrow> (case toplevel_of s wl of
         Some i \<Rightarrow> (case hget (ws_toplevels s) i of Some tt \<Rightarrow> commit_toplevel i tt v s | None \<Rightarrow> s)
       | None \<Rightarrow> s))"

datatype request =
  R_NewToplevel nat
| R_NewPopup nat "nat option" rect bool
| R_Commit nat surface_view
| R_Reposition nat rect nat
| R_PopupDestroyed nat
| R_ToplevelDestroyed nat
| R_FocusChanged "nat option"
| R_CursorImage cursor_image_status

fun serve :: "request \<Rightarrow> wl_state \<Rightarrow> wl_state" where
  "serve (R_NewToplevel wl) s = new_toplevel wl s"
| "serve (R_NewPopup wl parent geo ok) s = new_popup wl parent geo ok s"
| "serve (R_Commit wl v) s = commit wl v s"
| "serve (R_Reposition wl geo token) s = reposition_request wl geo token s"
| "serve (R_PopupDestroyed wl) s = popup_destroyed wl s"
| "serve (R_ToplevelDestroyed wl) s = toplevel_destroyed wl s"
| "serve (R_FocusChanged wl) s = focus_changed wl s"
| "serve (R_CursorImage img) s = cursor_image img s"

section \<open>Clients that are gone\<close>

definition reap_dead_toplevels :: "(nat \<Rightarrow> bool) \<Rightarrow> wl_state \<Rightarrow> wl_state" where
  "reap_dead_toplevels alive s =
    fold drop_toplevel (map fst (filter (\<lambda>(i, tt). \<not> alive (tt_surface tt)) (hitems (ws_toplevels s)))) s"

definition reap_dead_popups :: "(nat \<Rightarrow> bool) \<Rightarrow> wl_state \<Rightarrow> wl_state" where
  "reap_dead_popups alive s =
    fold drop_popup (map fst (filter (\<lambda>(i, pp). \<not> alive (pp_surface pp)) (hitems (ws_popups s)))) s"

section \<open>Commands of the cockpit\<close>

datatype host_command =
  HC_Shutdown
| HC_ResizeToplevel nat nat nat
| HC_CloseToplevel nat
| HC_PointerMotion nat real real
| HC_PointerButton nat nat bool
| HC_PointerLeave nat
| HC_PointerAxis nat real real
| HC_KeyInput nat "32 word" bool
| HC_KeyboardFocus "nat option"

text \<open>The calls a command makes. Buttons, wheels and keys go to whatever has the focus, whichever surface the
  command names.\<close>

fun command_calls :: "wl_state \<Rightarrow> host_command \<Rightarrow> host_call list" where
  "command_calls s HC_Shutdown = []"
| "command_calls s (HC_ResizeToplevel i w h) =
     (case hget (ws_toplevels s) i of None \<Rightarrow> []
      | Some tt \<Rightarrow> [H_Configure (tt_surface tt) (Some (as_i32 w, as_i32 h))])"
| "command_calls s (HC_CloseToplevel i) =
     (case hget (ws_toplevels s) i of None \<Rightarrow> [] | Some tt \<Rightarrow> [H_Close (tt_surface tt)])"
| "command_calls s (HC_PointerMotion i x y) =
     (case surface_for s i of None \<Rightarrow> [] | Some wl \<Rightarrow> [H_Motion (Some wl) x y, H_PointerFrame])"
| "command_calls s (HC_PointerButton i b pressed) = [H_Button b pressed, H_PointerFrame]"
| "command_calls s (HC_PointerLeave i) = [H_Motion None 0 0, H_PointerFrame]"
| "command_calls s (HC_PointerAxis i dx dy) =
     (if dx = 0 \<and> dy = 0 then [] else [H_Axis (dx * 15) (dy * 15), H_PointerFrame])"
| "command_calls s (HC_KeyInput i code pressed) = [H_Key (code + 8) pressed]"
| "command_calls s (HC_KeyboardFocus i) = [H_Focus (Option.bind i (surface_for s))]"

text \<open>Commands are drained up to a shutdown; what smithay calls back while it handles one follows it.\<close>

fun drain_commands :: "(host_command \<times> request list) list \<Rightarrow> wl_state \<Rightarrow> wl_state \<times> bool" where
  "drain_commands [] s = (s, False)"
| "drain_commands ((c, rs) # cs) s =
    (if c = HC_Shutdown then (s, True)
     else drain_commands cs (fold serve rs (ask (command_calls s c) s)))"

section \<open>The thread\<close>

text \<open>One turn of the loop: the stop flag at its head, the requests dispatched (or the dispatch fails), which
  surfaces are alive, whether the event loop's poll succeeds, and the commands waiting.\<close>

record turn =
  tu_stop :: bool
  tu_requests :: "request list option"
  tu_alive :: "nat \<Rightarrow> bool"
  tu_poll :: bool
  tu_commands :: "(host_command \<times> request list) list"

definition reap :: "(nat \<Rightarrow> bool) \<Rightarrow> wl_state \<Rightarrow> wl_state" where
  "reap alive s = reap_dead_popups alive (reap_dead_toplevels alive s)"

text \<open>The state after some turns, and whether the loop has ended.\<close>

fun host_loop :: "turn list \<Rightarrow> wl_state \<Rightarrow> wl_state \<times> bool" where
  "host_loop [] s = (s, False)"
| "host_loop (t # ts) s =
    (if tu_stop t then (s, True)
     else case tu_requests t of
       None \<Rightarrow> (s, True)
     | Some rs \<Rightarrow>
         let s1 = reap (tu_alive t) (fold serve rs s)
         in if \<not> tu_poll t then (s1, True)
            else let (s2, stop) = drain_commands (tu_commands t) s1
                 in if stop then (s2, True) else host_loop ts s2)"

definition socket_name :: "nat \<Rightarrow> nat \<Rightarrow> string" where
  "socket_name pid seq = ''lmux-'' @ show_nat pid @ ''-'' @ show_nat seq"

text \<open>The thread: set-up, which may fail, the loop, and the farewell.\<close>

definition host_thread :: "bool \<Rightarrow> nat \<Rightarrow> nat \<Rightarrow> turn list \<Rightarrow> wl_state \<times> bool" where
  "host_thread set_up pid seq ts =
    (let (s, ended) = (if set_up then host_loop ts (post [W_Plain (HE_Ready (socket_name pid seq))] new_state)
                       else (new_state, True))
     in (if ended then post [W_Plain HE_Stopped] s else s, ended))"

end
