(* ===== verification/WaylandRuns.thy ===== *)
theory WaylandRuns
  imports WaylandHost
begin

text \<open>
  What the nested compositor keeps: the events of each surface follow a protocol, surfaces of dead clients are
  closed, every buffer goes back to its client, and no pixel is read outside a mapping.
\<close>

section \<open>The life of a surface\<close>

datatype kind = K_Toplevel | K_Child | K_Popup

datatype move = Opens kind | Draws | Changes | Moves | Closes kind

datatype phase = Unseen | Shown kind | Gone

text \<open>Which surface an event is about; a cursor's event is about none.\<close>

fun about :: "host_event \<Rightarrow> (nat \<times> move) option" where
  "about (HE_ToplevelCreated i t a) = Some (i, Opens K_Toplevel)"
| "about (HE_ChildToplevelCreated i p w h) = Some (i, Opens K_Child)"
| "about (HE_PopupCreated i p x y w h) = Some (i, Opens K_Popup)"
| "about (HE_FrameReady i) = Some (i, Draws)"
| "about (HE_DmabufFrame i) = Some (i, Draws)"
| "about (HE_ToplevelTitleChanged i t) = Some (i, Changes)"
| "about (HE_ToplevelAppIdChanged i a) = Some (i, Changes)"
| "about (HE_PopupRepositioned i x y w h) = Some (i, Moves)"
| "about (HE_ToplevelClosed i) = Some (i, Closes K_Toplevel)"
| "about (HE_ChildToplevelClosed i) = Some (i, Closes K_Child)"
| "about (HE_PopupClosed i) = Some (i, Closes K_Popup)"
| "about e = None"

text \<open>The protocol: a surface is opened once, drawn and renamed while it is open, closed once as what it was
  opened as, and then never heard of; it may be moved, or closed, before it was opened.\<close>

fun advance :: "move \<Rightarrow> phase \<Rightarrow> phase option" where
  "advance (Opens k) Unseen = Some (Shown k)"
| "advance Draws (Shown k) = Some (Shown k)"
| "advance Changes (Shown k) = (if k = K_Popup then None else Some (Shown k))"
| "advance Moves Unseen = Some Unseen"
| "advance Moves (Shown k) = Some (Shown k)"
| "advance (Closes k) Unseen = Some Gone"
| "advance (Closes k) (Shown k') = (if k = k' then Some Gone else None)"
| "advance m p = None"

definition pass :: "nat \<Rightarrow> host_event \<Rightarrow> phase option \<Rightarrow> phase option" where
  "pass i e ph = Option.bind ph (\<lambda>p. case about e of Some (j, m) \<Rightarrow> if j = i then advance m p else Some p | None \<Rightarrow> Some p)"

definition life :: "nat \<Rightarrow> host_event list \<Rightarrow> phase option" where
  "life i es = fold (pass i) es (Some Unseen)"

lemma life_Nil [simp]: "life i [] = Some Unseen"
  by (simp add: life_def)

lemma life_append: "life i (xs @ ys) = fold (pass i) ys (life i xs)"
  by (simp add: life_def)

lemma pass_other: "about e = None \<Longrightarrow> pass i e ph = ph"
  by (cases ph) (simp_all add: pass_def)

lemma pass_about: "about e = Some (j, m) \<Longrightarrow> pass i e ph = (if j = i then Option.bind ph (advance m) else ph)"
  by (cases ph) (auto simp: pass_def)

text \<open>Where the host believes a surface to be.\<close>

definition toplevel_phase :: "tracked_toplevel \<Rightarrow> phase" where
  "toplevel_phase tt = (if tt_announced tt then Shown (if tt_child_of tt = None then K_Toplevel else K_Child) else Unseen)"

definition popup_phase :: "tracked_popup \<Rightarrow> phase" where
  "popup_phase pp = (if pp_announced pp then Shown K_Popup else Unseen)"

definition told :: "wl_state \<Rightarrow> nat \<Rightarrow> phase option" where
  "told s i = life i (map seen (ws_events s))"

definition host_ok :: "wl_state \<Rightarrow> bool" where
  "host_ok s \<longleftrightarrow>
    (\<forall>i tt. hget (ws_toplevels s) i = Some tt \<longrightarrow>
      hget (ws_popups s) i = None \<and> i < ws_next_id s \<and> told s i = Some (toplevel_phase tt)) \<and>
    (\<forall>i pp. hget (ws_popups s) i = Some pp \<longrightarrow> i < ws_next_id s \<and> told s i = Some (popup_phase pp)) \<and>
    (\<forall>i. hget (ws_toplevels s) i = None \<and> hget (ws_popups s) i = None \<longrightarrow> told s i \<in> {Some Unseen, Some Gone}) \<and>
    (\<forall>i. ws_next_id s \<le> i \<longrightarrow> told s i = Some Unseen)"

lemma host_okI:
  assumes "\<And>i tt. hget (ws_toplevels s) i = Some tt \<Longrightarrow>
      hget (ws_popups s) i = None \<and> i < ws_next_id s \<and> told s i = Some (toplevel_phase tt)"
    and "\<And>i pp. hget (ws_popups s) i = Some pp \<Longrightarrow> i < ws_next_id s \<and> told s i = Some (popup_phase pp)"
    and "\<And>i. hget (ws_toplevels s) i = None \<Longrightarrow> hget (ws_popups s) i = None \<Longrightarrow> told s i \<in> {Some Unseen, Some Gone}"
    and "\<And>i. ws_next_id s \<le> i \<Longrightarrow> told s i = Some Unseen"
  shows "host_ok s"
  unfolding host_ok_def by (intro conjI allI impI) (use assms in blast)+

lemma host_okD:
  assumes "host_ok s"
  shows "hget (ws_toplevels s) i = Some tt \<Longrightarrow> hget (ws_popups s) i = None"
    and "hget (ws_toplevels s) i = Some tt \<Longrightarrow> i < ws_next_id s"
    and "hget (ws_popups s) i = Some pp \<Longrightarrow> i < ws_next_id s"
    and "hget (ws_toplevels s) i = Some tt \<Longrightarrow> told s i = Some (toplevel_phase tt)"
    and "hget (ws_popups s) i = Some pp \<Longrightarrow> told s i = Some (popup_phase pp)"
    and "hget (ws_toplevels s) i = None \<Longrightarrow> hget (ws_popups s) i = None \<Longrightarrow> told s i \<in> {Some Unseen, Some Gone}"
    and "ws_next_id s \<le> i \<Longrightarrow> told s i = Some Unseen"
  using assms unfolding host_ok_def by blast+

lemma host_ok_disjoint: "host_ok s \<Longrightarrow> hget (ws_popups s) i = Some pp \<Longrightarrow> hget (ws_toplevels s) i = None"
  using host_okD(1) by (cases "hget (ws_toplevels s) i") fastforce+

lemma post_simps [simp]:
  "ws_toplevels (post es s) = ws_toplevels s" "ws_popups (post es s) = ws_popups s"
  "ws_next_id (post es s) = ws_next_id s" "ws_calls (post es s) = ws_calls s"
  "ws_cursor_surface (post es s) = ws_cursor_surface s" "ws_events (post es s) = ws_events s @ es"
  "ws_cursor_focus (post es s) = ws_cursor_focus s"
  by (simp_all add: post_def)

lemma ask_simps [simp]:
  "ws_toplevels (ask cs s) = ws_toplevels s" "ws_popups (ask cs s) = ws_popups s"
  "ws_next_id (ask cs s) = ws_next_id s" "ws_calls (ask cs s) = ws_calls s @ cs"
  "ws_cursor_surface (ask cs s) = ws_cursor_surface s" "ws_events (ask cs s) = ws_events s"
  "ws_cursor_focus (ask cs s) = ws_cursor_focus s"
  by (simp_all add: ask_def)

lemma told_post: "told (post es s) i = fold (pass i) (map seen es) (told s i)"
  by (simp add: told_def life_append)

lemma told_cong: "ws_events s' = ws_events s \<Longrightarrow> told s' i = told s i"
  by (simp add: told_def)

lemma host_ok_cong:
  "ws_toplevels s' = ws_toplevels s \<Longrightarrow> ws_popups s' = ws_popups s \<Longrightarrow> ws_next_id s' = ws_next_id s \<Longrightarrow>
    ws_events s' = ws_events s \<Longrightarrow> host_ok s' = host_ok s"
  by (simp add: host_ok_def told_def)

lemma host_ok_ask [simp]: "host_ok (ask cs s) = host_ok s"
  by (rule host_ok_cong) simp_all

text \<open>Events about no surface change nothing.\<close>

lemma host_ok_silent: "list_all (\<lambda>e. about (seen e) = None) es \<Longrightarrow> host_ok (post es s) = host_ok s"
proof -
  assume a: "list_all (\<lambda>e. about (seen e) = None) es"
  then have "fold (pass i) (map seen es) ph = ph" for i ph
    by (induction es arbitrary: ph) (simp_all add: pass_other)
  then show ?thesis by (simp add: host_ok_def told_post)
qed

text \<open>One step changes the entry of one surface and posts events about that surface only.\<close>

lemma passes_own:
  "list_all (\<lambda>e. \<exists>m. about (seen e) = Some (i, m)) es \<Longrightarrow> j \<noteq> i \<Longrightarrow> fold (pass j) (map seen es) ph = ph"
  by (induction es arbitrary: ph) (auto simp: pass_about)

lemma host_ok_toplevel:
  assumes ok: "host_ok s" and own: "list_all (\<lambda>e. \<exists>m. about (seen e) = Some (i, m)) es"
    and i: "i < ws_next_id s" "hget (ws_popups s) i = None"
    and ph: "fold (pass i) (map seen es) (told s i) = Some (toplevel_phase tt)"
  shows "host_ok (post es (s\<lparr>ws_toplevels := hput i tt (ws_toplevels s)\<rparr>))" (is "host_ok ?s")
proof -
  have t: "told ?s j = (if j = i then Some (toplevel_phase tt) else told s j)" for j
    using passes_own [OF own] ph by (auto simp: told_post told_cong [of "s\<lparr>ws_toplevels := _\<rparr>" s])
  show ?thesis
    by (rule host_okI) (use i host_okD [OF ok] host_ok_disjoint [OF ok] t in \<open>auto simp: hget_hput split: if_splits\<close>)
qed

lemma host_ok_popup:
  assumes ok: "host_ok s" and own: "list_all (\<lambda>e. \<exists>m. about (seen e) = Some (i, m)) es"
    and i: "i < ws_next_id s" "hget (ws_toplevels s) i = None"
    and ph: "fold (pass i) (map seen es) (told s i) = Some (popup_phase pp)"
  shows "host_ok (post es (s\<lparr>ws_popups := hput i pp (ws_popups s)\<rparr>))" (is "host_ok ?s")
proof -
  have t: "told ?s j = (if j = i then Some (popup_phase pp) else told s j)" for j
    using passes_own [OF own] ph by (auto simp: told_post told_cong [of "s\<lparr>ws_popups := _\<rparr>" s])
  show ?thesis
    by (rule host_okI) (use i host_okD [OF ok] host_ok_disjoint [OF ok] t in \<open>auto simp: hget_hput split: if_splits\<close>)
qed

lemma told_drop_toplevel: "told (s\<lparr>ws_toplevels := m\<rparr>) i = told s i" and told_drop_popup: "told (s\<lparr>ws_popups := n\<rparr>) i = told s i"
  by (simp_all add: told_def)

lemma host_ok_drop_toplevel:
  assumes ok: "host_ok s"
  shows "host_ok (drop_toplevel i s)"
proof (cases "hget (ws_toplevels s) i")
  case (Some tt)
  have n: "\<not> ws_next_id s \<le> i" using host_okD(2) [OF ok Some] by simp
  have t: "told (post [close_event i tt] (s\<lparr>ws_toplevels := hdel i (ws_toplevels s)\<rparr>)) j =
      (if j = i then Some Gone else told s j)" for j
    using host_okD(4) [OF ok Some]
    by (auto simp: told_post told_drop_toplevel close_event_def toplevel_phase_def pass_about)
  show ?thesis unfolding drop_toplevel_def Some option.case
    by (rule host_okI) (use host_okD [OF ok] n Some t in \<open>auto simp: hget_hdel split: if_splits\<close>)
qed (simp add: drop_toplevel_def ok)

lemma host_ok_drop_popup:
  assumes ok: "host_ok s" and pp: "hget (ws_popups s) i = Some pp"
  shows "host_ok (drop_popup i s)"
proof -
  have n: "\<not> ws_next_id s \<le> i" using host_okD(3) [OF ok pp] by simp
  have t: "told (drop_popup i s) j = (if j = i then Some Gone else told s j)" for j
    using host_okD(5) [OF ok pp]
    by (auto simp: drop_popup_def told_post told_drop_popup popup_phase_def pass_about)
  show ?thesis
    by (rule host_okI) (use host_okD [OF ok] n host_ok_disjoint [OF ok pp] pp t in \<open>auto simp: drop_popup_def hget_hdel split: if_splits\<close>)
qed

section \<open>Every request keeps it\<close>

lemma find_map_SomeD: "find_map f xs = Some y \<Longrightarrow> \<exists>x \<in> set xs. f x = Some y"
  by (induction xs) (auto split: option.splits)

lemma toplevel_of_tracked: "toplevel_of s wl = Some i \<Longrightarrow> \<exists>tt. hget (ws_toplevels s) i = Some tt \<and> tt_surface tt = wl"
  unfolding toplevel_of_def by (drule find_map_SomeD) (auto split: if_splits)

lemma popup_of_tracked: "popup_of s wl = Some i \<Longrightarrow> \<exists>pp. hget (ws_popups s) i = Some pp \<and> pp_surface pp = wl"
  unfolding popup_of_def by (drule find_map_SomeD) (auto split: if_splits)

lemma about_close [simp]: "\<exists>m. about (seen (close_event i tt)) = Some (i, m)"
  by (simp add: close_event_def)

lemma frames_own: "snd (read_committed_frame i v) = f \<Longrightarrow> list_all (\<lambda>e. about (seen e) = Some (i, Draws)) (frame_events i f)"
  by (auto simp: read_committed_frame_def frame_events_def dmabuf_to_frame_def Let_def split: option.splits assignment.splits
      buffer_content.splits if_splits list.splits)

lemma frames_kept:
  "snd (read_committed_frame i v) = f \<Longrightarrow> fold (pass i) (map seen (frame_events i f)) (Some (Shown k)) = Some (Shown k)"
  using frames_own [of i v f] by (auto simp: frame_events_def pass_about split: option.splits committed_frame.splits)

lemma own_weaken: "list_all (\<lambda>e. about (seen e) = Some (i, m)) es \<Longrightarrow> list_all (\<lambda>e. \<exists>m. about (seen e) = Some (i, m)) es"
  by (induction es) auto

definition small :: "wl_state \<Rightarrow> bool" where
  "small s \<longleftrightarrow> ws_next_id s + 1 < 2 ^ 64"

lemma host_ok_bump:
  assumes ok: "host_ok s" and n: "small s"
  shows "host_ok (s\<lparr>ws_next_id := (ws_next_id s + 1) mod 2 ^ 64\<rparr>)" (is "host_ok ?s")
proof -
  have e: "ws_next_id ?s = ws_next_id s + 1" using n by (simp add: small_def)
  have t: "told ?s j = told s j" for j by (rule told_cong) simp
  show ?thesis
    by (rule host_okI) (use host_okD [OF ok] e t less_SucI in \<open>auto simp: less_Suc_eq\<close>)
qed

lemma fresh_untracked:
  assumes "host_ok s"
  shows "hget (ws_toplevels s) (ws_next_id s) = None" "hget (ws_popups s) (ws_next_id s) = None"
proof -
  show "hget (ws_toplevels s) (ws_next_id s) = None"
    using host_okD(2) [OF assms, of "ws_next_id s"] by (cases "hget (ws_toplevels s) (ws_next_id s)") auto
  show "hget (ws_popups s) (ws_next_id s) = None"
    using host_okD(3) [OF assms, of "ws_next_id s"] by (cases "hget (ws_popups s) (ws_next_id s)") auto
qed

lemma host_ok_new_toplevel:
  assumes ok: "host_ok s" and n: "small s"
  shows "host_ok (new_toplevel wl s)"
proof -
  let ?b = "s\<lparr>ws_next_id := (ws_next_id s + 1) mod 2 ^ 64\<rparr>" and ?i = "ws_next_id s"
  let ?tt = "\<lparr>tt_surface = wl, tt_announced = False, tt_last_title = None, tt_last_app_id = None, tt_child_of = None\<rparr>"
  have b: "host_ok ?b" by (rule host_ok_bump [OF ok n])
  have "told ?b ?i = Some Unseen" using host_okD(7) [OF ok] by (simp add: told_def)
  then have "host_ok (post [] (?b\<lparr>ws_toplevels := hput ?i ?tt (ws_toplevels ?b)\<rparr>))"
    using b n fresh_untracked [OF ok] by (intro host_ok_toplevel) (simp_all add: toplevel_phase_def small_def)
  then show ?thesis
    by (rule host_ok_cong [THEN iffD1, rotated -1]) (simp_all add: new_toplevel_def allocate_surface_id_def Let_def)
qed

lemma host_ok_new_popup:
  assumes ok: "host_ok s" and n: "small s"
  shows "host_ok (new_popup wl parent geo configured s)"
proof -
  let ?b = "s\<lparr>ws_next_id := (ws_next_id s + 1) mod 2 ^ 64\<rparr>" and ?i = "ws_next_id s"
  have b: "host_ok ?b" by (rule host_ok_bump [OF ok n])
  have t: "told ?b ?i = Some Unseen" using host_okD(7) [OF ok] by (simp add: told_def)
  have "host_ok (?b\<lparr>ws_popups := hput ?i pp (ws_popups ?b)\<rparr>)" if "\<not> pp_announced pp" for pp
    using host_ok_popup [OF b, of ?i "[]" pp] t n that fresh_untracked [OF ok]
    by (simp add: popup_phase_def small_def post_def)
  then have p: "host_ok ((ask cs ?b)\<lparr>ws_popups := hput ?i pp (ws_popups (ask cs ?b))\<rparr>)" if "\<not> pp_announced pp" for pp cs
    by (rule host_ok_cong [THEN iffD1, rotated -1]) (use that in simp_all)
  show ?thesis
    unfolding new_popup_def allocate_surface_id_def
    using b p by (simp add: Let_def split: option.split)
qed

lemma moved_phase [simp]: "popup_phase (pp\<lparr>pp_geometry := g\<rparr>) = popup_phase pp"
  by (simp add: popup_phase_def)

lemma host_ok_reposition:
  assumes ok: "host_ok s"
  shows "host_ok (reposition_request wl geo token s)"
proof (cases "surface_id_for_wl s wl")
  case (Some i)
  obtain x y w h where g: "popup_geometry geo = (x, y, w, h)" by (rule prod_cases4)
  let ?s = "s\<lparr>ws_popups := hmodify i (\<lambda>pp. pp\<lparr>pp_geometry := popup_geometry geo\<rparr>) (ws_popups s)\<rparr>"
  have m: "host_ok ?s"
    using host_okD [OF ok] host_ok_disjoint [OF ok]
    by (intro host_okI) (auto simp: hget_hmodify told_drop_popup split: if_splits)
  have tr: "(\<exists>tt. hget (ws_toplevels s) i = Some tt) \<or> (\<exists>pp. hget (ws_popups s) i = Some pp)"
    using Some by (auto simp: surface_id_for_wl_def split: option.splits dest!: toplevel_of_tracked popup_of_tracked)
  then have p: "told s i = Some Unseen \<or> (\<exists>k. told s i = Some (Shown k))"
    using host_okD(4,5) [OF ok] by (auto simp: toplevel_phase_def popup_phase_def)
  have t: "told (post [W_Moved i x y w h token] ?s) j = told ?s j" for j
    using p by (auto simp: told_post told_drop_popup pass_about)
  have "host_ok (post [W_Moved i x y w h token] ?s)"
    using m by (simp add: host_ok_def t)
  then show ?thesis
    by (rule host_ok_cong [THEN iffD1, rotated -1])
      (simp_all add: reposition_request_def Some g Let_def)
qed (simp add: reposition_request_def ok)

lemma host_ok_popup_destroyed: "host_ok s \<Longrightarrow> host_ok (popup_destroyed wl s)"
  using popup_of_tracked host_ok_drop_popup by (fastforce simp: popup_destroyed_def split: option.split)

lemma host_ok_toplevel_destroyed: "host_ok s \<Longrightarrow> host_ok (toplevel_destroyed wl s)"
  by (simp add: toplevel_destroyed_def host_ok_drop_toplevel split: option.split)

lemma host_ok_fields [simp]:
  "host_ok (s\<lparr>ws_cursor_focus := a\<rparr>) = host_ok s" "host_ok (s\<lparr>ws_cursor_surface := b\<rparr>) = host_ok s"
  "host_ok (s\<lparr>ws_pointer_focus := c\<rparr>) = host_ok s"
  by (rule host_ok_cong; simp)+

lemma host_ok_cursor_image: "host_ok s \<Longrightarrow> host_ok (cursor_image img s)"
  by (cases img) (simp_all add: cursor_image_def Let_def host_ok_silent)

lemma host_ok_commit_cursor: "host_ok s \<Longrightarrow> host_ok (commit_cursor v s)"
  by (simp add: commit_cursor_def host_ok_silent split: prod.split option.split)

lemma host_ok_commit_popup:
  assumes ok: "host_ok s" and pp: "hget (ws_popups s) i = Some pp"
  shows "host_ok (commit_popup i pp v s)"
proof -
  obtain calls f where r: "read_committed_frame i v = (calls, f)" by (rule prod.exhaust)
  obtain x y w h where g: "pp_geometry pp = (x, y, w, h)" by (rule prod_cases4)
  let ?es = "(if pp_announced pp then [] else [W_Plain (HE_PopupCreated i (pp_parent pp) x y w h)]) @ frame_events i f"
  let ?pp = "pp\<lparr>pp_announced := True\<rparr>"
  have f: "snd (read_committed_frame i v) = f" using r by simp
  have "fold (pass i) (map seen ?es) (told s i) = Some (popup_phase ?pp)"
    using host_okD(5) [OF ok pp] frames_kept [OF f] by (simp add: popup_phase_def pass_about)
  moreover have "list_all (\<lambda>e. \<exists>m. about (seen e) = Some (i, m)) ?es"
    using own_weaken [OF frames_own [OF f]] by simp
  ultimately have m: "host_ok (post ?es (s\<lparr>ws_popups := hput i ?pp (ws_popups s)\<rparr>))"
    using host_okD(3) [OF ok pp] host_ok_disjoint [OF ok pp] by (intro host_ok_popup [OF ok]) simp_all
  show ?thesis
  proof (cases "pp_announced pp")
    case True
    then have "told (commit_popup i pp v s) j = told (post ?es (s\<lparr>ws_popups := hput i ?pp (ws_popups s)\<rparr>)) j" for j
      by (simp add: commit_popup_def r told_def)
    moreover have "hget (hput i ?pp (ws_popups s)) j = hget (ws_popups s) j" for j
      using True pp by (cases pp) (auto simp: hget_hput)
    ultimately show ?thesis using m True by (simp add: host_ok_def commit_popup_def r)
  next
    case False
    then show ?thesis using m
      by (intro host_ok_cong [THEN iffD1, OF _ _ _ _ m]) (simp_all add: commit_popup_def r g)
  qed
qed

text \<open>The events by which a toplevel is announced, renamed or left alone lead from its phase to its new one.\<close>

lemma announce_phases:
  assumes "announce_toplevel i f title app_id tt = (tt1, news)"
  shows "fold (pass i) (map seen news) (Some (toplevel_phase tt)) = Some (toplevel_phase tt1)"
    and "list_all (\<lambda>e. \<exists>m. about (seen e) = Some (i, m)) news"
    and "\<not> tt_announced tt1 \<Longrightarrow> fst (frame_size f) = 0 \<or> snd (frame_size f) = 0"
  using assms
  by (auto simp: announce_toplevel_def toplevel_phase_def announced_as_def pass_about Let_def
      split: if_splits option.splits prod.splits)

lemma layout_positive: "shm_layout len bd = Some l \<Longrightarrow> 0 < bd_width bd \<and> 0 < bd_height bd"
  by (simp add: shm_layout_def split: if_splits)

text \<open>A frame has an extent.\<close>

lemma frame_positive:
  assumes "snd (read_committed_frame i v) = Some c"
  shows "0 < fst (frame_size (Some c)) \<and> 0 < snd (frame_size (Some c))"
proof -
  obtain b content where b: "sv_buffer v = Some (NewBuffer b content)"
    using assms by (auto simp: read_committed_frame_def Let_def split: option.splits assignment.splits)
  show ?thesis
  proof (cases content)
    case (Gpu d)
    then show ?thesis using assms b
      by (auto simp: read_committed_frame_def Let_def frame_size_def dmabuf_to_frame_def split: if_splits list.splits option.splits)
  next
    case (Shm mem len bd)
    then obtain f where "copy_shm_to_rgb mem len bd = Some f" "c = C_Shm f"
      using assms b by (auto simp: read_committed_frame_def Let_def)
    then show ?thesis using layout_positive by (auto simp: copy_shm_to_rgb_def frame_size_def)
  qed (use assms b in \<open>simp_all add: read_committed_frame_def Let_def\<close>)
qed

lemma resolve_phase [simp]: "toplevel_phase (resolve_parent v tt s) = toplevel_phase tt"
  by (auto simp: resolve_parent_def toplevel_phase_def split: option.split)

lemma host_ok_commit_toplevel:
  assumes ok: "host_ok s" and tt: "hget (ws_toplevels s) i = Some tt"
  shows "host_ok (commit_toplevel i tt v s)"
proof -
  obtain calls f where r: "read_committed_frame i v = (calls, f)" by (rule prod.exhaust)
  obtain title app_id where n: "read_toplevel_identity v = (title, app_id)" by (rule prod.exhaust)
  obtain tt1 news where a: "announce_toplevel i f title app_id (resolve_parent v tt s) = (tt1, news)" by (rule prod.exhaust)
  have f: "snd (read_committed_frame i v) = f" using r by simp
  have "frame_events i f = []" if "\<not> tt_announced tt1"
    using announce_phases(3) [OF a that] frame_positive [of i v] f by (cases f) (auto simp: frame_events_def)
  then have fr: "fold (pass i) (map seen (frame_events i f)) (Some (toplevel_phase tt1)) = Some (toplevel_phase tt1)"
    using frames_kept [OF f] by (cases "tt_announced tt1") (simp_all add: toplevel_phase_def)
  have "fold (pass i) (map seen (news @ frame_events i f)) (told s i) = Some (toplevel_phase tt1)"
    using announce_phases(1) [OF a] host_okD(4) [OF ok tt] fr by simp
  moreover have "list_all (\<lambda>e. \<exists>m. about (seen e) = Some (i, m)) (news @ frame_events i f)"
    using announce_phases(2) [OF a] own_weaken [OF frames_own [OF f]] by simp
  ultimately have m: "host_ok (post (news @ frame_events i f) (s\<lparr>ws_toplevels := hput i tt1 (ws_toplevels s)\<rparr>))"
    using host_okD(1,2) [OF ok tt] by (intro host_ok_toplevel [OF ok]) simp_all
  show ?thesis
    by (rule host_ok_cong [THEN iffD1, OF _ _ _ _ m]) (simp_all add: commit_toplevel_def r n a Let_def)
qed

lemma host_ok_commit: "host_ok s \<Longrightarrow> host_ok (commit wl v s)"
  by (simp add: commit_def host_ok_commit_cursor host_ok_commit_popup host_ok_commit_toplevel split: option.split)

section \<open>Every turn keeps it\<close>

lemma serve_ok:
  assumes ok: "host_ok s" and n: "small s"
  shows "host_ok (serve r s) \<and> ws_next_id (serve r s) \<le> ws_next_id s + 1"
proof
  show "host_ok (serve r s)"
    using assms by (cases r) (simp_all add: host_ok_new_toplevel host_ok_new_popup host_ok_commit host_ok_reposition
      host_ok_popup_destroyed host_ok_toplevel_destroyed host_ok_cursor_image focus_changed_def)
  have c: "ws_next_id (commit wl v s) = ws_next_id s" for wl v
    by (auto simp: commit_def commit_cursor_def commit_popup_def commit_toplevel_def Let_def split: option.split prod.split)
  show "ws_next_id (serve r s) \<le> ws_next_id s + 1"
    using n c by (cases r) (auto simp: small_def new_toplevel_def new_popup_def allocate_surface_id_def reposition_request_def
      popup_destroyed_def toplevel_destroyed_def drop_popup_def drop_toplevel_def cursor_image_def focus_changed_def Let_def
      split: option.split prod.split cursor_image_status.split)
qed

lemma serve_all_ok:
  "host_ok s \<Longrightarrow> ws_next_id s + length rs < 2 ^ 64 \<Longrightarrow>
    host_ok (fold serve rs s) \<and> ws_next_id (fold serve rs s) \<le> ws_next_id s + length rs"
proof (induction rs arbitrary: s)
  case (Cons r rs)
  have 1: "host_ok (serve r s)" "ws_next_id (serve r s) \<le> ws_next_id s + 1"
    using serve_ok [of s r] Cons.prems by (auto simp: small_def)
  then show ?case using Cons.IH [of "serve r s"] Cons.prems by auto
qed simp

lemma drop_toplevel_simps [simp]:
  "ws_popups (drop_toplevel i s) = ws_popups s" "ws_next_id (drop_toplevel i s) = ws_next_id s"
  "hget (ws_toplevels (drop_toplevel i s)) j = (if j = i then None else hget (ws_toplevels s) j)"
  by (auto simp: drop_toplevel_def hget_hdel split: option.split)

lemma drop_popup_simps [simp]:
  "ws_toplevels (drop_popup i s) = ws_toplevels s" "ws_next_id (drop_popup i s) = ws_next_id s"
  "hget (ws_popups (drop_popup i s)) j = (if j = i then None else hget (ws_popups s) j)"
  by (auto simp: drop_popup_def hget_hdel)

lemma drop_toplevels:
  "host_ok s \<Longrightarrow> host_ok (fold drop_toplevel is s) \<and> ws_next_id (fold drop_toplevel is s) = ws_next_id s \<and>
    ws_popups (fold drop_toplevel is s) = ws_popups s \<and>
    (\<forall>j. hget (ws_toplevels (fold drop_toplevel is s)) j = (if j \<in> set is then None else hget (ws_toplevels s) j))"
  by (induction "is" arbitrary: s) (auto simp: host_ok_drop_toplevel)

lemma drop_popups:
  "host_ok s \<Longrightarrow> distinct is \<Longrightarrow> list_all (\<lambda>i. hget (ws_popups s) i \<noteq> None) is \<Longrightarrow>
    host_ok (fold drop_popup is s) \<and> ws_next_id (fold drop_popup is s) = ws_next_id s \<and>
    ws_toplevels (fold drop_popup is s) = ws_toplevels s \<and>
    (\<forall>j. hget (ws_popups (fold drop_popup is s)) j = (if j \<in> set is then None else hget (ws_popups s) j))"
proof (induction "is" arbitrary: s)
  case (Cons i "is")
  have "host_ok (drop_popup i s)" using Cons.prems host_ok_drop_popup by auto
  moreover have "list_all (\<lambda>j. hget (ws_popups (drop_popup i s)) j \<noteq> None) is"
    using Cons.prems by (auto simp: list_all_iff)
  ultimately show ?case using Cons.IH [of "drop_popup i s"] Cons.prems(2) by auto
qed simp

lemma reap_facts:
  assumes ok: "host_ok s"
  shows "host_ok (reap alive s)" "ws_next_id (reap alive s) = ws_next_id s"
    and "hget (ws_toplevels (reap alive s)) i =
      (case hget (ws_toplevels s) i of Some tt \<Rightarrow> if alive (tt_surface tt) then Some tt else None | None \<Rightarrow> None)"
    and "hget (ws_popups (reap alive s)) i =
      (case hget (ws_popups s) i of Some pp \<Rightarrow> if alive (pp_surface pp) then Some pp else None | None \<Rightarrow> None)"
proof -
  let ?ts = "map fst (filter (\<lambda>(i, tt). \<not> alive (tt_surface tt)) (hitems (ws_toplevels s)))"
  let ?s1 = "reap_dead_toplevels alive s"
  let ?ps = "map fst (filter (\<lambda>(i, pp). \<not> alive (pp_surface pp)) (hitems (ws_popups s)))"
  have 1: "host_ok ?s1" "ws_next_id ?s1 = ws_next_id s" "ws_popups ?s1 = ws_popups s"
    "hget (ws_toplevels ?s1) j = (if j \<in> set ?ts then None else hget (ws_toplevels s) j)" for j
    using drop_toplevels [OF ok, of ?ts] by (simp_all add: reap_dead_toplevels_def)
  have "distinct ?ps"
    using distinct_hkeys [of "ws_popups s"] by (simp add: distinct_map_filter flip: map_fst_hitems)
  moreover have "list_all (\<lambda>i. hget (ws_popups ?s1) i \<noteq> None) ?ps"
    by (auto simp: list_all_iff 1(3))
  ultimately have 2: "host_ok (reap alive s)" "ws_next_id (reap alive s) = ws_next_id s"
    "ws_toplevels (reap alive s) = ws_toplevels ?s1"
    "hget (ws_popups (reap alive s)) j = (if j \<in> set ?ps then None else hget (ws_popups s) j)" for j
    using drop_popups [OF 1(1), of ?ps] by (simp_all add: reap_def reap_dead_popups_def 1)
  show "host_ok (reap alive s)" "ws_next_id (reap alive s) = ws_next_id s" by (fact 2)+
  have "j \<in> set ?ts \<longleftrightarrow> (\<exists>tt. hget (ws_toplevels s) j = Some tt \<and> \<not> alive (tt_surface tt))" for j
    by (force simp: image_iff)
  then show "hget (ws_toplevels (reap alive s)) i =
      (case hget (ws_toplevels s) i of Some tt \<Rightarrow> if alive (tt_surface tt) then Some tt else None | None \<Rightarrow> None)"
    using 1(4) [of i] 2(3) by (cases "hget (ws_toplevels s) i") auto
  have "j \<in> set ?ps \<longleftrightarrow> (\<exists>pp. hget (ws_popups s) j = Some pp \<and> \<not> alive (pp_surface pp))" for j
    by (force simp: image_iff)
  then show "hget (ws_popups (reap alive s)) i =
      (case hget (ws_popups s) i of Some pp \<Rightarrow> if alive (pp_surface pp) then Some pp else None | None \<Rightarrow> None)"
    using 2(4) [of i] by (cases "hget (ws_popups s) i") auto
qed

definition command_requests :: "(host_command \<times> request list) list \<Rightarrow> nat" where
  "command_requests cs = sum_list (map (\<lambda>(c, rs). length rs) cs)"

definition turn_requests :: "turn \<Rightarrow> nat" where
  "turn_requests t = (case tu_requests t of None \<Rightarrow> 0 | Some rs \<Rightarrow> length rs) + command_requests (tu_commands t)"

lemma drain_ok:
  "host_ok s \<Longrightarrow> ws_next_id s + command_requests cs < 2 ^ 64 \<Longrightarrow> drain_commands cs s = (s', b) \<Longrightarrow>
    host_ok s' \<and> ws_next_id s' \<le> ws_next_id s + command_requests cs"
proof (induction cs arbitrary: s)
  case (Cons x cs)
  obtain c rs where x: "x = (c, rs)" by (rule prod.exhaust)
  let ?s = "fold serve rs (ask (command_calls s c) s)"
  have l: "command_requests (x # cs) = length rs + command_requests cs" by (simp add: command_requests_def x)
  have "host_ok ?s" "ws_next_id ?s \<le> ws_next_id s + length rs"
    using serve_all_ok [of "ask (command_calls s c) s" rs] Cons.prems(1,2) l by auto
  then show ?case using Cons.IH [of ?s] Cons.prems l by (auto simp: x split: if_splits)
qed (simp add: command_requests_def)

lemma loop_ok:
  "host_ok s \<Longrightarrow> ws_next_id s + sum_list (map turn_requests ts) < 2 ^ 64 \<Longrightarrow> host_loop ts s = (s', ended) \<Longrightarrow> host_ok s'"
proof (induction ts arbitrary: s)
  case (Cons t ts)
  show ?case
  proof (cases "tu_stop t \<or> tu_requests t = None")
    case True
    then show ?thesis using Cons.prems by (auto split: if_splits)
  next
    case False
    then obtain rs where rs: "tu_requests t = Some rs" by auto
    let ?s1 = "fold serve rs s" and ?s2 = "reap (tu_alive t) (fold serve rs s)"
    have 1: "host_ok ?s1" "ws_next_id ?s1 \<le> ws_next_id s + length rs"
      using serve_all_ok [OF Cons.prems(1), of rs] Cons.prems(2) rs by (auto simp: turn_requests_def)
    have 2: "host_ok ?s2" "ws_next_id ?s2 \<le> ws_next_id s + length rs"
      using reap_facts(1,2) [OF 1(1)] 1(2) by auto
    obtain s3 stop where d: "drain_commands (tu_commands t) ?s2 = (s3, stop)" by (rule prod.exhaust)
    have 3: "host_ok s3" "ws_next_id s3 \<le> ws_next_id s + turn_requests t"
      using drain_ok [OF 2(1) _ d] 2(2) Cons.prems(2) rs by (auto simp: turn_requests_def)
    show ?thesis
      using Cons.prems(3) False rs d 2 3 Cons.IH [of s3] Cons.prems(2) by (auto simp: Let_def split: if_splits)
  qed
qed simp

lemma new_state_ok: "host_ok new_state"
  by (simp add: new_state_def host_ok_def told_def)

lemma thread_ok:
  assumes "sum_list (map turn_requests ts) + 1 < 2 ^ 64" "host_thread set_up pid seq ts = (s, ended)"
  shows "host_ok s"
proof -
  let ?s0 = "post [W_Plain (HE_Ready (socket_name pid seq))] new_state"
  have 0: "host_ok ?s0" "ws_next_id ?s0 = 1" by (simp_all add: host_ok_silent new_state_ok) (simp add: new_state_def)
  obtain s1 e where 1: "host_loop ts ?s0 = (s1, e)" by (rule prod.exhaust)
  have "host_ok s1" by (rule loop_ok [OF 0(1) _ 1]) (use assms(1) 0(2) in simp)
  then show ?thesis
    using assms(2) 1 by (auto simp: host_thread_def host_ok_silent new_state_ok split: if_splits)
qed

text \<open>What the cockpit may show: the surfaces announced and not yet closed.\<close>

definition shown_as :: "wl_state \<Rightarrow> nat \<Rightarrow> kind option" where
  "shown_as s i =
    (case hget (ws_toplevels s) i of
       Some tt \<Rightarrow> if tt_announced tt then Some (if tt_child_of tt = None then K_Toplevel else K_Child) else None
     | None \<Rightarrow> (case hget (ws_popups s) i of
         Some pp \<Rightarrow> if pp_announced pp then Some K_Popup else None | None \<Rightarrow> None))"

lemma told_shown: "host_ok s \<Longrightarrow> told s i = Some (Shown k) \<longleftrightarrow> shown_as s i = Some k"
  using host_okD(4,5,6) [of s i]
  by (cases "hget (ws_toplevels s) i"; cases "hget (ws_popups s) i")
    (auto simp: shown_as_def toplevel_phase_def popup_phase_def)

lemma told_some: "host_ok s \<Longrightarrow> \<exists>p. told s i = Some p"
  using host_okD(4,5,6) [of s i] by (cases "hget (ws_toplevels s) i"; cases "hget (ws_popups s) i") auto

text \<open>C13: The events of a surface follow a protocol: in any run of the nested compositor, with whatever its clients
  request, whichever of them die and whatever the cockpit commands, each surface is announced at most once,
  as a toplevel, a child or a popup; frames and new names come only between its announcement and its
  closing; it is closed at most once, as what it was announced as; after that nothing is heard of it; and
  the surfaces announced and not closed are those of the compositor's tables. Assumed is that fewer than
  \<open>2 ^ 64\<close> requests are made, so that ids do not repeat.\<close>

theorem surfaces_follow_the_protocol:
  assumes "sum_list (map turn_requests ts) + 1 < 2 ^ 64" and "host_thread set_up pid seq ts = (s, ended)"
  shows "\<exists>p. life i (map seen (ws_events s)) = Some p \<and> (p = Shown k \<longleftrightarrow> shown_as s i = Some k)"
  using told_shown [OF thread_ok [OF assms]] told_some [OF thread_ok [OF assms], of i] by (auto simp: told_def)

text \<open>A client makes a toplevel, names it, shows a frame and dies.\<close>

definition one_pixel :: surface_view where
  "one_pixel = \<lparr>sv_callbacks = [5], sv_buffer = Some (NewBuffer 9 (Shm (\<lambda>_. 7) 4
     \<lparr>bd_offset = 0, bd_width = 1, bd_height = 1, bd_stride = 4, bd_format = Argb8888\<rparr>)),
     sv_role = Some (Some ''t'', Some []), sv_parent = None, sv_hotspot = (0, 0)\<rparr>"

definition short_run :: "turn list" where
  "short_run = [\<lparr>tu_stop = False, tu_requests = Some [R_NewToplevel 3, R_Commit 3 one_pixel], tu_alive = (\<lambda>_. False),
     tu_poll = True, tu_commands = []\<rparr>]"

lemma short_run_result:
  "map seen (ws_events (fst (host_thread True 4 0 short_run))) =
    [HE_Ready (socket_name 4 0), HE_ToplevelCreated 1 (Some ''t'') None, HE_FrameReady 1, HE_ToplevelClosed 1]"
  by (simp add: short_run_def one_pixel_def host_thread_def new_state_def post_def new_toplevel_def allocate_surface_id_def
      ask_def commit_def popup_of_def toplevel_of_def hitems_def hkeys_def hput_def hget_def commit_toplevel_def Let_def
      read_toplevel_identity_def non_empty_def resolve_parent_def read_committed_frame_def copy_shm_to_rgb_def
      shm_layout_def checked_def announce_toplevel_def announced_as_def frame_events_def reap_def reap_dead_toplevels_def
      reap_dead_popups_def drop_toplevel_def close_event_def hdel_def)

theorem surfaces_follow_the_protocol_witness:
  "life 1 [HE_Ready (socket_name 4 0), HE_ToplevelCreated 1 (Some ''t'') None, HE_FrameReady 1, HE_ToplevelClosed 1] = Some Gone \<and>
    shown_as (fst (host_thread True 4 0 short_run)) 1 = None"
proof -
  obtain s e where r: "host_thread True 4 0 short_run = (s, e)" by (rule prod.exhaust)
  have b: "sum_list (map turn_requests short_run) + 1 < 2 ^ 64"
    by (simp add: short_run_def turn_requests_def command_requests_def)
  have l: "life 1 [HE_Ready (socket_name 4 0), HE_ToplevelCreated 1 (Some ''t'') None, HE_FrameReady 1, HE_ToplevelClosed 1] =
      Some Gone"
    by (simp add: life_def pass_def)
  have "shown_as s 1 \<noteq> Some k" for k
    using surfaces_follow_the_protocol [OF b r, of 1 k] short_run_result l r by auto
  then show ?thesis using r l by (cases "shown_as s 1") auto
qed

section \<open>Clients that die\<close>

lemma told_drop_toplevels:
  "host_ok s \<Longrightarrow> told (fold drop_toplevel is s) j =
    (if j \<in> set is \<and> hget (ws_toplevels s) j \<noteq> None then Some Gone else told s j)"
proof (induction "is" arbitrary: s)
  case (Cons i "is")
  have "told (drop_toplevel i s) j = (if j = i \<and> hget (ws_toplevels s) j \<noteq> None then Some Gone else told s j)"
    using host_okD(4) [OF Cons.prems, of i]
    by (cases "hget (ws_toplevels s) i")
      (auto simp: drop_toplevel_def told_post told_drop_toplevel close_event_def toplevel_phase_def pass_about)
  then show ?case using Cons.IH [OF host_ok_drop_toplevel [OF Cons.prems, of i]] by auto
qed simp

lemma told_drop_popups:
  "host_ok s \<Longrightarrow> distinct is \<Longrightarrow> list_all (\<lambda>i. hget (ws_popups s) i \<noteq> None) is \<Longrightarrow>
    told (fold drop_popup is s) j = (if j \<in> set is then Some Gone else told s j)"
proof (induction "is" arbitrary: s)
  case (Cons i "is")
  obtain pp where pp: "hget (ws_popups s) i = Some pp" using Cons.prems by auto
  have 1: "host_ok (drop_popup i s)" using Cons.prems(1) pp by (rule host_ok_drop_popup)
  have "list_all (\<lambda>j. hget (ws_popups (drop_popup i s)) j \<noteq> None) is"
    using Cons.prems by (auto simp: list_all_iff)
  moreover have "told (drop_popup i s) j = (if j = i then Some Gone else told s j)"
    using host_okD(5) [OF Cons.prems(1) pp]
    by (auto simp: drop_popup_def told_post told_drop_popup popup_phase_def pass_about)
  ultimately show ?case using Cons.IH [OF 1] Cons.prems(2) by auto
qed simp

definition dead_toplevels :: "(nat \<Rightarrow> bool) \<Rightarrow> wl_state \<Rightarrow> nat list" where
  "dead_toplevels alive s = map fst (filter (\<lambda>(i, tt). \<not> alive (tt_surface tt)) (hitems (ws_toplevels s)))"

lemma in_dead_toplevels:
  "i \<in> set (dead_toplevels alive s) \<longleftrightarrow> (\<exists>tt. hget (ws_toplevels s) i = Some tt \<and> \<not> alive (tt_surface tt))"
  by (force simp: dead_toplevels_def image_iff)

definition dead_popups :: "(nat \<Rightarrow> bool) \<Rightarrow> wl_state \<Rightarrow> nat list" where
  "dead_popups alive s = map fst (filter (\<lambda>(i, pp). \<not> alive (pp_surface pp)) (hitems (ws_popups s)))"

lemma in_dead_popups:
  "i \<in> set (dead_popups alive s) \<longleftrightarrow> (\<exists>pp. hget (ws_popups s) i = Some pp \<and> \<not> alive (pp_surface pp))"
  by (force simp: dead_popups_def image_iff)

lemma distinct_dead_popups: "distinct (dead_popups alive s)"
  using distinct_hkeys [of "ws_popups s"] by (simp add: dead_popups_def distinct_map_filter flip: map_fst_hitems)

lemma told_reap:
  assumes ok: "host_ok s"
  shows "told (reap alive s) i =
    (case surface_for s i of Some wl \<Rightarrow> if alive wl then told s i else Some Gone | None \<Rightarrow> told s i)"
proof -
  let ?s1 = "reap_dead_toplevels alive s"
  have e: "?s1 = fold drop_toplevel (dead_toplevels alive s) s"
    by (simp add: reap_dead_toplevels_def dead_toplevels_def)
  have 1: "host_ok ?s1" "ws_popups ?s1 = ws_popups s"
    using drop_toplevels [OF ok, of "dead_toplevels alive s"] by (simp_all add: e)
  have 2: "told ?s1 i = (if i \<in> set (dead_toplevels alive s) then Some Gone else told s i)"
    using told_drop_toplevels [OF ok, of "dead_toplevels alive s" i] by (auto simp: e in_dead_toplevels)
  have "reap alive s = fold drop_popup (dead_popups alive s) ?s1"
    by (simp add: reap_def reap_dead_popups_def dead_popups_def 1(2))
  moreover have "list_all (\<lambda>i. hget (ws_popups ?s1) i \<noteq> None) (dead_popups alive s)"
    by (auto simp: list_all_iff 1(2) in_dead_popups)
  ultimately have "told (reap alive s) i = (if i \<in> set (dead_popups alive s) then Some Gone else told ?s1 i)"
    using told_drop_popups [OF 1(1) distinct_dead_popups] by simp
  then show ?thesis
    using 2 host_okD(1) [OF ok, of i]
    by (cases "hget (ws_toplevels s) i"; cases "hget (ws_popups s) i")
      (auto simp: surface_for_def in_dead_toplevels in_dead_popups)
qed

text \<open>C14: No window outlives its client: in any run, when the compositor next looks for dead surfaces, every
  tracked surface whose client is gone, even one that crashed without a word, is told closed to the
  cockpit and forgotten, a toplevel and a popup alike, and no other surface is touched.\<close>

theorem gone_clients_are_closed:
  assumes "sum_list (map turn_requests ts) + 1 < 2 ^ 64" and "host_thread set_up pid seq ts = (s, ended)"
  shows "surface_for (reap alive s) i = (case surface_for s i of Some wl \<Rightarrow> if alive wl then Some wl else None | None \<Rightarrow> None) \<and>
    life i (map seen (ws_events (reap alive s))) =
      (case surface_for s i of Some wl \<Rightarrow> if alive wl then life i (map seen (ws_events s)) else Some Gone
       | None \<Rightarrow> life i (map seen (ws_events s)))"
proof -
  have ok: "host_ok s" using assms by (rule thread_ok)
  have "surface_for (reap alive s) i = (case surface_for s i of Some wl \<Rightarrow> if alive wl then Some wl else None | None \<Rightarrow> None)"
    using reap_facts(3,4) [OF ok, of alive i] host_okD(1) [OF ok, of i]
    by (cases "hget (ws_toplevels s) i"; cases "hget (ws_popups s) i") (auto simp: surface_for_def)
  then show ?thesis using told_reap [OF ok, of alive i] unfolding told_def by blast
qed

definition living_run :: "turn list" where
  "living_run = [\<lparr>tu_stop = False, tu_requests = Some [R_NewToplevel 3, R_Commit 3 one_pixel], tu_alive = (\<lambda>_. True),
     tu_poll = True, tu_commands = []\<rparr>]"

theorem gone_clients_are_closed_witness:
  "surface_for (fst (host_thread True 4 0 living_run)) 1 = Some 3 \<and>
    surface_for (reap (\<lambda>_. False) (fst (host_thread True 4 0 living_run))) 1 = None"
proof -
  obtain s e where r: "host_thread True 4 0 living_run = (s, e)" by (rule prod.exhaust)
  have b: "sum_list (map turn_requests living_run) + 1 < 2 ^ 64"
    by (simp add: living_run_def turn_requests_def command_requests_def)
  have "surface_for (fst (host_thread True 4 0 living_run)) 1 = Some 3"
    by (simp add: living_run_def one_pixel_def host_thread_def new_state_def post_def new_toplevel_def allocate_surface_id_def
      ask_def commit_def popup_of_def toplevel_of_def hitems_def hkeys_def hput_def hget_def commit_toplevel_def Let_def
      read_toplevel_identity_def non_empty_def resolve_parent_def read_committed_frame_def copy_shm_to_rgb_def
      shm_layout_def checked_def announce_toplevel_def announced_as_def frame_events_def reap_def reap_dead_toplevels_def
      reap_dead_popups_def drop_toplevel_def close_event_def hdel_def surface_for_def)
  then show ?thesis using gone_clients_are_closed [OF b r, of "\<lambda>_. False" 1] r by simp
qed

section \<open>Buffers\<close>

text \<open>The tracked surface behind a commit, or the cursor's.\<close>

definition watched :: "wl_state \<Rightarrow> nat \<Rightarrow> bool" where
  "watched s wl \<longleftrightarrow> ws_cursor_surface s = Some wl \<or> surface_id_for_wl s wl \<noteq> None"

definition commit_returns :: "surface_view \<Rightarrow> host_call list" where
  "commit_returns v = map H_FrameDone (sv_callbacks v) @ (case sv_buffer v of Some (NewBuffer b c) \<Rightarrow> [H_Release b] | _ \<Rightarrow> [])"

lemma read_calls:
  "fst (read_committed_frame i v) = commit_returns v" "fst (read_committed_cursor v) = commit_returns v"
  by (simp_all add: read_committed_frame_def read_committed_cursor_def commit_returns_def Let_def
      split: option.split assignment.split)

lemma commit_parts_calls:
  "ws_calls (commit_cursor v s) = ws_calls s @ commit_returns v"
  "ws_calls (commit_popup i pp v s) = ws_calls s @ commit_returns v"
  "ws_calls (commit_toplevel i tt v s) = ws_calls s @ commit_returns v"
proof -
  show "ws_calls (commit_cursor v s) = ws_calls s @ commit_returns v"
    using read_calls(2) [of v] by (cases "read_committed_cursor v") (simp add: commit_cursor_def)
  show "ws_calls (commit_popup i pp v s) = ws_calls s @ commit_returns v"
    using read_calls(1) [of i v]
    by (cases "read_committed_frame i v"; cases "pp_geometry pp") (simp add: commit_popup_def Let_def)
  show "ws_calls (commit_toplevel i tt v s) = ws_calls s @ commit_returns v"
    using read_calls(1) [of i v]
    by (cases "read_committed_frame i v"; cases "read_toplevel_identity v";
        cases "announce_toplevel i (snd (read_committed_frame i v)) (fst (read_toplevel_identity v))
          (snd (read_toplevel_identity v)) (resolve_parent v tt s)")
      (simp add: commit_toplevel_def Let_def)
qed

text \<open>No client waits for its buffer: whatever a commit on a toplevel, a popup or the cursor attaches, shared
  memory that can or cannot be read, a GPU buffer of any layout or nothing, the compositor answers every
  frame callback and releases the buffer, each exactly once, before it serves the next request; a commit
  on any other surface is left alone.\<close>

theorem commit_gives_back:
  "ws_calls (commit wl v s) = ws_calls s @ (if watched s wl then commit_returns v else [])"
proof -
  have t: "\<exists>tt. hget (ws_toplevels s) i = Some tt" if "toplevel_of s wl = Some i" for i
    using toplevel_of_tracked [OF that] by blast
  have p: "\<exists>pp. hget (ws_popups s) i = Some pp" if "popup_of s wl = Some i" for i
    using popup_of_tracked [OF that] by blast
  show ?thesis
  proof (cases "popup_of s wl")
    case None
    then show ?thesis using t
      by (cases "toplevel_of s wl") (auto simp: commit_def watched_def surface_id_for_wl_def commit_parts_calls)
  next
    case (Some i)
    then show ?thesis using p [OF Some]
      by (auto simp: commit_def watched_def surface_id_for_wl_def commit_parts_calls split: option.split)
  qed
qed

section \<open>Pixels\<close>

lemma concat_rows:
  assumes "\<And>y. length (f y) = n"
  shows "length (concat (map f [0..<h])) = h * n"
    and "y < h \<Longrightarrow> j < n \<Longrightarrow> concat (map f [0..<h]) ! (y * n + j) = f y ! j"
proof -
  show l: "length (concat (map f [0..<h])) = h * n" for h
    using assms by (induction h) simp_all
  show "y < h \<Longrightarrow> j < n \<Longrightarrow> concat (map f [0..<h]) ! (y * n + j) = f y ! j"
  proof (induction h)
    case (Suc h)
    have "y * n + j < h * n" if "y < h"
    proof -
      have "y * n + j < Suc y * n" using Suc.prems by simp
      also have "\<dots> \<le> h * n" using that by (intro mult_le_mono1) simp
      finally show ?thesis .
    qed
    moreover have "y = h \<or> y < h" using Suc.prems by auto
    ultimately show ?case using Suc l [of h] by (auto simp: nth_append)
  qed simp
qed

lemma pixels_nth:
  assumes "\<And>p. length (px p) = n" and "l = (base, width, height, stride)"
  shows "length (pixels px l) = height * (width * n)"
    and "y < height \<Longrightarrow> x < width \<Longrightarrow> k < n \<Longrightarrow>
      pixels px l ! (y * (width * n) + (x * n + k)) = px (base + y * stride + x * 4) ! k"
proof -
  have row: "length (concat (map (\<lambda>x. px (base + y * stride + x * 4)) [0..<width])) = width * n" for y
    using concat_rows(1) [of "\<lambda>x. px (base + y * stride + x * 4)" n width] assms(1) by simp
  show "length (pixels px l) = height * (width * n)"
    using concat_rows(1) [OF row] by (simp add: pixels_def assms(2))
  assume b: "y < height" "x < width" "k < n"
  have "x * n + k < Suc x * n" using b by simp
  also have "\<dots> \<le> width * n" using b by (intro mult_le_mono1) simp
  finally have j: "x * n + k < width * n" .
  show "pixels px l ! (y * (width * n) + (x * n + k)) = px (base + y * stride + x * 4) ! k"
    using concat_rows(2) [OF row b(1) j] concat_rows(2) [of "\<lambda>x. px (base + y * stride + x * 4)" n x width k] b assms(1)
    by (simp add: pixels_def assms(2))
qed

lemma layout_inside:
  assumes "shm_layout len bd = Some (base, width, height, stride)"
  shows "width = nat (bd_width bd)" "height = nat (bd_height bd)"
    and "y < height \<Longrightarrow> x < width \<Longrightarrow> base + y * stride + x * 4 + 3 < len"
    and "height * (width * 4) \<le> len"
proof -
  have f: "width = nat (bd_width bd)" "height = nat (bd_height bd)" "stride * height + base \<le> len" "width * 4 \<le> stride"
    using assms by (auto simp: shm_layout_def Let_def checked_def split: if_splits option.splits bind_splits)
  show "width = nat (bd_width bd)" "height = nat (bd_height bd)" by (fact f)+
  show "height * (width * 4) \<le> len"
    using f(3) mult_le_mono2 [OF f(4), of height] by (simp only: mult.commute [of stride height])
  assume b: "y < height" "x < width"
  have "base + y * stride + x * 4 + 3 < base + y * stride + width * 4" using b by simp
  also have "\<dots> \<le> base + Suc y * stride" using f(4) by simp
  also have "\<dots> \<le> base + height * stride" using b by (intro add_left_mono mult_le_mono1) simp
  also have "\<dots> \<le> len" using f(3) by (simp add: mult.commute add.commute)
  finally show "base + y * stride + x * 4 + 3 < len" .
qed

text \<open>C36: A frame is copied right and from inside the mapping: whatever width, height, stride and offset a client
  declares, a copy that is made has three bytes for each pixel, pixel \<open>(x, y)\<close> is red, green and blue of the
  client's bytes at \<open>offset + y * stride + 4 * x\<close> in that order, and every byte read lies in the mapping.\<close>

theorem frame_copied_inside:
  assumes "copy_shm_to_rgb mem len bd = Some f" and "x < fc_width f" and "y < fc_height f"
  shows "length (fc_rgb f) = fc_height f * (fc_width f * 3) \<and>
    (let p = nat (max (bd_offset bd) 0) + y * nat (bd_stride bd) + x * 4; q = y * (fc_width f * 3) + x * 3
     in p + 3 < len \<and> fc_rgb f ! q = mem (p + 2) \<and> fc_rgb f ! (q + 1) = mem (p + 1) \<and> fc_rgb f ! (q + 2) = mem p)"
proof -
  let ?px = "\<lambda>p. [mem (p + 2), mem (p + 1), mem p]"
  obtain base w h st where l: "shm_layout len bd = Some (base, w, h, st)"
    using assms(1) by (cases "shm_layout len bd") (auto simp: copy_shm_to_rgb_def)
  have bs: "base = nat (max (bd_offset bd) 0)" "st = nat (bd_stride bd)"
    using l by (auto simp: shm_layout_def Let_def split: if_splits option.splits)
  have f: "fc_width f = w" "fc_height f = h" "fc_rgb f = pixels ?px (base, w, h, st)"
    using assms(1) l layout_inside(1,2) [OF l] by (auto simp: copy_shm_to_rgb_def)
  have b: "x < w" "y < h" using assms(2,3) f by simp_all
  have px: "length (?px p) = 3" for p by simp
  note n = pixels_nth [OF px refl [of "(base, w, h, st)"]]
  have "base + y * st + x * 4 + 3 < len" using layout_inside(3) [OF l] b by simp
  then show ?thesis
    using n(1) n(2) [OF b(2,1), of 0] n(2) [OF b(2,1), of 1] n(2) [OF b(2,1), of 2]
    by (simp add: f Let_def flip: bs add.assoc)
qed

theorem frame_copied_inside_witness:
  "\<exists>f. copy_shm_to_rgb (\<lambda>p. word_of_nat p) 64
      \<lparr>bd_offset = 8, bd_width = 2, bd_height = 2, bd_stride = 16, bd_format = Xrgb8888\<rparr> = Some f \<and>
    fc_rgb f ! (1 * (2 * 3) + 1 * 3) = 30"
proof -
  let ?bd = "\<lparr>bd_offset = 8, bd_width = 2, bd_height = 2, bd_stride = 16, bd_format = Xrgb8888\<rparr>"
  obtain f where f: "copy_shm_to_rgb (\<lambda>p. word_of_nat p) 64 ?bd = Some f" "fc_width f = 2" "fc_height f = 2"
    by (simp add: copy_shm_to_rgb_def shm_layout_def checked_def Let_def)
  show ?thesis using frame_copied_inside [OF f(1), of 1 1] f by (simp add: Let_def)
qed

text \<open>The cursor's copy has the same colours, with the alpha byte after them.\<close>

fun drop_alpha :: "'a list \<Rightarrow> 'a list" where
  "drop_alpha (r # g # b # a # xs) = r # g # b # drop_alpha xs"
| "drop_alpha xs = []"

lemma drop_alpha_append: "length xs = 4 \<Longrightarrow> drop_alpha (xs @ ys) = take 3 xs @ drop_alpha ys"
  by (auto simp: numeral_eq_Suc length_Suc_conv)

lemma drop_alpha_concat:
  "(\<And>x. length (f x) = 4) \<Longrightarrow> drop_alpha (concat (map f xs) @ ys) = concat (map (\<lambda>x. take 3 (f x)) xs) @ drop_alpha ys"
  by (induction xs) (simp_all add: drop_alpha_append)

lemma drop_alpha_rows:
  "(\<And>y. drop_alpha (f y @ []) = g y) \<Longrightarrow> (\<And>y ys. drop_alpha (f y @ ys) = drop_alpha (f y) @ drop_alpha ys) \<Longrightarrow>
    drop_alpha (concat (map f ys)) = concat (map g ys)"
  by (induction ys) simp_all

lemma drop_alpha_pixels:
  assumes "\<And>p. length (px p) = 4"
  shows "drop_alpha (pixels px l) = pixels (\<lambda>p. take 3 (px p)) l"
proof -
  obtain base w h st where l: "l = (base, w, h, st)" by (rule prod_cases4)
  let ?row = "\<lambda>y. concat (map (\<lambda>x. px (base + y * st + x * 4)) [0..<w])"
  have r: "drop_alpha (?row y @ ys) = concat (map (\<lambda>x. take 3 (px (base + y * st + x * 4))) [0..<w]) @ drop_alpha ys" for y ys
    using drop_alpha_concat [of "\<lambda>x. px (base + y * st + x * 4)" "[0..<w]" ys] assms by simp
  have r0: "drop_alpha (?row y) = concat (map (\<lambda>x. take 3 (px (base + y * st + x * 4))) [0..<w])" for y
    using r [of y "[]"] by simp
  show ?thesis unfolding pixels_def l prod.case
    by (rule drop_alpha_rows) (use r r0 in simp_all)
qed

lemma cursor_copy_drops_to_frame:
  "map_option (\<lambda>c. (cc_width c, cc_height c, drop_alpha (cc_rgba c))) (copy_shm_to_rgba mem len bd) =
    map_option (\<lambda>f. (fc_width f, fc_height f, fc_rgb f)) (copy_shm_to_rgb mem len bd)"
proof -
  let ?px = "\<lambda>p. [mem (p + 2), mem (p + 1), mem p, if bd_format bd = Xrgb8888 then 0xFF else mem (p + 3)]"
  have "drop_alpha (pixels ?px l) = pixels (\<lambda>p. take 3 (?px p)) l" for l
    by (rule drop_alpha_pixels) simp
  then have "drop_alpha (pixels ?px l) = pixels (\<lambda>p. [mem (p + 2), mem (p + 1), mem p]) l" for l by simp
  then show ?thesis
    by (cases "shm_layout len bd") (simp_all only: copy_shm_to_rgba_def copy_shm_to_rgb_def option.map cursor_copy.simps frame_copy.simps)
qed

section \<open>The thread's first and last word\<close>

definition ordinary :: "wire \<Rightarrow> bool" where
  "ordinary e \<longleftrightarrow> (\<forall>n. seen e \<noteq> HE_Ready n) \<and> seen e \<noteq> HE_Stopped"

definition adds_ordinary :: "wl_state \<Rightarrow> wl_state \<Rightarrow> bool" where
  "adds_ordinary s s' \<longleftrightarrow> (\<exists>es. ws_events s' = ws_events s @ es \<and> list_all ordinary es)"

lemma adds_same: "ws_events s' = ws_events s \<Longrightarrow> adds_ordinary s s'"
  by (simp add: adds_ordinary_def)

lemma adds_post: "ws_events s' = ws_events s @ es \<Longrightarrow> list_all ordinary es \<Longrightarrow> adds_ordinary s s'"
  by (auto simp: adds_ordinary_def)

lemma adds_trans: "adds_ordinary s s1 \<Longrightarrow> adds_ordinary s1 s2 \<Longrightarrow> adds_ordinary s s2"
  by (auto simp: adds_ordinary_def)

lemma adds_fold: "(\<And>x s. adds_ordinary s (f x s)) \<Longrightarrow> adds_ordinary s (fold f xs s)"
proof (induction xs arbitrary: s)
  case (Cons x xs)
  then show ?case using adds_trans by (metis fold_simps(2))
qed (simp add: adds_same)

lemma frames_ordinary: "list_all ordinary (frame_events i f)"
  by (simp add: frame_events_def ordinary_def split: option.split committed_frame.split)

lemma news_ordinary: "announce_toplevel i f t a tt = (tt1, news) \<Longrightarrow> list_all ordinary news"
  by (auto simp: announce_toplevel_def ordinary_def Let_def split: if_splits option.splits prod.splits)

lemma adds_commit: "adds_ordinary s (commit wl v s)"
proof -
  have c: "adds_ordinary s (commit_cursor v s)"
    by (rule adds_post [of _ _ "case snd (read_committed_cursor v) of
        Some c \<Rightarrow> [W_Cursor (ws_cursor_focus s) c (sv_hotspot v)] | None \<Rightarrow> []"])
      (simp_all add: commit_cursor_def ordinary_def split: prod.split option.split)
  have p: "adds_ordinary s (commit_popup i pp v s)" for i pp
  proof -
    obtain x y w h where "pp_geometry pp = (x, y, w, h)" by (rule prod_cases4)
    then have "ws_events (commit_popup i pp v s) = ws_events s @
        ((if pp_announced pp then [] else [W_Plain (HE_PopupCreated i (pp_parent pp) x y w h)]) @
         frame_events i (snd (read_committed_frame i v)))"
      by (simp add: commit_popup_def Let_def split: prod.split)
    then show ?thesis by (rule adds_post) (simp add: frames_ordinary, simp add: ordinary_def)
  qed
  have t: "adds_ordinary s (commit_toplevel i tt v s)" for i tt
  proof -
    obtain tt1 news where a: "announce_toplevel i (snd (read_committed_frame i v)) (fst (read_toplevel_identity v))
        (snd (read_toplevel_identity v)) (resolve_parent v tt s) = (tt1, news)" by (rule prod.exhaust)
    then have "ws_events (commit_toplevel i tt v s) = ws_events s @ news @ frame_events i (snd (read_committed_frame i v))"
      by (auto simp: commit_toplevel_def Let_def split: prod.split)
    then show ?thesis by (rule adds_post) (simp add: frames_ordinary news_ordinary [OF a])
  qed
  show ?thesis using c p t by (simp add: commit_def adds_same split: option.split)
qed

lemma adds_drops: "adds_ordinary s (drop_toplevel i s)" "adds_ordinary s (drop_popup i s)"
proof -
  show "adds_ordinary s (drop_toplevel i s)"
    by (cases "hget (ws_toplevels s) i")
      (simp_all add: drop_toplevel_def adds_same adds_post [where es = "[close_event i _]"] close_event_def ordinary_def)
  show "adds_ordinary s (drop_popup i s)"
    by (rule adds_post [of _ _ "[W_Plain (HE_PopupClosed i)]"]) (simp_all add: drop_popup_def ordinary_def)
qed

lemma adds_serve: "adds_ordinary s (serve r s)"
proof (cases r)
  case (R_Reposition wl geo token)
  obtain x y w h where g: "popup_geometry geo = (x, y, w, h)" by (rule prod_cases4)
  show ?thesis
  proof (cases "surface_id_for_wl s wl")
    case (Some i)
    then show ?thesis
      by (intro adds_post [of _ _ "[W_Moved i x y w h token]"])
        (simp_all add: R_Reposition reposition_request_def g Let_def ordinary_def)
  qed (simp add: R_Reposition reposition_request_def adds_same)
next
  case (R_CursorImage img)
  then show ?thesis
    by (cases img) (simp_all add: cursor_image_def Let_def adds_same adds_post ordinary_def)
qed (simp_all add: adds_commit adds_drops adds_same new_toplevel_def new_popup_def allocate_surface_id_def Let_def
      popup_destroyed_def toplevel_destroyed_def focus_changed_def split: option.split)

lemma adds_reap: "adds_ordinary s (reap alive s)"
proof -
  have "adds_ordinary s (reap_dead_toplevels alive s)"
    unfolding reap_dead_toplevels_def by (rule adds_fold) (rule adds_drops)
  moreover have "adds_ordinary s' (reap_dead_popups alive s')" for s'
    unfolding reap_dead_popups_def by (rule adds_fold) (rule adds_drops)
  ultimately show ?thesis unfolding reap_def using adds_trans by blast
qed

lemma adds_drain: "drain_commands cs s = (s', b) \<Longrightarrow> adds_ordinary s s'"
proof (induction cs arbitrary: s)
  case (Cons x cs)
  obtain c rs where x: "x = (c, rs)" by (rule prod.exhaust)
  have "adds_ordinary s (fold serve rs (ask (command_calls s c) s))"
    by (rule adds_trans [OF _ adds_fold [OF adds_serve]]) (simp add: adds_same)
  then show ?case using Cons adds_trans by (auto simp: x adds_same split: if_splits)
qed (simp add: adds_same)

lemma adds_loop: "host_loop ts s = (s', b) \<Longrightarrow> adds_ordinary s s'"
proof (induction ts arbitrary: s)
  case (Cons t ts)
  show ?case
  proof (cases "tu_stop t \<or> tu_requests t = None")
    case True
    then show ?thesis using Cons.prems by (auto simp: adds_same split: if_splits)
  next
    case False
    then obtain rs where rs: "tu_requests t = Some rs" by auto
    let ?s2 = "reap (tu_alive t) (fold serve rs s)"
    have 2: "adds_ordinary s ?s2" using adds_trans [OF adds_fold [OF adds_serve] adds_reap] .
    obtain s3 stop where d: "drain_commands (tu_commands t) ?s2 = (s3, stop)" by (rule prod.exhaust)
    have 3: "adds_ordinary s s3" using 2 adds_drain [OF d] by (rule adds_trans)
    show ?thesis
      using Cons.prems False rs d 2 3 Cons.IH adds_trans by (auto simp: Let_def split: if_splits)
  qed
qed (simp add: adds_same)

text \<open>Ready first, Stopped last: a thread that could be set up says once, before anything else, under which
  name its socket is, and the name carries the process and a number; whether it is asked to stop, its
  loop fails or its set-up did, it says once, as its last word, that it has stopped, and never says so
  while it runs.\<close>

theorem thread_says_ready_and_stopped:
  "\<exists>es. list_all ordinary es \<and> map seen (ws_events (fst (host_thread set_up pid seq ts))) =
    (if set_up then [HE_Ready (socket_name pid seq)] else []) @ map seen es @
    (if snd (host_thread set_up pid seq ts) then [HE_Stopped] else [])"
proof -
  let ?s0 = "post [W_Plain (HE_Ready (socket_name pid seq))] new_state"
  obtain s1 e where 1: "host_loop ts ?s0 = (s1, e)" by (rule prod.exhaust)
  obtain es where "ws_events s1 = ws_events ?s0 @ es" "list_all ordinary es"
    using adds_loop [OF 1] by (auto simp: adds_ordinary_def)
  then show ?thesis
    using 1 by (cases set_up) (auto simp: host_thread_def new_state_def intro: exI [of _ "[]"] exI [of _ es])
qed

end
