(* ===== verification/WaylandPanes.thy ===== *)
theory WaylandPanes
  imports WaylandRuns AppInvariantReach
begin

text \<open>
  The nested compositor and the cockpit together: the panes and overlays that the cockpit keeps for other
  programs are surfaces that the compositor tracks.
\<close>

section \<open>The cockpit after these events\<close>

text \<open>The surfaces that have a pane, and those that lie over one.\<close>

definition panes_shown :: "app \<Rightarrow> nat set" where
  "panes_shown s = hdom (ap_surface_to_pane s)"

definition popups_shown :: "app \<Rightarrow> nat set" where
  "popups_shown s = hdom (ap_popup_to_pane s)"

lemmas shown_defs = panes_shown_def popups_shown_def

lemma shown_emit [simp]:
  "panes_shown (tell_satellite p u s) = panes_shown s" "popups_shown (tell_satellite p u s) = popups_shown s"
  "panes_shown (with_surface sf f s) = panes_shown s" "popups_shown (with_surface sf f s) = popups_shown s"
  by (simp_all add: shown_defs tell_satellite_def emit_def with_surface_def split: option.split)

lemma shown_tell_all [simp]:
  "panes_shown (fold (\<lambda>p. tell_satellite p u) ps s) = panes_shown s"
  "popups_shown (fold (\<lambda>p. tell_satellite p u) ps s) = popups_shown s"
  by (induction ps arbitrary: s) simp_all

lemma shown_popup_ops [simp]:
  "panes_shown (attach_popup p sf x y wd ht s) = panes_shown s" "panes_shown (close_popup sf s) = panes_shown s"
  "panes_shown (route_frame sf s) = panes_shown s" "popups_shown (route_frame sf s) = popups_shown s"
  by (simp_all add: attach_popup_def close_popup_def route_frame_def split: option.split)
    (simp_all add: shown_defs emit_def)

lemma shown_attach: "popups_shown (attach_popup p sf x y wd ht s) \<subseteq> insert sf (popups_shown s)"
  by (auto simp: attach_popup_def shown_defs emit_def hget_hput)

lemma shown_close: "popups_shown (close_popup sf s) = popups_shown s - {sf}"
  by (auto simp: close_popup_def shown_defs tell_satellite_def emit_def hget_hdel split: option.split)

lemma popup_map_simps [simp]:
  "ap_popup_to_pane (fst (insert_pane i p s)) = ap_popup_to_pane s" "ap_popup_to_pane (bump_next_id s) = ap_popup_to_pane s"
  "ap_popup_to_pane (rebuild_widget_tree s) = ap_popup_to_pane s"
  "ap_popup_to_pane (forget_pane_names i s) = ap_popup_to_pane s"
  "ap_popup_to_pane (grab_focus i s) = ap_popup_to_pane s" "ap_popup_to_pane (refresh_focus_css s) = ap_popup_to_pane s"
  "ap_popup_to_pane (refocus_after_close i s) = ap_popup_to_pane s"
  by (simp_all add: insert_pane_def draw_uuid_def bump_next_id_def rebuild_widget_tree_def forget_pane_names_def
      grab_focus_def refresh_focus_css_def refocus_after_close_def emit_def Let_def split: prod.split)

lemma surface_map_simps [simp]:
  "ap_surface_to_pane (rebuild_widget_tree s) = ap_surface_to_pane s"
  "ap_surface_to_pane (grab_focus i s) = ap_surface_to_pane s" "ap_surface_to_pane (refresh_focus_css s) = ap_surface_to_pane s"
  "ap_surface_to_pane (refocus_after_close i s) = ap_surface_to_pane s"
  by (simp_all add: rebuild_widget_tree_def grab_focus_def refresh_focus_css_def refocus_after_close_def emit_def Let_def
      split: prod.split)

lemma popup_map_tabs [simp]: "ap_popup_to_pane (remove_terminal_tab_metadata i s) = ap_popup_to_pane s"
  by (simp add: remove_terminal_tab_metadata_def Let_def split: option.split prod.split)

lemma shown_created:
  "panes_shown (on_toplevel_created sf t a s) \<subseteq> insert sf (panes_shown s)"
  "popups_shown (on_toplevel_created sf t a s) = popups_shown s"
proof -
  obtain s1 b where sp: "splice_leaf Vertical (ap_focused (bump_next_id s)) (ap_next_id s) (bump_next_id s) = (s1, b)"
    by (rule prod.exhaust)
  have "ap_surface_to_pane s1 = ap_surface_to_pane s" "ap_popup_to_pane s1 = ap_popup_to_pane s"
    using sp by (auto simp: splice_leaf_def split: prod.splits)
  then show "panes_shown (on_toplevel_created sf t a s) \<subseteq> insert sf (panes_shown s)"
    "popups_shown (on_toplevel_created sf t a s) = popups_shown s"
    using sp by (auto simp: on_toplevel_created_def Let_def shown_defs hget_hput split: option.splits if_splits)
qed

lemma shown_closed:
  "panes_shown (on_toplevel_closed sf s) = panes_shown s - {sf}"
  "popups_shown (on_toplevel_closed sf s) = popups_shown s"
  by (auto simp: on_toplevel_closed_def Let_def shown_defs hget_hdel split: option.splits if_splits)

text \<open>What an event does to them.\<close>

definition pane_change :: "host_event \<Rightarrow> nat set \<Rightarrow> nat set" where
  "pane_change e A = (case about e of
     Some (i, Opens K_Toplevel) \<Rightarrow> insert i A | Some (i, Closes K_Toplevel) \<Rightarrow> A - {i} | _ \<Rightarrow> A)"

definition popup_change :: "host_event \<Rightarrow> nat set \<Rightarrow> nat set" where
  "popup_change e A = (case about e of
     Some (i, Opens K_Popup) \<Rightarrow> insert i A | Some (i, Opens K_Child) \<Rightarrow> insert i A
   | Some (i, Closes K_Popup) \<Rightarrow> A - {i} | Some (i, Closes K_Child) \<Rightarrow> A - {i} | _ \<Rightarrow> A)"

lemma event_changes:
  "panes_shown (handle_host_event w e s) \<subseteq> pane_change e (panes_shown s) \<and>
    popups_shown (handle_host_event w e s) \<subseteq> popup_change e (popups_shown s)"
proof (cases e)
  case (HE_Ready x)
  then show ?thesis by (simp add: pane_change_def popup_change_def shown_defs)
next
  case (HE_ToplevelCreated sf t a)
  then show ?thesis using shown_created [of sf t a s] by (simp add: pane_change_def popup_change_def)
next
  case (HE_ToplevelClosed sf)
  then show ?thesis using shown_closed [of sf s] by (simp add: pane_change_def popup_change_def)
next
  case (HE_PopupCreated sf p x y wd ht)
  then show ?thesis using shown_attach
    by (cases "hget (ap_surface_to_pane s) p") (auto simp: pane_change_def popup_change_def)
next
  case (HE_ChildToplevelCreated sf p wd ht)
  then show ?thesis using shown_attach
    by (cases "hget (ap_surface_to_pane s) p")
      (auto simp: pane_change_def popup_change_def split: prod.split)
next
  case (HE_CursorShape sf n)
  then show ?thesis by (cases "cursor_target s sf") (simp_all add: pane_change_def popup_change_def)
qed (simp_all add: pane_change_def popup_change_def shown_close split: option.split)

text \<open>The cockpit has a pane for a surface, or lies one over a pane, only while the surface is shown as such.\<close>

definition mirrors :: "host_event list \<Rightarrow> app \<Rightarrow> bool" where
  "mirrors es s \<longleftrightarrow> (\<forall>i \<in> panes_shown s. life i es = Some (Shown K_Toplevel)) \<and>
    (\<forall>i \<in> popups_shown s. life i es = Some (Shown K_Popup) \<or> life i es = Some (Shown K_Child))"

lemma life_snoc: "life i (es @ [e]) = pass i e (life i es)"
  by (simp add: life_append)

lemma advance_shown: "advance m (Shown k) = Some p \<Longrightarrow> p = Shown k \<or> m = Closes k"
  by (cases m) (auto split: if_splits)

lemma mirror_step:
  assumes m: "mirrors es s" and l: "\<And>i. life i (es @ [e]) \<noteq> None"
  shows "mirrors (es @ [e]) (handle_host_event w e s)"
proof -
  have keep: "life i (es @ [e]) = Some (Shown k)" if "life i es = Some (Shown k)" "about e \<noteq> Some (i, Closes k)" for i k
    using that l [of i] by (cases "about e") (auto simp: life_snoc pass_def split: if_splits dest: advance_shown)
  have opened: "life i (es @ [e]) = Some (Shown k)" if "about e = Some (i, Opens k)" for i k
    using that l [of i] by (cases "life i es"; cases "the (life i es)") (auto simp: life_snoc pass_def)
  have "life i (es @ [e]) = Some (Shown K_Toplevel)" if "i \<in> pane_change e (panes_shown s)" for i
  proof (cases "about e = Some (i, Opens K_Toplevel)")
    case False
    then have "i \<in> panes_shown s" "about e \<noteq> Some (i, Closes K_Toplevel)"
      using that by (auto simp: pane_change_def split: option.splits prod.splits move.splits kind.splits)
    then show ?thesis using m keep by (auto simp: mirrors_def)
  qed (rule opened)
  moreover have "life i (es @ [e]) = Some (Shown K_Popup) \<or> life i (es @ [e]) = Some (Shown K_Child)"
    if "i \<in> popup_change e (popups_shown s)" for i
  proof (cases "about e = Some (i, Opens K_Popup) \<or> about e = Some (i, Opens K_Child)")
    case False
    then have "i \<in> popups_shown s" "about e \<noteq> Some (i, Closes K_Popup)" "about e \<noteq> Some (i, Closes K_Child)"
      using that by (auto simp: popup_change_def split: option.splits prod.splits move.splits kind.splits)
    then show ?thesis using m keep by (auto simp: mirrors_def)
  qed (use opened in blast)
  ultimately show ?thesis using event_changes [of w e s] by (auto simp: mirrors_def)
qed

lemma life_prefix: "life i (xs @ ys) \<noteq> None \<Longrightarrow> life i xs \<noteq> None"
proof -
  have n: "fold (pass i) ys None = None" by (induction ys) (simp_all add: pass_def)
  show "life i (xs @ ys) \<noteq> None \<Longrightarrow> life i xs \<noteq> None" using n by (cases "life i xs") (simp_all add: life_append)
qed

lemma mirror_run:
  "(\<And>i. life i es \<noteq> None) \<Longrightarrow> mirrors [] s \<Longrightarrow> mirrors es (fold (handle_host_event w) es s)"
proof (induction es rule: rev_induct)
  case (snoc e es)
  have "\<And>i. life i es \<noteq> None" using snoc.prems(1) life_prefix by blast
  then show ?case using snoc mirror_step by simp
qed simp

lemma mirrored:
  assumes "host_ok s" and "panes_shown c = {}" "popups_shown c = {}"
  shows "mirrors (map seen (ws_events s)) (fold (handle_host_event w) (map seen (ws_events s)) c)"
proof (rule mirror_run)
  show "life i (map seen (ws_events s)) \<noteq> None" for i using told_some [OF assms(1), of i] by (auto simp: told_def)
  show "mirrors [] c" using assms(2,3) by (simp add: mirrors_def)
qed

section \<open>The panes themselves\<close>

text \<open>The surface a pane is made for, and whether its widget has been told that it is closed.\<close>

definition window_of :: "app \<Rightarrow> pane_id \<Rightarrow> (nat \<times> bool) option" where
  "window_of s p =
    (case hget (ap_panes s) p of
       None \<Rightarrow> None
     | Some q \<Rightarrow> (case pa_body q of Satellite b \<Rightarrow> Some (sl_surface b, sl_closed b) | Terminal _ \<Rightarrow> None))"

text \<open>The panes of windows and the index by surface agree, and no such pane is closed.\<close>

definition paired :: "app \<Rightarrow> bool" where
  "paired s \<longleftrightarrow> (\<forall>p i cl. window_of s p = Some (i, cl) \<longleftrightarrow> \<not> cl \<and> hget (ap_surface_to_pane s) i = Some p)"

definition window_tables :: "app \<Rightarrow> (pane_id \<Rightarrow> (nat \<times> bool) option) \<times> (nat, pane_id) hmap \<times> bool \<times> pane_id \<times> nat \<times> (pane_id \<Rightarrow> bool)" where
  "window_tables s = (window_of s, ap_surface_to_pane s, ap_has_host s, ap_focused s, ap_next_id s, live s)"

lemma window_of_panes: "ap_panes s' = ap_panes s \<Longrightarrow> window_of s' = window_of s"
  by (simp add: window_of_def fun_eq_iff)

lemma tell_tables [simp]: "window_tables (tell_satellite p u s) = window_tables s"
  by (simp add: tell_satellite_def emit_def window_tables_def window_of_def live_def fun_eq_iff)

lemma tell_all_tables [simp]: "window_tables (fold (\<lambda>p. tell_satellite p u) ps s) = window_tables s"
  by (induction ps arbitrary: s) simp_all

lemma popup_tables [simp]:
  "window_tables (attach_popup p sf x y wd ht s) = window_tables s" "window_tables (close_popup sf s) = window_tables s"
  "window_tables (route_frame sf s) = window_tables s"
  by (simp_all add: attach_popup_def close_popup_def route_frame_def split: option.split)
    (simp_all add: emit_def window_tables_def window_of_def live_def fun_eq_iff)

lemma rename_tables:
  "(\<And>b. sl_surface (f b) = sl_surface b \<and> sl_closed (f b) = sl_closed b) \<Longrightarrow>
    window_tables (with_surface sf f s) = window_tables s"
  by (auto simp: with_surface_def window_tables_def window_of_def live_def fun_eq_iff hget_hmodify edit_satellite_def
      split: option.split pane_body.split if_splits)

text \<open>An event that opens or closes no toplevel changes no such pane.\<close>

lemma other_events_tables:
  assumes "\<And>sf t a. e \<noteq> HE_ToplevelCreated sf t a" "\<And>sf. e \<noteq> HE_ToplevelClosed sf"
  shows "window_tables (handle_host_event w e s) = window_tables s"
proof (cases e)
  case (HE_CursorShape sf n)
  then show ?thesis by (cases "cursor_target s sf") simp_all
next
  case (HE_Ready x)
  then show ?thesis by (simp add: window_tables_def window_of_def live_def fun_eq_iff)
qed (use assms in \<open>auto simp: rename_tables split: option.split prod.split\<close>)

text \<open>What a new toplevel and a closed one do to the panes.\<close>

lemma created_tables:
  assumes inv: "app_inv s" and host: "ap_has_host s" and foc: "live s (ap_focused s)" and n: "ap_next_id s < u32_max"
  shows "window_tables (on_toplevel_created sf t a s) =
    ((window_of s)(ap_next_id s := Some (sf, False)), hput sf (ap_next_id s) (ap_surface_to_pane s), True, ap_focused s,
      Suc (ap_next_id s), (live s)(ap_next_id s := True))"
proof -
  let ?i = "ap_next_id s" and ?t = "ap_focused s"
  obtain s1 b where sp: "splice_leaf Vertical ?t ?i (bump_next_id s) = (s1, b)" by (rule prod.exhaust)
  have bl: "ap_layout (bump_next_id s) = ap_layout s" by simp
  have s1: b "s1 = (bump_next_id s)\<lparr>ap_layout := ap_layout s1\<rparr>"
    using spliced(1,2) [OF app_inv_ok [OF inv] sp bl] foc by simp_all
  define l where "l = ap_layout s1"
  have e: "s1 = (bump_next_id s)\<lparr>ap_layout := l\<rparr>" using s1(2) by (simp add: l_def)
  have nx: "sat_add_u32 ?i (Suc 0) = Suc ?i" using n by (simp add: sat_add_u32_def u32_max_def)
  show ?thesis
    using sp host foc s1(1)
    by (simp add: on_toplevel_created_def Let_def e insert_pane_def draw_uuid_def bump_next_id_def nx window_tables_def
        rebuild_widget_tree_def emit_def split: option.split)
      (simp add: window_of_def live_def fun_eq_iff hget_hput)
qed

lemma redraw_tables [simp]:
  "window_of (rebuild_widget_tree s) = window_of s" "window_of (grab_focus i s) = window_of s"
  "window_of (refresh_focus_css s) = window_of s" "window_of (refocus_after_close i s) = window_of s"
  "ap_has_host (rebuild_widget_tree s) = ap_has_host s" "ap_has_host (grab_focus i s) = ap_has_host s"
  "ap_has_host (refresh_focus_css s) = ap_has_host s" "ap_has_host (refocus_after_close i s) = ap_has_host s"
  "ap_focused (rebuild_widget_tree s) = ap_focused s" "ap_focused (grab_focus i s) = ap_focused s"
  "ap_focused (refresh_focus_css s) = ap_focused s"
  by (auto simp: rebuild_widget_tree_def grab_focus_def refresh_focus_css_def refocus_after_close_def emit_def Let_def
      window_of_def fun_eq_iff split: option.split)

lemma redraw_live [simp]:
  "live (refocus_after_close i s) = live s" "ap_next_id (refocus_after_close i s) = ap_next_id s"
  by (simp_all add: refocus_after_close_def Let_def live_def fun_eq_iff)

lemma closed_tables:
  assumes inv: "app_inv s" and foc: "live s (ap_focused s)" and p: "hget (ap_surface_to_pane s) sf = Some p"
    and nl: "ap_layout s \<noteq> Leaf p"
  shows "\<exists>f. window_tables (on_toplevel_closed sf s) =
      ((window_of s)(p := None), hdel sf (ap_surface_to_pane s), ap_has_host s, f, ap_next_id s, (live s)(p := False)) \<and>
    live (on_toplevel_closed sf s) f"
proof -
  let ?s1 = "s\<lparr>ap_surface_to_pane := hdel sf (ap_surface_to_pane s),
    ap_panes := hmodify p (edit_satellite (\<lambda>b. b\<lparr>sl_closed := True\<rparr>)) (ap_panes s)\<rparr>"
  define s2 where "s2 = ?s1\<lparr>ap_layout := fst (remove_leaf (ap_layout s) p), ap_panes := hdel p (ap_panes ?s1)\<rparr>"
  define s3 where "s3 = remove_terminal_tab_metadata p (forget_pane_names p s2)"
  define s4 where "s4 = s3\<lparr>ap_workspace := hdel p (ap_workspace s3)\<rparr>"
  let ?r = "refocus_after_close p s4"
  have e: "on_toplevel_closed sf s = (let s5 = rebuild_widget_tree ?r in refresh_focus_css (grab_focus (ap_focused s5) s5))"
    using p nl by (simp add: on_toplevel_closed_def Let_def s2_def s3_def s4_def)
  have t: "window_of s4 = (window_of s)(p := None)" "ap_surface_to_pane s4 = hdel sf (ap_surface_to_pane s)"
      "ap_has_host s4 = ap_has_host s" "ap_focused s4 = ap_focused s" "ap_next_id s4 = ap_next_id s"
      "live s4 = (live s)(p := False)"
    by (auto simp: s4_def s3_def s2_def remove_terminal_tab_metadata_def forget_pane_names_def Let_def window_of_def live_def
        fun_eq_iff hget_hdel hget_hmodify split: option.split prod.split)
  have w: "window_tables (on_toplevel_closed sf s) = (window_of s4, ap_surface_to_pane s4, ap_has_host s4, ap_focused ?r,
      ap_next_id s4, live s4)"
    by (simp add: e Let_def window_tables_def)
  have lay: "ap_layout (on_toplevel_closed sf s) = ap_layout s4"
    by (simp add: e Let_def refocus_after_close_def)
  have lv: "live (on_toplevel_closed sf s) = live s4" using w by (simp add: window_tables_def)
  have ls: "set (leaves (ap_layout s4)) = Collect (live s4)"
    using app_inv_ok [OF toplevel_closed_inv [OF inv, of sf]] by (simp add: app_ok_def panes_ok_def lay lv)
  have hd: "hd (leaves (ap_layout s4)) \<in> set (leaves (ap_layout s4))" by simp
  have "live s4 (ap_focused ?r)"
  proof (cases "ap_focused s = p")
    case True
    have "ap_focused ?r \<in> set (leaves (ap_layout s4))"
      using hd t(4) True by (auto simp: refocus_after_close_def Let_def find_Some_iff split: option.split)
    then show ?thesis using ls by simp
  next
    case False
    then show ?thesis using foc t(4,6) by (simp add: refocus_after_close_def)
  qed
  then show ?thesis using w t lv by auto
qed

section \<open>The cockpit after a run\<close>

text \<open>
  A cockpit that listens, with its focus on a live pane, a terminal t, and pane ids left for n more windows,
  whose panes of windows are those of its index.
\<close>

definition listening :: "pane_id \<Rightarrow> nat \<Rightarrow> app \<Rightarrow> bool" where
  "listening t n s \<longleftrightarrow> app_inv s \<and> ap_has_host s \<and> live s (ap_focused s) \<and> live s t \<and> window_of s t = None \<and>
    paired s \<and> ap_next_id s + n \<le> u32_max"

lemma listening_cong:
  assumes "window_tables s' = window_tables s" "app_inv s'" "listening t n s"
  shows "listening t n s'" "panes_shown s' = panes_shown s"
  using assms by (simp_all add: listening_def window_tables_def paired_def panes_shown_def)

lemma listening_created:
  assumes "listening t (Suc n) s" "i \<notin> panes_shown s"
  shows "listening t n (on_toplevel_created i x y s)" "panes_shown (on_toplevel_created i x y s) = insert i (panes_shown s)"
proof -
  have s: "app_inv s" "ap_has_host s" "live s (ap_focused s)" "ap_next_id s < u32_max" "live s t" "window_of s t = None"
      "paired s" "ap_next_id s + Suc n \<le> u32_max"
    using assms(1) by (simp_all add: listening_def)
  let ?s = "on_toplevel_created i x y s"
  have tb: "window_of ?s = (window_of s)(ap_next_id s := Some (i, False))"
      "ap_surface_to_pane ?s = hput i (ap_next_id s) (ap_surface_to_pane s)" "ap_has_host ?s" "ap_focused ?s = ap_focused s"
      "ap_next_id ?s = Suc (ap_next_id s)" "live ?s = (live s)(ap_next_id s := True)"
    using created_tables [OF s(1-4), of i x y] by (simp_all add: window_tables_def)
  have nl: "\<not> live s (ap_next_id s)" using app_inv_ok [OF s(1)] by (auto simp: app_ok_def panes_ok_def)
  then have nt1: "t \<noteq> ap_next_id s" and "window_of s (ap_next_id s) = None"
    using s(5) by (auto simp: window_of_def live_def)
  then have nt2: "hget (ap_surface_to_pane s) j \<noteq> Some (ap_next_id s)" for j
    using s(7) by (metis option.distinct(1) paired_def)
  have "app_inv ?s" using s(1,4,3) by (rule toplevel_created_inv)
  moreover have "paired ?s" unfolding paired_def tb
    using s(7) nt2 assms(2) by (auto simp: paired_def hget_hput panes_shown_def)
  ultimately show "listening t n ?s" using s nt1 by (simp add: listening_def tb)
  show "panes_shown ?s = insert i (panes_shown s)" by (auto simp: panes_shown_def tb hget_hput)
qed

lemma listening_closed:
  assumes "listening t n s"
  shows "listening t n (on_toplevel_closed i s)" "panes_shown (on_toplevel_closed i s) = panes_shown s - {i}"
proof -
  have s: "app_inv s" "ap_has_host s" "live s (ap_focused s)" "live s t" "window_of s t = None" "paired s"
      "ap_next_id s + n \<le> u32_max"
    using assms(1) by (simp_all add: listening_def)
  let ?s = "on_toplevel_closed i s"
  have "listening t n ?s"
  proof (cases "hget (ap_surface_to_pane s) i")
    case None
    then show ?thesis using assms by (simp add: on_toplevel_closed_def)
  next
    case (Some p)
    have wp: "window_of s p = Some (i, False)" using s(6) Some by (simp add: paired_def)
    then have tp: "t \<noteq> p" using s(5) by auto
    have "t \<in> set (leaves (ap_layout s))" using app_inv_ok [OF s(1)] s(4) by (simp add: app_ok_def panes_ok_def)
    then have nl: "ap_layout s \<noteq> Leaf p" using tp by auto
    obtain f where tb: "window_of ?s = (window_of s)(p := None)" "ap_surface_to_pane ?s = hdel i (ap_surface_to_pane s)"
        "ap_has_host ?s = ap_has_host s" "ap_focused ?s = f" "ap_next_id ?s = ap_next_id s" "live ?s = (live s)(p := False)"
        "live ?s f"
      using closed_tables [OF s(1,3) Some nl] by (auto simp: window_tables_def)
    have "hget (ap_surface_to_pane s) j \<noteq> Some p" if "j \<noteq> i" for j
      using s(6) wp that by (metis Pair_inject option.inject paired_def)
    then have "paired ?s" unfolding paired_def tb using s(6) Some by (auto simp: paired_def hget_hdel)
    then show ?thesis using toplevel_closed_inv [OF s(1), of i] s tp tb(7) by (simp add: listening_def tb(1-6))
  qed
  then show "listening t n ?s" .
  show "panes_shown ?s = panes_shown s - {i}" by (rule shown_closed)
qed

definition opens :: "host_event \<Rightarrow> nat" where
  "opens e = (case e of HE_ToplevelCreated _ _ _ \<Rightarrow> 1 | _ \<Rightarrow> 0)"

lemma listening_other:
  assumes l: "listening t n s" and e: "\<And>i x y. e \<noteq> HE_ToplevelCreated i x y" "\<And>i. e \<noteq> HE_ToplevelClosed i"
  shows "listening t n (handle_host_event w e s) \<and> panes_shown (handle_host_event w e s) = pane_change e (panes_shown s)"
proof -
  have inv: "app_inv (handle_host_event w e s)" by (rule host_event_inv) (use l e in \<open>auto simp: listening_def\<close>)
  have c: "pane_change e A = A" for A
  proof (cases e)
    case (HE_ToplevelCreated i x y)
    then show ?thesis using e(1) by blast
  next
    case (HE_ToplevelClosed i)
    then show ?thesis using e(2) by blast
  qed (simp_all add: pane_change_def)
  show ?thesis unfolding c using listening_cong [OF other_events_tables inv l] e by blast
qed

lemma listening_step:
  assumes l: "listening t (opens e + n) s" and new: "\<And>i x y. e = HE_ToplevelCreated i x y \<Longrightarrow> i \<notin> panes_shown s"
  shows "listening t n (handle_host_event w e s) \<and> panes_shown (handle_host_event w e s) = pane_change e (panes_shown s)"
proof (cases "\<exists>i x y. e = HE_ToplevelCreated i x y")
  case True
  then obtain i x y where e: "e = HE_ToplevelCreated i x y" by blast
  then have "listening t (Suc n) s" "i \<notin> panes_shown s" using l new by (simp_all add: opens_def)
  note c = listening_created [OF this, of x y]
  show ?thesis unfolding e handle_host_event.simps using c by (simp add: pane_change_def)
next
  case nc: False
  then have l': "listening t n s" using l by (cases e) (simp_all add: opens_def)
  show ?thesis
  proof (cases "\<exists>i. e = HE_ToplevelClosed i")
    case True
    then obtain i where e: "e = HE_ToplevelClosed i" by blast
    show ?thesis unfolding e handle_host_event.simps using listening_closed [OF l', of i] by (simp add: pane_change_def)
  next
    case False
    then show ?thesis using nc l' by (intro listening_other) blast+
  qed
qed

text \<open>The whole run: the windows with a pane are the toplevels shown.\<close>

definition toplevels_shown :: "host_event list \<Rightarrow> nat set" where
  "toplevels_shown es = {i. life i es = Some (Shown K_Toplevel)}"

lemma toplevels_shown_snoc:
  assumes l: "\<And>i. life i (es @ [e]) \<noteq> None"
  shows "toplevels_shown (es @ [e]) = pane_change e (toplevels_shown es)"
    and "e = HE_ToplevelCreated i x y \<Longrightarrow> i \<notin> toplevels_shown es"
proof -
  have "i \<in> toplevels_shown (es @ [e]) \<longleftrightarrow> i \<in> pane_change e (toplevels_shown es)" for i
  proof -
    obtain p where p: "life i es = Some p" using l [of i] by (cases "life i es") (auto simp: life_snoc pass_def)
    show ?thesis
    proof (cases "\<exists>m. about e = Some (i, m)")
      case True
      then obtain m where m: "about e = Some (i, m)" by blast
      then have "advance m p \<noteq> None" using l [of i] p by (simp add: life_snoc pass_def)
      then show ?thesis using m p
        by (cases m; cases p) (auto simp: toplevels_shown_def life_snoc pass_def pane_change_def split: kind.split if_splits)
    next
      case False
      then have "life i (es @ [e]) = life i es" using p by (auto simp: life_snoc pass_def split: option.split)
      then show ?thesis using False
        by (auto simp: toplevels_shown_def pane_change_def split: option.split prod.split move.split kind.split)
    qed
  qed
  then show "toplevels_shown (es @ [e]) = pane_change e (toplevels_shown es)" by blast
  show "i \<notin> toplevels_shown es" if "e = HE_ToplevelCreated i x y"
    using l [of i] that by (auto simp: toplevels_shown_def life_snoc pass_def)
qed

lemma listening_run:
  "(\<And>i. life i es \<noteq> None) \<Longrightarrow> listening t (sum_list (map opens es) + n) s \<Longrightarrow> panes_shown s = {} \<Longrightarrow>
    listening t n (fold (handle_host_event w) es s) \<and>
    panes_shown (fold (handle_host_event w) es s) = toplevels_shown es"
proof (induction es arbitrary: n rule: rev_induct)
  case Nil
  then show ?case by (simp add: toplevels_shown_def)
next
  case (snoc e es)
  have "\<And>i. life i es \<noteq> None" using snoc.prems(1) life_prefix by blast
  then have "listening t (opens e + n) (fold (handle_host_event w) es s) \<and>
      panes_shown (fold (handle_host_event w) es s) = toplevels_shown es"
    using snoc.IH [of "opens e + n"] snoc.prems(2,3) by (simp add: ac_simps)
  then show ?case
    using listening_step [of t e n "fold (handle_host_event w) es s" w] toplevels_shown_snoc [OF snoc.prems(1)] by simp
qed

lemma opens_length: "sum_list (map opens es) \<le> length es"
proof (induction es)
  case (Cons e es)
  have "opens e \<le> 1" by (cases e) (simp_all add: opens_def)
  then show ?case using Cons by simp
qed simp


lemma short_run_tables:
  "ws_toplevels (fst (host_thread True 4 0 short_run)) = [] \<and> ws_popups (fst (host_thread True 4 0 short_run)) = []"
  by (simp add: short_run_def one_pixel_def host_thread_def new_state_def post_def new_toplevel_def allocate_surface_id_def
      ask_def commit_def popup_of_def toplevel_of_def hitems_def hkeys_def hput_def hget_def commit_toplevel_def Let_def
      read_toplevel_identity_def non_empty_def resolve_parent_def read_committed_frame_def copy_shm_to_rgb_def
      shm_layout_def checked_def announce_toplevel_def announced_as_def frame_events_def reap_def reap_dead_toplevels_def
      reap_dead_popups_def drop_toplevel_def close_event_def hdel_def)

definition idle_cockpit :: app where
  "idle_cockpit = install_wayland_host (app_new (\<lambda>n. n) 1
     \<lparr>pa_body = Terminal \<lparr>tm_spawn_cwd = None, tm_pid = None, tm_transcript = transcript_new 9\<rparr>, pa_look = fresh_look\<rparr>)"

lemma idle_cockpit:
  "app_inv idle_cockpit" "ap_has_host idle_cockpit" "live idle_cockpit (ap_focused idle_cockpit)"
  "window_of idle_cockpit p = None" "panes_shown idle_cockpit = {}" "popups_shown idle_cockpit = {}"
  and idle_next: "ap_next_id idle_cockpit = 2"
proof -
  show "app_inv idle_cockpit"
    by (auto simp: idle_cockpit_def install_wayland_host_def app_new_def app_of_def draw_uuid_def app_inv_def app_ok_def
        ok_defs live_def hget_Cons split: if_splits)
qed (simp_all add: shown_defs idle_cockpit_def install_wayland_host_def app_new_def app_of_def draw_uuid_def Let_def
    window_of_def live_def hget_Cons)


text \<open>A menu opened from a menu, or from a dialog, is resolved by the compositor and dropped by the cockpit, which
  looks for its parent among the panes only.\<close>

lemma menus_of_popups_not_shown:
  assumes "sum_list (map turn_requests ts) + 1 < 2 ^ 64" and "host_thread set_up pid seq ts = (s, ended)"
    and "panes_shown c = {}" "popups_shown c = {}"
    and "shown_as s parent = Some K_Popup \<or> shown_as s parent = Some K_Child"
  shows "handle_host_event w (HE_PopupCreated i parent x y wd ht)
      (fold (handle_host_event w) (map seen (ws_events s)) c) = fold (handle_host_event w) (map seen (ws_events s)) c"
proof -
  have ok: "host_ok s" using assms(1,2) by (rule thread_ok)
  have "parent \<notin> panes_shown (fold (handle_host_event w) (map seen (ws_events s)) c)"
    using mirrored [OF ok assms(3,4), of w] told_shown [OF ok] assms(5) by (auto simp: mirrors_def told_def)
  then show ?thesis by (simp add: panes_shown_def)
qed

end
