(* ===== verification/TermQueries.thy ===== *)
theory TermQueries
  imports Transcript "HOL-Library.Sublist"
begin

text \<open>
  What the wrapper of the terminal engine (\<open>crates/lmux-libghostty/src/lib.rs\<close>) adds to it: it looks in the
  child's output for the queries of the default colours, which come as operating system commands and may
  be cut anywhere by the reads, and answers them. The engine itself is a parameter.
\<close>

section \<open>Operating system commands\<close>

text \<open>Where the body of a command ends, and how many bytes end it.\<close>

fun osc_body_end :: "byte list \<Rightarrow> (nat \<times> nat) option" where
  "osc_body_end [] = None"
| "osc_body_end (b # bs) =
    (if b = BEL then Some (0, 1)
     else if b = ESC \<and> bs \<noteq> [] \<and> hd bs = BACKSLASH then Some (0, 2)
     else map_option (\<lambda>(n, t). (n + 1, t)) (osc_body_end bs))"

lemma osc_body_end_within: "osc_body_end bs = Some (n, t) \<Longrightarrow> n + t \<le> length bs \<and> 0 < t"
proof (induction bs arbitrary: n)
  case (Cons b bs)
  then show ?case by (cases bs) (auto split: if_splits)
qed simp

text \<open>The loop over the bytes: the bodies of the commands, and the rest it stops at when it needs more.\<close>

function scan_loop :: "byte list \<Rightarrow> byte list list \<times> byte list option" where
  "scan_loop bs =
    (case bs of
       [] \<Rightarrow> ([], None)
     | b # rest \<Rightarrow>
         if b \<noteq> ESC then scan_loop rest
         else (case rest of
           [] \<Rightarrow> ([], Some bs)
         | c # cs \<Rightarrow>
             if c \<noteq> RBRACKET then scan_loop rest
             else (case osc_body_end cs of
               None \<Rightarrow> ([], Some bs)
             | Some (n, t) \<Rightarrow> (let (bodies, tail) = scan_loop (drop (n + t) cs) in (take n cs # bodies, tail)))))"
  by pat_completeness auto
termination by (relation "measure length") auto

declare scan_loop.simps [simp del]

lemma scan_loop_simps [simp]:
  "scan_loop [] = ([], None)"
  "b \<noteq> ESC \<Longrightarrow> scan_loop (b # bs) = scan_loop bs"
  "scan_loop [ESC] = ([], Some [ESC])"
  "c \<noteq> RBRACKET \<Longrightarrow> scan_loop (ESC # c # cs) = scan_loop (c # cs)"
  by (simp_all add: scan_loop.simps)

lemma scan_loop_osc:
  "scan_loop (ESC # RBRACKET # cs) =
    (case osc_body_end cs of None \<Rightarrow> ([], Some (ESC # RBRACKET # cs))
     | Some (n, t) \<Rightarrow> (take n cs # fst (scan_loop (drop (n + t) cs)), snd (scan_loop (drop (n + t) cs))))"
  by (simp add: scan_loop.simps [of "ESC # RBRACKET # cs"] split: option.split prod.split)

lemma scan_loop_cases [case_names nil other lone esc cut osc]:
  assumes "P []"
    and "\<And>b bs. b \<noteq> ESC \<Longrightarrow> P bs \<Longrightarrow> P (b # bs)"
    and "P [ESC]"
    and "\<And>c cs. c \<noteq> RBRACKET \<Longrightarrow> P (c # cs) \<Longrightarrow> P (ESC # c # cs)"
    and "\<And>cs. osc_body_end cs = None \<Longrightarrow> P (ESC # RBRACKET # cs)"
    and "\<And>cs n t. osc_body_end cs = Some (n, t) \<Longrightarrow> P (drop (n + t) cs) \<Longrightarrow> P (ESC # RBRACKET # cs)"
  shows "P bs"
proof (induction bs rule: length_induct)
  case (1 bs)
  show ?case
  proof (cases bs)
    case (Cons b rest)
    show ?thesis
    proof (cases "b = ESC")
      case True
      show ?thesis
      proof (cases rest)
        case (Cons c cs)
        show ?thesis
        proof (cases "c = RBRACKET \<and> osc_body_end cs \<noteq> None")
          case True
          then obtain n t where "osc_body_end cs = Some (n, t)" by auto
          moreover from this have "P (drop (n + t) cs)"
            using 1 \<open>bs = b # rest\<close> \<open>rest = c # cs\<close> by simp
          ultimately show ?thesis using assms(6) True \<open>b = ESC\<close> \<open>bs = b # rest\<close> \<open>rest = c # cs\<close> by simp
        next
          case False
          then show ?thesis using assms(4,5) 1 \<open>b = ESC\<close> \<open>bs = b # rest\<close> \<open>rest = c # cs\<close>
            by (cases "c = RBRACKET"; cases "osc_body_end cs") auto
        qed
      qed (use assms(3) \<open>b = ESC\<close> \<open>bs = b # rest\<close> in simp)
    qed (use assms(2) 1 \<open>bs = b # rest\<close> in simp)
  qed (use assms(1) in simp)
qed

section \<open>Answers\<close>

type_synonym rgb = "byte \<times> byte \<times> byte"

definition DEFAULT_FG :: rgb where "DEFAULT_FG = (238, 238, 238)"
definition DEFAULT_BG :: rgb where "DEFAULT_BG = (0, 0, 0)"
definition DEFAULT_CURSOR :: rgb where "DEFAULT_CURSOR = (238, 238, 238)"

definition MAX_PENDING_OSC_QUERY :: nat where "MAX_PENDING_OSC_QUERY = 64"

definition ascii :: "string \<Rightarrow> byte list" where
  "ascii = map of_char"

definition hex_digit :: "nat \<Rightarrow> byte" where
  "hex_digit n = word_of_nat (if n < 10 then 48 + n else 87 + n)"

definition hex2 :: "byte \<Rightarrow> byte list" where
  "hex2 b = [hex_digit (unat b div 16), hex_digit (unat b mod 16)]"

definition push_osc_color_response :: "string \<Rightarrow> rgb \<Rightarrow> byte list" where
  "push_osc_color_response code = (\<lambda>(r, g, b).
     [ESC, RBRACKET] @ ascii code @ ascii '';rgb:'' @ hex2 r @ hex2 r @ ascii ''/'' @ hex2 g @ hex2 g @ ascii ''/'' @
     hex2 b @ hex2 b @ [ESC, BACKSLASH])"

definition osc_answer :: "byte list \<Rightarrow> byte list" where
  "osc_answer body =
    (if body = ascii ''10;?'' then push_osc_color_response ''10'' DEFAULT_FG
     else if body = ascii ''11;?'' then push_osc_color_response ''11'' DEFAULT_BG
     else if body = ascii ''12;?'' then push_osc_color_response ''12'' DEFAULT_CURSOR
     else [])"

record term_queries =
  tq_output :: "byte list"
  tq_pending :: "byte list"

definition tq_new :: term_queries where
  "tq_new = \<lparr>tq_output = [], tq_pending = []\<rparr>"

definition store_pending :: "byte list \<Rightarrow> byte list" where
  "store_pending bytes = (if length bytes \<le> MAX_PENDING_OSC_QUERY then bytes else [])"

definition ends_with_bytes :: "byte list \<Rightarrow> byte list \<Rightarrow> bool" where
  "ends_with_bytes bs e \<longleftrightarrow> length e \<le> length bs \<and> drop (length bs - length e) bs = e"

definition respond_to_terminal_queries :: "byte list \<Rightarrow> term_queries \<Rightarrow> term_queries" where
  "respond_to_terminal_queries bytes s =
    (let scan = tq_pending s @ bytes; (bodies, tail) = scan_loop scan
     in \<lparr>tq_output = tq_output s @ concat (map osc_answer bodies),
         tq_pending = (case tail of
            Some rest \<Rightarrow> store_pending rest
          | None \<Rightarrow> if ends_with_bytes scan [ESC, RBRACKET] then [ESC, RBRACKET]
                   else if ends_with_bytes scan [ESC] then [ESC] else [])\<rparr>)"

text \<open>Feeding a read: the answers come before what the engine itself answers to the same read.\<close>

definition feed :: "(byte list \<Rightarrow> 't \<Rightarrow> 't \<times> byte list) \<Rightarrow> byte list \<Rightarrow> 't \<times> term_queries \<Rightarrow> 't \<times> term_queries" where
  "feed vt bytes = (\<lambda>(t, s).
     if bytes = [] then (t, s)
     else let s1 = respond_to_terminal_queries bytes s; (t1, out) = vt bytes t
          in (t1, s1\<lparr>tq_output := tq_output s1 @ out\<rparr>))"

definition take_pty_output :: "term_queries \<Rightarrow> byte list \<times> term_queries" where
  "take_pty_output s = (tq_output s, s\<lparr>tq_output := []\<rparr>)"

section \<open>The reads do not matter\<close>

lemma osc_terminator:
  "osc_body_end cs = Some (n, t) \<Longrightarrow> \<exists>x. take (n + t) cs = x @ [BEL] \<or> take (n + t) cs = x @ [BACKSLASH]"
proof (induction cs arbitrary: n)
  case (Cons b bs)
  show ?case
  proof (cases "b = BEL \<or> (b = ESC \<and> bs \<noteq> [] \<and> hd bs = BACKSLASH)")
    case True
    then show ?thesis using Cons.prems by (cases bs) (auto split: if_splits intro: exI [of _ "[]"] exI [of _ "[ESC]"])
  next
    case False
    then obtain m where m: "osc_body_end bs = Some (m, t)" "n = m + 1"
      using Cons.prems by (auto split: if_splits)
    then obtain x where "take (m + t) bs = x @ [BEL] \<or> take (m + t) bs = x @ [BACKSLASH]" using Cons.IH by blast
    then have "take (n + t) (b # bs) = (b # x) @ [BEL] \<or> take (n + t) (b # bs) = (b # x) @ [BACKSLASH]"
      using m(2) by simp
    then show ?thesis by blast
  qed
qed simp

text \<open>A scan that reaches the end has not stopped short of an escape: the last test of the code never fires.\<close>

definition open_end :: "byte list \<Rightarrow> bool" where
  "open_end bs \<longleftrightarrow> bs \<noteq> [] \<and> (last bs = ESC \<or> (last bs = RBRACKET \<and> butlast bs \<noteq> [] \<and> last (butlast bs) = ESC))"

lemma open_end_Cons: "xs \<noteq> [] \<Longrightarrow> open_end (x # xs) \<longleftrightarrow> open_end xs \<or> (x = ESC \<and> xs = [RBRACKET])"
  by (cases xs rule: rev_cases) (auto simp: open_end_def)

lemma open_end_append: "x = y @ [BEL] \<or> x = y @ [BACKSLASH] \<Longrightarrow> open_end (x @ zs) \<Longrightarrow> zs \<noteq> [] \<and> open_end zs"
proof (cases zs rule: rev_cases)
  case (snoc z b)
  assume "x = y @ [BEL] \<or> x = y @ [BACKSLASH]" "open_end (x @ zs)"
  then show ?thesis by (cases z rule: rev_cases) (auto simp: open_end_def snoc butlast_append)
qed (auto simp: open_end_def)

lemma complete_scan_closed: "snd (scan_loop bs) = None \<Longrightarrow> \<not> open_end bs"
proof (induction bs rule: scan_loop_cases)
  case nil
  show ?case by (simp add: open_end_def)
next
  case (other b bs)
  then show ?case by (cases "bs = []") (auto simp: open_end_Cons open_end_def)
next
  case (esc c cs)
  then show ?case by (auto simp: open_end_Cons)
next
  case (osc cs n t)
  obtain x where x: "take (n + t) cs = x @ [BEL] \<or> take (n + t) cs = x @ [BACKSLASH]"
    using osc_terminator [OF osc(1)] by blast
  have "snd (scan_loop (drop (n + t) cs)) = None" using osc(1,3) by (simp add: scan_loop_osc)
  then have "\<not> open_end (drop (n + t) cs)" using osc(2) by blast
  then have "\<not> open_end (take (n + t) cs @ drop (n + t) cs)" using open_end_append [OF x] by blast
  moreover have "cs \<noteq> []" using osc(1) by auto
  moreover have "hd (take (n + t) cs @ drop (n + t) cs) \<noteq> RBRACKET \<or> length cs \<noteq> 1"
    using osc(1) by (cases cs) (auto split: if_splits)
  ultimately show ?case by (auto simp: open_end_Cons)
qed (simp_all add: scan_loop_osc)

lemma ends_with_open: "ends_with_bytes bs [ESC, RBRACKET] \<or> ends_with_bytes bs [ESC] \<Longrightarrow> open_end bs"
proof -
  have "ends_with_bytes bs e \<Longrightarrow> \<exists>p. bs = p @ e" for e
    unfolding ends_with_bytes_def by (metis append_take_drop_id)
  then show "ends_with_bytes bs [ESC, RBRACKET] \<or> ends_with_bytes bs [ESC] \<Longrightarrow> open_end bs"
    by (fastforce simp: open_end_def butlast_append)
qed

text \<open>The reference: the commands of the whole output, and what is left open at its end.\<close>

definition rest_of :: "byte list option \<Rightarrow> byte list" where
  "rest_of tail = (case tail of Some r \<Rightarrow> r | None \<Rightarrow> [])"

definition commands :: "byte list \<Rightarrow> byte list list" where
  "commands bs = fst (scan_loop bs)"

definition cut_off :: "byte list \<Rightarrow> byte list" where
  "cut_off bs = rest_of (snd (scan_loop bs))"

lemma respond_simp:
  "respond_to_terminal_queries bytes s =
    \<lparr>tq_output = tq_output s @ concat (map osc_answer (commands (tq_pending s @ bytes))),
     tq_pending = store_pending (cut_off (tq_pending s @ bytes))\<rparr>"
  using complete_scan_closed [of "tq_pending s @ bytes"] ends_with_open [of "tq_pending s @ bytes"]
  by (auto simp: respond_to_terminal_queries_def commands_def cut_off_def rest_of_def store_pending_def Let_def
      MAX_PENDING_OSC_QUERY_def split: prod.split option.split)

lemma osc_body_end_append: "osc_body_end cs = Some r \<Longrightarrow> osc_body_end (cs @ ys) = Some r"
proof (induction cs arbitrary: r)
  case (Cons b bs)
  then show ?case by (cases bs) (auto split: if_splits)
qed simp

lemma scan_append:
  "commands (xs @ ys) = commands xs @ commands (cut_off xs @ ys) \<and> cut_off (xs @ ys) = cut_off (cut_off xs @ ys)"
proof (induction xs rule: scan_loop_cases)
  case (osc cs n t)
  have "n + t \<le> length cs" using osc_body_end_within [OF osc(1)] by simp
  then have "drop (n + t) (cs @ ys) = drop (n + t) cs @ ys" "take n (cs @ ys) = take n cs" by simp_all
  then show ?case
    using osc(2) osc_body_end_append [OF osc(1), of ys]
    by (simp add: commands_def cut_off_def scan_loop_osc osc(1))
qed (simp_all add: commands_def cut_off_def rest_of_def scan_loop_osc)

definition respond_all :: "byte list list \<Rightarrow> term_queries" where
  "respond_all reads = fold respond_to_terminal_queries reads tq_new"

lemma respond_all_snoc: "respond_all (reads @ [r]) = respond_to_terminal_queries r (respond_all reads)"
  by (simp add: respond_all_def)

lemma respond_all_reads:
  "list_all (\<lambda>p. length (cut_off (concat p)) \<le> MAX_PENDING_OSC_QUERY) (prefixes reads) \<Longrightarrow>
    respond_all reads = \<lparr>tq_output = concat (map osc_answer (commands (concat reads))), tq_pending = cut_off (concat reads)\<rparr>"
proof (induction reads rule: rev_induct)
  case Nil
  show ?case by (simp add: respond_all_def tq_new_def commands_def cut_off_def rest_of_def)
next
  case (snoc r reads)
  have "respond_all reads = \<lparr>tq_output = concat (map osc_answer (commands (concat reads))), tq_pending = cut_off (concat reads)\<rparr>"
    using snoc by (auto simp: list_all_iff prefixes_snoc)
  moreover have "length (cut_off (concat reads @ r)) \<le> MAX_PENDING_OSC_QUERY"
    using snoc.prems by (simp add: prefixes_snoc)
  ultimately show ?case
    using scan_append [of "concat reads" r] by (simp add: respond_all_snoc respond_simp store_pending_def)
qed

text \<open>C23: The answers do not depend on the reads: however the child's output is cut into reads, in the middle of an
  escape, of a query or of its terminator, the queries of the default colours are answered as if the
  output had come in one piece: each once, in order, and nothing else. Assumed is that what is cut off at
  the end of a read has at most 64 bytes, as a query has.\<close>

theorem answers_do_not_depend_on_reads:
  assumes "list_all (\<lambda>p. length (cut_off (concat p)) \<le> MAX_PENDING_OSC_QUERY) (prefixes reads)"
  shows "tq_output (respond_all reads) = concat (map osc_answer (commands (concat reads)))"
  using respond_all_reads [OF assms] by simp

text \<open>The query of the background, cut twice.\<close>

theorem answers_do_not_depend_on_reads_witness:
  "tq_output (respond_all [[0x61, ESC], [RBRACKET, 0x31, 0x31], [0x3b, 0x3f, ESC], [BACKSLASH, 0x62]]) =
    push_osc_color_response ''11'' DEFAULT_BG"
proof -
  let ?r = "[[0x61, ESC], [RBRACKET, 0x31, 0x31], [0x3b, 0x3f, ESC], [BACKSLASH, 0x62 :: byte]]"
  have "list_all (\<lambda>p. length (cut_off (concat p)) \<le> MAX_PENDING_OSC_QUERY) (prefixes ?r)"
    by (simp add: cut_off_def rest_of_def scan_loop_osc MAX_PENDING_OSC_QUERY_def)
  then show ?thesis
    using answers_do_not_depend_on_reads [of ?r]
    by (simp add: commands_def scan_loop_osc osc_answer_def ascii_def)
qed

lemma pending_bounded: "length (tq_pending (respond_to_terminal_queries bytes s)) \<le> MAX_PENDING_OSC_QUERY"
  by (simp add: respond_simp store_pending_def)

text \<open>A command longer than that which is cut is given up, and its rest read as plain output: a query written
  inside it is answered, though not when the same bytes come in one read.\<close>

lemma ascii_length [simp]: "length (ascii t) = length t"
  by (simp add: ascii_def)

lemma no_end: "list_all (\<lambda>b. b \<noteq> BEL \<and> b \<noteq> ESC) x \<Longrightarrow> osc_body_end (x @ ys) = map_option (\<lambda>(n, t). (length x + n, t)) (osc_body_end ys)"
  by (induction x; cases "osc_body_end ys") auto

lemma cut_long_command_answers:
  assumes "62 < length x" "list_all (\<lambda>b. b \<noteq> BEL \<and> b \<noteq> ESC) x"
  shows "tq_output (respond_all [ESC # RBRACKET # x, ESC # RBRACKET # ascii ''10;?'' @ [BEL]]) =
      push_osc_color_response ''10'' DEFAULT_FG"
    and "tq_output (respond_all [(ESC # RBRACKET # x) @ ESC # RBRACKET # ascii ''10;?'' @ [BEL]]) = []"
proof -
  have "osc_body_end x = None" using no_end [OF assms(2), of "[]"] by simp
  then have 1: "respond_to_terminal_queries (ESC # RBRACKET # x) tq_new = tq_new"
    using assms(1) by (simp add: respond_simp tq_new_def commands_def cut_off_def rest_of_def scan_loop_osc store_pending_def
      MAX_PENDING_OSC_QUERY_def)
  have 2: "osc_body_end (ascii ''10;?'' @ [BEL]) = Some (4, 1)" by (simp add: ascii_def)
  show "tq_output (respond_all [ESC # RBRACKET # x, ESC # RBRACKET # ascii ''10;?'' @ [BEL]]) =
      push_osc_color_response ''10'' DEFAULT_FG"
    using 1 by (simp add: respond_all_def respond_simp tq_new_def commands_def scan_loop_osc ascii_def osc_answer_def)
  have 3: "osc_body_end (ESC # RBRACKET # ascii ''10;?'' @ [BEL]) = Some (6, 1)" by (simp add: ascii_def)
  have "take (length x + 6) (x @ ESC # RBRACKET # ascii ''10;?'' @ [BEL]) = x @ ESC # RBRACKET # ascii ''10;?''"
    by (simp add: ascii_def)
  moreover have "osc_answer (x @ ESC # RBRACKET # ascii ''10;?'') = []"
    using assms(1) by (auto simp: osc_answer_def ascii_def dest: arg_cong [of _ _ length])
  ultimately show "tq_output (respond_all [(ESC # RBRACKET # x) @ ESC # RBRACKET # ascii ''10;?'' @ [BEL]]) = []"
    using no_end [OF assms(2), of "ESC # RBRACKET # ascii ''10;?'' @ [BEL]"] 3
    by (simp add: respond_all_def respond_simp tq_new_def commands_def scan_loop_osc)
qed

end
