(* ===== verification/PaneStart.thy ===== *)
theory PaneStart
  imports Paths TermQueries
begin

text \<open>
  What starts a terminal pane: the allocation of the engine's handles and their release
  (\<open>crates/lmux-libghostty/src/lib.rs\<close>), the shell that is started and how (\<open>crates/lmux-pty/src/lib.rs\<close>), the
  program's own entry, which is also the trampoline of that shell (\<open>crates/lmux/src/main.rs\<close>), and their
  order in \<open>TerminalPane::new\<close> (\<open>crates/lmux/src/pane.rs\<close>). The engine's refusals, the system calls of the
  terminal and the environment are arguments; the build is the one for Linux.
\<close>

section \<open>The handles of the engine\<close>

datatype handle = H_Term | H_Render_State | H_Row_Iterator | H_Row_Cells

datatype setting = Set_Foreground | Set_Background | Set_Cursor | Set_Userdata | Set_Write_Pty | Set_Color_Scheme

text \<open>The calls into the engine, those that return nothing useful left out.\<close>

datatype ffi_op = F_New handle | F_Set setting | F_Free handle

record engine_answers =
  ea_new :: "handle \<Rightarrow> bool"
  ea_set :: "setting \<Rightarrow> bool"

definition free_all :: "handle list \<Rightarrow> ffi_op list" where
  "free_all hs = map F_Free hs"

text \<open>The three settings are tried in order, and the first refusal ends them.\<close>

fun set_all :: "(setting \<Rightarrow> bool) \<Rightarrow> setting list \<Rightarrow> ffi_op list \<times> bool" where
  "set_all ok [] = ([], True)"
| "set_all ok (x # xs) =
    (if ok x then (let (ops, r) = set_all ok xs in (F_Set x # ops, r)) else ([F_Set x], False))"

definition terminal_new :: "engine_answers \<Rightarrow> ffi_op list \<times> bool" where
  "terminal_new a =
    (if \<not> ea_new a H_Term then ([], False)
     else let (colours, r) = set_all (ea_set a) [Set_Foreground, Set_Background, Set_Cursor]; o1 = F_New H_Term # colours
     in if \<not> r then (o1 @ free_all [H_Term], False)
     else if \<not> ea_new a H_Render_State then (o1 @ free_all [H_Term], False)
     else let o2 = o1 @ [F_New H_Render_State]
     in if \<not> ea_new a H_Row_Iterator then (o2 @ free_all [H_Render_State, H_Term], False)
     else let o3 = o2 @ [F_New H_Row_Iterator]
     in if \<not> ea_new a H_Row_Cells then (o3 @ free_all [H_Row_Iterator, H_Render_State, H_Term], False)
     else let o4 = o3 @ [F_New H_Row_Cells]; every = [H_Row_Cells, H_Row_Iterator, H_Render_State, H_Term]
     in if \<not> ea_set a Set_Userdata then (o4 @ [F_Set Set_Userdata] @ free_all every, False)
     else if \<not> ea_set a Set_Write_Pty then (o4 @ [F_Set Set_Userdata, F_Set Set_Write_Pty] @ free_all every, False)
     else let o5 = o4 @ [F_Set Set_Userdata, F_Set Set_Write_Pty, F_Set Set_Color_Scheme]
     in if \<not> ea_set a Set_Color_Scheme then (o5 @ free_all every, False) else (o5, True))"

definition terminal_drop :: "ffi_op list" where
  "terminal_drop = free_all [H_Row_Cells, H_Row_Iterator, H_Render_State, H_Term]"

text \<open>
  The reference: the handles alive after a run of calls, the newest first; a call that uses or frees a
  handle that is not alive, or frees one that another still alive was made after, has no result.
\<close>

fun alive :: "ffi_op list \<Rightarrow> handle list \<Rightarrow> handle list option" where
  "alive [] hs = Some hs"
| "alive (F_New h # ops) hs = (if h \<in> set hs then None else alive ops (h # hs))"
| "alive (F_Set _ # ops) hs = (if H_Term \<in> set hs then alive ops hs else None)"
| "alive (F_Free h # ops) hs = (case hs of [] \<Rightarrow> None | x # xs \<Rightarrow> if x = h then alive ops xs else None)"

section \<open>The shell\<close>

type_synonym environ = "string \<Rightarrow> string option"

definition TRAMPOLINE_ENV :: string where "TRAMPOLINE_ENV = ''LMUX_TRAMPOLINE''"

definition trampoline_path :: "environ \<Rightarrow> string option \<Rightarrow> (string \<Rightarrow> bool) \<Rightarrow> string option" where
  "trampoline_path env current_exe exists =
    (case env TRAMPOLINE_ENV of
       Some v \<Rightarrow> if v = [] then None else Some v
     | None \<Rightarrow> (case current_exe of None \<Rightarrow> None | Some exe \<Rightarrow> if exists exe then Some exe else None))"

text \<open>\<open>passwd\<close> is the shell field of the user's entry, if there is one that is UTF-8.\<close>

definition login_shell_from_passwd :: "string option \<Rightarrow> string option" where
  "login_shell_from_passwd passwd = some_trimmed passwd"

definition detect_shell :: "environ \<Rightarrow> string option \<Rightarrow> string" where
  "detect_shell env passwd =
    (case (case env ''SHELL'' of Some shell \<Rightarrow> if trim shell \<noteq> [] then Some shell else None | None \<Rightarrow> None) of
       Some shell \<Rightarrow> shell
     | None \<Rightarrow> (case login_shell_from_passwd passwd of Some shell \<Rightarrow> shell | None \<Rightarrow> ''/bin/sh''))"

definition login_shell_args :: "string \<Rightarrow> string list" where
  "login_shell_args shell =
    (if (case path_file_name shell of Some n \<Rightarrow> n | None \<Rightarrow> shell) \<in> {''bash'', ''zsh'', ''fish''} then [''-l''] else [])"

record pty_command =
  pc_program :: string
  pc_args :: "string list"
  pc_sets :: "(string \<times> string) list"
  pc_removed :: "string list"
  pc_cwd :: "string option"

definition shell_command :: "string option \<Rightarrow> string \<Rightarrow> string \<Rightarrow> string option \<Rightarrow> pty_command" where
  "shell_command trampoline version shell cwd =
    \<lparr>pc_program = (case trampoline of Some t \<Rightarrow> t | None \<Rightarrow> shell),
     pc_args = (case trampoline of Some t \<Rightarrow> [''--exec-pty'', shell] | None \<Rightarrow> []) @ login_shell_args shell,
     pc_sets = [(''TERM'', ''xterm-256color''), (''COLORTERM'', ''truecolor''), (''TERM_PROGRAM'', ''lmux''),
       (''TERM_PROGRAM_VERSION'', version)],
     pc_removed = [''NO_COLOR''], pc_cwd = cwd\<rparr>"

datatype pty_error = PtyE_Open string | PtyE_Spawn string | PtyE_CloneReader string | PtyE_TakeWriter string | PtyE_Resize string

text \<open>The pane's end of the terminal: the child, the size and the bytes written to it.\<close>

record pty_pane =
  pp_child :: nat
  pp_cols :: nat
  pp_rows :: nat
  pp_pixels :: "nat \<times> nat"
  pp_written :: "byte list"

record pty_system =
  py_open :: "string + unit"
  py_spawn :: "pty_command \<Rightarrow> string + nat"
  py_reader :: "string + unit"
  py_writer :: "string + unit"

definition pty_spawn :: "pty_system \<Rightarrow> string option \<Rightarrow> string \<Rightarrow> string \<Rightarrow> nat \<Rightarrow> nat \<Rightarrow> string option \<Rightarrow> pty_error + pty_pane" where
  "pty_spawn sys trampoline version shell cols rows cwd =
    (case py_open sys of Inl e \<Rightarrow> Inl (PtyE_Open e)
     | Inr _ \<Rightarrow> (case py_spawn sys (shell_command trampoline version shell cwd) of Inl e \<Rightarrow> Inl (PtyE_Spawn e)
     | Inr pid \<Rightarrow> (case py_reader sys of Inl e \<Rightarrow> Inl (PtyE_CloneReader e)
     | Inr _ \<Rightarrow> (case py_writer sys of Inl e \<Rightarrow> Inl (PtyE_TakeWriter e)
     | Inr _ \<Rightarrow> Inr \<lparr>pp_child = pid, pp_cols = cols, pp_rows = rows, pp_pixels = (0, 0), pp_written = []\<rparr>))))"

definition sat_mul_u16 :: "nat \<Rightarrow> nat \<Rightarrow> nat" where
  "sat_mul_u16 a b = min (a * b) u16_max"

definition pty_resize :: "bool \<Rightarrow> nat \<Rightarrow> nat \<Rightarrow> nat \<Rightarrow> nat \<Rightarrow> pty_pane \<Rightarrow> pty_pane" where
  "pty_resize accepted cols rows cell_w cell_h p =
    (if accepted
     then p\<lparr>pp_cols := cols, pp_rows := rows, pp_pixels := (sat_mul_u16 cols cell_w, sat_mul_u16 rows cell_h)\<rparr>
     else p)"

text \<open>\<open>kill(2)\<close> with SIGTERM: the error of the system, if any; a child that is gone is no error.\<close>

datatype kill_answer = Kill_Ok | Kill_Esrch | Kill_Error string

definition pty_terminate :: "nat option \<Rightarrow> (nat \<Rightarrow> kill_answer) \<Rightarrow> string + unit" where
  "pty_terminate pid kill =
    (case pid of None \<Rightarrow> Inr ()
     | Some p \<Rightarrow> (case kill p of Kill_Ok \<Rightarrow> Inr () | Kill_Esrch \<Rightarrow> Inr () | Kill_Error e \<Rightarrow> Inl e))"

definition pty_cwd :: "nat option \<Rightarrow> (string \<Rightarrow> string option) \<Rightarrow> string option" where
  "pty_cwd pid read_link = (case pid of None \<Rightarrow> None | Some p \<Rightarrow> read_link (''/proc/'' @ show_nat p @ ''/cwd''))"

section \<open>The program's entry\<close>

datatype main_run = Main_Trampoline "string list" | Main_Permissions | Main_Cockpit

definition lmux_main :: "string list \<Rightarrow> main_run" where
  "lmux_main args =
    (case args of
       [] \<Rightarrow> Main_Cockpit
     | first # rest \<Rightarrow>
         if first = ''--exec-pty'' then Main_Trampoline rest
         else if first = ''--request-permissions'' then Main_Permissions
         else Main_Cockpit)"

datatype run_result = Runs string "string list" | Exits nat

definition SIGTERM :: nat where "SIGTERM = 15"

text \<open>The signal the child gets when its parent dies, and what becomes of the process; \<open>execvp\<close> says if the program
  could be started.\<close>

definition pty_trampoline :: "(string \<Rightarrow> string list \<Rightarrow> bool) \<Rightarrow> string list \<Rightarrow> nat option \<times> run_result" where
  "pty_trampoline execvp rest =
    (Some SIGTERM,
     if rest = [] then Exits 2
     else if list_ex (\<lambda>a. CHR 0x00 \<in> set a) rest then Exits 2
     else if execvp (hd rest) rest then Runs (hd rest) rest
     else Exits 127)"

text \<open>What runs behind a started command: the program itself, or what the trampoline makes of its arguments.\<close>

definition command_runs ::
  "(string \<Rightarrow> string list \<Rightarrow> bool) \<Rightarrow> string option \<Rightarrow> pty_command \<Rightarrow> nat option \<times> run_result" where
  "command_runs execvp trampoline c =
    (if trampoline = Some (pc_program c)
     then (case lmux_main (pc_args c) of Main_Trampoline rest \<Rightarrow> pty_trampoline execvp rest | _ \<Rightarrow> (None, Exits 0))
     else (None, Runs (pc_program c) (pc_program c # pc_args c)))"

section \<open>A new pane\<close>

definition INIT_COLS :: nat where "INIT_COLS = 100"
definition INIT_ROWS :: nat where "INIT_ROWS = 30"

record pane_world =
  pw_engine :: engine_answers
  pw_system :: pty_system
  pw_env :: environ
  pw_passwd :: "string option"
  pw_current_exe :: "string option"
  pw_exists :: "string \<Rightarrow> bool"
  pw_version :: string

text \<open>A refused terminal drops the engine's handles again.\<close>

definition terminal_pane_new :: "pane_world \<Rightarrow> string option \<Rightarrow> ffi_op list \<times> pty_pane option" where
  "terminal_pane_new w cwd =
    (let (ops, made) = terminal_new (pw_engine w)
     in if \<not> made then (ops, None)
        else let shell = detect_shell (pw_env w) (pw_passwd w);
                 trampoline = trampoline_path (pw_env w) (pw_current_exe w) (pw_exists w)
             in case pty_spawn (pw_system w) trampoline (pw_version w) shell INIT_COLS INIT_ROWS cwd of
                  Inl e \<Rightarrow> (ops @ terminal_drop, None)
                | Inr pty \<Rightarrow> (ops, Some pty))"

definition snapshot_cwd :: "string option \<Rightarrow> string option \<Rightarrow> string option" where
  "snapshot_cwd live spawn_cwd = (case live of Some l \<Rightarrow> Some l | None \<Rightarrow> spawn_cwd)"

section \<open>Properties\<close>

lemma terminal_new_alive:
  "alive (fst (terminal_new a)) [] =
    Some (if snd (terminal_new a) then [H_Row_Cells, H_Row_Iterator, H_Render_State, H_Term] else [])"
  by (simp add: terminal_new_def free_all_def Let_def)

lemma alive_append: "alive (xs @ ys) hs = (case alive xs hs of None \<Rightarrow> None | Some hs' \<Rightarrow> alive ys hs')"
  by (induction xs hs rule: alive.induct) (auto split: list.split)

text \<open>C24: A pane holds all of the engine's handles or none: whatever the engine and the system refuse, the calls made
  for a new pane never use or free a handle that is not alive and free them in the reverse order of their
  allocation; a pane that was not made has left none alive, and one that was made has all four, which its
  drop frees.\<close>

theorem pane_holds_handles_or_none:
  "alive (fst (terminal_pane_new w cwd)) [] =
      Some (case snd (terminal_pane_new w cwd) of None \<Rightarrow> [] | Some p \<Rightarrow> [H_Row_Cells, H_Row_Iterator, H_Render_State, H_Term]) \<and>
    alive (fst (terminal_pane_new w cwd) @ (case snd (terminal_pane_new w cwd) of None \<Rightarrow> [] | Some p \<Rightarrow> terminal_drop)) [] =
      Some []"
proof -
  note a = terminal_new_alive [of "pw_engine w"]
  obtain ops made where n: "terminal_new (pw_engine w) = (ops, made)" by (cases "terminal_new (pw_engine w)")
  show ?thesis
    using a by (simp add: terminal_pane_new_def n Let_def alive_append terminal_drop_def free_all_def split: sum.split)
qed

text \<open>The trampoline is transparent: the process of a pane runs the user's shell with the arguments of a login
  shell, the same through the trampoline as without it, and through it the shell is told when the cockpit
  dies. Assumed is a shell whose name has no null byte and that can be started.\<close>

theorem trampoline_is_transparent:
  assumes "CHR 0x00 \<notin> set shell" and "execvp shell (shell # login_shell_args shell)"
  shows "snd (command_runs execvp trampoline (shell_command trampoline version shell cwd)) =
      Runs shell (shell # login_shell_args shell) \<and>
    (trampoline \<noteq> None \<longleftrightarrow> fst (command_runs execvp trampoline (shell_command trampoline version shell cwd)) = Some SIGTERM)"
proof -
  have "list_all (\<lambda>a. CHR 0x00 \<notin> set a) (login_shell_args shell)" by (simp add: login_shell_args_def)
  then have "\<not> list_ex (\<lambda>a. CHR 0x00 \<in> set a) (login_shell_args shell)" by (simp add: list_all_iff list_ex_iff)
  then show ?thesis
    using assms by (cases trampoline) (simp_all add: command_runs_def shell_command_def lmux_main_def pty_trampoline_def)
qed

theorem trampoline_is_transparent_witness:
  "command_runs (\<lambda>_ _. True) (Some ''/usr/bin/lmux'') (shell_command (Some ''/usr/bin/lmux'') ''0.1'' ''/bin/zsh'' None) =
    (Some SIGTERM, Runs ''/bin/zsh'' [''/bin/zsh'', ''-l''])"
proof -
  have "login_shell_args ''/bin/zsh'' = [''-l'']" by (simp add: login_shell_args_def path_file_name_def)
  then show ?thesis
    using trampoline_is_transparent [of "''/bin/zsh''" "\<lambda>_ _. True" "Some ''/usr/bin/lmux''" "''0.1''" None]
    by (auto intro: prod_eqI)
qed

text \<open>A shell that cannot be started shows as a child that exits with 127 when there is a trampoline.\<close>

lemma missing_shell_exits:
  "CHR 0x00 \<notin> set shell \<Longrightarrow> \<not> execvp shell (shell # login_shell_args shell) \<Longrightarrow>
    command_runs execvp (Some t) (shell_command (Some t) version shell cwd) = (Some SIGTERM, Exits 127)"
  by (auto simp: command_runs_def shell_command_def lmux_main_def pty_trampoline_def login_shell_args_def)

text \<open>Blanks around the shell of the password file are cut, those of the environment are kept.\<close>

lemma shell_of_environment_untrimmed:
  "env ''SHELL'' = Some '' /bin/zsh'' \<Longrightarrow> detect_shell env passwd = '' /bin/zsh''"
  by (simp add: detect_shell_def trim_def is_space_def)

lemma shell_of_passwd_trimmed:
  "env ''SHELL'' = None \<Longrightarrow> detect_shell env (Some '' /bin/zsh'') = ''/bin/zsh''"
  by (simp add: detect_shell_def login_shell_from_passwd_def some_trimmed_def trim_def is_space_def)

end
