(* ===== verification/PanePaste.thy ===== *)
theory PanePaste
  imports PaneStart "HOL-Library.Word"
begin

unbundle bit_operations_syntax

text \<open>
  Pasting into a terminal (\<open>crates/lmux/src/pane.rs\<close>): what is taken from the clipboard, the private directory an
  image is written to, and the bytes the child gets. The clipboard's answers and the file system's refusals
  are arguments.
\<close>

section \<open>Writing to the child\<close>

text \<open>\<open>write_all\<close> to a terminal that takes \<open>k\<close> more bytes before it fails, and how many it takes after that.\<close>

definition tty_write :: "byte list \<Rightarrow> nat \<times> pty_pane \<Rightarrow> nat \<times> pty_pane" where
  "tty_write bytes = (\<lambda>(k, p). (k - length bytes, p\<lparr>pp_written := pp_written p @ take k bytes\<rparr>))"

lemma tty_write_keeps [simp]:
  "pp_cols (snd (tty_write bs kp)) = pp_cols (snd kp)" "pp_rows (snd (tty_write bs kp)) = pp_rows (snd kp)"
  by (cases kp; simp add: tty_write_def)+

definition PASTE_START :: "byte list" where "PASTE_START = [0x1b, 0x5b, 0x32, 0x30, 0x30, 0x7e]"
definition PASTE_END :: "byte list" where "PASTE_END = [0x1b, 0x5b, 0x32, 0x30, 0x31, 0x7e]"

definition paste_write :: "bool \<Rightarrow> byte list \<Rightarrow> nat \<Rightarrow> pty_pane \<Rightarrow> pty_pane" where
  "paste_write bracketed text k p =
    (let a = (if bracketed then tty_write PASTE_START (k, p) else (k, p));
         b = tty_write text a
     in snd (if bracketed then tty_write PASTE_END b else b))"

lemma paste_write_keeps [simp]:
  "pp_cols (paste_write b text k p) = pp_cols p" "pp_rows (paste_write b text k p) = pp_rows p"
  by (simp_all add: paste_write_def Let_def)

section \<open>The private directory\<close>

record dir_entry =
  de_is_dir :: bool
  de_uid :: nat
  de_mode :: "32 word"

record paste_files =
  pf_entries :: "string \<rightharpoonup> dir_entry"
  pf_umask :: "32 word"
  pf_uid :: nat
  pf_refuse_create :: "string \<Rightarrow> string option"
  pf_refuse_mode :: "string \<Rightarrow> string option"

definition paste_dir :: "environ \<Rightarrow> string \<Rightarrow> nat \<Rightarrow> string" where
  "paste_dir env temp_dir uid =
    (case (case env ''XDG_RUNTIME_DIR'' of Some rt \<Rightarrow> if rt = [] then None else Some rt | None \<Rightarrow> None) of
       Some rt \<Rightarrow> path_join rt ''lmux/pastes''
     | None \<Rightarrow> path_join temp_dir (''lmux-pastes-'' @ show_nat uid))"

definition MODE_0700 :: "32 word" where "MODE_0700 = 0x1C0"
definition MODE_0600 :: "32 word" where "MODE_0600 = 0x180"
definition MODE_OTHERS :: "32 word" where "MODE_OTHERS = 0x3F"

text \<open>\<open>DirBuilder::create\<close>, which is content with a directory that is there; only the last one is of interest.\<close>

definition create_dir :: "string \<Rightarrow> paste_files \<Rightarrow> string + paste_files" where
  "create_dir dir f =
    (case pf_refuse_create f dir of
       Some e \<Rightarrow> Inl e
     | None \<Rightarrow> (case pf_entries f dir of
         Some d \<Rightarrow> if de_is_dir d then Inr f else Inl ''file exists''
       | None \<Rightarrow> Inr (f\<lparr>pf_entries := (pf_entries f)
           (dir \<mapsto> \<lparr>de_is_dir = True, de_uid = pf_uid f, de_mode = MODE_0700 AND NOT (pf_umask f)\<rparr>)\<rparr>)))"

definition set_mode :: "string \<Rightarrow> 32 word \<Rightarrow> paste_files \<Rightarrow> string + paste_files" where
  "set_mode p m f =
    (case pf_refuse_mode f p of
       Some e \<Rightarrow> Inl e
     | None \<Rightarrow> (case pf_entries f p of
         None \<Rightarrow> Inl ''not found''
       | Some d \<Rightarrow> Inr (f\<lparr>pf_entries := (pf_entries f)(p \<mapsto> d\<lparr>de_mode := m\<rparr>)\<rparr>)))"

definition ensure_private_paste_dir :: "string \<Rightarrow> paste_files \<Rightarrow> string + paste_files" where
  "ensure_private_paste_dir dir f0 =
    (case create_dir dir f0 of
       Inl e \<Rightarrow> Inl e
     | Inr f \<Rightarrow> (case pf_entries f dir of
         None \<Rightarrow> Inl ''not found''
       | Some d \<Rightarrow>
           if \<not> de_is_dir d then Inl (''paste path is not a directory: '' @ dir)
           else if de_uid d \<noteq> pf_uid f then Inl (''paste directory '' @ dir @ '' is owned by uid '' @ show_nat (de_uid d) @
             '', expected '' @ show_nat (pf_uid f))
           else if de_mode d AND MODE_OTHERS \<noteq> 0 then set_mode dir MODE_0700 f
           else Inr f))"

text \<open>
  The image's file: \<open>save\<close> is the toolkit's, which makes the file as the process's mask has it, or says why
  it could not; \<open>unique\<close> is a fresh identifier.
\<close>

definition write_clipboard_image ::
  "string \<Rightarrow> string \<Rightarrow> (string \<Rightarrow> string option) \<Rightarrow> paste_files \<Rightarrow> (string + string) \<times> paste_files" where
  "write_clipboard_image dir unique save f0 =
    (case ensure_private_paste_dir dir f0 of
       Inl e \<Rightarrow> (Inl e, f0)
     | Inr f \<Rightarrow>
         let path = path_join dir (''paste-'' @ unique @ ''.png'')
         in (case save path of
              Some e \<Rightarrow> (Inl (''gdk_texture_save_to_png failed: '' @ e), f)
            | None \<Rightarrow>
                let f1 = f\<lparr>pf_entries := (pf_entries f)
                  (path \<mapsto> \<lparr>de_is_dir = False, de_uid = pf_uid f, de_mode = 0x1B6 AND NOT (pf_umask f)\<rparr>)\<rparr>
                in (case set_mode path MODE_0600 f1 of Inl e \<Rightarrow> (Inl e, f1) | Inr f2 \<Rightarrow> (Inr path, f2))))"

section \<open>The clipboard\<close>

datatype 'a clip_read = Clip_Err | Clip_None | Clip_Some 'a

definition fallback_text_paste :: "byte list clip_read \<Rightarrow> byte list option" where
  "fallback_text_paste text = (case text of Clip_Some t \<Rightarrow> if t = [] then None else Some t | _ \<Rightarrow> None)"

text \<open>What is pasted: the path of an image written to a file, or the text.\<close>

definition request_paste ::
  "bool \<Rightarrow> 'x clip_read \<Rightarrow> ('x \<Rightarrow> string + string) \<Rightarrow> (string \<Rightarrow> byte list) \<Rightarrow> byte list clip_read \<Rightarrow> byte list option" where
  "request_paste has_image texture write_image utf8 text =
    (if has_image
     then (case texture of
         Clip_Some tx \<Rightarrow> (case write_image tx of Inr path \<Rightarrow> Some (utf8 path) | Inl _ \<Rightarrow> None)
       | _ \<Rightarrow> fallback_text_paste text)
     else fallback_text_paste text)"

section \<open>Properties\<close>

text \<open>The reference: a program that reads a bracketed paste takes what stands before the first end mark.\<close>

fun before_mark :: "byte list \<Rightarrow> byte list \<Rightarrow> (byte list \<times> byte list) option" where
  "before_mark m [] = (if m = [] then Some ([], []) else None)"
| "before_mark m (b # bs) =
    (if take (length m) (b # bs) = m then Some ([], drop (length m) (b # bs))
     else map_option (\<lambda>(x, y). (b # x, y)) (before_mark m bs))"

definition read_bracketed :: "byte list \<Rightarrow> (byte list \<times> byte list) option" where
  "read_bracketed bs = (if take 6 bs = PASTE_START then before_mark PASTE_END (drop 6 bs) else None)"

text \<open>The end mark does not overlap itself: its first occurrence after a text without it is where it was put.\<close>

lemma length_end: "length PASTE_END = 6"
  by (simp add: PASTE_END_def)

lemma end_mark_first:
  "\<not> sublist PASTE_END xs \<Longrightarrow> before_mark PASTE_END (xs @ PASTE_END @ rest) = Some (xs, rest)"
proof (induction xs)
  case Nil
  show ?case by (simp add: PASTE_END_def)
next
  case (Cons b xs)
  have no: "\<not> sublist PASTE_END xs" using Cons.prems by (auto simp: sublist_Cons_right)
  have "take 6 (b # xs @ PASTE_END @ rest) \<noteq> PASTE_END"
  proof
    assume eq: "take 6 (b # xs @ PASTE_END @ rest) = PASTE_END"
    show False
    proof (cases "5 \<le> length xs")
      case True
      then have "take 6 (b # xs) = PASTE_END" using eq by simp
      then have "prefix PASTE_END (b # xs)" by (metis take_is_prefix)
      then show False using Cons.prems by (simp add: prefix_imp_sublist)
    next
      case False
      have "(take 6 (b # xs @ PASTE_END @ rest)) ! Suc (length xs) = PASTE_END ! Suc (length xs)" using eq by simp
      moreover have "(take 6 (b # xs @ PASTE_END @ rest)) ! Suc (length xs) = 0x1b"
        using False by (simp add: nth_append PASTE_END_def)
      moreover have "Suc (length xs) \<in> {1, 2, 3, 4, 5}" using False by (simp flip: length_0_conv) arith
      ultimately show False by (auto simp: PASTE_END_def)
    qed
  qed
  then show ?case using Cons.IH [OF no] by (simp add: length_end del: take_Suc_Cons)
qed

lemma paste_write_whole:
  "length text + 12 \<le> k \<Longrightarrow> pp_written (paste_write True text k p) = pp_written p @ PASTE_START @ text @ PASTE_END"
  by (simp add: paste_write_def tty_write_def Let_def PASTE_START_def PASTE_END_def)

text \<open>C22: A bracketed paste is read back whole: a program that asked for bracketed pastes gets the text of the
  clipboard between the two marks, byte for byte and nothing after it, whatever the text's newlines and
  escapes. Assumed are a terminal that takes all of it and a text without the end mark.\<close>

theorem paste_is_read_back:
  assumes "length text + 12 \<le> k" and "\<not> sublist PASTE_END text"
  shows "\<exists>w. pp_written (paste_write True text k p) = pp_written p @ w \<and> read_bracketed w = Some (text, [])"
proof -
  have "read_bracketed (PASTE_START @ text @ PASTE_END) = Some (text, [])"
    using end_mark_first [OF assms(2), of "[]"] by (simp add: read_bracketed_def PASTE_START_def)
  then show ?thesis using paste_write_whole [OF assms(1)] by auto
qed

theorem paste_is_read_back_witness:
  "\<exists>w. pp_written (paste_write True [0x6c, 0x73, 0x0a, 0x1b] 20 \<lparr>pp_child = 1, pp_cols = 80, pp_rows = 24, pp_pixels = (0, 0),
      pp_written = []\<rparr>) = w \<and> read_bracketed w = Some ([0x6c, 0x73, 0x0a, 0x1b], [])"
  using paste_is_read_back [of "[0x6c, 0x73, 0x0a, 0x1b]" 20
      "\<lparr>pp_child = 1, pp_cols = 80, pp_rows = 24, pp_pixels = (0, 0), pp_written = []\<rparr>"]
  by (simp add: sublist_code PASTE_END_def)

text \<open>The code does not look for the end mark in the text: what follows it there is read as typed.\<close>

lemma paste_breaks_out:
  assumes "\<not> sublist PASTE_END a"
  shows "read_bracketed (PASTE_START @ (a @ PASTE_END @ typed) @ PASTE_END) = Some (a, typed @ PASTE_END)"
  using end_mark_first [OF assms, of "typed @ PASTE_END"] by (simp add: read_bracketed_def PASTE_START_def)

lemma set_mode_private:
  "set_mode dir MODE_0700 f = Inr g \<Longrightarrow> pf_entries f dir = Some d \<Longrightarrow>
    pf_entries g dir = Some (d\<lparr>de_mode := MODE_0700\<rparr>)"
  by (auto simp: set_mode_def split: option.splits)

text \<open>A directory that is used is the user's own and closed to others, whoever made it and whatever the mask.\<close>

lemma paste_dir_private:
  assumes "ensure_private_paste_dir dir f = Inr g"
  shows "\<exists>d. pf_entries g dir = Some d \<and> de_is_dir d \<and> de_uid d = pf_uid f \<and> de_mode d AND MODE_OTHERS = 0"
proof -
  obtain f1 where f1: "create_dir dir f = Inr f1"
    using assms by (cases "create_dir dir f") (simp_all add: ensure_private_paste_dir_def)
  have uid: "pf_uid f1 = pf_uid f" using f1 by (auto simp: create_dir_def split: option.splits if_splits)
  obtain d where d: "pf_entries f1 dir = Some d" "de_is_dir d" "de_uid d = pf_uid f"
    using assms by (auto simp: ensure_private_paste_dir_def f1 uid split: option.splits if_splits)
  show ?thesis
  proof (cases "de_mode d AND MODE_OTHERS = 0")
    case True
    then show ?thesis using assms d by (simp add: ensure_private_paste_dir_def f1 uid)
  next
    case False
    then have "set_mode dir MODE_0700 f1 = Inr g" using assms d by (simp add: ensure_private_paste_dir_def f1 uid)
    from set_mode_private [OF this d(1)] show ?thesis
      using d by (simp add: MODE_0700_def MODE_OTHERS_def)
  qed
qed

lemma joined_differs: "f \<noteq> [] \<Longrightarrow> hd f \<noteq> CHR ''/'' \<Longrightarrow> path_join d f \<noteq> d"
  by (auto simp: path_join_def dest: arg_cong [of _ _ length])

text \<open>A pasted image can be read by its owner only: when an image of the clipboard was written and its path given
  to the terminal, its file has no permission for others, and it is in a directory that is the user's own
  and has none either, whoever had made that directory before and whatever the process's mask.\<close>

theorem pasted_image_is_private:
  "case write_clipboard_image dir unique save f of
     (Inl e, g) \<Rightarrow> True
   | (Inr path, g) \<Rightarrow> \<exists>d i. pf_entries g dir = Some d \<and> de_is_dir d \<and> de_uid d = pf_uid f \<and> de_mode d AND MODE_OTHERS = 0 \<and>
       pf_entries g path = Some i \<and> de_mode i AND MODE_OTHERS = 0"
proof (cases "ensure_private_paste_dir dir f")
  case (Inl e)
  then show ?thesis by (simp add: write_clipboard_image_def)
next
  case (Inr f1)
  obtain d where d: "pf_entries f1 dir = Some d" "de_is_dir d" "de_uid d = pf_uid f" "de_mode d AND MODE_OTHERS = 0"
    using paste_dir_private [OF Inr] by blast
  define path where "path = path_join dir (''paste-'' @ unique @ ''.png'')"
  have "dir \<noteq> path" using joined_differs [of "''paste-'' @ unique @ ''.png''" dir] by (simp add: path_def)
  then have "case write_clipboard_image dir unique save f of (Inl e, g) \<Rightarrow> True
     | (Inr p, g) \<Rightarrow> p = path \<and> pf_entries g dir = Some d \<and> (\<exists>i. pf_entries g path = Some i \<and> de_mode i = MODE_0600)"
    using d by (auto simp: write_clipboard_image_def Inr Let_def set_mode_def path_def split: option.splits)
  then show ?thesis
    using d by (auto simp: MODE_0600_def MODE_OTHERS_def split: prod.splits sum.splits)
qed

end
