(* ===== verification/TermView.thy ===== *)
theory TermView
  imports TermQueries Search
begin

text \<open>
  What a terminal shows: the walk of the engine's wrapper over the cells of a frame and its selections
  (\<open>crates/lmux-libghostty/src/lib.rs\<close>), the drawing of a frame (\<open>crates/lmux/src/render.rs\<close>), and the frozen
  frame and the thumbnail of a pane (\<open>crates/lmux/src/pane.rs\<close>). The engine's answers are arguments; cairo is a
  list of drawing operations; text is a list of Unicode scalar values.
\<close>

section \<open>The walk over the cells\<close>

record frame =
  fr_background :: rgb
  fr_foreground :: rgb
  fr_cols :: nat
  fr_rows :: nat

record cell_view =
  cv_row :: nat
  cv_col :: nat
  cv_text :: "nat list"
  cv_fg :: rgb
  cv_bg :: rgb
  cv_bg_is_default :: bool

record cursor_pos =
  cp_row :: nat
  cp_col :: nat
  cp_fg :: rgb

datatype visit = V_Begin frame | V_Cell cell_view | V_Cursor cursor_pos | V_End

text \<open>A cell as the engine describes it; a colour it does not give is \<open>None\<close>.\<close>

record raw_cell =
  rc_graphemes :: "nat list"
  rc_bg :: "rgb option"
  rc_fg :: "rgb option"

record render_state =
  rs_background :: rgb
  rs_foreground :: rgb
  rs_rows :: "raw_cell list list"
  rs_cursor_visible :: bool
  rs_cursor_in_viewport :: bool
  rs_cursor_x :: nat
  rs_cursor_y :: nat

definition scalar :: "nat \<Rightarrow> bool" where
  "scalar c \<longleftrightarrow> c < 0xD800 \<or> (0xE000 \<le> c \<and> c < 0x110000)"

definition render_cell :: "render_state \<Rightarrow> nat \<Rightarrow> nat \<Rightarrow> raw_cell \<Rightarrow> visit list" where
  "render_cell rs row col c =
    (let bg = (case rc_bg c of Some b \<Rightarrow> b | None \<Rightarrow> rs_background rs);
         bg_is_default = (rc_bg c = None \<or> bg = rs_background rs);
         fg = (case rc_fg c of Some f \<Rightarrow> f | None \<Rightarrow> rs_foreground rs);
         cell = (\<lambda>text. V_Cell \<lparr>cv_row = row, cv_col = col, cv_text = text, cv_fg = fg, cv_bg = bg,
           cv_bg_is_default = bg_is_default\<rparr>)
     in if rc_graphemes c = [] then (if bg_is_default then [] else [cell []])
        else [cell (filter scalar (take 16 (rc_graphemes c)))])"

definition render_row :: "render_state \<Rightarrow> nat \<Rightarrow> raw_cell list \<Rightarrow> visit list" where
  "render_row rs row cells = concat (map (\<lambda>(col, c). render_cell rs row col c) (enumerate 0 cells))"

definition render_cells :: "render_state \<Rightarrow> visit list" where
  "render_cells rs = concat (map (\<lambda>(row, cells). render_row rs row cells) (enumerate 0 (rs_rows rs)))"

definition render_cursor :: "render_state \<Rightarrow> visit list" where
  "render_cursor rs =
    (if rs_cursor_visible rs \<and> rs_cursor_in_viewport rs
     then [V_Cursor \<lparr>cp_row = rs_cursor_y rs, cp_col = rs_cursor_x rs, cp_fg = rs_foreground rs\<rparr>] else [])"

definition render :: "nat \<Rightarrow> nat \<Rightarrow> render_state \<Rightarrow> visit list" where
  "render cols rows rs =
    V_Begin \<lparr>fr_background = rs_background rs, fr_foreground = rs_foreground rs, fr_cols = cols, fr_rows = rows\<rparr> #
    render_cells rs @ render_cursor rs @ [V_End]"

section \<open>Selections\<close>

definition point_le :: "nat \<times> nat \<Rightarrow> nat \<times> nat \<Rightarrow> bool" where
  "point_le a b \<longleftrightarrow> fst a < fst b \<or> (fst a = fst b \<and> snd a \<le> snd b)"

definition normalise_range :: "nat \<times> nat \<Rightarrow> nat \<times> nat \<Rightarrow> (nat \<times> nat) \<times> (nat \<times> nat)" where
  "normalise_range a b = (if point_le a b then (a, b) else (b, a))"

lemma normalise_range_sym: "normalise_range a b = normalise_range b a"
  by (cases a; cases b) (auto simp: normalise_range_def point_le_def)

text \<open>The engine's references into its grid, by viewport or by screen, and its formatter.\<close>

record ('t, 'g) engine =
  eg_viewport_ref :: "'t \<Rightarrow> nat \<times> nat \<Rightarrow> 'g option"
  eg_screen_ref :: "'t \<Rightarrow> nat \<times> nat \<Rightarrow> 'g option"
  eg_screen_point :: "'t \<Rightarrow> 'g \<Rightarrow> (nat \<times> nat) option"
  eg_format :: "'t \<Rightarrow> 'g \<Rightarrow> 'g \<Rightarrow> byte list option"
  eg_lossy :: "byte list \<Rightarrow> string"

definition selection_text_by :: "('t, 'g) engine \<Rightarrow> ('t \<Rightarrow> nat \<times> nat \<Rightarrow> 'g option) \<Rightarrow> 't \<Rightarrow> nat \<times> nat \<Rightarrow> nat \<times> nat \<Rightarrow> string option" where
  "selection_text_by eg ref t a b =
    (let (s, e) = normalise_range a b
     in case ref t s of None \<Rightarrow> None
        | Some rs \<Rightarrow> (case ref t e of None \<Rightarrow> None
            | Some re \<Rightarrow> map_option (eg_lossy eg) (eg_format eg t rs re)))"

definition selection_text :: "('t, 'g) engine \<Rightarrow> 't \<Rightarrow> nat \<times> nat \<Rightarrow> nat \<times> nat \<Rightarrow> string option" where
  "selection_text eg = selection_text_by eg (eg_viewport_ref eg)"

definition selection_text_screen :: "('t, 'g) engine \<Rightarrow> 't \<Rightarrow> nat \<times> nat \<Rightarrow> nat \<times> nat \<Rightarrow> string option" where
  "selection_text_screen eg = selection_text_by eg (eg_screen_ref eg)"

lemma selection_either_way:
  "selection_text eg t a b = selection_text eg t b a"
  "selection_text_screen eg t a b = selection_text_screen eg t b a"
  by (simp_all add: selection_text_def selection_text_screen_def selection_text_by_def normalise_range_sym [of a b])

definition screen_point_from_viewport :: "('t, 'g) engine \<Rightarrow> 't \<Rightarrow> nat \<times> nat \<Rightarrow> screen_point option" where
  "screen_point_from_viewport eg t p =
    (case eg_viewport_ref eg t p of None \<Rightarrow> None
     | Some r \<Rightarrow> map_option (\<lambda>(x, y). \<lparr>sp_row = y, sp_col = x\<rparr>) (eg_screen_point eg t r))"

definition viewport_top_screen_row :: "('t, 'g) engine \<Rightarrow> 't \<Rightarrow> nat option" where
  "viewport_top_screen_row eg t = map_option sp_row (screen_point_from_viewport eg t (0, 0))"

section \<open>Drawing\<close>

text \<open>A range of the screen: the selection, or a hit of the search.\<close>

record screen_range =
  sg_start :: "nat \<times> nat"
  sg_end :: "nat \<times> nat"
  sg_active :: bool
  sg_top :: nat

definition screen_range_new :: "screen_point \<Rightarrow> screen_point \<Rightarrow> bool \<Rightarrow> nat \<Rightarrow> screen_range" where
  "screen_range_new a b act vtop =
    (let (s, e) = normalise_range (sp_row a, sp_col a) (sp_row b, sp_col b)
     in \<lparr>sg_start = s, sg_end = e, sg_active = act, sg_top = vtop\<rparr>)"

definition range_contains :: "screen_range \<Rightarrow> nat \<Rightarrow> nat \<Rightarrow> bool" where
  "range_contains g row col \<longleftrightarrow>
    point_le (sg_start g) (add_u32_wrap (sg_top g) row, col) \<and> point_le (add_u32_wrap (sg_top g) row, col) (sg_end g)"

datatype ink = Ink rgb | Ink_Match | Ink_Active | Ink_Selected | Ink_Cursor rgb | Ink_Exit

datatype draw_op =
  D_Paint rgb
| D_Fill ink nat nat nat nat
| D_Text rgb "nat list" nat nat
| D_Exit_Text int nat

record renderer =
  rd_cell_w :: nat
  rd_cell_h :: nat
  rd_selection :: "screen_range option"
  rd_search :: "screen_range list"
  rd_exit_code :: "int option"
  rd_frame :: "frame option"
  rd_drawn :: "draw_op list"

definition draw :: "draw_op list \<Rightarrow> renderer \<Rightarrow> renderer" where
  "draw ops r = r\<lparr>rd_drawn := rd_drawn r @ ops\<rparr>"

definition draw_begin :: "frame \<Rightarrow> renderer \<Rightarrow> renderer" where
  "draw_begin f r = (draw [D_Paint (fr_background f)] r)\<lparr>rd_frame := Some f\<rparr>"

definition draw_cell :: "cell_view \<Rightarrow> renderer \<Rightarrow> renderer" where
  "draw_cell c r =
    (let x = cv_col c * rd_cell_w r; y = cv_row c * rd_cell_h r;
         fill = (\<lambda>i. D_Fill i x y (rd_cell_w r) (rd_cell_h r));
         selected = (case rd_selection r of Some s \<Rightarrow> range_contains s (cv_row c) (cv_col c) | None \<Rightarrow> False);
         act = list_ex (\<lambda>m. sg_active m \<and> range_contains m (cv_row c) (cv_col c)) (rd_search r);
         hit = (\<not> act \<and> list_ex (\<lambda>m. \<not> sg_active m \<and> range_contains m (cv_row c) (cv_col c)) (rd_search r))
     in draw ((if cv_bg_is_default c then [] else [fill (Ink (cv_bg c))]) @ (if hit then [fill Ink_Match] else []) @
          (if act then [fill Ink_Active] else []) @ (if selected then [fill Ink_Selected] else []) @
          [D_Text (cv_fg c) (cv_text c) x y]) r)"

definition draw_cursor :: "cursor_pos \<Rightarrow> renderer \<Rightarrow> renderer" where
  "draw_cursor c r =
    draw [D_Fill (Ink_Cursor (cp_fg c)) (cp_col c * rd_cell_w r) (cp_row c * rd_cell_h r) (rd_cell_w r) (rd_cell_h r)] r"

definition draw_exit_banner :: "int \<Rightarrow> renderer \<Rightarrow> renderer" where
  "draw_exit_banner code r =
    (case rd_frame r of None \<Rightarrow> r
     | Some f \<Rightarrow> if fr_rows f = 0 then r
         else let y = (fr_rows f - 1) * rd_cell_h r
              in draw [D_Fill Ink_Exit 0 y (max (fr_cols f) 1 * rd_cell_w r) (rd_cell_h r), D_Exit_Text code y] r)"

definition draw_end :: "renderer \<Rightarrow> renderer" where
  "draw_end r = (case rd_exit_code r of Some code \<Rightarrow> draw_exit_banner code r | None \<Rightarrow> r)"

fun draw_visit :: "visit \<Rightarrow> renderer \<Rightarrow> renderer" where
  "draw_visit (V_Begin f) r = draw_begin f r"
| "draw_visit (V_Cell c) r = draw_cell c r"
| "draw_visit (V_Cursor c) r = draw_cursor c r"
| "draw_visit V_End r = draw_end r"

section \<open>The frozen frame\<close>

record frozen_frame =
  fz_top :: nat
  fz_frame :: frame
  fz_cells :: "cell_view list"

text \<open>\<open>FrozenVisitor\<close>: the frame, if one began, and its cells.\<close>

fun frozen_visit :: "visit \<Rightarrow> frame option \<times> cell_view list \<Rightarrow> frame option \<times> cell_view list" where
  "frozen_visit (V_Begin f) v = (Some f, [])"
| "frozen_visit (V_Cell c) v = (fst v, snd v @ [c])"
| "frozen_visit (V_Cursor c) v = v"
| "frozen_visit V_End v = v"

definition freeze :: "nat \<Rightarrow> visit list \<Rightarrow> frozen_frame option" where
  "freeze vtop vs =
    (let (f, cells) = fold frozen_visit vs (None, [])
     in map_option (\<lambda>f. \<lparr>fz_top = vtop, fz_frame = f, fz_cells = cells\<rparr>) f)"

definition draw_frozen :: "frozen_frame \<Rightarrow> renderer \<Rightarrow> renderer" where
  "draw_frozen z r = draw_end (fold draw_cell (fz_cells z) (draw_begin (fz_frame z) r))"

section \<open>The thumbnail\<close>

definition whitespace :: "nat \<Rightarrow> bool" where
  "whitespace c \<longleftrightarrow> (9 \<le> c \<and> c \<le> 13) \<or> c \<in> {0x20, 0x85, 0xA0, 0x1680, 0x2028, 0x2029, 0x202F, 0x205F, 0x3000} \<or>
    (0x2000 \<le> c \<and> c \<le> 0x200A)"

text \<open>The background the visitor also keeps is never read.\<close>

record thumbnail =
  th_cols :: nat
  th_rows :: nat
  th_buf :: "byte list"

definition thumbnail_new :: "nat \<Rightarrow> nat \<Rightarrow> thumbnail" where
  "thumbnail_new cols rows = \<lparr>th_cols = cols, th_rows = rows, th_buf = replicate (cols * rows * 3) 0\<rparr>"

definition write_pixel :: "nat \<Rightarrow> nat \<Rightarrow> rgb \<Rightarrow> thumbnail \<Rightarrow> thumbnail" where
  "write_pixel row col = (\<lambda>(r, g, b) t.
     if row \<ge> th_rows t \<or> col \<ge> th_cols t then t
     else let i = (row * th_cols t + col) * 3
          in t\<lparr>th_buf := (th_buf t)[i := r, i + 1 := g, i + 2 := b]\<rparr>)"

fun thumbnail_visit :: "visit \<Rightarrow> thumbnail \<Rightarrow> thumbnail" where
  "thumbnail_visit (V_Begin f) t =
    (let (r, g, b) = fr_background f; n = length (th_buf t) div 3
     in t\<lparr>th_buf := concat (replicate n [r, g, b]) @ drop (n * 3) (th_buf t)\<rparr>)"
| "thumbnail_visit (V_Cell c) t =
    write_pixel (cv_row c) (cv_col c) (if list_all whitespace (cv_text c) then cv_bg c else cv_fg c) t"
| "thumbnail_visit (V_Cursor c) t = t"
| "thumbnail_visit V_End t = t"

definition snapshot_thumbnail :: "nat \<Rightarrow> nat \<Rightarrow> visit list \<Rightarrow> (nat \<times> nat \<times> byte list) option" where
  "snapshot_thumbnail cols rows vs =
    (if cols = 0 \<or> rows = 0 then None
     else Some (cols, rows, th_buf (fold thumbnail_visit vs (thumbnail_new cols rows))))"

section \<open>A frozen frame looks like the live one\<close>

fun is_cursor :: "visit \<Rightarrow> bool" where
  "is_cursor (V_Cursor _) = True"
| "is_cursor _ = False"

definition cells_of :: "visit list \<Rightarrow> cell_view list" where
  "cells_of vs = concat (map (\<lambda>v. case v of V_Cell c \<Rightarrow> [c] | _ \<Rightarrow> []) vs)"

lemma render_cell_cells: "map V_Cell (cells_of (render_cell rs r c x)) = render_cell rs r c x"
  by (simp add: render_cell_def cells_of_def Let_def)

lemma cells_of_concat: "cells_of (concat vss) = concat (map cells_of vss)"
  by (induction vss) (simp_all add: cells_of_def)

lemma render_row_cells: "map V_Cell (cells_of (render_row rs r xs)) = render_row rs r xs"
  by (simp add: render_row_def cells_of_concat map_concat comp_def split_def render_cell_cells)

lemma render_cells_cells: "map V_Cell (cells_of (render_cells rs)) = render_cells rs"
  by (simp add: render_cells_def cells_of_concat map_concat comp_def split_def render_row_cells)

lemma fold_frozen_cells: "fold frozen_visit (map V_Cell cs) (f, xs) = (f, xs @ cs)"
  by (induction cs arbitrary: xs) simp_all

lemma fold_draw_cells: "fold draw_visit (map V_Cell cs) r = fold draw_cell cs r"
  by (induction cs arbitrary: r) simp_all

text \<open>Freezing changes nothing but the cursor: the frame kept when a selection freezes the view, drawn again
  later with the same selection, search and exit code, gives the very drawing operations of the live
  frame without its cursor, in the same order.\<close>

theorem frozen_frame_draws_the_same:
  "map_option (\<lambda>z. draw_frozen z r) (freeze vtop (render cols rows rs)) =
    Some (fold draw_visit (filter (\<lambda>v. \<not> is_cursor v) (render cols rows rs)) r)"
proof -
  define cs where "cs = cells_of (render_cells rs)"
  have c: "render_cells rs = map V_Cell cs" by (simp add: cs_def render_cells_cells)
  have f: "filter (\<lambda>v. \<not> is_cursor v) (map V_Cell cs) = map V_Cell cs" by (simp add: filter_map comp_def)
  have "filter (\<lambda>v. \<not> is_cursor v) (render_cursor rs) = []" by (simp add: render_cursor_def)
  moreover have "fold frozen_visit (render_cursor rs) x = x" for x by (simp add: render_cursor_def)
  ultimately show ?thesis
    by (simp add: render_def c f freeze_def draw_frozen_def fold_frozen_cells fold_draw_cells del: filter_map)
qed

text \<open>Each cell of the frame in one pixel.\<close>

definition pixel :: "thumbnail \<Rightarrow> nat \<Rightarrow> nat \<Rightarrow> rgb" where
  "pixel t row col =
    (let i = (row * th_cols t + col) * 3 in (th_buf t ! i, th_buf t ! (i + 1), th_buf t ! (i + 2)))"

definition whole :: "nat \<Rightarrow> nat \<Rightarrow> thumbnail \<Rightarrow> bool" where
  "whole cols rows t \<longleftrightarrow> th_cols t = cols \<and> th_rows t = rows \<and> length (th_buf t) = cols * rows * 3"

lemma whole_write [simp]: "whole cols rows (write_pixel r c v t) = whole cols rows t"
  by (cases v) (simp add: whole_def write_pixel_def Let_def)

lemma cell_index_less:
  assumes "r < rows" "c < (cols :: nat)"
  shows "r * cols + c < cols * rows"
proof -
  have "r * cols + c < Suc r * cols" using assms(2) by simp
  also have "\<dots> \<le> rows * cols" using assms(1) by (intro mult_le_mono1) simp
  finally show ?thesis by (simp add: mult.commute)
qed

lemma cell_index_inj:
  assumes "c < cols" "c' < (cols :: nat)" "r * cols + c = r' * cols + c'"
  shows "r = r' \<and> c = c'"
proof -
  have "(r * cols + c) div cols = r" "(r' * cols + c') div cols = r'" using assms(1,2) by simp_all
  then have "r = r'" using assms(3) by simp
  then show ?thesis using assms(3) by simp
qed

lemma pixel_write:
  assumes w: "whole cols rows t" and r: "r < rows" "c < cols"
  shows "pixel (write_pixel r' c' v t) r c = (if r' = r \<and> c' = c then v else pixel t r c)"
proof (cases "r' < rows \<and> c' < cols")
  case True
  obtain a b d where v: "v = (a, b, d)" by (rule prod_cases3)
  have i: "(r * cols + c) * 3 + 2 < length (th_buf t)" using w cell_index_less [OF r] by (simp add: whole_def)
  have "(r' = r \<and> c' = c) \<longleftrightarrow> r' * cols + c' = r * cols + c"
    using cell_index_inj [of c' cols c r' r] True r by auto
  moreover have "(x :: nat) * 3 + j \<noteq> y * 3 + k" if "x \<noteq> y" "j < 3" "k < 3" for x y j k
    using that by presburger
  then have "x * 3 \<noteq> y * 3 + 1" "x * 3 \<noteq> y * 3 + 2" "x * 3 + 1 \<noteq> y * 3" "x * 3 + 1 \<noteq> y * 3 + 2" "x * 3 + 2 \<noteq> y * 3"
    "x * 3 + 2 \<noteq> y * 3 + 1" for x y :: nat
    by presburger+
  ultimately show ?thesis
    using w True i by (auto simp: pixel_def write_pixel_def whole_def v Let_def nth_list_update)
next
  case False
  then have "write_pixel r' c' v t = t" using w by (cases v) (auto simp: write_pixel_def whole_def)
  then show ?thesis using False r by auto
qed

definition shown_bg :: "render_state \<Rightarrow> raw_cell \<Rightarrow> rgb" where
  "shown_bg rs x = (case rc_bg x of Some b \<Rightarrow> b | None \<Rightarrow> rs_background rs)"

definition cell_colour :: "render_state \<Rightarrow> raw_cell \<Rightarrow> rgb" where
  "cell_colour rs x =
    (if list_all whitespace (filter scalar (take 16 (rc_graphemes x))) then shown_bg rs x
     else (case rc_fg x of Some f \<Rightarrow> f | None \<Rightarrow> rs_foreground rs))"

definition left_out :: "render_state \<Rightarrow> raw_cell \<Rightarrow> bool" where
  "left_out rs x \<longleftrightarrow> rc_graphemes x = [] \<and> shown_bg rs x = rs_background rs"

lemma left_out_colour: "left_out rs x \<Longrightarrow> cell_colour rs x = rs_background rs"
  by (simp add: left_out_def cell_colour_def)

lemma thumbnail_cell:
  "fold thumbnail_visit (render_cell rs row col x) t =
    (if left_out rs x then t else write_pixel row col (cell_colour rs x) t)"
  by (auto simp: render_cell_def left_out_def cell_colour_def shown_bg_def Let_def split: option.split)

lemma thumbnail_row:
  "whole cols rows t \<Longrightarrow> r < rows \<Longrightarrow> c < cols \<Longrightarrow>
    whole cols rows (fold thumbnail_visit (concat (map (\<lambda>(col, x). render_cell rs row col x) (enumerate n xs))) t) \<and>
    pixel (fold thumbnail_visit (concat (map (\<lambda>(col, x). render_cell rs row col x) (enumerate n xs))) t) r c =
      (if row = r \<and> n \<le> c \<and> c < n + length xs \<and> \<not> left_out rs (xs ! (c - n)) then cell_colour rs (xs ! (c - n))
       else pixel t r c)"
proof (induction xs arbitrary: n t)
  case (Cons x xs)
  let ?t = "if left_out rs x then t else write_pixel row n (cell_colour rs x) t"
  have w: "whole cols rows ?t" using Cons.prems(1) by simp
  have "xs ! (c - Suc n) = (x # xs) ! (c - n)" if "Suc n \<le> c" using that by (simp add: nth_Cons')
  then show ?case
    using Cons.IH [OF w Cons.prems(2,3), of "Suc n"] pixel_write [OF Cons.prems(1-3), of row n "cell_colour rs x"]
    by (cases "c = n") (auto simp: thumbnail_cell le_Suc_eq nth_Cons')
qed auto

lemma thumbnail_rows:
  "whole cols rows t \<Longrightarrow> r < rows \<Longrightarrow> c < cols \<Longrightarrow>
    whole cols rows (fold thumbnail_visit (concat (map (\<lambda>(row, xs). render_row rs row xs) (enumerate n ys))) t) \<and>
    pixel (fold thumbnail_visit (concat (map (\<lambda>(row, xs). render_row rs row xs) (enumerate n ys))) t) r c =
      (if n \<le> r \<and> r < n + length ys \<and> c < length (ys ! (r - n)) \<and> \<not> left_out rs (ys ! (r - n) ! c)
       then cell_colour rs (ys ! (r - n) ! c) else pixel t r c)"
proof (induction ys arbitrary: n t)
  case (Cons xs ys)
  note row = thumbnail_row [OF Cons.prems, of rs n 0 xs]
  let ?t = "fold thumbnail_visit (render_row rs n xs) t"
  have w: "whole cols rows ?t" using row by (simp add: render_row_def)
  have "ys ! (r - Suc n) = (xs # ys) ! (r - n)" if "Suc n \<le> r" using that by (simp add: nth_Cons')
  then show ?case
    using Cons.IH [OF w Cons.prems(2,3), of "Suc n"] row
    by (cases "r = n") (auto simp: render_row_def le_Suc_eq nth_Cons')
qed auto

lemma thumbnail_begin:
  assumes "whole cols rows t"
  shows "whole cols rows (thumbnail_visit (V_Begin f) t)"
    and "r < rows \<Longrightarrow> c < cols \<Longrightarrow> pixel (thumbnail_visit (V_Begin f) t) r c = fr_background f"
proof -
  obtain a b d where v: "fr_background f = (a, b, d)" by (rule prod_cases3)
  have l: "length (concat (replicate n [a, b, d])) = n * 3" for n by (induction n) simp_all
  show "whole cols rows (thumbnail_visit (V_Begin f) t)" using assms l by (simp add: whole_def v Let_def)
  have n: "j < n \<Longrightarrow> k < 3 \<Longrightarrow> concat (replicate n [a, b, d]) ! (j * 3 + k) = [a, b, d] ! k" for n j k
  proof (induction n arbitrary: j)
    case (Suc n)
    then show ?case by (cases j) (auto simp: less_Suc_eq numeral_eq_Suc)
  qed simp
  assume r: "r < rows" "c < cols"
  show "pixel (thumbnail_visit (V_Begin f) t) r c = fr_background f"
    using n [OF cell_index_less [OF r], of 0] n [OF cell_index_less [OF r], of 1] n [OF cell_index_less [OF r], of 2]
      assms cell_index_less [OF r] l
    by (simp add: whole_def pixel_def v Let_def nth_append)
qed

text \<open>The thumbnail has one pixel for each cell: of a frame with the pane's rows and columns it has three bytes
  for each, and the pixel of a cell is its text's colour where it has text that is not blank, and its
  background otherwise, the frame's where it has none of its own.\<close>

theorem thumbnail_shows_each_cell:
  assumes "0 < rows" "0 < cols" and "length (rs_rows rs) = rows" and "list_all (\<lambda>cells. length cells = cols) (rs_rows rs)"
    and "r < rows" "c < cols"
  shows "\<exists>buf. snapshot_thumbnail cols rows (render cols rows rs) = Some (cols, rows, buf) \<and>
    length buf = cols * rows * 3 \<and>
    (let i = (r * cols + c) * 3 in (buf ! i, buf ! (i + 1), buf ! (i + 2))) = cell_colour rs (rs_rows rs ! r ! c)"
proof -
  let ?f = "\<lparr>fr_background = rs_background rs, fr_foreground = rs_foreground rs, fr_cols = cols, fr_rows = rows\<rparr>"
  let ?begun = "thumbnail_visit (V_Begin ?f) (thumbnail_new cols rows)"
  let ?full = "fold thumbnail_visit (render_cells rs) ?begun"
  have w: "whole cols rows (thumbnail_new cols rows)" by (simp add: thumbnail_new_def whole_def)
  have w0: "whole cols rows ?begun" by (rule thumbnail_begin(1) [OF w])
  have p0: "pixel ?begun r c = rs_background rs" using thumbnail_begin(2) [OF w assms(5,6), of ?f] by simp
  have "length (rs_rows rs ! r) = cols" using assms(3-5) by (simp add: list_all_length)
  then have t: "whole cols rows ?full" "pixel ?full r c = cell_colour rs (rs_rows rs ! r ! c)"
    using thumbnail_rows [OF w0 assms(5,6), of rs 0 "rs_rows rs"] p0 assms(3,5,6) left_out_colour [of rs "rs_rows rs ! r ! c"]
    by (auto simp: render_cells_def)
  have "fold thumbnail_visit (render cols rows rs) (thumbnail_new cols rows) = ?full"
    by (simp add: render_def render_cursor_def)
  then show ?thesis
    using t assms(1,2) by (auto simp: snapshot_thumbnail_def whole_def pixel_def Let_def)
qed

theorem thumbnail_shows_each_cell_witness:
  "\<exists>buf. snapshot_thumbnail 1 1 (render 1 1 \<lparr>rs_background = (1, 2, 3), rs_foreground = (4, 5, 6),
      rs_rows = [[\<lparr>rc_graphemes = [0x41], rc_bg = None, rc_fg = None\<rparr>]], rs_cursor_visible = True,
      rs_cursor_in_viewport = True, rs_cursor_x = 0, rs_cursor_y = 0\<rparr>) = Some (1, 1, buf) \<and> buf ! 0 = 4"
proof -
  let ?rs = "\<lparr>rs_background = (1, 2, 3), rs_foreground = (4, 5, 6), rs_rows = [[\<lparr>rc_graphemes = [0x41], rc_bg = None, rc_fg = None\<rparr>]],
    rs_cursor_visible = True, rs_cursor_in_viewport = True, rs_cursor_x = 0, rs_cursor_y = 0\<rparr>"
  have "cell_colour ?rs \<lparr>rc_graphemes = [0x41], rc_bg = None, rc_fg = None\<rparr> = (4, 5, 6)"
    by (simp add: cell_colour_def whitespace_def scalar_def)
  then show ?thesis using thumbnail_shows_each_cell [of 1 1 ?rs 0 0] by (auto simp: Let_def)
qed

end
