(* ===== verification/PaneWidget.thy ===== *)
theory PaneWidget
  imports PanePaste TermView AppWindow
begin

text \<open>
  The widget of a terminal pane (\<open>crates/lmux/src/pane.rs\<close>): its state, what keys, the wheel, the pointer, the
  search bar, the clipboard, the child's output and a change of size or font do to it, and what it draws.
  The engine behind the wrapper, the roundings of floating point and what the system takes of a write are
  arguments; a redraw asked of the toolkit is counted.
\<close>

section \<open>The terminal\<close>

text \<open>The engine: its references, and what writes, scrolls and resizes make of it.\<close>

record ('t, 'g) vt =
  vt_refs :: "('t, 'g) engine"
  vt_write :: "byte list \<Rightarrow> 't \<Rightarrow> 't \<times> byte list"
  vt_resize :: "nat \<Rightarrow> nat \<Rightarrow> nat \<Rightarrow> nat \<Rightarrow> 't \<Rightarrow> 't"
  vt_scroll :: "int \<Rightarrow> 't \<Rightarrow> 't"
  vt_bottom :: "'t \<Rightarrow> 't"
  vt_bracketed :: "'t \<Rightarrow> bool option"
  vt_frame :: "'t \<Rightarrow> render_state"
  vt_chars :: "nat list \<Rightarrow> string"
  vt_lower :: lowering

record 't terminal =
  tl_vt :: 't
  tl_queries :: term_queries
  tl_cols :: nat
  tl_rows :: nat

definition term_feed :: "('t, 'g) vt \<Rightarrow> byte list \<Rightarrow> 't terminal \<Rightarrow> 't terminal" where
  "term_feed vt bytes t =
    (let (v, q) = feed (vt_write vt) bytes (tl_vt t, tl_queries t) in t\<lparr>tl_vt := v, tl_queries := q\<rparr>)"

definition term_take_output :: "'t terminal \<Rightarrow> byte list \<times> 't terminal" where
  "term_take_output t = (let (out, q) = take_pty_output (tl_queries t) in (out, t\<lparr>tl_queries := q\<rparr>))"

definition term_resize :: "('t, 'g) vt \<Rightarrow> nat \<Rightarrow> nat \<Rightarrow> nat \<Rightarrow> nat \<Rightarrow> 't terminal \<Rightarrow> 't terminal" where
  "term_resize vt cols rows cw ch t =
    t\<lparr>tl_cols := cols, tl_rows := rows, tl_vt := vt_resize vt cols rows cw ch (tl_vt t)\<rparr>"

definition term_scroll_delta :: "('t, 'g) vt \<Rightarrow> int \<Rightarrow> 't terminal \<Rightarrow> 't terminal" where
  "term_scroll_delta vt d t = (if d = 0 then t else t\<lparr>tl_vt := vt_scroll vt d (tl_vt t)\<rparr>)"

definition term_scroll_to_bottom :: "('t, 'g) vt \<Rightarrow> 't terminal \<Rightarrow> 't terminal" where
  "term_scroll_to_bottom vt t = t\<lparr>tl_vt := vt_bottom vt (tl_vt t)\<rparr>"

definition bracketed_paste_enabled :: "('t, 'g) vt \<Rightarrow> 't terminal \<Rightarrow> bool" where
  "bracketed_paste_enabled vt t = (case vt_bracketed vt (tl_vt t) of Some b \<Rightarrow> b | None \<Rightarrow> False)"

definition term_render :: "('t, 'g) vt \<Rightarrow> 't terminal \<Rightarrow> visit list" where
  "term_render vt t = render (tl_cols t) (tl_rows t) (vt_frame vt (tl_vt t))"

text \<open>The wrapper as the search sees it.\<close>

definition search_ops :: "('t, 'g) vt \<Rightarrow> 't terminal term_ops" where
  "search_ops vt = \<lparr>tm_top = (\<lambda>t. viewport_top_screen_row (vt_refs vt) (tl_vt t)),
    tm_scroll_delta = term_scroll_delta vt, tm_scroll_to_bottom = term_scroll_to_bottom vt,
    tm_screen_point = (\<lambda>p t. screen_point_from_viewport (vt_refs vt) (tl_vt t) p),
    tm_selection_text = (\<lambda>a b t. selection_text_screen (vt_refs vt) (tl_vt t) (sp_row a, sp_col a) (sp_row b, sp_col b)),
    tm_render = (\<lambda>t. (tl_rows t, map (\<lambda>c. (cv_row c, cv_col c, vt_chars vt (cv_text c))) (cells_of (term_render vt t)))),
    tm_lower = vt_lower vt\<rparr>"

section \<open>Pixels and cells\<close>

definition WHEEL_ROWS_PER_TICK :: int where "WHEEL_ROWS_PER_TICK = 3"
definition MIN_COLS :: nat where "MIN_COLS = 20"
definition MIN_ROWS :: nat where "MIN_ROWS = 3"
definition BELL_DEBOUNCE :: nat where "BELL_DEBOUNCE = 500"

definition clamp :: "int \<Rightarrow> int \<Rightarrow> int \<Rightarrow> int" where
  "clamp lo hi x = max lo (min hi x)"

definition round_f64 :: "f64 \<Rightarrow> int" where
  "round_f64 x = (if 0 \<le> x then \<lfloor>x + 1 / 2\<rfloor> else - \<lfloor>1 / 2 - x\<rfloor>)"

text \<open>\<open>rnd\<close> rounds an exact result to a floating point number; the casts saturate.\<close>

definition wheel_rows :: "(f64 \<Rightarrow> f64) \<Rightarrow> f64 \<Rightarrow> int" where
  "wheel_rows rnd dy = clamp (- (2 ^ 31)) (2 ^ 31 - 1) (round_f64 (rnd (dy * real_of_int WHEEL_ROWS_PER_TICK)))"

text \<open>The size of a cell, in whole pixels and at least one, from the font's metrics in Pango units.\<close>

definition measure_cell :: "(f64 \<Rightarrow> f64) \<Rightarrow> int \<Rightarrow> int \<Rightarrow> nat \<times> nat" where
  "measure_cell rnd digit_width height =
    (let cell = (\<lambda>n. nat (max 1 (round_f64 (rnd (real_of_int n / 1024))))) in (cell digit_width, cell height))"

text \<open>How many cells there are on a length.\<close>

definition grid_of :: "(f64 \<Rightarrow> f64) \<Rightarrow> int \<Rightarrow> nat \<Rightarrow> nat" where
  "grid_of rnd len cell = max 1 (nat (clamp 0 (int u16_max) \<lfloor>rnd (real_of_int len / real cell)\<rfloor>))"

text \<open>The cell under a pointer; the cast to sixteen bits wraps.\<close>

definition px_cell :: "(f64 \<Rightarrow> f64) \<Rightarrow> f64 \<Rightarrow> nat \<Rightarrow> nat \<Rightarrow> nat" where
  "px_cell rnd x cell cells =
    min (nat (clamp 0 (int u32_max) \<lfloor>rnd (x / real cell)\<rfloor>) mod 65536) (cells - 1)"

section \<open>The pane\<close>

record 't terminal_pane =
  pn_inner :: "'t terminal inner"
  pn_pty :: pty_pane
  pn_cell :: "nat \<times> nat"
  pn_font :: "string \<times> int"
  pn_min_size :: "nat \<times> nat"
  pn_selection :: "(screen_point \<times> screen_point) option"
  pn_drag_anchor :: "screen_point option"
  pn_drag_pointer :: "(f64 \<times> f64) option"
  pn_frozen :: "frozen_frame option"
  pn_exit :: "int option"
  pn_bar :: bool
  pn_entry :: string
  pn_status :: string
  pn_clipboard :: "string option"
  pn_primary :: "string option"
  pn_timers :: nat
  pn_scanner :: bell_scanner
  pn_last_bell :: "nat option"
  pn_transcript :: transcript
  pn_bells :: "nat list"
  pn_exits :: nat
  pn_redraws :: nat

definition TRANSCRIPT_MAX_LINES :: nat where "TRANSCRIPT_MAX_LINES = 10000"

definition min_size :: "nat \<times> nat \<Rightarrow> nat \<times> nat" where
  "min_size cell = (MIN_COLS * max (fst cell) 1, MIN_ROWS * max (snd cell) 1)"

definition pane_new :: "'t \<Rightarrow> pty_pane \<Rightarrow> nat \<times> nat \<Rightarrow> 't terminal_pane" where
  "pane_new t pty cell =
    \<lparr>pn_inner = \<lparr>in_term = \<lparr>tl_vt = t, tl_queries = tq_new, tl_cols = INIT_COLS, tl_rows = INIT_ROWS\<rparr>, in_cols = INIT_COLS,
       in_rows = INIT_ROWS, in_search = None, in_panicked = False\<rparr>,
     pn_pty = pty, pn_cell = cell, pn_font = (''monospace'', 13 * 1024), pn_min_size = min_size cell, pn_selection = None,
     pn_drag_anchor = None, pn_drag_pointer = None, pn_frozen = None, pn_exit = None, pn_bar = False, pn_entry = [],
     pn_status = ''Type to search'', pn_clipboard = None, pn_primary = None, pn_timers = 0, pn_scanner = bell_start,
     pn_last_bell = None, pn_transcript = transcript_new TRANSCRIPT_MAX_LINES, pn_bells = [], pn_exits = 0, pn_redraws = 0\<rparr>"

definition on_term :: "('t terminal \<Rightarrow> 't terminal) \<Rightarrow> 't terminal_pane \<Rightarrow> 't terminal_pane" where
  "on_term f p = p\<lparr>pn_inner := (pn_inner p)\<lparr>in_term := f (in_term (pn_inner p))\<rparr>\<rparr>"

definition drop_search :: "'t terminal_pane \<Rightarrow> 't terminal_pane" where
  "drop_search p = p\<lparr>pn_inner := (pn_inner p)\<lparr>in_search := None\<rparr>\<rparr>"

definition queue_draw :: "'t terminal_pane \<Rightarrow> 't terminal_pane" where
  "queue_draw p = p\<lparr>pn_redraws := Suc (pn_redraws p)\<rparr>"

definition update_search_status :: "'t terminal_pane \<Rightarrow> 't terminal_pane" where
  "update_search_status p = p\<lparr>pn_status := search_status (pn_inner p)\<rparr>"

definition pane_screen_point :: "('t, 'g) vt \<Rightarrow> 't terminal_pane \<Rightarrow> nat \<times> nat \<Rightarrow> screen_point option" where
  "pane_screen_point vt p = screen_point_from_viewport (vt_refs vt) (tl_vt (in_term (pn_inner p)))"

definition point_from_px :: "(f64 \<Rightarrow> f64) \<Rightarrow> f64 \<times> f64 \<Rightarrow> 't terminal_pane \<Rightarrow> nat \<times> nat" where
  "point_from_px rnd xy p =
    (px_cell rnd (snd xy) (snd (pn_cell p)) (in_rows (pn_inner p)), px_cell rnd (fst xy) (fst (pn_cell p)) (in_cols (pn_inner p)))"

definition screen_point_from_px :: "(f64 \<Rightarrow> f64) \<Rightarrow> ('t, 'g) vt \<Rightarrow> f64 \<times> f64 \<Rightarrow> 't terminal_pane \<Rightarrow> screen_point option" where
  "screen_point_from_px rnd vt xy p = pane_screen_point vt p (point_from_px rnd xy p)"

definition freeze_viewport :: "('t, 'g) vt \<Rightarrow> 't terminal_pane \<Rightarrow> 't terminal_pane" where
  "freeze_viewport vt p =
    p\<lparr>pn_frozen := (case viewport_top_screen_row (vt_refs vt) (tl_vt (in_term (pn_inner p))) of
        None \<Rightarrow> None
      | Some vtop \<Rightarrow> freeze vtop (term_render vt (in_term (pn_inner p))))\<rparr>"

definition selected_text :: "('t, 'g) vt \<Rightarrow> screen_point \<times> screen_point \<Rightarrow> 't terminal_pane \<Rightarrow> string option" where
  "selected_text vt se p =
    (case tm_selection_text (search_ops vt) (fst se) (snd se) (in_term (pn_inner p)) of
       Some t \<Rightarrow> if t = [] then None else Some t | None \<Rightarrow> None)"

definition copy_selection_to_clipboard :: "('t, 'g) vt \<Rightarrow> 't terminal_pane \<Rightarrow> 't terminal_pane" where
  "copy_selection_to_clipboard vt p =
    (case pn_selection p of
       None \<Rightarrow> p
     | Some (s, e) \<Rightarrow>
         if s = e then p
         else (case selected_text vt (s, e) p of Some t \<Rightarrow> p\<lparr>pn_clipboard := Some t\<rparr> | None \<Rightarrow> p))"

section \<open>The search bar\<close>

definition change_query :: "('t, 'g) vt \<Rightarrow> string \<Rightarrow> 't terminal_pane \<Rightarrow> 't terminal_pane" where
  "change_query vt q p = p\<lparr>pn_inner := set_search_query (search_ops vt) q (pn_inner p)\<rparr>"

definition entry_changed :: "('t, 'g) vt \<Rightarrow> string \<Rightarrow> 't terminal_pane \<Rightarrow> 't terminal_pane" where
  "entry_changed vt q p = queue_draw (update_search_status (change_query vt q (p\<lparr>pn_entry := q\<rparr>)))"

definition show_search_bar :: "('t, 'g) vt \<Rightarrow> 't terminal_pane \<Rightarrow> 't terminal_pane" where
  "show_search_bar vt p =
    (let p1 = p\<lparr>pn_bar := True\<rparr>; p2 = (if pn_entry p1 \<noteq> [] then change_query vt (pn_entry p1) p1 else p1)
     in queue_draw (update_search_status p2))"

definition close_search_bar :: "'t terminal_pane \<Rightarrow> 't terminal_pane" where
  "close_search_bar p = queue_draw (drop_search (p\<lparr>pn_bar := False\<rparr>))"

definition advance_search :: "('t, 'g) vt \<Rightarrow> bool \<Rightarrow> 't terminal_pane \<Rightarrow> 't terminal_pane" where
  "advance_search vt forward p =
    (if (case in_search (pn_inner p) of None \<Rightarrow> True | Some st \<Rightarrow> sh_query st = []) then p
     else queue_draw (p\<lparr>pn_inner := fst (select_adjacent_scrollback_match (search_ops vt) forward (pn_inner p))\<rparr>))"

definition scroll_search_viewport :: "('t, 'g) vt \<Rightarrow> int \<Rightarrow> 't terminal_pane \<Rightarrow> 't terminal_pane" where
  "scroll_search_viewport vt rows p =
    (if rows = 0 then p
     else let p1 = on_term (term_scroll_delta vt rows) p;
              p2 = p1\<lparr>pn_inner := refresh_visible_search_matches (search_ops vt) False (pn_inner p1)\<rparr>
          in queue_draw (update_search_status p2))"

text \<open>A key in the bar's entry; the second flag is the keypad's Enter.\<close>

definition bar_key :: "('t, 'g) vt \<Rightarrow> to_unicode \<Rightarrow> key \<Rightarrow> bool \<Rightarrow> modifiers \<Rightarrow> 't terminal_pane \<Rightarrow> 't terminal_pane" where
  "bar_key vt uni k kp_enter mo p =
    (if k = GK_Escape then close_search_bar p
     else if k = GK_Return \<or> kp_enter then update_search_status (advance_search vt (\<not> mo_shift mo) p)
     else (case classify_key uni k mo (in_rows (pn_inner p)) of
         KA_ScrollRows rows \<Rightarrow> scroll_search_viewport vt rows p
       | KA_Write _ \<Rightarrow> p))"

section \<open>Keys, wheel and pointer\<close>

definition write_key :: "('t, 'g) vt \<Rightarrow> byte list \<Rightarrow> nat \<Rightarrow> 't terminal_pane \<Rightarrow> 't terminal_pane" where
  "write_key vt bytes k p =
    (let p1 = p\<lparr>pn_pty := snd (tty_write bytes (k, pn_pty p))\<rparr>;
         p2 = drop_search (on_term (term_scroll_to_bottom vt) p1)
     in queue_draw (p2\<lparr>pn_selection := None, pn_frozen := None, pn_bar := False\<rparr>))"

definition press_in_pane ::
  "('t, 'g) vt \<Rightarrow> to_unicode \<Rightarrow> platform \<Rightarrow> key \<Rightarrow> modifiers \<Rightarrow> nat \<Rightarrow> 't terminal_pane \<Rightarrow> 't terminal_pane" where
  "press_in_pane vt uni pl key mo k p =
    (case pane_key uni pl (pn_exit p \<noteq> None) (in_rows (pn_inner p)) key mo of
       PA_Copy \<Rightarrow> copy_selection_to_clipboard vt p
     | PA_Paste \<Rightarrow> p
     | PA_Find \<Rightarrow> show_search_bar vt p
     | PA_Write bytes \<Rightarrow> write_key vt bytes k p
     | PA_Scroll d \<Rightarrow>
         let p1 = on_term (term_scroll_delta vt d) p
         in queue_draw (if pn_selection p1 \<noteq> None then freeze_viewport vt p1 else p1)
     | PA_Nothing \<Rightarrow> p)"

definition wheel_in_pane :: "('t, 'g) vt \<Rightarrow> int \<Rightarrow> 't terminal_pane \<Rightarrow> 't terminal_pane" where
  "wheel_in_pane vt rows p =
    (if rows = 0 then p
     else let p1 = on_term (term_scroll_delta vt rows) p;
              corner = (if rows < 0 then (0, 0) else (in_rows (pn_inner p1) - 1, in_cols (pn_inner p1) - 1));
              p2 = (case pn_drag_anchor p1 of
                  None \<Rightarrow> p1
                | Some anchor \<Rightarrow> (case pane_screen_point vt p1 corner of
                    None \<Rightarrow> p1 | Some e \<Rightarrow> p1\<lparr>pn_selection := Some (anchor, e)\<rparr>))
          in queue_draw (if pn_selection p2 \<noteq> None then freeze_viewport vt p2 else p2))"

definition drag_begin :: "(f64 \<Rightarrow> f64) \<Rightarrow> ('t, 'g) vt \<Rightarrow> f64 \<times> f64 \<Rightarrow> 't terminal_pane \<Rightarrow> 't terminal_pane" where
  "drag_begin rnd vt xy p =
    (let p1 = (case screen_point_from_px rnd vt xy p of
         None \<Rightarrow> p
       | Some anchor \<Rightarrow> freeze_viewport vt
           (p\<lparr>pn_drag_anchor := Some anchor, pn_selection := Some (anchor, anchor), pn_drag_pointer := Some xy\<rparr>))
     in (queue_draw p1)\<lparr>pn_timers := Suc (pn_timers p)\<rparr>)"

definition extend_selection :: "(f64 \<Rightarrow> f64) \<Rightarrow> ('t, 'g) vt \<Rightarrow> screen_point \<Rightarrow> f64 \<times> f64 \<Rightarrow> 't terminal_pane \<Rightarrow> 't terminal_pane" where
  "extend_selection rnd vt anchor xy p =
    (case screen_point_from_px rnd vt xy p of None \<Rightarrow> p | Some e \<Rightarrow> p\<lparr>pn_selection := Some (anchor, e)\<rparr>)"

text \<open>How far a pointer outside the pane scrolls it.\<close>

definition edge_scroll :: "f64 \<Rightarrow> nat \<Rightarrow> int option" where
  "edge_scroll y height =
    (if y < 0 then Some (- WHEEL_ROWS_PER_TICK)
     else if y \<ge> real (max height 1) then Some WHEEL_ROWS_PER_TICK else None)"

text \<open>A tick of one of the timers that scroll while the pointer is outside; it ends when no drag is on.\<close>

definition drag_tick :: "(f64 \<Rightarrow> f64) \<Rightarrow> ('t, 'g) vt \<Rightarrow> nat \<Rightarrow> 't terminal_pane \<Rightarrow> 't terminal_pane" where
  "drag_tick rnd vt height p =
    (if pn_timers p = 0 then p
     else case pn_drag_anchor p of
       None \<Rightarrow> p\<lparr>pn_timers := pn_timers p - 1\<rparr>
     | Some anchor \<Rightarrow> (case pn_drag_pointer p of
         None \<Rightarrow> p
       | Some xy \<Rightarrow> (case edge_scroll (snd xy) height of
           None \<Rightarrow> p
         | Some d \<Rightarrow> queue_draw (extend_selection rnd vt anchor xy
             (freeze_viewport vt (on_term (term_scroll_delta vt d) p))))))"

definition drag_update :: "(f64 \<Rightarrow> f64) \<Rightarrow> ('t, 'g) vt \<Rightarrow> (f64 \<times> f64) option \<Rightarrow> f64 \<times> f64 \<Rightarrow> nat \<Rightarrow> 't terminal_pane \<Rightarrow> 't terminal_pane" where
  "drag_update rnd vt start by height p =
    (case start of
       None \<Rightarrow> p
     | Some (sx, sy) \<Rightarrow> (case pn_drag_anchor p of
         None \<Rightarrow> p
       | Some anchor \<Rightarrow>
           let xy = (rnd (sx + fst by), rnd (sy + snd by));
               p1 = p\<lparr>pn_drag_pointer := Some xy\<rparr>;
               p2 = (case edge_scroll (snd xy) height of
                   None \<Rightarrow> p1 | Some d \<Rightarrow> freeze_viewport vt (on_term (term_scroll_delta vt d) p1))
           in queue_draw (extend_selection rnd vt anchor xy p2)))"

definition drag_end :: "('t, 'g) vt \<Rightarrow> 't terminal_pane \<Rightarrow> 't terminal_pane" where
  "drag_end vt p =
    (let p1 = p\<lparr>pn_drag_anchor := None, pn_drag_pointer := None\<rparr>
     in case pn_selection p1 of
          None \<Rightarrow> queue_draw p1
        | Some (s, e) \<Rightarrow>
            if s = e then queue_draw (p1\<lparr>pn_selection := None, pn_frozen := None\<rparr>)
            else queue_draw (case selected_text vt (s, e) p1 of
                Some t \<Rightarrow> p1\<lparr>pn_clipboard := Some t, pn_primary := Some t\<rparr> | None \<Rightarrow> p1))"

section \<open>Input from the cockpit and the clipboard\<close>

text \<open>What agents and the command line send; a write that fails ends it, and the caller is told.\<close>

definition pane_send_input :: "('t, 'g) vt \<Rightarrow> byte list \<Rightarrow> nat \<Rightarrow> 't terminal_pane \<Rightarrow> 't terminal_pane \<times> bool" where
  "pane_send_input vt bytes k p =
    (let p1 = p\<lparr>pn_pty := snd (tty_write bytes (k, pn_pty p))\<rparr>
     in if k < length bytes then (p1, False)
        else (queue_draw ((drop_search (on_term (term_scroll_to_bottom vt) p1))\<lparr>pn_selection := None\<rparr>), True))"

definition paste_text :: "('t, 'g) vt \<Rightarrow> byte list \<Rightarrow> nat \<Rightarrow> 't terminal_pane \<Rightarrow> 't terminal_pane" where
  "paste_text vt bytes k p =
    (let p1 = p\<lparr>pn_pty := paste_write (bracketed_paste_enabled vt (in_term (pn_inner p))) bytes k (pn_pty p)\<rparr>
     in queue_draw ((drop_search (on_term (term_scroll_to_bottom vt) p1))\<lparr>pn_selection := None, pn_frozen := None\<rparr>))"

section \<open>Size and font\<close>

definition tell_size :: "('t, 'g) vt \<Rightarrow> bool \<Rightarrow> nat \<Rightarrow> nat \<Rightarrow> 't terminal_pane \<Rightarrow> 't terminal_pane" where
  "tell_size vt accepted cols rows p0 =
    (let (cw, ch) = pn_cell p0;
         p = p0\<lparr>pn_inner := (pn_inner p0)\<lparr>in_cols := cols, in_rows := rows\<rparr>\<rparr>;
         p1 = on_term (term_resize vt cols rows cw ch) p
     in p1\<lparr>pn_pty := pty_resize accepted cols rows (cw mod 65536) (ch mod 65536) (pn_pty p1)\<rparr>)"

definition resize_pane :: "(f64 \<Rightarrow> f64) \<Rightarrow> ('t, 'g) vt \<Rightarrow> bool \<Rightarrow> int \<Rightarrow> int \<Rightarrow> 't terminal_pane \<Rightarrow> 't terminal_pane" where
  "resize_pane rnd vt accepted w h p =
    (if fst (pn_cell p) < 1 \<or> snd (pn_cell p) < 1 then p
     else let cols = grid_of rnd w (fst (pn_cell p)); rows = grid_of rnd h (snd (pn_cell p))
     in if cols = in_cols (pn_inner p) \<and> rows = in_rows (pn_inner p) then p else tell_size vt accepted cols rows p)"

definition set_font ::
  "(f64 \<Rightarrow> f64) \<Rightarrow> ('t, 'g) vt \<Rightarrow> bool \<Rightarrow> string \<Rightarrow> int \<Rightarrow> int \<times> int \<Rightarrow> int \<Rightarrow> int \<Rightarrow> 't terminal_pane \<Rightarrow> 't terminal_pane" where
  "set_font rnd vt accepted family size_pt metrics width height p =
    (let cell = measure_cell rnd (fst metrics) (snd metrics); w = max width 0; h = max height 0;
         p1 = p\<lparr>pn_font := (family, max size_pt 1 * 1024), pn_cell := cell\<rparr>;
         p2 = (if w \<ge> int (fst cell) \<and> h \<ge> int (snd cell)
               then tell_size vt accepted (grid_of rnd w (fst cell)) (grid_of rnd h (snd cell)) p1 else p1)
     in queue_draw (p2\<lparr>pn_min_size := min_size cell\<rparr>))"

section \<open>The child\<close>

text \<open>One read of the child's output, at a time of the monotonic clock and of the calendar's, in milliseconds.\<close>

definition pane_read ::
  "('t, 'g) vt \<Rightarrow> (byte list \<Rightarrow> string) \<Rightarrow> nat \<Rightarrow> nat \<Rightarrow> nat \<Rightarrow> byte list \<Rightarrow> 't terminal_pane \<Rightarrow> 't terminal_pane" where
  "pane_read vt lossy now unix k bytes p =
    (let (sc, bells) = bell_scan bytes (pn_scanner p);
         p1 = p\<lparr>pn_scanner := sc, pn_transcript := append_bytes lossy bytes unix (pn_transcript p)\<rparr>;
         (out, t) = term_take_output (term_feed vt bytes (in_term (pn_inner p1)));
         p2 = on_term (\<lambda>_. t) p1;
         p3 = queue_draw (if out = [] then p2 else p2\<lparr>pn_pty := snd (tty_write out (k, pn_pty p2))\<rparr>);
         fire = (0 < bells \<and> (case pn_last_bell p3 of Some t0 \<Rightarrow> now - t0 \<ge> BELL_DEBOUNCE | None \<Rightarrow> True))
     in if fire then p3\<lparr>pn_last_bell := Some now, pn_bells := now # pn_bells p3\<rparr> else p3)"

datatype wait_answer = Wait_Err | Wait_Running | Wait_Exited int

text \<open>The poll of the child, once a second until it has exited.\<close>

definition pane_poll :: "wait_answer \<Rightarrow> 't terminal_pane \<Rightarrow> 't terminal_pane" where
  "pane_poll answer p =
    (if pn_exit p \<noteq> None then p
     else case answer of
       Wait_Exited c \<Rightarrow> (queue_draw (p\<lparr>pn_exit := Some c\<rparr>))\<lparr>pn_exits := Suc (pn_exits p)\<rparr>
     | _ \<Rightarrow> p)"

section \<open>What is drawn\<close>

definition search_highlights :: "nat \<Rightarrow> 't inner \<Rightarrow> screen_range list" where
  "search_highlights vtop s =
    (case in_search s of
       None \<Rightarrow> []
     | Some st \<Rightarrow> map (\<lambda>m. screen_range_new (sm_start m) (sm_end m) (sh_active st = Some m) vtop) (sh_matches st))"

definition draw_pane :: "('t, 'g) vt \<Rightarrow> 't terminal_pane \<Rightarrow> draw_op list" where
  "draw_pane vt p =
    (let t = in_term (pn_inner p);
         vtop = (case pn_frozen p of Some z \<Rightarrow> Some (fz_top z) | None \<Rightarrow> viewport_top_screen_row (vt_refs vt) (tl_vt t));
         r = \<lparr>rd_cell_w = fst (pn_cell p), rd_cell_h = snd (pn_cell p),
              rd_selection = (case (pn_selection p, vtop) of
                 (Some (s, e), Some tp) \<Rightarrow> Some (screen_range_new s e False tp) | _ \<Rightarrow> None),
              rd_search = (case vtop of Some tp \<Rightarrow> search_highlights tp (pn_inner p) | None \<Rightarrow> []),
              rd_exit_code = pn_exit p, rd_frame = None, rd_drawn = []\<rparr>
     in rd_drawn (case pn_frozen p of Some z \<Rightarrow> draw_frozen z r | None \<Rightarrow> fold draw_visit (term_render vt t) r))"

section \<open>The menu\<close>

datatype menu_item = MI_Copy | MI_Paste | MI_Search | MI_Separator | MI_Action terminal_context_action

definition prefixed_shortcut :: "string \<Rightarrow> string \<Rightarrow> string" where
  "prefixed_shortcut pre key = trim pre @ '' '' @ key"

definition terminal_shortcut_label :: "platform \<Rightarrow> terminal_shortcut \<Rightarrow> string" where
  "terminal_shortcut_label pl t =
    (case t of
       TS_Copy \<Rightarrow> if pl = Plat_Macos then ''Cmd+C'' else ''Ctrl+Shift+C''
     | TS_Paste \<Rightarrow> if pl = Plat_Macos then ''Cmd+V'' else ''Ctrl+Shift+V''
     | TS_Find \<Rightarrow> if pl = Plat_Macos then ''Cmd+F'' else ''Ctrl+F'')"

text \<open>The rows of the menu: what a row does, its label, and the shortcut it shows.\<close>

definition context_menu :: "platform \<Rightarrow> string \<Rightarrow> (menu_item \<times> string \<times> string) list" where
  "context_menu pl pre =
    [(MI_Copy, ''Copy'', terminal_shortcut_label pl TS_Copy), (MI_Paste, ''Paste'', terminal_shortcut_label pl TS_Paste),
     (MI_Search, ''Search'', terminal_shortcut_label pl TS_Find), (MI_Separator, [], []),
     (MI_Action TA_SplitRight, ''Split right'', prefixed_shortcut pre ''|''),
     (MI_Action TA_SplitDown, ''Split down'', prefixed_shortcut pre ''-''),
     (MI_Action TA_NewTab, ''New tab'', prefixed_shortcut pre ''t''),
     (MI_Action TA_ClosePane, ''Close pane'', prefixed_shortcut pre ''x''),
     (MI_Action TA_NewAnchor, ''New anchor'', []), (MI_Separator, [], []),
     (MI_Action TA_NextPane, ''Next pane'', prefixed_shortcut pre ''o''),
     (MI_Action TA_PreviousPane, ''Previous pane'', prefixed_shortcut pre ''p''),
     (MI_Action TA_ToggleRearrange, ''Rearrange mode'', prefixed_shortcut pre ''m'')]"

section \<open>Rearranging\<close>

definition prepare_drag :: "bool \<Rightarrow> pane_id \<Rightarrow> pane_id option" where
  "prepare_drag rearrange p = (if rearrange then Some p else None)"

text \<open>A drop on a pane: whether it is taken, and the move it asks for; \<open>None\<close> is a value that is no pane.\<close>

definition drop_on_frame ::
  "(f64 \<Rightarrow> f64) \<Rightarrow> bool \<Rightarrow> pane_id \<Rightarrow> pane_id option \<Rightarrow> f64 \<times> f64 \<Rightarrow> nat \<times> nat \<Rightarrow> bool \<times> (pane_id \<times> pane_id \<times> edge) option" where
  "drop_on_frame rnd rearrange p dropped xy wh =
    (if \<not> rearrange then (False, None)
     else case dropped of
       None \<Rightarrow> (False, None)
     | Some src \<Rightarrow> if src = p then (False, None)
         else (True, Some (src, p, edge_from_xy rnd (fst xy) (snd xy) (real (max (fst wh) 1)) (real (max (snd wh) 1)))))"

end
