(* ===== verification/PaneRuns.thy ===== *)
theory PaneRuns
  imports PaneWidget
begin

text \<open>
  Runs of a terminal pane: the events of \<open>PaneWidget\<close> in any order, and what holds of the pane through all of
  them: one size for the pane, its engine and its child, a redraw for everything that shows, bells that keep
  their distance, and one report of the child's exit.
\<close>

section \<open>Events\<close>

datatype pane_event =
  PV_Key key modifiers nat
| PV_Wheel f64
| PV_Drag_Begin "f64 \<times> f64"
| PV_Drag_Tick nat
| PV_Drag_Update "(f64 \<times> f64) option" "f64 \<times> f64" nat
| PV_Drag_End
| PV_Send "byte list" nat
| PV_Paste "byte list" nat
| PV_Copy
| PV_Find
| PV_Entry string
| PV_Advance bool
| PV_Bar_Wheel f64
| PV_Bar_Key key bool modifiers
| PV_Close_Bar
| PV_Resize bool int int
| PV_Font bool string int "int \<times> int" int int
| PV_Read nat nat nat "byte list"
| PV_Poll wait_answer

record ('t, 'g) pane_env =
  pe_vt :: "('t, 'g) vt"
  pe_round :: "f64 \<Rightarrow> f64"
  pe_uni :: to_unicode
  pe_platform :: platform
  pe_lossy :: "byte list \<Rightarrow> string"

definition pane_step :: "('t, 'g) pane_env \<Rightarrow> pane_event \<Rightarrow> 't terminal_pane \<Rightarrow> 't terminal_pane" where
  "pane_step e ev p =
    (case ev of
       PV_Key key mo k \<Rightarrow> press_in_pane (pe_vt e) (pe_uni e) (pe_platform e) key mo k p
     | PV_Wheel dy \<Rightarrow> wheel_in_pane (pe_vt e) (wheel_rows (pe_round e) dy) p
     | PV_Drag_Begin xy \<Rightarrow> drag_begin (pe_round e) (pe_vt e) xy p
     | PV_Drag_Tick height \<Rightarrow> drag_tick (pe_round e) (pe_vt e) height p
     | PV_Drag_Update start by height \<Rightarrow> drag_update (pe_round e) (pe_vt e) start by height p
     | PV_Drag_End \<Rightarrow> drag_end (pe_vt e) p
     | PV_Send bytes k \<Rightarrow> fst (pane_send_input (pe_vt e) bytes k p)
     | PV_Paste bytes k \<Rightarrow> paste_text (pe_vt e) bytes k p
     | PV_Copy \<Rightarrow> copy_selection_to_clipboard (pe_vt e) p
     | PV_Find \<Rightarrow> show_search_bar (pe_vt e) p
     | PV_Entry q \<Rightarrow> entry_changed (pe_vt e) q p
     | PV_Advance forward \<Rightarrow> update_search_status (advance_search (pe_vt e) forward p)
     | PV_Bar_Wheel dy \<Rightarrow> scroll_search_viewport (pe_vt e) (wheel_rows (pe_round e) dy) p
     | PV_Bar_Key key kp mo \<Rightarrow> bar_key (pe_vt e) (pe_uni e) key kp mo p
     | PV_Close_Bar \<Rightarrow> close_search_bar p
     | PV_Resize accepted w h \<Rightarrow> resize_pane (pe_round e) (pe_vt e) accepted w h p
     | PV_Font accepted family size_pt metrics w h \<Rightarrow> set_font (pe_round e) (pe_vt e) accepted family size_pt metrics w h p
     | PV_Read now unix k bytes \<Rightarrow> pane_read (pe_vt e) (pe_lossy e) now unix k bytes p
     | PV_Poll answer \<Rightarrow> pane_poll answer p)"

definition pane_run :: "('t, 'g) pane_env \<Rightarrow> pane_event list \<Rightarrow> 't terminal_pane \<Rightarrow> 't terminal_pane" where
  "pane_run e evs p = fold (pane_step e) evs p"

lemmas pane_ops = queue_draw_def drop_search_def on_term_def update_search_status_def freeze_viewport_def
  change_query_def extend_selection_def

section \<open>One size\<close>

definition inner_size :: "'t terminal inner \<Rightarrow> nat \<times> nat \<times> nat \<times> nat" where
  "inner_size s = (in_cols s, in_rows s, tl_cols (in_term s), tl_rows (in_term s))"

lemma term_scroll_size [simp]:
  "tl_cols (term_scroll_delta vt d t) = tl_cols t" "tl_rows (term_scroll_delta vt d t) = tl_rows t"
  "tl_cols (term_scroll_to_bottom vt t) = tl_cols t" "tl_rows (term_scroll_to_bottom vt t) = tl_rows t"
  by (simp_all add: term_scroll_delta_def term_scroll_to_bottom_def)

lemma term_read_size [simp]:
  "tl_cols (snd (term_take_output (term_feed vt bytes t))) = tl_cols t"
  "tl_rows (snd (term_take_output (term_feed vt bytes t))) = tl_rows t"
  by (simp_all add: term_take_output_def term_feed_def split_def Let_def)

lemma search_ops_simps [simp]:
  "tm_scroll_delta (search_ops vt) = term_scroll_delta vt" "tm_scroll_to_bottom (search_ops vt) = term_scroll_to_bottom vt"
  by (simp_all add: search_ops_def)

lemma scrollback_size [simp]:
  "tl_cols (fst (scrollback_search_matches (search_ops vt) t q c r)) = tl_cols t"
  "tl_rows (fst (scrollback_search_matches (search_ops vt) t q c r)) = tl_rows t"
  by (simp_all add: scrollback_search_matches_def Let_def split: option.split)

lemma search_keeps_size [simp]:
  "inner_size (refresh_search_matches (search_ops vt) b s) = inner_size s"
  "inner_size (set_search_query (search_ops vt) q s) = inner_size s"
  "inner_size (refresh_visible_search_matches (search_ops vt) b s) = inner_size s"
  "inner_size (scroll_search_match_into_view (search_ops vt) m s) = inner_size s"
  "inner_size (set_active_search_match m s) = inner_size s"
proof -
  have 1: "inner_size (refresh_search_matches (search_ops vt) b s) = inner_size s" for b s
    by (simp add: refresh_search_matches_def inner_size_def note_panic_def Let_def split_def split: option.split call.split)
  then show "inner_size (refresh_search_matches (search_ops vt) b s) = inner_size s" .
  show "inner_size (set_search_query (search_ops vt) q s) = inner_size s"
    using 1 by (simp add: set_search_query_def) (simp add: inner_size_def)
  show "inner_size (refresh_visible_search_matches (search_ops vt) b s) = inner_size s"
    by (simp add: refresh_visible_search_matches_def inner_size_def note_panic_def Let_def split: option.split call.split)
  show "inner_size (scroll_search_match_into_view (search_ops vt) m s) = inner_size s"
    by (simp add: scroll_search_match_into_view_def inner_size_def Let_def split: option.split)
  show "inner_size (set_active_search_match m s) = inner_size s"
    by (simp add: set_active_search_match_def inner_size_def)
qed

lemma advance_keeps_size [simp]:
  "inner_size (fst (select_adjacent_scrollback_match (search_ops vt) f s)) = inner_size s"
  by (simp add: select_adjacent_scrollback_match_def Let_def split: option.split)

definition pane_sizes :: "'t terminal_pane \<Rightarrow> (nat \<times> nat \<times> nat \<times> nat) \<times> nat \<times> nat" where
  "pane_sizes p = (inner_size (pn_inner p), pp_cols (pn_pty p), pp_rows (pn_pty p))"

lemma sizes_step [simp]:
  "pane_sizes (queue_draw p) = pane_sizes p" "pane_sizes (drop_search p) = pane_sizes p"
  "pane_sizes (update_search_status p) = pane_sizes p" "pane_sizes (freeze_viewport vt p) = pane_sizes p"
  "pane_sizes (change_query vt q p) = pane_sizes p" "pane_sizes (extend_selection rnd vt a xy p) = pane_sizes p"
  "pane_sizes (on_term (term_scroll_delta vt d) p) = pane_sizes p"
  "pane_sizes (on_term (term_scroll_to_bottom vt) p) = pane_sizes p"
  "pane_sizes (p\<lparr>pn_pty := snd (tty_write bs (k, pn_pty p))\<rparr>) = pane_sizes p"
  "pane_sizes (p\<lparr>pn_pty := paste_write b bs k (pn_pty p)\<rparr>) = pane_sizes p"
  by (simp_all add: pane_sizes_def pane_ops) (simp_all add: inner_size_def split: option.split)

lemma sizes_fields [simp]:
  "pane_sizes (p\<lparr>pn_selection := a\<rparr>) = pane_sizes p" "pane_sizes (p\<lparr>pn_frozen := b\<rparr>) = pane_sizes p"
  "pane_sizes (p\<lparr>pn_drag_anchor := c\<rparr>) = pane_sizes p" "pane_sizes (p\<lparr>pn_drag_pointer := d\<rparr>) = pane_sizes p"
  "pane_sizes (p\<lparr>pn_bar := f\<rparr>) = pane_sizes p" "pane_sizes (p\<lparr>pn_entry := g\<rparr>) = pane_sizes p"
  "pane_sizes (p\<lparr>pn_clipboard := h\<rparr>) = pane_sizes p" "pane_sizes (p\<lparr>pn_primary := h\<rparr>) = pane_sizes p"
  "pane_sizes (p\<lparr>pn_timers := n\<rparr>) = pane_sizes p" "pane_sizes (p\<lparr>pn_exit := x\<rparr>) = pane_sizes p"
  "pane_sizes (p\<lparr>pn_exits := n\<rparr>) = pane_sizes p" "pane_sizes (p\<lparr>pn_last_bell := o1\<rparr>) = pane_sizes p"
  "pane_sizes (p\<lparr>pn_bells := l\<rparr>) = pane_sizes p" "pane_sizes (p\<lparr>pn_min_size := m\<rparr>) = pane_sizes p"
  "pane_sizes (p\<lparr>pn_font := q\<rparr>) = pane_sizes p" "pane_sizes (p\<lparr>pn_cell := m\<rparr>) = pane_sizes p"
  "pane_sizes (p\<lparr>pn_scanner := sc\<rparr>) = pane_sizes p" "pane_sizes (p\<lparr>pn_transcript := tr\<rparr>) = pane_sizes p"
  by (simp_all add: pane_sizes_def)

lemma read_sizes: "pane_sizes (pane_read vt lossy now unix k bytes p) = pane_sizes p"
proof -
  have "pane_sizes (on_term (\<lambda>_. snd (term_take_output (term_feed vt bytes (in_term (pn_inner p))))) p) = pane_sizes p" for p
    by (simp add: pane_sizes_def on_term_def inner_size_def)
  then show ?thesis
    by (simp add: pane_read_def Let_def split_def) (simp add: pane_sizes_def on_term_def inner_size_def queue_draw_def)
qed

text \<open>The reference: one size, at least one cell and at most sixteen bits each way.\<close>

definition sizes_agree :: "nat \<times> nat \<Rightarrow> (nat \<times> nat \<times> nat \<times> nat) \<times> nat \<times> nat \<Rightarrow> bool" where
  "sizes_agree s z = (case s of (c, r) \<Rightarrow> 1 \<le> c \<and> c \<le> u16_max \<and> 1 \<le> r \<and> r \<le> u16_max \<and> z = ((c, r, c, r), c, r))"

lemma grid_of_bounds [simp]: "1 \<le> grid_of rnd len cell" "grid_of rnd len cell \<le> u16_max" "0 < grid_of rnd len cell"
  by (auto simp: grid_of_def clamp_def u16_max_def)

lemma tell_size_agrees:
  "1 \<le> c \<Longrightarrow> c \<le> u16_max \<Longrightarrow> 1 \<le> r \<Longrightarrow> r \<le> u16_max \<Longrightarrow> sizes_agree (c, r) (pane_sizes (tell_size vt True c r p))"
  by (simp add: sizes_agree_def pane_sizes_def tell_size_def inner_size_def on_term_def term_resize_def pty_resize_def split_def Let_def)

fun refused :: "pane_event \<Rightarrow> bool" where
  "refused (PV_Resize accepted _ _) = (\<not> accepted)"
| "refused (PV_Font accepted _ _ _ _ _) = (\<not> accepted)"
| "refused _ = False"

definition one_size :: "'t terminal_pane \<Rightarrow> bool" where
  "one_size p = sizes_agree (in_cols (pn_inner p), in_rows (pn_inner p)) (pane_sizes p)"

lemma one_size_iff: "one_size p \<longleftrightarrow> (\<exists>s. sizes_agree s (pane_sizes p))"
  by (auto simp: one_size_def sizes_agree_def pane_sizes_def inner_size_def)

lemma told_one_size [simp]: "one_size (tell_size vt True (grid_of rnd w c) (grid_of rnd h c') p)"
  using tell_size_agrees [OF grid_of_bounds(1,2) grid_of_bounds(1,2)] unfolding one_size_iff by blast

lemma advance_sizes [simp]: "pane_sizes (advance_search vt f p) = pane_sizes p"
  by (simp add: advance_search_def) (simp add: pane_sizes_def)

lemma scrolled_size [simp]: "inner_size (s\<lparr>in_term := term_scroll_delta vt d (in_term s)\<rparr>) = inner_size s"
  by (simp add: inner_size_def)

lemma scroll_search_sizes [simp]: "pane_sizes (scroll_search_viewport vt rows p) = pane_sizes p"
  by (simp add: scroll_search_viewport_def Let_def) (simp add: pane_sizes_def on_term_def)

lemma bar_key_sizes [simp]: "pane_sizes (bar_key vt uni k kp mo p) = pane_sizes p"
  by (simp add: bar_key_def close_search_bar_def split: key_action.split)

lemma press_sizes: "pane_sizes (press_in_pane vt uni pl key mo k p) = pane_sizes p"
  by (simp add: press_in_pane_def copy_selection_to_clipboard_def show_search_bar_def write_key_def Let_def
      split: pane_action.split option.split)

lemma step_one_size: "one_size p \<Longrightarrow> \<not> refused ev \<Longrightarrow> one_size (pane_step e ev p)"
proof (cases ev)
  case (PV_Resize accepted w h)
  assume "one_size p" "\<not> refused ev"
  then show ?thesis
    by (auto simp: PV_Resize pane_step_def resize_pane_def Let_def)
next
  case (PV_Font accepted family size_pt metrics w h)
  assume "one_size p" "\<not> refused ev"
  then show ?thesis
    using told_one_size [unfolded one_size_iff] by (auto simp: PV_Font pane_step_def set_font_def Let_def one_size_iff)
qed (auto simp: one_size_iff pane_step_def press_sizes read_sizes wheel_in_pane_def drag_begin_def drag_tick_def drag_update_def
    drag_end_def pane_send_input_def paste_text_def copy_selection_to_clipboard_def show_search_bar_def entry_changed_def
    close_search_bar_def pane_poll_def Let_def
    split: option.split key_action.split wait_answer.split)

lemma run_one_size: "list_all (\<lambda>ev. \<not> refused ev) evs \<Longrightarrow> one_size p \<Longrightarrow> one_size (pane_run e evs p)"
  by (induction evs arbitrary: p) (simp_all add: pane_run_def step_one_size)

lemma new_one_size: "snd (terminal_pane_new w cwd) = Some pty \<Longrightarrow> one_size (pane_new t pty cell)"
  by (auto simp: terminal_pane_new_def Let_def pty_spawn_def one_size_def sizes_agree_def pane_sizes_def inner_size_def pane_new_def
      INIT_COLS_def INIT_ROWS_def u16_max_def split: prod.splits if_splits sum.splits)

text \<open>C16: The pane, its engine and its child have one size: however a pane that was started is typed in, scrolled,
  searched, resized or given another font, its columns and rows are those last told to the engine and to
  the child's terminal, each at least one and within sixteen bits. Assumed is that the system takes the
  changes of the terminal's size.\<close>

theorem pane_engine_and_child_have_one_size:
  assumes "list_all (\<lambda>ev. \<not> refused ev) evs" and "snd (terminal_pane_new w cwd) = Some pty"
  shows "one_size (pane_run e evs (pane_new t pty cell))"
  using run_one_size [OF assms(1) new_one_size [OF assms(2)]] .

text \<open>A size the system refuses is not told to it again, though the engine and the pane have it: the next event with
  the same size is taken for no change.\<close>

lemma refused_size_not_retried:
  "resize_pane rnd vt accepted w h (resize_pane rnd vt False w h p) = resize_pane rnd vt False w h p"
proof -
  have "in_cols (pn_inner (tell_size vt b c r q)) = c \<and> in_rows (pn_inner (tell_size vt b c r q)) = r \<and>
      pn_cell (tell_size vt b c r q) = pn_cell q" for b c r q
    by (simp add: tell_size_def on_term_def Let_def split_def)
  then show ?thesis by (simp add: resize_pane_def Let_def)
qed

definition quiet_engine :: "(unit, unit) vt" where
  "quiet_engine = \<lparr>vt_refs = \<lparr>eg_viewport_ref = (\<lambda>_ _. None), eg_screen_ref = (\<lambda>_ _. None), eg_screen_point = (\<lambda>_ _. None),
     eg_format = (\<lambda>_ _ _. None), eg_lossy = (\<lambda>_. [])\<rparr>, vt_write = (\<lambda>_ t. (t, [])), vt_resize = (\<lambda>_ _ _ _ t. t),
   vt_scroll = (\<lambda>_ t. t), vt_bottom = (\<lambda>t. t), vt_bracketed = (\<lambda>_. None),
   vt_frame = (\<lambda>_. \<lparr>rs_background = (0, 0, 0), rs_foreground = (1, 1, 1), rs_rows = [], rs_cursor_visible = False,
     rs_cursor_in_viewport = False, rs_cursor_x = 0, rs_cursor_y = 0\<rparr>), vt_chars = (\<lambda>_. []),
   vt_lower = Search.to_ascii_lowercase\<rparr>"

definition plain_env :: "(unit, unit) pane_env" where
  "plain_env = \<lparr>pe_vt = quiet_engine, pe_round = (\<lambda>x. x), pe_uni = (\<lambda>_. None), pe_platform = Plat_Default, pe_lossy = (\<lambda>_. [])\<rparr>"

text \<open>A resize to 800 by 480 pixels, with cells of 8 by 16: a hundred columns and thirty rows.\<close>

definition plain_world :: pane_world where
  "plain_world = \<lparr>pw_engine = \<lparr>ea_new = (\<lambda>_. True), ea_set = (\<lambda>_. True)\<rparr>,
    pw_system = \<lparr>py_open = Inr (), py_spawn = (\<lambda>_. Inr 7), py_reader = Inr (), py_writer = Inr ()\<rparr>,
    pw_env = (\<lambda>_. None), pw_passwd = None, pw_current_exe = None, pw_exists = (\<lambda>_. False), pw_version = ''0.1''\<rparr>"

theorem pane_engine_and_child_have_one_size_witness:
  "one_size (pane_run plain_env [PV_Resize True 640 480, PV_Key GK_Return \<lparr>mo_shift = False, mo_control = False, mo_alt = False,
      mo_meta = False, mo_super = False\<rparr> 9, PV_Font True ''mono'' 12 (8192, 16384) 640 0]
    (pane_new () \<lparr>pp_child = 7, pp_cols = 100, pp_rows = 30, pp_pixels = (0, 0), pp_written = []\<rparr> (8, 16)))"
proof (rule pane_engine_and_child_have_one_size [of _ plain_world None])
  show "snd (terminal_pane_new plain_world None) =
      Some \<lparr>pp_child = 7, pp_cols = 100, pp_rows = 30, pp_pixels = (0, 0), pp_written = []\<rparr>"
    by (simp add: terminal_pane_new_def terminal_new_def plain_world_def Let_def pty_spawn_def INIT_COLS_def INIT_ROWS_def)
qed simp

section \<open>What shows is redrawn\<close>

definition shown :: "'t terminal_pane \<Rightarrow> _" where
  "shown p = (pn_inner p, pn_cell p, pn_selection p, pn_frozen p, pn_exit p)"

lemma draw_shown: "shown p = shown q \<Longrightarrow> draw_pane vt p = draw_pane vt q"
  by (simp only: draw_pane_def shown_def prod.inject)

lemmas pane_events = press_in_pane_def copy_selection_to_clipboard_def show_search_bar_def write_key_def wheel_in_pane_def
  drag_begin_def drag_tick_def drag_update_def drag_end_def pane_send_input_def paste_text_def entry_changed_def
  advance_search_def scroll_search_viewport_def bar_key_def close_search_bar_def pane_poll_def

lemma redraws_ops [simp]:
  "pn_redraws (queue_draw p) = Suc (pn_redraws p)" "pn_redraws (drop_search p) = pn_redraws p"
  "pn_redraws (update_search_status p) = pn_redraws p" "pn_redraws (freeze_viewport vt p) = pn_redraws p"
  "pn_redraws (change_query vt q p) = pn_redraws p" "pn_redraws (extend_selection rnd vt a xy p) = pn_redraws p"
  "pn_redraws (on_term f p) = pn_redraws p" "pn_redraws (tell_size vt acc c r p) = pn_redraws p"
  by (simp_all add: pane_ops tell_size_def Let_def split_def split: option.split)

lemma shown_ops [simp]:
  "shown (update_search_status p) = shown p" "shown (p\<lparr>pn_clipboard := c\<rparr>) = shown p" "shown (p\<lparr>pn_pty := t\<rparr>) = shown p"
  "shown (p\<lparr>pn_timers := n\<rparr>) = shown p" "shown (p\<lparr>pn_bar := b\<rparr>) = shown p"
  by (simp_all add: shown_def update_search_status_def)

lemma redrawn_or_same:
  "pn_redraws p < pn_redraws (pane_step e ev p) \<or> shown (pane_step e ev p) = shown p \<or> (\<exists>acc w h. ev = PV_Resize acc w h)"
proof (cases ev)
  case (PV_Read now unix k bytes)
  then show ?thesis by (simp add: pane_step_def pane_read_def Let_def split_def)
next
  case (PV_Font accepted family size_pt metrics w h)
  then show ?thesis by (simp add: pane_step_def set_font_def Let_def)
qed (simp_all add: pane_step_def pane_events Let_def split: option.split pane_action.split key_action.split wait_answer.split)

text \<open>C17: What shows is redrawn: every event of a pane either asks the toolkit for a redraw or leaves what the pane
  draws as it was, byte for byte of its drawing; a change of the widget's size, after which the toolkit
  draws by itself, is the only other case.\<close>

theorem what_shows_is_redrawn:
  "pn_redraws p < pn_redraws (pane_step e ev p) \<or> draw_pane (pe_vt e) (pane_step e ev p) = draw_pane (pe_vt e) p \<or>
    (\<exists>acc w h. ev = PV_Resize acc w h)"
  using redrawn_or_same [of p e ev] draw_shown by blast

section \<open>Bells and the end\<close>

definition bell_state :: "'t terminal_pane \<Rightarrow> nat list \<times> nat option" where
  "bell_state p = (pn_bells p, pn_last_bell p)"

definition end_state :: "'t terminal_pane \<Rightarrow> nat \<times> int option" where
  "end_state p = (pn_exits p, pn_exit p)"

lemma quiet_ops [simp]:
  "bell_state (queue_draw p) = bell_state p" "bell_state (drop_search p) = bell_state p"
  "bell_state (update_search_status p) = bell_state p" "bell_state (freeze_viewport vt p) = bell_state p"
  "bell_state (change_query vt q p) = bell_state p" "bell_state (extend_selection rnd vt a xy p) = bell_state p"
  "bell_state (on_term f p) = bell_state p" "bell_state (tell_size vt acc c r p) = bell_state p"
  "end_state (queue_draw p) = end_state p" "end_state (drop_search p) = end_state p"
  "end_state (update_search_status p) = end_state p" "end_state (freeze_viewport vt p) = end_state p"
  "end_state (change_query vt q p) = end_state p" "end_state (extend_selection rnd vt a xy p) = end_state p"
  "end_state (on_term f p) = end_state p" "end_state (tell_size vt acc c r p) = end_state p"
  by (simp_all add: bell_state_def end_state_def pane_ops tell_size_def Let_def split_def split: option.split)

lemma quiet_fields [simp]:
  "bell_state (p\<lparr>pn_selection := a\<rparr>) = bell_state p" "bell_state (p\<lparr>pn_frozen := b\<rparr>) = bell_state p"
  "bell_state (p\<lparr>pn_drag_anchor := c\<rparr>) = bell_state p" "bell_state (p\<lparr>pn_drag_pointer := d\<rparr>) = bell_state p"
  "bell_state (p\<lparr>pn_bar := f\<rparr>) = bell_state p" "bell_state (p\<lparr>pn_entry := g\<rparr>) = bell_state p"
  "bell_state (p\<lparr>pn_clipboard := h\<rparr>) = bell_state p" "bell_state (p\<lparr>pn_primary := h\<rparr>) = bell_state p"
  "bell_state (p\<lparr>pn_timers := n\<rparr>) = bell_state p" "bell_state (p\<lparr>pn_pty := t\<rparr>) = bell_state p"
  "bell_state (p\<lparr>pn_inner := i\<rparr>) = bell_state p" "bell_state (p\<lparr>pn_font := q\<rparr>) = bell_state p"
  "bell_state (p\<lparr>pn_cell := m\<rparr>) = bell_state p" "bell_state (p\<lparr>pn_min_size := m\<rparr>) = bell_state p"
  "bell_state (p\<lparr>pn_exit := x\<rparr>) = bell_state p" "bell_state (p\<lparr>pn_exits := n\<rparr>) = bell_state p"
  "bell_state (p\<lparr>pn_scanner := sc\<rparr>) = bell_state p" "bell_state (p\<lparr>pn_transcript := tr\<rparr>) = bell_state p"
  by (simp_all add: bell_state_def)

lemma end_fields [simp]:
  "end_state (p\<lparr>pn_selection := a\<rparr>) = end_state p" "end_state (p\<lparr>pn_frozen := b\<rparr>) = end_state p"
  "end_state (p\<lparr>pn_drag_anchor := c\<rparr>) = end_state p" "end_state (p\<lparr>pn_drag_pointer := d\<rparr>) = end_state p"
  "end_state (p\<lparr>pn_bar := f\<rparr>) = end_state p" "end_state (p\<lparr>pn_entry := g\<rparr>) = end_state p"
  "end_state (p\<lparr>pn_clipboard := h\<rparr>) = end_state p" "end_state (p\<lparr>pn_primary := h\<rparr>) = end_state p"
  "end_state (p\<lparr>pn_timers := n\<rparr>) = end_state p" "end_state (p\<lparr>pn_pty := t\<rparr>) = end_state p"
  "end_state (p\<lparr>pn_inner := i\<rparr>) = end_state p" "end_state (p\<lparr>pn_font := q\<rparr>) = end_state p"
  "end_state (p\<lparr>pn_cell := m\<rparr>) = end_state p" "end_state (p\<lparr>pn_min_size := m\<rparr>) = end_state p"
  "end_state (p\<lparr>pn_last_bell := l\<rparr>) = end_state p" "end_state (p\<lparr>pn_bells := bs\<rparr>) = end_state p"
  "end_state (p\<lparr>pn_scanner := sc\<rparr>) = end_state p" "end_state (p\<lparr>pn_transcript := tr\<rparr>) = end_state p"
  by (simp_all add: end_state_def)

fun is_read :: "pane_event \<Rightarrow> bool" where
  "is_read (PV_Read _ _ _ _) = True"
| "is_read _ = False"

fun is_poll :: "pane_event \<Rightarrow> bool" where
  "is_poll (PV_Poll _) = True"
| "is_poll _ = False"

lemma step_bell_state: "\<not> is_read ev \<Longrightarrow> bell_state (pane_step e ev p) = bell_state p"
  by (cases ev) (simp_all add: pane_step_def pane_events resize_pane_def set_font_def Let_def
      split: option.split pane_action.split key_action.split wait_answer.split)

lemma step_end_state: "\<not> is_poll ev \<Longrightarrow> end_state (pane_step e ev p) = end_state p"
  by (cases ev) (simp_all add: pane_step_def pane_events pane_read_def resize_pane_def set_font_def Let_def split_def
      split: option.split pane_action.split key_action.split)

text \<open>The newest bell first, and each at least the window after the one before.\<close>

definition bells_apart :: "nat list \<times> nat option \<Rightarrow> bool" where
  "bells_apart b \<longleftrightarrow> sorted_wrt (\<lambda>new old. old + BELL_DEBOUNCE \<le> new) (fst b) \<and>
    snd b = (case fst b of [] \<Rightarrow> None | t # _ \<Rightarrow> Some t)"

lemma read_bells:
  "bells_apart (bell_state p) \<Longrightarrow> bells_apart (bell_state (pane_read vt lossy now unix k bytes p))"
proof -
  assume a: "bells_apart (bell_state p)"
  have far: "500 \<le> now - t0 \<longleftrightarrow> t0 + 500 \<le> now" for t0 :: nat by arith
  define q where "q = pane_read vt lossy now unix k bytes p"
  have "bell_state q = bell_state p \<or>
    (pn_last_bell q = Some now \<and> pn_bells q = now # pn_bells p \<and>
      (case pn_last_bell p of Some t0 \<Rightarrow> now - t0 \<ge> BELL_DEBOUNCE | None \<Rightarrow> True))"
    by (simp add: q_def pane_read_def Let_def split_def pane_ops bell_state_def)
  then show ?thesis
    unfolding q_def [symmetric] using a
    by (cases "pn_bells p") (auto simp: bells_apart_def bell_state_def BELL_DEBOUNCE_def far, fastforce)
qed

lemma step_bells: "bells_apart (bell_state p) \<Longrightarrow> bells_apart (bell_state (pane_step e ev p))"
  by (cases ev) (simp_all add: step_bell_state read_bells pane_step_def [of e "PV_Read a b c d" for a b c d])

definition exit_reported :: "nat \<times> int option \<Rightarrow> bool" where
  "exit_reported x \<longleftrightarrow> fst x = (if snd x = None then 0 else 1)"

lemma step_exit: "exit_reported (end_state p) \<Longrightarrow> exit_reported (end_state (pane_step e ev p))"
proof (cases "is_poll ev")
  case True
  then obtain a where "ev = PV_Poll a" by (auto elim: is_poll.elims)
  then show "exit_reported (end_state p) \<Longrightarrow> exit_reported (end_state (pane_step e ev p))"
    by (auto simp: pane_step_def pane_poll_def exit_reported_def end_state_def queue_draw_def split: wait_answer.split)
qed (simp add: step_end_state)

lemma run_reports:
  "bells_apart (bell_state p) \<Longrightarrow> exit_reported (end_state p) \<Longrightarrow>
    bells_apart (bell_state (pane_run e evs p)) \<and> exit_reported (end_state (pane_run e evs p))"
  by (induction evs arbitrary: p) (simp_all add: pane_run_def step_bells step_exit)

text \<open>C25: A pane does not nag: whatever its child prints and however its output is cut into reads, two bells a pane
  reports are at least half a second apart; and the exit of its child is reported once, when it is
  known, and never again.\<close>

theorem bells_and_exit_are_debounced:
  "sorted_wrt (\<lambda>new old. old + 500 \<le> new) (pn_bells (pane_run e evs (pane_new t pty cell))) \<and>
    pn_exits (pane_run e evs (pane_new t pty cell)) = (if pn_exit (pane_run e evs (pane_new t pty cell)) = None then 0 else 1)"
  using run_reports [of "pane_new t pty cell" e evs]
  by (simp add: bells_apart_def exit_reported_def bell_state_def end_state_def pane_new_def BELL_DEBOUNCE_def)

text \<open>Nothing typed reaches a child that has exited; a paste of the menu does.\<close>

lemma keys_stop_at_exit: "pn_exit p \<noteq> None \<Longrightarrow> pn_pty (press_in_pane vt uni pl key mo k p) = pn_pty p"
  by (simp add: press_in_pane_def pane_key_def copy_selection_to_clipboard_def show_search_bar_def pane_ops Let_def
      split: option.split terminal_shortcut.split)

lemma paste_after_exit:
  "vt_bracketed vt (tl_vt (in_term (pn_inner p))) = None \<Longrightarrow> length bytes \<le> k \<Longrightarrow>
    pp_written (pn_pty (paste_text vt bytes k p)) = pp_written (pn_pty p) @ bytes"
  by (simp add: paste_text_def paste_write_def bracketed_paste_enabled_def tty_write_def pane_ops Let_def)

text \<open>
  Input sent to a pane with a frozen view takes the selection away and leaves the view frozen: the pane draws
  the old frame on, whatever the child prints.
\<close>

lemma pane_send_input_leaves_frozen:
  "pn_frozen p = Some z \<Longrightarrow> length bytes \<le> k \<Longrightarrow>
    pn_selection (fst (pane_send_input vt bytes k p)) = None \<and> pn_frozen (fst (pane_send_input vt bytes k p)) = Some z"
  by (simp add: pane_send_input_def pane_ops Let_def)

lemma read_leaves_frozen: "pn_frozen (pane_read vt lossy now unix k bytes p) = pn_frozen p"
  by (simp add: pane_read_def pane_ops Let_def split_def)

text \<open>A drag that begins before the timer of the one before has seen its end leaves two timers scrolling.\<close>

lemma timers_pile_up:
  "pn_timers (drag_begin rnd vt xy (drag_end vt (drag_begin rnd vt xy' p))) = pn_timers p + 2"
  by (simp add: drag_begin_def drag_end_def pane_ops Let_def split: option.split)

section \<open>Pointer and menu\<close>

text \<open>With exact arithmetic the cell under a pointer is the one whose pixels it is on.\<close>

lemma cell_under_pointer:
  assumes "0 < cell" "0 \<le> x" "x < real (cells * cell)" "cells \<le> u16_max"
  shows "real (px_cell (\<lambda>y. y) x cell cells * cell) \<le> x \<and> x < real ((px_cell (\<lambda>y. y) x cell cells + 1) * cell)"
proof -
  define n where "n = nat \<lfloor>x / real cell\<rfloor>"
  have pos: "0 \<le> x / real cell" using assms(1,2) by simp
  have lt: "x / real cell < real cells" using assms(1,3) by (simp add: pos_divide_less_eq)
  have n: "int n = \<lfloor>x / real cell\<rfloor>" using pos by (simp add: n_def)
  then have "n < cells" using lt by linarith
  then have "px_cell (\<lambda>y. y) x cell cells = n"
    using assms(4) n by (simp add: px_cell_def clamp_def u16_max_def u32_max_def)
  moreover have "real n \<le> x / real cell" "x / real cell < real n + 1" using n by linarith+
  ultimately show ?thesis using assms(1) by (simp add: pos_le_divide_eq pos_divide_less_eq distrib_right)
qed

text \<open>The key a row of the menu shows after the prefix.\<close>

definition shown_key :: "string \<Rightarrow> key" where
  "shown_key sc = (let c = last sc in if c = CHR ''|'' then GK_bar else if c = CHR ''-'' then GK_minus else GK_Other (code c))"

text \<open>The menu's shortcuts do what its rows do: for every row of a pane's menu that shows a key of the prefix,
  pressing that key after the prefix with the pane in focus runs the same command of the cockpit as the
  row. Assumed is that a plain key has its own character.\<close>

theorem menu_shortcuts_run_their_rows:
  assumes "\<forall>c. uni (GK_Other c) = Some c"
  shows "list_all (\<lambda>(item, label, sc). case item of
      MI_Action a \<Rightarrow> sc = [] \<or>
        map_option (\<lambda>c. run_command w c (set_focused p s)) (prefix_command uni (shown_key sc)) = Some (terminal_action w p a s)
    | _ \<Rightarrow> True) (context_menu pl pre)"
  using assms
  by (simp add: context_menu_def prefixed_shortcut_def shown_key_def prefix_command_def run_command_def terminal_action_def
      AppKeys.to_ascii_lowercase_def Let_def)

theorem menu_shortcuts_run_their_rows_witness:
  "\<forall>w p s. map_option (\<lambda>c. run_command w c (set_focused p s)) (prefix_command (\<lambda>k. case k of GK_Other c \<Rightarrow> Some c | _ \<Rightarrow> None)
      (shown_key ''Ctrl+B x'')) = Some (terminal_action w p TA_ClosePane s)"
proof (intro allI)
  fix w p s
  let ?uni = "\<lambda>k. case k of GK_Other c \<Rightarrow> Some c | _ \<Rightarrow> None"
  have "shown_key (prefixed_shortcut ''Ctrl+B'' ''x'') = shown_key ''Ctrl+B x''"
    by (simp add: shown_key_def prefixed_shortcut_def trim_def is_space_def)
  then show "map_option (\<lambda>c. run_command w c (set_focused p s)) (prefix_command ?uni (shown_key ''Ctrl+B x'')) =
      Some (terminal_action w p TA_ClosePane s)"
    using menu_shortcuts_run_their_rows [of ?uni w p s Plat_Default "''Ctrl+B''"]
    by (simp add: context_menu_def) (simp add: prefixed_shortcut_def)
qed

end
