(* ===== verification/Satellite.thy ===== *)
theory Satellite
  imports WaylandRuns Config
begin

text \<open>
  The widget of a satellite pane (\<open>crates/lmux/src/satellite.rs\<close>): the picture of a window of the nested
  compositor with the pictures of its popups, the frames and cursors put on them, and the commands that
  pointer, keys, focus and size send to the compositor's thread (\<open>host_command\<close> of \<open>WaylandHost\<close>). The rounding
  of floating point, the toolkit's import of a buffer and its cursor theme are arguments.
\<close>

section \<open>Pointer coordinates\<close>

text \<open>How the toolkit paints a picture that is only scaled down: its scale, and the border at the left and the top.\<close>

definition painted_scale :: "(f64 \<Rightarrow> f64) \<Rightarrow> f64 \<times> f64 \<Rightarrow> f64 \<times> f64 \<Rightarrow> f64" where
  "painted_scale rnd widget tex = min (min (rnd (fst widget / fst tex)) (rnd (snd widget / snd tex))) 1"

definition painted_border :: "(f64 \<Rightarrow> f64) \<Rightarrow> f64 \<Rightarrow> f64 \<Rightarrow> f64 \<Rightarrow> f64" where
  "painted_border rnd scale widget tex = rnd (rnd (widget - rnd (tex * scale)) / 2)"

definition map_widget_to_surface ::
  "(f64 \<Rightarrow> f64) \<Rightarrow> int \<Rightarrow> int \<Rightarrow> (nat \<times> nat) option \<Rightarrow> f64 \<Rightarrow> f64 \<Rightarrow> f64 \<times> f64" where
  "map_widget_to_surface rnd widget_w widget_h fr x y =
    (if widget_w > 0 \<and> widget_h > 0 then
      (case fr of
         None \<Rightarrow> (x, y)
       | Some (tw, th) \<Rightarrow>
           if tw = 0 \<or> th = 0 then (x, y)
           else let ww = real_of_int widget_w; wh = real_of_int widget_h;
                    scale = painted_scale rnd (ww, wh) (real tw, real th);
                    ox = painted_border rnd scale ww (real tw); oy = painted_border rnd scale wh (real th)
                in (rnd (rnd (x - ox) / scale), rnd (rnd (y - oy) / scale)))
     else (x, y))"

section \<open>The widget\<close>

datatype shown_frame = SF_Pixels nat nat "8 word list" | SF_Dmabuf dmabuf_frame

datatype shown_cursor = SC_Unset | SC_None | SC_Named string | SC_Bitmap nat nat "8 word list" "int \<times> int"

record popup_picture =
  po_margin :: "int \<times> int"
  po_size :: "int \<times> int"
  po_frame :: "shown_frame option"
  po_cursor :: shown_cursor

record satellite_widget =
  sw_pane :: nat
  sw_surface :: nat
  sw_last_configured :: "(nat \<times> nat) option"
  sw_last_frame_size :: "(nat \<times> nat) option"
  sw_title :: "string option"
  sw_app_id :: "string option"
  sw_closed :: bool
  sw_frame :: "shown_frame option"
  sw_cursor :: shown_cursor
  sw_popups :: "nat \<rightharpoonup> popup_picture"
  sw_visible :: bool
  sw_focus_mode :: "focus_mode option"
  sw_focus_reports :: "nat list"
  sw_sent :: "host_command list"

definition satellite_new :: "nat \<Rightarrow> nat \<Rightarrow> string option \<Rightarrow> string option \<Rightarrow> satellite_widget" where
  "satellite_new p i title app =
    \<lparr>sw_pane = p, sw_surface = i, sw_last_configured = None, sw_last_frame_size = None, sw_title = title, sw_app_id = app,
     sw_closed = False, sw_frame = None, sw_cursor = SC_Unset, sw_popups = Map.empty, sw_visible = True, sw_focus_mode = None,
     sw_focus_reports = [], sw_sent = []\<rparr>"

definition send_command :: "host_command \<Rightarrow> satellite_widget \<Rightarrow> satellite_widget" where
  "send_command c w = w\<lparr>sw_sent := sw_sent w @ [c]\<rparr>"

definition mark_closed :: "satellite_widget \<Rightarrow> satellite_widget" where
  "mark_closed w = w\<lparr>sw_closed := True\<rparr>"

definition request_close :: "satellite_widget \<Rightarrow> satellite_widget" where
  "request_close w = send_command (HC_CloseToplevel (sw_surface w)) w"

definition set_satellite_title :: "string option \<Rightarrow> satellite_widget \<Rightarrow> satellite_widget" where
  "set_satellite_title title w = w\<lparr>sw_title := title\<rparr>"

definition set_satellite_app_id :: "string option \<Rightarrow> satellite_widget \<Rightarrow> satellite_widget" where
  "set_satellite_app_id app w = w\<lparr>sw_app_id := app\<rparr>"

definition attach_focus_callback :: "focus_mode \<Rightarrow> satellite_widget \<Rightarrow> satellite_widget" where
  "attach_focus_callback m w = w\<lparr>sw_focus_mode := Some m\<rparr>"

definition set_satellite_visible :: "bool \<Rightarrow> satellite_widget \<Rightarrow> satellite_widget" where
  "set_satellite_visible v w = w\<lparr>sw_visible := v\<rparr>"

section \<open>Popups\<close>

text \<open>Sizes are cast from 32 bits without a sign to 32 bits with one.\<close>

definition as_i32 :: "nat \<Rightarrow> int" where
  "as_i32 n = (if n mod 2 ^ 32 < 2 ^ 31 then int (n mod 2 ^ 32) else int (n mod 2 ^ 32) - 2 ^ 32)"

definition place_popup :: "int \<Rightarrow> int \<Rightarrow> nat \<Rightarrow> nat \<Rightarrow> popup_picture \<Rightarrow> popup_picture" where
  "place_popup x y width height pic = pic\<lparr>po_margin := (max x 0, max y 0), po_size := (as_i32 width, as_i32 height)\<rparr>"

definition attach_popup :: "nat \<Rightarrow> int \<Rightarrow> int \<Rightarrow> nat \<Rightarrow> nat \<Rightarrow> satellite_widget \<Rightarrow> satellite_widget" where
  "attach_popup i x y width height w =
    w\<lparr>sw_popups := (sw_popups w)(i \<mapsto> place_popup x y width height
      \<lparr>po_margin = (0, 0), po_size = (0, 0), po_frame = None, po_cursor = SC_Unset\<rparr>)\<rparr>"

definition change_popup :: "nat \<Rightarrow> (popup_picture \<Rightarrow> popup_picture) \<Rightarrow> satellite_widget \<Rightarrow> satellite_widget" where
  "change_popup i f w =
    (case sw_popups w i of None \<Rightarrow> w | Some pic \<Rightarrow> w\<lparr>sw_popups := (sw_popups w)(i \<mapsto> f pic)\<rparr>)"

definition reposition_popup :: "nat \<Rightarrow> int \<Rightarrow> int \<Rightarrow> nat \<Rightarrow> nat \<Rightarrow> satellite_widget \<Rightarrow> satellite_widget" where
  "reposition_popup i x y width height = change_popup i (place_popup x y width height)"

definition detach_popup :: "nat \<Rightarrow> satellite_widget \<Rightarrow> satellite_widget" where
  "detach_popup i w = w\<lparr>sw_popups := (sw_popups w)(i := None)\<rparr>"

section \<open>Frames and cursors\<close>

definition whole_frame :: "nat \<Rightarrow> nat \<Rightarrow> 8 word list \<Rightarrow> shown_frame option" where
  "whole_frame width height rgb =
    (if width = 0 \<or> height = 0 \<or> rgb = [] then None
     else if length rgb \<noteq> width * height * 3 then None
     else Some (SF_Pixels width height rgb))"

definition push_frame :: "nat \<Rightarrow> nat \<Rightarrow> 8 word list \<Rightarrow> satellite_widget \<Rightarrow> satellite_widget" where
  "push_frame width height rgb w =
    (case whole_frame width height rgb of
       None \<Rightarrow> w
     | Some f \<Rightarrow> w\<lparr>sw_last_frame_size := Some (width, height), sw_frame := Some f\<rparr>)"

definition push_popup_frame :: "nat \<Rightarrow> nat \<Rightarrow> nat \<Rightarrow> 8 word list \<Rightarrow> satellite_widget \<Rightarrow> satellite_widget" where
  "push_popup_frame i width height rgb w =
    (case whole_frame width height rgb of
       None \<Rightarrow> w | Some f \<Rightarrow> change_popup i (\<lambda>pic. pic\<lparr>po_frame := Some f\<rparr>) w)"

text \<open>\<open>imports\<close> says if the toolkit takes the buffer.\<close>

definition push_dmabuf_frame :: "(dmabuf_frame \<Rightarrow> bool) \<Rightarrow> dmabuf_frame \<Rightarrow> satellite_widget \<Rightarrow> satellite_widget" where
  "push_dmabuf_frame imports_it f w =
    (if df_width f = 0 \<or> df_height f = 0 \<or> \<not> imports_it f then w
     else w\<lparr>sw_last_frame_size := Some (df_width f, df_height f), sw_frame := Some (SF_Dmabuf f)\<rparr>)"

definition push_popup_dmabuf_frame :: "(dmabuf_frame \<Rightarrow> bool) \<Rightarrow> nat \<Rightarrow> dmabuf_frame \<Rightarrow> satellite_widget \<Rightarrow> satellite_widget" where
  "push_popup_dmabuf_frame imports_it i f w =
    (if df_width f = 0 \<or> df_height f = 0 \<or> \<not> imports_it f then w
     else change_popup i (\<lambda>pic. pic\<lparr>po_frame := Some (SF_Dmabuf f)\<rparr>) w)"

text \<open>A cursor goes to the picture and to those of all popups.\<close>

definition put_cursor :: "shown_cursor \<Rightarrow> satellite_widget \<Rightarrow> satellite_widget" where
  "put_cursor c w =
    w\<lparr>sw_cursor := c, sw_popups := (\<lambda>i. map_option (\<lambda>pic. pic\<lparr>po_cursor := c\<rparr>) (sw_popups w i))\<rparr>"

definition set_cursor_shape :: "bool \<Rightarrow> (string \<Rightarrow> bool) \<Rightarrow> string \<Rightarrow> satellite_widget \<Rightarrow> satellite_widget" where
  "set_cursor_shape display theme name =
    put_cursor (if \<not> display then SC_None
      else if theme name then SC_Named name else if theme ''default'' then SC_Named ''default'' else SC_None)"

definition set_cursor_bitmap :: "nat \<Rightarrow> nat \<Rightarrow> 8 word list \<Rightarrow> int \<times> int \<Rightarrow> satellite_widget \<Rightarrow> satellite_widget" where
  "set_cursor_bitmap width height rgba hotspot w =
    (if width = 0 \<or> height = 0 \<or> rgba = [] then w
     else if length rgba \<noteq> width * height * 4 then w
     else put_cursor (SC_Bitmap width height rgba hotspot) w)"

section \<open>Input\<close>

definition BTN_LEFT :: nat where "BTN_LEFT = 0x110"
definition BTN_RIGHT :: nat where "BTN_RIGHT = 0x111"
definition BTN_MIDDLE :: nat where "BTN_MIDDLE = 0x112"

datatype gtk_button = Primary_Button | Secondary_Button | Middle_Button

fun evdev_button :: "gtk_button \<Rightarrow> nat" where
  "evdev_button Primary_Button = BTN_LEFT"
| "evdev_button Secondary_Button = BTN_RIGHT"
| "evdev_button Middle_Button = BTN_MIDDLE"

definition evdev_key :: "nat \<Rightarrow> 32 word" where
  "evdev_key hw = word_of_nat (hw - 8)"

definition MIN_CONFIGURE :: "nat \<times> nat" where "MIN_CONFIGURE = (32, 32)"

text \<open>The focus comes to the picture: the compositor's keyboard follows, and the cockpit is told.\<close>

definition focus_enter :: "satellite_widget \<Rightarrow> satellite_widget" where
  "focus_enter w =
    (let w1 = send_command (HC_KeyboardFocus (Some (sw_surface w))) w
     in if sw_focus_mode w = None then w1 else w1\<lparr>sw_focus_reports := sw_focus_reports w1 @ [sw_pane w]\<rparr>)"

definition focus_leave :: "satellite_widget \<Rightarrow> satellite_widget" where
  "focus_leave = send_command (HC_KeyboardFocus None)"

text \<open>\<open>grab\<close> says if the picture did not have the focus already, so that taking it is an event.\<close>

definition grab_focus :: "bool \<Rightarrow> satellite_widget \<Rightarrow> satellite_widget" where
  "grab_focus grab w = (if grab then focus_enter w else w)"

definition pointer_motion :: "(f64 \<Rightarrow> f64) \<Rightarrow> int \<times> int \<Rightarrow> f64 \<times> f64 \<Rightarrow> satellite_widget \<Rightarrow> satellite_widget" where
  "pointer_motion rnd alloc xy w =
    (let (sx, sy) = map_widget_to_surface rnd (fst alloc) (snd alloc) (sw_last_frame_size w) (fst xy) (snd xy)
     in send_command (HC_PointerMotion (sw_surface w) sx sy) w)"

definition pointer_enter :: "(f64 \<Rightarrow> f64) \<Rightarrow> int \<times> int \<Rightarrow> f64 \<times> f64 \<Rightarrow> bool \<Rightarrow> satellite_widget \<Rightarrow> satellite_widget" where
  "pointer_enter rnd alloc xy grab w =
    (let w1 = pointer_motion rnd alloc xy w
     in if sw_focus_mode w1 = Some Focus_Hover then grab_focus grab w1 else w1)"

definition pointer_leave :: "satellite_widget \<Rightarrow> satellite_widget" where
  "pointer_leave w = send_command (HC_PointerLeave (sw_surface w)) w"

definition button_pressed :: "(f64 \<Rightarrow> f64) \<Rightarrow> int \<times> int \<Rightarrow> f64 \<times> f64 \<Rightarrow> bool \<Rightarrow> gtk_button \<Rightarrow> satellite_widget \<Rightarrow> satellite_widget" where
  "button_pressed rnd alloc xy grab b w =
    send_command (HC_PointerButton (sw_surface w) (evdev_button b) True) (pointer_motion rnd alloc xy (grab_focus grab w))"

definition button_released :: "gtk_button \<Rightarrow> satellite_widget \<Rightarrow> satellite_widget" where
  "button_released b w = send_command (HC_PointerButton (sw_surface w) (evdev_button b) False) w"

definition wheel_turned :: "f64 \<times> f64 \<Rightarrow> satellite_widget \<Rightarrow> satellite_widget" where
  "wheel_turned d w = send_command (HC_PointerAxis (sw_surface w) (fst d) (snd d)) w"

definition key_changed :: "nat \<Rightarrow> bool \<Rightarrow> satellite_widget \<Rightarrow> satellite_widget" where
  "key_changed hw pressed w = send_command (HC_KeyInput (sw_surface w) (evdev_key hw) pressed) w"

text \<open>The controllers of a popup's picture address the popup, and take its coordinates as they are.\<close>

datatype popup_input =
  PI_Motion f64 f64 | PI_Leave | PI_Press gtk_button bool | PI_Release gtk_button | PI_Wheel f64 f64 | PI_Key nat bool | PI_Focus

fun popup_commands :: "nat \<Rightarrow> popup_input \<Rightarrow> host_command list" where
  "popup_commands i (PI_Motion x y) = [HC_PointerMotion i x y]"
| "popup_commands i PI_Leave = [HC_PointerLeave i]"
| "popup_commands i (PI_Press b grab) =
    (if grab then [HC_KeyboardFocus (Some i)] else []) @ [HC_PointerButton i (evdev_button b) True]"
| "popup_commands i (PI_Release b) = [HC_PointerButton i (evdev_button b) False]"
| "popup_commands i (PI_Wheel dx dy) = [HC_PointerAxis i dx dy]"
| "popup_commands i (PI_Key hw pressed) = [HC_KeyInput i (evdev_key hw) pressed]"
| "popup_commands i PI_Focus = [HC_KeyboardFocus (Some i)]"

text \<open>A picture that is gone gets no input.\<close>

definition input_to_popup :: "nat \<Rightarrow> popup_input \<Rightarrow> satellite_widget \<Rightarrow> satellite_widget" where
  "input_to_popup i inp w = (if sw_popups w i = None then w else fold send_command (popup_commands i inp) w)"

text \<open>A tick of the frame clock: the size of the picture, told to the client when it is another than the last.\<close>

definition frame_tick :: "int \<times> int \<Rightarrow> satellite_widget \<Rightarrow> satellite_widget" where
  "frame_tick alloc w =
    (if fst alloc \<le> 0 \<or> snd alloc \<le> 0 then w
     else let size = (max (nat (fst alloc)) (fst MIN_CONFIGURE), max (nat (snd alloc)) (snd MIN_CONFIGURE))
     in if sw_last_configured w = Some size then w
        else send_command (HC_ResizeToplevel (sw_surface w) (fst size) (snd size)) (w\<lparr>sw_last_configured := Some size\<rparr>))"

section \<open>Runs\<close>

datatype satellite_event =
  SE_Closed | SE_Request_Close | SE_Title "string option" | SE_App_Id "string option" | SE_Visible bool
| SE_Focus_Callback focus_mode | SE_Attach nat int int nat nat | SE_Reposition nat int int nat nat | SE_Detach nat
| SE_Frame nat nat "8 word list" | SE_Popup_Frame nat nat nat "8 word list"
| SE_Dmabuf dmabuf_frame | SE_Popup_Dmabuf nat dmabuf_frame
| SE_Cursor_Shape string | SE_Cursor_Bitmap nat nat "8 word list" "int \<times> int"
| SE_Focus | SE_Unfocus | SE_Motion "int \<times> int" "f64 \<times> f64" | SE_Enter "int \<times> int" "f64 \<times> f64" bool | SE_Leave
| SE_Press "int \<times> int" "f64 \<times> f64" bool gtk_button | SE_Release gtk_button | SE_Wheel "f64 \<times> f64" | SE_Key nat bool
| SE_Popup_Input nat popup_input | SE_Tick "int \<times> int"

record satellite_env =
  se_round :: "f64 \<Rightarrow> f64"
  se_imports :: "dmabuf_frame \<Rightarrow> bool"
  se_display :: bool
  se_theme :: "string \<Rightarrow> bool"

definition satellite_step :: "satellite_env \<Rightarrow> satellite_event \<Rightarrow> satellite_widget \<Rightarrow> satellite_widget" where
  "satellite_step e ev w =
    (case ev of
       SE_Closed \<Rightarrow> mark_closed w | SE_Request_Close \<Rightarrow> request_close w
     | SE_Title t \<Rightarrow> set_satellite_title t w | SE_App_Id a \<Rightarrow> set_satellite_app_id a w | SE_Visible v \<Rightarrow> set_satellite_visible v w
     | SE_Focus_Callback m \<Rightarrow> attach_focus_callback m w
     | SE_Attach i x y wd ht \<Rightarrow> attach_popup i x y wd ht w | SE_Reposition i x y wd ht \<Rightarrow> reposition_popup i x y wd ht w
     | SE_Detach i \<Rightarrow> detach_popup i w
     | SE_Frame wd ht rgb \<Rightarrow> push_frame wd ht rgb w | SE_Popup_Frame i wd ht rgb \<Rightarrow> push_popup_frame i wd ht rgb w
     | SE_Dmabuf f \<Rightarrow> push_dmabuf_frame (se_imports e) f w | SE_Popup_Dmabuf i f \<Rightarrow> push_popup_dmabuf_frame (se_imports e) i f w
     | SE_Cursor_Shape n \<Rightarrow> set_cursor_shape (se_display e) (se_theme e) n w
     | SE_Cursor_Bitmap wd ht rgba h \<Rightarrow> set_cursor_bitmap wd ht rgba h w
     | SE_Focus \<Rightarrow> focus_enter w | SE_Unfocus \<Rightarrow> focus_leave w
     | SE_Motion al xy \<Rightarrow> pointer_motion (se_round e) al xy w | SE_Enter al xy g \<Rightarrow> pointer_enter (se_round e) al xy g w
     | SE_Leave \<Rightarrow> pointer_leave w
     | SE_Press al xy g b \<Rightarrow> button_pressed (se_round e) al xy g b w | SE_Release b \<Rightarrow> button_released b w
     | SE_Wheel d \<Rightarrow> wheel_turned d w | SE_Key hw p \<Rightarrow> key_changed hw p w
     | SE_Popup_Input i inp \<Rightarrow> input_to_popup i inp w | SE_Tick al \<Rightarrow> frame_tick al w)"

definition satellite_run :: "satellite_env \<Rightarrow> satellite_event list \<Rightarrow> satellite_widget \<Rightarrow> satellite_widget" where
  "satellite_run e evs w = fold (satellite_step e) evs w"

lemmas satellite_ops = mark_closed_def request_close_def set_satellite_title_def set_satellite_app_id_def
  set_satellite_visible_def attach_focus_callback_def attach_popup_def reposition_popup_def detach_popup_def change_popup_def
  push_frame_def push_popup_frame_def push_dmabuf_frame_def push_popup_dmabuf_frame_def put_cursor_def
  set_cursor_shape_def set_cursor_bitmap_def focus_enter_def focus_leave_def grab_focus_def pointer_motion_def
  pointer_enter_def pointer_leave_def button_pressed_def button_released_def wheel_turned_def key_changed_def
  input_to_popup_def send_command_def

section \<open>Sizes told to the client\<close>

fun resizes :: "host_command list \<Rightarrow> (nat \<times> nat) list" where
  "resizes [] = []"
| "resizes (HC_ResizeToplevel i w h # cs) = (w, h) # resizes cs"
| "resizes (_ # cs) = resizes cs"

lemma resizes_append [simp]: "resizes (xs @ ys) = resizes xs @ resizes ys"
  by (induction xs rule: resizes.induct) simp_all

definition sizes_told :: "satellite_widget \<Rightarrow> (nat \<times> nat) option \<times> (nat \<times> nat) list" where
  "sizes_told w = (sw_last_configured w, resizes (sw_sent w))"

lemma fold_send: "fold send_command cs w = w\<lparr>sw_sent := sw_sent w @ cs\<rparr>"
  by (induction cs arbitrary: w) (simp_all add: send_command_def)

lemma popup_commands_resize [simp]: "resizes (popup_commands i inp) = []"
  by (cases inp) simp_all

fun is_tick :: "satellite_event \<Rightarrow> bool" where
  "is_tick (SE_Tick _) = True"
| "is_tick _ = False"

lemma step_sizes: "\<not> is_tick ev \<Longrightarrow> sizes_told (satellite_step e ev w) = sizes_told w"
  by (cases ev) (simp_all add: satellite_step_def satellite_ops sizes_told_def fold_send Let_def split_def split: option.split)

text \<open>Each size told differs from the one before, is at least the floor, and the last is the one remembered.\<close>

definition sizes_ok :: "(nat \<times> nat) option \<times> (nat \<times> nat) list \<Rightarrow> bool" where
  "sizes_ok z \<longleftrightarrow> distinct_adj (snd z) \<and> list_all (\<lambda>(w, h). 32 \<le> w \<and> 32 \<le> h) (snd z) \<and>
    fst z = (if snd z = [] then None else Some (last (snd z)))"

lemma tick_sizes: "sizes_ok (sizes_told w) \<Longrightarrow> sizes_ok (sizes_told (frame_tick al w))"
  by (auto simp: sizes_ok_def sizes_told_def frame_tick_def send_command_def Let_def MIN_CONFIGURE_def distinct_adj_append_iff)

lemma step_sizes_ok: "sizes_ok (sizes_told w) \<Longrightarrow> sizes_ok (sizes_told (satellite_step e ev w))"
proof (cases "is_tick ev")
  case True
  then obtain al where "ev = SE_Tick al" by (auto elim: is_tick.elims)
  then show "sizes_ok (sizes_told w) \<Longrightarrow> sizes_ok (sizes_told (satellite_step e ev w))"
    by (simp add: satellite_step_def tick_sizes)
qed (simp add: step_sizes)

lemma run_sizes: "sizes_ok (sizes_told w) \<Longrightarrow> sizes_ok (sizes_told (satellite_run e evs w))"
  by (induction evs arbitrary: w) (simp_all add: satellite_run_def step_sizes_ok)

text \<open>A window is told its size once: of the sizes that a satellite's client is asked for, none repeats the one
  before and none is below 32 by 32, whatever the widget is allocated; and after a frame in which the
  picture has a size, the last one asked for is that size, raised to the floor.\<close>

theorem window_is_told_each_size_once:
  "distinct_adj (resizes (sw_sent (satellite_run e evs (satellite_new p i title app)))) \<and>
    list_all (\<lambda>(w, h). 32 \<le> w \<and> 32 \<le> h) (resizes (sw_sent (satellite_run e evs (satellite_new p i title app)))) \<and>
    last (resizes (sw_sent (satellite_run e (evs @ [SE_Tick (int (Suc a), int (Suc b))]) (satellite_new p i title app)))) =
      (max (Suc a) 32, max (Suc b) 32)"
proof -
  let ?w = "satellite_run e evs (satellite_new p i title app)"
  have ok: "sizes_ok (sizes_told ?w)" by (rule run_sizes) (simp add: sizes_ok_def sizes_told_def satellite_new_def)
  have "satellite_run e (evs @ [SE_Tick (int (Suc a), int (Suc b))]) (satellite_new p i title app) =
      frame_tick (int (Suc a), int (Suc b)) ?w"
    by (simp add: satellite_run_def satellite_step_def)
  then show ?thesis
    using ok by (auto simp: sizes_ok_def sizes_told_def frame_tick_def send_command_def Let_def MIN_CONFIGURE_def nat_add_distrib
        split: if_splits)
qed

section \<open>Frames\<close>

definition frame_ok :: "shown_frame \<Rightarrow> bool" where
  "frame_ok f = (case f of SF_Pixels w h rgb \<Rightarrow> 0 < w \<and> 0 < h \<and> length rgb = w * h * 3 | SF_Dmabuf d \<Rightarrow> 0 < df_width d \<and> 0 < df_height d)"

definition frame_extent :: "shown_frame \<Rightarrow> nat \<times> nat" where
  "frame_extent f = (case f of SF_Pixels w h rgb \<Rightarrow> (w, h) | SF_Dmabuf d \<Rightarrow> (df_width d, df_height d))"

definition frames_ok :: "satellite_widget \<Rightarrow> bool" where
  "frames_ok w \<longleftrightarrow> sw_last_frame_size w = map_option frame_extent (sw_frame w) \<and> pred_option frame_ok (sw_frame w) \<and>
    (\<forall>pic \<in> ran (sw_popups w). pred_option frame_ok (po_frame pic))"

lemma whole_frame_ok: "whole_frame w h rgb = Some f \<Longrightarrow> frame_ok f \<and> frame_extent f = (w, h)"
  by (auto simp: whole_frame_def frame_ok_def frame_extent_def split: if_splits)

lemma ran_upd: "x \<in> ran (m(i \<mapsto> v)) \<Longrightarrow> x = v \<or> x \<in> ran m"
  by (auto simp: ran_def split: if_splits)

lemma ran_del: "x \<in> ran (m(i := None)) \<Longrightarrow> x \<in> ran m"
  by (auto simp: ran_def split: if_splits)

lemma change_popup_ok:
  "frames_ok w \<Longrightarrow> (\<And>pic. pred_option frame_ok (po_frame pic) \<Longrightarrow> pred_option frame_ok (po_frame (f pic))) \<Longrightarrow>
    frames_ok (change_popup i f w)"
  by (auto simp: frames_ok_def change_popup_def split: option.split dest!: ran_upd intro: ranI)

lemma put_cursor_ok: "frames_ok w \<Longrightarrow> frames_ok (put_cursor c w)"
  by (auto simp: frames_ok_def put_cursor_def ran_def)

lemma commands_keep_frames [simp]:
  "frames_ok (w\<lparr>sw_sent := cs\<rparr>) = frames_ok w" "frames_ok (w\<lparr>sw_focus_reports := r\<rparr>) = frames_ok w"
  "frames_ok (w\<lparr>sw_last_configured := z\<rparr>) = frames_ok w" "frames_ok (w\<lparr>sw_closed := b\<rparr>) = frames_ok w"
  "frames_ok (w\<lparr>sw_title := t\<rparr>) = frames_ok w" "frames_ok (w\<lparr>sw_app_id := t\<rparr>) = frames_ok w"
  "frames_ok (w\<lparr>sw_visible := b\<rparr>) = frames_ok w" "frames_ok (w\<lparr>sw_focus_mode := m\<rparr>) = frames_ok w"
  by (simp_all add: frames_ok_def)

lemma send_keeps_frames [simp]: "frames_ok (send_command c w) = frames_ok w"
  by (simp add: send_command_def)

lemma step_frames: "frames_ok w \<Longrightarrow> frames_ok (satellite_step e ev w)"
proof (cases ev)
  case (SE_Attach i x y wd ht)
  then show "frames_ok w \<Longrightarrow> ?thesis"
    by (auto simp: satellite_step_def attach_popup_def frames_ok_def place_popup_def dest!: ran_upd)
next
  case (SE_Detach i)
  then show "frames_ok w \<Longrightarrow> ?thesis" by (auto simp: satellite_step_def detach_popup_def frames_ok_def dest!: ran_del)
next
  case (SE_Frame wd ht rgb)
  then show "frames_ok w \<Longrightarrow> ?thesis"
    by (auto simp: satellite_step_def push_frame_def frames_ok_def split: option.split dest: whole_frame_ok)
next
  case (SE_Dmabuf f)
  then show "frames_ok w \<Longrightarrow> ?thesis"
    by (auto simp: satellite_step_def push_dmabuf_frame_def frames_ok_def frame_ok_def frame_extent_def)
next
  case (SE_Popup_Frame i wd ht rgb)
  then show "frames_ok w \<Longrightarrow> ?thesis"
    by (auto simp: satellite_step_def push_popup_frame_def split: option.split intro!: change_popup_ok dest: whole_frame_ok)
next
  case (SE_Popup_Dmabuf i f)
  then show "frames_ok w \<Longrightarrow> ?thesis"
    by (auto simp: satellite_step_def push_popup_dmabuf_frame_def frame_ok_def intro!: change_popup_ok)
next
  case (SE_Reposition i x y wd ht)
  then show "frames_ok w \<Longrightarrow> ?thesis"
    by (auto simp: satellite_step_def reposition_popup_def place_popup_def intro!: change_popup_ok)
qed (auto simp: satellite_step_def mark_closed_def request_close_def set_satellite_title_def set_satellite_app_id_def
    set_satellite_visible_def attach_focus_callback_def set_cursor_shape_def set_cursor_bitmap_def focus_enter_def focus_leave_def
    grab_focus_def pointer_motion_def pointer_enter_def pointer_leave_def button_pressed_def button_released_def
    wheel_turned_def key_changed_def input_to_popup_def frame_tick_def fold_send Let_def split_def intro: put_cursor_ok)

text \<open>Only whole frames are shown: whatever sizes and bytes arrive, a picture shows pixels only when there are
  exactly three bytes for each of its pixels and at least one pixel, and the size the pointer's
  coordinates are mapped with is that of the frame shown.\<close>

theorem only_whole_frames_are_shown:
  "frames_ok (satellite_run e evs (satellite_new p i title app))"
proof -
  have "frames_ok w \<Longrightarrow> frames_ok (satellite_run e evs w)" for w
    by (induction evs arbitrary: w) (simp_all add: satellite_run_def step_frames)
  moreover have "frames_ok (satellite_new p i title app)" by (simp add: frames_ok_def satellite_new_def)
  ultimately show ?thesis .
qed

text \<open>What the compositor copies is shown: a frame copied out of a client's buffer by the nested compositor is
  never dropped by the widget as malformed.\<close>

theorem copied_frames_are_shown:
  assumes "copy_shm_to_rgb mem len bd = Some f"
  shows "sw_frame (push_frame (fc_width f) (fc_height f) (fc_rgb f) w) = Some (SF_Pixels (fc_width f) (fc_height f) (fc_rgb f))"
proof -
  let ?px = "\<lambda>p. [mem (p + 2), mem (p + 1), mem p]"
  obtain base wd ht st where l: "shm_layout len bd = Some (base, wd, ht, st)"
    using assms by (cases "shm_layout len bd") (auto simp: copy_shm_to_rgb_def)
  have f: "fc_width f = wd" "fc_height f = ht" "fc_rgb f = pixels ?px (base, wd, ht, st)"
    using assms l layout_inside(1,2) [OF l] by (auto simp: copy_shm_to_rgb_def)
  have pos: "0 < wd" "0 < ht" using layout_positive [OF l] layout_inside(1,2) [OF l] by simp_all
  have px: "length (?px p) = 3" for p by simp
  have "length (fc_rgb f) = ht * (wd * 3)" using pixels_nth(1) [OF px refl [of "(base, wd, ht, st)"]] f(3) by simp
  then show ?thesis
    using pos f(1,2) by (auto simp: push_frame_def whole_frame_def ac_simps)
qed

theorem copied_frames_are_shown_witness:
  "\<exists>f. copy_shm_to_rgb (\<lambda>p. word_of_nat p) 64 \<lparr>bd_offset = 8, bd_width = 2, bd_height = 2, bd_stride = 16, bd_format = Xrgb8888\<rparr> = Some f \<and>
    sw_frame (push_frame 2 2 (fc_rgb f) (satellite_new 1 7 None None)) = Some (SF_Pixels 2 2 (fc_rgb f))"
proof -
  let ?bd = "\<lparr>bd_offset = 8, bd_width = 2, bd_height = 2, bd_stride = 16, bd_format = Xrgb8888\<rparr>"
  obtain f where f: "copy_shm_to_rgb (\<lambda>p. word_of_nat p) 64 ?bd = Some f" "fc_width f = 2" "fc_height f = 2"
    by (simp add: copy_shm_to_rgb_def shm_layout_def checked_def Let_def)
  show ?thesis using copied_frames_are_shown [OF f(1), of "satellite_new 1 7 None None"] f by simp
qed

section \<open>Commands and coordinates\<close>

fun addressed :: "host_command \<Rightarrow> nat option" where
  "addressed HC_Shutdown = None"
| "addressed (HC_ResizeToplevel i _ _) = Some i"
| "addressed (HC_CloseToplevel i) = Some i"
| "addressed (HC_PointerMotion i _ _) = Some i"
| "addressed (HC_PointerButton i _ _) = Some i"
| "addressed (HC_PointerLeave i) = Some i"
| "addressed (HC_PointerAxis i _ _) = Some i"
| "addressed (HC_KeyInput i _ _) = Some i"
| "addressed (HC_KeyboardFocus i) = i"

fun attached_by :: "satellite_event \<Rightarrow> nat list" where
  "attached_by (SE_Attach i _ _ _ _) = [i]"
| "attached_by _ = []"

definition own_command :: "nat set \<Rightarrow> host_command \<Rightarrow> bool" where
  "own_command ids c \<longleftrightarrow> c \<noteq> HC_Shutdown \<and> pred_option (\<lambda>i. i \<in> ids) (addressed c)"

lemma own_command_simps [simp]:
  "own_command ids (HC_ResizeToplevel i a b) \<longleftrightarrow> i \<in> ids" "own_command ids (HC_CloseToplevel i) \<longleftrightarrow> i \<in> ids"
  "own_command ids (HC_PointerMotion i x y) \<longleftrightarrow> i \<in> ids" "own_command ids (HC_PointerButton i n p) \<longleftrightarrow> i \<in> ids"
  "own_command ids (HC_PointerLeave i) \<longleftrightarrow> i \<in> ids" "own_command ids (HC_PointerAxis i x y) \<longleftrightarrow> i \<in> ids"
  "own_command ids (HC_KeyInput i k p) \<longleftrightarrow> i \<in> ids" "own_command ids (HC_KeyboardFocus None)"
  "own_command ids (HC_KeyboardFocus (Some i)) \<longleftrightarrow> i \<in> ids"
  by (simp_all add: own_command_def)

lemma own_command_mono: "own_command ids c \<Longrightarrow> ids \<subseteq> ids' \<Longrightarrow> own_command ids' c"
  by (cases "addressed c") (auto simp: own_command_def)

definition own_ids :: "nat set \<Rightarrow> satellite_widget \<Rightarrow> bool" where
  "own_ids ids w \<longleftrightarrow> sw_surface w \<in> ids \<and> dom (sw_popups w) \<subseteq> ids \<and>
    list_all (own_command ids) (sw_sent w)"

lemma popup_commands_own [simp]: "list_all (own_command ids) (popup_commands i inp) \<longleftrightarrow> i \<in> ids"
  by (cases inp) simp_all

lemma step_own: "own_ids ids w \<Longrightarrow> own_ids (ids \<union> set (attached_by ev)) (satellite_step e ev w)"
proof (cases ev)
  case (SE_Attach i x y wd ht)
  assume w: "own_ids ids w"
  then have "list_all (own_command (insert i ids)) (sw_sent w)"
    using own_command_mono [of ids _ "insert i ids"] by (auto simp: own_ids_def list_all_iff)
  then show ?thesis using w by (auto simp: SE_Attach satellite_step_def attach_popup_def own_ids_def)
qed (auto simp: satellite_step_def satellite_ops own_ids_def fold_send frame_tick_def Let_def split_def
    split: option.split if_splits)

lemma run_own: "own_ids ids w \<Longrightarrow> own_ids (ids \<union> set (concat (map attached_by evs))) (satellite_run e evs w)"
proof (induction evs arbitrary: ids w)
  case (Cons ev evs)
  from Cons.IH [OF step_own [OF Cons.prems]] show ?case by (simp add: satellite_run_def Un_assoc)
qed (simp add: satellite_run_def)

text \<open>Input stays in its window: whatever is typed, clicked and scrolled on a satellite, every command it sends to
  the nested compositor names the surface of the satellite itself or of a popup that was attached to it,
  and none stops the compositor.\<close>

theorem input_stays_in_its_window:
  "list_all (\<lambda>c. c \<noteq> HC_Shutdown \<and> pred_option (\<lambda>j. j = i \<or> j \<in> set (concat (map attached_by evs))) (addressed c))
    (sw_sent (satellite_run e evs (satellite_new p i title app)))"
proof -
  have "own_ids {i} (satellite_new p i title app)" by (simp add: own_ids_def satellite_new_def)
  from run_own [OF this, of evs e]
  have "list_all (own_command ({i} \<union> set (concat (map attached_by evs)))) (sw_sent (satellite_run e evs (satellite_new p i title app)))"
    by (simp add: own_ids_def)
  then show ?thesis by (simp add: own_command_def [abs_def])
qed

text \<open>The pointer is where the picture is: a point of the window that the toolkit paints, centred and scaled down to
  fit, is mapped back to itself when the pointer is over it, and the painted picture is inside the widget.
  The arithmetic is exact here.\<close>

theorem pointer_maps_back:
  assumes "0 < ww" "0 < wh" "0 < tw" "0 < th"
  defines "scale \<equiv> painted_scale (\<lambda>v. v) (real_of_int ww, real_of_int wh) (real tw, real th)"
  defines "ox \<equiv> painted_border (\<lambda>v. v) scale (real_of_int ww) (real tw)"
    and "oy \<equiv> painted_border (\<lambda>v. v) scale (real_of_int wh) (real th)"
  shows "map_widget_to_surface (\<lambda>v. v) ww wh (Some (tw, th)) (ox + sx * scale) (oy + sy * scale) = (sx, sy) \<and>
    0 \<le> ox \<and> ox + real tw * scale \<le> real_of_int ww \<and> 0 \<le> oy \<and> oy + real th * scale \<le> real_of_int wh"
proof -
  have pos: "0 < scale" using assms(1-4) by (simp add: scale_def painted_scale_def)
  have "scale \<le> real_of_int ww / real tw" "scale \<le> real_of_int wh / real th" by (simp_all add: scale_def painted_scale_def)
  then have fit: "real tw * scale \<le> real_of_int ww" "real th * scale \<le> real_of_int wh"
    using assms(3,4) by (simp_all add: pos_le_divide_eq mult.commute)
  have "map_widget_to_surface (\<lambda>v. v) ww wh (Some (tw, th)) (ox + sx * scale) (oy + sy * scale) = (sx, sy)"
    using assms(1-4) pos
    by (simp add: map_widget_to_surface_def Let_def flip: scale_def ox_def oy_def)
  then show ?thesis using fit by (simp add: ox_def oy_def painted_border_def field_simps)
qed

theorem pointer_maps_back_witness:
  "map_widget_to_surface (\<lambda>v. v) 800 600 (Some (400, 300)) 210 160 = (10, 10)"
  using pointer_maps_back [of 800 600 400 300 10 10] by (simp add: painted_scale_def painted_border_def)

text \<open>A popup is put at its place in the widget, not in the painted picture: beside its parent, when that is centred.\<close>

lemma popup_beside_its_parent:
  assumes "0 < tw" "0 < th" "int tw < ww" "int th < wh" "0 \<le> x" "0 \<le> y"
  shows "map_option po_margin (sw_popups (attach_popup i x y wd ht w) i) = Some (x, y)"
    and "map_widget_to_surface (\<lambda>v. v) ww wh (Some (tw, th)) (real_of_int x) (real_of_int y) \<noteq> (real_of_int x, real_of_int y)"
proof -
  show "map_option po_margin (sw_popups (attach_popup i x y wd ht w) i) = Some (x, y)"
    using assms(5,6) by (simp add: attach_popup_def place_popup_def)
  have "1 \<le> real_of_int ww / real tw" "1 \<le> real_of_int wh / real th" using assms(1-4) by (simp_all add: pos_le_divide_eq)
  then have s: "painted_scale (\<lambda>v. v) (real_of_int ww, real_of_int wh) (real tw, real th) = 1" by (simp add: painted_scale_def)
  have "painted_border (\<lambda>v. v) 1 (real_of_int ww) (real tw) \<noteq> 0" using assms(3) by (simp add: painted_border_def)
  then show "map_widget_to_surface (\<lambda>v. v) ww wh (Some (tw, th)) (real_of_int x) (real_of_int y) \<noteq> (real_of_int x, real_of_int y)"
    using assms(1-4) s by (simp add: map_widget_to_surface_def Let_def)
qed

end
