(* ===== verification/MacHelper.thy ===== *)
theory MacHelper
  imports Paths BusClient TermQueries
begin

text \<open>
  The helper that controls windows on macOS (\<open>crates/lmux-macos-helper/src/lib.rs\<close>), in its macOS build: its
  requests and responses, the listing of windows, their identification between the two interfaces of the
  system, previews, and raising. The accessibility and graphics interfaces, \<open>osascript\<close>, the texts of debug
  output and serde are arguments; the calls that release objects of the system are left out.
\<close>

section \<open>The protocol\<close>

record window_ref =
  wf_pid :: "nat option"
  wf_bundle :: "string option"
  wf_index :: "nat option"
  wf_id :: "int option"
  wf_title :: "string option"

record window_info =
  wi_id :: "int option"
  wi_pid :: nat
  wi_bundle :: "string option"
  wi_index :: nat
  wi_title :: "string option"

record operation_result =
  or_window :: window_ref
  or_ok :: bool
  or_error :: "string option"

datatype helper_request =
  HR_Health
| HR_ListWindows "nat option" "string option"
| HR_FocusedWindow
| HR_SetVisible window_ref bool
| HR_ApplyGroup "window_ref list" "window_ref list"

datatype helper_response =
  HS_Ok
| HS_Health string
| HS_Windows "window_info list"
| HS_FocusedWindow "window_info option"
| HS_Applied "operation_result list"
| HS_Error string

datatype helper_error = HE_Io string | HE_Json string | HE_CoreGraphics string | HE_Osascript string

fun helper_error_text :: "helper_error \<Rightarrow> string" where
  "helper_error_text (HE_Io e) = ''io: '' @ e"
| "helper_error_text (HE_Json e) = ''json: '' @ e"
| "helper_error_text (HE_CoreGraphics e) = ''coregraphics failed: '' @ e"
| "helper_error_text (HE_Osascript e) = ''osascript failed: '' @ e"

section \<open>The system\<close>

text \<open>A window of the accessibility interface, and one of the graphics interface, with its place.\<close>

type_synonym place = "(f64 \<times> f64) \<times> (f64 \<times> f64)"

record ax_window =
  ax_cg_id :: "int option"
  ax_number :: "int option"
  ax_title :: "string option"
  ax_position :: "(f64 \<times> f64) option"
  ax_size :: "(f64 \<times> f64) option"

record cg_window =
  cg_layer :: "int option"
  cg_owner :: "int option"
  cg_number :: "int option"
  cg_name :: "string option"
  cg_bounds :: "place option"

datatype ax_answer = Ax_Null | Ax_Unavailable int | Ax_Windows "ax_window option list"

datatype script_answer = Script_Io string | Script_Ended bool string string

record 'm mac_env =
  mc_ax :: "'m \<Rightarrow> nat \<Rightarrow> ax_answer"
  mc_raise :: "nat \<Rightarrow> nat \<Rightarrow> 'm \<Rightarrow> 'm \<times> int"
  mc_cg :: "'m \<Rightarrow> cg_window option list option"
  mc_script :: "string \<Rightarrow> 'm \<Rightarrow> 'm \<times> script_answer"
  mc_cf_error :: "'m \<Rightarrow> string option"
  mc_debug_nat :: "nat option \<Rightarrow> string"
  mc_debug_int :: "int option \<Rightarrow> string"
  mc_debug_str :: "string option \<Rightarrow> string"

definition run_osascript :: "'m mac_env \<Rightarrow> string \<Rightarrow> 'm \<Rightarrow> 'm \<times> (helper_error + string)" where
  "run_osascript e script m =
    (let (m1, a) = mc_script e script m
     in (m1, case a of
          Script_Io err \<Rightarrow> Inl (HE_Io err)
        | Script_Ended ok out err \<Rightarrow> if ok then Inr out else Inl (HE_Osascript (trim err))))"

text \<open>\<open>str::replace\<close> of one character.\<close>

definition replace_char :: "char \<Rightarrow> string \<Rightarrow> string \<Rightarrow> string" where
  "replace_char c by s = concat (map (\<lambda>x. if x = c then by else [x]) s)"

definition QUOTE :: char where "QUOTE = CHR 0x22"
definition BACKSLASH_CHAR :: char where "BACKSLASH_CHAR = CHR 0x5C"

definition apple_script_string :: "string \<Rightarrow> string" where
  "apple_script_string v =
    (let escaped = replace_char QUOTE [BACKSLASH_CHAR, QUOTE] (replace_char BACKSLASH_CHAR [BACKSLASH_CHAR, BACKSLASH_CHAR] v)
     in QUOTE # escaped @ [QUOTE])"

definition non_empty_string :: "string \<Rightarrow> string option" where
  "non_empty_string v = (if v = [] \<or> v = ''missing value'' then None else Some v)"

text \<open>\<open>splitn\<close>: at most so many parts, the last of which is the rest.\<close>

fun splitn :: "nat \<Rightarrow> char \<Rightarrow> string \<Rightarrow> string list" where
  "splitn 0 c s = []"
| "splitn (Suc 0) c s = [s]"
| "splitn (Suc (Suc n)) c s =
    (case split_once c s of None \<Rightarrow> [s] | Some (a, b) \<Rightarrow> a # splitn (Suc n) c b)"

definition part :: "nat \<Rightarrow> string list \<Rightarrow> string option" where
  "part i ps = (if i < length ps then Some (ps ! i) else None)"

definition parse_i64 :: "string \<Rightarrow> int option" where
  "parse_i64 s =
    (let (sg, ds) = (case s of CHR ''-'' # r \<Rightarrow> (-1, r) | CHR ''+'' # r \<Rightarrow> (1, r) | _ \<Rightarrow> (1, s))
     in if ds = [] then None
        else case parse_digits ds 0 of
          None \<Rightarrow> None
        | Some n \<Rightarrow> let v = sg * int n in if - (2 ^ 63) \<le> v \<and> v < 2 ^ 63 then Some v else None)"

definition positive :: "int option \<Rightarrow> int option" where
  "positive x = (case x of Some i \<Rightarrow> if 0 < i then Some i else None | None \<Rightarrow> None)"

section \<open>Windows of the graphics interface\<close>

record cg_candidate =
  cc_window_id :: nat
  cc_title :: "string option"
  cc_bounds :: "place option"

definition u32_of_int :: "int \<Rightarrow> nat option" where
  "u32_of_int i = (if 0 \<le> i \<and> i < 2 ^ 32 then Some (nat i) else None)"

definition layer_zero :: "cg_window \<Rightarrow> bool" where
  "layer_zero w = ((case cg_layer w of Some l \<Rightarrow> l | None \<Rightarrow> 0) = 0)"

definition owner_pid :: "cg_window \<Rightarrow> nat option" where
  "owner_pid w = (case cg_owner w of Some p \<Rightarrow> u32_of_int p | None \<Rightarrow> None)"

definition cg_null :: helper_error where
  "cg_null = HE_CoreGraphics ''CGWindowListCopyWindowInfo returned null''"

definition cg_window_candidates_for_pid :: "'m mac_env \<Rightarrow> nat \<Rightarrow> 'm \<Rightarrow> helper_error + cg_candidate list" where
  "cg_window_candidates_for_pid e pid m =
    (case mc_cg e m of
       None \<Rightarrow> Inl cg_null
     | Some ws \<Rightarrow> Inr (List.map_filter (\<lambda>x. case x of
         None \<Rightarrow> None
       | Some w \<Rightarrow>
           if \<not> layer_zero w \<or> owner_pid w \<noteq> Some pid then None
           else map_option (\<lambda>i. \<lparr>cc_window_id = i, cc_title = cg_name w, cc_bounds = cg_bounds w\<rparr>)
             (case cg_number w of Some n \<Rightarrow> u32_of_int n | None \<Rightarrow> None)) ws))"

definition push_new :: "'a \<Rightarrow> 'a list \<Rightarrow> 'a list" where
  "push_new x xs = (if x \<in> set xs then xs else xs @ [x])"

definition visible_window_pids :: "'m mac_env \<Rightarrow> 'm \<Rightarrow> helper_error + nat list" where
  "visible_window_pids e m =
    (case mc_cg e m of
       None \<Rightarrow> Inl cg_null
     | Some ws \<Rightarrow> Inr (fold (\<lambda>x ps. case x of
         None \<Rightarrow> ps
       | Some w \<Rightarrow> if \<not> layer_zero w then ps else (case owner_pid w of None \<Rightarrow> ps | Some p \<Rightarrow> push_new p ps)) ws []))"

text \<open>\<open>rnd\<close> rounds a difference of floating point numbers.\<close>

definition bounds_match :: "(f64 \<Rightarrow> f64) \<Rightarrow> place \<Rightarrow> f64 \<times> f64 \<Rightarrow> f64 \<times> f64 \<Rightarrow> bool" where
  "bounds_match rnd b position sz =
    (\<bar>rnd (fst (fst b) - fst position)\<bar> \<le> 2 \<and> \<bar>rnd (snd (fst b) - snd position)\<bar> \<le> 2 \<and>
     \<bar>rnd (fst (snd b) - fst sz)\<bar> \<le> 2 \<and> \<bar>rnd (snd (snd b) - snd sz)\<bar> \<le> 2)"

definition the_only :: "'a list \<Rightarrow> 'a option" where
  "the_only xs = (case xs of [x] \<Rightarrow> Some x | _ \<Rightarrow> None)"

definition cg_window_id_for_ax_window ::
  "(f64 \<Rightarrow> f64) \<Rightarrow> cg_candidate list \<Rightarrow> string option \<Rightarrow> (f64 \<times> f64) option \<Rightarrow> (f64 \<times> f64) option \<Rightarrow> int option" where
  "cg_window_id_for_ax_window rnd candidates title position sz =
    (case (case (position, sz) of
        (Some p, Some s) \<Rightarrow> the_only (filter (\<lambda>c. case cc_bounds c of Some b \<Rightarrow> bounds_match rnd b p s | None \<Rightarrow> False) candidates)
      | _ \<Rightarrow> None) of
       Some c \<Rightarrow> Some (int (cc_window_id c))
     | None \<Rightarrow> (case title of
         None \<Rightarrow> None
       | Some t \<Rightarrow> map_option (\<lambda>c. int (cc_window_id c)) (the_only (filter (\<lambda>c. cc_title c = Some t) candidates))))"

definition cg_window_id_for_window :: "'m mac_env \<Rightarrow> window_info \<Rightarrow> 'm \<Rightarrow> helper_error + nat option" where
  "cg_window_id_for_window e w m =
    (case (case wi_id w of Some i \<Rightarrow> u32_of_int i | None \<Rightarrow> None) of
       Some i \<Rightarrow> Inr (Some i)
     | None \<Rightarrow> (case cg_window_candidates_for_pid e (wi_pid w) m of
         Inl err \<Rightarrow> Inl err
       | Inr candidates \<Rightarrow>
           let by_title = Inr (case wi_title w of
                 None \<Rightarrow> None
               | Some t \<Rightarrow> map_option cc_window_id (List.find (\<lambda>c. cc_title c = Some t) candidates))
           in if candidates = [] then Inr None
              else if 1 \<le> wi_index w \<and> wi_index w \<le> length candidates
              then let c = candidates ! (wi_index w - 1)
                   in if wi_title w = None \<or> cc_title c = wi_title w then Inr (Some (cc_window_id c)) else by_title
              else by_title))"

section \<open>Listing\<close>

record app_process =
  ap_pid :: nat
  ap_bundle :: "string option"

definition parse_application_processes :: "string \<Rightarrow> app_process list" where
  "parse_application_processes output =
    fold (\<lambda>line ps.
      let parts = splitn 2 CHR 0x09 line
      in case Option.bind (part 0 parts) parse_u32 of
           None \<Rightarrow> ps
         | Some pid \<Rightarrow>
             if list_ex (\<lambda>p. ap_pid p = pid) ps then ps
             else ps @ [\<lparr>ap_pid = pid, ap_bundle = Option.bind (part 1 parts) non_empty_string\<rparr>]) (str_lines output) []"

text \<open>The windows of one process, in the order of the accessibility interface.\<close>

definition ax_windows_of ::
  "(f64 \<Rightarrow> f64) \<Rightarrow> 'm mac_env \<Rightarrow> app_process list \<Rightarrow> 'm \<Rightarrow> app_process \<Rightarrow> window_info list" where
  "ax_windows_of rnd e processes m p =
    (case mc_ax e m (ap_pid p) of
       Ax_Windows ws \<Rightarrow>
         let candidates = (case cg_window_candidates_for_pid e (ap_pid p) m of Inr cs \<Rightarrow> cs | Inl _ \<Rightarrow> [])
         in List.map_filter (\<lambda>(i, x). map_option (\<lambda>w.
              \<lparr>wi_id = (case ax_cg_id w of Some n \<Rightarrow> Some n | None \<Rightarrow> (case ax_number w of Some n \<Rightarrow> Some n
                 | None \<Rightarrow> cg_window_id_for_ax_window rnd candidates (ax_title w) (ax_position w) (ax_size w))),
               wi_pid = ap_pid p,
               wi_bundle = Option.bind (map_of (rev (map (\<lambda>q. (ap_pid q, ap_bundle q)) processes)) (ap_pid p)) (\<lambda>b. b),
               wi_index = min (Suc i) u32_max, wi_title = ax_title w\<rparr>) x) (enumerate 0 ws)
     | _ \<Rightarrow> [])"

definition list_windows ::
  "(f64 \<Rightarrow> f64) \<Rightarrow> (string \<Rightarrow> string) \<Rightarrow> 'm mac_env \<Rightarrow> nat option \<Rightarrow> string option \<Rightarrow> 'm \<Rightarrow> 'm \<times> (helper_error + window_info list)" where
  "list_windows rnd processes_script e pid bundle m =
    (let (m1, procs) = (case pid of
         Some p \<Rightarrow> (m, Inr [\<lparr>ap_pid = p, ap_bundle = bundle\<rparr>])
       | None \<Rightarrow>
           let (m1, r) = run_osascript e (processes_script (apple_script_string (case bundle of Some b \<Rightarrow> b | None \<Rightarrow> []))) m
           in (m1, case map_sum id parse_application_processes r of
                Inl err \<Rightarrow> if bundle = None then map_sum id (map (\<lambda>p. \<lparr>ap_pid = p, ap_bundle = None\<rparr>)) (visible_window_pids e m1) else Inl err
              | Inr ps \<Rightarrow> if ps \<noteq> [] then Inr ps
                  else if bundle = None then map_sum id (map (\<lambda>p. \<lparr>ap_pid = p, ap_bundle = None\<rparr>)) (visible_window_pids e m1)
                  else Inr []))
     in (m1, case procs of
          Inl err \<Rightarrow> Inl err
        | Inr ps \<Rightarrow> (case mc_cf_error e m1 of
            Some err \<Rightarrow> Inl (HE_CoreGraphics err)
          | None \<Rightarrow> Inr (concat (map (ax_windows_of rnd e ps m1) ps)))))"

text \<open>The line the script for the focused window prints.\<close>

definition trim_end :: "string \<Rightarrow> string" where
  "trim_end s = rev (dropWhile is_space (rev s))"

definition parse_focused :: "string \<Rightarrow> window_info option" where
  "parse_focused output =
    (let line = trim_end output; parts = splitn 5 CHR 0x09 line
     in if line = [] then None
        else case Option.bind (part 0 parts) parse_u32 of
          None \<Rightarrow> None
        | Some pid \<Rightarrow> Some
            \<lparr>wi_id = positive (Option.bind (part 4 parts) parse_i64), wi_pid = pid,
             wi_bundle = Option.bind (part 1 parts) non_empty_string,
             wi_index = (case Option.bind (part 2 parts) parse_u32 of Some i \<Rightarrow> i | None \<Rightarrow> 0),
             wi_title = Option.bind (part 3 parts) non_empty_string\<rparr>)"

definition focused_window ::
  "(f64 \<Rightarrow> f64) \<Rightarrow> string \<Rightarrow> (string \<Rightarrow> string) \<Rightarrow> 'm mac_env \<Rightarrow> 'm \<Rightarrow> 'm \<times> (helper_error + window_info option)" where
  "focused_window rnd focused_script processes_script e m =
    (let (m1, r) = run_osascript e focused_script m
     in case r of
          Inl err \<Rightarrow> (m1, Inl err)
        | Inr output \<Rightarrow> (case parse_focused output of
            None \<Rightarrow> (m1, Inr None)
          | Some w \<Rightarrow>
              if wi_id w \<noteq> None then (m1, Inr (Some w))
              else let (m2, current) = list_windows rnd processes_script e (Some (wi_pid w)) None m1
              in (m2, case current of
                   Inl err \<Rightarrow> Inl err
                 | Inr ws \<Rightarrow>
                     let exact = List.find (\<lambda>x. wi_index x = wi_index w \<and> (wi_title w = None \<or> wi_title x = wi_title w)) ws
                     in Inr (Some (case (case exact of Some x \<Rightarrow> Some x | None \<Rightarrow> (case ws of [] \<Rightarrow> None | x # _ \<Rightarrow> Some x)) of
                          Some x \<Rightarrow> if wi_bundle x = None then x\<lparr>wi_bundle := wi_bundle w\<rparr> else x
                        | None \<Rightarrow> w)))))"

section \<open>Previews\<close>

text \<open>One pixel in sixteen is looked at; it counts when it is not nearly black.\<close>

fun every_pixel :: "nat \<Rightarrow> byte list \<Rightarrow> byte list list" where
  "every_pixel n bs = (case bs of
     a # b # c # d # r \<Rightarrow> (if n = 0 then [a, b, c, d] # every_pixel 15 r else every_pixel (n - 1) r)
   | _ \<Rightarrow> [])"

definition source_has_visible_pixels :: "byte list \<Rightarrow> bool" where
  "source_has_visible_pixels source =
    (let ps = every_pixel 0 source; total = length ps;
         visible = length (filter (\<lambda>p. p ! 0 > 8 \<or> p ! 1 > 8 \<or> p ! 2 > 8) ps)
     in 0 < total \<and> 1 < visible * 100 div total)"

record window_preview =
  wp_width :: nat
  wp_height :: nat
  wp_bytes_per_row :: nat
  wp_bgra :: "byte list"

definition scaled :: "(f64 \<Rightarrow> f64) \<Rightarrow> f64 \<Rightarrow> nat \<Rightarrow> nat" where
  "scaled rnd scale n = max 1 (nat \<lfloor>rnd (real n * scale) + 1 / 2\<rfloor>)"

definition preview_pixel :: "byte list \<Rightarrow> nat \<Rightarrow> nat \<times> nat \<Rightarrow> nat \<times> nat \<Rightarrow> nat \<Rightarrow> nat \<Rightarrow> byte list" where
  "preview_pixel source stride ssize dsize y x =
    (let src = (y * snd ssize div snd dsize) * stride + (x * fst ssize div fst dsize) * 4
     in if src + 4 \<le> length source then take 4 (drop src source) else [0, 0, 0, 0])"

definition downsample_bgra ::
  "(f64 \<Rightarrow> f64) \<Rightarrow> byte list \<Rightarrow> nat \<Rightarrow> nat \<Rightarrow> nat \<Rightarrow> nat \<Rightarrow> nat \<Rightarrow> window_preview" where
  "downsample_bgra rnd source sw sh stride max_w max_h =
    (let scale = min (min (rnd (real (max max_w 1) / real sw)) (rnd (real (max max_h 1) / real sh))) 1;
         width = scaled rnd scale sw; height = scaled rnd scale sh
     in \<lparr>wp_width = width, wp_height = height, wp_bytes_per_row = width * 4,
         wp_bgra = concat (map (\<lambda>y. concat (map (preview_pixel source stride (sw, sh) (width, height) y) [0..<width])) [0..<height])\<rparr>)"

text \<open>An image the system captured: its width, height, bytes a row, bits a pixel and bytes.\<close>

definition capture_cg_window ::
  "(f64 \<Rightarrow> f64) \<Rightarrow> (nat \<times> nat \<times> nat \<times> nat \<times> byte list) option \<Rightarrow> nat \<Rightarrow> nat \<Rightarrow> window_preview option" where
  "capture_cg_window rnd captured max_w max_h =
    (case captured of
       None \<Rightarrow> None
     | Some (w, h, row, bits, source) \<Rightarrow>
         if w = 0 \<or> h = 0 \<or> row = 0 \<or> bits \<noteq> 32 \<or> source = [] then None
         else if source_has_visible_pixels source
         then Some (downsample_bgra rnd source (w mod 2 ^ 32) (h mod 2 ^ 32) row max_w max_h) else None)"

definition window_preview_inner ::
  "(f64 \<Rightarrow> f64) \<Rightarrow> (nat \<Rightarrow> 'm \<Rightarrow> (nat \<times> nat \<times> nat \<times> nat \<times> byte list) option) \<Rightarrow> 'm mac_env \<Rightarrow>
    window_info \<Rightarrow> nat \<Rightarrow> nat \<Rightarrow> 'm \<Rightarrow> helper_error + window_preview option" where
  "window_preview_inner rnd image_of e w max_w max_h m =
    (case cg_window_id_for_window e w m of
       Inl err \<Rightarrow> Inl err
     | Inr None \<Rightarrow> Inr None
     | Inr (Some i) \<Rightarrow> Inr (capture_cg_window rnd (image_of i m) max_w max_h))"

section \<open>Raising\<close>

definition raise_ax_window :: "'m mac_env \<Rightarrow> window_ref \<Rightarrow> nat \<Rightarrow> nat \<Rightarrow> 'm \<Rightarrow> 'm \<times> (helper_error + unit)" where
  "raise_ax_window e w pid i m =
    (let (m1, code) = mc_raise e pid i m
     in (m1, if code \<noteq> 0
         then Inl (HE_CoreGraphics (''AXRaise failed for pid '' @ mc_debug_nat e (wf_pid w) @ '' window id '' @
           mc_debug_int e (wf_id w) @ '' index '' @ mc_debug_nat e (wf_index w) @ '': '' @ show_int code))
         else Inr ()))"

text \<open>The script that restores a minimized window: of a process and a title.\<close>

definition restore_minimized_window ::
  "(nat \<Rightarrow> string \<Rightarrow> string) \<Rightarrow> 'm mac_env \<Rightarrow> window_ref \<Rightarrow> 'm \<Rightarrow> 'm \<times> (helper_error + bool)" where
  "restore_minimized_window script e w m =
    (case (wf_pid w, wf_title w) of
       (Some pid, Some title) \<Rightarrow>
         let (m1, r) = run_osascript e (script pid (apple_script_string title)) m
         in (m1, map_sum id (\<lambda>out. trim out = ''1'') r)
     | _ \<Rightarrow> (m, Inr False))"

definition restore_or_false ::
  "(nat \<Rightarrow> string \<Rightarrow> string) \<Rightarrow> 'm mac_env \<Rightarrow> window_ref \<Rightarrow> bool \<Rightarrow> 'm \<Rightarrow> 'm \<times> (helper_error + bool)" where
  "restore_or_false script e w visible m = (if visible then restore_minimized_window script e w m else (m, Inr False))"

definition with_ax_windows ::
  "'m mac_env \<Rightarrow> nat \<Rightarrow> 'm \<Rightarrow> (ax_window option list \<Rightarrow> 'm \<times> (helper_error + bool)) \<Rightarrow> 'm \<times> (helper_error + bool)" where
  "with_ax_windows e pid m f =
    (case mc_cf_error e m of
       Some err \<Rightarrow> (m, Inl (HE_CoreGraphics err))
     | None \<Rightarrow> (case mc_ax e m pid of
         Ax_Null \<Rightarrow> (m, Inl (HE_CoreGraphics (''AXUIElementCreateApplication returned null for pid '' @ show_nat pid)))
       | Ax_Unavailable code \<Rightarrow>
           (m, Inl (HE_CoreGraphics (''AX windows unavailable for pid '' @ show_nat pid @ '': '' @ show_int code)))
       | Ax_Windows ws \<Rightarrow> f ws))"

definition ax_window_id :: "ax_window \<Rightarrow> int option" where
  "ax_window_id a = (case ax_cg_id a of Some n \<Rightarrow> Some n | None \<Rightarrow> ax_number a)"

definition has_window_id :: "int \<Rightarrow> ax_window option \<Rightarrow> bool" where
  "has_window_id i x = (case x of Some a \<Rightarrow> ax_window_id a = Some i | None \<Rightarrow> False)"

fun position_of :: "('a \<Rightarrow> bool) \<Rightarrow> 'a list \<Rightarrow> nat option" where
  "position_of P [] = None"
| "position_of P (x # xs) = (if P x then Some 0 else map_option Suc (position_of P xs))"

definition set_visible_by_window_id ::
  "(nat \<Rightarrow> string \<Rightarrow> string) \<Rightarrow> 'm mac_env \<Rightarrow> window_ref \<Rightarrow> bool \<Rightarrow> 'm \<Rightarrow> 'm \<times> (helper_error + bool)" where
  "set_visible_by_window_id script e w visible m =
    (case (wf_pid w, wf_id w) of
       (Some pid, Some i) \<Rightarrow> with_ax_windows e pid m (\<lambda>ws. case position_of (has_window_id i) ws of
           Some n \<Rightarrow> (let (m1, r) = raise_ax_window e w pid n m in (m1, map_sum id (\<lambda>_. True) r))
         | None \<Rightarrow> restore_or_false script e w visible m)
     | _ \<Rightarrow> (m, Inr False))"

definition set_visible_by_window_index ::
  "(nat \<Rightarrow> string \<Rightarrow> string) \<Rightarrow> 'm mac_env \<Rightarrow> window_ref \<Rightarrow> bool \<Rightarrow> 'm \<Rightarrow> 'm \<times> (helper_error + bool)" where
  "set_visible_by_window_index script e w visible m =
    (case (wf_pid w, wf_index w) of
       (Some pid, Some i) \<Rightarrow> with_ax_windows e pid m (\<lambda>ws.
         let n = i - 1 in
         if n \<ge> length ws then restore_or_false script e w visible m
         else if (case wf_title w of
             Some expected \<Rightarrow> (case ws ! n of Some a \<Rightarrow> ax_title a = Some expected | None \<Rightarrow> False) | None \<Rightarrow> True)
         then (let (m1, r) = raise_ax_window e w pid n m in (m1, map_sum id (\<lambda>_. True) r))
         else restore_or_false script e w visible m)
     | _ \<Rightarrow> (m, Inr False))"

definition found_or :: "string \<Rightarrow> 'm \<times> (helper_error + bool) \<Rightarrow> 'm \<times> (helper_error + unit)" where
  "found_or msg = (\<lambda>(m, r). (m, case r of
     Inl err \<Rightarrow> Inl err | Inr True \<Rightarrow> Inr () | Inr False \<Rightarrow> Inl (HE_CoreGraphics msg)))"

definition set_visible ::
  "(nat \<Rightarrow> string \<Rightarrow> string) \<Rightarrow> 'm mac_env \<Rightarrow> window_ref \<Rightarrow> bool \<Rightarrow> 'm \<Rightarrow> 'm \<times> (helper_error + unit)" where
  "set_visible script e w visible m =
    (if wf_pid w = None \<and> wf_bundle w = None then (m, Inr ())
     else if \<not> visible then (m, Inr ())
     else case wf_id w of
       Some i \<Rightarrow> found_or (''window id '' @ show_int i @ '' not found for pid '' @ mc_debug_nat e (wf_pid w))
         (set_visible_by_window_id script e w visible m)
     | None \<Rightarrow> if wf_index w \<noteq> None
         then found_or (''window index '' @ mc_debug_nat e (wf_index w) @ '' not found for pid '' @ mc_debug_nat e (wf_pid w) @
           '' title '' @ mc_debug_str e (wf_title w)) (set_visible_by_window_index script e w visible m)
         else (m, Inl (HE_CoreGraphics (''refusing macOS visibility change without exact window id for pid '' @
           mc_debug_nat e (wf_pid w) @ '' bundle '' @ mc_debug_str e (wf_bundle w)))))"

definition operation_result_of ::
  "(nat \<Rightarrow> string \<Rightarrow> string) \<Rightarrow> 'm mac_env \<Rightarrow> window_ref \<Rightarrow> bool \<Rightarrow> 'm \<Rightarrow> 'm \<times> operation_result" where
  "operation_result_of script e w visible m =
    (let (m1, r) = set_visible script e w visible m
     in (m1, \<lparr>or_window = w, or_ok = (case r of Inr _ \<Rightarrow> True | Inl _ \<Rightarrow> False), or_error = (case r of Inl err \<Rightarrow> Some (helper_error_text err) | Inr _ \<Rightarrow> None)\<rparr>))"

definition operation_result_fast_show ::
  "(nat \<Rightarrow> string \<Rightarrow> string) \<Rightarrow> 'm mac_env \<Rightarrow> window_ref \<Rightarrow> 'm \<Rightarrow> 'm \<times> operation_result" where
  "operation_result_fast_show script e w m =
    (if wf_id w = None then operation_result_of script e w True m
     else let (m1, r) = set_visible_by_window_id script e w True m
     in case r of
          Inr True \<Rightarrow> (m1, \<lparr>or_window = w, or_ok = True, or_error = None\<rparr>)
        | Inr False \<Rightarrow> operation_result_of script e w True m1
        | Inl err \<Rightarrow> (m1, \<lparr>or_window = w, or_ok = False, or_error = Some (helper_error_text err)\<rparr>))"

fun each :: "('w \<Rightarrow> 'm \<Rightarrow> 'm \<times> 'r) \<Rightarrow> 'w list \<Rightarrow> 'm \<Rightarrow> 'm \<times> 'r list" where
  "each f [] m = (m, [])"
| "each f (w # ws) m = (let (m1, r) = f w m; (m2, rs) = each f ws m1 in (m2, r # rs))"

definition apply_group ::
  "(nat \<Rightarrow> string \<Rightarrow> string) \<Rightarrow> 'm mac_env \<Rightarrow> window_ref list \<Rightarrow> window_ref list \<Rightarrow> 'm \<Rightarrow> 'm \<times> operation_result list" where
  "apply_group script e hide show_them m =
    (let (m1, r1) = each (\<lambda>w. operation_result_of script e w False) hide m;
         (m2, r2) = each (operation_result_fast_show script e) show_them m1
     in (m2, r1 @ r2))"

text \<open>The texts of the three scripts: for the processes, the focused window and a minimized one.\<close>

record mac_scripts =
  ms_processes :: "string \<Rightarrow> string"
  ms_focused :: string
  ms_restore :: "nat \<Rightarrow> string \<Rightarrow> string"

definition handle_request ::
  "(f64 \<Rightarrow> f64) \<Rightarrow> mac_scripts \<Rightarrow> 'm mac_env \<Rightarrow> helper_request \<Rightarrow> 'm \<Rightarrow> 'm \<times> helper_response" where
  "handle_request rnd sc e q m =
    (case q of
       HR_Health \<Rightarrow> (m, HS_Health ''macos-accessibility'')
     | HR_ListWindows pid bundle \<Rightarrow>
         (let (m1, r) = list_windows rnd (ms_processes sc) e pid bundle m
          in (m1, case r of Inr ws \<Rightarrow> HS_Windows ws | Inl err \<Rightarrow> HS_Error (helper_error_text err)))
     | HR_FocusedWindow \<Rightarrow>
         (let (m1, r) = focused_window rnd (ms_focused sc) (ms_processes sc) e m
          in (m1, case r of Inr w \<Rightarrow> HS_FocusedWindow w | Inl err \<Rightarrow> HS_Error (helper_error_text err)))
     | HR_SetVisible w visible \<Rightarrow>
         (let (m1, r) = set_visible (ms_restore sc) e w visible m
          in (m1, case r of Inr _ \<Rightarrow> HS_Ok | Inl err \<Rightarrow> HS_Error (helper_error_text err)))
     | HR_ApplyGroup hide show_them \<Rightarrow>
         (let (m1, rs) = apply_group (ms_restore sc) e hide show_them m in (m1, HS_Applied rs)))"

text \<open>
  The loop over the input's lines, each read or an error, that writes one line for each request; \<open>k\<close> lines
  are taken before a write fails.
\<close>

fun run_lines ::
  "(f64 \<Rightarrow> f64) \<Rightarrow> mac_scripts \<Rightarrow> 'm mac_env \<Rightarrow> (string \<Rightarrow> string + helper_request) \<Rightarrow> (helper_response \<Rightarrow> string) \<Rightarrow>
    nat \<Rightarrow> (string + string) list \<Rightarrow> 'm \<Rightarrow> 'm \<times> string list \<times> bool" where
  "run_lines rnd sc e parse print k [] m = (m, [], True)"
| "run_lines rnd sc e parse print k (Inl err # ls) m = (m, [], False)"
| "run_lines rnd sc e parse print k (Inr line # ls) m =
    (if trim line = [] then run_lines rnd sc e parse print k ls m
     else let (m1, r) = (case parse line of
              Inr q \<Rightarrow> handle_request rnd sc e q m | Inl err \<Rightarrow> (m, HS_Error (''invalid request: '' @ err)))
     in if k = 0 then (m1, [], False)
        else let (m2, out, ok) = run_lines rnd sc e parse print (k - 1) ls m1 in (m2, print r # out, ok))"

end
