(* ===== verification/MacBackend.thy ===== *)
theory MacBackend
  imports MacHelper Backends
begin

text \<open>
  The backend of \<open>CompositorControl\<close> on macOS (\<open>crates/lmux-compositor/src/macos.rs\<close>), in its macOS build: window
  identities between the cockpit and the helper, visibility and group switches through \<open>handle_request\<close> of
  \<open>MacHelper\<close> within a time limit, and what holds of the two together.
\<close>

section \<open>Permission\<close>

datatype permission_state = Perm_Granted | Perm_Denied | Perm_NotDetermined

text \<open>\<open>trusted\<close> is the system's answer; with a prompt the user may still grant it.\<close>

definition accessibility_permission_state :: "bool \<Rightarrow> bool \<Rightarrow> permission_state" where
  "accessibility_permission_state trusted prompt =
    (if trusted then Perm_Granted else if prompt then Perm_NotDetermined else Perm_Denied)"

definition mac_health :: "permission_state \<Rightarrow> health" where
  "mac_health p =
    (case p of
       Perm_Granted \<Rightarrow> H_Online
     | Perm_Denied \<Rightarrow> H_Offline ''accessibility-permission-denied''
     | Perm_NotDetermined \<Rightarrow> H_Offline ''accessibility-permission-not-determined'')"

definition mac_capabilities :: "permission_state \<Rightarrow> window_capabilities" where
  "mac_capabilities p =
    (let available = (p = Perm_Granted)
     in \<lparr>cap_list = available, cap_attach = available, cap_visible = available, cap_raise = False\<rparr>)"

section \<open>Identities\<close>

definition split_once_str :: "string \<Rightarrow> string \<Rightarrow> (string \<times> string) option" where
  "split_once_str pat s = map_option (\<lambda>i. (take i s, drop (i + length pat) s)) (find_sub pat s)"

definition ID_PREFIX :: string where "ID_PREFIX = ''macos-window-id:''"
definition PID_PREFIX :: string where "PID_PREFIX = ''macos-window-pid:''"
definition INDEX_PREFIX :: string where "INDEX_PREFIX = ''macos-window-index:''"
definition INDEX_SEP :: string where "INDEX_SEP = '':index:''"

definition macos_candidate_backend_window_id :: "window_info \<Rightarrow> string" where
  "macos_candidate_backend_window_id w =
    (case wi_id w of
       Some i \<Rightarrow> ID_PREFIX @ show_int i @ INDEX_SEP @ show_nat (wi_index w)
     | None \<Rightarrow> PID_PREFIX @ show_nat (wi_pid w) @ INDEX_SEP @ show_nat (wi_index w))"

definition index_after :: "string \<Rightarrow> nat option" where
  "index_after v = Option.bind (split_once_str INDEX_SEP v) (\<lambda>p. parse_u32 (snd p))"

definition macos_window_index :: "string \<Rightarrow> nat option" where
  "macos_window_index s =
    (case strip_prefix INDEX_PREFIX s of
       Some v \<Rightarrow> parse_u32 v
     | None \<Rightarrow> (case strip_prefix PID_PREFIX s of
         Some v \<Rightarrow> index_after v
       | None \<Rightarrow> Option.bind (strip_prefix ID_PREFIX s) index_after))"

definition macos_window_id :: "string \<Rightarrow> int option" where
  "macos_window_id s =
    Option.bind (strip_prefix ID_PREFIX s) (\<lambda>v. parse_i64 (case split_once_str INDEX_SEP v of None \<Rightarrow> v | Some (i, _) \<Rightarrow> i))"

definition macos_backend_window_id :: "window_ref \<Rightarrow> string" where
  "macos_backend_window_id w =
    (case wf_id w of
       Some i \<Rightarrow> ID_PREFIX @ show_int i
     | None \<Rightarrow> (case wf_index w of Some n \<Rightarrow> INDEX_PREFIX @ show_nat n | None \<Rightarrow> ''macos-window:unknown''))"

definition helper_window_ref :: "satellite_window \<Rightarrow> window_ref" where
  "helper_window_ref w =
    \<lparr>wf_pid = sw_pid w, wf_bundle = sw_bundle_id w, wf_index = macos_window_index (sw_window_id w),
     wf_id = macos_window_id (sw_window_id w), wf_title = sw_title w\<rparr>"

definition mac_candidate :: "window_info \<Rightarrow> window_candidate" where
  "mac_candidate w =
    \<lparr>wc_backend = Macos, wc_window_id = macos_candidate_backend_window_id w, wc_pid = Some (wi_pid w),
     wc_app = map_option BundleId (wi_bundle w), wc_title = wi_title w, wc_workspace = None, wc_output = None\<rparr>"

section \<open>The helper behind a time limit\<close>

text \<open>A request runs to its end on a thread of its own, also when the backend has given up waiting.\<close>

datatype helper_outcome = In_Time | Timed_Out | Task_Failed string

record 'm mac_backend =
  mb_rnd :: "f64 \<Rightarrow> f64"
  mb_scripts :: mac_scripts
  mb_env :: "'m mac_env"
  mb_outcome :: "helper_request \<Rightarrow> 'm \<Rightarrow> helper_outcome"
  mb_debug :: "helper_response \<Rightarrow> string"

definition run_helper_request_timed ::
  "'m mac_backend \<Rightarrow> helper_request \<Rightarrow> 'm \<Rightarrow> 'm \<times> (compositor_error + helper_response)" where
  "run_helper_request_timed b q m =
    (let (m1, r) = handle_request (mb_rnd b) (mb_scripts b) (mb_env b) q m
     in (m1, case mb_outcome b q m of
          In_Time \<Rightarrow> Inr r
        | Timed_Out \<Rightarrow> Inl (CE_Domain ''lmux-macos-helper timed out'')
        | Task_Failed e \<Rightarrow> Inl (CE_Domain (''lmux-macos-helper task failed: '' @ e))))"

definition mac_list_windows :: "'m mac_backend \<Rightarrow> 'm \<Rightarrow> 'm \<times> (compositor_error + window_candidate list)" where
  "mac_list_windows b m =
    (let (m1, r) = list_windows (mb_rnd b) (ms_processes (mb_scripts b)) (mb_env b) None None m
     in (m1, case r of
          Inl err \<Rightarrow> Inl (CE_Domain (''macOS list windows: '' @ helper_error_text err))
        | Inr ws \<Rightarrow> Inr (map mac_candidate ws)))"

definition mac_attach_window :: "(window_backend \<Rightarrow> string) \<Rightarrow> window_candidate \<Rightarrow> compositor_error + satellite_window" where
  "mac_attach_window dbg c =
    (if wc_backend c \<noteq> Macos then Inl (CE_Domain (''macOS backend cannot attach '' @ dbg (wc_backend c) @ '' windows''))
     else if \<not> starts_with ID_PREFIX (wc_window_id c) \<and> \<not> starts_with PID_PREFIX (wc_window_id c) \<and>
         \<not> starts_with INDEX_PREFIX (wc_window_id c)
     then Inl (CE_Domain (''unsupported macOS window identity: '' @ wc_window_id c))
     else Inr (for_attached c))"

definition set_app_visible :: "'m mac_backend \<Rightarrow> satellite_window \<Rightarrow> bool \<Rightarrow> 'm \<Rightarrow> 'm \<times> compositor_error option" where
  "set_app_visible b w visible m =
    (let (m1, r) = run_helper_request_timed b (HR_SetVisible (helper_window_ref w) visible) m
     in (m1, case r of
          Inl err \<Rightarrow> Some err
        | Inr HS_Ok \<Rightarrow> None
        | Inr (HS_Error msg) \<Rightarrow> Some (CE_Domain (''macOS helper visibility failed: '' @ msg))
        | Inr other \<Rightarrow> Some (CE_Domain (''macOS helper returned unexpected visibility response: '' @ mb_debug b other))))"

record mac_op_result =
  mr_window :: satellite_window
  mr_ok :: bool
  mr_error :: "string option"

definition same_window :: "window_ref \<Rightarrow> satellite_window \<Rightarrow> bool" where
  "same_window r w \<longleftrightarrow> sw_pid w = wf_pid r \<and> sw_bundle_id w = wf_bundle r \<and> macos_window_index (sw_window_id w) = wf_index r \<and>
    macos_window_id (sw_window_id w) = wf_id r"

definition window_op_result :: "satellite_window list \<Rightarrow> operation_result \<Rightarrow> mac_op_result" where
  "window_op_result ws r =
    \<lparr>mr_window = (case List.find (same_window (or_window r)) ws of
         Some w \<Rightarrow> w
       | None \<Rightarrow> \<lparr>sw_backend = SB_Macos, sw_request_id = None, sw_pid = wf_pid (or_window r),
           sw_window_id = macos_backend_window_id (or_window r), sw_bundle_id = wf_bundle (or_window r),
           sw_title = wf_title (or_window r)\<rparr>),
     mr_ok = or_ok r, mr_error = or_error r\<rparr>"

definition apply_app_visibility_group ::
  "'m mac_backend \<Rightarrow> satellite_window list \<Rightarrow> satellite_window list \<Rightarrow> 'm \<Rightarrow> 'm \<times> (compositor_error + mac_op_result list)" where
  "apply_app_visibility_group b hide show_them m =
    (let (m1, r) = run_helper_request_timed b (HR_ApplyGroup (map helper_window_ref hide) (map helper_window_ref show_them)) m
     in (m1, case r of
          Inl err \<Rightarrow> Inl err
        | Inr (HS_Applied rs) \<Rightarrow> Inr (map (window_op_result (hide @ show_them)) rs)
        | Inr (HS_Error msg) \<Rightarrow> Inl (CE_Domain (''macOS helper group failed: '' @ msg))
        | Inr other \<Rightarrow> Inl (CE_Domain (''macOS helper returned unexpected group response: '' @ mb_debug b other))))"

datatype mac_command = MC_SetVisible satellite_window bool | MC_ApplyGroup "satellite_window list" "satellite_window list"

definition mac_set_window_visible ::
  "'m mac_backend \<Rightarrow> satellite_window \<Rightarrow> bool \<Rightarrow> mac_command list \<times> 'm \<Rightarrow> (mac_command list \<times> 'm) \<times> compositor_error option" where
  "mac_set_window_visible b w visible = (\<lambda>(recorded, m).
    let (m1, r) = set_app_visible b w visible m in ((recorded @ [MC_SetVisible w visible], m1), r))"

text \<open>A switch with its number and the newest number read, if it has one; a stale one is dropped.\<close>

definition mac_group_switch ::
  "'m mac_backend \<Rightarrow> window_group_switch \<Rightarrow> (nat \<times> nat) option \<Rightarrow> mac_command list \<times> 'm \<Rightarrow>
    (mac_command list \<times> 'm) \<times> (compositor_error + mac_op_result list)" where
  "mac_group_switch b s latest = (\<lambda>(recorded, m).
    if (case latest of Some (sequence, newest) \<Rightarrow> newest > sequence | None \<Rightarrow> False) then ((recorded, m), Inr [])
    else let (m1, r) = apply_app_visibility_group b (gs_hide s) (gs_show s) m
         in ((recorded @ [MC_ApplyGroup (gs_hide s) (gs_show s)], m1), r))"

section \<open>Scripts cannot be broken out of\<close>

text \<open>The reference: how AppleScript reads a string, and what is left of the script after it.\<close>

fun read_literal_body :: "string \<Rightarrow> (string \<times> string) option" where
  "read_literal_body [] = None"
| "read_literal_body (c # s) =
    (if c = QUOTE then Some ([], s)
     else if c = BACKSLASH_CHAR then (case s of [] \<Rightarrow> None | d # t \<Rightarrow> map_option (\<lambda>(x, y). (d # x, y)) (read_literal_body t))
     else map_option (\<lambda>(x, y). (c # x, y)) (read_literal_body s))"

definition read_literal :: "string \<Rightarrow> (string \<times> string) option" where
  "read_literal s = (case s of [] \<Rightarrow> None | c # t \<Rightarrow> if c = QUOTE then read_literal_body t else None)"

lemma replace_char_simps [simp]:
  "replace_char c by [] = []" "replace_char c by (x # s) = (if x = c then by else [x]) @ replace_char c by s"
  by (simp_all add: replace_char_def)

lemma replace_char_append: "replace_char c by (xs @ ys) = replace_char c by xs @ replace_char c by ys"
  by (simp add: replace_char_def)

lemma read_escaped:
  "read_literal_body (replace_char QUOTE [BACKSLASH_CHAR, QUOTE] (replace_char BACKSLASH_CHAR [BACKSLASH_CHAR, BACKSLASH_CHAR] v) @ QUOTE # rest) =
    Some (v, rest)"
  by (induction v) (auto simp: replace_char_append QUOTE_def BACKSLASH_CHAR_def)

text \<open>A script cannot be broken out of: a title or a bundle id put into a script is read back by AppleScript as
  exactly that text, whatever quotes, backslashes and newlines it has, and the script goes on after it.\<close>

theorem apple_script_string_reads_back: "read_literal (apple_script_string v @ rest) = Some (v, rest)"
  using read_escaped [of v rest] by (simp add: read_literal_def apple_script_string_def Let_def)

section \<open>Windows keep their identity\<close>

lemma find_sub_at: "find_sub n s = Some i \<Longrightarrow> take (length n) (drop i s) = n"
proof (induction s arbitrary: i)
  case Nil
  then show ?case by (subst (asm) find_sub.simps) (auto simp: starts_with_def split: if_splits)
next
  case (Cons c s)
  then show ?case by (subst (asm) find_sub.simps) (auto simp: starts_with_def split: if_splits)
qed

lemma find_sub_after: "hd n \<notin> set a \<Longrightarrow> n \<noteq> [] \<Longrightarrow> find_sub n (a @ n @ b) = Some (length a)"
proof (induction a)
  case Nil
  show ?case by (subst find_sub.simps) (simp add: starts_with_def)
next
  case (Cons c a)
  have "\<not> starts_with n ((c # a) @ n @ b)" using Cons.prems by (cases n) (auto simp: starts_with_def)
  then show ?case using Cons by (subst find_sub.simps) simp
qed

lemma split_after: "hd n \<notin> set a \<Longrightarrow> n \<noteq> [] \<Longrightarrow> split_once_str n (a @ n @ b) = Some (a, b)"
  by (simp add: split_once_str_def find_sub_after)

lemma show_nat_digits: "c \<in> set (show_nat n) \<Longrightarrow> digit_val c \<noteq> None"
proof (induction n rule: show_nat.induct)
  case (1 n)
  then show ?case by (cases "n < 10") (auto simp: show_nat.simps [of n])
qed

lemma show_nat_char: "digit_val c = None \<Longrightarrow> c \<notin> set (show_nat n)"
  using show_nat_digits by blast

lemma show_int_no_colon: "CHR '':'' \<notin> set (show_int i)"
  using show_nat_char [of "CHR '':''"] by (simp add: show_int_def digit_val_def)

lemma show_nat_sign: "show_nat n = c # s \<Longrightarrow> c \<noteq> CHR ''-'' \<and> c \<noteq> CHR ''+''"
  using show_nat_char [of "CHR ''-''" n] show_nat_char [of "CHR ''+''" n] by (auto simp: digit_val_def)

lemma parse_u32_show [simp]: "n < 2 ^ 32 \<Longrightarrow> parse_u32 (show_nat n) = Some n"
proof -
  obtain c s where c: "show_nat n = c # s" by (cases "show_nat n") auto
  show "n < 2 ^ 32 \<Longrightarrow> ?thesis"
    using show_nat_sign [OF c] parse_show_nat [of n] by (simp add: parse_u32_def c del: parse_digits.simps)
qed

lemma parse_i64_show [simp]: "- (2 ^ 63) \<le> i \<Longrightarrow> i < 2 ^ 63 \<Longrightarrow> parse_i64 (show_int i) = Some i"
proof -
  assume r: "- (2 ^ 63) \<le> i" "i < 2 ^ 63"
  show ?thesis
  proof (cases "i < 0")
    case True
    then show ?thesis using r by (simp add: parse_i64_def show_int_def)
  next
    case False
    obtain c s where c: "show_nat (nat i) = c # s" by (cases "show_nat (nat i)") auto
    then have p: "parse_digits (c # s) 0 = Some (nat i)" using parse_show_nat [of "nat i"] by simp
    have "(case c # s of CHR ''-'' # r \<Rightarrow> (-1 :: int, r) | CHR ''+'' # r \<Rightarrow> (1, r) | _ \<Rightarrow> (1, c # s)) = (1, c # s)"
      using show_nat_sign [OF c] by (auto split: char.split bool.split)
    then show ?thesis using r False p by (simp add: parse_i64_def show_int_def c del: parse_digits.simps)
  qed
qed

lemma window_id_of_listed:
  assumes "wi_index w \<le> u32_max" "case wi_id w of Some i \<Rightarrow> - (2 ^ 63) \<le> i \<and> i < 2 ^ 63 | None \<Rightarrow> True"
  shows "macos_window_index (macos_candidate_backend_window_id w) = Some (wi_index w)"
    and "macos_window_id (macos_candidate_backend_window_id w) = wi_id w"
proof -
  have sep: "hd INDEX_SEP = CHR '':''" "INDEX_SEP \<noteq> []" by (simp_all add: INDEX_SEP_def)
  have n: "CHR '':'' \<notin> set (show_nat k)" for k using show_nat_char [of "CHR '':''" k] by (simp add: digit_val_def)
  have i: "split_once_str INDEX_SEP (show_int j @ INDEX_SEP @ show_nat k) = Some (show_int j, show_nat k)" for j k
    using split_after [of INDEX_SEP "show_int j"] sep show_int_no_colon by simp
  have p: "split_once_str INDEX_SEP (show_nat j @ INDEX_SEP @ show_nat k) = Some (show_nat j, show_nat k)" for j k
    using split_after [of INDEX_SEP "show_nat j"] sep n by simp
  have "wi_index w < 2 ^ 32" using assms(1) by (simp add: u32_max_def)
  then show "macos_window_index (macos_candidate_backend_window_id w) = Some (wi_index w)"
    by (cases "wi_id w") (simp_all add: macos_candidate_backend_window_id_def macos_window_index_def index_after_def
        strip_prefix_def ID_PREFIX_def PID_PREFIX_def INDEX_PREFIX_def i p)
  show "macos_window_id (macos_candidate_backend_window_id w) = wi_id w"
    using assms(2)
    by (cases "wi_id w") (simp_all add: macos_candidate_backend_window_id_def macos_window_id_def
        strip_prefix_def ID_PREFIX_def PID_PREFIX_def i)
qed

text \<open>An attached window is the one that was listed: the helper is asked about a window that was listed and
  attached by exactly the process, the window id, the index, the bundle and the title it was listed with.
  Assumed are an index and an id within their machine types.\<close>

theorem attached_window_is_the_listed_one:
  assumes "wi_index w \<le> u32_max" and "case wi_id w of Some i \<Rightarrow> - (2 ^ 63) \<le> i \<and> i < 2 ^ 63 | None \<Rightarrow> True"
  shows "mac_attach_window dbg (mac_candidate w) = Inr (for_attached (mac_candidate w)) \<and>
    helper_window_ref (for_attached (mac_candidate w)) =
      \<lparr>wf_pid = Some (wi_pid w), wf_bundle = wi_bundle w, wf_index = Some (wi_index w), wf_id = wi_id w, wf_title = wi_title w\<rparr>"
proof -
  have "starts_with ID_PREFIX (macos_candidate_backend_window_id w) \<or> starts_with PID_PREFIX (macos_candidate_backend_window_id w)"
    by (cases "wi_id w") (simp_all add: macos_candidate_backend_window_id_def starts_with_def)
  then show ?thesis
    using window_id_of_listed [OF assms]
    by (auto simp: mac_attach_window_def mac_candidate_def helper_window_ref_def for_attached_def split: option.split)
qed

theorem attached_window_is_the_listed_one_witness:
  "wf_id (helper_window_ref (for_attached (mac_candidate
      \<lparr>wi_id = Some 1001, wi_pid = 42, wi_bundle = None, wi_index = 7, wi_title = Some ''a''\<rparr>))) = Some 1001"
  using attached_window_is_the_listed_one [of "\<lparr>wi_id = Some 1001, wi_pid = 42, wi_bundle = None, wi_index = 7, wi_title = Some ''a''\<rparr>"
      "\<lambda>_. []"]
  by (simp add: u32_max_def)

section \<open>Group switches\<close>

lemma each_append: "each f (xs @ ys) m = (let (m1, r1) = each f xs m; (m2, r2) = each f ys m1 in (m2, r1 @ r2))"
  by (induction xs arbitrary: m) (simp_all add: Let_def split_def)

lemma hide_does_nothing: "set_visible sc e w False m = (m, Inr ())"
  by (simp add: set_visible_def)

lemma each_hide: "each (\<lambda>w. operation_result_of sc e w False) ws m =
    (m, map (\<lambda>w. \<lparr>or_window = w, or_ok = True, or_error = None\<rparr>) ws)"
  by (induction ws) (simp_all add: operation_result_of_def hide_does_nothing)

lemma operation_window:
  "or_window (snd (operation_result_of sc e w v m)) = w" "or_window (snd (operation_result_fast_show sc e w m)) = w"
  by (auto simp: operation_result_of_def operation_result_fast_show_def Let_def split_def split: sum.split bool.split)

lemma each_windows: "(\<And>w m. or_window (snd (f w m)) = w) \<Longrightarrow> map or_window (snd (each f ws m)) = ws"
  by (induction ws arbitrary: m) (simp_all add: Let_def split_def)

text \<open>Nothing is hidden on macOS: the windows to hide are reported done and left as they are.\<close>

lemma switch_never_hides:
  "apply_group sc e hide show_them m =
    (fst (apply_group sc e [] show_them m),
     map (\<lambda>w. \<lparr>or_window = w, or_ok = True, or_error = None\<rparr>) hide @ snd (apply_group sc e [] show_them m))"
  by (simp add: apply_group_def each_hide Let_def split_def)

lemma results_in_order: "map or_window (snd (apply_group sc e hide show_them m)) = hide @ show_them"
  by (simp add: apply_group_def each_hide Let_def split_def each_windows operation_window comp_def)

lemma find_own:
  "w \<in> set ws \<Longrightarrow> (\<forall>v\<in>set ws. helper_window_ref v = helper_window_ref w \<longrightarrow> v = w) \<Longrightarrow>
    (\<forall>v\<in>set ws. same_window (helper_window_ref w) v \<longrightarrow> sw_title v = sw_title w) \<Longrightarrow>
    List.find (same_window (helper_window_ref w)) ws = Some w"
proof -
  assume w: "w \<in> set ws" "\<forall>v\<in>set ws. helper_window_ref v = helper_window_ref w \<longrightarrow> v = w"
    "\<forall>v\<in>set ws. same_window (helper_window_ref w) v \<longrightarrow> sw_title v = sw_title w"
  have "same_window (helper_window_ref w) v \<Longrightarrow> v \<in> set ws \<Longrightarrow> v = w" for v
    using w(2,3) by (auto simp: same_window_def helper_window_ref_def)
  moreover have "same_window (helper_window_ref w) w" by (simp add: same_window_def helper_window_ref_def)
  ultimately show ?thesis
    using w(1) by (induction ws) auto
qed

lemma found_again:
  "map f xs = map g ys \<Longrightarrow> (\<And>x y. y \<in> set ys \<Longrightarrow> f x = g y \<Longrightarrow> h x = y) \<Longrightarrow> map h xs = ys"
  by (induction xs arbitrary: ys) (auto simp: Cons_eq_map_conv)

text \<open>Windows of a switch are told apart by what the helper is told of them.\<close>

definition told_apart :: "satellite_window list \<Rightarrow> bool" where
  "told_apart ws \<longleftrightarrow> list_all (\<lambda>w. list_all (\<lambda>v. same_window (helper_window_ref w) v \<longrightarrow> v = w) ws) ws"

text \<open>Each window of a switch gets its own result: when the helper answers in time, the results are those of the
  windows to hide and to show, one for each and in that order; and the windows that are hidden are left
  as they are, the system being changed as by showing the others alone. Assumed is that no two windows of
  the switch look the same to the helper.\<close>

theorem each_window_gets_its_result:
  assumes "told_apart (gs_hide s @ gs_show s)" and "mb_outcome b = (\<lambda>_ _. In_Time)"
  shows "(\<exists>rs. snd (mac_group_switch b s None (recorded, m)) = Inr rs \<and> map mr_window rs = gs_hide s @ gs_show s) \<and>
    snd (fst (mac_group_switch b s None (recorded, m))) =
      fst (apply_group (ms_restore (mb_scripts b)) (mb_env b) [] (map helper_window_ref (gs_show s)) m)"
proof -
  let ?ws = "gs_hide s @ gs_show s"
  let ?g = "apply_group (ms_restore (mb_scripts b)) (mb_env b) (map helper_window_ref (gs_hide s)) (map helper_window_ref (gs_show s)) m"
  have r: "snd (mac_group_switch b s None (recorded, m)) = Inr (map (window_op_result ?ws) (snd ?g))"
    using assms(2) by (simp add: mac_group_switch_def apply_app_visibility_group_def run_helper_request_timed_def handle_request_def
        Let_def split_def)
  have "mr_window (window_op_result ?ws x) = w" if "w \<in> set ?ws" "or_window x = helper_window_ref w" for x w
  proof -
    have "List.find (same_window (helper_window_ref w)) ?ws = Some w"
      using assms(1) that(1) by (intro find_own) (auto simp: told_apart_def list_all_iff same_window_def helper_window_ref_def)
    then show ?thesis using that(2) by (simp add: window_op_result_def)
  qed
  moreover have "map or_window (snd ?g) = map helper_window_ref ?ws" by (simp add: results_in_order)
  ultimately have "map mr_window (map (window_op_result ?ws) (snd ?g)) = ?ws"
    using found_again [of or_window "snd ?g" helper_window_ref ?ws "\<lambda>x. mr_window (window_op_result ?ws x)"]
    by (simp add: comp_def)
  then have "\<exists>rs. snd (mac_group_switch b s None (recorded, m)) = Inr rs \<and> map mr_window rs = ?ws" using r by blast
  moreover have "snd (fst (mac_group_switch b s None (recorded, m))) =
      fst (apply_group (ms_restore (mb_scripts b)) (mb_env b) [] (map helper_window_ref (gs_show s)) m)"
    using switch_never_hides [of "ms_restore (mb_scripts b)" "mb_env b" "map helper_window_ref (gs_hide s)" "map helper_window_ref (gs_show s)" m]
    by (simp add: mac_group_switch_def apply_app_visibility_group_def run_helper_request_timed_def handle_request_def Let_def split_def)
  ultimately show ?thesis by blast
qed

text \<open>A window the cockpit started has no id of its own yet: showing it is refused.\<close>

lemma started_window_is_refused:
  "snd (set_visible sc e (helper_window_ref (for_spawn_with_bundle SB_Macos r p bundle)) True m) =
    Inl (HE_CoreGraphics (''refusing macOS visibility change without exact window id for pid '' @ mc_debug_nat e (Some p) @
      '' bundle '' @ mc_debug_str e bundle))"
  by (simp add: set_visible_def helper_window_ref_def for_spawn_with_bundle_def macos_window_index_def macos_window_id_def
      strip_prefix_def ID_PREFIX_def PID_PREFIX_def INDEX_PREFIX_def)

text \<open>A helper that is too slow is reported as failed, and still does what it was asked.\<close>

lemma late_switch_is_done:
  "mb_outcome b q m = Timed_Out \<Longrightarrow>
    run_helper_request_timed b q m =
      (fst (handle_request (mb_rnd b) (mb_scripts b) (mb_env b) q m), Inl (CE_Domain ''lmux-macos-helper timed out''))"
  by (simp add: run_helper_request_timed_def Let_def split_def)

text \<open>A title with a tab takes the place of the window's number in the line of the focused window.\<close>

lemma tab_in_title_loses_id:
  "parse_focused (''42'' @ [CHR 0x09] @ ''b'' @ [CHR 0x09] @ ''1'' @ [CHR 0x09] @ ''x'' @ [CHR 0x09] @ ''y'' @ [CHR 0x09] @ ''7'') =
    Some \<lparr>wi_id = None, wi_pid = 42, wi_bundle = Some ''b'', wi_index = 1, wi_title = Some ''x''\<rparr>"
proof -
  have l: "trim_end (''42'' @ [CHR 0x09] @ ''b'' @ [CHR 0x09] @ ''1'' @ [CHR 0x09] @ ''x'' @ [CHR 0x09] @ ''y'' @ [CHR 0x09] @ ''7'') =
    ''42'' @ [CHR 0x09] @ ''b'' @ [CHR 0x09] @ ''1'' @ [CHR 0x09] @ ''x'' @ [CHR 0x09] @ ''y'' @ [CHR 0x09] @ ''7''"
    by (simp add: trim_end_def is_space_def)
  have p: "splitn 5 CHR 0x09 (''42'' @ [CHR 0x09] @ ''b'' @ [CHR 0x09] @ ''1'' @ [CHR 0x09] @ ''x'' @ [CHR 0x09] @ ''y'' @ [CHR 0x09] @ ''7'') =
    [''42'', ''b'', ''1'', ''x'', ''y'' @ [CHR 0x09] @ ''7'']"
    by (simp add: numeral_eq_Suc split_once_def)
  have n: "parse_u32 ''42'' = Some 42" "parse_u32 ''1'' = Some 1" "parse_i64 (''y'' @ [CHR 0x09] @ ''7'') = None"
    by (simp_all add: parse_u32_def parse_i64_def digit_val_def)
  show ?thesis
    by (simp add: parse_focused_def l p Let_def part_def non_empty_string_def positive_def n del: append_Cons)
qed

section \<open>Windows and previews\<close>

lemma the_only_unique: "the_only xs = Some x \<longleftrightarrow> xs = [x]"
  by (auto simp: the_only_def split: list.split)

text \<open>A window of the accessibility interface is given an id only of the one window that fits.\<close>

lemma ax_window_id_unambiguous:
  assumes "cg_window_id_for_ax_window rnd cs title position sz = Some i"
  shows "\<exists>c P. filter P cs = [c] \<and> i = int (cc_window_id c)"
  using assms by (auto simp: cg_window_id_for_ax_window_def the_only_unique split: option.splits)

lemma preview_pixel_length: "length (preview_pixel source stride ssz dsz y x) = 4"
  by (simp add: preview_pixel_def Let_def)

lemma length_rows: "(\<And>x. length (f x) = n) \<Longrightarrow> length (concat (map f [0..<k])) = k * n"
  by (induction k) simp_all

lemma preview_bytes:
  "length (wp_bgra (downsample_bgra rnd source sw sh stride mw mh)) =
    wp_height (downsample_bgra rnd source sw sh stride mw mh) * wp_bytes_per_row (downsample_bgra rnd source sw sh stride mw mh)"
  by (simp add: downsample_bgra_def Let_def length_rows preview_pixel_length)

lemma scaled_fits:
  assumes "real n * scale \<le> real k" "0 < k"
  shows "scaled (\<lambda>v. v) scale n \<le> k"
proof -
  have "\<lfloor>real n * scale + 1 / 2\<rfloor> \<le> int k" using assms(1) by linarith
  then show ?thesis using assms(2) by (simp add: scaled_def)
qed

text \<open>With exact arithmetic a preview keeps to the limits it was asked for.\<close>

lemma preview_within_limits:
  assumes "0 < sw" "0 < sh"
  shows "wp_width (downsample_bgra (\<lambda>v. v) source sw sh stride mw mh) \<le> max mw 1"
    and "wp_height (downsample_bgra (\<lambda>v. v) source sw sh stride mw mh) \<le> max mh 1"
proof -
  let ?s = "min (min (real (max mw 1) / real sw) (real (max mh 1) / real sh)) 1"
  have "?s \<le> real (max mw 1) / real sw" "?s \<le> real (max mh 1) / real sh" by (simp_all add: min.coboundedI1)
  then have s: "real sw * ?s \<le> real (max mw 1)" "real sh * ?s \<le> real (max mh 1)"
    using assms by (simp_all add: pos_le_divide_eq mult.commute)
  show "wp_width (downsample_bgra (\<lambda>v. v) source sw sh stride mw mh) \<le> max mw 1"
    using scaled_fits [OF s(1)] by (simp add: downsample_bgra_def Let_def)
  show "wp_height (downsample_bgra (\<lambda>v. v) source sw sh stride mw mh) \<le> max mh 1"
    using scaled_fits [OF s(2)] by (simp add: downsample_bgra_def Let_def)
qed

end
