(* ===== verification/Sidebar.thy ===== *)
theory Sidebar
  imports AppWindow Backends TermView
begin

text \<open>
  The sidebar of \<open>crates/lmux/src/sidebar.rs\<close> with \<open>sidebar/labels.rs\<close> and \<open>sidebar/grants.rs\<close>, in the Linux
  build: its rail, the list of workspaces and what its rows do, the popover of a row, the picker of
  windows and the settings dialog. A widget is the value of what it shows, and a callback a function
  from the values it captured and the state it meets.
\<close>

section \<open>Labels of windows\<close>

definition window_title :: "window_candidate \<Rightarrow> string" where
  "window_title w =
    (case map_option trim (wc_title w) of
       Some t \<Rightarrow> if t \<noteq> [] then t else ''(untitled window)''
     | None \<Rightarrow> ''(untitled window)'')"

fun backend_label :: "window_backend \<Rightarrow> string" where
  "backend_label Macos = ''macOS''"
| "backend_label Kwin = ''KWin''"
| "backend_label X11 = ''X11''"
| "backend_label Hyprland = ''Hyprland''"
| "backend_label Sway = ''Sway''"
| "backend_label Noop = ''Noop''"
| "backend_label Unsupported = ''Unsupported''"

fun app_identity_text :: "window_app_identity \<Rightarrow> string" where
  "app_identity_text (BundleId v) = v"
| "app_identity_text (DesktopEntry v) = v"
| "app_identity_text (WmClass v) = v"
| "app_identity_text (AppId v) = v"
| "app_identity_text (OtherApp v) = v"

definition window_app_label :: "window_candidate \<Rightarrow> string" where
  "window_app_label w = (case wc_app w of Some a \<Rightarrow> app_identity_text a | None \<Rightarrow> [])"

text \<open>The middle dot between two parts, with its spaces.\<close>

definition DOT :: string where
  "DOT = [CHR 0x20, CHR 0xB7, CHR 0x20]"

definition window_meta :: "window_candidate \<Rightarrow> string" where
  "window_meta w =
    join DOT ([backend_label (wc_backend w), wc_window_id w]
      @ (case wc_pid w of Some p \<Rightarrow> [''pid '' @ show_nat p] | None \<Rightarrow> [])
      @ (case wc_app w of Some a \<Rightarrow> [app_identity_text a] | None \<Rightarrow> [])
      @ (case wc_workspace w of Some x \<Rightarrow> [''workspace '' @ x] | None \<Rightarrow> [])
      @ (case wc_output w of Some x \<Rightarrow> [x] | None \<Rightarrow> []))"

text \<open>The first letters of the first two words; \<open>alnum\<close> and \<open>upper\<close> are the tables of Unicode.\<close>

fun split_where :: "(char \<Rightarrow> bool) \<Rightarrow> string \<Rightarrow> string list" where
  "split_where P [] = [[]]"
| "split_where P (c # s) =
    (if P c then [] # split_where P s
     else (case split_where P s of [] \<Rightarrow> [[c]] | x # xs \<Rightarrow> (c # x) # xs))"

definition window_initials :: "(char \<Rightarrow> bool) \<Rightarrow> (string \<Rightarrow> string) \<Rightarrow> window_candidate \<Rightarrow> string" where
  "window_initials alnum upper w =
    (let source = (case wc_app w of Some a \<Rightarrow> app_identity_text a | None \<Rightarrow> window_title w);
         initials = upper (map hd (take 2 (filter (\<lambda>p. p \<noteq> []) (split_where (\<lambda>c. \<not> alnum c) source))))
     in if initials = [] then ''W'' else initials)"

section \<open>The rail\<close>

record rail =
  ra_collapsed :: bool
  ra_hover :: bool

text \<open>What the rail shows; the divider of the window is placed, or left where it is.\<close>

record rail_view =
  rw_icon :: string
  rw_width :: int
  rw_content :: bool
  rw_divider :: "int option"

definition collapse_icon_name :: "sidebar_position \<Rightarrow> bool \<Rightarrow> string" where
  "collapse_icon_name p expanded =
    (if expanded = (p = Side_Left) then ''pan-start-symbolic'' else ''pan-end-symbolic'')"

definition apply_collapsed :: "sidebar_settings \<Rightarrow> int \<Rightarrow> rail \<Rightarrow> rail_view" where
  "apply_collapsed cfg paned_width r =
    (let expanded = (\<not> ra_collapsed r \<or> ra_hover r);
         width = as_i32 (max (if expanded then sb_width cfg else sb_collapsed_width cfg) 32)
     in \<lparr>rw_icon = collapse_icon_name (sb_position cfg) expanded, rw_width = width, rw_content = expanded,
         rw_divider = (case sb_position cfg of
           Side_Left \<Rightarrow> Some width
         | Side_Right \<Rightarrow> if paned_width > width then Some (paned_width - width) else None)\<rparr>)"

definition rail_new :: "sidebar_settings \<Rightarrow> rail" where
  "rail_new cfg = \<lparr>ra_collapsed = sb_collapsed cfg, ra_hover = False\<rparr>"

datatype rail_event = RE_Toggle | RE_Enter | RE_Leave

fun rail_step :: "rail_event \<Rightarrow> rail \<Rightarrow> rail" where
  "rail_step RE_Toggle r = \<lparr>ra_collapsed = (\<not> ra_collapsed r), ra_hover = False\<rparr>"
| "rail_step RE_Enter r = (if ra_collapsed r then r\<lparr>ra_hover := True\<rparr> else r)"
| "rail_step RE_Leave r = r\<lparr>ra_hover := False\<rparr>"

section \<open>The list of workspaces\<close>

type_synonym sidebar_row = "string option \<times> int \<times> pane_id \<times> string"

definition sidebar_row_of :: "app \<Rightarrow> pane_id \<Rightarrow> sidebar_row" where
  "sidebar_row_of s p =
    (case anchor_for_pane s p of
       Some a \<Rightarrow> (a_group a, (case a_sort_key a of Some k \<Rightarrow> k | None \<Rightarrow> 0), p, display_label a)
     | None \<Rightarrow> (None, 0, p, ''terminal '' @ show_nat p))"

definition row_key :: "sidebar_row \<Rightarrow> group_rank \<times> int \<times> pane_id" where
  "row_key = (\<lambda>(g, k, p, l). (group_rank g, k, p))"

definition sidebar_rows :: "app \<Rightarrow> sidebar_row list" where
  "sidebar_rows s = sort_key row_key (map (sidebar_row_of s) (sorted_list_of_set (ap_anchors s)))"

definition row_pane :: "sidebar_row \<Rightarrow> pane_id" where
  "row_pane = (\<lambda>(g, k, p, l). p)"

definition group_panes :: "sidebar_row list \<Rightarrow> string option \<Rightarrow> pane_id list" where
  "group_panes rows g = map row_pane (filter (\<lambda>r. fst r = g) rows)"

text \<open>What the label of an agent's activity says.\<close>

definition agent_part :: "agent_pane_status \<Rightarrow> string" where
  "agent_part st =
    (let agent = (case ag_name (aps_agent st) of Some n \<Rightarrow> n | None \<Rightarrow> ag_id (aps_agent st))
     in case (aps_title st, aps_purpose st) of
          (Some t, Some p) \<Rightarrow> agent @ '': '' @ t @ '' ('' @ p @ '')''
        | (Some t, None) \<Rightarrow> agent @ '': '' @ t
        | (None, Some p) \<Rightarrow> agent @ '': '' @ p
        | (None, None) \<Rightarrow> agent)"

definition agent_activity_text :: "agent_pane_status list \<times> nat \<times> nat \<Rightarrow> string option" where
  "agent_activity_text = (\<lambda>(agents, pending, active).
    let parts = map agent_part agents @ (if pending > 0 then [show_nat pending @ '' pending''] else [])
          @ (if active > 0 then [show_nat active @ '' active''] else [])
    in if parts = [] then None else Some (join DOT parts))"

text \<open>A row keeps the order its group had when the list was built.\<close>

record row_view =
  rv_pane :: pane_id
  rv_label :: string
  rv_name :: string
  rv_group :: string
  rv_order :: "pane_id list"
  rv_activity :: "string option"
  rv_active :: bool
  rv_dot :: bool

datatype sidebar_item = SI_Empty | SI_Header string | SI_Row row_view

definition or_empty :: "string option \<Rightarrow> string" where
  "or_empty v = (case v of Some x \<Rightarrow> x | None \<Rightarrow> [])"

definition build_row :: "world \<Rightarrow> app \<Rightarrow> sidebar_row list \<Rightarrow> sidebar_row \<Rightarrow> row_view" where
  "build_row w s rows = (\<lambda>(g, k, p, label).
    \<lparr>rv_pane = p, rv_label = label, rv_name = or_empty (Option.bind (anchor_for_pane s p) a_name),
     rv_group = or_empty g, rv_order = group_panes rows g,
     rv_activity = agent_activity_text (anchor_agent_activity w s p),
     rv_active = (ap_active s = Some p), rv_dot = (ap_active s = Some p)\<rparr>)"

fun list_items :: "world \<Rightarrow> app \<Rightarrow> sidebar_row list \<Rightarrow> string option option \<Rightarrow> sidebar_row list \<Rightarrow> sidebar_item list" where
  "list_items w s rows last_group [] = []"
| "list_items w s rows last_group (r # rs) =
    (if last_group \<noteq> Some (fst r) then [SI_Header (case fst r of Some g \<Rightarrow> g | None \<Rightarrow> ''No group'')] else [])
    @ SI_Row (build_row w s rows r) # list_items w s rows (Some (fst r)) rs"

definition refresh_list :: "world \<Rightarrow> app \<Rightarrow> sidebar_item list" where
  "refresh_list w s =
    (let rows = sidebar_rows s in if rows = [] then [SI_Empty] else list_items w s rows None rows)"

fun highlight :: "pane_id option \<Rightarrow> sidebar_item \<Rightarrow> sidebar_item" where
  "highlight active (SI_Row r) = SI_Row (r\<lparr>rv_active := (Some (rv_pane r) = active), rv_dot := (Some (rv_pane r) = active)\<rparr>)"
| "highlight active i = i"

definition update_active_rows :: "pane_id option \<Rightarrow> sidebar_item list \<Rightarrow> sidebar_item list" where
  "update_active_rows active items = map (highlight active) items"

text \<open>The listeners run when the main loop is idle, in the order they were asked for, on the state of then.\<close>

fun sidebar_hears :: "world \<Rightarrow> app \<Rightarrow> effect \<Rightarrow> sidebar_item list \<Rightarrow> sidebar_item list" where
  "sidebar_hears w s E_AnchorsChanged items = refresh_list w s"
| "sidebar_hears w s (E_ActiveAnchorChanged a) items = update_active_rows a items"
| "sidebar_hears w s e items = items"

section \<open>What a row does\<close>

definition insert_before :: "pane_id \<Rightarrow> pane_id \<Rightarrow> pane_id list \<Rightarrow> pane_id list" where
  "insert_before src p order =
    (let rest = filter (\<lambda>q. q \<noteq> src) order; i = length (takeWhile (\<lambda>q. q \<noteq> p) rest)
     in take i rest @ src # drop i rest)"

definition drop_on_row :: "row_view \<Rightarrow> pane_id \<Rightarrow> app \<Rightarrow> app \<times> bool" where
  "drop_on_row r src s =
    (if src = rv_pane r then (s, False)
     else if src \<notin> set (rv_order r) \<or> rv_pane r \<notin> set (rv_order r) then (s, False)
     else (reorder_anchors_in_group (insert_before src (rv_pane r) (rv_order r)) s, True))"

definition click_row :: "row_view \<Rightarrow> app \<Rightarrow> app" where
  "click_row r s = set_active_anchor (Some (rv_pane r)) s"

text \<open>The small picture of a row's pane, from \<open>thumbnail\<close>, the pane's own; drawn at once and at every tick.\<close>

definition preview_of :: "(pane_id \<Rightarrow> (nat \<times> nat \<times> byte list) option) \<Rightarrow> app \<Rightarrow> pane_id \<Rightarrow> (nat \<times> nat \<times> byte list) option" where
  "preview_of thumbnail s p =
    (if \<not> pane_in_active_workspace s p \<or> p \<in> ap_hidden s then None else if live s p then thumbnail p else None)"

definition preview_tick ::
  "(pane_id \<Rightarrow> (nat \<times> nat \<times> byte list) option) \<Rightarrow> app option \<Rightarrow> pane_id \<Rightarrow>
    (nat \<times> nat \<times> byte list) option option \<Rightarrow> (nat \<times> nat \<times> byte list) option option \<times> bool" where
  "preview_tick thumbnail st p picture =
    (case picture of
       None \<Rightarrow> (None, False)
     | Some shown \<Rightarrow> (case st of
         None \<Rightarrow> (picture, False)
       | Some s \<Rightarrow> (case preview_of thumbnail s p of
           Some im \<Rightarrow> (Some (Some im), True) | None \<Rightarrow> (picture, True))))"

definition preview_interval :: "sidebar_settings \<Rightarrow> nat" where
  "preview_interval cfg = max (sb_preview_refresh_ms cfg) 100"

section \<open>The popover of a row\<close>

datatype grant_button = GB_AllowOnce | GB_AllowTimed | GB_Deny | GB_Revoke

record grant_row =
  gw_grant :: uuid
  gw_text :: msg
  gw_buttons :: "grant_button list"

definition grant_row :: "grant_view \<Rightarrow> grant_row" where
  "grant_row g =
    \<lparr>gw_grant = gv_grant_id g,
     gw_text = [Txt (case ag_name (gv_requester g) of Some n \<Rightarrow> n | None \<Rightarrow> ag_id (gv_requester g)), Txt DOT,
       FScope (gv_scope g), Txt DOT, Txt (if gv_pending g then ''pending'' else ''active'')]
       @ (case gv_reason g of Some m \<Rightarrow> Txt DOT # m | None \<Rightarrow> []),
     gw_buttons = (if gv_pending g then [GB_AllowOnce, GB_AllowTimed, GB_Deny]
       else if gv_active g then [GB_Revoke] else [])\<rparr>"

text \<open>\<open>now\<close> is the clock in seconds, or nothing when it stands before the epoch.\<close>

fun button_decision :: "nat option \<Rightarrow> grant_button \<Rightarrow> grant_decision" where
  "button_decision now GB_AllowOnce = AllowOnce"
| "button_decision now GB_AllowTimed = AllowUntil (case now of Some n \<Rightarrow> n + 600 | None \<Rightarrow> 600)"
| "button_decision now GB_Deny = Deny"
| "button_decision now GB_Revoke = Revoke"

definition press_grant_button :: "nat option \<Rightarrow> uuid \<Rightarrow> grant_button \<Rightarrow> app \<Rightarrow> app" where
  "press_grant_button now i b s = fst (app_decide_grant i (button_decision now b) s)"

record row_popover =
  po_pane :: pane_id
  po_uuid :: "uuid option"
  po_activity :: "string option"
  po_grants :: "grant_row list"
  po_name :: string
  po_group :: string
  po_paused :: bool
  po_open :: bool

definition show_row_popover :: "world \<Rightarrow> row_view \<Rightarrow> app \<Rightarrow> row_popover" where
  "show_row_popover w r s =
    \<lparr>po_pane = rv_pane r, po_uuid = hget (ap_pane_anchor_ids s) (rv_pane r),
     po_activity = agent_activity_text (anchor_agent_activity w s (rv_pane r)),
     po_grants = map grant_row (anchor_grant_views w s (rv_pane r)), po_name = rv_name r, po_group = rv_group r,
     po_paused = (case anchor_for_pane s (rv_pane r) of Some a \<Rightarrow> a_state a = Paused | None \<Rightarrow> False), po_open = True\<rparr>"

definition trim_to_option :: "string \<Rightarrow> string option" where
  "trim_to_option t = (if trim t = [] then None else Some (trim t))"

definition popover_apply :: "row_popover \<Rightarrow> app \<Rightarrow> row_popover \<times> app" where
  "popover_apply po s =
    (po\<lparr>po_open := False\<rparr>, regroup_anchor_for_pane (po_pane po) (trim_to_option (po_group po))
       (rename_anchor_for_pane (po_pane po) (trim_to_option (po_name po)) s))"

definition popover_pause :: "world \<Rightarrow> row_popover \<Rightarrow> app \<Rightarrow> row_popover \<times> app" where
  "popover_pause w po s =
    (po\<lparr>po_open := False\<rparr>, fst ((if po_paused po then resume_anchor else pause_anchor) w (po_pane po) s))"

definition popover_remove :: "world \<Rightarrow> row_popover \<Rightarrow> app \<Rightarrow> row_popover \<times> app" where
  "popover_remove w po s = (po\<lparr>po_open := False\<rparr>, remove_anchor w (po_pane po) s)"

section \<open>The picker of windows\<close>

record attach_action_view =
  av_sensitive :: bool
  av_tooltip :: string

definition attach_action_view :: "window_capabilities \<Rightarrow> attach_action_view" where
  "attach_action_view caps =
    (if cap_list caps \<and> cap_attach caps then \<lparr>av_sensitive = True, av_tooltip = ''Add window''\<rparr>
     else \<lparr>av_sensitive = False, av_tooltip = ''Adding windows is unavailable for this compositor''\<rparr>)"

text \<open>
  A worker thread with a runtime of its own asks the compositor and sends back one result; it may be
  lost, with the error of the channel.
\<close>

datatype 'a worker = W_NoRuntime string | W_Answer "string + 'a" | W_Lost string

fun from_worker :: "string \<Rightarrow> 'a worker \<Rightarrow> string + 'a" where
  "from_worker what (W_NoRuntime e) = Inl e"
| "from_worker what (W_Answer r) = r"
| "from_worker what (W_Lost e) = Inl (what @ '' worker failed: '' @ e)"

record picker_item =
  pk_window :: window_candidate
  pk_attached :: "(pane_id \<times> string) option"
  pk_here :: bool

definition picker_item_of :: "app \<Rightarrow> window_candidate \<Rightarrow> picker_item" where
  "picker_item_of s c =
    (let attached = attached_anchor_for_backend_window s (wc_window_id c)
     in \<lparr>pk_window = c, pk_attached = attached,
         pk_here = (case attached of Some (a, _) \<Rightarrow> Some a = ap_active s | None \<Rightarrow> False)\<rparr>)"

definition window_picker_item_rank :: "picker_item \<Rightarrow> nat" where
  "window_picker_item_rank i = (if pk_here i then 0 else if pk_attached i \<noteq> None then 1 else 2)"

definition picker_key :: "picker_item \<Rightarrow> nat \<times> string \<times> string \<times> string" where
  "picker_key i = (window_picker_item_rank i, backend_label (wc_backend (pk_window i)),
    window_app_label (pk_window i), window_title (pk_window i))"

definition window_picker_items :: "window_candidate list \<Rightarrow> app \<Rightarrow> picker_item list" where
  "window_picker_items ws s = sort_key picker_key (map (picker_item_of s) ws)"

text \<open>The texts of a row: the title, the meta line, the workspace it is in, and the action.\<close>

definition window_picker_row :: "picker_item \<Rightarrow> string \<times> string \<times> string option \<times> string" where
  "window_picker_row i =
    (window_title (pk_window i), window_meta (pk_window i),
     map_option (\<lambda>(a, label). if pk_here i then ''Active workspace'' else ''Other workspace: '' @ label) (pk_attached i),
     (if pk_here i then ''Active'' else if pk_attached i \<noteq> None then ''Move here'' else ''Add''))"

datatype tile = Tile_Initials string | Tile_Picture preview_data

text \<open>The tile of a window; \<open>texture_ok\<close> tells whether the toolkit can read an encoded image.\<close>

definition window_preview_tile ::
  "(char \<Rightarrow> bool) \<Rightarrow> (string \<Rightarrow> string) \<Rightarrow> (byte list \<Rightarrow> bool) \<Rightarrow> preview_data option worker \<Rightarrow> window_candidate \<Rightarrow> tile" where
  "window_preview_tile alnum upper texture_ok answer c =
    (case from_worker ''window preview'' answer of
       Inr (Some (Encoded_Image bytes)) \<Rightarrow>
         if texture_ok bytes then Tile_Picture (Encoded_Image bytes) else Tile_Initials (window_initials alnum upper c)
     | Inr (Some p) \<Rightarrow> Tile_Picture p
     | _ \<Rightarrow> Tile_Initials (window_initials alnum upper c))"

datatype picker_status = PS_Quiet | PS_Not_Listed string | PS_Not_Attached string | PS_Refused app_error

datatype picker_list = PL_Loading | PL_Blank | PL_Empty | PL_Error | PL_Items "picker_item list"

record picker =
  pi_open :: bool
  pi_list :: picker_list
  pi_status :: picker_status

definition open_attach_picker :: picker where
  "open_attach_picker = \<lparr>pi_open = True, pi_list = PL_Loading, pi_status = PS_Quiet\<rparr>"

text \<open>The task that loads the list: at its start, and when the worker has answered.\<close>

definition picker_starts :: "picker \<Rightarrow> picker" where
  "picker_starts pp = pp\<lparr>pi_list := PL_Blank, pi_status := PS_Quiet\<rparr>"

definition picker_listed :: "window_candidate list worker \<Rightarrow> app \<Rightarrow> picker \<Rightarrow> picker" where
  "picker_listed answer s pp =
    (case from_worker ''window list'' answer of
       Inr ws \<Rightarrow> if ws = [] then pp\<lparr>pi_list := PL_Empty\<rparr> else pp\<lparr>pi_list := PL_Items (window_picker_items ws s)\<rparr>
     | Inl e \<Rightarrow> pp\<lparr>pi_status := PS_Not_Listed e, pi_list := PL_Error\<rparr>)"

definition picker_chosen :: "picker \<Rightarrow> int \<Rightarrow> picker_item option" where
  "picker_chosen pp i =
    (case pi_list pp of PL_Items items \<Rightarrow> if 0 \<le> i \<and> nat i < length items then Some (items ! nat i) else None | _ \<Rightarrow> None)"

text \<open>A row is activated, and the compositor's worker answers.\<close>

definition picker_activated ::
  "(window_candidate \<Rightarrow> satellite_window worker) \<Rightarrow> int \<Rightarrow> picker \<Rightarrow> app \<Rightarrow> picker \<times> app" where
  "picker_activated attach i pp s =
    (case picker_chosen pp i of
       None \<Rightarrow> (pp, s)
     | Some it \<Rightarrow>
         let pi1 = pp\<lparr>pi_status := PS_Quiet\<rparr> in
         (case from_worker ''window attach'' (attach (pk_window it)) of
            Inl e \<Rightarrow> (pi1\<lparr>pi_status := PS_Not_Attached e\<rparr>, s)
          | Inr v \<Rightarrow> (case attach_native_window_to_active_anchor (pk_window it) v s of
              (s1, Inl e) \<Rightarrow> (pi1\<lparr>pi_status := PS_Refused e\<rparr>, s1)
            | (s1, Inr _) \<Rightarrow> (pi1\<lparr>pi_open := False\<rparr>, s1))))"

section \<open>Settings\<close>

definition load_settings_config ::
  "sysfaults \<Rightarrow> toml \<Rightarrow> string option \<Rightarrow> string option \<Rightarrow> files \<Rightarrow> (string + load_error) + config \<times> string" where
  "load_settings_config ff tm xdg home d =
    (case config_path xdg home of
       None \<Rightarrow> Inl (Inl ''Could not find a config path'')
     | Some path \<Rightarrow> (case config_load ff tm path d of Inl e \<Rightarrow> Inl (Inr e) | Inr cfg \<Rightarrow> Inr (cfg, path)))"

definition load_sidebar_config ::
  "sysfaults \<Rightarrow> toml \<Rightarrow> string option \<Rightarrow> string option \<Rightarrow> files \<Rightarrow> sidebar_settings" where
  "load_sidebar_config ff tm xdg home d =
    (case config_path xdg home of
       None \<Rightarrow> sidebar_default
     | Some path \<Rightarrow> (case config_load ff tm path d of Inr cfg \<Rightarrow> cf_sidebar cfg | Inl _ \<Rightarrow> sidebar_default))"

definition lower_ascii :: "string \<Rightarrow> string" where
  "lower_ascii s = Search.to_ascii_lowercase s"

fun dedup_adjacent :: "string list \<Rightarrow> string list" where
  "dedup_adjacent (a # b # r) =
    (if lower_ascii a = lower_ascii b then dedup_adjacent (a # r) else a # dedup_adjacent (b # r))"
| "dedup_adjacent xs = xs"

definition system_font_families :: "string list option \<Rightarrow> string list" where
  "system_font_families font_map =
    (case font_map of
       None \<Rightarrow> []
     | Some names \<Rightarrow> dedup_adjacent (sort_key lower_ascii (filter (\<lambda>n. trim n \<noteq> []) names)))"

definition build_font_combo :: "string list option \<Rightarrow> string \<Rightarrow> string list \<times> nat" where
  "build_font_combo font_map current =
    (let found = system_font_families font_map;
         families = (if current \<in> set found then found else current # found)
     in (families, length (takeWhile (\<lambda>f. f \<noteq> current) families)))"

text \<open>What the controls of the dialog hold: the selected family if any, the number and the prefix.\<close>

record settings_controls =
  sg_font :: "string option"
  sg_size :: int
  sg_prefix :: string

definition controls_for :: "string list option \<Rightarrow> config \<Rightarrow> settings_controls" where
  "controls_for font_map cfg =
    (let (families, i) = build_font_combo font_map (ge_font_family (cf_general cfg))
     in \<lparr>sg_font = Some (families ! i), sg_size = int (min 48 (max 6 (ge_font_size (cf_general cfg)))),
         sg_prefix = km_prefix (cf_keymap cfg)\<rparr>)"

definition selected_font_family :: "settings_controls \<Rightarrow> string option" where
  "selected_font_family sg =
    (case sg_font sg of Some f \<Rightarrow> if trim f \<noteq> [] then Some (trim f) else None | None \<Rightarrow> None)"

text \<open>What a new configuration does to the panes: the font of each, and the focus mode.\<close>

definition apply_config :: "config \<Rightarrow> app \<Rightarrow> (pane_id \<times> string \<times> int) list \<times> focus_mode" where
  "apply_config cfg s =
    (map (\<lambda>p. (p, ge_font_family (cf_general cfg), as_i32 (ge_font_size (cf_general cfg)))) (hkeys (ap_panes s)),
     ge_focus_mode (cf_general cfg))"

definition settings_of :: "config \<Rightarrow> settings_controls \<Rightarrow> config option" where
  "settings_of cfg sg =
    (let ge = cf_general cfg;
         ge1 = (case selected_font_family sg of Some f \<Rightarrow> ge\<lparr>ge_font_family := f\<rparr> | None \<Rightarrow> ge);
         cfg1 = cfg\<lparr>cf_general := ge1\<lparr>ge_font_size := nat (min 48 (max 6 (sg_size sg)))\<rparr>\<rparr>;
         pfx = trim (sg_prefix sg)
     in if pfx = [] then Some cfg1
        else if \<not> is_valid_prefix_binding pfx then None
        else Some (cfg1\<lparr>cf_keymap := \<lparr>km_prefix = pfx\<rparr>\<rparr>))"

record settings_dialog =
  st_cfg :: config
  st_path :: string
  st_open :: bool
  st_error :: bool

text \<open>The dialog, the prefix in use, what was applied to the panes and the files, after Apply.\<close>

definition settings_applied ::
  "sysfaults \<Rightarrow> nat \<Rightarrow> toml \<Rightarrow> settings_controls \<Rightarrow> app \<Rightarrow> settings_dialog \<Rightarrow> string \<Rightarrow> files \<Rightarrow>
    settings_dialog \<times> string \<times> ((pane_id \<times> string \<times> int) list \<times> focus_mode) option \<times> files" where
  "settings_applied ff part tm sg s sd pfx d =
    (case settings_of (st_cfg sd) sg of
       None \<Rightarrow> (sd\<lparr>st_error := True\<rparr>, pfx, None, d)
     | Some cfg \<Rightarrow>
         (sd\<lparr>st_open := False, st_error := (st_error sd \<and> trim (sg_prefix sg) = [])\<rparr>,
          (if trim (sg_prefix sg) = [] then pfx else trim (sg_prefix sg)),
          Some (apply_config cfg s), fst (config_save ff part tm (st_path sd) cfg d)))"

definition shortcut_hint :: "string \<Rightarrow> string \<Rightarrow> string" where
  "shortcut_hint pfx key = trim pfx @ '' '' @ key"

end
