(* ===== verification/SidebarRuns.thy ===== *)
theory SidebarRuns
  imports Sidebar
begin

text \<open>
  What the sidebar promises: a row that is dropped lands before the row it was dropped on, the row of the
  active workspace is the one that is lit, a window that was picked is listed as the active workspace's,
  and settings are read back as they were applied.
\<close>

section \<open>Dropping rows\<close>

lemma insert_before_split:
  "insert_before src p order =
    takeWhile (\<lambda>q. q \<noteq> p) (filter (\<lambda>q. q \<noteq> src) order) @ src # dropWhile (\<lambda>q. q \<noteq> p) (filter (\<lambda>q. q \<noteq> src) order)"
  by (simp add: insert_before_def Let_def takeWhile_eq_take [symmetric] dropWhile_eq_drop [symmetric])

lemma insert_before_set: "set (insert_before src p order) = insert src (set order)"
proof -
  let ?r = "filter (\<lambda>q. q \<noteq> src) order"
  have "set (takeWhile (\<lambda>q. q \<noteq> p) ?r) \<union> set (dropWhile (\<lambda>q. q \<noteq> p) ?r) = set ?r"
    by (metis set_append takeWhile_dropWhile_id)
  then show ?thesis by (auto simp: insert_before_split)
qed

lemma insert_before_distinct: "distinct order \<Longrightarrow> distinct (insert_before src p order)"
proof -
  assume d: "distinct order"
  let ?r = "filter (\<lambda>q. q \<noteq> src) order"
  have s: "set (takeWhile (\<lambda>q. q \<noteq> p) ?r) \<union> set (dropWhile (\<lambda>q. q \<noteq> p) ?r) = set ?r"
    by (metis set_append takeWhile_dropWhile_id)
  have "distinct (takeWhile (\<lambda>q. q \<noteq> p) ?r @ dropWhile (\<lambda>q. q \<noteq> p) ?r)" using d by simp
  then have "distinct (takeWhile (\<lambda>q. q \<noteq> p) ?r)" "distinct (dropWhile (\<lambda>q. q \<noteq> p) ?r)"
    "set (takeWhile (\<lambda>q. q \<noteq> p) ?r) \<inter> set (dropWhile (\<lambda>q. q \<noteq> p) ?r) = {}" unfolding distinct_append by blast+
  moreover have "src \<notin> set (takeWhile (\<lambda>q. q \<noteq> p) ?r)" "src \<notin> set (dropWhile (\<lambda>q. q \<noteq> p) ?r)" using s by auto
  ultimately show ?thesis by (simp add: insert_before_split)
qed

definition own_ids :: "app \<Rightarrow> bool" where
  "own_ids s \<longleftrightarrow> (\<forall>p q u. hget (ap_pane_anchor_ids s) p = Some u \<longrightarrow> hget (ap_pane_anchor_ids s) q = Some u \<longrightarrow> p = q)"

lemma own_idsI: "app_inv s \<Longrightarrow> own_ids s"
  by (auto simp: own_ids_def app_inv_def app_ok_def ids_ok_def drawn_def)

lemma anchor_of_anchor: "app_inv s \<Longrightarrow> p \<in> ap_anchors s \<Longrightarrow> \<exists>a. anchor_for_pane s p = Some a"
proof -
  assume i: "app_inv s" "p \<in> ap_anchors s"
  then have "p \<in> hdom (ap_pane_anchor_ids s)" by (simp add: app_inv_def app_ok_def anchors_ok_def)
  then obtain u where u: "hget (ap_pane_anchor_ids s) p = Some u" by auto
  then have "hget (ap_registry s) u \<noteq> None" using i(1) unfolding app_inv_def app_ok_def ids_ok_def by blast
  then show ?thesis using u by (auto simp: anchor_for_pane_def reg_get_def)
qed

definition rekeyed :: "pane_id \<Rightarrow> int \<Rightarrow> app \<Rightarrow> app" where
  "rekeyed p k s = (case hget (ap_pane_anchor_ids s) p of None \<Rightarrow> s
    | Some i \<Rightarrow> s\<lparr>ap_registry := fst (reg_set_sort_key i (Some k) (ap_registry s))\<rparr>)"

lemma reorder_step: "\<exists>m'. reorder_from k (p # ps) (s, m) = reorder_from (k + 1) ps (rekeyed p k s, m')"
  by (auto simp: rekeyed_def reg_set_sort_key_def reg_modify_def split: option.split)

lemma rekeyed_rest:
  "ap_pane_anchor_ids (rekeyed p k s) = ap_pane_anchor_ids s" "ap_anchors (rekeyed p k s) = ap_anchors s"
  "ap_active (rekeyed p k s) = ap_active s" "own_ids (rekeyed p k s) = own_ids s"
  by (simp_all add: rekeyed_def own_ids_def split: option.split)

lemma reorder_rest:
  "ap_pane_anchor_ids (fst (reorder_from k ps (s, m))) = ap_pane_anchor_ids s \<and>
   ap_anchors (fst (reorder_from k ps (s, m))) = ap_anchors s \<and> ap_active (fst (reorder_from k ps (s, m))) = ap_active s"
proof (induction ps arbitrary: k s m)
  case (Cons p ps)
  obtain m' where m: "reorder_from k (p # ps) (s, m) = reorder_from (k + 1) ps (rekeyed p k s, m')" using reorder_step by blast
  show ?case unfolding m using Cons.IH [of "k + 1" "rekeyed p k s" m'] by (simp add: rekeyed_rest)
qed simp

lemma rekeyed_anchor:
  assumes "own_ids s" "p \<in> hdom (ap_pane_anchor_ids s)"
  shows "anchor_for_pane (rekeyed p k s) q =
    (if q = p then map_option (\<lambda>a. a\<lparr>a_sort_key := Some k\<rparr>) (anchor_for_pane s p) else anchor_for_pane s q)"
proof -
  obtain i where i: "hget (ap_pane_anchor_ids s) p = Some i" using assms(2) by auto
  have r: "reg_get (ap_registry (rekeyed p k s)) j =
      (if j = i then map_option (\<lambda>a. a\<lparr>a_sort_key := Some k\<rparr>) (reg_get (ap_registry s) j) else reg_get (ap_registry s) j)" for j
    by (simp add: rekeyed_def i reg_get_def reg_set_sort_key_def reg_modify_get split: option.split)
  have "hget (ap_pane_anchor_ids s) q = Some j \<Longrightarrow> j = i \<longleftrightarrow> q = p" for j using assms(1) i unfolding own_ids_def by auto
  then show ?thesis
    by (cases "hget (ap_pane_anchor_ids s) q") (auto simp: anchor_for_pane_def rekeyed_rest r i)
qed

lemma reorder_from_anchor:
  assumes "own_ids s" "distinct ps" "set ps \<subseteq> hdom (ap_pane_anchor_ids s)"
  shows "anchor_for_pane (fst (reorder_from k ps (s, m))) q =
    (if q \<in> set ps then map_option (\<lambda>a. a\<lparr>a_sort_key := Some (k + int (length (takeWhile (\<lambda>x. x \<noteq> q) ps)))\<rparr>) (anchor_for_pane s q)
     else anchor_for_pane s q)"
  using assms
proof (induction ps arbitrary: k s m)
  case (Cons p ps)
  obtain m' where m: "reorder_from k (p # ps) (s, m) = reorder_from (k + 1) ps (rekeyed p k s, m')" using reorder_step by blast
  have "anchor_for_pane (fst (reorder_from (k + 1) ps (rekeyed p k s, m'))) q =
    (if q \<in> set ps then map_option (\<lambda>a. a\<lparr>a_sort_key := Some (k + 1 + int (length (takeWhile (\<lambda>x. x \<noteq> q) ps)))\<rparr>)
       (anchor_for_pane (rekeyed p k s) q) else anchor_for_pane (rekeyed p k s) q)"
    using Cons.prems by (intro Cons.IH) (simp_all add: rekeyed_rest)
  then show ?case
    unfolding m using Cons.prems rekeyed_anchor [of s p k q] by (auto simp: algebra_simps)
qed simp

lemma fst_row: "fst (sidebar_row_of s p) = Option.bind (anchor_for_pane s p) a_group"
  by (simp add: sidebar_row_of_def split: option.split)

lemma row_pane_of [simp]: "row_pane (sidebar_row_of s p) = p"
  by (simp add: sidebar_row_of_def row_pane_def split: option.split)

definition members :: "app \<Rightarrow> string option \<Rightarrow> pane_id list" where
  "members s g = filter (\<lambda>p. fst (sidebar_row_of s p) = g) (sorted_list_of_set (ap_anchors s))"

lemma group_panes_sorted:
  "group_panes (sidebar_rows s) g = map row_pane (sort_key row_key (map (sidebar_row_of s) (members s g)))"
  by (simp add: group_panes_def sidebar_rows_def filter_sort members_def filter_map comp_def)

lemma group_panes_members: "mset (group_panes (sidebar_rows s) g) = mset (members s g)"
  by (simp add: group_panes_sorted image_mset.compositionality comp_def)

lemma members_sub: "set (members s g) \<subseteq> ap_anchors s"
  by (cases "finite (ap_anchors s)") (auto simp: members_def sorted_list_of_set.fold_insort_key.infinite)

lemma members_distinct: "distinct (members s g)"
  by (simp add: members_def)

lemma group_panes_distinct: "distinct (group_panes (sidebar_rows s) g)"
  by (metis group_panes_members members_distinct mset_eq_imp_distinct_iff)

lemma group_panes_set: "set (group_panes (sidebar_rows s) g) = set (members s g)"
  by (metis group_panes_members set_mset_mset)

lemma takeWhile_index: "distinct ps \<Longrightarrow> map (\<lambda>q. length (takeWhile (\<lambda>x. x \<noteq> q) ps)) ps = [0..<length ps]"
proof (induction ps)
  case (Cons p ps)
  have "map (\<lambda>q. length (takeWhile (\<lambda>x. x \<noteq> q) (p # ps))) ps = map Suc (map (\<lambda>q. length (takeWhile (\<lambda>x. x \<noteq> q) ps)) ps)"
    using Cons.prems by (auto intro!: map_cong)
  also have "\<dots> = [Suc 0..<Suc (length ps)]" using Cons by (simp add: map_Suc_upt)
  finally show ?case by (simp add: upt_conv_Cons del: upt_Suc)
qed simp

lemma reordered_group:
  fixes m :: bool
  assumes "app_inv s" "distinct ps" "set ps = set (members s g)"
  defines "s' \<equiv> fst (reorder_from 0 ps (s, m))"
  shows "group_panes (sidebar_rows s') h = (if h = g then ps else group_panes (sidebar_rows s) h)"
proof -
  have an: "set ps \<subseteq> ap_anchors s" using assms(3) members_sub by simp
  then have "set ps \<subseteq> hdom (ap_pane_anchor_ids s)" using assms(1) by (simp add: app_inv_def app_ok_def anchors_ok_def)
  then have a: "anchor_for_pane s' q = (if q \<in> set ps
      then map_option (\<lambda>x. x\<lparr>a_sort_key := Some (int (length (takeWhile (\<lambda>x. x \<noteq> q) ps)))\<rparr>) (anchor_for_pane s q)
      else anchor_for_pane s q)" for q
    using reorder_from_anchor [OF own_idsI [OF assms(1)] assms(2), of 0 m q] by (simp add: s'_def)
  have f: "fst (sidebar_row_of s' q) = fst (sidebar_row_of s q)" for q
    by (cases "anchor_for_pane s q") (simp_all add: fst_row a)
  have an': "ap_anchors s' = ap_anchors s" by (simp add: s'_def reorder_rest)
  have m: "members s' h = members s h" for h by (simp add: members_def f an')
  show ?thesis
  proof (cases "h = g")
    case False
    then have "q \<in> set (members s h) \<Longrightarrow> q \<notin> set ps" for q using assms(3) by (auto simp: members_def)
    then have "map (sidebar_row_of s') (members s h) = map (sidebar_row_of s) (members s h)"
      by (intro map_cong) (auto simp: sidebar_row_of_def a)
    then show ?thesis using False by (simp only: group_panes_sorted m if_False)
  next
    case True
    let ?i = "\<lambda>q. length (takeWhile (\<lambda>x. x \<noteq> q) ps)"
    have key: "row_key (sidebar_row_of s' q) = (group_rank g, int (?i q), q)" if q: "q \<in> set ps" for q
    proof -
      obtain x where x: "anchor_for_pane s q = Some x" using anchor_of_anchor [OF assms(1)] an q by blast
      have "fst (sidebar_row_of s q) = g" using q assms(3) by (simp add: members_def)
      then show ?thesis using x q by (simp add: sidebar_row_of_def a row_key_def)
    qed
    have "map (\<lambda>q. row_key (sidebar_row_of s' q)) ps = map (\<lambda>q. (group_rank g, int (?i q), q)) ps"
      by (intro map_cong) (simp_all add: key)
    have ms: "mset (map (sidebar_row_of s') (members s g)) = mset (map (sidebar_row_of s') ps)"
      using assms(2,3) members_distinct by (metis mset_map set_eq_iff_mset_eq_distinct)
    have srt: "sorted (map row_key (map (sidebar_row_of s') ps))"
    proof (rule sorted_wrt_mono_rel [of _ "\<lambda>x y. fst (snd x) < fst (snd y) \<and> fst x = fst y"])
      show "sorted_wrt (\<lambda>x y. fst (snd x) < fst (snd y) \<and> fst x = fst y) (map row_key (map (sidebar_row_of s') ps))"
      proof (simp add: sorted_wrt_map, rule sorted_wrt_mono_rel [of ps "\<lambda>x y. ?i x < ?i y"])
        show "fst (snd (row_key (sidebar_row_of s' x))) < fst (snd (row_key (sidebar_row_of s' y))) \<and>
            fst (row_key (sidebar_row_of s' x)) = fst (row_key (sidebar_row_of s' y))"
          if "x \<in> set ps" "y \<in> set ps" "?i x < ?i y" for x y using that by (simp add: key)
        have "sorted_wrt (<) (map ?i ps)" by (simp add: takeWhile_index [OF assms(2)])
        then show "sorted_wrt (\<lambda>x y. ?i x < ?i y) ps" by (simp add: sorted_wrt_map)
      qed
    qed (auto simp: less_eq_prod_def)
    have inj: "inj_on row_key (set (map (sidebar_row_of s') (members s g)))"
    proof (rule inj_onI)
      fix x y assume xy: "x \<in> set (map (sidebar_row_of s') (members s g))" "y \<in> set (map (sidebar_row_of s') (members s g))"
        "row_key x = row_key y"
      then obtain p q where pq: "x = sidebar_row_of s' p" "y = sidebar_row_of s' q" "p \<in> set ps" "q \<in> set ps" using assms(3) by auto
      then show "x = y" using xy(3) key by simp
    qed
    have "sort_key row_key (map (sidebar_row_of s') (members s g)) = map (sidebar_row_of s') ps"
      by (rule sort_key_inj_key_eq [OF ms inj srt])
    then show ?thesis using True by (simp add: group_panes_sorted m comp_def)
  qed
qed

section \<open>Rows of a list\<close>

lemma row_in_items:
  "SI_Row r \<in> set (list_items w s rows last_group rs) \<Longrightarrow> \<exists>x \<in> set rs. r = build_row w s rows x"
  by (induction w s rows last_group rs rule: list_items.induct) auto

lemma row_in_list:
  assumes "SI_Row r \<in> set (refresh_list w s)"
  shows "\<exists>p. p \<in> ap_anchors s \<and> r = build_row w s (sidebar_rows s) (sidebar_row_of s p)"
proof -
  have "SI_Row r \<in> set (list_items w s (sidebar_rows s) None (sidebar_rows s))"
    using assms by (auto simp: refresh_list_def Let_def split: if_splits)
  then obtain x where x: "x \<in> set (sidebar_rows s)" "r = build_row w s (sidebar_rows s) x" using row_in_items by blast
  then obtain p where "p \<in> set (sorted_list_of_set (ap_anchors s))" "x = sidebar_row_of s p" by (auto simp: sidebar_rows_def)
  moreover have "set (sorted_list_of_set (ap_anchors s)) \<subseteq> ap_anchors s"
    by (cases "finite (ap_anchors s)") (auto simp: sorted_list_of_set.fold_insort_key.infinite)
  ultimately show ?thesis using x(2) by blast
qed

lemma build_row_fields:
  "rv_pane (build_row w s rows (sidebar_row_of s p)) = p"
  "rv_order (build_row w s rows (sidebar_row_of s p)) = group_panes rows (fst (sidebar_row_of s p))"
  by (simp_all add: build_row_def sidebar_row_of_def split: option.split)

lemma sidebar_rows_emit [simp]: "sidebar_rows (notify_anchors_changed s) = sidebar_rows s"
proof -
  have "sidebar_row_of (notify_anchors_changed s) = sidebar_row_of s"
    by (rule ext) (simp add: sidebar_row_of_def anchor_for_pane_def notify_anchors_changed_def emit_def split: option.split)
  then show ?thesis by (simp add: sidebar_rows_def notify_anchors_changed_def emit_def)
qed

text \<open>C20: A dropped row lands before the row it was dropped on: dropping a row on another of its group, in the list as
  it stands, reorders the cockpit's anchors so that the list built anew shows that group in its old order
  with the dragged pane taken out and put in right before the pane it was dropped on, and every other group
  as it was; the cockpit's invariant holds.\<close>

theorem dropped_row_lands_before:
  assumes "app_inv s" and "SI_Row r \<in> set (refresh_list w s)" and "src \<in> set (rv_order r)" and "src \<noteq> rv_pane r"
  shows "snd (drop_on_row r src s) \<and> app_inv (fst (drop_on_row r src s)) \<and>
    (\<forall>g. group_panes (sidebar_rows (fst (drop_on_row r src s))) g =
      (if rv_pane r \<in> set (group_panes (sidebar_rows s) g)
       then (let rest = filter (\<lambda>q. q \<noteq> src) (group_panes (sidebar_rows s) g)
             in takeWhile (\<lambda>q. q \<noteq> rv_pane r) rest @ src # dropWhile (\<lambda>q. q \<noteq> rv_pane r) rest)
       else group_panes (sidebar_rows s) g))"
proof -
  obtain p where p: "p \<in> ap_anchors s" "r = build_row w s (sidebar_rows s) (sidebar_row_of s p)"
    using row_in_list [OF assms(2)] by blast
  define g where "g = fst (sidebar_row_of s p)"
  have f: "rv_pane r = p" "rv_order r = group_panes (sidebar_rows s) g" by (simp_all add: p(2) build_row_fields g_def)
  have fin: "finite (ap_anchors s)"
    using assms(1) finite_hdom [of "ap_pane_anchor_ids s"] by (simp add: app_inv_def app_ok_def anchors_ok_def)
  have here: "p \<in> set (group_panes (sidebar_rows s) h) \<longleftrightarrow> h = g" for h
    using p(1) fin by (auto simp: group_panes_set members_def g_def)
  let ?ps = "insert_before src p (rv_order r)"
  have ps: "distinct ?ps" "set ?ps = set (members s g)"
    using insert_before_distinct group_panes_distinct assms(3) by (auto simp: insert_before_set f group_panes_set)
  have d: "drop_on_row r src s = (reorder_anchors_in_group ?ps s, True)"
    using assms(3,4) here [of g] by (simp add: drop_on_row_def f)
  have "group_panes (sidebar_rows (reorder_anchors_in_group ?ps s)) h = (if h = g then ?ps else group_panes (sidebar_rows s) h)" for h
    using reordered_group [OF assms(1) ps, of False h] by (auto simp: reorder_anchors_in_group_def split_def Let_def)
  then show ?thesis
    using reorder_inv [OF assms(1)] by (auto simp: d here f(1) insert_before_split f(2) Let_def)
qed

text \<open>Two workspaces of one terminal each, the first shown.\<close>

definition two_workspaces :: app where
  "two_workspaces = (app_of (\<lambda>n. n)
     [(1, \<lparr>pa_body = Terminal \<lparr>tm_spawn_cwd = None, tm_pid = None, tm_transcript = transcript_new 9\<rparr>, pa_look = fresh_look\<rparr>),
      (2, \<lparr>pa_body = Terminal \<lparr>tm_spawn_cwd = None, tm_pid = None, tm_transcript = transcript_new 9\<rparr>, pa_look = fresh_look\<rparr>)]
     (Split Horizontal (Leaf 1) (Leaf 2) 0) 1 3)
     \<lparr>ap_anchors := {1, 2}, ap_pane_anchor_ids := [(1, 0), (2, 1)], ap_pane_uuids := [(1, 2), (2, 3)],
      ap_workspace := [(1, 1), (2, 2)], ap_registry := [(0, new_manual 0 2 [] []), (1, new_manual 1 3 [] [])],
      ap_active := Some 1, ap_draws := 4\<rparr>"

lemma two_workspaces_inv: "app_inv two_workspaces"
proof -
  have l: "live two_workspaces = (\<lambda>i. i = 1 \<or> i = 2)"
    by (rule ext) (simp add: live_def two_workspaces_def app_of_def hget_def)
  have d: "drawn two_workspaces (ap_pane_uuids two_workspaces)" "drawn two_workspaces (ap_pane_anchor_ids two_workspaces)"
    by (auto simp: drawn_def two_workspaces_def app_of_def hget_def split: if_splits)
  have "panes_ok two_workspaces" by (auto simp: panes_ok_def l) (auto simp: two_workspaces_def app_of_def)
  moreover have "anchors_ok two_workspaces"
    by (auto simp: anchors_ok_def l) (auto simp: two_workspaces_def app_of_def hget_def satellite_pane_def is_satellite_def split: if_splits)
  moreover have "workspace_ok two_workspaces"
    by (auto simp: workspace_ok_def l) (auto simp: two_workspaces_def app_of_def hget_def split: if_splits)
  moreover have "tabs_ok two_workspaces" by (simp add: tabs_ok_def l) (simp add: two_workspaces_def app_of_def hget_def)
  moreover have "names_ok two_workspaces"
    by (auto simp: names_ok_def l) (auto simp: two_workspaces_def app_of_def hget_def split: if_splits)
  moreover have "ids_ok two_workspaces"
    using d by (auto simp: ids_ok_def) (auto simp: two_workspaces_def app_of_def hget_def split: if_splits)
  moreover have "surfaces_ok two_workspaces" by (simp add: surfaces_ok_def two_workspaces_def app_of_def hget_def)
  moreover have "ap_active two_workspaces = Some 1" "1 \<in> ap_anchors two_workspaces" by (simp_all add: two_workspaces_def)
  ultimately show ?thesis by (simp add: app_inv_def app_ok_def)
qed

lemma row_listed:
  assumes "finite (ap_anchors s)" "p \<in> ap_anchors s"
  shows "SI_Row (build_row w s (sidebar_rows s) (sidebar_row_of s p)) \<in> set (refresh_list w s)"
proof -
  have i: "x \<in> set rs \<Longrightarrow> SI_Row (build_row w s rows x) \<in> set (list_items w s rows g rs)" for x rs rows g
    by (induction w s rows g rs rule: list_items.induct) auto
  have "sidebar_row_of s p \<in> set (sidebar_rows s)" using assms by (simp add: sidebar_rows_def)
  then show ?thesis using i by (auto simp: refresh_list_def Let_def)
qed

lemma two_rows: "group_panes (sidebar_rows two_workspaces) None = [1, 2]"
  by (simp add: group_panes_def sidebar_rows_def two_workspaces_def app_of_def sidebar_row_of_def anchor_for_pane_def hget_def
      reg_get_def new_manual_def row_key_def group_rank_def display_label_def less_eq_prod_def row_pane_def)

theorem dropped_row_lands_before_witness:
  "\<forall>w. group_panes (sidebar_rows (fst (drop_on_row
      (build_row w two_workspaces (sidebar_rows two_workspaces) (sidebar_row_of two_workspaces 1)) 2 two_workspaces))) None = [2, 1]"
proof
  fix w
  let ?r = "build_row w two_workspaces (sidebar_rows two_workspaces) (sidebar_row_of two_workspaces 1)"
  have g: "fst (sidebar_row_of two_workspaces 1) = None"
    by (simp add: sidebar_row_of_def two_workspaces_def app_of_def anchor_for_pane_def hget_def reg_get_def new_manual_def)
  have f: "rv_pane ?r = 1" "rv_order ?r = [1, 2]" by (simp_all add: build_row_fields g two_rows del: One_nat_def)
  have l: "SI_Row ?r \<in> set (refresh_list w two_workspaces)" by (rule row_listed) (simp_all add: two_workspaces_def)
  show "group_panes (sidebar_rows (fst (drop_on_row ?r 2 two_workspaces))) None = [2, 1]"
    using dropped_row_lands_before [OF two_workspaces_inv l, of 2] by (simp add: f two_rows del: One_nat_def)
qed

text \<open>A row dropped on the one below it stays where it is, and no drop puts another row at a group's end.\<close>

lemma drop_on_next_changes_nothing:
  "distinct (xs @ src # p # ys) \<Longrightarrow> insert_before src p (xs @ src # p # ys) = xs @ src # p # ys"
proof -
  assume d: "distinct (xs @ src # p # ys)"
  then have x: "filter (\<lambda>q. q \<noteq> src) xs = xs" "filter (\<lambda>q. q \<noteq> src) ys = ys" by (auto simp: filter_id_conv)
  have "takeWhile (\<lambda>q. q \<noteq> p) (xs @ p # ys) = xs" "dropWhile (\<lambda>q. q \<noteq> p) (xs @ p # ys) = p # ys"
    using d by (auto simp: takeWhile_append dropWhile_append)
  then show ?thesis using d x by (simp add: insert_before_split)
qed

lemma no_drop_moves_last:
  assumes "p \<in> set order" "p \<noteq> src" "last order \<noteq> src"
  shows "last (insert_before src p order) = last order"
proof -
  let ?r = "filter (\<lambda>q. q \<noteq> src) order"
  have n: "dropWhile (\<lambda>q. q \<noteq> p) ?r \<noteq> []" using assms by (auto simp: dropWhile_eq_Nil_conv)
  have "last ?r = last order"
  proof -
    obtain xs x where "order = xs @ [x]" using assms(1) by (cases order rule: rev_cases) auto
    then show ?thesis using assms(3) by simp
  qed
  moreover have "last (dropWhile (\<lambda>q. q \<noteq> p) ?r) = last ?r" by (rule dropWhile_last) (use assms in auto)
  ultimately show ?thesis using n by (auto simp: insert_before_split)
qed

section \<open>The lit row\<close>

definition lit :: "sidebar_item list \<Rightarrow> pane_id option \<Rightarrow> bool" where
  "lit items a \<longleftrightarrow> list_all (\<lambda>i. case i of SI_Row r \<Rightarrow> rv_active r = (a = Some (rv_pane r)) \<and> rv_dot r = (a = Some (rv_pane r)) | _ \<Rightarrow> True) items"

lemma lit_items: "lit (list_items w s rows g rs) (ap_active s)"
  by (induction w s rows g rs rule: list_items.induct) (auto simp: lit_def build_row_def split: prod.split)

lemma lit_refresh: "lit (refresh_list w s) (ap_active s)"
  using lit_items by (simp add: refresh_list_def Let_def) (simp add: lit_def)

lemma lit_update: "lit (update_active_rows a items) a"
proof (induction items)
  case (Cons i items)
  then show ?case by (cases i) (auto simp: lit_def update_active_rows_def)
qed (simp add: lit_def update_active_rows_def)

lemma log_set_active:
  "ap_active s \<noteq> Some p \<Longrightarrow> p \<in> ap_anchors s \<Longrightarrow>
    \<exists>es. ap_log (set_active_anchor (Some p) s) = ap_log s @ es @ [E_ActiveAnchorChanged (Some p)]"
  by (auto simp: set_active_anchor_def Let_def notify_active_anchor_changed_def emit_def broadcast_satellite_visibility_def
      refresh_focus_css_def grab_focus_def mount_workspace_def show_anchor_def switch_workspace_view_def rebuild_widget_tree_def
      split: option.split view.split prod.split)

text \<open>The row that was clicked is the one that is lit: once the listeners of a click on a row have run, the
  cockpit's active workspace is that row's, and of all rows of the list this one alone has the mark and the
  dot of the active workspace.\<close>

theorem clicked_row_is_lit:
  assumes "SI_Row r \<in> set (refresh_list w s)"
  shows "ap_active (click_row r s) = Some (rv_pane r) \<and>
    lit (fold (sidebar_hears w (click_row r s)) (drop (length (ap_log s)) (ap_log (click_row r s))) (refresh_list w s))
      (Some (rv_pane r))"
proof -
  obtain p where p: "p \<in> ap_anchors s" "r = build_row w s (sidebar_rows s) (sidebar_row_of s p)"
    using row_in_list [OF assms] by blast
  then have r: "rv_pane r = p" by (simp add: build_row_fields)
  show ?thesis
  proof (cases "ap_active s = Some p")
    case True
    then have "click_row r s = s" using p(1) by (simp add: click_row_def set_active_anchor_def r)
    then show ?thesis using lit_refresh [of w s] True by (simp add: r)
  next
    case False
    obtain es where "ap_log (set_active_anchor (Some p) s) = ap_log s @ es @ [E_ActiveAnchorChanged (Some p)]"
      using log_set_active [OF False p(1)] by blast
    then show ?thesis using active_set_active [of "Some p" s] p(1) lit_update by (simp add: click_row_def r)
  qed
qed

theorem clicked_row_is_lit_witness:
  "\<forall>w. ap_active (click_row (build_row w two_workspaces (sidebar_rows two_workspaces) (sidebar_row_of two_workspaces 2))
    two_workspaces) = Some 2"
proof
  fix w
  let ?r = "build_row w two_workspaces (sidebar_rows two_workspaces) (sidebar_row_of two_workspaces 2)"
  have l: "SI_Row ?r \<in> set (refresh_list w two_workspaces)" by (rule row_listed) (simp_all add: two_workspaces_def)
  show "ap_active (click_row ?r two_workspaces) = Some 2"
    using clicked_row_is_lit [OF l] by (simp add: build_row_fields)
qed

text \<open>A preview is drawn of the workspace on the screen only: the others' rows stay blank.\<close>

lemma only_active_row_has_preview:
  "app_inv s \<Longrightarrow> p \<in> ap_anchors s \<Longrightarrow> preview_of thumbnail s p = Some im \<Longrightarrow> ap_active s = None \<or> ap_active s = Some p"
  by (auto simp: preview_of_def pane_in_active_workspace_def app_inv_def app_ok_def workspace_ok_def split: option.splits if_splits)

text \<open>The popover's Apply sets both fields, and a blank field clears.\<close>

lemma popover_sets_fields:
  assumes "app_inv s" "po_pane po \<in> ap_anchors s"
  shows "\<exists>a. anchor_for_pane (snd (popover_apply po s)) (po_pane po) = Some a \<and>
    a_name a = trim_to_option (po_name po) \<and> a_group a = trim_to_option (po_group po)"
proof -
  obtain a where a: "anchor_for_pane s (po_pane po) = Some a" using anchor_of_anchor [OF assms] by blast
  then obtain i where i: "hget (ap_pane_anchor_ids s) (po_pane po) = Some i" "hget (ap_registry s) i = Some a"
    by (auto simp: anchor_for_pane_def reg_get_def split: option.splits)
  have t: "some_trimmed (trim_to_option x) = trim_to_option x" for x by (simp add: some_trimmed_def trim_to_option_def)
  show ?thesis
    by (simp add: popover_apply_def regroup_anchor_for_pane_def rename_anchor_for_pane_def edit_anchor_def i reg_rename_def reg_modify_def
        reg_set_group_def notify_anchors_changed_def emit_def anchor_for_pane_def reg_get_def t)
qed

section \<open>The rail\<close>

lemma rail_hovers_while_collapsed: "ra_hover (fold rail_step es (rail_new cfg)) \<longrightarrow> ra_collapsed (fold rail_step es (rail_new cfg))"
proof -
  have "(ra_hover r \<longrightarrow> ra_collapsed r) \<Longrightarrow> ra_hover (fold rail_step es r) \<longrightarrow> ra_collapsed (fold rail_step es r)" for r
  proof (induction es arbitrary: r)
    case (Cons e es)
    then show ?case by (cases e) auto
  qed simp
  then show ?thesis by (simp add: rail_new_def)
qed

text \<open>A rail on the right has no place of its own before the window has a width.\<close>

lemma right_rail_unplaced_at_start: "sb_position cfg = Side_Right \<Longrightarrow> sb_width cfg < 2 ^ 31 \<Longrightarrow> sb_collapsed_width cfg < 2 ^ 31 \<Longrightarrow>
    rw_divider (apply_collapsed cfg 0 (rail_new cfg)) = None"
  by (auto simp: apply_collapsed_def Let_def as_i32_def max_def)

section \<open>Picked windows\<close>

lemma find_map_only:
  assumes "hget m a = Some v" "f (a, v) = Some y" "\<And>b x. hget m b = Some x \<Longrightarrow> b \<noteq> a \<Longrightarrow> f (b, x) = None"
  shows "find_map f (hitems m) = Some y"
proof -
  have "(a, v) \<in> set (hitems m)" using assms(1) by simp
  then have "find_map f (hitems m) \<noteq> None" using assms(2) by (auto simp: find_map_None simp del: in_hitems)
  then obtain z where z: "find_map f (hitems m) = Some z" by blast
  then obtain b x where b: "hget m b = Some x" "f (b, x) = Some z" using find_map_Some by fastforce
  then have "b = a" using assms(3) by fastforce
  then show ?thesis using z b assms(1,2) by simp
qed

lemma registered_window_is_found:
  assumes "a \<in> ap_anchors s"
  shows "\<exists>l. attached_anchor_for_backend_window (register_satellite_window a v s) (sw_window_id v) = Some (a, l)"
proof -
  let ?m = "insert_satellite_window_for_anchor a v (ap_satellites s)"
  have m: "ap_satellites (register_satellite_window a v s) = ?m"
    using assms by (simp add: register_satellite_window_def broadcast_satellite_visibility_def emit_def Let_def split: prod.split)
  obtain ws where ws: "hget ?m a = Some (ws @ [v])" by (simp add: insert_satellite_get Let_def)
  have other: "list_ex (\<lambda>u. sw_window_id u = sw_window_id v) x \<longleftrightarrow> False" if h: "hget ?m b = Some x" "b \<noteq> a" for b x
  proof -
    obtain P ys where "x = filter (\<lambda>u. sw_window_id u \<noteq> sw_window_id v \<and> P u) ys"
      using h unfolding insert_satellite_get Let_def by auto
    then show ?thesis by (simp add: list_ex_iff)
  qed
  define g where "g = (\<lambda>b. case anchor_for_pane (register_satellite_window a v s) b of Some x \<Rightarrow> display_label x | None \<Rightarrow> ''pane '' @ show_nat b)"
  have e: "attached_anchor_for_backend_window (register_satellite_window a v s) (sw_window_id v) =
      find_map (\<lambda>(b, ws). if list_ex (\<lambda>u. sw_window_id u = sw_window_id v) ws then Some (b, g b) else None) (hitems ?m)"
    unfolding attached_anchor_for_backend_window_def m g_def ..
  have "find_map (\<lambda>(b, ws). if list_ex (\<lambda>u. sw_window_id u = sw_window_id v) ws then Some (b, g b) else None) (hitems ?m) = Some (a, g a)"
    by (rule find_map_only [OF ws]) (simp_all add: other)
  then show ?thesis unfolding e by blast
qed

text \<open>A picked window becomes the active workspace's: when a row of the picker is activated, either the picker
  stays open and the cockpit is as it was, or it closes, and the window of that very row is listed from then
  on as attached to the active workspace, before all windows that are not. Assumed is that the backend
  attaches a window under the id it was listed with.\<close>

theorem picked_window_is_here:
  assumes "app_inv s" and "pi_open pp" and "\<forall>c v. attach c = W_Answer (Inr v) \<longrightarrow> sw_window_id v = wc_window_id c"
  shows "(pi_open (fst (picker_activated attach i pp s)) \<and> snd (picker_activated attach i pp s) = s) \<or>
    (\<not> pi_open (fst (picker_activated attach i pp s)) \<and>
     (\<exists>it. picker_chosen pp i = Some it \<and> pk_here (picker_item_of (snd (picker_activated attach i pp s)) (pk_window it))))"
proof (cases "picker_chosen pp i")
  case None
  then show ?thesis using assms(2) by (simp add: picker_activated_def)
next
  case (Some it)
  show ?thesis
  proof (cases "from_worker ''window attach'' (attach (pk_window it))")
    case (Inl e)
    then show ?thesis using Some assms(2) by (simp add: picker_activated_def)
  next
    case (Inr v)
    then have "attach (pk_window it) = W_Answer (Inr v)" by (cases "attach (pk_window it)") auto
    then have v: "sw_window_id v = wc_window_id (pk_window it)" using assms(3) by blast
    show ?thesis
    proof (cases "ap_active s = None \<or> trim (wc_window_id (pk_window it)) = []")
      case True
      then show ?thesis using Some Inr assms(2)
        by (auto simp: picker_activated_def attach_native_window_to_active_anchor_def split: option.split)
    next
      case False
      then obtain a where a: "ap_active s = Some a" by (cases "ap_active s") auto
      then have "a \<in> ap_anchors s" using assms(1) by (simp add: app_inv_def)
      then obtain l where l: "attached_anchor_for_backend_window (register_satellite_window a v s) (sw_window_id v) = Some (a, l)"
        using registered_window_is_found by blast
      have act: "ap_active (register_satellite_window a v s) = Some a"
        by (simp add: register_satellite_window_def broadcast_satellite_visibility_def emit_def Let_def a split: prod.split)
      have "picker_activated attach i pp s = (pp\<lparr>pi_status := PS_Quiet, pi_open := False\<rparr>, register_satellite_window a v s)"
        using Some Inr False a by (simp add: picker_activated_def attach_native_window_to_active_anchor_def)
      then show ?thesis using Some l act v by (simp add: picker_item_of_def)
    qed
  qed
qed

theorem picked_window_is_here_witness:
  "let c = \<lparr>wc_backend = Kwin, wc_window_id = ''kwin:a'', wc_pid = None, wc_app = None, wc_title = None, wc_workspace = None, wc_output = None\<rparr>;
       pp = \<lparr>pi_open = True, pi_list = PL_Items [picker_item_of two_workspaces c], pi_status = PS_Quiet\<rparr>
   in pk_here (picker_item_of (snd (picker_activated (\<lambda>c. W_Answer (Inr (for_attached c))) 0 pp two_workspaces)) c)"
proof -
  define c where "c = \<lparr>wc_backend = Kwin, wc_window_id = ''kwin:a'', wc_pid = None, wc_app = None, wc_title = None, wc_workspace = None, wc_output = None\<rparr>"
  define pp where "pp = \<lparr>pi_open = True, pi_list = PL_Items [picker_item_of two_workspaces c], pi_status = PS_Quiet\<rparr>"
  have o: "pi_open pp" by (simp add: pp_def)
  have ch: "picker_chosen pp 0 = Some (picker_item_of two_workspaces c)" by (simp add: picker_chosen_def pp_def)
  have w: "pk_window (picker_item_of two_workspaces c) = c" by (simp add: picker_item_of_def Let_def)
  have act: "ap_active two_workspaces = Some 1" by (simp add: two_workspaces_def)
  have tr: "trim (wc_window_id c) \<noteq> []" by (simp add: c_def trim_def is_space_def)
  have "\<not> pi_open (fst (picker_activated (\<lambda>c. W_Answer (Inr (for_attached c))) 0 pp two_workspaces))"
    using act tr by (simp add: picker_activated_def ch w attach_native_window_to_active_anchor_def)
  then show ?thesis
    using picked_window_is_here [OF two_workspaces_inv o, of "\<lambda>c. W_Answer (Inr (for_attached c))" 0] ch w
    by (simp add: for_attached_def) (simp add: c_def pp_def)
qed

section \<open>Settings\<close>

lemma combo_selects_current: "build_font_combo font_map current = (families, i) \<Longrightarrow> families ! i = current"
proof -
  have "x \<in> set xs \<Longrightarrow> xs ! length (takeWhile (\<lambda>f. f \<noteq> x) xs) = x" for x :: string and xs by (induction xs) auto
  then show "build_font_combo font_map current = (families, i) \<Longrightarrow> families ! i = current"
    by (auto simp: build_font_combo_def Let_def split: if_splits)
qed

text \<open>C21: Settings are read back as they were applied: when the dialog accepts what was entered and the file can be
  written and read, the dialog closes, the file then loads as the configuration that was applied, with a font
  size between 6 and 48, a prefix that is valid or was left alone, and everything the dialog does not show
  as it was; and the dialog, opened again, shows the same font, size and prefix. Assumed is that the
  configuration's text reads back as itself.\<close>

theorem settings_are_read_back:
  assumes "config_path xdg home = Some (st_path sd)" and "settings_of (st_cfg sd) sg = Some cfg"
    and "tl_to_string tm cfg = Inr t" and "tl_from_str tm t = Inr cfg"
  shows "\<exists>d' pfx' c. settings_applied no_faults part tm sg s sd pfx d = (c, pfx', Some (apply_config cfg s), d') \<and> \<not> st_open c \<and>
    load_settings_config no_faults tm xdg home d' = Inr (cfg, st_path sd) \<and>
    load_sidebar_config no_faults tm xdg home d' = cf_sidebar (st_cfg sd) \<and>
    6 \<le> ge_font_size (cf_general cfg) \<and> ge_font_size (cf_general cfg) \<le> 48 \<and>
    (km_prefix (cf_keymap cfg) = km_prefix (cf_keymap (st_cfg sd)) \<or>
     km_prefix (cf_keymap cfg) = pfx' \<and> is_valid_prefix_binding pfx') \<and>
    cf_sidebar cfg = cf_sidebar (st_cfg sd) \<and> cf_autodetect cfg = cf_autodetect (st_cfg sd) \<and>
    ge_compositor_script (cf_general cfg) = ge_compositor_script (cf_general (st_cfg sd)) \<and>
    ge_focus_mode (cf_general cfg) = ge_focus_mode (cf_general (st_cfg sd)) \<and>
    controls_for font_map cfg = \<lparr>sg_font = Some (ge_font_family (cf_general cfg)),
      sg_size = int (ge_font_size (cf_general cfg)), sg_prefix = km_prefix (cf_keymap cfg)\<rparr>"
proof -
  let ?d = "hput (st_path sd) t d"
  let ?p = "if trim (sg_prefix sg) = [] then pfx else trim (sg_prefix sg)"
  have cfg: "6 \<le> ge_font_size (cf_general cfg)" "ge_font_size (cf_general cfg) \<le> 48" "cf_sidebar cfg = cf_sidebar (st_cfg sd)"
    "cf_autodetect cfg = cf_autodetect (st_cfg sd)" "ge_compositor_script (cf_general cfg) = ge_compositor_script (cf_general (st_cfg sd))"
    "ge_focus_mode (cf_general cfg) = ge_focus_mode (cf_general (st_cfg sd))"
    "km_prefix (cf_keymap cfg) = km_prefix (cf_keymap (st_cfg sd)) \<or> km_prefix (cf_keymap cfg) = ?p \<and> is_valid_prefix_binding ?p"
    using assms(2) by (auto simp: settings_of_def Let_def split: if_splits option.splits)
  have r: "load_settings_config no_faults tm xdg home ?d = Inr (cfg, st_path sd)"
    "load_sidebar_config no_faults tm xdg home ?d = cf_sidebar (st_cfg sd)"
    using cfg(3) assms(4)
    by (simp_all add: load_settings_config_def load_sidebar_config_def assms(1) config_load_def fs_read_def no_faults_def)
  have a: "settings_applied no_faults part tm sg s sd pfx d =
      (sd\<lparr>st_open := False, st_error := (st_error sd \<and> trim (sg_prefix sg) = [])\<rparr>, ?p, Some (apply_config cfg s), ?d)"
    using assms(2,3) by (simp add: settings_applied_def config_save_def no_faults_def)
  have sh: "controls_for font_map cfg = \<lparr>sg_font = Some (ge_font_family (cf_general cfg)),
      sg_size = int (ge_font_size (cf_general cfg)), sg_prefix = km_prefix (cf_keymap cfg)\<rparr>"
    using cfg(1,2) combo_selects_current [of font_map "ge_font_family (cf_general cfg)"]
    by (cases "build_font_combo font_map (ge_font_family (cf_general cfg))") (simp add: controls_for_def)
  show ?thesis unfolding a using r cfg sh by auto
qed

theorem settings_are_read_back_witness:
  "\<forall>s. \<exists>d'. snd (snd (snd (settings_applied no_faults 0 \<lparr>tl_from_str = (\<lambda>_. Inr config_default), tl_to_string = (\<lambda>_. Inr ''t'')\<rparr>
      \<lparr>sg_font = None, sg_size = 11, sg_prefix = []\<rparr> s
      \<lparr>st_cfg = config_default, st_path = ''h/.config/lmux/config.toml'', st_open = True, st_error = False\<rparr> ''ctrl+b'' []))) = d' \<and>
    load_settings_config no_faults \<lparr>tl_from_str = (\<lambda>_. Inr config_default), tl_to_string = (\<lambda>_. Inr ''t'')\<rparr> None (Some ''h'') d' =
      Inr (config_default, ''h/.config/lmux/config.toml'')"
proof
  fix s
  let ?tm = "\<lparr>tl_from_str = (\<lambda>_. Inr config_default), tl_to_string = (\<lambda>_. Inr ''t'')\<rparr>"
  let ?sd = "\<lparr>st_cfg = config_default, st_path = ''h/.config/lmux/config.toml'', st_open = True, st_error = False\<rparr>"
  let ?sg = "\<lparr>sg_font = None, sg_size = 11, sg_prefix = []\<rparr>"
  have c: "settings_of (st_cfg ?sd) ?sg = Some config_default"
    by (simp add: settings_of_def selected_font_family_def config_default_def general_default_def default_font_size_def trim_def)
  have p: "config_path None (Some ''h'') = Some (st_path ?sd)" by (simp add: config_path_def)
  have t: "tl_to_string ?tm config_default = Inr ''t''" "tl_from_str ?tm ''t'' = Inr config_default" by simp_all
  show "\<exists>d'. snd (snd (snd (settings_applied no_faults 0 ?tm ?sg s ?sd ''ctrl+b'' []))) = d' \<and>
    load_settings_config no_faults ?tm None (Some ''h'') d' = Inr (config_default, ''h/.config/lmux/config.toml'')"
    using settings_are_read_back [OF p c t, of 0 s "''ctrl+b''" "[]" None] by auto
qed

end
