(* ===== verification/LauncherMac.thy ===== *)
theory LauncherMac
  imports LauncherRuns
begin

text \<open>
  The launcher's scan of application bundles on macOS, \<open>crates/lmux/src/launcher/macos.rs\<close>: the bundles in
  the application directories and one level below, their names and the command that starts each. The
  file system and \<open>plutil\<close> are arguments.
\<close>

section \<open>Bundles\<close>

record mac_files =
  mf_entries :: "string \<Rightarrow> string list option"
  mf_is_dir :: "string \<Rightarrow> bool"
  mf_is_file :: "string \<Rightarrow> bool"
  mf_plutil :: "string \<Rightarrow> string \<Rightarrow> string option"

definition plist_raw_value :: "mac_files \<Rightarrow> string \<Rightarrow> string \<Rightarrow> string option" where
  "plist_raw_value fs path key =
    (case mf_plutil fs (path @ ''/Contents/Info.plist'') key of
       None \<Rightarrow> None
     | Some out \<Rightarrow> if trim out \<noteq> [] then Some (trim out) else None)"

definition app_bundle_id :: "mac_files \<Rightarrow> string \<Rightarrow> string option" where
  "app_bundle_id fs path = plist_raw_value fs path ''CFBundleIdentifier''"

text \<open>The program's own name in the bundle, with its path.\<close>

definition app_executable :: "mac_files \<Rightarrow> string \<Rightarrow> (string \<times> string) option" where
  "app_executable fs path =
    (case plist_raw_value fs path ''CFBundleExecutable'' of
       None \<Rightarrow> None
     | Some exe \<Rightarrow>
         let candidate = path @ ''/Contents/MacOS/'' @ exe
         in if mf_is_file fs candidate then Some (exe, candidate) else None)"

definition direct_bundles :: "string list" where
  "direct_bundles = [''com.microsoft.VSCode'', ''com.microsoft.VSCodeInsiders'', ''com.visualstudio.code.oss'',
     ''com.vscodium'', ''com.google.Chrome'', ''com.google.Chrome.beta'', ''com.google.Chrome.canary'', ''com.brave.Browser'',
     ''com.microsoft.edgemac'', ''com.vivaldi.Vivaldi'', ''com.operasoftware.Opera'']"

definition direct_programs :: "string list" where
  "direct_programs = [''Code'', ''Code - Insiders'', ''VSCodium'', ''Google Chrome'', ''Brave Browser'', ''Microsoft Edge'',
     ''Vivaldi'', ''Opera'', ''idea'', ''pycharm'', ''webstorm'', ''goland'', ''clion'', ''datagrip'']"

definition prefers_direct_executable :: "string option \<Rightarrow> string \<Rightarrow> bool" where
  "prefers_direct_executable bundle base =
    (let b = (case bundle of Some x \<Rightarrow> x | None \<Rightarrow> [])
     in take 14 b = ''com.jetbrains.'' \<or> b \<in> set direct_bundles \<or> base \<in> set direct_programs)"

definition path_escape :: "char \<Rightarrow> string" where
  "path_escape c = (if c \<in> set [CHR 0x5C, CHR 0x22] then [CHR 0x5C, c] else [c])"

definition shell_quote_path :: "string \<Rightarrow> string" where
  "shell_quote_path p = CHR 0x22 # concat (map path_escape p) @ [CHR 0x22]"

definition launch_command_for_app :: "mac_files \<Rightarrow> string \<Rightarrow> string" where
  "launch_command_for_app fs path =
    (case app_executable fs path of
       Some (exe, candidate) \<Rightarrow>
         if prefers_direct_executable (app_bundle_id fs path) exe then shell_quote_path candidate
         else ''open -n '' @ shell_quote_path path
     | None \<Rightarrow> ''open -n '' @ shell_quote_path path)"

section \<open>The scan\<close>

definition is_app_bundle :: "mac_files \<Rightarrow> string \<Rightarrow> string \<Rightarrow> bool" where
  "is_app_bundle fs path name =
    (mf_is_dir fs path \<and> 4 < length name \<and> drop (length name - 4) name = ''.app'')"

definition app_name :: "string \<Rightarrow> string" where
  "app_name name = (if drop (length name - 4) name = ''.app'' then take (length name - 4) name else name)"

text \<open>What one entry of a directory adds; \<open>deeper\<close> scans a directory that is no bundle.\<close>

definition scan_app ::
  "mac_files \<Rightarrow> (string \<Rightarrow> (string, launch_entry) hmap \<Rightarrow> (string, launch_entry) hmap) \<Rightarrow> string \<Rightarrow> string \<Rightarrow>
    (string, launch_entry) hmap \<Rightarrow> (string, launch_entry) hmap" where
  "scan_app fs deeper dir name seen =
    (let path = dir @ ''/'' @ name
     in if is_app_bundle fs path name
        then (if hhas seen (app_name name) then seen
              else hput (app_name name) \<lparr>le_name = app_name name, le_exec = launch_command_for_app fs path,
                le_comment = Some path, le_bundle_id = app_bundle_id fs path\<rparr> seen)
        else if mf_is_dir fs path then deeper path seen else seen)"

definition scan_app_names ::
  "mac_files \<Rightarrow> (string \<Rightarrow> (string, launch_entry) hmap \<Rightarrow> (string, launch_entry) hmap) \<Rightarrow> string \<Rightarrow>
    (string, launch_entry) hmap \<Rightarrow> (string, launch_entry) hmap" where
  "scan_app_names fs deeper dir seen =
    (case mf_entries fs dir of None \<Rightarrow> seen | Some names \<Rightarrow> fold (scan_app fs deeper dir) names seen)"

text \<open>The directory itself and so many levels below it; the scan takes one.\<close>

primrec scan_app_dir :: "mac_files \<Rightarrow> nat \<Rightarrow> string \<Rightarrow> (string, launch_entry) hmap \<Rightarrow> (string, launch_entry) hmap" where
  "scan_app_dir fs 0 = scan_app_names fs (\<lambda>_ seen. seen)"
| "scan_app_dir fs (Suc n) = scan_app_names fs (scan_app_dir fs n)"

definition scan_apps_in :: "mac_files \<Rightarrow> string list \<Rightarrow> launch_entry list" where
  "scan_apps_in fs dirs = hvals (fold (scan_app_dir fs 1) dirs [])"

definition mac_application_dirs :: "string option \<Rightarrow> string list" where
  "mac_application_dirs home =
    (case home of Some h \<Rightarrow> [h @ ''/Applications''] | None \<Rightarrow> []) @ [''/Applications'', ''/System/Applications'']"

text \<open>What the launcher is given on macOS: nothing, whatever is installed.\<close>

definition mac_scan_launch_entries :: "launch_entry list" where
  "mac_scan_launch_entries = []"

section \<open>Commands and names\<close>

lemma exec_loop_path: "exec_loop (concat (map path_escape w) @ rest) out buf True = exec_loop rest out (buf @ w) True"
  by (induction w arbitrary: buf) (auto simp: path_escape_def)

lemma exec_loop_quoted_path: "exec_loop (shell_quote_path w @ rest) out [] False = exec_loop rest out w False"
  using exec_loop_path [of w "CHR 0x22 # rest" out "[]"] by (simp add: shell_quote_path_def)

lemma quote_path_ends: "shell_quote_path w \<noteq> []" "hd (shell_quote_path w) = CHR 0x22" "last (shell_quote_path w) = CHR 0x22"
  by (simp_all add: shell_quote_path_def)

lemma trim_kept: "s \<noteq> [] \<Longrightarrow> \<not> is_space (hd s) \<Longrightarrow> \<not> is_space (last s) \<Longrightarrow> trim s = s"
  by (simp add: trim_def dropWhile_no_prefix hd_rev)

lemma not_space: "\<not> is_space (CHR 0x22)" "\<not> is_space (CHR ''o'')" "\<not> is_space (CHR ''p'')" "\<not> is_space (CHR ''e'')"
    "\<not> is_space (CHR ''n'')" "\<not> is_space (CHR ''-'')" "is_space (CHR '' '')"
  by (simp_all add: is_space_def)

text \<open>Whatever an application's path is, blanks, quotes and backslashes included, the command that the scan makes for it
  is read back by the launcher as one program with that path: the bundle opened anew, or its program.\<close>

theorem app_command_reads_back:
  assumes "path \<noteq> []"
  shows "parse_exec (launch_command_for_app fs path) =
    Some (case app_executable fs path of
        Some (exe, candidate) \<Rightarrow> if prefers_direct_executable (app_bundle_id fs path) exe then [candidate] else [''open'', ''-n'', path]
      | None \<Rightarrow> [''open'', ''-n'', path])"
proof -
  have "parse_exec (''open -n '' @ shell_quote_path path) = Some [''open'', ''-n'', path]"
    using exec_loop_quoted_path [of path "[]" "[''open'', ''-n'']"] assms
    by (simp add: parse_exec_def trim_kept quote_path_ends not_space Let_def)
  moreover have "parse_exec (shell_quote_path p) = Some [p]" if "p \<noteq> []" for p
    using exec_loop_quoted_path [of p "[]" "[]"] that
    by (simp add: parse_exec_def trim_kept quote_path_ends not_space)
  moreover have "c \<noteq> []" if "app_executable fs path = Some (x, c)" for x c
    using that assms by (auto simp: app_executable_def Let_def split: option.splits if_splits)
  ultimately show ?thesis by (auto simp: launch_command_for_app_def split: option.split)
qed

theorem app_command_reads_back_witness:
  "parse_exec (launch_command_for_app \<lparr>mf_entries = (\<lambda>_. None), mf_is_dir = (\<lambda>_. True), mf_is_file = (\<lambda>_. False),
      mf_plutil = (\<lambda>_ _. None)\<rparr> ''/A B.app'') = Some [''open'', ''-n'', ''/A B.app'']"
  using app_command_reads_back [of "''/A B.app''" "\<lparr>mf_entries = (\<lambda>_. None), mf_is_dir = (\<lambda>_. True), mf_is_file = (\<lambda>_. False),
      mf_plutil = (\<lambda>_ _. None)\<rparr>"]
  by (simp add: app_executable_def plist_raw_value_def)

definition named :: "(string, launch_entry) hmap \<Rightarrow> bool" where
  "named seen \<longleftrightarrow> (\<forall>n e. hget seen n = Some e \<longrightarrow> le_name e = n)"

lemma named_fold: "(\<And>x seen. x \<in> set xs \<Longrightarrow> named seen \<Longrightarrow> named (f x seen)) \<Longrightarrow> named seen \<Longrightarrow> named (fold f xs seen)"
  by (induction xs arbitrary: seen) simp_all

lemma named_put: "le_name e = k \<Longrightarrow> named seen \<Longrightarrow> named (hput k e seen)"
  by (simp add: named_def hget_hput)

lemma named_names:
  "(\<And>path seen. named seen \<Longrightarrow> named (deeper path seen)) \<Longrightarrow> named seen \<Longrightarrow> named (scan_app_names fs deeper dir seen)"
proof -
  assume d: "\<And>path seen. named seen \<Longrightarrow> named (deeper path seen)" "named seen"
  have "named (scan_app fs deeper dir x sn)" if "named sn" for x sn
    using that d(1) by (simp add: scan_app_def Let_def named_put)
  then show ?thesis using d(2) by (cases "mf_entries fs dir") (simp_all add: scan_app_names_def named_fold)
qed

lemma named_scan: "named seen \<Longrightarrow> named (scan_app_dir fs n dir seen)"
  by (induction n arbitrary: dir seen) (simp_all add: named_names)

text \<open>Each name is listed once, however many directories hold a bundle of that name.\<close>

lemma each_app_once: "distinct (map le_name (scan_apps_in fs dirs))"
proof -
  define m where "m = fold (scan_app_dir fs 1) dirs []"
  have n: "named m" unfolding m_def by (rule named_fold, rule named_scan) (simp_all add: named_def)
  have "map (\<lambda>x. le_name (snd x)) (hitems m) = map fst (hitems m)"
  proof (rule map_cong [OF refl])
    fix x assume x: "x \<in> set (hitems m)"
    obtain k e where ke: "x = (k, e)" by fastforce
    then have "hget m k = Some e" using x by simp
    then show "le_name (snd x) = fst x" using n ke by (simp add: named_def)
  qed
  then have "map le_name (scan_apps_in fs dirs) = hkeys m" unfolding scan_apps_in_def m_def [symmetric] by (simp add: hvals_def comp_def)
  then show ?thesis by (simp add: hkeys_def)
qed

end
