(* ===== verification/Notify.thy ===== *)
theory Notify
  imports AppWindow
begin

text \<open>
  The notification thread of \<open>crates/lmux-notify/src/lib.rs\<close>: how it starts, the requests it sends to the
  desktop's service, and the clicks it reports. The service, the session bus and the runtime are arguments.
\<close>

section \<open>The thread\<close>

datatype notify_error = NT_Zbus string | NT_Dropped

text \<open>What starting it met: the thread, its runtime, the bus, the proxy, and the subscription to clicks.\<close>

record notify_start =
  ns_thread :: bool
  ns_runtime :: bool
  ns_bus :: bool
  ns_proxy :: bool
  ns_signals :: bool

text \<open>The ids it was given, its replies by request, what it sent, and how often the click callback ran.\<close>

record notifier =
  nf_running :: bool
  nf_listening :: bool
  nf_active :: "nat set"
  nf_replies :: "(nat \<times> (notify_error + nat)) list"
  nf_sent :: "(nat \<times> string \<times> string) list"
  nf_clicks :: nat

definition notifier_spawn :: "notify_start \<Rightarrow> notifier" where
  "notifier_spawn st =
    (let on = (ns_thread st \<and> ns_runtime st \<and> ns_bus st \<and> ns_proxy st)
     in \<lparr>nf_running = on, nf_listening = (on \<and> ns_signals st), nf_active = {}, nf_replies = [], nf_sent = [], nf_clicks = 0\<rparr>)"

text \<open>A request with the service's answer, a click with its id, and a click that cannot be read.\<close>

datatype notify_event = NE_Notify nat nat string string "string + nat" | NE_Action nat | NE_Unreadable

text \<open>A request to a thread that never ran, or has ended, is dropped with its reply channel.\<close>

fun notify_step :: "notify_event \<Rightarrow> notifier \<Rightarrow> notifier" where
  "notify_step (NE_Notify r replaces title body answer) n =
    (if \<not> nf_running n then n\<lparr>nf_replies := nf_replies n @ [(r, Inl NT_Dropped)]\<rparr>
     else let n1 = n\<lparr>nf_sent := nf_sent n @ [(replaces, title, body)]\<rparr>
     in case answer of
          Inr i \<Rightarrow> n1\<lparr>nf_active := insert i (nf_active n1), nf_replies := nf_replies n1 @ [(r, Inr i)]\<rparr>
        | Inl e \<Rightarrow> n1\<lparr>nf_replies := nf_replies n1 @ [(r, Inl (NT_Zbus e))]\<rparr>)"
| "notify_step (NE_Action i) n =
    (if nf_listening n \<and> i \<in> nf_active n then n\<lparr>nf_clicks := Suc (nf_clicks n)\<rparr> else n)"
| "notify_step NE_Unreadable n = n"

section \<open>Replies and clicks\<close>

definition reply_for :: "bool \<Rightarrow> notify_event \<Rightarrow> (nat \<times> (notify_error + nat)) option" where
  "reply_for running e =
    (case e of NE_Notify r _ _ _ a \<Rightarrow> Some (r, if running then map_sum NT_Zbus id a else Inl NT_Dropped) | _ \<Rightarrow> None)"

lemma notify_step_fixed: "nf_running (notify_step e n) = nf_running n" "nf_listening (notify_step e n) = nf_listening n"
  by (cases e; simp add: Let_def split: sum.split)+

lemma replies_step: "nf_replies (notify_step e n) = nf_replies n @ List.map_filter (reply_for (nf_running n)) [e]"
  by (cases e) (auto simp: reply_for_def Let_def map_filter_def split: sum.split)

lemma map_filter_Cons': "List.map_filter f (x # xs) = List.map_filter f [x] @ List.map_filter f xs"
  by (simp add: map_filter_def)

text \<open>Every request gets exactly one reply, in the order of the requests: the service's answer when the thread runs, and
  otherwise the news that it is gone.\<close>

theorem notifications_are_answered:
  "nf_replies (fold notify_step es (notifier_spawn st)) =
    List.map_filter (reply_for (nf_running (notifier_spawn st))) es"
proof -
  have "nf_replies (fold notify_step es n) = nf_replies n @ List.map_filter (reply_for (nf_running n)) es" for n
  proof (induction es arbitrary: n)
    case (Cons e es)
    have "nf_replies (fold notify_step es (notify_step e n)) =
        (nf_replies n @ List.map_filter (reply_for (nf_running n)) [e]) @ List.map_filter (reply_for (nf_running n)) es"
      using Cons [of "notify_step e n"] unfolding notify_step_fixed replies_step .
    then show ?case unfolding fold_simps map_filter_Cons' [of _ e es] append_assoc comp_def .
  qed (simp add: map_filter_def)
  then show ?thesis by (simp add: notifier_spawn_def Let_def)
qed

text \<open>The ids the service gave out in a run.\<close>

definition given :: "notify_event list \<Rightarrow> nat set" where
  "given es = {i. \<exists>r p t b. NE_Notify r p t b (Inr i) \<in> set es}"

lemma active_given: "nf_active (fold notify_step es n) \<subseteq> nf_active n \<union> given es"
proof (induction es arbitrary: n)
  case (Cons e es)
  have "nf_active (notify_step e n) \<subseteq> nf_active n \<union> given [e]"
    by (cases e) (auto simp: given_def Let_def split: sum.split)
  moreover have "given (e # es) = given [e] \<union> given es" by (auto simp: given_def)
  ultimately show ?case using Cons [of "notify_step e n"] by auto
qed simp

text \<open>A click is reported only for a notification of the cockpit's own, given out before the click.\<close>

theorem only_own_clicks_are_reported:
  "nf_clicks (notify_step (NE_Action i) (fold notify_step es (notifier_spawn st))) \<noteq>
     nf_clicks (fold notify_step es (notifier_spawn st)) \<Longrightarrow> i \<in> given es"
  using active_given [of es "notifier_spawn st"]
  by (auto simp: notifier_spawn_def Let_def split: if_splits)

theorem only_own_clicks_are_reported_witness:
  "3 \<in> given [NE_Notify 0 0 ''t'' ''b'' (Inr 3)]"
  by (rule only_own_clicks_are_reported [where st = "\<lparr>ns_thread = True, ns_runtime = True, ns_bus = True, ns_proxy = True, ns_signals = True\<rparr>"])
    (simp add: notifier_spawn_def)

end
