(* ===== verification/Spec2Isabelle.thy ===== *)
theory Spec2Isabelle
  imports LayoutTree Anchors BusServer BusClient Grants SessionStore Transcript Search Compositor Config
    AppInvariantReach AppRestart AppWindow BusHandler BusInvariant BusReplies McpCalls CliRuns ShellWords
    LauncherRuns BackendRuns WaylandPanes PaneRuns Satellite MacBackend SidebarRuns LauncherMac Notify
begin

text \<open>
  lmux is a terminal cockpit: one GTK window that tiles terminals and windows of a nested Wayland
  compositor, groups them into workspaces owned by \<^emph>\<open>anchors\<close>, saves them as sessions, and lets agents and a
  command line drive it over a Unix socket, the bus. This library models the program's own logic and
  proves what makes it correct. Paths below are under \<open>src/crates/\<close>.

  \<^bold>\<open>The parts and how they interact.\<close> The cockpit's state is one record, \<open>AppState\<close> of \<open>lmux/src/state.rs\<close>. Keys and
  pane callbacks (\<open>lmux/src/app.rs\<close>, \<open>keymap.rs\<close>), the sidebar (\<open>sidebar.rs\<close>), exits of children, events of the
  nested compositor and requests from the bus (\<open>lmux/src/bus.rs\<close>) change it, all on the GTK thread. The bus is
  a server (\<open>lmux-bus/src/server.rs\<close>) that reads frames (\<open>codec.rs\<close>), does the handshake, and hands each request
  to the dispatcher; the dispatcher answers at once, or leaves a task that waits for a window or an
  attachment. Its clients are the command line (\<open>lmux-cli\<close>) and the MCP server (\<open>lmux-mcp\<close>), through which
  agents call it; agents are checked against their grants (\<open>lmux/src/agent_control.rs\<close>). The state is saved as
  a snapshot when the cockpit ends (\<open>lmux-state\<close>) and as sessions (\<open>lmux-session\<close>), and put back from them.
  A pane of a terminal joins the engine's wrapper (\<open>lmux-libghostty\<close>), a child on a pseudo terminal (\<open>lmux-pty\<close>) and the
  widget that draws and feeds both (\<open>lmux/src/pane.rs\<close>); a pane of a satellite shows a surface of the nested compositor's
  thread (\<open>lmux-wayland-host\<close>) in a widget of its own (\<open>lmux/src/satellite.rs\<close>). Programs are started by the
  launcher (\<open>launcher.rs\<close>) and the spawner (\<open>lmux-compositor/src/spawn.rs\<close>). Windows of the desktop are listed,
  attached and shown or hidden through a backend (\<open>lmux-compositor\<close>: KWin, X11, macOS with its helper, or none),
  driven by a queue that a newer switch overtakes (\<open>lmux/src/compositor_bridge.rs\<close>).

  \<^bold>\<open>Theories.\<close>
  \<^item> \<open>Prelude\<close>: finite maps in the order of a hash table's iteration, saturating arithmetic, trimming and
    decimal numbers, the locales \<open>keyed_map\<close> (what a map promises) and \<open>invariant_machine\<close> (a step
    function with an invariant). \<open>Paths\<close>, \<open>Json\<close>: paths, and JSON values with their lookups.
  \<^item> \<open>LayoutTree\<close> (\<open>lmux/src/layout.rs\<close>): the tree of splits, insertion, removal, reparenting, drop edges.
  \<^item> \<open>Anchors\<close> (\<open>lmux-anchor/src/lib.rs\<close>, \<open>registry.rs\<close>): the anchor record and the registry, refined by the
    lifecycle \<open>lifecycle\<close>, a step relation; the grouping of the sidebar.
  \<^item> \<open>BusTypes\<close>, \<open>BusCodec\<close>, \<open>BusServer\<close>, \<open>BusClient\<close> (\<open>lmux-bus\<close>): payloads, frames, one connection, the
    socket's set-up, the client. The locale \<open>framing\<close> states what an encoder and a reader promise each other.
  \<^item> \<open>Grants\<close> (\<open>lmux/src/agent_control.rs\<close>): grants and the access check.
  \<^item> \<open>StateFiles\<close>, \<open>SessionStore\<close> (\<open>lmux-state\<close>, \<open>lmux-session\<close>): the snapshot, the atomic writer with every call
    that the system may refuse, the store with its index, and the migration of the old file.
  \<^item> \<open>Transcript\<close>, \<open>Search\<close> (\<open>lmux/src/pane.rs\<close>): the transcript with its bell scanner, and the search.
  \<^item> \<open>Compositor\<close> (\<open>lmux-compositor/src/lib.rs\<close>, \<open>kwin.rs\<close>, \<open>lmux/src/compositor_bridge.rs\<close>,
    \<open>state/support.rs\<close>): windows and their owners, switches of a window group, the queue.
  \<^item> \<open>Config\<close> (\<open>lmux-config\<close>, \<open>lmux-anchor/src/autodetect.rs\<close>): settings, provisioning, rules, the watcher.
  \<^item> \<open>AppData\<close>, \<open>AppView\<close>, \<open>AppAnchors\<close>, \<open>AppPanes\<close>, \<open>AppAgents\<close>, \<open>AppHost\<close>, \<open>AppSession\<close>
    (\<open>lmux/src/state.rs\<close>): the state, what the window shows, anchors and tabs, panes, the requests of agents,
    events of the nested compositor, and snapshots and session switches. Each handler of the code is a function
    from state to state, with every call it makes; what the outside answers is the record \<open>world\<close>, what
    is done to the outside a log of effects, and the widget tree a value of the state.
  \<^item> \<open>AppInvariant\<close>, \<open>AppInvariantOps\<close>, \<open>AppInvariantSession\<close>, \<open>AppInvariantReach\<close>: the invariant \<open>app_inv\<close> and that
    every operation keeps it, up to the step relation \<open>cockpit_step\<close> of all commands.
  \<^item> \<open>AppStart\<close>, \<open>AppRestart\<close> (\<open>lmux/src/app.rs\<close>): start, shutdown and restart.
  \<^item> \<open>AppKeys\<close>, \<open>AppWindow\<close> (\<open>lmux/src/app.rs\<close>, \<open>keymap.rs\<close>, \<open>switcher.rs\<close>): keys, the prefix machine with its
    timeouts, callbacks, bells, the choice of a backend, the session switcher. \<open>Notify\<close> (\<open>lmux-notify\<close>): the
    thread that sends the notifications of bells.
  \<^item> \<open>Sidebar\<close>, \<open>SidebarRuns\<close> (\<open>lmux/src/sidebar.rs\<close>, \<open>sidebar/\<close>): the rail, the list of workspaces with its drops
    and previews, the popover with its grants, the picker of windows, the settings.
  \<^item> \<open>BusDispatch\<close> (\<open>lmux/src/bus.rs\<close>): admission, direct reads, every arm of the dispatcher, its tasks.
    \<open>BusGrants\<close>, \<open>BusHandler\<close>, \<open>BusTasks\<close>, \<open>BusInvariant\<close>, \<open>BusReplies\<close>: the dispatcher with connections (the locale
    \<open>kept_by_handler\<close> carries what a handler keeps through a connection), with time, with the cockpit, and
    the type of each reply.
  \<^item> \<open>McpServer\<close>, \<open>McpCalls\<close> (\<open>lmux-mcp\<close>): messages, methods, tools, and the loop over the standard input. \<open>Cli\<close>, \<open>CliRuns\<close>
    (\<open>lmux-cli\<close>): each command with what it prints and its exit code. \<open>ShellWords\<close>: how a POSIX shell reads the
    command lines that the cockpit and the command line write.
  \<^item> \<open>Launcher\<close>, \<open>LauncherRuns\<close>, \<open>LauncherMac\<close> (\<open>lmux/src/launcher.rs\<close>, \<open>launcher/\<close>): the cache and its worker, the
    dialog, \<open>Exec\<close> lines, desktop files and application bundles. \<open>Spawn\<close>, \<open>SpawnSafety\<close>
    (\<open>lmux-compositor/src/spawn.rs\<close>): how a program is isolated and started, and what that may touch.
  \<^item> \<open>Backends\<close>, \<open>BackendRuns\<close> (\<open>lmux-compositor/src/x11.rs\<close>, \<open>noop.rs\<close>, \<open>kwin.rs\<close>): the backends of Linux; the locale
    \<open>window_backend\<close> states what a backend promises of the identities it gives out. \<open>MacHelper\<close>, \<open>MacBackend\<close>
    (\<open>lmux-macos-helper/src/lib.rs\<close>, \<open>lmux-compositor/src/macos.rs\<close>): the helper and the backend of macOS.
  \<^item> \<open>WaylandHost\<close>, \<open>WaylandRuns\<close>, \<open>WaylandPanes\<close> (\<open>lmux-wayland-host\<close>): the table of surfaces, requests of clients, commands
    of the cockpit, copies of pixels, the reaper and the thread's loop; its events against the protocol of a
    surface, and the cockpit's panes against the surfaces.
  \<^item> \<open>TermQueries\<close>, \<open>TermView\<close> (\<open>lmux-libghostty/src/lib.rs\<close>, \<open>lmux/src/render.rs\<close>): the colour queries of a child's output,
    frames, selections, thumbnails. \<open>PaneStart\<close>, \<open>PanePaste\<close>, \<open>PaneWidget\<close>, \<open>PaneRuns\<close> (\<open>lmux-pty\<close>, \<open>lmux/src/main.rs\<close>,
    \<open>pane.rs\<close>): how a pane is made and freed, pastes, and the widget with keys, wheel, drags, search, sizes,
    reads, bells and exit. \<open>Satellite\<close> (\<open>lmux/src/satellite.rs\<close>): the widget of a nested window.

  \<^bold>\<open>What is shown.\<close> Invariants: the cockpit's under every command, session switch, start, key and bus request; the
  registry's, the index's and the windows' owners; the one size of a pane, its engine and its child. Safety:
  agents never gain a grant over the bus (what they own without one is not bounded: \<open>pane.new\<close> opens a pane of
  the caller in any workspace it names), panes are reached by a grant only, requests are served after
  the handshake only, commands of the keyboard follow the prefix, files are replaced whole, a live
  cockpit's socket is not taken over, an overtaken switch stops, surfaces follow their protocol, what shows
  is redrawn, a start touches lmux's own files and stops only tagged IDEs left behind, a pane holds all its handles or
  none. Refinements and equivalences: the byte loop of a connection against messages, the client with the
  server against direct calls, an MCP call against the cockpit's answer, the panes against the surfaces, the
  transcript against the whole history, the registry against the lifecycle, the search against greedy
  matching where lower-casing keeps every character's place, answers to queries against the unsplit output, the sidebar's order against its drops. Types:
  every reply is of its request's type. Round trips: frames, sessions, a
  restart, pastes, command lines read by a POSIX shell, settings, identities of windows. Liveness: every request is answered,
  windows of gone clients are closed, every change of the configuration is reloaded, the prefix lapses.
  Several lemmas pin down behaviour that looks unintended, such as
  \<open>snapshot_without_anchors_keeps_one_pane\<close>, \<open>stale_timeout_disarms_early\<close>, \<open>line_split_over_reads\<close>,
  \<open>no_drop_moves_last\<close>, \<open>pane_new_opens_its_target_anchor\<close>, \<open>assignment_is_not_run\<close>, \<open>search_panics_after_dotted_I\<close> or \<open>started_window_is_refused\<close>.

  \<^bold>\<open>Numbers and bounds.\<close> Pane ids are naturals below \<open>u32_max\<close>; the code's saturating and wrapping additions are
  written out, and statements that need a fresh id ask for one. Ids of surfaces are counted in 64 bits, and
  what needs them fresh asks for fewer than \<open>2 ^ 64\<close> requests. Frame lengths are 32-bit words and a
  frame has at most 4 MiB. A query that a read cuts is kept up to 64 bytes. A loop over a list of turns
  stands for the main loop's schedule: a task of the
  dispatcher needs at most 302 turns (its wait is clamped to 30 seconds and each turn but the
  first takes at least 100 ms, \<open>BusTasks\<close>). The walk up the process tree is bounded by 64 as in the code.
  Floating point numbers are reals; where an operation rounds, the rounding is an argument. Other loops
  recurse on their data or have a measure.

  \<^bold>\<open>Parameters.\<close> Serde's JSON and TOML, the terminal engine, smithay's surfaces and buffers, the toolkit's key names
  and characters, cairo's measures, D-Bus and KWin, the interfaces of macOS and its scripts, random ids,
  clocks, the file system's refusals, spawning and signals, and the iteration order of hash maps are
  arguments. Theorems that rely on one of them say how: a codec that reads back what it wrote, ids that do
  not repeat, a disk that refuses no call. Strings are lists of bytes, with ASCII white
  space, and ASCII case where the code has it; the lower-casing of whole texts by the tables of Unicode is an argument too
  (\<open>Search\<close>, \<open>Launcher\<close>). The steps of the cockpit leave out what the findings show to break its invariant; the
  conditions are listed at \<open>cockpit_step\<close>.

  \<^bold>\<open>Not modelled.\<close> The construction of widgets, their margins and style classes, and the painting itself (\<open>render.rs\<close> is
  modelled up to the drawing operations): they are a toolkit's. The declarations of foreign functions, the
  decoding of their values (\<open>lmux-macos-helper\<close>, \<open>lmux-libghostty\<close>) and the system calls of the pseudo terminal are the
  system's; so are smithay's globals, the acceptance of clients and the watchdog of the nested compositor, the
  scripts run inside KWin and System Events, and the set-up of the log. The parts of \<open>state.rs\<close> and
  \<open>sidebar.rs\<close> that only the macOS build has are left out, and the build of Linux is modelled. Tests and the
  end-to-end harness are not programs of the cockpit. Threads are represented by the order of their
  messages.
\<close>

end
